(* ===== verification/Wire_Types.thy ===== *)
theory Wire_Types
  imports Prelude
begin

text \<open>
  The wire and snapshot types of \<open>src/src/protocol.rs\<close> that the modelled components
  exchange: Shells, launchers and Agents of a Node, its Workspaces, the coordinator's global
  Workspaces with their placements, Node registrations, the reduced projections of remote
  Nodes, and the daemon's events. Field names are the source's with the record as a prefix,
  because Isabelle's record fields are global names.
\<close>

section \<open>Shells, launchers and Agents\<close>

datatype shell_status = StatusPending | StatusRunning | StatusExited "u32 option"

datatype shell_run_exit_reason = ReasonExited "u32 option" | ReasonTerminated | ReasonInterrupted

record shell_run_snapshot =
  run_id :: string
  run_generation :: u64
  run_started_at_ms :: u64
  run_ended_at_ms :: "u64 option"
  run_exit_reason :: "shell_run_exit_reason option"
  run_output_revision :: u64
  run_environment_has_run_id :: bool

record shell_snapshot =
  sh_id :: string
  sh_revision :: u64
  sh_workspace_id :: string
  sh_name :: string
  sh_cwd :: path
  sh_command :: "string list"
  sh_status :: shell_status
  sh_run :: "shell_run_snapshot option"
  sh_recovered_agent_id :: "string option"
  sh_foreground_process :: "string option"

record workspace_launcher_snapshot =
  la_id :: string
  la_revision :: u64
  la_workspace_id :: string
  la_name :: string
  la_command :: "string list"
  la_cwd :: path

datatype agent_state = AgUnknown | AgWorking | AgBlocked | AgIdle | AgInactive | AgDone

datatype agent_authority =
  LifecycleIntegration | ProcessAdapter | TerminalHeuristic | DaemonLifecycle

record agent_report =
  rep_state :: agent_state
  rep_authority :: agent_authority
  rep_evidence :: string
  rep_confidence :: u8

record agent_registration_spec =
  reg_name :: string
  reg_integration :: string
  reg_external_session_id :: "string option"
  reg_report :: agent_report

record agent_observation_snapshot =
  obs_revision :: u64
  obs_state :: agent_state
  obs_authority :: agent_authority
  obs_evidence :: string
  obs_confidence :: u8
  obs_observed_at_ms :: u64

datatype agent_attention_reason = AttentionBlocked | AttentionCompleted

record agent_attention_snapshot =
  att_reason :: agent_attention_reason
  att_observation :: agent_observation_snapshot

record agent_working_context_snapshot =
  wc_worktree_root :: path
  wc_repository :: string
  wc_branch :: string
  wc_observed_at_ms :: u64

record agent_instance_snapshot =
  ag_id :: string
  ag_workspace_id :: string
  ag_shell_id :: string
  ag_run_id :: string
  ag_name :: string
  ag_integration :: string
  ag_external_session_id :: "string option"
  ag_cwd :: "path option"
  ag_started_at_ms :: u64
  ag_ended_at_ms :: "u64 option"
  ag_observation :: agent_observation_snapshot
  ag_attention :: "agent_attention_snapshot option"
  ag_working_contexts :: "agent_working_context_snapshot list"

section \<open>Workspaces of one Node\<close>

record workspace_snapshot =
  ws_id :: string
  ws_revision :: u64
  ws_name :: string
  ws_default_cwd :: "path option"
  ws_shells :: "shell_snapshot list"
  ws_launchers :: "workspace_launcher_snapshot list"
  ws_agents :: "agent_instance_snapshot list"

record focused_terminal_snapshot =
  ft_revision :: u64
  ft_workspace_id :: string
  ft_shell_id :: string
  ft_run_id :: string

record node_snapshot =
  snap_workspaces :: "workspace_snapshot list"
  snap_focused_terminal :: "focused_terminal_snapshot option"

record agent_session_display_name_result =
  dn_session_id :: string
  dn_workspace_id :: string
  dn_user_display_name :: "string option"
  dn_workspace_revision :: u64
  dn_changed :: bool

record agent_session_hide_result =
  hd_session_id :: string
  hd_workspace_id :: string
  hd_workspace_revision :: u64
  hd_changed :: bool

datatype routed_operation_result =
    RoutedWorkspace workspace_snapshot
  | RoutedShell shell_snapshot
  | RoutedLauncher workspace_launcher_snapshot
  | RoutedAgent agent_instance_snapshot
  | RoutedAttentionAcknowledged agent_instance_snapshot bool
  | RoutedSessionDisplayName agent_session_display_name_result
  | RoutedSessionHidden agent_session_hide_result
  | RoutedOk

section \<open>Global Workspaces of the coordinator\<close>

datatype workspace_placement_state = PlActive | PlClosePending | PlUnavailable

record workspace_placement_snapshot =
  pl_node_id :: string
  pl_workspace_id :: string
  pl_owner_workspace_name :: "string option"
  pl_owner_revision :: u64
  pl_default_cwd :: "path option"
  pl_state :: workspace_placement_state

record global_workspace_snapshot =
  gw_id :: string
  gw_revision :: u64
  gw_name :: string
  gw_closing :: bool
  gw_placements :: "workspace_placement_snapshot list"

record workspace_default_cwd_result =
  dcr_workspace_id :: string
  dcr_node_id :: string
  dcr_owner_workspace_id :: string
  dcr_default_cwd :: path
  dcr_global_revision :: u64
  dcr_owner_revision :: u64
  dcr_result :: string

section \<open>Registrations and projections of remote Nodes\<close>

record node_registration_snapshot =
  nr_alias :: string
  nr_target :: string
  nr_node_id :: string
  nr_revision :: u64
  nr_tombstone_epoch :: u64

datatype node_projection_health_code =
    HcUnobserved | HcOnline | HcReconnecting | HcStale | HcUnreachable
  | HcAuthenticationRequired | HcIdentityChanged | HcIdentityConflict | HcUnsupported

record node_projection_health =
  ph_code :: node_projection_health_code
  ph_stale :: bool
  ph_cache_generation :: u64
  ph_stream_id :: "string option"
  ph_cursor :: "u64 option"
  ph_last_attempt_at_ms :: "u64 option"
  ph_last_success_at_ms :: "u64 option"
  ph_retry_at_ms :: "u64 option"
  ph_capabilities :: "string list"
  ph_observed_helper_version :: "string option"

record node_projection_workspace =
  pw_id :: string
  pw_name :: string
  pw_item_count :: u32
  pw_attention_count :: u32

record node_projection_shell =
  ps_id :: string
  ps_workspace_id :: string
  ps_name :: string
  ps_status :: shell_status
  ps_run_id :: "string option"
  ps_generation :: "u64 option"
  ps_started_at_ms :: "u64 option"
  ps_ended_at_ms :: "u64 option"
  ps_recovered_agent_id :: "string option"

record node_projection_launcher =
  pla_id :: string
  pla_workspace_id :: string
  pla_name :: string

record node_projection_attention =
  pat_reason :: agent_attention_reason
  pat_observation_revision :: u64
  pat_observed_at_ms :: u64

record node_projection_agent =
  pa_id :: string
  pa_workspace_id :: string
  pa_shell_id :: string
  pa_run_id :: string
  pa_name :: string
  pa_integration :: string
  pa_state :: agent_state
  pa_observation_revision :: u64
  pa_observed_at_ms :: u64
  pa_started_at_ms :: u64
  pa_ended_at_ms :: "u64 option"
  pa_attention :: "node_projection_attention option"

record node_projection_snapshot =
  np_node_id :: string
  np_workspaces :: "node_projection_workspace list"
  np_shells :: "node_projection_shell list"
  np_launchers :: "node_projection_launcher list"
  np_agents :: "node_projection_agent list"

section \<open>Events\<close>

record event_cursor =
  cur_stream_id :: string
  cur_event_id :: u64

datatype daemon_event_kind =
    EvWorkspaceCreated string string
  | EvWorkspaceRenamed string string
  | EvWorkspaceDefaultCwdChanged string path
  | EvWorkspaceClosed string
  | EvShellCreated string string string
  | EvShellRenamed string string string
  | EvShellClosed "string option" string
  | EvLauncherCreated string string string
  | EvLauncherRenamed string string string
  | EvLauncherRemoved string string
  | EvRunStarted string string shell_run_snapshot
  | EvOutputChanged string string string u64
  | EvRunExited string string shell_run_snapshot
  | EvAgentRegistered string string agent_instance_snapshot
  | EvAgentStateChanged string string agent_instance_snapshot
  | EvAgentCompleted string string agent_instance_snapshot
  | EvAgentAttentionAcknowledged string string agent_instance_snapshot
  | EvAgentWorkingContextObserved string string agent_instance_snapshot
  | EvAgentSessionDisplayNameChanged string string "string option" u64
  | EvAgentSessionHidden string string u64
  | EvNodeProjectionChanged string u64
  | EvFocusedTerminalPresentationChanged
  | EvHandoffCompleted

record daemon_event =
  ev_id :: u64
  ev_at_ms :: u64
  ev_kind :: daemon_event_kind

datatype node_projection_transition_kind =
    TrWorkspace string
  | TrShell string string
  | TrLauncher string string
  | TrAgent string string u64
  | TrSessionContext string string
  | TrHandoffCompleted

record node_projection_transition =
  tr_event_id :: u64
  tr_at_ms :: u64
  tr_kind :: node_projection_transition_kind

datatype node_projection_sync_mode = SyncBaseline | SyncResumed

end
