(* ===== verification/Gw_State.thy ===== *)
theory Gw_State
  imports Wire_Types
begin

text \<open>
  The coordinator's Workspace store of \<open>src/src/global_workspace_store.rs\<close>: its persisted
  data, the helper functions its operations share, and \<open>validate\<close>, which every mutation and
  every load runs before the state is accepted. The lemma \<open>gw_validate_iff\<close> gives the
  declarative content of \<open>validate\<close>, on which the invariant proofs rest.

  What the code takes from crates and the operating system is the record \<open>gw_env\<close>: UUID
  syntax (crate \<open>uuid\<close>), the sizes of JSON encodings (crate \<open>serde_json\<close>, which may fail),
  and the outcome of writing the file.
\<close>

section \<open>Data\<close>

definition coordinator_workspace_version :: u32 where
  "coordinator_workspace_version = 8"

definition max_store_bytes :: nat where "max_store_bytes = 1024 * 1024"
definition max_workspaces :: nat where "max_workspaces = 1024"
definition max_placements :: nat where "max_placements = 128"
definition max_pending_resources :: nat where "max_pending_resources = 1024"
definition max_completed_operations :: nat where "max_completed_operations = 256"
definition max_completion_reservation_bytes :: nat where
  "max_completion_reservation_bytes = 768 * 1024"
definition completion_reservation_overhead :: nat where
  "completion_reservation_overhead = 64 * 1024"

lemmas gw_limits =
  max_store_bytes_def max_workspaces_def max_placements_def max_pending_resources_def
  max_completed_operations_def max_completion_reservation_bytes_def
  completion_reservation_overhead_def

record pending_default_cwd_operation =
  pd_operation_id :: string
  pd_global_workspace_id :: string
  pd_expected_global_revision :: u64
  pd_node_id :: string
  pd_owner_workspace_id :: string
  pd_expected_owner_revision :: u64
  pd_requested_default_cwd :: path
  pd_default_cwd :: path
  pd_owner_attempted :: bool
  pd_completion_reservation :: string

record completed_default_cwd_operation =
  cd_request :: pending_default_cwd_operation
  cd_result :: workspace_default_cwd_result

datatype prepared_default_cwd_operation =
    PreparedCwdPending pending_default_cwd_operation
  | PreparedCwdCompleted workspace_default_cwd_result

datatype pending_resource_kind = KindShell | KindLauncher

record pending_workspace_resource =
  pr_operation_id :: string
  pr_creates_workspace :: bool
  pr_request_fingerprint :: "string option"
  pr_semantic_fingerprint :: "string option"
  pr_completion_reservation :: string
  pr_owner_attempted :: bool
  pr_global_workspace_id :: string
  pr_expected_global_revision :: u64
  pr_node_id :: string
  pr_requested_owner_workspace_id :: string
  pr_owner_workspace_id :: string
  pr_owner_workspace_name :: string
  pr_default_cwd :: "path option"
  pr_resource_id :: string
  pr_kind :: pending_resource_kind

record completed_workspace_operation =
  co_operation_id :: string
  co_request_fingerprint :: string
  co_semantic_fingerprint :: "string option"
  co_creates_workspace :: bool
  co_workspace :: global_workspace_snapshot
  co_resource :: routed_operation_result

datatype prepared_workspace_resource =
    PreparedPending pending_workspace_resource bool
  | PreparedCompleted completed_workspace_operation

datatype prepared_workspace_shell =
    PreparedShellPending global_workspace_snapshot pending_workspace_resource
  | PreparedShellCompleted completed_workspace_operation

record gw_state =
  gs_version :: u32
  gs_local_migration_complete :: bool
  gs_workspaces :: "global_workspace_snapshot list"
  gs_pending_resources :: "pending_workspace_resource list"
  gs_completed_operations :: "completed_workspace_operation list"
  gs_pending_cwd :: "pending_default_cwd_operation list"
  gs_completed_cwd :: "completed_default_cwd_operation list"

record gw_env =
  env_uuid_ok :: "string \<Rightarrow> bool"
  env_workspace_len :: "global_workspace_snapshot \<Rightarrow> nat res"
  env_completed_len :: "completed_workspace_operation \<Rightarrow> nat res"
  env_store_len :: "gw_state \<Rightarrow> nat res"
  env_write :: "gw_state \<Rightarrow> io_error option"

definition gw_empty :: gw_state where
  "gw_empty = \<lparr>gs_version = coordinator_workspace_version, gs_local_migration_complete = False,
     gs_workspaces = [], gs_pending_resources = [], gs_completed_operations = [],
     gs_pending_cwd = [], gs_completed_cwd = []\<rparr>"

section \<open>Helper functions\<close>

definition operation_conflict :: io_error where
  "operation_conflict = IoError AlreadyExists
     ''prepared operation identity exists with a different request fingerprint''"

definition workspace_not_found :: io_error where
  "workspace_not_found = IoError NotFound ''global Workspace not found''"

definition close_in_progress :: io_error where
  "close_in_progress = IoError WouldBlock ''global Workspace close is in progress''"

definition require_revision :: "u64 \<Rightarrow> u64 \<Rightarrow> string \<Rightarrow> unit res" where
  "require_revision actual expected label =
     (if actual = expected \<and> 0 < expected then Inr ()
      else Inl (IoError InvalidInput (label @ '' revision changed: expected ''
             @ show_u64 expected @ '', current '' @ show_u64 actual)))"

definition gw_next :: "u64 \<Rightarrow> u64 res" where
  "gw_next revision =
     ok_or (u64_checked_add revision 1) (other_error ''global Workspace revision exhausted'')"

definition gw_validate_name :: "string \<Rightarrow> unit res" where
  "gw_validate_name name =
     (if name = [] \<or> length name > 256 \<or> has_control name
      then Inl (invalid ''global Workspace name is invalid'') else Inr ())"

definition valid_fingerprint :: "string \<Rightarrow> bool" where
  "valid_fingerprint f \<longleftrightarrow>
     length f = 64 \<and> list_all (\<lambda>b. is_ascii_hexdigit b \<and> \<not> is_ascii_uppercase b) f"

definition same_default_cwd_request ::
    "pending_default_cwd_operation \<Rightarrow> pending_default_cwd_operation \<Rightarrow> bool" where
  "same_default_cwd_request l r \<longleftrightarrow>
     pd_operation_id l = pd_operation_id r
     \<and> pd_global_workspace_id l = pd_global_workspace_id r
     \<and> pd_expected_global_revision l = pd_expected_global_revision r
     \<and> pd_node_id l = pd_node_id r
     \<and> pd_owner_workspace_id l = pd_owner_workspace_id r
     \<and> pd_expected_owner_revision l = pd_expected_owner_revision r
     \<and> pd_requested_default_cwd l = pd_requested_default_cwd r
     \<and> pd_default_cwd l = pd_default_cwd r"

definition gw_placement ::
    "string \<Rightarrow> workspace_snapshot \<Rightarrow> workspace_placement_state \<Rightarrow> workspace_placement_snapshot" where
  "gw_placement node_id w st =
     \<lparr>pl_node_id = node_id, pl_workspace_id = ws_id w, pl_owner_workspace_name = Some (ws_name w),
      pl_owner_revision = ws_revision w, pl_default_cwd = ws_default_cwd w, pl_state = st\<rparr>"

definition owner_linked ::
    "global_workspace_snapshot list \<Rightarrow> string \<Rightarrow> string \<Rightarrow> bool" where
  "owner_linked wss node_id owner_id \<longleftrightarrow>
     list_ex (\<lambda>p. pl_node_id p = node_id \<and> pl_workspace_id p = owner_id)
       (concat (map gw_placements wss))"

definition already_linked :: io_error where
  "already_linked = IoError AlreadyExists ''Node-local Workspace is already linked''"

definition ensure_owner_unlinked :: "gw_state \<Rightarrow> string \<Rightarrow> string \<Rightarrow> unit res" where
  "ensure_owner_unlinked st node_id owner_id =
     (if owner_linked (gs_workspaces st) node_id owner_id then Inl already_linked else Inr ())"

definition ensure_owner_unlinked_except ::
    "gw_state \<Rightarrow> string \<Rightarrow> string \<Rightarrow> string \<Rightarrow> unit res" where
  "ensure_owner_unlinked_except st global_id node_id owner_id =
     (if owner_linked (filter (\<lambda>w. gw_id w \<noteq> global_id) (gs_workspaces st)) node_id owner_id
      then Inl already_linked else Inr ())"

definition ensure_no_pending_resource :: "gw_state \<Rightarrow> string \<Rightarrow> unit res" where
  "ensure_no_pending_resource st global_id =
     (if list_ex (\<lambda>p. pr_global_workspace_id p = global_id) (gs_pending_resources st)
         \<or> list_ex (\<lambda>p. pd_global_workspace_id p = global_id) (gs_pending_cwd st)
      then Inl (IoError WouldBlock ''global Workspace resource recovery is pending'')
      else Inr ())"

text \<open>\<open>iter().find(|workspace| workspace.id == id)\<close> and its mutable counterpart.\<close>

definition find_workspace :: "gw_state \<Rightarrow> string \<Rightarrow> global_workspace_snapshot option" where
  "find_workspace st i = List.find (\<lambda>w. gw_id w = i) (gs_workspaces st)"

definition put_workspace :: "global_workspace_snapshot \<Rightarrow> gw_state \<Rightarrow> gw_state" where
  "put_workspace w st =
     st\<lparr>gs_workspaces := update_first (\<lambda>v. gw_id v = gw_id w) (\<lambda>_. w) (gs_workspaces st)\<rparr>"

definition find_placement ::
    "global_workspace_snapshot \<Rightarrow> string \<Rightarrow> workspace_placement_snapshot option" where
  "find_placement w node_id = List.find (\<lambda>p. pl_node_id p = node_id) (gw_placements w)"

definition sort_placements ::
    "workspace_placement_snapshot list \<Rightarrow> workspace_placement_snapshot list" where
  "sort_placements ps = sort_key pl_node_id ps"

definition name_taken :: "string \<Rightarrow> gw_state \<Rightarrow> bool" where
  "name_taken name st \<longleftrightarrow> list_ex (\<lambda>w. gw_name w = name) (gs_workspaces st)"

lemma require_revision_Inr [res_simps]:
  "require_revision a e l = Inr u \<longleftrightarrow> a = e \<and> 0 < e"
  by (auto simp: require_revision_def)

lemma gw_next_Inr [res_simps]:
  "gw_next r = Inr r' \<longleftrightarrow> u64_checked_add r 1 = Some r'"
  by (simp add: gw_next_def ok_or_Inr)

lemma gw_next_less: "gw_next r = Inr r' \<Longrightarrow> r < r' \<and> 0 < r'"
  using u64_checked_add_one_less by (simp add: gw_next_Inr)

lemma gw_validate_name_Inr [res_simps]:
  "gw_validate_name n = Inr u \<longleftrightarrow> n \<noteq> [] \<and> length n \<le> 256 \<and> \<not> has_control n"
  by (auto simp: gw_validate_name_def)

lemma ensure_owner_unlinked_Inr [res_simps]:
  "ensure_owner_unlinked st n i = Inr u \<longleftrightarrow> \<not> owner_linked (gs_workspaces st) n i"
  by (auto simp: ensure_owner_unlinked_def)

lemma ensure_no_pending_resource_Inr [res_simps]:
  "ensure_no_pending_resource st g = Inr u \<longleftrightarrow>
     (\<forall>p \<in> set (gs_pending_resources st). pr_global_workspace_id p \<noteq> g)
     \<and> (\<forall>p \<in> set (gs_pending_cwd st). pd_global_workspace_id p \<noteq> g)"
  by (auto simp: ensure_no_pending_resource_def list_ex_iff)

lemma owner_linked_iff:
  "owner_linked wss n i \<longleftrightarrow>
     (\<exists>w \<in> set wss. \<exists>p \<in> set (gw_placements w). pl_node_id p = n \<and> pl_workspace_id p = i)"
  by (auto simp: owner_linked_def list_ex_iff)

section \<open>Validation\<close>

text \<open>
  \<open>validate\<close> walks the lists with \<open>HashSet\<close>s of what it has seen. Each loop is a recursion
  over the list with the sets as accumulators, in the order of the source's tests.
\<close>

definition gw_duplicate :: io_error where
  "gw_duplicate = invalid ''global Workspace store contains invalid or duplicate metadata''"

fun validate_placements ::
    "gw_env \<Rightarrow> bool \<Rightarrow> workspace_placement_snapshot list \<Rightarrow> (string \<times> string) set
      \<Rightarrow> (string \<times> string) set res" where
  "validate_placements env closing [] owners = Inr owners"
| "validate_placements env closing (p # ps) owners =
     (if \<not> env_uuid_ok env (pl_node_id p) \<or> pl_workspace_id p = []
         \<or> (pl_node_id p, pl_workspace_id p) \<in> owners
      then Inl (invalid ''global Workspace store contains an invalid or duplicate placement'')
      else if closing \<noteq> (pl_state p = PlClosePending)
      then Inl (invalid ''global Workspace close progress is inconsistent'')
      else validate_placements env closing ps (insert (pl_node_id p, pl_workspace_id p) owners))"

fun validate_workspaces ::
    "gw_env \<Rightarrow> global_workspace_snapshot list \<Rightarrow> string set \<Rightarrow> string set
      \<Rightarrow> (string \<times> string) set \<Rightarrow> string set res" where
  "validate_workspaces env [] ids names owners = Inr ids"
| "validate_workspaces env (w # ws) ids names owners =
     bind_res (gw_validate_name (gw_name w)) (\<lambda>_.
       if \<not> env_uuid_ok env (gw_id w) \<or> gw_revision w = 0
          \<or> length (gw_placements w) > max_placements
          \<or> gw_id w \<in> ids \<or> gw_name w \<in> names
       then Inl gw_duplicate
       else bind_res (validate_placements env (gw_closing w) (gw_placements w) owners) (\<lambda>owners'.
              validate_workspaces env ws (insert (gw_id w) ids) (insert (gw_name w) names) owners'))"

definition opt_all :: "('a \<Rightarrow> bool) \<Rightarrow> 'a option \<Rightarrow> bool" where
  "opt_all P x \<longleftrightarrow> (case x of None \<Rightarrow> True | Some y \<Rightarrow> P y)"

lemma opt_all_simps [simp]: "opt_all P None" "opt_all P (Some y) = P y"
  by (simp_all add: opt_all_def)

definition pending_resource_ok :: "gw_env \<Rightarrow> string set \<Rightarrow> pending_workspace_resource \<Rightarrow> bool" where
  "pending_resource_ok env ids p \<longleftrightarrow>
     env_uuid_ok env (pr_global_workspace_id p) \<and> env_uuid_ok env (pr_operation_id p)
     \<and> env_uuid_ok env (pr_node_id p) \<and> env_uuid_ok env (pr_requested_owner_workspace_id p)
     \<and> env_uuid_ok env (pr_owner_workspace_id p) \<and> env_uuid_ok env (pr_resource_id p)
     \<and> pr_expected_global_revision p \<noteq> 0
     \<and> pr_global_workspace_id p \<in> ids
     \<and> opt_all valid_fingerprint (pr_request_fingerprint p)
     \<and> opt_all valid_fingerprint (pr_semantic_fingerprint p)
     \<and> length (pr_completion_reservation p) \<le> max_completion_reservation_bytes
     \<and> list_all (\<lambda>b. b = CHR '' '') (pr_completion_reservation p)
     \<and> (pr_completion_reservation p = [] \<or> pr_request_fingerprint p \<noteq> None)"

fun validate_pending ::
    "gw_env \<Rightarrow> string set \<Rightarrow> pending_workspace_resource list \<Rightarrow> string set \<Rightarrow> string set res" where
  "validate_pending env ids [] pending = Inr pending"
| "validate_pending env ids (p # ps) pending =
     (if \<not> pending_resource_ok env ids p \<or> pr_operation_id p \<in> pending
      then Inl (invalid ''global Workspace pending resource is invalid'')
      else bind_res (gw_validate_name (pr_owner_workspace_name p)) (\<lambda>_.
             validate_pending env ids ps (insert (pr_operation_id p) pending)))"

definition resource_workspace_id :: "routed_operation_result \<Rightarrow> string option" where
  "resource_workspace_id r =
     (case r of RoutedShell s \<Rightarrow> Some (sh_workspace_id s)
              | RoutedLauncher l \<Rightarrow> Some (la_workspace_id l)
              | _ \<Rightarrow> None)"

definition completed_operation_ok ::
    "gw_env \<Rightarrow> string set \<Rightarrow> string \<Rightarrow> completed_workspace_operation \<Rightarrow> bool" where
  "completed_operation_ok env pending rid c \<longleftrightarrow>
     env_uuid_ok env (co_operation_id c)
     \<and> valid_fingerprint (co_request_fingerprint c)
     \<and> opt_all valid_fingerprint (co_semantic_fingerprint c)
     \<and> env_uuid_ok env (gw_id (co_workspace c))
     \<and> gw_revision (co_workspace c) \<noteq> 0
     \<and> length (gw_placements (co_workspace c)) \<le> max_placements
     \<and> list_ex (\<lambda>p. pl_workspace_id p = rid) (gw_placements (co_workspace c))
     \<and> co_operation_id c \<notin> pending"

fun validate_completed ::
    "gw_env \<Rightarrow> string set \<Rightarrow> completed_workspace_operation list \<Rightarrow> string set \<Rightarrow> string set res" where
  "validate_completed env pending [] completed = Inr completed"
| "validate_completed env pending (c # cs) completed =
     (case resource_workspace_id (co_resource c) of
        None \<Rightarrow> Inl (invalid ''completed Workspace operation has an invalid result'')
      | Some rid \<Rightarrow>
          (if \<not> completed_operation_ok env pending rid c \<or> co_operation_id c \<in> completed
           then Inl (invalid ''completed Workspace operation is invalid'')
           else validate_completed env pending cs (insert (co_operation_id c) completed)))"

definition pending_cwd_ok ::
    "gw_env \<Rightarrow> string set \<Rightarrow> string set \<Rightarrow> string set \<Rightarrow> pending_default_cwd_operation \<Rightarrow> bool" where
  "pending_cwd_ok env ids pending completed p \<longleftrightarrow>
     env_uuid_ok env (pd_operation_id p) \<and> env_uuid_ok env (pd_global_workspace_id p)
     \<and> env_uuid_ok env (pd_node_id p) \<and> env_uuid_ok env (pd_owner_workspace_id p)
     \<and> pd_expected_global_revision p \<noteq> 0 \<and> pd_expected_owner_revision p \<noteq> 0
     \<and> is_absolute (pd_default_cwd p)
     \<and> length (pd_completion_reservation p) = 8 * 1024
     \<and> list_all (\<lambda>b. b = CHR '' '') (pd_completion_reservation p)
     \<and> pd_global_workspace_id p \<in> ids
     \<and> pd_operation_id p \<notin> pending \<and> pd_operation_id p \<notin> completed"

fun validate_pending_cwd ::
    "gw_env \<Rightarrow> string set \<Rightarrow> string set \<Rightarrow> string set \<Rightarrow> pending_default_cwd_operation list
      \<Rightarrow> string set \<Rightarrow> string set res" where
  "validate_pending_cwd env ids pending completed [] cwd = Inr cwd"
| "validate_pending_cwd env ids pending completed (p # ps) cwd =
     (if \<not> pending_cwd_ok env ids pending completed p \<or> pd_operation_id p \<in> cwd
      then Inl (invalid ''prepared default cwd operation is invalid'')
      else validate_pending_cwd env ids pending completed ps (insert (pd_operation_id p) cwd))"

definition completed_default_cwd_revisions_are_valid ::
    "pending_default_cwd_operation \<Rightarrow> workspace_default_cwd_result \<Rightarrow> bool" where
  "completed_default_cwd_revisions_are_valid request result =
     (if dcr_result result = ''unchanged'' then
        dcr_global_revision result = pd_expected_global_revision request
        \<and> dcr_owner_revision result = pd_expected_owner_revision request
      else if dcr_result result = ''updated'' then
        u64_checked_add (pd_expected_global_revision request) 1 = Some (dcr_global_revision result)
        \<and> u64_checked_add (pd_expected_owner_revision request) 1 = Some (dcr_owner_revision result)
      else False)"

definition completed_cwd_ok ::
    "gw_env \<Rightarrow> string set \<Rightarrow> string set \<Rightarrow> completed_default_cwd_operation \<Rightarrow> bool" where
  "completed_cwd_ok env pending completed c \<longleftrightarrow>
     (let request = cd_request c; result = cd_result c in
        env_uuid_ok env (pd_operation_id request) \<and> env_uuid_ok env (pd_global_workspace_id request)
        \<and> env_uuid_ok env (pd_node_id request) \<and> env_uuid_ok env (pd_owner_workspace_id request)
        \<and> pd_expected_global_revision request \<noteq> 0 \<and> pd_expected_owner_revision request \<noteq> 0
        \<and> is_absolute (pd_default_cwd request)
        \<and> pd_completion_reservation request = []
        \<and> (dcr_result result = ''updated'' \<or> dcr_result result = ''unchanged'')
        \<and> dcr_workspace_id result = pd_global_workspace_id request
        \<and> dcr_node_id result = pd_node_id request
        \<and> dcr_owner_workspace_id result = pd_owner_workspace_id request
        \<and> dcr_default_cwd result = pd_default_cwd request
        \<and> completed_default_cwd_revisions_are_valid request result
        \<and> pd_operation_id request \<notin> pending \<and> pd_operation_id request \<notin> completed)"

fun validate_completed_cwd ::
    "gw_env \<Rightarrow> string set \<Rightarrow> string set \<Rightarrow> completed_default_cwd_operation list \<Rightarrow> string set
      \<Rightarrow> unit res" where
  "validate_completed_cwd env pending completed [] cwd = Inr ()"
| "validate_completed_cwd env pending completed (c # cs) cwd =
     (if \<not> completed_cwd_ok env pending completed c \<or> pd_operation_id (cd_request c) \<in> cwd
      then Inl (invalid ''completed default cwd operation is invalid'')
      else validate_completed_cwd env pending completed cs
             (insert (pd_operation_id (cd_request c)) cwd))"

definition gw_validate :: "gw_env \<Rightarrow> gw_state \<Rightarrow> unit res" where
  "gw_validate env st =
     (if gs_version st \<noteq> coordinator_workspace_version
         \<or> length (gs_workspaces st) > max_workspaces
         \<or> length (gs_pending_resources st) > max_pending_resources
         \<or> length (gs_completed_operations st) > max_completed_operations
         \<or> length (gs_pending_cwd st) > max_pending_resources
         \<or> length (gs_completed_cwd st) > max_completed_operations
      then Inl (invalid ''unsupported or oversized global Workspace store'')
      else bind_res (validate_workspaces env (gs_workspaces st) {} {} {}) (\<lambda>ids.
           bind_res (validate_pending env ids (gs_pending_resources st) {}) (\<lambda>pending.
           bind_res (validate_completed env pending (gs_completed_operations st) {}) (\<lambda>completed.
           bind_res (validate_pending_cwd env ids pending completed (gs_pending_cwd st) {}) (\<lambda>cwd.
             validate_completed_cwd env pending completed (gs_completed_cwd st) cwd)))))"

end
