(* ===== verification/Gw_Valid.thy ===== *)
theory Gw_Valid
  imports Gw_State
begin

text \<open>
  What \<open>validate\<close> of \<open>src/src/global_workspace_store.rs\<close> accepts, as one predicate
  \<open>gw_valid\<close> over the state: the equivalence \<open>gw_validate_iff\<close> removes the loops and their
  accumulator sets. The later lemmas read single facts off \<open>gw_valid\<close>, so that no other theory
  unfolds it.
\<close>

section \<open>The invariant\<close>

definition owner_key :: "workspace_placement_snapshot \<Rightarrow> string \<times> string" where
  "owner_key p = (pl_node_id p, pl_workspace_id p)"

definition placement_ok :: "gw_env \<Rightarrow> bool \<Rightarrow> workspace_placement_snapshot \<Rightarrow> bool" where
  "placement_ok env closing p \<longleftrightarrow>
     env_uuid_ok env (pl_node_id p) \<and> pl_workspace_id p \<noteq> []
     \<and> closing = (pl_state p = PlClosePending)"

definition name_ok :: "string \<Rightarrow> bool" where
  "name_ok n \<longleftrightarrow> n \<noteq> [] \<and> length n \<le> 256 \<and> \<not> has_control n"

definition workspace_ok :: "gw_env \<Rightarrow> global_workspace_snapshot \<Rightarrow> bool" where
  "workspace_ok env w \<longleftrightarrow>
     name_ok (gw_name w) \<and> env_uuid_ok env (gw_id w) \<and> gw_revision w \<noteq> 0
     \<and> length (gw_placements w) \<le> max_placements
     \<and> list_all (placement_ok env (gw_closing w)) (gw_placements w)"

definition owner_keys :: "global_workspace_snapshot list \<Rightarrow> (string \<times> string) list" where
  "owner_keys ws = concat (map (\<lambda>w. map owner_key (gw_placements w)) ws)"

definition workspaces_valid :: "gw_env \<Rightarrow> global_workspace_snapshot list \<Rightarrow> bool" where
  "workspaces_valid env ws \<longleftrightarrow>
     list_all (workspace_ok env) ws \<and> distinct (map gw_id ws) \<and> distinct (map gw_name ws)
     \<and> distinct (owner_keys ws)"

definition workspace_ids :: "gw_state \<Rightarrow> string set" where
  "workspace_ids st = gw_id ` set (gs_workspaces st)"

definition pending_ids :: "gw_state \<Rightarrow> string set" where
  "pending_ids st = pr_operation_id ` set (gs_pending_resources st)"

definition completed_ids :: "gw_state \<Rightarrow> string set" where
  "completed_ids st = co_operation_id ` set (gs_completed_operations st)"

definition completed_ok :: "gw_env \<Rightarrow> string set \<Rightarrow> completed_workspace_operation \<Rightarrow> bool" where
  "completed_ok env pending c \<longleftrightarrow>
     (case resource_workspace_id (co_resource c) of
        None \<Rightarrow> False | Some rid \<Rightarrow> completed_operation_ok env pending rid c)"

definition within_limits :: "gw_state \<Rightarrow> bool" where
  "within_limits st \<longleftrightarrow>
     gs_version st = coordinator_workspace_version
     \<and> length (gs_workspaces st) \<le> max_workspaces
     \<and> length (gs_pending_resources st) \<le> max_pending_resources
     \<and> length (gs_completed_operations st) \<le> max_completed_operations
     \<and> length (gs_pending_cwd st) \<le> max_pending_resources
     \<and> length (gs_completed_cwd st) \<le> max_completed_operations"

definition gw_valid :: "gw_env \<Rightarrow> gw_state \<Rightarrow> bool" where
  "gw_valid env st \<longleftrightarrow>
     within_limits st
     \<and> workspaces_valid env (gs_workspaces st)
     \<and> list_all (\<lambda>p. pending_resource_ok env (workspace_ids st) p
                    \<and> name_ok (pr_owner_workspace_name p)) (gs_pending_resources st)
     \<and> distinct (map pr_operation_id (gs_pending_resources st))
     \<and> list_all (completed_ok env (pending_ids st)) (gs_completed_operations st)
     \<and> distinct (map co_operation_id (gs_completed_operations st))
     \<and> list_all (pending_cwd_ok env (workspace_ids st) (pending_ids st) (completed_ids st))
         (gs_pending_cwd st)
     \<and> list_all (completed_cwd_ok env (pending_ids st) (completed_ids st)) (gs_completed_cwd st)
     \<and> distinct (map pd_operation_id (gs_pending_cwd st)
                @ map (pd_operation_id \<circ> cd_request) (gs_completed_cwd st))"

section \<open>The loops of \<open>validate\<close>\<close>

lemma gw_validate_name_iff: "gw_validate_name n = Inr u \<longleftrightarrow> name_ok n"
  by (simp add: gw_validate_name_Inr name_ok_def)

lemma validate_placements_iff:
  "validate_placements env cl ps owners = Inr owners' \<longleftrightarrow>
     list_all (placement_ok env cl) ps \<and> distinct (map owner_key ps)
     \<and> owner_key ` set ps \<inter> owners = {} \<and> owners' = owners \<union> owner_key ` set ps"
proof (induction ps arbitrary: owners)
  case Nil
  then show ?case by auto
next
  case (Cons p ps)
  have "validate_placements env cl (p # ps) owners = Inr owners' \<longleftrightarrow>
      placement_ok env cl p \<and> owner_key p \<notin> owners
      \<and> validate_placements env cl ps (insert (owner_key p) owners) = Inr owners'"
    by (auto simp: placement_ok_def owner_key_def)
  then show ?case
    unfolding Cons.IH by (simp add: insert_commute) blast
qed

lemma set_owner_keys: "set (owner_keys ws) = (\<Union>w \<in> set ws. owner_key ` set (gw_placements w))"
  by (auto simp: owner_keys_def)

lemma validate_workspaces_iff:
  "validate_workspaces env ws ids names owners = Inr ids' \<longleftrightarrow>
     list_all (workspace_ok env) ws \<and> distinct (map gw_id ws) \<and> distinct (map gw_name ws)
     \<and> distinct (owner_keys ws)
     \<and> gw_id ` set ws \<inter> ids = {} \<and> gw_name ` set ws \<inter> names = {}
     \<and> set (owner_keys ws) \<inter> owners = {}
     \<and> ids' = ids \<union> gw_id ` set ws"
proof (induction ws arbitrary: ids names owners)
  case Nil
  then show ?case by (auto simp: owner_keys_def)
next
  case (Cons w ws)
  have step: "validate_workspaces env (w # ws) ids names owners = Inr ids' \<longleftrightarrow>
      name_ok (gw_name w) \<and> env_uuid_ok env (gw_id w) \<and> gw_revision w \<noteq> 0
      \<and> length (gw_placements w) \<le> max_placements \<and> gw_id w \<notin> ids \<and> gw_name w \<notin> names
      \<and> list_all (placement_ok env (gw_closing w)) (gw_placements w)
      \<and> distinct (map owner_key (gw_placements w))
      \<and> owner_key ` set (gw_placements w) \<inter> owners = {}
      \<and> validate_workspaces env ws (insert (gw_id w) ids) (insert (gw_name w) names)
          (owners \<union> owner_key ` set (gw_placements w)) = Inr ids'"
    by (auto simp: bind_res_Inr gw_validate_name_iff validate_placements_iff)
  have keys: "owner_keys (w # ws) = map owner_key (gw_placements w) @ owner_keys ws"
    by (simp add: owner_keys_def)
  have ids: "gw_id w \<notin> ids \<and> gw_id ` set ws \<inter> insert (gw_id w) ids = {} \<longleftrightarrow>
      gw_id w \<notin> gw_id ` set ws \<and> gw_id ` set (w # ws) \<inter> ids = {}" by auto
  have names: "gw_name w \<notin> names \<and> gw_name ` set ws \<inter> insert (gw_name w) names = {} \<longleftrightarrow>
      gw_name w \<notin> gw_name ` set ws \<and> gw_name ` set (w # ws) \<inter> names = {}" by auto
  have owners: "owner_key ` set (gw_placements w) \<inter> owners = {}
        \<and> set (owner_keys ws) \<inter> (owners \<union> owner_key ` set (gw_placements w)) = {} \<longleftrightarrow>
      owner_key ` set (gw_placements w) \<inter> set (owner_keys ws) = {}
        \<and> set (owner_keys (w # ws)) \<inter> owners = {}" unfolding keys by auto
  have result: "ids' = insert (gw_id w) ids \<union> gw_id ` set ws \<longleftrightarrow> ids' = ids \<union> gw_id ` set (w # ws)"
    by auto
  have dist: "distinct (owner_keys (w # ws)) \<longleftrightarrow> distinct (map owner_key (gw_placements w))
      \<and> distinct (owner_keys ws) \<and> owner_key ` set (gw_placements w) \<inter> set (owner_keys ws) = {}"
    unfolding keys by simp
  have head: "list_all (workspace_ok env) (w # ws) \<longleftrightarrow> name_ok (gw_name w) \<and> env_uuid_ok env (gw_id w)
      \<and> gw_revision w \<noteq> 0 \<and> length (gw_placements w) \<le> max_placements
      \<and> list_all (placement_ok env (gw_closing w)) (gw_placements w) \<and> list_all (workspace_ok env) ws"
    by (simp add: workspace_ok_def)
  have maps: "distinct (map gw_id (w # ws)) \<longleftrightarrow> gw_id w \<notin> gw_id ` set ws \<and> distinct (map gw_id ws)"
      "distinct (map gw_name (w # ws)) \<longleftrightarrow> gw_name w \<notin> gw_name ` set ws \<and> distinct (map gw_name ws)"
    by simp_all
  show ?case
    unfolding step Cons.IH dist head maps using ids names owners result by argo
qed

lemma validate_pending_iff:
  "validate_pending env ids ps pending = Inr pending' \<longleftrightarrow>
     list_all (\<lambda>p. pending_resource_ok env ids p \<and> name_ok (pr_owner_workspace_name p)) ps
     \<and> distinct (map pr_operation_id ps) \<and> pr_operation_id ` set ps \<inter> pending = {}
     \<and> pending' = pending \<union> pr_operation_id ` set ps"
proof (induction ps arbitrary: pending)
  case Nil
  then show ?case by auto
next
  case (Cons p ps)
  then show ?case by (auto simp: bind_res_Inr gw_validate_name_iff)
qed

lemma validate_completed_iff:
  "validate_completed env pending cs completed = Inr completed' \<longleftrightarrow>
     list_all (completed_ok env pending) cs
     \<and> distinct (map co_operation_id cs) \<and> co_operation_id ` set cs \<inter> completed = {}
     \<and> completed' = completed \<union> co_operation_id ` set cs"
proof (induction cs arbitrary: completed)
  case Nil
  then show ?case by auto
next
  case (Cons c cs)
  then show ?case by (cases "resource_workspace_id (co_resource c)") (auto simp: completed_ok_def)
qed

lemma validate_pending_cwd_iff:
  "validate_pending_cwd env ids pending completed ps cwd = Inr cwd' \<longleftrightarrow>
     list_all (pending_cwd_ok env ids pending completed) ps
     \<and> distinct (map pd_operation_id ps) \<and> pd_operation_id ` set ps \<inter> cwd = {}
     \<and> cwd' = cwd \<union> pd_operation_id ` set ps"
proof (induction ps arbitrary: cwd)
  case Nil
  then show ?case by auto
next
  case (Cons p ps)
  then show ?case by auto
qed

lemma validate_completed_cwd_iff:
  "validate_completed_cwd env pending completed cs cwd = Inr u \<longleftrightarrow>
     list_all (completed_cwd_ok env pending completed) cs
     \<and> distinct (map (pd_operation_id \<circ> cd_request) cs)
     \<and> (pd_operation_id \<circ> cd_request) ` set cs \<inter> cwd = {}"
proof (induction cs arbitrary: cwd)
  case Nil
  then show ?case by auto
next
  case (Cons c cs)
  then show ?case by auto
qed

lemma gw_validate_valid: "gw_validate env st = Inr u \<longleftrightarrow> gw_valid env st"
proof -
  have "gw_validate env st = Inr u \<longleftrightarrow>
     within_limits st
     \<and> (\<exists>ids. validate_workspaces env (gs_workspaces st) {} {} {} = Inr ids
       \<and> (\<exists>pending. validate_pending env ids (gs_pending_resources st) {} = Inr pending
         \<and> (\<exists>completed. validate_completed env pending (gs_completed_operations st) {} = Inr completed
           \<and> (\<exists>cwd. validate_pending_cwd env ids pending completed (gs_pending_cwd st) {} = Inr cwd
             \<and> validate_completed_cwd env pending completed (gs_completed_cwd st) cwd = Inr u))))"
    by (cases "within_limits st") (auto simp: gw_validate_def within_limits_def bind_res_Inr not_less)
  then show ?thesis
    by (auto simp: gw_valid_def workspaces_valid_def validate_workspaces_iff validate_pending_iff
        validate_completed_iff validate_pending_cwd_iff validate_completed_cwd_iff
        workspace_ids_def pending_ids_def completed_ids_def comp_def)
qed

section \<open>Facts read off the invariant\<close>

lemma gw_valid_limits: "gw_valid env st \<Longrightarrow> within_limits st"
  by (simp add: gw_valid_def)

lemma gw_valid_workspaces: "gw_valid env st \<Longrightarrow> workspaces_valid env (gs_workspaces st)"
  by (simp add: gw_valid_def)

lemma gw_valid_distinct_ids: "gw_valid env st \<Longrightarrow> distinct (map gw_id (gs_workspaces st))"
  by (simp add: gw_valid_def workspaces_valid_def)

lemma gw_valid_distinct_ops: "gw_valid env st \<Longrightarrow> distinct (map pr_operation_id (gs_pending_resources st))"
  by (simp add: gw_valid_def)

lemma gw_valid_pending_workspace:
  "gw_valid env st \<Longrightarrow> p \<in> set (gs_pending_resources st) \<Longrightarrow>
     pr_global_workspace_id p \<in> workspace_ids st"
  by (auto simp: gw_valid_def list_all_iff pending_resource_ok_def)

lemma gw_valid_pending_not_completed:
  "gw_valid env st \<Longrightarrow> pending_ids st \<inter> completed_ids st = {}"
  by (auto simp: gw_valid_def list_all_iff completed_ok_def completed_operation_ok_def
      completed_ids_def split: option.splits)

lemma find_workspace_Some:
  "find_workspace st i = Some w \<Longrightarrow> w \<in> set (gs_workspaces st) \<and> gw_id w = i"
  unfolding find_workspace_def by (drule find_Some_mem) simp

lemma find_workspace_unique:
  "distinct (map gw_id (gs_workspaces st)) \<Longrightarrow> w \<in> set (gs_workspaces st) \<Longrightarrow>
     find_workspace st (gw_id w) = Some w"
  unfolding find_workspace_def by (rule find_unique)

lemma find_workspace_None:
  "find_workspace st i = None \<longleftrightarrow> i \<notin> workspace_ids st"
  by (auto simp: find_workspace_def find_None_iff_ball workspace_ids_def)

end
