(* ===== verification/Gw_Capacity.thy ===== *)
theory Gw_Capacity
  imports Gw_Valid
begin

text \<open>
  The durable-capacity side of \<open>src/src/global_workspace_store.rs\<close>: the completed-operation
  log, the reservations that a prepared operation makes for the record of its completion, and
  the compaction that keeps the encoded store below \<open>MAX_STORE_BYTES\<close>. The loops are recursions
  with a measure, so they are shown to end; the lemmas say what they may drop.
\<close>

section \<open>Definitions\<close>

definition remove_pending_at :: "gw_state \<Rightarrow> nat \<Rightarrow> gw_state" where
  "remove_pending_at st i =
     (let p = gs_pending_resources st ! i;
          st1 = st\<lparr>gs_pending_resources := remove_at i (gs_pending_resources st)\<rparr>
      in if pr_creates_workspace p then
           (case position (\<lambda>w. gw_id w = pr_global_workspace_id p \<and> gw_placements w = [])
                   (gs_workspaces st1) of
              Some wi \<Rightarrow>
                (if list_ex (\<lambda>c. pr_global_workspace_id c = pr_global_workspace_id p)
                      (gs_pending_resources st1)
                 then st1
                 else st1\<lparr>gs_workspaces := remove_at wi (gs_workspaces st1)\<rparr>)
            | None \<Rightarrow> st1)
         else st1)"

definition store_exceeds :: "gw_env \<Rightarrow> gw_state \<Rightarrow> bool" where
  "store_exceeds env st \<longleftrightarrow>
     (case env_store_len env st of Inr n \<Rightarrow> n > max_store_bytes | Inl _ \<Rightarrow> False)"

definition completed_exceeds_limit :: io_error where
  "completed_exceeds_limit =
     invalid ''completed Workspace operation exceeds the coordinator store limit''"

text \<open>
  The \<open>while\<close> loop of \<open>push_completed\<close>. It stops with an error at length one, so its
  \<open>remove(0)\<close> never meets the empty list; the model keeps that panic as a branch.
\<close>

function trim_completed :: "gw_env \<Rightarrow> gw_state \<Rightarrow> gw_state res" where
  "trim_completed env st =
     (if length (gs_completed_operations st) > max_completed_operations \<or> store_exceeds env st
      then (case gs_completed_operations st of
              [] \<Rightarrow> Inl (other_error ''panic: removal index (is 0) should be < len (is 0)'')
            | [c] \<Rightarrow> Inl completed_exceeds_limit
            | c # d # cs \<Rightarrow> trim_completed env (st\<lparr>gs_completed_operations := d # cs\<rparr>))
      else Inr st)"
  by pat_completeness auto
termination
  by (relation "measure (\<lambda>(env, st). length (gs_completed_operations st))") auto

declare trim_completed.simps [simp del]

definition push_completed ::
    "gw_env \<Rightarrow> gw_state \<Rightarrow> completed_workspace_operation \<Rightarrow> gw_state res" where
  "push_completed env st completed =
     (case List.find (\<lambda>e. co_operation_id e = co_operation_id completed)
             (gs_completed_operations st) of
        Some existing \<Rightarrow> (if existing = completed then Inr st else Inl operation_conflict)
      | None \<Rightarrow>
          trim_completed env
            (st\<lparr>gs_completed_operations := gs_completed_operations st @ [completed]\<rparr>))"

definition completion_reservation_bytes ::
    "gw_env \<Rightarrow> global_workspace_snapshot \<Rightarrow> nat \<Rightarrow> nat res" where
  "completion_reservation_bytes env w request_bytes =
     bind_res (env_workspace_len env w) (\<lambda>workspace_bytes.
     bind_res
       (ok_or (Option.bind (usize_checked_mul request_bytes 2) (\<lambda>b.
               Option.bind (usize_checked_add b (usize_saturating_mul workspace_bytes 2)) (\<lambda>b'.
               usize_checked_add b' completion_reservation_overhead)))
          (invalid ''completed Workspace operation capacity overflow''))
       (\<lambda>reservation.
          if reservation > max_completion_reservation_bytes
          then Inl (invalid
            ''Workspace resource request is too large for durable completion replay'')
          else Inr reservation))"

definition u64_max :: u64 where "u64_max = - 1"

definition projected_completed_workspace ::
    "global_workspace_snapshot \<Rightarrow> pending_workspace_resource \<Rightarrow> global_workspace_snapshot res" where
  "projected_completed_workspace w p =
     (case find_placement w (pr_node_id p) of
        Some _ \<Rightarrow>
          Inr (w\<lparr>gw_placements := update_first (\<lambda>q. pl_node_id q = pr_node_id p)
                  (\<lambda>q. q\<lparr>pl_workspace_id := pr_owner_workspace_id p,
                         pl_owner_workspace_name := Some (pr_owner_workspace_name p),
                         pl_owner_revision := u64_max,
                         pl_default_cwd := pr_default_cwd p,
                         pl_state := PlActive\<rparr>)
                  (gw_placements w)\<rparr>)
      | None \<Rightarrow>
          bind_res (gw_next (gw_revision w)) (\<lambda>revision.
            Inr (w\<lparr>gw_revision := revision,
                   gw_placements := sort_placements (gw_placements w @
                     [\<lparr>pl_node_id = pr_node_id p, pl_workspace_id = pr_owner_workspace_id p,
                       pl_owner_workspace_name = Some (pr_owner_workspace_name p),
                       pl_owner_revision = u64_max, pl_default_cwd = pr_default_cwd p,
                       pl_state = PlActive\<rparr>])\<rparr>)))"

fun projected_all ::
    "global_workspace_snapshot \<Rightarrow> pending_workspace_resource list \<Rightarrow> global_workspace_snapshot res" where
  "projected_all w [] = Inr w"
| "projected_all w (p # ps) =
     bind_res (projected_completed_workspace w p) (\<lambda>w'. projected_all w' ps)"

definition projected_workspace_with_pending ::
    "gw_state \<Rightarrow> global_workspace_snapshot \<Rightarrow> pending_workspace_resource option
      \<Rightarrow> global_workspace_snapshot res" where
  "projected_workspace_with_pending st w additional =
     projected_all w
       (filter (\<lambda>p. pr_global_workspace_id p = gw_id w) (gs_pending_resources st)
        @ (case additional of None \<Rightarrow> [] | Some p \<Rightarrow> [p]))"

text \<open>The loop that expands the reservations of the operations already prepared.\<close>

fun grow_reservations ::
    "string \<Rightarrow> nat \<Rightarrow> pending_workspace_resource list \<Rightarrow> pending_workspace_resource list res" where
  "grow_reservations wid growth [] = Inr []"
| "grow_reservations wid growth (e # es) =
     (if pr_global_workspace_id e = wid then
        if pr_completion_reservation e = [] then
          Inl (invalid ''legacy pending Workspace operation must reserve completion capacity before another placement is prepared'')
        else
          bind_res (ok_or (usize_checked_add (length (pr_completion_reservation e)) growth)
                     (invalid ''completed Workspace operation capacity overflow'')) (\<lambda>expanded.
            if expanded > max_completion_reservation_bytes then
              Inl (invalid ''Workspace placement growth exceeds durable completion replay capacity'')
            else bind_res (grow_reservations wid growth es) (\<lambda>es'.
              Inr (e\<lparr>pr_completion_reservation := pr_completion_reservation e @ spaces growth\<rparr> # es')))
      else bind_res (grow_reservations wid growth es) (\<lambda>es'. Inr (e # es')))"

definition reserve_new_pending_completion ::
    "gw_env \<Rightarrow> gw_state \<Rightarrow> global_workspace_snapshot \<Rightarrow> pending_workspace_resource \<Rightarrow> nat
      \<Rightarrow> (gw_state \<times> pending_workspace_resource) res" where
  "reserve_new_pending_completion env st w p request_bytes =
     bind_res (projected_workspace_with_pending st w None) (\<lambda>before.
     bind_res (projected_completed_workspace before p) (\<lambda>after.
     bind_res (env_workspace_len env before) (\<lambda>before_bytes.
     bind_res (env_workspace_len env after) (\<lambda>after_bytes.
       let growth = usize_saturating_mul (after_bytes - before_bytes) 2 in
       bind_res (if growth > 0 then grow_reservations (gw_id w) growth (gs_pending_resources st)
                 else Inr (gs_pending_resources st)) (\<lambda>pending'.
       bind_res (completion_reservation_bytes env after request_bytes) (\<lambda>reservation.
         Inr (st\<lparr>gs_pending_resources := pending'\<rparr>,
              p\<lparr>pr_completion_reservation := spaces reservation\<rparr>)))))))"

function compact_prepared_state :: "gw_env \<Rightarrow> gw_state \<Rightarrow> gw_state res" where
  "compact_prepared_state env st =
     (case env_store_len env st of
        Inl e \<Rightarrow> Inl e
      | Inr n \<Rightarrow>
          (if n > max_store_bytes then
             (case gs_completed_operations st of
                c # cs \<Rightarrow> compact_prepared_state env (st\<lparr>gs_completed_operations := cs\<rparr>)
              | [] \<Rightarrow>
                  (case gs_completed_cwd st of
                     d # ds \<Rightarrow> compact_prepared_state env (st\<lparr>gs_completed_cwd := ds\<rparr>)
                   | [] \<Rightarrow> Inl (invalid ''coordinator store has insufficient capacity to reserve the completed Workspace operation'')))
           else Inr st))"
  by pat_completeness auto
termination
  by (relation "measure (\<lambda>(env, st). length (gs_completed_operations st) + length (gs_completed_cwd st))")
    auto

declare compact_prepared_state.simps [simp del]

section \<open>What the loops do\<close>

lemma trim_completed_result:
  "trim_completed env st = Inr st' \<Longrightarrow>
     (\<exists>n. st' = st\<lparr>gs_completed_operations := drop n (gs_completed_operations st)\<rparr>
          \<and> n \<le> length (gs_completed_operations st)
          \<and> (n = 0 \<or> n < length (gs_completed_operations st)))
     \<and> length (gs_completed_operations st') \<le> max_completed_operations
     \<and> \<not> store_exceeds env st'"
proof (induction env st rule: trim_completed.induct)
  case (1 env st)
  show ?case
  proof (cases "length (gs_completed_operations st) > max_completed_operations \<or> store_exceeds env st")
    case False
    then have "st' = st" using "1.prems" by (simp add: trim_completed.simps [of env st])
    then show ?thesis using False by (auto intro!: exI [of _ 0])
  next
    case True
    then have "\<exists>c d cs. gs_completed_operations st = c # d # cs"
      using "1.prems"
      by (cases "gs_completed_operations st"; cases "tl (gs_completed_operations st)")
        (auto simp: trim_completed.simps [of env st])
    then obtain c d cs where cs: "gs_completed_operations st = c # d # cs" by blast
    have rec: "trim_completed env (st\<lparr>gs_completed_operations := d # cs\<rparr>) = Inr st'"
      using "1.prems" True cs by (simp add: trim_completed.simps [of env st])
    obtain n where n: "st' = st\<lparr>gs_completed_operations := drop n (d # cs)\<rparr>"
        "n \<le> length (d # cs)" "n = 0 \<or> n < length (d # cs)"
      and rest: "length (gs_completed_operations st') \<le> max_completed_operations" "\<not> store_exceeds env st'"
      using "1.IH" [OF True cs refl rec] by (elim conjE exE, intro that) simp_all
    from n have "st' = st\<lparr>gs_completed_operations := drop (Suc n) (gs_completed_operations st)\<rparr>"
        "Suc n < length (gs_completed_operations st)"
      by (auto simp: cs)
    with rest show ?thesis by (intro conjI exI [of _ "Suc n"]) auto
  qed
qed

text \<open>
  A completed operation that \<open>push_completed\<close> accepts is the newest of the log; what it drops
  is the oldest part of the log, and nothing outside the log changes.
\<close>

lemma push_completed_fresh:
  assumes "push_completed env st c = Inr st'"
    and "co_operation_id c \<notin> completed_ids st"
  shows "\<exists>n. st' = st\<lparr>gs_completed_operations := drop n (gs_completed_operations st) @ [c]\<rparr>"
    and "length (gs_completed_operations st') \<le> max_completed_operations"
    and "\<not> store_exceeds env st'"
proof -
  let ?st = "st\<lparr>gs_completed_operations := gs_completed_operations st @ [c]\<rparr>"
  have "List.find (\<lambda>e. co_operation_id e = co_operation_id c) (gs_completed_operations st) = None"
    using assms(2) by (simp add: find_None_iff_ball completed_ids_def image_iff) metis
  then have trim: "trim_completed env ?st = Inr st'"
    using assms(1) by (simp add: push_completed_def)
  from trim_completed_result [OF this] obtain n
    where n: "st' = ?st\<lparr>gs_completed_operations := drop n (gs_completed_operations ?st)\<rparr>"
      and bound: "n = 0 \<or> n < length (gs_completed_operations ?st)"
      and rest: "length (gs_completed_operations st') \<le> max_completed_operations" "\<not> store_exceeds env st'"
    by (elim conjE exE, intro that) simp_all
  from bound have "n \<le> length (gs_completed_operations st)" by auto
  then have "st' = st\<lparr>gs_completed_operations := drop n (gs_completed_operations st) @ [c]\<rparr>"
    using n by simp
  then show "\<exists>n. st' = st\<lparr>gs_completed_operations := drop n (gs_completed_operations st) @ [c]\<rparr>" ..
  show "length (gs_completed_operations st') \<le> max_completed_operations" "\<not> store_exceeds env st'"
    using rest by simp_all
qed

lemma compact_prepared_state_result:
  "compact_prepared_state env st = Inr st' \<Longrightarrow>
     (\<exists>m n. st' = st\<lparr>gs_completed_operations := drop m (gs_completed_operations st),
                     gs_completed_cwd := drop n (gs_completed_cwd st)\<rparr>)
     \<and> (\<exists>len. env_store_len env st' = Inr len \<and> len \<le> max_store_bytes)"
proof (induction env st rule: compact_prepared_state.induct)
  case (1 env st)
  from "1.prems" obtain len where len: "env_store_len env st = Inr len"
    by (cases "env_store_len env st") (auto simp: compact_prepared_state.simps [of env st])
  show ?case
  proof (cases "len > max_store_bytes")
    case False
    then have "st' = st" using "1.prems" len by (simp add: compact_prepared_state.simps [of env st])
    then show ?thesis using False len
      by (intro conjI exI [of _ 0] exI [of _ len]) auto
  next
    case big: True
    show ?thesis
    proof (cases "gs_completed_operations st")
      case (Cons c cs)
      then have "compact_prepared_state env (st\<lparr>gs_completed_operations := cs\<rparr>) = Inr st'"
        using "1.prems" len big by (simp add: compact_prepared_state.simps [of env st])
      from "1.IH"(2) [OF len big Cons this] obtain m n
        where st': "st' = st\<lparr>gs_completed_operations := drop m cs, gs_completed_cwd := drop n (gs_completed_cwd st)\<rparr>"
          and rest: "\<exists>len. env_store_len env st' = Inr len \<and> len \<le> max_store_bytes"
        by auto
      have "\<exists>m n. st' = st\<lparr>gs_completed_operations := drop m (gs_completed_operations st),
                     gs_completed_cwd := drop n (gs_completed_cwd st)\<rparr>"
        using st' Cons by (intro exI [of _ "Suc m"] exI [of _ n]) simp
      with rest show ?thesis by blast
    next
      case Nil
      then obtain d ds where d: "gs_completed_cwd st = d # ds"
        using "1.prems" len big
        by (cases "gs_completed_cwd st") (auto simp: compact_prepared_state.simps [of env st])
      then have "compact_prepared_state env (st\<lparr>gs_completed_cwd := ds\<rparr>) = Inr st'"
        using "1.prems" len big Nil by (simp add: compact_prepared_state.simps [of env st])
      from "1.IH"(1) [OF len big Nil d this] obtain m n
        where st': "st' = st\<lparr>gs_completed_operations := drop m [], gs_completed_cwd := drop n ds\<rparr>"
          and rest: "\<exists>len. env_store_len env st' = Inr len \<and> len \<le> max_store_bytes"
        using Nil by auto
      have "\<exists>m n. st' = st\<lparr>gs_completed_operations := drop m (gs_completed_operations st),
                     gs_completed_cwd := drop n (gs_completed_cwd st)\<rparr>"
        using st' Nil d by (intro exI [of _ 0] exI [of _ "Suc n"]) simp
      with rest show ?thesis by blast
    qed
  qed
qed

lemma compact_prepared_state_frame:
  assumes "compact_prepared_state env st = Inr st'"
  shows "gs_workspaces st' = gs_workspaces st" "gs_pending_resources st' = gs_pending_resources st"
    "gs_pending_cwd st' = gs_pending_cwd st"
    "set (gs_completed_operations st') \<subseteq> set (gs_completed_operations st)"
    "set (gs_completed_cwd st') \<subseteq> set (gs_completed_cwd st)"
  using compact_prepared_state_result [OF assms] by (auto dest: in_set_dropD)

lemma grow_reservations_frame:
  "grow_reservations wid g ps = Inr ps' \<Longrightarrow>
     length ps' = length ps
     \<and> (\<forall>i < length ps. \<exists>r. ps' ! i = (ps ! i)\<lparr>pr_completion_reservation := r\<rparr>)"
proof (induction ps arbitrary: ps')
  case Nil
  then show ?case by simp
next
  case (Cons e es)
  have e: "e = e\<lparr>pr_completion_reservation := pr_completion_reservation e\<rparr>" by simp
  obtain es' r where es': "grow_reservations wid g es = Inr es'"
    and ps': "ps' = e\<lparr>pr_completion_reservation := r\<rparr> # es'"
  proof (cases "pr_global_workspace_id e = wid")
    case True
    then show ?thesis
      using Cons.prems that by (auto simp: bind_res_Inr split: if_splits)
  next
    case False
    then obtain es' where "grow_reservations wid g es = Inr es'" "ps' = e # es'"
      using Cons.prems by (auto simp: bind_res_Inr)
    then show ?thesis using that e by metis
  qed
  from Cons.IH [OF es'] show ?case
    unfolding ps' by (auto simp: nth_Cons split: nat.splits)
qed

text \<open>The projections of a list that ignore the reservation are unchanged by growing it.\<close>

lemma grow_reservations_map:
  assumes "grow_reservations wid g ps = Inr ps'"
    and "\<And>p r. f (p\<lparr>pr_completion_reservation := r\<rparr>) = f p"
  shows "map f ps' = map f ps"
proof (rule nth_equalityI)
  note frame = grow_reservations_frame [OF assms(1)]
  show "length (map f ps') = length (map f ps)" using frame by simp
  fix i
  assume "i < length (map f ps')"
  then have "i < length ps" using frame by simp
  with frame obtain r where "ps' ! i = (ps ! i)\<lparr>pr_completion_reservation := r\<rparr>" by blast
  then show "map f ps' ! i = map f ps ! i"
    using \<open>i < length ps\<close> frame assms(2) by simp
qed

lemma reserve_new_pending_completion_frame:
  assumes "reserve_new_pending_completion env st w p rb = Inr (st', p')"
  shows "gs_workspaces st' = gs_workspaces st" "gs_pending_cwd st' = gs_pending_cwd st"
    "gs_completed_operations st' = gs_completed_operations st"
    "gs_completed_cwd st' = gs_completed_cwd st"
    "map pr_operation_id (gs_pending_resources st') = map pr_operation_id (gs_pending_resources st)"
    "map pr_global_workspace_id (gs_pending_resources st') =
       map pr_global_workspace_id (gs_pending_resources st)"
    "\<exists>r. p' = p\<lparr>pr_completion_reservation := r\<rparr>"
  using assms
  by (auto simp: reserve_new_pending_completion_def bind_res_Inr Let_def
      intro: grow_reservations_map split: if_splits)

end
