(* ===== verification/Gw_Ops.thy ===== *)
theory Gw_Ops
  imports Gw_Capacity "HOL-Library.Product_Lexorder"
begin

text \<open>
  The operations of \<open>GlobalWorkspaceStore\<close> and \<open>GlobalWorkspaceTransaction\<close>
  (\<open>src/src/global_workspace_store.rs\<close>). A closure that the code hands to \<open>mutate\<close> is a
  function of the state ending in \<open>_op\<close> with a result and the new state, or an error; the
  method itself, with what it checks before it locks, is the function of the store with the
  prefix \<open>gws_\<close>. The memory and the file of a store are the fields of \<open>gw_store\<close>.
\<close>

section \<open>The store: memory, file, and \<open>mutate\<close>\<close>

record gw_store =
  store_mem :: gw_state
  store_disk :: "gw_state option"
  store_persist :: bool

definition gw_save :: "gw_env \<Rightarrow> gw_state \<Rightarrow> unit res" where
  "gw_save env st =
     bind_res (env_store_len env st) (\<lambda>n.
       if n > max_store_bytes then Inl (invalid ''global Workspace store exceeds the size limit'')
       else (case env_write env st of Some e \<Rightarrow> Inl e | None \<Rightarrow> Inr ()))"

definition gws_mutate ::
    "gw_env \<Rightarrow> (gw_state \<Rightarrow> ('r \<times> gw_state) res) \<Rightarrow> gw_store \<Rightarrow> 'r res \<times> gw_store" where
  "gws_mutate env operation s =
     (case operation (store_mem s) of
        Inl e \<Rightarrow> (Inl e, s)
      | Inr (result, replacement) \<Rightarrow>
          (case gw_validate env replacement of
             Inl e \<Rightarrow> (Inl e, s)
           | Inr _ \<Rightarrow>
               (if store_persist s then
                  (case gw_save env replacement of
                     Inl e \<Rightarrow> (Inl e, s)
                   | Inr _ \<Rightarrow> (Inr result, s\<lparr>store_mem := replacement, store_disk := Some replacement\<rparr>))
                else (Inr result, s\<lparr>store_mem := replacement\<rparr>))))"

definition guarded :: "unit res \<Rightarrow> ('r res \<times> gw_store) \<Rightarrow> gw_store \<Rightarrow> 'r res \<times> gw_store" where
  "guarded check run s = (case check of Inl e \<Rightarrow> (Inl e, s) | Inr _ \<Rightarrow> run)"

section \<open>Loading\<close>

record file_metadata =
  meta_is_file :: bool
  meta_uid :: u32
  meta_mode :: u32
  meta_len :: nat

unbundle bit_operations_syntax

text \<open>\<open>load\<close>: \<open>opened\<close> is the outcome of \<open>open\<close> and \<open>metadata\<close>, \<open>parsed\<close> that of reading and
  parsing the bytes.\<close>

definition gw_load ::
    "u32 \<Rightarrow> file_metadata res \<Rightarrow> gw_state res \<Rightarrow> gw_state res" where
  "gw_load effective_uid opened parsed =
     bind_res opened (\<lambda>m.
       if \<not> meta_is_file m \<or> meta_uid m \<noteq> effective_uid \<or> meta_mode m AND 63 \<noteq> 0
       then Inl (IoError PermissionDenied ''global Workspace store is not an owner-only regular file'')
       else if meta_len m > max_store_bytes
       then Inl (invalid ''global Workspace store exceeds the size limit'')
       else parsed)"

definition migrate_pending :: "pending_workspace_resource \<Rightarrow> pending_workspace_resource" where
  "migrate_pending p =
     (let p1 = (if pr_operation_id p = [] then p\<lparr>pr_operation_id := pr_resource_id p\<rparr> else p);
          p2 = (if pr_requested_owner_workspace_id p1 = []
                then p1\<lparr>pr_requested_owner_workspace_id := pr_owner_workspace_id p1\<rparr> else p1)
      in p2\<lparr>pr_owner_attempted := True\<rparr>)"

definition load_migrate :: "gw_state res \<Rightarrow> (gw_state \<times> bool) res" where
  "load_migrate loaded =
     (case loaded of
        Inr st \<Rightarrow>
          (if 1 \<le> gs_version st \<and> gs_version st < 6 then
             Inr (st\<lparr>gs_pending_resources := map migrate_pending (gs_pending_resources st),
                     gs_version := coordinator_workspace_version\<rparr>, True)
           else if gs_version st = 7 then
             Inr (st\<lparr>gs_version := coordinator_workspace_version\<rparr>, True)
           else Inr (st, False))
      | Inl e \<Rightarrow> (if err_kind e = NotFound then Inr (gw_empty, False) else Inl e))"

definition load_at :: "gw_env \<Rightarrow> gw_state res \<Rightarrow> gw_store res" where
  "load_at env loaded =
     bind_res (load_migrate loaded) (\<lambda>(st, migrated).
     bind_res (gw_validate env st) (\<lambda>_.
       let disk = (case loaded of Inr old \<Rightarrow> Some old | Inl _ \<Rightarrow> None) in
       if migrated then
         bind_res (gw_save env st) (\<lambda>_.
           Inr \<lparr>store_mem = st, store_disk = Some st, store_persist = True\<rparr>)
       else Inr \<lparr>store_mem = st, store_disk = disk, store_persist = True\<rparr>))"

definition gws_checkpoint :: "gw_env \<Rightarrow> gw_store \<Rightarrow> unit res \<times> gw_store" where
  "gws_checkpoint env s =
     (case bind_res (gw_validate env (store_mem s)) (\<lambda>_. gw_save env (store_mem s)) of
        Inl e \<Rightarrow> (Inl e, s)
      | Inr _ \<Rightarrow> (Inr (), s\<lparr>store_disk := Some (store_mem s)\<rparr>))"

section \<open>Migration of the local Workspaces\<close>

fun migrate_workspaces ::
    "string \<Rightarrow> workspace_snapshot list \<Rightarrow> global_workspace_snapshot list
      \<Rightarrow> global_workspace_snapshot list res" where
  "migrate_workspaces node_id [] acc = Inr acc"
| "migrate_workspaces node_id (w # ws) acc =
     (if length acc \<ge> max_workspaces
      then Inl (invalid ''coordinator Workspace limit reached during migration'')
      else migrate_workspaces node_id ws (acc @
        [\<lparr>gw_id = ws_id w, gw_revision = 1, gw_name = ws_name w, gw_closing = False,
          gw_placements = [gw_placement node_id w PlActive]\<rparr>]))"

definition gws_initialize_local_once ::
    "gw_env \<Rightarrow> string \<Rightarrow> node_snapshot \<Rightarrow> gw_store \<Rightarrow> bool res \<times> gw_store" where
  "gws_initialize_local_once env node_id snapshot s =
     (let st = store_mem s in
      if gs_local_migration_complete st then (Inr False, s)
      else (case bind_res (migrate_workspaces node_id (snap_workspaces snapshot) (gs_workspaces st))
                   (\<lambda>wss. let replacement = st\<lparr>gs_workspaces := wss, gs_local_migration_complete := True\<rparr> in
                      bind_res (gw_validate env replacement) (\<lambda>_.
                      bind_res (gw_save env replacement) (\<lambda>_. Inr replacement))) of
              Inl e \<Rightarrow> (Inl e, s)
            | Inr replacement \<Rightarrow>
                (Inr True, s\<lparr>store_mem := replacement, store_disk := Some replacement\<rparr>)))"

section \<open>Reads\<close>

definition gws_list :: "gw_store \<Rightarrow> global_workspace_snapshot list" where
  "gws_list s = sort_key (\<lambda>w. (gw_name w, gw_id w)) (gs_workspaces (store_mem s))"

definition gws_pending_resources :: "gw_store \<Rightarrow> pending_workspace_resource list" where
  "gws_pending_resources s = gs_pending_resources (store_mem s)"

definition gws_pending_default_cwd_operations :: "gw_store \<Rightarrow> pending_default_cwd_operation list" where
  "gws_pending_default_cwd_operations s = gs_pending_cwd (store_mem s)"

definition gws_get :: "gw_store \<Rightarrow> string \<Rightarrow> global_workspace_snapshot res" where
  "gws_get s i = ok_or (find_workspace (store_mem s) i) workspace_not_found"

definition find_completed :: "gw_state \<Rightarrow> string \<Rightarrow> completed_workspace_operation option" where
  "find_completed st op = List.find (\<lambda>c. co_operation_id c = op) (gs_completed_operations st)"

definition gws_completed_operation ::
    "gw_store \<Rightarrow> string \<Rightarrow> string \<Rightarrow> completed_workspace_operation option res" where
  "gws_completed_operation s op fingerprint =
     (case find_completed (store_mem s) op of
        Some c \<Rightarrow> (if co_request_fingerprint c = fingerprint then Inr (Some c)
                   else Inl operation_conflict)
      | None \<Rightarrow> Inr None)"

definition find_completed_cwd :: "gw_state \<Rightarrow> string \<Rightarrow> completed_default_cwd_operation option" where
  "find_completed_cwd st op =
     List.find (\<lambda>c. pd_operation_id (cd_request c) = op) (gs_completed_cwd st)"

definition gws_completed_default_cwd ::
    "gw_store \<Rightarrow> string \<Rightarrow> string \<Rightarrow> u64 \<Rightarrow> string \<Rightarrow> string \<Rightarrow> u64 \<Rightarrow> path
      \<Rightarrow> workspace_default_cwd_result option res" where
  "gws_completed_default_cwd s op global_id global_revision node_id owner_id owner_revision requested =
     (case find_completed_cwd (store_mem s) op of
        None \<Rightarrow> Inr None
      | Some c \<Rightarrow>
          (let request = cd_request c in
           if pd_global_workspace_id request \<noteq> global_id
              \<or> pd_expected_global_revision request \<noteq> global_revision
              \<or> pd_node_id request \<noteq> node_id
              \<or> pd_owner_workspace_id request \<noteq> owner_id
              \<or> pd_expected_owner_revision request \<noteq> owner_revision
              \<or> pd_requested_default_cwd request \<noteq> requested
           then Inl operation_conflict
           else Inr (Some (cd_result c))))"

section \<open>Default-directory operations\<close>

definition cwd_request ::
    "string \<Rightarrow> string \<Rightarrow> u64 \<Rightarrow> string \<Rightarrow> string \<Rightarrow> u64 \<Rightarrow> path \<Rightarrow> path
      \<Rightarrow> pending_default_cwd_operation" where
  "cwd_request op global_id global_revision node_id owner_id owner_revision requested cwd =
     \<lparr>pd_operation_id = op, pd_global_workspace_id = global_id,
      pd_expected_global_revision = global_revision, pd_node_id = node_id,
      pd_owner_workspace_id = owner_id, pd_expected_owner_revision = owner_revision,
      pd_requested_default_cwd = requested, pd_default_cwd = cwd, pd_owner_attempted = False,
      pd_completion_reservation = spaces (8 * 1024)\<rparr>"

definition prepare_default_cwd_op ::
    "gw_env \<Rightarrow> pending_default_cwd_operation \<Rightarrow> gw_state
      \<Rightarrow> (prepared_default_cwd_operation \<times> gw_state) res" where
  "prepare_default_cwd_op env request st =
     (let op = pd_operation_id request in
      if list_ex (\<lambda>p. pr_operation_id p = op) (gs_pending_resources st)
         \<or> list_ex (\<lambda>c. co_operation_id c = op) (gs_completed_operations st)
      then Inl operation_conflict
      else case find_completed_cwd st op of
        Some c \<Rightarrow>
          (if \<not> same_default_cwd_request (cd_request c) request then Inl operation_conflict
           else Inr (PreparedCwdCompleted (cd_result c), st))
      | None \<Rightarrow>
        (case List.find (\<lambda>p. pd_operation_id p = op) (gs_pending_cwd st) of
           Some p \<Rightarrow>
             (if \<not> same_default_cwd_request p request then Inl operation_conflict
              else Inr (PreparedCwdPending p, st))
         | None \<Rightarrow>
             bind_res (ensure_no_pending_resource st (pd_global_workspace_id request)) (\<lambda>_.
             bind_res (ok_or (find_workspace st (pd_global_workspace_id request)) workspace_not_found) (\<lambda>w.
             bind_res (require_revision (gw_revision w) (pd_expected_global_revision request)
                         ''global Workspace'') (\<lambda>_.
             if gw_closing w then Inl close_in_progress
             else
             bind_res (ok_or (find_placement w (pd_node_id request))
                         (IoError NotFound ''Workspace placement not found'')) (\<lambda>pl.
             if pl_workspace_id pl \<noteq> pd_owner_workspace_id request
             then Inl (IoError NotFound ''exact owner Workspace placement not found'')
             else
             bind_res (require_revision (pl_owner_revision pl) (pd_expected_owner_revision request)
                         ''owner Workspace'') (\<lambda>_.
             bind_res (compact_prepared_state env
                         (st\<lparr>gs_pending_cwd := gs_pending_cwd st @ [request]\<rparr>)) (\<lambda>st'.
               Inr (PreparedCwdPending request, st')))))))))"

definition gws_prepare_default_cwd ::
    "gw_env \<Rightarrow> string \<Rightarrow> string \<Rightarrow> u64 \<Rightarrow> string \<Rightarrow> string \<Rightarrow> u64 \<Rightarrow> path \<Rightarrow> path \<Rightarrow> gw_store
      \<Rightarrow> prepared_default_cwd_operation res \<times> gw_store" where
  "gws_prepare_default_cwd env op global_id global_revision node_id owner_id owner_revision requested cwd s =
     gws_mutate env (prepare_default_cwd_op env
       (cwd_request op global_id global_revision node_id owner_id owner_revision requested cwd)) s"

definition cwd_not_found :: io_error where
  "cwd_not_found = IoError NotFound ''prepared default cwd operation not found''"

definition mark_default_cwd_owner_attempted_op ::
    "pending_default_cwd_operation \<Rightarrow> gw_state \<Rightarrow> (pending_default_cwd_operation \<times> gw_state) res" where
  "mark_default_cwd_owner_attempted_op operation st =
     bind_res (ok_or (List.find (\<lambda>p. pd_operation_id p = pd_operation_id operation) (gs_pending_cwd st))
                 cwd_not_found) (\<lambda>p.
       if \<not> same_default_cwd_request p operation then Inl operation_conflict
       else Inr (p\<lparr>pd_owner_attempted := True\<rparr>,
                 st\<lparr>gs_pending_cwd :=
                      update_first (\<lambda>q. pd_operation_id q = pd_operation_id operation)
                        (\<lambda>q. q\<lparr>pd_owner_attempted := True\<rparr>) (gs_pending_cwd st)\<rparr>))"

definition cancel_default_cwd_if_never_attempted_op ::
    "pending_default_cwd_operation \<Rightarrow> gw_state \<Rightarrow> (bool \<times> gw_state) res" where
  "cancel_default_cwd_if_never_attempted_op operation st =
     (case position (\<lambda>p. pd_operation_id p = pd_operation_id operation) (gs_pending_cwd st) of
        None \<Rightarrow> Inr (False, st)
      | Some i \<Rightarrow>
          (if \<not> same_default_cwd_request (gs_pending_cwd st ! i) operation then Inl operation_conflict
           else if pd_owner_attempted (gs_pending_cwd st ! i) then Inr (False, st)
           else Inr (True, st\<lparr>gs_pending_cwd := remove_at i (gs_pending_cwd st)\<rparr>)))"

definition cancel_default_cwd_op ::
    "pending_default_cwd_operation \<Rightarrow> gw_state \<Rightarrow> (bool \<times> gw_state) res" where
  "cancel_default_cwd_op operation st =
     (case position (\<lambda>p. pd_operation_id p = pd_operation_id operation) (gs_pending_cwd st) of
        None \<Rightarrow> Inr (False, st)
      | Some i \<Rightarrow>
          (if \<not> same_default_cwd_request (gs_pending_cwd st ! i) operation then Inl operation_conflict
           else Inr (True, st\<lparr>gs_pending_cwd := remove_at i (gs_pending_cwd st)\<rparr>)))"

definition push_completed_cwd ::
    "completed_default_cwd_operation \<Rightarrow> completed_default_cwd_operation list
      \<Rightarrow> completed_default_cwd_operation list" where
  "push_completed_cwd c cs =
     (let cs' = cs @ [c] in if length cs' > max_completed_operations then remove_at 0 cs' else cs')"

definition complete_default_cwd_op ::
    "gw_env \<Rightarrow> pending_default_cwd_operation \<Rightarrow> workspace_snapshot \<Rightarrow> gw_state
      \<Rightarrow> (workspace_default_cwd_result \<times> gw_state) res" where
  "complete_default_cwd_op env operation owner st =
     (case find_completed_cwd st (pd_operation_id operation) of
        Some c \<Rightarrow>
          (if \<not> same_default_cwd_request (cd_request c) operation then Inl operation_conflict
           else Inr (cd_result c, st))
      | None \<Rightarrow>
        bind_res (ok_or (position (\<lambda>p. pd_operation_id p = pd_operation_id operation) (gs_pending_cwd st))
                    cwd_not_found) (\<lambda>i.
        let p = gs_pending_cwd st ! i in
        if \<not> same_default_cwd_request p operation
           \<or> ws_id owner \<noteq> pd_owner_workspace_id p
           \<or> ws_default_cwd owner \<noteq> Some (pd_default_cwd p)
        then Inl operation_conflict
        else
        bind_res (case u64_checked_sub (ws_revision owner) (pd_expected_owner_revision p) of
                    Some d \<Rightarrow> (if d = 0 then Inr False else if d = 1 then Inr True
                               else Inl operation_conflict)
                  | None \<Rightarrow> Inl operation_conflict) (\<lambda>changed.
        bind_res (ok_or (find_workspace st (pd_global_workspace_id p))
                    (invalid ''prepared global Workspace is missing'')) (\<lambda>w.
        bind_res (ok_or (List.find (\<lambda>q. pl_node_id q = pd_node_id p
                                       \<and> pl_workspace_id q = pd_owner_workspace_id p) (gw_placements w))
                    (invalid ''prepared Workspace placement is missing'')) (\<lambda>pl.
        if pl_owner_revision pl \<noteq> pd_expected_owner_revision p then Inl operation_conflict
        else
        let placements' = update_first (\<lambda>q. pl_node_id q = pd_node_id p
                                            \<and> pl_workspace_id q = pd_owner_workspace_id p)
                            (\<lambda>q. q\<lparr>pl_owner_revision := ws_revision owner,
                                   pl_default_cwd := Some (pd_default_cwd p)\<rparr>) (gw_placements w) in
        bind_res (if changed then gw_next (gw_revision w) else Inr (gw_revision w)) (\<lambda>revision.
        let w' = w\<lparr>gw_placements := placements', gw_revision := revision\<rparr>;
            result = \<lparr>dcr_workspace_id = gw_id w, dcr_node_id = pd_node_id p,
                      dcr_owner_workspace_id = pd_owner_workspace_id p,
                      dcr_default_cwd = pd_default_cwd p, dcr_global_revision = revision,
                      dcr_owner_revision = ws_revision owner,
                      dcr_result = (if changed then ''updated'' else ''unchanged'')\<rparr>;
            done = \<lparr>cd_request = p\<lparr>pd_completion_reservation := []\<rparr>, cd_result = result\<rparr>;
            st1 = (put_workspace w' st)
                    \<lparr>gs_pending_cwd := remove_at i (gs_pending_cwd st),
                     gs_completed_cwd := push_completed_cwd done (gs_completed_cwd st)\<rparr> in
        bind_res (compact_prepared_state env st1) (\<lambda>st'. Inr (result, st'))))))))"

section \<open>Creating, adopting and linking Workspaces\<close>

definition name_exists :: io_error where
  "name_exists = IoError AlreadyExists ''global Workspace name already exists''"

text \<open>\<open>fresh\<close> is the identifier that \<open>Uuid::new_v4\<close> returns.\<close>

definition create_op :: "string \<Rightarrow> string \<Rightarrow> gw_state \<Rightarrow> (global_workspace_snapshot \<times> gw_state) res" where
  "create_op fresh name st =
     (if name_taken name st then Inl name_exists
      else if length (gs_workspaces st) \<ge> max_workspaces
      then Inl (invalid ''coordinator Workspace limit reached'')
      else let w = \<lparr>gw_id = fresh, gw_revision = 1, gw_name = name, gw_closing = False,
                    gw_placements = []\<rparr>
           in Inr (w, st\<lparr>gs_workspaces := gs_workspaces st @ [w]\<rparr>))"

definition gws_create ::
    "gw_env \<Rightarrow> string \<Rightarrow> string \<Rightarrow> gw_store \<Rightarrow> global_workspace_snapshot res \<times> gw_store" where
  "gws_create env fresh name s =
     guarded (gw_validate_name name) (gws_mutate env (create_op fresh name) s) s"

definition adopt_op ::
    "string \<Rightarrow> string \<Rightarrow> workspace_snapshot \<Rightarrow> gw_state \<Rightarrow> (global_workspace_snapshot \<times> gw_state) res" where
  "adopt_op fresh node_id owner st =
     bind_res (ensure_owner_unlinked st node_id (ws_id owner)) (\<lambda>_.
       if name_taken (ws_name owner) st
       then Inl (IoError AlreadyExists
              ''global Workspace name already exists; equal names are never merged'')
       else let w = \<lparr>gw_id = fresh, gw_revision = 1, gw_name = ws_name owner, gw_closing = False,
                     gw_placements = [gw_placement node_id owner PlActive]\<rparr>
            in Inr (w, st\<lparr>gs_workspaces := gs_workspaces st @ [w]\<rparr>))"

definition gws_adopt ::
    "gw_env \<Rightarrow> string \<Rightarrow> string \<Rightarrow> workspace_snapshot \<Rightarrow> u64 \<Rightarrow> gw_store
      \<Rightarrow> global_workspace_snapshot res \<times> gw_store" where
  "gws_adopt env fresh node_id owner expected s =
     guarded (require_revision (ws_revision owner) expected ''owner Workspace'')
       (gws_mutate env (adopt_op fresh node_id owner) s) s"

definition link_op ::
    "string \<Rightarrow> u64 \<Rightarrow> string \<Rightarrow> workspace_snapshot \<Rightarrow> gw_state
      \<Rightarrow> (global_workspace_snapshot \<times> gw_state) res" where
  "link_op global_id expected node_id owner st =
     bind_res (ensure_owner_unlinked st node_id (ws_id owner)) (\<lambda>_.
     bind_res (ensure_no_pending_resource st global_id) (\<lambda>_.
     bind_res (ok_or (find_workspace st global_id) workspace_not_found) (\<lambda>w.
     bind_res (require_revision (gw_revision w) expected ''global Workspace'') (\<lambda>_.
       if gw_closing w then Inl close_in_progress
       else if list_ex (\<lambda>p. pl_node_id p = node_id) (gw_placements w)
       then Inl (IoError AlreadyExists ''Workspace already has a placement on this Node'')
       else bind_res (gw_next (gw_revision w)) (\<lambda>revision.
         let w' = w\<lparr>gw_revision := revision,
                    gw_placements := sort_placements
                      (gw_placements w @ [gw_placement node_id owner PlActive])\<rparr>
         in Inr (w', put_workspace w' st))))))"

definition gws_link ::
    "gw_env \<Rightarrow> string \<Rightarrow> u64 \<Rightarrow> string \<Rightarrow> workspace_snapshot \<Rightarrow> u64 \<Rightarrow> gw_store
      \<Rightarrow> global_workspace_snapshot res \<times> gw_store" where
  "gws_link env global_id expected_global node_id owner expected_owner s =
     guarded (require_revision (ws_revision owner) expected_owner ''owner Workspace'')
       (gws_mutate env (link_op global_id expected_global node_id owner) s) s"

definition rename_op ::
    "string \<Rightarrow> u64 \<Rightarrow> string \<Rightarrow> gw_state \<Rightarrow> (global_workspace_snapshot \<times> gw_state) res" where
  "rename_op i expected name st =
     bind_res (ensure_no_pending_resource st i) (\<lambda>_.
       if list_ex (\<lambda>w. gw_id w \<noteq> i \<and> gw_name w = name) (gs_workspaces st) then Inl name_exists
       else bind_res (ok_or (find_workspace st i) workspace_not_found) (\<lambda>w.
            bind_res (require_revision (gw_revision w) expected ''global Workspace'') (\<lambda>_.
              if gw_closing w then Inl close_in_progress
              else if gw_name w \<noteq> name then
                bind_res (gw_next (gw_revision w)) (\<lambda>revision.
                  let w' = w\<lparr>gw_name := name, gw_revision := revision\<rparr>
                  in Inr (w', put_workspace w' st))
              else Inr (w, st))))"

definition gws_rename ::
    "gw_env \<Rightarrow> string \<Rightarrow> u64 \<Rightarrow> string \<Rightarrow> gw_store \<Rightarrow> global_workspace_snapshot res \<times> gw_store" where
  "gws_rename env i expected name s =
     guarded (gw_validate_name name) (gws_mutate env (rename_op i expected name) s) s"

section \<open>Closing\<close>

definition begin_close_op ::
    "string \<Rightarrow> u64 \<Rightarrow> gw_state \<Rightarrow> (global_workspace_snapshot \<times> gw_state) res" where
  "begin_close_op i expected st =
     bind_res (ensure_no_pending_resource st i) (\<lambda>_.
     bind_res (ok_or (find_workspace st i) workspace_not_found) (\<lambda>w.
     bind_res (require_revision (gw_revision w) expected ''global Workspace'') (\<lambda>_.
       if \<not> gw_closing w then
         bind_res (gw_next (gw_revision w)) (\<lambda>revision.
           let w' = w\<lparr>gw_revision := revision, gw_closing := True,
                      gw_placements := map (\<lambda>p. p\<lparr>pl_state := PlClosePending\<rparr>) (gw_placements w)\<rparr>
           in Inr (w', put_workspace w' st))
       else Inr (w, st))))"

definition confirm_closed_op ::
    "string \<Rightarrow> string \<Rightarrow> string \<Rightarrow> gw_state \<Rightarrow> (global_workspace_snapshot option \<times> gw_state) res" where
  "confirm_closed_op i node_id owner_id st =
     bind_res (ok_or (position (\<lambda>w. gw_id w = i) (gs_workspaces st)) workspace_not_found) (\<lambda>n.
       let w = gs_workspaces st ! n in
       if \<not> gw_closing w then Inl (IoError InvalidInput ''global Workspace is not closing'')
       else
         let placements' = filter (\<lambda>p. \<not> (pl_node_id p = node_id \<and> pl_workspace_id p = owner_id))
                             (gw_placements w) in
         if placements' = []
         then Inr (None, st\<lparr>gs_workspaces := remove_at n (gs_workspaces st)\<rparr>)
         else bind_res (gw_next (gw_revision w)) (\<lambda>revision.
           let w' = w\<lparr>gw_placements := placements', gw_revision := revision\<rparr>
           in Inr (Some w', st\<lparr>gs_workspaces := (gs_workspaces st)[n := w']\<rparr>)))"

definition confirm_empty_closed_op :: "string \<Rightarrow> gw_state \<Rightarrow> (unit \<times> gw_state) res" where
  "confirm_empty_closed_op i st =
     bind_res (ok_or (position (\<lambda>w. gw_id w = i) (gs_workspaces st)) workspace_not_found) (\<lambda>n.
       let w = gs_workspaces st ! n in
       if \<not> gw_closing w \<or> gw_placements w \<noteq> []
       then Inl (IoError InvalidInput ''global Workspace still has unresolved placements'')
       else Inr ((), st\<lparr>gs_workspaces := remove_at n (gs_workspaces st)\<rparr>))"

end
