(* ===== verification/Gw_Resources.thy ===== *)
theory Gw_Resources
  imports Gw_Ops
begin

text \<open>
  The prepared-resource protocol of \<open>src/src/global_workspace_store.rs\<close>: preparing the creation
  of a Shell or launcher on an owner Node, replaying a preparation, marking that the owner was
  contacted, cancelling, completing, and the staged transaction that the local Shell journal
  uses. The twelve arguments of \<open>prepare_resource_inner\<close> are the record \<open>resource_request\<close>,
  those of \<open>prepare_workspace_shell\<close> the record \<open>shell_request\<close>.
\<close>

section \<open>Preparing a resource in an existing Workspace\<close>

record resource_request =
  rq_global_id :: string
  rq_operation_id :: string
  rq_request_fingerprint :: string
  rq_request_bytes :: nat
  rq_expected_global_revision :: u64
  rq_node_id :: string
  rq_requested_owner_workspace_id :: string
  rq_owner_workspace_name :: string
  rq_default_cwd :: "path option"
  rq_resource_id :: string
  rq_kind :: pending_resource_kind
  rq_owner_attempted :: bool

definition set_pending :: "nat \<Rightarrow> (pending_workspace_resource \<Rightarrow> pending_workspace_resource) \<Rightarrow> gw_state \<Rightarrow> gw_state" where
  "set_pending i f st =
     st\<lparr>gs_pending_resources := (gs_pending_resources st)[i := f (gs_pending_resources st ! i)]\<rparr>"

definition pending_matches :: "resource_request \<Rightarrow> pending_workspace_resource \<Rightarrow> bool" where
  "pending_matches rq p \<longleftrightarrow>
     pr_global_workspace_id p = rq_global_id rq
     \<and> pr_expected_global_revision p = rq_expected_global_revision rq
     \<and> pr_node_id p = rq_node_id rq
     \<and> pr_requested_owner_workspace_id p = rq_requested_owner_workspace_id rq
     \<and> pr_owner_workspace_name p = rq_owner_workspace_name rq
     \<and> pr_default_cwd p = rq_default_cwd rq
     \<and> pr_resource_id p = rq_resource_id rq
     \<and> pr_kind p = rq_kind rq
     \<and> opt_all (\<lambda>f. f = rq_request_fingerprint rq) (pr_request_fingerprint p)"

text \<open>The reservation of a pending operation that an older schema left without one.\<close>

definition reserve_legacy ::
    "gw_env \<Rightarrow> string \<Rightarrow> string \<Rightarrow> nat \<Rightarrow> nat \<Rightarrow> gw_state \<Rightarrow> gw_state res" where
  "reserve_legacy env missing wid request_bytes i st =
     (if pr_completion_reservation (gs_pending_resources st ! i) = [] then
        bind_res (ok_or (find_workspace st wid) (invalid missing)) (\<lambda>w.
        bind_res (projected_workspace_with_pending st w None) (\<lambda>projected.
        bind_res (completion_reservation_bytes env projected request_bytes) (\<lambda>reservation.
          compact_prepared_state env
            (set_pending i (\<lambda>p. p\<lparr>pr_completion_reservation := spaces reservation\<rparr>) st))))
      else Inr st)"

definition replay_pending_resource ::
    "gw_env \<Rightarrow> resource_request \<Rightarrow> nat \<Rightarrow> gw_state \<Rightarrow> (prepared_workspace_resource \<times> gw_state) res" where
  "replay_pending_resource env rq i st =
     (if \<not> pending_matches rq (gs_pending_resources st ! i) then Inl operation_conflict
      else
        let st1 = (if pr_request_fingerprint (gs_pending_resources st ! i) = None
                   then set_pending i
                          (\<lambda>p. p\<lparr>pr_request_fingerprint := Some (rq_request_fingerprint rq)\<rparr>) st
                   else st) in
        bind_res (reserve_legacy env ''prepared Workspace is missing'' (rq_global_id rq)
                    (rq_request_bytes rq) i st1) (\<lambda>st2.
          let st3 = (if rq_owner_attempted rq
                     then set_pending i (\<lambda>p. p\<lparr>pr_owner_attempted := True\<rparr>) st2 else st2)
          in Inr (PreparedPending (gs_pending_resources st3 ! i) False, st3)))"

definition effective_pending ::
    "resource_request \<Rightarrow> global_workspace_snapshot \<Rightarrow> gw_state \<Rightarrow> pending_workspace_resource" where
  "effective_pending rq w st =
     (let prepared_owner = List.find (\<lambda>p. pr_global_workspace_id p = rq_global_id rq
                                          \<and> pr_node_id p = rq_node_id rq) (gs_pending_resources st)
      in \<lparr>pr_operation_id = rq_operation_id rq, pr_creates_workspace = False,
          pr_request_fingerprint = Some (rq_request_fingerprint rq),
          pr_semantic_fingerprint = None, pr_completion_reservation = [],
          pr_owner_attempted = rq_owner_attempted rq,
          pr_global_workspace_id = rq_global_id rq,
          pr_expected_global_revision = rq_expected_global_revision rq,
          pr_node_id = rq_node_id rq,
          pr_requested_owner_workspace_id = rq_requested_owner_workspace_id rq,
          pr_owner_workspace_id =
            (case find_placement w (rq_node_id rq) of
               Some pl \<Rightarrow> pl_workspace_id pl
             | None \<Rightarrow> (case prepared_owner of Some p \<Rightarrow> pr_owner_workspace_id p
                        | None \<Rightarrow> rq_requested_owner_workspace_id rq)),
          pr_owner_workspace_name =
            (case prepared_owner of Some p \<Rightarrow> pr_owner_workspace_name p
             | None \<Rightarrow> rq_owner_workspace_name rq),
          pr_default_cwd =
            (case prepared_owner of Some p \<Rightarrow> pr_default_cwd p | None \<Rightarrow> rq_default_cwd rq),
          pr_resource_id = rq_resource_id rq,
          pr_kind = rq_kind rq\<rparr>)"

definition prepare_new_resource ::
    "gw_env \<Rightarrow> resource_request \<Rightarrow> gw_state \<Rightarrow> (prepared_workspace_resource \<times> gw_state) res" where
  "prepare_new_resource env rq st =
     (if list_ex (\<lambda>p. pr_node_id p = rq_node_id rq \<and> pr_resource_id p = rq_resource_id rq)
           (gs_pending_resources st)
      then Inl (IoError AlreadyExists
             ''resource UUID is already reserved by another prepared operation'')
      else if length (gs_pending_resources st) \<ge> max_pending_resources
      then Inl (invalid ''coordinator pending resource limit reached'')
      else
        bind_res (ok_or (find_workspace st (rq_global_id rq)) workspace_not_found) (\<lambda>w.
        bind_res (require_revision (gw_revision w) (rq_expected_global_revision rq)
                    ''global Workspace'') (\<lambda>_.
        if gw_closing w then Inl close_in_progress
        else
        bind_res (case find_placement w (rq_node_id rq) of
                    Some pl \<Rightarrow> ensure_owner_unlinked_except st (rq_global_id rq) (rq_node_id rq)
                                 (pl_workspace_id pl)
                  | None \<Rightarrow> Inr ()) (\<lambda>_.
        let p = effective_pending rq w st in
        bind_res (ensure_owner_unlinked_except st (rq_global_id rq) (rq_node_id rq)
                    (pr_owner_workspace_id p)) (\<lambda>_.
        bind_res (reserve_new_pending_completion env st w p (rq_request_bytes rq)) (\<lambda>(st1, p').
        bind_res (compact_prepared_state env
                    (st1\<lparr>gs_pending_resources := gs_pending_resources st1 @ [p']\<rparr>)) (\<lambda>st2.
          Inr (PreparedPending p' True, st2))))))))"

definition prepare_resource_op ::
    "gw_env \<Rightarrow> resource_request \<Rightarrow> gw_state \<Rightarrow> (prepared_workspace_resource \<times> gw_state) res" where
  "prepare_resource_op env rq st =
     (case find_completed st (rq_operation_id rq) of
        Some c \<Rightarrow>
          (if co_request_fingerprint c \<noteq> rq_request_fingerprint rq then Inl operation_conflict
           else Inr (PreparedCompleted c, st))
      | None \<Rightarrow>
          (case position (\<lambda>p. pr_operation_id p = rq_operation_id rq) (gs_pending_resources st) of
             Some i \<Rightarrow> replay_pending_resource env rq i st
           | None \<Rightarrow> prepare_new_resource env rq st))"

definition prepare_resource_inner ::
    "gw_env \<Rightarrow> resource_request \<Rightarrow> gw_store \<Rightarrow> prepared_workspace_resource res \<times> gw_store" where
  "prepare_resource_inner env rq s =
     guarded (gw_validate_name (rq_owner_workspace_name rq))
       (gws_mutate env (prepare_resource_op env rq) s) s"

definition gws_prepare_resource ::
    "gw_env \<Rightarrow> resource_request \<Rightarrow> gw_store \<Rightarrow> prepared_workspace_resource res \<times> gw_store" where
  "gws_prepare_resource env rq s = prepare_resource_inner env (rq\<lparr>rq_owner_attempted := False\<rparr>) s"

definition gws_prepare_resource_for_attempt ::
    "gw_env \<Rightarrow> resource_request \<Rightarrow> gw_store \<Rightarrow> prepared_workspace_resource res \<times> gw_store" where
  "gws_prepare_resource_for_attempt env rq s =
     prepare_resource_inner env (rq\<lparr>rq_owner_attempted := True\<rparr>) s"

section \<open>Preparing a Workspace together with its first Shell\<close>

record shell_request =
  sq_operation_id :: string
  sq_request_fingerprint :: string
  sq_request_bytes :: nat
  sq_semantic_fingerprint :: string
  sq_global_workspace_id :: string
  sq_name :: string
  sq_node_id :: string
  sq_requested_owner_workspace_id :: string
  sq_default_cwd :: path
  sq_shell_id :: string

definition shell_pending_matches :: "shell_request \<Rightarrow> pending_workspace_resource \<Rightarrow> bool" where
  "shell_pending_matches sq p \<longleftrightarrow>
     pr_creates_workspace p
     \<and> pr_global_workspace_id p = sq_global_workspace_id sq
     \<and> pr_node_id p = sq_node_id sq
     \<and> pr_requested_owner_workspace_id p = sq_requested_owner_workspace_id sq
     \<and> pr_owner_workspace_name p = sq_name sq
     \<and> pr_default_cwd p = Some (sq_default_cwd sq)
     \<and> pr_resource_id p = sq_shell_id sq
     \<and> pr_kind p = KindShell
     \<and> opt_all (\<lambda>f. f = sq_request_fingerprint sq) (pr_request_fingerprint p)"

definition replay_pending_shell ::
    "gw_env \<Rightarrow> shell_request \<Rightarrow> nat \<Rightarrow> gw_state \<Rightarrow> (prepared_workspace_shell \<times> gw_state) res" where
  "replay_pending_shell env sq i st =
     (if \<not> shell_pending_matches sq (gs_pending_resources st ! i) then Inl operation_conflict
      else
        let st1 = (if pr_request_fingerprint (gs_pending_resources st ! i) = None
                   then set_pending i
                          (\<lambda>p. p\<lparr>pr_request_fingerprint := Some (sq_request_fingerprint sq),
                                 pr_semantic_fingerprint := Some (sq_semantic_fingerprint sq)\<rparr>) st
                   else st) in
        bind_res (reserve_legacy env ''prepared project Workspace is missing''
                    (sq_global_workspace_id sq) (sq_request_bytes sq) i st1) (\<lambda>st2.
          let p = gs_pending_resources st2 ! i in
          bind_res (ok_or (find_workspace st2 (pr_global_workspace_id p))
                      (invalid ''prepared project Workspace is missing'')) (\<lambda>w.
            Inr (PreparedShellPending w p, st2))))"

definition same_semantics :: "shell_request \<Rightarrow> pending_workspace_resource \<Rightarrow> bool" where
  "same_semantics sq p \<longleftrightarrow>
     (pr_semantic_fingerprint p = Some (sq_semantic_fingerprint sq)
      \<or> pr_semantic_fingerprint p = None
        \<and> pr_node_id p = sq_node_id sq \<and> pr_owner_workspace_name p = sq_name sq
        \<and> pr_default_cwd p = Some (sq_default_cwd sq))
     \<and> pr_kind p = KindShell"

text \<open>A second request for a Workspace name that already exists: it joins an equivalent
  completed or pending operation, or fails.\<close>

definition join_existing_shell ::
    "gw_env \<Rightarrow> shell_request \<Rightarrow> global_workspace_snapshot \<Rightarrow> gw_state
      \<Rightarrow> (prepared_workspace_shell \<times> gw_state) res" where
  "join_existing_shell env sq w st =
     (case List.find (\<lambda>c. co_creates_workspace c \<and> gw_id (co_workspace c) = gw_id w
                         \<and> co_semantic_fingerprint c = Some (sq_semantic_fingerprint sq))
             (rev (gs_completed_operations st)) of
        Some c \<Rightarrow>
          (let replay = c\<lparr>co_operation_id := sq_operation_id sq,
                          co_request_fingerprint := sq_request_fingerprint sq\<rparr>
           in bind_res (push_completed env st replay) (\<lambda>st'.
                Inr (PreparedShellCompleted replay, st')))
      | None \<Rightarrow>
          (case position (\<lambda>p. pr_creates_workspace p \<and> pr_global_workspace_id p = gw_id w
                              \<and> same_semantics sq p) (gs_pending_resources st) of
             Some i \<Rightarrow>
               (if length (gs_pending_resources st) \<ge> max_pending_resources
                then Inl (invalid ''coordinator pending resource limit reached'')
                else
                  let st1 = (if pr_semantic_fingerprint (gs_pending_resources st ! i) = None
                             then set_pending i (\<lambda>p. p\<lparr>pr_semantic_fingerprint :=
                                                       Some (sq_semantic_fingerprint sq)\<rparr>) st
                             else st);
                      existing = gs_pending_resources st1 ! i;
                      p = existing\<lparr>pr_operation_id := sq_operation_id sq,
                            pr_creates_workspace := True,
                            pr_request_fingerprint := Some (sq_request_fingerprint sq),
                            pr_semantic_fingerprint := Some (sq_semantic_fingerprint sq),
                            pr_completion_reservation := [],
                            pr_owner_attempted := False,
                            pr_requested_owner_workspace_id := sq_requested_owner_workspace_id sq,
                            pr_kind := KindShell\<rparr>
                  in bind_res (reserve_new_pending_completion env st1 w p (sq_request_bytes sq)) (\<lambda>(st2, p').
                     bind_res (compact_prepared_state env
                       (st2\<lparr>gs_pending_resources := gs_pending_resources st2 @ [p']\<rparr>)) (\<lambda>st3.
                       Inr (PreparedShellPending w p', st3))))
           | None \<Rightarrow> Inl name_exists))"

definition prepare_new_shell ::
    "gw_env \<Rightarrow> shell_request \<Rightarrow> gw_state \<Rightarrow> (prepared_workspace_shell \<times> gw_state) res" where
  "prepare_new_shell env sq st =
     (if length (gs_workspaces st) \<ge> max_workspaces
         \<or> length (gs_pending_resources st) \<ge> max_pending_resources
      then Inl (invalid ''coordinator Workspace preparation limit reached'')
      else if list_ex (\<lambda>w. gw_id w = sq_global_workspace_id sq) (gs_workspaces st)
              \<or> list_ex (\<lambda>p. pr_operation_id p = sq_operation_id sq) (gs_pending_resources st)
      then Inl (IoError AlreadyExists ''prepared project identity already exists'')
      else
        let w = \<lparr>gw_id = sq_global_workspace_id sq, gw_revision = 1, gw_name = sq_name sq,
                 gw_closing = False, gw_placements = []\<rparr>;
            p = \<lparr>pr_operation_id = sq_operation_id sq, pr_creates_workspace = True,
                 pr_request_fingerprint = Some (sq_request_fingerprint sq),
                 pr_semantic_fingerprint = Some (sq_semantic_fingerprint sq),
                 pr_completion_reservation = [], pr_owner_attempted = False,
                 pr_global_workspace_id = sq_global_workspace_id sq,
                 pr_expected_global_revision = 1, pr_node_id = sq_node_id sq,
                 pr_requested_owner_workspace_id = sq_requested_owner_workspace_id sq,
                 pr_owner_workspace_id = sq_requested_owner_workspace_id sq,
                 pr_owner_workspace_name = sq_name sq,
                 pr_default_cwd = Some (sq_default_cwd sq),
                 pr_resource_id = sq_shell_id sq, pr_kind = KindShell\<rparr>
        in bind_res (reserve_new_pending_completion env st w p (sq_request_bytes sq)) (\<lambda>(st1, p').
           bind_res (compact_prepared_state env
             (st1\<lparr>gs_workspaces := gs_workspaces st1 @ [w],
                  gs_pending_resources := gs_pending_resources st1 @ [p']\<rparr>)) (\<lambda>st2.
             Inr (PreparedShellPending w p', st2))))"

definition prepare_workspace_shell_op ::
    "gw_env \<Rightarrow> shell_request \<Rightarrow> gw_state \<Rightarrow> (prepared_workspace_shell \<times> gw_state) res" where
  "prepare_workspace_shell_op env sq st =
     (case find_completed st (sq_operation_id sq) of
        Some c \<Rightarrow>
          (if co_request_fingerprint c \<noteq> sq_request_fingerprint sq then Inl operation_conflict
           else Inr (PreparedShellCompleted c, st))
      | None \<Rightarrow>
          (case position (\<lambda>p. pr_operation_id p = sq_operation_id sq) (gs_pending_resources st) of
             Some i \<Rightarrow> replay_pending_shell env sq i st
           | None \<Rightarrow>
               (case List.find (\<lambda>w. gw_name w = sq_name sq) (gs_workspaces st) of
                  Some w \<Rightarrow> join_existing_shell env sq w st
                | None \<Rightarrow> prepare_new_shell env sq st)))"

definition gws_prepare_workspace_shell ::
    "gw_env \<Rightarrow> shell_request \<Rightarrow> gw_store \<Rightarrow> prepared_workspace_shell res \<times> gw_store" where
  "gws_prepare_workspace_shell env sq s =
     guarded (gw_validate_name (sq_name sq)) (gws_mutate env (prepare_workspace_shell_op env sq) s) s"

section \<open>Cancelling, marking and completing\<close>

definition pending_not_found :: io_error where
  "pending_not_found = IoError NotFound ''pending Workspace resource not found''"

definition find_completed_of ::
    "gw_state \<Rightarrow> pending_workspace_resource \<Rightarrow> completed_workspace_operation option" where
  "find_completed_of st p =
     List.find (\<lambda>c. co_operation_id c = pr_operation_id p
                   \<and> Some (co_request_fingerprint c) = pr_request_fingerprint p)
       (gs_completed_operations st)"

definition cancel_resource_op :: "pending_workspace_resource \<Rightarrow> gw_state \<Rightarrow> (unit \<times> gw_state) res" where
  "cancel_resource_op p st =
     (case position (\<lambda>c. pr_operation_id c = pr_operation_id p) (gs_pending_resources st) of
        None \<Rightarrow> (if find_completed_of st p \<noteq> None then Inr ((), st) else Inl pending_not_found)
      | Some i \<Rightarrow>
          (let q = gs_pending_resources st ! i in
           if pr_request_fingerprint q \<noteq> pr_request_fingerprint p then Inl operation_conflict
           else if pr_creates_workspace q \<and> pr_owner_attempted q then Inr ((), st)
           else Inr ((), remove_pending_at st i)))"

definition cancel_pending_operation_if_never_attempted_op ::
    "string \<Rightarrow> string \<Rightarrow> gw_state \<Rightarrow> (bool \<times> gw_state) res" where
  "cancel_pending_operation_if_never_attempted_op op fingerprint st =
     (case position (\<lambda>p. pr_operation_id p = op) (gs_pending_resources st) of
        None \<Rightarrow> Inr (False, st)
      | Some i \<Rightarrow>
          (let q = gs_pending_resources st ! i in
           if \<not> opt_all (\<lambda>f. f = fingerprint) (pr_request_fingerprint q) then Inl operation_conflict
           else if pr_owner_attempted q then Inr (False, st)
           else Inr (True, remove_pending_at st i)))"

definition mark_owner_attempted_op ::
    "pending_workspace_resource \<Rightarrow> gw_state \<Rightarrow> (pending_workspace_resource \<times> gw_state) res" where
  "mark_owner_attempted_op p st =
     bind_res (ok_or (position (\<lambda>c. pr_operation_id c = pr_operation_id p) (gs_pending_resources st))
                 pending_not_found) (\<lambda>i.
       if pr_request_fingerprint (gs_pending_resources st ! i) \<noteq> pr_request_fingerprint p
       then Inl operation_conflict
       else let st' = set_pending i (\<lambda>q. q\<lparr>pr_owner_attempted := True\<rparr>) st
            in Inr (gs_pending_resources st' ! i, st'))"

text \<open>The placement that a completed operation leaves in its Workspace.\<close>

definition link_completed ::
    "pending_workspace_resource \<Rightarrow> workspace_snapshot \<Rightarrow> global_workspace_snapshot
      \<Rightarrow> global_workspace_snapshot res" where
  "link_completed q owner w =
     (case find_placement w (pr_node_id q) of
        Some existing \<Rightarrow>
          (if pl_workspace_id existing \<noteq> ws_id owner
           then Inl (IoError AlreadyExists ''Workspace already has a different placement on this Node'')
           else Inr (w\<lparr>gw_placements := update_first (\<lambda>pl. pl_node_id pl = pr_node_id q)
                        (\<lambda>pl. pl\<lparr>pl_owner_workspace_name := Some (ws_name owner),
                                pl_owner_revision := ws_revision owner,
                                pl_default_cwd := ws_default_cwd owner,
                                pl_state := PlActive\<rparr>) (gw_placements w)\<rparr>))
      | None \<Rightarrow>
          bind_res (gw_next (gw_revision w)) (\<lambda>revision.
            Inr (w\<lparr>gw_revision := revision,
                   gw_placements := sort_placements
                     (gw_placements w @ [gw_placement (pr_node_id q) owner PlActive])\<rparr>)))"

definition complete_pending ::
    "gw_env \<Rightarrow> nat \<Rightarrow> workspace_snapshot \<Rightarrow> routed_operation_result \<Rightarrow> gw_state
      \<Rightarrow> (completed_workspace_operation \<times> gw_state) res" where
  "complete_pending env i owner resource st =
     (let q = gs_pending_resources st ! i in
      if ws_id owner \<noteq> pr_owner_workspace_id q \<or> ws_name owner \<noteq> pr_owner_workspace_name q
         \<or> ws_default_cwd owner \<noteq> pr_default_cwd q
      then Inl (invalid ''owner Workspace metadata does not match the prepared operation'')
      else
        bind_res (ensure_owner_unlinked_except st (pr_global_workspace_id q) (pr_node_id q) (ws_id owner)) (\<lambda>_.
        bind_res (ok_or (find_workspace st (pr_global_workspace_id q)) workspace_not_found) (\<lambda>w.
        bind_res (link_completed q owner w) (\<lambda>w'.
        bind_res (ok_or (pr_request_fingerprint q)
                    (invalid ''legacy prepared operation has no request fingerprint'')) (\<lambda>fingerprint.
          let completed = \<lparr>co_operation_id = pr_operation_id q,
                           co_request_fingerprint = fingerprint,
                           co_semantic_fingerprint = pr_semantic_fingerprint q,
                           co_creates_workspace = pr_creates_workspace q,
                           co_workspace = w', co_resource = resource\<rparr> in
          bind_res (env_completed_len env completed) (\<lambda>completed_bytes.
            if pr_completion_reservation q \<noteq> []
               \<and> completed_bytes > length (pr_completion_reservation q)
            then Inl (invalid ''completed Workspace operation exceeded its prepared capacity reservation'')
            else bind_res (push_completed env
                   ((put_workspace w' st)
                      \<lparr>gs_pending_resources := remove_at i (gs_pending_resources st)\<rparr>) completed) (\<lambda>st'.
                   Inr (completed, st'))))))))"

definition complete_resource_op ::
    "gw_env \<Rightarrow> pending_workspace_resource \<Rightarrow> workspace_snapshot \<Rightarrow> routed_operation_result \<Rightarrow> gw_state
      \<Rightarrow> (completed_workspace_operation \<times> gw_state) res" where
  "complete_resource_op env p owner resource st =
     (case position (\<lambda>c. pr_operation_id c = pr_operation_id p) (gs_pending_resources st) of
        None \<Rightarrow> bind_res (ok_or (find_completed_of st p) pending_not_found) (\<lambda>c. Inr (c, st))
      | Some i \<Rightarrow>
          (if pr_request_fingerprint (gs_pending_resources st ! i) \<noteq> pr_request_fingerprint p
           then Inl operation_conflict
           else complete_pending env i owner resource st))"

definition gws_complete_resource ::
    "gw_env \<Rightarrow> pending_workspace_resource \<Rightarrow> workspace_snapshot \<Rightarrow> routed_operation_result \<Rightarrow> gw_store
      \<Rightarrow> completed_workspace_operation res \<times> gw_store" where
  "gws_complete_resource env p owner resource s =
     gws_mutate env (complete_resource_op env p owner resource) s"

definition gws_reconcile_resource ::
    "gw_env \<Rightarrow> pending_workspace_resource \<Rightarrow> (workspace_snapshot \<times> routed_operation_result) option
      \<Rightarrow> gw_store \<Rightarrow> completed_workspace_operation option res \<times> gw_store" where
  "gws_reconcile_resource env p observed s =
     (case observed of
        Some (owner, resource) \<Rightarrow>
          (case gws_complete_resource env p owner resource s of
             (Inl e, s') \<Rightarrow> (Inl e, s')
           | (Inr c, s') \<Rightarrow> (Inr (Some c), s'))
      | None \<Rightarrow> (Inr None, s))"

section \<open>Staged transactions\<close>

record gw_transaction =
  tx_target :: gw_store
  tx_staged :: gw_store

definition gws_transaction :: "gw_store \<Rightarrow> gw_transaction" where
  "gws_transaction s = \<lparr>tx_target = s, tx_staged = s\<lparr>store_persist := False\<rparr>\<rparr>"

definition tx_run ::
    "(gw_store \<Rightarrow> 'r res \<times> gw_store) \<Rightarrow> gw_transaction \<Rightarrow> 'r res \<times> gw_transaction" where
  "tx_run f t = (case f (tx_staged t) of (r, s') \<Rightarrow> (r, t\<lparr>tx_staged := s'\<rparr>))"

definition tx_get :: "gw_transaction \<Rightarrow> string \<Rightarrow> global_workspace_snapshot res" where
  "tx_get t i = gws_get (tx_staged t) i"

definition tx_prepare_resource_for_attempt ::
    "gw_env \<Rightarrow> resource_request \<Rightarrow> gw_transaction \<Rightarrow> prepared_workspace_resource res \<times> gw_transaction" where
  "tx_prepare_resource_for_attempt env rq t = tx_run (gws_prepare_resource_for_attempt env rq) t"

definition tx_complete_resource ::
    "gw_env \<Rightarrow> pending_workspace_resource \<Rightarrow> workspace_snapshot \<Rightarrow> routed_operation_result
      \<Rightarrow> gw_transaction \<Rightarrow> completed_workspace_operation res \<times> gw_transaction" where
  "tx_complete_resource env p owner resource t = tx_run (gws_complete_resource env p owner resource) t"

definition tx_commit :: "gw_env \<Rightarrow> gw_transaction \<Rightarrow> unit res \<times> gw_store" where
  "tx_commit env t =
     (case gw_validate env (store_mem (tx_staged t)) of
        Inl e \<Rightarrow> (Inl e, tx_target t)
      | Inr _ \<Rightarrow> (Inr (), (tx_target t)\<lparr>store_mem := store_mem (tx_staged t)\<rparr>))"

end
