(* ===== verification/Store_Contracts.thy ===== *)
theory Store_Contracts
  imports Prelude
begin

text \<open>
  The interfaces that the persistent components share. Each of the coordinator's Workspace
  store, the Node registrations and the projection cache clones its state, changes the clone,
  checks it, writes it, and only then replaces the state in memory; \<open>durable_store\<close> states
  that contract and proves once what a client may conclude about sequences of operations and
  about a restart. \<open>revision_guarded\<close> is the contract of the operations that take the revision
  or generation the caller saw: at most one of several racing callers changes anything.
\<close>

section \<open>Stores that replace their state atomically\<close>

locale durable_store =
  fixes run :: "'c \<Rightarrow> 's \<Rightarrow> io_error option \<times> 's"
    and mem :: "'s \<Rightarrow> 'm"
    and disk :: "'s \<Rightarrow> 'm option"
    and valid :: "'m \<Rightarrow> bool"
    and ready :: "'s \<Rightarrow> bool"
  assumes failure_frame:
      "ready s \<Longrightarrow> run c s = (Some e, s') \<Longrightarrow> mem s' = mem s \<and> disk s' = disk s"
    and success_frame:
      "ready s \<Longrightarrow> run c s = (None, s') \<Longrightarrow>
         disk s' = Some (mem s') \<or> mem s' = mem s \<and> disk s' = disk s"
    and success_valid:
      "ready s \<Longrightarrow> valid (mem s) \<Longrightarrow> run c s = (None, s') \<Longrightarrow> valid (mem s')"
    and ready_run: "ready s \<Longrightarrow> run c s = (r, s') \<Longrightarrow> ready s'"
begin

lemma step_frame:
  assumes "ready s" and "run c s = (r, s')"
  shows "disk s' = Some (mem s') \<or> mem s' = mem s \<and> disk s' = disk s"
  using assms failure_frame success_frame by (cases r) blast+

lemma step_valid:
  assumes "ready s" and "valid (mem s)" and "run c s = (r, s')"
  shows "valid (mem s')"
  using assms failure_frame success_valid by (cases r) metis+

lemma step_durable:
  assumes "ready s" and "disk s = Some (mem s)" and "run c s = (r, s')"
  shows "disk s' = Some (mem s')"
  using step_frame [OF assms(1,3)] assms(2) by auto

lemma step_recoverable:
  assumes "ready s" and "valid (mem s)" and "\<And>m. disk s = Some m \<Longrightarrow> valid m"
    and "run c s = (r, s')" and "disk s' = Some m"
  shows "valid m"
  using step_frame [OF assms(1,4)] step_valid [OF assms(1,2,4)] assms(3,5) by auto

text \<open>What holds after any sequence of operations, failed ones included.\<close>

lemma fold_invariant:
  assumes "ready s" and "valid (mem s)" and "\<And>m. disk s = Some m \<Longrightarrow> valid m"
  shows "ready (fold (\<lambda>c s. snd (run c s)) cs s) \<and> valid (mem (fold (\<lambda>c s. snd (run c s)) cs s))
    \<and> (\<forall>m. disk (fold (\<lambda>c s. snd (run c s)) cs s) = Some m \<longrightarrow> valid m)"
  using assms
proof (induction cs arbitrary: s)
  case Nil
  then show ?case by simp
next
  case (Cons c cs)
  obtain r s' where run: "run c s = (r, s')" by (cases "run c s")
  have "ready s'" "valid (mem s')" "\<And>m. disk s' = Some m \<Longrightarrow> valid m"
    using Cons.prems run ready_run step_valid step_recoverable by blast+
  then show ?case using Cons.IH run by simp
qed

lemma fold_valid:
  assumes "ready s" and "valid (mem s)"
  shows "valid (mem (fold (\<lambda>c s. snd (run c s)) cs s))"
  using assms
proof (induction cs arbitrary: s)
  case Nil
  then show ?case by simp
next
  case (Cons c cs)
  obtain r s' where run: "run c s = (r, s')" by (cases "run c s")
  then have "ready s'" "valid (mem s')" using Cons.prems ready_run step_valid by blast+
  then show ?case using Cons.IH run by simp
qed

lemma fold_durable:
  assumes "ready s" and "disk s = Some (mem s)"
  shows "disk (fold (\<lambda>c s. snd (run c s)) cs s) = Some (mem (fold (\<lambda>c s. snd (run c s)) cs s))"
  using assms
proof (induction cs arbitrary: s)
  case Nil
  then show ?case by simp
next
  case (Cons c cs)
  obtain r s' where run: "run c s = (r, s')" by (cases "run c s")
  then have "ready s'" "disk s' = Some (mem s')"
    using Cons.prems ready_run step_durable by blast+
  then show ?case using Cons.IH run by simp
qed

end

section \<open>Operations guarded by the revision the caller saw\<close>

text \<open>
  \<open>attempt expected x s\<close> is the state an accepted request leaves, or \<open>None\<close> when the request
  is refused or changes nothing; \<open>rev\<close> reads the guarded counter.
\<close>

locale revision_guarded =
  fixes attempt :: "u64 \<Rightarrow> 'x \<Rightarrow> 's \<Rightarrow> 's option"
    and rev :: "'s \<Rightarrow> u64"
  assumes attempt_current: "attempt e x s = Some s' \<Longrightarrow> rev s = e"
    and attempt_advances: "attempt e x s = Some s' \<Longrightarrow> rev s < rev s'"
begin

lemma stale_refused: "rev s \<noteq> e \<Longrightarrow> attempt e x s = None"
  using attempt_current by (cases "attempt e x s") auto

text \<open>Of two requests made against the same revision, the second is refused.\<close>

lemma race_loses:
  assumes "attempt e x s = Some s'"
  shows "attempt e y s' = None"
proof (rule stale_refused)
  show "rev s' \<noteq> e" using attempt_current [OF assms] attempt_advances [OF assms] by auto
qed

text \<open>Whatever requests follow, a revision that was passed is never current again.\<close>

lemma passed_never_current:
  assumes "rev s > e"
  shows "rev (fold (\<lambda>(e', x) s. case attempt e' x s of Some s' \<Rightarrow> s' | None \<Rightarrow> s) rs s) > e"
  using assms
proof (induction rs arbitrary: s)
  case Nil
  then show ?case by simp
next
  case (Cons r rs)
  obtain e' x where r: "r = (e', x)" by (cases r)
  show ?case
  proof (cases "attempt e' x s")
    case None
    then show ?thesis using Cons r by simp
  next
    case (Some s')
    then have "e < rev s'" using attempt_advances Cons.prems less_trans by blast
    then show ?thesis using Cons.IH Some r by simp
  qed
qed

end

end
