(* ===== verification/Gw_Commands.thy ===== *)
theory Gw_Commands
  imports Gw_Resources Store_Contracts
begin

text \<open>
  All mutating methods of \<open>GlobalWorkspaceStore\<close> as one command language, so that statements
  range over arbitrary sequences of them. The store satisfies the \<open>durable_store\<close> contract,
  and every command keeps the coordination invariant \<open>gw_quiet\<close>: a Workspace whose close is in
  progress has no prepared operation.
\<close>

section \<open>Commands\<close>

datatype gw_command =
    CmdInitialize string node_snapshot
  | CmdCreate string string
  | CmdAdopt string string workspace_snapshot u64
  | CmdLink string u64 string workspace_snapshot u64
  | CmdRename string u64 string
  | CmdBeginClose string u64
  | CmdConfirmClosed string string string
  | CmdConfirmEmptyClosed string
  | CmdPrepareCwd string string u64 string string u64 path path
  | CmdMarkCwdAttempted pending_default_cwd_operation
  | CmdCancelCwdIfNeverAttempted pending_default_cwd_operation
  | CmdCancelCwd pending_default_cwd_operation
  | CmdCompleteCwd pending_default_cwd_operation workspace_snapshot
  | CmdPrepareResource resource_request
  | CmdPrepareWorkspaceShell shell_request
  | CmdCancelResource pending_workspace_resource
  | CmdCancelPendingIfNeverAttempted string string
  | CmdMarkAttempted pending_workspace_resource
  | CmdCompleteResource pending_workspace_resource workspace_snapshot routed_operation_result
  | CmdCheckpoint

definition outcome :: "'r res \<times> gw_store \<Rightarrow> io_error option \<times> gw_store" where
  "outcome rs = (case rs of (Inl e, s) \<Rightarrow> (Some e, s) | (Inr _, s) \<Rightarrow> (None, s))"

fun gw_exec :: "gw_env \<Rightarrow> gw_command \<Rightarrow> gw_store \<Rightarrow> io_error option \<times> gw_store" where
  "gw_exec env (CmdInitialize n snap) s = outcome (gws_initialize_local_once env n snap s)"
| "gw_exec env (CmdCreate fresh name) s = outcome (gws_create env fresh name s)"
| "gw_exec env (CmdAdopt fresh n owner rv) s = outcome (gws_adopt env fresh n owner rv s)"
| "gw_exec env (CmdLink i rv n owner orv) s = outcome (gws_link env i rv n owner orv s)"
| "gw_exec env (CmdRename i rv name) s = outcome (gws_rename env i rv name s)"
| "gw_exec env (CmdBeginClose i rv) s = outcome (gws_mutate env (begin_close_op i rv) s)"
| "gw_exec env (CmdConfirmClosed i n owner) s = outcome (gws_mutate env (confirm_closed_op i n owner) s)"
| "gw_exec env (CmdConfirmEmptyClosed i) s = outcome (gws_mutate env (confirm_empty_closed_op i) s)"
| "gw_exec env (CmdPrepareCwd op i rv n owner orv req cwd) s =
     outcome (gws_prepare_default_cwd env op i rv n owner orv req cwd s)"
| "gw_exec env (CmdMarkCwdAttempted p) s =
     outcome (gws_mutate env (mark_default_cwd_owner_attempted_op p) s)"
| "gw_exec env (CmdCancelCwdIfNeverAttempted p) s =
     outcome (gws_mutate env (cancel_default_cwd_if_never_attempted_op p) s)"
| "gw_exec env (CmdCancelCwd p) s = outcome (gws_mutate env (cancel_default_cwd_op p) s)"
| "gw_exec env (CmdCompleteCwd p owner) s =
     outcome (gws_mutate env (complete_default_cwd_op env p owner) s)"
| "gw_exec env (CmdPrepareResource rq) s = outcome (prepare_resource_inner env rq s)"
| "gw_exec env (CmdPrepareWorkspaceShell sq) s = outcome (gws_prepare_workspace_shell env sq s)"
| "gw_exec env (CmdCancelResource p) s = outcome (gws_mutate env (cancel_resource_op p) s)"
| "gw_exec env (CmdCancelPendingIfNeverAttempted op f) s =
     outcome (gws_mutate env (cancel_pending_operation_if_never_attempted_op op f) s)"
| "gw_exec env (CmdMarkAttempted p) s = outcome (gws_mutate env (mark_owner_attempted_op p) s)"
| "gw_exec env (CmdCompleteResource p owner r) s = outcome (gws_complete_resource env p owner r s)"
| "gw_exec env CmdCheckpoint s = outcome (gws_checkpoint env s)"

text \<open>The change of the state that an accepted command makes.\<close>

definition next_state :: "('r \<times> gw_state) res \<Rightarrow> gw_state res" where
  "next_state r = (case r of Inl e \<Rightarrow> Inl e | Inr (_, st) \<Rightarrow> Inr st)"

fun gw_transition :: "gw_env \<Rightarrow> gw_command \<Rightarrow> gw_state \<Rightarrow> gw_state res" where
  "gw_transition env (CmdInitialize n snap) st =
     (if gs_local_migration_complete st then Inr st
      else bind_res (migrate_workspaces n (snap_workspaces snap) (gs_workspaces st)) (\<lambda>wss.
             Inr (st\<lparr>gs_workspaces := wss, gs_local_migration_complete := True\<rparr>)))"
| "gw_transition env (CmdCreate fresh name) st = next_state (create_op fresh name st)"
| "gw_transition env (CmdAdopt fresh n owner rv) st = next_state (adopt_op fresh n owner st)"
| "gw_transition env (CmdLink i rv n owner orv) st = next_state (link_op i rv n owner st)"
| "gw_transition env (CmdRename i rv name) st = next_state (rename_op i rv name st)"
| "gw_transition env (CmdBeginClose i rv) st = next_state (begin_close_op i rv st)"
| "gw_transition env (CmdConfirmClosed i n owner) st = next_state (confirm_closed_op i n owner st)"
| "gw_transition env (CmdConfirmEmptyClosed i) st = next_state (confirm_empty_closed_op i st)"
| "gw_transition env (CmdPrepareCwd op i rv n owner orv req cwd) st =
     next_state (prepare_default_cwd_op env (cwd_request op i rv n owner orv req cwd) st)"
| "gw_transition env (CmdMarkCwdAttempted p) st = next_state (mark_default_cwd_owner_attempted_op p st)"
| "gw_transition env (CmdCancelCwdIfNeverAttempted p) st =
     next_state (cancel_default_cwd_if_never_attempted_op p st)"
| "gw_transition env (CmdCancelCwd p) st = next_state (cancel_default_cwd_op p st)"
| "gw_transition env (CmdCompleteCwd p owner) st = next_state (complete_default_cwd_op env p owner st)"
| "gw_transition env (CmdPrepareResource rq) st = next_state (prepare_resource_op env rq st)"
| "gw_transition env (CmdPrepareWorkspaceShell sq) st = next_state (prepare_workspace_shell_op env sq st)"
| "gw_transition env (CmdCancelResource p) st = next_state (cancel_resource_op p st)"
| "gw_transition env (CmdCancelPendingIfNeverAttempted op f) st =
     next_state (cancel_pending_operation_if_never_attempted_op op f st)"
| "gw_transition env (CmdMarkAttempted p) st = next_state (mark_owner_attempted_op p st)"
| "gw_transition env (CmdCompleteResource p owner r) st = next_state (complete_resource_op env p owner r st)"
| "gw_transition env CmdCheckpoint st = Inr st"

section \<open>The store keeps the \<open>durable_store\<close> contract\<close>

definition store_step :: "gw_env \<Rightarrow> gw_command \<Rightarrow> gw_store \<Rightarrow> gw_store \<Rightarrow> bool" where
  "store_step env c s s' \<longleftrightarrow>
     gw_transition env c (store_mem s) = Inr (store_mem s')
     \<and> (gw_valid env (store_mem s') \<or> s' = s)
     \<and> store_persist s' = store_persist s
     \<and> (store_persist s \<longrightarrow> store_disk s' = Some (store_mem s') \<or> s' = s)"

lemma outcome_mutate:
  assumes "outcome (gws_mutate env op s) = (r, s')"
  shows "(\<forall>e. r = Some e \<longrightarrow> s' = s)
    \<and> (r = None \<longrightarrow>
         next_state (op (store_mem s)) = Inr (store_mem s') \<and> gw_valid env (store_mem s')
         \<and> store_persist s' = store_persist s
         \<and> (store_persist s \<longrightarrow> store_disk s' = Some (store_mem s')))"
  using assms
  by (auto simp: outcome_def gws_mutate_def next_state_def gw_validate_valid
      split: sum.splits prod.splits if_splits)

lemma outcome_guarded:
  "outcome (guarded check run s) = (r, s') \<Longrightarrow>
     (\<exists>e. r = Some e \<and> s' = s) \<or> outcome run = (r, s')"
  by (auto simp: outcome_def guarded_def split: sum.splits)

lemma step_of_mutate:
  assumes "outcome (gws_mutate env op s) = (r, s')"
    and "gw_transition env c (store_mem s) = next_state (op (store_mem s))"
  shows "(\<forall>e. r = Some e \<longrightarrow> s' = s) \<and> (r = None \<longrightarrow> store_step env c s s')"
  using outcome_mutate [OF assms(1)] assms(2) by (simp add: store_step_def)

lemma step_of_guarded:
  assumes "outcome (guarded check (gws_mutate env op s) s) = (r, s')"
    and "gw_transition env c (store_mem s) = next_state (op (store_mem s))"
  shows "(\<forall>e. r = Some e \<longrightarrow> s' = s) \<and> (r = None \<longrightarrow> store_step env c s s')"
  using outcome_guarded [OF assms(1)] step_of_mutate [of env op s r s' c] assms(2) by auto

lemma step_of_initialize:
  assumes "outcome (gws_initialize_local_once env n snap s) = (r, s')"
  shows "(\<forall>e. r = Some e \<longrightarrow> s' = s)
    \<and> (r = None \<longrightarrow> store_step env (CmdInitialize n snap) s s')"
  using assms
  by (auto simp: outcome_def gws_initialize_local_once_def Let_def store_step_def bind_res_Inr
      gw_validate_valid split: if_splits sum.splits)

lemma step_of_checkpoint:
  assumes "outcome (gws_checkpoint env s) = (r, s')"
  shows "(\<forall>e. r = Some e \<longrightarrow> s' = s) \<and> (r = None \<longrightarrow> store_step env CmdCheckpoint s s')"
  using assms
  by (auto simp: outcome_def gws_checkpoint_def store_step_def bind_res_Inr gw_validate_valid
      split: sum.splits)

lemma gw_exec_step:
  assumes "gw_exec env c s = (r, s')"
  shows "(\<forall>e. r = Some e \<longrightarrow> s' = s) \<and> (r = None \<longrightarrow> store_step env c s s')"
  by (insert assms; cases c; simp only: gw_exec.simps gws_create_def gws_adopt_def gws_link_def gws_rename_def
        gws_prepare_default_cwd_def prepare_resource_inner_def gws_prepare_workspace_shell_def
        gws_complete_resource_def;
      (erule step_of_initialize | erule step_of_checkpoint
       | (erule step_of_guarded, simp) | (erule step_of_mutate, simp)))

lemma gw_exec_failure: "gw_exec env c s = (Some e, s') \<Longrightarrow> s' = s"
  using gw_exec_step by blast

lemma gw_exec_success: "gw_exec env c s = (None, s') \<Longrightarrow> store_step env c s s'"
  using gw_exec_step by blast

text \<open>The reachable states: commands run from a store as it was loaded.\<close>

inductive gw_reachable :: "gw_env \<Rightarrow> gw_store \<Rightarrow> bool" for env where
  loaded: "load_at env loaded = Inr s \<Longrightarrow> gw_reachable env s"
| command: "gw_reachable env s \<Longrightarrow> gw_exec env c s = (r, s') \<Longrightarrow> gw_reachable env s'"

interpretation gw_durable: durable_store "gw_exec env" store_mem store_disk "gw_valid env" store_persist
  for env
proof
  fix s s' :: gw_store and c :: gw_command and e :: io_error and r :: "io_error option"
  show "store_mem s' = store_mem s \<and> store_disk s' = store_disk s"
    if "store_persist s" "gw_exec env c s = (Some e, s')"
    using gw_exec_failure that by blast
  show "store_disk s' = Some (store_mem s') \<or> store_mem s' = store_mem s \<and> store_disk s' = store_disk s"
    if "store_persist s" "gw_exec env c s = (None, s')"
    using gw_exec_success [OF that(2)] that(1) by (auto simp: store_step_def)
  show "gw_valid env (store_mem s')"
    if "store_persist s" "gw_valid env (store_mem s)" "gw_exec env c s = (None, s')"
    using gw_exec_success [OF that(3)] that(2) by (auto simp: store_step_def)
  show "store_persist s'" if "store_persist s" "gw_exec env c s = (r, s')"
    using gw_exec_step [OF that(2)] that(1) by (cases r) (auto simp: store_step_def)
qed

lemma load_at_valid:
  assumes "load_at env loaded = Inr s"
  shows "gw_valid env (store_mem s)" "store_persist s"
    "store_disk s = Some (store_mem s) \<or> store_disk s = None \<and> store_mem s = gw_empty"
  using assms
  by (auto simp: load_at_def load_migrate_def bind_res_Inr Let_def gw_validate_valid
      split: sum.splits if_splits)

lemma reachable_valid:
  "gw_reachable env s \<Longrightarrow>
     store_persist s \<and> gw_valid env (store_mem s)
     \<and> (store_disk s = Some (store_mem s) \<or> store_disk s = None \<and> store_mem s = gw_empty)"
proof (induction rule: gw_reachable.induct)
  case (loaded l s)
  then show ?case using load_at_valid by blast
next
  case (command s c r s')
  have ready: "store_persist s" and valid: "gw_valid env (store_mem s)"
    using command.IH by simp_all
  have "store_persist s'" by (rule gw_durable.ready_run [OF ready command.hyps(2)])
  moreover have "gw_valid env (store_mem s')"
    by (rule gw_durable.step_valid [OF ready valid command.hyps(2)])
  ultimately show ?case
    using gw_durable.step_frame [OF ready command.hyps(2)] command.IH by auto
qed

end
