(* ===== verification/Gw_Quiet.thy ===== *)
theory Gw_Quiet
  imports Gw_Commands
begin

text \<open>
  The coordination invariant of the Workspace store: while the close of a global Workspace is in
  progress, no prepared resource and no prepared default-directory change refers to it. No
  single test of \<open>validate\<close> says so; it follows from the guards of the operations
  (\<open>ensure_no_pending_resource\<close> before a close, the closing test before a preparation) and is
  proved here command by command and then for every reachable store.
\<close>

section \<open>Closing and busy Workspaces\<close>

definition closing_ids :: "gw_state \<Rightarrow> string set" where
  "closing_ids st = gw_id ` {w \<in> set (gs_workspaces st). gw_closing w}"

definition busy_ids :: "gw_state \<Rightarrow> string set" where
  "busy_ids st = pr_global_workspace_id ` set (gs_pending_resources st)
     \<union> pd_global_workspace_id ` set (gs_pending_cwd st)"

definition gw_quiet :: "gw_state \<Rightarrow> bool" where
  "gw_quiet st \<longleftrightarrow> closing_ids st \<inter> busy_ids st = {}"

lemma quiet_shrink:
  "gw_quiet st \<Longrightarrow> closing_ids st' \<subseteq> closing_ids st \<Longrightarrow> busy_ids st' \<subseteq> busy_ids st \<Longrightarrow> gw_quiet st'"
  unfolding gw_quiet_def by blast

lemma busy_free:
  "ensure_no_pending_resource st i = Inr u \<Longrightarrow> i \<notin> busy_ids st"
  by (auto simp: ensure_no_pending_resource_Inr busy_ids_def)

lemma closing_ids_put:
  "closing_ids (put_workspace w st) \<subseteq> closing_ids st \<union> (if gw_closing w then {gw_id w} else {})"
  using set_update_first_subset [of "\<lambda>v. gw_id v = gw_id w" "\<lambda>_. w" "gs_workspaces st"]
  by (auto simp: closing_ids_def put_workspace_def)

lemma busy_ids_put [simp]: "busy_ids (put_workspace w st) = busy_ids st"
  by (simp add: busy_ids_def put_workspace_def)

lemma closing_ids_cong: "gs_workspaces st' = gs_workspaces st \<Longrightarrow> closing_ids st' = closing_ids st"
  by (simp add: closing_ids_def)

lemma closing_ids_append:
  "gs_workspaces st' = gs_workspaces st @ ws \<Longrightarrow> list_all (\<lambda>w. \<not> gw_closing w) ws \<Longrightarrow>
     closing_ids st' = closing_ids st"
  by (auto simp: closing_ids_def list_all_iff)

lemma closing_ids_remove:
  "gs_workspaces st' = remove_at n (gs_workspaces st) \<Longrightarrow> closing_ids st' \<subseteq> closing_ids st"
  using set_remove_at [of n "gs_workspaces st"] by (auto simp: closing_ids_def)

lemma put_workspace_frame [simp]:
  "gs_pending_resources (put_workspace w st) = gs_pending_resources st"
  "gs_pending_cwd (put_workspace w st) = gs_pending_cwd st"
  "gs_completed_operations (put_workspace w st) = gs_completed_operations st"
  "gs_completed_cwd (put_workspace w st) = gs_completed_cwd st"
  "gs_version (put_workspace w st) = gs_version st"
  by (simp_all add: put_workspace_def)

lemma found_closing:
  "find_workspace st i = Some w \<Longrightarrow> gw_closing w \<Longrightarrow> i \<in> closing_ids st"
  using find_workspace_Some by (auto simp: closing_ids_def)

text \<open>With distinct identifiers, an open Workspace that lookup finds is not a closing one.\<close>

lemma found_open:
  assumes "distinct (map gw_id (gs_workspaces st))"
    and "find_workspace st i = Some w" and "\<not> gw_closing w"
  shows "i \<notin> closing_ids st"
proof
  assume "i \<in> closing_ids st"
  then obtain v where v: "v \<in> set (gs_workspaces st)" "gw_closing v" "gw_id v = i"
    by (auto simp: closing_ids_def)
  from find_workspace_unique [OF assms(1) v(1)] v(3) assms(2) have "v = w" by simp
  with v(2) assms(3) show False by simp
qed

text \<open>The facts about closing and busy identifiers that carry the cases below.\<close>

lemmas quiet_facts =
  closing_ids_cong closing_ids_append closing_ids_remove

section \<open>Closing and administrative commands\<close>

lemma quiet_migrate:
  "migrate_workspaces n ws acc = Inr wss \<Longrightarrow>
     \<exists>new. wss = acc @ new \<and> list_all (\<lambda>w. \<not> gw_closing w) new"
proof (induction ws arbitrary: acc)
  case Nil
  then show ?case by simp
next
  case (Cons w ws)
  let ?v = "\<lparr>gw_id = ws_id w, gw_revision = 1, gw_name = ws_name w, gw_closing = False,
             gw_placements = [gw_placement n w PlActive]\<rparr>"
  have "migrate_workspaces n ws (acc @ [?v]) = Inr wss"
    using Cons.prems by (simp split: if_splits)
  from Cons.IH [OF this] obtain new
    where "wss = (acc @ [?v]) @ new" "list_all (\<lambda>w. \<not> gw_closing w) new" by blast
  then show ?case by (intro exI [of _ "?v # new"]) simp
qed

lemma quiet_append:
  assumes "gw_quiet st" and "gs_workspaces st' = gs_workspaces st @ ws"
    and "list_all (\<lambda>w. \<not> gw_closing w) ws" and "busy_ids st' \<subseteq> busy_ids st"
  shows "gw_quiet st'"
  using quiet_shrink [OF assms(1) _ assms(4)] closing_ids_append [OF assms(2,3)] by simp

lemma quiet_create: "create_op fresh name st = Inr (r, st') \<Longrightarrow> gw_quiet st \<Longrightarrow> gw_quiet st'"
  by (auto simp: create_op_def Let_def busy_ids_def intro: quiet_append split: if_splits)

lemma quiet_adopt: "adopt_op fresh n owner st = Inr (r, st') \<Longrightarrow> gw_quiet st \<Longrightarrow> gw_quiet st'"
  by (auto simp: adopt_op_def Let_def bind_res_Inr busy_ids_def intro: quiet_append split: if_splits)

lemma quiet_put_open:
  assumes "gw_quiet st" and "\<not> gw_closing w"
  shows "gw_quiet (put_workspace w st)"
  using quiet_shrink [OF assms(1)] closing_ids_put [of w st] assms(2) by simp

lemma quiet_link: "link_op i rv n owner st = Inr (r, st') \<Longrightarrow> gw_quiet st \<Longrightarrow> gw_quiet st'"
  by (auto simp: link_op_def Let_def bind_res_Inr intro!: quiet_put_open split: if_splits)

lemma quiet_rename: "rename_op i rv name st = Inr (r, st') \<Longrightarrow> gw_quiet st \<Longrightarrow> gw_quiet st'"
  by (auto simp: rename_op_def Let_def bind_res_Inr intro!: quiet_put_open split: if_splits)

lemma quiet_begin_close:
  assumes "begin_close_op i rv st = Inr (r, st')" and quiet: "gw_quiet st"
  shows "gw_quiet st'"
proof -
  from assms(1) have free: "i \<notin> busy_ids st"
    by (auto simp: begin_close_op_def bind_res_Inr dest: busy_free)
  from assms(1) obtain v where v: "find_workspace st i = Some v"
    by (auto simp: begin_close_op_def bind_res_Inr ok_or_Inr)
  then have "gw_id v = i" by (simp add: find_workspace_Some)
  then consider "st' = st" | w where "st' = put_workspace w st" "gw_id w = i"
    using assms(1) v
    by (cases "gw_closing v") (auto simp: begin_close_op_def Let_def bind_res_Inr)
  then show ?thesis
  proof cases
    case 1
    then show ?thesis using quiet by simp
  next
    case 2
    then have "closing_ids st' \<subseteq> insert i (closing_ids st)" "busy_ids st' = busy_ids st"
      using closing_ids_put [of w st] by (auto split: if_splits)
    then show ?thesis using quiet free unfolding gw_quiet_def by blast
  qed
qed

lemma quiet_confirm_closed:
  assumes "confirm_closed_op i n owner st = Inr (r, st')" and "gw_quiet st"
  shows "gw_quiet st'"
proof (rule quiet_shrink [OF assms(2)])
  show "closing_ids st' \<subseteq> closing_ids st"
  proof
    fix x
    assume x: "x \<in> closing_ids st'"
    from assms(1) obtain k where k: "position (\<lambda>w. gw_id w = i) (gs_workspaces st) = Some k"
      and closing: "gw_closing (gs_workspaces st ! k)"
      by (auto simp: confirm_closed_op_def Let_def bind_res_Inr ok_or_Inr split: if_splits)
    have st': "gs_workspaces st' = remove_at k (gs_workspaces st)
        \<or> (\<exists>w'. gs_workspaces st' = (gs_workspaces st)[k := w'] \<and> gw_id w' = gw_id (gs_workspaces st ! k))"
      using assms(1) k
      by (auto simp: confirm_closed_op_def Let_def bind_res_Inr ok_or_Inr split: if_splits)
    from position_SomeD [OF k] have mem: "gs_workspaces st ! k \<in> set (gs_workspaces st)" by simp
    from st' show "x \<in> closing_ids st"
    proof
      assume "gs_workspaces st' = remove_at k (gs_workspaces st)"
      then show ?thesis using x closing_ids_remove by blast
    next
      assume "\<exists>w'. gs_workspaces st' = (gs_workspaces st)[k := w'] \<and> gw_id w' = gw_id (gs_workspaces st ! k)"
      then obtain w' where w': "gs_workspaces st' = (gs_workspaces st)[k := w']"
          "gw_id w' = gw_id (gs_workspaces st ! k)" by blast
      then show ?thesis
        using x closing mem set_update_subset_insert [of "gs_workspaces st" k w']
        by (auto simp: closing_ids_def)
    qed
  qed
  show "busy_ids st' \<subseteq> busy_ids st"
    using assms(1)
    by (auto simp: confirm_closed_op_def Let_def bind_res_Inr busy_ids_def split: if_splits)
qed

lemma quiet_confirm_empty: "confirm_empty_closed_op i st = Inr (r, st') \<Longrightarrow> gw_quiet st \<Longrightarrow> gw_quiet st'"
  by (erule quiet_shrink)
    (auto simp: confirm_empty_closed_op_def Let_def bind_res_Inr busy_ids_def
      dest: closing_ids_remove [THEN subsetD, rotated] split: if_splits)

section \<open>Default-directory commands\<close>

lemma quiet_remove_cwd:
  assumes "gw_quiet st" and "gs_workspaces st' = gs_workspaces st"
    and "gs_pending_resources st' = gs_pending_resources st"
    and "set (gs_pending_cwd st') \<subseteq> set (gs_pending_cwd st)"
  shows "gw_quiet st'"
  using assms(1)
proof (rule quiet_shrink)
  show "closing_ids st' \<subseteq> closing_ids st" using assms(2) by (simp add: closing_ids_def)
  show "busy_ids st' \<subseteq> busy_ids st" using assms(3,4) by (auto simp: busy_ids_def)
qed

lemma quiet_mark_cwd:
  assumes "mark_default_cwd_owner_attempted_op p st = Inr (r, st')" and "gw_quiet st"
  shows "gw_quiet st'"
proof -
  let ?f = "\<lambda>q. q\<lparr>pd_owner_attempted := True\<rparr>"
  from assms(1) have st': "st' = st\<lparr>gs_pending_cwd :=
      update_first (\<lambda>q. pd_operation_id q = pd_operation_id p) ?f (gs_pending_cwd st)\<rparr>"
    by (auto simp: mark_default_cwd_owner_attempted_op_def bind_res_Inr split: if_splits)
  have "map pd_global_workspace_id (gs_pending_cwd st') = map pd_global_workspace_id (gs_pending_cwd st)"
    unfolding st' by (simp add: map_update_first_id)
  then have "pd_global_workspace_id ` set (gs_pending_cwd st') = pd_global_workspace_id ` set (gs_pending_cwd st)"
    by (metis list.set_map)
  then show ?thesis
    using assms(2) by (simp add: gw_quiet_def st' closing_ids_def busy_ids_def)
qed

lemma quiet_remove_cwd_at:
  "gw_quiet st \<Longrightarrow> gw_quiet (st\<lparr>gs_pending_cwd := remove_at i (gs_pending_cwd st)\<rparr>)"
  by (erule quiet_remove_cwd) (simp_all add: set_remove_at)

lemma quiet_cancel_cwd:
  "cancel_default_cwd_op p st = Inr (r, st') \<Longrightarrow> gw_quiet st \<Longrightarrow> gw_quiet st'"
  by (auto simp: cancel_default_cwd_op_def intro: quiet_remove_cwd_at split: option.splits if_splits)

lemma quiet_cancel_cwd_never:
  "cancel_default_cwd_if_never_attempted_op p st = Inr (r, st') \<Longrightarrow> gw_quiet st \<Longrightarrow> gw_quiet st'"
  by (auto simp: cancel_default_cwd_if_never_attempted_op_def intro: quiet_remove_cwd_at
      split: option.splits if_splits)

lemma quiet_prepare_cwd:
  assumes "prepare_default_cwd_op env rq st = Inr (r, st')"
    and quiet: "gw_quiet st" and dist: "distinct (map gw_id (gs_workspaces st))"
  shows "gw_quiet st'"
proof -
  let ?i = "pd_global_workspace_id rq"
  let ?st = "st\<lparr>gs_pending_cwd := gs_pending_cwd st @ [rq]\<rparr>"
  from assms(1) consider "st' = st"
    | w where "find_workspace st ?i = Some w" "\<not> gw_closing w" "compact_prepared_state env ?st = Inr st'"
    by (auto simp: prepare_default_cwd_op_def Let_def bind_res_Inr ok_or_Inr
        split: if_splits option.splits)
  then show ?thesis
  proof cases
    case 1
    then show ?thesis using quiet by simp
  next
    case 2
    have "?i \<notin> closing_ids st" by (rule found_open [OF dist 2(1,2)])
    moreover have "closing_ids st' = closing_ids st" "busy_ids st' = insert ?i (busy_ids st)"
      using compact_prepared_state_frame [OF 2(3)] by (auto simp: closing_ids_def busy_ids_def)
    ultimately show ?thesis using quiet by (auto simp: gw_quiet_def)
  qed
qed

lemma quiet_complete_cwd:
  assumes "complete_default_cwd_op env p owner st = Inr (r, st')" and quiet: "gw_quiet st"
  shows "gw_quiet st'"
proof -
  from assms(1) consider "st' = st"
    | i w w' cs where
        "compact_prepared_state env ((put_workspace w' st)
           \<lparr>gs_pending_cwd := remove_at i (gs_pending_cwd st), gs_completed_cwd := cs\<rparr>) = Inr st'"
        "find_workspace st (pd_global_workspace_id (gs_pending_cwd st ! i)) = Some w"
        "gw_id w' = gw_id w" "gw_closing w' = gw_closing w"
    by (auto simp: complete_default_cwd_op_def Let_def bind_res_Inr ok_or_Inr
        split: if_splits option.splits)
  then show ?thesis
  proof cases
    case 1
    then show ?thesis using quiet by simp
  next
    case 2
    note frame = compact_prepared_state_frame [OF 2(1)]
    have "closing_ids st' = closing_ids (put_workspace w' st)"
      using frame(1) by (simp add: closing_ids_def)
    also have "\<dots> \<subseteq> closing_ids st"
      using closing_ids_put [of w' st] found_closing [OF 2(2)] find_workspace_Some [OF 2(2)] 2(3,4)
      by (auto split: if_splits)
    finally have "closing_ids st' \<subseteq> closing_ids st" .
    moreover have "busy_ids st' \<subseteq> busy_ids st"
      using frame(2,3) set_remove_at [of i "gs_pending_cwd st"] by (auto simp: busy_ids_def)
    ultimately show ?thesis by (rule quiet_shrink [OF quiet])
  qed
qed

section \<open>Prepared resources\<close>

lemma map_list_update_same: "k (f (xs ! i)) = k (xs ! i) \<Longrightarrow> map k (xs[i := f (xs ! i)]) = map k xs"
proof (cases "i < length xs")
  case True
  assume "k (f (xs ! i)) = k (xs ! i)"
  then have "map k (xs[i := f (xs ! i)]) = (map k xs)[i := map k xs ! i]"
    using True by (simp add: map_update)
  then show ?thesis by simp
qed (simp add: list_update_beyond)

lemma map_set_pending:
  "(\<And>p. k (f p) = k p) \<Longrightarrow>
     map k (gs_pending_resources (set_pending i f st)) = map k (gs_pending_resources st)"
  by (simp add: set_pending_def map_list_update_same)

lemma busy_ids_map:
  "map pr_global_workspace_id (gs_pending_resources st') = map pr_global_workspace_id (gs_pending_resources st)
   \<Longrightarrow> gs_pending_cwd st' = gs_pending_cwd st \<Longrightarrow> busy_ids st' = busy_ids st"
  unfolding busy_ids_def by (metis list.set_map)

lemma busy_ids_set_pending:
  "(\<And>p. pr_global_workspace_id (f p) = pr_global_workspace_id p) \<Longrightarrow>
     busy_ids (set_pending i f st) = busy_ids st"
  by (rule busy_ids_map) (simp_all add: map_set_pending, simp add: set_pending_def)

lemma set_pending_frame [simp]:
  "gs_workspaces (set_pending i f st) = gs_workspaces st"
  "gs_pending_cwd (set_pending i f st) = gs_pending_cwd st"
  "gs_completed_operations (set_pending i f st) = gs_completed_operations st"
  "gs_completed_cwd (set_pending i f st) = gs_completed_cwd st"
  "length (gs_pending_resources (set_pending i f st)) = length (gs_pending_resources st)"
  by (simp_all add: set_pending_def)

text \<open>\<open>same_shape st' st\<close>: the Workspaces are untouched and no identifier became busy or free.\<close>

definition same_shape :: "gw_state \<Rightarrow> gw_state \<Rightarrow> bool" where
  "same_shape st' st \<longleftrightarrow> gs_workspaces st' = gs_workspaces st \<and> busy_ids st' = busy_ids st"

lemma same_shape_refl [simp]: "same_shape st st"
  by (simp add: same_shape_def)

lemma same_shape_trans: "same_shape a b \<Longrightarrow> same_shape b c \<Longrightarrow> same_shape a c"
  by (simp add: same_shape_def)

lemma same_shape_quiet: "same_shape st' st \<Longrightarrow> gw_quiet st' = gw_quiet st"
  by (simp add: same_shape_def gw_quiet_def closing_ids_def)

lemma same_shape_set_pending:
  "(\<And>p. pr_global_workspace_id (f p) = pr_global_workspace_id p) \<Longrightarrow> same_shape (set_pending i f st) st"
  by (simp add: same_shape_def busy_ids_set_pending)

lemma same_shape_set_pending_iff [simp]:
  "(\<And>p. pr_global_workspace_id (f p) = pr_global_workspace_id p) \<Longrightarrow>
     same_shape a (set_pending i f st) = same_shape a st"
  "(\<And>p. pr_global_workspace_id (f p) = pr_global_workspace_id p) \<Longrightarrow>
     same_shape (set_pending i f st) a = same_shape st a"
  by (simp_all add: same_shape_def busy_ids_set_pending)

lemma same_shape_compact: "compact_prepared_state env st = Inr st' \<Longrightarrow> same_shape st' st"
  using compact_prepared_state_frame by (simp add: same_shape_def busy_ids_def)

lemma same_shape_reserve_legacy: "reserve_legacy env m wid rb i st = Inr st' \<Longrightarrow> same_shape st' st"
  by (auto simp: reserve_legacy_def bind_res_Inr split: if_splits
      dest!: same_shape_compact)

lemma same_shape_reserve_new:
  "reserve_new_pending_completion env st w p rb = Inr (st', p') \<Longrightarrow>
     same_shape st' st \<and> pr_global_workspace_id p' = pr_global_workspace_id p"
  using reserve_new_pending_completion_frame [of env st w p rb st' p'] busy_ids_map [of st' st]
  by (auto simp: same_shape_def)

lemma same_shape_replay_resource:
  "replay_pending_resource env rq i st = Inr (r, st') \<Longrightarrow> same_shape st' st"
  by (auto simp: replay_pending_resource_def Let_def bind_res_Inr split: if_splits
      dest!: same_shape_reserve_legacy)

lemma same_shape_replay_shell:
  "replay_pending_shell env sq i st = Inr (r, st') \<Longrightarrow> same_shape st' st"
  by (auto simp: replay_pending_shell_def Let_def bind_res_Inr split: if_splits
      dest!: same_shape_reserve_legacy)

lemma closing_busy_append_pending:
  "closing_ids (st\<lparr>gs_pending_resources := gs_pending_resources st @ [p]\<rparr>) = closing_ids st"
  "busy_ids (st\<lparr>gs_pending_resources := gs_pending_resources st @ [p]\<rparr>) =
     insert (pr_global_workspace_id p) (busy_ids st)"
  by (auto simp: closing_ids_def busy_ids_def)

text \<open>A preparation that appends one pending operation for an open Workspace.\<close>

lemma quiet_append_pending:
  assumes "reserve_new_pending_completion env st w p rb = Inr (st1, p')"
    and "compact_prepared_state env (st1\<lparr>gs_pending_resources := gs_pending_resources st1 @ [p']\<rparr>) = Inr st'"
    and "gw_quiet st" and "pr_global_workspace_id p \<notin> closing_ids st"
  shows "gw_quiet st'"
proof -
  note shape = same_shape_reserve_new [OF assms(1)]
  have "closing_ids st1 = closing_ids st" "busy_ids st1 = busy_ids st"
    using shape by (auto simp: same_shape_def closing_ids_def)
  then have "gw_quiet (st1\<lparr>gs_pending_resources := gs_pending_resources st1 @ [p']\<rparr>)"
    using assms(3,4) shape by (auto simp: gw_quiet_def closing_busy_append_pending)
  then show ?thesis using same_shape_quiet [OF same_shape_compact [OF assms(2)]] by simp
qed

lemma quiet_prepare_new_resource:
  assumes "prepare_new_resource env rq st = Inr (r, st')"
    and "gw_quiet st" and dist: "distinct (map gw_id (gs_workspaces st))"
  shows "gw_quiet st'"
proof -
  from assms(1) obtain w st1 p' where
    w: "find_workspace st (rq_global_id rq) = Some w" "\<not> gw_closing w"
    and reserve: "reserve_new_pending_completion env st w (effective_pending rq w st)
           (rq_request_bytes rq) = Inr (st1, p')"
    and compact: "compact_prepared_state env
           (st1\<lparr>gs_pending_resources := gs_pending_resources st1 @ [p']\<rparr>) = Inr st'"
    by (auto simp: prepare_new_resource_def Let_def bind_res_Inr ok_or_Inr split: if_splits)
  have "pr_global_workspace_id (effective_pending rq w st) = rq_global_id rq"
    by (simp add: effective_pending_def Let_def)
  then show ?thesis
    using quiet_append_pending [OF reserve compact assms(2)] found_open [OF dist w] by simp
qed

lemma quiet_prepare_resource:
  assumes "prepare_resource_op env rq st = Inr (r, st')"
    and "gw_quiet st" and "distinct (map gw_id (gs_workspaces st))"
  shows "gw_quiet st'"
  using assms
  by (auto simp: prepare_resource_op_def split: option.splits if_splits
      dest: same_shape_quiet [OF same_shape_replay_resource] quiet_prepare_new_resource)

lemma push_completed_frame:
  assumes "push_completed env st c = Inr st'"
  shows "gs_workspaces st' = gs_workspaces st" "gs_pending_resources st' = gs_pending_resources st"
    "gs_pending_cwd st' = gs_pending_cwd st" "gs_completed_cwd st' = gs_completed_cwd st"
  using assms trim_completed_result
  by (auto simp: push_completed_def split: option.splits if_splits) force+

lemma same_shape_push: "push_completed env st c = Inr st' \<Longrightarrow> same_shape st' st"
  using push_completed_frame by (simp add: same_shape_def busy_ids_def)

lemma quiet_join_shell:
  assumes "join_existing_shell env sq w st = Inr (r, st')" and quiet: "gw_quiet st"
  shows "gw_quiet st'"
proof (cases "List.find (\<lambda>c. co_creates_workspace c \<and> gw_id (co_workspace c) = gw_id w
      \<and> co_semantic_fingerprint c = Some (sq_semantic_fingerprint sq)) (rev (gs_completed_operations st))")
  case (Some c)
  then show ?thesis
    using assms same_shape_quiet [OF same_shape_push]
    by (auto simp: join_existing_shell_def Let_def bind_res_Inr)
next
  case None
  then obtain i where i: "position (\<lambda>p. pr_creates_workspace p \<and> pr_global_workspace_id p = gw_id w
      \<and> same_semantics sq p) (gs_pending_resources st) = Some i"
    using assms(1) by (auto simp: join_existing_shell_def split: option.splits)
  define st1 where "st1 = (if pr_semantic_fingerprint (gs_pending_resources st ! i) = None
     then set_pending i (\<lambda>p. p\<lparr>pr_semantic_fingerprint := Some (sq_semantic_fingerprint sq)\<rparr>) st else st)"
  have shape: "same_shape st1 st"
    by (simp add: st1_def same_shape_set_pending)
  from position_SomeD [OF i] have gid: "i < length (gs_pending_resources st)"
      "pr_global_workspace_id (gs_pending_resources st ! i) = gw_id w" by simp_all
  then have gid1: "pr_global_workspace_id (gs_pending_resources st1 ! i) = gw_id w"
    by (simp add: st1_def set_pending_def)
  have "gw_id w \<in> busy_ids st" using gid by (auto simp: busy_ids_def image_iff intro!: bexI [of _ "gs_pending_resources st ! i"])
  then have "gw_id w \<notin> closing_ids st1" using quiet shape
    by (auto simp: gw_quiet_def same_shape_def closing_ids_def)
  moreover obtain p st2 p' where "pr_global_workspace_id p = pr_global_workspace_id (gs_pending_resources st1 ! i)"
    "reserve_new_pending_completion env st1 w p (sq_request_bytes sq) = Inr (st2, p')"
    "compact_prepared_state env (st2\<lparr>gs_pending_resources := gs_pending_resources st2 @ [p']\<rparr>) = Inr st'"
  proof -
    assume that: "\<And>p st2 p'. pr_global_workspace_id p = pr_global_workspace_id (gs_pending_resources st1 ! i) \<Longrightarrow>
      reserve_new_pending_completion env st1 w p (sq_request_bytes sq) = Inr (st2, p') \<Longrightarrow>
      compact_prepared_state env (st2\<lparr>gs_pending_resources := gs_pending_resources st2 @ [p']\<rparr>) = Inr st' \<Longrightarrow> thesis"
    show thesis
      using assms(1) None i
      by (auto simp: join_existing_shell_def Let_def bind_res_Inr st1_def [symmetric] split: if_splits
          intro: that [rotated])
  qed
  ultimately show ?thesis
    using quiet_append_pending gid1 same_shape_quiet [OF shape] quiet by metis
qed

lemma quiet_prepare_new_shell:
  assumes "prepare_new_shell env sq st = Inr (r, st')" and quiet: "gw_quiet st"
  shows "gw_quiet st'"
proof -
  from assms(1) obtain w p st1 p' where
    fresh: "\<not> list_ex (\<lambda>w. gw_id w = sq_global_workspace_id sq) (gs_workspaces st)"
    and reserve: "reserve_new_pending_completion env st w p (sq_request_bytes sq) = Inr (st1, p')"
    and compact: "compact_prepared_state env (st1\<lparr>gs_workspaces := gs_workspaces st1 @ [w],
         gs_pending_resources := gs_pending_resources st1 @ [p']\<rparr>) = Inr st'"
    and open_w: "\<not> gw_closing w" and gid: "pr_global_workspace_id p = sq_global_workspace_id sq"
    by (auto simp: prepare_new_shell_def Let_def bind_res_Inr split: if_splits)
  let ?st = "st1\<lparr>gs_workspaces := gs_workspaces st1 @ [w],
         gs_pending_resources := gs_pending_resources st1 @ [p']\<rparr>"
  note shape = same_shape_reserve_new [OF reserve]
  have "closing_ids ?st = closing_ids st"
    using shape open_w by (auto simp: same_shape_def closing_ids_def)
  moreover have "busy_ids ?st = insert (sq_global_workspace_id sq) (busy_ids st)"
    using shape gid by (auto simp: same_shape_def busy_ids_def)
  moreover have "sq_global_workspace_id sq \<notin> closing_ids st"
    using fresh by (auto simp: closing_ids_def list_ex_iff)
  ultimately have "gw_quiet ?st" using quiet by (auto simp: gw_quiet_def)
  then show ?thesis using same_shape_quiet [OF same_shape_compact [OF compact]] by simp
qed

lemma quiet_prepare_shell:
  assumes "prepare_workspace_shell_op env sq st = Inr (r, st')" and "gw_quiet st"
  shows "gw_quiet st'"
  using assms
  by (auto simp: prepare_workspace_shell_op_def split: option.splits if_splits
      dest: same_shape_quiet [OF same_shape_replay_shell] quiet_join_shell quiet_prepare_new_shell)

lemma quiet_remove_pending: "gw_quiet st \<Longrightarrow> gw_quiet (remove_pending_at st i)"
proof (erule quiet_shrink)
  show "closing_ids (remove_pending_at st i) \<subseteq> closing_ids st"
    using set_remove_at
    by (fastforce simp: remove_pending_at_def Let_def closing_ids_def split: option.splits if_splits)
  show "busy_ids (remove_pending_at st i) \<subseteq> busy_ids st"
    using set_remove_at [of i "gs_pending_resources st"]
    by (auto simp: remove_pending_at_def Let_def busy_ids_def split: option.splits if_splits)
qed

lemma quiet_cancel_resource: "cancel_resource_op p st = Inr (r, st') \<Longrightarrow> gw_quiet st \<Longrightarrow> gw_quiet st'"
  by (auto simp: cancel_resource_op_def Let_def intro: quiet_remove_pending split: option.splits if_splits)

lemma quiet_cancel_never:
  "cancel_pending_operation_if_never_attempted_op op f st = Inr (r, st') \<Longrightarrow> gw_quiet st \<Longrightarrow> gw_quiet st'"
  by (auto simp: cancel_pending_operation_if_never_attempted_op_def Let_def intro: quiet_remove_pending
      split: option.splits if_splits)

lemma quiet_mark: "mark_owner_attempted_op p st = Inr (r, st') \<Longrightarrow> gw_quiet st \<Longrightarrow> gw_quiet st'"
  by (auto simp: mark_owner_attempted_op_def Let_def bind_res_Inr
      same_shape_quiet [OF same_shape_set_pending] split: if_splits)

lemma link_completed_frame:
  "link_completed q owner w = Inr w' \<Longrightarrow>
     gw_id w' = gw_id w \<and> gw_closing w' = gw_closing w \<and> gw_name w' = gw_name w"
  by (auto simp: link_completed_def bind_res_Inr split: option.splits if_splits)

lemma quiet_complete_resource:
  assumes "complete_resource_op env p owner res st = Inr (r, st')" and quiet: "gw_quiet st"
  shows "gw_quiet st'"
proof -
  from assms(1) consider "st' = st"
    | i w w' c where
      "push_completed env ((put_workspace w' st)
          \<lparr>gs_pending_resources := remove_at i (gs_pending_resources st)\<rparr>) c = Inr st'"
      "link_completed (gs_pending_resources st ! i) owner w = Inr w'"
      "find_workspace st (pr_global_workspace_id (gs_pending_resources st ! i)) = Some w"
    by (auto simp: complete_resource_op_def complete_pending_def Let_def bind_res_Inr ok_or_Inr
        split: option.splits if_splits)
  then show ?thesis
  proof cases
    case 1
    then show ?thesis using quiet by simp
  next
    case 2
    let ?st = "(put_workspace w' st)\<lparr>gs_pending_resources := remove_at i (gs_pending_resources st)\<rparr>"
    have "closing_ids ?st = closing_ids (put_workspace w' st)"
      by (simp add: closing_ids_def)
    also have "\<dots> \<subseteq> closing_ids st"
      using closing_ids_put [of w' st] link_completed_frame [OF 2(2)] found_closing [OF 2(3)]
        find_workspace_Some [OF 2(3)] by (auto split: if_splits)
    finally have "closing_ids ?st \<subseteq> closing_ids st" .
    moreover have "busy_ids ?st \<subseteq> busy_ids st"
      using set_remove_at [of i "gs_pending_resources st"] by (auto simp: busy_ids_def)
    ultimately have "gw_quiet ?st" by (rule quiet_shrink [OF quiet])
    then show ?thesis using same_shape_quiet [OF same_shape_push [OF 2(1)]] by simp
  qed
qed

section \<open>Every command, every reachable store\<close>

lemma next_state_Inr: "next_state r = Inr st' \<longleftrightarrow> (\<exists>x. r = Inr (x, st'))"
  by (auto simp: next_state_def split: sum.splits)

lemma quiet_initialize:
  "gw_transition env (CmdInitialize n snap) st = Inr st' \<Longrightarrow> gw_quiet st \<Longrightarrow> gw_quiet st'"
  by (auto simp: bind_res_Inr busy_ids_def dest!: quiet_migrate intro: quiet_append split: if_splits)

lemmas quiet_commands =
  quiet_create quiet_adopt quiet_link quiet_rename quiet_begin_close quiet_confirm_closed
  quiet_confirm_empty quiet_prepare_cwd quiet_mark_cwd quiet_cancel_cwd quiet_cancel_cwd_never
  quiet_complete_cwd quiet_prepare_resource quiet_prepare_shell quiet_cancel_resource
  quiet_cancel_never quiet_mark quiet_complete_resource

lemma gw_transition_quiet:
  assumes "gw_transition env c st = Inr st'" and "gw_quiet st"
    and "distinct (map gw_id (gs_workspaces st))"
  shows "gw_quiet st'"
proof (cases c)
  case (CmdInitialize n snap)
  then show ?thesis using assms quiet_initialize by blast
qed (use assms in \<open>auto simp: next_state_Inr dest: quiet_commands\<close>)

lemma gw_exec_quiet:
  assumes "gw_exec env c s = (r, s')" and "gw_quiet (store_mem s)" and "gw_valid env (store_mem s)"
  shows "gw_quiet (store_mem s')"
proof (cases r)
  case None
  then have "gw_transition env c (store_mem s) = Inr (store_mem s')"
    using gw_exec_success assms(1) by (simp add: store_step_def)
  then show ?thesis
    by (rule gw_transition_quiet [OF _ assms(2) gw_valid_distinct_ids [OF assms(3)]])
next
  case (Some e)
  then show ?thesis using gw_exec_failure assms(1,2) by blast
qed

end
