(* ===== verification/Gw_Journal.thy ===== *)
theory Gw_Journal
  imports Gw_Quiet
begin

text \<open>
  What the commands of \<open>GlobalWorkspaceStore\<close> may do to the journal of prepared operations, to
  the log of completed ones and to the revisions of the Workspaces: a prepared operation leaves
  the journal only by being completed or by a permitted cancellation, the completed log loses
  only its oldest records, and a visible change of a Workspace always advances its revision.
\<close>

section \<open>Relations between the states before and after a command\<close>

definition pending_identity :: "pending_workspace_resource \<Rightarrow> pending_workspace_resource" where
  "pending_identity p =
     p\<lparr>pr_request_fingerprint := None, pr_semantic_fingerprint := None,
       pr_completion_reservation := [], pr_owner_attempted := False\<rparr>"

definition keeps_entry :: "pending_workspace_resource \<Rightarrow> pending_workspace_resource \<Rightarrow> bool" where
  "keeps_entry p p' \<longleftrightarrow>
     pending_identity p' = pending_identity p
     \<and> (pr_owner_attempted p \<longrightarrow> pr_owner_attempted p')
     \<and> (pr_request_fingerprint p \<noteq> None \<longrightarrow> pr_request_fingerprint p' = pr_request_fingerprint p)"

definition keeps_pending :: "gw_state \<Rightarrow> gw_state \<Rightarrow> bool" where
  "keeps_pending st st' \<longleftrightarrow>
     (\<forall>p \<in> set (gs_pending_resources st). \<exists>p' \<in> set (gs_pending_resources st'). keeps_entry p p')"

definition log_step :: "gw_state \<Rightarrow> gw_state \<Rightarrow> bool" where
  "log_step st st' \<longleftrightarrow>
     (\<exists>n xs. gs_completed_operations st' = drop n (gs_completed_operations st) @ xs \<and> length xs \<le> 1)"

definition workspace_shape ::
    "global_workspace_snapshot \<Rightarrow> string \<times> bool \<times> (string \<times> string) set" where
  "workspace_shape w = (gw_name w, gw_closing w, owner_key ` set (gw_placements w))"

definition revision_step :: "global_workspace_snapshot \<Rightarrow> global_workspace_snapshot \<Rightarrow> bool" where
  "revision_step w w' \<longleftrightarrow>
     gw_id w' = gw_id w \<and> gw_revision w \<le> gw_revision w'
     \<and> (workspace_shape w' \<noteq> workspace_shape w \<longrightarrow> gw_revision w < gw_revision w')"

definition revisions_step :: "gw_state \<Rightarrow> gw_state \<Rightarrow> bool" where
  "revisions_step st st' \<longleftrightarrow>
     (\<forall>w \<in> set (gs_workspaces st). \<forall>w' \<in> set (gs_workspaces st').
        gw_id w' = gw_id w \<longrightarrow> revision_step w w')"

section \<open>Composition\<close>

lemma keeps_entry_refl [simp]: "keeps_entry p p"
  by (simp add: keeps_entry_def)

lemma keeps_entry_trans: "keeps_entry p q \<Longrightarrow> keeps_entry q r \<Longrightarrow> keeps_entry p r"
  by (auto simp: keeps_entry_def)

lemma keeps_pending_refl [simp]: "keeps_pending st st"
  by (auto simp: keeps_pending_def intro: keeps_entry_refl)

lemma keeps_pending_same:
  "gs_pending_resources st' = gs_pending_resources st \<Longrightarrow> keeps_pending st st'"
  by (auto simp: keeps_pending_def intro: keeps_entry_refl)

lemma keeps_pending_trans: "keeps_pending a b \<Longrightarrow> keeps_pending b c \<Longrightarrow> keeps_pending a c"
  unfolding keeps_pending_def using keeps_entry_trans by meson

lemma keeps_pending_cong:
  "gs_pending_resources st1 = gs_pending_resources st2 \<Longrightarrow> keeps_pending st st1 = keeps_pending st st2"
  by (simp add: keeps_pending_def)

lemma keeps_pending_pointwise:
  assumes "length (gs_pending_resources st') = length (gs_pending_resources st)"
    and "\<And>i. i < length (gs_pending_resources st) \<Longrightarrow>
           keeps_entry (gs_pending_resources st ! i) (gs_pending_resources st' ! i)"
  shows "keeps_pending st st'"
  unfolding keeps_pending_def
proof
  fix p
  assume "p \<in> set (gs_pending_resources st)"
  then obtain i where "i < length (gs_pending_resources st)" "p = gs_pending_resources st ! i"
    by (auto simp: in_set_conv_nth)
  then show "\<exists>p' \<in> set (gs_pending_resources st'). keeps_entry p p'"
    using assms by (intro bexI [of _ "gs_pending_resources st' ! i"]) auto
qed

lemma keeps_pending_set:
  assumes "i < length (gs_pending_resources st) \<Longrightarrow>
      keeps_entry (gs_pending_resources st ! i) (f (gs_pending_resources st ! i))"
  shows "keeps_pending st (set_pending i f st)"
proof (rule keeps_pending_pointwise)
  fix j
  assume "j < length (gs_pending_resources st)"
  then show "keeps_entry (gs_pending_resources st ! j) (gs_pending_resources (set_pending i f st) ! j)"
    using assms by (cases "i = j") (auto simp: set_pending_def)
qed simp

lemma keeps_pending_append:
  "keeps_pending st (st'\<lparr>gs_pending_resources := gs_pending_resources st' @ ps\<rparr>)" if "keeps_pending st st'"
  using that by (fastforce simp: keeps_pending_def)

lemma log_step_refl [simp]: "log_step st st"
  by (auto simp: log_step_def intro!: exI [of _ 0] exI [of _ "[]"])

lemma log_step_same:
  "gs_completed_operations st' = gs_completed_operations st \<Longrightarrow> log_step st st'"
  by (auto simp: log_step_def intro!: exI [of _ 0] exI [of _ "[]"])

lemma log_step_drop:
  assumes "log_step st st1" and "gs_completed_operations st' = drop m (gs_completed_operations st1)"
  shows "log_step st st'"
proof -
  obtain n xs where "gs_completed_operations st1 = drop n (gs_completed_operations st) @ xs" "length xs \<le> 1"
    using assms(1) by (auto simp: log_step_def)
  then have "gs_completed_operations st' =
      drop (m + n) (gs_completed_operations st) @ drop (m - (length (gs_completed_operations st) - n)) xs"
      "length (drop (m - (length (gs_completed_operations st) - n)) xs) \<le> 1"
    using assms(2) by simp_all
  then show ?thesis unfolding log_step_def by blast
qed

lemma revisions_same:
  assumes "distinct (map gw_id (gs_workspaces st))"
    and "set (gs_workspaces st') \<subseteq> set (gs_workspaces st)"
  shows "revisions_step st st'"
  unfolding revisions_step_def
proof (intro ballI impI)
  fix w w'
  assume "w \<in> set (gs_workspaces st)" "w' \<in> set (gs_workspaces st')" "gw_id w' = gw_id w"
  then have "w' = w" using assms by (auto simp: distinct_map inj_on_def)
  then show "revision_step w w'" by (simp add: revision_step_def)
qed

lemma revisions_append:
  assumes "distinct (map gw_id (gs_workspaces st'))"
    and "gs_workspaces st' = gs_workspaces st @ ws"
  shows "revisions_step st st'"
  unfolding revisions_step_def
proof (intro ballI impI)
  fix w w'
  assume w: "w \<in> set (gs_workspaces st)" "w' \<in> set (gs_workspaces st')" "gw_id w' = gw_id w"
  then have "w \<in> set (gs_workspaces st')" by (simp add: assms(2))
  then have "w' = w" using w assms(1) by (auto simp: distinct_map inj_on_def)
  then show "revision_step w w'" by (simp add: revision_step_def)
qed

lemma revisions_replace:
  assumes dist: "distinct (map gw_id (gs_workspaces st))"
    and sub: "set (gs_workspaces st') \<subseteq> insert v' (set (gs_workspaces st))"
    and v: "v \<in> set (gs_workspaces st)" and step: "revision_step v v'"
  shows "revisions_step st st'"
  unfolding revisions_step_def
proof (intro ballI impI)
  fix w w'
  assume w: "w \<in> set (gs_workspaces st)" "w' \<in> set (gs_workspaces st')" "gw_id w' = gw_id w"
  show "revision_step w w'"
  proof (cases "w' \<in> set (gs_workspaces st)")
    case True
    then have "w' = w" using w dist by (auto simp: distinct_map inj_on_def)
    then show ?thesis by (simp add: revision_step_def)
  next
    case False
    then have "w' = v'" using w(2) sub by auto
    moreover have "w = v"
      using dist w v step calculation by (auto simp: distinct_map inj_on_def revision_step_def)
    ultimately show ?thesis using step by simp
  qed
qed

lemma revisions_put:
  assumes "distinct (map gw_id (gs_workspaces st))" and "find_workspace st i = Some w"
    and "revision_step w w'" and "gs_workspaces st' = gs_workspaces (put_workspace w' st)"
  shows "revisions_step st st'"
proof (rule revisions_replace [OF assms(1) _ _ assms(3)])
  show "set (gs_workspaces st') \<subseteq> insert w' (set (gs_workspaces st))"
    using set_update_first_subset [of "\<lambda>v. gw_id v = gw_id w'" "\<lambda>_. w'" "gs_workspaces st"]
    by (auto simp: assms(4) put_workspace_def)
  show "w \<in> set (gs_workspaces st)" using find_workspace_Some [OF assms(2)] by simp
qed

section \<open>The pieces that several commands share\<close>

lemma compact_keeps:
  assumes "compact_prepared_state env st1 = Inr st'"
  shows "keeps_pending st st' = keeps_pending st st1"
    and "log_step st st1 \<Longrightarrow> log_step st st'"
    and "revisions_step st st' = revisions_step st st1"
proof -
  note frame = compact_prepared_state_frame [OF assms]
  show "keeps_pending st st' = keeps_pending st st1"
    "revisions_step st st' = revisions_step st st1"
    by (simp_all add: keeps_pending_def revisions_step_def frame)
  obtain m n where "st' = st1\<lparr>gs_completed_operations := drop m (gs_completed_operations st1),
                     gs_completed_cwd := drop n (gs_completed_cwd st1)\<rparr>"
    using compact_prepared_state_result [OF assms] by blast
  then show "log_step st st1 \<Longrightarrow> log_step st st'" by (auto intro: log_step_drop)
qed

lemma push_completed_log:
  assumes "push_completed env st c = Inr st'"
  shows "log_step st st'"
proof (cases "co_operation_id c \<in> completed_ids st")
  case True
  then show ?thesis
    using assms find_Some_mem
    by (auto simp: push_completed_def completed_ids_def find_None_iff_ball split: option.splits if_splits)
next
  case False
  then show ?thesis
    using push_completed_fresh(1) [OF assms] by (fastforce simp: log_step_def)
qed

lemma keeps_reserve_new:
  assumes "reserve_new_pending_completion env st w p rb = Inr (st1, p')"
  shows "keeps_pending st st1"
proof -
  have same: "keeps_entry q (q\<lparr>pr_completion_reservation := r\<rparr>)" for q r
    by (simp add: keeps_entry_def pending_identity_def)
  have "gs_pending_resources st1 = gs_pending_resources st
      \<or> (\<exists>g. grow_reservations (gw_id w) g (gs_pending_resources st) = Inr (gs_pending_resources st1))"
    using assms by (auto simp: reserve_new_pending_completion_def bind_res_Inr Let_def split: if_splits)
  then show ?thesis
  proof (elim disjE exE)
    fix g
    assume "grow_reservations (gw_id w) g (gs_pending_resources st) = Inr (gs_pending_resources st1)"
    note frame = grow_reservations_frame [OF this]
    show ?thesis
    proof (rule keeps_pending_pointwise)
      show "length (gs_pending_resources st1) = length (gs_pending_resources st)"
        using frame by simp
      fix i
      assume "i < length (gs_pending_resources st)"
      then obtain r where
          "gs_pending_resources st1 ! i = (gs_pending_resources st ! i)\<lparr>pr_completion_reservation := r\<rparr>"
        using frame by blast
      then show "keeps_entry (gs_pending_resources st ! i) (gs_pending_resources st1 ! i)"
        by (simp add: same)
    qed
  qed (rule keeps_pending_same)
qed

lemma keeps_reserve_legacy:
  assumes "reserve_legacy env m wid rb i st = Inr st'"
  shows "keeps_pending st st' \<and> log_step st st'"
proof -
  have "st' = st \<or> (\<exists>r. compact_prepared_state env
          (set_pending i (\<lambda>p. p\<lparr>pr_completion_reservation := spaces r\<rparr>) st) = Inr st')"
    using assms by (fastforce simp: reserve_legacy_def bind_res_Inr split: if_splits)
  then show ?thesis
  proof (elim disjE exE)
    fix r
    assume compact: "compact_prepared_state env
        (set_pending i (\<lambda>p. p\<lparr>pr_completion_reservation := spaces r\<rparr>) st) = Inr st'"
    have "keeps_pending st (set_pending i (\<lambda>p. p\<lparr>pr_completion_reservation := spaces r\<rparr>) st)"
      by (rule keeps_pending_set) (simp add: keeps_entry_def pending_identity_def)
    then show ?thesis
      using compact_keeps(1,2) [OF compact] by (simp add: log_step_same)
  qed simp
qed

section \<open>Workspace commands\<close>

definition journal_step :: "gw_state \<Rightarrow> gw_state \<Rightarrow> bool" where
  "journal_step st st' \<longleftrightarrow>
     (distinct (map gw_id (gs_workspaces st)) \<longrightarrow> distinct (map gw_id (gs_workspaces st')) \<longrightarrow>
      keeps_pending st st' \<and> log_step st st' \<and> revisions_step st st')"

lemma journal_workspaces:
  assumes "gs_pending_resources st' = gs_pending_resources st"
    and "gs_completed_operations st' = gs_completed_operations st"
    and "distinct (map gw_id (gs_workspaces st)) \<Longrightarrow> distinct (map gw_id (gs_workspaces st'))
      \<Longrightarrow> revisions_step st st'"
  shows "journal_step st st'"
  using assms by (simp add: journal_step_def keeps_pending_same log_step_same)

lemma journal_same: "gs_pending_resources st' = gs_pending_resources st \<Longrightarrow>
    gs_completed_operations st' = gs_completed_operations st \<Longrightarrow>
    set (gs_workspaces st') \<subseteq> set (gs_workspaces st) \<Longrightarrow> journal_step st st'"
  by (rule journal_workspaces) (auto intro: revisions_same)

lemma journal_append: "gs_pending_resources st' = gs_pending_resources st \<Longrightarrow>
    gs_completed_operations st' = gs_completed_operations st \<Longrightarrow>
    gs_workspaces st' = gs_workspaces st @ ws \<Longrightarrow> journal_step st st'"
  by (rule journal_workspaces) (auto intro: revisions_append)

lemma journal_put: "find_workspace st i = Some w \<Longrightarrow> revision_step w w' \<Longrightarrow>
    journal_step st (put_workspace w' st)"
  by (rule journal_workspaces) (auto intro: revisions_put)

lemma journal_compact:
  "compact_prepared_state env st1 = Inr st' \<Longrightarrow> journal_step st st1 \<Longrightarrow> journal_step st st'"
  using compact_keeps compact_prepared_state_frame(1) by (simp add: journal_step_def)

lemma journal_refl [simp]: "journal_step st st"
  by (rule journal_same) simp_all

lemma revision_step_next:
  "gw_next (gw_revision w) = Inr r \<Longrightarrow> gw_id w' = gw_id w \<Longrightarrow> gw_revision w' = r \<Longrightarrow> revision_step w w'"
  using gw_next_less by (auto simp: revision_step_def dest: order.strict_implies_order)

lemma revision_step_update:
  "gw_next (gw_revision w) = Inr r \<Longrightarrow> revision_step w (w\<lparr>gw_revision := r, gw_placements := ps\<rparr>)"
  "gw_next (gw_revision w) = Inr r \<Longrightarrow> revision_step w (w\<lparr>gw_name := n, gw_revision := r\<rparr>)"
  "gw_next (gw_revision w) = Inr r \<Longrightarrow>
     revision_step w (w\<lparr>gw_revision := r, gw_closing := True, gw_placements := ps\<rparr>)"
  by (simp_all add: revision_step_next)

lemma migrate_appends: "migrate_workspaces n ws acc = Inr acc' \<Longrightarrow> \<exists>ys. acc' = acc @ ys"
  by (induction n ws acc rule: migrate_workspaces.induct) (fastforce split: if_splits)+

lemma journal_initialize:
  "gw_transition env (CmdInitialize n snap) st = Inr st' \<Longrightarrow> journal_step st st'"
  by (auto simp: bind_res_Inr dest!: migrate_appends intro: journal_append split: if_splits)

lemma journal_create: "create_op fresh name st = Inr (r, st') \<Longrightarrow> journal_step st st'"
  by (auto simp: create_op_def Let_def intro: journal_append split: if_splits)

lemma journal_adopt: "adopt_op fresh n owner st = Inr (r, st') \<Longrightarrow> journal_step st st'"
  by (auto simp: adopt_op_def Let_def bind_res_Inr intro: journal_append split: if_splits)

lemma journal_link: "link_op i rv n owner st = Inr (r, st') \<Longrightarrow> journal_step st st'"
  by (auto simp: link_op_def Let_def bind_res_Inr ok_or_Inr intro: journal_put revision_step_update
      split: if_splits)

lemma journal_rename: "rename_op i rv name st = Inr (r, st') \<Longrightarrow> journal_step st st'"
  by (auto simp: rename_op_def Let_def bind_res_Inr ok_or_Inr intro: journal_put revision_step_update
      split: if_splits)

lemma journal_begin_close: "begin_close_op i rv st = Inr (r, st') \<Longrightarrow> journal_step st st'"
  by (auto simp: begin_close_op_def Let_def bind_res_Inr ok_or_Inr intro: journal_put revision_step_update
      split: if_splits)

lemma journal_confirm_closed:
  assumes "confirm_closed_op i n owner st = Inr (r, st')"
  shows "journal_step st st'"
proof -
  obtain k where k: "position (\<lambda>w. gw_id w = i) (gs_workspaces st) = Some k"
    using assms by (auto simp: confirm_closed_op_def bind_res_Inr ok_or_Inr)
  let ?w = "gs_workspaces st ! k"
  have mem: "?w \<in> set (gs_workspaces st)" using position_Some_mem [OF k] by simp
  have "st' = st\<lparr>gs_workspaces := remove_at k (gs_workspaces st)\<rparr>
      \<or> (\<exists>x ps. gw_next (gw_revision ?w) = Inr x
            \<and> st' = st\<lparr>gs_workspaces := (gs_workspaces st)[k := ?w\<lparr>gw_placements := ps, gw_revision := x\<rparr>]\<rparr>)"
    using assms k by (auto simp: confirm_closed_op_def bind_res_Inr Let_def split: if_splits)
  then show ?thesis
  proof (elim disjE exE conjE)
    assume "st' = st\<lparr>gs_workspaces := remove_at k (gs_workspaces st)\<rparr>"
    then show ?thesis using set_remove_at [of k "gs_workspaces st"] by (intro journal_same) simp_all
  next
    fix x ps
    let ?v = "?w\<lparr>gw_placements := ps, gw_revision := x\<rparr>"
    assume nxt: "gw_next (gw_revision ?w) = Inr x"
      and st': "st' = st\<lparr>gs_workspaces := (gs_workspaces st)[k := ?v]\<rparr>"
    have step: "revision_step ?w ?v" by (rule revision_step_next [OF nxt]) simp_all
    have "set (gs_workspaces st') \<subseteq> insert ?v (set (gs_workspaces st))"
      unfolding st' by (simp add: set_update_subset_insert)
    then show ?thesis using revisions_replace [OF _ _ mem step] st'
      by (intro journal_workspaces) simp_all
  qed
qed

lemma journal_confirm_empty: "confirm_empty_closed_op i st = Inr (r, st') \<Longrightarrow> journal_step st st'"
  by (auto simp: confirm_empty_closed_op_def bind_res_Inr ok_or_Inr Let_def split: if_splits
      intro!: journal_same dest: subsetD [OF set_remove_at])

section \<open>Default-directory commands\<close>

lemma journal_compact_cwd:
  "compact_prepared_state env (st\<lparr>gs_pending_cwd := ps\<rparr>) = Inr st' \<Longrightarrow> journal_step st st'"
  by (erule journal_compact) (rule journal_same; simp)

lemma journal_prepare_cwd: "prepare_default_cwd_op env rq st = Inr (r, st') \<Longrightarrow> journal_step st st'"
  by (auto simp: prepare_default_cwd_op_def Let_def bind_res_Inr ok_or_Inr
      intro: journal_compact_cwd split: if_splits option.splits)

lemma journal_mark_cwd: "mark_default_cwd_owner_attempted_op p st = Inr (r, st') \<Longrightarrow> journal_step st st'"
  by (auto simp: mark_default_cwd_owner_attempted_op_def bind_res_Inr intro!: journal_same split: if_splits)

lemma journal_cancel_cwd: "cancel_default_cwd_op p st = Inr (r, st') \<Longrightarrow> journal_step st st'"
  by (auto simp: cancel_default_cwd_op_def intro!: journal_same split: if_splits option.splits)

lemma journal_cancel_cwd_never:
  "cancel_default_cwd_if_never_attempted_op p st = Inr (r, st') \<Longrightarrow> journal_step st st'"
  by (auto simp: cancel_default_cwd_if_never_attempted_op_def intro!: journal_same
      split: if_splits option.splits)

lemma owner_keys_update [simp]:
  "owner_key ` set (update_first P (\<lambda>q. q\<lparr>pl_owner_revision := a, pl_default_cwd := b\<rparr>) pls) =
     owner_key ` set pls"
proof -
  have "map owner_key (update_first P (\<lambda>q. q\<lparr>pl_owner_revision := a, pl_default_cwd := b\<rparr>) pls) =
      map owner_key pls"
    by (rule map_update_first_id) (simp add: owner_key_def)
  then show ?thesis by (metis list.set_map)
qed

text \<open>The accepted completion, step by step: \<open>p\<close> is the prepared entry, \<open>w\<close> its Workspace.\<close>

lemma complete_cwd_fresh:
  assumes "complete_default_cwd_op env op owner st = Inr (r, st')"
    and "find_completed_cwd st (pd_operation_id op) = None"
  obtains i p changed w x cs where
    "position (\<lambda>q. pd_operation_id q = pd_operation_id op) (gs_pending_cwd st) = Some i"
    and "p = gs_pending_cwd st ! i"
    and "find_workspace st (pd_global_workspace_id p) = Some w"
    and "same_default_cwd_request p op" and "ws_id owner = pd_owner_workspace_id p"
    and "ws_default_cwd owner = Some (pd_default_cwd p)"
    and "u64_checked_sub (ws_revision owner) (pd_expected_owner_revision p) =
           Some (if changed then 1 else 0)"
    and "(if changed then gw_next (gw_revision w) else Inr (gw_revision w)) = Inr x"
    and "r = \<lparr>dcr_workspace_id = gw_id w, dcr_node_id = pd_node_id p,
              dcr_owner_workspace_id = pd_owner_workspace_id p,
              dcr_default_cwd = pd_default_cwd p, dcr_global_revision = x,
              dcr_owner_revision = ws_revision owner,
              dcr_result = (if changed then ''updated'' else ''unchanged'')\<rparr>"
    and "cs = push_completed_cwd \<lparr>cd_request = p\<lparr>pd_completion_reservation := []\<rparr>, cd_result = r\<rparr>
                (gs_completed_cwd st)"
    and "compact_prepared_state env
           ((put_workspace
               (w\<lparr>gw_placements := update_first (\<lambda>q. pl_node_id q = pd_node_id p
                       \<and> pl_workspace_id q = pd_owner_workspace_id p)
                     (\<lambda>q. q\<lparr>pl_owner_revision := ws_revision owner,
                            pl_default_cwd := Some (pd_default_cwd p)\<rparr>) (gw_placements w),
                  gw_revision := x\<rparr>) st)
              \<lparr>gs_pending_cwd := remove_at i (gs_pending_cwd st), gs_completed_cwd := cs\<rparr>) = Inr st'"
proof -
  obtain i where i: "position (\<lambda>q. pd_operation_id q = pd_operation_id op) (gs_pending_cwd st) = Some i"
    using assms by (auto simp: complete_default_cwd_op_def bind_res_Inr ok_or_Inr)
  have "\<exists>changed. u64_checked_sub (ws_revision owner)
        (pd_expected_owner_revision (gs_pending_cwd st ! i)) = Some (if changed then 1 else 0)"
    using assms i
    by (auto simp: complete_default_cwd_op_def bind_res_Inr Let_def split: if_splits option.splits
        intro: exI [of _ True] exI [of _ False])
  then obtain changed where changed: "u64_checked_sub (ws_revision owner)
        (pd_expected_owner_revision (gs_pending_cwd st ! i)) = Some (if changed then 1 else 0)" ..
  obtain w where w: "find_workspace st (pd_global_workspace_id (gs_pending_cwd st ! i)) = Some w"
    using assms i changed
    by (auto simp: complete_default_cwd_op_def bind_res_Inr ok_or_Inr Let_def split: if_splits)
  obtain x where x: "(if changed then gw_next (gw_revision w) else Inr (gw_revision w)) = Inr x"
    using assms i changed w
    by (auto simp: complete_default_cwd_op_def bind_res_Inr ok_or_Inr Let_def split: if_splits)
  show thesis
    using assms i changed w x
    by (intro that [OF i refl w _ _ _ changed x])
      (auto simp: complete_default_cwd_op_def bind_res_Inr ok_or_Inr Let_def split: if_splits)
qed

lemma journal_complete_cwd:
  assumes "complete_default_cwd_op env op owner st = Inr (r, st')"
  shows "journal_step st st'"
proof (cases "find_completed_cwd st (pd_operation_id op)")
  case (Some c)
  then show ?thesis using assms by (auto simp: complete_default_cwd_op_def split: if_splits)
next
  case None
  from assms None show ?thesis
  proof (rule complete_cwd_fresh)
    fix i changed x cs and p :: pending_default_cwd_operation and w :: global_workspace_snapshot
    let ?ps = "update_first (\<lambda>q. pl_node_id q = pd_node_id p
                       \<and> pl_workspace_id q = pd_owner_workspace_id p)
                     (\<lambda>q. q\<lparr>pl_owner_revision := ws_revision owner,
                            pl_default_cwd := Some (pd_default_cwd p)\<rparr>) (gw_placements w)"
    let ?w = "w\<lparr>gw_placements := ?ps, gw_revision := x\<rparr>"
    assume found: "find_workspace st (pd_global_workspace_id p) = Some w"
      and rev: "(if changed then gw_next (gw_revision w) else Inr (gw_revision w)) = Inr x"
      and compact: "compact_prepared_state env ((put_workspace ?w st)
           \<lparr>gs_pending_cwd := remove_at i (gs_pending_cwd st), gs_completed_cwd := cs\<rparr>) = Inr st'"
    from rev have "revision_step w ?w"
      using gw_next_less [of "gw_revision w" x]
      by (auto simp: revision_step_def workspace_shape_def split: if_splits)
    from journal_put [OF found this] have "journal_step st
       ((put_workspace ?w st)\<lparr>gs_pending_cwd := remove_at i (gs_pending_cwd st), gs_completed_cwd := cs\<rparr>)"
      by (simp add: journal_step_def keeps_pending_def log_step_def revisions_step_def)
    with compact show ?thesis by (rule journal_compact)
  qed
qed

section \<open>Prepared resources\<close>

lemma keeps_pending_chain:
  "keeps_pending st1 st2 \<Longrightarrow> keeps_pending st st1 \<Longrightarrow> keeps_pending st st2"
  by (rule keeps_pending_trans)

text \<open>A command that leaves the Workspaces alone and only touches pending entries.\<close>

lemma journal_pending:
  "gs_workspaces st' = gs_workspaces st \<Longrightarrow> keeps_pending st st' \<Longrightarrow> log_step st st' \<Longrightarrow> journal_step st st'"
  by (simp add: journal_step_def revisions_same)

lemma reserve_legacy_frame:
  assumes "reserve_legacy env m wid rb i st = Inr st'"
  shows "gs_workspaces st' = gs_workspaces st"
    "map pr_operation_id (gs_pending_resources st') = map pr_operation_id (gs_pending_resources st)"
proof -
  have "st' = st \<or> (\<exists>r. compact_prepared_state env
          (set_pending i (\<lambda>p. p\<lparr>pr_completion_reservation := spaces r\<rparr>) st) = Inr st')"
    using assms by (fastforce simp: reserve_legacy_def bind_res_Inr split: if_splits)
  then show "gs_workspaces st' = gs_workspaces st"
    "map pr_operation_id (gs_pending_resources st') = map pr_operation_id (gs_pending_resources st)"
    by (auto dest: compact_prepared_state_frame(1) compact_prepared_state_frame(2) simp: map_set_pending)
qed

lemma journal_replay_resource:
  assumes "replay_pending_resource env rq i st = Inr (r, st')"
  shows "journal_step st st'"
proof -
  let ?fill = "\<lambda>p. p\<lparr>pr_request_fingerprint := Some (rq_request_fingerprint rq)\<rparr>"
  define st1 where "st1 = (if pr_request_fingerprint (gs_pending_resources st ! i) = None
                           then set_pending i ?fill st else st)"
  obtain st2 where legacy: "reserve_legacy env ''prepared Workspace is missing'' (rq_global_id rq)
                    (rq_request_bytes rq) i st1 = Inr st2"
    and st': "st' = (if rq_owner_attempted rq
                     then set_pending i (\<lambda>p. p\<lparr>pr_owner_attempted := True\<rparr>) st2 else st2)"
    using assms unfolding replay_pending_resource_def
    by (cases "pending_matches rq (gs_pending_resources st ! i)")
      (auto simp: st1_def [symmetric] bind_res_Inr Let_def split del: if_split)
  have 1: "keeps_pending st st1"
    by (auto simp: st1_def keeps_entry_def pending_identity_def intro: keeps_pending_set)
  have 2: "keeps_pending st1 st2" "log_step st1 st2" using keeps_reserve_legacy [OF legacy] by simp_all
  have 3: "keeps_pending st2 st'"
    by (auto simp: st' keeps_entry_def pending_identity_def intro: keeps_pending_set)
  have "gs_completed_operations st1 = gs_completed_operations st" by (simp add: st1_def)
  then have "log_step st st2" using 2 by (simp add: log_step_def)
  then have "log_step st st'" by (simp add: st' log_step_def)
  moreover have "gs_workspaces st' = gs_workspaces st"
    using reserve_legacy_frame(1) [OF legacy] by (simp add: st' st1_def)
  ultimately show ?thesis
    using keeps_pending_trans [OF keeps_pending_trans [OF 1 2(1)] 3] by (intro journal_pending)
qed

lemma journal_replay_shell:
  assumes "replay_pending_shell env sq i st = Inr (r, st')"
  shows "journal_step st st'"
proof -
  let ?fill = "\<lambda>p. p\<lparr>pr_request_fingerprint := Some (sq_request_fingerprint sq),
                       pr_semantic_fingerprint := Some (sq_semantic_fingerprint sq)\<rparr>"
  define st1 where "st1 = (if pr_request_fingerprint (gs_pending_resources st ! i) = None
                           then set_pending i ?fill st else st)"
  have legacy: "reserve_legacy env ''prepared project Workspace is missing''
                  (sq_global_workspace_id sq) (sq_request_bytes sq) i st1 = Inr st'"
    using assms unfolding replay_pending_shell_def
    by (auto simp: st1_def [symmetric] bind_res_Inr Let_def split: if_splits)
  have 1: "keeps_pending st st1"
    by (auto simp: st1_def keeps_entry_def pending_identity_def intro: keeps_pending_set)
  have 2: "keeps_pending st1 st'" "log_step st1 st'" using keeps_reserve_legacy [OF legacy] by simp_all
  have "gs_completed_operations st1 = gs_completed_operations st" by (simp add: st1_def)
  then have "log_step st st'" using 2 by (simp add: log_step_def)
  moreover have "gs_workspaces st' = gs_workspaces st"
    using reserve_legacy_frame(1) [OF legacy] by (simp add: st1_def)
  ultimately show ?thesis
    using keeps_pending_trans [OF 1 2(1)] by (intro journal_pending)
qed

text \<open>Appending one prepared entry, with or without a new Workspace.\<close>

lemma journal_append_pending:
  assumes reserve: "reserve_new_pending_completion env st w p rb = Inr (st1, p')"
    and compact: "compact_prepared_state env
       (st1\<lparr>gs_workspaces := gs_workspaces st1 @ ws, gs_pending_resources := gs_pending_resources st1 @ [p']\<rparr>) = Inr st'"
  shows "journal_step st st'"
proof (rule journal_compact [OF compact])
  note frame = reserve_new_pending_completion_frame [OF reserve]
  let ?st = "st1\<lparr>gs_workspaces := gs_workspaces st1 @ ws, gs_pending_resources := gs_pending_resources st1 @ [p']\<rparr>"
  have "keeps_pending st ?st"
    using keeps_reserve_new [OF reserve] by (fastforce simp: keeps_pending_def)
  moreover have "log_step st ?st" using frame by (simp add: log_step_same)
  moreover have "distinct (map gw_id (gs_workspaces ?st)) \<Longrightarrow> revisions_step st ?st"
    using frame(1) by (intro revisions_append [where ws = ws]) simp_all
  ultimately show "journal_step st ?st" by (simp add: journal_step_def)
qed

lemma journal_append_pending_only:
  assumes "reserve_new_pending_completion env st w p rb = Inr (st1, p')"
    and "compact_prepared_state env
       (st1\<lparr>gs_pending_resources := gs_pending_resources st1 @ [p']\<rparr>) = Inr st'"
  shows "journal_step st st'"
  using journal_append_pending [OF assms(1), of "[]" st'] assms(2) by simp

lemma journal_prepare_resource:
  "prepare_resource_op env rq st = Inr (r, st') \<Longrightarrow> journal_step st st'"
  by (auto simp: prepare_resource_op_def prepare_new_resource_def Let_def bind_res_Inr
      intro: journal_replay_resource journal_append_pending_only split: option.splits if_splits)

lemma journal_step_set_pending:
  assumes "journal_step (set_pending i f st) st'"
    and "\<And>p. keeps_entry p (f p)"
  shows "journal_step st st'"
  using assms(1) keeps_pending_set [of i st f] assms(2)
  by (auto simp: journal_step_def log_step_def revisions_step_def intro: keeps_pending_trans)

lemma journal_push: "push_completed env st c = Inr st' \<Longrightarrow> journal_step st st'"
  using push_completed_frame push_completed_log
  by (metis journal_pending keeps_pending_same)

lemma journal_join_shell:
  assumes "join_existing_shell env sq w st = Inr (r, st')"
  shows "journal_step st st'"
proof (cases "List.find (\<lambda>c. co_creates_workspace c \<and> gw_id (co_workspace c) = gw_id w
      \<and> co_semantic_fingerprint c = Some (sq_semantic_fingerprint sq)) (rev (gs_completed_operations st))")
  case (Some c)
  then show ?thesis
    using assms by (auto simp: join_existing_shell_def Let_def bind_res_Inr intro: journal_push)
next
  case None
  then obtain i where i: "position (\<lambda>p. pr_creates_workspace p \<and> pr_global_workspace_id p = gw_id w
      \<and> same_semantics sq p) (gs_pending_resources st) = Some i"
    using assms(1) by (auto simp: join_existing_shell_def split: option.splits)
  define st1 where "st1 = (if pr_semantic_fingerprint (gs_pending_resources st ! i) = None
     then set_pending i (\<lambda>p. p\<lparr>pr_semantic_fingerprint := Some (sq_semantic_fingerprint sq)\<rparr>) st else st)"
  have "journal_step st1 st'"
    using assms(1) None i
    by (auto simp: join_existing_shell_def Let_def bind_res_Inr st1_def [symmetric]
        intro: journal_append_pending_only split: if_splits)
  moreover have "keeps_entry p (p\<lparr>pr_semantic_fingerprint := Some (sq_semantic_fingerprint sq)\<rparr>)" for p
    by (simp add: keeps_entry_def pending_identity_def)
  ultimately show ?thesis
    using journal_step_set_pending by (auto simp: st1_def split: if_splits)
qed

lemma journal_prepare_new_shell:
  "prepare_new_shell env sq st = Inr (r, st') \<Longrightarrow> journal_step st st'"
  by (auto simp: prepare_new_shell_def Let_def bind_res_Inr intro: journal_append_pending split: if_splits)

lemma journal_prepare_shell:
  "prepare_workspace_shell_op env sq st = Inr (r, st') \<Longrightarrow> journal_step st st'"
  by (auto simp: prepare_workspace_shell_op_def split: option.splits if_splits
      intro: journal_replay_shell journal_join_shell journal_prepare_new_shell)

lemma journal_mark: "mark_owner_attempted_op p st = Inr (r, st') \<Longrightarrow> journal_step st st'"
  by (auto simp: mark_owner_attempted_op_def Let_def bind_res_Inr keeps_entry_def pending_identity_def
      intro!: journal_pending keeps_pending_set log_step_same split: if_splits)

section \<open>Commands that may remove a prepared operation\<close>

definition journal_step_but ::
    "(pending_workspace_resource \<Rightarrow> bool) \<Rightarrow> gw_state \<Rightarrow> gw_state \<Rightarrow> bool" where
  "journal_step_but P st st' \<longleftrightarrow>
     (distinct (map gw_id (gs_workspaces st)) \<longrightarrow> distinct (map gw_id (gs_workspaces st')) \<longrightarrow>
        (\<forall>p \<in> set (gs_pending_resources st). \<not> P p \<longrightarrow>
           (\<exists>p' \<in> set (gs_pending_resources st'). keeps_entry p p'))
        \<and> log_step st st' \<and> revisions_step st st')"

lemma journal_step_weaken: "journal_step st st' \<Longrightarrow> journal_step_but P st st'"
  by (simp add: journal_step_def journal_step_but_def keeps_pending_def)

text \<open>\<open>may_remove c p\<close>: command \<open>c\<close> is entitled to take \<open>p\<close> out of the journal.\<close>

definition may_remove :: "gw_command \<Rightarrow> pending_workspace_resource \<Rightarrow> bool" where
  "may_remove c p \<longleftrightarrow>
     (case c of
        CmdCancelResource q \<Rightarrow>
          pr_operation_id q = pr_operation_id p
          \<and> pr_request_fingerprint q = pr_request_fingerprint p
          \<and> \<not> (pr_creates_workspace p \<and> pr_owner_attempted p)
      | CmdCancelPendingIfNeverAttempted op f \<Rightarrow>
          op = pr_operation_id p \<and> \<not> pr_owner_attempted p
      | CmdCompleteResource q owner result \<Rightarrow>
          pr_operation_id q = pr_operation_id p
          \<and> pr_request_fingerprint q = pr_request_fingerprint p
          \<and> ws_id owner = pr_owner_workspace_id p
      | _ \<Rightarrow> False)"

lemma remove_pending_at_frame:
  "gs_pending_resources (remove_pending_at st i) = remove_at i (gs_pending_resources st)"
  "gs_completed_operations (remove_pending_at st i) = gs_completed_operations st"
  "set (gs_workspaces (remove_pending_at st i)) \<subseteq> set (gs_workspaces st)"
  by (auto simp: remove_pending_at_def Let_def dest: subsetD [OF set_remove_at] split: option.splits if_splits)

lemma journal_remove_pending:
  assumes "P (gs_pending_resources st ! i)"
  shows "journal_step_but P st (remove_pending_at st i)"
proof -
  have "\<exists>p' \<in> set (gs_pending_resources (remove_pending_at st i)). keeps_entry p p'"
    if "p \<in> set (gs_pending_resources st)" "\<not> P p" for p
    using that assms mem_remove_at [OF that(1), of i]
    by (intro bexI [of _ p]) (auto simp: remove_pending_at_frame)
  then show ?thesis
    by (simp add: journal_step_but_def remove_pending_at_frame log_step_same revisions_same)
qed

lemma journal_cancel_resource:
  assumes "cancel_resource_op q st = Inr (r, st')"
  shows "journal_step_but (may_remove (CmdCancelResource q)) st st'"
proof (cases "position (\<lambda>c. pr_operation_id c = pr_operation_id q) (gs_pending_resources st)")
  case None
  then show ?thesis
    using assms by (auto simp: cancel_resource_op_def intro: journal_step_weaken split: if_splits)
next
  case (Some i)
  then show ?thesis
    using assms position_SomeD [OF Some]
    by (auto simp: cancel_resource_op_def Let_def may_remove_def
        intro: journal_step_weaken journal_remove_pending split: if_splits)
qed

lemma journal_cancel_never:
  assumes "cancel_pending_operation_if_never_attempted_op op f st = Inr (r, st')"
  shows "journal_step_but (may_remove (CmdCancelPendingIfNeverAttempted op f)) st st'"
proof (cases "position (\<lambda>c. pr_operation_id c = op) (gs_pending_resources st)")
  case None
  then show ?thesis
    using assms by (auto simp: cancel_pending_operation_if_never_attempted_op_def
        intro: journal_step_weaken split: if_splits)
next
  case (Some i)
  then show ?thesis
    using assms position_SomeD [OF Some]
    by (auto simp: cancel_pending_operation_if_never_attempted_op_def Let_def may_remove_def
        intro: journal_step_weaken journal_remove_pending split: if_splits)
qed

lemma owner_keys_activate:
  "owner_key ` set (update_first P (\<lambda>q. q\<lparr>pl_owner_workspace_name := n, pl_owner_revision := a,
        pl_default_cwd := b, pl_state := s\<rparr>) pls) = owner_key ` set pls"
proof -
  have "map owner_key (update_first P (\<lambda>q. q\<lparr>pl_owner_workspace_name := n, pl_owner_revision := a,
        pl_default_cwd := b, pl_state := s\<rparr>) pls) = map owner_key pls"
    by (rule map_update_first_id) (simp add: owner_key_def)
  then show ?thesis by (metis list.set_map)
qed

lemma link_completed_step: "link_completed q owner w = Inr w' \<Longrightarrow> revision_step w w'"
proof (cases "find_placement w (pr_node_id q)")
  case None
  then show "link_completed q owner w = Inr w' \<Longrightarrow> revision_step w w'"
    by (auto simp: link_completed_def bind_res_Inr intro: revision_step_update(1))
next
  case (Some pl)
  assume "link_completed q owner w = Inr w'"
  with Some have "w' = w\<lparr>gw_placements := update_first (\<lambda>pl. pl_node_id pl = pr_node_id q)
      (\<lambda>pl. pl\<lparr>pl_owner_workspace_name := Some (ws_name owner), pl_owner_revision := ws_revision owner,
              pl_default_cwd := ws_default_cwd owner, pl_state := PlActive\<rparr>) (gw_placements w)\<rparr>"
    by (simp add: link_completed_def split: if_splits)
  then show "revision_step w w'"
    by (simp add: revision_step_def workspace_shape_def owner_keys_activate)
qed

text \<open>The accepted completion, step by step: \<open>q\<close> is the prepared entry, \<open>w\<close> its Workspace.\<close>

lemma complete_resource_fresh:
  assumes "complete_resource_op env p owner result st = Inr (c, st')"
    and "position (\<lambda>q. pr_operation_id q = pr_operation_id p) (gs_pending_resources st) = Some i"
  obtains q w w' f where
    "q = gs_pending_resources st ! i" and "pr_request_fingerprint q = pr_request_fingerprint p"
    and "ws_id owner = pr_owner_workspace_id q" and "ws_name owner = pr_owner_workspace_name q"
    and "ws_default_cwd owner = pr_default_cwd q"
    and "find_workspace st (pr_global_workspace_id q) = Some w"
    and "link_completed q owner w = Inr w'"
    and "pr_request_fingerprint q = Some f"
    and "c = \<lparr>co_operation_id = pr_operation_id q, co_request_fingerprint = f,
              co_semantic_fingerprint = pr_semantic_fingerprint q,
              co_creates_workspace = pr_creates_workspace q,
              co_workspace = w', co_resource = result\<rparr>"
    and "push_completed env ((put_workspace w' st)
           \<lparr>gs_pending_resources := remove_at i (gs_pending_resources st)\<rparr>) c = Inr st'"
  using assms that
  by (auto simp: complete_resource_op_def complete_pending_def Let_def bind_res_Inr ok_or_Inr split: if_splits)

lemma journal_complete_resource:
  assumes "complete_resource_op env op owner result st = Inr (c, st')"
  shows "journal_step_but (may_remove (CmdCompleteResource op owner result)) st st'"
proof (cases "position (\<lambda>q. pr_operation_id q = pr_operation_id op) (gs_pending_resources st)")
  case None
  then show ?thesis
    using assms by (auto simp: complete_resource_op_def bind_res_Inr ok_or_Inr intro: journal_step_weaken)
next
  case (Some i)
  from assms Some obtain q w w' where q: "q = gs_pending_resources st ! i"
    and allowed: "pr_request_fingerprint q = pr_request_fingerprint op" "ws_id owner = pr_owner_workspace_id q"
    and found: "find_workspace st (pr_global_workspace_id q) = Some w"
    and link: "link_completed q owner w = Inr w'"
    and push: "push_completed env ((put_workspace w' st)
           \<lparr>gs_pending_resources := remove_at i (gs_pending_resources st)\<rparr>) c = Inr st'"
    by (rule complete_resource_fresh)
  let ?st = "(put_workspace w' st)\<lparr>gs_pending_resources := remove_at i (gs_pending_resources st)\<rparr>"
  have "pr_operation_id q = pr_operation_id op" using position_SomeD [OF Some] q by simp
  then have may: "may_remove (CmdCompleteResource op owner result) (gs_pending_resources st ! i)"
    using allowed q by (simp add: may_remove_def)
  have "journal_step st (put_workspace w' st)" by (rule journal_put [OF found link_completed_step [OF link]])
  moreover have "journal_step ?st st'" by (rule journal_push [OF push])
  moreover have "gs_workspaces st' = gs_workspaces ?st" "gs_pending_resources st' = gs_pending_resources ?st"
    using push_completed_frame [OF push] by simp_all
  moreover have "\<exists>p' \<in> set (gs_pending_resources st'). keeps_entry p p'"
    if "p \<in> set (gs_pending_resources st)" "\<not> may_remove (CmdCompleteResource op owner result) p" for p
    using that may mem_remove_at [OF that(1), of i] calculation(4)
    by (intro bexI [of _ p]) auto
  ultimately show ?thesis
    by (simp add: journal_step_but_def journal_step_def log_step_def revisions_step_def)
qed

section \<open>Every command\<close>

lemmas journal_commands =
  journal_create journal_adopt journal_link journal_rename journal_begin_close
  journal_confirm_closed journal_confirm_empty journal_prepare_cwd journal_mark_cwd
  journal_cancel_cwd journal_cancel_cwd_never journal_complete_cwd journal_prepare_resource
  journal_prepare_shell journal_mark

lemma gw_transition_journal:
  assumes "gw_transition env c st = Inr st'"
  shows "journal_step_but (may_remove c) st st'"
proof (cases c)
  case (CmdInitialize n snap)
  then show ?thesis using assms journal_initialize journal_step_weaken by blast
qed (use assms in \<open>auto simp: next_state_Inr intro: journal_step_weaken
       dest: journal_commands journal_cancel_resource journal_cancel_never journal_complete_resource\<close>)

lemma gw_exec_journal:
  assumes "gw_exec env c s = (r, s')" and "gw_valid env (store_mem s)"
  shows "(\<forall>p \<in> set (gs_pending_resources (store_mem s)). \<not> may_remove c p \<longrightarrow>
           (\<exists>p' \<in> set (gs_pending_resources (store_mem s')). keeps_entry p p'))
    \<and> log_step (store_mem s) (store_mem s') \<and> revisions_step (store_mem s) (store_mem s')"
proof -
  have refl: "journal_step (store_mem s) (store_mem s)" by simp
  have "journal_step_but (may_remove c) (store_mem s) (store_mem s')
      \<and> distinct (map gw_id (gs_workspaces (store_mem s')))"
  proof (cases r)
    case None
    then have "store_step env c s s'" using gw_exec_success assms(1) by blast
    then show ?thesis
      using assms(2) gw_valid_distinct_ids gw_transition_journal by (auto simp: store_step_def)
  next
    case (Some e)
    then have "s' = s" using gw_exec_failure assms(1) by blast
    then show ?thesis using journal_step_weaken [OF refl] gw_valid_distinct_ids [OF assms(2)] by simp
  qed
  then show ?thesis using gw_valid_distinct_ids [OF assms(2)] by (simp add: journal_step_but_def)
qed

section \<open>Edits guarded by the revision\<close>

datatype workspace_edit = EditRename string | EditLink string workspace_snapshot | EditBeginClose

text \<open>The state an edit of Workspace \<open>i\<close> made against revision \<open>expected\<close> leaves, when it
  changes something.\<close>

definition edit_workspace ::
    "string \<Rightarrow> u64 \<Rightarrow> workspace_edit \<Rightarrow> gw_state \<Rightarrow> gw_state option" where
  "edit_workspace i expected edit st =
     (case next_state (case edit of
              EditRename name \<Rightarrow> rename_op i expected name st
            | EditLink n owner \<Rightarrow> link_op i expected n owner st
            | EditBeginClose \<Rightarrow> begin_close_op i expected st) of
        Inl e \<Rightarrow> None
      | Inr st' \<Rightarrow> (if st' = st then None else Some st'))"

definition workspace_revision :: "string \<Rightarrow> gw_state \<Rightarrow> u64" where
  "workspace_revision i st = (case find_workspace st i of None \<Rightarrow> 0 | Some w \<Rightarrow> gw_revision w)"

lemma find_workspace_put:
  "find_workspace st i = Some w \<Longrightarrow> gw_id w' = gw_id w \<Longrightarrow> find_workspace (put_workspace w' st) i = Some w'"
  using find_workspace_Some [of st i w]
  by (auto simp: find_workspace_def put_workspace_def intro: find_update_first_same)

lemma workspace_revision_put:
  "find_workspace st i = Some w \<Longrightarrow> gw_id w' = gw_id w \<Longrightarrow>
     workspace_revision i (put_workspace w' st) = gw_revision w'"
  by (simp add: workspace_revision_def find_workspace_put)

lemma edit_workspace_step:
  assumes "edit_workspace i expected edit st = Some st'"
  shows "workspace_revision i st = expected \<and> workspace_revision i st < workspace_revision i st'"
  using assms
  by (auto simp: edit_workspace_def next_state_Inr rename_op_def link_op_def begin_close_op_def
      bind_res_Inr ok_or_Inr require_revision_Inr Let_def workspace_revision_put
      split: workspace_edit.splits sum.splits if_splits dest!: gw_next_less)
    (simp_all add: workspace_revision_def)

interpretation gw_edit: revision_guarded "edit_workspace i" "workspace_revision i" for i
  using edit_workspace_step by unfold_locales blast+

end
