(* ===== verification/Gw_Complete.thy ===== *)
theory Gw_Complete
  imports Gw_Journal
begin

text \<open>
  The functional behaviour of completing and replaying prepared operations
  (\<open>src/src/global_workspace_store.rs\<close>): what a completion leaves in the Workspace, the journal
  and the log, what a repeated request returns, and why an open close can always be confirmed.
\<close>

section \<open>Looking up placements\<close>

lemma find_filter_single: "filter p xs = [x] \<Longrightarrow> List.find p xs = Some x"
  by (induction xs) (auto split: if_splits simp: filter_empty_conv find_None_iff_ball)

lemma filter_sort_key_single:
  assumes "filter (\<lambda>y. k y = k x) xs = [x]"
  shows "filter (\<lambda>y. k y = k x) (sort_key k xs) = [x]"
proof -
  have "filter (\<lambda>y. k x = k y) (sort_key k xs) = filter (\<lambda>y. k x = k y) xs"
    using sort_key_stable [of k "k x" xs] by (simp add: eq_commute)
  then show ?thesis using assms by (simp add: eq_commute)
qed

lemma find_placement_appended:
  assumes "find_placement w (pl_node_id pl) = None"
    and "gw_placements w' = sort_placements (gw_placements w @ [pl])"
  shows "find_placement w' (pl_node_id pl) = Some pl"
proof -
  have "filter (\<lambda>p. pl_node_id p = pl_node_id pl) (gw_placements w @ [pl]) = [pl]"
    using assms(1) by (auto simp: find_placement_def find_None_iff_ball filter_empty_conv)
  from find_filter_single [OF filter_sort_key_single [OF this]] show ?thesis
    by (simp add: find_placement_def assms(2) sort_placements_def)
qed

lemma link_completed_placement:
  assumes "link_completed q owner w = Inr w'"
  shows "\<exists>pl. find_placement w' (pr_node_id q) = Some pl \<and> pl_workspace_id pl = ws_id owner
      \<and> pl_owner_revision pl = ws_revision owner \<and> pl_default_cwd pl = ws_default_cwd owner
      \<and> pl_owner_workspace_name pl = Some (ws_name owner) \<and> pl_state pl = PlActive"
proof (cases "find_placement w (pr_node_id q)")
  case None
  then show ?thesis
    using assms find_placement_appended [of w "gw_placement (pr_node_id q) owner PlActive" w']
    by (auto simp: link_completed_def bind_res_Inr gw_placement_def)
next
  case (Some pl)
  then show ?thesis
    using assms find_update_first_same [of "\<lambda>p. pl_node_id p = pr_node_id q" "gw_placements w" pl
        "\<lambda>pl. pl\<lparr>pl_owner_workspace_name := Some (ws_name owner), pl_owner_revision := ws_revision owner,
              pl_default_cwd := ws_default_cwd owner, pl_state := PlActive\<rparr>"]
      find_Some_mem [of "\<lambda>p. pl_node_id p = pr_node_id q" "gw_placements w" pl]
    by (auto simp: link_completed_def find_placement_def split: if_splits)
qed

section \<open>Completion and its replay\<close>

lemma find_completed_unique:
  "distinct (map co_operation_id (gs_completed_operations st)) \<Longrightarrow> c \<in> set (gs_completed_operations st) \<Longrightarrow>
     find_completed st (co_operation_id c) = Some c"
  unfolding find_completed_def by (rule find_unique)

lemma find_completed_of_unique:
  assumes "distinct (map co_operation_id (gs_completed_operations st))" and "c \<in> set (gs_completed_operations st)"
    and "co_operation_id c = pr_operation_id p" and "Some (co_request_fingerprint c) = pr_request_fingerprint p"
  shows "find_completed_of st p = Some c"
proof -
  have "find_completed_of st p = None \<Longrightarrow> False"
    using assms(2-4) by (auto simp: find_completed_of_def find_None_iff_ball)
  then obtain d where d: "find_completed_of st p = Some d" by (cases "find_completed_of st p") auto
  then have "d \<in> set (gs_completed_operations st)" "co_operation_id d = co_operation_id c"
    unfolding find_completed_of_def using assms(3) by (auto dest: find_Some_mem)
  then have "d = c" using assms(1,2) by (auto simp: distinct_map inj_on_def)
  with d show ?thesis by simp
qed

lemma removed_operation:
  assumes "distinct (map f xs)" and "i < length xs"
  shows "f (xs ! i) \<notin> f ` set (remove_at i xs)"
proof -
  have "xs = take i xs @ xs ! i # drop (Suc i) xs" by (rule id_take_nth_drop [OF assms(2)])
  then have "distinct (map f (take i xs @ xs ! i # drop (Suc i) xs))" using assms(1) by simp
  then show ?thesis by (auto simp: remove_at_def)
qed

lemma complete_resource_effect:
  assumes op: "complete_resource_op env p owner result st = Inr (c, st')"
    and pending: "position (\<lambda>q. pr_operation_id q = pr_operation_id p) (gs_pending_resources st) = Some i"
    and valid: "gw_valid env st" "gw_valid env st'"
  shows "co_operation_id c = pr_operation_id p"
    and "Some (co_request_fingerprint c) = pr_request_fingerprint p"
    and "co_resource c = result"
    and "pr_operation_id p \<notin> pending_ids st'"
    and "last (gs_completed_operations st') = c" and "c \<in> set (gs_completed_operations st')"
    and "find_workspace st' (pr_global_workspace_id (gs_pending_resources st ! i)) = Some (co_workspace c)"
    and "\<exists>pl. find_placement (co_workspace c) (pr_node_id (gs_pending_resources st ! i)) = Some pl
           \<and> pl_workspace_id pl = ws_id owner \<and> pl_owner_revision pl = ws_revision owner
           \<and> pl_default_cwd pl = ws_default_cwd owner \<and> pl_owner_workspace_name pl = Some (ws_name owner)
           \<and> pl_state pl = PlActive"
proof -
  from op pending obtain q w w' f where q: "q = gs_pending_resources st ! i"
    and fp: "pr_request_fingerprint q = pr_request_fingerprint p" "pr_request_fingerprint q = Some f"
    and found: "find_workspace st (pr_global_workspace_id q) = Some w"
    and link: "link_completed q owner w = Inr w'"
    and c: "c = \<lparr>co_operation_id = pr_operation_id q, co_request_fingerprint = f,
              co_semantic_fingerprint = pr_semantic_fingerprint q,
              co_creates_workspace = pr_creates_workspace q, co_workspace = w', co_resource = result\<rparr>"
    and push: "push_completed env ((put_workspace w' st)
           \<lparr>gs_pending_resources := remove_at i (gs_pending_resources st)\<rparr>) c = Inr st'"
    by (rule complete_resource_fresh)
  let ?st = "(put_workspace w' st)\<lparr>gs_pending_resources := remove_at i (gs_pending_resources st)\<rparr>"
  have i: "i < length (gs_pending_resources st)" and qp: "pr_operation_id q = pr_operation_id p"
    using position_SomeD [OF pending] q by simp_all
  show "co_operation_id c = pr_operation_id p" "Some (co_request_fingerprint c) = pr_request_fingerprint p"
      "co_resource c = result"
    using c qp fp by simp_all
  have "pr_operation_id q \<in> pending_ids st" using i q by (auto simp: pending_ids_def)
  then have "co_operation_id c \<notin> completed_ids ?st"
    using gw_valid_pending_not_completed [OF valid(1)] c by (auto simp: completed_ids_def)
  from push_completed_fresh(1) [OF push this] obtain n
    where st': "st' = ?st\<lparr>gs_completed_operations := drop n (gs_completed_operations ?st) @ [c]\<rparr>" ..
  show "last (gs_completed_operations st') = c" "c \<in> set (gs_completed_operations st')"
    by (simp_all add: st')
  show "pr_operation_id p \<notin> pending_ids st'"
    using removed_operation [OF gw_valid_distinct_ops [OF valid(1)] i] q qp
    by (simp add: st' pending_ids_def)
  have "gw_id w' = gw_id w" using link_completed_frame [OF link] by simp
  from find_workspace_put [OF found this]
  show "find_workspace st' (pr_global_workspace_id (gs_pending_resources st ! i)) = Some (co_workspace c)"
    using c q by (simp add: st' find_workspace_def)
  show "\<exists>pl. find_placement (co_workspace c) (pr_node_id (gs_pending_resources st ! i)) = Some pl
           \<and> pl_workspace_id pl = ws_id owner \<and> pl_owner_revision pl = ws_revision owner
           \<and> pl_default_cwd pl = ws_default_cwd owner \<and> pl_owner_workspace_name pl = Some (ws_name owner)
           \<and> pl_state pl = PlActive"
    using link_completed_placement [OF link] c q by simp
qed

lemma gw_valid_distinct_completed:
  "gw_valid env st \<Longrightarrow> distinct (map co_operation_id (gs_completed_operations st))"
  by (simp add: gw_valid_def)

lemma complete_resource_replayed:
  assumes "gw_valid env st" and "c \<in> set (gs_completed_operations st)"
    and "co_operation_id c = pr_operation_id p" and "Some (co_request_fingerprint c) = pr_request_fingerprint p"
  shows "complete_resource_op env p owner result st = Inr (c, st)"
proof -
  have "pr_operation_id p \<notin> pending_ids st"
  proof -
    have "co_operation_id c \<in> completed_ids st" using assms(2) by (simp add: completed_ids_def)
    then show ?thesis using gw_valid_pending_not_completed [OF assms(1)] assms(3) by auto
  qed
  then have "position (\<lambda>q. pr_operation_id q = pr_operation_id p) (gs_pending_resources st) = None"
    unfolding position_None_iff pending_ids_def by (metis image_eqI)
  moreover have "find_completed_of st p = Some c"
    by (rule find_completed_of_unique [OF gw_valid_distinct_completed [OF assms(1)] assms(2-4)])
  ultimately show ?thesis by (simp add: complete_resource_op_def)
qed

section \<open>Repeating a preparation\<close>

lemma position_append_new: "position p xs = None \<Longrightarrow> p x \<Longrightarrow> position p (xs @ [x]) = Some (length xs)"
  by (induction xs) (auto split: if_splits)

lemma completion_reservation_positive: "completion_reservation_bytes env w b = Inr n \<Longrightarrow> n \<noteq> 0"
  by (auto simp: completion_reservation_bytes_def bind_res_Inr ok_or_Inr usize_checked_add_def
      usize_checked_mul_def completion_reservation_overhead_def bind_eq_Some_conv split: if_splits)

lemma reserve_new_reserves:
  "reserve_new_pending_completion env st w p rb = Inr (st1, p') \<Longrightarrow>
     \<exists>n. p' = p\<lparr>pr_completion_reservation := spaces n\<rparr> \<and> n \<noteq> 0"
  by (auto simp: reserve_new_pending_completion_def bind_res_Inr Let_def dest: completion_reservation_positive)

lemma prepare_resource_new:
  assumes "prepare_resource_op env rq st = Inr (PreparedPending p True, st')"
  obtains w st1 where "find_completed st (rq_operation_id rq) = None"
    and "position (\<lambda>q. pr_operation_id q = rq_operation_id rq) (gs_pending_resources st) = None"
    and "find_workspace st (rq_global_id rq) = Some w"
    and "gw_revision w = rq_expected_global_revision rq" and "\<not> gw_closing w"
    and "reserve_new_pending_completion env st w (effective_pending rq w st) (rq_request_bytes rq) = Inr (st1, p)"
    and "compact_prepared_state env (st1\<lparr>gs_pending_resources := gs_pending_resources st1 @ [p]\<rparr>) = Inr st'"
  using assms that
  by (auto simp: prepare_resource_op_def replay_pending_resource_def prepare_new_resource_def Let_def
      bind_res_Inr ok_or_Inr require_revision_Inr split: option.splits if_splits)

lemma position_map_None:
  assumes "map pr_operation_id xs = map pr_operation_id ys"
    and "position (\<lambda>q. pr_operation_id q = op) ys = None"
  shows "position (\<lambda>q. pr_operation_id q = op) xs = None"
proof -
  have "op \<notin> pr_operation_id ` set ys" using assms(2) by (auto simp: position_None_iff)
  then have "op \<notin> pr_operation_id ` set xs" using assms(1) by (metis list.set_map)
  then show ?thesis by (auto simp: position_None_iff)
qed

lemma prepare_resource_retry:
  assumes "prepare_resource_op env rq st = Inr (PreparedPending p True, st')"
  shows "p \<in> set (gs_pending_resources st')"
    and "pr_operation_id p = rq_operation_id rq" and "pr_request_fingerprint p = Some (rq_request_fingerprint rq)"
    and "prepare_resource_op env rq st' =
      (if pr_owner_workspace_name p = rq_owner_workspace_name rq \<and> pr_default_cwd p = rq_default_cwd rq
       then Inr (PreparedPending p False, st') else Inl operation_conflict)"
proof -
  obtain w st1 where fresh: "find_completed st (rq_operation_id rq) = None"
      "position (\<lambda>q. pr_operation_id q = rq_operation_id rq) (gs_pending_resources st) = None"
    and reserve: "reserve_new_pending_completion env st w (effective_pending rq w st) (rq_request_bytes rq) = Inr (st1, p)"
    and compact: "compact_prepared_state env (st1\<lparr>gs_pending_resources := gs_pending_resources st1 @ [p]\<rparr>) = Inr st'"
    using prepare_resource_new [OF assms] .
  note frame = compact_prepared_state_frame [OF compact]
  obtain n where p: "p = (effective_pending rq w st)\<lparr>pr_completion_reservation := spaces n\<rparr>" and n: "n \<noteq> 0"
    using reserve_new_reserves [OF reserve] by blast
  show id: "pr_operation_id p = rq_operation_id rq" "pr_request_fingerprint p = Some (rq_request_fingerprint rq)"
    by (simp_all add: p effective_pending_def Let_def)
  have pend: "gs_pending_resources st' = gs_pending_resources st1 @ [p]" using frame(2) by simp
  then show "p \<in> set (gs_pending_resources st')" by simp
  have "position (\<lambda>q. pr_operation_id q = rq_operation_id rq) (gs_pending_resources st1) = None"
    by (rule position_map_None [OF reserve_new_pending_completion_frame(5) [OF reserve] fresh(2)])
  then have pos: "position (\<lambda>q. pr_operation_id q = rq_operation_id rq) (gs_pending_resources st')
      = Some (length (gs_pending_resources st1))"
    using id by (simp add: pend position_append_new)
  have "set (gs_completed_operations st') \<subseteq> set (gs_completed_operations st)"
    using frame(4) reserve_new_pending_completion_frame(3) [OF reserve] by simp
  then have comp: "find_completed st' (rq_operation_id rq) = None"
    using fresh(1) by (auto simp: find_completed_def find_None_iff_ball)
  have nth: "gs_pending_resources st' ! length (gs_pending_resources st1) = p" by (simp add: pend)
  have same: "set_pending (length (gs_pending_resources st1)) (\<lambda>p. p\<lparr>pr_owner_attempted := True\<rparr>) st' = st'"
    if "rq_owner_attempted rq"
  proof -
    have "p\<lparr>pr_owner_attempted := True\<rparr> = p" using that by (simp add: p effective_pending_def Let_def)
    then show ?thesis using nth by (simp add: set_pending_def pend)
  qed
  have matches: "pending_matches rq p \<longleftrightarrow>
      pr_owner_workspace_name p = rq_owner_workspace_name rq \<and> pr_default_cwd p = rq_default_cwd rq"
    by (auto simp: pending_matches_def p effective_pending_def Let_def)
  have res: "pr_completion_reservation p \<noteq> []" using n by (simp add: p)
  show "prepare_resource_op env rq st' =
      (if pr_owner_workspace_name p = rq_owner_workspace_name rq \<and> pr_default_cwd p = rq_default_cwd rq
       then Inr (PreparedPending p False, st') else Inl operation_conflict)"
    using same nth matches res id(2)
    by (auto simp: prepare_resource_op_def comp pos replay_pending_resource_def reserve_legacy_def)
qed

section \<open>A close can always be confirmed\<close>

lemma pending_resource_ok_ids:
  "pending_resource_ok env ids p \<Longrightarrow> pr_global_workspace_id p \<in> ids' \<Longrightarrow> pending_resource_ok env ids' p"
  by (simp add: pending_resource_ok_def)

lemma pending_cwd_ok_ids:
  "pending_cwd_ok env ids a b p \<Longrightarrow> pd_global_workspace_id p \<in> ids' \<Longrightarrow> pending_cwd_ok env ids' a b p"
  by (simp add: pending_cwd_ok_def)

text \<open>Replacing the list of Workspaces keeps the invariant when the new list is well formed and
  every Workspace with a prepared operation is still there.\<close>

lemma gw_valid_workspaces_update:
  assumes "gw_valid env st" and "workspaces_valid env wss" and "length wss \<le> length (gs_workspaces st)"
    and "workspace_ids st \<inter> busy_ids st \<subseteq> gw_id ` set wss"
  shows "gw_valid env (st\<lparr>gs_workspaces := wss\<rparr>)"
proof -
  let ?st = "st\<lparr>gs_workspaces := wss\<rparr>"
  have ids: "workspace_ids ?st = gw_id ` set wss" "pending_ids ?st = pending_ids st"
      "completed_ids ?st = completed_ids st"
    by (simp_all add: workspace_ids_def pending_ids_def completed_ids_def)
  have pending: "\<forall>p \<in> set (gs_pending_resources st). pending_resource_ok env (gw_id ` set wss) p"
  proof
    fix p
    assume p: "p \<in> set (gs_pending_resources st)"
    then have ok: "pending_resource_ok env (workspace_ids st) p"
      using assms(1) by (simp add: gw_valid_def list_all_iff)
    moreover have "pr_global_workspace_id p \<in> workspace_ids st \<inter> busy_ids st"
      using ok p by (auto simp: pending_resource_ok_def busy_ids_def)
    ultimately show "pending_resource_ok env (gw_id ` set wss) p"
      using assms(4) pending_resource_ok_ids by blast
  qed
  have cwd: "\<forall>p \<in> set (gs_pending_cwd st).
      pending_cwd_ok env (gw_id ` set wss) (pending_ids st) (completed_ids st) p"
  proof
    fix p
    assume p: "p \<in> set (gs_pending_cwd st)"
    then have ok: "pending_cwd_ok env (workspace_ids st) (pending_ids st) (completed_ids st) p"
      using assms(1) by (simp add: gw_valid_def list_all_iff)
    moreover have "pd_global_workspace_id p \<in> workspace_ids st \<inter> busy_ids st"
      using ok p by (auto simp: pending_cwd_ok_def busy_ids_def)
    ultimately show "pending_cwd_ok env (gw_id ` set wss) (pending_ids st) (completed_ids st) p"
      using assms(4) pending_cwd_ok_ids by blast
  qed
  show ?thesis
    using assms(1,2,3) pending cwd
    by (auto simp: gw_valid_def ids list_all_iff within_limits_def)
qed

lemma owner_keys_append: "owner_keys (xs @ ys) = owner_keys xs @ owner_keys ys"
  by (simp add: owner_keys_def)

lemma workspaces_valid_replace:
  assumes valid: "workspaces_valid env (xs @ w # ys)" and "workspace_ok env w'"
    and "gw_id w' = gw_id w" and "gw_name w' = gw_name w"
    and "distinct (map owner_key (gw_placements w'))"
    and sub: "set (gw_placements w') \<subseteq> set (gw_placements w)"
  shows "workspaces_valid env (xs @ w' # ys)"
proof -
  define K where "K v = owner_key ` set (gw_placements v)" for v :: global_workspace_snapshot
  have d: "distinct (owner_keys (xs @ v # ys)) \<longleftrightarrow>
      distinct (owner_keys xs) \<and> distinct (map owner_key (gw_placements v)) \<and> distinct (owner_keys ys)
      \<and> set (owner_keys xs) \<inter> K v = {} \<and> set (owner_keys xs) \<inter> set (owner_keys ys) = {}
      \<and> K v \<inter> set (owner_keys ys) = {}" for v
    by (simp add: owner_keys_def K_def Int_Un_distrib) argo
  have "K w' \<subseteq> K w" using sub unfolding K_def by blast
  moreover have "distinct (owner_keys (xs @ w # ys))" using valid by (simp add: workspaces_valid_def)
  ultimately have "distinct (owner_keys (xs @ w' # ys))"
    unfolding d using assms(5) by blast
  then show ?thesis using assms(1-4) by (simp add: workspaces_valid_def)
qed

lemma workspaces_valid_drop: "workspaces_valid env (xs @ w # ys) \<Longrightarrow> workspaces_valid env (xs @ ys)"
proof -
  have keys: "owner_keys (w # ys) = map owner_key (gw_placements w) @ owner_keys ys"
    by (simp add: owner_keys_def)
  show "workspaces_valid env (xs @ w # ys) \<Longrightarrow> workspaces_valid env (xs @ ys)"
    by (simp add: workspaces_valid_def owner_keys_append keys Int_Un_distrib)
qed

lemma found_at:
  assumes "find_workspace st i = Some w"
  obtains k where "position (\<lambda>w. gw_id w = i) (gs_workspaces st) = Some k" "w = gs_workspaces st ! k"
    "k < length (gs_workspaces st)" "gw_id w = i"
proof -
  obtain k where k: "position (\<lambda>w. gw_id w = i) (gs_workspaces st) = Some k" "w = gs_workspaces st ! k"
    using assms by (auto simp: find_workspace_def find_position split: option.splits)
  with position_SomeD [OF k(1)] that show thesis by simp
qed

text \<open>A Workspace without prepared operations can be taken out of the store.\<close>

lemma remove_idle_workspace:
  assumes valid: "gw_valid env st" and idle: "i \<notin> busy_ids st"
    and k: "k < length (gs_workspaces st)" "gw_id (gs_workspaces st ! k) = i"
  shows "gw_valid env (st\<lparr>gs_workspaces := remove_at k (gs_workspaces st)\<rparr>)
    \<and> find_workspace (st\<lparr>gs_workspaces := remove_at k (gs_workspaces st)\<rparr>) i = None"
proof
  let ?w = "gs_workspaces st ! k" and ?st = "st\<lparr>gs_workspaces := remove_at k (gs_workspaces st)\<rparr>"
  have wv: "workspaces_valid env (take k (gs_workspaces st) @ ?w # drop (Suc k) (gs_workspaces st))"
    using gw_valid_workspaces [OF valid] id_take_nth_drop [OF k(1)] by simp
  have "workspace_ids st \<subseteq> insert i (gw_id ` set (remove_at k (gs_workspaces st)))"
  proof
    fix x
    assume "x \<in> workspace_ids st"
    then obtain v where "v \<in> set (gs_workspaces st)" "x = gw_id v" by (auto simp: workspace_ids_def)
    then show "x \<in> insert i (gw_id ` set (remove_at k (gs_workspaces st)))"
      using mem_remove_at [of v "gs_workspaces st" k] k(2) by (cases "v = ?w") auto
  qed
  with idle have "workspace_ids st \<inter> busy_ids st \<subseteq> gw_id ` set (remove_at k (gs_workspaces st))"
    by blast
  then show "gw_valid env ?st"
    using workspaces_valid_drop [OF wv]
    by (intro gw_valid_workspaces_update [OF valid]) (simp_all add: remove_at_def)
  show "find_workspace ?st i = None"
    using removed_operation [OF gw_valid_distinct_ids [OF valid] k(1)] k(2)
    by (simp add: find_workspace_None workspace_ids_def)
qed

lemma idle_closing:
  "gw_quiet st \<Longrightarrow> find_workspace st i = Some w \<Longrightarrow> gw_closing w \<Longrightarrow> i \<notin> busy_ids st"
  using found_closing [of st i w] by (auto simp: gw_quiet_def)

text \<open>A closing Workspace without placements is removed by \<open>confirm_empty_closed\<close>.\<close>

lemma confirm_empty_removes:
  assumes "gw_valid env st" and "gw_quiet st" and "find_workspace st i = Some w" and "gw_closing w"
    and "gw_placements w = []"
  shows "\<exists>st'. confirm_empty_closed_op i st = Inr ((), st') \<and> gw_valid env st' \<and> find_workspace st' i = None"
  using found_at [OF assms(3)] remove_idle_workspace [OF assms(1) idle_closing [OF assms(2-4)]] assms(4,5)
  by (fastforce simp: confirm_empty_closed_op_def Let_def)

lemma confirm_closed_progress:
  assumes valid: "gw_valid env st" and quiet: "gw_quiet st"
    and found: "find_workspace st i = Some w" and closing: "gw_closing w"
    and room: "gw_next (gw_revision w) = Inr revision"
  shows "\<exists>r st'. confirm_closed_op i n owner st = Inr (r, st') \<and> gw_valid env st'
    \<and> (let rest = filter (\<lambda>p. \<not> (pl_node_id p = n \<and> pl_workspace_id p = owner)) (gw_placements w) in
       find_workspace st' i =
         (if rest = [] then None else Some (w\<lparr>gw_placements := rest, gw_revision := revision\<rparr>)))"
proof -
  let ?rest = "filter (\<lambda>p. \<not> (pl_node_id p = n \<and> pl_workspace_id p = owner)) (gw_placements w)"
  let ?w = "w\<lparr>gw_placements := ?rest, gw_revision := revision\<rparr>"
  obtain k where k: "position (\<lambda>w. gw_id w = i) (gs_workspaces st) = Some k"
    and w: "w = gs_workspaces st ! k" and k_less: "k < length (gs_workspaces st)" and wid: "gw_id w = i"
    by (rule found_at [OF found])
  let ?xs = "take k (gs_workspaces st)" and ?ys = "drop (Suc k) (gs_workspaces st)"
  have split: "gs_workspaces st = ?xs @ w # ?ys" unfolding w by (rule id_take_nth_drop [OF k_less])
  have wv: "workspaces_valid env (?xs @ w # ?ys)" using gw_valid_workspaces [OF valid] split by simp
  show ?thesis
  proof (cases "?rest = []")
    case True
    let ?st = "st\<lparr>gs_workspaces := remove_at k (gs_workspaces st)\<rparr>"
    have "confirm_closed_op i n owner st = Inr (None, ?st)"
      using True closing by (simp add: confirm_closed_op_def k w Let_def)
    moreover have "gw_valid env ?st \<and> find_workspace ?st i = None"
      using remove_idle_workspace [OF valid idle_closing [OF quiet found closing] k_less] wid w by simp
    ultimately show ?thesis using True by auto
  next
    case False
    let ?st = "st\<lparr>gs_workspaces := (gs_workspaces st)[k := ?w]\<rparr>"
    have "confirm_closed_op i n owner st = Inr (Some ?w, ?st)"
      using False closing room by (simp add: confirm_closed_op_def k w Let_def)
    moreover have upd: "(gs_workspaces st)[k := ?w] = ?xs @ ?w # ?ys"
      by (rule upd_conv_take_nth_drop [OF k_less])
    have wok: "workspace_ok env w" and pld: "distinct (map owner_key (gw_placements w))"
      using wv by (auto simp: workspaces_valid_def owner_keys_append owner_keys_def)
    have wv': "workspaces_valid env (?xs @ ?w # ?ys)"
    proof (rule workspaces_valid_replace [OF wv])
      show "workspace_ok env ?w"
        using wok gw_next_less [OF room]
        by (auto simp: workspace_ok_def list_all_iff intro: le_trans [OF length_filter_le])
      show "distinct (map owner_key (gw_placements ?w))"
        using pld by (simp add: distinct_map_filter)
    qed auto
    have "gw_id ` set (?xs @ ?w # ?ys) = workspace_ids st"
      using arg_cong [OF split, of "\<lambda>l. gw_id ` set l"] by (simp add: workspace_ids_def)
    then have "gw_valid env ?st"
      using wv' unfolding upd by (intro gw_valid_workspaces_update [OF valid]) (simp_all, use k_less in simp)
    moreover have "find_workspace ?st i = Some ?w"
      using find_update_first_same [of "\<lambda>v. gw_id v = i" "gs_workspaces st" w "\<lambda>_. ?w"] found wid
        update_first_position [OF k, of "\<lambda>_. ?w"]
      by (simp add: find_workspace_def)
    ultimately show ?thesis using False by auto
  qed
qed

text \<open>Confirming the placements of a closing Workspace one after the other.\<close>

fun confirm_each :: "string \<Rightarrow> (string \<times> string) list \<Rightarrow> gw_state \<Rightarrow> gw_state res" where
  "confirm_each i [] st = Inr st"
| "confirm_each i ((n, owner) # ks) st =
     bind_res (confirm_closed_op i n owner st) (\<lambda>(_, st'). confirm_each i ks st')"

lemma filter_other_owner:
  assumes "distinct (map owner_key (pl # pls))"
  shows "filter (\<lambda>p. \<not> (pl_node_id p = pl_node_id pl \<and> pl_workspace_id p = pl_workspace_id pl)) (pl # pls) = pls"
proof -
  have "owner_key p \<noteq> owner_key pl" if "p \<in> set pls" for p
    using assms that by (metis distinct.simps(2) image_eqI list.set_map list.simps(9))
  then have "filter (\<lambda>p. \<not> (pl_node_id p = pl_node_id pl \<and> pl_workspace_id p = pl_workspace_id pl)) pls = pls"
    by (simp add: owner_key_def filter_id_conv)
  then show ?thesis by simp
qed

lemma gw_next_room: "unat r + 1 < 2 ^ 64 \<Longrightarrow> gw_next r = Inr (r + 1) \<and> unat (r + 1) = unat r + 1"
  by (simp add: gw_next_def u64_checked_add_def unat_word_ariths)

text \<open>The state after the first \<open>k\<close> placements.\<close>

lemma confirm_each_closes:
  assumes "gw_valid env st" and "gw_quiet st" and "find_workspace st i = Some w" and "gw_closing w"
    and "gw_placements w \<noteq> []" and "unat (gw_revision w) + length (gw_placements w) < 2 ^ 64"
    and "k \<le> length (gw_placements w)"
  shows "\<exists>st'. confirm_each i (map owner_key (take k (gw_placements w))) st = Inr st' \<and> gw_valid env st'
    \<and> find_workspace st' i =
        (if k = length (gw_placements w) then None
         else Some (w\<lparr>gw_placements := drop k (gw_placements w), gw_revision := gw_revision w + of_nat k\<rparr>))"
  using assms
proof (induction "gw_placements w" arbitrary: st w k)
  case (Cons pl pls)
  note placements = Cons.hyps(2) [symmetric]
  show ?case
  proof (cases k)
    case 0
    then show ?thesis using Cons.prems(1,3) placements by (cases w) simp
  next
    case (Suc m)
    have room: "gw_next (gw_revision w) = Inr (gw_revision w + 1)" "unat (gw_revision w + 1) = unat (gw_revision w) + 1"
      using gw_next_room [of "gw_revision w"] Cons.prems(6) placements by simp_all
    have "distinct (map owner_key (gw_placements w))"
      using gw_valid_workspaces [OF Cons.prems(1)] find_workspace_Some [OF Cons.prems(3)]
      by (auto simp: workspaces_valid_def owner_keys_def distinct_concat_iff)
    then have rest: "filter (\<lambda>p. \<not> (pl_node_id p = pl_node_id pl \<and> pl_workspace_id p = pl_workspace_id pl))
        (gw_placements w) = pls"
      using filter_other_owner [of pl pls] Cons.hyps(2) by simp
    obtain r st' where step: "confirm_closed_op i (pl_node_id pl) (pl_workspace_id pl) st = Inr (r, st')"
      and valid: "gw_valid env st'"
      and found: "find_workspace st' i = (if pls = [] then None
                    else Some (w\<lparr>gw_placements := pls, gw_revision := gw_revision w + 1\<rparr>))"
      using confirm_closed_progress [OF Cons.prems(1-4) room(1), of "pl_node_id pl" "pl_workspace_id pl"]
      unfolding rest Let_def by blast
    have unfold: "confirm_each i (map owner_key (take k (gw_placements w))) st = confirm_each i (map owner_key (take m pls)) st'"
      using step Suc by (simp add: placements owner_key_def)
    show ?thesis
    proof (cases "pls = []")
      case True
      then show ?thesis using unfold valid found Suc Cons.prems(7) placements by simp
    next
      case False
      let ?w = "w\<lparr>gw_placements := pls, gw_revision := gw_revision w + 1\<rparr>"
      have "\<exists>st''. confirm_each i (map owner_key (take m (gw_placements ?w))) st' = Inr st'' \<and> gw_valid env st''
          \<and> find_workspace st'' i =
              (if m = length (gw_placements ?w) then None
               else Some (?w\<lparr>gw_placements := drop m (gw_placements ?w), gw_revision := gw_revision ?w + of_nat m\<rparr>))"
        using False valid found Cons.prems(4,6,7) room(2) placements Suc
          quiet_confirm_closed [OF step Cons.prems(2)]
        by (intro Cons.hyps(1)) simp_all
      moreover have "?w\<lparr>gw_placements := a, gw_revision := b\<rparr> = w\<lparr>gw_placements := a, gw_revision := b\<rparr>" for a b
        by (cases w) simp
      ultimately show ?thesis
        using unfold Suc placements by (cases "m = length pls") (simp_all add: add.assoc)
    qed
  qed
qed simp

section \<open>Completing a default-directory operation\<close>

lemma gw_valid_distinct_cwd:
  "gw_valid env st \<Longrightarrow> distinct (map (pd_operation_id \<circ> cd_request) (gs_completed_cwd st))
     \<and> distinct (map pd_operation_id (gs_pending_cwd st))"
  by (simp add: gw_valid_def)

lemma push_completed_cwd_set: "set (push_completed_cwd c cs) \<subseteq> insert c (set cs)"
  by (auto simp: push_completed_cwd_def Let_def dest: subsetD [OF set_remove_at])

lemma u64_checked_sub_one:
  assumes "b \<le> a" and "a - b = (1 :: u64)"
  shows "u64_checked_add b 1 = Some a"
proof -
  have a: "a = b + 1" using assms(2) by (simp add: algebra_simps)
  have "unat (a - b) = unat a - unat b" using assms(1) by (rule unat_sub)
  then have "unat a = unat b + 1"
    using assms by (simp add: word_le_nat_alt)
  then show ?thesis using unat_u64_bound [of a] a by (simp add: u64_checked_add_def)
qed

lemma complete_cwd_effect:
  assumes op: "complete_default_cwd_op env op owner st = Inr (r, st')"
    and fresh: "find_completed_cwd st (pd_operation_id op) = None"
    and valid: "gw_valid env st"
  shows "dcr_owner_revision r = ws_revision owner"
    and "ws_revision owner = pd_expected_owner_revision op \<and> dcr_result r = ''unchanged''
         \<or> u64_checked_add (pd_expected_owner_revision op) 1 = Some (ws_revision owner) \<and> dcr_result r = ''updated''"
    and "workspace_revision (pd_global_workspace_id op) st' = dcr_global_revision r"
    and "dcr_global_revision r = workspace_revision (pd_global_workspace_id op) st
           + (if dcr_result r = ''updated'' then 1 else 0)"
    and "pd_operation_id op \<notin> pd_operation_id ` set (gs_pending_cwd st')"
    and "find_completed_cwd st' (pd_operation_id op) = None
         \<or> complete_default_cwd_op env op owner2 st' = Inr (r, st')"
proof -
  obtain i p changed w x cs where
    i: "position (\<lambda>q. pd_operation_id q = pd_operation_id op) (gs_pending_cwd st) = Some i"
    and p: "p = gs_pending_cwd st ! i"
    and w: "find_workspace st (pd_global_workspace_id p) = Some w"
    and same: "same_default_cwd_request p op"
    and rev: "u64_checked_sub (ws_revision owner) (pd_expected_owner_revision p) = Some (if changed then 1 else 0)"
    and x: "(if changed then gw_next (gw_revision w) else Inr (gw_revision w)) = Inr x"
    and r: "r = \<lparr>dcr_workspace_id = gw_id w, dcr_node_id = pd_node_id p,
              dcr_owner_workspace_id = pd_owner_workspace_id p,
              dcr_default_cwd = pd_default_cwd p, dcr_global_revision = x,
              dcr_owner_revision = ws_revision owner,
              dcr_result = (if changed then ''updated'' else ''unchanged'')\<rparr>"
    and cs: "cs = push_completed_cwd \<lparr>cd_request = p\<lparr>pd_completion_reservation := []\<rparr>, cd_result = r\<rparr>
                (gs_completed_cwd st)"
    and compact: "compact_prepared_state env
           ((put_workspace
               (w\<lparr>gw_placements := update_first (\<lambda>q. pl_node_id q = pd_node_id p
                       \<and> pl_workspace_id q = pd_owner_workspace_id p)
                     (\<lambda>q. q\<lparr>pl_owner_revision := ws_revision owner,
                            pl_default_cwd := Some (pd_default_cwd p)\<rparr>) (gw_placements w),
                  gw_revision := x\<rparr>) st)
              \<lparr>gs_pending_cwd := remove_at i (gs_pending_cwd st), gs_completed_cwd := cs\<rparr>) = Inr st'"
    by (rule complete_cwd_fresh [OF op fresh])
  note frame = compact_prepared_state_frame [OF compact]
  have ids: "pd_operation_id p = pd_operation_id op" "pd_global_workspace_id p = pd_global_workspace_id op"
      "pd_expected_owner_revision p = pd_expected_owner_revision op"
    using same by (simp_all add: same_default_cwd_request_def)
  show "dcr_owner_revision r = ws_revision owner" by (simp add: r)
  have "pd_expected_owner_revision op \<le> ws_revision owner"
      "ws_revision owner - pd_expected_owner_revision op = (if changed then 1 else 0)"
    using rev ids by (simp_all add: u64_checked_sub_Some)
  then show "ws_revision owner = pd_expected_owner_revision op \<and> dcr_result r = ''unchanged''
         \<or> u64_checked_add (pd_expected_owner_revision op) 1 = Some (ws_revision owner) \<and> dcr_result r = ''updated''"
  proof (cases changed)
    case True
    then show ?thesis using u64_checked_sub_one [OF \<open>pd_expected_owner_revision op \<le> ws_revision owner\<close>]
        \<open>ws_revision owner - pd_expected_owner_revision op = (if changed then 1 else 0)\<close> by (simp add: r)
  qed (simp add: r)
  have ws: "gs_workspaces st' = gs_workspaces (put_workspace
      (w\<lparr>gw_placements := update_first (\<lambda>q. pl_node_id q = pd_node_id p
                       \<and> pl_workspace_id q = pd_owner_workspace_id p)
                     (\<lambda>q. q\<lparr>pl_owner_revision := ws_revision owner,
                            pl_default_cwd := Some (pd_default_cwd p)\<rparr>) (gw_placements w),
                  gw_revision := x\<rparr>) st)"
    using frame(1) by simp
  show "workspace_revision (pd_global_workspace_id op) st' = dcr_global_revision r"
    using workspace_revision_put [OF w] ids by (simp add: workspace_revision_def find_workspace_def ws r)
  show "dcr_global_revision r = workspace_revision (pd_global_workspace_id op) st
           + (if dcr_result r = ''updated'' then 1 else 0)"
    using w x ids by (auto simp: workspace_revision_def r gw_next_Inr u64_checked_add_Some split: if_splits)
  have "i < length (gs_pending_cwd st)" using position_SomeD [OF i] by simp
  then show "pd_operation_id op \<notin> pd_operation_id ` set (gs_pending_cwd st')"
    using removed_operation [of pd_operation_id "gs_pending_cwd st" i] gw_valid_distinct_cwd [OF valid] ids p frame(3)
    by simp
  show "find_completed_cwd st' (pd_operation_id op) = None
         \<or> complete_default_cwd_op env op owner2 st' = Inr (r, st')"
  proof (cases "find_completed_cwd st' (pd_operation_id op)")
    case (Some c)
    then have c: "c \<in> set (gs_completed_cwd st')" "pd_operation_id (cd_request c) = pd_operation_id op"
      unfolding find_completed_cwd_def by (auto dest: find_Some_mem)
    moreover have "c \<notin> set (gs_completed_cwd st)"
      using fresh c(2) by (auto simp: find_completed_cwd_def find_None_iff_ball)
    moreover have "set (gs_completed_cwd st')
        \<subseteq> insert \<lparr>cd_request = p\<lparr>pd_completion_reservation := []\<rparr>, cd_result = r\<rparr> (set (gs_completed_cwd st))"
      using frame(5) push_completed_cwd_set unfolding cs by fastforce
    ultimately have "c = \<lparr>cd_request = p\<lparr>pd_completion_reservation := []\<rparr>, cd_result = r\<rparr>" by blast
    then show ?thesis
      using Some same by (simp add: complete_default_cwd_op_def same_default_cwd_request_def)
  qed simp
qed

end
