(* ===== verification/Gw_Props.thy ===== *)
theory Gw_Props
  imports Gw_Complete
begin

text \<open>
  The properties of the coordinator's Workspace store
  (\<open>src/src/global_workspace_store.rs\<close>), each with a concrete instance of its hypotheses. The
  instances use \<open>demo_env\<close>: every non-empty string is an identifier and the encoded sizes are
  linear in the number of entries.
\<close>

section \<open>A concrete environment\<close>

definition demo_env :: gw_env where
  "demo_env = \<lparr>env_uuid_ok = (\<lambda>s. s \<noteq> []), env_workspace_len = (\<lambda>_. Inr 100),
     env_completed_len = (\<lambda>_. Inr 200),
     env_store_len = (\<lambda>st. Inr (1000 + 500 * length (gs_pending_resources st)
                                + 300 * length (gs_completed_operations st))),
     env_write = (\<lambda>_. None)\<rparr>"

definition demo_store :: gw_store where
  "demo_store = \<lparr>store_mem = gw_empty, store_disk = None, store_persist = True\<rparr>"

definition demo_workspace :: global_workspace_snapshot where
  "demo_workspace = \<lparr>gw_id = ''w1'', gw_revision = 1, gw_name = ''alpha'', gw_closing = False,
     gw_placements = []\<rparr>"

definition demo_state :: gw_state where
  "demo_state = gw_empty\<lparr>gs_workspaces := [demo_workspace]\<rparr>"

definition demo_saved :: gw_store where
  "demo_saved = \<lparr>store_mem = demo_state, store_disk = Some demo_state, store_persist = True\<rparr>"

definition demo_missing :: "gw_state res" where
  "demo_missing = Inl (IoError NotFound ''missing'')"

lemmas demo_defs = demo_env_def demo_store_def demo_workspace_def demo_state_def demo_saved_def
  demo_missing_def gw_empty_def

lemma demo_loaded: "load_at demo_env demo_missing = Inr demo_store"
  by (simp add: demo_defs load_at_def load_migrate_def gw_validate_def gw_limits Let_def)

lemmas mutate_eval =
  gws_mutate_def gw_save_def guarded_def gw_validate_def gw_validate_name_def outcome_def
  gw_limits coordinator_workspace_version_def Let_def

lemma demo_names: "\<not> has_control ''alpha''" "\<not> has_control ''beta''"
  by code_simp+

lemma demo_created: "gw_exec demo_env (CmdCreate ''w1'' ''alpha'') demo_store = (None, demo_saved)"
  by (simp add: demo_defs mutate_eval demo_names gws_create_def create_op_def name_taken_def)

section \<open>Validation and durability\<close>

text \<open>C9: \<open>validate\<close>, with its loops and its sets of seen identifiers, accepts exactly the states
  that satisfy the declarative invariant \<open>gw_valid\<close>: limits, well-formed and pairwise distinct
  Workspaces, placements, prepared and completed operations, and no identifier in two logs.\<close>

theorem gw_validate_exact: "gw_validate env st = Inr () \<longleftrightarrow> gw_valid env st"
  by (rule gw_validate_valid)

text \<open>C10: A command that fails leaves memory and file as they were; a command that succeeds has
  installed the operation's result, which satisfies the invariant, in memory and in the file.\<close>

theorem gw_exec_atomic:
  assumes "gw_exec env c s = (r, s')" and "store_persist s"
  shows "(r \<noteq> None \<longrightarrow> s' = s)
    \<and> (r = None \<longrightarrow>
         gw_transition env c (store_mem s) = Inr (store_mem s')
         \<and> (s' = s \<or> gw_valid env (store_mem s') \<and> store_disk s' = Some (store_mem s')))"
  using gw_exec_step [OF assms(1)] assms(2) by (auto simp: store_step_def)

theorem gw_exec_atomic_witness:
  "gw_transition demo_env (CmdCreate ''w1'' ''alpha'') (store_mem demo_store) = Inr (store_mem demo_saved)
   \<and> (demo_saved = demo_store
      \<or> gw_valid demo_env (store_mem demo_saved) \<and> store_disk demo_saved = Some (store_mem demo_saved))"
  using gw_exec_atomic [OF demo_created] by (simp add: demo_store_def)

text \<open>C11: After any sequence of commands on a loaded store, failed ones included, the memory
  satisfies the invariant, and a coordinator that restarts from the file recovers exactly the
  store that was in memory.\<close>

theorem gw_sequence_recoverable:
  assumes "load_at env loaded = Inr s0"
    and "s = fold (\<lambda>c s. snd (gw_exec env c s)) cs s0"
  shows "gw_valid env (store_mem s)
    \<and> load_at env (case store_disk s of Some m \<Rightarrow> Inr m
                   | None \<Rightarrow> Inl (IoError NotFound message)) = Inr s"
proof -
  have "gw_reachable env (fold (\<lambda>c s. snd (gw_exec env c s)) cs s1)" if "gw_reachable env s1" for s1
    using that
    by (induction cs arbitrary: s1) (auto intro: gw_reachable.command [OF _ prod.collapse [symmetric]])
  then have "gw_reachable env s"
    using gw_reachable.loaded [OF assms(1)] assms(2) by simp
  note facts = reachable_valid [OF this]
  then have valid: "gw_validate env (store_mem s) = Inr ()" by (simp add: gw_validate_valid)
  moreover have "gs_version (store_mem s) = coordinator_workspace_version"
    using facts gw_valid_limits by (auto simp: within_limits_def)
  ultimately show ?thesis
    using facts
    by (cases "store_disk s"; cases s)
      (auto simp: load_at_def load_migrate_def coordinator_workspace_version_def Let_def)
qed

theorem gw_sequence_recoverable_witness:
  "gw_valid demo_env (store_mem demo_saved) \<and> load_at demo_env (Inr demo_state) = Inr demo_saved"
  using gw_sequence_recoverable [OF demo_loaded, of demo_saved "[CmdCreate ''w1'' ''alpha'']" "[]"]
  by (simp add: demo_created del: gw_exec.simps) (simp add: demo_saved_def)

section \<open>The journal of prepared operations\<close>

definition demo_fp :: string where "demo_fp = replicate 64 CHR ''a''"

definition demo_pending :: pending_workspace_resource where
  "demo_pending = \<lparr>pr_operation_id = ''o1'', pr_creates_workspace = False,
     pr_request_fingerprint = Some demo_fp, pr_semantic_fingerprint = None,
     pr_completion_reservation = spaces 300, pr_owner_attempted = True,
     pr_global_workspace_id = ''w1'', pr_expected_global_revision = 1, pr_node_id = ''n1'',
     pr_requested_owner_workspace_id = ''x1'', pr_owner_workspace_id = ''x1'',
     pr_owner_workspace_name = ''alpha'', pr_default_cwd = None, pr_resource_id = ''r1'',
     pr_kind = KindShell\<rparr>"

definition demo_busy :: gw_state where
  "demo_busy = demo_state\<lparr>gs_pending_resources := [demo_pending]\<rparr>"

definition demo_busy_store :: gw_store where
  "demo_busy_store = \<lparr>store_mem = demo_busy, store_disk = Some demo_busy, store_persist = True\<rparr>"

lemma demo_fp_ok: "valid_fingerprint demo_fp"
  by code_simp

lemma demo_busy_valid: "gw_validate demo_env demo_busy = Inr ()"
  by (simp add: demo_defs mutate_eval demo_busy_def demo_pending_def demo_names pending_resource_ok_def
      demo_fp_ok)

lemma demo_busy_loaded: "load_at demo_env (Inr demo_busy) = Inr demo_busy_store"
  by (simp add: load_at_def load_migrate_def demo_busy_valid Let_def)
    (simp add: demo_busy_store_def demo_busy_def demo_defs coordinator_workspace_version_def)

lemma demo_busy_reachable: "gw_reachable demo_env demo_busy_store"
  by (rule gw_reachable.loaded [OF demo_busy_loaded])

lemma demo_busy_mem: "store_mem demo_busy_store = demo_busy"
  by (simp add: demo_busy_store_def)

lemma demo_busy_pending: "gs_pending_resources demo_busy = [demo_pending]"
  by (simp add: demo_busy_def)

lemma demo_busy_cancel:
  "gw_exec demo_env (CmdCancelPendingIfNeverAttempted ''o1'' demo_fp) demo_busy_store = (None, demo_busy_store)"
  by (simp add: outcome_def gws_mutate_def cancel_pending_operation_if_never_attempted_op_def demo_busy_mem
      demo_busy_pending Let_def demo_busy_valid gw_save_def)
    (simp add: demo_busy_store_def demo_busy_def demo_pending_def demo_defs gw_limits)

text \<open>C12: A prepared operation leaves the journal of a reachable store only when a command that is
  entitled to it completes it or cancels it: every other command, accepted or refused, keeps the
  entry, with all the fields that identify it, with the mark that its owner was contacted, and
  with its request fingerprint.\<close>

theorem gw_prepared_entry_survives:
  assumes "gw_reachable env s" and "gw_exec env c s = (r, s')"
    and "p \<in> set (gs_pending_resources (store_mem s))" and "\<not> may_remove c p"
  shows "\<exists>p' \<in> set (gs_pending_resources (store_mem s')). keeps_entry p p'"
  using gw_exec_journal [OF assms(2)] reachable_valid [OF assms(1)] assms(3,4) by blast

theorem gw_prepared_entry_survives_witness:
  "\<exists>p' \<in> set (gs_pending_resources (store_mem demo_busy_store)). keeps_entry demo_pending p'"
  using gw_prepared_entry_survives [OF demo_busy_reachable demo_busy_cancel, of demo_pending]
  by (simp add: demo_busy_mem demo_busy_pending may_remove_def demo_pending_def)

text \<open>C13: No command lowers the revision of a Workspace, and a command that changes its name, its
  closing mark or the set of owner Workspaces it places raises it: a client that compares
  revisions sees every such change.\<close>

theorem gw_revision_tracks_changes:
  assumes "gw_reachable env s" and "gw_exec env c s = (r, s')"
    and "w \<in> set (gs_workspaces (store_mem s))" and "w' \<in> set (gs_workspaces (store_mem s'))"
    and "gw_id w' = gw_id w"
  shows "gw_revision w \<le> gw_revision w'
    \<and> (workspace_shape w' \<noteq> workspace_shape w \<longrightarrow> gw_revision w < gw_revision w')"
  using gw_exec_journal [OF assms(2)] reachable_valid [OF assms(1)] assms(3-5)
  by (auto simp: revisions_step_def revision_step_def)

definition demo_renamed :: gw_store where
  "demo_renamed =
     (let st = demo_state\<lparr>gs_workspaces := [demo_workspace\<lparr>gw_name := ''beta'', gw_revision := 2\<rparr>]\<rparr>
      in \<lparr>store_mem = st, store_disk = Some st, store_persist = True\<rparr>)"

lemma demo_saved_reachable: "gw_reachable demo_env demo_saved"
  by (rule gw_reachable.command [OF gw_reachable.loaded [OF demo_loaded] demo_created])

lemma demo_rename: "gw_exec demo_env (CmdRename ''w1'' 1 ''beta'') demo_saved = (None, demo_renamed)"
  by (simp add: demo_saved_def demo_renamed_def demo_defs mutate_eval demo_names gws_rename_def rename_op_def
      ensure_no_pending_resource_def find_workspace_def require_revision_def gw_next_def u64_checked_add_def
      put_workspace_def)

theorem gw_revision_tracks_changes_witness:
  "(1 :: u64) < 2 \<and> workspace_shape demo_workspace
     \<noteq> workspace_shape (demo_workspace\<lparr>gw_name := ''beta'', gw_revision := 2\<rparr>)"
  using gw_revision_tracks_changes [OF demo_saved_reachable demo_rename, of demo_workspace
      "demo_workspace\<lparr>gw_name := ''beta'', gw_revision := 2\<rparr>"]
  by (simp add: demo_saved_def demo_renamed_def demo_state_def demo_workspace_def workspace_shape_def)

text \<open>Two edits (rename, link or begin-close) of one Workspace made against the same revision:
  when the first changes the Workspace, the second is refused, whatever it asks for.\<close>

theorem gw_edit_race:
  assumes "edit_workspace i expected first_edit st = Some st'"
  shows "edit_workspace i expected second_edit st' = None"
  by (rule gw_edit.race_loses [OF assms])

lemma demo_edit: "edit_workspace ''w1'' 1 (EditRename ''beta'') demo_state = Some (store_mem demo_renamed)"
  by (simp add: demo_renamed_def demo_defs edit_workspace_def next_state_def rename_op_def Let_def
      ensure_no_pending_resource_def find_workspace_def require_revision_def gw_next_def u64_checked_add_def
      put_workspace_def)

theorem gw_edit_race_witness:
  "edit_workspace ''w1'' 1 EditBeginClose (store_mem demo_renamed) = None"
  by (rule gw_edit_race [OF demo_edit])

text \<open>The log of completed operations loses only its oldest records: whatever a command does,
  the new log is a suffix of the old one followed by at most one new record, and it holds at
  most 256.\<close>

theorem gw_completed_log:
  assumes "gw_reachable env s" and "gw_exec env c s = (r, s')"
  shows "\<exists>n new. gs_completed_operations (store_mem s')
               = drop n (gs_completed_operations (store_mem s)) @ new \<and> length new \<le> 1
             \<and> length (gs_completed_operations (store_mem s')) \<le> 256"
proof -
  have "gw_valid env (store_mem s')"
    using reachable_valid [OF gw_reachable.command [OF assms]] by simp
  then have "length (gs_completed_operations (store_mem s')) \<le> 256"
    using gw_valid_limits by (auto simp: within_limits_def max_completed_operations_def)
  then show ?thesis
    using gw_exec_journal [OF assms(2)] reachable_valid [OF assms(1)] by (auto simp: log_step_def)
qed

theorem gw_completed_log_witness:
  "\<exists>n new. gs_completed_operations (store_mem demo_renamed)
       = drop n (gs_completed_operations (store_mem demo_saved)) @ new \<and> length new \<le> 1
     \<and> length (gs_completed_operations (store_mem demo_renamed)) \<le> 256"
  by (rule gw_completed_log [OF demo_saved_reachable demo_rename])

text \<open>C14: From a loaded store in which no Workspace that is being closed has a prepared operation,
  no sequence of commands leads to one that has: a close never races with a resource that is
  being created.\<close>

theorem gw_close_never_races:
  assumes "load_at env loaded = Inr s0" and "gw_quiet (store_mem s0)"
  shows "gw_quiet (store_mem (fold (\<lambda>c s. snd (gw_exec env c s)) cs s0))"
proof -
  have "gw_quiet (store_mem (fold (\<lambda>c s. snd (gw_exec env c s)) cs s))"
    if "gw_reachable env s" "gw_quiet (store_mem s)" for s
    using that
  proof (induction cs arbitrary: s)
    case (Cons c cs)
    obtain r s' where step: "gw_exec env c s = (r, s')" by (cases "gw_exec env c s")
    have "gw_quiet (store_mem s')"
      using gw_exec_quiet [OF step] Cons.prems reachable_valid by blast
    then show ?case
      using Cons.IH gw_reachable.command [OF Cons.prems(1) step] step by simp
  qed simp
  then show ?thesis using gw_reachable.loaded [OF assms(1)] assms(2) by blast
qed

theorem gw_close_never_races_witness:
  "gw_quiet (store_mem (fold (\<lambda>c s. snd (gw_exec demo_env c s))
      [CmdBeginClose ''w1'' 1, CmdCancelPendingIfNeverAttempted ''o1'' demo_fp] demo_busy_store))"
proof (rule gw_close_never_races [OF demo_busy_loaded])
  show "gw_quiet (store_mem demo_busy_store)"
    by (auto simp: demo_busy_mem gw_quiet_def closing_ids_def demo_busy_def demo_state_def demo_workspace_def)
qed

section \<open>Completing and repeating operations\<close>

text \<open>C15: Completing a prepared operation of a reachable store removes it from the journal, makes
  it the newest record of the log, and leaves in its Workspace the placement that the owner
  reported; asked again, the store answers with the same record and changes nothing, whatever
  owner and result the repeated request carries.\<close>

theorem gw_complete_recorded:
  assumes "gw_reachable env s" and "gws_complete_resource env p owner result s = (Inr c, s')"
    and "position (\<lambda>q. pr_operation_id q = pr_operation_id p) (gs_pending_resources (store_mem s)) = Some i"
    and "q = gs_pending_resources (store_mem s) ! i"
  shows "co_operation_id c = pr_operation_id p \<and> co_resource c = result
    \<and> pr_operation_id p \<notin> pending_ids (store_mem s')
    \<and> last (gs_completed_operations (store_mem s')) = c
    \<and> find_workspace (store_mem s') (pr_global_workspace_id q) = Some (co_workspace c)
    \<and> (\<exists>pl. find_placement (co_workspace c) (pr_node_id q) = Some pl
           \<and> pl_workspace_id pl = ws_id owner \<and> pl_owner_revision pl = ws_revision owner
           \<and> pl_default_cwd pl = ws_default_cwd owner)
    \<and> gws_completed_operation s' (pr_operation_id p) (co_request_fingerprint c) = Inr (Some c)
    \<and> complete_resource_op env p owner2 result2 (store_mem s') = Inr (c, store_mem s')"
proof -
  have valid: "gw_valid env (store_mem s)" using reachable_valid [OF assms(1)] by simp
  have op: "complete_resource_op env p owner result (store_mem s) = Inr (c, store_mem s')"
    and valid': "gw_valid env (store_mem s')"
    using assms(2) by (auto simp: gws_complete_resource_def gws_mutate_def gw_validate_valid
        split: sum.splits prod.splits if_splits)
  note effect = complete_resource_effect [OF op assms(3) valid valid']
  have "find_completed (store_mem s') (pr_operation_id p) = Some c"
    using find_completed_unique [OF gw_valid_distinct_completed [OF valid'] effect(6)] effect(1) by simp
  then show ?thesis
    using effect complete_resource_replayed [OF valid' effect(6,1,2)] assms(4)
    by (auto simp: gws_completed_operation_def)
qed

definition demo_owner :: workspace_snapshot where
  "demo_owner = \<lparr>ws_id = ''x1'', ws_revision = 3, ws_name = ''alpha'', ws_default_cwd = None,
     ws_shells = [], ws_launchers = [], ws_agents = []\<rparr>"

definition demo_result :: routed_operation_result where
  "demo_result = RoutedLauncher \<lparr>la_id = ''r1'', la_revision = 1, la_workspace_id = ''x1'',
     la_name = ''build'', la_command = [''make''], la_cwd = [RootDir]\<rparr>"

definition demo_placed :: global_workspace_snapshot where
  "demo_placed = demo_workspace\<lparr>gw_revision := 2, gw_placements := [gw_placement ''n1'' demo_owner PlActive]\<rparr>"

definition demo_completed :: completed_workspace_operation where
  "demo_completed = \<lparr>co_operation_id = ''o1'', co_request_fingerprint = demo_fp,
     co_semantic_fingerprint = None, co_creates_workspace = False, co_workspace = demo_placed,
     co_resource = demo_result\<rparr>"

definition demo_done :: gw_state where
  "demo_done = demo_state\<lparr>gs_workspaces := [demo_placed], gs_completed_operations := [demo_completed]\<rparr>"

definition demo_done_store :: gw_store where
  "demo_done_store = \<lparr>store_mem = demo_done, store_disk = Some demo_done, store_persist = True\<rparr>"

lemma demo_complete_op:
  "complete_resource_op demo_env demo_pending demo_owner demo_result demo_busy = Inr (demo_completed, demo_done)"
  by (simp add: complete_resource_op_def complete_pending_def demo_busy_def demo_pending_def demo_owner_def
      demo_defs demo_done_def demo_completed_def demo_placed_def ensure_owner_unlinked_except_def owner_linked_def
      find_workspace_def link_completed_def find_placement_def gw_next_def u64_checked_add_def
      push_completed_def trim_completed.simps store_exceeds_def put_workspace_def remove_at_def sort_placements_def
      gw_limits Let_def)

lemma demo_done_valid: "gw_validate demo_env demo_done = Inr ()"
  by (simp add: demo_defs mutate_eval demo_done_def demo_completed_def demo_placed_def demo_names
      completed_operation_ok_def resource_workspace_id_def demo_result_def gw_placement_def demo_owner_def demo_fp_ok)

lemma demo_complete:
  "gws_complete_resource demo_env demo_pending demo_owner demo_result demo_busy_store = (Inr demo_completed, demo_done_store)"
  by (simp add: gws_complete_resource_def gws_mutate_def demo_busy_mem demo_complete_op demo_done_valid gw_save_def)
    (simp add: demo_busy_store_def demo_done_store_def demo_done_def demo_defs gw_limits)

theorem gw_complete_recorded_witness:
  "''o1'' \<notin> pending_ids demo_done
   \<and> find_workspace demo_done ''w1'' = Some demo_placed
   \<and> complete_resource_op demo_env demo_pending demo_owner demo_result demo_done = Inr (demo_completed, demo_done)"
  using gw_complete_recorded [OF demo_busy_reachable demo_complete, of 0 demo_pending demo_owner demo_result]
  by (simp add: demo_busy_mem demo_busy_pending)
    (simp add: demo_done_store_def demo_pending_def demo_completed_def)

text \<open>A preparation that the coordinator accepted as new is in the journal, and the identical
  request, sent again, is answered with the same prepared operation and no change, provided the
  operation did not inherit the owner name or directory of another prepared operation; when it
  did, the identical request is refused as a conflict.\<close>

theorem gw_prepare_retry:
  assumes "prepare_resource_op env rq st = Inr (PreparedPending p True, st')"
  shows "p \<in> set (gs_pending_resources st') \<and> pr_operation_id p = rq_operation_id rq
    \<and> pr_request_fingerprint p = Some (rq_request_fingerprint rq)
    \<and> prepare_resource_op env rq st' =
        (if pr_owner_workspace_name p = rq_owner_workspace_name rq \<and> pr_default_cwd p = rq_default_cwd rq
         then Inr (PreparedPending p False, st') else Inl operation_conflict)"
  using prepare_resource_retry [OF assms] by blast

definition demo_request :: resource_request where
  "demo_request = \<lparr>rq_global_id = ''w1'', rq_operation_id = ''o2'', rq_request_fingerprint = demo_fp,
     rq_request_bytes = 10, rq_expected_global_revision = 1, rq_node_id = ''n1'',
     rq_requested_owner_workspace_id = ''x2'', rq_owner_workspace_name = ''alpha'',
     rq_default_cwd = Some [RootDir, Normal ''srv''], rq_resource_id = ''r2'', rq_kind = KindShell,
     rq_owner_attempted = False\<rparr>"

definition demo_prepared :: "gw_state \<Rightarrow> pending_workspace_resource" where
  "demo_prepared st = (effective_pending demo_request demo_workspace st)
     \<lparr>pr_completion_reservation := spaces (10 * 2 + 100 * 2 + 64 * 1024)\<rparr>"

lemmas prepare_eval =
  prepare_resource_op_def prepare_new_resource_def find_completed_def find_workspace_def require_revision_def
  find_placement_def ensure_owner_unlinked_except_def owner_linked_def reserve_new_pending_completion_def
  projected_workspace_with_pending_def projected_completed_workspace_def gw_next_def u64_checked_add_def
  completion_reservation_bytes_def usize_checked_mul_def usize_checked_add_def usize_saturating_mul_def
  usize_max_def compact_prepared_state.simps sort_placements_def Let_def gw_limits

lemma demo_prepare:
  "prepare_resource_op demo_env demo_request demo_state
     = Inr (PreparedPending (demo_prepared demo_state) True,
            demo_state\<lparr>gs_pending_resources := [demo_prepared demo_state]\<rparr>)"
  by (simp add: prepare_eval demo_request_def demo_prepared_def demo_defs effective_pending_def)

theorem gw_prepare_retry_witness:
  "prepare_resource_op demo_env demo_request (demo_state\<lparr>gs_pending_resources := [demo_prepared demo_state]\<rparr>)
     = Inr (PreparedPending (demo_prepared demo_state) False,
            demo_state\<lparr>gs_pending_resources := [demo_prepared demo_state]\<rparr>)"
  using gw_prepare_retry [OF demo_prepare]
  by (simp add: demo_prepared_def effective_pending_def demo_request_def demo_state_def gw_empty_def)

lemma demo_prepare_busy:
  "prepare_resource_op demo_env demo_request demo_busy
     = Inr (PreparedPending (demo_prepared demo_busy) True,
            demo_busy\<lparr>gs_pending_resources := [demo_pending, demo_prepared demo_busy]\<rparr>)"
  by (simp add: prepare_eval demo_request_def demo_prepared_def demo_busy_def demo_pending_def demo_defs
      effective_pending_def)

text \<open>The refusal is reachable: while one operation for a Workspace and Node is prepared
  without a directory, a second operation that asks for \<open>/srv\<close> is accepted into a valid state, and
  the identical second request is then refused as a conflict.\<close>

theorem gw_prepare_retry_refused:
  "\<exists>p st'. gw_valid demo_env demo_busy
     \<and> prepare_resource_op demo_env demo_request demo_busy = Inr (PreparedPending p True, st')
     \<and> gw_valid demo_env st'
     \<and> prepare_resource_op demo_env demo_request st' = Inl operation_conflict"
proof (intro exI conjI)
  show "gw_valid demo_env demo_busy" using demo_busy_valid by (simp add: gw_validate_valid)
  show "prepare_resource_op demo_env demo_request demo_busy = Inr (PreparedPending (demo_prepared demo_busy) True,
      demo_busy\<lparr>gs_pending_resources := [demo_pending, demo_prepared demo_busy]\<rparr>)"
    by (rule demo_prepare_busy)
  have "gw_validate demo_env (demo_busy\<lparr>gs_pending_resources := [demo_pending, demo_prepared demo_busy]\<rparr>) = Inr ()"
    by (simp add: demo_defs mutate_eval demo_busy_def demo_pending_def demo_prepared_def demo_request_def
        effective_pending_def find_placement_def demo_names pending_resource_ok_def demo_fp_ok)
  then show "gw_valid demo_env (demo_busy\<lparr>gs_pending_resources := [demo_pending, demo_prepared demo_busy]\<rparr>)"
    by (simp add: gw_validate_valid)
  show "prepare_resource_op demo_env demo_request
      (demo_busy\<lparr>gs_pending_resources := [demo_pending, demo_prepared demo_busy]\<rparr>) = Inl operation_conflict"
    using prepare_resource_retry(4) [OF demo_prepare_busy]
    by (simp add: demo_prepared_def effective_pending_def demo_request_def demo_busy_def demo_pending_def
        demo_defs Let_def)
qed

section \<open>Closing, default directories, transactions and migration\<close>

text \<open>C17: A close can always be brought to its end. In a valid state in which no closing Workspace
  has a prepared operation (as in every reachable one, C14), a closing Workspace without placements is
  removed by \<open>confirm_empty_closed\<close>; one with placements, whose revision can still be raised once
  for each of them, is removed by confirming them one after the other: every confirmation is accepted,
  leaves a valid state and takes exactly its placement away, and the last one removes the Workspace.\<close>

theorem gw_close_terminates:
  assumes "gw_valid env st" and "gw_quiet st" and "find_workspace st i = Some w" and "gw_closing w"
    and "unat (gw_revision w) + length (gw_placements w) < 2 ^ 64"
  shows "(gw_placements w = [] \<longrightarrow>
      (\<exists>st'. confirm_empty_closed_op i st = Inr ((), st') \<and> gw_valid env st' \<and> find_workspace st' i = None))
    \<and> (gw_placements w \<noteq> [] \<longrightarrow>
      (\<forall>k \<le> length (gw_placements w).
        \<exists>st'. confirm_each i (map owner_key (take k (gw_placements w))) st = Inr st' \<and> gw_valid env st'
          \<and> find_workspace st' i =
              (if k = length (gw_placements w) then None
               else Some (w\<lparr>gw_placements := drop k (gw_placements w), gw_revision := gw_revision w + of_nat k\<rparr>))))"
  using confirm_each_closes [OF assms(1-4) _ assms(5)] confirm_empty_removes [OF assms(1-4)] by blast

definition demo_closing_workspace :: global_workspace_snapshot where
  "demo_closing_workspace = demo_workspace\<lparr>gw_revision := 3, gw_closing := True,
     gw_placements := [gw_placement ''n1'' demo_owner PlClosePending,
                       gw_placement ''n2'' demo_owner PlClosePending]\<rparr>"

definition demo_closing :: gw_state where
  "demo_closing = gw_empty\<lparr>gs_workspaces := [demo_closing_workspace]\<rparr>"

lemmas demo_closing_defs = demo_closing_def demo_closing_workspace_def demo_defs gw_placement_def demo_owner_def

lemma demo_closing_valid: "gw_valid demo_env demo_closing"
proof -
  have "gw_validate demo_env demo_closing = Inr ()"
    by (simp add: demo_closing_defs mutate_eval demo_names)
  then show ?thesis by (simp add: gw_validate_valid)
qed

theorem gw_close_terminates_witness:
  "\<exists>st'. confirm_each ''w1'' [(''n1'', ''x1''), (''n2'', ''x1'')] demo_closing = Inr st' \<and> gw_valid demo_env st'
    \<and> find_workspace st' ''w1'' = None"
proof -
  have "gw_quiet demo_closing" "find_workspace demo_closing ''w1'' = Some demo_closing_workspace"
    by (simp_all add: gw_quiet_def busy_ids_def find_workspace_def demo_closing_defs)
  moreover have "gw_closing demo_closing_workspace"
      "map owner_key (take 2 (gw_placements demo_closing_workspace)) = [(''n1'', ''x1''), (''n2'', ''x1'')]"
      "length (gw_placements demo_closing_workspace) = 2" "unat (gw_revision demo_closing_workspace) = 3"
    by (simp_all add: demo_closing_workspace_def demo_workspace_def gw_placement_def demo_owner_def owner_key_def)
  ultimately show ?thesis
    using gw_close_terminates [OF demo_closing_valid, of "''w1''" demo_closing_workspace] by fastforce
qed

text \<open>Completing a default-directory operation raises the Workspace's revision by one exactly
  when the owner's revision moved by one, records the owner's revision, takes the operation out of
  the journal, and, as long as the log keeps its record, answers a repeated completion with the
  same result and no change.\<close>

theorem gw_default_cwd_completion:
  assumes "gw_valid env st" and "complete_default_cwd_op env op owner st = Inr (r, st')"
    and "find_completed_cwd st (pd_operation_id op) = None"
  shows "dcr_owner_revision r = ws_revision owner
    \<and> (ws_revision owner = pd_expected_owner_revision op \<and> dcr_result r = ''unchanged''
       \<or> u64_checked_add (pd_expected_owner_revision op) 1 = Some (ws_revision owner)
         \<and> dcr_result r = ''updated'')
    \<and> workspace_revision (pd_global_workspace_id op) st' = dcr_global_revision r
    \<and> dcr_global_revision r = workspace_revision (pd_global_workspace_id op) st
        + (if dcr_result r = ''updated'' then 1 else 0)
    \<and> pd_operation_id op \<notin> pd_operation_id ` set (gs_pending_cwd st')
    \<and> (find_completed_cwd st' (pd_operation_id op) = None
       \<or> complete_default_cwd_op env op owner2 st' = Inr (r, st'))"
  using complete_cwd_effect [OF assms(2,3,1)] by blast

definition demo_cwd :: pending_default_cwd_operation where
  "demo_cwd = cwd_request ''o3'' ''w1'' 2 ''n1'' ''x1'' 3 [Normal ''srv''] [RootDir, Normal ''srv'']"

definition demo_cwd_state :: gw_state where
  "demo_cwd_state = gw_empty\<lparr>gs_workspaces := [demo_placed], gs_pending_cwd := [demo_cwd]\<rparr>"

definition demo_moved :: workspace_snapshot where
  "demo_moved = demo_owner\<lparr>ws_revision := 4, ws_default_cwd := Some [RootDir, Normal ''srv'']\<rparr>"

lemma demo_cwd_valid: "gw_valid demo_env demo_cwd_state"
proof -
  have "gw_validate demo_env demo_cwd_state = Inr ()"
    by (simp add: demo_cwd_state_def demo_placed_def demo_cwd_def cwd_request_def demo_defs mutate_eval demo_names
        gw_placement_def demo_owner_def pending_cwd_ok_def is_absolute_def)
  then show ?thesis by (simp add: gw_validate_valid)
qed

lemma demo_cwd_completes:
  "\<exists>r st'. complete_default_cwd_op demo_env demo_cwd demo_moved demo_cwd_state = Inr (r, st')
     \<and> dcr_result r = ''updated''"
  by (simp add: complete_default_cwd_op_def find_completed_cwd_def demo_cwd_state_def demo_placed_def demo_cwd_def
      cwd_request_def demo_defs gw_placement_def demo_owner_def demo_moved_def same_default_cwd_request_def
      u64_checked_sub_def gw_next_def u64_checked_add_def find_workspace_def Let_def compact_prepared_state.simps
      gw_limits push_completed_cwd_def put_workspace_def)

theorem gw_default_cwd_completion_witness:
  "\<exists>r st'. complete_default_cwd_op demo_env demo_cwd demo_moved demo_cwd_state = Inr (r, st')
     \<and> workspace_revision ''w1'' st' = 3 \<and> dcr_owner_revision r = 4"
proof -
  obtain r st' where run: "complete_default_cwd_op demo_env demo_cwd demo_moved demo_cwd_state = Inr (r, st')"
    and upd: "dcr_result r = ''updated''"
    using demo_cwd_completes by blast
  have "find_completed_cwd demo_cwd_state (pd_operation_id demo_cwd) = None"
    by (simp add: find_completed_cwd_def demo_cwd_state_def gw_empty_def)
  note completion = gw_default_cwd_completion [OF demo_cwd_valid run this]
  have "workspace_revision ''w1'' demo_cwd_state = 2" "pd_global_workspace_id demo_cwd = ''w1''"
      "ws_revision demo_moved = 4"
    by (simp_all add: workspace_revision_def find_workspace_def demo_cwd_state_def demo_placed_def
        demo_workspace_def demo_cwd_def cwd_request_def demo_moved_def)
  then show ?thesis using completion upd run by auto
qed

text \<open>A preparation that is staged in a transaction and committed changes the memory only: the
  file keeps the old state until \<open>checkpoint\<close>, after which the store is exactly the one that the
  direct preparation would have left.\<close>

theorem gw_transaction_equivalent:
  assumes "store_persist s" and "gws_prepare_resource_for_attempt env rq s = (Inr r, s1)"
  shows "\<exists>t s2. tx_prepare_resource_for_attempt env rq (gws_transaction s) = (Inr r, t)
    \<and> tx_target t = s \<and> tx_commit env t = (Inr (), s2)
    \<and> store_disk s2 = store_disk s \<and> store_mem s2 = store_mem s1
    \<and> gws_checkpoint env s2 = (Inr (), s1)"
  using assms
  by (cases s)
    (auto simp: gws_prepare_resource_for_attempt_def prepare_resource_inner_def guarded_def gws_mutate_def
      tx_prepare_resource_for_attempt_def tx_run_def gws_transaction_def tx_commit_def gws_checkpoint_def
      split: sum.splits prod.splits if_splits)

lemma demo_prepare_attempt:
  "\<exists>r s1. gws_prepare_resource_for_attempt demo_env demo_request demo_saved = (Inr r, s1)"
  by (simp add: gws_prepare_resource_for_attempt_def prepare_resource_inner_def prepare_eval mutate_eval
      demo_saved_def demo_request_def demo_defs effective_pending_def demo_names pending_resource_ok_def demo_fp_ok)

theorem gw_transaction_equivalent_witness:
  "\<exists>r s1 t s2. gws_prepare_resource_for_attempt demo_env demo_request demo_saved = (Inr r, s1)
     \<and> tx_prepare_resource_for_attempt demo_env demo_request (gws_transaction demo_saved) = (Inr r, t)
     \<and> tx_commit demo_env t = (Inr (), s2)
     \<and> store_disk s2 = Some demo_state \<and> gws_checkpoint demo_env s2 = (Inr (), s1)"
proof -
  obtain r s1 where run: "gws_prepare_resource_for_attempt demo_env demo_request demo_saved = (Inr r, s1)"
    using demo_prepare_attempt by blast
  have "store_persist demo_saved" "store_disk demo_saved = Some demo_state" by (simp_all add: demo_saved_def)
  then show ?thesis using gw_transaction_equivalent [OF _ run] run by metis
qed

text \<open>Loading a file: a state of schema 8 is taken as it is; one of schema 1 to 5 has every
  prepared operation marked as possibly sent to its owner and given an identity, and is written
  back before the store opens; every other version but 7 is refused, 6 included.\<close>

theorem gw_load_migrates:
  assumes "load_at env (Inr st) = Inr s"
  shows "gs_version st \<in> {1, 2, 3, 4, 5, 7, 8}
    \<and> gs_version (store_mem s) = 8 \<and> store_disk s = Some (store_mem s)
    \<and> (gs_version st < 6 \<longrightarrow>
         list_all pr_owner_attempted (gs_pending_resources (store_mem s))
         \<and> map pr_resource_id (gs_pending_resources (store_mem s)) = map pr_resource_id (gs_pending_resources st)
         \<and> env_write env (store_mem s) = None)
    \<and> (6 < gs_version st \<longrightarrow> store_mem s = st\<lparr>gs_version := 8\<rparr>)"
proof -
  have valid: "gw_validate env (store_mem s) = Inr ()"
    using load_at_valid(1) [OF assms] by (simp add: gw_validate_valid)
  then have version: "gs_version (store_mem s) = 8"
    by (auto simp: gw_validate_valid gw_valid_def within_limits_def coordinator_workspace_version_def)
  have small: "v \<in> {1, 2, 3, 4, 5}" if "1 \<le> v" "v < 6" for v :: u32
  proof -
    have "unat v \<in> {1, 2, 3, 4, 5}" using that by (simp add: word_le_nat_alt word_less_nat_alt) linarith
    then show ?thesis by (auto simp: word_eq_iff_unsigned [where 'a = nat])
  qed
  from assms consider
      "1 \<le> gs_version st" "gs_version st < 6"
        "store_mem s = st\<lparr>gs_pending_resources := map migrate_pending (gs_pending_resources st), gs_version := 8\<rparr>"
        "store_disk s = Some (store_mem s)" "gw_save env (store_mem s) = Inr ()"
    | "gs_version st = 7" "store_mem s = st\<lparr>gs_version := 8\<rparr>" "store_disk s = Some (store_mem s)"
    | "store_mem s = st" "store_disk s = Some (store_mem s)"
    by (auto simp: load_at_def load_migrate_def bind_res_Inr Let_def coordinator_workspace_version_def
        split: if_splits)
  then show ?thesis
  proof cases
    case 1
    have "list_all pr_owner_attempted (map migrate_pending ps)" for ps
      by (simp add: list_all_iff migrate_pending_def Let_def)
    moreover have "pr_resource_id \<circ> migrate_pending = pr_resource_id"
      by (auto simp: migrate_pending_def Let_def)
    moreover have "env_write env (store_mem s) = None"
      using 1(5) by (auto simp: gw_save_def bind_res_Inr split: if_splits option.splits)
    ultimately show ?thesis using 1 version small [OF 1(1,2)] by auto
  next
    case 2
    then show ?thesis using version by simp
  next
    case 3
    then show ?thesis using version by simp
  qed
qed

theorem gw_load_migrates_witness:
  "\<exists>s. load_at demo_env (Inr (demo_busy\<lparr>gs_version := 3,
       gs_pending_resources := [demo_pending\<lparr>pr_owner_attempted := False\<rparr>]\<rparr>)) = Inr s
     \<and> list_all pr_owner_attempted (gs_pending_resources (store_mem s))"
proof -
  let ?st = "demo_busy\<lparr>gs_version := 3, gs_pending_resources := [demo_pending\<lparr>pr_owner_attempted := False\<rparr>]\<rparr>"
  have "load_at demo_env (Inr ?st) = Inr demo_busy_store"
    using demo_busy_valid
    by (simp add: load_at_def load_migrate_def demo_busy_def migrate_pending_def demo_pending_def demo_busy_store_def
        coordinator_workspace_version_def demo_defs gw_save_def Let_def gw_limits)
  from this gw_load_migrates [OF this] show ?thesis by (auto simp: demo_busy_def)
qed

end
