(* ===== verification/Node_Registration.thy ===== *)
theory Node_Registration
  imports Wire_Types Store_Contracts "HOL-Library.Product_Lexorder"
begin

text \<open>
  The Node registrations of \<open>src/src/node_registration.rs\<close>: the table of remote Nodes that this
  Node may route to, the admission of routed operations, the maintenance lease that an upgrade or
  uninstall holds, and the draining of admitted operations before a registration is changed.

  A method is a function of the manager (its mutex-protected state and its file) and, where it
  reads the clock, of the time \<open>now\<close>. A method that waits on the condition variable releases the
  lock, so it is two functions: \<open>\<dots>_begin\<close> up to the first evaluation of the loop, and a
  \<open>\<dots>_resume\<close> for every return of \<open>wait_timeout\<close>; between them any other method may run.
  \<open>Uuid::parse_str(s)\<close> followed by \<open>to_string\<close> is the parameter \<open>env_uuid_canonical\<close>, the
  encoded size and the outcome of writing the file are \<open>env_registrations_len\<close> and
  \<open>env_registrations_write\<close>, and a fresh \<open>Uuid::new_v4\<close> is an argument.
\<close>

section \<open>Data\<close>

definition registration_version :: u32 where "registration_version = 1"
definition max_registration_bytes :: nat where "max_registration_bytes = 128 * 1024"
definition max_registrations :: nat where "max_registrations = 128"
definition max_alias_bytes :: nat where "max_alias_bytes = 128"
definition max_ssh_target_bytes :: nat where "max_ssh_target_bytes = 1024"

record maintenance_lease =
  ml_token :: string
  ml_deadline :: nat

record registration =
  rg_snapshot :: node_registration_snapshot
  rg_admission_open :: bool
  rg_admission_epoch :: u64
  rg_admitted :: nat
  rg_maintenance :: "maintenance_lease option"

record registration_state =
  rs_revision :: u64
  rs_tombstone_epoch :: u64
  rs_registrations :: "registration list"

datatype manager_state = ManagerAvailable registration_state | ManagerUnavailable string

record persisted_registrations =
  per_version :: u32
  per_revision :: u64
  per_tombstone_epoch :: u64
  per_registrations :: "node_registration_snapshot list"

record registration_manager =
  mgr_state :: manager_state
  mgr_disk :: "persisted_registrations option"

record registration_env =
  env_uuid_canonical :: "string \<Rightarrow> string option"
  env_registrations_len :: "persisted_registrations \<Rightarrow> nat res"
  env_registrations_write :: "persisted_registrations \<Rightarrow> io_error option"

section \<open>Helper functions\<close>

text \<open>\<open>char::is_whitespace\<close> on UTF-8: ASCII space and U+0009-U+000D, then U+0085 and U+00A0
  (C2 85, C2 A0), U+1680 (E1 9A 80), U+2000-U+200A, U+2028, U+2029, U+202F (E2 80 xx), U+205F
  (E2 81 9F) and U+3000 (E3 80 80); none of the leading bytes is a continuation byte.\<close>

definition whitespace3 :: "nat \<Rightarrow> nat \<Rightarrow> nat \<Rightarrow> bool" where
  "whitespace3 a b c \<longleftrightarrow>
     a = 225 \<and> b = 154 \<and> c = 128
     \<or> a = 226 \<and> b = 128 \<and> (128 \<le> c \<and> c \<le> 138 \<or> c = 168 \<or> c = 169 \<or> c = 175)
     \<or> a = 226 \<and> b = 129 \<and> c = 159
     \<or> a = 227 \<and> b = 128 \<and> c = 128"

fun has_whitespace :: "string \<Rightarrow> bool" where
  "has_whitespace [] = False"
| "has_whitespace (a # cs) =
     ((let n = of_char a :: nat in
         9 \<le> n \<and> n \<le> 13 \<or> n = 32
         \<or> n = 194 \<and> (case cs of b # _ \<Rightarrow> of_char b = (133 :: nat) \<or> of_char b = (160 :: nat) | [] \<Rightarrow> False)
         \<or> (case cs of b # c # _ \<Rightarrow> whitespace3 n (of_char b) (of_char c) | _ \<Rightarrow> False))
      \<or> has_whitespace cs)"

definition ssh_target_parse :: "string \<Rightarrow> string res" where
  "ssh_target_parse target =
     (if target = [] \<or> length target > max_ssh_target_bytes \<or> hd target = CHR ''-''
         \<or> has_whitespace target \<or> has_control target
      then Inl (IoError InvalidInput
             ''SSH target must be a bounded non-option argument without whitespace'')
      else Inr target)"

definition validate_alias :: "registration_env \<Rightarrow> string \<Rightarrow> unit res" where
  "validate_alias env alias =
     (if alias = [] \<or> length alias > max_alias_bytes \<or> has_control alias \<or> has_whitespace alias
         \<or> env_uuid_canonical env alias = Some alias
      then Inl (IoError InvalidInput
             ''Node alias must be bounded, nonempty, whitespace-free, and not a canonical Node ID'')
      else Inr ())"

definition validate_target :: "string \<Rightarrow> unit res" where
  "validate_target target = bind_res (ssh_target_parse target) (\<lambda>_. Inr ())"

definition validate_node_id :: "registration_env \<Rightarrow> string \<Rightarrow> unit res" where
  "validate_node_id env node_id =
     bind_res (ok_or (env_uuid_canonical env node_id) (IoError InvalidInput ''invalid Node ID'')) (\<lambda>parsed.
       if parsed \<noteq> node_id
       then Inl (IoError InvalidInput ''Node ID must use canonical UUID syntax'') else Inr ())"

definition reg_next :: "u64 \<Rightarrow> string \<Rightarrow> u64 res" where
  "reg_next v label = ok_or (u64_checked_add v 1) (other_error (label @ '' exhausted''))"

definition selects :: "string \<Rightarrow> registration \<Rightarrow> bool" where
  "selects selector r \<longleftrightarrow>
     nr_alias (rg_snapshot r) = selector \<or> nr_node_id (rg_snapshot r) = selector"

definition registration_not_found :: io_error where
  "registration_not_found = IoError NotFound ''Node registration not found''"

definition find_registration :: "registration_state \<Rightarrow> string \<Rightarrow> registration res" where
  "find_registration st selector =
     ok_or (List.find (selects selector) (rs_registrations st)) registration_not_found"

definition find_index :: "registration_state \<Rightarrow> string \<Rightarrow> nat res" where
  "find_index st selector =
     ok_or (position (selects selector) (rs_registrations st)) registration_not_found"

definition require_registration_revision :: "registration \<Rightarrow> u64 \<Rightarrow> unit res" where
  "require_registration_revision r expected =
     (if nr_revision (rg_snapshot r) = expected then Inr ()
      else Inl (IoError InvalidInput (''Node registration revision changed: expected ''
             @ show_u64 expected @ '', current '' @ show_u64 (nr_revision (rg_snapshot r)))))"

text \<open>Durations are nanoseconds; the message rounds the remaining time up to seconds.\<close>

definition registration_busy :: "nat \<Rightarrow> registration \<Rightarrow> io_error" where
  "registration_busy now r =
     IoError WouldBlock
       (case rg_maintenance r of
          Some lease \<Rightarrow>
            (let remaining = ml_deadline lease - now;
                 seconds = remaining div 1000000000 + (if remaining mod 1000000000 \<noteq> 0 then 1 else 0)
             in ''This Node is reserved by an update or uninstall; its local maintenance lease expires in ''
                @ show_nat seconds
                @ '' seconds unless renewed. A failed update may retain this lease while remote recovery settles; wait and retry.'')
        | None \<Rightarrow> ''Node registration change is already in progress; wait for it to finish and retry'')"

definition expire_registration :: "nat \<Rightarrow> registration \<Rightarrow> registration" where
  "expire_registration now r =
     (case rg_maintenance r of
        Some lease \<Rightarrow> (if ml_deadline lease \<le> now
                       then r\<lparr>rg_maintenance := None, rg_admission_open := True\<rparr> else r)
      | None \<Rightarrow> r)"

definition expire_maintenance :: "nat \<Rightarrow> registration_state \<Rightarrow> registration_state" where
  "expire_maintenance now st =
     st\<lparr>rs_registrations := map (expire_registration now) (rs_registrations st)\<rparr>"

definition update_registration ::
    "nat \<Rightarrow> (registration \<Rightarrow> registration) \<Rightarrow> registration_state \<Rightarrow> registration_state" where
  "update_registration i f st =
     st\<lparr>rs_registrations := (rs_registrations st)[i := f (rs_registrations st ! i)]\<rparr>"

section \<open>The file\<close>

definition to_persisted :: "registration_state \<Rightarrow> persisted_registrations" where
  "to_persisted st =
     \<lparr>per_version = registration_version, per_revision = rs_revision st,
      per_tombstone_epoch = rs_tombstone_epoch st,
      per_registrations = map rg_snapshot (rs_registrations st)\<rparr>"

definition save_registrations :: "registration_env \<Rightarrow> registration_state \<Rightarrow> unit res" where
  "save_registrations env st =
     bind_res (env_registrations_len env (to_persisted st)) (\<lambda>n.
       if n > max_registration_bytes
       then Inl (invalid ''Boomux Node registrations exceed the size limit'')
       else (case env_registrations_write env (to_persisted st) of Some e \<Rightarrow> Inl e | None \<Rightarrow> Inr ()))"

definition invalid_persisted :: "'a res \<Rightarrow> 'a res" where
  "invalid_persisted r = (case r of Inl e \<Rightarrow> Inl (invalid (err_message e)) | Inr x \<Rightarrow> Inr x)"

definition fresh_registration :: "node_registration_snapshot \<Rightarrow> registration" where
  "fresh_registration snapshot =
     \<lparr>rg_snapshot = snapshot, rg_admission_open = True, rg_admission_epoch = 0, rg_admitted = 0,
      rg_maintenance = None\<rparr>"

fun validate_snapshots ::
    "registration_env \<Rightarrow> persisted_registrations \<Rightarrow> node_registration_snapshot list
      \<Rightarrow> string set \<Rightarrow> string set \<Rightarrow> string set \<Rightarrow> registration list res" where
  "validate_snapshots env p [] aliases targets node_ids = Inr []"
| "validate_snapshots env p (s # ss) aliases targets node_ids =
     bind_res (invalid_persisted (validate_alias env (nr_alias s))) (\<lambda>_.
     bind_res (invalid_persisted (validate_target (nr_target s))) (\<lambda>_.
     bind_res (invalid_persisted (validate_node_id env (nr_node_id s))) (\<lambda>_.
       if nr_revision s = 0 \<or> nr_revision s > per_revision p
          \<or> nr_tombstone_epoch s > per_tombstone_epoch p
          \<or> nr_alias s \<in> aliases \<or> nr_target s \<in> targets \<or> nr_node_id s \<in> node_ids
       then Inl (invalid ''Boomux Node registration store contains invalid or duplicate data'')
       else bind_res (validate_snapshots env p ss (insert (nr_alias s) aliases)
                        (insert (nr_target s) targets) (insert (nr_node_id s) node_ids)) (\<lambda>rs.
              Inr (fresh_registration s # rs)))))"

definition validate_persisted ::
    "registration_env \<Rightarrow> persisted_registrations \<Rightarrow> registration_state res" where
  "validate_persisted env p =
     (if length (per_registrations p) > max_registrations
      then Inl (invalid ''Boomux Node registration store contains too many registrations'')
      else bind_res (validate_snapshots env p (per_registrations p) {} {} {}) (\<lambda>rs.
             Inr \<lparr>rs_revision = per_revision p, rs_tombstone_epoch = per_tombstone_epoch p,
                  rs_registrations = rs\<rparr>))"

unbundle bit_operations_syntax

text \<open>\<open>load\<close>: \<open>opened\<close> is the outcome of \<open>open\<close> and \<open>metadata\<close>, \<open>parsed\<close> that of reading and
  parsing the bytes.\<close>

definition load_registrations ::
    "registration_env \<Rightarrow> u32 \<Rightarrow> owned_metadata res \<Rightarrow> persisted_registrations res
      \<Rightarrow> registration_state res" where
  "load_registrations env effective_uid opened parsed =
     bind_res opened (\<lambda>m.
       if \<not> om_is_file m \<or> om_uid m \<noteq> effective_uid
       then Inl (IoError PermissionDenied ''Boomux Node registration store is not an owned regular file'')
       else if om_mode m AND 63 \<noteq> 0
       then Inl (IoError PermissionDenied ''Boomux Node registration store is not owner-only'')
       else if om_len m > max_registration_bytes
       then Inl (invalid ''Boomux Node registration store exceeds the size limit'')
       else bind_res parsed (\<lambda>p.
              if per_version p \<noteq> registration_version
              then Inl (invalid (''unsupported Boomux Node registration version ''
                     @ show_nat (unat (per_version p)) @ ''; expected '' @ show_nat (unat registration_version)))
              else validate_persisted env p))"

definition load_manager ::
    "registration_state res \<Rightarrow> persisted_registrations option \<Rightarrow> registration_manager" where
  "load_manager loaded disk =
     (case loaded of
        Inr st \<Rightarrow> \<lparr>mgr_state = ManagerAvailable st, mgr_disk = disk\<rparr>
      | Inl e \<Rightarrow>
          (if err_kind e = NotFound
           then \<lparr>mgr_state = ManagerAvailable \<lparr>rs_revision = 0, rs_tombstone_epoch = 0, rs_registrations = []\<rparr>,
                 mgr_disk = disk\<rparr>
           else \<lparr>mgr_state = ManagerUnavailable (err_message e), mgr_disk = disk\<rparr>))"

section \<open>Access to the state\<close>

definition routing_disabled :: "string \<Rightarrow> io_error" where
  "routing_disabled reason = IoError Unsupported (''Node registration routing is disabled: '' @ reason)"

definition available :: "registration_manager \<Rightarrow> registration_state res" where
  "available m =
     (case mgr_state m of
        ManagerAvailable st \<Rightarrow> Inr st
      | ManagerUnavailable reason \<Rightarrow> Inl (routing_disabled reason))"

text \<open>A method that changes the state in memory only: \<open>body\<close> runs on the available state.\<close>

definition in_memory ::
    "(registration_state \<Rightarrow> 'r res \<times> registration_state) \<Rightarrow> registration_manager
      \<Rightarrow> 'r res \<times> registration_manager" where
  "in_memory body m =
     (case available m of
        Inl e \<Rightarrow> (Inl e, m)
      | Inr st \<Rightarrow> (case body st of (r, st') \<Rightarrow> (r, m\<lparr>mgr_state := ManagerAvailable st'\<rparr>)))"

text \<open>\<open>save(&self.path, &replacement)?; *current = replacement\<close>, with \<open>current\<close> as it is left when
  writing fails.\<close>

definition replace_saved ::
    "registration_env \<Rightarrow> registration_state \<Rightarrow> registration_state \<Rightarrow> 'r \<Rightarrow> registration_manager
      \<Rightarrow> 'r res \<times> registration_manager" where
  "replace_saved env current replacement result m =
     (case save_registrations env replacement of
        Inl e \<Rightarrow> (Inl e, m\<lparr>mgr_state := ManagerAvailable current\<rparr>)
      | Inr _ \<Rightarrow> (Inr result, m\<lparr>mgr_state := ManagerAvailable replacement,
                                mgr_disk := Some (to_persisted replacement)\<rparr>))"

definition fail_with :: "io_error \<Rightarrow> registration_state \<Rightarrow> registration_manager \<Rightarrow> 'r res \<times> registration_manager" where
  "fail_with e st m = (Inl e, m\<lparr>mgr_state := ManagerAvailable st\<rparr>)"

section \<open>Reads and admission\<close>

definition reg_unavailable_reason :: "registration_manager \<Rightarrow> string option" where
  "reg_unavailable_reason m =
     (case mgr_state m of ManagerAvailable _ \<Rightarrow> None | ManagerUnavailable reason \<Rightarrow> Some reason)"

definition reg_list :: "registration_manager \<Rightarrow> node_registration_snapshot list res" where
  "reg_list m = bind_res (available m) (\<lambda>st.
     Inr (sort_key (\<lambda>s. (nr_alias s, nr_node_id s)) (map rg_snapshot (rs_registrations st))))"

definition reg_inspect :: "string \<Rightarrow> registration_manager \<Rightarrow> node_registration_snapshot res" where
  "reg_inspect selector m = bind_res (available m) (\<lambda>st.
     bind_res (find_registration st selector) (\<lambda>r. Inr (rg_snapshot r)))"

definition find_node :: "registration_state \<Rightarrow> string \<Rightarrow> registration option" where
  "find_node st node_id =
     List.find (\<lambda>r. nr_node_id (rg_snapshot r) = node_id) (rs_registrations st)"

definition is_current :: "node_registration_snapshot \<Rightarrow> registration \<Rightarrow> bool" where
  "is_current expected r \<longleftrightarrow>
     nr_revision (rg_snapshot r) = nr_revision expected
     \<and> nr_tombstone_epoch (rg_snapshot r) = nr_tombstone_epoch expected
     \<and> nr_target (rg_snapshot r) = nr_target expected
     \<and> rg_admission_open r"

text \<open>\<open>operation\<close> is the outcome of the closure, which runs only when the registration is current.\<close>

definition reg_with_current ::
    "nat \<Rightarrow> node_registration_snapshot \<Rightarrow> 'a res \<Rightarrow> registration_manager
      \<Rightarrow> 'a option res \<times> registration_manager" where
  "reg_with_current now expected operation =
     in_memory (\<lambda>st.
       let st' = expire_maintenance now st in
       (case find_node st' (nr_node_id expected) of
          None \<Rightarrow> (Inr None, st')
        | Some r \<Rightarrow> (if \<not> is_current expected r then (Inr None, st')
                     else (bind_res operation (\<lambda>x. Inr (Some x)), st'))))"

definition reg_observe ::
    "nat \<Rightarrow> node_registration_snapshot \<Rightarrow> registration_manager
      \<Rightarrow> u64 option res \<times> registration_manager" where
  "reg_observe now expected =
     in_memory (\<lambda>st.
       let st' = expire_maintenance now st in
       (case find_node st' (nr_node_id expected) of
          None \<Rightarrow> (Inr None, st')
        | Some r \<Rightarrow> (if \<not> is_current expected r then (Inr None, st')
                     else (Inr (Some (rg_admission_epoch r)), st'))))"

definition reg_with_observation ::
    "nat \<Rightarrow> node_registration_snapshot \<Rightarrow> u64 \<Rightarrow> 'a res \<Rightarrow> registration_manager
      \<Rightarrow> 'a option res \<times> registration_manager" where
  "reg_with_observation now expected epoch operation =
     in_memory (\<lambda>st.
       let st' = expire_maintenance now st in
       (case find_node st' (nr_node_id expected) of
          None \<Rightarrow> (Inr None, st')
        | Some r \<Rightarrow> (if \<not> is_current expected r \<or> rg_admission_epoch r \<noteq> epoch then (Inr None, st')
                     else (bind_res operation (\<lambda>x. Inr (Some x)), st'))))"

definition update_node ::
    "string \<Rightarrow> (registration \<Rightarrow> registration) \<Rightarrow> registration_state \<Rightarrow> registration_state" where
  "update_node node_id f st =
     st\<lparr>rs_registrations :=
          update_first (\<lambda>r. nr_node_id (rg_snapshot r) = node_id) f (rs_registrations st)\<rparr>"

definition reg_admit ::
    "nat \<Rightarrow> node_registration_snapshot \<Rightarrow> registration_manager \<Rightarrow> bool res \<times> registration_manager" where
  "reg_admit now expected =
     in_memory (\<lambda>st.
       let st' = expire_maintenance now st in
       (case find_node st' (nr_node_id expected) of
          None \<Rightarrow> (Inr False, st')
        | Some r \<Rightarrow>
            (if nr_revision (rg_snapshot r) \<noteq> nr_revision expected
                \<or> nr_tombstone_epoch (rg_snapshot r) \<noteq> nr_tombstone_epoch expected
                \<or> \<not> rg_admission_open r
             then (Inr False, st')
             else (case usize_checked_add (rg_admitted r) 1 of
                     None \<Rightarrow> (Inl (other_error ''Node registration admission exhausted''), st')
                   | Some n \<Rightarrow> (Inr True,
                       update_node (nr_node_id expected) (\<lambda>r. r\<lparr>rg_admitted := n\<rparr>) st')))))"

definition reg_release ::
    "node_registration_snapshot \<Rightarrow> registration_manager \<Rightarrow> registration_manager" where
  "reg_release expected m =
     snd (in_memory (\<lambda>st.
       case find_node st (nr_node_id expected) of
         Some r \<Rightarrow>
           (if nr_revision (rg_snapshot r) = nr_revision expected
            then (Inr (), update_node (nr_node_id expected)
                            (\<lambda>r. r\<lparr>rg_admitted := rg_admitted r - 1\<rparr>) st)
            else (Inr (), st))
       | None \<Rightarrow> (Inr (), st)) m)"

section \<open>Adding and renaming\<close>

definition reg_add ::
    "registration_env \<Rightarrow> string \<Rightarrow> string \<Rightarrow> string \<Rightarrow> string \<Rightarrow> registration_manager
      \<Rightarrow> node_registration_snapshot res \<times> registration_manager" where
  "reg_add env alias target node_id local_node_id m =
     (case bind_res (validate_alias env alias) (\<lambda>_. bind_res (validate_target target) (\<lambda>_.
             validate_node_id env node_id)) of
        Inl e \<Rightarrow> (Inl e, m)
      | Inr _ \<Rightarrow>
     (if node_id = local_node_id
      then (Inl (IoError InvalidInput ''a Boomux Node cannot register itself''), m)
      else (case available m of
        Inl e \<Rightarrow> (Inl e, m)
      | Inr current \<Rightarrow>
        (case List.find (\<lambda>r. nr_alias (rg_snapshot r) = alias \<or> nr_target (rg_snapshot r) = target
                            \<or> nr_node_id (rg_snapshot r) = node_id) (rs_registrations current) of
           Some existing \<Rightarrow>
             (if nr_alias (rg_snapshot existing) = alias \<and> nr_target (rg_snapshot existing) = target
                 \<and> nr_node_id (rg_snapshot existing) = node_id
              then (Inr (rg_snapshot existing), m)
              else (Inl (IoError AlreadyExists ''Node alias, target, or Node ID is already registered''), m))
         | None \<Rightarrow>
             (if length (rs_registrations current) \<ge> max_registrations
              then (Inl (IoError InvalidInput ''registered Node limit reached''), m)
              else (case reg_next (rs_revision current) ''registration revision'' of
                 Inl e \<Rightarrow> (Inl e, m)
               | Inr revision \<Rightarrow>
                   (let snapshot = \<lparr>nr_alias = alias, nr_target = target, nr_node_id = node_id,
                                    nr_revision = revision,
                                    nr_tombstone_epoch = rs_tombstone_epoch current\<rparr>
                    in replace_saved env current
                         (current\<lparr>rs_revision := revision,
                                  rs_registrations := rs_registrations current @ [fresh_registration snapshot]\<rparr>)
                         snapshot m)))))))"

definition reg_rename ::
    "registration_env \<Rightarrow> nat \<Rightarrow> string \<Rightarrow> string \<Rightarrow> u64 \<Rightarrow> registration_manager
      \<Rightarrow> node_registration_snapshot res \<times> registration_manager" where
  "reg_rename env now selector alias expected_revision m =
     (case bind_res (validate_alias env alias) (\<lambda>_. available m) of
        Inl e \<Rightarrow> (Inl e, m)
      | Inr st \<Rightarrow>
        (let current = expire_maintenance now st in
         case bind_res (find_index current selector) (\<lambda>i.
                bind_res (require_registration_revision (rs_registrations current ! i) expected_revision)
                  (\<lambda>_. Inr i)) of
           Inl e \<Rightarrow> fail_with e current m
         | Inr i \<Rightarrow>
             (let r = rs_registrations current ! i in
              if \<not> rg_admission_open r
              then fail_with (IoError WouldBlock ''Node registration maintenance is in progress'') current m
              else if nr_alias (rg_snapshot r) = alias
              then (Inr (rg_snapshot r), m\<lparr>mgr_state := ManagerAvailable current\<rparr>)
              else if list_ex (\<lambda>j. j \<noteq> i \<and> nr_alias (rg_snapshot (rs_registrations current ! j)) = alias)
                        [0..<length (rs_registrations current)]
              then fail_with (IoError AlreadyExists ''Node alias is already registered'') current m
              else (case reg_next (rs_revision current) ''registration revision'' of
                 Inl e \<Rightarrow> fail_with e current m
               | Inr revision \<Rightarrow>
                   (let snapshot = (rg_snapshot r)\<lparr>nr_alias := alias, nr_revision := revision\<rparr>
                    in replace_saved env current
                         (update_registration i (\<lambda>r. r\<lparr>rg_snapshot := snapshot\<rparr>)
                            (current\<lparr>rs_revision := revision\<rparr>))
                         snapshot m)))))"

section \<open>Draining admitted operations\<close>

datatype 'r drain = DrainDone 'r | DrainWaiting nat

definition drain_timeout_error :: io_error where
  "drain_timeout_error =
     IoError TimedOut ''timed out draining active Node registration operations''"

text \<open>One pass of the \<open>loop\<close>: \<open>Inr True\<close> leaves it, \<open>Inr False\<close> waits; \<open>reopen\<close> is what the
  caller does to the registration when the time is over.\<close>

definition drain_poll ::
    "nat \<Rightarrow> nat \<Rightarrow> string \<Rightarrow> u64 \<Rightarrow> (registration \<Rightarrow> registration) \<Rightarrow> registration_state
      \<Rightarrow> bool res \<times> registration_state" where
  "drain_poll now deadline selector expected reopen st =
     (case bind_res (find_index st selector) (\<lambda>i.
             bind_res (require_registration_revision (rs_registrations st ! i) expected) (\<lambda>_. Inr i)) of
        Inl e \<Rightarrow> (Inl e, st)
      | Inr i \<Rightarrow>
          (if rg_admitted (rs_registrations st ! i) = 0 then (Inr True, st)
           else if deadline < now then (Inl drain_timeout_error, update_registration i reopen st)
           else (Inr False, st)))"

text \<open>\<open>wait.timed_out()\<close> after \<open>wait_timeout\<close>.\<close>

definition drain_expired ::
    "string \<Rightarrow> (registration \<Rightarrow> registration) \<Rightarrow> registration_state \<Rightarrow> io_error \<times> registration_state" where
  "drain_expired selector reopen st =
     (case find_index st selector of
        Inl e \<Rightarrow> (e, st)
      | Inr i \<Rightarrow> (drain_timeout_error, update_registration i reopen st))"

definition reopen_unless_maintained :: "registration \<Rightarrow> registration" where
  "reopen_unless_maintained r = r\<lparr>rg_admission_open := rg_maintenance r = None\<rparr>"

type_synonym registration_mutation =
  "registration_state \<Rightarrow> nat \<Rightarrow> (node_registration_snapshot \<times> registration_state) res"

definition drain_commit ::
    "registration_env \<Rightarrow> registration_mutation \<Rightarrow> string \<Rightarrow> registration_state \<Rightarrow> registration_manager
      \<Rightarrow> node_registration_snapshot drain res \<times> registration_manager" where
  "drain_commit env mutate selector current m =
     (case find_index current selector of
        Inl e \<Rightarrow> fail_with e current m
      | Inr i \<Rightarrow>
          (let reopened = update_registration i reopen_unless_maintained current in
           case mutate current i of
             Inl e \<Rightarrow> fail_with e reopened m
           | Inr (result, replacement) \<Rightarrow>
               replace_saved env reopened
                 (update_node (nr_node_id result) reopen_unless_maintained replacement)
                 (DrainDone result) m))"

definition drain_continue ::
    "registration_env \<Rightarrow> registration_mutation \<Rightarrow> nat \<Rightarrow> nat \<Rightarrow> string \<Rightarrow> u64
      \<Rightarrow> registration_state \<Rightarrow> registration_manager
      \<Rightarrow> node_registration_snapshot drain res \<times> registration_manager" where
  "drain_continue env mutate now deadline selector expected st m =
     (case drain_poll now deadline selector expected reopen_unless_maintained st of
        (Inl e, st') \<Rightarrow> fail_with e st' m
      | (Inr True, st') \<Rightarrow> drain_commit env mutate selector st' m
      | (Inr False, st') \<Rightarrow> (Inr (DrainWaiting deadline), m\<lparr>mgr_state := ManagerAvailable st'\<rparr>))"

definition prepare_drain_begin ::
    "registration_env \<Rightarrow> registration_mutation \<Rightarrow> nat \<Rightarrow> string \<Rightarrow> u64 \<Rightarrow> nat \<Rightarrow> bool
      \<Rightarrow> registration_manager \<Rightarrow> node_registration_snapshot drain res \<times> registration_manager" where
  "prepare_drain_begin env mutate now selector expected timeout forget_maintenance m =
     (case available m of
        Inl e \<Rightarrow> (Inl e, m)
      | Inr st \<Rightarrow>
        (let current = expire_maintenance now st in
         case bind_res (find_index current selector) (\<lambda>i.
                let r = rs_registrations current ! i in
                bind_res (require_registration_revision r expected) (\<lambda>_.
                if \<not> rg_admission_open r \<and> \<not> (forget_maintenance \<and> rg_maintenance r \<noteq> None)
                then Inl (registration_busy now r)
                else bind_res (reg_next (rg_admission_epoch r) ''registration admission epoch'')
                       (\<lambda>epoch. Inr (i, epoch)))) of
           Inl e \<Rightarrow> fail_with e current m
         | Inr (i, epoch) \<Rightarrow>
             drain_continue env mutate now (now + timeout) selector expected
               (update_registration i (\<lambda>r. r\<lparr>rg_admission_epoch := epoch, rg_admission_open := False\<rparr>) current) m))"

definition prepare_drain_resume ::
    "registration_env \<Rightarrow> registration_mutation \<Rightarrow> nat \<Rightarrow> bool \<Rightarrow> nat \<Rightarrow> string \<Rightarrow> u64
      \<Rightarrow> registration_manager \<Rightarrow> node_registration_snapshot drain res \<times> registration_manager" where
  "prepare_drain_resume env mutate now timed_out deadline selector expected m =
     (case available m of
        Inl e \<Rightarrow> (Inl e, m)
      | Inr st \<Rightarrow>
          (if timed_out
           then (case drain_expired selector reopen_unless_maintained st of (e, st') \<Rightarrow> fail_with e st' m)
           else drain_continue env mutate now deadline selector expected st m))"

section \<open>Retargeting and forgetting\<close>

definition retarget_mutation :: "string \<Rightarrow> string \<Rightarrow> registration_mutation" where
  "retarget_mutation target verified_node_id st i =
     (let r = rs_registrations st ! i in
      if nr_node_id (rg_snapshot r) \<noteq> verified_node_id
      then Inl (IoError PermissionDenied ''new SSH target resolved to a different Boomux Node identity'')
      else if nr_target (rg_snapshot r) = target then Inr (rg_snapshot r, st)
      else if list_ex (\<lambda>j. j \<noteq> i \<and> nr_target (rg_snapshot (rs_registrations st ! j)) = target)
                [0..<length (rs_registrations st)]
      then Inl (IoError AlreadyExists ''SSH target is already registered'')
      else bind_res (reg_next (rs_revision st) ''registration revision'') (\<lambda>revision.
        let snapshot = (rg_snapshot r)\<lparr>nr_target := target, nr_revision := revision\<rparr>
        in Inr (snapshot, update_registration i (\<lambda>r. r\<lparr>rg_snapshot := snapshot\<rparr>)
                            (st\<lparr>rs_revision := revision\<rparr>))))"

definition forget_mutation :: registration_mutation where
  "forget_mutation st i =
     bind_res (reg_next (rs_tombstone_epoch st) ''registration tombstone epoch'') (\<lambda>epoch.
       Inr ((rg_snapshot (rs_registrations st ! i))\<lparr>nr_tombstone_epoch := epoch\<rparr>,
            st\<lparr>rs_tombstone_epoch := epoch, rs_registrations := remove_at i (rs_registrations st)\<rparr>))"

definition reg_retarget_begin ::
    "registration_env \<Rightarrow> nat \<Rightarrow> string \<Rightarrow> string \<Rightarrow> string \<Rightarrow> u64 \<Rightarrow> nat \<Rightarrow> registration_manager
      \<Rightarrow> node_registration_snapshot drain res \<times> registration_manager" where
  "reg_retarget_begin env now selector target verified_node_id expected timeout m =
     (case bind_res (validate_target target) (\<lambda>_. validate_node_id env verified_node_id) of
        Inl e \<Rightarrow> (Inl e, m)
      | Inr _ \<Rightarrow> prepare_drain_begin env (retarget_mutation target verified_node_id) now selector
                   expected timeout False m)"

definition reg_forget_begin ::
    "registration_env \<Rightarrow> nat \<Rightarrow> string \<Rightarrow> nat \<Rightarrow> registration_manager
      \<Rightarrow> node_registration_snapshot drain res \<times> registration_manager" where
  "reg_forget_begin env now selector timeout m =
     (case reg_inspect selector m of
        Inl e \<Rightarrow> (Inl e, m)
      | Inr s \<Rightarrow> prepare_drain_begin env forget_mutation now selector (nr_revision s) timeout True m)"

section \<open>Maintenance leases\<close>

definition reopen_and_release :: "registration \<Rightarrow> registration" where
  "reopen_and_release r = r\<lparr>rg_admission_open := True, rg_maintenance := None\<rparr>"

definition upgrade_continue ::
    "nat \<Rightarrow> nat \<Rightarrow> string \<Rightarrow> u64 \<Rightarrow> string \<Rightarrow> registration_state
      \<Rightarrow> (node_registration_snapshot \<times> string) drain res \<times> registration_state" where
  "upgrade_continue now deadline selector expected token st =
     (case drain_poll now deadline selector expected reopen_and_release st of
        (Inl e, st') \<Rightarrow> (Inl e, st')
      | (Inr True, st') \<Rightarrow>
          (case find_index st' selector of
             Inl e \<Rightarrow> (Inl e, st')
           | Inr i \<Rightarrow> (Inr (DrainDone (rg_snapshot (rs_registrations st' ! i), token)), st'))
      | (Inr False, st') \<Rightarrow> (Inr (DrainWaiting deadline), st'))"

definition begin_upgrade_maintenance_if ::
    "nat \<Rightarrow> string \<Rightarrow> string \<Rightarrow> u64 \<Rightarrow> nat \<Rightarrow> nat \<Rightarrow> bool \<Rightarrow> registration_manager
      \<Rightarrow> (node_registration_snapshot \<times> string) drain res \<times> registration_manager" where
  "begin_upgrade_maintenance_if now token selector expected drain_timeout lease_duration idle =
     in_memory (\<lambda>st.
       let current = expire_maintenance now st in
       if \<not> idle then (Inl (IoError WouldBlock ''a daemon transition is already in progress''), current)
       else (case bind_res (find_index current selector) (\<lambda>i.
                    let r = rs_registrations current ! i in
                    bind_res (require_registration_revision r expected) (\<lambda>_.
                    if \<not> rg_admission_open r then Inl (registration_busy now r)
                    else bind_res (reg_next (rg_admission_epoch r) ''registration admission epoch'')
                           (\<lambda>epoch. Inr (i, epoch)))) of
               Inl e \<Rightarrow> (Inl e, current)
             | Inr (i, epoch) \<Rightarrow>
                 upgrade_continue now (now + drain_timeout) selector expected token
                   (update_registration i (\<lambda>r. r\<lparr>rg_admission_epoch := epoch, rg_admission_open := False,
                        rg_maintenance := Some \<lparr>ml_token = token, ml_deadline = now + lease_duration\<rparr>\<rparr>)
                      current)))"

definition upgrade_maintenance_resume ::
    "nat \<Rightarrow> bool \<Rightarrow> nat \<Rightarrow> string \<Rightarrow> u64 \<Rightarrow> string \<Rightarrow> registration_manager
      \<Rightarrow> (node_registration_snapshot \<times> string) drain res \<times> registration_manager" where
  "upgrade_maintenance_resume now timed_out deadline selector expected token =
     in_memory (\<lambda>st.
       if timed_out
       then (case drain_expired selector reopen_and_release st of (e, st') \<Rightarrow> (Inl e, st'))
       else upgrade_continue now deadline selector expected token st)"

definition holds_lease :: "string \<Rightarrow> registration \<Rightarrow> bool" where
  "holds_lease token r \<longleftrightarrow>
     (case rg_maintenance r of Some lease \<Rightarrow> ml_token lease = token | None \<Rightarrow> False)"

definition lease_not_current :: "string \<Rightarrow> io_error" where
  "lease_not_current what =
     IoError PermissionDenied (''Node '' @ what @ '' maintenance lease is not current'')"

definition finish_upgrade_maintenance ::
    "nat \<Rightarrow> string \<Rightarrow> string \<Rightarrow> registration_manager \<Rightarrow> unit res \<times> registration_manager" where
  "finish_upgrade_maintenance now node_id token =
     in_memory (\<lambda>st.
       let current = expire_maintenance now st in
       (case find_node current node_id of
          None \<Rightarrow> (Inl registration_not_found, current)
        | Some r \<Rightarrow>
            (if \<not> holds_lease token r then (Inl (lease_not_current ''upgrade''), current)
             else (Inr (), update_node node_id reopen_and_release current))))"

definition finish_uninstall_maintenance ::
    "registration_env \<Rightarrow> nat \<Rightarrow> string \<Rightarrow> string \<Rightarrow> registration_manager
      \<Rightarrow> node_registration_snapshot res \<times> registration_manager" where
  "finish_uninstall_maintenance env now node_id token m =
     (case available m of
        Inl e \<Rightarrow> (Inl e, m)
      | Inr st \<Rightarrow>
        (let current = expire_maintenance now st in
         case ok_or (position (\<lambda>r. nr_node_id (rg_snapshot r) = node_id) (rs_registrations current))
                registration_not_found of
           Inl e \<Rightarrow> fail_with e current m
         | Inr i \<Rightarrow>
             (let r = rs_registrations current ! i in
              if \<not> holds_lease token r then fail_with (lease_not_current ''uninstall'') current m
              else if rg_admitted r \<noteq> 0
              then fail_with (IoError ResourceBusy
                     ''Node uninstall maintenance still has admitted operations'') current m
              else (case forget_mutation current i of
                      Inl e \<Rightarrow> fail_with e current m
                    | Inr (removed, replacement) \<Rightarrow> replace_saved env current replacement removed m))))"

definition renew_upgrade_maintenance ::
    "nat \<Rightarrow> string \<Rightarrow> string \<Rightarrow> nat \<Rightarrow> registration_manager \<Rightarrow> unit res \<times> registration_manager" where
  "renew_upgrade_maintenance now node_id token lease_duration =
     in_memory (\<lambda>st.
       let current = expire_maintenance now st in
       (case find_node current node_id of
          None \<Rightarrow> (Inl registration_not_found, current)
        | Some r \<Rightarrow>
            (if \<not> holds_lease token r then (Inl (lease_not_current ''upgrade''), current)
             else (Inr (), update_node node_id (\<lambda>r. r\<lparr>rg_maintenance :=
                     map_option (\<lambda>lease. lease\<lparr>ml_deadline := now + lease_duration\<rparr>) (rg_maintenance r)\<rparr>)
                     current))))"

definition has_active_upgrade_maintenance ::
    "nat \<Rightarrow> registration_manager \<Rightarrow> bool \<times> registration_manager" where
  "has_active_upgrade_maintenance now m =
     (case mgr_state m of
        ManagerUnavailable _ \<Rightarrow> (False, m)
      | ManagerAvailable st \<Rightarrow>
          (let current = expire_maintenance now st
           in (list_ex (\<lambda>r. rg_maintenance r \<noteq> None) (rs_registrations current),
               m\<lparr>mgr_state := ManagerAvailable current\<rparr>)))"

end
