(* ===== verification/Registration_Commands.thy ===== *)
theory Registration_Commands
  imports Registration_Table
begin

text \<open>
  The methods of \<open>NodeRegistrationManager\<close> (\<open>src/src/node_registration.rs\<close>) as one command
  language. Every command refines the abstract table of \<open>Registration_Table\<close>, and the manager
  satisfies the \<open>durable_store\<close> contract: its file is written before its memory changes.
\<close>

section \<open>Commands\<close>

datatype reg_command =
    RegAdd string string string string
  | RegRename nat string string u64
  | RegRetarget nat string string string u64 nat
  | RegRetargetResume nat bool nat string string string u64
  | RegForget nat string nat
  | RegForgetResume nat bool nat string u64
  | RegBeginUpgrade nat string string u64 nat nat bool
  | RegUpgradeResume nat bool nat string u64 string
  | RegFinishUpgrade nat string string
  | RegFinishUninstall nat string string
  | RegRenew nat string string nat
  | RegHasActive nat
  | RegAdmit nat node_registration_snapshot
  | RegRelease node_registration_snapshot
  | RegObserve nat node_registration_snapshot

definition reg_outcome :: "'r res \<times> registration_manager \<Rightarrow> io_error option \<times> registration_manager" where
  "reg_outcome rm = (case rm of (Inl e, m) \<Rightarrow> (Some e, m) | (Inr _, m) \<Rightarrow> (None, m))"

fun reg_exec ::
    "registration_env \<Rightarrow> reg_command \<Rightarrow> registration_manager \<Rightarrow> io_error option \<times> registration_manager" where
  "reg_exec env (RegAdd a t n l) m = reg_outcome (reg_add env a t n l m)"
| "reg_exec env (RegRename now sel a e) m = reg_outcome (reg_rename env now sel a e m)"
| "reg_exec env (RegRetarget now sel t n e timeout) m =
     reg_outcome (reg_retarget_begin env now sel t n e timeout m)"
| "reg_exec env (RegRetargetResume now to deadline sel t n e) m =
     (if validate_target t = Inr () \<and> validate_node_id env n = Inr ()
      then reg_outcome (prepare_drain_resume env (retarget_mutation t n) now to deadline sel e m)
      else (None, m))"
| "reg_exec env (RegForget now sel timeout) m = reg_outcome (reg_forget_begin env now sel timeout m)"
| "reg_exec env (RegForgetResume now to deadline sel e) m =
     reg_outcome (prepare_drain_resume env forget_mutation now to deadline sel e m)"
| "reg_exec env (RegBeginUpgrade now token sel e dt lease idle) m =
     reg_outcome (begin_upgrade_maintenance_if now token sel e dt lease idle m)"
| "reg_exec env (RegUpgradeResume now to deadline sel e token) m =
     reg_outcome (upgrade_maintenance_resume now to deadline sel e token m)"
| "reg_exec env (RegFinishUpgrade now n token) m = reg_outcome (finish_upgrade_maintenance now n token m)"
| "reg_exec env (RegFinishUninstall now n token) m =
     reg_outcome (finish_uninstall_maintenance env now n token m)"
| "reg_exec env (RegRenew now n token lease) m = reg_outcome (renew_upgrade_maintenance now n token lease m)"
| "reg_exec env (RegHasActive now) m = (None, snd (has_active_upgrade_maintenance now m))"
| "reg_exec env (RegAdmit now s) m = reg_outcome (reg_admit now s m)"
| "reg_exec env (RegRelease s) m = (None, reg_release s m)"
| "reg_exec env (RegObserve now s) m = reg_outcome (reg_observe now s m)"

section \<open>The view of the state that is written to the file\<close>

lemma expire_snapshot [simp]: "rg_snapshot (expire_registration now r) = rg_snapshot r"
  by (simp add: expire_registration_def split: option.split)

lemma persisted_expire [simp]: "to_persisted (expire_maintenance now st) = to_persisted st"
  by (simp add: to_persisted_def expire_maintenance_def comp_def)

lemma persisted_update_registration:
  "(\<And>r. rg_snapshot (f r) = rg_snapshot r) \<Longrightarrow> to_persisted (update_registration i f st) = to_persisted st"
  by (simp add: to_persisted_def update_registration_def map_update_same)

lemma persisted_update_node:
  "(\<And>r. rg_snapshot (f r) = rg_snapshot r) \<Longrightarrow> to_persisted (update_node n f st) = to_persisted st"
  by (simp add: to_persisted_def update_node_def map_update_first_id)

lemma reopen_snapshots [simp]:
  "rg_snapshot (reopen_unless_maintained r) = rg_snapshot r"
  "rg_snapshot (reopen_and_release r) = rg_snapshot r"
  by (simp_all add: reopen_unless_maintained_def reopen_and_release_def)

lemma drain_poll_persisted:
  "drain_poll now deadline sel e f st = (r, st') \<Longrightarrow> (\<And>r. rg_snapshot (f r) = rg_snapshot r) \<Longrightarrow>
     to_persisted st' = to_persisted st"
  by (auto simp: drain_poll_def persisted_update_registration split: sum.splits if_splits)

lemma drain_expired_persisted:
  "drain_expired sel f st = (r, st') \<Longrightarrow> (\<And>r. rg_snapshot (f r) = rg_snapshot r) \<Longrightarrow>
     to_persisted st' = to_persisted st"
  by (auto simp: drain_expired_def persisted_update_registration split: sum.splits)

text \<open>\<open>quiet_change m m'\<close>: the available state may change, but not what is written.\<close>

definition quiet_change :: "registration_manager \<Rightarrow> registration_manager \<Rightarrow> bool" where
  "quiet_change m m' \<longleftrightarrow>
     m' = m \<or> (\<exists>st st'. mgr_state m = ManagerAvailable st \<and> mgr_state m' = ManagerAvailable st'
                      \<and> to_persisted st' = to_persisted st \<and> mgr_disk m' = mgr_disk m)"

definition saved_change :: "registration_env \<Rightarrow> registration_manager \<Rightarrow> registration_manager \<Rightarrow> bool" where
  "saved_change env m m' \<longleftrightarrow>
     (\<exists>st st'. mgr_state m = ManagerAvailable st \<and> mgr_state m' = ManagerAvailable st'
        \<and> table_step env (to_persisted st) (to_persisted st') \<and> mgr_disk m' = Some (to_persisted st')
        \<and> save_registrations env st' = Inr ())"

lemma available_Inr [simp]: "available m = Inr st \<longleftrightarrow> mgr_state m = ManagerAvailable st"
  by (simp add: available_def split: manager_state.split)

lemma quiet_refl [simp]: "quiet_change m m"
  by (simp add: quiet_change_def)

lemma quiet_in_memory:
  assumes "in_memory body m = (r, m')"
    and "\<And>st r st'. body st = (r, st') \<Longrightarrow> to_persisted st' = to_persisted st"
  shows "quiet_change m m'"
proof (cases "available m")
  case (Inl e)
  then show ?thesis using assms(1) by (simp add: in_memory_def)
next
  case (Inr st)
  obtain r' st' where run: "body st = (r', st')" by (cases "body st")
  then have "m' = m\<lparr>mgr_state := ManagerAvailable st'\<rparr>" using assms(1) Inr by (simp add: in_memory_def)
  then show ?thesis using Inr assms(2) [OF run] by (auto simp: quiet_change_def)
qed

lemma quiet_state:
  "mgr_state m = ManagerAvailable st \<Longrightarrow> to_persisted st' = to_persisted st \<Longrightarrow>
     quiet_change m (m\<lparr>mgr_state := ManagerAvailable st'\<rparr>)"
  by (auto simp: quiet_change_def)

lemma replace_saved_cases:
  assumes "replace_saved env current replacement result m = (r, m')"
    and "mgr_state m = ManagerAvailable st" and "to_persisted current = to_persisted st"
    and "table_step env (to_persisted st) (to_persisted replacement)"
  shows "(\<forall>e. r = Inl e \<longrightarrow> quiet_change m m') \<and> (\<forall>x. r = Inr x \<longrightarrow> x = result \<and> saved_change env m m')"
  using assms by (auto simp: replace_saved_def saved_change_def intro: quiet_state split: sum.splits)

lemma fail_with_quiet:
  "fail_with e current m = (r, m') \<Longrightarrow> mgr_state m = ManagerAvailable st \<Longrightarrow>
     to_persisted current = to_persisted st \<Longrightarrow> r = Inl e \<and> quiet_change m m'"
  by (auto simp: fail_with_def intro: quiet_state)

section \<open>Commands that touch only the memory\<close>

lemma quiet_admit: "reg_admit now s m = (r, m') \<Longrightarrow> quiet_change m m'"
  unfolding reg_admit_def
  by (erule quiet_in_memory)
    (auto simp: Let_def persisted_update_node split: option.splits if_splits)

lemma quiet_observe: "reg_observe now s m = (r, m') \<Longrightarrow> quiet_change m m'"
  unfolding reg_observe_def
  by (erule quiet_in_memory) (auto simp: Let_def split: option.splits if_splits)

lemma quiet_release: "quiet_change m (reg_release s m)"
  unfolding reg_release_def
  by (rule quiet_in_memory [OF surjective_pairing])
    (auto simp: persisted_update_node split: option.splits if_splits)

lemma quiet_finish_upgrade: "finish_upgrade_maintenance now n token m = (r, m') \<Longrightarrow> quiet_change m m'"
  unfolding finish_upgrade_maintenance_def
  by (erule quiet_in_memory) (auto simp: Let_def persisted_update_node split: option.splits if_splits)

lemma quiet_renew: "renew_upgrade_maintenance now n token lease m = (r, m') \<Longrightarrow> quiet_change m m'"
  unfolding renew_upgrade_maintenance_def
  by (erule quiet_in_memory) (auto simp: Let_def persisted_update_node split: option.splits if_splits)

lemma upgrade_continue_persisted:
  "upgrade_continue now deadline sel e token st = (r, st') \<Longrightarrow> to_persisted st' = to_persisted st"
  by (auto simp: upgrade_continue_def dest!: drain_poll_persisted split: sum.splits prod.splits bool.splits)

lemma quiet_begin_upgrade:
  "begin_upgrade_maintenance_if now token sel e dt lease idle m = (r, m') \<Longrightarrow> quiet_change m m'"
  unfolding begin_upgrade_maintenance_if_def
  by (erule quiet_in_memory)
    (auto simp: Let_def persisted_update_registration dest!: upgrade_continue_persisted split: sum.splits if_splits)

lemma quiet_upgrade_resume:
  "upgrade_maintenance_resume now to deadline sel e token m = (r, m') \<Longrightarrow> quiet_change m m'"
  unfolding upgrade_maintenance_resume_def
  by (erule quiet_in_memory)
    (auto dest!: upgrade_continue_persisted drain_expired_persisted split: prod.splits if_splits)

lemma quiet_has_active: "quiet_change m (snd (has_active_upgrade_maintenance now m))"
  by (auto simp: has_active_upgrade_maintenance_def Let_def intro: quiet_state split: manager_state.split)

section \<open>Commands that write the file\<close>

definition reg_result_ok :: "registration_env \<Rightarrow> registration_manager \<Rightarrow> 'r res \<Rightarrow> registration_manager \<Rightarrow> bool" where
  "reg_result_ok env m r m' \<longleftrightarrow>
     (\<forall>e. r = Inl e \<longrightarrow> quiet_change m m')
     \<and> (\<forall>x. r = Inr x \<longrightarrow> quiet_change m m' \<or> saved_change env m m')"

lemma reg_result_quiet: "quiet_change m m' \<Longrightarrow> reg_result_ok env m r m'"
  by (simp add: reg_result_ok_def)

lemma reg_result_replace:
  assumes "replace_saved env current replacement result m = (r, m')"
    and "mgr_state m = ManagerAvailable st" and "to_persisted current = to_persisted st"
    and "table_step env (to_persisted st) (to_persisted replacement)"
  shows "reg_result_ok env m r m'"
  using replace_saved_cases [OF assms] by (auto simp: reg_result_ok_def)

lemma reg_result_fail:
  "fail_with e current m = (r, m') \<Longrightarrow> mgr_state m = ManagerAvailable st \<Longrightarrow>
     to_persisted current = to_persisted st \<Longrightarrow> reg_result_ok env m r m'"
  using fail_with_quiet reg_result_quiet by blast

lemma reg_next_Inr: "reg_next v l = Inr r \<longleftrightarrow> u64_checked_add v 1 = Some r"
  by (simp add: reg_next_def ok_or_Inr)

lemma find_index_Some:
  "find_index st sel = Inr i \<Longrightarrow> i < length (rs_registrations st) \<and> selects sel (rs_registrations st ! i)"
  using position_SomeD [of "selects sel" "rs_registrations st" i] by (simp add: find_index_def ok_or_Inr)

lemma persisted_fields [simp]:
  "per_revision (to_persisted st) = rs_revision st"
  "per_tombstone_epoch (to_persisted st) = rs_tombstone_epoch st"
  "per_registrations (to_persisted st) = map rg_snapshot (rs_registrations st)"
  by (simp_all add: to_persisted_def)

lemma add_step:
  assumes "validate_alias env a = Inr ()" "validate_target t = Inr ()" "validate_node_id env n = Inr ()"
    and "List.find (\<lambda>r. nr_alias (rg_snapshot r) = a \<or> nr_target (rg_snapshot r) = t
                     \<or> nr_node_id (rg_snapshot r) = n) (rs_registrations st) = None"
    and "length (rs_registrations st) < max_registrations"
    and "u64_checked_add (rs_revision st) 1 = Some r"
  shows "table_step env (to_persisted st)
    (to_persisted (st\<lparr>rs_revision := r, rs_registrations := rs_registrations st
       @ [fresh_registration \<lparr>nr_alias = a, nr_target = t, nr_node_id = n, nr_revision = r,
                              nr_tombstone_epoch = rs_tombstone_epoch st\<rparr>]\<rparr>))"
proof -
  let ?s = "\<lparr>nr_alias = a, nr_target = t, nr_node_id = n, nr_revision = r,
             nr_tombstone_epoch = rs_tombstone_epoch st\<rparr>"
  have "table_step env (to_persisted st) ((to_persisted st)\<lparr>per_revision := nr_revision ?s,
      per_registrations := per_registrations (to_persisted st) @ [?s]\<rparr>)"
    using assms by (intro table_step.added) (auto simp: find_None_iff_ball)
  then show ?thesis by (simp add: to_persisted_def fresh_registration_def)
qed

lemma add_ok: "reg_add env a t n l m = (r, m') \<Longrightarrow> reg_result_ok env m r m'"
  unfolding reg_add_def
  by (auto simp: bind_res_Inr Let_def reg_next_Inr not_le intro: reg_result_quiet
      elim!: reg_result_replace intro!: add_step split: sum.splits if_splits option.splits)

lemma persisted_put_snapshot:
  assumes "i < length (rs_registrations st)"
  shows "to_persisted (update_registration i (\<lambda>r. r\<lparr>rg_snapshot := s\<rparr>) (st\<lparr>rs_revision := v\<rparr>)) =
    (to_persisted st)\<lparr>per_revision := v, per_registrations := (per_registrations (to_persisted st))[i := s]\<rparr>"
  using assms by (simp add: to_persisted_def update_registration_def map_update)

lemma rename_step:
  assumes "i < length (rs_registrations st)" and "validate_alias env a = Inr ()"
    and "\<not> list_ex (\<lambda>j. j \<noteq> i \<and> nr_alias (rg_snapshot (rs_registrations st ! j)) = a)
            [0..<length (rs_registrations st)]"
    and "u64_checked_add (rs_revision st) 1 = Some v"
  shows "table_step env (to_persisted st) (to_persisted (update_registration i
    (\<lambda>r. r\<lparr>rg_snapshot := (rg_snapshot (rs_registrations st ! i))\<lparr>nr_alias := a, nr_revision := v\<rparr>\<rparr>)
    (st\<lparr>rs_revision := v\<rparr>)))"
proof -
  have "\<forall>j < length (rs_registrations st). j \<noteq> i \<longrightarrow> nr_alias (rg_snapshot (rs_registrations st ! j)) \<noteq> a"
    using assms(3) by (auto simp: list_ex_iff)
  then show ?thesis
    using table_step.renamed [of i "to_persisted st" env a v] assms(1,2,4)
    by (simp add: persisted_put_snapshot)
qed

lemma retarget_step:
  assumes "i < length (rs_registrations st)" and "validate_target t = Inr ()"
    and "\<not> list_ex (\<lambda>j. j \<noteq> i \<and> nr_target (rg_snapshot (rs_registrations st ! j)) = t)
            [0..<length (rs_registrations st)]"
    and "u64_checked_add (rs_revision st) 1 = Some v"
  shows "table_step env (to_persisted st) (to_persisted (update_registration i
    (\<lambda>r. r\<lparr>rg_snapshot := (rg_snapshot (rs_registrations st ! i))\<lparr>nr_target := t, nr_revision := v\<rparr>\<rparr>)
    (st\<lparr>rs_revision := v\<rparr>)))"
proof -
  have "\<forall>j < length (rs_registrations st). j \<noteq> i \<longrightarrow> nr_target (rg_snapshot (rs_registrations st ! j)) \<noteq> t"
    using assms(3) by (auto simp: list_ex_iff)
  then show ?thesis
    using table_step.retargeted [of i "to_persisted st" t v env] assms(1,2,4)
    by (simp add: persisted_put_snapshot)
qed

lemma rename_ok:
  assumes "reg_rename env now sel a e m = (r, m')"
  shows "reg_result_ok env m r m'"
proof (cases "bind_res (validate_alias env a) (\<lambda>_. available m)")
  case (Inl e)
  then show ?thesis using assms by (simp add: reg_rename_def reg_result_quiet)
next
  case (Inr st)
  then have valid: "validate_alias env a = Inr ()" and m: "mgr_state m = ManagerAvailable st"
    by (auto simp: bind_res_Inr)
  let ?st = "expire_maintenance now st"
  have same: "to_persisted ?st = to_persisted st" by simp
  note fail = reg_result_fail [OF _ m same]
  show ?thesis
  proof (cases "bind_res (find_index ?st sel) (\<lambda>i.
      bind_res (require_registration_revision (rs_registrations ?st ! i) e) (\<lambda>_. Inr i))")
    case (Inl x)
    then show ?thesis using assms \<open>bind_res _ _ = Inr st\<close> fail by (simp add: reg_rename_def Let_def)
  next
    case (Inr i)
    then have i: "i < length (rs_registrations ?st)" by (auto simp: bind_res_Inr dest: find_index_Some)
    have "(\<exists>x. fail_with x ?st m = (r, m')) \<or> m' = m\<lparr>mgr_state := ManagerAvailable ?st\<rparr>
      \<or> (\<exists>v. u64_checked_add (rs_revision ?st) 1 = Some v
          \<and> \<not> list_ex (\<lambda>j. j \<noteq> i \<and> nr_alias (rg_snapshot (rs_registrations ?st ! j)) = a)
              [0..<length (rs_registrations ?st)]
          \<and> replace_saved env ?st (update_registration i
              (\<lambda>r. r\<lparr>rg_snapshot := (rg_snapshot (rs_registrations ?st ! i))\<lparr>nr_alias := a, nr_revision := v\<rparr>\<rparr>)
              (?st\<lparr>rs_revision := v\<rparr>))
              ((rg_snapshot (rs_registrations ?st ! i))\<lparr>nr_alias := a, nr_revision := v\<rparr>) m = (r, m'))"
      using assms \<open>bind_res _ _ = Inr st\<close> Inr
      by (auto simp: reg_rename_def Let_def reg_next_Inr split: if_splits sum.splits)
    then show ?thesis
    proof (elim disjE exE conjE)
      show "m' = m\<lparr>mgr_state := ManagerAvailable ?st\<rparr> \<Longrightarrow> ?thesis"
        using quiet_state [OF m same] by (simp add: reg_result_quiet)
    qed (auto intro: fail reg_result_replace [OF _ m same] rename_step [OF i valid, unfolded same])
  qed
qed

section \<open>Draining commands\<close>

definition mutation_ok :: "registration_env \<Rightarrow> registration_mutation \<Rightarrow> bool" where
  "mutation_ok env mutate \<longleftrightarrow>
     (\<forall>st i s st'. i < length (rs_registrations st) \<longrightarrow> mutate st i = Inr (s, st') \<longrightarrow>
        table_step env (to_persisted st) (to_persisted st'))"

lemma mutation_okD:
  "mutation_ok env mutate \<Longrightarrow> mutate st i = Inr (s, st') \<Longrightarrow> i < length (rs_registrations st) \<Longrightarrow>
     table_step env (to_persisted st) (to_persisted st')"
  unfolding mutation_ok_def by blast

lemma retarget_mutation_ok: "validate_target t = Inr () \<Longrightarrow> mutation_ok env (retarget_mutation t n)"
  by (auto simp: mutation_ok_def retarget_mutation_def Let_def bind_res_Inr reg_next_Inr
      intro: retarget_step table_step.kept split: if_splits)

lemma forget_mutation_ok: "mutation_ok env forget_mutation"
proof -
  have "table_step env (to_persisted st)
      (to_persisted (st\<lparr>rs_tombstone_epoch := e, rs_registrations := remove_at i (rs_registrations st)\<rparr>))"
    if "i < length (rs_registrations st)" "u64_checked_add (rs_tombstone_epoch st) 1 = Some e" for st i e
    using table_step.dropped [of i "to_persisted st" e env] that
    by (simp add: to_persisted_def map_remove_at)
  then show ?thesis by (auto simp: mutation_ok_def forget_mutation_def bind_res_Inr reg_next_Inr)
qed

lemma drain_commit_ok:
  assumes run: "drain_commit env mutate sel current m = (r, m')" and ok: "mutation_ok env mutate"
    and m: "mgr_state m = ManagerAvailable st" and same: "to_persisted current = to_persisted st"
  shows "reg_result_ok env m r m'"
proof (cases "find_index current sel")
  case (Inl e)
  then show ?thesis using run reg_result_fail [OF _ m same] by (simp add: drain_commit_def)
next
  case (Inr i)
  let ?reopened = "update_registration i reopen_unless_maintained current"
  have reopened: "to_persisted ?reopened = to_persisted st"
    using same by (simp add: persisted_update_registration)
  show ?thesis
  proof (cases "mutate current i")
    case (Inl e)
    then show ?thesis using run Inr reg_result_fail [OF _ m reopened] by (simp add: drain_commit_def Let_def)
  next
    case (Inr p)
    obtain s st' where p: "p = (s, st')" by (cases p)
    then have "table_step env (to_persisted current) (to_persisted st')"
      using mutation_okD [OF ok, of current i s st'] Inr find_index_Some [OF \<open>find_index current sel = Inr i\<close>]
      by simp
    then have "table_step env (to_persisted st) (to_persisted st')" using same by simp
    then have "table_step env (to_persisted st)
        (to_persisted (update_node (nr_node_id s) reopen_unless_maintained st'))"
      by (simp add: persisted_update_node)
    then show ?thesis
      using run \<open>find_index current sel = Inr i\<close> Inr p reg_result_replace [OF _ m reopened]
      by (auto simp: drain_commit_def Let_def)
  qed
qed

lemma drain_continue_ok:
  assumes run: "drain_continue env mutate now deadline sel e current m = (r, m')"
    and ok: "mutation_ok env mutate"
    and m: "mgr_state m = ManagerAvailable st" and same: "to_persisted current = to_persisted st"
  shows "reg_result_ok env m r m'"
proof -
  obtain q st' where poll: "drain_poll now deadline sel e reopen_unless_maintained current = (q, st')"
    by fastforce
  have same': "to_persisted st' = to_persisted st"
    using drain_poll_persisted [OF poll] same by simp
  show ?thesis
    using run poll drain_commit_ok [OF _ ok m same'] reg_result_fail [OF _ m same'] quiet_state [OF m same']
    by (auto simp: drain_continue_def intro: reg_result_quiet split: sum.splits bool.splits)
qed

lemma prepare_drain_begin_ok:
  assumes run: "prepare_drain_begin env mutate now sel e timeout forget m = (r, m')"
    and ok: "mutation_ok env mutate"
  shows "reg_result_ok env m r m'"
proof (cases "available m")
  case (Inl e)
  then show ?thesis using run by (simp add: prepare_drain_begin_def reg_result_quiet)
next
  case (Inr st)
  then have m: "mgr_state m = ManagerAvailable st" by simp
  show ?thesis
    using run Inr m
    by (auto simp: prepare_drain_begin_def Let_def persisted_update_registration
        elim!: reg_result_fail [OF _ m] drain_continue_ok [OF _ ok m] split: sum.splits)
qed

lemma prepare_drain_resume_ok:
  assumes run: "prepare_drain_resume env mutate now to deadline sel e m = (r, m')"
    and ok: "mutation_ok env mutate"
  shows "reg_result_ok env m r m'"
proof (cases "available m")
  case (Inl e)
  then show ?thesis using run by (simp add: prepare_drain_resume_def reg_result_quiet)
next
  case (Inr st)
  then have m: "mgr_state m = ManagerAvailable st" by simp
  obtain q st' where expired: "drain_expired sel reopen_unless_maintained st = (q, st')" by fastforce
  then have "to_persisted st' = to_persisted st" by (rule drain_expired_persisted) simp
  then show ?thesis
    using run Inr m expired reg_result_fail [OF _ m] drain_continue_ok [OF _ ok m refl]
    by (auto simp: prepare_drain_resume_def split: if_splits)
qed

lemma finish_uninstall_ok:
  assumes run: "finish_uninstall_maintenance env now n token m = (r, m')"
  shows "reg_result_ok env m r m'"
proof (cases "available m")
  case (Inl e)
  then show ?thesis using run by (simp add: finish_uninstall_maintenance_def reg_result_quiet)
next
  case (Inr st)
  then have m: "mgr_state m = ManagerAvailable st" by simp
  let ?st = "expire_maintenance now st"
  have same: "to_persisted ?st = to_persisted st" by simp
  have step: "table_step env (to_persisted st) (to_persisted st')"
    if "position p (rs_registrations ?st) = Some i" "forget_mutation ?st i = Inr (s, st')" for p i s st'
    using mutation_okD [OF forget_mutation_ok that(2)] position_SomeD [OF that(1)] same by simp
  show ?thesis
    using run Inr m reg_result_fail [OF _ m same]
    by (auto simp: finish_uninstall_maintenance_def Let_def ok_or_Inr
        elim!: reg_result_replace [OF _ m same] intro: step split: sum.splits if_splits)
qed

section \<open>Every command\<close>

lemma reg_outcome_ok:
  assumes "reg_outcome (r, m') = (e, m'')" and "reg_result_ok env m r m'"
  shows "(\<forall>x. e = Some x \<longrightarrow> quiet_change m m'') \<and> (e = None \<longrightarrow> quiet_change m m'' \<or> saved_change env m m'')"
  using assms by (auto simp: reg_outcome_def reg_result_ok_def split: sum.splits)

lemma reg_exec_lift:
  assumes "reg_exec env c m = (e, m')" and "reg_exec env c m = reg_outcome run"
    and "\<And>r m''. run = (r, m'') \<Longrightarrow> reg_result_ok env m r m''"
  shows "(\<forall>x. e = Some x \<longrightarrow> quiet_change m m') \<and> (e = None \<longrightarrow> quiet_change m m' \<or> saved_change env m m')"
  using assms(1,2) assms(3) [OF surjective_pairing] reg_outcome_ok [of "fst run" "snd run" e m' env m] by simp

lemma retarget_begin_ok: "reg_retarget_begin env now sel t n v timeout m = (r, m') \<Longrightarrow> reg_result_ok env m r m'"
  by (auto simp: reg_retarget_begin_def bind_res_Inr reg_result_quiet
      intro: prepare_drain_begin_ok [OF _ retarget_mutation_ok] split: sum.splits)

lemma forget_begin_ok: "reg_forget_begin env now sel timeout m = (r, m') \<Longrightarrow> reg_result_ok env m r m'"
  by (auto simp: reg_forget_begin_def reg_result_quiet
      intro: prepare_drain_begin_ok [OF _ forget_mutation_ok] split: sum.splits)

lemmas reg_commands_ok =
  add_ok rename_ok retarget_begin_ok forget_begin_ok finish_uninstall_ok
  prepare_drain_resume_ok [OF _ forget_mutation_ok]
  quiet_admit [THEN reg_result_quiet] quiet_observe [THEN reg_result_quiet]
  quiet_finish_upgrade [THEN reg_result_quiet] quiet_renew [THEN reg_result_quiet]
  quiet_begin_upgrade [THEN reg_result_quiet] quiet_upgrade_resume [THEN reg_result_quiet]

lemma reg_exec_change:
  assumes "reg_exec env c m = (e, m')"
  shows "(\<forall>x. e = Some x \<longrightarrow> quiet_change m m') \<and> (e = None \<longrightarrow> quiet_change m m' \<or> saved_change env m m')"
proof (cases c)
  case (RegRetargetResume now to deadline sel t n v)
  show ?thesis
  proof (cases "validate_target t = Inr () \<and> validate_node_id env n = Inr ()")
    case True
    then show ?thesis
      using RegRetargetResume
      by (intro reg_exec_lift [OF assms, of "prepare_drain_resume env (retarget_mutation t n) now to deadline sel v m"])
        (auto intro: prepare_drain_resume_ok [OF _ retarget_mutation_ok])
  next
    case False
    then show ?thesis using assms RegRetargetResume by auto
  qed
next
  case (RegHasActive now)
  then show ?thesis using assms quiet_has_active by auto
next
  case (RegRelease s)
  then show ?thesis using assms quiet_release by auto
qed (rule reg_exec_lift [OF assms], simp, erule reg_commands_ok)+

section \<open>Refinement and durability\<close>

definition manager_table :: "registration_manager \<Rightarrow> persisted_registrations option" where
  "manager_table m =
     (case mgr_state m of ManagerAvailable st \<Rightarrow> Some (to_persisted st) | ManagerUnavailable _ \<Rightarrow> None)"

definition opt_table_ok :: "registration_env \<Rightarrow> persisted_registrations option \<Rightarrow> bool" where
  "opt_table_ok env t \<longleftrightarrow> (case t of None \<Rightarrow> True | Some p \<Rightarrow> table_ok env p)"

lemma quiet_change_table:
  "quiet_change m m' \<Longrightarrow> manager_table m' = manager_table m \<and> mgr_disk m' = mgr_disk m"
  by (auto simp: quiet_change_def manager_table_def)

lemma saved_change_table:
  "saved_change env m m' \<Longrightarrow>
     (\<exists>p p'. manager_table m = Some p \<and> manager_table m' = Some p' \<and> table_step env p p' \<and> mgr_disk m' = Some p')"
  by (auto simp: saved_change_def manager_table_def)

text \<open>Every command is a step of the abstract table, written to the file before it is visible.\<close>

lemma reg_exec_refines:
  assumes "reg_exec env c m = (e, m')" and "manager_table m = Some p"
  shows "\<exists>p'. manager_table m' = Some p' \<and> table_step env p p'
    \<and> (p' = p \<and> mgr_disk m' = mgr_disk m \<or> e = None \<and> mgr_disk m' = Some p')"
proof (cases "quiet_change m m'")
  case True
  then show ?thesis using quiet_change_table assms(2) by (auto intro: table_step.kept)
next
  case False
  then have "e = None" "saved_change env m m'" using reg_exec_change [OF assms(1)] by (cases e, auto)+
  then show ?thesis using saved_change_table assms(2) by fastforce
qed

interpretation reg_durable: durable_store "reg_exec env" manager_table "\<lambda>m. map_option Some (mgr_disk m)"
    "opt_table_ok env" "\<lambda>_. True"
  for env
proof
  fix m m' :: registration_manager and c :: reg_command and e :: io_error
  show "manager_table m' = manager_table m \<and> map_option Some (mgr_disk m') = map_option Some (mgr_disk m)"
    if "reg_exec env c m = (Some e, m')"
    using quiet_change_table reg_exec_change [OF that] by simp
  show "map_option Some (mgr_disk m') = Some (manager_table m')
      \<or> manager_table m' = manager_table m \<and> map_option Some (mgr_disk m') = map_option Some (mgr_disk m)"
    if "reg_exec env c m = (None, m')"
    using quiet_change_table saved_change_table reg_exec_change [OF that] by fastforce
  show "opt_table_ok env (manager_table m')"
    if "opt_table_ok env (manager_table m)" "reg_exec env c m = (None, m')"
    using quiet_change_table saved_change_table reg_exec_change [OF that(2)] that(1) table_step_ok
    by (fastforce simp: opt_table_ok_def)
qed simp_all

end
