(* ===== verification/Registration_Admission.thy ===== *)
theory Registration_Admission
  imports Registration_Commands
begin

text \<open>
  Admission and maintenance of registered Nodes (\<open>src/src/node_registration.rs\<close>): a lease keeps
  the admission of routed operations closed, a drained change is committed only when no admitted
  operation is left, and what happens to the count of admitted operations.
\<close>

section \<open>A lease keeps admission closed\<close>

definition lease_ok :: "registration \<Rightarrow> bool" where
  "lease_ok r \<longleftrightarrow> (rg_maintenance r \<noteq> None \<longrightarrow> \<not> rg_admission_open r)"

definition leases_closed :: "registration_state \<Rightarrow> bool" where
  "leases_closed st \<longleftrightarrow> list_all lease_ok (rs_registrations st)"

definition manager_closed :: "registration_manager \<Rightarrow> bool" where
  "manager_closed m \<longleftrightarrow>
     (case mgr_state m of ManagerAvailable st \<Rightarrow> leases_closed st | ManagerUnavailable _ \<Rightarrow> True)"

lemma lease_ok_intros [simp]:
  "lease_ok r \<Longrightarrow> lease_ok (expire_registration now r)"
  "lease_ok (reopen_unless_maintained r)"
  "lease_ok (reopen_and_release r)"
  "lease_ok (fresh_registration s)"
  "lease_ok (r\<lparr>rg_admission_epoch := e, rg_admission_open := False\<rparr>)"
  "lease_ok (r\<lparr>rg_admission_epoch := e, rg_admission_open := False, rg_maintenance := l\<rparr>)"
  "lease_ok (r\<lparr>rg_admitted := n\<rparr>) = lease_ok r"
  "lease_ok (r\<lparr>rg_snapshot := s\<rparr>) = lease_ok r"
  "lease_ok r \<Longrightarrow> lease_ok (r\<lparr>rg_maintenance := map_option f (rg_maintenance r)\<rparr>)"
  by (auto simp: lease_ok_def expire_registration_def reopen_unless_maintained_def reopen_and_release_def
      fresh_registration_def split: option.split)

lemma leases_closed_expire [simp]: "leases_closed st \<Longrightarrow> leases_closed (expire_maintenance now st)"
  by (auto simp: leases_closed_def expire_maintenance_def list_all_iff)

lemma leases_closed_update:
  assumes "leases_closed st" and "\<And>r. lease_ok r \<Longrightarrow> lease_ok (f r)"
  shows "leases_closed (update_registration i f st)"
proof (cases "i < length (rs_registrations st)")
  case True
  then have "lease_ok (f (rs_registrations st ! i))"
    using assms by (simp add: leases_closed_def list_all_length)
  then show ?thesis using assms(1) by (simp add: leases_closed_def update_registration_def list_all_update)
next
  case False
  then show ?thesis using assms(1) by (simp add: update_registration_def list_update_beyond)
qed

lemma leases_closed_node:
  assumes "leases_closed st" and "\<And>r. lease_ok r \<Longrightarrow> lease_ok (f r)"
  shows "leases_closed (update_node n f st)"
  using assms set_update_first_subset [of "\<lambda>r. nr_node_id (rg_snapshot r) = n" f "rs_registrations st"]
  by (auto simp: leases_closed_def update_node_def list_all_iff)

lemma leases_closed_fields [simp]:
  "leases_closed (st\<lparr>rs_revision := v\<rparr>) = leases_closed st"
  "leases_closed (st\<lparr>rs_revision := v, rs_registrations := rs_registrations st @ [r]\<rparr>)
     = (leases_closed st \<and> lease_ok r)"
  by (simp_all add: leases_closed_def)

lemma closed_in_memory:
  assumes "in_memory body m = (r, m')" and "manager_closed m"
    and "\<And>st r st'. body st = (r, st') \<Longrightarrow> leases_closed st \<Longrightarrow> leases_closed st'"
  shows "manager_closed m'"
proof (cases "available m")
  case (Inl e)
  then show ?thesis using assms(1,2) by (simp add: in_memory_def)
next
  case (Inr st)
  obtain r' st' where run: "body st = (r', st')" by (cases "body st")
  then have "m' = m\<lparr>mgr_state := ManagerAvailable st'\<rparr>" using assms(1) Inr by (simp add: in_memory_def)
  then show ?thesis using Inr assms(2) assms(3) [OF run] by (simp add: manager_closed_def)
qed

lemma closed_replace:
  "replace_saved env current replacement result m = (r, m') \<Longrightarrow> leases_closed current \<Longrightarrow>
     leases_closed replacement \<Longrightarrow> manager_closed m'"
  by (auto simp: replace_saved_def manager_closed_def split: sum.splits)

lemma closed_fail: "fail_with e st m = (r, m') \<Longrightarrow> leases_closed st \<Longrightarrow> manager_closed m'"
  by (auto simp: fail_with_def manager_closed_def)

lemma closed_state: "leases_closed st \<Longrightarrow> manager_closed (m\<lparr>mgr_state := ManagerAvailable st\<rparr>)"
  by (simp add: manager_closed_def)

lemma closed_available: "manager_closed m \<Longrightarrow> available m = Inr st \<Longrightarrow> leases_closed st"
  by (simp add: manager_closed_def)

lemma drain_poll_closed:
  "drain_poll now deadline sel e f st = (r, st') \<Longrightarrow> (\<And>r. lease_ok (f r)) \<Longrightarrow> leases_closed st \<Longrightarrow>
     leases_closed st'"
  by (auto simp: drain_poll_def intro: leases_closed_update split: sum.splits if_splits)

lemma drain_expired_closed:
  "drain_expired sel f st = (r, st') \<Longrightarrow> (\<And>r. lease_ok (f r)) \<Longrightarrow> leases_closed st \<Longrightarrow> leases_closed st'"
  by (auto simp: drain_expired_def intro: leases_closed_update split: sum.splits)

definition mutation_closed :: "registration_mutation \<Rightarrow> bool" where
  "mutation_closed mutate \<longleftrightarrow>
     (\<forall>st i s st'. mutate st i = Inr (s, st') \<longrightarrow> leases_closed st \<longrightarrow> leases_closed st')"

lemma retarget_closed: "mutation_closed (retarget_mutation t n)"
  by (auto simp: mutation_closed_def retarget_mutation_def Let_def bind_res_Inr
      intro!: leases_closed_update split: if_splits)

lemma forget_closed: "mutation_closed forget_mutation"
  using set_remove_at
  by (fastforce simp: mutation_closed_def forget_mutation_def bind_res_Inr leases_closed_def list_all_iff)

lemma drain_commit_closed:
  assumes "drain_commit env mutate sel current m = (r, m')" and "mutation_closed mutate"
    and "leases_closed current"
  shows "manager_closed m'"
proof (cases "find_index current sel")
  case (Inl e)
  then show ?thesis using assms by (auto simp: drain_commit_def intro: closed_fail)
next
  case (Inr i)
  have reopened: "leases_closed (update_registration i reopen_unless_maintained current)"
    by (rule leases_closed_update [OF assms(3)]) simp
  show ?thesis
  proof (cases "mutate current i")
    case (Inl e)
    then show ?thesis
      using assms(1) \<open>find_index current sel = Inr i\<close> reopened by (auto simp: drain_commit_def intro: closed_fail)
  next
    case (Inr p)
    obtain s st' where p: "p = (s, st')" by (cases p)
    then have "leases_closed st'" using Inr assms(2,3) by (auto simp: mutation_closed_def)
    then have "leases_closed (update_node (nr_node_id s) reopen_unless_maintained st')"
      by (rule leases_closed_node) simp
    then show ?thesis
      using assms(1) \<open>find_index current sel = Inr i\<close> Inr p closed_replace [OF _ reopened]
      by (auto simp: drain_commit_def)
  qed
qed

lemma drain_continue_closed:
  assumes "drain_continue env mutate now deadline sel e current m = (r, m')" and "mutation_closed mutate"
    and "leases_closed current"
  shows "manager_closed m'"
proof -
  obtain q st' where poll: "drain_poll now deadline sel e reopen_unless_maintained current = (q, st')"
    by fastforce
  then have "leases_closed st'" using drain_poll_closed assms(3) by simp
  then show ?thesis
    using assms(1) poll drain_commit_closed [OF _ assms(2)]
    by (auto simp: drain_continue_def intro: closed_fail closed_state split: sum.splits bool.splits)
qed

lemma prepare_drain_begin_closed:
  assumes "prepare_drain_begin env mutate now sel e timeout forget m = (r, m')" and "mutation_closed mutate"
    and "manager_closed m"
  shows "manager_closed m'"
  using assms closed_available [OF assms(3)]
  by (auto simp: prepare_drain_begin_def Let_def intro: closed_fail leases_closed_update
      elim!: drain_continue_closed split: sum.splits)

lemma prepare_drain_resume_closed:
  assumes "prepare_drain_resume env mutate now to deadline sel e m = (r, m')" and "mutation_closed mutate"
    and "manager_closed m"
  shows "manager_closed m'"
  using assms closed_available [OF assms(3)]
  by (auto simp: prepare_drain_resume_def intro: closed_fail
      elim!: drain_continue_closed dest!: drain_expired_closed split: sum.splits prod.splits if_splits)

lemma upgrade_continue_closed:
  "upgrade_continue now deadline sel e token st = (r, st') \<Longrightarrow> leases_closed st \<Longrightarrow> leases_closed st'"
  by (auto simp: upgrade_continue_def dest!: drain_poll_closed split: sum.splits prod.splits bool.splits)

lemma reg_outcome_state: "reg_outcome run = (e, m') \<Longrightarrow> \<exists>r. run = (r, m')"
  by (auto simp: reg_outcome_def split: prod.splits sum.splits)

lemma closed_add: "reg_add env a t n l m = (r, m') \<Longrightarrow> manager_closed m \<Longrightarrow> manager_closed m'"
  by (auto simp: reg_add_def Let_def dest: closed_available elim!: closed_replace
      split: sum.splits if_splits option.splits)

lemma closed_rename:
  assumes "reg_rename env now sel a e m = (r, m')" and "manager_closed m"
  shows "manager_closed m'"
proof (cases "bind_res (validate_alias env a) (\<lambda>_. available m)")
  case (Inl x)
  then show ?thesis using assms by (simp add: reg_rename_def)
next
  case (Inr st)
  then have "leases_closed st" using closed_available [OF assms(2)] by (auto simp: bind_res_Inr)
  then show ?thesis
    using assms(1) Inr
    by (auto simp: reg_rename_def Let_def intro: closed_fail closed_state
        elim!: closed_replace intro!: leases_closed_update split: sum.splits if_splits)
qed

lemma closed_uninstall:
  assumes "finish_uninstall_maintenance env now n token m = (r, m')" and "manager_closed m"
  shows "manager_closed m'"
  using assms closed_available [OF assms(2)] forget_closed
  by (auto simp: finish_uninstall_maintenance_def Let_def mutation_closed_def intro: closed_fail
      elim!: closed_replace split: sum.splits if_splits)

lemma closed_memory_commands:
  "reg_admit now s m = (r1, m') \<Longrightarrow> manager_closed m \<Longrightarrow> manager_closed m'"
  "reg_observe now s m = (r2, m') \<Longrightarrow> manager_closed m \<Longrightarrow> manager_closed m'"
  "finish_upgrade_maintenance now n token m = (r3, m') \<Longrightarrow> manager_closed m \<Longrightarrow> manager_closed m'"
  "renew_upgrade_maintenance now n token lease m = (r4, m') \<Longrightarrow> manager_closed m \<Longrightarrow> manager_closed m'"
  unfolding reg_admit_def reg_observe_def finish_upgrade_maintenance_def renew_upgrade_maintenance_def
  by (erule closed_in_memory, assumption,
      auto simp: Let_def intro!: leases_closed_node split: option.splits if_splits)+

lemma closed_begin_upgrade:
  "begin_upgrade_maintenance_if now token sel e dt lease idle m = (r, m') \<Longrightarrow> manager_closed m \<Longrightarrow> manager_closed m'"
  unfolding begin_upgrade_maintenance_if_def
  by (erule closed_in_memory)
    (auto simp: Let_def intro: leases_closed_update elim!: upgrade_continue_closed split: sum.splits if_splits)

lemma closed_upgrade_resume:
  "upgrade_maintenance_resume now to deadline sel e token m = (r, m') \<Longrightarrow> manager_closed m \<Longrightarrow> manager_closed m'"
  unfolding upgrade_maintenance_resume_def
  by (erule closed_in_memory)
    (auto dest!: upgrade_continue_closed drain_expired_closed split: prod.splits if_splits)

lemma closed_release: "manager_closed m \<Longrightarrow> manager_closed (reg_release s m)"
  unfolding reg_release_def
  by (rule closed_in_memory [OF surjective_pairing])
    (auto intro!: leases_closed_node split: option.splits if_splits)

lemma closed_has_active: "manager_closed m \<Longrightarrow> manager_closed (snd (has_active_upgrade_maintenance now m))"
  by (auto simp: has_active_upgrade_maintenance_def Let_def manager_closed_def split: manager_state.splits)

lemma closed_drains:
  "reg_retarget_begin env now sel t n e timeout m = (r1, m') \<Longrightarrow> manager_closed m \<Longrightarrow> manager_closed m'"
  "reg_forget_begin env now sel timeout m = (r2, m') \<Longrightarrow> manager_closed m \<Longrightarrow> manager_closed m'"
  by (auto simp: reg_retarget_begin_def reg_forget_begin_def
      elim!: prepare_drain_begin_closed [OF _ retarget_closed] prepare_drain_begin_closed [OF _ forget_closed]
      split: sum.splits)

lemma reg_exec_closed:
  assumes "reg_exec env c m = (e, m')" and closed: "manager_closed m"
  shows "manager_closed m'"
proof (cases c)
  case (RegRetargetResume now to deadline sel t n v)
  then show ?thesis
    using assms by (auto dest!: reg_outcome_state elim: prepare_drain_resume_closed [OF _ retarget_closed]
        split: if_splits)
next
  case (RegForgetResume now to deadline sel v)
  then show ?thesis
    using assms by (auto dest!: reg_outcome_state elim: prepare_drain_resume_closed [OF _ forget_closed])
qed (use assms in \<open>auto dest!: reg_outcome_state intro: closed_add closed_rename closed_uninstall
       closed_begin_upgrade closed_upgrade_resume closed_release closed_has_active
       elim: closed_memory_commands closed_drains\<close>)

section \<open>Draining\<close>

lemma drain_poll_ready:
  "drain_poll now deadline sel e f st = (Inr True, st') \<Longrightarrow>
     st' = st \<and> (\<exists>i. find_index st sel = Inr i \<and> rg_admitted (rs_registrations st ! i) = 0
                  \<and> nr_revision (rg_snapshot (rs_registrations st ! i)) = e)"
  by (auto simp: drain_poll_def bind_res_Inr require_registration_revision_def split: sum.splits if_splits)

lemma drain_continue_done:
  assumes "drain_continue env mutate now deadline sel e st m = (Inr (DrainDone s), m')"
  shows "\<exists>i replacement. find_index st sel = Inr i \<and> rg_admitted (rs_registrations st ! i) = 0
      \<and> nr_revision (rg_snapshot (rs_registrations st ! i)) = e
      \<and> mutate st i = Inr (s, replacement)
      \<and> mgr_state m' = ManagerAvailable (update_node (nr_node_id s) reopen_unless_maintained replacement)
      \<and> mgr_disk m' = Some (to_persisted replacement)"
proof -
  obtain st' where poll: "drain_poll now deadline sel e reopen_unless_maintained st = (Inr True, st')"
    and commit: "drain_commit env mutate sel st' m = (Inr (DrainDone s), m')"
    using assms by (auto simp: drain_continue_def fail_with_def split: prod.splits sum.splits bool.splits)
  from drain_poll_ready [OF poll] obtain i where "st' = st" "find_index st sel = Inr i"
      "rg_admitted (rs_registrations st ! i) = 0" "nr_revision (rg_snapshot (rs_registrations st ! i)) = e"
    by blast
  with commit show ?thesis
    by (auto simp: drain_commit_def Let_def fail_with_def replace_saved_def persisted_update_node
        split: sum.splits)
qed

lemma find_index_expire: "find_index (expire_maintenance now st) sel = find_index st sel"
proof -
  have "position (selects sel) (map (expire_registration now) rs) = position (selects sel) rs" for rs
    by (induction rs) (auto simp: selects_def)
  then show ?thesis by (simp add: find_index_def expire_maintenance_def)
qed

lemma find_index_update:
  "(\<And>r. rg_snapshot (f r) = rg_snapshot r) \<Longrightarrow> find_index (update_registration i f st) sel = find_index st sel"
proof -
  assume f: "\<And>r. rg_snapshot (f r) = rg_snapshot r"
  have pos: "position (selects sel) xs = position (selects sel) ys" if "map rg_snapshot xs = map rg_snapshot ys" for xs ys
    using that
  proof (induction xs arbitrary: ys)
    case (Cons x xs)
    then show ?case by (cases ys) (auto simp: selects_def)
  qed simp
  have "map rg_snapshot (rs_registrations (update_registration i f st)) = map rg_snapshot (rs_registrations st)"
    using f by (simp add: update_registration_def map_update_same)
  from pos [OF this] show ?thesis by (simp add: find_index_def)
qed

end
