(* ===== verification/Registration_Props.thy ===== *)
theory Registration_Props
  imports Registration_Admission
begin

text \<open>
  The properties of the Node registrations (\<open>src/src/node_registration.rs\<close>), each with a concrete
  instance of its hypotheses. In \<open>demo_reg_env\<close> the canonical UUIDs are the strings of four bytes.
\<close>

section \<open>A concrete manager\<close>

definition demo_reg_env :: registration_env where
  "demo_reg_env = \<lparr>env_uuid_canonical = (\<lambda>s. if length s = 4 then Some s else None),
     env_registrations_len = (\<lambda>p. Inr (40 + 100 * length (per_registrations p))),
     env_registrations_write = (\<lambda>_. None)\<rparr>"

definition demo_snapshot :: node_registration_snapshot where
  "demo_snapshot = \<lparr>nr_alias = ''web'', nr_target = ''host'', nr_node_id = ''n001'', nr_revision = 1,
     nr_tombstone_epoch = 0\<rparr>"

definition demo_registration :: registration where
  "demo_registration = fresh_registration demo_snapshot"

definition demo_table :: registration_state where
  "demo_table = \<lparr>rs_revision = 1, rs_tombstone_epoch = 0, rs_registrations = [demo_registration]\<rparr>"

definition demo_manager_of :: "registration_state \<Rightarrow> registration_manager" where
  "demo_manager_of st = \<lparr>mgr_state = ManagerAvailable st, mgr_disk = Some (to_persisted st)\<rparr>"

lemmas demo_reg_defs = demo_reg_env_def demo_snapshot_def demo_registration_def demo_table_def
  demo_manager_of_def fresh_registration_def

lemma demo_syntax:
  "\<not> has_control ''web''" "\<not> has_whitespace ''web''" "\<not> has_control ''host''" "\<not> has_whitespace ''host''"
  "\<not> has_control ''api''" "\<not> has_whitespace ''api''"
  by code_simp+

lemmas reg_eval = reg_outcome_def expire_maintenance_def expire_registration_def in_memory_def available_def
  find_index_def find_node_def selects_def require_registration_revision_def reg_next_def u64_checked_add_def
  update_registration_def update_node_def replace_saved_def save_registrations_def to_persisted_def
  max_registration_bytes_def usize_checked_add_def usize_max_def

lemma demo_table_ok: "table_ok demo_reg_env (to_persisted demo_table)"
  by (simp add: table_ok_def snapshot_ok_def to_persisted_def demo_reg_defs validate_alias_def validate_target_def
      ssh_target_parse_def validate_node_id_def max_registrations_def max_alias_bytes_def max_ssh_target_bytes_def
      demo_syntax whitespace3_def)

definition demo_admitted :: registration_manager where
  "demo_admitted = (demo_manager_of demo_table)
     \<lparr>mgr_state := ManagerAvailable (demo_table\<lparr>rs_registrations := [demo_registration\<lparr>rg_admitted := 1\<rparr>]\<rparr>)\<rparr>"

lemma demo_admit: "reg_admit 5 demo_snapshot (demo_manager_of demo_table) = (Inr True, demo_admitted)"
  by (simp add: reg_admit_def reg_eval demo_reg_defs demo_admitted_def)

section \<open>Refinement and restart\<close>

text \<open>C18: Every method of the manager, each resumption of a draining method included, is a step of
  the abstract registration table: it leaves the table alone, adds a fresh entry, renames or
  retargets one entry under a new revision, or drops one under a new tombstone epoch; and a
  changed table is in the file whenever it is in memory.\<close>

theorem registration_refines_table:
  assumes "reg_exec env c m = (e, m')" and "manager_table m = Some p"
  shows "\<exists>p'. manager_table m' = Some p' \<and> table_step env p p'
    \<and> (p' = p \<and> mgr_disk m' = mgr_disk m \<or> e = None \<and> mgr_disk m' = Some p')"
  by (rule reg_exec_refines [OF assms])

theorem registration_refines_table_witness:
  "\<exists>p'. manager_table demo_admitted = Some p' \<and> table_step demo_reg_env (to_persisted demo_table) p'"
proof -
  have "reg_exec demo_reg_env (RegAdmit 5 demo_snapshot) (demo_manager_of demo_table) = (None, demo_admitted)"
    by (simp add: demo_admit reg_outcome_def)
  moreover have "manager_table (demo_manager_of demo_table) = Some (to_persisted demo_table)"
    by (simp add: manager_table_def demo_manager_of_def)
  ultimately show ?thesis using registration_refines_table by blast
qed

text \<open>C19: A manager that was loaded from a file stays consistent with it: after any sequence of
  methods the file holds the table that is in memory, the next load accepts it, and that load
  recovers the table with every admission open and no lease.\<close>

theorem registration_restart:
  assumes "validate_persisted env p0 = Inr st0" and "per_version p0 = registration_version"
    and "m = fold (\<lambda>c m. snd (reg_exec env c m)) cs (load_manager (Inr st0) (Some p0))"
  shows "\<exists>p st. mgr_disk m = Some p \<and> manager_table m = Some p
    \<and> validate_persisted env p = Inr st \<and> to_persisted st = p
    \<and> list_all (\<lambda>r. rg_admission_open r \<and> rg_maintenance r = None) (rs_registrations st)"
proof -
  let ?m0 = "load_manager (Inr st0) (Some p0)"
  have st0: "table_ok env p0" "to_persisted st0 = p0"
    using assms(1,2) by (auto simp: validate_persisted_iff to_persisted_def fresh_registration_def comp_def)
  have table0: "manager_table ?m0 = Some p0" "mgr_disk ?m0 = Some p0"
    using st0 by (simp_all add: manager_table_def load_manager_def)
  have disk: "map_option Some (mgr_disk m) = Some (manager_table m)"
    using reg_durable.fold_durable [where env = env and s = ?m0 and cs = cs] table0 assms(3) by simp
  have ok: "opt_table_ok env (manager_table m)"
    using reg_durable.fold_invariant [where env = env and s = ?m0 and cs = cs] table0 st0(1) assms(3) by (auto simp: opt_table_ok_def)
  obtain p where p: "mgr_disk m = Some p" "manager_table m = Some p"
    using disk by (cases "mgr_disk m") auto
  then obtain st' where "p = to_persisted st'"
    by (auto simp: manager_table_def split: manager_state.splits)
  then have "per_version p = registration_version" by (simp add: to_persisted_def)
  then have "to_persisted \<lparr>rs_revision = per_revision p, rs_tombstone_epoch = per_tombstone_epoch p,
      rs_registrations = map fresh_registration (per_registrations p)\<rparr> = p"
    by (simp add: to_persisted_def fresh_registration_def comp_def)
  moreover have "table_ok env p" using ok p by (simp add: opt_table_ok_def)
  ultimately show ?thesis
    using p by (auto simp: validate_persisted_iff list_all_iff fresh_registration_def)
qed

theorem registration_restart_witness:
  "\<exists>p st. mgr_disk demo_admitted = Some p \<and> validate_persisted demo_reg_env p = Inr st \<and> to_persisted st = p"
proof -
  have valid: "validate_persisted demo_reg_env (to_persisted demo_table) = Inr demo_table"
    using demo_table_ok by (simp add: validate_persisted_iff) (simp add: demo_reg_defs)
  have "load_manager (Inr demo_table) (Some (to_persisted demo_table)) = demo_manager_of demo_table"
    by (simp add: load_manager_def demo_manager_of_def)
  then have run: "demo_admitted = fold (\<lambda>c m. snd (reg_exec demo_reg_env c m)) [RegAdmit 5 demo_snapshot]
      (load_manager (Inr demo_table) (Some (to_persisted demo_table)))"
    by (simp add: demo_admit reg_outcome_def)
  have "per_version (to_persisted demo_table) = registration_version" by (simp add: to_persisted_def)
  from registration_restart [OF valid this run] show ?thesis by blast
qed

section \<open>Draining\<close>

lemma expire_nth:
  "i < length (rs_registrations st) \<Longrightarrow>
     rg_admitted (rs_registrations (expire_maintenance now st) ! i) = rg_admitted (rs_registrations st ! i)
     \<and> rg_snapshot (rs_registrations (expire_maintenance now st) ! i) = rg_snapshot (rs_registrations st ! i)"
  by (simp add: expire_maintenance_def expire_registration_def split: option.split)

text \<open>C20: A retarget or forget commits, whether at once or after waiting, only in a state in which
  the selected registration has the revision the caller saw and no admitted operation.\<close>

theorem registration_drain_commits_idle:
  assumes "available m = Inr st"
    and "prepare_drain_begin env mutate now sel e timeout forget_maintenance m = (Inr (DrainDone s), m')
      \<or> prepare_drain_resume env mutate now timed_out deadline sel e m = (Inr (DrainDone s), m')"
  shows "\<exists>i. find_index st sel = Inr i \<and> rg_admitted (rs_registrations st ! i) = 0
    \<and> nr_revision (rg_snapshot (rs_registrations st ! i)) = e"
  using assms(2)
proof
  assume run: "prepare_drain_resume env mutate now timed_out deadline sel e m = (Inr (DrainDone s), m')"
  then have "drain_continue env mutate now deadline sel e st m = (Inr (DrainDone s), m')"
    using assms(1) by (auto simp: prepare_drain_resume_def fail_with_def split: if_splits prod.splits)
  from drain_continue_done [OF this] show ?thesis by blast
next
  assume run: "prepare_drain_begin env mutate now sel e timeout forget_maintenance m = (Inr (DrainDone s), m')"
  let ?st = "expire_maintenance now st"
  obtain i epoch where i: "find_index ?st sel = Inr i"
    and continue: "drain_continue env mutate now (now + timeout) sel e
        (update_registration i (\<lambda>r. r\<lparr>rg_admission_epoch := epoch, rg_admission_open := False\<rparr>) ?st) m
      = (Inr (DrainDone s), m')"
    using run assms(1)
    by (auto simp: prepare_drain_begin_def Let_def fail_with_def bind_res_Inr split: sum.splits if_splits)
  let ?closed = "update_registration i (\<lambda>r. r\<lparr>rg_admission_epoch := epoch, rg_admission_open := False\<rparr>) ?st"
  have "find_index ?closed sel = Inr i" using i by (simp add: find_index_update)
  with drain_continue_done [OF continue]
  have "rg_admitted (rs_registrations ?closed ! i) = 0" "nr_revision (rg_snapshot (rs_registrations ?closed ! i)) = e"
    by auto
  moreover have "i < length (rs_registrations ?st)" using find_index_Some [OF i] by simp
  ultimately show ?thesis
    using i [unfolded find_index_expire] expire_nth [of i st now]
    by (auto simp: update_registration_def expire_maintenance_def)
qed

definition demo_forgotten :: registration_manager where
  "demo_forgotten = demo_manager_of \<lparr>rs_revision = 1, rs_tombstone_epoch = 1, rs_registrations = []\<rparr>"

lemma demo_forget:
  "prepare_drain_begin demo_reg_env forget_mutation 7 ''web'' 1 10 True (demo_manager_of demo_table)
     = (Inr (DrainDone (demo_snapshot\<lparr>nr_tombstone_epoch := 1\<rparr>)), demo_forgotten)"
  by (simp add: prepare_drain_begin_def reg_eval demo_reg_defs drain_continue_def drain_poll_def drain_commit_def
      forget_mutation_def remove_at_def demo_forgotten_def Let_def)

theorem registration_drain_commits_idle_witness:
  "rg_admitted (rs_registrations demo_table ! 0) = 0"
proof -
  have "find_index demo_table ''web'' = Inr 0" by (simp add: reg_eval demo_reg_defs)
  moreover have "available (demo_manager_of demo_table) = Inr demo_table" by (simp add: demo_manager_of_def)
  ultimately show ?thesis
    using registration_drain_commits_idle [OF _ disjI1 [OF demo_forget]] by auto
qed

lemma find_node_unique:
  assumes "distinct (map nr_node_id (map rg_snapshot (rs_registrations st)))" and "r \<in> set (rs_registrations st)"
  shows "find_node st (nr_node_id (rg_snapshot r)) = Some r"
  unfolding find_node_def using assms find_unique [of "\<lambda>r. nr_node_id (rg_snapshot r)"] by (simp add: comp_def)

lemma admit_closed:
  assumes "find_node (expire_maintenance now st) (nr_node_id s) = Some r" and "\<not> rg_admission_open r"
    and "mgr_state m = ManagerAvailable st"
  shows "fst (reg_admit now s m) = Inr False"
  using assms by (simp add: reg_admit_def in_memory_def available_def Let_def)

lemma snapshots_of_expire: "map rg_snapshot (rs_registrations (expire_maintenance now st)) = map rg_snapshot (rs_registrations st)"
  by (simp add: expire_maintenance_def comp_def)

lemma drain_waiting_closed:
  assumes "drain_continue env mutate now deadline sel e st m = (Inr (DrainWaiting d), m')"
  shows "mgr_state m' = ManagerAvailable st"
  using assms
  by (auto simp: drain_continue_def drain_poll_def drain_commit_def Let_def fail_with_def replace_saved_def
      split: prod.splits sum.splits bool.splits if_splits)

text \<open>When a retarget starts to wait for admitted operations, its registration admits no new
  one: whatever time has passed, an admission with the current snapshot is refused.\<close>

theorem registration_drain_excludes:
  assumes "mgr_state m = ManagerAvailable st" and "table_ok env (to_persisted st)" and "leases_closed st"
    and "find_index st sel = Inr i" and "s = rg_snapshot (rs_registrations st ! i)"
    and "prepare_drain_begin env mutate now sel e timeout False m = (Inr (DrainWaiting d), m')"
  shows "fst (reg_admit now' s m') = Inr False"
proof -
  let ?st = "expire_maintenance now st"
  have i: "find_index ?st sel = Inr i" "i < length (rs_registrations ?st)"
    using assms(4) find_index_Some [of ?st sel i] by (simp_all add: find_index_expire)
  obtain epoch where opened: "rg_admission_open (rs_registrations ?st ! i)"
    and continue: "drain_continue env mutate now (now + timeout) sel e
        (update_registration i (\<lambda>r. r\<lparr>rg_admission_epoch := epoch, rg_admission_open := False\<rparr>) ?st) m
      = (Inr (DrainWaiting d), m')"
    using assms(1,6) i
    by (auto simp: prepare_drain_begin_def Let_def fail_with_def bind_res_Inr split: sum.splits if_splits)
  let ?f = "\<lambda>r. r\<lparr>rg_admission_epoch := epoch, rg_admission_open := False\<rparr>"
  let ?closed = "update_registration i ?f ?st"
  let ?r = "?f (rs_registrations ?st ! i)"
  have m': "mgr_state m' = ManagerAvailable ?closed" by (rule drain_waiting_closed [OF continue])
  have "lease_ok (rs_registrations ?st ! i)"
    using leases_closed_expire [OF assms(3)] i(2) by (simp add: leases_closed_def list_all_length)
  then have "rg_maintenance ?r = None" using opened by (simp add: lease_ok_def)
  then have same: "expire_registration now' ?r = ?r" by (simp add: expire_registration_def)
  have "?r \<in> set (rs_registrations ?closed)" using i(2) by (simp add: update_registration_def set_update_memI)
  then have "?r \<in> set (rs_registrations (expire_maintenance now' ?closed))"
    using same by (auto simp: expire_maintenance_def intro: image_eqI [where x = ?r])
  moreover have "map rg_snapshot (rs_registrations (expire_maintenance now' ?closed)) = map rg_snapshot (rs_registrations st)"
    using i(2) by (simp add: snapshots_of_expire update_registration_def map_update_same)
  ultimately have "find_node (expire_maintenance now' ?closed) (nr_node_id (rg_snapshot ?r)) = Some ?r"
    using assms(2) by (intro find_node_unique) (simp_all add: table_ok_def)
  moreover have "rg_snapshot ?r = s" using assms(5) expire_nth [of i st now] i(2) by (simp add: expire_maintenance_def)
  ultimately show ?thesis using admit_closed [OF _ _ m'] by simp
qed

definition demo_retargeting :: registration_manager where
  "demo_retargeting = (demo_manager_of demo_table)\<lparr>mgr_state := ManagerAvailable (demo_table\<lparr>rs_registrations :=
     [demo_registration\<lparr>rg_admitted := 1, rg_admission_epoch := 1, rg_admission_open := False\<rparr>]\<rparr>)\<rparr>"

lemma demo_retarget:
  "prepare_drain_begin demo_reg_env (retarget_mutation ''host2'' ''n001'') 7 ''web'' 1 10 False demo_admitted
     = (Inr (DrainWaiting 17), demo_retargeting)"
  by (simp add: prepare_drain_begin_def reg_eval demo_reg_defs drain_continue_def drain_poll_def
      demo_retargeting_def demo_admitted_def Let_def)

theorem registration_drain_excludes_witness: "fst (reg_admit 9 demo_snapshot demo_retargeting) = Inr False"
proof (rule registration_drain_excludes [OF _ _ _ _ _ demo_retarget])
  let ?st = "demo_table\<lparr>rs_registrations := [demo_registration\<lparr>rg_admitted := 1\<rparr>]\<rparr>"
  show "mgr_state demo_admitted = ManagerAvailable ?st" by (simp add: demo_admitted_def)
  show "table_ok demo_reg_env (to_persisted ?st)"
    using demo_table_ok by (simp add: to_persisted_def demo_table_def)
  show "leases_closed ?st" by (simp add: leases_closed_def demo_reg_defs lease_ok_def)
  show "find_index ?st ''web'' = Inr 0" by (simp add: reg_eval demo_reg_defs)
  show "demo_snapshot = rg_snapshot (rs_registrations ?st ! 0)" by (simp add: demo_reg_defs)
qed

section \<open>Forgotten identities\<close>

lemma removed_node_absent:
  assumes "distinct (map (\<lambda>r. nr_node_id (rg_snapshot r)) rs)" and "i < length rs"
  shows "nr_node_id (rg_snapshot (rs ! i)) \<notin> (\<lambda>r. nr_node_id (rg_snapshot r)) ` set (remove_at i rs)"
proof -
  have "rs = take i rs @ rs ! i # drop (Suc i) rs" by (rule id_take_nth_drop [OF assms(2)])
  then have "distinct (map (\<lambda>r. nr_node_id (rg_snapshot r)) (take i rs @ rs ! i # drop (Suc i) rs))"
    using assms(1) by simp
  then show ?thesis by (auto simp: remove_at_def)
qed

lemma forget_commit_forgets:
  assumes "drain_continue env forget_mutation now deadline sel e st m = (Inr (DrainDone removed), m')"
    and ok: "table_ok env (to_persisted st)" and "epoch \<le> rs_tombstone_epoch st"
  shows "\<exists>p. manager_table m' = Some p \<and> forgotten (nr_node_id removed) epoch p"
proof -
  obtain i replacement where i: "find_index st sel = Inr i"
    and mut: "forget_mutation st i = Inr (removed, replacement)"
    and m': "mgr_state m' = ManagerAvailable (update_node (nr_node_id removed) reopen_unless_maintained replacement)"
    using drain_continue_done [OF assms(1)] by blast
  obtain epoch' where epoch': "u64_checked_add (rs_tombstone_epoch st) 1 = Some epoch'"
    and removed: "removed = (rg_snapshot (rs_registrations st ! i))\<lparr>nr_tombstone_epoch := epoch'\<rparr>"
    and rep: "replacement = st\<lparr>rs_tombstone_epoch := epoch', rs_registrations := remove_at i (rs_registrations st)\<rparr>"
    using mut by (auto simp: forget_mutation_def bind_res_Inr reg_next_Inr)
  have "distinct (map (\<lambda>r. nr_node_id (rg_snapshot r)) (rs_registrations st))"
    using ok by (simp add: table_ok_def comp_def)
  from removed_node_absent [OF this, of i]
  have "\<forall>r \<in> set (remove_at i (rs_registrations st)). nr_node_id (rg_snapshot r) \<noteq> nr_node_id removed"
    using find_index_Some [OF i] removed by (auto simp: image_iff)
  then have "forgotten (nr_node_id removed) epoch (to_persisted replacement)"
    using assms(3) checked_add_mono [OF epoch'] by (auto simp: forgotten_def rep)
  then show ?thesis by (simp add: manager_table_def m' persisted_update_node)
qed

lemma forgotten_fold:
  assumes "manager_table m = Some p" and "forgotten n e p"
  shows "\<exists>p'. manager_table (fold (\<lambda>c m. snd (reg_exec env c m)) cs m) = Some p' \<and> forgotten n e p'"
  using assms
proof (induction cs arbitrary: m p)
  case (Cons c cs)
  obtain x m' where step: "reg_exec env c m = (x, m')" by fastforce
  obtain p' where "manager_table m' = Some p'" "table_step env p p'"
    using reg_exec_refines [OF step Cons.prems(1)] by blast
  then show ?case using Cons.IH [of m' p'] forgotten_step Cons.prems(2) step by simp
qed simp

lemma forgotten_refused:
  assumes "manager_table m = Some p" and "forgotten (nr_node_id s) (nr_tombstone_epoch s) p"
  shows "fst (reg_admit now s m) = Inr False"
proof -
  obtain st where st: "mgr_state m = ManagerAvailable st" "p = to_persisted st"
    using assms(1) by (auto simp: manager_table_def split: manager_state.splits)
  have "nr_tombstone_epoch (rg_snapshot r) \<noteq> nr_tombstone_epoch s"
    if "find_node (expire_maintenance now st) (nr_node_id s) = Some r" for r
  proof -
    have r: "r \<in> set (rs_registrations (expire_maintenance now st))" "nr_node_id (rg_snapshot r) = nr_node_id s"
      using that unfolding find_node_def by (auto dest: find_Some_mem)
    then have "rg_snapshot r \<in> set (map rg_snapshot (rs_registrations st))"
      using snapshots_of_expire [of now st] by (metis image_eqI list.set_map)
    then show ?thesis using assms(2) r(2) by (auto simp: forgotten_def st(2))
  qed
  then show ?thesis using st(1)
    by (auto simp: reg_admit_def in_memory_def available_def Let_def split: option.split)
qed

text \<open>C21: Once a registration is forgotten, no snapshot of its Node that was current before is
  admitted again, whatever methods follow: not even when the same Node is registered anew.\<close>

theorem registration_forget_is_final:
  assumes "mgr_state m = ManagerAvailable st" and "table_ok env (to_persisted st)"
    and "prepare_drain_begin env forget_mutation now sel e timeout True m = (Inr (DrainDone removed), m1)
      \<or> prepare_drain_resume env forget_mutation now False deadline sel e m = (Inr (DrainDone removed), m1)"
    and "nr_node_id s = nr_node_id removed" and "nr_tombstone_epoch s \<le> rs_tombstone_epoch st"
    and "m2 = fold (\<lambda>c m. snd (reg_exec env c m)) cs m1"
  shows "fst (reg_admit now' s m2) = Inr False"
proof -
  have "\<exists>st0 d. to_persisted st0 = to_persisted st
      \<and> drain_continue env forget_mutation now d sel e st0 m = (Inr (DrainDone removed), m1)"
    using assms(3)
  proof
    assume "prepare_drain_resume env forget_mutation now False deadline sel e m = (Inr (DrainDone removed), m1)"
    then show ?thesis using assms(1) by (auto simp: prepare_drain_resume_def available_def)
  next
    assume "prepare_drain_begin env forget_mutation now sel e timeout True m = (Inr (DrainDone removed), m1)"
    then obtain i epoch where "drain_continue env forget_mutation now (now + timeout) sel e
        (update_registration i (\<lambda>r. r\<lparr>rg_admission_epoch := epoch, rg_admission_open := False\<rparr>)
          (expire_maintenance now st)) m = (Inr (DrainDone removed), m1)"
      using assms(1) by (auto simp: prepare_drain_begin_def available_def Let_def fail_with_def split: sum.splits)
    then show ?thesis by (intro exI conjI) (simp_all add: persisted_update_registration)
  qed
  then obtain st0 d where st0: "to_persisted st0 = to_persisted st"
    and run: "drain_continue env forget_mutation now d sel e st0 m = (Inr (DrainDone removed), m1)" by blast
  have "nr_tombstone_epoch s \<le> rs_tombstone_epoch st0"
    using assms(5) arg_cong [OF st0, of per_tombstone_epoch] by simp
  from forget_commit_forgets [OF run _ this] obtain p
    where "manager_table m1 = Some p" "forgotten (nr_node_id s) (nr_tombstone_epoch s) p"
    using st0 assms(2,4) by auto
  from forgotten_fold [OF this] show ?thesis using forgotten_refused assms(6) by blast
qed

theorem registration_forget_is_final_witness:
  "fst (reg_admit 9 demo_snapshot
     (fold (\<lambda>c m. snd (reg_exec demo_reg_env c m)) [RegAdd ''web'' ''host'' ''n001'' ''n000''] demo_forgotten)) = Inr False"
  by (rule registration_forget_is_final [OF _ demo_table_ok disjI1 [OF demo_forget] _ _ refl])
    (simp_all add: demo_reg_defs)

section \<open>Leases\<close>

lemma closed_fold: "manager_closed m \<Longrightarrow> manager_closed (fold (\<lambda>c m. snd (reg_exec env c m)) cs m)"
  by (induction cs arbitrary: m) (auto intro: reg_exec_closed [OF prod.collapse [symmetric]])

lemma loaded_table_ok: "opt_table_ok env (manager_table (load_manager (validate_persisted env p0) disk))"
proof (cases "validate_persisted env p0")
  case (Inl e)
  then show ?thesis
    by (simp add: load_manager_def opt_table_ok_def manager_table_def table_ok_def to_persisted_def)
next
  case (Inr st)
  then have p0: "table_ok env p0" and st: "st = \<lparr>rs_revision = per_revision p0,
      rs_tombstone_epoch = per_tombstone_epoch p0,
      rs_registrations = map fresh_registration (per_registrations p0)\<rparr>"
    by (simp_all add: validate_persisted_iff)
  have "map rg_snapshot (rs_registrations st) = per_registrations p0"
    by (simp add: st fresh_registration_def comp_def)
  then have "table_ok env (to_persisted st) = table_ok env p0"
    by (simp add: table_ok_def to_persisted_def st)
  then show ?thesis using Inr p0 by (simp add: load_manager_def opt_table_ok_def manager_table_def)
qed

text \<open>C22: From a manager as it is loaded, whatever methods have run: while a registration holds a
  maintenance lease that has not expired, no operation is admitted to it.\<close>

theorem registration_lease_excludes:
  assumes "m = fold (\<lambda>c m. snd (reg_exec env c m)) cs (load_manager (validate_persisted env p0) disk)"
    and "mgr_state m = ManagerAvailable st" and "r \<in> set (rs_registrations st)"
    and "rg_maintenance r = Some lease" and "now < ml_deadline lease"
  shows "fst (reg_admit now (rg_snapshot r) m) = Inr False"
proof -
  have "manager_closed (load_manager (validate_persisted env p0) disk)"
    by (auto simp: load_manager_def manager_closed_def leases_closed_def list_all_iff validate_persisted_iff
        split: sum.split)
  then have "manager_closed m" using closed_fold assms(1) by simp
  then have "lease_ok r" using assms(2,3) by (simp add: manager_closed_def leases_closed_def list_all_iff)
  then have closed: "\<not> rg_admission_open r" using assms(4) by (simp add: lease_ok_def)
  have "opt_table_ok env (manager_table (load_manager (validate_persisted env p0) disk))"
    by (rule loaded_table_ok)
  then have "opt_table_ok env (manager_table m)"
    unfolding assms(1) by (intro reg_durable.fold_valid) simp_all
  then have table: "table_ok env (to_persisted st)" using assms(2) by (simp add: opt_table_ok_def manager_table_def)
  have "expire_registration now r = r" using assms(4,5) by (simp add: expire_registration_def)
  then have "r \<in> set (rs_registrations (expire_maintenance now st))"
    using assms(3) by (auto simp: expire_maintenance_def intro: image_eqI [where x = r])
  moreover have "distinct (map nr_node_id (map rg_snapshot (rs_registrations (expire_maintenance now st))))"
    using table unfolding snapshots_of_expire by (simp add: table_ok_def)
  ultimately have "find_node (expire_maintenance now st) (nr_node_id (rg_snapshot r)) = Some r"
    by (intro find_node_unique)
  then show ?thesis by (rule admit_closed [OF _ closed assms(2)])
qed

definition demo_leased :: registration_manager where
  "demo_leased = (demo_manager_of demo_table)\<lparr>mgr_state := ManagerAvailable (demo_table\<lparr>rs_registrations :=
     [demo_registration\<lparr>rg_admission_epoch := 1, rg_admission_open := False,
        rg_maintenance := Some \<lparr>ml_token = ''t1'', ml_deadline = 600\<rparr>\<rparr>]\<rparr>)\<rparr>"

lemma demo_begin_upgrade:
  "begin_upgrade_maintenance_if 0 ''t1'' ''web'' 1 10 600 True (demo_manager_of demo_table)
     = (Inr (DrainDone (demo_snapshot, ''t1'')), demo_leased)"
  by (simp add: begin_upgrade_maintenance_if_def upgrade_continue_def drain_poll_def reg_eval demo_reg_defs
      demo_leased_def Let_def)

lemma demo_valid: "validate_persisted demo_reg_env (to_persisted demo_table) = Inr demo_table"
  using demo_table_ok by (simp add: validate_persisted_iff) (simp add: demo_reg_defs)

theorem registration_lease_excludes_witness: "fst (reg_admit 599 demo_snapshot demo_leased) = Inr False"
proof -
  let ?r = "demo_registration\<lparr>rg_admission_epoch := 1, rg_admission_open := False,
        rg_maintenance := Some \<lparr>ml_token = ''t1'', ml_deadline = 600\<rparr>\<rparr>"
  have "fst (reg_admit 599 (rg_snapshot ?r) demo_leased) = Inr False"
  proof (rule registration_lease_excludes [where r = ?r and lease = "\<lparr>ml_token = ''t1'', ml_deadline = 600\<rparr>"])
    show "demo_leased = fold (\<lambda>c m. snd (reg_exec demo_reg_env c m))
        [RegBeginUpgrade 0 ''t1'' ''web'' 1 10 600 True]
        (load_manager (validate_persisted demo_reg_env (to_persisted demo_table)) (Some (to_persisted demo_table)))"
      using demo_begin_upgrade by (simp add: demo_valid load_manager_def reg_outcome_def demo_manager_of_def)
    show "mgr_state demo_leased = ManagerAvailable (demo_table\<lparr>rs_registrations := [?r]\<rparr>)"
      by (simp add: demo_leased_def)
  qed simp_all
  then show ?thesis by (simp add: demo_registration_def fresh_registration_def)
qed

text \<open>C23: An uninstall can be finished only by the holder of the lease: the call succeeds only if
  the Node's registration carries that token, unexpired, and has no admitted operation; it then
  removes the registration under a greater tombstone epoch.\<close>

theorem registration_uninstall_needs_lease:
  assumes "mgr_state m = ManagerAvailable st" and "table_ok env (to_persisted st)"
    and "finish_uninstall_maintenance env now n token m = (Inr s, m')"
  shows "(\<exists>r \<in> set (rs_registrations st). nr_node_id (rg_snapshot r) = n \<and> rg_admitted r = 0
        \<and> (\<exists>lease. rg_maintenance r = Some lease \<and> ml_token lease = token \<and> now < ml_deadline lease))
    \<and> nr_node_id s = n \<and> rs_tombstone_epoch st < nr_tombstone_epoch s
    \<and> (\<exists>p. manager_table m' = Some p \<and> mgr_disk m' = Some p \<and> forgotten n (rs_tombstone_epoch st) p)"
proof -
  let ?st = "expire_maintenance now st"
  obtain i epoch where i: "position (\<lambda>r. nr_node_id (rg_snapshot r) = n) (rs_registrations ?st) = Some i"
    and lease: "holds_lease token (rs_registrations ?st ! i)" and idle: "rg_admitted (rs_registrations ?st ! i) = 0"
    and epoch: "u64_checked_add (rs_tombstone_epoch st) 1 = Some epoch"
    and s: "s = (rg_snapshot (rs_registrations ?st ! i))\<lparr>nr_tombstone_epoch := epoch\<rparr>"
    and m': "m' = m\<lparr>mgr_state := ManagerAvailable (?st\<lparr>rs_tombstone_epoch := epoch,
               rs_registrations := remove_at i (rs_registrations ?st)\<rparr>),
             mgr_disk := Some (to_persisted (?st\<lparr>rs_tombstone_epoch := epoch,
               rs_registrations := remove_at i (rs_registrations ?st)\<rparr>))\<rparr>"
    using assms(1,3)
    by (auto simp: finish_uninstall_maintenance_def available_def Let_def fail_with_def forget_mutation_def
        bind_res_Inr ok_or_Inr reg_next_Inr replace_saved_def expire_maintenance_def split: sum.splits if_splits)
  from position_SomeD [OF i] have i_less: "i < length (rs_registrations ?st)"
    and node: "nr_node_id (rg_snapshot (rs_registrations ?st ! i)) = n" by simp_all
  let ?r = "rs_registrations st ! i"
  have r: "?r \<in> set (rs_registrations st)" "rs_registrations ?st ! i = expire_registration now ?r"
    using i_less by (simp_all add: expire_maintenance_def)
  have held: "\<exists>lease. rg_maintenance ?r = Some lease \<and> ml_token lease = token \<and> now < ml_deadline lease"
    using lease unfolding r(2) by (auto simp: holds_lease_def expire_registration_def split: option.splits if_splits)
  have "distinct (map (\<lambda>r. nr_node_id (rg_snapshot r)) (rs_registrations ?st))"
    using assms(2) arg_cong [OF snapshots_of_expire [of now st], of "map nr_node_id"]
    by (simp add: table_ok_def comp_def)
  from removed_node_absent [OF this i_less]
  have "\<forall>r \<in> set (remove_at i (rs_registrations ?st)). nr_node_id (rg_snapshot r) \<noteq> n"
    using node by (auto simp: image_iff)
  then have "forgotten n (rs_tombstone_epoch st) (to_persisted (?st\<lparr>rs_tombstone_epoch := epoch,
               rs_registrations := remove_at i (rs_registrations ?st)\<rparr>))"
    using checked_add_mono [OF epoch] by (auto simp: forgotten_def)
  then show ?thesis
    using r held idle node s checked_add_mono [OF epoch]
    by (auto simp: m' manager_table_def expire_registration_def split: option.splits if_splits intro!: bexI [of _ ?r])
qed

lemma demo_uninstall:
  "finish_uninstall_maintenance demo_reg_env 300 ''n001'' ''t1'' demo_leased
     = (Inr (demo_snapshot\<lparr>nr_tombstone_epoch := 1\<rparr>), demo_forgotten)"
  by (simp add: finish_uninstall_maintenance_def demo_leased_def reg_eval demo_reg_defs holds_lease_def
      forget_mutation_def remove_at_def demo_forgotten_def Let_def)

theorem registration_uninstall_needs_lease_witness:
  "\<exists>p. manager_table demo_forgotten = Some p \<and> mgr_disk demo_forgotten = Some p \<and> forgotten ''n001'' 0 p"
proof -
  let ?st = "demo_table\<lparr>rs_registrations := [demo_registration\<lparr>rg_admission_epoch := 1, rg_admission_open := False,
        rg_maintenance := Some \<lparr>ml_token = ''t1'', ml_deadline = 600\<rparr>\<rparr>]\<rparr>"
  have st: "mgr_state demo_leased = ManagerAvailable ?st" by (simp add: demo_leased_def)
  have ok: "table_ok demo_reg_env (to_persisted ?st)"
    using demo_table_ok by (simp add: to_persisted_def demo_table_def)
  show ?thesis
    using registration_uninstall_needs_lease [OF st ok demo_uninstall] by (simp add: demo_table_def)
qed

section \<open>Renaming while operations are admitted\<close>

definition node_ids :: "registration_state \<Rightarrow> string list" where
  "node_ids st = map (\<lambda>r. nr_node_id (rg_snapshot r)) (rs_registrations st)"

lemma node_ids_expire [simp]: "node_ids (expire_maintenance now st) = node_ids st"
  by (simp add: node_ids_def expire_maintenance_def)

lemma find_node_at:
  assumes "distinct (node_ids st)" and "i < length (rs_registrations st)"
  shows "find_node st (nr_node_id (rg_snapshot (rs_registrations st ! i))) = Some (rs_registrations st ! i)"
  using assms by (intro find_node_unique) (simp_all add: node_ids_def comp_def)

lemma admit_result:
  assumes "reg_admit now s m = (Inr True, m')" and "mgr_state m = ManagerAvailable st"
  shows "\<exists>st' r. mgr_state m' = ManagerAvailable st' \<and> node_ids st' = node_ids st
    \<and> find_node st' (nr_node_id s) = Some r \<and> 0 < rg_admitted r"
proof -
  let ?st = "expire_maintenance now st"
  obtain r k where r: "find_node ?st (nr_node_id s) = Some r" and k: "usize_checked_add (rg_admitted r) 1 = Some k"
    and m': "m' = m\<lparr>mgr_state := ManagerAvailable (update_node (nr_node_id s) (\<lambda>r. r\<lparr>rg_admitted := k\<rparr>) ?st)\<rparr>"
    using assms by (auto simp: reg_admit_def in_memory_def available_def Let_def split: option.splits if_splits)
  let ?st' = "update_node (nr_node_id s) (\<lambda>r. r\<lparr>rg_admitted := k\<rparr>) ?st"
  have "nr_node_id (rg_snapshot r) = nr_node_id s" using r unfolding find_node_def by (auto dest: find_Some_mem)
  then have "find_node ?st' (nr_node_id s) = Some (r\<lparr>rg_admitted := k\<rparr>)"
    using find_update_first_same [of "\<lambda>r. nr_node_id (rg_snapshot r) = nr_node_id s" "rs_registrations ?st" r] r
    by (simp add: find_node_def update_node_def)
  moreover have "node_ids ?st' = node_ids st"
    using node_ids_expire [of now st] by (simp add: node_ids_def update_node_def map_update_first_id)
  moreover have "0 < k" using k by (auto simp: usize_checked_add_def split: if_splits)
  ultimately show ?thesis by (auto simp: m')
qed

lemma rename_result:
  assumes "reg_rename env now sel a e m = (Inr s, m')" and "mgr_state m = ManagerAvailable st"
  shows "\<exists>i st'. i < length (rs_registrations st) \<and> mgr_state m' = ManagerAvailable st'
    \<and> node_ids st' = node_ids st \<and> rg_snapshot (rs_registrations st' ! i) = s
    \<and> rg_admitted (rs_registrations st' ! i) = rg_admitted (rs_registrations st ! i)"
proof -
  let ?st = "expire_maintenance now st"
  obtain i where i: "find_index ?st sel = Inr i"
    using assms by (auto simp: reg_rename_def bind_res_Inr Let_def fail_with_def split: sum.splits)
  then have i_less: "i < length (rs_registrations st)"
    using find_index_Some [OF i] by (simp add: expire_maintenance_def)
  have "\<exists>st'. mgr_state m' = ManagerAvailable st'
      \<and> (st' = ?st \<and> s = rg_snapshot (rs_registrations ?st ! i)
         \<or> (\<exists>v. s = (rg_snapshot (rs_registrations ?st ! i))\<lparr>nr_alias := a, nr_revision := v\<rparr>
              \<and> st' = update_registration i (\<lambda>r. r\<lparr>rg_snapshot := s\<rparr>) (?st\<lparr>rs_revision := v\<rparr>)))"
    using assms i
    by (auto simp: reg_rename_def bind_res_Inr Let_def fail_with_def replace_saved_def split: sum.splits if_splits)
  then obtain st' where st': "mgr_state m' = ManagerAvailable st'"
    and cases: "st' = ?st \<and> s = rg_snapshot (rs_registrations ?st ! i)
         \<or> (\<exists>v. s = (rg_snapshot (rs_registrations ?st ! i))\<lparr>nr_alias := a, nr_revision := v\<rparr>
              \<and> st' = update_registration i (\<lambda>r. r\<lparr>rg_snapshot := s\<rparr>) (?st\<lparr>rs_revision := v\<rparr>))"
    by blast
  have "node_ids st' = node_ids ?st"
    using cases i_less by (auto simp: node_ids_def update_registration_def map_update_same)
  moreover have "rg_snapshot (rs_registrations st' ! i) = s
      \<and> rg_admitted (rs_registrations st' ! i) = rg_admitted (rs_registrations ?st ! i)"
    using cases i_less by (auto simp: update_registration_def expire_maintenance_def)
  ultimately show ?thesis using st' i_less expire_nth [OF i_less] by auto
qed

text \<open>C24: Renaming a registration while an operation is admitted loses the permit: the release of
  that operation then changes nothing, and the count of admitted operations that a later retarget
  or forget of this registration waits for stays positive.\<close>

theorem registration_rename_leaks_permit:
  assumes "mgr_state m = ManagerAvailable st" and "table_ok env (to_persisted st)"
    and "reg_admit now s m = (Inr True, m1)" and "reg_rename env now' sel a e m1 = (Inr s', m2)"
    and "nr_node_id s' = nr_node_id s" and "nr_revision s' \<noteq> nr_revision s"
  shows "reg_release s m2 = m2
    \<and> (\<exists>st2 r. mgr_state m2 = ManagerAvailable st2 \<and> find_node st2 (nr_node_id s) = Some r \<and> 0 < rg_admitted r)"
proof -
  obtain st1 r where st1: "mgr_state m1 = ManagerAvailable st1" "node_ids st1 = node_ids st"
    and r: "find_node st1 (nr_node_id s) = Some r" "0 < rg_admitted r"
    using admit_result [OF assms(3,1)] by blast
  obtain i st2 where i: "i < length (rs_registrations st1)" and st2: "mgr_state m2 = ManagerAvailable st2"
      "node_ids st2 = node_ids st1" "rg_snapshot (rs_registrations st2 ! i) = s'"
      "rg_admitted (rs_registrations st2 ! i) = rg_admitted (rs_registrations st1 ! i)"
    using rename_result [OF assms(4) st1(1)] by blast
  have dist: "distinct (node_ids st)" using assms(2) by (simp add: table_ok_def node_ids_def comp_def)
  have i2: "i < length (rs_registrations st2)" using i st2(2) by (metis length_map node_ids_def)
  have "nr_node_id (rg_snapshot (rs_registrations st1 ! i)) = nr_node_id s"
    using st2(2,3) assms(5) i i2 by (metis node_ids_def nth_map)
  then have "rs_registrations st1 ! i = r"
    using find_node_at [of st1 i] dist st1(2) i r(1) by simp
  moreover have found: "find_node st2 (nr_node_id s) = Some (rs_registrations st2 ! i)"
    using find_node_at [of st2 i] dist st1(2) st2(2,3) i2 assms(5) by simp
  moreover have "reg_release s m2 = m2"
    using found st2(1,3) assms(6) by (simp add: reg_release_def in_memory_def available_def)
  ultimately show ?thesis using st2(1,4) r(2) by auto
qed

definition demo_leaked :: registration_manager where
  "demo_leaked = demo_manager_of \<lparr>rs_revision = 2, rs_tombstone_epoch = 0, rs_registrations =
     [demo_registration\<lparr>rg_admitted := 1, rg_snapshot := demo_snapshot\<lparr>nr_alias := ''api'', nr_revision := 2\<rparr>\<rparr>]\<rparr>"

lemma demo_rename_admitted:
  "reg_rename demo_reg_env 6 ''web'' ''api'' 1 demo_admitted
     = (Inr (demo_snapshot\<lparr>nr_alias := ''api'', nr_revision := 2\<rparr>), demo_leaked)"
  by (simp add: reg_rename_def reg_eval demo_reg_defs demo_admitted_def demo_leaked_def validate_alias_def
      demo_syntax max_alias_bytes_def whitespace3_def Let_def)

theorem registration_rename_leaks_permit_witness:
  "reg_release demo_snapshot demo_leaked = demo_leaked
   \<and> (case reg_forget_begin demo_reg_env 9 ''api'' 10 (reg_release demo_snapshot demo_leaked) of
        (Inr (DrainWaiting deadline), m) \<Rightarrow>
          fst (prepare_drain_resume demo_reg_env forget_mutation 19 True deadline ''api'' 2 m)
            = Inl drain_timeout_error
      | _ \<Rightarrow> False)"
proof -
  have st: "mgr_state (demo_manager_of demo_table) = ManagerAvailable demo_table" by (simp add: demo_manager_of_def)
  have release: "reg_release demo_snapshot demo_leaked = demo_leaked"
    using registration_rename_leaks_permit [OF st demo_table_ok demo_admit demo_rename_admitted]
    by (simp add: demo_snapshot_def)
  show ?thesis
    unfolding release
    by (simp add: reg_forget_begin_def reg_inspect_def find_registration_def prepare_drain_begin_def
        prepare_drain_resume_def drain_expired_def drain_continue_def drain_poll_def reg_eval demo_reg_defs
        demo_leaked_def fail_with_def Let_def)
qed

end
