(* ===== verification/Node_Projection.thy ===== *)
theory Node_Projection
  imports Wire_Types
begin

text \<open>
  The cache of remote Nodes' projections of \<open>src/src/node_projection.rs\<close>: for every registered
  Node the last snapshot its owner reported, the health of the connection, the notifications and
  digests that were already shown, and the Shells the user dismissed. The cache is disposable: a
  file that cannot be used is set aside and the cache starts empty.

  Each method is a function of the cache, its state in memory and the state in its file. UUID
  syntax, the encoded size and the outcome of writing are the parameters of \<open>cache_env\<close>.
\<close>

section \<open>Data\<close>

definition node_cache_version :: u32 where "node_cache_version = 5"
definition max_cache_bytes :: nat where "max_cache_bytes = 4 * 1024 * 1024"
definition max_nodes :: nat where "max_nodes = 128"
definition max_workspaces_per_node :: nat where "max_workspaces_per_node = 1024"
definition max_shells_per_node :: nat where "max_shells_per_node = 4096"
definition max_launchers_per_node :: nat where "max_launchers_per_node = 4096"
definition max_agents_per_node :: nat where "max_agents_per_node = 4096"
definition max_capabilities :: nat where "max_capabilities = 128"
definition max_capability_bytes :: nat where "max_capability_bytes = 128"
definition max_helper_version_bytes :: nat where "max_helper_version_bytes = 128"
definition max_name_bytes :: nat where "max_name_bytes = 256"
definition max_notification_claims_per_node :: nat where "max_notification_claims_per_node = 512"
definition max_digest_claims_per_node :: nat where "max_digest_claims_per_node = 128"
definition max_notification_reason_bytes :: nat where "max_notification_reason_bytes = 64"
definition max_dismissed_shells_per_node :: nat where "max_dismissed_shells_per_node = 4096"

record node_projection_view =
  pv_health :: node_projection_health
  pv_projection :: "node_projection_snapshot option"

record projection_commit =
  pc_generation :: u64
  pc_previous_health :: "node_projection_health_code option"
  pc_previous_cursor :: "event_cursor option"

record projection_observation =
  po_cursor :: event_cursor
  po_projection :: node_projection_snapshot
  po_capabilities :: "string list"
  po_helper_version :: string
  po_observed_at_ms :: u64

datatype remote_notification_category = CatAgentBlocked | CatAgentCompleted

text \<open>\<open>derive(PartialOrd, Ord)\<close>: the order of the variants.\<close>

fun category_rank :: "remote_notification_category \<Rightarrow> nat" where
  "category_rank CatAgentBlocked = 0"
| "category_rank CatAgentCompleted = 1"

lemma category_rank_eq [simp]: "category_rank a = category_rank b \<longleftrightarrow> a = b"
  by (cases a; cases b) simp_all

instantiation remote_notification_category :: linorder
begin

definition less_eq_remote_notification_category ::
    "remote_notification_category \<Rightarrow> remote_notification_category \<Rightarrow> bool" where
  "less_eq_remote_notification_category a b \<longleftrightarrow> category_rank a \<le> category_rank b"

definition less_remote_notification_category ::
    "remote_notification_category \<Rightarrow> remote_notification_category \<Rightarrow> bool" where
  "less_remote_notification_category a b \<longleftrightarrow> category_rank a < category_rank b"

instance
proof
  fix a b :: remote_notification_category
  assume "a \<le> b" and "b \<le> a"
  then have "category_rank a = category_rank b" by (simp add: less_eq_remote_notification_category_def)
  then show "a = b" by simp
qed (auto simp: less_eq_remote_notification_category_def less_remote_notification_category_def)

end

record remote_notification_claim =
  nc_stream_id :: string
  nc_entity_id :: string
  nc_revision :: u64
  nc_category :: remote_notification_category
  nc_reason :: string

record remote_digest_claim =
  dc_stream_id :: string
  dc_prior_cursor :: u64
  dc_through_cursor :: u64
  dc_enabled_categories :: "remote_notification_category list"

record cached_node =
  cn_node_id :: string
  cn_registration_revision :: u64
  cn_tombstone_epoch :: u64
  cn_generation :: u64
  cn_health :: node_projection_health_code
  cn_last_attempt_at_ms :: "u64 option"
  cn_last_success_at_ms :: "u64 option"
  cn_retry_at_ms :: "u64 option"
  cn_capabilities :: "string list"
  cn_observed_helper_version :: "string option"
  cn_cursor :: "event_cursor option"
  cn_projection :: "node_projection_snapshot option"
  cn_notification_claims :: "remote_notification_claim list"
  cn_digest_claims :: "remote_digest_claim list"
  cn_dismissed_shell_ids :: "string list"

record cache_state =
  cs_version :: u32
  cs_nodes :: "cached_node list"

record version_one_cached_node =
  v1_node_id :: string
  v1_registration_revision :: u64
  v1_tombstone_epoch :: u64
  v1_generation :: u64
  v1_health :: node_projection_health_code
  v1_last_attempt_at_ms :: "u64 option"
  v1_last_success_at_ms :: "u64 option"
  v1_retry_at_ms :: "u64 option"
  v1_capabilities :: "string list"
  v1_cursor :: "event_cursor option"
  v1_projection :: "node_projection_snapshot option"

record version_two_cached_node = version_one_cached_node +
  v2_notification_claims :: "remote_notification_claim list"
  v2_digest_claims :: "remote_digest_claim list"

record version_one_cache_state =
  v1_version :: u32
  v1_nodes :: "version_one_cached_node list"

record version_two_cache_state =
  v2_version :: u32
  v2_nodes :: "version_two_cached_node list"

record projection_cache =
  cache_mem :: cache_state
  cache_disk :: "cache_state option"

record cache_env =
  env_cache_uuid_ok :: "string \<Rightarrow> bool"
  env_cache_len :: "cache_state \<Rightarrow> nat res"
  env_cache_write :: "cache_state \<Rightarrow> io_error option"

section \<open>Validation\<close>

definition projection_validate_name :: "string \<Rightarrow> unit res" where
  "projection_validate_name v =
     (if v = [] \<or> length v > max_name_bytes \<or> has_control v
      then Inl (invalid ''Node projection contains an invalid bounded string'') else Inr ())"

fun validate_projection_workspaces ::
    "node_projection_workspace list \<Rightarrow> string set \<Rightarrow> unit res" where
  "validate_projection_workspaces [] ids = Inr ()"
| "validate_projection_workspaces (w # ws) ids =
     bind_res (projection_validate_name (pw_id w)) (\<lambda>_.
     bind_res (projection_validate_name (pw_name w)) (\<lambda>_.
       if pw_id w \<in> ids then Inl (invalid ''Node projection contains duplicate workspace IDs'')
       else validate_projection_workspaces ws (insert (pw_id w) ids)))"

definition validate_projection :: "cache_env \<Rightarrow> node_projection_snapshot \<Rightarrow> unit res" where
  "validate_projection env p =
     (if \<not> env_cache_uuid_ok env (np_node_id p)
         \<or> length (np_workspaces p) > max_workspaces_per_node
         \<or> length (np_shells p) > max_shells_per_node
         \<or> length (np_launchers p) > max_launchers_per_node
         \<or> length (np_agents p) > max_agents_per_node
      then Inl (invalid ''Node projection exceeds its structural bounds'')
      else bind_res (validate_projection_workspaces (np_workspaces p) {}) (\<lambda>_.
             for_each projection_validate_name
               (map ps_name (np_shells p) @ map pla_name (np_launchers p) @ map pa_name (np_agents p))))"

definition capability_ok :: "string \<Rightarrow> bool" where
  "capability_ok c \<longleftrightarrow>
     c \<noteq> [] \<and> length c \<le> max_capability_bytes
     \<and> list_all (\<lambda>b. is_ascii_lowercase b \<or> is_ascii_digit b \<or> b = CHR ''_'') c"

definition validate_capabilities :: "string list \<Rightarrow> unit res" where
  "validate_capabilities cs =
     (if length cs > max_capabilities \<or> list_ex (\<lambda>c. \<not> capability_ok c) cs
      then Inl (invalid ''Node projection capabilities exceed their bounds'') else Inr ())"

definition validate_helper_version :: "string \<Rightarrow> unit res" where
  "validate_helper_version v =
     (if v = [] \<or> length v > max_helper_version_bytes \<or> \<not> list_all is_ascii_graphic v
      then Inl (invalid ''Node helper version exceeds its bounds'') else Inr ())"

definition validate_notification_claim :: "cache_env \<Rightarrow> remote_notification_claim \<Rightarrow> unit res" where
  "validate_notification_claim env c =
     (if \<not> env_cache_uuid_ok env (nc_stream_id c) \<or> nc_entity_id c = []
         \<or> length (nc_entity_id c) > max_name_bytes \<or> nc_revision c = 0 \<or> nc_reason c = []
         \<or> length (nc_reason c) > max_notification_reason_bytes \<or> has_control (nc_reason c)
      then Inl (invalid ''Node notification claim is invalid'') else Inr ())"

text \<open>\<open>sort_unstable\<close> on a type without payload is \<open>sort\<close>, and \<open>dedup\<close> is \<open>remdups_adj\<close>.\<close>

definition validate_digest_claim :: "cache_env \<Rightarrow> remote_digest_claim \<Rightarrow> unit res" where
  "validate_digest_claim env c =
     (let categories = remdups_adj (sort (dc_enabled_categories c)) in
      if \<not> env_cache_uuid_ok env (dc_stream_id c) \<or> dc_prior_cursor c > dc_through_cursor c
         \<or> categories = [] \<or> categories \<noteq> dc_enabled_categories c
      then Inl (invalid ''Node notification digest claim is invalid'') else Inr ())"

fun validate_dismissed :: "string list \<Rightarrow> string set \<Rightarrow> unit res" where
  "validate_dismissed [] seen = Inr ()"
| "validate_dismissed (i # is) seen =
     bind_res (projection_validate_name i) (\<lambda>_.
       if i \<in> seen then Inl (invalid ''Node cache contains duplicate dismissed shells'')
       else validate_dismissed is (insert i seen))"

definition validate_cached_node :: "cache_env \<Rightarrow> cached_node \<Rightarrow> unit res" where
  "validate_cached_node env n =
     bind_res (validate_capabilities (cn_capabilities n)) (\<lambda>_.
     bind_res (case cn_observed_helper_version n of
                 Some v \<Rightarrow> validate_helper_version v | None \<Rightarrow> Inr ()) (\<lambda>_.
       if length (cn_notification_claims n) > max_notification_claims_per_node
          \<or> length (cn_digest_claims n) > max_digest_claims_per_node
          \<or> length (cn_dismissed_shell_ids n) > max_dismissed_shells_per_node
       then Inl (invalid ''Node cache metadata exceeds its bounds'')
       else
         bind_res (validate_dismissed (cn_dismissed_shell_ids n) {}) (\<lambda>_.
         bind_res (for_each (validate_notification_claim env) (cn_notification_claims n)) (\<lambda>_.
         bind_res (for_each (validate_digest_claim env) (cn_digest_claims n)) (\<lambda>_.
           case cn_projection n of
             None \<Rightarrow> Inr ()
           | Some p \<Rightarrow>
               (if np_node_id p \<noteq> cn_node_id n
                then Inl (invalid ''Node cache projection identity mismatch'')
                else validate_projection env p))))))"

fun validate_cached_nodes :: "cache_env \<Rightarrow> cached_node list \<Rightarrow> string set \<Rightarrow> unit res" where
  "validate_cached_nodes env [] ids = Inr ()"
| "validate_cached_nodes env (n # ns) ids =
     (if cn_node_id n \<in> ids \<or> cn_generation n = 0
      then Inl (invalid ''Node cache contains duplicate or invalid generations'')
      else bind_res (validate_cached_node env n) (\<lambda>_.
             validate_cached_nodes env ns (insert (cn_node_id n) ids)))"

definition check_cache :: "cache_env \<Rightarrow> cache_state \<Rightarrow> unit res" where
  "check_cache env st =
     (if cs_version st \<noteq> node_cache_version \<or> length (cs_nodes st) > max_nodes
      then Inl (invalid ''unsupported or oversized Node cache'')
      else validate_cached_nodes env (cs_nodes st) {})"

section \<open>Loading and saving\<close>

definition migrate_cached_node_v1 :: "version_one_cached_node \<Rightarrow> cached_node" where
  "migrate_cached_node_v1 n =
     \<lparr>cn_node_id = v1_node_id n, cn_registration_revision = v1_registration_revision n,
      cn_tombstone_epoch = v1_tombstone_epoch n, cn_generation = v1_generation n,
      cn_health = v1_health n, cn_last_attempt_at_ms = v1_last_attempt_at_ms n,
      cn_last_success_at_ms = v1_last_success_at_ms n, cn_retry_at_ms = v1_retry_at_ms n,
      cn_capabilities = v1_capabilities n, cn_observed_helper_version = None,
      cn_cursor = v1_cursor n, cn_projection = v1_projection n, cn_notification_claims = [],
      cn_digest_claims = [], cn_dismissed_shell_ids = []\<rparr>"

definition migrate_cached_node_v2 :: "version_two_cached_node \<Rightarrow> cached_node" where
  "migrate_cached_node_v2 n =
     \<lparr>cn_node_id = v1_node_id n, cn_registration_revision = v1_registration_revision n,
      cn_tombstone_epoch = v1_tombstone_epoch n, cn_generation = v1_generation n,
      cn_health = v1_health n, cn_last_attempt_at_ms = v1_last_attempt_at_ms n,
      cn_last_success_at_ms = v1_last_success_at_ms n, cn_retry_at_ms = v1_retry_at_ms n,
      cn_capabilities = v1_capabilities n, cn_observed_helper_version = None,
      cn_cursor = v1_cursor n, cn_projection = v1_projection n,
      cn_notification_claims = v2_notification_claims n, cn_digest_claims = v2_digest_claims n,
      cn_dismissed_shell_ids = []\<rparr>"

text \<open>The bytes of the file as \<open>serde_json\<close> reads them: as a value, whose \<open>version\<close> may be
  missing, and as the state of each supported version.\<close>

record cache_document =
  doc_len :: nat
  doc_version :: "u64 option res"
  doc_v1 :: "version_one_cache_state res"
  doc_v2 :: "version_two_cache_state res"
  doc_v5 :: "cache_state res"

definition invalid_document :: "'a res \<Rightarrow> 'a res" where
  "invalid_document r = (case r of Inl e \<Rightarrow> Inl (invalid (err_message e)) | Inr x \<Rightarrow> Inr x)"

definition read_cache_state :: "cache_document \<Rightarrow> u64 \<Rightarrow> (cache_state \<times> bool) res" where
  "read_cache_state doc version =
     (if version = 1 then
        bind_res (invalid_document (doc_v1 doc)) (\<lambda>old.
          if v1_version old \<noteq> 1 then Inl (invalid ''invalid Node cache version'')
          else Inr (\<lparr>cs_version = node_cache_version,
                     cs_nodes = map migrate_cached_node_v1 (v1_nodes old)\<rparr>, True))
      else if version = 2 then
        bind_res (invalid_document (doc_v2 doc)) (\<lambda>old.
          if v2_version old \<noteq> 2 then Inl (invalid ''invalid Node cache version'')
          else Inr (\<lparr>cs_version = node_cache_version,
                     cs_nodes = map migrate_cached_node_v2 (v2_nodes old)\<rparr>, True))
      else if version = 3 \<or> version = 4
      then Inl (invalid ''unsupported disposable Node cache version'')
      else if version = 5 then bind_res (invalid_document (doc_v5 doc)) (\<lambda>st. Inr (st, False))
      else Inl (invalid ''unsupported Node cache version''))"

unbundle bit_operations_syntax

definition load_cache ::
    "cache_env \<Rightarrow> u32 \<Rightarrow> owned_metadata res \<Rightarrow> cache_document res \<Rightarrow> (cache_state \<times> bool) res" where
  "load_cache env effective_uid opened contents =
     bind_res opened (\<lambda>m.
       if \<not> om_is_file m \<or> om_uid m \<noteq> effective_uid \<or> om_mode m AND 63 \<noteq> 0
       then Inl (IoError PermissionDenied ''Node cache is not an owner-only regular file'')
       else if om_len m > max_cache_bytes
       then Inl (invalid ''Node cache exceeds the file-size bound'')
       else bind_res contents (\<lambda>doc.
         if doc_len doc > max_cache_bytes
         then Inl (invalid ''Node cache exceeds the file-size bound'')
         else bind_res (invalid_document (doc_version doc)) (\<lambda>version.
              bind_res (ok_or version (invalid ''Node cache version is missing'')) (\<lambda>version.
              bind_res (read_cache_state doc version) (\<lambda>(st, migrated).
              bind_res (check_cache env st) (\<lambda>_. Inr (st, migrated)))))))"

definition save_cache :: "cache_env \<Rightarrow> cache_state \<Rightarrow> unit res" where
  "save_cache env st =
     bind_res (env_cache_len env st) (\<lambda>n.
       if n > max_cache_bytes then Inl (invalid ''Node cache exceeds the file-size bound'')
       else (case env_cache_write env st of Some e \<Rightarrow> Inl e | None \<Rightarrow> Inr ()))"

definition empty_cache_state :: cache_state where
  "empty_cache_state = \<lparr>cs_version = node_cache_version, cs_nodes = []\<rparr>"

definition mark_recovered :: "cached_node \<Rightarrow> cached_node" where
  "mark_recovered n = (if cn_health n = HcOnline then n\<lparr>cn_health := HcStale\<rparr> else n)"

text \<open>\<open>disk\<close> is what the file holds before, \<open>quarantined\<close> whether \<open>quarantine\<close> could move it.\<close>

definition load_cache_at ::
    "cache_env \<Rightarrow> (cache_state \<times> bool) res \<Rightarrow> cache_state option \<Rightarrow> bool \<Rightarrow> projection_cache" where
  "load_cache_at env loaded disk quarantined =
     (let ((st, migrated), disk) =
            (case loaded of
               Inr l \<Rightarrow> (l, disk)
             | Inl e \<Rightarrow> ((empty_cache_state, False),
                          if err_kind e \<noteq> NotFound \<and> quarantined then None else disk));
          changed = (migrated \<or> list_ex (\<lambda>n. cn_health n = HcOnline) (cs_nodes st));
          st = st\<lparr>cs_nodes := map mark_recovered (cs_nodes st)\<rparr>
      in \<lparr>cache_mem = st,
          cache_disk = (if changed \<and> save_cache env st = Inr () then Some st else disk)\<rparr>)"

section \<open>Reading\<close>

definition health_snapshot :: "cached_node \<Rightarrow> node_projection_health" where
  "health_snapshot n =
     \<lparr>ph_code = cn_health n, ph_stale = (cn_health n \<noteq> HcOnline),
      ph_cache_generation = cn_generation n, ph_stream_id = map_option cur_stream_id (cn_cursor n),
      ph_cursor = map_option cur_event_id (cn_cursor n),
      ph_last_attempt_at_ms = cn_last_attempt_at_ms n,
      ph_last_success_at_ms = cn_last_success_at_ms n, ph_retry_at_ms = cn_retry_at_ms n,
      ph_capabilities = cn_capabilities n,
      ph_observed_helper_version = cn_observed_helper_version n\<rparr>"

definition unobserved_health :: node_projection_health where
  "unobserved_health =
     \<lparr>ph_code = HcUnobserved, ph_stale = True, ph_cache_generation = 0, ph_stream_id = None,
      ph_cursor = None, ph_last_attempt_at_ms = None, ph_last_success_at_ms = None,
      ph_retry_at_ms = None, ph_capabilities = [], ph_observed_helper_version = None\<rparr>"

definition u32_saturating_of :: "nat \<Rightarrow> u32" where
  "u32_saturating_of n = (if n < 2 ^ 32 then of_nat n else - 1)"

definition recount :: "node_projection_snapshot \<Rightarrow> node_projection_workspace \<Rightarrow> node_projection_workspace" where
  "recount p w = w\<lparr>
     pw_item_count := u32_saturating_of
       (length (filter (\<lambda>s. ps_workspace_id s = pw_id w) (np_shells p))
        + length (filter (\<lambda>l. pla_workspace_id l = pw_id w) (np_launchers p))),
     pw_attention_count := u32_saturating_of
       (length (filter (\<lambda>a. pa_workspace_id a = pw_id w \<and> pa_attention a \<noteq> None) (np_agents p)))\<rparr>"

definition visible_projection :: "cached_node \<Rightarrow> node_projection_snapshot option" where
  "visible_projection n =
     (case cn_projection n of
        None \<Rightarrow> None
      | Some p \<Rightarrow>
          (if cn_dismissed_shell_ids n = [] then Some p
           else (let dismissed = set (cn_dismissed_shell_ids n);
                     p = p\<lparr>np_shells := filter (\<lambda>s. ps_id s \<notin> dismissed) (np_shells p),
                           np_agents := filter (\<lambda>a. pa_shell_id a \<notin> dismissed) (np_agents p)\<rparr>
                 in Some (p\<lparr>np_workspaces := map (recount p) (np_workspaces p)\<rparr>))))"

definition find_cached :: "cache_state \<Rightarrow> string \<Rightarrow> cached_node option" where
  "find_cached st node_id = List.find (\<lambda>n. cn_node_id n = node_id) (cs_nodes st)"

definition cache_health ::
    "projection_cache \<Rightarrow> node_registration_snapshot \<Rightarrow> node_projection_health" where
  "cache_health c r =
     (case opt_filter (\<lambda>n. cn_tombstone_epoch n = nr_tombstone_epoch r)
             (find_cached (cache_mem c) (nr_node_id r)) of
        Some n \<Rightarrow> health_snapshot n
      | None \<Rightarrow> unobserved_health)"

definition cache_view ::
    "projection_cache \<Rightarrow> node_registration_snapshot \<Rightarrow> node_projection_view" where
  "cache_view c r =
     (case opt_filter (\<lambda>n. cn_tombstone_epoch n = nr_tombstone_epoch r)
             (find_cached (cache_mem c) (nr_node_id r)) of
        Some n \<Rightarrow> \<lparr>pv_health = health_snapshot n, pv_projection = visible_projection n\<rparr>
      | None \<Rightarrow> \<lparr>pv_health = unobserved_health, pv_projection = None\<rparr>)"

definition same_registration :: "node_registration_snapshot \<Rightarrow> cached_node \<Rightarrow> bool" where
  "same_registration r n \<longleftrightarrow>
     cn_node_id n = nr_node_id r \<and> cn_tombstone_epoch n = nr_tombstone_epoch r"

definition cursor_and_generation ::
    "projection_cache \<Rightarrow> node_registration_snapshot \<Rightarrow> event_cursor option \<times> u64" where
  "cursor_and_generation c r =
     (case List.find (same_registration r) (cs_nodes (cache_mem c)) of
        Some n \<Rightarrow> (cn_cursor n, cn_generation n)
      | None \<Rightarrow> (None, 0))"

section \<open>Changing\<close>

definition sort_nodes :: "cache_state \<Rightarrow> cache_state" where
  "sort_nodes st = st\<lparr>cs_nodes := sort_key cn_node_id (cs_nodes st)\<rparr>"

text \<open>\<open>save(&self.path, &next)?; *state = next; Ok(result)\<close>.\<close>

definition replace_cache ::
    "cache_env \<Rightarrow> cache_state \<Rightarrow> 'r \<Rightarrow> projection_cache \<Rightarrow> 'r res \<times> projection_cache" where
  "replace_cache env replacement result c =
     (case save_cache env replacement of
        Inl e \<Rightarrow> (Inl e, c)
      | Inr _ \<Rightarrow> (Inr result, c\<lparr>cache_mem := replacement, cache_disk := Some replacement\<rparr>))"

definition place_node ::
    "string \<Rightarrow> nat option \<Rightarrow> cached_node \<Rightarrow> cache_state \<Rightarrow> cache_state res" where
  "place_node limit_message current replacement st =
     (case current of
        Some i \<Rightarrow> Inr (st\<lparr>cs_nodes := (cs_nodes st)[i := replacement]\<rparr>)
      | None \<Rightarrow>
          (if length (cs_nodes st) < max_nodes
           then Inr (st\<lparr>cs_nodes := cs_nodes st @ [replacement]\<rparr>)
           else Inl (invalid limit_message)))"

text \<open>The generation the caller must have seen: that of the entry of this registration, else 0.\<close>

definition current_of :: "node_registration_snapshot \<Rightarrow> cache_state \<Rightarrow> nat option" where
  "current_of r st = position (\<lambda>n. cn_node_id n = nr_node_id r) (cs_nodes st)"

definition same_epoch :: "node_registration_snapshot \<Rightarrow> cache_state \<Rightarrow> nat option" where
  "same_epoch r st =
     opt_filter (\<lambda>i. cn_tombstone_epoch (cs_nodes st ! i) = nr_tombstone_epoch r) (current_of r st)"

definition actual_generation :: "node_registration_snapshot \<Rightarrow> cache_state \<Rightarrow> u64" where
  "actual_generation r st =
     (case same_epoch r st of Some i \<Rightarrow> cn_generation (cs_nodes st ! i) | None \<Rightarrow> 0)"

definition generation_exhausted :: io_error where
  "generation_exhausted = other_error ''Node cache generation exhausted''"

definition observed_node ::
    "node_registration_snapshot \<Rightarrow> u64 \<Rightarrow> projection_observation \<Rightarrow> cached_node option \<Rightarrow> cached_node" where
  "observed_node r generation ob old =
     (let shell_ids = set (map ps_id (np_shells (po_projection ob))) in
      \<lparr>cn_node_id = nr_node_id r, cn_registration_revision = nr_revision r,
       cn_tombstone_epoch = nr_tombstone_epoch r, cn_generation = generation,
       cn_health = HcOnline, cn_last_attempt_at_ms = Some (po_observed_at_ms ob),
       cn_last_success_at_ms = Some (po_observed_at_ms ob), cn_retry_at_ms = None,
       cn_capabilities = po_capabilities ob,
       cn_observed_helper_version = Some (po_helper_version ob), cn_cursor = Some (po_cursor ob),
       cn_projection = Some (po_projection ob),
       cn_notification_claims = (case old of Some n \<Rightarrow> cn_notification_claims n | None \<Rightarrow> []),
       cn_digest_claims = (case old of Some n \<Rightarrow> cn_digest_claims n | None \<Rightarrow> []),
       cn_dismissed_shell_ids =
         (case old of Some n \<Rightarrow> filter (\<lambda>i. i \<in> shell_ids) (cn_dismissed_shell_ids n) | None \<Rightarrow> [])\<rparr>)"

definition commit_projection ::
    "cache_env \<Rightarrow> node_registration_snapshot \<Rightarrow> u64 \<Rightarrow> projection_observation \<Rightarrow> projection_cache
      \<Rightarrow> projection_commit option res \<times> projection_cache" where
  "commit_projection env r expected ob c =
     (case bind_res (validate_projection env (po_projection ob)) (\<lambda>_.
           bind_res (validate_capabilities (po_capabilities ob)) (\<lambda>_.
           bind_res (validate_helper_version (po_helper_version ob)) (\<lambda>_.
             if np_node_id (po_projection ob) \<noteq> nr_node_id r
             then Inl (IoError PermissionDenied
                    ''projection owner does not match the pinned Node identity'')
             else Inr ()))) of
        Inl e \<Rightarrow> (Inl e, c)
      | Inr _ \<Rightarrow>
        (let st = cache_mem c in
         if actual_generation r st \<noteq> expected then (Inr None, c)
         else
         (case bind_res (ok_or (u64_checked_add expected 1) generation_exhausted) (\<lambda>generation.
               let old = map_option (\<lambda>i. cs_nodes st ! i) (same_epoch r st);
                   result = \<lparr>pc_generation = generation, pc_previous_health = map_option cn_health old,
                     pc_previous_cursor = (case old of Some n \<Rightarrow> cn_cursor n | None \<Rightarrow> None)\<rparr>
               in bind_res (place_node ''Node cache registration limit reached'' (current_of r st)
                              (observed_node r generation ob old) st) (\<lambda>placed.
                  Inr (result, sort_nodes placed))) of
            Inl e \<Rightarrow> (Inl e, c)
          | Inr (result, replacement) \<Rightarrow> replace_cache env replacement (Some result) c)))"

definition unobserved_node ::
    "node_registration_snapshot \<Rightarrow> u64 \<Rightarrow> node_projection_health_code \<Rightarrow> u64 \<Rightarrow> u64 option \<Rightarrow> cached_node" where
  "unobserved_node r generation health attempt_at_ms retry_at_ms =
     \<lparr>cn_node_id = nr_node_id r, cn_registration_revision = nr_revision r,
      cn_tombstone_epoch = nr_tombstone_epoch r, cn_generation = generation, cn_health = health,
      cn_last_attempt_at_ms = Some attempt_at_ms, cn_last_success_at_ms = None,
      cn_retry_at_ms = retry_at_ms, cn_capabilities = [], cn_observed_helper_version = None,
      cn_cursor = None, cn_projection = None, cn_notification_claims = [], cn_digest_claims = [],
      cn_dismissed_shell_ids = []\<rparr>"

definition marked_node ::
    "node_registration_snapshot \<Rightarrow> u64 \<Rightarrow> node_projection_health_code \<Rightarrow> u64 \<Rightarrow> u64 option
      \<Rightarrow> cached_node \<Rightarrow> cached_node" where
  "marked_node r generation health attempt_at_ms retry_at_ms n =
     n\<lparr>cn_registration_revision := nr_revision r, cn_tombstone_epoch := nr_tombstone_epoch r,
       cn_generation := generation, cn_health := health,
       cn_last_attempt_at_ms := Some attempt_at_ms, cn_retry_at_ms := retry_at_ms\<rparr>"

definition mark_health ::
    "cache_env \<Rightarrow> node_registration_snapshot \<Rightarrow> u64 \<Rightarrow> node_projection_health_code \<Rightarrow> u64 \<Rightarrow> u64 option
      \<Rightarrow> projection_cache \<Rightarrow> u64 option res \<times> projection_cache" where
  "mark_health env r expected health attempt_at_ms retry_at_ms c =
     (let st = cache_mem c in
      if actual_generation r st \<noteq> expected then (Inr None, c)
      else
      (case bind_res (ok_or (u64_checked_add expected 1) generation_exhausted) (\<lambda>generation.
            let node = (case current_of r st of
                          None \<Rightarrow> unobserved_node r generation health attempt_at_ms retry_at_ms
                        | Some i \<Rightarrow> cs_nodes st ! i)
            in bind_res (place_node ''Node cache limit reached'' (current_of r st)
                           (marked_node r generation health attempt_at_ms retry_at_ms node) st) (\<lambda>placed.
               Inr (generation, sort_nodes placed))) of
         Inl e \<Rightarrow> (Inl e, c)
       | Inr (generation, replacement) \<Rightarrow> replace_cache env replacement (Some generation) c))"

fun claim_each ::
    "remote_notification_claim list \<Rightarrow> remote_notification_claim list
      \<Rightarrow> bool list \<times> remote_notification_claim list" where
  "claim_each known [] = ([], known)"
| "claim_each known (c # cs) =
     (if c \<in> set known then (let (accepted, known') = claim_each known cs in (False # accepted, known'))
      else (let (accepted, known') = claim_each (known @ [c]) cs in (True # accepted, known')))"

text \<open>\<open>drain(..len - n)\<close> when there are more than \<open>n\<close>.\<close>

definition keep_newest :: "nat \<Rightarrow> 'a list \<Rightarrow> 'a list" where
  "keep_newest n xs = (if length xs > n then drop (length xs - n) xs else xs)"

definition claim_notifications ::
    "cache_env \<Rightarrow> node_registration_snapshot \<Rightarrow> event_cursor \<Rightarrow> remote_notification_claim list
      \<Rightarrow> remote_digest_claim option \<Rightarrow> projection_cache
      \<Rightarrow> (bool list \<times> bool) option res \<times> projection_cache" where
  "claim_notifications env r expected_cursor claims digest c =
     (case bind_res (for_each (validate_notification_claim env) claims) (\<lambda>_.
             case digest of Some d \<Rightarrow> validate_digest_claim env d | None \<Rightarrow> Inr ()) of
        Inl e \<Rightarrow> (Inl e, c)
      | Inr _ \<Rightarrow>
        (let st = cache_mem c in
         case position (\<lambda>n. same_registration r n \<and> cn_cursor n = Some expected_cursor) (cs_nodes st) of
           None \<Rightarrow> (Inr None, c)
         | Some i \<Rightarrow>
           (let node = cs_nodes st ! i;
                (accepted, known) = claim_each (cn_notification_claims node) claims;
                digest_accepted =
                  (case digest of Some d \<Rightarrow> d \<notin> set (cn_digest_claims node) | None \<Rightarrow> False);
                digests = (case digest of
                             Some d \<Rightarrow> (if d \<in> set (cn_digest_claims node) then cn_digest_claims node
                                        else cn_digest_claims node @ [d])
                           | None \<Rightarrow> cn_digest_claims node);
                replacement = node
                  \<lparr>cn_notification_claims := keep_newest max_notification_claims_per_node known,
                   cn_digest_claims := keep_newest max_digest_claims_per_node digests\<rparr>
            in if \<not> list_ex (\<lambda>a. a) accepted \<and> \<not> digest_accepted
               then (Inr (Some (accepted, False)), c)
               else replace_cache env (st\<lparr>cs_nodes := (cs_nodes st)[i := replacement]\<rparr>)
                      (Some (accepted, digest_accepted)) c)))"

definition cache_remove ::
    "cache_env \<Rightarrow> string \<Rightarrow> projection_cache \<Rightarrow> bool res \<times> projection_cache" where
  "cache_remove env node_id c =
     (let st = cache_mem c;
          replacement = st\<lparr>cs_nodes := filter (\<lambda>n. cn_node_id n \<noteq> node_id) (cs_nodes st)\<rparr>
      in if length (cs_nodes replacement) = length (cs_nodes st) then (Inr False, c)
         else replace_cache env replacement True c)"

definition no_cached_projection :: io_error where
  "no_cached_projection = IoError NotFound ''Node has no cached projection''"

definition dismiss_shell ::
    "cache_env \<Rightarrow> node_registration_snapshot \<Rightarrow> string \<Rightarrow> projection_cache
      \<Rightarrow> (node_projection_health \<times> bool) res \<times> projection_cache" where
  "dismiss_shell env r shell_id c =
     (let st = cache_mem c in
      case bind_res (projection_validate_name shell_id) (\<lambda>_.
             ok_or (position (same_registration r) (cs_nodes st)) no_cached_projection) of
        Inl e \<Rightarrow> (Inl e, c)
      | Inr i \<Rightarrow>
        (let node = cs_nodes st ! i in
         if cn_health node = HcOnline
         then (Inl (IoError InvalidInput ''online Node shells must be closed by their owner''), c)
         else if \<not> (case cn_projection node of
                       Some p \<Rightarrow> list_ex (\<lambda>s. ps_id s = shell_id) (np_shells p) | None \<Rightarrow> False)
         then (Inl (IoError NotFound ''shell is not present in the cached Node projection''), c)
         else if list_ex (\<lambda>i. i = shell_id) (cn_dismissed_shell_ids node)
         then (Inr (health_snapshot node, False), c)
         else if length (cn_dismissed_shell_ids node) \<ge> max_dismissed_shells_per_node
         then (Inl (invalid ''dismissed Node shell limit reached''), c)
         else (let node = node\<lparr>cn_dismissed_shell_ids := sort (cn_dismissed_shell_ids node @ [shell_id])\<rparr>
               in replace_cache env (st\<lparr>cs_nodes := (cs_nodes st)[i := node]\<rparr>)
                    (health_snapshot node, True) c)))"

definition restore_dismissed_shells ::
    "cache_env \<Rightarrow> node_registration_snapshot \<Rightarrow> projection_cache
      \<Rightarrow> (node_projection_health \<times> bool) res \<times> projection_cache" where
  "restore_dismissed_shells env r c =
     (let st = cache_mem c in
      case ok_or (position (same_registration r) (cs_nodes st)) no_cached_projection of
        Inl e \<Rightarrow> (Inl e, c)
      | Inr i \<Rightarrow>
        (let node = cs_nodes st ! i in
         if cn_dismissed_shell_ids node = [] then (Inr (health_snapshot node, False), c)
         else (let node = node\<lparr>cn_dismissed_shell_ids := []\<rparr>
               in replace_cache env (st\<lparr>cs_nodes := (cs_nodes st)[i := node]\<rparr>)
                    (health_snapshot node, True) c)))"

end
