(* ===== verification/Projection_Valid.thy ===== *)
theory Projection_Valid
  imports Node_Projection
begin

text \<open>
  The invariant of the projection cache, stated without loops and sets of seen values, and the
  proof that the checks of \<open>load\<close> accept exactly the caches that satisfy it.
\<close>

section \<open>The invariant\<close>

definition name_ok :: "string \<Rightarrow> bool" where
  "name_ok v \<longleftrightarrow> v \<noteq> [] \<and> length v \<le> max_name_bytes \<and> \<not> has_control v"

definition projection_ok :: "cache_env \<Rightarrow> node_projection_snapshot \<Rightarrow> bool" where
  "projection_ok env p \<longleftrightarrow>
     env_cache_uuid_ok env (np_node_id p)
     \<and> length (np_workspaces p) \<le> max_workspaces_per_node
     \<and> length (np_shells p) \<le> max_shells_per_node
     \<and> length (np_launchers p) \<le> max_launchers_per_node
     \<and> length (np_agents p) \<le> max_agents_per_node
     \<and> distinct (map pw_id (np_workspaces p))
     \<and> list_all (\<lambda>w. name_ok (pw_id w) \<and> name_ok (pw_name w)) (np_workspaces p)
     \<and> list_all (\<lambda>s. name_ok (ps_name s)) (np_shells p)
     \<and> list_all (\<lambda>l. name_ok (pla_name l)) (np_launchers p)
     \<and> list_all (\<lambda>a. name_ok (pa_name a)) (np_agents p)"

definition capabilities_ok :: "string list \<Rightarrow> bool" where
  "capabilities_ok cs \<longleftrightarrow> length cs \<le> max_capabilities \<and> list_all capability_ok cs"

definition helper_version_ok :: "string \<Rightarrow> bool" where
  "helper_version_ok v \<longleftrightarrow>
     v \<noteq> [] \<and> length v \<le> max_helper_version_bytes \<and> list_all is_ascii_graphic v"

definition notification_claim_ok :: "cache_env \<Rightarrow> remote_notification_claim \<Rightarrow> bool" where
  "notification_claim_ok env c \<longleftrightarrow>
     env_cache_uuid_ok env (nc_stream_id c) \<and> nc_entity_id c \<noteq> []
     \<and> length (nc_entity_id c) \<le> max_name_bytes \<and> nc_revision c \<noteq> 0 \<and> nc_reason c \<noteq> []
     \<and> length (nc_reason c) \<le> max_notification_reason_bytes \<and> \<not> has_control (nc_reason c)"

definition digest_claim_ok :: "cache_env \<Rightarrow> remote_digest_claim \<Rightarrow> bool" where
  "digest_claim_ok env d \<longleftrightarrow>
     env_cache_uuid_ok env (dc_stream_id d) \<and> dc_prior_cursor d \<le> dc_through_cursor d
     \<and> dc_enabled_categories d \<noteq> [] \<and> sorted_wrt (<) (dc_enabled_categories d)"

definition cached_node_ok :: "cache_env \<Rightarrow> cached_node \<Rightarrow> bool" where
  "cached_node_ok env n \<longleftrightarrow>
     cn_generation n \<noteq> 0
     \<and> capabilities_ok (cn_capabilities n)
     \<and> (\<forall>v. cn_observed_helper_version n = Some v \<longrightarrow> helper_version_ok v)
     \<and> length (cn_notification_claims n) \<le> max_notification_claims_per_node
     \<and> length (cn_digest_claims n) \<le> max_digest_claims_per_node
     \<and> length (cn_dismissed_shell_ids n) \<le> max_dismissed_shells_per_node
     \<and> distinct (cn_dismissed_shell_ids n) \<and> list_all name_ok (cn_dismissed_shell_ids n)
     \<and> list_all (notification_claim_ok env) (cn_notification_claims n)
     \<and> list_all (digest_claim_ok env) (cn_digest_claims n)
     \<and> (\<forall>p. cn_projection n = Some p \<longrightarrow> np_node_id p = cn_node_id n \<and> projection_ok env p)"

definition cache_ok :: "cache_env \<Rightarrow> cache_state \<Rightarrow> bool" where
  "cache_ok env st \<longleftrightarrow>
     cs_version st = node_cache_version \<and> length (cs_nodes st) \<le> max_nodes
     \<and> distinct (map cn_node_id (cs_nodes st)) \<and> list_all (cached_node_ok env) (cs_nodes st)"

section \<open>The checks decide it\<close>

lemma projection_validate_name_iff: "projection_validate_name v = Inr () \<longleftrightarrow> name_ok v"
  by (auto simp: projection_validate_name_def name_ok_def)

lemma validate_projection_workspaces_iff:
  "validate_projection_workspaces ws ids = Inr () \<longleftrightarrow>
     distinct (map pw_id ws) \<and> pw_id ` set ws \<inter> ids = {}
     \<and> list_all (\<lambda>w. name_ok (pw_id w) \<and> name_ok (pw_name w)) ws"
  by (induction ws ids rule: validate_projection_workspaces.induct)
    (auto simp: bind_res_Inr projection_validate_name_iff)

lemma validate_projection_iff: "validate_projection env p = Inr () \<longleftrightarrow> projection_ok env p"
  by (auto simp: validate_projection_def projection_ok_def bind_res_Inr projection_validate_name_iff
      validate_projection_workspaces_iff list_all_iff not_less)

lemma validate_capabilities_iff: "validate_capabilities cs = Inr () \<longleftrightarrow> capabilities_ok cs"
  by (auto simp: validate_capabilities_def capabilities_ok_def list_ex_iff list_all_iff not_less)

lemma validate_helper_version_iff: "validate_helper_version v = Inr () \<longleftrightarrow> helper_version_ok v"
  by (auto simp: validate_helper_version_def helper_version_ok_def not_less)

lemma validate_notification_claim_iff:
  "validate_notification_claim env c = Inr () \<longleftrightarrow> notification_claim_ok env c"
  by (auto simp: validate_notification_claim_def notification_claim_ok_def not_less)

lemma sorted_remdups_adj_strict: "sorted xs \<Longrightarrow> sorted_wrt (<) (remdups_adj xs)"
  for xs :: "'a :: linorder list"
  by (induction xs rule: remdups_adj.induct) (auto simp: less_le)

lemma sort_dedup_id_iff: "remdups_adj (sort xs) = xs \<longleftrightarrow> sorted_wrt (<) xs"
  for xs :: "'a :: linorder list"
proof
  assume "remdups_adj (sort xs) = xs"
  then show "sorted_wrt (<) xs" using sorted_remdups_adj_strict [of "sort xs"] by simp
next
  assume "sorted_wrt (<) xs"
  then have "sorted xs" "distinct xs" by (simp_all add: strict_sorted_iff)
  then show "remdups_adj (sort xs) = xs" by (simp add: sorted_sort_id remdups_adj_distinct)
qed

lemma validate_digest_claim_iff: "validate_digest_claim env d = Inr () \<longleftrightarrow> digest_claim_ok env d"
  by (auto simp: validate_digest_claim_def digest_claim_ok_def Let_def sort_dedup_id_iff not_less
      simp flip: sort_dedup_id_iff)

lemma validate_dismissed_iff:
  "validate_dismissed is seen = Inr () \<longleftrightarrow>
     distinct is \<and> set is \<inter> seen = {} \<and> list_all name_ok is"
  by (induction "is" seen rule: validate_dismissed.induct)
    (auto simp: bind_res_Inr projection_validate_name_iff)

lemma validate_cached_node_iff:
  "cn_generation n \<noteq> 0 \<Longrightarrow> validate_cached_node env n = Inr () \<longleftrightarrow> cached_node_ok env n"
  by (cases "cn_observed_helper_version n"; cases "cn_projection n")
    (auto simp: validate_cached_node_def cached_node_ok_def bind_res_Inr validate_capabilities_iff
      validate_helper_version_iff validate_dismissed_iff validate_notification_claim_iff
      validate_digest_claim_iff validate_projection_iff not_less)

lemma validate_cached_nodes_iff:
  "validate_cached_nodes env ns ids = Inr () \<longleftrightarrow>
     distinct (map cn_node_id ns) \<and> cn_node_id ` set ns \<inter> ids = {} \<and> list_all (cached_node_ok env) ns"
proof (induction env ns ids rule: validate_cached_nodes.induct)
  case (1 env ids)
  then show ?case by simp
next
  case (2 env n ns ids)
  have gen: "cached_node_ok env n \<Longrightarrow> cn_generation n \<noteq> 0" by (simp add: cached_node_ok_def)
  show ?case
    using 2 gen validate_cached_node_iff [of n env]
    by (cases "cn_generation n = 0") (auto simp: bind_res_Inr)
qed

lemma check_cache_iff: "check_cache env st = Inr () \<longleftrightarrow> cache_ok env st"
  by (auto simp: check_cache_def cache_ok_def validate_cached_nodes_iff not_less)

end
