(* ===== verification/Projection_Commands.thy ===== *)
theory Projection_Commands
  imports Projection_Valid Store_Contracts
begin

text \<open>
  The methods of the projection cache as commands: each keeps the invariant, changes memory and
  file together or not at all, and the two that carry the generation the caller saw are guarded
  by it. The cache is an instance of \<open>durable_store\<close>, its commits of \<open>revision_guarded\<close>.
\<close>

datatype projection_command =
    CacheCommit node_registration_snapshot u64 projection_observation
  | CacheMark node_registration_snapshot u64 node_projection_health_code u64 "u64 option"
  | CacheClaim node_registration_snapshot event_cursor "remote_notification_claim list"
      "remote_digest_claim option"
  | CacheRemove string
  | CacheDismiss node_registration_snapshot string
  | CacheRestore node_registration_snapshot

definition cache_outcome :: "'r res \<times> projection_cache \<Rightarrow> io_error option \<times> projection_cache" where
  "cache_outcome x = (case x of (Inl e, c) \<Rightarrow> (Some e, c) | (Inr _, c) \<Rightarrow> (None, c))"

fun cache_exec ::
    "cache_env \<Rightarrow> projection_command \<Rightarrow> projection_cache \<Rightarrow> io_error option \<times> projection_cache" where
  "cache_exec env (CacheCommit r g ob) c = cache_outcome (commit_projection env r g ob c)"
| "cache_exec env (CacheMark r g health attempt retry) c =
     cache_outcome (mark_health env r g health attempt retry c)"
| "cache_exec env (CacheClaim r cursor claims digest) c =
     cache_outcome (claim_notifications env r cursor claims digest c)"
| "cache_exec env (CacheRemove node_id) c = cache_outcome (cache_remove env node_id c)"
| "cache_exec env (CacheDismiss r shell_id) c = cache_outcome (dismiss_shell env r shell_id c)"
| "cache_exec env (CacheRestore r) c = cache_outcome (restore_dismissed_shells env r c)"

section \<open>The pieces keep the invariant\<close>

lemma cache_ok_update:
  assumes "cache_ok env st" and "i < length (cs_nodes st)" and "cached_node_ok env n"
    and "cn_node_id n = cn_node_id (cs_nodes st ! i)"
  shows "cache_ok env (st\<lparr>cs_nodes := (cs_nodes st)[i := n]\<rparr>)"
proof -
  have "map cn_node_id ((cs_nodes st)[i := n]) = map cn_node_id (cs_nodes st)"
    using assms(2,4) by (metis list_update_id map_update)
  moreover have "list_all (cached_node_ok env) ((cs_nodes st)[i := n])"
    using assms(1,3) set_update_subset_insert [of "cs_nodes st" i n]
    by (auto simp: cache_ok_def list_all_iff)
  ultimately show ?thesis using assms(1) by (simp add: cache_ok_def)
qed

lemma current_of_Some:
  "current_of r st = Some i \<Longrightarrow> i < length (cs_nodes st) \<and> cn_node_id (cs_nodes st ! i) = nr_node_id r"
  unfolding current_of_def by (auto dest: position_SomeD)

lemma cache_ok_place:
  assumes "cache_ok env st" and "place_node msg (current_of r st) n st = Inr st'"
    and "cached_node_ok env n" and "cn_node_id n = nr_node_id r"
  shows "cache_ok env st'"
proof (cases "current_of r st")
  case None
  then have "nr_node_id r \<notin> set (map cn_node_id (cs_nodes st))"
    by (auto simp: current_of_def position_None_iff)
  then show ?thesis
    using assms None by (auto simp: place_node_def cache_ok_def split: if_splits)
next
  case (Some i)
  then show ?thesis
    using assms current_of_Some [OF Some] cache_ok_update [OF assms(1)] by (auto simp: place_node_def)
qed

lemma cache_ok_sort: "cache_ok env st \<Longrightarrow> cache_ok env (sort_nodes st)"
proof -
  assume ok: "cache_ok env st"
  have "distinct (map cn_node_id (sort_key cn_node_id (cs_nodes st)))"
    using ok by (simp add: cache_ok_def distinct_map)
  then show ?thesis using ok by (simp add: cache_ok_def sort_nodes_def list_all_iff)
qed

lemma cache_nodes_ok: "cache_ok env st \<Longrightarrow> i < length (cs_nodes st) \<Longrightarrow> cached_node_ok env (cs_nodes st ! i)"
  by (simp add: cache_ok_def list_all_length)

lemma same_epoch_Some:
  "same_epoch r st = Some i \<longleftrightarrow>
     current_of r st = Some i \<and> cn_tombstone_epoch (cs_nodes st ! i) = nr_tombstone_epoch r"
  by (simp add: same_epoch_def)

lemma checked_add_nonzero: "u64_checked_add a 1 = Some b \<Longrightarrow> b \<noteq> 0"
  using u64_checked_add_one_less [of a b] by auto

lemma observed_node_ok:
  assumes "projection_ok env (po_projection ob)" and "capabilities_ok (po_capabilities ob)"
    and "helper_version_ok (po_helper_version ob)" and "np_node_id (po_projection ob) = nr_node_id r"
    and "g \<noteq> 0" and "\<And>n. old = Some n \<Longrightarrow> cached_node_ok env n"
  shows "cached_node_ok env (observed_node r g ob old)"
proof (cases old)
  case None
  then show ?thesis using assms by (simp add: cached_node_ok_def observed_node_def Let_def)
next
  case (Some n)
  have "length (filter (\<lambda>i. i \<in> X) (cn_dismissed_shell_ids n)) \<le> max_dismissed_shells_per_node" for X
    using assms(6) [OF Some] length_filter_le order_trans unfolding cached_node_ok_def by blast
  then show ?thesis
    using assms(1-5) assms(6) [OF Some] Some
    by (simp add: cached_node_ok_def observed_node_def Let_def list_all_iff)
qed

lemma marked_node_ok:
  assumes "cached_node_ok env n" and "g \<noteq> 0"
  shows "cached_node_ok env (marked_node r g h a t n)"
  using assms by (simp add: cached_node_ok_def marked_node_def)

lemma unobserved_node_ok: "g \<noteq> 0 \<Longrightarrow> cached_node_ok env (unobserved_node r g h a t)"
  by (simp add: cached_node_ok_def unobserved_node_def capabilities_ok_def)

lemma claim_each_known:
  assumes "claim_each known cs = (accepted, known')"
  shows "\<exists>new. known' = known @ new \<and> distinct new \<and> set new \<inter> set known = {} \<and> set new \<subseteq> set cs
    \<and> length new \<le> length cs \<and> length accepted = length cs
    \<and> (\<forall>i < length cs. accepted ! i \<longrightarrow> cs ! i \<in> set new)"
  using assms
proof (induction known cs arbitrary: accepted known' rule: claim_each.induct)
  case (1 known)
  then show ?case by simp
next
  case (2 known c cs)
  show ?case
  proof (cases "c \<in> set known")
    case True
    then obtain acc where acc: "claim_each known cs = (acc, known')" "accepted = False # acc"
      using 2(3) by (auto simp: Let_def split: prod.splits)
    then show ?thesis using 2(1) [OF True acc(1)] by (auto simp: nth_Cons split: nat.split)
  next
    case False
    then obtain acc where acc: "claim_each (known @ [c]) cs = (acc, known')" "accepted = True # acc"
      using 2(3) by (auto simp: Let_def split: prod.splits)
    obtain new where new: "known' = (known @ [c]) @ new" "distinct new" "set new \<inter> set (known @ [c]) = {}"
      "set new \<subseteq> set cs" "length new \<le> length cs" "length acc = length cs"
      "\<forall>i < length cs. acc ! i \<longrightarrow> cs ! i \<in> set new"
      using 2(2) [OF False acc(1)] by auto
    have "\<forall>i < length (c # cs). accepted ! i \<longrightarrow> (c # cs) ! i \<in> set (c # new)"
      using new(7) acc(2) by (auto simp: nth_Cons split: nat.split)
    then show ?thesis
      using new acc(2) False by (intro exI [of _ "c # new"]) auto
  qed
qed

lemma keep_newest_simps [simp]:
  "length (keep_newest n xs) \<le> n" "set (keep_newest n xs) \<subseteq> set xs"
  by (auto simp: keep_newest_def dest: in_set_dropD)

section \<open>What a method does\<close>

definition cache_saved :: "cache_state \<Rightarrow> projection_cache \<Rightarrow> projection_cache" where
  "cache_saved st c = c\<lparr>cache_mem := st, cache_disk := Some st\<rparr>"

lemma cache_saved_simps [simp]:
  "cache_mem (cache_saved st c) = st" "cache_disk (cache_saved st c) = Some st"
  by (simp_all add: cache_saved_def)

lemma replace_cache_Inr:
  "replace_cache env st x c = (Inr y, c') \<longleftrightarrow> save_cache env st = Inr () \<and> y = x \<and> c' = cache_saved st c"
  by (auto simp: replace_cache_def cache_saved_def split: sum.splits)

lemma replace_cache_Inl:
  "replace_cache env st x c = (Inl e, c') \<longleftrightarrow> save_cache env st = Inl e \<and> c' = c"
  by (auto simp: replace_cache_def split: sum.splits)

lemmas replace_cache_iffs = replace_cache_Inr replace_cache_Inl

text \<open>The effect of a successful commit, mark, claim, dismissal and restoration.\<close>

lemma commit_projection_Some:
  assumes "commit_projection env r g ob c = (Inr (Some result), c')"
  shows "\<exists>placed. projection_ok env (po_projection ob) \<and> capabilities_ok (po_capabilities ob)
    \<and> helper_version_ok (po_helper_version ob) \<and> np_node_id (po_projection ob) = nr_node_id r
    \<and> actual_generation r (cache_mem c) = g \<and> u64_checked_add g 1 = Some (pc_generation result)
    \<and> place_node ''Node cache registration limit reached'' (current_of r (cache_mem c))
         (observed_node r (pc_generation result) ob
            (map_option (\<lambda>i. cs_nodes (cache_mem c) ! i) (same_epoch r (cache_mem c)))) (cache_mem c) = Inr placed
    \<and> save_cache env (sort_nodes placed) = Inr () \<and> c' = cache_saved (sort_nodes placed) c"
  using assms
  by (auto simp: commit_projection_def Let_def bind_res_Inr ok_or_Inr validate_projection_iff
      validate_capabilities_iff validate_helper_version_iff replace_cache_iffs
      split: sum.splits if_splits)

lemma mark_health_Some:
  assumes "mark_health env r g h a t c = (Inr (Some g'), c')"
  shows "\<exists>placed. actual_generation r (cache_mem c) = g \<and> u64_checked_add g 1 = Some g'
    \<and> place_node ''Node cache limit reached'' (current_of r (cache_mem c))
         (marked_node r g' h a t (case current_of r (cache_mem c) of
              None \<Rightarrow> unobserved_node r g' h a t | Some i \<Rightarrow> cs_nodes (cache_mem c) ! i)) (cache_mem c) = Inr placed
    \<and> save_cache env (sort_nodes placed) = Inr () \<and> c' = cache_saved (sort_nodes placed) c"
  using assms
  by (auto simp: mark_health_def Let_def bind_res_Inr ok_or_Inr replace_cache_iffs
      split: sum.splits if_splits option.splits)

lemma commit_projection_quiet:
  "commit_projection env r g ob c = (res, c') \<Longrightarrow> \<forall>x. res \<noteq> Inr (Some x) \<Longrightarrow> c' = c"
  by (auto simp: commit_projection_def Let_def replace_cache_def split: sum.splits if_splits)

lemma mark_health_quiet:
  "mark_health env r g h a t c = (res, c') \<Longrightarrow> \<forall>x. res \<noteq> Inr (Some x) \<Longrightarrow> c' = c"
  by (auto simp: mark_health_def Let_def replace_cache_def split: sum.splits if_splits)

lemma commit_projection_ok:
  assumes "commit_projection env r g ob c = (Inr (Some result), c')" and "cache_ok env (cache_mem c)"
  shows "cache_ok env (cache_mem c')"
proof -
  let ?old = "map_option (\<lambda>i. cs_nodes (cache_mem c) ! i) (same_epoch r (cache_mem c))"
  obtain placed where p: "projection_ok env (po_projection ob)" "capabilities_ok (po_capabilities ob)"
    "helper_version_ok (po_helper_version ob)" "np_node_id (po_projection ob) = nr_node_id r"
    "u64_checked_add g 1 = Some (pc_generation result)"
    "place_node ''Node cache registration limit reached'' (current_of r (cache_mem c))
       (observed_node r (pc_generation result) ob ?old) (cache_mem c) = Inr placed"
    "c' = cache_saved (sort_nodes placed) c"
    using commit_projection_Some [OF assms(1)] by blast
  have "cached_node_ok env n" if "?old = Some n" for n
    using that assms(2) current_of_Some cache_nodes_ok by (auto simp: same_epoch_Some)
  then have "cached_node_ok env (observed_node r (pc_generation result) ob ?old)"
    using observed_node_ok [OF p(1-4) checked_add_nonzero [OF p(5)]] by blast
  then have "cache_ok env placed"
    by (intro cache_ok_place [OF assms(2) p(6)]) (simp_all add: observed_node_def Let_def)
  then show ?thesis using p(7) cache_ok_sort by simp
qed

lemma mark_health_ok:
  assumes "mark_health env r g h a t c = (Inr (Some g'), c')" and "cache_ok env (cache_mem c)"
  shows "cache_ok env (cache_mem c')"
proof -
  let ?n = "case current_of r (cache_mem c) of
              None \<Rightarrow> unobserved_node r g' h a t | Some i \<Rightarrow> cs_nodes (cache_mem c) ! i"
  obtain placed where p: "u64_checked_add g 1 = Some g'"
    "place_node ''Node cache limit reached'' (current_of r (cache_mem c)) (marked_node r g' h a t ?n)
       (cache_mem c) = Inr placed"
    "c' = cache_saved (sort_nodes placed) c"
    using mark_health_Some [OF assms(1)] by blast
  have g': "g' \<noteq> 0" by (rule checked_add_nonzero [OF p(1)])
  have "cached_node_ok env ?n \<and> cn_node_id ?n = nr_node_id r"
    using unobserved_node_ok [OF g'] current_of_Some [of r "cache_mem c"] cache_nodes_ok [OF assms(2)]
    by (auto simp: unobserved_node_def split: option.split)
  then have "cache_ok env placed"
    using marked_node_ok g' by (intro cache_ok_place [OF assms(2) p(2)]) (auto simp: marked_node_def)
  then show ?thesis using p(3) cache_ok_sort by simp
qed

definition claimed_digests :: "remote_digest_claim option \<Rightarrow> remote_digest_claim list \<Rightarrow> remote_digest_claim list" where
  "claimed_digests digest ds =
     (case digest of Some d \<Rightarrow> (if d \<in> set ds then ds else ds @ [d]) | None \<Rightarrow> ds)"

definition claimed_node ::
    "remote_notification_claim list \<Rightarrow> remote_digest_claim option \<Rightarrow> cached_node \<Rightarrow> cached_node" where
  "claimed_node known digest n = n
     \<lparr>cn_notification_claims := keep_newest max_notification_claims_per_node known,
      cn_digest_claims := keep_newest max_digest_claims_per_node (claimed_digests digest (cn_digest_claims n))\<rparr>"

definition digest_accepted :: "remote_digest_claim option \<Rightarrow> cached_node \<Rightarrow> bool" where
  "digest_accepted digest n \<longleftrightarrow>
     (case digest of Some d \<Rightarrow> d \<notin> set (cn_digest_claims n) | None \<Rightarrow> False)"

lemma claim_notifications_Some:
  assumes "claim_notifications env r cur claims digest c = (Inr (Some (accepted, d)), c')"
  shows "\<exists>i known. position (\<lambda>n. same_registration r n \<and> cn_cursor n = Some cur) (cs_nodes (cache_mem c)) = Some i
    \<and> list_all (notification_claim_ok env) claims
    \<and> (\<forall>x. digest = Some x \<longrightarrow> digest_claim_ok env x)
    \<and> claim_each (cn_notification_claims (cs_nodes (cache_mem c) ! i)) claims = (accepted, known)
    \<and> d = digest_accepted digest (cs_nodes (cache_mem c) ! i)
    \<and> (if (\<exists>a \<in> set accepted. a) \<or> d
       then c' = cache_saved ((cache_mem c)\<lparr>cs_nodes := (cs_nodes (cache_mem c))
              [i := claimed_node known digest (cs_nodes (cache_mem c) ! i)]\<rparr>) c
       else c' = c)"
proof -
  let ?valid = "bind_res (for_each (validate_notification_claim env) claims) (\<lambda>_.
      case digest of Some d \<Rightarrow> validate_digest_claim env d | None \<Rightarrow> Inr ())"
  let ?pos = "position (\<lambda>n. same_registration r n \<and> cn_cursor n = Some cur) (cs_nodes (cache_mem c))"
  have valid: "?valid = Inr ()"
    using assms by (auto simp: claim_notifications_def split: sum.splits)
  then have ok: "list_all (notification_claim_ok env) claims" "\<forall>x. digest = Some x \<longrightarrow> digest_claim_ok env x"
    by (auto simp: bind_res_Inr validate_notification_claim_iff validate_digest_claim_iff split: option.splits)
  obtain i where i: "?pos = Some i"
    using assms valid by (cases ?pos) (auto simp: claim_notifications_def Let_def)
  obtain acc known where claim: "claim_each (cn_notification_claims (cs_nodes (cache_mem c) ! i)) claims = (acc, known)"
    by (cases "claim_each (cn_notification_claims (cs_nodes (cache_mem c) ! i)) claims")
  let ?d = "digest_accepted digest (cs_nodes (cache_mem c) ! i)"
  let ?st = "(cache_mem c)\<lparr>cs_nodes := (cs_nodes (cache_mem c))
      [i := claimed_node known digest (cs_nodes (cache_mem c) ! i)]\<rparr>"
  have "claim_notifications env r cur claims digest c =
      (if \<not> list_ex (\<lambda>a. a) acc \<and> \<not> ?d then (Inr (Some (acc, False)), c)
       else replace_cache env ?st (Some (acc, ?d)) c)"
    by (simp only: claim_notifications_def valid i claim Let_def sum.case option.case prod.case
        claimed_node_def claimed_digests_def digest_accepted_def)
  then have run: "(if \<not> list_ex (\<lambda>a. a) acc \<and> \<not> ?d then (Inr (Some (acc, False)), c)
       else replace_cache env ?st (Some (acc, ?d)) c) = (Inr (Some (accepted, d)), c')"
    using assms by (simp only:)
  have "accepted = acc \<and> d = ?d \<and>
      (if (\<exists>a \<in> set acc. a) \<or> ?d then c' = cache_saved ?st c else c' = c)"
  proof (cases "list_ex (\<lambda>a. a) acc \<or> ?d")
    case True
    then have "replace_cache env ?st (Some (acc, ?d)) c = (Inr (Some (accepted, d)), c')"
      using run by (cases "list_ex (\<lambda>a. a) acc"; cases ?d) (simp_all only: simp_thms if_False if_True)
    then show ?thesis using True by (simp add: replace_cache_Inr list_ex_iff)
  next
    case False
    then have none: "\<forall>a \<in> set acc. \<not> a" "\<not> ?d" by (auto simp: list_ex_iff)
    then have "acc = accepted \<and> \<not> d \<and> c' = c" using run False by simp
    then show ?thesis using none by auto
  qed
  then show ?thesis using ok i claim by auto
qed

lemma claim_notifications_quiet:
  "claim_notifications env r cur claims digest c = (res, c') \<Longrightarrow> \<forall>x. res \<noteq> Inr (Some x) \<Longrightarrow> c' = c"
  by (auto simp: claim_notifications_def Let_def replace_cache_def
      split: sum.splits if_splits option.splits prod.splits)

lemma keep_newest_all: "list_all P xs \<Longrightarrow> list_all P (keep_newest n xs)"
  unfolding list_all_iff using keep_newest_simps(2) [of n xs] by blast

lemma claimed_node_ok:
  assumes "cached_node_ok env n" and "claim_each (cn_notification_claims n) claims = (accepted, known)"
    and "list_all (notification_claim_ok env) claims" and "\<forall>x. digest = Some x \<longrightarrow> digest_claim_ok env x"
  shows "cached_node_ok env (claimed_node known digest n)"
proof -
  have "set known \<subseteq> set (cn_notification_claims n) \<union> set claims"
    using claim_each_known [OF assms(2)] by auto
  then have "list_all (notification_claim_ok env) known"
    using assms(1,3) by (auto simp: cached_node_ok_def list_all_iff)
  moreover have "list_all (digest_claim_ok env) (claimed_digests digest (cn_digest_claims n))"
    using assms(1,4) by (auto simp: cached_node_ok_def claimed_digests_def split: option.split)
  ultimately show ?thesis
    using assms(1) by (simp add: cached_node_ok_def claimed_node_def keep_newest_all)
qed

lemma claim_notifications_ok:
  assumes "claim_notifications env r cur claims digest c = (Inr (Some (accepted, d)), c')"
    and "cache_ok env (cache_mem c)"
  shows "cache_ok env (cache_mem c')"
proof -
  obtain i known where p: "i < length (cs_nodes (cache_mem c))"
    "list_all (notification_claim_ok env) claims" "\<forall>x. digest = Some x \<longrightarrow> digest_claim_ok env x"
    "claim_each (cn_notification_claims (cs_nodes (cache_mem c) ! i)) claims = (accepted, known)"
    "c' = c \<or> c' = cache_saved ((cache_mem c)\<lparr>cs_nodes := (cs_nodes (cache_mem c))
              [i := claimed_node known digest (cs_nodes (cache_mem c) ! i)]\<rparr>) c"
    using claim_notifications_Some [OF assms(1)] position_SomeD by (metis (no_types, lifting))
  have "cached_node_ok env (claimed_node known digest (cs_nodes (cache_mem c) ! i))"
    by (rule claimed_node_ok [OF cache_nodes_ok [OF assms(2) p(1)] p(4,2,3)])
  then show ?thesis
    using p(5) assms(2) cache_ok_update [OF assms(2) p(1)] by (auto simp: claimed_node_def)
qed

lemma cache_remove_cases:
  "cache_remove env node_id c = (res, c') \<Longrightarrow>
     c' = c \<or> res = Inr True \<and> c' = cache_saved ((cache_mem c)\<lparr>cs_nodes :=
       filter (\<lambda>n. cn_node_id n \<noteq> node_id) (cs_nodes (cache_mem c))\<rparr>) c"
  by (auto simp: cache_remove_def Let_def replace_cache_def cache_saved_def split: sum.splits if_splits)

lemma cache_ok_filter: "cache_ok env st \<Longrightarrow> cache_ok env (st\<lparr>cs_nodes := filter P (cs_nodes st)\<rparr>)"
  using order_trans [OF length_filter_le [of P "cs_nodes st"]]
    distinct_map_filter [of cn_node_id "cs_nodes st" P]
  by (auto simp: cache_ok_def list_all_iff)

definition dismissed_node :: "string \<Rightarrow> cached_node \<Rightarrow> cached_node" where
  "dismissed_node shell_id n =
     n\<lparr>cn_dismissed_shell_ids := sort (cn_dismissed_shell_ids n @ [shell_id])\<rparr>"

lemma dismiss_shell_cases:
  assumes "dismiss_shell env r shell_id c = (res, c')"
  shows "c' = c \<and> (\<forall>h. res \<noteq> Inr (h, True)) \<or> (\<exists>i p. position (same_registration r) (cs_nodes (cache_mem c)) = Some i
      \<and> cn_health (cs_nodes (cache_mem c) ! i) \<noteq> HcOnline
      \<and> cn_projection (cs_nodes (cache_mem c) ! i) = Some p \<and> shell_id \<in> ps_id ` set (np_shells p)
      \<and> name_ok shell_id \<and> shell_id \<notin> set (cn_dismissed_shell_ids (cs_nodes (cache_mem c) ! i))
      \<and> length (cn_dismissed_shell_ids (cs_nodes (cache_mem c) ! i)) < max_dismissed_shells_per_node
      \<and> res = Inr (health_snapshot (cs_nodes (cache_mem c) ! i), True)
      \<and> c' = cache_saved ((cache_mem c)\<lparr>cs_nodes := (cs_nodes (cache_mem c))
              [i := dismissed_node shell_id (cs_nodes (cache_mem c) ! i)]\<rparr>) c)"
  using assms
  by (auto simp: dismiss_shell_def Let_def bind_res_Inr ok_or_Inr replace_cache_def list_ex_iff
      projection_validate_name_iff dismissed_node_def health_snapshot_def cache_saved_def not_le
      split: sum.splits if_splits option.splits)

lemma dismissed_node_ok:
  assumes "cached_node_ok env n" and "name_ok i" and "i \<notin> set (cn_dismissed_shell_ids n)"
    and "length (cn_dismissed_shell_ids n) < max_dismissed_shells_per_node"
  shows "cached_node_ok env (dismissed_node i n)"
  using assms by (auto simp: cached_node_ok_def dismissed_node_def list_all_iff)

definition restored_node :: "cached_node \<Rightarrow> cached_node" where
  "restored_node n = n\<lparr>cn_dismissed_shell_ids := []\<rparr>"

lemma restore_dismissed_cases:
  assumes "restore_dismissed_shells env r c = (res, c')"
  shows "c' = c \<and> (\<forall>h. res \<noteq> Inr (h, True)) \<or> (\<exists>i. position (same_registration r) (cs_nodes (cache_mem c)) = Some i
      \<and> res = Inr (health_snapshot (cs_nodes (cache_mem c) ! i), True)
      \<and> c' = cache_saved ((cache_mem c)\<lparr>cs_nodes := (cs_nodes (cache_mem c))
              [i := restored_node (cs_nodes (cache_mem c) ! i)]\<rparr>) c)"
  using assms
  by (auto simp: restore_dismissed_shells_def Let_def ok_or_Inr replace_cache_def restored_node_def
      health_snapshot_def cache_saved_def split: sum.splits if_splits)

lemma restored_node_ok: "cached_node_ok env n \<Longrightarrow> cached_node_ok env (restored_node n)"
  by (simp add: cached_node_ok_def restored_node_def)

section \<open>The cache is a durable store\<close>

lemma cache_outcome_eq:
  "cache_outcome x = (e, c') \<longleftrightarrow>
     (\<exists>r. x = (r, c') \<and> e = (case r of Inl d \<Rightarrow> Some d | Inr _ \<Rightarrow> None))"
  by (cases x) (auto simp: cache_outcome_def split: sum.splits)

definition cache_change :: "cache_env \<Rightarrow> projection_cache \<Rightarrow> 'r res \<Rightarrow> projection_cache \<Rightarrow> bool" where
  "cache_change env c r c' \<longleftrightarrow>
     c' = c
     \<or> \<not> isl r \<and> cache_disk c' = Some (cache_mem c')
       \<and> (cache_ok env (cache_mem c) \<longrightarrow> cache_ok env (cache_mem c'))"

lemma commit_change:
  assumes "commit_projection env r g ob c = (res, c')"
  shows "cache_change env c res c'"
proof (cases "\<exists>x. res = Inr (Some x)")
  case False
  then show ?thesis using commit_projection_quiet [OF assms] by (simp add: cache_change_def)
next
  case True
  then obtain x where x: "res = Inr (Some x)" by blast
  have "cache_disk c' = Some (cache_mem c')"
    using commit_projection_Some [OF assms [unfolded x]] by auto
  then show ?thesis using commit_projection_ok [OF assms [unfolded x]] x by (simp add: cache_change_def)
qed

lemma mark_change:
  assumes "mark_health env r g h a t c = (res, c')"
  shows "cache_change env c res c'"
proof (cases "\<exists>x. res = Inr (Some x)")
  case False
  then show ?thesis using mark_health_quiet [OF assms] by (simp add: cache_change_def)
next
  case True
  then obtain x where x: "res = Inr (Some x)" by blast
  have "cache_disk c' = Some (cache_mem c')"
    using mark_health_Some [OF assms [unfolded x]] by auto
  then show ?thesis using mark_health_ok [OF assms [unfolded x]] x by (simp add: cache_change_def)
qed

lemma claim_change:
  assumes "claim_notifications env r cur claims digest c = (res, c')"
  shows "cache_change env c res c'"
proof (cases "\<exists>x. res = Inr (Some x)")
  case False
  then show ?thesis using claim_notifications_quiet [OF assms] by (simp add: cache_change_def)
next
  case True
  then obtain accepted d where res: "res = Inr (Some (accepted, d))" by auto
  have "c' = c \<or> cache_disk c' = Some (cache_mem c')"
    using claim_notifications_Some [of env r cur claims digest c accepted d c'] assms res
    by (auto split: if_splits)
  then show ?thesis
    using claim_notifications_ok [of env r cur claims digest c accepted d c'] assms res
    by (auto simp: cache_change_def)
qed

lemma remove_change: "cache_remove env node_id c = (res, c') \<Longrightarrow> cache_change env c res c'"
  by (drule cache_remove_cases) (auto simp: cache_change_def cache_ok_filter)

lemma update_at_ok:
  assumes "position P (cs_nodes st) = Some i" and "cache_ok env st"
    and "cached_node_ok env (f (cs_nodes st ! i))" and "cn_node_id (f (cs_nodes st ! i)) = cn_node_id (cs_nodes st ! i)"
  shows "cache_ok env (st\<lparr>cs_nodes := (cs_nodes st)[i := f (cs_nodes st ! i)]\<rparr>)"
  using cache_ok_update [OF assms(2) _ assms(3,4)] position_SomeD [OF assms(1)] by blast

lemma dismiss_change:
  assumes "dismiss_shell env r shell_id c = (res, c')"
  shows "cache_change env c res c'"
proof (cases "c' = c")
  case True
  then show ?thesis by (simp add: cache_change_def)
next
  case False
  then obtain i where i: "position (same_registration r) (cs_nodes (cache_mem c)) = Some i"
    and node: "name_ok shell_id" "shell_id \<notin> set (cn_dismissed_shell_ids (cs_nodes (cache_mem c) ! i))"
      "length (cn_dismissed_shell_ids (cs_nodes (cache_mem c) ! i)) < max_dismissed_shells_per_node"
    and res: "res = Inr (health_snapshot (cs_nodes (cache_mem c) ! i), True)"
    and c': "c' = cache_saved ((cache_mem c)\<lparr>cs_nodes := (cs_nodes (cache_mem c))
              [i := dismissed_node shell_id (cs_nodes (cache_mem c) ! i)]\<rparr>) c"
    using dismiss_shell_cases [OF assms] by blast
  have "cache_ok env (cache_mem c')" if ok: "cache_ok env (cache_mem c)"
  proof -
    have "i < length (cs_nodes (cache_mem c))" using position_SomeD [OF i] by blast
    then show ?thesis
      unfolding c' cache_saved_simps
      by (intro update_at_ok [OF i ok] dismissed_node_ok [OF cache_nodes_ok [OF ok] node])
        (simp_all add: dismissed_node_def)
  qed
  then show ?thesis using res c' by (simp add: cache_change_def)
qed

lemma restore_change:
  assumes "restore_dismissed_shells env r c = (res, c')"
  shows "cache_change env c res c'"
proof (cases "c' = c")
  case True
  then show ?thesis by (simp add: cache_change_def)
next
  case False
  then obtain i where i: "position (same_registration r) (cs_nodes (cache_mem c)) = Some i"
    and res: "res = Inr (health_snapshot (cs_nodes (cache_mem c) ! i), True)"
    and c': "c' = cache_saved ((cache_mem c)\<lparr>cs_nodes := (cs_nodes (cache_mem c))
              [i := restored_node (cs_nodes (cache_mem c) ! i)]\<rparr>) c"
    using restore_dismissed_cases [OF assms] by blast
  have "cache_ok env (cache_mem c')" if ok: "cache_ok env (cache_mem c)"
  proof -
    have "i < length (cs_nodes (cache_mem c))" using position_SomeD [OF i] by blast
    then show ?thesis
      unfolding c' cache_saved_simps
      by (intro update_at_ok [OF i ok] restored_node_ok [OF cache_nodes_ok [OF ok]])
        (simp_all add: restored_node_def)
  qed
  then show ?thesis using res c' by (simp add: cache_change_def)
qed

lemmas method_changes = commit_change mark_change claim_change remove_change dismiss_change restore_change

lemma outcome_change:
  assumes "cache_outcome x = (e, c')" and "\<And>r. x = (r, c') \<Longrightarrow> cache_change env c r c'"
  shows "c' = c \<or> e = None \<and> cache_disk c' = Some (cache_mem c')
    \<and> (cache_ok env (cache_mem c) \<longrightarrow> cache_ok env (cache_mem c'))"
proof -
  obtain r where r: "x = (r, c')" "e = (case r of Inl d \<Rightarrow> Some d | Inr _ \<Rightarrow> None)"
    using assms(1) by (auto simp: cache_outcome_eq)
  then show ?thesis using assms(2) [OF r(1)] by (cases r) (auto simp: cache_change_def)
qed

lemma cache_exec_change:
  assumes "cache_exec env cmd c = (e, c')"
  shows "c' = c \<or> e = None \<and> cache_disk c' = Some (cache_mem c')
    \<and> (cache_ok env (cache_mem c) \<longrightarrow> cache_ok env (cache_mem c'))"
  using assms
  by (cases cmd) (simp_all only: cache_exec.simps, (erule outcome_change, erule method_changes)+)

interpretation cache_durable: durable_store "cache_exec env" cache_mem cache_disk "cache_ok env" "\<lambda>_. True"
  for env
proof
  fix c c' :: projection_cache and cmd :: projection_command and e :: io_error
  show "cache_mem c' = cache_mem c \<and> cache_disk c' = cache_disk c"
    if "cache_exec env cmd c = (Some e, c')"
    using cache_exec_change [OF that] by auto
  show "cache_disk c' = Some (cache_mem c') \<or> cache_mem c' = cache_mem c \<and> cache_disk c' = cache_disk c"
    if "cache_exec env cmd c = (None, c')"
    using cache_exec_change [OF that] by auto
  show "cache_ok env (cache_mem c')"
    if "cache_ok env (cache_mem c)" "cache_exec env cmd c = (None, c')"
    using cache_exec_change [OF that(2)] that(1) by auto
qed simp_all

end
