(* ===== verification/Projection_Lookup.thy ===== *)
theory Projection_Lookup
  imports Projection_Commands
begin

text \<open>
  What a lookup by Node finds after each method of the projection cache, and the generation that
  guards commits: two workers that observed a Node at the same generation cannot both commit.
\<close>

section \<open>Lookup by Node\<close>

lemma find_filter: "List.find P xs = (case filter P xs of [] \<Rightarrow> None | x # _ \<Rightarrow> Some x)"
  by (induction xs) auto

text \<open>The sort is stable, so the first entry of a Node stays the first.\<close>

lemma find_sort_key: "List.find (\<lambda>x. f x = k) (sort_key f xs) = List.find (\<lambda>x. f x = k) xs"
  by (simp add: find_filter sort_key_stable)

lemma find_cached_sort [simp]: "find_cached (sort_nodes st) k = find_cached st k"
  by (simp add: find_cached_def sort_nodes_def find_sort_key)

lemma current_of_find: "find_cached st (nr_node_id r) = map_option (\<lambda>i. cs_nodes st ! i) (current_of r st)"
  by (auto simp: find_cached_def current_of_def find_position split: option.splits)

definition current_entry :: "node_registration_snapshot \<Rightarrow> cache_state \<Rightarrow> cached_node option" where
  "current_entry r st =
     opt_filter (\<lambda>n. cn_tombstone_epoch n = nr_tombstone_epoch r) (find_cached st (nr_node_id r))"

lemma same_epoch_entry: "map_option (\<lambda>i. cs_nodes st ! i) (same_epoch r st) = current_entry r st"
  by (cases "current_of r st")
    (auto simp: same_epoch_def current_entry_def current_of_find opt_filter_def)

lemma actual_generation_entry:
  "actual_generation r st = (case current_entry r st of Some n \<Rightarrow> cn_generation n | None \<Rightarrow> 0)"
  by (cases "same_epoch r st") (simp_all add: actual_generation_def flip: same_epoch_entry)

lemma cache_view_entry:
  "cache_view c r = (case current_entry r (cache_mem c) of
      Some n \<Rightarrow> \<lparr>pv_health = health_snapshot n, pv_projection = visible_projection n\<rparr>
    | None \<Rightarrow> \<lparr>pv_health = unobserved_health, pv_projection = None\<rparr>)"
  by (simp add: cache_view_def current_entry_def)

lemma find_cached_place:
  assumes "place_node msg (current_of r st) n st = Inr placed" and "cn_node_id n = nr_node_id r"
  shows "find_cached placed k = (if k = nr_node_id r then Some n else find_cached st k)"
proof (cases "current_of r st")
  case None
  then have absent: "List.find (\<lambda>n. cn_node_id n = nr_node_id r) (cs_nodes st) = None"
    using current_of_find [of st r] by (simp add: find_cached_def)
  have "List.find P (xs @ [n]) = (case List.find P xs of Some x \<Rightarrow> Some x | None \<Rightarrow> if P n then Some n else None)"
    for P :: "cached_node \<Rightarrow> bool" and xs
    by (induction xs) auto
  then show ?thesis
    using assms absent None
    by (auto simp: place_node_def find_cached_def split: if_splits option.splits)
next
  case (Some i)
  let ?p = "\<lambda>n. cn_node_id n = nr_node_id r"
  have "cs_nodes placed = update_first ?p (\<lambda>_. n) (cs_nodes st)"
    using assms(1) Some update_first_position [of ?p "cs_nodes st" i "\<lambda>_. n"]
    by (auto simp: place_node_def current_of_def)
  moreover have "List.find ?p (update_first ?p (\<lambda>_. n) (cs_nodes st)) = Some n"
    using Some current_of_find [of st r] assms(2)
    by (auto simp: find_cached_def intro: find_update_first_same)
  moreover have "List.find (\<lambda>n. cn_node_id n = k) (update_first ?p (\<lambda>_. n) (cs_nodes st))
      = List.find (\<lambda>n. cn_node_id n = k) (cs_nodes st)" if "k \<noteq> nr_node_id r"
    using that assms(2) by (intro find_update_first_other) auto
  ultimately show ?thesis by (simp add: find_cached_def)
qed

lemma find_cached_update:
  assumes "distinct (map cn_node_id (cs_nodes st))" and "i < length (cs_nodes st)"
    and "cn_node_id n = cn_node_id (cs_nodes st ! i)"
  shows "find_cached (st\<lparr>cs_nodes := (cs_nodes st)[i := n]\<rparr>) k
    = (if k = cn_node_id n then Some n else find_cached st k)"
proof -
  have keys: "map cn_node_id ((cs_nodes st)[i := n]) = map cn_node_id (cs_nodes st)"
    using assms(2,3) by (metis list_update_id map_update)
  show ?thesis
  proof (cases "k = cn_node_id n")
    case True
    have "n \<in> set ((cs_nodes st)[i := n])" using assms(2) by (simp add: set_update_memI)
    then have "List.find (\<lambda>m. cn_node_id m = cn_node_id n) ((cs_nodes st)[i := n]) = Some n"
      using assms(1) keys by (intro find_unique) simp_all
    then show ?thesis using True by (simp add: find_cached_def)
  next
    case False
    have "List.find (\<lambda>m. cn_node_id m = k) (xs[j := n]) = List.find (\<lambda>m. cn_node_id m = k) xs"
      if "j < length xs" "cn_node_id (xs ! j) \<noteq> k" for j and xs :: "cached_node list"
      using that False
    proof (induction xs arbitrary: j)
      case (Cons x xs)
      then show ?case by (cases j) auto
    qed simp
    then show ?thesis using False assms(2,3) by (simp add: find_cached_def)
  qed
qed

lemma position_same_registration:
  assumes "distinct (map cn_node_id (cs_nodes st))"
    and "position (\<lambda>n. same_registration r n \<and> P n) (cs_nodes st) = Some i"
  shows "i < length (cs_nodes st) \<and> current_entry r st = Some (cs_nodes st ! i)
    \<and> cn_node_id (cs_nodes st ! i) = nr_node_id r \<and> P (cs_nodes st ! i)"
proof -
  have i: "i < length (cs_nodes st)" "same_registration r (cs_nodes st ! i)" "P (cs_nodes st ! i)"
    using position_SomeD [OF assms(2)] by auto
  have "find_cached st (cn_node_id (cs_nodes st ! i)) = Some (cs_nodes st ! i)"
    unfolding find_cached_def by (rule find_unique [OF assms(1) nth_mem [OF i(1)]])
  then show ?thesis using i by (auto simp: current_entry_def same_registration_def)
qed

lemma cursor_and_generation_entry:
  assumes "distinct (map cn_node_id (cs_nodes (cache_mem c)))"
  shows "cursor_and_generation c r = (case current_entry r (cache_mem c) of
      Some n \<Rightarrow> (cn_cursor n, cn_generation n) | None \<Rightarrow> (None, 0))"
proof -
  have "List.find (same_registration r) (cs_nodes (cache_mem c)) = current_entry r (cache_mem c)"
  proof (cases "position (same_registration r) (cs_nodes (cache_mem c))")
    case None
    then have "List.find (\<lambda>n. cn_node_id n = nr_node_id r) (cs_nodes (cache_mem c)) = Some n \<Longrightarrow>
        cn_tombstone_epoch n \<noteq> nr_tombstone_epoch r" for n
      by (auto simp: position_None_iff same_registration_def dest!: find_Some_mem)
    then have "current_entry r (cache_mem c) = None"
      by (auto simp: current_entry_def find_cached_def opt_filter_None)
    then show ?thesis using None by (simp add: find_position)
  next
    case (Some i)
    then show ?thesis
      using position_same_registration [OF assms, of r "\<lambda>_. True" i] by (simp add: find_position)
  qed
  then show ?thesis by (simp add: cursor_and_generation_def)
qed

section \<open>Lookup after a method\<close>

lemma commit_projection_lookup:
  assumes "commit_projection env r g ob c = (Inr (Some result), c')"
  shows "find_cached (cache_mem c') k =
    (if k = nr_node_id r then Some (observed_node r (pc_generation result) ob (current_entry r (cache_mem c)))
     else find_cached (cache_mem c) k)"
proof -
  obtain placed where p: "place_node ''Node cache registration limit reached'' (current_of r (cache_mem c))
       (observed_node r (pc_generation result) ob
            (map_option (\<lambda>i. cs_nodes (cache_mem c) ! i) (same_epoch r (cache_mem c)))) (cache_mem c) = Inr placed"
    "c' = cache_saved (sort_nodes placed) c"
    using commit_projection_Some [OF assms] by blast
  have "cn_node_id (observed_node r g' ob old) = nr_node_id r" for g' old
    by (simp add: observed_node_def Let_def)
  from find_cached_place [OF p(1) this] show ?thesis using p(2) by (simp only: same_epoch_entry cache_saved_simps find_cached_sort)
qed

lemma mark_health_lookup:
  assumes "mark_health env r g h a t c = (Inr (Some g'), c')"
  shows "find_cached (cache_mem c') k =
    (if k = nr_node_id r then
       Some (marked_node r g' h a t
         (case find_cached (cache_mem c) (nr_node_id r) of
            Some n \<Rightarrow> n | None \<Rightarrow> unobserved_node r g' h a t))
     else find_cached (cache_mem c) k)"
proof -
  let ?n = "case current_of r (cache_mem c) of
              None \<Rightarrow> unobserved_node r g' h a t | Some i \<Rightarrow> cs_nodes (cache_mem c) ! i"
  obtain placed where p: "place_node ''Node cache limit reached'' (current_of r (cache_mem c))
       (marked_node r g' h a t ?n) (cache_mem c) = Inr placed"
    "c' = cache_saved (sort_nodes placed) c"
    using mark_health_Some [OF assms] by blast
  have n: "?n = (case find_cached (cache_mem c) (nr_node_id r) of
            Some n \<Rightarrow> n | None \<Rightarrow> unobserved_node r g' h a t)"
    by (simp add: current_of_find split: option.split)
  have "cn_node_id (marked_node r g' h a t ?n) = nr_node_id r"
    using current_of_Some [of r "cache_mem c"]
    by (auto simp: marked_node_def unobserved_node_def split: option.split)
  then show ?thesis using find_cached_place [OF p(1)] p(2) unfolding n by simp
qed

lemma cache_ok_distinct: "cache_ok env st \<Longrightarrow> distinct (map cn_node_id (cs_nodes st))"
  by (simp add: cache_ok_def)

lemma lookup_after_update:
  assumes "cache_ok env (cache_mem c)" and "current_entry r (cache_mem c) = Some (cs_nodes (cache_mem c) ! i)"
    and "i < length (cs_nodes (cache_mem c))" and "cn_node_id (cs_nodes (cache_mem c) ! i) = nr_node_id r"
    and "cn_node_id (f (cs_nodes (cache_mem c) ! i)) = cn_node_id (cs_nodes (cache_mem c) ! i)"
  shows "find_cached ((cache_mem c)\<lparr>cs_nodes := (cs_nodes (cache_mem c))[i := f (cs_nodes (cache_mem c) ! i)]\<rparr>) k
    = (if k = nr_node_id r then Some (f (cs_nodes (cache_mem c) ! i)) else find_cached (cache_mem c) k)"
  using find_cached_update [OF cache_ok_distinct [OF assms(1)] assms(3,5)] assms(4,5) by simp

lemma claim_notifications_lookup:
  assumes "claim_notifications env r cur claims digest c = (Inr (Some (accepted, d)), c')"
    and "cache_ok env (cache_mem c)"
  shows "\<exists>n known. current_entry r (cache_mem c) = Some n \<and> cn_cursor n = Some cur
    \<and> claim_each (cn_notification_claims n) claims = (accepted, known) \<and> d = digest_accepted digest n
    \<and> (\<forall>k. find_cached (cache_mem c') k =
          (if k = nr_node_id r \<and> ((\<exists>a \<in> set accepted. a) \<or> d) then Some (claimed_node known digest n)
           else find_cached (cache_mem c) k))"
proof -
  let ?nodes = "cs_nodes (cache_mem c)"
  obtain i known where p: "position (\<lambda>n. same_registration r n \<and> cn_cursor n = Some cur) ?nodes = Some i"
    "claim_each (cn_notification_claims (?nodes ! i)) claims = (accepted, known)"
    "d = digest_accepted digest (?nodes ! i)"
    "if (\<exists>a \<in> set accepted. a) \<or> d
     then c' = cache_saved ((cache_mem c)\<lparr>cs_nodes := ?nodes[i := claimed_node known digest (?nodes ! i)]\<rparr>) c
     else c' = c"
    using claim_notifications_Some [OF assms(1)] by blast
  note at = position_same_registration [OF cache_ok_distinct [OF assms(2)] p(1)]
  have "find_cached (cache_mem c') k =
      (if k = nr_node_id r \<and> ((\<exists>a \<in> set accepted. a) \<or> d) then Some (claimed_node known digest (?nodes ! i))
       else find_cached (cache_mem c) k)" for k
  proof (cases "(\<exists>a \<in> set accepted. a) \<or> d")
    case True
    have "cn_node_id (claimed_node known digest (?nodes ! i)) = cn_node_id (?nodes ! i)"
      by (simp add: claimed_node_def)
    with True p(4) at show ?thesis
      using lookup_after_update [OF assms(2), of r i "claimed_node known digest" k] by simp
  next
    case False
    then have "c' = c" using p(4) by (simp only: if_False)
    with False show ?thesis by auto
  qed
  with at p(2,3) show ?thesis by blast
qed

lemma dismiss_shell_lookup:
  assumes "dismiss_shell env r shell_id c = (res, c')" and "cache_ok env (cache_mem c)"
  shows "c' = c \<and> (\<forall>h. res \<noteq> Inr (h, True)) \<or> (\<exists>n p. current_entry r (cache_mem c) = Some n \<and> cn_projection n = Some p
    \<and> cn_health n \<noteq> HcOnline \<and> shell_id \<in> ps_id ` set (np_shells p)
    \<and> res = Inr (health_snapshot n, True)
    \<and> (\<forall>k. find_cached (cache_mem c') k =
          (if k = nr_node_id r then Some (dismissed_node shell_id n) else find_cached (cache_mem c) k)))"
proof (cases "c' = c \<and> (\<forall>h. res \<noteq> Inr (h, True))")
  case False
  let ?nodes = "cs_nodes (cache_mem c)"
  obtain i p where p: "position (same_registration r) ?nodes = Some i" "cn_projection (?nodes ! i) = Some p"
    "cn_health (?nodes ! i) \<noteq> HcOnline" "shell_id \<in> ps_id ` set (np_shells p)"
    "res = Inr (health_snapshot (?nodes ! i), True)"
    "c' = cache_saved ((cache_mem c)\<lparr>cs_nodes := ?nodes[i := dismissed_node shell_id (?nodes ! i)]\<rparr>) c"
    using dismiss_shell_cases [OF assms(1)] False by blast
  note at = position_same_registration [OF cache_ok_distinct [OF assms(2)], of r "\<lambda>_. True" i]
  have "cn_node_id (dismissed_node shell_id (?nodes ! i)) = cn_node_id (?nodes ! i)"
    by (simp add: dismissed_node_def)
  then have "find_cached (cache_mem c') k =
      (if k = nr_node_id r then Some (dismissed_node shell_id (?nodes ! i)) else find_cached (cache_mem c) k)" for k
    using at p(1,6) lookup_after_update [OF assms(2), of r i "dismissed_node shell_id" k] by simp
  with at p show ?thesis by auto
qed simp

lemma restore_dismissed_lookup:
  assumes "restore_dismissed_shells env r c = (res, c')" and "cache_ok env (cache_mem c)"
  shows "c' = c \<and> (\<forall>h. res \<noteq> Inr (h, True)) \<or> (\<exists>n. current_entry r (cache_mem c) = Some n \<and> res = Inr (health_snapshot n, True)
    \<and> (\<forall>k. find_cached (cache_mem c') k =
          (if k = nr_node_id r then Some (restored_node n) else find_cached (cache_mem c) k)))"
proof (cases "c' = c \<and> (\<forall>h. res \<noteq> Inr (h, True))")
  case False
  let ?nodes = "cs_nodes (cache_mem c)"
  obtain i where p: "position (same_registration r) ?nodes = Some i"
    "res = Inr (health_snapshot (?nodes ! i), True)"
    "c' = cache_saved ((cache_mem c)\<lparr>cs_nodes := ?nodes[i := restored_node (?nodes ! i)]\<rparr>) c"
    using restore_dismissed_cases [OF assms(1)] False by blast
  note at = position_same_registration [OF cache_ok_distinct [OF assms(2)], of r "\<lambda>_. True" i]
  have "cn_node_id (restored_node (?nodes ! i)) = cn_node_id (?nodes ! i)"
    by (simp add: restored_node_def)
  then have "find_cached (cache_mem c') k =
      (if k = nr_node_id r then Some (restored_node (?nodes ! i)) else find_cached (cache_mem c) k)" for k
    using at p(1,3) lookup_after_update [OF assms(2), of r i restored_node k] by simp
  with at p show ?thesis by auto
qed simp

lemma cache_remove_lookup:
  assumes "cache_remove env node_id c = (Inr x, c')"
  shows "find_cached (cache_mem c') k = (if k = node_id then None else find_cached (cache_mem c) k)"
proof -
  have find: "List.find (\<lambda>n. cn_node_id n = k) (filter (\<lambda>n. cn_node_id n \<noteq> node_id) ns)
      = (if k = node_id then None else List.find (\<lambda>n. cn_node_id n = k) ns)" for ns
    by (induction ns) auto
  have gone: "find_cached (st\<lparr>cs_nodes := filter (\<lambda>n. cn_node_id n \<noteq> node_id) (cs_nodes st)\<rparr>) k
      = (if k = node_id then None else find_cached st k)" for st
  proof -
    have "cs_nodes (st\<lparr>cs_nodes := ns\<rparr>) = ns" for ns by simp
    then show ?thesis unfolding find_cached_def by (simp only: find)
  qed
  have "cache_mem c' = (cache_mem c)\<lparr>cs_nodes := filter (\<lambda>n. cn_node_id n \<noteq> node_id) (cs_nodes (cache_mem c))\<rparr>"
  proof (cases "length (filter (\<lambda>n. cn_node_id n \<noteq> node_id) (cs_nodes (cache_mem c))) = length (cs_nodes (cache_mem c))")
    case True
    then have "\<forall>n \<in> set (cs_nodes (cache_mem c)). cn_node_id n \<noteq> node_id"
      using length_filter_less [of _ "cs_nodes (cache_mem c)" "\<lambda>n. cn_node_id n \<noteq> node_id"] by force
    then have "filter (\<lambda>n. cn_node_id n \<noteq> node_id) (cs_nodes (cache_mem c)) = cs_nodes (cache_mem c)"
      by (rule filter_True)
    then show ?thesis using assms by (simp add: cache_remove_def Let_def)
  next
    case False
    then show ?thesis using assms by (simp add: cache_remove_def Let_def replace_cache_iffs)
  qed
  then show ?thesis using gone by simp
qed

section \<open>Commits are guarded by the generation\<close>

datatype observation_outcome =
    Observed projection_observation
  | Failed node_projection_health_code u64 "u64 option"

definition cache_advance ::
    "cache_env \<Rightarrow> node_registration_snapshot \<Rightarrow> u64 \<Rightarrow> observation_outcome \<Rightarrow> projection_cache
      \<Rightarrow> projection_cache option" where
  "cache_advance env r expected x c =
     (case x of
        Observed ob \<Rightarrow>
          (case commit_projection env r expected ob c of (Inr (Some _), c') \<Rightarrow> Some c' | _ \<Rightarrow> None)
      | Failed h a t \<Rightarrow>
          (case mark_health env r expected h a t c of (Inr (Some _), c') \<Rightarrow> Some c' | _ \<Rightarrow> None))"

lemma commit_generation:
  assumes "commit_projection env r g ob c = (Inr (Some result), c')"
  shows "actual_generation r (cache_mem c) = g \<and> u64_checked_add g 1 = Some (actual_generation r (cache_mem c'))
    \<and> pc_generation result = actual_generation r (cache_mem c')"
  using commit_projection_lookup [OF assms, of "nr_node_id r"] commit_projection_Some [OF assms]
  by (auto simp: actual_generation_entry current_entry_def opt_filter_def observed_node_def Let_def)

lemma mark_generation:
  assumes "mark_health env r g h a t c = (Inr (Some g'), c')"
  shows "actual_generation r (cache_mem c) = g \<and> u64_checked_add g 1 = Some (actual_generation r (cache_mem c'))
    \<and> g' = actual_generation r (cache_mem c')"
  using mark_health_lookup [OF assms, of "nr_node_id r"] mark_health_Some [OF assms]
  by (auto simp: actual_generation_entry current_entry_def opt_filter_def marked_node_def)

lemma cache_advance_generation:
  assumes "cache_advance env r g x c = Some c'"
  shows "actual_generation r (cache_mem c) = g \<and> u64_checked_add g 1 = Some (actual_generation r (cache_mem c'))"
  using assms commit_generation mark_generation
  by (cases x) (auto simp: cache_advance_def split: prod.splits sum.splits option.splits)

interpretation cache_generation: revision_guarded "cache_advance env r" "\<lambda>c. actual_generation r (cache_mem c)"
  for env r
  using cache_advance_generation u64_checked_add_one_less by unfold_locales blast+

end
