(* ===== verification/Projection_Claims.thy ===== *)
theory Projection_Claims
  imports Projection_Lookup
begin

text \<open>
  The log of notification claims of one registration: how long a claim is remembered. A claim is
  forgotten only when the log overflows, so it stays as long as fewer than 512 newer claims have
  been made, whatever else happens to the cache while the registration is kept.
\<close>

definition keeps_registration :: "node_registration_snapshot \<Rightarrow> projection_command \<Rightarrow> bool" where
  "keeps_registration r cmd \<longleftrightarrow>
     (case cmd of
        CacheCommit r' _ _ \<Rightarrow> nr_node_id r' = nr_node_id r \<longrightarrow> nr_tombstone_epoch r' = nr_tombstone_epoch r
      | CacheMark r' _ _ _ _ \<Rightarrow> nr_node_id r' = nr_node_id r \<longrightarrow> nr_tombstone_epoch r' = nr_tombstone_epoch r
      | CacheRemove node_id \<Rightarrow> node_id \<noteq> nr_node_id r
      | _ \<Rightarrow> True)"

definition claim_cost :: "node_registration_snapshot \<Rightarrow> projection_command \<Rightarrow> nat" where
  "claim_cost r cmd =
     (case cmd of CacheClaim r' _ claims _ \<Rightarrow> (if nr_node_id r' = nr_node_id r then length claims else 0)
      | _ \<Rightarrow> 0)"

text \<open>\<open>x\<close> is in the log of \<open>r\<close> and stays there for \<open>k\<close> more claims.\<close>

definition remembered_for :: "nat \<Rightarrow> remote_notification_claim \<Rightarrow> remote_notification_claim list \<Rightarrow> bool" where
  "remembered_for k x log \<longleftrightarrow>
     (\<exists>pre post. log = pre @ x # post \<and> length post + k < max_notification_claims_per_node)"

definition remembers ::
    "node_registration_snapshot \<Rightarrow> nat \<Rightarrow> remote_notification_claim \<Rightarrow> projection_cache \<Rightarrow> bool" where
  "remembers r k x c \<longleftrightarrow>
     (\<exists>n. current_entry r (cache_mem c) = Some n \<and> remembered_for k x (cn_notification_claims n))"

lemma remembered_forI:
  "log = pre @ x # post \<Longrightarrow> length post + k < max_notification_claims_per_node \<Longrightarrow> remembered_for k x log"
  unfolding remembered_for_def by blast

lemma remembered_for_mono: "remembered_for k x log \<Longrightarrow> j \<le> k \<Longrightarrow> remembered_for j x log"
  unfolding remembered_for_def by fastforce

lemma remembers_mono: "remembers r k x c \<Longrightarrow> j \<le> k \<Longrightarrow> remembers r j x c"
  unfolding remembers_def using remembered_for_mono by blast

lemma remembered_for_mem: "remembered_for k x log \<Longrightarrow> x \<in> set log"
  by (auto simp: remembered_for_def)

lemma remembered_for_claims:
  assumes "remembered_for (n + k) x log" and "length new \<le> n"
  shows "remembered_for k x (keep_newest max_notification_claims_per_node (log @ new))"
proof -
  obtain pre post where log: "log = pre @ x # post" "length post + (n + k) < max_notification_claims_per_node"
    using assms(1) by (auto simp: remembered_for_def)
  let ?d = "length (log @ new) - max_notification_claims_per_node"
  have "drop ?d (log @ new) = drop ?d pre @ x # post @ new"
    using log assms(2) by simp
  moreover have "length (post @ new) + k < max_notification_claims_per_node"
    using log(2) assms(2) by simp
  moreover have "keep_newest max_notification_claims_per_node (log @ new) = drop ?d (log @ new)"
    by (simp add: keep_newest_def)
  ultimately show ?thesis by (intro remembered_forI [of _ "drop ?d pre" _ "post @ new"]) simp_all
qed

lemma remembers_commit:
  assumes "commit_projection env r' g ob c = (res, c')" and "remembers r k x c"
    and "nr_node_id r' = nr_node_id r \<longrightarrow> nr_tombstone_epoch r' = nr_tombstone_epoch r"
  shows "remembers r k x c'"
proof (cases "\<exists>result. res = Inr (Some result)")
  case False
  then show ?thesis using commit_projection_quiet [OF assms(1)] assms(2) by simp
next
  case True
  then obtain result where commit: "commit_projection env r' g ob c = (Inr (Some result), c')"
    using assms(1) by blast
  show ?thesis
  proof (cases "nr_node_id r' = nr_node_id r")
    case True
    then have "current_entry r' = current_entry r" using assms(3) by (simp add: current_entry_def fun_eq_iff)
    with True assms(2,3) commit_projection_lookup [OF commit, of "nr_node_id r"] show ?thesis
      by (auto simp: remembers_def current_entry_def observed_node_def Let_def opt_filter_def)
  next
    case False
    then show ?thesis
      using assms(2) commit_projection_lookup [OF commit, of "nr_node_id r"]
      by (simp add: remembers_def current_entry_def)
  qed
qed

lemma remembers_mark:
  assumes "mark_health env r' g h a t c = (res, c')" and "remembers r k x c"
    and "nr_node_id r' = nr_node_id r \<longrightarrow> nr_tombstone_epoch r' = nr_tombstone_epoch r"
  shows "remembers r k x c'"
proof (cases "\<exists>g'. res = Inr (Some g')")
  case False
  then show ?thesis using mark_health_quiet [OF assms(1)] assms(2) by simp
next
  case True
  then obtain g' where mark: "mark_health env r' g h a t c = (Inr (Some g'), c')"
    using assms(1) by blast
  show ?thesis
    using assms(2,3) mark_health_lookup [OF mark, of "nr_node_id r"]
    by (auto simp: remembers_def current_entry_def opt_filter_def marked_node_def split: if_splits option.splits)
qed

lemma remembers_claim:
  assumes "claim_notifications env r' cur claims digest c = (res, c')" and "cache_ok env (cache_mem c)"
    and "remembers r ((if nr_node_id r' = nr_node_id r then length claims else 0) + k) x c"
  shows "remembers r k x c'"
proof (cases "\<exists>y. res = Inr (Some y)")
  case False
  then have "c' = c" using claim_notifications_quiet [OF assms(1)] by blast
  then show ?thesis using remembers_mono [OF assms(3)] by simp
next
  case True
  then obtain accepted d where run: "claim_notifications env r' cur claims digest c = (Inr (Some (accepted, d)), c')"
    using assms(1) by fastforce
  obtain n known where n: "current_entry r' (cache_mem c) = Some n"
    "claim_each (cn_notification_claims n) claims = (accepted, known)"
    and look: "\<And>k. find_cached (cache_mem c') k =
          (if k = nr_node_id r' \<and> ((\<exists>a \<in> set accepted. a) \<or> d) then Some (claimed_node known digest n)
           else find_cached (cache_mem c) k)"
    using claim_notifications_lookup [OF run assms(2)] by blast
  obtain new where known: "known = cn_notification_claims n @ new" "length new \<le> length claims"
    using claim_each_known [OF n(2)] by blast
  show ?thesis
  proof (cases "nr_node_id r' = nr_node_id r \<and> ((\<exists>a \<in> set accepted. a) \<or> d)")
    case True
    obtain m where m: "current_entry r (cache_mem c) = Some m" "remembered_for (length claims + k) x (cn_notification_claims m)"
      using assms(3) True by (auto simp: remembers_def)
    have "m = n" using m(1) n(1) True by (simp add: current_entry_def)
    moreover have "cn_tombstone_epoch n = nr_tombstone_epoch r" using m(1) \<open>m = n\<close> by (simp add: current_entry_def)
    ultimately have "current_entry r (cache_mem c') = Some (claimed_node known digest n)"
      using look [of "nr_node_id r"] True by (simp add: current_entry_def claimed_node_def)
    moreover have "remembered_for k x (cn_notification_claims (claimed_node known digest n))"
      using remembered_for_claims [of "length claims" k x _ new] m(2) \<open>m = n\<close> known by (simp add: claimed_node_def)
    ultimately show ?thesis by (auto simp: remembers_def)
  next
    case False
    then have "find_cached (cache_mem c') (nr_node_id r) = find_cached (cache_mem c) (nr_node_id r)"
      using look [of "nr_node_id r"] by auto
    then have "current_entry r (cache_mem c') = current_entry r (cache_mem c)" by (simp add: current_entry_def)
    then show ?thesis using remembers_mono [OF assms(3)] by (simp add: remembers_def)
  qed
qed

lemma remembers_remove:
  assumes "cache_remove env node_id c = (res, c')" and "remembers r k x c" and "node_id \<noteq> nr_node_id r"
  shows "remembers r k x c'"
proof (cases res)
  case (Inl e)
  then show ?thesis
    using assms(1,2) cache_remove_cases [OF assms(1)] by auto
next
  case (Inr y)
  then show ?thesis
    using cache_remove_lookup [of env node_id c y c' "nr_node_id r"] assms by (simp add: remembers_def current_entry_def)
qed

text \<open>A dismissal or restoration does not touch the log of claims.\<close>

lemma remembers_replaced:
  assumes "remembers r k x c" and "current_entry r' (cache_mem c) = Some n"
    and "\<And>k. find_cached (cache_mem c') k = (if k = nr_node_id r' then Some m else find_cached (cache_mem c) k)"
    and "cn_notification_claims m = cn_notification_claims n" and "cn_tombstone_epoch m = cn_tombstone_epoch n"
  shows "remembers r k x c'"
  using assms by (auto simp: remembers_def current_entry_def)

lemma remembers_dismiss:
  assumes "dismiss_shell env r' i c = (res, c')" and "cache_ok env (cache_mem c)" and "remembers r k x c"
  shows "remembers r k x c'"
  using dismiss_shell_lookup [OF assms(1,2)]
proof (elim disjE exE conjE)
  assume "c' = c"
  with assms(3) show ?thesis by simp
qed (auto intro: remembers_replaced [OF assms(3)] simp: dismissed_node_def)

lemma remembers_restore:
  assumes "restore_dismissed_shells env r' c = (res, c')" and "cache_ok env (cache_mem c)" and "remembers r k x c"
  shows "remembers r k x c'"
  using restore_dismissed_lookup [OF assms(1,2)]
proof (elim disjE exE conjE)
  assume "c' = c"
  with assms(3) show ?thesis by simp
qed (auto intro: remembers_replaced [OF assms(3)] simp: restored_node_def)

lemma remembers_step:
  assumes "cache_ok env (cache_mem c)" and "remembers r (claim_cost r cmd + k) x c"
    and "keeps_registration r cmd"
  shows "remembers r k x (snd (cache_exec env cmd c))"
proof -
  obtain e c' where run: "cache_exec env cmd c = (e, c')" by (cases "cache_exec env cmd c")
  have "remembers r k x c'"
  proof (cases cmd)
    case (CacheCommit r' g ob)
    then show ?thesis
      using run assms by (auto simp: cache_outcome_eq keeps_registration_def claim_cost_def intro: remembers_commit)
  next
    case (CacheMark r' g h a t)
    then show ?thesis
      using run assms by (auto simp: cache_outcome_eq keeps_registration_def claim_cost_def intro: remembers_mark)
  next
    case (CacheClaim r' cur claims digest)
    then obtain res where "claim_notifications env r' cur claims digest c = (res, c')"
      using run by (auto simp: cache_outcome_eq)
    from remembers_claim [OF this assms(1)] show ?thesis
      using assms(2) CacheClaim by (simp add: claim_cost_def split: if_splits)
  next
    case (CacheRemove node_id)
    then show ?thesis
      using run assms by (auto simp: cache_outcome_eq keeps_registration_def claim_cost_def intro: remembers_remove)
  next
    case (CacheDismiss r' i)
    then show ?thesis
      using run assms by (auto simp: cache_outcome_eq claim_cost_def intro: remembers_dismiss)
  next
    case (CacheRestore r')
    then show ?thesis
      using run assms by (auto simp: cache_outcome_eq claim_cost_def intro: remembers_restore)
  qed
  then show ?thesis using run by simp
qed

lemma cache_ok_step: "cache_ok env (cache_mem c) \<Longrightarrow> cache_ok env (cache_mem (snd (cache_exec env cmd c)))"
  using cache_exec_change [of env cmd c "fst (cache_exec env cmd c)" "snd (cache_exec env cmd c)"] by auto

lemma remembers_fold:
  assumes "cache_ok env (cache_mem c)" and "remembers r (sum_list (map (claim_cost r) cmds) + k) x c"
    and "list_all (keeps_registration r) cmds"
  shows "remembers r k x (fold (\<lambda>cmd c. snd (cache_exec env cmd c)) cmds c)"
  using assms
proof (induction cmds arbitrary: c)
  case Nil
  then show ?case by simp
next
  case (Cons cmd cmds)
  have "remembers r (sum_list (map (claim_cost r) cmds) + k) x (snd (cache_exec env cmd c))"
    using Cons.prems by (intro remembers_step) (simp_all add: add.assoc)
  then show ?case using Cons.IH Cons.prems cache_ok_step by simp
qed

text \<open>A claim that was accepted is remembered, and one that is remembered is refused.\<close>

lemma accepted_remembered:
  assumes "claim_notifications env r cur claims digest c = (Inr (Some (accepted, d)), c')"
    and "cache_ok env (cache_mem c)" and "i < length claims" and "accepted ! i"
    and "length claims \<le> max_notification_claims_per_node"
  shows "remembers r (max_notification_claims_per_node - length claims) (claims ! i) c'"
proof -
  obtain n known where n: "current_entry r (cache_mem c) = Some n"
    "claim_each (cn_notification_claims n) claims = (accepted, known)"
    and look: "\<And>k. find_cached (cache_mem c') k =
          (if k = nr_node_id r \<and> ((\<exists>a \<in> set accepted. a) \<or> d) then Some (claimed_node known digest n)
           else find_cached (cache_mem c) k)"
    using claim_notifications_lookup [OF assms(1,2)] by blast
  obtain new where new: "known = cn_notification_claims n @ new" "length new \<le> length claims"
    "length accepted = length claims" "claims ! i \<in> set new"
    using claim_each_known [OF n(2)] assms(3,4) by blast
  have "\<exists>a \<in> set accepted. a" using assms(3,4) new(3) by (metis nth_mem)
  then have entry: "current_entry r (cache_mem c') = Some (claimed_node known digest n)"
    using look [of "nr_node_id r"] n(1) by (simp add: current_entry_def claimed_node_def)
  obtain pre post where split: "new = pre @ claims ! i # post" using new(4) by (auto simp: in_set_conv_decomp)
  let ?d = "length known - max_notification_claims_per_node"
  have "?d \<le> length (cn_notification_claims n @ pre)" using split new(1,2) assms(5) by simp
  then have "keep_newest max_notification_claims_per_node known
      = drop ?d (cn_notification_claims n @ pre) @ claims ! i # post"
    using new(1) split by (simp add: keep_newest_def)
  moreover have "length post + (max_notification_claims_per_node - length claims) < max_notification_claims_per_node"
    using split new(2) assms(5) by simp
  ultimately have "remembered_for (max_notification_claims_per_node - length claims) (claims ! i)
      (keep_newest max_notification_claims_per_node known)"
    by (rule remembered_forI)
  then have "remembered_for (max_notification_claims_per_node - length claims) (claims ! i)
      (cn_notification_claims (claimed_node known digest n))"
    by (simp add: claimed_node_def)
  then show ?thesis using entry by (auto simp: remembers_def)
qed

lemma remembered_refused:
  assumes "claim_notifications env r' cur claims digest c = (Inr (Some (accepted, d)), c')"
    and "cache_ok env (cache_mem c)" and "remembers r k x c" and "nr_node_id r' = nr_node_id r"
    and "i < length claims" and "claims ! i = x"
  shows "\<not> accepted ! i"
proof -
  obtain n known where n: "current_entry r' (cache_mem c) = Some n"
    "claim_each (cn_notification_claims n) claims = (accepted, known)"
    using claim_notifications_lookup [OF assms(1,2)] by blast
  have "x \<in> set (cn_notification_claims n)"
    using assms(3,4) n(1) remembered_for_mem by (auto simp: remembers_def current_entry_def)
  then show ?thesis using claim_each_known [OF n(2)] assms(5,6) by blast
qed

end
