(* ===== verification/Projection_Dismissals.thy ===== *)
theory Projection_Dismissals
  imports Projection_Claims
begin

text \<open>
  A dismissed Shell stays hidden: whatever methods run on the cache, as long as the registration is
  kept, its dismissed Shells are not restored, and every projection committed for it still lists the
  Shell. A commit that does not list the Shell drops its dismissal.
\<close>

definition keeps_dismissal :: "node_registration_snapshot \<Rightarrow> string \<Rightarrow> projection_command \<Rightarrow> bool" where
  "keeps_dismissal r i cmd \<longleftrightarrow>
     keeps_registration r cmd
     \<and> (case cmd of
          CacheCommit r' _ ob \<Rightarrow> nr_node_id r' = nr_node_id r \<longrightarrow> i \<in> ps_id ` set (np_shells (po_projection ob))
        | CacheRestore r' \<Rightarrow> nr_node_id r' \<noteq> nr_node_id r
        | _ \<Rightarrow> True)"

definition hidden :: "node_registration_snapshot \<Rightarrow> string \<Rightarrow> projection_cache \<Rightarrow> bool" where
  "hidden r i c \<longleftrightarrow>
     (\<exists>n p. current_entry r (cache_mem c) = Some n \<and> cn_projection n = Some p \<and> i \<in> set (cn_dismissed_shell_ids n))"

lemma visible_projection_shells:
  assumes "cn_projection n = Some p"
  shows "\<exists>shown. visible_projection n = Some shown
    \<and> np_shells shown = filter (\<lambda>s. ps_id s \<notin> set (cn_dismissed_shell_ids n)) (np_shells p)
    \<and> np_agents shown = filter (\<lambda>a. pa_shell_id a \<notin> set (cn_dismissed_shell_ids n)) (np_agents p)
    \<and> (cn_dismissed_shell_ids n \<noteq> [] \<longrightarrow> (\<forall>w \<in> set (np_workspaces shown). recount shown w = w))"
  using assms by (auto simp: visible_projection_def Let_def recount_def)

lemma hidden_view:
  assumes "hidden r i c"
  shows "\<exists>shown. pv_projection (cache_view c r) = Some shown
    \<and> i \<notin> ps_id ` set (np_shells shown) \<and> i \<notin> pa_shell_id ` set (np_agents shown)"
proof -
  obtain n p where n: "current_entry r (cache_mem c) = Some n" "cn_projection n = Some p"
    "i \<in> set (cn_dismissed_shell_ids n)"
    using assms by (auto simp: hidden_def)
  show ?thesis
    using visible_projection_shells [OF n(2)] n(1,3) by (auto simp: cache_view_entry)
qed

text \<open>An entry of another Node does not matter, and one that keeps the dismissal and a projection may
  replace the entry.\<close>

lemma hidden_replaced:
  assumes "hidden r i c"
    and "find_cached (cache_mem c') (nr_node_id r) = find_cached (cache_mem c) (nr_node_id r)
      \<or> (\<exists>n m. current_entry r (cache_mem c) = Some n \<and> find_cached (cache_mem c') (nr_node_id r) = Some m
          \<and> cn_tombstone_epoch m = nr_tombstone_epoch r \<and> (cn_projection n \<noteq> None \<longrightarrow> cn_projection m \<noteq> None)
          \<and> (i \<in> set (cn_dismissed_shell_ids n) \<longrightarrow> i \<in> set (cn_dismissed_shell_ids m)))"
  shows "hidden r i c'"
  using assms by (fastforce simp: hidden_def current_entry_def)

lemma hidden_commit:
  assumes "commit_projection env r' g ob c = (res, c')" and "hidden r i c"
    and "nr_node_id r' = nr_node_id r \<longrightarrow>
      nr_tombstone_epoch r' = nr_tombstone_epoch r \<and> i \<in> ps_id ` set (np_shells (po_projection ob))"
  shows "hidden r i c'"
proof (cases "\<exists>result. res = Inr (Some result)")
  case False
  then show ?thesis using commit_projection_quiet [OF assms(1)] assms(2) by simp
next
  case True
  then obtain result where commit: "commit_projection env r' g ob c = (Inr (Some result), c')"
    using assms(1) by blast
  obtain n where n: "current_entry r (cache_mem c) = Some n" using assms(2) by (auto simp: hidden_def)
  show ?thesis
  proof (cases "nr_node_id r' = nr_node_id r")
    case True
    then have "current_entry r' = current_entry r" using assms(3) by (simp add: current_entry_def fun_eq_iff)
    then show ?thesis
      using True assms(3) n commit_projection_lookup [OF commit, of "nr_node_id r"]
      by (intro hidden_replaced [OF assms(2)] disjI2) (simp add: observed_node_def Let_def)
  next
    case False
    then show ?thesis
      using commit_projection_lookup [OF commit, of "nr_node_id r"] by (intro hidden_replaced [OF assms(2)]) simp
  qed
qed

lemma current_entry_found:
  "current_entry r st = Some n \<Longrightarrow> find_cached st (nr_node_id r) = Some n \<and> cn_tombstone_epoch n = nr_tombstone_epoch r"
  by (simp add: current_entry_def)

lemma hidden_mark:
  assumes "mark_health env r' g h a t c = (res, c')" and "hidden r i c"
    and "nr_node_id r' = nr_node_id r \<longrightarrow> nr_tombstone_epoch r' = nr_tombstone_epoch r"
  shows "hidden r i c'"
proof (cases "\<exists>g'. res = Inr (Some g')")
  case False
  then show ?thesis using mark_health_quiet [OF assms(1)] assms(2) by simp
next
  case True
  then obtain g' where mark: "mark_health env r' g h a t c = (Inr (Some g'), c')"
    using assms(1) by blast
  obtain n where n: "current_entry r (cache_mem c) = Some n" using assms(2) by (auto simp: hidden_def)
  show ?thesis
    using mark_health_lookup [OF mark, of "nr_node_id r"] assms(3) n current_entry_found [OF n]
    by (intro hidden_replaced [OF assms(2)]) (auto simp: marked_node_def)
qed

lemma hidden_claim:
  assumes "claim_notifications env r' cur claims digest c = (res, c')" and "cache_ok env (cache_mem c)"
    and "hidden r i c"
  shows "hidden r i c'"
proof (cases "\<exists>y. res = Inr (Some y)")
  case False
  then show ?thesis using claim_notifications_quiet [OF assms(1)] assms(3) by blast
next
  case True
  then obtain accepted d where run: "claim_notifications env r' cur claims digest c = (Inr (Some (accepted, d)), c')"
    using assms(1) by fastforce
  obtain n known where n: "current_entry r' (cache_mem c) = Some n"
    and look: "\<And>k. find_cached (cache_mem c') k =
          (if k = nr_node_id r' \<and> ((\<exists>a \<in> set accepted. a) \<or> d) then Some (claimed_node known digest n)
           else find_cached (cache_mem c) k)"
    using claim_notifications_lookup [OF run assms(2)] by blast
  obtain m where m: "current_entry r (cache_mem c) = Some m" using assms(3) by (auto simp: hidden_def)
  show ?thesis
    using look [of "nr_node_id r"] current_entry_found [OF n] current_entry_found [OF m] m
    by (intro hidden_replaced [OF assms(3)]) (auto simp: claimed_node_def)
qed

lemma hidden_remove:
  assumes "cache_remove env node_id c = (res, c')" and "hidden r i c" and "node_id \<noteq> nr_node_id r"
  shows "hidden r i c'"
proof (cases res)
  case (Inl e)
  then show ?thesis
    using assms(1,2) cache_remove_cases [OF assms(1)] by auto
next
  case (Inr y)
  then show ?thesis
    using cache_remove_lookup [of env node_id c y c' "nr_node_id r"] assms
    by (intro hidden_replaced [OF assms(2)]) simp
qed

lemma hidden_dismiss:
  assumes "dismiss_shell env r' j c = (res, c')" and "cache_ok env (cache_mem c)" and "hidden r i c"
  shows "hidden r i c'"
  using dismiss_shell_lookup [OF assms(1,2)]
proof (elim disjE exE conjE)
  assume "c' = c"
  with assms(3) show ?thesis by simp
next
  fix n p
  assume n: "current_entry r' (cache_mem c) = Some n" and "\<forall>k. find_cached (cache_mem c') k =
          (if k = nr_node_id r' then Some (dismissed_node j n) else find_cached (cache_mem c) k)"
  moreover obtain m where m: "current_entry r (cache_mem c) = Some m" using assms(3) by (auto simp: hidden_def)
  ultimately show ?thesis
    using current_entry_found [OF n] current_entry_found [OF m]
    by (intro hidden_replaced [OF assms(3)]) (auto simp: dismissed_node_def)
qed

lemma hidden_restore:
  assumes "restore_dismissed_shells env r' c = (res, c')" and "cache_ok env (cache_mem c)" and "hidden r i c"
    and "nr_node_id r' \<noteq> nr_node_id r"
  shows "hidden r i c'"
  using restore_dismissed_lookup [OF assms(1,2)]
proof (elim disjE exE conjE)
  assume "c' = c"
  with assms(3) show ?thesis by simp
qed (use assms(4) in \<open>auto intro: hidden_replaced [OF assms(3)]\<close>)

lemma hidden_step:
  assumes "cache_ok env (cache_mem c)" and "hidden r i c" and "keeps_dismissal r i cmd"
  shows "hidden r i (snd (cache_exec env cmd c))"
proof -
  obtain e c' where run: "cache_exec env cmd c = (e, c')" by (cases "cache_exec env cmd c")
  have "hidden r i c'"
    using run assms
    by (cases cmd)
      (auto simp: cache_outcome_eq keeps_dismissal_def keeps_registration_def
        intro: hidden_commit hidden_mark hidden_claim hidden_remove hidden_dismiss hidden_restore)
  then show ?thesis using run by simp
qed

lemma hidden_fold:
  assumes "cache_ok env (cache_mem c)" and "hidden r i c" and "list_all (keeps_dismissal r i) cmds"
  shows "hidden r i (fold (\<lambda>cmd c. snd (cache_exec env cmd c)) cmds c)"
  using assms
proof (induction cmds arbitrary: c)
  case (Cons cmd cmds)
  then show ?case using hidden_step cache_ok_step by simp
qed simp

end
