(* ===== verification/Projection_Props.thy ===== *)
theory Projection_Props
  imports Projection_Dismissals
begin

text \<open>
  The properties of the projection cache: restart, races between observers, what a view shows
  after a commit or a failure, at-most-once notifications, and dismissed Shells.
\<close>

section \<open>A concrete cache\<close>

definition demo_cache_env :: cache_env where
  "demo_cache_env = \<lparr>env_cache_uuid_ok = (\<lambda>s. s \<noteq> []), env_cache_len = (\<lambda>_. Inr 100),
     env_cache_write = (\<lambda>_. None)\<rparr>"

definition demo_shell :: node_projection_shell where
  "demo_shell = \<lparr>ps_id = ''s1'', ps_workspace_id = ''w1'', ps_name = ''sh'', ps_status = StatusRunning,
     ps_run_id = None, ps_generation = None, ps_started_at_ms = None, ps_ended_at_ms = None,
     ps_recovered_agent_id = None\<rparr>"

definition demo_projection :: node_projection_snapshot where
  "demo_projection = \<lparr>np_node_id = ''n1'',
     np_workspaces = [\<lparr>pw_id = ''w1'', pw_name = ''web'', pw_item_count = 1, pw_attention_count = 0\<rparr>],
     np_shells = [demo_shell], np_launchers = [], np_agents = []\<rparr>"

definition demo_remote :: node_registration_snapshot where
  "demo_remote = \<lparr>nr_alias = ''r'', nr_target = ''host'', nr_node_id = ''n1'', nr_revision = 1,
     nr_tombstone_epoch = 0\<rparr>"

definition demo_cursor :: event_cursor where
  "demo_cursor = \<lparr>cur_stream_id = ''e1'', cur_event_id = 7\<rparr>"

definition demo_observation :: projection_observation where
  "demo_observation = \<lparr>po_cursor = demo_cursor, po_projection = demo_projection, po_capabilities = [],
     po_helper_version = ''1'', po_observed_at_ms = 5\<rparr>"

definition demo_empty_cache :: projection_cache where
  "demo_empty_cache = \<lparr>cache_mem = empty_cache_state, cache_disk = Some empty_cache_state\<rparr>"

definition demo_entry :: cached_node where
  "demo_entry = observed_node demo_remote 1 demo_observation None"

definition demo_cached :: projection_cache where
  "demo_cached = cache_saved \<lparr>cs_version = node_cache_version, cs_nodes = [demo_entry]\<rparr> demo_empty_cache"

lemmas cache_eval = validate_projection_iff projection_ok_def validate_capabilities_iff capabilities_ok_def
  validate_helper_version_iff helper_version_ok_def is_ascii_graphic_def name_ok_def
  max_workspaces_per_node_def max_shells_per_node_def max_launchers_per_node_def max_agents_per_node_def
  max_name_bytes_def max_capabilities_def max_helper_version_bytes_def max_nodes_def max_cache_bytes_def
  actual_generation_def same_epoch_def current_of_def opt_filter_def u64_checked_add_def place_node_def
  sort_nodes_def replace_cache_def save_cache_def cache_saved_def

lemmas demo_cache_defs = demo_cache_env_def demo_shell_def demo_projection_def demo_remote_def
  demo_cursor_def demo_observation_def demo_empty_cache_def demo_entry_def demo_cached_def
  empty_cache_state_def

lemma demo_cache_ok: "cache_ok demo_cache_env (cache_mem demo_cached)"
  by (simp add: cache_ok_def cached_node_ok_def observed_node_def Let_def cache_eval demo_cache_defs
      max_notification_claims_per_node_def max_digest_claims_per_node_def max_dismissed_shells_per_node_def)

lemma demo_observation_valid:
  "validate_projection demo_cache_env demo_projection = Inr ()" "validate_capabilities [] = Inr ()"
  "validate_helper_version ''1'' = Inr ()" "np_node_id demo_projection = ''n1''"
  by (simp_all add: cache_eval demo_cache_defs)

lemma demo_commit:
  "commit_projection demo_cache_env demo_remote 0 demo_observation demo_empty_cache
     = (Inr (Some \<lparr>pc_generation = 1, pc_previous_health = None, pc_previous_cursor = None\<rparr>), demo_cached)"
  using demo_observation_valid
  by (simp add: commit_projection_def Let_def actual_generation_def same_epoch_def current_of_def
      opt_filter_def u64_checked_add_def place_node_def sort_nodes_def replace_cache_def save_cache_def
      cache_saved_def max_nodes_def max_cache_bytes_def demo_cache_env_def demo_remote_def demo_observation_def
      demo_empty_cache_def demo_entry_def demo_cached_def empty_cache_state_def)

section \<open>Restart\<close>

lemma find_map_key:
  assumes "\<And>x. k (f x) = k x"
  shows "List.find (\<lambda>x. k x = a) (map f xs) = map_option f (List.find (\<lambda>x. k x = a) xs)"
  by (induction xs) (simp_all add: assms)

definition recovered_view :: "node_projection_view \<Rightarrow> node_projection_view" where
  "recovered_view v =
     (if ph_code (pv_health v) = HcOnline
      then v\<lparr>pv_health := (pv_health v)\<lparr>ph_code := HcStale, ph_stale := True\<rparr>\<rparr> else v)"

lemma mark_recovered_view:
  "\<lparr>pv_health = health_snapshot (mark_recovered n), pv_projection = visible_projection (mark_recovered n)\<rparr>
     = recovered_view \<lparr>pv_health = health_snapshot n, pv_projection = visible_projection n\<rparr>"
  by (cases "cn_projection n")
    (simp_all add: mark_recovered_def recovered_view_def health_snapshot_def visible_projection_def Let_def)

lemma current_entry_recovered:
  "current_entry r (st\<lparr>cs_nodes := map mark_recovered (cs_nodes st)\<rparr>) = map_option mark_recovered (current_entry r st)"
proof -
  have "cn_node_id (mark_recovered n) = cn_node_id n" "cn_tombstone_epoch (mark_recovered n) = cn_tombstone_epoch n" for n
    by (simp_all add: mark_recovered_def)
  then show ?thesis
    using find_map_key [of cn_node_id mark_recovered]
    by (auto simp: current_entry_def find_cached_def opt_filter_def split: option.splits)
qed

text \<open>C25: After any sequence of methods on a loaded cache whose state is in its file, failed ones
  included, a load of that file accepts it, and every Node is then seen as it was, except that a
  Node that was online is seen as stale.\<close>

theorem cache_restart:
  assumes "load_cache env uid opened contents = Inr (st0, migrated)"
    and "c0 = load_cache_at env (Inr (st0, migrated)) disk0 quarantined" and "cache_disk c0 = Some (cache_mem c0)"
    and "c = fold (\<lambda>cmd c. snd (cache_exec env cmd c)) cmds c0"
  shows "\<exists>st. cache_disk c = Some st \<and> check_cache env st = Inr ()
    \<and> cache_view (load_cache_at env (Inr (st, False)) (Some st) quarantined') r = recovered_view (cache_view c r)"
proof -
  have ok0: "cache_ok env st0"
    using assms(1) by (auto simp: load_cache_def bind_res_Inr check_cache_iff split: if_splits)
  have mem0: "cache_mem c0 = st0\<lparr>cs_nodes := map mark_recovered (cs_nodes st0)\<rparr>"
    using assms(2) by (simp add: load_cache_at_def Let_def)
  have "cached_node_ok env (mark_recovered n) = cached_node_ok env n" "cn_node_id (mark_recovered n) = cn_node_id n" for n
    by (simp_all add: mark_recovered_def cached_node_ok_def)
  then have "cache_ok env (cache_mem c0)"
    using ok0 by (simp add: mem0 cache_ok_def list_all_iff comp_def)
  then have ok: "cache_ok env (cache_mem c)"
    using cache_durable.fold_valid [where env = env and s = c0 and cs = cmds] assms(4) by simp
  have disk: "cache_disk c = Some (cache_mem c)"
    using cache_durable.fold_durable [where env = env and s = c0 and cs = cmds] assms(3,4) by simp
  let ?c = "load_cache_at env (Inr (cache_mem c, False)) (Some (cache_mem c)) quarantined'"
  have "cache_mem ?c = (cache_mem c)\<lparr>cs_nodes := map mark_recovered (cs_nodes (cache_mem c))\<rparr>"
    by (simp add: load_cache_at_def Let_def)
  then have "cache_view ?c r = recovered_view (cache_view c r)"
    using mark_recovered_view
    by (auto simp: cache_view_entry current_entry_recovered recovered_view_def unobserved_health_def split: option.split)
  then show ?thesis using disk ok by (simp add: check_cache_iff)
qed

definition demo_document :: cache_document where
  "demo_document = \<lparr>doc_len = 100, doc_version = Inr (Some 5), doc_v1 = Inl (invalid []),
     doc_v2 = Inl (invalid []), doc_v5 = Inr (cache_mem demo_cached)\<rparr>"

definition demo_file :: owned_metadata where
  "demo_file = \<lparr>om_is_file = True, om_uid = 7, om_mode = 0, om_len = 100\<rparr>"

lemma demo_load: "load_cache demo_cache_env 7 (Inr demo_file) (Inr demo_document) = Inr (cache_mem demo_cached, False)"
proof -
  have "check_cache demo_cache_env (cache_mem demo_cached) = Inr ()"
    using demo_cache_ok by (simp add: check_cache_iff)
  then show ?thesis
    by (simp add: load_cache_def demo_file_def demo_document_def max_cache_bytes_def invalid_document_def
        read_cache_state_def)
qed

definition demo_recovered :: projection_cache where
  "demo_recovered = cache_saved \<lparr>cs_version = node_cache_version,
     cs_nodes = [demo_entry\<lparr>cn_health := HcStale\<rparr>]\<rparr> demo_empty_cache"

lemma demo_entry_fields:
  "cn_health demo_entry = HcOnline" "cn_node_id demo_entry = ''n1''" "cn_tombstone_epoch demo_entry = 0"
  by (simp_all add: demo_entry_def observed_node_def Let_def demo_remote_def)

lemma demo_recover:
  "load_cache_at demo_cache_env (Inr (cache_mem demo_cached, False)) None True = demo_recovered"
  by (simp add: load_cache_at_def Let_def demo_cached_def demo_recovered_def mark_recovered_def
      demo_entry_fields save_cache_def demo_cache_env_def max_cache_bytes_def cache_saved_def)

lemma demo_remove_other: "cache_exec demo_cache_env (CacheRemove ''other'') demo_recovered = (None, demo_recovered)"
  by (simp add: cache_remove_def Let_def cache_outcome_def demo_recovered_def cache_saved_def demo_entry_fields)

lemma demo_recovered_view: "ph_code (pv_health (recovered_view (cache_view demo_recovered demo_remote))) = HcStale"
proof -
  have "nr_node_id demo_remote = ''n1''" "nr_tombstone_epoch demo_remote = 0" by (simp_all add: demo_remote_def)
  then have "cache_view demo_recovered demo_remote
      = \<lparr>pv_health = health_snapshot (demo_entry\<lparr>cn_health := HcStale\<rparr>),
         pv_projection = visible_projection (demo_entry\<lparr>cn_health := HcStale\<rparr>)\<rparr>"
    by (simp add: cache_view_def find_cached_def demo_recovered_def opt_filter_def demo_entry_fields)
  then show ?thesis by (simp add: recovered_view_def health_snapshot_def)
qed

theorem cache_restart_witness:
  "\<exists>st. cache_disk demo_recovered = Some st \<and> check_cache demo_cache_env st = Inr ()
    \<and> ph_code (pv_health (cache_view (load_cache_at demo_cache_env (Inr (st, False)) (Some st) True) demo_remote)) = HcStale"
proof -
  have "demo_recovered = fold (\<lambda>cmd c. snd (cache_exec demo_cache_env cmd c)) [CacheRemove ''other''] demo_recovered"
    using demo_remove_other by simp
  moreover have "cache_disk demo_recovered = Some (cache_mem demo_recovered)" by (simp add: demo_recovered_def)
  ultimately show ?thesis
    using cache_restart [OF demo_load demo_recover [symmetric], of demo_recovered _ True demo_remote] demo_recovered_view
    by metis
qed

section \<open>Races between observers\<close>

text \<open>C26: Two workers that observed a Node at the same generation of its cache entry: when the
  first has committed, be it a projection or a failure, what the second brings leaves the cache, in
  memory and in the file, as it is: its projection is refused as invalid or answered with no commit,
  and its failure is answered with no change.\<close>

theorem cache_observation_race:
  assumes "cache_advance env r g x c = Some c'"
  shows "(\<exists>result. commit_projection env r g ob c' = (result, c') \<and> (result = Inr None \<or> (\<exists>e. result = Inl e)))
    \<and> mark_health env r g h a t c' = (Inr None, c')"
proof
  have stale: "actual_generation r (cache_mem c') \<noteq> g"
    using cache_generation.attempt_current [OF assms] cache_generation.attempt_advances [OF assms] by auto
  then show "mark_health env r g h a t c' = (Inr None, c')" by (simp add: mark_health_def)
  show "\<exists>result. commit_projection env r g ob c' = (result, c') \<and> (result = Inr None \<or> (\<exists>e. result = Inl e))"
    using stale by (auto simp: commit_projection_def split: sum.split)
qed

theorem cache_observation_race_witness:
  "mark_health demo_cache_env demo_remote 0 HcUnreachable 9 None demo_cached = (Inr None, demo_cached)"
proof -
  have "cache_advance demo_cache_env demo_remote 0 (Observed demo_observation) demo_empty_cache = Some demo_cached"
    by (simp add: cache_advance_def demo_commit)
  from cache_observation_race [OF this] show ?thesis by blast
qed

section \<open>What a view shows\<close>

lemma observed_node_shells:
  "\<exists>shown. visible_projection (observed_node r g ob old) = Some shown
      \<and> np_shells shown = filter (\<lambda>s. \<not> (case old of
            Some n \<Rightarrow> ps_id s \<in> set (cn_dismissed_shell_ids n) | None \<Rightarrow> False)) (np_shells (po_projection ob))"
proof (cases old)
  case None
  then show ?thesis by (simp add: visible_projection_def observed_node_def Let_def)
next
  case (Some n)
  then show ?thesis
    by (auto simp: visible_projection_def observed_node_def Let_def filter_empty_conv intro!: filter_cong
        intro: filter_True [symmetric])
qed

lemma cache_commit_shells:
  assumes "commit_projection env r g ob c = (Inr (Some result), c')"
  shows "\<exists>shown. pv_projection (cache_view c' r) = Some shown
    \<and> np_shells shown = filter (\<lambda>s. \<not> (case current_entry r (cache_mem c) of
          Some n \<Rightarrow> ps_id s \<in> set (cn_dismissed_shell_ids n) | None \<Rightarrow> False)) (np_shells (po_projection ob))"
proof -
  let ?n = "observed_node r (pc_generation result) ob (current_entry r (cache_mem c))"
  have "current_entry r (cache_mem c') = Some ?n"
    using commit_projection_lookup [OF assms, of "nr_node_id r"]
    by (simp add: current_entry_def observed_node_def Let_def)
  then show ?thesis
    using observed_node_shells [of r "pc_generation result" ob "current_entry r (cache_mem c)"]
    by (simp add: cache_view_entry)
qed

text \<open>After a commit the Node is seen online, at the next generation and at the observed
  cursor, with the observed projection less the Shells that were dismissed and that the owner
  still reports; every other Node is seen as before.\<close>

theorem cache_commit_view:
  assumes "commit_projection env r g ob c = (Inr (Some result), c')"
  shows "ph_code (pv_health (cache_view c' r)) = HcOnline \<and> \<not> ph_stale (pv_health (cache_view c' r))
    \<and> u64_checked_add g 1 = Some (ph_cache_generation (pv_health (cache_view c' r)))
    \<and> ph_cursor (pv_health (cache_view c' r)) = Some (cur_event_id (po_cursor ob))
    \<and> (\<exists>shown. pv_projection (cache_view c' r) = Some shown
        \<and> np_shells shown = filter (\<lambda>s. \<not> (case current_entry r (cache_mem c) of
              Some n \<Rightarrow> ps_id s \<in> set (cn_dismissed_shell_ids n) | None \<Rightarrow> False)) (np_shells (po_projection ob)))
    \<and> (\<forall>r'. nr_node_id r' \<noteq> nr_node_id r \<longrightarrow> cache_view c' r' = cache_view c r')"
proof -
  let ?n = "observed_node r (pc_generation result) ob (current_entry r (cache_mem c))"
  have look: "find_cached (cache_mem c') k = (if k = nr_node_id r then Some ?n else find_cached (cache_mem c) k)" for k
    by (rule commit_projection_lookup [OF assms])
  then have entry: "current_entry r (cache_mem c') = Some ?n"
    by (simp add: current_entry_def observed_node_def Let_def)
  have others: "cache_view c' r' = cache_view c r'" if "nr_node_id r' \<noteq> nr_node_id r" for r'
    using look [of "nr_node_id r'"] that by (simp add: cache_view_entry current_entry_def)
  have gen: "u64_checked_add g 1 = Some (pc_generation result)"
    using commit_generation [OF assms] by simp
  note shells = cache_commit_shells [OF assms]
  have "ph_code (pv_health (cache_view c' r)) = HcOnline \<and> \<not> ph_stale (pv_health (cache_view c' r))
    \<and> ph_cache_generation (pv_health (cache_view c' r)) = pc_generation result
    \<and> ph_cursor (pv_health (cache_view c' r)) = Some (cur_event_id (po_cursor ob))"
    by (simp add: cache_view_entry entry health_snapshot_def) (simp add: observed_node_def Let_def)
  then show ?thesis using others gen shells by simp
qed

theorem cache_commit_view_witness:
  "ph_code (pv_health (cache_view demo_cached demo_remote)) = HcOnline
   \<and> ph_cursor (pv_health (cache_view demo_cached demo_remote)) = Some 7"
  using cache_commit_view [OF demo_commit] by (simp add: demo_observation_def demo_cursor_def)

text \<open>C27: After a failed synchronisation the Node is seen with the reported health and the next
  generation, together with the projection that was cached for it under whichever registration:
  also when that entry belongs to an earlier registration, of which nothing was seen before.\<close>

theorem cache_failure_view:
  assumes "mark_health env r g h a t c = (Inr (Some g'), c')"
    and "find_cached (cache_mem c) (nr_node_id r) = Some n"
  shows "ph_code (pv_health (cache_view c' r)) = h \<and> ph_cache_generation (pv_health (cache_view c' r)) = g'
    \<and> pv_projection (cache_view c' r) = visible_projection n
    \<and> (cn_tombstone_epoch n \<noteq> nr_tombstone_epoch r \<longrightarrow> pv_projection (cache_view c r) = None \<and> g = 0)"
proof -
  have "find_cached (cache_mem c') (nr_node_id r) = Some (marked_node r g' h a t n)"
    using mark_health_lookup [OF assms(1), of "nr_node_id r"] assms(2) by simp
  then have "current_entry r (cache_mem c') = Some (marked_node r g' h a t n)"
    by (simp add: current_entry_def marked_node_def)
  moreover have "visible_projection (marked_node r g' h a t n) = visible_projection n"
    by (cases "cn_projection n") (simp_all add: visible_projection_def marked_node_def)
  moreover have "current_entry r (cache_mem c) = None" if "cn_tombstone_epoch n \<noteq> nr_tombstone_epoch r"
    using assms(2) that by (simp add: current_entry_def opt_filter_def)
  moreover have "actual_generation r (cache_mem c) = g" using mark_generation [OF assms(1)] by simp
  ultimately show ?thesis
    by (auto simp: cache_view_entry health_snapshot_def marked_node_def actual_generation_entry)
qed

definition demo_readded :: node_registration_snapshot where
  "demo_readded = demo_remote\<lparr>nr_revision := 2, nr_tombstone_epoch := 1\<rparr>"

definition demo_revived :: projection_cache where
  "demo_revived = cache_saved \<lparr>cs_version = node_cache_version,
     cs_nodes = [marked_node demo_readded 1 HcUnreachable 9 None demo_entry]\<rparr> demo_cached"

lemma demo_mark:
  "mark_health demo_cache_env demo_readded 0 HcUnreachable 9 None demo_cached = (Inr (Some 1), demo_revived)"
proof -
  have "nr_node_id demo_readded = ''n1''" "nr_tombstone_epoch demo_readded = 1"
    by (simp_all add: demo_readded_def demo_remote_def)
  then show ?thesis
    by (simp add: mark_health_def Let_def demo_cached_def demo_revived_def demo_entry_fields actual_generation_def
        same_epoch_def current_of_def opt_filter_def u64_checked_add_def place_node_def sort_nodes_def
        replace_cache_def save_cache_def demo_cache_env_def max_cache_bytes_def cache_saved_def)
qed

theorem cache_failure_view_witness:
  "pv_projection (cache_view demo_cached demo_readded) = None
   \<and> pv_projection (cache_view demo_revived demo_readded) = Some demo_projection"
proof -
  have "find_cached (cache_mem demo_cached) (nr_node_id demo_readded) = Some demo_entry"
    by (simp add: find_cached_def demo_cached_def demo_entry_fields demo_readded_def demo_remote_def)
  from cache_failure_view [OF demo_mark this] show ?thesis
    by (simp add: demo_entry_fields demo_readded_def visible_projection_def demo_entry_def observed_node_def
        Let_def demo_observation_def demo_remote_def)
qed

section \<open>Notifications\<close>

text \<open>C28: A notification is shown at most once: after a batch of at most 512 claims in which a
  claim was accepted, whatever methods run that keep the registration, as long as they carry no
  more further claims than the log has room for, the same claim is refused.\<close>

theorem cache_notification_once:
  assumes "cache_ok env (cache_mem c)"
    and "claim_notifications env r cur claims digest c = (Inr (Some (accepted, d)), c1)"
    and "i < length claims" and "accepted ! i"
    and "list_all (keeps_registration r) cmds"
    and "length claims + sum_list (map (claim_cost r) cmds) \<le> 512"
    and "c2 = fold (\<lambda>cmd c. snd (cache_exec env cmd c)) cmds c1"
    and "claim_notifications env r' cur' claims' digest' c2 = (Inr (Some (accepted', d')), c3)"
    and "nr_node_id r' = nr_node_id r" and "j < length claims'" and "claims' ! j = claims ! i"
  shows "\<not> accepted' ! j"
proof -
  have ok1: "cache_ok env (cache_mem c1)"
    by (rule claim_notifications_ok [OF assms(2,1)])
  have "remembers r (512 - length claims) (claims ! i) c1"
    using accepted_remembered [OF assms(2,1,3,4)] assms(6) by (simp add: max_notification_claims_per_node_def)
  then have "remembers r (sum_list (map (claim_cost r) cmds) + 0) (claims ! i) c1"
    by (rule remembers_mono) (use assms(6) in simp)
  then have "remembers r 0 (claims ! i) c2"
    using remembers_fold [OF ok1 _ assms(5)] assms(7) by blast
  moreover have "cache_ok env (cache_mem c2)"
    using cache_durable.fold_valid [where env = env and s = c1 and cs = cmds] ok1 assms(7) by simp
  ultimately show ?thesis
    using remembered_refused [OF assms(8)] assms(9-11) by blast
qed

definition demo_claim :: remote_notification_claim where
  "demo_claim = \<lparr>nc_stream_id = ''e1'', nc_entity_id = ''a1'', nc_revision = 3,
     nc_category = CatAgentBlocked, nc_reason = ''blocked''\<rparr>"

definition demo_claimed :: projection_cache where
  "demo_claimed = cache_saved \<lparr>cs_version = node_cache_version,
     cs_nodes = [demo_entry\<lparr>cn_notification_claims := [demo_claim]\<rparr>]\<rparr> demo_cached"

lemma demo_claim_valid: "validate_notification_claim demo_cache_env demo_claim = Inr ()"
  by (simp add: validate_notification_claim_def demo_cache_env_def demo_claim_def max_name_bytes_def
      max_notification_reason_bytes_def)

lemma demo_claim_entry:
  "same_registration demo_remote demo_entry" "cn_cursor demo_entry = Some demo_cursor"
  "cn_notification_claims demo_entry = []" "cn_digest_claims demo_entry = []"
  by (simp_all add: same_registration_def demo_entry_fields)
    (simp_all add: demo_entry_def observed_node_def Let_def demo_remote_def demo_observation_def)

lemma demo_claims:
  "claim_notifications demo_cache_env demo_remote demo_cursor [demo_claim] None demo_cached
     = (Inr (Some ([True], False)), demo_claimed)"
  "claim_notifications demo_cache_env demo_remote demo_cursor [demo_claim] None demo_claimed
     = (Inr (Some ([False], False)), demo_claimed)"
  using demo_claim_valid demo_claim_entry
  by (simp_all add: claim_notifications_def Let_def demo_cached_def demo_claimed_def keep_newest_def
      max_notification_claims_per_node_def max_digest_claims_per_node_def replace_cache_def save_cache_def
      demo_cache_env_def max_cache_bytes_def cache_saved_def same_registration_def)

theorem cache_notification_once_witness:
  "\<exists>accepted d c. claim_notifications demo_cache_env demo_remote demo_cursor [demo_claim] None demo_claimed
     = (Inr (Some (accepted, d)), c) \<and> \<not> accepted ! 0"
proof -
  have "\<not> [False] ! 0"
  proof (rule cache_notification_once [OF demo_cache_ok demo_claims(1), where i = 0 and j = 0 and cmds = "[]"])
    show "claim_notifications demo_cache_env demo_remote demo_cursor [demo_claim] None demo_claimed
        = (Inr (Some ([False], False)), demo_claimed)" by (rule demo_claims(2))
  qed simp_all
  then show ?thesis using demo_claims(2) by blast
qed

section \<open>Dismissed Shells\<close>

text \<open>C29: Dismissing a Shell of an offline Node hides exactly that Shell and its Agents, with the
  counts of the Workspaces adjusted to what is shown. They stay hidden through whatever methods
  follow, as long as the registration is kept, its dismissed Shells are not restored and every
  projection committed for it still lists the Shell. Restoring right after the dismissal brings the
  cached projection back whole.\<close>

theorem cache_dismissal:
  assumes "cache_ok env (cache_mem c)" and "dismiss_shell env r i c = (Inr (health, True), c1)"
  shows "\<exists>before shown. pv_projection (cache_view c r) = Some before \<and> pv_projection (cache_view c1 r) = Some shown
    \<and> np_shells shown = filter (\<lambda>s. ps_id s \<noteq> i) (np_shells before)
    \<and> np_agents shown = filter (\<lambda>a. pa_shell_id a \<noteq> i) (np_agents before)
    \<and> (\<forall>w \<in> set (np_workspaces shown). recount shown w = w)
    \<and> (\<forall>cmds. list_all (keeps_dismissal r i) cmds \<longrightarrow>
          (\<exists>later. pv_projection (cache_view (fold (\<lambda>cmd c. snd (cache_exec env cmd c)) cmds c1) r) = Some later
            \<and> i \<notin> ps_id ` set (np_shells later) \<and> i \<notin> pa_shell_id ` set (np_agents later)))
    \<and> (\<forall>h c2. restore_dismissed_shells env r c1 = (Inr (h, True), c2) \<longrightarrow>
          pv_projection (cache_view c2 r) = cn_projection (the (current_entry r (cache_mem c))))"
proof -
  obtain n p where n: "current_entry r (cache_mem c) = Some n" "cn_projection n = Some p"
    and look: "\<And>k. find_cached (cache_mem c1) k =
          (if k = nr_node_id r then Some (dismissed_node i n) else find_cached (cache_mem c) k)"
    using dismiss_shell_lookup [OF assms(2,1)] by blast
  let ?n = "dismissed_node i n"
  have epoch: "cn_tombstone_epoch n = nr_tombstone_epoch r" using n(1) by (simp add: current_entry_def)
  have n1: "current_entry r (cache_mem c1) = Some ?n"
    using look [of "nr_node_id r"] epoch by (simp add: current_entry_def dismissed_node_def)
  have ok1: "cache_ok env (cache_mem c1)"
    using dismiss_change [OF assms(2)] assms(1) by (auto simp: cache_change_def)
  have ids: "set (cn_dismissed_shell_ids ?n) = insert i (set (cn_dismissed_shell_ids n))"
    "cn_projection ?n = Some p"
    using n(2) by (auto simp: dismissed_node_def)
  then have hides: "cn_dismissed_shell_ids ?n \<noteq> []" by force
  obtain before where before: "visible_projection n = Some before"
    "np_shells before = filter (\<lambda>s. ps_id s \<notin> set (cn_dismissed_shell_ids n)) (np_shells p)"
    "np_agents before = filter (\<lambda>a. pa_shell_id a \<notin> set (cn_dismissed_shell_ids n)) (np_agents p)"
    using visible_projection_shells [OF n(2)] by blast
  obtain shown where shown: "visible_projection ?n = Some shown"
    "np_shells shown = filter (\<lambda>s. ps_id s \<notin> set (cn_dismissed_shell_ids ?n)) (np_shells p)"
    "np_agents shown = filter (\<lambda>a. pa_shell_id a \<notin> set (cn_dismissed_shell_ids ?n)) (np_agents p)"
    "\<forall>w \<in> set (np_workspaces shown). recount shown w = w"
    using visible_projection_shells [OF ids(2)] hides by blast
  have later: "\<exists>later. pv_projection (cache_view (fold (\<lambda>cmd c. snd (cache_exec env cmd c)) cmds c1) r) = Some later
      \<and> i \<notin> ps_id ` set (np_shells later) \<and> i \<notin> pa_shell_id ` set (np_agents later)"
    if "list_all (keeps_dismissal r i) cmds" for cmds
  proof -
    have "hidden r i c1" using n1 ids by (auto simp: hidden_def)
    then show ?thesis using hidden_view hidden_fold [OF ok1 _ that] by blast
  qed
  have restored: "pv_projection (cache_view c2 r) = cn_projection n"
    if "restore_dismissed_shells env r c1 = (Inr (h, True), c2)" for h c2
  proof -
    have "find_cached (cache_mem c2) (nr_node_id r) = Some (restored_node ?n)"
      using restore_dismissed_lookup [OF that ok1] n1 by auto
    then have "current_entry r (cache_mem c2) = Some (restored_node ?n)"
      using epoch by (simp add: current_entry_def restored_node_def dismissed_node_def)
    then show ?thesis
      using n(2) by (simp add: cache_view_entry visible_projection_def restored_node_def dismissed_node_def)
  qed
  have views: "pv_projection (cache_view c r) = Some before" "pv_projection (cache_view c1 r) = Some shown"
    using before(1) shown(1) n(1) n1 by (simp_all add: cache_view_entry)
  have same: "np_shells shown = filter (\<lambda>s. ps_id s \<noteq> i) (np_shells before)"
    "np_agents shown = filter (\<lambda>a. pa_shell_id a \<noteq> i) (np_agents before)"
    using before(2,3) shown(2,3) ids(1) by (auto intro!: filter_cong)
  show ?thesis
    by (rule exI [of _ before], rule exI [of _ shown], intro conjI allI impI)
      (use same views shown(4) later restored n(1) in simp_all)
qed

lemma demo_recovered_ok: "cache_ok demo_cache_env (cache_mem demo_recovered)"
  using demo_cache_ok by (simp add: cache_ok_def demo_recovered_def demo_cached_def cached_node_ok_def)

definition demo_dismissed :: projection_cache where
  "demo_dismissed = cache_saved \<lparr>cs_version = node_cache_version,
     cs_nodes = [dismissed_node ''s1'' (demo_entry\<lparr>cn_health := HcStale\<rparr>)]\<rparr> demo_recovered"

lemma demo_dismiss:
  "dismiss_shell demo_cache_env demo_remote ''s1'' demo_recovered
     = (Inr (health_snapshot (demo_entry\<lparr>cn_health := HcStale\<rparr>), True), demo_dismissed)"
proof -
  have fields: "cn_projection demo_entry = Some demo_projection" "cn_dismissed_shell_ids demo_entry = []"
    "np_shells demo_projection = [demo_shell]" "ps_id demo_shell = ''s1''"
    by (simp_all add: demo_entry_def observed_node_def Let_def demo_observation_def demo_projection_def demo_shell_def)
  have "same_registration demo_remote (demo_entry\<lparr>cn_health := HcStale\<rparr>)"
    using demo_claim_entry(1) by (simp add: same_registration_def)
  then show ?thesis
    by (simp add: dismiss_shell_def Let_def projection_validate_name_def max_name_bytes_def demo_recovered_def
        fields replace_cache_def save_cache_def demo_cache_env_def max_cache_bytes_def cache_saved_def
        max_dismissed_shells_per_node_def dismissed_node_def demo_dismissed_def health_snapshot_def)
qed

theorem cache_dismissal_witness:
  "\<exists>shown. pv_projection (cache_view demo_dismissed demo_remote) = Some shown \<and> ''s1'' \<notin> ps_id ` set (np_shells shown)"
  using cache_dismissal [OF demo_recovered_ok demo_dismiss] by auto

end
