(* ===== verification/Projection_Worker.thy ===== *)
theory Projection_Worker
  imports Projection_Claims Registration_Commands
begin

text \<open>
  The worker that keeps one Node's projection current, \<open>node_projection_worker\<close> of
  \<open>src/src/daemon.rs\<close>: it reads the registration, the cached cursor and generation and the
  admission epoch, asks the remote Node, and then commits what it learned only if the
  registration is still the observed one. Between these steps it holds no lock, so each is a
  function of the registration manager and the cache, and anything may happen in between. What
  \<open>fetch_node_projection\<close> learned over SSH is an argument.
\<close>

section \<open>Data\<close>

datatype notification_reason = ReasonBlocked | ReasonCompleted

record notification_settings =
  ns_enabled :: bool
  ns_blocked :: bool
  ns_completed :: bool

record notification_sound_settings =
  ss_enabled :: bool
  ss_blocked :: string
  ss_completed :: string

record notification_delivery_settings =
  nd_desktop :: notification_settings
  nd_sound :: notification_sound_settings
  nd_resume_agents :: bool
  nd_persist_terminal_history :: bool
  nd_claude_remote_control :: bool

record notification_node_context =
  nn_alias :: string
  nn_node_id :: string

record notification_digest =
  dg_blocked :: u16
  dg_completed :: u16

record notification_request =
  rqn_reason :: notification_reason
  rqn_agent :: string
  rqn_workspace :: string
  rqn_shell :: string
  rqn_node :: "notification_node_context option"
  rqn_digest :: "notification_digest option"

record node_projection_sync =
  sy_mode :: node_projection_sync_mode
  sy_cursor :: event_cursor
  sy_projection :: node_projection_snapshot
  sy_transitions :: "node_projection_transition list"
  sy_capabilities :: "string list"

record remote_notification_candidate =
  rc_claim :: remote_notification_claim
  rc_request :: notification_request

record remote_digest_candidate =
  rd_claim :: remote_digest_claim
  rd_request :: notification_request

section \<open>Which notifications a synchronisation calls for\<close>

definition category_enabled :: "notification_delivery_settings \<Rightarrow> notification_reason \<Rightarrow> bool" where
  "category_enabled settings reason \<longleftrightarrow>
     (ns_enabled (nd_desktop settings) \<or> ss_enabled (nd_sound settings))
     \<and> (case reason of
          ReasonBlocked \<Rightarrow> ns_blocked (nd_desktop settings)
        | ReasonCompleted \<Rightarrow> ns_completed (nd_desktop settings))"

fun remote_notification_reason :: "remote_notification_category \<Rightarrow> notification_reason" where
  "remote_notification_reason CatAgentBlocked = ReasonBlocked"
| "remote_notification_reason CatAgentCompleted = ReasonCompleted"

fun remote_notification_reason_key :: "remote_notification_category \<Rightarrow> string" where
  "remote_notification_reason_key CatAgentBlocked = ''blocked''"
| "remote_notification_reason_key CatAgentCompleted = ''completed''"

fun attention_category :: "agent_state \<Rightarrow> agent_attention_reason \<Rightarrow> remote_notification_category option" where
  "attention_category AgBlocked AttentionBlocked = Some CatAgentBlocked"
| "attention_category AgDone AttentionCompleted = Some CatAgentCompleted"
| "attention_category _ _ = None"

text \<open>A \<open>HashMap\<close> collected from pairs keeps the last one of a key.\<close>

definition name_or_id :: "(string \<times> string) list \<Rightarrow> string \<Rightarrow> string" where
  "name_or_id names i = (case map_of (rev names) i of Some name \<Rightarrow> name | None \<Rightarrow> i)"

definition agent_candidate ::
    "node_registration_snapshot \<Rightarrow> node_projection_sync \<Rightarrow> notification_delivery_settings
      \<Rightarrow> string \<Rightarrow> string \<Rightarrow> u64 \<Rightarrow> remote_notification_candidate option" where
  "agent_candidate r sync settings workspace_id agent_id revision =
     (case List.find (\<lambda>a. pa_id a = agent_id \<and> pa_observation_revision a = revision)
             (np_agents (sy_projection sync)) of
        None \<Rightarrow> None
      | Some agent \<Rightarrow>
        (case opt_filter (\<lambda>at. pat_observation_revision at = revision) (pa_attention agent) of
           None \<Rightarrow> None
         | Some attention \<Rightarrow>
           (case attention_category (pa_state agent) (pat_reason attention) of
              None \<Rightarrow> None
            | Some category \<Rightarrow>
              (let reason = remote_notification_reason category in
               if category_enabled settings reason
               then Some \<lparr>rc_claim = \<lparr>nc_stream_id = cur_stream_id (sy_cursor sync),
                             nc_entity_id = pa_id agent, nc_revision = revision, nc_category = category,
                             nc_reason = remote_notification_reason_key category\<rparr>,
                          rc_request = \<lparr>rqn_reason = reason, rqn_agent = pa_name agent,
                             rqn_workspace = name_or_id
                               (map (\<lambda>w. (pw_id w, pw_name w)) (np_workspaces (sy_projection sync))) workspace_id,
                             rqn_shell = name_or_id
                               (map (\<lambda>s. (ps_id s, ps_name s)) (np_shells (sy_projection sync)))
                               (pa_shell_id agent),
                             rqn_node = Some \<lparr>nn_alias = nr_alias r, nn_node_id = nr_node_id r\<rparr>,
                             rqn_digest = None\<rparr>\<rparr>
               else None))))"

fun candidates_of ::
    "(node_projection_transition_kind \<Rightarrow> remote_notification_candidate option)
      \<Rightarrow> node_projection_transition list \<Rightarrow> remote_notification_claim set
      \<Rightarrow> remote_notification_candidate list" where
  "candidates_of candidate [] seen = []"
| "candidates_of candidate (t # ts) seen =
     (case candidate (tr_kind t) of
        Some c \<Rightarrow>
          (if rc_claim c \<in> seen then candidates_of candidate ts seen
           else c # candidates_of candidate ts (insert (rc_claim c) seen))
      | None \<Rightarrow> candidates_of candidate ts seen)"

definition transition_candidate ::
    "node_registration_snapshot \<Rightarrow> node_projection_sync \<Rightarrow> notification_delivery_settings
      \<Rightarrow> node_projection_transition_kind \<Rightarrow> remote_notification_candidate option" where
  "transition_candidate r sync settings kind =
     (case kind of
        TrAgent workspace_id agent_id revision \<Rightarrow>
          agent_candidate r sync settings workspace_id agent_id revision
      | _ \<Rightarrow> None)"

definition u16_saturating_inc :: "u16 \<Rightarrow> u16" where
  "u16_saturating_inc n = (if n = - 1 then n else n + 1)"

definition count_category :: "notification_digest \<Rightarrow> remote_notification_candidate \<Rightarrow> notification_digest" where
  "count_category d c =
     (case nc_category (rc_claim c) of
        CatAgentBlocked \<Rightarrow> d\<lparr>dg_blocked := u16_saturating_inc (dg_blocked d)\<rparr>
      | CatAgentCompleted \<Rightarrow> d\<lparr>dg_completed := u16_saturating_inc (dg_completed d)\<rparr>)"

text \<open>A Node that was not online before gets one digest instead of its single notifications.\<close>

definition reconnect_digest ::
    "node_registration_snapshot \<Rightarrow> node_projection_sync \<Rightarrow> event_cursor
      \<Rightarrow> remote_notification_candidate list \<Rightarrow> remote_digest_candidate option" where
  "reconnect_digest r sync prior candidates =
     (let enabled = remdups_adj (sort (map (\<lambda>c. nc_category (rc_claim c)) candidates)) in
      case enabled of
        [] \<Rightarrow> None
      | first # _ \<Rightarrow>
          Some \<lparr>rd_claim = \<lparr>dc_stream_id = cur_stream_id (sy_cursor sync),
                  dc_prior_cursor = cur_event_id prior,
                  dc_through_cursor = cur_event_id (sy_cursor sync),
                  dc_enabled_categories = enabled\<rparr>,
                rd_request = \<lparr>rqn_reason = remote_notification_reason first, rqn_agent = [],
                  rqn_workspace = [], rqn_shell = [],
                  rqn_node = Some \<lparr>nn_alias = nr_alias r, nn_node_id = nr_node_id r\<rparr>,
                  rqn_digest = Some (fold (\<lambda>c d. count_category d c) candidates
                     \<lparr>dg_blocked = 0, dg_completed = 0\<rparr>)\<rparr>\<rparr>)"

definition remote_notification_candidates ::
    "node_registration_snapshot \<Rightarrow> node_projection_sync \<Rightarrow> projection_commit
      \<Rightarrow> notification_delivery_settings
      \<Rightarrow> remote_notification_candidate list \<times> remote_digest_candidate option" where
  "remote_notification_candidates r sync commit settings =
     (if sy_mode sync \<noteq> SyncResumed then ([], None)
      else
      (case opt_filter (\<lambda>prior. cur_stream_id prior = cur_stream_id (sy_cursor sync)
                            \<and> cur_event_id prior \<le> cur_event_id (sy_cursor sync))
              (pc_previous_cursor commit) of
         None \<Rightarrow> ([], None)
       | Some prior \<Rightarrow>
         (let candidates = candidates_of (transition_candidate r sync settings) (sy_transitions sync) {} in
          if pc_previous_health commit = Some HcOnline then (candidates, None)
          else ([], reconnect_digest r sync prior candidates))))"

section \<open>Retrying\<close>

definition retry_base :: "u32 \<Rightarrow> node_projection_health_code \<Rightarrow> u64" where
  "retry_base failures health =
     (if health \<in> {HcAuthenticationRequired, HcIdentityChanged, HcIdentityConflict, HcUnsupported} then 60
      else min (push_bit (min (if failures = 0 then 0 else unat (failures - 1)) 6) 1) 60)"

text \<open>\<open>node_projection_retry_delay\<close>, in milliseconds; the fold wraps at 64 bits.\<close>

definition node_projection_retry_delay :: "string \<Rightarrow> u32 \<Rightarrow> node_projection_health_code \<Rightarrow> u64" where
  "node_projection_retry_delay node_id failures health =
     (let jitter = fold (\<lambda>b v. v * 33 + of_char b) node_id (ucast failures) mod 1000
      in retry_base failures health * 1000 + jitter)"

section \<open>One round of the worker\<close>

datatype worker_start =
    WorkerReturns
  | WorkerSleeps
  | WorkerFetches node_registration_snapshot "event_cursor option" u64 u64

text \<open>Up to the request to the remote Node: \<open>inspect\<close>, \<open>cursor_and_generation\<close> and \<open>observe\<close>.\<close>

definition worker_start_round ::
    "nat \<Rightarrow> string \<Rightarrow> registration_manager \<Rightarrow> projection_cache \<Rightarrow> worker_start \<times> registration_manager" where
  "worker_start_round now node_id m c =
     (case reg_inspect node_id m of
        Inl _ \<Rightarrow> (WorkerReturns, m)
      | Inr r \<Rightarrow>
        (let (after, g) = cursor_and_generation c r;
             (observed, m) = reg_observe now r m
         in case observed of
              Inr (Some epoch) \<Rightarrow> (WorkerFetches r after g epoch, m)
            | _ \<Rightarrow> (WorkerSleeps, m)))"

text \<open>\<open>with_observation(&registration, admission_epoch, || operation)\<close> where the operation works on
  the cache: it runs under the lock of the registrations, or not at all.\<close>

definition with_cache_observation ::
    "nat \<Rightarrow> node_registration_snapshot \<Rightarrow> u64 \<Rightarrow> (projection_cache \<Rightarrow> 'a res \<times> projection_cache)
      \<Rightarrow> registration_manager \<times> projection_cache
      \<Rightarrow> 'a option res \<times> registration_manager \<times> projection_cache" where
  "with_cache_observation now r epoch operation mc =
     (case mc of (m, c) \<Rightarrow>
       (let (x, c') = operation c;
            (result, m') = reg_with_observation now r epoch x m
        in (result, m', case result of Inr None \<Rightarrow> c | Inr (Some _) \<Rightarrow> c' | Inl _ \<Rightarrow>
              (case available m of Inl _ \<Rightarrow> c | Inr _ \<Rightarrow> c'))))"

definition worker_commit ::
    "cache_env \<Rightarrow> nat \<Rightarrow> node_registration_snapshot \<Rightarrow> u64 \<Rightarrow> u64 \<Rightarrow> u64 \<Rightarrow> node_projection_sync
      \<Rightarrow> string list \<Rightarrow> string \<Rightarrow> registration_manager \<times> projection_cache
      \<Rightarrow> projection_commit option option res \<times> registration_manager \<times> projection_cache" where
  "worker_commit env now r epoch g attempt_at_ms sync capabilities helper_version =
     with_cache_observation now r epoch (commit_projection env r g
       \<lparr>po_cursor = sy_cursor sync, po_projection = sy_projection sync,
        po_capabilities = capabilities, po_helper_version = helper_version,
        po_observed_at_ms = attempt_at_ms\<rparr>)"

definition worker_claim ::
    "cache_env \<Rightarrow> nat \<Rightarrow> node_registration_snapshot \<Rightarrow> u64 \<Rightarrow> node_projection_sync
      \<Rightarrow> remote_notification_candidate list \<Rightarrow> remote_digest_candidate option
      \<Rightarrow> registration_manager \<times> projection_cache
      \<Rightarrow> notification_request list \<times> registration_manager \<times> projection_cache" where
  "worker_claim env now r epoch sync candidates digest mc =
     (if candidates = [] \<and> digest = None then ([], mc)
      else
      (let (claimed, mc') = with_cache_observation now r epoch
             (claim_notifications env r (sy_cursor sync) (map rc_claim candidates)
                (map_option rd_claim digest)) mc
       in (case claimed of
             Inr (Some (Some (accepted, digest_taken))) \<Rightarrow>
               map (\<lambda>(c, _). rc_request c) (filter snd (zip candidates accepted))
               @ (case digest of Some d \<Rightarrow> if digest_taken then [rd_request d] else [] | None \<Rightarrow> [])
           | _ \<Rightarrow> [], mc')))"

text \<open>After a failure: the health is marked and the next attempt is due after the retry delay.\<close>

definition worker_fail ::
    "cache_env \<Rightarrow> nat \<Rightarrow> node_registration_snapshot \<Rightarrow> u64 \<Rightarrow> u64 \<Rightarrow> u64 \<Rightarrow> u32
      \<Rightarrow> node_projection_health_code \<Rightarrow> registration_manager \<times> projection_cache
      \<Rightarrow> u32 \<times> u64 option option res \<times> registration_manager \<times> projection_cache" where
  "worker_fail env now r epoch g attempt_at_ms failures health mc =
     (let failures = (if failures = - 1 then failures else failures + 1);
          delay = node_projection_retry_delay (nr_node_id r) failures health;
          retry_at_ms = (if unat attempt_at_ms + unat delay < 2 ^ 64 then attempt_at_ms + delay else - 1)
      in (failures, with_cache_observation now r epoch
            (mark_health env r g health attempt_at_ms (Some retry_at_ms)) mc))"

end
