(* ===== verification/Worker_Props.thy ===== *)
theory Worker_Props
  imports Projection_Worker
begin

text \<open>
  The properties of the projection worker and of its composition with the registrations and the
  cache.
\<close>

section \<open>A forgotten Node is not revived by a late worker\<close>

lemma expired_snapshots: "map rg_snapshot (rs_registrations (expire_maintenance now st)) = map rg_snapshot (rs_registrations st)"
  by (simp add: expire_maintenance_def comp_def)

lemma forgotten_not_current:
  assumes "forgotten (nr_node_id r) (nr_tombstone_epoch r) (to_persisted st)"
    and "find_node (expire_maintenance now st) (nr_node_id r) = Some x"
  shows "\<not> is_current r x"
proof -
  have x: "x \<in> set (rs_registrations (expire_maintenance now st))" "nr_node_id (rg_snapshot x) = nr_node_id r"
    using assms(2) unfolding find_node_def by (auto dest: find_Some_mem)
  then have "rg_snapshot x \<in> set (map rg_snapshot (rs_registrations st))"
    using expired_snapshots [of now st] by (metis image_eqI list.set_map)
  then have "nr_tombstone_epoch r < nr_tombstone_epoch (rg_snapshot x)"
    using assms(1) x(2) by (auto simp: forgotten_def to_persisted_def)
  then show ?thesis by (auto simp: is_current_def)
qed

lemma forgotten_not_observed:
  assumes "manager_table m = Some p" and "forgotten (nr_node_id r) (nr_tombstone_epoch r) p"
  shows "fst (reg_with_observation now r epoch x m) = Inr None
    \<and> manager_table (snd (reg_with_observation now r epoch x m)) = Some p"
proof -
  obtain st where st: "mgr_state m = ManagerAvailable st" "p = to_persisted st"
    using assms(1) by (auto simp: manager_table_def split: manager_state.splits)
  have "to_persisted (expire_maintenance now st) = to_persisted st"
    using expired_snapshots [of now st] by (simp add: to_persisted_def) (simp add: expire_maintenance_def)
  then show ?thesis
    using st assms(2) forgotten_not_current [of r st now]
    by (auto simp: reg_with_observation_def in_memory_def available_def Let_def manager_table_def split: option.split)
qed

lemma forgotten_gated:
  assumes "manager_table m = Some p" and "forgotten (nr_node_id r) (nr_tombstone_epoch r) p"
  shows "\<exists>m'. snd (with_cache_observation now r epoch operation (m, c)) = (m', c) \<and> manager_table m' = Some p"
proof -
  obtain x c1 where op: "operation c = (x, c1)" by (cases "operation c")
  obtain y m1 where reg: "reg_with_observation now r epoch x m = (y, m1)" by (cases "reg_with_observation now r epoch x m")
  have "y = Inr None" "manager_table m1 = Some p"
    using forgotten_not_observed [OF assms(1,2), of now epoch x] reg by simp_all
  then show ?thesis using op reg by (simp add: with_cache_observation_def)
qed

datatype worker_step =
    StepRegistration reg_command
  | StepCommit nat node_registration_snapshot u64 u64 u64 node_projection_sync "string list" string
  | StepClaim nat node_registration_snapshot u64 node_projection_sync
      "remote_notification_candidate list" "remote_digest_candidate option"
  | StepFail nat node_registration_snapshot u64 u64 u64 u32 node_projection_health_code

fun worker_exec ::
    "registration_env \<Rightarrow> cache_env \<Rightarrow> worker_step \<Rightarrow> registration_manager \<times> projection_cache
      \<Rightarrow> registration_manager \<times> projection_cache" where
  "worker_exec renv env (StepRegistration cmd) mc = (snd (reg_exec renv cmd (fst mc)), snd mc)"
| "worker_exec renv env (StepCommit now r epoch g at sync caps ver) mc =
     snd (worker_commit env now r epoch g at sync caps ver mc)"
| "worker_exec renv env (StepClaim now r epoch sync candidates digest) mc =
     snd (worker_claim env now r epoch sync candidates digest mc)"
| "worker_exec renv env (StepFail now r epoch g at failures health) mc =
     snd (snd (worker_fail env now r epoch g at failures health mc))"

text \<open>The step belongs to another Node, or to a worker that observed Node \<open>n\<close> before it was
  forgotten under tombstone epoch \<open>e\<close>.\<close>

fun late_step :: "string \<Rightarrow> u64 \<Rightarrow> worker_step \<Rightarrow> bool" where
  "late_step n e (StepRegistration cmd) = True"
| "late_step n e (StepCommit now r epoch g at sync caps ver) = (nr_node_id r = n \<and> nr_tombstone_epoch r \<le> e)"
| "late_step n e (StepClaim now r epoch sync candidates digest) = (nr_node_id r = n \<and> nr_tombstone_epoch r \<le> e)"
| "late_step n e (StepFail now r epoch g at failures health) = (nr_node_id r = n \<and> nr_tombstone_epoch r \<le> e)"

lemma forgotten_mono: "forgotten n e p \<Longrightarrow> e' \<le> e \<Longrightarrow> forgotten n e' p"
  by (auto simp: forgotten_def)

lemma worker_exec_late:
  assumes "manager_table m = Some p" and "forgotten n e p" and "late_step n e step"
  shows "\<exists>m' p'. worker_exec renv env step (m, c) = (m', c) \<and> manager_table m' = Some p' \<and> forgotten n e p'"
proof (cases step)
  case (StepRegistration cmd)
  obtain x m1 where run: "reg_exec renv cmd m = (x, m1)" by (cases "reg_exec renv cmd m")
  then obtain p' where "manager_table m1 = Some p'" "table_step renv p p'"
    using reg_exec_refines [OF run assms(1)] by blast
  then show ?thesis using forgotten_step assms(2) StepRegistration run by auto
next
  case (StepCommit now r epoch g at sync caps ver)
  then have "forgotten (nr_node_id r) (nr_tombstone_epoch r) p" using assms(2,3) forgotten_mono by auto
  from forgotten_gated [OF assms(1) this] StepCommit assms(2) show ?thesis
    by (fastforce simp: worker_commit_def)
next
  case (StepClaim now r epoch sync candidates digest)
  then have "forgotten (nr_node_id r) (nr_tombstone_epoch r) p" using assms(2,3) forgotten_mono by auto
  from forgotten_gated [OF assms(1) this] StepClaim assms(1,2) show ?thesis
    by (fastforce simp: worker_claim_def split_def Let_def)
next
  case (StepFail now r epoch g at failures health)
  then have "forgotten (nr_node_id r) (nr_tombstone_epoch r) p" using assms(2,3) forgotten_mono by auto
  from forgotten_gated [OF assms(1) this] StepFail assms(2) show ?thesis
    by (fastforce simp: worker_fail_def Let_def)
qed

text \<open>C30: Once a registration is forgotten, the workers that observed it before cannot change the
  projection cache any more: whatever they commit, claim or mark, and whatever registrations are
  made in between, the same Node again included, the cache stays as it is, so an entry that was
  removed with the registration does not come back.\<close>

theorem worker_forgotten_stays_removed:
  assumes "manager_table m = Some p" and "forgotten n e p" and "list_all (late_step n e) steps"
  shows "snd (fold (worker_exec renv env) steps (m, c)) = c"
  using assms
proof (induction steps arbitrary: m p)
  case (Cons step steps)
  obtain m' p' where "worker_exec renv env step (m, c) = (m', c)" "manager_table m' = Some p'" "forgotten n e p'"
    using worker_exec_late [of m p n e step renv env c] Cons.prems by auto
  then show ?case using Cons.IH Cons.prems(3) by simp
qed simp

definition demo_after_forget :: registration_manager where
  "demo_after_forget = load_manager (Inr \<lparr>rs_revision = 1, rs_tombstone_epoch = 1, rs_registrations = []\<rparr>) None"

definition demo_late :: node_registration_snapshot where
  "demo_late = \<lparr>nr_alias = ''r'', nr_target = ''host'', nr_node_id = ''n1'', nr_revision = 1, nr_tombstone_epoch = 0\<rparr>"

definition demo_worker_renv :: registration_env where
  "demo_worker_renv = \<lparr>env_uuid_canonical = Some, env_registrations_len = (\<lambda>_. Inr 0),
     env_registrations_write = (\<lambda>_. None)\<rparr>"

definition demo_worker_env :: cache_env where
  "demo_worker_env = \<lparr>env_cache_uuid_ok = (\<lambda>s. s \<noteq> []), env_cache_len = (\<lambda>_. Inr 0),
     env_cache_write = (\<lambda>_. None)\<rparr>"

theorem worker_forgotten_stays_removed_witness:
  "snd (fold (worker_exec demo_worker_renv demo_worker_env) [StepFail 5 demo_late 0 0 9 0 HcUnreachable]
     (demo_after_forget, \<lparr>cache_mem = empty_cache_state, cache_disk = None\<rparr>))
   = \<lparr>cache_mem = empty_cache_state, cache_disk = None\<rparr>"
proof (rule worker_forgotten_stays_removed)
  show "manager_table demo_after_forget
      = Some (to_persisted \<lparr>rs_revision = 1, rs_tombstone_epoch = 1, rs_registrations = []\<rparr>)"
    by (simp add: demo_after_forget_def load_manager_def manager_table_def)
  show "forgotten ''n1'' 0 (to_persisted \<lparr>rs_revision = 1, rs_tombstone_epoch = 1, rs_registrations = []\<rparr>)"
    by (simp add: forgotten_def to_persisted_def)
  show "list_all (late_step ''n1'' 0) [StepFail 5 demo_late 0 0 9 0 HcUnreachable]"
    by (simp add: demo_late_def)
qed

section \<open>The notifications of a synchronisation\<close>

lemma candidates_of_claims:
  "distinct (map rc_claim (candidates_of f ts seen))
   \<and> rc_claim ` set (candidates_of f ts seen) \<inter> seen = {}
   \<and> (\<forall>c \<in> set (candidates_of f ts seen). \<exists>t \<in> set ts. f (tr_kind t) = Some c)"
proof (induction ts arbitrary: seen)
  case Nil
  then show ?case by simp
next
  case (Cons t ts)
  show ?case
  proof (cases "f (tr_kind t)")
    case None
    then show ?thesis using Cons.IH [of seen] by auto
  next
    case (Some c)
    then show ?thesis using Cons.IH [of seen] Cons.IH [of "insert (rc_claim c) seen"] by auto
  qed
qed

definition agents_well_formed :: "node_projection_snapshot \<Rightarrow> bool" where
  "agents_well_formed p \<longleftrightarrow>
     list_all (\<lambda>a. pa_id a \<noteq> [] \<and> length (pa_id a) \<le> max_name_bytes \<and> pa_observation_revision a \<noteq> 0) (np_agents p)"

lemma agent_candidate_ok:
  assumes "agent_candidate r sync settings w i g = Some c" and "agents_well_formed (sy_projection sync)"
    and "env_cache_uuid_ok env (cur_stream_id (sy_cursor sync))"
  shows "notification_claim_ok env (rc_claim c)"
proof -
  obtain a category where a: "a \<in> set (np_agents (sy_projection sync))" "pa_observation_revision a = g"
    and c: "rc_claim c = \<lparr>nc_stream_id = cur_stream_id (sy_cursor sync), nc_entity_id = pa_id a,
       nc_revision = g, nc_category = category, nc_reason = remote_notification_reason_key category\<rparr>"
    using assms(1)
    by (auto simp: agent_candidate_def Let_def split: option.splits if_splits dest!: find_Some_mem)
  have "remote_notification_reason_key category \<noteq> []
      \<and> length (remote_notification_reason_key category) \<le> max_notification_reason_bytes
      \<and> \<not> has_control (remote_notification_reason_key category)"
    by (cases category) (simp_all add: max_notification_reason_bytes_def)
  then show ?thesis
    using a c assms(2,3) by (auto simp: notification_claim_ok_def agents_well_formed_def list_all_iff)
qed

lemma candidates_ok:
  assumes "agents_well_formed (sy_projection sync)" and "env_cache_uuid_ok env (cur_stream_id (sy_cursor sync))"
  shows "list_all (\<lambda>c. notification_claim_ok env (rc_claim c))
    (candidates_of (transition_candidate r sync settings) ts {})"
proof -
  have "notification_claim_ok env (rc_claim c)" if "transition_candidate r sync settings kind = Some c" for kind c
    using that agent_candidate_ok [OF _ assms] by (auto simp: transition_candidate_def split: node_projection_transition_kind.splits)
  then show ?thesis
    using candidates_of_claims [of "transition_candidate r sync settings" ts "{}"] by (fastforce simp: list_all_iff)
qed

lemma reconnect_digest_ok:
  assumes "env_cache_uuid_ok env (cur_stream_id (sy_cursor sync))"
    and "cur_event_id prior \<le> cur_event_id (sy_cursor sync)"
  shows "reconnect_digest r sync prior cs = Some d \<longrightarrow> validate_digest_claim env (rd_claim d) = Inr ()"
proof -
  let ?cats = "remdups_adj (sort (map (\<lambda>c. nc_category (rc_claim c)) cs))"
  have cats: "sorted_wrt (<) ?cats" by (rule sorted_remdups_adj_strict) simp
  show ?thesis
  proof (cases ?cats)
    case Nil
    then show ?thesis by (simp add: reconnect_digest_def)
  next
    case (Cons first rest)
    then show ?thesis
      using cats assms by (auto simp: reconnect_digest_def validate_digest_claim_iff digest_claim_ok_def)
  qed
qed

text \<open>The notifications that a synchronisation calls for are never rejected by the claim log:
  the claims are valid and pairwise distinct and the digest is valid; a reconnected Node gives at
  most one digest and no single notification; and a new baseline, a stream that was replaced or a
  cursor that moved back gives none.\<close>

theorem remote_candidates_valid:
  assumes "agents_well_formed (sy_projection sync)" and "env_cache_uuid_ok env (cur_stream_id (sy_cursor sync))"
    and "remote_notification_candidates r sync commit settings = (candidates, digest)"
  shows "for_each (validate_notification_claim env) (map rc_claim candidates) = Inr ()
    \<and> distinct (map rc_claim candidates)
    \<and> (\<forall>d. digest = Some d \<longrightarrow> validate_digest_claim env (rd_claim d) = Inr () \<and> candidates = [])
    \<and> (pc_previous_health commit = Some HcOnline \<longrightarrow> digest = None)
    \<and> (candidates \<noteq> [] \<or> digest \<noteq> None \<longrightarrow> sy_mode sync = SyncResumed
        \<and> (\<exists>prior. pc_previous_cursor commit = Some prior \<and> cur_stream_id prior = cur_stream_id (sy_cursor sync)
            \<and> cur_event_id prior \<le> cur_event_id (sy_cursor sync)))"
proof -
  let ?cs = "candidates_of (transition_candidate r sync settings) (sy_transitions sync) {}"
  have ok: "for_each (validate_notification_claim env) (map rc_claim ?cs) = Inr ()"
    using candidates_ok [OF assms(1,2)] by (simp add: list_all_iff validate_notification_claim_iff)
  have dist: "distinct (map rc_claim ?cs)"
    using candidates_of_claims [of "transition_candidate r sync settings" "sy_transitions sync" "{}"] by simp
  show ?thesis
  proof (cases "sy_mode sync = SyncResumed")
    case False
    then show ?thesis using assms(3) by (auto simp: remote_notification_candidates_def)
  next
    case True
    show ?thesis
    proof (cases "opt_filter (\<lambda>prior. cur_stream_id prior = cur_stream_id (sy_cursor sync)
        \<and> cur_event_id prior \<le> cur_event_id (sy_cursor sync)) (pc_previous_cursor commit)")
      case None
      then show ?thesis using assms(3) True by (auto simp: remote_notification_candidates_def)
    next
      case (Some prior)
      then have prior: "pc_previous_cursor commit = Some prior" "cur_stream_id prior = cur_stream_id (sy_cursor sync)"
        "cur_event_id prior \<le> cur_event_id (sy_cursor sync)" by simp_all
      have run: "remote_notification_candidates r sync commit settings =
          (if pc_previous_health commit = Some HcOnline then (?cs, None) else ([], reconnect_digest r sync prior ?cs))"
        unfolding remote_notification_candidates_def Some using True by (simp add: Let_def)
      show ?thesis
      proof (cases "pc_previous_health commit = Some HcOnline")
        case online: True
        then have "candidates = ?cs" "digest = None" using assms(3) run by simp_all
        then show ?thesis using ok dist True prior by simp
      next
        case False
        then have "candidates = []" "digest = reconnect_digest r sync prior ?cs" using assms(3) run by simp_all
        then show ?thesis using reconnect_digest_ok [OF assms(2) prior(3)] True prior False by simp
      qed
    qed
  qed
qed

section \<open>Retrying\<close>

lemma retry_base_bounds: "1 \<le> unat (retry_base failures health) \<and> unat (retry_base failures health) \<le> 60"
proof -
  have "push_bit k (1 :: u64) \<in> {1, 2, 4, 8, 16, 32, 64}" if "k \<le> 6" for k
  proof -
    have "k \<in> {0, 1, 2, 3, 4, 5, 6}" using that by auto
    then show ?thesis by (auto simp: push_bit_eq_mult)
  qed
  then have "push_bit (min j 6) (1 :: u64) \<in> {1, 2, 4, 8, 16, 32, 64}" for j by simp
  from this [of "if failures = 0 then 0 else unat (failures - 1)"] show ?thesis
    by (auto simp: retry_base_def min_def)
qed

text \<open>The delay before the next attempt is at least one second and less than 61, however often
  the Node has failed, and the arithmetic does not overflow.\<close>

theorem retry_delay_bounds:
  "1000 \<le> unat (node_projection_retry_delay node_id failures health)
   \<and> unat (node_projection_retry_delay node_id failures health) < 61000"
proof -
  let ?j = "fold (\<lambda>b v. v * 33 + of_char b) node_id (ucast failures) mod 1000 :: u64"
  have j: "unat ?j < 1000" by (simp add: unat_mod)
  have b: "1 \<le> unat (retry_base failures health)" "unat (retry_base failures health) \<le> 60"
    using retry_base_bounds by simp_all
  have prod: "unat (retry_base failures health * 1000) = unat (retry_base failures health) * 1000"
    using b by (simp add: unat_word_ariths)
  have "unat (retry_base failures health * 1000 + ?j) = unat (retry_base failures health) * 1000 + unat ?j"
    using b j by (simp add: unat_word_ariths(1) prod)
  then show ?thesis using b j by (simp add: node_projection_retry_delay_def Let_def)
qed

definition demo_sync :: node_projection_sync where
  "demo_sync = \<lparr>sy_mode = SyncResumed, sy_cursor = \<lparr>cur_stream_id = ''e1'', cur_event_id = 9\<rparr>,
     sy_projection = \<lparr>np_node_id = ''n1'', np_workspaces = [], np_shells = [], np_launchers = [],
       np_agents = [\<lparr>pa_id = ''a1'', pa_workspace_id = ''w1'', pa_shell_id = ''s1'', pa_run_id = ''r1'',
         pa_name = ''agent'', pa_integration = ''x'', pa_state = AgBlocked, pa_observation_revision = 3,
         pa_observed_at_ms = 1, pa_started_at_ms = 0, pa_ended_at_ms = None,
         pa_attention = Some \<lparr>pat_reason = AttentionBlocked, pat_observation_revision = 3, pat_observed_at_ms = 1\<rparr>\<rparr>]\<rparr>,
     sy_transitions = [\<lparr>tr_event_id = 8, tr_at_ms = 1, tr_kind = TrAgent ''w1'' ''a1'' 3\<rparr>], sy_capabilities = []\<rparr>"

definition demo_settings :: notification_delivery_settings where
  "demo_settings = \<lparr>nd_desktop = \<lparr>ns_enabled = True, ns_blocked = True, ns_completed = True\<rparr>,
     nd_sound = \<lparr>ss_enabled = False, ss_blocked = [], ss_completed = []\<rparr>, nd_resume_agents = True,
     nd_persist_terminal_history = False, nd_claude_remote_control = True\<rparr>"

definition demo_reconnect :: projection_commit where
  "demo_reconnect = \<lparr>pc_generation = 2, pc_previous_health = Some HcStale,
     pc_previous_cursor = Some \<lparr>cur_stream_id = ''e1'', cur_event_id = 7\<rparr>\<rparr>"

theorem remote_candidates_valid_witness:
  "\<exists>d. snd (remote_notification_candidates demo_late demo_sync demo_reconnect demo_settings) = Some d
     \<and> validate_digest_claim \<lparr>env_cache_uuid_ok = (\<lambda>s. s \<noteq> []), env_cache_len = (\<lambda>_. Inr 0),
         env_cache_write = (\<lambda>_. None)\<rparr> (rd_claim d) = Inr ()"
proof -
  let ?env = "\<lparr>env_cache_uuid_ok = (\<lambda>s. s \<noteq> []), env_cache_len = (\<lambda>_. Inr 0), env_cache_write = (\<lambda>_. None)\<rparr>"
  obtain cs digest where run: "remote_notification_candidates demo_late demo_sync demo_reconnect demo_settings = (cs, digest)"
    by fastforce
  have "agents_well_formed (sy_projection demo_sync)" "env_cache_uuid_ok ?env (cur_stream_id (sy_cursor demo_sync))"
    by (simp_all add: agents_well_formed_def demo_sync_def max_name_bytes_def)
  from remote_candidates_valid [OF this run]
  have "\<forall>d. digest = Some d \<longrightarrow> validate_digest_claim ?env (rd_claim d) = Inr ()" by blast
  moreover have "digest \<noteq> None"
    using run by (auto simp: remote_notification_candidates_def demo_sync_def demo_reconnect_def opt_filter_def
        transition_candidate_def agent_candidate_def Let_def category_enabled_def demo_settings_def reconnect_digest_def)
  ultimately show ?thesis using run by auto
qed

end
