(* ===== verification/Daemon_Error.thy ===== *)
theory Daemon_Error
  imports Prelude
begin

text \<open>
  The errors of the daemon (\<open>DaemonError\<close> and its conversions in \<open>src/src/daemon.rs\<close>) and the
  codes under which they are sent (\<open>ErrorCode\<close> in \<open>src/src/protocol.rs\<close>). An \<open>io::Error\<close> made
  from a message displays that message.
\<close>

datatype error_code =
    EcInvalidArgument | EcNotFound | EcAlreadyExists | EcBusy | EcDaemonStopping
  | EcShellStartFailed | EcPersistenceFailed | EcTimeout | EcUnsupportedVersion
  | EcCursorExpired | EcRunChanged | EcRevisionAhead | EcIdempotencyExpired
  | EcNodeIdentityUnavailable | EcNodeRegistrationUnavailable | EcNodeIdentityChanged
  | EcAmbiguousTarget | EcRevisionChanged | EcOutcomeUnknown | EcInternal | EcUnknown

datatype daemon_error =
    DeValidation io_error
  | DeLifecycle error_code io_error
  | DePersistence string io_error
  | DeProtocol io_error
  | DeInternal io_error

type_synonym 'a daemon_result = "daemon_error + 'a"

definition de_validation :: "string \<Rightarrow> daemon_error" where
  "de_validation message = DeValidation (IoError InvalidInput message)"

definition de_lifecycle :: "error_code \<Rightarrow> string \<Rightarrow> daemon_error" where
  "de_lifecycle code message = DeLifecycle code (other_error message)"

definition de_persistence :: "io_error \<Rightarrow> daemon_error" where
  "de_persistence source = DePersistence (err_message source) source"

fun wire_code :: "daemon_error \<Rightarrow> error_code" where
  "wire_code (DeValidation _) = EcInvalidArgument"
| "wire_code (DeLifecycle code _) = code"
| "wire_code (DePersistence _ _) = EcPersistenceFailed"
| "wire_code (DeProtocol _) = EcUnsupportedVersion"
| "wire_code (DeInternal _) = EcInternal"

text \<open>\<open>impl From<io::Error> for DaemonError\<close>, applied by every \<open>?\<close>.\<close>

definition daemon_error_of :: "io_error \<Rightarrow> daemon_error" where
  "daemon_error_of source =
     (case err_kind source of
        InvalidInput \<Rightarrow> DeValidation source
      | InvalidData \<Rightarrow> DeValidation source
      | NotFound \<Rightarrow> DeLifecycle EcNotFound source
      | AlreadyExists \<Rightarrow> DeLifecycle EcAlreadyExists source
      | WouldBlock \<Rightarrow> DeLifecycle EcBusy source
      | AddrInUse \<Rightarrow> DeLifecycle EcBusy source
      | ConnectionAborted \<Rightarrow> DeLifecycle EcDaemonStopping source
      | TimedOut \<Rightarrow> DeLifecycle EcTimeout source
      | _ \<Rightarrow> DeInternal source)"

fun daemon_error_message :: "daemon_error \<Rightarrow> string" where
  "daemon_error_message (DePersistence message _) = message"
| "daemon_error_message (DeValidation source) = err_message source"
| "daemon_error_message (DeProtocol source) = err_message source"
| "daemon_error_message (DeInternal source) = err_message source"
| "daemon_error_message (DeLifecycle _ source) = err_message source"

definition with_context :: "io_error \<Rightarrow> string \<Rightarrow> io_error" where
  "with_context source context_text =
     IoError (err_kind source) (err_message source @ ''; '' @ context_text)"

fun append_error_context :: "daemon_error \<Rightarrow> string \<Rightarrow> daemon_error" where
  "append_error_context (DeValidation source) c = DeValidation (with_context source c)"
| "append_error_context (DeLifecycle code source) c = DeLifecycle code (with_context source c)"
| "append_error_context (DePersistence message source) c = DePersistence (message @ ''; '' @ c) source"
| "append_error_context (DeProtocol source) c = DeProtocol (with_context source c)"
| "append_error_context (DeInternal source) c = DeInternal (with_context source c)"

definition mutation_failure :: "daemon_error \<Rightarrow> unit res \<Rightarrow> daemon_error" where
  "mutation_failure primary rollback =
     (case rollback of
        Inr _ \<Rightarrow> primary
      | Inl e \<Rightarrow> append_error_context primary
                   (''durable rollback also failed: '' @ err_message e))"

text \<open>\<open>?\<close> on an \<open>io::Result\<close> inside a function that returns a \<open>DaemonResult\<close>.\<close>

definition lift_io :: "'a res \<Rightarrow> 'a daemon_result" where
  "lift_io r = (case r of Inl e \<Rightarrow> Inl (daemon_error_of e) | Inr x \<Rightarrow> Inr x)"

lemma wire_code_context [simp]: "wire_code (append_error_context e c) = wire_code e"
  by (cases e) simp_all

lemma message_context [simp]:
  "daemon_error_message (append_error_context e c) = daemon_error_message e @ ''; '' @ c"
  by (cases e) (simp_all add: with_context_def)

lemma wire_code_mutation_failure [simp]: "wire_code (mutation_failure e r) = wire_code e"
  by (simp add: mutation_failure_def split: sum.split)

lemma lift_io_simps [simp]:
  "lift_io (Inr x) = Inr x" "lift_io (Inl e) = Inl (daemon_error_of e)"
  by (simp_all add: lift_io_def)

end
