(* ===== verification/Event_Stream.thy ===== *)
theory Event_Stream
  imports Wire_Types Daemon_Error
begin

text \<open>
  The event stream of the daemon, \<open>src/src/daemon.rs\<close>: \<open>EventStreamState\<close> is the log of
  published events with their consecutive ids, \<open>TransitionState\<close> what is waiting to be
  published, and \<open>EventTransaction\<close> the pair of both locks. The methods of a transaction are
  functions of the pair. A loop that waits on the condition variable is one turn of it: a
  function of what the clock and the shutdown flag say, whose result is to answer, to fail or
  to wait. \<open>clock\<close> gives the time read when the event with a given id is appended.
\<close>

definition max_retained_events :: nat where
  "max_retained_events = 8192"

definition max_event_batch :: u16 where
  "max_event_batch = 256"

definition max_node_projection_transitions :: u16 where
  "max_node_projection_transitions = 256"

section \<open>Data\<close>

record event_stream_state =
  es_stream_id :: string
  es_latest_id :: u64
  es_events :: "daemon_event list"

record transition_state =
  ts_pending_durable_events :: "daemon_event_kind list list"
  ts_persistence_in_flight :: bool
  ts_in_flight_event_count :: nat
  ts_lifecycle_event_reservation :: nat
  ts_pending_runtime_events :: "daemon_event_kind list"

record event_stream =
  sm_state :: event_stream_state
  sm_transitions :: transition_state

text \<open>\<open>handoff::EventStreamManifest\<close>, and the answer \<open>Response::Events\<close>.\<close>

record event_stream_manifest =
  em_stream_id :: string
  em_latest_id :: u64
  em_events :: "daemon_event list"

record events_response =
  er_stream_id :: string
  er_cursor :: event_cursor
  er_snapshot :: "node_snapshot option"
  er_events :: "daemon_event list"

definition empty_transition_state :: transition_state where
  "empty_transition_state =
     \<lparr>ts_pending_durable_events = [], ts_persistence_in_flight = False,
      ts_in_flight_event_count = 0, ts_lifecycle_event_reservation = 0,
      ts_pending_runtime_events = []\<rparr>"

section \<open>What waits to be published\<close>

definition publication_blocked :: "transition_state \<Rightarrow> bool" where
  "publication_blocked ts \<longleftrightarrow>
     ts_persistence_in_flight ts \<or> ts_pending_durable_events ts \<noteq> []
     \<or> ts_lifecycle_event_reservation ts \<noteq> 0"

text \<open>Which pending event a new one replaces.\<close>

definition supersedes :: "daemon_event_kind \<Rightarrow> daemon_event_kind \<Rightarrow> bool" where
  "supersedes e pending =
     (case e of
        EvOutputChanged _ shell run _ \<Rightarrow>
          (case pending of
             EvOutputChanged _ shell' run' _ \<Rightarrow> shell' = shell \<and> run' = run
           | _ \<Rightarrow> False)
      | EvNodeProjectionChanged node _ \<Rightarrow>
          (case pending of EvNodeProjectionChanged node' _ \<Rightarrow> node' = node | _ \<Rightarrow> False)
      | EvFocusedTerminalPresentationChanged \<Rightarrow> pending = EvFocusedTerminalPresentationChanged
      | _ \<Rightarrow> False)"

definition queue_event :: "daemon_event_kind \<Rightarrow> daemon_event_kind list \<Rightarrow> daemon_event_kind list" where
  "queue_event e pending =
     (case position (supersedes e) pending of
        Some i \<Rightarrow> remove_at i pending
      | None \<Rightarrow> pending) @ [e]"

definition queue_runtime_event :: "daemon_event_kind \<Rightarrow> transition_state \<Rightarrow> transition_state" where
  "queue_runtime_event e ts =
     ts\<lparr>ts_pending_runtime_events := queue_event e (ts_pending_runtime_events ts)\<rparr>"

definition reserved_event_count :: "transition_state \<Rightarrow> nat" where
  "reserved_event_count ts =
     usize_saturating_add
       (usize_saturating_add
          (usize_saturating_add (ts_in_flight_event_count ts)
             (sum_list (map length (ts_pending_durable_events ts))))
          (length (ts_pending_runtime_events ts)))
       (ts_lifecycle_event_reservation ts)"

section \<open>The log of published events\<close>

text \<open>A \<open>usize\<close> always fits \<open>u64\<close> here; what does not fit is refused all the same.\<close>

definition ensure_capacity :: "event_stream_state \<Rightarrow> nat \<Rightarrow> unit res" where
  "ensure_capacity es count =
     (if 2 ^ 64 \<le> count then Inl (other_error ''event batch too large'')
      else (case u64_checked_add (es_latest_id es) (of_nat count) of
              None \<Rightarrow> Inl (other_error ''daemon event ID exhausted'')
            | Some _ \<Rightarrow> Inr ()))"

definition append_one :: "(u64 \<Rightarrow> u64) \<Rightarrow> daemon_event_kind \<Rightarrow> event_stream_state \<Rightarrow> event_stream_state" where
  "append_one clock kind es =
     (let i = es_latest_id es + 1
      in es\<lparr>es_latest_id := i,
            es_events := es_events es @ [\<lparr>ev_id = i, ev_at_ms = clock i, ev_kind = kind\<rparr>]\<rparr>)"

definition retain_latest :: "event_stream_state \<Rightarrow> event_stream_state" where
  "retain_latest es =
     (if max_retained_events < length (es_events es)
      then es\<lparr>es_events := drop (length (es_events es) - max_retained_events) (es_events es)\<rparr>
      else es)"

definition append_batch_locked ::
    "(u64 \<Rightarrow> u64) \<Rightarrow> daemon_event_kind list \<Rightarrow> event_stream_state \<Rightarrow> event_stream_state" where
  "append_batch_locked clock kinds es = retain_latest (fold (append_one clock) kinds es)"

definition new_stream :: "string \<Rightarrow> event_stream" where
  "new_stream uuid =
     \<lparr>sm_state = \<lparr>es_stream_id = uuid, es_latest_id = 0, es_events = []\<rparr>,
      sm_transitions = empty_transition_state\<rparr>"

definition stream_from_transfer :: "string \<Rightarrow> event_stream_manifest option \<Rightarrow> event_stream" where
  "stream_from_transfer uuid transfer =
     \<lparr>sm_state =
        (case transfer of
           None \<Rightarrow> \<lparr>es_stream_id = uuid, es_latest_id = 0, es_events = []\<rparr>
         | Some m \<Rightarrow> \<lparr>es_stream_id = em_stream_id m, es_latest_id = em_latest_id m,
                      es_events = em_events m\<rparr>),
      sm_transitions = empty_transition_state\<rparr>"

definition stream_manifest :: "event_stream \<Rightarrow> event_stream_manifest" where
  "stream_manifest sm =
     \<lparr>em_stream_id = es_stream_id (sm_state sm), em_latest_id = es_latest_id (sm_state sm),
      em_events = es_events (sm_state sm)\<rparr>"

section \<open>Transactions\<close>

definition tx_reserve :: "event_stream \<Rightarrow> nat \<Rightarrow> unit res" where
  "tx_reserve sm count = ensure_capacity (sm_state sm) count"

definition reserve_with_pending :: "event_stream \<Rightarrow> nat \<Rightarrow> unit res" where
  "reserve_with_pending sm count =
     tx_reserve sm (usize_saturating_add (reserved_event_count (sm_transitions sm)) count)"

definition blocked_only_by_lifecycle_reservation :: "event_stream \<Rightarrow> nat \<Rightarrow> bool" where
  "blocked_only_by_lifecycle_reservation sm count =
     (let reservation = ts_lifecycle_event_reservation (sm_transitions sm)
      in reservation \<noteq> 0
         \<and> (case tx_reserve sm (usize_saturating_add
                   (reserved_event_count (sm_transitions sm) - reservation) count) of
              Inr _ \<Rightarrow> True | Inl _ \<Rightarrow> False))"

definition pending_durable_batch_count :: "event_stream \<Rightarrow> nat" where
  "pending_durable_batch_count sm = length (ts_pending_durable_events (sm_transitions sm))"

definition pending_durable_event_count :: "event_stream \<Rightarrow> nat \<Rightarrow> nat" where
  "pending_durable_event_count sm batch_count =
     sum_list (map length (take batch_count (ts_pending_durable_events (sm_transitions sm))))"

definition tx_pending_durable_events :: "event_stream \<Rightarrow> daemon_event_kind list" where
  "tx_pending_durable_events sm = concat (ts_pending_durable_events (sm_transitions sm))"

definition on_transitions :: "(transition_state \<Rightarrow> transition_state) \<Rightarrow> event_stream \<Rightarrow> event_stream" where
  "on_transitions f sm = sm\<lparr>sm_transitions := f (sm_transitions sm)\<rparr>"

definition take_pending_durable ::
    "nat \<Rightarrow> event_stream \<Rightarrow> daemon_event_kind list list \<times> event_stream" where
  "take_pending_durable batch_count sm =
     (take batch_count (ts_pending_durable_events (sm_transitions sm)),
      on_transitions (\<lambda>ts. ts\<lparr>ts_pending_durable_events :=
                               drop batch_count (ts_pending_durable_events ts)\<rparr>) sm)"

definition restore_pending_durable :: "daemon_event_kind list list \<Rightarrow> event_stream \<Rightarrow> event_stream" where
  "restore_pending_durable pending =
     on_transitions (\<lambda>ts. ts\<lparr>ts_pending_durable_events :=
                              foldr (#) pending (ts_pending_durable_events ts)\<rparr>)"

definition begin_persistence :: "nat \<Rightarrow> event_stream \<Rightarrow> event_stream" where
  "begin_persistence count =
     on_transitions (\<lambda>ts. ts\<lparr>ts_persistence_in_flight := True, ts_in_flight_event_count := count\<rparr>)"

definition begin_lifecycle_reservation :: "nat \<Rightarrow> event_stream \<Rightarrow> event_stream" where
  "begin_lifecycle_reservation count =
     on_transitions (\<lambda>ts. ts\<lparr>ts_lifecycle_event_reservation := count\<rparr>)"

definition publish_pending_runtime :: "(u64 \<Rightarrow> u64) \<Rightarrow> event_stream \<Rightarrow> event_stream" where
  "publish_pending_runtime clock sm =
     (if publication_blocked (sm_transitions sm) then sm
      else sm\<lparr>sm_state := retain_latest
                (fold (append_one clock) (ts_pending_runtime_events (sm_transitions sm)) (sm_state sm)),
              sm_transitions := (sm_transitions sm)\<lparr>ts_pending_runtime_events := []\<rparr>\<rparr>)"

definition release_lifecycle_reservation :: "(u64 \<Rightarrow> u64) \<Rightarrow> event_stream \<Rightarrow> event_stream" where
  "release_lifecycle_reservation clock sm =
     publish_pending_runtime clock
       (on_transitions (\<lambda>ts. ts\<lparr>ts_lifecycle_event_reservation := 0\<rparr>) sm)"

definition transfer_lifecycle_reservation :: "nat \<Rightarrow> nat \<Rightarrow> event_stream \<Rightarrow> event_stream" where
  "transfer_lifecycle_reservation persistence_count retained sm =
     begin_persistence persistence_count
       (on_transitions (\<lambda>ts. ts\<lparr>ts_lifecycle_event_reservation := retained\<rparr>) sm)"

definition tx_append_batch ::
    "(u64 \<Rightarrow> u64) \<Rightarrow> daemon_event_kind list \<Rightarrow> event_stream \<Rightarrow> event_stream" where
  "tx_append_batch clock batch sm =
     sm\<lparr>sm_state := append_batch_locked clock batch (sm_state sm)\<rparr>"

definition append_pending_durable :: "(u64 \<Rightarrow> u64) \<Rightarrow> event_stream \<Rightarrow> event_stream" where
  "append_pending_durable clock sm =
     sm\<lparr>sm_state := fold (append_batch_locked clock)
                      (ts_pending_durable_events (sm_transitions sm)) (sm_state sm),
        sm_transitions := (sm_transitions sm)\<lparr>ts_pending_durable_events := []\<rparr>\<rparr>"

definition finish_persistence :: "(u64 \<Rightarrow> u64) \<Rightarrow> event_stream \<Rightarrow> event_stream" where
  "finish_persistence clock sm =
     publish_pending_runtime clock
       (on_transitions (\<lambda>ts. ts\<lparr>ts_persistence_in_flight := False, ts_in_flight_event_count := 0\<rparr>) sm)"

definition stream_cursor :: "event_stream \<Rightarrow> event_cursor" where
  "stream_cursor sm =
     \<lparr>cur_stream_id = es_stream_id (sm_state sm), cur_event_id = es_latest_id (sm_state sm)\<rparr>"

definition drain_runtime_events :: "event_stream \<Rightarrow> daemon_event_kind list \<times> event_stream" where
  "drain_runtime_events sm =
     (ts_pending_runtime_events (sm_transitions sm),
      on_transitions (\<lambda>ts. ts\<lparr>ts_pending_runtime_events := []\<rparr>) sm)"

definition queue_durable_batch ::
    "daemon_event_kind list \<Rightarrow> event_stream \<Rightarrow> bool \<times> event_stream" where
  "queue_durable_batch batch sm =
     (if batch = [] then (False, sm)
      else (True, on_transitions (\<lambda>ts. ts\<lparr>ts_pending_durable_events :=
                                          ts_pending_durable_events ts @ [batch]\<rparr>) sm))"

text \<open>Publishing an event that needs no write.\<close>

definition publish_runtime_batch ::
    "(u64 \<Rightarrow> u64) \<Rightarrow> daemon_event_kind list \<Rightarrow> event_stream \<Rightarrow> unit res \<times> event_stream" where
  "publish_runtime_batch clock kinds sm =
     (case ensure_capacity (sm_state sm)
             (usize_saturating_add (reserved_event_count (sm_transitions sm)) (length kinds)) of
        Inl e \<Rightarrow> (Inl e, sm)
      | Inr _ \<Rightarrow>
          if publication_blocked (sm_transitions sm)
          then (Inr (), on_transitions (fold queue_runtime_event kinds) sm)
          else (Inr (), tx_append_batch clock kinds sm))"

section \<open>Reading\<close>

datatype 'a poll = PollError daemon_error | PollReady 'a | PollWait

text \<open>The oldest cursor that can still be resumed.\<close>

definition earliest_cursor :: "event_stream_state \<Rightarrow> u64" where
  "earliest_cursor es =
     (case es_events es of [] \<Rightarrow> es_latest_id es | e # _ \<Rightarrow> u64_saturating_sub (ev_id e) 1)"

definition daemon_stopping :: daemon_error where
  "daemon_stopping = de_lifecycle EcDaemonStopping ''Boomux daemon is stopping''"

definition cursor_expired :: daemon_error where
  "cursor_expired = de_lifecycle EcCursorExpired ''event cursor is no longer available''"

text \<open>
  One turn of \<open>read_after\<close>; \<open>expired\<close> says whether the deadline has passed.
\<close>

definition read_after ::
    "event_cursor \<Rightarrow> nat \<Rightarrow> u32 \<Rightarrow> bool \<Rightarrow> bool \<Rightarrow> event_stream_state \<Rightarrow> events_response poll" where
  "read_after after limit wait_ms expired stopping es =
     (let earliest = earliest_cursor es in
      if cur_stream_id after \<noteq> es_stream_id es \<or> cur_event_id after < earliest
         \<or> cur_event_id after > es_latest_id es
      then PollError cursor_expired
      else
      (let offset = unat (u64_saturating_sub (cur_event_id after) earliest);
           events = take limit (drop offset (es_events es))
       in if events \<noteq> [] \<or> wait_ms = 0 \<or> expired
          then PollReady
                 \<lparr>er_stream_id = es_stream_id es,
                  er_cursor = \<lparr>cur_stream_id = es_stream_id es,
                               cur_event_id = (if events = [] then cur_event_id after
                                               else ev_id (last events))\<rparr>,
                  er_snapshot = None, er_events = events\<rparr>
          else if stopping then PollError daemon_stopping
          else PollWait))"

text \<open>
  One turn of \<open>wait_for\<close>: while something waits to be written, the reader sees nothing.
\<close>

definition wait_for ::
    "u32 \<Rightarrow> bool \<Rightarrow> bool \<Rightarrow> (bool \<Rightarrow> 'a option daemon_result) \<Rightarrow> event_stream \<Rightarrow> 'a poll" where
  "wait_for wait_ms past_deadline stopping inspect sm =
     (if stopping then PollError daemon_stopping
      else if publication_blocked (sm_transitions sm) then PollWait
      else (case inspect (wait_ms = 0 \<or> past_deadline) of
              Inl e \<Rightarrow> PollError e
            | Inr (Some x) \<Rightarrow> PollReady x
            | Inr None \<Rightarrow> PollWait))"

text \<open>The limit that \<open>read_events\<close> passes on: \<open>limit.clamp(1, MAX_EVENT_BATCH)\<close>.\<close>

definition event_batch_limit :: "u16 \<Rightarrow> nat" where
  "event_batch_limit limit = unat (max 1 (min limit max_event_batch))"

section \<open>Transitions for the projections of other Nodes\<close>

fun reduce_kind :: "daemon_event_kind \<Rightarrow> node_projection_transition_kind option" where
  "reduce_kind (EvWorkspaceCreated w _) = Some (TrWorkspace w)"
| "reduce_kind (EvWorkspaceRenamed w _) = Some (TrWorkspace w)"
| "reduce_kind (EvWorkspaceDefaultCwdChanged w _) = Some (TrWorkspace w)"
| "reduce_kind (EvWorkspaceClosed w) = Some (TrWorkspace w)"
| "reduce_kind (EvShellCreated w s _) = Some (TrShell w s)"
| "reduce_kind (EvShellRenamed w s _) = Some (TrShell w s)"
| "reduce_kind (EvRunStarted w s _) = Some (TrShell w s)"
| "reduce_kind (EvOutputChanged w s _ _) = Some (TrShell w s)"
| "reduce_kind (EvRunExited w s _) = Some (TrShell w s)"
| "reduce_kind (EvShellClosed (Some w) s) = Some (TrShell w s)"
| "reduce_kind (EvShellClosed None s) = None"
| "reduce_kind (EvLauncherCreated w l _) = Some (TrLauncher w l)"
| "reduce_kind (EvLauncherRenamed w l _) = Some (TrLauncher w l)"
| "reduce_kind (EvLauncherRemoved w l) = Some (TrLauncher w l)"
| "reduce_kind (EvAgentRegistered w _ a) =
     Some (TrAgent w (ag_id a) (obs_revision (ag_observation a)))"
| "reduce_kind (EvAgentStateChanged w _ a) =
     Some (TrAgent w (ag_id a) (obs_revision (ag_observation a)))"
| "reduce_kind (EvAgentCompleted w _ a) =
     Some (TrAgent w (ag_id a) (obs_revision (ag_observation a)))"
| "reduce_kind (EvAgentAttentionAcknowledged w _ a) =
     Some (TrAgent w (ag_id a) (obs_revision (ag_observation a)))"
| "reduce_kind (EvAgentWorkingContextObserved w _ a) = Some (TrSessionContext w (ag_id a))"
| "reduce_kind EvHandoffCompleted = Some TrHandoffCompleted"
| "reduce_kind (EvNodeProjectionChanged _ _) = None"
| "reduce_kind EvFocusedTerminalPresentationChanged = None"
| "reduce_kind (EvAgentSessionDisplayNameChanged _ _ _ _) = None"
| "reduce_kind (EvAgentSessionHidden _ _ _) = None"

definition reduce_projection_transition :: "daemon_event \<Rightarrow> node_projection_transition option" where
  "reduce_projection_transition e =
     map_option (\<lambda>k. \<lparr>tr_event_id = ev_id e, tr_at_ms = ev_at_ms e, tr_kind = k\<rparr>)
       (reduce_kind (ev_kind e))"

definition projection_transitions ::
    "event_stream_state \<Rightarrow> event_cursor option \<Rightarrow> event_cursor
      \<Rightarrow> node_projection_sync_mode \<times> node_projection_transition list" where
  "projection_transitions es after through =
     (case after of
        None \<Rightarrow> (SyncBaseline, [])
      | Some after \<Rightarrow>
        (let earliest = earliest_cursor es in
         if cur_stream_id after \<noteq> es_stream_id es \<or> cur_event_id after < earliest
            \<or> cur_event_id after > cur_event_id through
         then (SyncBaseline, [])
         else
         (let event_count = u64_saturating_sub (cur_event_id through) (cur_event_id after) in
          if event_count > ucast max_node_projection_transitions then (SyncBaseline, [])
          else (SyncResumed,
                List.map_filter reduce_projection_transition
                  (take (unat event_count)
                     (drop (unat (u64_saturating_sub (cur_event_id after) earliest)) (es_events es)))))))"

end
