(* ===== verification/Event_Protocol.thy ===== *)
theory Event_Protocol
  imports Event_Stream
begin

text \<open>
  How the daemon uses its event stream, \<open>src/src/daemon.rs\<close>: \<open>durable_mutation_outcome\<close>,
  \<open>flush_pending\<close>, \<open>try_record_run_exit\<close> and \<open>lifecycle_transaction\<close>. Each gives the locks of
  the stream up while the state file is written, so each is a step before the write and a step
  after it, between which the other threads run. The state records who holds the mutation lock
  and what the holder of the persistence lock has taken out of the stream to write.

  What an operation does to the durable state is not part of this theory: a mutation is the
  list of events it reports, a stop the events its compensation or rollback reports.
\<close>

section \<open>Data\<close>

datatype writer_job =
    WriteMutation "daemon_event_kind list"
  | WriteFlush bool "daemon_event_kind list list"
  | WriteExit "daemon_event_kind list"
  | WriteLifecycle "daemon_event_kind list"

text \<open>
  The holder of the mutation lock: a mutation, which flushes first and may then change the
  durable state; the record of an exit; or the stop of a number of Shells, which flushes before
  it commits the given events.
\<close>

datatype mutation_holder =
    Mutating bool
  | Exiting
  | Stopping nat "daemon_event_kind list" bool

text \<open>
  \<open>sys_revision\<close> and \<open>sys_dirty\<close> are \<open>persistence_revision\<close> and \<open>persistence_dirty\<close>;
  \<open>sys_captured\<close> is the revision that the state being written was captured at.
\<close>

record event_system =
  sys_stream :: event_stream
  sys_mutation :: "mutation_holder option"
  sys_writer :: "writer_job option"
  sys_dirty :: bool
  sys_revision :: u64
  sys_captured :: u64

definition initial_system :: "event_stream \<Rightarrow> bool \<Rightarrow> event_system" where
  "initial_system sm dirty =
     \<lparr>sys_stream = sm, sys_mutation = None, sys_writer = None, sys_dirty = dirty,
      sys_revision = of_bool dirty, sys_captured = 0\<rparr>"

definition mark_persistence_dirty :: "event_system \<Rightarrow> event_system" where
  "mark_persistence_dirty s = s\<lparr>sys_revision := sys_revision s + 1, sys_dirty := True\<rparr>"

definition start_write :: "writer_job \<Rightarrow> event_system \<Rightarrow> event_system" where
  "start_write job s = s\<lparr>sys_writer := Some job, sys_captured := sys_revision s\<rparr>"

text \<open>\<open>write_persisted_state\<close>, when the write has come back.\<close>

definition written :: "bool \<Rightarrow> event_system \<Rightarrow> event_system" where
  "written ok s =
     s\<lparr>sys_writer := None,
       sys_dirty := (if ok then sys_dirty s \<and> sys_revision s \<noteq> sys_captured s else True)\<rparr>"

definition lifecycle_event_capacity :: "nat \<Rightarrow> daemon_event_kind list \<Rightarrow> nat" where
  "lifecycle_event_capacity shells committed = max (length committed) shells"

section \<open>Flushing\<close>

text \<open>
  A flush that succeeded; the mutation or stop that waits for it may go on.
\<close>

fun flushed :: "mutation_holder option \<Rightarrow> mutation_holder option" where
  "flushed (Some (Mutating _)) = Some (Mutating True)"
| "flushed (Some (Stopping n committed _)) = Some (Stopping n committed True)"
| "flushed m = m"

definition flush_begin :: "bool \<Rightarrow> event_system \<Rightarrow> event_system daemon_result" where
  "flush_begin own s =
     (let sm = sys_stream s in
      if pending_durable_batch_count sm = 0 \<and> \<not> sys_dirty s
      then Inr (if own then s\<lparr>sys_mutation := flushed (sys_mutation s)\<rparr> else s)
      else
      (let pending_count = pending_durable_batch_count sm;
           count = pending_durable_event_count sm pending_count
       in case reserve_with_pending sm 0 of
            Inl e \<Rightarrow> Inl (daemon_error_of e)
          | Inr _ \<Rightarrow>
            (let (pending, sm') = take_pending_durable pending_count sm
             in Inr (start_write (WriteFlush own pending) (s\<lparr>sys_stream := begin_persistence count sm'\<rparr>)))))"

definition flush_commit ::
    "(u64 \<Rightarrow> u64) \<Rightarrow> bool \<Rightarrow> daemon_event_kind list list \<Rightarrow> event_system
      \<Rightarrow> bool daemon_result \<times> event_system" where
  "flush_commit clock own pending s =
     (let s = written True s; sm = sys_stream s in
      case reserve_with_pending sm 0 of
        Inl e \<Rightarrow> (Inl (daemon_error_of e), s)
      | Inr _ \<Rightarrow>
        (Inr (sum_list (map length pending) \<noteq> 0),
         s\<lparr>sys_stream := finish_persistence clock (fold (tx_append_batch clock) pending sm),
           sys_mutation := (if own then flushed (sys_mutation s) else sys_mutation s)\<rparr>))"

definition flush_fail :: "(u64 \<Rightarrow> u64) \<Rightarrow> daemon_event_kind list list \<Rightarrow> event_system \<Rightarrow> event_system" where
  "flush_fail clock pending s =
     (written False s)\<lparr>sys_stream := finish_persistence clock (restore_pending_durable pending (sys_stream s))\<rparr>"

section \<open>Mutations of the durable state\<close>

definition mutation_begin :: "daemon_event_kind list \<Rightarrow> event_system \<Rightarrow> event_system daemon_result" where
  "mutation_begin kinds s =
     (case reserve_with_pending (sys_stream s) (length kinds) of
        Inl e \<Rightarrow> Inl (daemon_error_of e)
      | Inr _ \<Rightarrow> Inr (start_write (WriteMutation kinds)
                       (s\<lparr>sys_stream := begin_persistence (length kinds) (sys_stream s)\<rparr>)))"

definition mutation_commit :: "(u64 \<Rightarrow> u64) \<Rightarrow> daemon_event_kind list \<Rightarrow> event_system \<Rightarrow> event_system" where
  "mutation_commit clock kinds s =
     (written True s)
       \<lparr>sys_stream := finish_persistence clock (tx_append_batch clock kinds (sys_stream s)),
        sys_mutation := None\<rparr>"

definition mutation_fail :: "(u64 \<Rightarrow> u64) \<Rightarrow> event_system \<Rightarrow> event_system" where
  "mutation_fail clock s =
     (written False s)\<lparr>sys_stream := finish_persistence clock (sys_stream s), sys_mutation := None\<rparr>"

section \<open>Recording the exit of a run\<close>

datatype exit_start =
    ExitDeferred
  | ExitRefused io_error
  | ExitWriting event_system

definition exit_begin :: "daemon_event_kind \<Rightarrow> event_system \<Rightarrow> exit_start" where
  "exit_begin exit_event s =
     (case reserve_with_pending (sys_stream s) 1 of
        Inl e \<Rightarrow>
          (if blocked_only_by_lifecycle_reservation (sys_stream s) 1 then ExitDeferred
           else ExitRefused e)
      | Inr _ \<Rightarrow>
        (let (runtime, sm) = drain_runtime_events (sys_stream s);
             batch = runtime @ [exit_event];
             pending_count = pending_durable_event_count sm (pending_durable_batch_count sm);
             event_count = usize_saturating_add pending_count (length batch)
         in ExitWriting (start_write (WriteExit batch)
              (s\<lparr>sys_stream := begin_persistence event_count sm, sys_mutation := Some Exiting\<rparr>))))"

definition exit_commit :: "(u64 \<Rightarrow> u64) \<Rightarrow> daemon_event_kind list \<Rightarrow> event_system \<Rightarrow> event_system" where
  "exit_commit clock batch s =
     (written True s)
       \<lparr>sys_stream := finish_persistence clock
                       (tx_append_batch clock batch (append_pending_durable clock (sys_stream s))),
        sys_mutation := None\<rparr>"

definition exit_fail :: "(u64 \<Rightarrow> u64) \<Rightarrow> daemon_event_kind list \<Rightarrow> event_system \<Rightarrow> event_system" where
  "exit_fail clock batch s =
     (written False s)
       \<lparr>sys_stream := finish_persistence clock (snd (queue_durable_batch batch (sys_stream s))),
        sys_mutation := None\<rparr>"

section \<open>Stopping Shells\<close>

definition lifecycle_begin ::
    "nat \<Rightarrow> daemon_event_kind list \<Rightarrow> event_system \<Rightarrow> event_system daemon_result" where
  "lifecycle_begin shells committed s =
     (let capacity = lifecycle_event_capacity shells committed in
      case reserve_with_pending (sys_stream s) capacity of
        Inl e \<Rightarrow> Inl (daemon_error_of e)
      | Inr _ \<Rightarrow> Inr (s\<lparr>sys_stream := begin_lifecycle_reservation capacity (sys_stream s),
                       sys_mutation := Some (Stopping shells committed False)\<rparr>))"

text \<open>
  \<open>compensate_stopped_locked\<close> and \<open>restore_finalized_locked\<close>: the events that wait and those of
  the stopped Shells become one batch that the next flush writes. A stop that fails while it
  finalizes runs both, one after the other.
\<close>

definition queue_stopped_events :: "daemon_event_kind list \<Rightarrow> event_system \<Rightarrow> event_system" where
  "queue_stopped_events stopped s =
     (let (runtime, sm) = drain_runtime_events (sys_stream s);
          (queued, sm') = queue_durable_batch (runtime @ stopped) sm;
          s' = s\<lparr>sys_stream := sm'\<rparr>
      in if queued then mark_persistence_dirty s' else s')"

definition lifecycle_abandon ::
    "(u64 \<Rightarrow> u64) \<Rightarrow> daemon_event_kind list list \<Rightarrow> event_system \<Rightarrow> event_system" where
  "lifecycle_abandon clock batches s =
     (let s = fold queue_stopped_events batches s
      in s\<lparr>sys_stream := release_lifecycle_reservation clock (sys_stream s), sys_mutation := None\<rparr>)"

definition lifecycle_write :: "nat \<Rightarrow> daemon_event_kind list \<Rightarrow> event_system \<Rightarrow> event_system" where
  "lifecycle_write shells committed s =
     start_write (WriteLifecycle committed)
       (s\<lparr>sys_stream := transfer_lifecycle_reservation (length committed)
                         (lifecycle_event_capacity shells committed - length committed) (sys_stream s)\<rparr>)"

definition lifecycle_commit :: "(u64 \<Rightarrow> u64) \<Rightarrow> daemon_event_kind list \<Rightarrow> event_system \<Rightarrow> event_system" where
  "lifecycle_commit clock committed s =
     (written True s)
       \<lparr>sys_stream := finish_persistence clock
                       (release_lifecycle_reservation clock (tx_append_batch clock committed (sys_stream s))),
        sys_mutation := None\<rparr>"

definition lifecycle_fail :: "(u64 \<Rightarrow> u64) \<Rightarrow> daemon_event_kind list \<Rightarrow> event_system \<Rightarrow> event_system" where
  "lifecycle_fail clock stopped s =
     (let s = queue_stopped_events stopped (written False s)
      in s\<lparr>sys_stream := finish_persistence clock (release_lifecycle_reservation clock (sys_stream s)),
           sys_mutation := None\<rparr>)"

section \<open>Steps\<close>

text \<open>The job of the writer is one that the holder of the mutation lock waits for.\<close>

definition writes_for_holder :: "event_system \<Rightarrow> bool" where
  "writes_for_holder s =
     (case sys_writer s of None \<Rightarrow> False | Some (WriteFlush own _) \<Rightarrow> own | Some _ \<Rightarrow> True)"

fun may_flush :: "mutation_holder option \<Rightarrow> bool" where
  "may_flush (Some (Mutating f)) = (\<not> f)"
| "may_flush (Some (Stopping _ _ f)) = (\<not> f)"
| "may_flush _ = False"

text \<open>What a thread may do next. A step that needs a lock that is held cannot happen.\<close>

datatype event_action =
    Publish "daemon_event_kind list"
  | MarkDirty
  | MutationLock
  | MutationUnlock
  | FlushBegin bool
  | FlushCommit
  | FlushFail
  | MutationBegin "daemon_event_kind list"
  | MutationCommit
  | MutationFail
  | ExitBegin daemon_event_kind
  | ExitCommit
  | ExitFail
  | LifecycleBegin nat "daemon_event_kind list"
  | LifecycleAbandon "daemon_event_kind list list"
  | LifecycleWrite
  | LifecycleCommit
  | LifecycleFail "daemon_event_kind list"

definition stream_publish :: "(u64 \<Rightarrow> u64) \<Rightarrow> daemon_event_kind list \<Rightarrow> event_system \<Rightarrow> event_system" where
  "stream_publish clock kinds s =
     s\<lparr>sys_stream := snd (publish_runtime_batch clock kinds (sys_stream s))\<rparr>"

definition or_else :: "event_system \<Rightarrow> event_system daemon_result \<Rightarrow> event_system" where
  "or_else s r = (case r of Inl _ \<Rightarrow> s | Inr s' \<Rightarrow> s')"

inductive event_step :: "(u64 \<Rightarrow> u64) \<Rightarrow> event_system \<Rightarrow> event_action \<Rightarrow> event_system \<Rightarrow> bool"
  for clock where
  publish: "event_step clock s (Publish kinds) (stream_publish clock kinds s)"
| mark_dirty: "event_step clock s MarkDirty (mark_persistence_dirty s)"
| mutation_lock:
    "sys_mutation s = None \<Longrightarrow>
     event_step clock s MutationLock (s\<lparr>sys_mutation := Some (Mutating False)\<rparr>)"
| mutation_unlock:
    "sys_mutation s = Some (Mutating b) \<Longrightarrow> \<not> writes_for_holder s \<Longrightarrow>
     event_step clock s MutationUnlock (s\<lparr>sys_mutation := None\<rparr>)"
| flush_begin:
    "sys_writer s = None \<Longrightarrow> own \<longrightarrow> may_flush (sys_mutation s) \<Longrightarrow>
     event_step clock s (FlushBegin own) (or_else s (flush_begin own s))"
| flush_commit:
    "sys_writer s = Some (WriteFlush own pending) \<Longrightarrow>
     event_step clock s FlushCommit (snd (flush_commit clock own pending s))"
| flush_fail:
    "sys_writer s = Some (WriteFlush own pending) \<Longrightarrow>
     event_step clock s FlushFail (flush_fail clock pending s)"
| mutation_begin:
    "sys_mutation s = Some (Mutating True) \<Longrightarrow> sys_writer s = None \<Longrightarrow>
     event_step clock s (MutationBegin kinds) (or_else s (mutation_begin kinds s))"
| mutation_commit:
    "sys_writer s = Some (WriteMutation kinds) \<Longrightarrow>
     event_step clock s MutationCommit (mutation_commit clock kinds s)"
| mutation_fail:
    "sys_writer s = Some (WriteMutation kinds) \<Longrightarrow>
     event_step clock s MutationFail (mutation_fail clock s)"
| exit_begin:
    "sys_mutation s = None \<Longrightarrow> sys_writer s = None \<Longrightarrow>
     event_step clock s (ExitBegin e) (case exit_begin e s of ExitWriting s' \<Rightarrow> s' | _ \<Rightarrow> s)"
| exit_commit:
    "sys_writer s = Some (WriteExit batch) \<Longrightarrow>
     event_step clock s ExitCommit (exit_commit clock batch s)"
| exit_fail:
    "sys_writer s = Some (WriteExit batch) \<Longrightarrow>
     event_step clock s ExitFail (exit_fail clock batch s)"
| lifecycle_begin:
    "sys_mutation s = None \<Longrightarrow>
     event_step clock s (LifecycleBegin shells committed) (or_else s (lifecycle_begin shells committed s))"
| lifecycle_abandon:
    "sys_mutation s = Some (Stopping shells committed b) \<Longrightarrow>
     sum_list (map length batches) \<le> shells \<Longrightarrow> \<not> writes_for_holder s \<Longrightarrow>
     event_step clock s (LifecycleAbandon batches) (lifecycle_abandon clock batches s)"
| lifecycle_write:
    "sys_mutation s = Some (Stopping shells committed True) \<Longrightarrow> sys_writer s = None \<Longrightarrow>
     event_step clock s LifecycleWrite (lifecycle_write shells committed s)"
| lifecycle_commit:
    "sys_writer s = Some (WriteLifecycle committed) \<Longrightarrow>
     event_step clock s LifecycleCommit (lifecycle_commit clock committed s)"
| lifecycle_fail:
    "sys_writer s = Some (WriteLifecycle committed) \<Longrightarrow>
     sys_mutation s = Some (Stopping shells committed b) \<Longrightarrow> length stopped \<le> shells \<Longrightarrow>
     event_step clock s (LifecycleFail stopped) (lifecycle_fail clock stopped s)"

text \<open>
  The events that the threads hold in memory, and the room that a stop has reserved. A machine
  holds far fewer than \<open>2 ^ 62\<close> events, and a run goes through such states only; without it the
  saturating sums of the code would be met.
\<close>

fun job_events :: "writer_job \<Rightarrow> daemon_event_kind list" where
  "job_events (WriteMutation kinds) = kinds"
| "job_events (WriteFlush _ batches) = concat batches"
| "job_events (WriteExit batch) = batch"
| "job_events (WriteLifecycle committed) = committed"

definition held_events :: "event_system \<Rightarrow> daemon_event_kind list" where
  "held_events s = (case sys_writer s of None \<Rightarrow> [] | Some job \<Rightarrow> job_events job)"

definition waiting_events :: "event_system \<Rightarrow> daemon_event_kind list" where
  "waiting_events s =
     held_events s @ concat (ts_pending_durable_events (sm_transitions (sys_stream s)))
     @ ts_pending_runtime_events (sm_transitions (sys_stream s))"

definition owed_event_count :: "event_system \<Rightarrow> nat" where
  "owed_event_count s =
     length (waiting_events s) + ts_lifecycle_event_reservation (sm_transitions (sys_stream s))"

definition in_memory :: "event_system \<Rightarrow> bool" where
  "in_memory s \<longleftrightarrow> owed_event_count s < 2 ^ 62"

fun action_in_memory :: "event_action \<Rightarrow> bool" where
  "action_in_memory (Publish kinds) = (length kinds < 2 ^ 62)"
| "action_in_memory _ = True"

text \<open>
  The events that a step accepts: from then on the daemon owes them to its readers. A mutation
  or a stop that could not be written takes its events back.
\<close>

fun accepted :: "event_system \<Rightarrow> event_action \<Rightarrow> daemon_event_kind list" where
  "accepted s (Publish kinds) =
     (if reserve_with_pending (sys_stream s) (length kinds) = Inr () then kinds else [])"
| "accepted s MutationCommit = (case sys_writer s of Some (WriteMutation kinds) \<Rightarrow> kinds | _ \<Rightarrow> [])"
| "accepted s (ExitBegin e) = (if reserve_with_pending (sys_stream s) 1 = Inr () then [e] else [])"
| "accepted s (LifecycleAbandon batches) = concat batches"
| "accepted s LifecycleCommit = (case sys_writer s of Some (WriteLifecycle committed) \<Rightarrow> committed | _ \<Rightarrow> [])"
| "accepted s (LifecycleFail stopped) = stopped"
| "accepted s _ = []"

text \<open>A run, with the events that it accepted.\<close>

inductive event_run ::
    "(u64 \<Rightarrow> u64) \<Rightarrow> event_system \<Rightarrow> event_action list \<Rightarrow> daemon_event_kind list \<Rightarrow> event_system \<Rightarrow> bool"
  for clock s where
  start: "event_run clock s [] [] s"
| more: "event_run clock s as acc s' \<Longrightarrow> event_step clock s' a s'' \<Longrightarrow> action_in_memory a \<Longrightarrow>
         in_memory s'' \<Longrightarrow> event_run clock s (as @ [a]) (acc @ accepted s' a) s''"

inductive_cases event_stepE: "event_step clock s a s'"

end
