(* ===== verification/Event_Log.thy ===== *)
theory Event_Log
  imports Event_Stream
begin

text \<open>
  The log of events as a window on the sequence of everything that was ever published:
  \<open>stamped\<close> is that sequence with its ids, the log holds its newest part. What a reader gets is
  stated on the window.
\<close>

section \<open>The newest elements of a list\<close>

definition newest :: "nat \<Rightarrow> 'a list \<Rightarrow> 'a list" where
  "newest n xs = drop (length xs - n) xs"

lemma length_newest [simp]: "length (newest n xs) = min n (length xs)"
  by (simp add: newest_def)

lemma newest_newest_append [simp]: "newest n (newest n xs @ ys) = newest n (xs @ ys)"
proof (cases "length xs \<le> n")
  case True
  then show ?thesis by (simp add: newest_def)
next
  case False
  then have "newest n xs @ ys = drop (length xs - n) (xs @ ys)" by (simp add: newest_def)
  then show ?thesis using False by (simp add: newest_def add.commute)
qed

lemma newest_short: "length xs \<le> n \<Longrightarrow> newest n xs = xs"
  by (simp add: newest_def)

lemma map_newest: "map f (newest n xs) = newest n (map f xs)"
  by (simp add: newest_def drop_map)

section \<open>Appending\<close>

primrec stamped :: "(u64 \<Rightarrow> u64) \<Rightarrow> u64 \<Rightarrow> daemon_event_kind list \<Rightarrow> daemon_event list" where
  "stamped clock i [] = []"
| "stamped clock i (k # ks) =
     \<lparr>ev_id = i + 1, ev_at_ms = clock (i + 1), ev_kind = k\<rparr> # stamped clock (i + 1) ks"

lemma stamped_append:
  "stamped clock i (xs @ ys) = stamped clock i xs @ stamped clock (i + of_nat (length xs)) ys"
  by (induction xs arbitrary: i) (simp_all add: algebra_simps)

lemma length_stamped [simp]: "length (stamped clock i ks) = length ks"
  by (induction ks arbitrary: i) simp_all

lemma kinds_stamped [simp]: "map ev_kind (stamped clock i ks) = ks"
  by (induction ks arbitrary: i) simp_all

lemma ids_stamped:
  "unat i + length ks < 2 ^ 64 \<Longrightarrow>
   map (\<lambda>e. unat (ev_id e)) (stamped clock i ks) = [Suc (unat i) ..< Suc (unat i + length ks)]"
proof (induction ks arbitrary: i)
  case Nil
  then show ?case by simp
next
  case (Cons k ks)
  have next_id: "unat (i + 1) = Suc (unat i)"
    using Cons.prems by (simp add: unat_word_ariths)
  have "map (\<lambda>e. unat (ev_id e)) (stamped clock (i + 1) ks)
      = [Suc (Suc (unat i)) ..< Suc (Suc (unat i) + length ks)]"
    using Cons.IH [of "i + 1"] Cons.prems next_id by simp
  then show ?case using next_id by (simp add: upt_rec)
qed

lemma fold_append_one:
  "fold (append_one clock) ks es =
     es\<lparr>es_latest_id := es_latest_id es + of_nat (length ks),
        es_events := es_events es @ stamped clock (es_latest_id es) ks\<rparr>"
  by (induction ks arbitrary: es) (simp_all add: append_one_def Let_def algebra_simps)

lemma retain_latest_newest:
  "retain_latest es = es\<lparr>es_events := newest max_retained_events (es_events es)\<rparr>"
  by (simp add: retain_latest_def newest_def)

text \<open>\<open>published clock new es es'\<close>: the log \<open>es'\<close> is \<open>es\<close> after publishing \<open>new\<close>.\<close>

definition published ::
    "(u64 \<Rightarrow> u64) \<Rightarrow> daemon_event_kind list \<Rightarrow> event_stream_state \<Rightarrow> event_stream_state \<Rightarrow> bool" where
  "published clock new es es' \<longleftrightarrow>
     es_stream_id es' = es_stream_id es
     \<and> es_latest_id es' = es_latest_id es + of_nat (length new)
     \<and> es_events es' = newest max_retained_events (es_events es @ stamped clock (es_latest_id es) new)"

lemma published_append_batch: "published clock new es (append_batch_locked clock new es)"
  by (simp add: published_def append_batch_locked_def retain_latest_newest fold_append_one)

lemma published_none: "length (es_events es) \<le> max_retained_events \<Longrightarrow> published clock [] es es"
  by (simp add: published_def newest_short)

lemma published_trans:
  "published clock xs es es' \<Longrightarrow> published clock ys es' es'' \<Longrightarrow> published clock (xs @ ys) es es''"
  unfolding published_def stamped_append
  by (simp add: algebra_simps)

lemma published_batches:
  "length (es_events es) \<le> max_retained_events \<Longrightarrow>
   published clock (concat batches) es (fold (append_batch_locked clock) batches es)"
proof (induction batches arbitrary: es)
  case Nil
  then show ?case by (simp add: published_none)
next
  case (Cons b batches)
  have step: "published clock b es (append_batch_locked clock b es)"
    by (rule published_append_batch)
  then have "length (es_events (append_batch_locked clock b es)) \<le> max_retained_events"
    by (simp add: published_def)
  then show ?case using published_trans [OF step Cons.IH] by simp
qed

section \<open>Well-formed logs\<close>

definition log_ok :: "event_stream_state \<Rightarrow> bool" where
  "log_ok es \<longleftrightarrow>
     length (es_events es) \<le> unat (es_latest_id es)
     \<and> length (es_events es) \<le> max_retained_events
     \<and> map (\<lambda>e. unat (ev_id e)) (es_events es)
        = [Suc (unat (es_latest_id es)) - length (es_events es) ..< Suc (unat (es_latest_id es))]"

lemma unat_add_of_nat:
  "unat (i :: u64) + n < 2 ^ 64 \<Longrightarrow> unat (i + of_nat n) = unat i + n"
  by (simp add: unat_word_ariths unat_of_nat)

lemma log_ok_published:
  assumes "log_ok es" and "published clock new es es'"
    and room: "unat (es_latest_id es) + length new < 2 ^ 64"
  shows "log_ok es'" and "unat (es_latest_id es') = unat (es_latest_id es) + length new"
proof -
  let ?L = "unat (es_latest_id es)" and ?n = "length (es_events es)"
  let ?all = "es_events es @ stamped clock (es_latest_id es) new"
  show latest: "unat (es_latest_id es') = ?L + length new"
    using assms(2) room by (simp add: published_def unat_add_of_nat)
  have n: "?n \<le> ?L" and ids: "map (\<lambda>e. unat (ev_id e)) (es_events es) = [Suc ?L - ?n ..< Suc ?L]"
    using assms(1) by (simp_all add: log_ok_def)
  have events: "es_events es' = newest max_retained_events ?all"
    using assms(2) by (simp add: published_def)
  have "map (\<lambda>e. unat (ev_id e)) ?all = [Suc ?L - ?n ..< Suc (?L + length new)]"
    using n ids ids_stamped [OF room]
      upt_add_eq_append [of "Suc ?L - ?n" "Suc ?L" "length new"]
    by (simp del: upt_Suc)
  then have "map (\<lambda>e. unat (ev_id e)) (es_events es')
      = drop (?n + length new - max_retained_events) [Suc ?L - ?n ..< Suc (?L + length new)]"
    unfolding events newest_def drop_map [symmetric] by simp
  also have "\<dots> = [Suc ?L - ?n + (?n + length new - max_retained_events) ..< Suc (?L + length new)]"
    by (simp only: drop_upt)
  also have "Suc ?L - ?n + (?n + length new - max_retained_events)
      = Suc (?L + length new) - length (es_events es')"
    using n events by simp
  finally show "log_ok es'"
    using n events latest by (simp add: log_ok_def)
qed

lemma log_ok_empty: "log_ok \<lparr>es_stream_id = i, es_latest_id = 0, es_events = []\<rparr>"
  by (simp add: log_ok_def)

section \<open>Reading from the window\<close>

definition events_after :: "u64 \<Rightarrow> daemon_event list \<Rightarrow> daemon_event list" where
  "events_after cursor es = filter (\<lambda>e. cursor < ev_id e) es"

lemma filter_sorted_drop:
  assumes "map f xs = [a ..< a + length xs]" and "a \<le> Suc c"
  shows "filter (\<lambda>x. c < (f x :: nat)) xs = drop (Suc c - a) xs"
  using assms
proof (induction xs arbitrary: a)
  case Nil
  then show ?case by simp
next
  case (Cons x xs)
  have fx: "f x = a" and rest: "map f xs = [Suc a ..< Suc a + length xs]"
    using Cons.prems(1) by (simp_all add: upt_rec split: if_splits)
  show ?case
  proof (cases "c < a")
    case True
    have "\<forall>y \<in> set xs. f y \<ge> Suc a" using rest by (metis atLeastLessThan_iff image_eqI list.set_map set_upt)
    then have "filter (\<lambda>x. c < f x) xs = xs" using True by (intro filter_True) auto
    then show ?thesis using True fx by simp
  next
    case False
    then have "filter (\<lambda>x. c < f x) xs = drop (Suc c - Suc a) xs"
      using Cons.IH [OF rest] by simp
    moreover have "Suc c - a = Suc (Suc c - Suc a)" using False by simp
    ultimately show ?thesis using False fx by simp
  qed
qed

lemma log_ids:
  assumes "log_ok es"
  shows "map (\<lambda>e. unat (ev_id e)) (es_events es)
    = [Suc (unat (es_latest_id es)) - length (es_events es)
        ..< Suc (unat (es_latest_id es)) - length (es_events es) + length (es_events es)]"
  using assms by (simp add: log_ok_def)

lemma unat_earliest_cursor:
  assumes "log_ok es"
  shows "unat (earliest_cursor es) = unat (es_latest_id es) - length (es_events es)"
proof (cases "es_events es")
  case Nil
  then show ?thesis by (simp add: earliest_cursor_def)
next
  case (Cons e rest)
  let ?L = "unat (es_latest_id es)"
  have n: "length (es_events es) \<le> ?L" using assms by (simp add: log_ok_def)
  have "map (\<lambda>e. unat (ev_id e)) (e # rest) = [Suc ?L - length (es_events es) ..< Suc ?L]"
    using assms Cons by (simp add: log_ok_def)
  then have id: "unat (ev_id e) = Suc ?L - length (es_events es)"
    using n Cons by (simp add: upt_rec split: if_splits)
  have "1 \<le> ev_id e" using id n by (simp add: word_le_nat_alt)
  then have "unat (ev_id e - 1) = unat (ev_id e) - 1" by (simp add: unat_sub)
  then show ?thesis using Cons id \<open>1 \<le> ev_id e\<close> n
    by (simp add: earliest_cursor_def u64_saturating_sub_def)
qed

lemma drop_events_after:
  assumes ok: "log_ok es" and "earliest_cursor es \<le> c"
  shows "drop (unat (u64_saturating_sub c (earliest_cursor es))) (es_events es)
    = events_after c (es_events es)"
proof -
  let ?a = "Suc (unat (es_latest_id es)) - length (es_events es)"
  have n: "length (es_events es) \<le> unat (es_latest_id es)" using ok by (simp add: log_ok_def)
  have c: "unat (es_latest_id es) - length (es_events es) \<le> unat c"
    using assms unat_earliest_cursor [OF ok] by (simp add: word_le_nat_alt)
  have off: "unat (u64_saturating_sub c (earliest_cursor es)) = Suc (unat c) - ?a"
    using assms n unat_earliest_cursor [OF ok]
    by (simp add: u64_saturating_sub_def unat_sub)
  have "filter (\<lambda>e. unat c < unat (ev_id e)) (es_events es) = drop (Suc (unat c) - ?a) (es_events es)"
    by (rule filter_sorted_drop [OF log_ids [OF ok]]) (use c n in simp)
  then show ?thesis by (simp add: off events_after_def word_less_nat_alt)
qed

text \<open>A cursor that can be resumed: in the stream's past, and nothing after it was dropped.\<close>

definition cursor_valid :: "event_stream_state \<Rightarrow> event_cursor \<Rightarrow> bool" where
  "cursor_valid es c \<longleftrightarrow>
     cur_stream_id c = es_stream_id es
     \<and> unat (es_latest_id es) - length (es_events es) \<le> unat (cur_event_id c)
     \<and> cur_event_id c \<le> es_latest_id es"

lemma cursor_valid_iff:
  assumes "log_ok es"
  shows "cursor_valid es c \<longleftrightarrow>
    \<not> (cur_stream_id c \<noteq> es_stream_id es \<or> cur_event_id c < earliest_cursor es
       \<or> cur_event_id c > es_latest_id es)"
  using unat_earliest_cursor [OF assms] by (auto simp: cursor_valid_def word_less_nat_alt word_le_nat_alt)

lemma read_after_invalid:
  "log_ok es \<Longrightarrow> \<not> cursor_valid es c \<Longrightarrow> read_after c limit w x st es = PollError cursor_expired"
  by (simp add: read_after_def Let_def cursor_valid_iff)

lemma read_after_valid:
  assumes ok: "log_ok es" and "cursor_valid es c"
  shows "read_after c limit w expired stopping es =
    (let events = take limit (events_after (cur_event_id c) (es_events es)) in
     if events \<noteq> [] \<or> w = 0 \<or> expired
     then PollReady
            \<lparr>er_stream_id = es_stream_id es,
             er_cursor = \<lparr>cur_stream_id = es_stream_id es,
                          cur_event_id = (if events = [] then cur_event_id c else ev_id (last events))\<rparr>,
             er_snapshot = None, er_events = events\<rparr>
     else if stopping then PollError daemon_stopping else PollWait)"
proof -
  have valid: "\<not> (cur_stream_id c \<noteq> es_stream_id es \<or> cur_event_id c < earliest_cursor es
       \<or> cur_event_id c > es_latest_id es)"
    using assms cursor_valid_iff by blast
  then have "earliest_cursor es \<le> cur_event_id c" by auto
  then show ?thesis
    unfolding read_after_def Let_def drop_events_after [OF ok \<open>earliest_cursor es \<le> cur_event_id c\<close>]
    using valid by (simp only: if_False)
qed

lemma length_events_after:
  assumes ok: "log_ok es" and "cursor_valid es c"
  shows "length (events_after (cur_event_id c) (es_events es))
    = unat (es_latest_id es) - unat (cur_event_id c)"
proof -
  have e: "earliest_cursor es \<le> cur_event_id c"
    using assms cursor_valid_iff by auto
  have "cur_event_id c \<le> es_latest_id es" using assms(2) by (simp add: cursor_valid_def)
  then show ?thesis
    using drop_events_after [OF ok e, symmetric] e unat_earliest_cursor [OF ok] ok
    by (simp add: u64_saturating_sub_def unat_sub word_le_nat_alt log_ok_def)
qed

lemma ids_events_after:
  assumes ok: "log_ok es" and "cursor_valid es c"
  shows "map (\<lambda>e. unat (ev_id e)) (events_after (cur_event_id c) (es_events es))
    = [Suc (unat (cur_event_id c)) ..< Suc (unat (es_latest_id es))]"
proof -
  let ?a = "Suc (unat (es_latest_id es)) - length (es_events es)"
  have e: "earliest_cursor es \<le> cur_event_id c"
    using assms cursor_valid_iff by auto
  have n: "length (es_events es) \<le> unat (es_latest_id es)" using ok by (simp add: log_ok_def)
  have c: "unat (es_latest_id es) - length (es_events es) \<le> unat (cur_event_id c)"
    using assms(2) by (simp add: cursor_valid_def)
  have "map (\<lambda>e. unat (ev_id e)) (events_after (cur_event_id c) (es_events es))
      = drop (unat (u64_saturating_sub (cur_event_id c) (earliest_cursor es)))
          [?a ..< Suc (unat (es_latest_id es))]"
    using drop_events_after [OF ok e, symmetric] ok
    by (simp add: drop_map [symmetric] log_ok_def del: upt_Suc drop_upt)
  also have "\<dots> = [Suc (unat (cur_event_id c)) ..< Suc (unat (es_latest_id es))]"
    using e c n unat_earliest_cursor [OF ok]
    by (simp add: u64_saturating_sub_def unat_sub word_le_nat_alt del: upt_Suc)
  finally show ?thesis .
qed

end
