(* ===== verification/Event_Invariant.thy ===== *)
theory Event_Invariant
  imports Event_Protocol Event_Log
begin

text \<open>
  The invariant of the event protocol: the log is well formed, there is an id left for every
  event that is owed, the counters of the code count what the threads hold, and nothing that
  could be published waits.
\<close>

section \<open>The stream has room\<close>

definition pending_events :: "event_stream \<Rightarrow> daemon_event_kind list" where
  "pending_events sm =
     concat (ts_pending_durable_events (sm_transitions sm)) @ ts_pending_runtime_events (sm_transitions sm)"

text \<open>\<open>extra\<close> is the number of ids promised to others.\<close>

definition has_room :: "nat \<Rightarrow> event_stream \<Rightarrow> bool" where
  "has_room extra sm \<longleftrightarrow>
     log_ok (sm_state sm)
     \<and> unat (es_latest_id (sm_state sm)) + length (pending_events sm) + extra < 2 ^ 64"

lemma has_room_mono: "has_room n sm \<Longrightarrow> m \<le> n \<Longrightarrow> has_room m sm"
  by (simp add: has_room_def)

lemma has_room_append:
  assumes "has_room (length ks + extra) sm"
  shows "has_room extra (tx_append_batch clock ks sm)"
proof -
  have "log_ok (sm_state sm)" "unat (es_latest_id (sm_state sm)) + length ks < 2 ^ 64"
    using assms by (auto simp: has_room_def)
  note facts = log_ok_published [OF this(1) published_append_batch this(2)]
  show ?thesis using assms facts
    by (simp add: has_room_def tx_append_batch_def pending_events_def)
qed

lemma has_room_append_all:
  "has_room (length (concat batches) + extra) sm \<Longrightarrow>
   has_room extra (fold (tx_append_batch clock) batches sm)"
proof (induction batches arbitrary: sm)
  case Nil
  then show ?case by simp
next
  case (Cons b batches)
  have "has_room (length (concat batches) + extra) (tx_append_batch clock b sm)"
    by (rule has_room_append) (use Cons.prems in \<open>simp add: add.assoc\<close>)
  then show ?case using Cons.IH by simp
qed

lemma append_on_transitions:
  "tx_append_batch clock ks (on_transitions f sm) = on_transitions f (tx_append_batch clock ks sm)"
  "fold (tx_append_batch clock) batches (on_transitions f sm)
     = on_transitions f (fold (tx_append_batch clock) batches sm)"
proof -
  show append: "tx_append_batch clock ks (on_transitions f sm) = on_transitions f (tx_append_batch clock ks sm)"
    for ks sm by (cases sm) (simp add: tx_append_batch_def on_transitions_def)
  show "fold (tx_append_batch clock) batches (on_transitions f sm)
      = on_transitions f (fold (tx_append_batch clock) batches sm)"
    by (induction batches arbitrary: sm) (simp_all add: append)
qed

lemma append_pending_durable_alt:
  "append_pending_durable clock sm =
     on_transitions (\<lambda>ts. ts\<lparr>ts_pending_durable_events := []\<rparr>)
       (fold (tx_append_batch clock) (ts_pending_durable_events (sm_transitions sm)) sm)"
proof -
  have "fold (tx_append_batch clock) bs sm = sm\<lparr>sm_state := fold (append_batch_locked clock) bs (sm_state sm)\<rparr>" for bs
    by (induction bs arbitrary: sm) (simp_all add: tx_append_batch_def)
  then show ?thesis by (simp add: append_pending_durable_def on_transitions_def)
qed

lemma transitions_append [simp]:
  "sm_transitions (tx_append_batch clock ks sm) = sm_transitions sm"
  "sm_transitions (fold (tx_append_batch clock) batches sm) = sm_transitions sm"
proof -
  show append: "sm_transitions (tx_append_batch clock ks sm) = sm_transitions sm" for ks sm
    by (simp add: tx_append_batch_def)
  show "sm_transitions (fold (tx_append_batch clock) batches sm) = sm_transitions sm"
    by (induction batches arbitrary: sm) (simp_all add: append)
qed

lemma transitions_append_pending [simp]:
  "sm_transitions (append_pending_durable clock sm) =
     (sm_transitions sm)\<lparr>ts_pending_durable_events := []\<rparr>"
  by (simp add: append_pending_durable_def)

lemma has_room_append_pending:
  assumes "has_room extra sm"
  shows "has_room extra (append_pending_durable clock sm)"
proof -
  let ?bs = "ts_pending_durable_events (sm_transitions sm)"
  let ?sm = "on_transitions (\<lambda>ts. ts\<lparr>ts_pending_durable_events := []\<rparr>) sm"
  have "has_room (length (concat ?bs) + extra) ?sm"
    using assms by (simp add: has_room_def pending_events_def on_transitions_def)
  then have "has_room extra (fold (tx_append_batch clock) ?bs ?sm)" by (rule has_room_append_all)
  then show ?thesis by (simp add: append_pending_durable_alt append_on_transitions)
qed

text \<open>What publishing the waiting runtime events leaves.\<close>

lemma publish_pending_transitions:
  "sm_transitions (publish_pending_runtime clock sm) =
     (if publication_blocked (sm_transitions sm) then sm_transitions sm
      else (sm_transitions sm)\<lparr>ts_pending_runtime_events := []\<rparr>)"
  by (simp add: publish_pending_runtime_def)

lemma has_room_publish_pending:
  assumes "has_room extra sm"
  shows "has_room extra (publish_pending_runtime clock sm)"
proof (cases "publication_blocked (sm_transitions sm)")
  case True
  then show ?thesis using assms by (simp add: publish_pending_runtime_def)
next
  case False
  let ?rt = "ts_pending_runtime_events (sm_transitions sm)"
  let ?clear = "on_transitions (\<lambda>ts. ts\<lparr>ts_pending_runtime_events := []\<rparr>)"
  have "publish_pending_runtime clock sm = ?clear (tx_append_batch clock ?rt sm)"
    using False
    by (simp add: publish_pending_runtime_def tx_append_batch_def on_transitions_def append_batch_locked_def)
  moreover have "has_room (length ?rt + extra) (?clear sm)"
    using assms by (simp add: has_room_def pending_events_def on_transitions_def)
  ultimately show ?thesis using has_room_append by (simp add: append_on_transitions [symmetric])
qed

lemma has_room_finish:
  "has_room extra sm \<Longrightarrow> has_room extra (finish_persistence clock sm)"
  unfolding finish_persistence_def
  by (rule has_room_publish_pending) (simp add: has_room_def pending_events_def on_transitions_def)

lemma has_room_release:
  "has_room extra sm \<Longrightarrow> has_room extra (release_lifecycle_reservation clock sm)"
  unfolding release_lifecycle_reservation_def
  by (rule has_room_publish_pending) (simp add: has_room_def pending_events_def on_transitions_def)

lemma settled_publish:
  "ts_pending_runtime_events (sm_transitions (publish_pending_runtime clock sm)) \<noteq> []
   \<longrightarrow> publication_blocked (sm_transitions (publish_pending_runtime clock sm))"
  by (simp add: publish_pending_transitions)

lemma publish_pending_fields [simp]:
  "ts_pending_durable_events (sm_transitions (publish_pending_runtime clock sm))
     = ts_pending_durable_events (sm_transitions sm)"
  "ts_persistence_in_flight (sm_transitions (publish_pending_runtime clock sm))
     = ts_persistence_in_flight (sm_transitions sm)"
  "ts_in_flight_event_count (sm_transitions (publish_pending_runtime clock sm))
     = ts_in_flight_event_count (sm_transitions sm)"
  "ts_lifecycle_event_reservation (sm_transitions (publish_pending_runtime clock sm))
     = ts_lifecycle_event_reservation (sm_transitions sm)"
  by (simp_all add: publish_pending_transitions)

lemma finish_fields [simp]:
  "ts_pending_durable_events (sm_transitions (finish_persistence clock sm))
     = ts_pending_durable_events (sm_transitions sm)"
  "ts_persistence_in_flight (sm_transitions (finish_persistence clock sm)) = False"
  "ts_in_flight_event_count (sm_transitions (finish_persistence clock sm)) = 0"
  "ts_lifecycle_event_reservation (sm_transitions (finish_persistence clock sm))
     = ts_lifecycle_event_reservation (sm_transitions sm)"
  by (simp_all add: finish_persistence_def on_transitions_def)

lemma release_fields [simp]:
  "ts_pending_durable_events (sm_transitions (release_lifecycle_reservation clock sm))
     = ts_pending_durable_events (sm_transitions sm)"
  "ts_persistence_in_flight (sm_transitions (release_lifecycle_reservation clock sm))
     = ts_persistence_in_flight (sm_transitions sm)"
  "ts_in_flight_event_count (sm_transitions (release_lifecycle_reservation clock sm))
     = ts_in_flight_event_count (sm_transitions sm)"
  "ts_lifecycle_event_reservation (sm_transitions (release_lifecycle_reservation clock sm)) = 0"
  by (simp_all add: release_lifecycle_reservation_def on_transitions_def)

lemma settled_finish:
  "ts_pending_runtime_events (sm_transitions (finish_persistence clock sm)) \<noteq> []
   \<longrightarrow> publication_blocked (sm_transitions (finish_persistence clock sm))"
  unfolding finish_persistence_def by (rule settled_publish)

lemma settled_release:
  "ts_pending_runtime_events (sm_transitions (release_lifecycle_reservation clock sm)) \<noteq> []
   \<longrightarrow> publication_blocked (sm_transitions (release_lifecycle_reservation clock sm))"
  unfolding release_lifecycle_reservation_def by (rule settled_publish)

text \<open>The check of the code, where nothing saturates.\<close>

lemma length_concat_sum: "sum_list (map length xss) = length (concat xss)"
  by (simp add: length_concat)

lemma reserved_event_count_exact:
  assumes "ts_in_flight_event_count ts + length (concat (ts_pending_durable_events ts))
      + length (ts_pending_runtime_events ts) + ts_lifecycle_event_reservation ts \<le> usize_max"
  shows "reserved_event_count ts =
    ts_in_flight_event_count ts + length (concat (ts_pending_durable_events ts))
      + length (ts_pending_runtime_events ts) + ts_lifecycle_event_reservation ts"
  using assms by (simp add: reserved_event_count_def usize_saturating_add_def length_concat_sum)

lemma ensure_capacity_Inr:
  "ensure_capacity es n = Inr () \<longleftrightarrow> unat (es_latest_id es) + n < 2 ^ 64"
proof (cases "n < 2 ^ 64")
  case True
  then have "unat (of_nat n :: u64) = n" by (simp add: unat_of_nat)
  then show ?thesis using True by (simp add: ensure_capacity_def u64_checked_add_def)
next
  case False
  then show ?thesis by (simp add: ensure_capacity_def)
qed

section \<open>The invariant\<close>

definition holder_reservation :: "event_system \<Rightarrow> nat" where
  "holder_reservation s =
     (case sys_mutation s of
        Some (Stopping shells committed _) \<Rightarrow>
          lifecycle_event_capacity shells committed
          - (case sys_writer s of Some (WriteLifecycle _) \<Rightarrow> length committed | _ \<Rightarrow> 0)
      | _ \<Rightarrow> 0)"

definition counted_in_flight :: "event_system \<Rightarrow> nat" where
  "counted_in_flight s =
     length (held_events s)
     + (case sys_writer s of
          Some (WriteExit _) \<Rightarrow> length (concat (ts_pending_durable_events (sm_transitions (sys_stream s))))
        | _ \<Rightarrow> 0)"

text \<open>Who waits for the write, and that nobody else can have queued a batch meanwhile.\<close>

definition locks_ok :: "event_system \<Rightarrow> bool" where
  "locks_ok s \<longleftrightarrow>
     (case sys_writer s of
        Some (WriteMutation _) \<Rightarrow> sys_mutation s = Some (Mutating True)
      | Some (WriteExit _) \<Rightarrow> sys_mutation s = Some Exiting
      | Some (WriteLifecycle c) \<Rightarrow> (\<exists>n. sys_mutation s = Some (Stopping n c True))
      | Some (WriteFlush own _) \<Rightarrow> sys_mutation s \<noteq> Some Exiting \<and> (own \<longrightarrow> may_flush (sys_mutation s))
      | None \<Rightarrow> sys_mutation s \<noteq> Some Exiting)"

definition has_flushed :: "event_system \<Rightarrow> bool" where
  "has_flushed s \<longleftrightarrow>
     (case sys_mutation s of
        Some (Mutating b) \<Rightarrow> b | Some (Stopping _ _ b) \<Rightarrow> b | _ \<Rightarrow> False)
     \<or> (\<exists>p. sys_writer s = Some (WriteFlush True p))"

definition flush_ok :: "event_system \<Rightarrow> bool" where
  "flush_ok s \<longleftrightarrow>
     has_flushed s \<longrightarrow>
       ts_pending_durable_events (sm_transitions (sys_stream s)) = []
       \<and> (\<forall>p. sys_writer s = Some (WriteFlush False p) \<longrightarrow> p = [])"

definition event_ok :: "event_system \<Rightarrow> bool" where
  "event_ok s \<longleftrightarrow>
     has_room (length (held_events s) + holder_reservation s) (sys_stream s)
     \<and> ts_persistence_in_flight (sm_transitions (sys_stream s)) = (sys_writer s \<noteq> None)
     \<and> ts_in_flight_event_count (sm_transitions (sys_stream s)) = counted_in_flight s
     \<and> ts_lifecycle_event_reservation (sm_transitions (sys_stream s)) = holder_reservation s
     \<and> locks_ok s \<and> flush_ok s
     \<and> (ts_pending_runtime_events (sm_transitions (sys_stream s)) \<noteq> []
        \<longrightarrow> publication_blocked (sm_transitions (sys_stream s)))"

lemmas event_ok_defs =
  event_ok_def locks_ok_def has_flushed_def flush_ok_def holder_reservation_def counted_in_flight_def
  held_events_def

lemma reserve_room:
  assumes ok: "event_ok s" and mem: "in_memory s" and n: "n < 2 ^ 62"
    and reserve: "reserve_with_pending (sys_stream s) n = Inr ()"
  shows "has_room (length (held_events s) + holder_reservation s + n) (sys_stream s)"
proof -
  let ?ts = "sm_transitions (sys_stream s)"
  let ?count = "ts_in_flight_event_count ?ts + length (concat (ts_pending_durable_events ?ts))
      + length (ts_pending_runtime_events ?ts) + ts_lifecycle_event_reservation ?ts"
  have flight: "ts_in_flight_event_count ?ts = counted_in_flight s"
      "ts_lifecycle_event_reservation ?ts = holder_reservation s"
    using ok by (simp_all add: event_ok_def)
  have "counted_in_flight s \<le> length (held_events s) + length (concat (ts_pending_durable_events ?ts))"
    by (simp add: counted_in_flight_def split: option.split writer_job.split)
  then have small: "?count \<le> 2 * 2 ^ 62"
    using mem flight by (simp add: in_memory_def owed_event_count_def waiting_events_def)
  then have "reserved_event_count ?ts = ?count"
    by (intro reserved_event_count_exact) (simp add: usize_max_def)
  then have "usize_saturating_add (reserved_event_count ?ts) n = ?count + n"
    using small n by (simp add: usize_saturating_add_def usize_max_def)
  then have "unat (es_latest_id (sm_state (sys_stream s))) + (?count + n) < 2 ^ 64"
    using reserve by (simp add: reserve_with_pending_def tx_reserve_def ensure_capacity_Inr)
  moreover have "length (held_events s) \<le> ts_in_flight_event_count ?ts"
    using flight by (simp add: counted_in_flight_def)
  ultimately show ?thesis
    using ok flight by (simp add: event_ok_def has_room_def pending_events_def)
qed

text \<open>The second check of a flush cannot fail.\<close>

lemma reserve_pending_ok:
  assumes ok: "event_ok s" and mem: "in_memory s"
    and job: "\<And>b. sys_writer s \<noteq> Some (WriteExit b)"
  shows "reserve_with_pending (sys_stream s) 0 = Inr ()"
proof -
  let ?ts = "sm_transitions (sys_stream s)"
  have flight: "ts_in_flight_event_count ?ts = length (held_events s)"
      "ts_lifecycle_event_reservation ?ts = holder_reservation s"
    using ok job by (auto simp: event_ok_def counted_in_flight_def split: option.splits writer_job.splits)
  have "reserved_event_count ?ts = length (held_events s) + length (pending_events (sys_stream s))
      + holder_reservation s"
    using mem flight
    by (subst reserved_event_count_exact)
       (simp_all add: in_memory_def owed_event_count_def waiting_events_def pending_events_def usize_max_def)
  moreover have "unat (es_latest_id (sm_state (sys_stream s))) + length (pending_events (sys_stream s))
      + (length (held_events s) + holder_reservation s) < 2 ^ 64"
    using ok by (simp add: event_ok_def has_room_def)
  ultimately have "unat (es_latest_id (sm_state (sys_stream s)))
      + usize_saturating_add (reserved_event_count ?ts) 0 < 2 ^ 64"
    unfolding usize_saturating_add_def by linarith
  then show ?thesis by (simp only: reserve_with_pending_def tx_reserve_def ensure_capacity_Inr)
qed

section \<open>Every step keeps it\<close>

lemma has_room_update:
  "has_room extra (on_transitions f sm) \<longleftrightarrow>
     log_ok (sm_state sm)
     \<and> unat (es_latest_id (sm_state sm)) + length (pending_events (on_transitions f sm)) + extra < 2 ^ 64"
  by (simp add: has_room_def on_transitions_def)

lemma length_queue_event: "length (queue_event e pending) \<le> Suc (length pending)"
  by (auto simp: queue_event_def split: option.split dest!: position_SomeD simp: length_remove_at)

lemma length_fold_queue:
  "length (ts_pending_runtime_events (fold queue_runtime_event ks ts))
     \<le> length ks + length (ts_pending_runtime_events ts)"
proof (induction ks arbitrary: ts)
  case Nil
  then show ?case by simp
next
  case (Cons k ks)
  show ?case
    using Cons.IH [of "queue_runtime_event k ts"] length_queue_event [of k "ts_pending_runtime_events ts"]
    by (simp add: queue_runtime_event_def)
qed

lemma fold_queue_fields [simp]:
  "ts_pending_durable_events (fold queue_runtime_event ks ts) = ts_pending_durable_events ts"
  "ts_persistence_in_flight (fold queue_runtime_event ks ts) = ts_persistence_in_flight ts"
  "ts_in_flight_event_count (fold queue_runtime_event ks ts) = ts_in_flight_event_count ts"
  "ts_lifecycle_event_reservation (fold queue_runtime_event ks ts) = ts_lifecycle_event_reservation ts"
  by (induction ks arbitrary: ts) (simp_all add: queue_runtime_event_def)

lemma publication_blocked_fold [simp]:
  "publication_blocked (fold queue_runtime_event ks ts) = publication_blocked ts"
  by (simp add: publication_blocked_def)

lemma sys_fields_unchanged:
  assumes "event_ok s" and "sys_mutation s' = sys_mutation s" and "sys_writer s' = sys_writer s"
    and "ts_pending_durable_events (sm_transitions (sys_stream s'))
          = ts_pending_durable_events (sm_transitions (sys_stream s))"
    and "ts_persistence_in_flight (sm_transitions (sys_stream s'))
          = ts_persistence_in_flight (sm_transitions (sys_stream s))"
    and "ts_in_flight_event_count (sm_transitions (sys_stream s'))
          = ts_in_flight_event_count (sm_transitions (sys_stream s))"
    and "ts_lifecycle_event_reservation (sm_transitions (sys_stream s'))
          = ts_lifecycle_event_reservation (sm_transitions (sys_stream s))"
    and "has_room (length (held_events s) + holder_reservation s) (sys_stream s')"
    and "ts_pending_runtime_events (sm_transitions (sys_stream s')) \<noteq> []
          \<longrightarrow> publication_blocked (sm_transitions (sys_stream s'))"
  shows "event_ok s'"
proof -
  have same: "held_events s' = held_events s" "holder_reservation s' = holder_reservation s"
      "counted_in_flight s' = counted_in_flight s" "locks_ok s' = locks_ok s"
      "flush_ok s' = flush_ok s"
    unfolding event_ok_defs assms(2-7) by simp_all
  show ?thesis using assms(1,8,9) unfolding event_ok_def same assms(2-7) by simp
qed

lemma publish_ok:
  assumes ok: "event_ok s" and mem: "in_memory s" and n: "length kinds < 2 ^ 62"
  shows "event_ok (stream_publish clock kinds s)"
proof (cases "ensure_capacity (sm_state (sys_stream s))
    (usize_saturating_add (reserved_event_count (sm_transitions (sys_stream s))) (length kinds))")
  case (Inl e)
  then show ?thesis using ok by (simp add: stream_publish_def publish_runtime_batch_def)
next
  case (Inr u)
  then have "reserve_with_pending (sys_stream s) (length kinds) = Inr ()"
    by (simp add: reserve_with_pending_def tx_reserve_def)
  then have room: "has_room (length (held_events s) + holder_reservation s + length kinds) (sys_stream s)"
    by (rule reserve_room [OF ok mem n])
  show ?thesis
  proof (cases "publication_blocked (sm_transitions (sys_stream s))")
    case True
    have "has_room (length (held_events s) + holder_reservation s)
        (on_transitions (fold queue_runtime_event kinds) (sys_stream s))"
      using room length_fold_queue [of kinds "sm_transitions (sys_stream s)"]
      by (simp add: has_room_def on_transitions_def pending_events_def)
    then show ?thesis using True Inr ok
      by (intro sys_fields_unchanged [OF ok])
         (simp_all add: stream_publish_def publish_runtime_batch_def on_transitions_def)
  next
    case False
    have "has_room (length (held_events s) + holder_reservation s)
        (tx_append_batch clock kinds (sys_stream s))"
      by (rule has_room_append) (use room in \<open>simp add: algebra_simps\<close>)
    then show ?thesis using False Inr ok
      by (intro sys_fields_unchanged [OF ok])
         (simp_all add: stream_publish_def publish_runtime_batch_def event_ok_def)
  qed
qed

lemma mark_dirty_ok: "event_ok s \<Longrightarrow> event_ok (mark_persistence_dirty s)"
  by (rule sys_fields_unchanged, assumption) (auto simp: mark_persistence_dirty_def event_ok_def)

lemma mutation_lock_ok:
  "event_ok s \<Longrightarrow> sys_mutation s = None \<Longrightarrow> event_ok (s\<lparr>sys_mutation := Some (Mutating False)\<rparr>)"
  unfolding event_ok_defs
  by (cases "sys_writer s") (auto split: writer_job.splits)

lemma mutation_unlock_ok:
  "event_ok s \<Longrightarrow> sys_mutation s = Some (Mutating b) \<Longrightarrow> \<not> writes_for_holder s \<Longrightarrow>
   event_ok (s\<lparr>sys_mutation := None\<rparr>)"
  unfolding event_ok_defs writes_for_holder_def
  by (cases "sys_writer s") (auto split: writer_job.splits)

lemma holder_reservation_flushed [simp]:
  "holder_reservation (s\<lparr>sys_mutation := flushed (sys_mutation s)\<rparr>) = holder_reservation s"
  by (cases "sys_mutation s" rule: flushed.cases) (simp_all add: holder_reservation_def)

lemma flushed_eq_iff [simp]:
  "flushed m = Some Exiting \<longleftrightarrow> m = Some Exiting"
  "flushed m = None \<longleftrightarrow> m = None"
  "\<not> may_flush (flushed m)"
  by (cases m rule: flushed.cases; simp)+

lemma flush_begin_ok:
  assumes ok: "event_ok s" and "sys_writer s = None" and "own \<longrightarrow> may_flush (sys_mutation s)"
    and run: "flush_begin own s = Inr s'"
  shows "event_ok s'"
proof (cases "pending_durable_batch_count (sys_stream s) = 0 \<and> \<not> sys_dirty s")
  case True
  then have "s' = (if own then s\<lparr>sys_mutation := flushed (sys_mutation s)\<rparr> else s)"
    using run by (simp add: flush_begin_def)
  moreover have "event_ok (s\<lparr>sys_mutation := flushed (sys_mutation s)\<rparr>)"
    using ok True assms(2)
    by (simp add: event_ok_def locks_ok_def flush_ok_def counted_in_flight_def held_events_def
        pending_durable_batch_count_def)
  ultimately show ?thesis using ok by simp
next
  case False
  let ?ts = "sm_transitions (sys_stream s)"
  have s': "s' = start_write (WriteFlush own (ts_pending_durable_events ?ts))
      (s\<lparr>sys_stream := begin_persistence (length (concat (ts_pending_durable_events ?ts)))
          (on_transitions (\<lambda>ts. ts\<lparr>ts_pending_durable_events := []\<rparr>) (sys_stream s))\<rparr>)"
    using run False
    by (auto simp: flush_begin_def Let_def take_pending_durable_def pending_durable_event_count_def
        pending_durable_batch_count_def on_transitions_def length_concat_sum split: sum.splits if_splits)
  have "sys_mutation s \<noteq> Some Exiting" using ok assms(2) by (simp add: event_ok_def locks_ok_def)
  moreover have "holder_reservation s' = holder_reservation s"
    using assms(2) by (simp add: s' holder_reservation_def start_write_def split: option.split mutation_holder.split)
  ultimately show ?thesis
    using ok assms(2,3)
    by (auto simp: s' event_ok_def locks_ok_def has_flushed_def flush_ok_def counted_in_flight_def
        held_events_def start_write_def begin_persistence_def on_transitions_def has_room_def
        pending_events_def publication_blocked_def
        split: option.splits mutation_holder.splits elim!: may_flush.elims)
qed

lemma event_ok_parts:
  assumes "event_ok s"
  shows "has_room (length (held_events s) + holder_reservation s) (sys_stream s)"
    and "ts_lifecycle_event_reservation (sm_transitions (sys_stream s)) = holder_reservation s"
    and "locks_ok s" and "flush_ok s"
  using assms by (simp_all add: event_ok_def)

lemma flush_commit_ok:
  assumes ok: "event_ok s" and mem: "in_memory s" and job: "sys_writer s = Some (WriteFlush own pending)"
  shows "event_ok (snd (flush_commit clock own pending s))"
    and "isl (fst (flush_commit clock own pending s)) = False"
proof -
  let ?s' = "(written True s)\<lparr>sys_stream :=
      finish_persistence clock (fold (tx_append_batch clock) pending (sys_stream s)),
      sys_mutation := (if own then flushed (sys_mutation s) else sys_mutation s)\<rparr>"
  have "reserve_with_pending (sys_stream s) 0 = Inr ()"
    by (rule reserve_pending_ok [OF ok mem]) (simp add: job)
  then have run: "flush_commit clock own pending s = (Inr (sum_list (map length pending) \<noteq> 0), ?s')"
    by (simp add: flush_commit_def Let_def written_def)
  then show "isl (fst (flush_commit clock own pending s)) = False" by simp
  note parts = event_ok_parts [OF ok]
  have res: "holder_reservation ?s' = holder_reservation s"
    using job
    by (simp add: holder_reservation_def written_def split: option.split mutation_holder.split)
  have "has_room (length (concat pending) + holder_reservation s) (sys_stream s)"
    using parts(1) by (simp add: held_events_def job)
  then have "has_room (holder_reservation s)
      (finish_persistence clock (fold (tx_append_batch clock) pending (sys_stream s)))"
    by (intro has_room_finish has_room_append_all)
  moreover have "locks_ok ?s'"
    using parts(3) job by (cases "sys_mutation s" rule: flushed.cases) (auto simp: locks_ok_def written_def)
  moreover have "flush_ok ?s'"
    using parts(4) job by (auto simp: flush_ok_def has_flushed_def written_def)
  ultimately have "event_ok ?s'"
    using parts(2) res settled_finish
    by (simp add: event_ok_def held_events_def counted_in_flight_def written_def)
  then show "event_ok (snd (flush_commit clock own pending s))" by (simp add: run)
qed

lemma flush_fail_ok:
  assumes ok: "event_ok s" and job: "sys_writer s = Some (WriteFlush own pending)"
  shows "event_ok (flush_fail clock pending s)"
proof -
  let ?sm = "restore_pending_durable pending (sys_stream s)"
  note parts = event_ok_parts [OF ok]
  have restored: "ts_pending_durable_events (sm_transitions ?sm)
      = pending @ ts_pending_durable_events (sm_transitions (sys_stream s))"
    by (simp add: restore_pending_durable_def on_transitions_def fold_Cons_rev foldr_conv_fold)
  have "has_room (holder_reservation s) ?sm"
    using parts(1) job restored
    by (simp add: held_events_def has_room_def pending_events_def restore_pending_durable_def on_transitions_def)
  then have room: "has_room (holder_reservation s) (finish_persistence clock ?sm)"
    by (rule has_room_finish)
  have res: "holder_reservation (flush_fail clock pending s) = holder_reservation s"
    using job by (simp add: holder_reservation_def flush_fail_def written_def
        split: option.split mutation_holder.split)
  have "locks_ok (flush_fail clock pending s)"
    using parts(3) job by (auto simp: locks_ok_def flush_fail_def written_def)
  moreover have "flush_ok (flush_fail clock pending s)"
  proof (cases own)
    case True
    then have "may_flush (sys_mutation s)" using parts(3) job by (simp add: locks_ok_def)
    then show ?thesis
      by (cases "sys_mutation s" rule: may_flush.cases)
         (auto simp: flush_ok_def has_flushed_def flush_fail_def written_def)
  next
    case False
    then show ?thesis using parts(4) job restored
      by (auto simp: flush_ok_def has_flushed_def flush_fail_def written_def
          split: option.splits mutation_holder.splits)
  qed
  moreover have "ts_lifecycle_event_reservation (sm_transitions ?sm) = holder_reservation s"
    using parts(2) by (simp add: restore_pending_durable_def on_transitions_def)
  ultimately show ?thesis
    using room res settled_finish [of clock ?sm]
    by (simp add: event_ok_def held_events_def counted_in_flight_def flush_fail_def written_def)
qed

lemma mutation_begin_ok:
  assumes ok: "event_ok s" and mem: "in_memory s" "in_memory s'"
    and "sys_mutation s = Some (Mutating True)" and "sys_writer s = None"
    and run: "mutation_begin kinds s = Inr s'"
  shows "event_ok s'"
proof -
  have s': "s' = start_write (WriteMutation kinds)
      (s\<lparr>sys_stream := begin_persistence (length kinds) (sys_stream s)\<rparr>)"
    and reserve: "reserve_with_pending (sys_stream s) (length kinds) = Inr ()"
    using run by (auto simp: mutation_begin_def split: sum.splits)
  have "length kinds < 2 ^ 62"
    using mem(2) by (simp add: s' in_memory_def owed_event_count_def waiting_events_def held_events_def
        start_write_def)
  then have room: "has_room (length (held_events s) + holder_reservation s + length kinds) (sys_stream s)"
    by (rule reserve_room [OF ok mem(1) _ reserve])
  show ?thesis
    using ok assms(4,5) room
    by (auto simp: s' event_ok_defs start_write_def begin_persistence_def on_transitions_def has_room_def
        pending_events_def publication_blocked_def)
qed

lemma mutation_holder_ok:
  assumes ok: "event_ok s" and job: "sys_writer s = Some (WriteMutation kinds)"
  shows "sys_mutation s = Some (Mutating True)" and "holder_reservation s = 0"
    and "ts_pending_durable_events (sm_transitions (sys_stream s)) = []"
proof -
  show holder: "sys_mutation s = Some (Mutating True)"
    using event_ok_parts(3) [OF ok] job by (simp add: locks_ok_def)
  then show "holder_reservation s = 0" by (simp add: holder_reservation_def)
  show "ts_pending_durable_events (sm_transitions (sys_stream s)) = []"
    using event_ok_parts(4) [OF ok] holder by (simp add: flush_ok_def has_flushed_def)
qed

lemma mutation_commit_ok:
  assumes ok: "event_ok s" and job: "sys_writer s = Some (WriteMutation kinds)"
  shows "event_ok (mutation_commit clock kinds s)"
proof -
  note holder = mutation_holder_ok [OF ok job]
  have "has_room (length kinds + 0) (sys_stream s)"
    using event_ok_parts(1) [OF ok] holder job by (simp add: held_events_def)
  then have "has_room 0 (finish_persistence clock (tx_append_batch clock kinds (sys_stream s)))"
    by (intro has_room_finish has_room_append)
  then show ?thesis
    using event_ok_parts(2) [OF ok] holder settled_finish
    by (simp add: event_ok_defs mutation_commit_def written_def)
qed

lemma mutation_fail_ok:
  assumes ok: "event_ok s" and job: "sys_writer s = Some (WriteMutation kinds)"
  shows "event_ok (mutation_fail clock s)"
proof -
  note holder = mutation_holder_ok [OF ok job]
  have "has_room 0 (finish_persistence clock (sys_stream s))"
    using event_ok_parts(1) [OF ok] by (intro has_room_finish) (rule has_room_mono, assumption, simp)
  then show ?thesis
    using event_ok_parts(2) [OF ok] holder settled_finish
    by (simp add: event_ok_defs mutation_fail_def written_def)
qed

lemma exit_begin_ok:
  assumes ok: "event_ok s" and mem: "in_memory s"
    and "sys_mutation s = None" and "sys_writer s = None"
    and run: "exit_begin e s = ExitWriting s'"
  shows "event_ok s'"
proof -
  let ?ts = "sm_transitions (sys_stream s)"
  let ?n = "length (concat (ts_pending_durable_events ?ts)) + Suc (length (ts_pending_runtime_events ?ts))"
  have s': "s' = start_write (WriteExit (ts_pending_runtime_events ?ts @ [e]))
      (s\<lparr>sys_stream := begin_persistence (usize_saturating_add
            (length (concat (ts_pending_durable_events ?ts))) (Suc (length (ts_pending_runtime_events ?ts))))
          (on_transitions (\<lambda>ts. ts\<lparr>ts_pending_runtime_events := []\<rparr>) (sys_stream s)),
         sys_mutation := Some Exiting\<rparr>)"
    and reserve: "reserve_with_pending (sys_stream s) 1 = Inr ()"
    using run
    by (auto simp: exit_begin_def drain_runtime_events_def pending_durable_event_count_def
        pending_durable_batch_count_def on_transitions_def length_concat_sum split: sum.splits if_splits)
  have room: "has_room (length (held_events s) + holder_reservation s + 1) (sys_stream s)"
    by (rule reserve_room [OF ok mem _ reserve]) simp
  have "?n \<le> usize_max"
    using mem by (simp add: in_memory_def owed_event_count_def waiting_events_def usize_max_def)
  then have "usize_saturating_add (length (concat (ts_pending_durable_events ?ts)))
      (Suc (length (ts_pending_runtime_events ?ts))) = ?n"
    by (simp add: usize_saturating_add_def)
  then show ?thesis
    using ok assms(3,4) room
    by (auto simp: s' event_ok_defs start_write_def begin_persistence_def on_transitions_def has_room_def
        pending_events_def publication_blocked_def)
qed

lemma exit_holder_ok:
  assumes ok: "event_ok s" and job: "sys_writer s = Some (WriteExit batch)"
  shows "sys_mutation s = Some Exiting" and "holder_reservation s = 0"
proof -
  show holder: "sys_mutation s = Some Exiting"
    using event_ok_parts(3) [OF ok] job by (simp add: locks_ok_def)
  then show "holder_reservation s = 0" by (simp add: holder_reservation_def)
qed

lemma exit_commit_ok:
  assumes ok: "event_ok s" and job: "sys_writer s = Some (WriteExit batch)"
  shows "event_ok (exit_commit clock batch s)"
proof -
  note holder = exit_holder_ok [OF ok job]
  have "has_room (length batch + 0) (sys_stream s)"
    using event_ok_parts(1) [OF ok] holder job by (simp add: held_events_def)
  then have "has_room 0 (finish_persistence clock
      (tx_append_batch clock batch (append_pending_durable clock (sys_stream s))))"
    by (intro has_room_finish has_room_append has_room_append_pending)
  then show ?thesis
    using event_ok_parts(2) [OF ok] holder settled_finish
    by (simp add: event_ok_defs exit_commit_def written_def)
qed

lemma exit_fail_ok:
  assumes ok: "event_ok s" and job: "sys_writer s = Some (WriteExit batch)"
  shows "event_ok (exit_fail clock batch s)"
proof -
  note holder = exit_holder_ok [OF ok job]
  have "has_room 0 (snd (queue_durable_batch batch (sys_stream s)))"
    using event_ok_parts(1) [OF ok] job
    by (simp add: held_events_def queue_durable_batch_def has_room_def pending_events_def on_transitions_def)
  then have "has_room 0 (finish_persistence clock (snd (queue_durable_batch batch (sys_stream s))))"
    by (rule has_room_finish)
  moreover have "ts_lifecycle_event_reservation
      (sm_transitions (snd (queue_durable_batch batch (sys_stream s)))) = 0"
    using event_ok_parts(2) [OF ok] holder by (simp add: queue_durable_batch_def on_transitions_def)
  ultimately show ?thesis
    using holder settled_finish
    by (simp add: event_ok_defs exit_fail_def written_def)
qed

lemma lifecycle_begin_ok:
  assumes ok: "event_ok s" and mem: "in_memory s" "in_memory s'"
    and free: "sys_mutation s = None" and run: "lifecycle_begin shells committed s = Inr s'"
  shows "event_ok s'"
proof -
  let ?n = "lifecycle_event_capacity shells committed"
  have s': "s' = s\<lparr>sys_stream := begin_lifecycle_reservation ?n (sys_stream s),
      sys_mutation := Some (Stopping shells committed False)\<rparr>"
    and reserve: "reserve_with_pending (sys_stream s) ?n = Inr ()"
    using run by (auto simp: lifecycle_begin_def Let_def split: sum.splits)
  have "?n < 2 ^ 62"
    using mem(2) by (simp add: s' in_memory_def owed_event_count_def begin_lifecycle_reservation_def
        on_transitions_def)
  then have room: "has_room (length (held_events s) + holder_reservation s + ?n) (sys_stream s)"
    by (rule reserve_room [OF ok mem(1) _ reserve])
  have "\<And>c. sys_writer s \<noteq> Some (WriteLifecycle c)"
    using event_ok_parts(3) [OF ok] free by (auto simp: locks_ok_def)
  then have "holder_reservation s' = ?n"
    by (simp add: s' holder_reservation_def split: option.split writer_job.split)
  moreover have "locks_ok s'"
    using event_ok_parts(3) [OF ok] free
    by (auto simp: s' locks_ok_def split: option.splits writer_job.splits)
  moreover have "flush_ok s'"
    using event_ok_parts(4) [OF ok] free by (auto simp: s' flush_ok_def has_flushed_def
        begin_lifecycle_reservation_def on_transitions_def)
  moreover have "holder_reservation s = 0" using free by (simp add: holder_reservation_def)
  ultimately show ?thesis
    using ok room
    by (auto simp: s' event_ok_def counted_in_flight_def held_events_def begin_lifecycle_reservation_def
        on_transitions_def has_room_def pending_events_def publication_blocked_def
        split: option.splits writer_job.splits)
qed

lemma queue_stopped_fields [simp]:
  "sys_mutation (queue_stopped_events stopped s) = sys_mutation s"
  "sys_writer (queue_stopped_events stopped s) = sys_writer s"
  "ts_persistence_in_flight (sm_transitions (sys_stream (queue_stopped_events stopped s)))
     = ts_persistence_in_flight (sm_transitions (sys_stream s))"
  "ts_in_flight_event_count (sm_transitions (sys_stream (queue_stopped_events stopped s)))
     = ts_in_flight_event_count (sm_transitions (sys_stream s))"
  "ts_lifecycle_event_reservation (sm_transitions (sys_stream (queue_stopped_events stopped s)))
     = ts_lifecycle_event_reservation (sm_transitions (sys_stream s))"
  "sm_state (sys_stream (queue_stopped_events stopped s)) = sm_state (sys_stream s)"
  by (simp_all add: queue_stopped_events_def drain_runtime_events_def queue_durable_batch_def
      mark_persistence_dirty_def on_transitions_def)

lemma pending_queue_stopped:
  "pending_events (sys_stream (queue_stopped_events stopped s)) = pending_events (sys_stream s) @ stopped"
  by (simp add: queue_stopped_events_def drain_runtime_events_def queue_durable_batch_def
      mark_persistence_dirty_def on_transitions_def pending_events_def)

lemma has_room_queue_stopped:
  "has_room (length stopped + extra) (sys_stream s) \<Longrightarrow>
   has_room extra (sys_stream (queue_stopped_events stopped s))"
  by (simp add: has_room_def pending_queue_stopped)

lemma fold_queue_stopped_fields [simp]:
  "sys_mutation (fold queue_stopped_events batches s) = sys_mutation s"
  "sys_writer (fold queue_stopped_events batches s) = sys_writer s"
  "ts_persistence_in_flight (sm_transitions (sys_stream (fold queue_stopped_events batches s)))
     = ts_persistence_in_flight (sm_transitions (sys_stream s))"
  "ts_in_flight_event_count (sm_transitions (sys_stream (fold queue_stopped_events batches s)))
     = ts_in_flight_event_count (sm_transitions (sys_stream s))"
  "sm_state (sys_stream (fold queue_stopped_events batches s)) = sm_state (sys_stream s)"
  by (induction batches arbitrary: s) simp_all

lemma has_room_fold_queue_stopped:
  "has_room (length (concat batches) + extra) (sys_stream s) \<Longrightarrow>
   has_room extra (sys_stream (fold queue_stopped_events batches s))"
proof (induction batches arbitrary: s)
  case Nil
  then show ?case by simp
next
  case (Cons b batches)
  have "has_room (length (concat batches) + extra) (sys_stream (queue_stopped_events b s))"
    by (rule has_room_queue_stopped) (use Cons.prems in \<open>simp add: add.assoc\<close>)
  then show ?case using Cons.IH by simp
qed

lemma lifecycle_abandon_ok:
  assumes ok: "event_ok s" and holder: "sys_mutation s = Some (Stopping shells committed b)"
    and n: "sum_list (map length batches) \<le> shells" and free: "\<not> writes_for_holder s"
  shows "event_ok (lifecycle_abandon clock batches s)"
proof -
  let ?s = "fold queue_stopped_events batches s" and ?s' = "lifecycle_abandon clock batches s"
  have job: "sys_writer s = None \<or> (\<exists>p. sys_writer s = Some (WriteFlush False p))"
    using free by (auto simp: writes_for_holder_def split: option.splits writer_job.splits)
  have "length (concat batches) \<le> holder_reservation s"
    using n holder job by (auto simp: holder_reservation_def lifecycle_event_capacity_def length_concat)
  then have "has_room (length (concat batches) + length (held_events s)) (sys_stream s)"
    using event_ok_parts(1) [OF ok] by (elim has_room_mono) simp
  then have room: "has_room (length (held_events s)) (release_lifecycle_reservation clock (sys_stream ?s))"
    by (intro has_room_release has_room_fold_queue_stopped)
  have held: "held_events ?s' = held_events s" "holder_reservation ?s' = 0"
    by (simp_all add: lifecycle_abandon_def held_events_def holder_reservation_def Let_def)
  have "locks_ok ?s'" "flush_ok ?s'"
    using job by (auto simp: lifecycle_abandon_def locks_ok_def flush_ok_def has_flushed_def Let_def)
  moreover have "counted_in_flight ?s' = counted_in_flight s"
    using job held by (auto simp: counted_in_flight_def lifecycle_abandon_def Let_def)
  ultimately show ?thesis
    using ok room held settled_release [of clock "sys_stream ?s"] job
    by (auto simp: event_ok_def lifecycle_abandon_def Let_def)
qed

lemma lifecycle_write_ok:
  assumes ok: "event_ok s" and holder: "sys_mutation s = Some (Stopping shells committed True)"
    and free: "sys_writer s = None"
  shows "event_ok (lifecycle_write shells committed s)"
proof -
  let ?n = "lifecycle_event_capacity shells committed"
  have "length committed + (?n - length committed) = ?n" by (simp add: lifecycle_event_capacity_def)
  then show ?thesis
    using ok holder free
    by (auto simp: event_ok_defs lifecycle_write_def start_write_def transfer_lifecycle_reservation_def
        begin_persistence_def on_transitions_def has_room_def pending_events_def publication_blocked_def)
qed

lemma lifecycle_commit_ok:
  assumes ok: "event_ok s" and job: "sys_writer s = Some (WriteLifecycle committed)"
  shows "event_ok (lifecycle_commit clock committed s)"
proof -
  have "has_room (length committed + 0) (sys_stream s)"
    using event_ok_parts(1) [OF ok] job by (elim has_room_mono) (simp add: held_events_def)
  then have "has_room 0 (finish_persistence clock
      (release_lifecycle_reservation clock (tx_append_batch clock committed (sys_stream s))))"
    by (intro has_room_finish has_room_release has_room_append)
  then show ?thesis
    using settled_finish by (simp add: event_ok_defs lifecycle_commit_def written_def)
qed

lemma lifecycle_fail_ok:
  assumes ok: "event_ok s" and job: "sys_writer s = Some (WriteLifecycle committed)"
    and holder: "sys_mutation s = Some (Stopping shells committed' b)" and n: "length stopped \<le> shells"
  shows "event_ok (lifecycle_fail clock stopped s)"
proof -
  have same: "committed' = committed" using event_ok_parts(3) [OF ok] job holder by (auto simp: locks_ok_def)
  have "length stopped \<le> length (held_events s) + holder_reservation s"
    using n job holder same by (simp add: held_events_def holder_reservation_def lifecycle_event_capacity_def)
  then have "has_room (length stopped + 0) (sys_stream (written False s))"
    using event_ok_parts(1) [OF ok] by (simp add: written_def has_room_def)
  then have "has_room 0 (finish_persistence clock (release_lifecycle_reservation clock
      (sys_stream (queue_stopped_events stopped (written False s)))))"
    by (intro has_room_finish has_room_release has_room_queue_stopped)
  then show ?thesis
    using settled_finish by (simp add: event_ok_defs lifecycle_fail_def written_def Let_def)
qed

section \<open>Runs\<close>

lemma event_step_ok:
  assumes "event_step clock s a s'" and "event_ok s" and "in_memory s" and "in_memory s'"
    and "action_in_memory a"
  shows "event_ok s'"
  using assms
proof (cases rule: event_step.cases)
  case publish
  then show ?thesis using assms publish_ok by simp
next
  case (flush_begin own)
  then show ?thesis using assms flush_begin_ok by (auto simp: or_else_def split: sum.split)
next
  case (mutation_begin kinds)
  then show ?thesis
    using assms mutation_begin_ok by (cases "mutation_begin kinds s") (auto simp: or_else_def)
next
  case (exit_begin e)
  then show ?thesis using assms exit_begin_ok by (auto split: exit_start.split)
next
  case (lifecycle_begin shells committed)
  then show ?thesis
    using assms lifecycle_begin_ok by (cases "lifecycle_begin shells committed s") (auto simp: or_else_def)
qed (auto intro: mark_dirty_ok mutation_lock_ok mutation_unlock_ok flush_commit_ok flush_fail_ok
      mutation_commit_ok mutation_fail_ok exit_commit_ok exit_fail_ok lifecycle_abandon_ok
      lifecycle_write_ok lifecycle_commit_ok lifecycle_fail_ok)

lemma event_run_ok:
  "event_run clock s as acc s' \<Longrightarrow> event_ok s \<Longrightarrow> in_memory s \<Longrightarrow> event_ok s' \<and> in_memory s'"
  by (induction rule: event_run.induct) (auto intro: event_step_ok)

definition stream_starts :: "event_stream \<Rightarrow> bool" where
  "stream_starts sm \<longleftrightarrow> log_ok (sm_state sm) \<and> sm_transitions sm = empty_transition_state"

lemma initial_ok:
  "stream_starts sm \<Longrightarrow> event_ok (initial_system sm dirty) \<and> in_memory (initial_system sm dirty)"
  using unat_u64_bound [of "es_latest_id (sm_state sm)"]
  by (simp add: stream_starts_def event_ok_defs initial_system_def has_room_def pending_events_def
      empty_transition_state_def in_memory_def owed_event_count_def waiting_events_def)

end
