(* ===== verification/Event_Conservation.thy ===== *)
theory Event_Conservation
  imports Event_Invariant "HOL-Library.Multiset"
begin

text \<open>
  What becomes of an event once it is accepted. Some runtime events stand for the newest state
  of something and replace the older ones that still wait; all others, the lasting ones, are
  published exactly once.
\<close>

section \<open>The runtime queue\<close>

definition lasting :: "daemon_event_kind \<Rightarrow> bool" where
  "lasting e \<longleftrightarrow> \<not> supersedes e e"

text \<open>The reference: of every group of events that replace each other, keep the last.\<close>

primrec coalesce :: "daemon_event_kind list \<Rightarrow> daemon_event_kind list" where
  "coalesce [] = []"
| "coalesce (k # ks) = (if \<exists>k' \<in> set ks. supersedes k' k then coalesce ks else k # coalesce ks)"

lemma supersedes_iff:
  "supersedes e x \<longleftrightarrow>
     (\<exists>w shell run n w' n'. e = EvOutputChanged w shell run n \<and> x = EvOutputChanged w' shell run n')
     \<or> (\<exists>node n n'. e = EvNodeProjectionChanged node n \<and> x = EvNodeProjectionChanged node n')
     \<or> e = EvFocusedTerminalPresentationChanged \<and> x = EvFocusedTerminalPresentationChanged"
proof (cases e)
  case (EvOutputChanged w shell run n)
  then show ?thesis by (cases x) (auto simp: supersedes_def)
next
  case (EvNodeProjectionChanged node n)
  then show ?thesis by (cases x) (auto simp: supersedes_def)
qed (simp_all add: supersedes_def)

lemma supersedes_not_lasting: "supersedes e x \<Longrightarrow> \<not> lasting x"
  unfolding lasting_def supersedes_iff by auto

lemma supersedes_same: "supersedes e x \<Longrightarrow> supersedes e y \<Longrightarrow> supersedes y x"
  unfolding supersedes_iff by auto

lemma set_coalesce: "set (coalesce ks) \<subseteq> set ks"
  by (induction ks) auto

lemma coalesce_snoc: "coalesce (ks @ [e]) = filter (\<lambda>k. \<not> supersedes e k) (coalesce ks) @ [e]"
  by (induction ks) auto

lemma sorted_coalesce: "sorted_wrt (\<lambda>x y. \<not> supersedes y x) (coalesce ks)"
proof (induction ks)
  case Nil
  then show ?case by simp
next
  case (Cons k ks)
  have "\<forall>y \<in> set (coalesce ks). y \<in> set ks" using set_coalesce by blast
  then show ?case using Cons.IH by simp
qed

lemma queue_event_filter:
  assumes "sorted_wrt (\<lambda>x y. \<not> supersedes y x) pending"
  shows "queue_event e pending = filter (\<lambda>k. \<not> supersedes e k) pending @ [e]"
proof -
  have "(case position (supersedes e) pending of Some i \<Rightarrow> remove_at i pending | None \<Rightarrow> pending)
      = filter (\<lambda>k. \<not> supersedes e k) pending"
    using assms
  proof (induction pending)
    case Nil
    then show ?case by simp
  next
    case (Cons x xs)
    show ?case
    proof (cases "supersedes e x")
      case True
      have "\<forall>y \<in> set xs. \<not> supersedes y x" using Cons.prems by simp
      then have "\<forall>y \<in> set xs. \<not> supersedes e y" using supersedes_same [OF True] by blast
      then have "filter (\<lambda>k. \<not> supersedes e k) xs = xs" by (intro filter_True) auto
      then show ?thesis using True by (simp add: remove_at_def)
    next
      case False
      have rest: "(case position (supersedes e) xs of Some i \<Rightarrow> remove_at i xs | None \<Rightarrow> xs)
          = filter (\<lambda>k. \<not> supersedes e k) xs"
        using Cons.prems by (intro Cons.IH) simp
      have "remove_at (Suc i) (x # xs) = x # remove_at i xs" for i by (simp add: remove_at_def)
      then show ?thesis using False rest by (cases "position (supersedes e) xs") simp_all
    qed
  qed
  then show ?thesis by (simp add: queue_event_def)
qed

lemma queue_coalesce: "fold queue_event ks (coalesce p) = coalesce (p @ ks)"
proof (induction ks arbitrary: p)
  case Nil
  then show ?case by simp
next
  case (Cons k ks)
  have "queue_event k (coalesce p) = coalesce (p @ [k])"
    by (simp only: queue_event_filter [OF sorted_coalesce] coalesce_snoc)
  then show ?case using Cons.IH [of "p @ [k]"] by simp
qed

lemma runtime_fold: "ts_pending_runtime_events (fold queue_runtime_event ks ts)
    = fold queue_event ks (ts_pending_runtime_events ts)"
  by (induction ks arbitrary: ts) (simp_all add: queue_runtime_event_def)

lemma lasting_queue_event: "filter lasting (queue_event e pending) = filter lasting (pending @ [e])"
proof (cases "position (supersedes e) pending")
  case None
  then show ?thesis by (simp add: queue_event_def)
next
  case (Some i)
  then have i: "i < length pending" "\<not> lasting (pending ! i)"
    using position_SomeD supersedes_not_lasting by blast+
  have "filter lasting pending = filter lasting (take i pending @ pending ! i # drop (Suc i) pending)"
    using id_take_nth_drop [OF i(1)] by simp
  then show ?thesis using Some i(2) by (simp add: queue_event_def remove_at_def)
qed

lemma lasting_fold_queue:
  "filter lasting (fold queue_event ks pending) = filter lasting (pending @ ks)"
  by (induction ks arbitrary: pending) (simp_all add: lasting_queue_event)

lemma lasting_coalesce: "filter lasting (coalesce ks) = filter lasting ks"
  using lasting_fold_queue [of ks "[]"] queue_coalesce [of ks "[]"] by simp

section \<open>Moving events through the stream\<close>

text \<open>
  \<open>moves clock acc sm sm'\<close>: with \<open>acc\<close> accepted, whatever left the queues was published.
\<close>

definition moves :: "(u64 \<Rightarrow> u64) \<Rightarrow> daemon_event_kind list \<Rightarrow> event_stream \<Rightarrow> event_stream \<Rightarrow> bool" where
  "moves clock acc sm sm' \<longleftrightarrow>
     (\<exists>new. published clock new (sm_state sm) (sm_state sm')
        \<and> mset (filter lasting (new @ pending_events sm')) = mset (filter lasting (pending_events sm @ acc)))"

lemma moves_trans:
  assumes "moves clock a sm sm'" and "moves clock b sm' sm''"
  shows "moves clock (a @ b) sm sm''"
proof -
  obtain xs where xs: "published clock xs (sm_state sm) (sm_state sm')"
      "mset (filter lasting (xs @ pending_events sm')) = mset (filter lasting (pending_events sm @ a))"
    using assms(1) by (auto simp: moves_def)
  obtain ys where ys: "published clock ys (sm_state sm') (sm_state sm'')"
      "mset (filter lasting (ys @ pending_events sm'')) = mset (filter lasting (pending_events sm' @ b))"
    using assms(2) by (auto simp: moves_def)
  have "mset (filter lasting ((xs @ ys) @ pending_events sm''))
      = mset (filter lasting (pending_events sm @ (a @ b)))"
    using xs(2) ys(2) by (simp add: union_commute union_assoc)
  then show ?thesis using published_trans [OF xs(1) ys(1)] unfolding moves_def by blast
qed

lemma moves_append: "moves clock ks sm (tx_append_batch clock ks sm)"
  unfolding moves_def
  by (rule exI [of _ ks]) (simp add: tx_append_batch_def published_append_batch pending_events_def)

definition log_short :: "event_stream \<Rightarrow> bool" where
  "log_short sm \<longleftrightarrow> length (es_events (sm_state sm)) \<le> max_retained_events"

lemma moves_log_short: "moves clock a sm sm' \<Longrightarrow> log_short sm'"
  by (auto simp: moves_def log_short_def published_def)

lemma log_short_append: "log_short (tx_append_batch clock ks sm)"
  by (rule moves_log_short [OF moves_append])

text \<open>A change of the queues only.\<close>

lemma moves_queue:
  assumes "log_short sm" and "sm_state sm' = sm_state sm"
    and "mset (filter lasting (pending_events sm')) = mset (filter lasting (pending_events sm @ a))"
  shows "moves clock a sm sm'"
  unfolding moves_def
  by (rule exI [of _ "[]"]) (use assms in \<open>simp add: log_short_def published_none\<close>)

lemma moves_append_all:
  "log_short sm \<Longrightarrow> moves clock (concat batches) sm (fold (tx_append_batch clock) batches sm)"
proof (induction batches arbitrary: sm)
  case Nil
  then show ?case by (simp add: moves_queue)
next
  case (Cons b batches)
  show ?case
    using moves_trans [OF moves_append Cons.IH [OF log_short_append]] by simp
qed

lemma moves_publish_pending:
  assumes "log_short sm"
  shows "moves clock [] sm (publish_pending_runtime clock sm)"
proof (cases "publication_blocked (sm_transitions sm)")
  case True
  then show ?thesis using assms by (simp add: publish_pending_runtime_def moves_queue)
next
  case False
  then show ?thesis
    unfolding moves_def
    by (intro exI [of _ "ts_pending_runtime_events (sm_transitions sm)"])
       (simp add: publish_pending_runtime_def append_batch_locked_def [symmetric] published_append_batch
         pending_events_def)
qed

lemma moves_finish:
  assumes "log_short sm"
  shows "moves clock [] sm (finish_persistence clock sm)"
proof -
  let ?sm = "on_transitions (\<lambda>ts. ts\<lparr>ts_persistence_in_flight := False, ts_in_flight_event_count := 0\<rparr>) sm"
  have same: "moves clock [] sm ?sm"
    by (rule moves_queue [OF assms]) (simp_all add: on_transitions_def pending_events_def)
  show ?thesis
    using moves_trans [OF same moves_publish_pending [OF moves_log_short [OF same]]]
    by (simp add: finish_persistence_def)
qed

lemma moves_release:
  assumes "log_short sm"
  shows "moves clock [] sm (release_lifecycle_reservation clock sm)"
proof -
  let ?sm = "on_transitions (\<lambda>ts. ts\<lparr>ts_lifecycle_event_reservation := 0\<rparr>) sm"
  have same: "moves clock [] sm ?sm"
    by (rule moves_queue [OF assms]) (simp_all add: on_transitions_def pending_events_def)
  show ?thesis
    using moves_trans [OF same moves_publish_pending [OF moves_log_short [OF same]]]
    by (simp add: release_lifecycle_reservation_def)
qed

lemma moves_append_pending:
  assumes "log_short sm"
  shows "moves clock [] sm (append_pending_durable clock sm)"
  unfolding moves_def
  by (rule exI [of _ "concat (ts_pending_durable_events (sm_transitions sm))"])
     (use assms in \<open>simp add: append_pending_durable_def published_batches log_short_def pending_events_def\<close>)

lemma moves_queue_batch:
  "log_short sm \<Longrightarrow> moves clock batch sm (snd (queue_durable_batch batch sm))"
  by (rule moves_queue) (simp_all add: queue_durable_batch_def on_transitions_def pending_events_def)

lemma moves_queue_stopped:
  "log_short (sys_stream s) \<Longrightarrow>
   moves clock stopped (sys_stream s) (sys_stream (queue_stopped_events stopped s))"
  by (rule moves_queue) (simp_all add: pending_queue_stopped)

lemma moves_fold_queue_stopped:
  "log_short (sys_stream s) \<Longrightarrow>
   moves clock (concat batches) (sys_stream s) (sys_stream (fold queue_stopped_events batches s))"
proof (induction batches arbitrary: s)
  case Nil
  then show ?case by (simp add: moves_queue)
next
  case (Cons b batches)
  note first = moves_queue_stopped [OF Cons.prems, of clock b]
  show ?case
    using moves_trans [OF first Cons.IH [OF moves_log_short [OF first]]] by simp
qed

section \<open>Steps and runs\<close>

text \<open>What the writer carries that was accepted before.\<close>

definition carried :: "event_system \<Rightarrow> daemon_event_kind list" where
  "carried s =
     (case sys_writer s of
        Some (WriteFlush _ batches) \<Rightarrow> concat batches | Some (WriteExit batch) \<Rightarrow> batch | _ \<Rightarrow> [])"

definition outstanding :: "event_system \<Rightarrow> daemon_event_kind list" where
  "outstanding s = carried s @ pending_events (sys_stream s)"

definition conserves ::
    "(u64 \<Rightarrow> u64) \<Rightarrow> daemon_event_kind list \<Rightarrow> event_system \<Rightarrow> event_system \<Rightarrow> bool" where
  "conserves clock acc s s' \<longleftrightarrow>
     (\<exists>new. published clock new (sm_state (sys_stream s)) (sm_state (sys_stream s'))
        \<and> mset (filter lasting (new @ outstanding s')) = mset (filter lasting (outstanding s @ acc)))"

lemma conserves_moves:
  assumes "moves clock x (sys_stream s) (sys_stream s')"
    and "mset (filter lasting (x @ carried s')) = mset (filter lasting (carried s @ acc))"
  shows "conserves clock acc s s'"
proof -
  obtain new where new: "published clock new (sm_state (sys_stream s)) (sm_state (sys_stream s'))"
      "mset (filter lasting (new @ pending_events (sys_stream s')))
        = mset (filter lasting (pending_events (sys_stream s) @ x))"
    using assms(1) by (auto simp: moves_def)
  have "mset (filter lasting (new @ outstanding s')) = mset (filter lasting (outstanding s @ acc))"
    using new(2) assms(2) unfolding outstanding_def
    by (simp add: ac_simps) (metis union_assoc union_commute)
  then show ?thesis using new(1) unfolding conserves_def by blast
qed

lemma conserves_queue:
  assumes "log_short (sys_stream s)" and "sm_state (sys_stream s') = sm_state (sys_stream s)"
    and "mset (filter lasting (outstanding s')) = mset (filter lasting (outstanding s @ acc))"
  shows "conserves clock acc s s'"
  unfolding conserves_def
  by (rule exI [of _ "[]"]) (use assms in \<open>simp add: log_short_def published_none\<close>)

lemma conserves_refl: "log_short (sys_stream s) \<Longrightarrow> conserves clock [] s s"
  by (rule conserves_queue) simp_all

lemma conserves_trans:
  assumes "conserves clock a s s'" and "conserves clock b s' s''"
  shows "conserves clock (a @ b) s s''"
proof -
  obtain xs where xs: "published clock xs (sm_state (sys_stream s)) (sm_state (sys_stream s'))"
      "mset (filter lasting (xs @ outstanding s')) = mset (filter lasting (outstanding s @ a))"
    using assms(1) by (auto simp: conserves_def)
  obtain ys where ys: "published clock ys (sm_state (sys_stream s')) (sm_state (sys_stream s''))"
      "mset (filter lasting (ys @ outstanding s'')) = mset (filter lasting (outstanding s' @ b))"
    using assms(2) by (auto simp: conserves_def)
  have "mset (filter lasting ((xs @ ys) @ outstanding s''))
      = mset (filter lasting (outstanding s @ (a @ b)))"
    using xs(2) ys(2) by (simp add: union_commute union_assoc)
  then show ?thesis using published_trans [OF xs(1) ys(1)] unfolding conserves_def by blast
qed

lemma event_ok_short: "event_ok s \<Longrightarrow> log_short (sys_stream s)"
  by (simp add: event_ok_def has_room_def log_ok_def log_short_def)

lemma publish_conserves:
  assumes short: "log_short (sys_stream s)"
  shows "conserves clock (accepted s (Publish kinds)) s (stream_publish clock kinds s)"
proof (cases "reserve_with_pending (sys_stream s) (length kinds)")
  case (Inl e)
  then have "stream_publish clock kinds s = s"
    by (simp add: reserve_with_pending_def tx_reserve_def stream_publish_def publish_runtime_batch_def)
  then show ?thesis using Inl conserves_refl [OF short] by simp
next
  case (Inr u)
  then have capacity: "ensure_capacity (sm_state (sys_stream s))
      (usize_saturating_add (reserved_event_count (sm_transitions (sys_stream s))) (length kinds)) = Inr ()"
    by (simp add: reserve_with_pending_def tx_reserve_def)
  show ?thesis
  proof (cases "publication_blocked (sm_transitions (sys_stream s))")
    case True
    then show ?thesis using capacity Inr
      by (intro conserves_queue [OF short])
         (simp_all add: stream_publish_def publish_runtime_batch_def on_transitions_def outstanding_def
           carried_def pending_events_def runtime_fold lasting_fold_queue)
  next
    case False
    then have "sys_stream (stream_publish clock kinds s) = tx_append_batch clock kinds (sys_stream s)"
      using capacity by (simp add: stream_publish_def publish_runtime_batch_def)
    then show ?thesis using Inr moves_append [of clock kinds "sys_stream s"]
      by (intro conserves_moves [of clock kinds]) (simp_all add: carried_def stream_publish_def)
  qed
qed

lemma flush_begin_conserves:
  assumes short: "log_short (sys_stream s)" and free: "sys_writer s = None"
  shows "conserves clock [] s (or_else s (flush_begin own s))"
proof (cases "flush_begin own s")
  case (Inl e)
  then show ?thesis using conserves_refl [OF short] by (simp add: or_else_def)
next
  case (Inr s')
  then show ?thesis
    using free
    by (intro conserves_queue [OF short])
       (auto simp: or_else_def flush_begin_def Let_def take_pending_durable_def on_transitions_def
         begin_persistence_def start_write_def outstanding_def carried_def pending_events_def
         pending_durable_batch_count_def split: sum.splits if_splits)
qed

lemma flush_commit_conserves:
  assumes ok: "event_ok s" and mem: "in_memory s" and job: "sys_writer s = Some (WriteFlush own pending)"
  shows "conserves clock [] s (snd (flush_commit clock own pending s))"
proof -
  let ?sm = "fold (tx_append_batch clock) pending (sys_stream s)"
  have "reserve_with_pending (sys_stream s) 0 = Inr ()"
    by (rule reserve_pending_ok [OF ok mem]) (simp add: job)
  then have s': "sys_stream (snd (flush_commit clock own pending s)) = finish_persistence clock ?sm"
      "sys_writer (snd (flush_commit clock own pending s)) = None"
    by (simp_all add: flush_commit_def Let_def written_def)
  have append: "moves clock (concat pending) (sys_stream s) ?sm"
    by (rule moves_append_all [OF event_ok_short [OF ok]])
  show ?thesis
    using moves_trans [OF append moves_finish [OF moves_log_short [OF append]]] job
    by (intro conserves_moves [of clock "concat pending"]) (simp_all add: s' carried_def)
qed

lemma flush_fail_conserves:
  assumes ok: "event_ok s" and job: "sys_writer s = Some (WriteFlush own pending)"
  shows "conserves clock [] s (flush_fail clock pending s)"
proof -
  let ?sm = "restore_pending_durable pending (sys_stream s)"
  have restored: "moves clock (concat pending) (sys_stream s) ?sm"
    by (rule moves_queue [OF event_ok_short [OF ok]])
       (simp_all add: restore_pending_durable_def on_transitions_def pending_events_def
         fold_Cons_rev foldr_conv_fold)
  show ?thesis
    using moves_trans [OF restored moves_finish [OF moves_log_short [OF restored]]] job
    by (intro conserves_moves [of clock "concat pending"])
       (simp_all add: flush_fail_def written_def carried_def)
qed

lemma mutation_conserves:
  assumes short: "log_short (sys_stream s)" and job: "sys_writer s = Some (WriteMutation kinds)"
  shows "conserves clock kinds s (mutation_commit clock kinds s)"
    and "conserves clock [] s (mutation_fail clock s)"
proof -
  show "conserves clock kinds s (mutation_commit clock kinds s)"
    using moves_trans [OF moves_append moves_finish [OF log_short_append]] job
    by (intro conserves_moves [of clock kinds]) (simp_all add: mutation_commit_def written_def carried_def)
  show "conserves clock [] s (mutation_fail clock s)"
    using moves_finish [OF short] job
    by (intro conserves_moves [of clock "[]"]) (simp_all add: mutation_fail_def written_def carried_def)
qed

lemma mutation_begin_conserves:
  assumes short: "log_short (sys_stream s)" and free: "sys_writer s = None"
  shows "conserves clock [] s (or_else s (mutation_begin kinds s))"
  using free
  by (intro conserves_queue [OF short])
     (auto simp: or_else_def mutation_begin_def start_write_def begin_persistence_def on_transitions_def
       outstanding_def carried_def pending_events_def split: sum.split)

lemma exit_begin_conserves:
  assumes short: "log_short (sys_stream s)" and free: "sys_writer s = None"
  shows "conserves clock (accepted s (ExitBegin e)) s (case exit_begin e s of ExitWriting s' \<Rightarrow> s' | _ \<Rightarrow> s)"
  using free
  by (intro conserves_queue [OF short])
     (auto simp: exit_begin_def drain_runtime_events_def start_write_def begin_persistence_def
       on_transitions_def outstanding_def carried_def pending_events_def split: sum.split)

lemma exit_conserves:
  assumes short: "log_short (sys_stream s)" and job: "sys_writer s = Some (WriteExit batch)"
  shows "conserves clock [] s (exit_commit clock batch s)"
    and "conserves clock [] s (exit_fail clock batch s)"
proof -
  note pending = moves_append_pending [OF short, of clock]
  note written = moves_trans [OF moves_trans [OF pending moves_append] moves_finish [OF log_short_append]]
  show "conserves clock [] s (exit_commit clock batch s)"
    using written [of batch] job
    by (intro conserves_moves [of clock batch]) (simp_all add: exit_commit_def written_def carried_def)
  note queued = moves_queue_batch [OF short, of clock batch]
  show "conserves clock [] s (exit_fail clock batch s)"
    using moves_trans [OF queued moves_finish [OF moves_log_short [OF queued]]] job
    by (intro conserves_moves [of clock batch]) (simp_all add: exit_fail_def written_def carried_def)
qed

lemma lifecycle_begin_conserves:
  assumes short: "log_short (sys_stream s)"
  shows "conserves clock [] s (or_else s (lifecycle_begin shells committed s))"
  by (intro conserves_queue [OF short])
     (auto simp: or_else_def lifecycle_begin_def Let_def begin_lifecycle_reservation_def on_transitions_def
       outstanding_def carried_def pending_events_def split: sum.split)

lemma lifecycle_abandon_conserves:
  assumes short: "log_short (sys_stream s)"
  shows "conserves clock (concat batches) s (lifecycle_abandon clock batches s)"
proof -
  note queued = moves_fold_queue_stopped [OF short, of clock batches]
  show ?thesis
    using moves_trans [OF queued moves_release [OF moves_log_short [OF queued]]]
    by (intro conserves_moves [of clock "concat batches"])
       (simp_all add: lifecycle_abandon_def Let_def carried_def)
qed

lemma lifecycle_write_conserves:
  assumes short: "log_short (sys_stream s)" and free: "sys_writer s = None"
  shows "conserves clock [] s (lifecycle_write shells committed s)"
  using free
  by (intro conserves_queue [OF short])
     (simp_all add: lifecycle_write_def start_write_def transfer_lifecycle_reservation_def
       begin_persistence_def on_transitions_def outstanding_def carried_def pending_events_def)

lemma lifecycle_conserves:
  assumes short: "log_short (sys_stream s)" and job: "sys_writer s = Some (WriteLifecycle committed)"
  shows "conserves clock committed s (lifecycle_commit clock committed s)"
    and "conserves clock stopped s (lifecycle_fail clock stopped s)"
proof -
  note committed = moves_trans [OF moves_append moves_release [OF log_short_append]]
  note finished = moves_trans [OF committed moves_finish [OF moves_log_short [OF committed]]]
  show "conserves clock committed s (lifecycle_commit clock committed s)"
    using finished [of clock committed "sys_stream s"] job
    by (intro conserves_moves [of clock committed]) (simp_all add: lifecycle_commit_def written_def carried_def)
  let ?s = "written False s"
  have "log_short (sys_stream ?s)" using short by (simp add: written_def)
  note queued = moves_queue_stopped [OF this, of clock stopped]
  note released = moves_trans [OF queued moves_release [OF moves_log_short [OF queued]]]
  note failed = moves_trans [OF released moves_finish [OF moves_log_short [OF released]]]
  have "carried (lifecycle_fail clock stopped s) = []" "sys_stream ?s = sys_stream s"
    by (simp_all add: carried_def lifecycle_fail_def Let_def written_def)
  then show "conserves clock stopped s (lifecycle_fail clock stopped s)"
    using failed job
    by (intro conserves_moves [of clock stopped]) (simp_all add: lifecycle_fail_def Let_def carried_def)
qed

lemma event_step_conserves:
  assumes "event_step clock s a s'" and ok: "event_ok s" and "in_memory s"
  shows "conserves clock (accepted s a) s s'"
  using assms(1)
proof (cases rule: event_step.cases)
  case publish
  then show ?thesis using publish_conserves [OF event_ok_short [OF ok]] by simp
next
  case mark_dirty
  then show ?thesis
    by (simp, intro conserves_queue [OF event_ok_short [OF ok]])
       (simp_all add: mark_persistence_dirty_def outstanding_def carried_def)
next
  case mutation_lock
  then show ?thesis
    by (simp, intro conserves_queue [OF event_ok_short [OF ok]]) (simp_all add: outstanding_def carried_def)
next
  case (mutation_unlock b)
  then show ?thesis
    by (simp, intro conserves_queue [OF event_ok_short [OF ok]]) (simp_all add: outstanding_def carried_def)
qed (use assms event_ok_short [OF ok] in \<open>auto intro: flush_begin_conserves flush_commit_conserves
      flush_fail_conserves mutation_conserves mutation_begin_conserves exit_conserves
      lifecycle_begin_conserves lifecycle_abandon_conserves lifecycle_write_conserves
      lifecycle_conserves exit_begin_conserves simp del: accepted.simps(3)\<close>)

lemma event_run_conserves:
  "event_run clock s as acc s' \<Longrightarrow> event_ok s \<Longrightarrow> in_memory s \<Longrightarrow> conserves clock acc s s'"
proof (induction rule: event_run.induct)
  case start
  then show ?case using conserves_refl event_ok_short by blast
next
  case (more as acc s' a s'')
  have "event_ok s'" "in_memory s'" using event_run_ok more by blast+
  then show ?case using more conserves_trans event_step_conserves by blast
qed

end
