(* ===== verification/Event_Props.thy ===== *)
theory Event_Props
  imports Event_Conservation
begin

text \<open>
  Properties of the event stream: its ids and its room, that no event is lost, what a reader
  and a coordinator that synchronises a Node are told, and how waiting runtime events coalesce.
\<close>

lemma flushed_outstanding:
  assumes ok: "event_ok s" and "sys_mutation s = Some (Mutating True)" and "sys_writer s = None"
  shows "outstanding s = []"
proof -
  have "ts_pending_durable_events (sm_transitions (sys_stream s)) = []"
    using ok assms(2) by (simp add: event_ok_def flush_ok_def has_flushed_def)
  moreover from this have "\<not> publication_blocked (sm_transitions (sys_stream s))"
    using ok assms(2,3) by (simp add: event_ok_def holder_reservation_def publication_blocked_def)
  ultimately show ?thesis
    using ok assms(3) by (simp add: event_ok_def outstanding_def carried_def pending_events_def)
qed

section \<open>What a reader was told\<close>

lemma read_after_ready:
  assumes ok: "log_ok es" and read: "read_after c limit w expired stopping es = PollReady r"
  shows "cursor_valid es c"
    and "map (\<lambda>e. unat (ev_id e)) (er_events r)
      = [Suc (unat (cur_event_id c)) ..< Suc (unat (cur_event_id (er_cursor r)))]"
    and "cur_event_id c \<le> cur_event_id (er_cursor r)"
    and "er_events r = take limit (events_after (cur_event_id c) (es_events es))"
proof -
  show valid: "cursor_valid es c"
    using read read_after_invalid [OF ok] by (cases "cursor_valid es c") auto
  let ?after = "events_after (cur_event_id c) (es_events es)"
  have r: "er_events r = take limit ?after"
      "cur_event_id (er_cursor r)
        = (if take limit ?after = [] then cur_event_id c else ev_id (last (take limit ?after)))"
    using read by (auto simp: read_after_valid [OF ok valid] Let_def split: if_splits)
  show "er_events r = take limit ?after" by (rule r(1))
  let ?c = "unat (cur_event_id c)"
  let ?n = "min limit (length ?after)"
  have "take limit ?after = take ?n ?after" by (simp add: min_def)
  then have "map (\<lambda>e. unat (ev_id e)) (take limit ?after)
      = take ?n [Suc ?c ..< Suc (unat (es_latest_id es))]"
    using ids_events_after [OF ok valid] by (simp only: take_map [symmetric])
  moreover have "Suc ?c + ?n \<le> Suc (unat (es_latest_id es))"
    using length_events_after [OF ok valid] valid by (auto simp: cursor_valid_def word_le_nat_alt)
  ultimately have ids: "map (\<lambda>e. unat (ev_id e)) (take limit ?after) = [Suc ?c ..< Suc ?c + ?n]"
    by (simp del: upt_Suc)
  have cursor: "unat (cur_event_id (er_cursor r)) = ?c + ?n"
  proof (cases "take limit ?after = []")
    case True
    then have "?n = 0" by auto
    then show ?thesis using True r(2) by simp
  next
    case False
    then have "unat (ev_id (last (take limit ?after))) = last [Suc ?c ..< Suc ?c + ?n]"
      using ids by (metis (no_types, lifting) last_map)
    moreover have "0 < length ?after" "0 < limit" using False by auto
    then obtain m where "?n = Suc m" by (cases ?n) (simp_all add: min_def split: if_splits)
    ultimately show ?thesis using False r(2) by simp
  qed
  then show "map (\<lambda>e. unat (ev_id e)) (er_events r) = [Suc ?c ..< Suc (unat (cur_event_id (er_cursor r)))]"
    using ids r(1) by simp
  show "cur_event_id c \<le> cur_event_id (er_cursor r)"
    using cursor by (simp add: word_le_nat_alt)
qed

lemma read_after_expired_iff:
  assumes ok: "log_ok es"
  shows "read_after c limit w expired stopping es = PollError cursor_expired \<longleftrightarrow> \<not> cursor_valid es c"
proof (cases "cursor_valid es c")
  case True
  have "daemon_stopping \<noteq> cursor_expired"
    by (simp add: daemon_stopping_def cursor_expired_def de_lifecycle_def)
  then show ?thesis unfolding read_after_valid [OF ok True] using True by (simp add: Let_def)
next
  case False
  then show ?thesis using read_after_invalid [OF ok] by simp
qed

section \<open>A run\<close>

definition ev_demo_clock :: "u64 \<Rightarrow> u64" where
  "ev_demo_clock i = i"

definition ev_demo_stream :: event_stream where
  "ev_demo_stream = new_stream ''stream''"

abbreviation ev_demo_output :: "u64 \<Rightarrow> daemon_event_kind" where
  "ev_demo_output n \<equiv> EvOutputChanged ''w'' ''s'' ''r'' n"

abbreviation ev_demo_log :: "nat \<Rightarrow> daemon_event list \<Rightarrow> event_stream_state" where
  "ev_demo_log n es \<equiv> \<lparr>es_stream_id = ''stream'', es_latest_id = of_nat n, es_events = es\<rparr>"

abbreviation ev_demo_waiting :: "daemon_event_kind list \<Rightarrow> nat option \<Rightarrow> transition_state" where
  "ev_demo_waiting runtime flight \<equiv>
     \<lparr>ts_pending_durable_events = [], ts_persistence_in_flight = flight \<noteq> None,
      ts_in_flight_event_count = (case flight of None \<Rightarrow> 0 | Some n \<Rightarrow> n),
      ts_lifecycle_event_reservation = 0, ts_pending_runtime_events = runtime\<rparr>"

abbreviation ev_demo_system ::
    "event_stream_state \<Rightarrow> transition_state \<Rightarrow> mutation_holder option \<Rightarrow> writer_job option \<Rightarrow> event_system" where
  "ev_demo_system es ts m job \<equiv>
     \<lparr>sys_stream = \<lparr>sm_state = es, sm_transitions = ts\<rparr>, sys_mutation = m, sys_writer = job,
      sys_dirty = False, sys_revision = 0, sys_captured = 0\<rparr>"

abbreviation ev_demo_first :: daemon_event where
  "ev_demo_first \<equiv> \<lparr>ev_id = 1, ev_at_ms = 1, ev_kind = EvHandoffCompleted\<rparr>"

text \<open>
  An event is published; a mutation flushes, starts to write, output arrives twice meanwhile, and
  the write succeeds.
\<close>

definition ev_demo_actions :: "event_action list" where
  "ev_demo_actions =
     [Publish [EvHandoffCompleted], MutationLock, FlushBegin True, MutationBegin [EvWorkspaceClosed ''w''],
      Publish [ev_demo_output 1], Publish [ev_demo_output 2]]"

definition ev_demo_end :: event_system where
  "ev_demo_end = ev_demo_system (ev_demo_log 1 [ev_demo_first]) (ev_demo_waiting [ev_demo_output 2] (Some 1))
     (Some (Mutating True)) (Some (WriteMutation [EvWorkspaceClosed ''w'']))"

definition ev_demo_final :: event_system where
  "ev_demo_final = ev_demo_system
     (ev_demo_log 3 [ev_demo_first, \<lparr>ev_id = 2, ev_at_ms = 2, ev_kind = EvWorkspaceClosed ''w''\<rparr>,
        \<lparr>ev_id = 3, ev_at_ms = 3, ev_kind = ev_demo_output 2\<rparr>])
     (ev_demo_waiting [] None) None None"

lemmas ev_demo_stream_eval =
  stream_publish_def publish_runtime_batch_def ensure_capacity_def reserved_event_count_def
  usize_saturating_add_def usize_max_def u64_checked_add_def publication_blocked_def tx_append_batch_def
  append_batch_locked_def append_one_def retain_latest_def max_retained_events_def ev_demo_clock_def
  queue_runtime_event_def queue_event_def supersedes_def remove_at_def on_transitions_def
  or_else_def flush_begin_def pending_durable_batch_count_def mutation_begin_def reserve_with_pending_def
  tx_reserve_def start_write_def begin_persistence_def mutation_commit_def finish_persistence_def
  publish_pending_runtime_def written_def

lemmas ev_demo_memory_eval =
  in_memory_def owed_event_count_def waiting_events_def held_events_def

lemma ev_demo_start: "initial_system ev_demo_stream False
    = ev_demo_system (ev_demo_log 0 []) (ev_demo_waiting [] None) None None"
  by (simp add: initial_system_def ev_demo_stream_def new_stream_def empty_transition_state_def)

lemma ev_demo_stream_starts: "stream_starts ev_demo_stream"
  by (simp add: stream_starts_def ev_demo_stream_def new_stream_def log_ok_empty)

lemma ev_demo_run:
  "event_run ev_demo_clock (initial_system ev_demo_stream False) ev_demo_actions
     [EvHandoffCompleted, ev_demo_output 1, ev_demo_output 2] ev_demo_end"
proof -
  let ?s0 = "initial_system ev_demo_stream False"
  let ?one = "ev_demo_log 1 [ev_demo_first]"
  let ?s1 = "ev_demo_system ?one (ev_demo_waiting [] None) None None"
  let ?s2 = "ev_demo_system ?one (ev_demo_waiting [] None) (Some (Mutating False)) None"
  let ?s3 = "ev_demo_system ?one (ev_demo_waiting [] None) (Some (Mutating True)) None"
  let ?job = "WriteMutation [EvWorkspaceClosed ''w'']"
  let ?s4 = "ev_demo_system ?one (ev_demo_waiting [] (Some 1)) (Some (Mutating True)) (Some ?job)"
  let ?s5 = "ev_demo_system ?one (ev_demo_waiting [ev_demo_output 1] (Some 1)) (Some (Mutating True)) (Some ?job)"
  note start = event_run.start [of ev_demo_clock ?s0]
  have "event_step ev_demo_clock ?s0 (Publish [EvHandoffCompleted])
      (stream_publish ev_demo_clock [EvHandoffCompleted] ?s0)" by (rule event_step.publish)
  moreover have "stream_publish ev_demo_clock [EvHandoffCompleted] ?s0 = ?s1"
    by (simp add: ev_demo_start ev_demo_stream_eval)
  ultimately have "event_step ev_demo_clock ?s0 (Publish [EvHandoffCompleted]) ?s1" by simp
  from event_run.more [OF start this]
  have r1: "event_run ev_demo_clock ?s0 [Publish [EvHandoffCompleted]] [EvHandoffCompleted] ?s1"
    by (simp add: ev_demo_memory_eval ev_demo_stream_eval ev_demo_start)
  have "event_step ev_demo_clock ?s1 MutationLock (?s1\<lparr>sys_mutation := Some (Mutating False)\<rparr>)"
    by (rule event_step.mutation_lock) simp
  from event_run.more [OF r1 this]
  have r2: "event_run ev_demo_clock ?s0 [Publish [EvHandoffCompleted], MutationLock] [EvHandoffCompleted] ?s2"
    by (simp add: ev_demo_memory_eval)
  have "event_step ev_demo_clock ?s2 (FlushBegin True) (or_else ?s2 (flush_begin True ?s2))"
    by (rule event_step.flush_begin) simp_all
  from event_run.more [OF r2 this]
  have r3: "event_run ev_demo_clock ?s0 [Publish [EvHandoffCompleted], MutationLock, FlushBegin True]
      [EvHandoffCompleted] ?s3"
    by (simp add: ev_demo_memory_eval ev_demo_stream_eval)
  have "event_step ev_demo_clock ?s3 (MutationBegin [EvWorkspaceClosed ''w''])
      (or_else ?s3 (mutation_begin [EvWorkspaceClosed ''w''] ?s3))"
    by (rule event_step.mutation_begin) simp_all
  from event_run.more [OF r3 this]
  have r4: "event_run ev_demo_clock ?s0 [Publish [EvHandoffCompleted], MutationLock, FlushBegin True,
      MutationBegin [EvWorkspaceClosed ''w'']] [EvHandoffCompleted] ?s4"
    by (simp add: ev_demo_memory_eval ev_demo_stream_eval)
  have "event_step ev_demo_clock ?s4 (Publish [ev_demo_output 1]) (stream_publish ev_demo_clock [ev_demo_output 1] ?s4)"
    by (rule event_step.publish)
  from event_run.more [OF r4 this]
  have r5: "event_run ev_demo_clock ?s0 [Publish [EvHandoffCompleted], MutationLock, FlushBegin True,
      MutationBegin [EvWorkspaceClosed ''w''], Publish [ev_demo_output 1]]
      [EvHandoffCompleted, ev_demo_output 1] ?s5"
    by (simp add: ev_demo_memory_eval ev_demo_stream_eval)
  have "event_step ev_demo_clock ?s5 (Publish [ev_demo_output 2]) (stream_publish ev_demo_clock [ev_demo_output 2] ?s5)"
    by (rule event_step.publish)
  from event_run.more [OF r5 this]
  show ?thesis
    by (simp add: ev_demo_memory_eval ev_demo_stream_eval ev_demo_actions_def ev_demo_end_def)
qed

lemma ev_demo_commit: "event_step ev_demo_clock ev_demo_end MutationCommit ev_demo_final"
proof -
  have "event_step ev_demo_clock ev_demo_end MutationCommit
      (mutation_commit ev_demo_clock [EvWorkspaceClosed ''w''] ev_demo_end)"
    by (rule event_step.mutation_commit) (simp add: ev_demo_end_def)
  then show ?thesis by (simp add: ev_demo_end_def ev_demo_final_def ev_demo_stream_eval)
qed

lemma ev_demo_run_committed:
  "event_run ev_demo_clock (initial_system ev_demo_stream False) (ev_demo_actions @ [MutationCommit])
     [EvHandoffCompleted, ev_demo_output 1, ev_demo_output 2, EvWorkspaceClosed ''w''] ev_demo_final"
  using event_run.more [OF ev_demo_run ev_demo_commit]
  by (simp add: ev_demo_memory_eval ev_demo_end_def ev_demo_final_def)

section \<open>Properties\<close>

text \<open>
  C31. In every state that the daemon reaches: the retained events are at most 8,192 and have
  the consecutive ids that end at the latest one; there is a 64-bit id left for every event that
  waits, is being written or has room reserved, so \<open>latest_id += 1\<close> never overflows; nothing
  waits to be published unless something blocks it; and the second check of a flush, after the
  file was written, does not fail.
\<close>

theorem event_run_invariant:
  assumes "stream_starts sm" and "event_run clock (initial_system sm dirty) as acc s"
  shows "length (es_events (sm_state (sys_stream s))) \<le> 8192
    \<and> map (\<lambda>e. unat (ev_id e)) (es_events (sm_state (sys_stream s)))
        = [Suc (unat (es_latest_id (sm_state (sys_stream s))))
             - length (es_events (sm_state (sys_stream s)))
           ..< Suc (unat (es_latest_id (sm_state (sys_stream s))))]
    \<and> unat (es_latest_id (sm_state (sys_stream s))) + owed_event_count s < 2 ^ 64
    \<and> (ts_pending_runtime_events (sm_transitions (sys_stream s)) \<noteq> []
        \<longrightarrow> publication_blocked (sm_transitions (sys_stream s)))
    \<and> (\<forall>own pending. sys_writer s = Some (WriteFlush own pending)
        \<longrightarrow> \<not> isl (fst (flush_commit clock own pending s)))"
proof -
  have ok: "event_ok s" and mem: "in_memory s"
    using event_run_ok [OF assms(2)] initial_ok [OF assms(1)] by blast+
  have room: "has_room (length (held_events s) + holder_reservation s) (sys_stream s)"
      "ts_lifecycle_event_reservation (sm_transitions (sys_stream s)) = holder_reservation s"
    using event_ok_parts [OF ok] by blast+
  have "log_ok (sm_state (sys_stream s))" using room(1) by (simp add: has_room_def)
  moreover have "unat (es_latest_id (sm_state (sys_stream s))) + owed_event_count s < 2 ^ 64"
    using room by (simp add: has_room_def owed_event_count_def waiting_events_def pending_events_def)
  moreover have "ts_pending_runtime_events (sm_transitions (sys_stream s)) \<noteq> []
        \<longrightarrow> publication_blocked (sm_transitions (sys_stream s))"
    using ok by (simp add: event_ok_def)
  moreover have "\<forall>own pending. sys_writer s = Some (WriteFlush own pending)
        \<longrightarrow> \<not> isl (fst (flush_commit clock own pending s))"
    using flush_commit_ok(2) [OF ok mem] by simp
  ultimately show ?thesis unfolding log_ok_def max_retained_events_def by blast
qed

theorem event_run_invariant_witness:
  "unat (es_latest_id (sm_state (sys_stream ev_demo_final))) + owed_event_count ev_demo_final < 2 ^ 64
   \<and> length (es_events (sm_state (sys_stream ev_demo_final))) \<le> 8192"
  using event_run_invariant [OF ev_demo_stream_starts ev_demo_run_committed] by blast

text \<open>
  C32. No lasting event is lost or published twice: after any run, the lasting events that were
  accepted are those that were published and those that still wait; and when a mutation holds
  its lock after the flush, as when a client reads a snapshot with its cursor or another process
  takes over, none waits.
\<close>

theorem event_conservation:
  assumes "stream_starts sm" and "event_run clock (initial_system sm dirty) as acc s"
  shows "\<exists>new. published clock new (sm_state sm) (sm_state (sys_stream s))
    \<and> mset (filter lasting (new @ outstanding s)) = mset (filter lasting acc)
    \<and> (sys_mutation s = Some (Mutating True) \<and> sys_writer s = None \<longrightarrow> outstanding s = [])"
proof -
  note init = initial_ok [OF assms(1), of dirty]
  have ok: "event_ok s" using event_run_ok [OF assms(2)] init by blast
  have "outstanding (initial_system sm dirty) = []"
    using assms(1)
    by (simp add: outstanding_def carried_def initial_system_def pending_events_def stream_starts_def
        empty_transition_state_def)
  note none = this
  have stream: "sys_stream (initial_system sm dirty) = sm" by (simp add: initial_system_def)
  have "conserves clock acc (initial_system sm dirty) s"
    using event_run_conserves [OF assms(2)] init by blast
  then obtain new where new: "published clock new (sm_state (sys_stream (initial_system sm dirty)))
        (sm_state (sys_stream s))"
      "mset (filter lasting (new @ outstanding s))
        = mset (filter lasting (outstanding (initial_system sm dirty) @ acc))"
    unfolding conserves_def by blast
  show ?thesis
  proof (intro exI [of _ new] conjI impI)
    show "published clock new (sm_state sm) (sm_state (sys_stream s))"
      using new(1) by (simp only: stream)
    show "mset (filter lasting (new @ outstanding s)) = mset (filter lasting acc)"
      using new(2) by (simp only: none append_Nil)
    show "outstanding s = []" if "sys_mutation s = Some (Mutating True) \<and> sys_writer s = None"
      using flushed_outstanding [OF ok] that by simp
  qed
qed

theorem event_conservation_witness:
  "\<exists>new. published ev_demo_clock new (sm_state ev_demo_stream) (sm_state (sys_stream ev_demo_end))
    \<and> mset (filter lasting (new @ outstanding ev_demo_end))
      = mset (filter lasting [EvHandoffCompleted, ev_demo_output 1, ev_demo_output 2])"
  using event_conservation [OF ev_demo_stream_starts ev_demo_run] by blast

text \<open>
  C33. A reader that continues from the cursor of its last answer gets every event once and in
  order, whatever was published in between: the ids of the two answers run from the first
  cursor to the last without a gap. When events it has not seen were dropped it is told that its
  cursor expired, and in no other case while its stream is the same and its cursor is not ahead.
\<close>

theorem event_reader_no_gap:
  assumes "stream_starts sm" and first: "event_run clock (initial_system sm dirty) as acc s"
    and more: "event_run clock s as' acc' s'"
    and read: "read_after c limit w x st (sm_state (sys_stream s)) = PollReady r"
    and read': "read_after (er_cursor r) limit' w' x' st' (sm_state (sys_stream s')) = PollReady r'"
  shows "map (\<lambda>e. unat (ev_id e)) (er_events r @ er_events r')
      = [Suc (unat (cur_event_id c)) ..< Suc (unat (cur_event_id (er_cursor r')))]
    \<and> (\<forall>d l v y z. read_after d l v y z (sm_state (sys_stream s')) = PollError cursor_expired
        \<longleftrightarrow> cur_stream_id d \<noteq> es_stream_id (sm_state (sys_stream s'))
            \<or> es_latest_id (sm_state (sys_stream s')) < cur_event_id d
            \<or> unat (cur_event_id d) + length (es_events (sm_state (sys_stream s')))
                < unat (es_latest_id (sm_state (sys_stream s'))))"
proof -
  note init = initial_ok [OF assms(1), of dirty]
  have "event_ok s" "in_memory s" using event_run_ok [OF first] init by blast+
  moreover from this have "event_ok s'" using event_run_ok [OF more] by blast
  ultimately have ok: "log_ok (sm_state (sys_stream s))" "log_ok (sm_state (sys_stream s'))"
    by (simp_all add: event_ok_def has_room_def)
  note page = read_after_ready [OF ok(1) read] and page' = read_after_ready [OF ok(2) read']
  let ?a = "unat (cur_event_id c)" and ?b = "unat (cur_event_id (er_cursor r))"
    and ?d = "unat (cur_event_id (er_cursor r'))"
  have "?a \<le> ?b" "?b \<le> ?d" using page(3) page'(3) by (simp_all add: word_le_nat_alt)
  then have "[Suc ?a ..< Suc ?b] @ [Suc ?b ..< Suc ?d] = [Suc ?a ..< Suc ?d]"
    using upt_add_eq_append [of "Suc ?a" "Suc ?b" "?d - ?b"] by (simp del: upt_Suc)
  then have "map (\<lambda>e. unat (ev_id e)) (er_events r @ er_events r') = [Suc ?a ..< Suc ?d]"
    using page(2) page'(2) by (simp del: upt_Suc)
  moreover have "read_after d l v y z (sm_state (sys_stream s')) = PollError cursor_expired
        \<longleftrightarrow> cur_stream_id d \<noteq> es_stream_id (sm_state (sys_stream s'))
            \<or> es_latest_id (sm_state (sys_stream s')) < cur_event_id d
            \<or> unat (cur_event_id d) + length (es_events (sm_state (sys_stream s')))
                < unat (es_latest_id (sm_state (sys_stream s')))" for d l v y z
    using ok(2) unfolding read_after_expired_iff [OF ok(2)] cursor_valid_def log_ok_def by auto
  ultimately show ?thesis by blast
qed

definition ev_demo_cursor :: event_cursor where
  "ev_demo_cursor = \<lparr>cur_stream_id = ''stream'', cur_event_id = 0\<rparr>"

definition ev_demo_page :: events_response where
  "ev_demo_page = \<lparr>er_stream_id = ''stream'', er_cursor = \<lparr>cur_stream_id = ''stream'', cur_event_id = 1\<rparr>,
     er_snapshot = None, er_events = [ev_demo_first]\<rparr>"

definition ev_demo_next_page :: events_response where
  "ev_demo_next_page =
     \<lparr>er_stream_id = ''stream'', er_cursor = \<lparr>cur_stream_id = ''stream'', cur_event_id = 2\<rparr>,
      er_snapshot = None, er_events = [\<lparr>ev_id = 2, ev_at_ms = 2, ev_kind = EvWorkspaceClosed ''w''\<rparr>]\<rparr>"

lemmas ev_demo_read_eval =
  read_after_def Let_def earliest_cursor_def u64_saturating_sub_def ev_demo_cursor_def ev_demo_page_def
  ev_demo_next_page_def ev_demo_end_def ev_demo_final_def

lemma ev_demo_reads:
  "read_after ev_demo_cursor 1 0 True False (sm_state (sys_stream ev_demo_end)) = PollReady ev_demo_page"
  "read_after (er_cursor ev_demo_page) 1 0 True False (sm_state (sys_stream ev_demo_final)) = PollReady ev_demo_next_page"
  by (simp_all add: ev_demo_read_eval)

lemma ev_demo_run_end:
  "event_run ev_demo_clock ev_demo_end [MutationCommit] [EvWorkspaceClosed ''w''] ev_demo_final"
  using event_run.more [OF event_run.start ev_demo_commit]
  by (simp add: ev_demo_memory_eval ev_demo_end_def ev_demo_final_def)

theorem event_reader_no_gap_witness:
  "map (\<lambda>e. unat (ev_id e)) (er_events ev_demo_page @ er_events ev_demo_next_page)
    = [Suc (unat (cur_event_id ev_demo_cursor)) ..< Suc (unat (cur_event_id (er_cursor ev_demo_next_page)))]"
  using event_reader_no_gap [OF ev_demo_stream_starts ev_demo_run ev_demo_run_end ev_demo_reads] by blast

text \<open>
  Runtime events that wait are coalesced: queueing any sequence into an empty queue leaves
  exactly its \<open>coalesce\<close>d form, the last event of every group whose events replace each other and
  all the others, in order.
\<close>

theorem runtime_queue_coalesces:
  "ts_pending_runtime_events (fold queue_runtime_event kinds (ts\<lparr>ts_pending_runtime_events := []\<rparr>))
      = coalesce kinds
   \<and> filter lasting (coalesce kinds) = filter lasting kinds
   \<and> sorted_wrt (\<lambda>e e'. \<not> supersedes e' e) (coalesce kinds)"
  using queue_coalesce [of kinds "[]"] by (simp add: runtime_fold lasting_coalesce sorted_coalesce)

text \<open>
  C34. What a coordinator gets of a Node's past: the transitions after its cursor, one for each
  event that changes the projection and in their order, exactly when the stream still has every
  event after the cursor and they are at most 256; otherwise a baseline without transitions.
\<close>

theorem projection_sync_resumes:
  assumes "stream_starts sm" and "event_run clock (initial_system sm dirty) as acc s"
  shows "projection_transitions (sm_state (sys_stream s)) after (stream_cursor (sys_stream s)) =
    (case after of
       None \<Rightarrow> (SyncBaseline, [])
     | Some c \<Rightarrow>
         if cursor_valid (sm_state (sys_stream s)) c
            \<and> unat (es_latest_id (sm_state (sys_stream s))) - unat (cur_event_id c) \<le> 256
         then (SyncResumed, List.map_filter reduce_projection_transition
                 (events_after (cur_event_id c) (es_events (sm_state (sys_stream s)))))
         else (SyncBaseline, []))"
proof (cases after)
  case None
  then show ?thesis by (simp add: projection_transitions_def)
next
  case (Some c)
  let ?es = "sm_state (sys_stream s)"
  have "event_ok s" using event_run_ok [OF assms(2)] initial_ok [OF assms(1)] by blast
  then have ok: "log_ok ?es" by (simp add: event_ok_def has_room_def)
  show ?thesis
  proof (cases "cursor_valid ?es c")
    case False
    then show ?thesis
      using Some cursor_valid_iff [OF ok]
      by (auto simp: projection_transitions_def stream_cursor_def Let_def)
  next
    case True
    then have bounds: "\<not> (cur_stream_id c \<noteq> es_stream_id ?es \<or> cur_event_id c < earliest_cursor ?es
        \<or> cur_event_id c > es_latest_id ?es)"
      using cursor_valid_iff [OF ok] by blast
    then have count: "unat (u64_saturating_sub (es_latest_id ?es) (cur_event_id c))
        = unat (es_latest_id ?es) - unat (cur_event_id c)"
      by (simp add: u64_saturating_sub_def unat_sub not_less)
    have "take (unat (es_latest_id ?es) - unat (cur_event_id c))
        (events_after (cur_event_id c) (es_events ?es)) = events_after (cur_event_id c) (es_events ?es)"
      using length_events_after [OF ok True] by simp
    moreover have "u64_saturating_sub (es_latest_id ?es) (cur_event_id c) > ucast max_node_projection_transitions
        \<longleftrightarrow> \<not> unat (es_latest_id ?es) - unat (cur_event_id c) \<le> 256"
      by (simp add: word_less_nat_alt count max_node_projection_transitions_def not_le)
    moreover have "drop (unat (u64_saturating_sub (cur_event_id c) (earliest_cursor ?es))) (es_events ?es)
        = events_after (cur_event_id c) (es_events ?es)"
      by (rule drop_events_after [OF ok]) (use bounds in \<open>simp add: not_less\<close>)
    ultimately show ?thesis
      using Some True bounds count
      by (simp add: projection_transitions_def stream_cursor_def Let_def)
  qed
qed

theorem projection_sync_resumes_witness:
  "projection_transitions (sm_state (sys_stream ev_demo_final)) (Some ev_demo_cursor)
      (stream_cursor (sys_stream ev_demo_final))
    = (SyncResumed,
       [\<lparr>tr_event_id = 1, tr_at_ms = 1, tr_kind = TrHandoffCompleted\<rparr>,
        \<lparr>tr_event_id = 2, tr_at_ms = 2, tr_kind = TrWorkspace ''w''\<rparr>,
        \<lparr>tr_event_id = 3, tr_at_ms = 3, tr_kind = TrShell ''w'' ''s''\<rparr>])"
  unfolding projection_sync_resumes [OF ev_demo_stream_starts ev_demo_run_committed]
  by (simp add: ev_demo_final_def ev_demo_cursor_def cursor_valid_def events_after_def map_filter_simps
      reduce_projection_transition_def)

end
