(* ===== verification/Persistence_Generation.thy ===== *)
theory Persistence_Generation
  imports Prelude
begin

text \<open>
  The dirty flag of the durable state, \<open>src/src/daemon.rs\<close>: \<open>mark_persistence_dirty\<close>,
  \<open>capture_persisted_state\<close>, \<open>write_persisted_state\<close> and \<open>checkpoint_terminal_history\<close>, with every
  access to the two atomics (\<open>persistence_revision\<close>, \<open>persistence_dirty\<close>) a step of its own.

  A writer holds the persistence lock. It clones the state, one Shell after the other under that
  Shell's lock, then loads the revision, writes, compares the revision and clears the flag. The
  reader of a terminal holds neither that lock nor the mutation lock: under its Shell's lock it
  replaces the history, counts the revision up and sets the flag. The content stands for that
  Shell's saved run, so cloning it and changing it exclude each other.
\<close>

datatype 'c write_phase =
    WriterIdle
  | WriterCloned 'c
  | WriterCaptured 'c u64
  | WriterSaved u64
  | WriterMatched

datatype mark_phase = MarkIdle | MarkChanged | MarkCounted

record 'c generation_state =
  pg_content :: 'c
  pg_disk :: 'c
  pg_dirty :: bool
  pg_revision :: u64
  pg_writer :: "'c write_phase"
  pg_marker :: mark_phase

datatype 'c generation_action =
    CheckpointHistory 'c
  | CountRevision
  | SetDirty
  | CloneState
  | LoadRevision
  | SaveState bool
  | CompareRevision
  | ClearDirty

fun generation_step :: "'c generation_action \<Rightarrow> 'c generation_state \<Rightarrow> 'c generation_state option" where
  "generation_step (CheckpointHistory c) s =
     (if pg_marker s = MarkIdle
      then (if c = pg_content s then Some s else Some (s\<lparr>pg_content := c, pg_marker := MarkChanged\<rparr>))
      else None)"
| "generation_step CountRevision s =
     (if pg_marker s = MarkChanged
      then Some (s\<lparr>pg_revision := pg_revision s + 1, pg_marker := MarkCounted\<rparr>) else None)"
| "generation_step SetDirty s =
     (if pg_marker s = MarkCounted then Some (s\<lparr>pg_dirty := True, pg_marker := MarkIdle\<rparr>) else None)"
| "generation_step CloneState s =
     (case pg_writer s of
        WriterIdle \<Rightarrow> if pg_marker s = MarkIdle
                     then Some (s\<lparr>pg_writer := WriterCloned (pg_content s)\<rparr>) else None
      | _ \<Rightarrow> None)"
| "generation_step LoadRevision s =
     (case pg_writer s of
        WriterCloned c \<Rightarrow> Some (s\<lparr>pg_writer := WriterCaptured c (pg_revision s)\<rparr>) | _ \<Rightarrow> None)"
| "generation_step (SaveState ok) s =
     (case pg_writer s of
        WriterCaptured c revision \<Rightarrow>
          Some (if ok then s\<lparr>pg_disk := c, pg_writer := WriterSaved revision\<rparr>
                else s\<lparr>pg_dirty := True, pg_writer := WriterIdle\<rparr>)
      | _ \<Rightarrow> None)"
| "generation_step CompareRevision s =
     (case pg_writer s of
        WriterSaved revision \<Rightarrow>
          Some (s\<lparr>pg_writer := (if pg_revision s = revision then WriterMatched else WriterIdle)\<rparr>)
      | _ \<Rightarrow> None)"
| "generation_step ClearDirty s =
     (case pg_writer s of
        WriterMatched \<Rightarrow> Some (s\<lparr>pg_dirty := False, pg_writer := WriterIdle\<rparr>) | _ \<Rightarrow> None)"

fun generation_run :: "'c generation_action list \<Rightarrow> 'c generation_state \<Rightarrow> 'c generation_state option" where
  "generation_run [] s = Some s"
| "generation_run (a # as) s =
     (case generation_step a s of None \<Rightarrow> None | Some s' \<Rightarrow> generation_run as s')"

definition generation_saved :: "'c \<Rightarrow> u64 \<Rightarrow> 'c generation_state" where
  "generation_saved c revision =
     \<lparr>pg_content = c, pg_disk = c, pg_dirty = False, pg_revision = revision, pg_writer = WriterIdle,
      pg_marker = MarkIdle\<rparr>"

definition generation_idle :: "'c generation_state \<Rightarrow> bool" where
  "generation_idle s \<longleftrightarrow> pg_writer s = WriterIdle \<and> pg_marker s = MarkIdle"

text \<open>
  As long as no checkpoint starts while a state is being written, a clean flag means that the
  file has the content.
\<close>

fun starts_checkpoint :: "'c generation_action \<Rightarrow> bool" where
  "starts_checkpoint (CheckpointHistory _) = True"
| "starts_checkpoint _ = False"

fun run_serialised :: "'c generation_action list \<Rightarrow> 'c generation_state \<Rightarrow> bool" where
  "run_serialised [] s = True"
| "run_serialised (a # as) s =
     ((starts_checkpoint a \<longrightarrow> pg_writer s = WriterIdle)
      \<and> (case generation_step a s of None \<Rightarrow> True | Some s' \<Rightarrow> run_serialised as s'))"

definition generation_ok :: "'c generation_state \<Rightarrow> bool" where
  "generation_ok s \<longleftrightarrow>
     (pg_marker s = MarkIdle \<longrightarrow> pg_dirty s \<or> pg_disk s = pg_content s)
     \<and> (case pg_writer s of
          WriterIdle \<Rightarrow> True
        | WriterCloned c \<Rightarrow> c = pg_content s \<and> pg_marker s = MarkIdle
        | WriterCaptured c _ \<Rightarrow> c = pg_content s \<and> pg_marker s = MarkIdle
        | WriterSaved _ \<Rightarrow> pg_disk s = pg_content s \<and> pg_marker s = MarkIdle
        | WriterMatched \<Rightarrow> pg_disk s = pg_content s \<and> pg_marker s = MarkIdle)"

lemma generation_step_ok:
  assumes "generation_ok s" and "generation_step a s = Some s'"
    and "starts_checkpoint a \<longrightarrow> pg_writer s = WriterIdle"
  shows "generation_ok s'"
  using assms
  by (cases a) (auto simp: generation_ok_def split: write_phase.splits if_splits)

lemma generation_run_ok:
  "generation_ok s \<Longrightarrow> run_serialised as s \<Longrightarrow> generation_run as s = Some s' \<Longrightarrow> generation_ok s'"
proof (induction as arbitrary: s)
  case Nil
  then show ?case by simp
next
  case (Cons a as)
  obtain s1 where step: "generation_step a s = Some s1" and "generation_run as s1 = Some s'"
    using Cons.prems(3) by (auto split: option.splits)
  moreover have "generation_ok s1"
    using generation_step_ok [OF Cons.prems(1) step] Cons.prems(2) by simp
  ultimately show ?case using Cons.IH Cons.prems(2) step by simp
qed

text \<open>
  C35. The dirty flag can be lost. From a saved state there is an interleaving after which nobody
  is at work, the flag is clear and the file lacks the last change: the state is cloned before
  the revision is loaded, so a history replaced in between is not in the file although its
  revision is the captured one. Without a change during a write a clear flag is trustworthy.
\<close>

theorem dirty_flag_lost:
  assumes "new \<noteq> (old :: 'c)"
  shows "(\<exists>as s. generation_run as (generation_saved old revision) = Some s \<and> generation_idle s
            \<and> pg_content s = new \<and> \<not> pg_dirty s \<and> pg_disk s = old)
    \<and> (\<forall>as s. run_serialised as (generation_saved old revision)
            \<and> generation_run as (generation_saved old revision) = Some s \<and> generation_idle s
            \<and> \<not> pg_dirty s \<longrightarrow> pg_disk s = pg_content s)"
proof (intro conjI allI impI)
  let ?as = "[CloneState, CheckpointHistory new, CountRevision, SetDirty, LoadRevision, SaveState True,
      CompareRevision, ClearDirty]"
  have "generation_run ?as (generation_saved old revision) =
      Some (generation_saved old (revision + 1)\<lparr>pg_content := new\<rparr>)"
    using assms by (simp add: generation_saved_def)
  then show "\<exists>as s. generation_run as (generation_saved old revision) = Some s \<and> generation_idle s
            \<and> pg_content s = new \<and> \<not> pg_dirty s \<and> pg_disk s = old"
    by (intro exI conjI, assumption) (simp_all add: generation_saved_def generation_idle_def)
next
  fix as :: "'c generation_action list" and s
  assume run: "run_serialised as (generation_saved old revision)
      \<and> generation_run as (generation_saved old revision) = Some s \<and> generation_idle s \<and> \<not> pg_dirty s"
  have "generation_ok (generation_saved old revision)"
    by (simp add: generation_ok_def generation_saved_def)
  then have "generation_ok s" using generation_run_ok run by blast
  then show "pg_disk s = pg_content s" using run by (simp add: generation_ok_def generation_idle_def)
qed

theorem dirty_flag_lost_witness:
  "\<exists>as s. generation_run as (generation_saved ''before'' 7) = Some s \<and> generation_idle s
      \<and> pg_content s = ''after'' \<and> \<not> pg_dirty s \<and> pg_disk s = ''before''"
  using dirty_flag_lost [of "''after''" "''before''" 7] by simp

end
