(* ===== verification/Sorted_Map.thy ===== *)
theory Sorted_Map
  imports Prelude
begin

text \<open>
  Maps by key as association lists in the order of their keys: \<open>HashMap\<close>s of the code, whose
  iteration order nothing depends on, and \<open>BTreeMap\<close>s. Two maps with the same entries are the
  same list, so undoing an operation can be stated as an equation. The locale \<open>keyed_map\<close> is what
  the components use of it.
\<close>

type_synonym ('k, 'v) smap = "('k \<times> 'v) list"

abbreviation get :: "('k, 'v) smap \<Rightarrow> 'k \<Rightarrow> 'v option" where
  "get \<equiv> map_of"

fun put :: "'k::linorder \<Rightarrow> 'v \<Rightarrow> ('k, 'v) smap \<Rightarrow> ('k, 'v) smap" where
  "put k v [] = [(k, v)]"
| "put k v ((k', v') # m) =
     (if k < k' then (k, v) # (k', v') # m
      else if k = k' then (k, v) # m
      else (k', v') # put k v m)"

fun del :: "'k::linorder \<Rightarrow> ('k, 'v) smap \<Rightarrow> ('k, 'v) smap" where
  "del k [] = []"
| "del k ((k', v') # m) = (if k = k' then m else (k', v') # del k m)"

text \<open>Every entry changed in place: \<open>get_mut\<close> on an object that the map shares.\<close>

definition alter :: "'k::linorder \<Rightarrow> ('v \<Rightarrow> 'v) \<Rightarrow> ('k, 'v) smap \<Rightarrow> ('k, 'v) smap" where
  "alter k f m = (case get m k of None \<Rightarrow> m | Some v \<Rightarrow> put k (f v) m)"

abbreviation objects :: "('k, 'v) smap \<Rightarrow> 'v list" where
  "objects m \<equiv> map snd m"

definition smap_ok :: "('k::linorder, 'v) smap \<Rightarrow> bool" where
  "smap_ok m \<longleftrightarrow> sorted_wrt (<) (map fst m)"

lemma smap_ok_Nil [simp]: "smap_ok []"
  by (simp add: smap_ok_def)

lemma smap_ok_Cons [simp]: "smap_ok ((k, v) # m) \<longleftrightarrow> (\<forall>k' \<in> fst ` set m. k < k') \<and> smap_ok m"
  by (simp add: smap_ok_def)

lemma fst_put: "fst ` set (put k v m) = insert k (fst ` set m)"
  by (induction k v m rule: put.induct) auto

lemma fst_del: "fst ` set (del k m) \<subseteq> fst ` set m"
  by (induction k m rule: del.induct) auto

lemma smap_ok_put [simp, intro]: "smap_ok m \<Longrightarrow> smap_ok (put k v m)"
  by (induction k v m rule: put.induct) (auto simp: fst_put)

lemma smap_ok_del [simp, intro]: "smap_ok m \<Longrightarrow> smap_ok (del k m)"
  by (induction k m rule: del.induct) (use fst_del in fastforce)+

lemma get_above: "\<forall>k' \<in> fst ` set m. k < k' \<Longrightarrow> get m (k :: 'k::linorder) = None"
  by (induction m) auto

lemma get_Some_fst: "get m k = Some v \<Longrightarrow> k \<in> fst ` set m"
  by (induction m) (auto split: if_splits)

lemma get_put: "smap_ok m \<Longrightarrow> get (put k v m) = (get m)(k \<mapsto> v)"
  by (induction k v m rule: put.induct) auto

lemma get_del: "smap_ok m \<Longrightarrow> get (del k m) = (get m)(k := None)"
proof (induction k m rule: del.induct)
  case (1 k)
  then show ?case by auto
next
  case (2 k k' v m)
  then show ?case using get_above [of m k'] by auto
qed

lemma smap_sorted: "smap_ok m \<Longrightarrow> sorted (map fst m) \<and> distinct (map fst m)"
  by (simp add: smap_ok_def strict_sorted_iff)

lemma smap_ext:
  assumes "smap_ok m" and "smap_ok m'" and "get m = get m'"
  shows "m = m'"
proof -
  note sorted = smap_sorted [OF assms(1)] smap_sorted [OF assms(2)]
  have "(k, v) \<in> set m \<longleftrightarrow> (k, v) \<in> set m'" for k v
    using sorted assms(3) map_of_eq_Some_iff [of m k v] map_of_eq_Some_iff [of m' k v] by simp
  then have "set m = set m'" by (intro equalityI subrelI) simp_all
  moreover have "inj_on fst (set m)" using sorted by (simp add: distinct_map)
  ultimately show ?thesis
    using sorted by (intro map_sorted_distinct_set_unique [of fst]) simp_all
qed

lemma in_objects: "smap_ok m \<Longrightarrow> v \<in> set (objects m) \<longleftrightarrow> (\<exists>k. get m k = Some v)"
  using smap_sorted [of m] by (force simp: map_of_eq_Some_iff)

section \<open>The contract\<close>

locale keyed_map =
  fixes lookup :: "'m \<Rightarrow> 'k \<Rightarrow> 'v option"
    and insert :: "'k \<Rightarrow> 'v \<Rightarrow> 'm \<Rightarrow> 'm"
    and remove :: "'k \<Rightarrow> 'm \<Rightarrow> 'm"
    and valid :: "'m \<Rightarrow> bool"
  assumes lookup_insert: "valid m \<Longrightarrow> lookup (insert k v m) = (lookup m)(k \<mapsto> v)"
    and lookup_remove: "valid m \<Longrightarrow> lookup (remove k m) = (lookup m)(k := None)"
    and valid_insert: "valid m \<Longrightarrow> valid (insert k v m)"
    and valid_remove: "valid m \<Longrightarrow> valid (remove k m)"
    and extensional: "valid m \<Longrightarrow> valid m' \<Longrightarrow> lookup m = lookup m' \<Longrightarrow> m = m'"
begin

lemma remove_insert_fresh: "valid m \<Longrightarrow> lookup m k = None \<Longrightarrow> remove k (insert k v m) = m"
  by (rule extensional) (auto simp: lookup_insert lookup_remove valid_insert valid_remove)

lemma insert_remove: "valid m \<Longrightarrow> lookup m k = Some v \<Longrightarrow> insert k v (remove k m) = m"
  by (rule extensional) (auto simp: lookup_insert lookup_remove valid_insert valid_remove)

lemma insert_same: "valid m \<Longrightarrow> lookup m k = Some v \<Longrightarrow> insert k v m = m"
  by (rule extensional) (auto simp: lookup_insert valid_insert)

lemma insert_insert: "valid m \<Longrightarrow> insert k v (insert k w m) = insert k v m"
  by (rule extensional) (auto simp: lookup_insert valid_insert)

lemma insert_commute: "valid m \<Longrightarrow> j \<noteq> k \<Longrightarrow> insert j v (insert k w m) = insert k w (insert j v m)"
  by (rule extensional) (auto simp: lookup_insert valid_insert)

text \<open>Undoing a whole list of insertions of fresh keys, or of removals.\<close>

lemma remove_all_inserted:
  assumes "valid m" and "\<forall>k \<in> set (map fst kvs). lookup m k = None" and "distinct (map fst kvs)"
  shows "fold (\<lambda>(k, v). remove k) kvs (fold (\<lambda>(k, v). insert k v) kvs m) = m"
proof -
  have look: "valid (fold (\<lambda>(k, v). insert k v) kvs m)
      \<and> (\<forall>j. j \<notin> set (map fst kvs) \<longrightarrow> lookup (fold (\<lambda>(k, v). insert k v) kvs m) j = lookup m j)"
    if "valid m" for m and kvs :: "('k \<times> 'v) list"
    using that by (induction kvs arbitrary: m) (auto simp: valid_insert lookup_insert split: prod.splits)
  have unlook: "valid (fold (\<lambda>(k, v). remove k) kvs m)
      \<and> lookup (fold (\<lambda>(k, v). remove k) kvs m)
        = (\<lambda>j. if j \<in> set (map fst kvs) then None else lookup m j)"
    if "valid m" for m and kvs :: "('k \<times> 'v) list"
    using that
    by (induction kvs arbitrary: m) (auto simp: valid_remove lookup_remove fun_eq_iff split: prod.splits)
  show ?thesis
    using look [OF assms(1), of kvs] unlook [of "fold (\<lambda>(k, v). insert k v) kvs m" kvs] assms
    by (intro extensional) (auto simp: fun_eq_iff)
qed

end

interpretation sm: keyed_map "get :: ('k::linorder, 'v) smap \<Rightarrow> 'k \<Rightarrow> 'v option" put del smap_ok
  by unfold_locales (auto simp: get_put get_del intro: smap_ext)

lemma get_alter: "smap_ok m \<Longrightarrow> get (alter k f m) = (get m)(k := map_option f (get m k))"
  by (auto simp: alter_def get_put split: option.split)

lemma smap_ok_alter [simp, intro]: "smap_ok m \<Longrightarrow> smap_ok (alter k f m)"
  by (simp add: alter_def split: option.split)

end
