(* ===== verification/Durable_State.thy ===== *)
theory Durable_State
  imports Wire_Types Daemon_Error Sorted_Map
begin

text \<open>
  The Workspaces, Shells, launchers and Agents of a Node: \<open>DurableState\<close> with its objects and
  their snapshots in \<open>src/src/daemon.rs\<close>, the records of \<open>src/src/state_store.rs\<close> that they keep, and
  the checks on what a client sends. An object that the code shares by \<open>Arc\<close> is the entry of its
  id; under the mutation lock an id names one object. Locks are never poisoned.

  \<open>registry_env\<close> is what the code asks of others: the crate \<open>uuid\<close>, the file system, how a path is
  printed and encoded, and the process of a Shell.
\<close>

record registry_env =
  re_uuid_parse :: "string \<Rightarrow> string option"
  re_is_dir :: "path \<Rightarrow> bool"
  re_display :: "path \<Rightarrow> string"
  re_path_bytes :: "path \<Rightarrow> nat"
  re_foreground_process :: "string \<Rightarrow> string option res"

definition daemon_max_name_bytes :: nat where
  "daemon_max_name_bytes = 256"

definition max_agent_evidence_bytes :: nat where
  "max_agent_evidence_bytes = 4 * 1024"

definition max_agent_working_contexts :: nat where
  "max_agent_working_contexts = 8"

definition max_terminal_env_value :: nat where
  "max_terminal_env_value = 256"

section \<open>Data\<close>

record shell_spec =
  spec_name :: string
  spec_command :: "string list"
  spec_cwd :: path

record workspace_launcher_spec =
  lspec_name :: string
  lspec_command :: "string list"
  lspec_cwd :: path

record terminal_profile =
  tp_term :: "string option"
  tp_colorterm :: "string option"
  tp_term_program :: "string option"
  tp_term_program_version :: "string option"
  tp_rows :: u16
  tp_cols :: u16
  tp_pixel_width :: u16
  tp_pixel_height :: u16

record persisted_shell_run =
  psr_id :: string
  psr_generation :: u64
  psr_started_at_ms :: u64
  psr_ended_at_ms :: "u64 option"
  psr_exit_reason :: "shell_run_exit_reason option"
  psr_output_revision :: u64
  psr_environment_has_run_id :: bool
  psr_profile :: terminal_profile
  psr_terminal_history :: "string option"

datatype persisted_session_identity = SessionExternal string | SessionInstance string

record persisted_session_display_name =
  sdn_integration :: string
  sdn_session :: persisted_session_identity
  sdn_display_name :: string

record persisted_session_display_name_operation =
  sdo_operation_id :: string
  sdo_session_id :: string
  sdo_expected_revision :: u64
  sdo_display_name :: "string option"
  sdo_integration :: string
  sdo_session :: persisted_session_identity
  sdo_result :: agent_session_display_name_result

record persisted_hidden_session =
  phs_session_id :: string
  phs_integration :: string
  phs_session :: persisted_session_identity

record persisted_session_hide_operation =
  sho_operation_id :: string
  sho_session_id :: string
  sho_workspace_id :: string
  sho_expected_revision :: u64
  sho_integration :: string
  sho_session :: persisted_session_identity
  sho_result :: agent_session_hide_result

record durable_workspace =
  dw_id :: string
  dw_revision :: u64
  dw_name :: string
  dw_default_cwd :: "path option"
  dw_shell_ids :: "string list"
  dw_launcher_ids :: "string list"
  dw_agent_ids :: "string list"
  dw_session_display_names :: "persisted_session_display_name list"
  dw_session_display_name_operations :: "persisted_session_display_name_operation list"
  dw_hidden_sessions :: "persisted_hidden_session list"
  dw_session_hide_operations :: "persisted_session_hide_operation list"

record agent_instance_state =
  as_ended_at_ms :: "u64 option"
  as_observation :: agent_observation_snapshot
  as_attention :: "agent_attention_snapshot option"
  as_working_contexts :: "agent_working_context_snapshot list"

record agent_instance =
  ai_id :: string
  ai_workspace_id :: string
  ai_shell_id :: string
  ai_run_id :: string
  ai_name :: string
  ai_integration :: string
  ai_external_session_id :: "string option"
  ai_cwd :: "path option"
  ai_started_at_ms :: u64
  ai_state :: agent_instance_state

record workspace_launcher =
  wl_id :: string
  wl_revision :: u64
  wl_workspace_id :: string
  wl_name :: string
  wl_cwd :: path
  wl_command :: "string list"

text \<open>A \<open>ShellRun\<close> is kept as its snapshot; the runtime and the terminal are not modelled.\<close>

datatype shell_lifecycle =
    LcPending
  | LcRunning shell_run_snapshot
  | LcExited "u32 option" shell_run_snapshot
  | LcClosed

record shell =
  ds_id :: string
  ds_revision :: u64
  ds_workspace_id :: string
  ds_name :: string
  ds_cwd :: path
  ds_command :: "string list"
  ds_last_run :: "persisted_shell_run option"
  ds_lifecycle :: shell_lifecycle

record durable_state =
  dst_workspaces :: "(string, durable_workspace) smap"
  dst_shells :: "(string, shell) smap"
  dst_launchers :: "(string, workspace_launcher) smap"
  dst_agents :: "(string, agent_instance) smap"

definition empty_durable_state :: durable_state where
  "empty_durable_state = \<lparr>dst_workspaces = [], dst_shells = [], dst_launchers = [], dst_agents = []\<rparr>"

definition new_workspace :: "string \<Rightarrow> string \<Rightarrow> path option \<Rightarrow> string list \<Rightarrow> durable_workspace" where
  "new_workspace i name default_cwd shell_ids =
     \<lparr>dw_id = i, dw_revision = 1, dw_name = name, dw_default_cwd = default_cwd,
      dw_shell_ids = shell_ids, dw_launcher_ids = [], dw_agent_ids = [],
      dw_session_display_names = [], dw_session_display_name_operations = [],
      dw_hidden_sessions = [], dw_session_hide_operations = []\<rparr>"

section \<open>Checks\<close>

definition daemon_not_found :: "string \<Rightarrow> string \<Rightarrow> io_error" where
  "daemon_not_found kind i = IoError NotFound (kind @ '' not found: '' @ i)"

definition already_exists :: "string \<Rightarrow> io_error" where
  "already_exists message = IoError AlreadyExists message"

definition invalid_input :: "string \<Rightarrow> io_error" where
  "invalid_input message = IoError InvalidInput message"

text \<open>
  \<open>s.trim().is_empty()\<close>: every character has the property \<open>White_Space\<close>. In UTF-8 these are the
  bytes 09 to 0D and 20, and the sequences C2 85, C2 A0, E1 9A 80, E2 80 80 to 8A, E2 80 A8, E2 80 A9,
  E2 80 AF, E2 81 9F and E3 80 80.
\<close>

fun blank_codes :: "nat list \<Rightarrow> bool" where
  "blank_codes [] = True"
| "blank_codes (a # s) =
     (if (9 \<le> a \<and> a \<le> 13) \<or> a = 32 then blank_codes s
      else (case s of
              [] \<Rightarrow> False
            | b # s \<Rightarrow>
                if a = 194 \<and> (b = 133 \<or> b = 160) then blank_codes s
                else (case s of
                        [] \<Rightarrow> False
                      | c # s \<Rightarrow>
                          (a = 225 \<and> b = 154 \<and> c = 128
                           \<or> a = 226 \<and> b = 128 \<and> (128 \<le> c \<and> c \<le> 138 \<or> c = 168 \<or> c = 169 \<or> c = 175)
                           \<or> a = 226 \<and> b = 129 \<and> c = 159
                           \<or> a = 227 \<and> b = 128 \<and> c = 128)
                          \<and> blank_codes s)))"

definition is_blank :: "string \<Rightarrow> bool" where
  "is_blank s = blank_codes (map of_char s)"

definition daemon_validate_name :: "string \<Rightarrow> unit res" where
  "daemon_validate_name name =
     (if is_blank name \<or> daemon_max_name_bytes < length name \<or> has_control name
      then Inl (invalid_input
             ''name must be nonempty, contain no control characters, and be at most 256 bytes'')
      else Inr ())"

definition validate_uuid :: "registry_env \<Rightarrow> string \<Rightarrow> string \<Rightarrow> unit res" where
  "validate_uuid env v label =
     bind_res (ok_or (re_uuid_parse env v) (invalid_input (''invalid '' @ label))) (\<lambda>parsed.
       if parsed \<noteq> v then Inl (invalid_input (label @ '' must use canonical UUID syntax''))
       else Inr ())"

definition validate_cwd :: "registry_env \<Rightarrow> path \<Rightarrow> unit res" where
  "validate_cwd env cwd =
     (if is_absolute cwd \<and> re_is_dir env cwd then Inr ()
      else Inl (invalid_input (''working directory must be an existing absolute directory: ''
                 @ re_display env cwd)))"

fun validate_shell_names :: "string set \<Rightarrow> shell_spec list \<Rightarrow> unit res" where
  "validate_shell_names names [] = Inr ()"
| "validate_shell_names names (spec # specs) =
     bind_res (daemon_validate_name (spec_name spec)) (\<lambda>_.
       if spec_name spec \<in> names
       then Inl (already_exists (''duplicate shell name: '' @ spec_name spec))
       else validate_shell_names (insert (spec_name spec) names) specs)"

definition validate_shell_specs :: "shell_spec list \<Rightarrow> unit res" where
  "validate_shell_specs specs = validate_shell_names {} specs"

definition validate_launcher_command :: "string list \<Rightarrow> unit res" where
  "validate_launcher_command command =
     (case command of
        executable # _ \<Rightarrow> if executable \<noteq> [] then Inr ()
                          else Inl (invalid_input
                            ''workspace launcher command requires a non-empty executable'')
      | [] \<Rightarrow> Inl (invalid_input ''workspace launcher command requires a non-empty executable''))"

definition validate_required_agent_string :: "string \<Rightarrow> string \<Rightarrow> nat \<Rightarrow> unit res" where
  "validate_required_agent_string kind v max_bytes =
     (if is_blank v \<or> max_bytes < length v
      then Inl (invalid_input (''agent '' @ kind @ '' must be nonempty and at most ''
                 @ show_nat max_bytes @ '' bytes''))
      else Inr ())"

definition validate_agent_report :: "agent_report \<Rightarrow> unit res" where
  "validate_agent_report report =
     bind_res (validate_required_agent_string ''evidence'' (rep_evidence report) max_agent_evidence_bytes)
       (\<lambda>_. if 100 < rep_confidence report
             then Inl (invalid_input ''agent report confidence must be between 0 and 100'') else Inr ())"

definition validate_agent_registration :: "agent_registration_spec \<Rightarrow> unit res" where
  "validate_agent_registration spec =
     bind_res (daemon_validate_name (reg_name spec)) (\<lambda>_.
     bind_res (validate_required_agent_string ''integration'' (reg_integration spec) daemon_max_name_bytes) (\<lambda>_.
     bind_res (case reg_external_session_id spec of
                 None \<Rightarrow> Inr ()
               | Some i \<Rightarrow> validate_required_agent_string ''external_session_id'' i daemon_max_name_bytes) (\<lambda>_.
       validate_agent_report (reg_report spec))))"

definition validate_external_agent_authority :: "agent_authority \<Rightarrow> unit res" where
  "validate_external_agent_authority authority =
     (if authority = DaemonLifecycle
      then Inl (invalid_input ''daemon_lifecycle authority is reserved for daemon observations'')
      else Inr ())"

definition validate_working_context :: "registry_env \<Rightarrow> agent_working_context_snapshot \<Rightarrow> unit res" where
  "validate_working_context env c =
     (if \<not> is_absolute (wc_worktree_root c) \<or> 4 * 1024 < re_path_bytes env (wc_worktree_root c)
      then Inl (invalid_input ''Agent working-context root must be a bounded absolute path'')
      else bind_res (validate_required_agent_string ''repository'' (wc_repository c) daemon_max_name_bytes)
             (\<lambda>_. validate_required_agent_string ''branch'' (wc_branch c) daemon_max_name_bytes))"

definition validate_terminal_dimensions :: "u16 \<Rightarrow> u16 \<Rightarrow> unit res" where
  "validate_terminal_dimensions rows cols =
     (if rows = 0 \<or> cols = 0 \<or> 1000 < rows \<or> 1000 < cols \<or> 1000000 < unat rows * unat cols
      then Inl (invalid_input ''terminal rows and columns must be nonzero and at most 1000x1000'')
      else Inr ())"

definition validate_terminal_profile :: "terminal_profile \<Rightarrow> unit res" where
  "validate_terminal_profile p =
     bind_res (validate_terminal_dimensions (tp_rows p) (tp_cols p)) (\<lambda>_.
       for_each (\<lambda>v. if v = [] \<or> max_terminal_env_value < length v \<or> has_control v
                     then Inl (invalid_input ''terminal profile contains an invalid environment value'')
                     else Inr ())
         (List.map_filter id [tp_term p, tp_colorterm p, tp_term_program p, tp_term_program_version p]))"

section \<open>Snapshots\<close>

fun collect_res :: "('a \<Rightarrow> 'b res) \<Rightarrow> 'a list \<Rightarrow> 'b list res" where
  "collect_res f [] = Inr []"
| "collect_res f (x # xs) = bind_res (f x) (\<lambda>y. bind_res (collect_res f xs) (\<lambda>ys. Inr (y # ys)))"

definition run_of_persisted :: "persisted_shell_run \<Rightarrow> shell_run_snapshot" where
  "run_of_persisted r =
     \<lparr>run_id = psr_id r, run_generation = psr_generation r, run_started_at_ms = psr_started_at_ms r,
      run_ended_at_ms = psr_ended_at_ms r, run_exit_reason = psr_exit_reason r,
      run_output_revision = psr_output_revision r,
      run_environment_has_run_id = psr_environment_has_run_id r\<rparr>"

definition shell_to_snapshot :: "registry_env \<Rightarrow> shell \<Rightarrow> shell_snapshot res" where
  "shell_to_snapshot env s =
     bind_res
       (case ds_lifecycle s of
          LcPending \<Rightarrow> Inr (StatusPending, map_option run_of_persisted (ds_last_run s), None)
        | LcRunning run \<Rightarrow> bind_res (re_foreground_process env (ds_id s)) (\<lambda>p. Inr (StatusRunning, Some run, p))
        | LcExited code run \<Rightarrow> Inr (StatusExited code, Some run, None)
        | LcClosed \<Rightarrow> Inl (daemon_not_found ''shell'' (ds_id s)))
       (\<lambda>(status, run, foreground).
          Inr \<lparr>sh_id = ds_id s, sh_revision = ds_revision s, sh_workspace_id = ds_workspace_id s,
               sh_name = ds_name s, sh_cwd = ds_cwd s, sh_command = ds_command s, sh_status = status,
               sh_run = run, sh_recovered_agent_id = None, sh_foreground_process = foreground\<rparr>)"

definition launcher_to_snapshot :: "workspace_launcher \<Rightarrow> workspace_launcher_snapshot" where
  "launcher_to_snapshot l =
     \<lparr>la_id = wl_id l, la_revision = wl_revision l, la_workspace_id = wl_workspace_id l,
      la_name = wl_name l, la_command = wl_command l, la_cwd = wl_cwd l\<rparr>"

definition agent_snapshot_from :: "agent_instance \<Rightarrow> agent_instance_state \<Rightarrow> agent_instance_snapshot" where
  "agent_snapshot_from a st =
     \<lparr>ag_id = ai_id a, ag_workspace_id = ai_workspace_id a, ag_shell_id = ai_shell_id a,
      ag_run_id = ai_run_id a, ag_name = ai_name a, ag_integration = ai_integration a,
      ag_external_session_id = ai_external_session_id a, ag_cwd = ai_cwd a,
      ag_started_at_ms = ai_started_at_ms a, ag_ended_at_ms = as_ended_at_ms st,
      ag_observation = as_observation st, ag_attention = as_attention st,
      ag_working_contexts = as_working_contexts st\<rparr>"

definition agent_to_snapshot :: "agent_instance \<Rightarrow> agent_instance_snapshot" where
  "agent_to_snapshot a = agent_snapshot_from a (ai_state a)"

definition workspace_to_snapshot ::
    "registry_env \<Rightarrow> durable_state \<Rightarrow> durable_workspace \<Rightarrow> workspace_snapshot res" where
  "workspace_to_snapshot env st w =
     bind_res (collect_res (shell_to_snapshot env) (List.map_filter (get (dst_shells st)) (dw_shell_ids w)))
       (\<lambda>shells. Inr
          \<lparr>ws_id = dw_id w, ws_revision = dw_revision w, ws_name = dw_name w,
           ws_default_cwd = dw_default_cwd w, ws_shells = shells,
           ws_launchers = map launcher_to_snapshot
             (List.map_filter (get (dst_launchers st)) (dw_launcher_ids w)),
           ws_agents = map agent_to_snapshot (List.map_filter (get (dst_agents st)) (dw_agent_ids w))\<rparr>)"

text \<open>\<open>DurableRegistry::node_projection\<close>, what other Nodes are shown.\<close>

definition shell_node_projection :: "shell \<Rightarrow> node_projection_shell res" where
  "shell_node_projection s =
     bind_res
       (case ds_lifecycle s of
          LcPending \<Rightarrow> Inr (StatusPending, None)
        | LcRunning run \<Rightarrow> Inr (StatusRunning, Some run)
        | LcExited code run \<Rightarrow> Inr (StatusExited code, Some run)
        | LcClosed \<Rightarrow> Inl (daemon_not_found ''shell'' (ds_id s)))
       (\<lambda>(status, run).
          Inr \<lparr>ps_id = ds_id s, ps_workspace_id = ds_workspace_id s, ps_name = ds_name s,
               ps_status = status, ps_run_id = map_option run_id run,
               ps_generation = map_option run_generation run,
               ps_started_at_ms = map_option run_started_at_ms run,
               ps_ended_at_ms = (case run of Some r \<Rightarrow> run_ended_at_ms r | None \<Rightarrow> None),
               ps_recovered_agent_id = None\<rparr>)"

definition launcher_node_projection :: "workspace_launcher \<Rightarrow> node_projection_launcher" where
  "launcher_node_projection l =
     \<lparr>pla_id = wl_id l, pla_workspace_id = wl_workspace_id l, pla_name = wl_name l\<rparr>"

definition agent_node_projection :: "agent_instance \<Rightarrow> node_projection_agent" where
  "agent_node_projection a =
     (let st = ai_state a in
      \<lparr>pa_id = ai_id a, pa_workspace_id = ai_workspace_id a, pa_shell_id = ai_shell_id a,
       pa_run_id = ai_run_id a, pa_name = ai_name a, pa_integration = ai_integration a,
       pa_state = obs_state (as_observation st), pa_observation_revision = obs_revision (as_observation st),
       pa_observed_at_ms = obs_observed_at_ms (as_observation st), pa_started_at_ms = ai_started_at_ms a,
       pa_ended_at_ms = as_ended_at_ms st,
       pa_attention = map_option (\<lambda>t. \<lparr>pat_reason = att_reason t,
           pat_observation_revision = obs_revision (att_observation t),
           pat_observed_at_ms = obs_observed_at_ms (att_observation t)\<rparr>) (as_attention st)\<rparr>)"

text \<open>\<open>u32::try_from(n).unwrap_or(u32::MAX)\<close>.\<close>

definition u32_clamped :: "nat \<Rightarrow> u32" where
  "u32_clamped n = (if n < 2 ^ 32 then of_nat n else - 1)"

definition workspace_node_projection :: "durable_state \<Rightarrow> durable_workspace \<Rightarrow> node_projection_workspace" where
  "workspace_node_projection st w =
     \<lparr>pw_id = dw_id w, pw_name = dw_name w,
      pw_item_count = u32_clamped (length (dw_shell_ids w) + length (dw_launcher_ids w)),
      pw_attention_count = u32_clamped (length (filter
         (\<lambda>a. ai_id a \<in> set (dw_agent_ids w) \<and> as_attention (ai_state a) \<noteq> None) (objects (dst_agents st))))\<rparr>"

definition node_projection_of :: "string \<Rightarrow> durable_state \<Rightarrow> node_projection_snapshot res" where
  "node_projection_of node_id st =
     bind_res (collect_res shell_node_projection (objects (dst_shells st))) (\<lambda>shells.
       Inr \<lparr>np_node_id = node_id,
            np_workspaces = sort_key pw_id (map (workspace_node_projection st) (objects (dst_workspaces st))),
            np_shells = sort_key ps_id shells,
            np_launchers = sort_key pla_id (map launcher_node_projection (objects (dst_launchers st))),
            np_agents = sort_key pa_id (map agent_node_projection (objects (dst_agents st)))\<rparr>)"

end
