(* ===== verification/Durable_Ops.thy ===== *)
theory Durable_Ops
  imports Durable_State
begin

text \<open>
  The operations of \<open>DurableRegistry\<close> on Workspaces, Shells and launchers, with the removals of
  \<open>DaemonService\<close> and the undo records (\<open>DurableUndo\<close>, \<open>DurableUndoLog\<close>), all in
  \<open>src/src/daemon.rs\<close>. An operation runs under the mutation lock: it takes the state and returns a
  result and the state it leaves, also when it fails. UUIDs the code makes are arguments.
\<close>

type_synonym ('e, 'a) op = "durable_state \<Rightarrow> ('e + 'a) \<times> durable_state"

type_synonym 'a dop = "(io_error, 'a) op"

definition bind_op :: "('e, 'a) op \<Rightarrow> ('a \<Rightarrow> ('e, 'b) op) \<Rightarrow> ('e, 'b) op" where
  "bind_op m f st = (case m st of (Inl e, st') \<Rightarrow> (Inl e, st') | (Inr x, st') \<Rightarrow> f x st')"

definition return_op :: "'a \<Rightarrow> ('e, 'a) op" where
  "return_op x st = (Inr x, st)"

definition fail_op :: "'e \<Rightarrow> ('e, 'a) op" where
  "fail_op e st = (Inl e, st)"

definition check_op :: "('e + 'a) \<Rightarrow> ('e, 'a) op" where
  "check_op r st = (r, st)"

definition read_op :: "(durable_state \<Rightarrow> 'e + 'a) \<Rightarrow> ('e, 'a) op" where
  "read_op f st = (f st, st)"

definition modify_op :: "(durable_state \<Rightarrow> durable_state) \<Rightarrow> ('e, unit) op" where
  "modify_op f st = (Inr (), f st)"

named_theorems op_simps \<open>results of operations\<close>

lemma bind_op_Inr [op_simps]:
  "bind_op m f st = (Inr y, st') \<longleftrightarrow> (\<exists>x st1. m st = (Inr x, st1) \<and> f x st1 = (Inr y, st'))"
  by (auto simp: bind_op_def split: prod.split sum.split)

lemma bind_op_Inl [op_simps]:
  "bind_op m f st = (Inl e, st')
   \<longleftrightarrow> m st = (Inl e, st') \<or> (\<exists>x st1. m st = (Inr x, st1) \<and> f x st1 = (Inl e, st'))"
  by (auto simp: bind_op_def split: prod.split sum.split)

lemma return_op_eq [op_simps]: "return_op x st = (r, st') \<longleftrightarrow> r = Inr x \<and> st' = st"
  by (auto simp: return_op_def)

lemma fail_op_eq [op_simps]: "fail_op e st = (r, st') \<longleftrightarrow> r = Inl e \<and> st' = st"
  by (auto simp: fail_op_def)

lemma check_op_eq [op_simps]: "check_op x st = (r, st') \<longleftrightarrow> r = x \<and> st' = st"
  by (auto simp: check_op_def)

lemma read_op_eq [op_simps]: "read_op f st = (r, st') \<longleftrightarrow> r = f st \<and> st' = st"
  by (auto simp: read_op_def)

lemma modify_op_eq [op_simps]: "modify_op f st = (r, st') \<longleftrightarrow> r = Inr () \<and> st' = f st"
  by (auto simp: modify_op_def)

lemmas op_defs = bind_op_def return_op_def fail_op_def check_op_def read_op_def modify_op_def

section \<open>Undo records\<close>

datatype durable_undo =
    UndoCreatedWorkspace string "string list"
  | UndoCreatedShell string string
  | UndoCreatedLauncher string string
  | UndoRegisteredAgent string string
  | UndoRenamedWorkspace string string u64
  | UndoSetWorkspaceDefaultCwd string "path option" u64
  | UndoRenamedShell string string u64
  | UndoRenamedLauncher string string u64
  | UndoAgentState string agent_instance_state
  | UndoSessionDisplayNames string "persisted_session_display_name list"
      "persisted_session_display_name_operation list" u64
  | UndoHiddenSessions string "persisted_hidden_session list" "persisted_session_hide_operation list" u64
  | UndoRemovedLauncher string workspace_launcher nat
  | UndoRemovedShell string shell nat
  | UndoRemovedWorkspace durable_workspace "shell list" "workspace_launcher list" "agent_instance list"

definition upd_workspace :: "string \<Rightarrow> (durable_workspace \<Rightarrow> durable_workspace) \<Rightarrow> durable_state \<Rightarrow> durable_state" where
  "upd_workspace i f st = st\<lparr>dst_workspaces := alter i f (dst_workspaces st)\<rparr>"

definition upd_shell :: "string \<Rightarrow> (shell \<Rightarrow> shell) \<Rightarrow> durable_state \<Rightarrow> durable_state" where
  "upd_shell i f st = st\<lparr>dst_shells := alter i f (dst_shells st)\<rparr>"

definition upd_launcher :: "string \<Rightarrow> (workspace_launcher \<Rightarrow> workspace_launcher) \<Rightarrow> durable_state \<Rightarrow> durable_state" where
  "upd_launcher i f st = st\<lparr>dst_launchers := alter i f (dst_launchers st)\<rparr>"

definition upd_agent :: "string \<Rightarrow> (agent_instance \<Rightarrow> agent_instance) \<Rightarrow> durable_state \<Rightarrow> durable_state" where
  "upd_agent i f st = st\<lparr>dst_agents := alter i f (dst_agents st)\<rparr>"

definition rollback_bump :: "u64 \<Rightarrow> u64" where
  "rollback_bump revision = max (u64_saturating_sub revision 1) 1"

text \<open>\<open>Vec::insert\<close>, whose index is within the list here.\<close>

definition insert_at :: "nat \<Rightarrow> 'a \<Rightarrow> 'a list \<Rightarrow> 'a list" where
  "insert_at i x xs = take i xs @ x # drop i xs"

fun rollback_undo :: "durable_undo \<Rightarrow> durable_state \<Rightarrow> durable_state" where
  "rollback_undo (UndoCreatedWorkspace i shells) st =
     st\<lparr>dst_workspaces := del i (dst_workspaces st), dst_shells := fold del shells (dst_shells st)\<rparr>"
| "rollback_undo (UndoCreatedShell w i) st =
     upd_workspace w (dw_revision_update rollback_bump)
       (upd_workspace w (dw_shell_ids_update (filter (\<lambda>j. j \<noteq> i)))
         (st\<lparr>dst_shells := del i (dst_shells st)\<rparr>))"
| "rollback_undo (UndoCreatedLauncher w i) st =
     upd_workspace w (dw_revision_update rollback_bump)
       (upd_workspace w (dw_launcher_ids_update (filter (\<lambda>j. j \<noteq> i)))
         (st\<lparr>dst_launchers := del i (dst_launchers st)\<rparr>))"
| "rollback_undo (UndoRegisteredAgent w i) st =
     upd_workspace w (dw_revision_update rollback_bump)
       (upd_workspace w (dw_agent_ids_update (filter (\<lambda>j. j \<noteq> i)))
         (st\<lparr>dst_agents := del i (dst_agents st)\<rparr>))"
| "rollback_undo (UndoRenamedWorkspace i name revision) st =
     upd_workspace i (\<lambda>w. w\<lparr>dw_name := name, dw_revision := revision\<rparr>) st"
| "rollback_undo (UndoSetWorkspaceDefaultCwd i cwd revision) st =
     upd_workspace i (\<lambda>w. w\<lparr>dw_default_cwd := cwd, dw_revision := revision\<rparr>) st"
| "rollback_undo (UndoRenamedShell i name revision) st =
     upd_shell i (\<lambda>s. s\<lparr>ds_name := name, ds_revision := revision\<rparr>) st"
| "rollback_undo (UndoRenamedLauncher i name revision) st =
     upd_launcher i (\<lambda>l. l\<lparr>wl_name := name, wl_revision := revision\<rparr>) st"
| "rollback_undo (UndoAgentState i previous) st = upd_agent i (\<lambda>a. a\<lparr>ai_state := previous\<rparr>) st"
| "rollback_undo (UndoSessionDisplayNames i names operations revision) st =
     upd_workspace i (\<lambda>w. w\<lparr>dw_session_display_names := names,
       dw_session_display_name_operations := operations, dw_revision := revision\<rparr>) st"
| "rollback_undo (UndoHiddenSessions i hidden operations revision) st =
     upd_workspace i (\<lambda>w. w\<lparr>dw_hidden_sessions := hidden,
       dw_session_hide_operations := operations, dw_revision := revision\<rparr>) st"
| "rollback_undo (UndoRemovedLauncher w l index) st =
     upd_workspace w (dw_revision_update rollback_bump)
       (upd_workspace w (dw_launcher_ids_update (insert_at index (wl_id l)))
         (st\<lparr>dst_launchers := put (wl_id l) l (dst_launchers st)\<rparr>))"
| "rollback_undo (UndoRemovedShell w s index) st =
     upd_workspace w (dw_revision_update rollback_bump)
       (upd_workspace w (dw_shell_ids_update (insert_at index (ds_id s)))
         (st\<lparr>dst_shells := put (ds_id s) s (dst_shells st)\<rparr>))"
| "rollback_undo (UndoRemovedWorkspace w shells launchers agents) st =
     st\<lparr>dst_shells := fold (\<lambda>s. put (ds_id s) s) shells (dst_shells st),
        dst_launchers := fold (\<lambda>l. put (wl_id l) l) launchers (dst_launchers st),
        dst_agents := fold (\<lambda>a. put (ai_id a) a) agents (dst_agents st),
        dst_workspaces := put (dw_id w) w (dst_workspaces st)\<rparr>"

text \<open>\<open>DurableUndoLog::rollback\<close>: the records in reverse. With no poisoned lock none of them fails.\<close>

definition rollback_log :: "durable_undo list \<Rightarrow> durable_state \<Rightarrow> durable_state" where
  "rollback_log log st = fold rollback_undo (rev log) st"

definition previous_agent_state :: "durable_undo list \<Rightarrow> string \<Rightarrow> agent_state option" where
  "previous_agent_state log agent_id =
     (case List.map_filter
             (\<lambda>u. case u of
                    UndoAgentState i previous \<Rightarrow>
                      if i = agent_id then Some (obs_state (as_observation previous)) else None
                  | _ \<Rightarrow> None) (rev log) of
        [] \<Rightarrow> None
      | state # _ \<Rightarrow> Some state)"

section \<open>Lookups\<close>

definition find_workspace :: "string \<Rightarrow> durable_workspace dop" where
  "find_workspace i = read_op (\<lambda>st. ok_or (get (dst_workspaces st) i) (daemon_not_found ''workspace'' i))"

definition find_shell :: "string \<Rightarrow> shell dop" where
  "find_shell i = read_op (\<lambda>st. ok_or (get (dst_shells st) i) (daemon_not_found ''shell'' i))"

definition find_launcher :: "string \<Rightarrow> workspace_launcher dop" where
  "find_launcher i =
     read_op (\<lambda>st. ok_or (get (dst_launchers st) i) (daemon_not_found ''workspace launcher'' i))"

definition find_agent :: "string \<Rightarrow> agent_instance dop" where
  "find_agent i = read_op (\<lambda>st. ok_or (get (dst_agents st) i) (daemon_not_found ''agent instance'' i))"

lemmas find_defs = find_workspace_def find_shell_def find_launcher_def find_agent_def

definition workspace_name_taken :: "string \<Rightarrow> durable_state \<Rightarrow> bool" where
  "workspace_name_taken name st \<longleftrightarrow> (\<exists>w \<in> set (objects (dst_workspaces st)). dw_name w = name)"

definition shell_name_taken :: "string list \<Rightarrow> string \<Rightarrow> durable_state \<Rightarrow> bool" where
  "shell_name_taken ids name st \<longleftrightarrow>
     (\<exists>i \<in> set ids. case get (dst_shells st) i of Some s \<Rightarrow> ds_name s = name | None \<Rightarrow> False)"

definition launcher_name_taken :: "string list \<Rightarrow> string \<Rightarrow> durable_state \<Rightarrow> bool" where
  "launcher_name_taken ids name st \<longleftrightarrow>
     (\<exists>i \<in> set ids. case get (dst_launchers st) i of Some l \<Rightarrow> wl_name l = name | None \<Rightarrow> False)"

definition bump_revision :: "u64 \<Rightarrow> string \<Rightarrow> u64 res" where
  "bump_revision revision resource =
     ok_or (u64_checked_add revision 1) (other_error (resource @ '' revision exhausted''))"

text \<open>\<open>bump_revision(&workspace.revision, "workspace")?\<close> on a Workspace that is there.\<close>

definition bump_workspace :: "string \<Rightarrow> unit dop" where
  "bump_workspace i =
     bind_op (find_workspace i) (\<lambda>w.
     bind_op (check_op (bump_revision (dw_revision w) ''workspace'')) (\<lambda>revision.
       modify_op (upd_workspace i (dw_revision_update (\<lambda>_. revision)))))"

section \<open>Creating\<close>

definition create_pending_shell :: "registry_env \<Rightarrow> string \<Rightarrow> string \<Rightarrow> shell_spec \<Rightarrow> shell res" where
  "create_pending_shell env workspace_id shell_id spec =
     bind_res (daemon_validate_name (spec_name spec)) (\<lambda>_.
     bind_res (validate_cwd env (spec_cwd spec)) (\<lambda>_.
       Inr \<lparr>ds_id = shell_id, ds_revision = 1, ds_workspace_id = workspace_id, ds_name = spec_name spec,
            ds_cwd = spec_cwd spec, ds_command = spec_command spec, ds_last_run = None,
            ds_lifecycle = LcPending\<rparr>))"

definition validate_default_cwd :: "registry_env \<Rightarrow> path option \<Rightarrow> unit res" where
  "validate_default_cwd env default_cwd =
     (case default_cwd of None \<Rightarrow> Inr () | Some cwd \<Rightarrow> validate_cwd env cwd)"

definition create_workspace ::
    "registry_env \<Rightarrow> string \<Rightarrow> (nat \<Rightarrow> string) \<Rightarrow> string \<Rightarrow> path option \<Rightarrow> shell_spec list
     \<Rightarrow> (workspace_snapshot \<times> durable_undo) dop" where
  "create_workspace env workspace_id shell_id name default_cwd specs =
     bind_op (check_op (daemon_validate_name name)) (\<lambda>_.
     bind_op (check_op (validate_default_cwd env default_cwd)) (\<lambda>_.
     bind_op (check_op (validate_shell_specs specs)) (\<lambda>_.
     bind_op (check_op (collect_res (\<lambda>(n, spec). create_pending_shell env workspace_id (shell_id n) spec)
                          (List.enumerate 0 specs))) (\<lambda>shells.
     bind_op (check_op (collect_res (shell_to_snapshot env) shells)) (\<lambda>snapshots.
     bind_op (read_op (\<lambda>st. if workspace_name_taken name st
                            then Inl (already_exists (''workspace name already exists: '' @ name))
                            else Inr ())) (\<lambda>_.
     bind_op (modify_op (\<lambda>st. st\<lparr>
         dst_shells := fold (\<lambda>s. put (ds_id s) s) shells (dst_shells st),
         dst_workspaces := put workspace_id
           (new_workspace workspace_id name default_cwd (map ds_id shells)) (dst_workspaces st)\<rparr>)) (\<lambda>_.
       return_op
         (\<lparr>ws_id = workspace_id, ws_revision = 1, ws_name = name, ws_default_cwd = default_cwd,
           ws_shells = snapshots, ws_launchers = [], ws_agents = []\<rparr>,
          UndoCreatedWorkspace workspace_id (map ds_id shells)))))))))"

definition create_workspace_exact ::
    "registry_env \<Rightarrow> string \<Rightarrow> string \<Rightarrow> path option
     \<Rightarrow> (workspace_snapshot \<times> durable_undo option) dop" where
  "create_workspace_exact env workspace_id name default_cwd =
     bind_op (check_op (validate_uuid env workspace_id ''workspace ID'')) (\<lambda>_.
     bind_op (check_op (daemon_validate_name name)) (\<lambda>_.
     bind_op (check_op (validate_default_cwd env default_cwd)) (\<lambda>_.
     bind_op (read_op (\<lambda>st. Inr (get (dst_workspaces st) workspace_id))) (\<lambda>existing.
       case existing of
         Some w \<Rightarrow>
           bind_op (read_op (\<lambda>st. workspace_to_snapshot env st w)) (\<lambda>snapshot.
             if ws_name snapshot = name \<and> ws_default_cwd snapshot = default_cwd
             then return_op (snapshot, None)
             else fail_op (already_exists
               ''workspace idempotency identity exists with a different definition''))
       | None \<Rightarrow>
           bind_op (read_op (\<lambda>st. if workspace_name_taken name st
                                  then Inl (already_exists (''workspace name already exists: '' @ name))
                                  else Inr ())) (\<lambda>_.
           bind_op (modify_op (\<lambda>st. st\<lparr>dst_workspaces := put workspace_id
               (new_workspace workspace_id name default_cwd []) (dst_workspaces st)\<rparr>)) (\<lambda>_.
             return_op
               (\<lparr>ws_id = workspace_id, ws_revision = 1, ws_name = name, ws_default_cwd = default_cwd,
                 ws_shells = [], ws_launchers = [], ws_agents = []\<rparr>,
                Some (UndoCreatedWorkspace workspace_id []))))))))"

text \<open>The tail that \<open>create_shell\<close> and \<open>create_shell_exact\<close> share.\<close>

definition insert_shell :: "durable_workspace \<Rightarrow> shell \<Rightarrow> unit dop" where
  "insert_shell workspace s =
     bind_op (read_op (\<lambda>st. if shell_name_taken (dw_shell_ids workspace) (ds_name s) st
                            then Inl (already_exists (''shell name already exists: '' @ ds_name s))
                            else Inr ())) (\<lambda>_.
     bind_op (modify_op (\<lambda>st. st\<lparr>dst_shells := put (ds_id s) s (dst_shells st)\<rparr>)) (\<lambda>_.
     bind_op (modify_op (upd_workspace (ds_workspace_id s) (dw_shell_ids_update (\<lambda>ids. ids @ [ds_id s])))) (\<lambda>_.
       bump_workspace (ds_workspace_id s))))"

definition create_shell ::
    "registry_env \<Rightarrow> string \<Rightarrow> string \<Rightarrow> shell_spec \<Rightarrow> (shell_snapshot \<times> durable_undo) dop" where
  "create_shell env new_id workspace_id spec =
     bind_op (find_workspace workspace_id) (\<lambda>workspace.
     bind_op (check_op (create_pending_shell env workspace_id new_id spec)) (\<lambda>s.
     bind_op (check_op (shell_to_snapshot env s)) (\<lambda>snapshot.
     bind_op (insert_shell workspace s) (\<lambda>_.
       return_op (snapshot, UndoCreatedShell workspace_id (ds_id s))))))"

definition create_shell_exact ::
    "registry_env \<Rightarrow> string \<Rightarrow> string \<Rightarrow> shell_spec \<Rightarrow> (shell_snapshot \<times> durable_undo option) dop" where
  "create_shell_exact env workspace_id shell_id spec =
     bind_op (check_op (validate_uuid env shell_id ''Shell idempotency key'')) (\<lambda>_.
     bind_op (read_op (\<lambda>st. Inr (get (dst_shells st) shell_id))) (\<lambda>existing.
       case existing of
         Some s \<Rightarrow>
           bind_op (check_op (shell_to_snapshot env s)) (\<lambda>snapshot.
             if sh_workspace_id snapshot = workspace_id \<and> sh_name snapshot = spec_name spec
                \<and> sh_cwd snapshot = spec_cwd spec \<and> sh_command snapshot = spec_command spec
             then return_op (snapshot, None)
             else fail_op (already_exists ''Shell idempotency key exists with a different definition''))
       | None \<Rightarrow>
           bind_op (find_workspace workspace_id) (\<lambda>workspace.
           bind_op (check_op (create_pending_shell env workspace_id shell_id spec)) (\<lambda>s.
           bind_op (check_op (shell_to_snapshot env s)) (\<lambda>snapshot.
           bind_op (insert_shell workspace s) (\<lambda>_.
             return_op (snapshot, Some (UndoCreatedShell workspace_id (ds_id s)))))))))"

definition validate_launcher_spec :: "registry_env \<Rightarrow> workspace_launcher_spec \<Rightarrow> unit res" where
  "validate_launcher_spec env spec =
     bind_res (daemon_validate_name (lspec_name spec)) (\<lambda>_.
     bind_res (validate_cwd env (lspec_cwd spec)) (\<lambda>_.
       validate_launcher_command (lspec_command spec)))"

definition new_launcher :: "string \<Rightarrow> string \<Rightarrow> workspace_launcher_spec \<Rightarrow> workspace_launcher" where
  "new_launcher workspace_id launcher_id spec =
     \<lparr>wl_id = launcher_id, wl_revision = 1, wl_workspace_id = workspace_id, wl_name = lspec_name spec,
      wl_cwd = lspec_cwd spec, wl_command = lspec_command spec\<rparr>"

definition insert_launcher :: "durable_workspace \<Rightarrow> workspace_launcher \<Rightarrow> unit dop" where
  "insert_launcher workspace l =
     bind_op (read_op (\<lambda>st. if launcher_name_taken (dw_launcher_ids workspace) (wl_name l) st
                            then Inl (already_exists
                              (''workspace launcher name already exists: '' @ wl_name l))
                            else Inr ())) (\<lambda>_.
     bind_op (modify_op (\<lambda>st. st\<lparr>dst_launchers := put (wl_id l) l (dst_launchers st)\<rparr>)) (\<lambda>_.
     bind_op (modify_op (upd_workspace (wl_workspace_id l) (dw_launcher_ids_update (\<lambda>ids. ids @ [wl_id l])))) (\<lambda>_.
       bump_workspace (wl_workspace_id l))))"

definition create_launcher ::
    "registry_env \<Rightarrow> string \<Rightarrow> string \<Rightarrow> workspace_launcher_spec
     \<Rightarrow> (workspace_launcher_snapshot \<times> durable_undo) dop" where
  "create_launcher env new_id workspace_id spec =
     bind_op (check_op (validate_launcher_spec env spec)) (\<lambda>_.
     bind_op (find_workspace workspace_id) (\<lambda>workspace.
     let l = new_launcher workspace_id new_id spec in
     bind_op (insert_launcher workspace l) (\<lambda>_.
       return_op (launcher_to_snapshot l, UndoCreatedLauncher workspace_id (wl_id l)))))"

definition create_launcher_exact ::
    "registry_env \<Rightarrow> string \<Rightarrow> string \<Rightarrow> workspace_launcher_spec
     \<Rightarrow> (workspace_launcher_snapshot \<times> durable_undo option) dop" where
  "create_launcher_exact env workspace_id launcher_id spec =
     bind_op (check_op (validate_uuid env launcher_id ''launcher idempotency key'')) (\<lambda>_.
     bind_op (read_op (\<lambda>st. Inr (get (dst_launchers st) launcher_id))) (\<lambda>existing.
       case existing of
         Some l \<Rightarrow>
           (let snapshot = launcher_to_snapshot l in
            if la_workspace_id snapshot = workspace_id \<and> la_name snapshot = lspec_name spec
               \<and> la_cwd snapshot = lspec_cwd spec \<and> la_command snapshot = lspec_command spec
            then return_op (snapshot, None)
            else fail_op (already_exists ''launcher idempotency key exists with a different definition''))
       | None \<Rightarrow>
           bind_op (check_op (validate_launcher_spec env spec)) (\<lambda>_.
           bind_op (find_workspace workspace_id) (\<lambda>workspace.
           let l = new_launcher workspace_id launcher_id spec in
           bind_op (insert_launcher workspace l) (\<lambda>_.
             return_op (launcher_to_snapshot l, Some (UndoCreatedLauncher workspace_id (wl_id l))))))))"

text \<open>\<open>next_workspace_name\<close>: the loop over the suffix ends at \<open>u64::MAX\<close>.\<close>

definition workspace_candidate :: "u64 \<Rightarrow> string" where
  "workspace_candidate suffix = ''workspace-'' @ show_u64 suffix"

function next_name_from :: "durable_state \<Rightarrow> u64 \<Rightarrow> string res" where
  "next_name_from st suffix =
     (if workspace_name_taken (workspace_candidate suffix) st
      then (case u64_checked_add suffix 1 of
              None \<Rightarrow> Inl (other_error ''workspace name space exhausted'')
            | Some suffix' \<Rightarrow> next_name_from st suffix')
      else Inr (workspace_candidate suffix))"
  by pat_completeness auto

termination
proof (relation "measure (\<lambda>(st, suffix). 2 ^ 64 - unat suffix)")
  fix st suffix suffix'
  assume "u64_checked_add suffix 1 = Some suffix'"
  then have "unat suffix' = unat suffix + 1" using unat_u64_checked_add by fastforce
  then show "((st, suffix'), st, suffix) \<in> measure (\<lambda>(st, suffix). 2 ^ 64 - unat suffix)"
    using unat_u64_bound [of suffix'] by simp
qed simp

declare next_name_from.simps [simp del]

definition next_workspace_name :: "durable_state \<Rightarrow> string res" where
  "next_workspace_name st = next_name_from st 1"

text \<open>\<open>create_shell_with_workspace\<close> tries again for as long as the name is taken.\<close>

partial_function (option) create_shell_in_new_workspace ::
    "registry_env \<Rightarrow> (nat \<Rightarrow> nat \<Rightarrow> string) \<Rightarrow> nat \<Rightarrow> shell_spec \<Rightarrow> durable_state
     \<Rightarrow> ((shell_snapshot \<times> durable_undo) res \<times> durable_state) option" where
  "create_shell_in_new_workspace env uuids attempt spec st =
     (case next_workspace_name st of
        Inl e \<Rightarrow> Some (Inl e, st)
      | Inr name \<Rightarrow>
          (case create_workspace env (uuids attempt 0) (\<lambda>n. uuids attempt (Suc n)) name
                  (Some (spec_cwd spec)) [spec] st of
             (Inr (workspace, undo), st') \<Rightarrow> Some (Inr (hd (ws_shells workspace), undo), st')
           | (Inl e, st') \<Rightarrow>
               if err_kind e = AlreadyExists
               then create_shell_in_new_workspace env uuids (Suc attempt) spec st'
               else Some (Inl e, st')))"

definition create_shell_with_workspace ::
    "registry_env \<Rightarrow> (nat \<Rightarrow> nat \<Rightarrow> string) \<Rightarrow> shell_spec \<Rightarrow> durable_state
     \<Rightarrow> ((shell_snapshot \<times> durable_undo) res \<times> durable_state) option" where
  "create_shell_with_workspace env uuids spec st = create_shell_in_new_workspace env uuids 0 spec st"

section \<open>Renaming\<close>

definition rename_workspace :: "string \<Rightarrow> string \<Rightarrow> durable_undo option dop" where
  "rename_workspace workspace_id name =
     bind_op (check_op (daemon_validate_name name)) (\<lambda>_.
     bind_op (find_workspace workspace_id) (\<lambda>workspace.
     bind_op (read_op (\<lambda>st.
         if \<exists>(i, w) \<in> set (dst_workspaces st). i \<noteq> workspace_id \<and> dw_name w = name
         then Inl (already_exists (''workspace name already exists: '' @ name)) else Inr ())) (\<lambda>_.
       if dw_name workspace = name then return_op None
       else bind_op (check_op (bump_revision (dw_revision workspace) ''workspace'')) (\<lambda>revision.
            bind_op (modify_op (upd_workspace workspace_id
                       (\<lambda>w. w\<lparr>dw_name := name, dw_revision := revision\<rparr>))) (\<lambda>_.
              return_op (Some (UndoRenamedWorkspace workspace_id
                (dw_name workspace) (dw_revision workspace))))))))"

definition set_workspace_default_cwd :: "registry_env \<Rightarrow> string \<Rightarrow> path \<Rightarrow> durable_undo option dop" where
  "set_workspace_default_cwd env workspace_id default_cwd =
     bind_op (check_op (validate_cwd env default_cwd)) (\<lambda>_.
     bind_op (find_workspace workspace_id) (\<lambda>workspace.
       if dw_default_cwd workspace = Some default_cwd then return_op None
       else bind_op (check_op (bump_revision (dw_revision workspace) ''workspace'')) (\<lambda>revision.
            bind_op (modify_op (upd_workspace workspace_id
                       (\<lambda>w. w\<lparr>dw_default_cwd := Some default_cwd, dw_revision := revision\<rparr>))) (\<lambda>_.
              return_op (Some (UndoSetWorkspaceDefaultCwd workspace_id
                (dw_default_cwd workspace) (dw_revision workspace)))))))"

definition rename_shell :: "string \<Rightarrow> string \<Rightarrow> durable_undo option dop" where
  "rename_shell shell_id name =
     bind_op (check_op (daemon_validate_name name)) (\<lambda>_.
     bind_op (find_shell shell_id) (\<lambda>s.
     bind_op (find_workspace (ds_workspace_id s)) (\<lambda>workspace.
     bind_op (read_op (\<lambda>st.
         if shell_name_taken (filter (\<lambda>i. i \<noteq> shell_id) (dw_shell_ids workspace)) name st
         then Inl (already_exists (''shell name already exists: '' @ name)) else Inr ())) (\<lambda>_.
       if ds_name s = name then return_op None
       else bind_op (check_op (bump_revision (ds_revision s) ''shell'')) (\<lambda>revision.
            bind_op (modify_op (upd_shell shell_id
                       (\<lambda>s. s\<lparr>ds_name := name, ds_revision := revision\<rparr>))) (\<lambda>_.
              return_op (Some (UndoRenamedShell shell_id (ds_name s) (ds_revision s)))))))))"

definition rename_launcher :: "string \<Rightarrow> string \<Rightarrow> durable_undo option dop" where
  "rename_launcher launcher_id name =
     bind_op (check_op (daemon_validate_name name)) (\<lambda>_.
     bind_op (find_launcher launcher_id) (\<lambda>l.
     bind_op (find_workspace (wl_workspace_id l)) (\<lambda>workspace.
     bind_op (read_op (\<lambda>st.
         if launcher_name_taken (filter (\<lambda>i. i \<noteq> launcher_id) (dw_launcher_ids workspace)) name st
         then Inl (already_exists (''workspace launcher name already exists: '' @ name)) else Inr ())) (\<lambda>_.
       if wl_name l = name then return_op None
       else bind_op (check_op (bump_revision (wl_revision l) ''workspace launcher'')) (\<lambda>revision.
            bind_op (modify_op (upd_launcher launcher_id
                       (\<lambda>l. l\<lparr>wl_name := name, wl_revision := revision\<rparr>))) (\<lambda>_.
              return_op (Some (UndoRenamedLauncher launcher_id (wl_name l) (wl_revision l)))))))))"

section \<open>Removing\<close>

definition remove_shell :: "string \<Rightarrow> durable_undo dop" where
  "remove_shell shell_id =
     bind_op (find_shell shell_id) (\<lambda>s.
     bind_op (find_workspace (ds_workspace_id s)) (\<lambda>workspace.
     bind_op (check_op (ok_or (position (\<lambda>i. i = shell_id) (dw_shell_ids workspace))
                         (daemon_not_found ''shell'' shell_id))) (\<lambda>index.
     bind_op (modify_op (\<lambda>st. st\<lparr>dst_shells := del shell_id (dst_shells st)\<rparr>)) (\<lambda>_.
     bind_op (modify_op (upd_workspace (ds_workspace_id s) (dw_shell_ids_update (remove_at index)))) (\<lambda>_.
     bind_op (bump_workspace (ds_workspace_id s)) (\<lambda>_.
       return_op (UndoRemovedShell (ds_workspace_id s) s index)))))))"

definition remove_launcher :: "string \<Rightarrow> (workspace_launcher \<times> durable_undo) dop" where
  "remove_launcher launcher_id =
     bind_op (find_launcher launcher_id) (\<lambda>l.
     bind_op (find_workspace (wl_workspace_id l)) (\<lambda>workspace.
     bind_op (check_op (ok_or (position (\<lambda>i. i = launcher_id) (dw_launcher_ids workspace))
                         (daemon_not_found ''workspace launcher'' launcher_id))) (\<lambda>index.
     bind_op (modify_op (\<lambda>st. st\<lparr>dst_launchers := del launcher_id (dst_launchers st)\<rparr>)) (\<lambda>_.
     bind_op (modify_op (upd_workspace (wl_workspace_id l) (dw_launcher_ids_update (remove_at index)))) (\<lambda>_.
     bind_op (bump_workspace (wl_workspace_id l)) (\<lambda>_.
       return_op (l, UndoRemovedLauncher (wl_workspace_id l) l index)))))))"

definition remove_workspace :: "string \<Rightarrow> durable_undo dop" where
  "remove_workspace workspace_id =
     bind_op (find_workspace workspace_id) (\<lambda>workspace.
     bind_op (read_op (\<lambda>st. Inr (List.map_filter (get (dst_shells st)) (dw_shell_ids workspace),
                                List.map_filter (get (dst_launchers st)) (dw_launcher_ids workspace),
                                List.map_filter (get (dst_agents st)) (dw_agent_ids workspace))))
       (\<lambda>(shells, launchers, agents).
     bind_op (modify_op (\<lambda>st. st\<lparr>
         dst_workspaces := del workspace_id (dst_workspaces st),
         dst_shells := fold del (dw_shell_ids workspace) (dst_shells st),
         dst_launchers := fold del (dw_launcher_ids workspace) (dst_launchers st),
         dst_agents := fold del (dw_agent_ids workspace) (dst_agents st)\<rparr>)) (\<lambda>_.
       return_op (UndoRemovedWorkspace workspace shells launchers agents))))"

end
