(* ===== verification/Durable_Agents.thy ===== *)
theory Durable_Agents
  imports Durable_Ops
begin

text \<open>
  The Agents of a Node: \<open>register_agent\<close>, \<open>ensure_agent\<close>, \<open>report_agent\<close>,
  \<open>observe_agent_working_context\<close>, \<open>acknowledge_agent_attention\<close>, the choice of the Agent to resume
  (\<open>resumable_agent\<close>) and what a journal of Shell starts replays, in \<open>src/src/daemon.rs\<close>. The clock
  (\<open>unix_time_ms\<close>) and new UUIDs are arguments.
\<close>

type_synonym 'a ddop = "(daemon_error, 'a) op"

text \<open>The \<open>?\<close> on an \<open>io::Result\<close> where the function returns a \<open>DaemonResult\<close>.\<close>

definition io_op :: "'a dop \<Rightarrow> 'a ddop" where
  "io_op m st = (case m st of (Inl e, st') \<Rightarrow> (Inl (daemon_error_of e), st') | (Inr x, st') \<Rightarrow> (Inr x, st'))"

lemma io_op_Inr [op_simps]: "io_op m st = (Inr x, st') \<longleftrightarrow> m st = (Inr x, st')"
  by (auto simp: io_op_def split: prod.split sum.split)

lemma io_op_Inl [op_simps]:
  "io_op m st = (Inl e, st') \<longleftrightarrow> (\<exists>source. m st = (Inl source, st') \<and> e = daemon_error_of source)"
  by (auto simp: io_op_def split: prod.split sum.split)

section \<open>Observations\<close>

definition observation_matches_report :: "agent_observation_snapshot \<Rightarrow> agent_report \<Rightarrow> bool" where
  "observation_matches_report obs report \<longleftrightarrow>
     obs_state obs = rep_state report \<and> obs_authority obs = rep_authority report
     \<and> obs_evidence obs = rep_evidence report \<and> obs_confidence obs = rep_confidence report"

definition attention_for_observation :: "agent_observation_snapshot \<Rightarrow> agent_attention_snapshot option" where
  "attention_for_observation obs =
     (case obs_state obs of
        AgBlocked \<Rightarrow> Some \<lparr>att_reason = AttentionBlocked, att_observation = obs\<rparr>
      | AgDone \<Rightarrow> Some \<lparr>att_reason = AttentionCompleted, att_observation = obs\<rparr>
      | _ \<Rightarrow> None)"

fun agent_authority_rank :: "agent_authority \<Rightarrow> nat" where
  "agent_authority_rank LifecycleIntegration = 3"
| "agent_authority_rank ProcessAdapter = 2"
| "agent_authority_rank TerminalHeuristic = 1"
| "agent_authority_rank DaemonLifecycle = 4"

section \<open>Registering\<close>

definition running_run :: "shell \<Rightarrow> shell_run_snapshot option" where
  "running_run s = (case ds_lifecycle s of LcRunning run \<Rightarrow> Some run | _ \<Rightarrow> None)"

definition require_active_run :: "string \<Rightarrow> string \<Rightarrow> shell \<Rightarrow> unit daemon_result" where
  "require_active_run shell_id rid s =
     (case ds_lifecycle s of
        LcRunning run \<Rightarrow>
          if run_id run = rid then Inr ()
          else Inl (de_lifecycle EcRunChanged ''shell does not have the requested active run'')
      | LcClosed \<Rightarrow> Inl (daemon_error_of (daemon_not_found ''shell'' shell_id))
      | _ \<Rightarrow> Inl (de_lifecycle EcRunChanged ''shell does not have the requested active run''))"

definition new_agent :: "u64 \<Rightarrow> string \<Rightarrow> shell \<Rightarrow> string \<Rightarrow> agent_registration_spec \<Rightarrow> agent_instance" where
  "new_agent now new_id s rid spec =
     (let report = reg_report spec;
          obs = \<lparr>obs_revision = 1, obs_state = rep_state report, obs_authority = rep_authority report,
                 obs_evidence = rep_evidence report, obs_confidence = rep_confidence report,
                 obs_observed_at_ms = now\<rparr>
      in \<lparr>ai_id = new_id, ai_workspace_id = ds_workspace_id s, ai_shell_id = ds_id s, ai_run_id = rid,
          ai_name = reg_name spec, ai_integration = reg_integration spec,
          ai_external_session_id = reg_external_session_id spec, ai_cwd = Some (ds_cwd s),
          ai_started_at_ms = now,
          ai_state = \<lparr>as_ended_at_ms = (if rep_state report = AgDone then Some now else None),
                      as_observation = obs, as_attention = attention_for_observation obs,
                      as_working_contexts = []\<rparr>\<rparr>)"

definition register_agent ::
    "u64 \<Rightarrow> string \<Rightarrow> string \<Rightarrow> string \<Rightarrow> agent_registration_spec
     \<Rightarrow> (agent_instance_snapshot \<times> durable_undo) ddop" where
  "register_agent now new_id shell_id rid spec =
     bind_op (io_op (check_op (validate_agent_registration spec))) (\<lambda>_.
     bind_op (io_op (check_op (validate_external_agent_authority (rep_authority (reg_report spec))))) (\<lambda>_.
     bind_op (io_op (find_shell shell_id)) (\<lambda>s.
     bind_op (io_op (find_workspace (ds_workspace_id s))) (\<lambda>workspace.
     let agent = new_agent now new_id s rid spec in
     bind_op (check_op (require_active_run shell_id rid s)) (\<lambda>_.
     bind_op (modify_op (\<lambda>st. st\<lparr>dst_agents := put new_id agent (dst_agents st)\<rparr>)) (\<lambda>_.
     bind_op (modify_op (upd_workspace (ds_workspace_id s) (dw_agent_ids_update (\<lambda>ids. ids @ [new_id])))) (\<lambda>_.
     bind_op (io_op (bump_workspace (ds_workspace_id s))) (\<lambda>_.
       return_op (agent_to_snapshot agent, UndoRegisteredAgent (ds_workspace_id s) new_id)))))))))"

definition ensure_matches :: "string \<Rightarrow> string \<Rightarrow> string \<Rightarrow> string \<Rightarrow> durable_state \<Rightarrow> agent_instance list" where
  "ensure_matches shell_id rid integration external_session_id st =
     filter (\<lambda>a. ai_integration a = integration \<and> ai_external_session_id a = Some external_session_id
                 \<and> ai_shell_id a = shell_id \<and> ai_run_id a = rid) (objects (dst_agents st))"

definition ensured_agent :: "agent_instance list \<Rightarrow> agent_instance option daemon_result" where
  "ensured_agent agents =
     (case agents of
        [] \<Rightarrow> Inr None
      | [a] \<Rightarrow> Inr (Some a)
      | _ \<Rightarrow>
          (case filter (\<lambda>a. as_ended_at_ms (ai_state a) = None) agents of
             [a] \<Rightarrow> Inr (Some a)
           | _ \<Rightarrow> Inl (daemon_error_of
                    (already_exists ''multiple agent instances match the ensured identity''))))"

definition ensure_agent ::
    "u64 \<Rightarrow> string \<Rightarrow> string \<Rightarrow> string \<Rightarrow> agent_registration_spec
     \<Rightarrow> (agent_instance_snapshot \<times> bool \<times> durable_undo option) ddop" where
  "ensure_agent now new_id shell_id rid spec =
     bind_op (io_op (check_op (validate_agent_registration spec))) (\<lambda>_.
     bind_op (io_op (check_op (validate_external_agent_authority (rep_authority (reg_report spec))))) (\<lambda>_.
     bind_op (io_op (check_op (ok_or (reg_external_session_id spec)
                (invalid_input ''agent external_session_id is required for ensure'')))) (\<lambda>session.
     bind_op (read_op (\<lambda>st. ensured_agent (ensure_matches shell_id rid (reg_integration spec) session st)))
       (\<lambda>existing.
       case existing of
         Some a \<Rightarrow> return_op (agent_to_snapshot a, False, None)
       | None \<Rightarrow>
           bind_op (register_agent now new_id shell_id rid spec) (\<lambda>(agent, undo).
             return_op (agent, True, Some undo))))))"

section \<open>Reporting\<close>

definition run_bound :: "string \<Rightarrow> agent_instance \<Rightarrow> unit daemon_result" where
  "run_bound rid a =
     (if ai_run_id a = rid then Inr ()
      else Inl (de_lifecycle EcRunChanged ''agent instance is bound to a different shell run''))"

definition report_is_stale :: "agent_observation_snapshot \<Rightarrow> agent_report \<Rightarrow> bool" where
  "report_is_stale obs report \<longleftrightarrow>
     observation_matches_report obs report
     \<or> (obs_state obs = AgWorking \<and> rep_state report = AgWorking
        \<and> obs_authority obs = rep_authority report \<and> obs_confidence obs = rep_confidence report)
     \<or> agent_authority_rank (rep_authority report) < agent_authority_rank (obs_authority obs)"

text \<open>The Agent's state once a report has been accepted with the next revision.\<close>

definition reported_state :: "u64 \<Rightarrow> u64 \<Rightarrow> agent_report \<Rightarrow> agent_instance \<Rightarrow> agent_instance_state" where
  "reported_state now revision report a =
     (let st = ai_state a;
          observed = max (max now (ai_started_at_ms a)) (obs_observed_at_ms (as_observation st));
          obs = \<lparr>obs_revision = revision, obs_state = rep_state report, obs_authority = rep_authority report,
                 obs_evidence = rep_evidence report, obs_confidence = rep_confidence report,
                 obs_observed_at_ms = observed\<rparr>
      in st\<lparr>as_observation := obs,
            as_attention :=
              (case attention_for_observation obs of
                 Some attention \<Rightarrow> Some attention
               | None \<Rightarrow>
                   if obs_state obs = AgWorking
                      \<and> (case as_attention st of Some t \<Rightarrow> att_reason t = AttentionBlocked | None \<Rightarrow> False)
                   then None else as_attention st),
            as_ended_at_ms := (if rep_state report = AgDone then Some observed else as_ended_at_ms st)\<rparr>)"

definition report_agent ::
    "u64 \<Rightarrow> string \<Rightarrow> string \<Rightarrow> agent_report
     \<Rightarrow> (agent_instance_snapshot \<times> bool \<times> bool \<times> durable_undo option) ddop" where
  "report_agent now agent_id rid report =
     bind_op (io_op (check_op (validate_agent_report report))) (\<lambda>_.
     bind_op (io_op (check_op (validate_external_agent_authority (rep_authority report)))) (\<lambda>_.
     bind_op (io_op (find_agent agent_id)) (\<lambda>a.
     bind_op (check_op (run_bound rid a)) (\<lambda>_.
     let st = ai_state a; obs = as_observation st in
     if as_ended_at_ms st \<noteq> None then
       (if observation_matches_report obs report
        then return_op (agent_snapshot_from a st, False, True, None)
        else fail_op (daemon_error_of (invalid_input ''completed agent instance cannot be reported again'')))
     else if report_is_stale obs report then return_op (agent_snapshot_from a st, False, False, None)
     else
       bind_op (io_op (check_op (ok_or (u64_checked_add (obs_revision obs) 1)
                  (other_error ''agent observation revision exhausted'')))) (\<lambda>revision.
       let st' = reported_state now revision report a in
       bind_op (modify_op (upd_agent agent_id (\<lambda>a. a\<lparr>ai_state := st'\<rparr>))) (\<lambda>_.
         return_op (agent_snapshot_from a st', True, rep_state report = AgDone,
                    Some (UndoAgentState agent_id st))))))))"

definition same_context :: "agent_working_context_snapshot \<Rightarrow> agent_working_context_snapshot \<Rightarrow> bool" where
  "same_context c d \<longleftrightarrow>
     wc_worktree_root c = wc_worktree_root d \<and> wc_repository c = wc_repository d \<and> wc_branch c = wc_branch d"

definition first_context :: "agent_instance_state \<Rightarrow> agent_working_context_snapshot option" where
  "first_context st = (case as_working_contexts st of [] \<Rightarrow> None | c # _ \<Rightarrow> Some c)"

definition context_time :: "u64 \<Rightarrow> agent_instance \<Rightarrow> u64" where
  "context_time now a =
     max (max (max now (ai_started_at_ms a)) (obs_observed_at_ms (as_observation (ai_state a))))
       (case first_context (ai_state a) of None \<Rightarrow> 0 | Some c \<Rightarrow> wc_observed_at_ms c)"

definition push_context ::
    "agent_working_context_snapshot \<Rightarrow> agent_working_context_snapshot list
     \<Rightarrow> agent_working_context_snapshot list" where
  "push_context c contexts =
     take max_agent_working_contexts
       (c # filter (\<lambda>d. wc_worktree_root d \<noteq> wc_worktree_root c) contexts)"

definition observe_agent_working_context ::
    "registry_env \<Rightarrow> u64 \<Rightarrow> string \<Rightarrow> string \<Rightarrow> string \<Rightarrow> agent_working_context_snapshot
     \<Rightarrow> (agent_instance_snapshot \<times> bool \<times> durable_undo option) ddop" where
  "observe_agent_working_context env now agent_id shell_id rid c =
     bind_op (io_op (check_op (validate_working_context env c))) (\<lambda>_.
     bind_op (io_op (find_agent agent_id)) (\<lambda>a.
     bind_op (check_op (if ai_shell_id a = shell_id then Inr ()
                        else Inl (de_lifecycle EcRunChanged
                               ''agent instance is bound to a different shell''))) (\<lambda>_.
     bind_op (check_op (run_bound rid a)) (\<lambda>_.
     bind_op (io_op (find_shell shell_id)) (\<lambda>s.
     bind_op (check_op (case running_run s of
                          Some run \<Rightarrow>
                            if run_id run = rid then Inr ()
                            else Inl (de_lifecycle EcRunChanged
                                   ''shell does not have the requested active run'')
                        | None \<Rightarrow> Inl (de_lifecycle EcRunChanged
                                   ''shell does not have the requested active run''))) (\<lambda>_.
     let st = ai_state a in
     if (case first_context st of Some d \<Rightarrow> same_context d c | None \<Rightarrow> False)
     then return_op (agent_snapshot_from a st, False, None)
     else
       (let c' = c\<lparr>wc_observed_at_ms := context_time now a\<rparr>;
            st' = st\<lparr>as_working_contexts := push_context c' (as_working_contexts st)\<rparr> in
        bind_op (modify_op (upd_agent agent_id (\<lambda>a. a\<lparr>ai_state := st'\<rparr>))) (\<lambda>_.
          return_op (agent_snapshot_from a st', True, Some (UndoAgentState agent_id st))))))))))"

definition acknowledge_agent_attention ::
    "string \<Rightarrow> u64 \<Rightarrow> (agent_instance_snapshot \<times> bool \<times> durable_undo option) ddop" where
  "acknowledge_agent_attention agent_id observation_revision =
     bind_op (io_op (find_agent agent_id)) (\<lambda>a.
     let st = ai_state a in
     case as_attention st of
       None \<Rightarrow> return_op (agent_snapshot_from a st, False, None)
     | Some attention \<Rightarrow>
         if obs_revision (att_observation attention) \<noteq> observation_revision
         then fail_op (de_lifecycle EcRevisionAhead
                (''agent attention observation revision is '' @ show_u64 (obs_revision (att_observation attention))
                 @ ''; acknowledgment supplied '' @ show_u64 observation_revision))
         else
           (let st' = st\<lparr>as_attention := None\<rparr> in
            bind_op (modify_op (upd_agent agent_id (\<lambda>a. a\<lparr>ai_state := st'\<rparr>))) (\<lambda>_.
              return_op (agent_snapshot_from a st', True, Some (UndoAgentState agent_id st)))))"

section \<open>Resuming\<close>

text \<open>
  \<open>resumes integration\<close> says that the integration is known and can resume, \<open>command\<close> is the
  command it builds; both come from \<open>src/src/integrations.rs\<close>.
\<close>

record resume_support =
  rs_resumes :: "string \<Rightarrow> bool"
  rs_command :: "string \<Rightarrow> string list \<Rightarrow> string \<Rightarrow> string list option"

definition resume_identity ::
    "resume_support \<Rightarrow> agent_instance \<Rightarrow> shell \<Rightarrow> persisted_shell_run \<Rightarrow> (string \<times> string) option" where
  "resume_identity rs a s previous_run =
     (if ai_workspace_id a \<noteq> ds_workspace_id s \<or> ai_shell_id a \<noteq> ds_id s
         \<or> ai_run_id a \<noteq> psr_id previous_run \<or> ai_cwd a \<noteq> Some (ds_cwd s)
         \<or> \<not> rs_resumes rs (ai_integration a)
      then None
      else case opt_filter (\<lambda>i. i \<noteq> []) (ai_external_session_id a) of
             None \<Rightarrow> None
           | Some session \<Rightarrow>
               (let st = ai_state a in
                if as_ended_at_ms st \<noteq> None
                   \<or> obs_authority (as_observation st) \<noteq> LifecycleIntegration
                   \<or> obs_state (as_observation st) = AgDone
                then None else Some (ai_integration a, session)))"

record resumable_agent =
  ra_agent_id :: string
  ra_integration :: string
  ra_external_session_id :: string
  ra_command :: "string list"

definition resume_candidates ::
    "resume_support \<Rightarrow> durable_state \<Rightarrow> shell \<Rightarrow> persisted_shell_run
     \<Rightarrow> (string \<times> (string \<times> string) \<times> bool) list" where
  "resume_candidates rs st s previous_run =
     List.map_filter (\<lambda>a. map_option (\<lambda>identity. (ai_id a, identity,
         obs_state (as_observation (ai_state a)) = AgInactive)) (resume_identity rs a s previous_run))
       (objects (dst_agents st))"

definition active_candidates ::
    "(string \<times> (string \<times> string) \<times> bool) list \<Rightarrow> (string \<times> (string \<times> string) \<times> bool) list" where
  "active_candidates candidates =
     (if list_ex (\<lambda>(_, _, inactive). \<not> inactive) candidates
      then filter (\<lambda>(_, _, inactive). \<not> inactive) candidates else candidates)"

definition identity_elsewhere ::
    "resume_support \<Rightarrow> durable_state \<Rightarrow> shell \<Rightarrow> string \<times> string \<Rightarrow> bool" where
  "identity_elsewhere rs st s identity \<longleftrightarrow>
     list_ex (\<lambda>other. ds_id other \<noteq> ds_id s
       \<and> (case ds_last_run other of
            None \<Rightarrow> False
          | Some last_run \<Rightarrow>
              list_ex (\<lambda>a. resume_identity rs a other last_run = Some identity) (objects (dst_agents st))))
       (objects (dst_shells st))"

definition resumable_agent_for ::
    "resume_support \<Rightarrow> shell \<Rightarrow> persisted_shell_run \<Rightarrow> durable_state \<Rightarrow> resumable_agent option" where
  "resumable_agent_for rs s previous_run st =
     (case active_candidates (resume_candidates rs st s previous_run) of
        [(agent_id, (integration, session), _)] \<Rightarrow>
          if identity_elsewhere rs st s (integration, session) then None
          else map_option (\<lambda>command.
                 \<lparr>ra_agent_id = agent_id, ra_integration = integration, ra_external_session_id = session,
                  ra_command = command\<rparr>) (rs_command rs integration (ds_command s) session)
      | _ \<Rightarrow> None)"

section \<open>What a journal of Shell starts replays\<close>

definition same_started_run :: "persisted_shell_run \<Rightarrow> persisted_shell_run \<Rightarrow> bool" where
  "same_started_run existing run \<longleftrightarrow>
     psr_id existing = psr_id run \<and> psr_started_at_ms existing = psr_started_at_ms run
     \<and> psr_output_revision run \<le> psr_output_revision existing
     \<and> psr_environment_has_run_id existing = psr_environment_has_run_id run
     \<and> tp_term (psr_profile existing) = tp_term (psr_profile run)
     \<and> tp_colorterm (psr_profile existing) = tp_colorterm (psr_profile run)
     \<and> tp_term_program (psr_profile existing) = tp_term_program (psr_profile run)
     \<and> tp_term_program_version (psr_profile existing) = tp_term_program_version (psr_profile run)"

definition replay_interrupted_shell_start ::
    "registry_env \<Rightarrow> u64 \<Rightarrow> string \<Rightarrow> persisted_shell_run \<Rightarrow> unit dop" where
  "replay_interrupted_shell_start env now shell_id run =
     bind_op (check_op (validate_uuid env shell_id ''journal Shell ID'')) (\<lambda>_.
     bind_op (check_op (validate_uuid env (psr_id run) ''journal ShellRun ID'')) (\<lambda>_.
     bind_op (check_op (validate_terminal_profile (psr_profile run))) (\<lambda>_.
     if psr_generation run = 0 \<or> psr_ended_at_ms run \<noteq> None \<or> psr_exit_reason run \<noteq> None
     then fail_op (invalid ''local Shell start journal contains an invalid active run'')
     else
       bind_op (read_op (\<lambda>st. ok_or (get (dst_shells st) shell_id)
                                 (daemon_not_found ''journal Shell'' shell_id))) (\<lambda>s.
       bind_op (read_op (\<lambda>st.
           if list_ex (\<lambda>other. ds_id other \<noteq> shell_id
                \<and> (case ds_last_run other of Some other_run \<Rightarrow> psr_id other_run = psr_id run | None \<Rightarrow> False))
                (objects (dst_shells st))
           then Inl (invalid ''local Shell start journal reuses a ShellRun ID'') else Inr ())) (\<lambda>_.
       let interrupted = run\<lparr>psr_ended_at_ms := Some (max now (psr_started_at_ms run)),
                              psr_exit_reason := Some ReasonInterrupted\<rparr>;
           install = modify_op (upd_shell shell_id (\<lambda>s. s\<lparr>ds_last_run := Some interrupted\<rparr>)) in
       case ds_last_run s of
         None \<Rightarrow> install
       | Some existing \<Rightarrow>
           if psr_generation existing = psr_generation run then
             (if same_started_run existing run then return_op ()
              else fail_op (invalid ''local Shell start journal conflicts with persisted run history''))
           else if psr_generation run < psr_generation existing then return_op ()
           else install)))))"

definition clear_terminal_histories :: "bool dop" where
  "clear_terminal_histories =
     bind_op (read_op (\<lambda>st. Inr (list_ex (\<lambda>s. case ds_last_run s of
                                   Some run \<Rightarrow> psr_terminal_history run \<noteq> None | None \<Rightarrow> False)
                                 (objects (dst_shells st))))) (\<lambda>changed.
     bind_op (modify_op (\<lambda>st. st\<lparr>dst_shells := map (\<lambda>(i, s).
         (i, s\<lparr>ds_last_run := map_option (psr_terminal_history_update (\<lambda>_. None)) (ds_last_run s)\<rparr>))
         (dst_shells st)\<rparr>)) (\<lambda>_. return_op changed))"

definition notification_context :: "string \<Rightarrow> string \<Rightarrow> durable_state \<Rightarrow> string \<times> string" where
  "notification_context workspace_id shell_id st =
     ((case get (dst_workspaces st) workspace_id of Some w \<Rightarrow> dw_name w | None \<Rightarrow> ''unknown''),
      (case get (dst_shells st) shell_id of Some s \<Rightarrow> ds_name s | None \<Rightarrow> ''removed''))"

end
