(* ===== verification/Durable_Requests.thy ===== *)
theory Durable_Requests
  imports Durable_Agents
begin

text \<open>
  The requests that change the durable state, as \<open>DaemonService::handle_request\<close> in
  \<open>src/src/daemon.rs\<close> serves them: each is an operation on the log of undo records
  (\<open>DurableUndoLog\<close>) and the state, and says what to answer and which events to publish.
  \<open>DaemonService::durable_mutation_outcome\<close>, which runs it, is in \<open>Durable_Transaction\<close>.

  What a request takes from elsewhere is its \<open>request_inputs\<close>: new UUIDs, the clock, and what the
  file system and Git say of a path.
\<close>

section \<open>Operations with a log\<close>

text \<open>\<open>None\<close> is an operation that does not return.\<close>

type_synonym 'a lop =
  "durable_undo list \<times> durable_state \<Rightarrow> ((daemon_error + 'a) \<times> durable_undo list \<times> durable_state) option"

definition bind_log :: "'a lop \<Rightarrow> ('a \<Rightarrow> 'b lop) \<Rightarrow> 'b lop" where
  "bind_log m f s =
     (case m s of
        None \<Rightarrow> None
      | Some (Inl e, s') \<Rightarrow> Some (Inl e, s')
      | Some (Inr x, s') \<Rightarrow> f x s')"

definition return_log :: "'a \<Rightarrow> 'a lop" where
  "return_log x s = Some (Inr x, s)"

text \<open>\<open>let x = m?; undo.record(..)\<close>, with the records that \<open>m\<close> leaves.\<close>

definition recorded :: "('a \<Rightarrow> durable_undo list) \<Rightarrow> ((daemon_error + 'a) \<times> durable_state)
    \<Rightarrow> durable_undo list \<Rightarrow> (daemon_error + 'a) \<times> durable_undo list \<times> durable_state" where
  "recorded records r log =
     (case r of
        (Inl e, st') \<Rightarrow> (Inl e, log, st')
      | (Inr x, st') \<Rightarrow> (Inr x, log @ records x, st'))"

definition do_op :: "('a \<Rightarrow> durable_undo list) \<Rightarrow> 'a ddop \<Rightarrow> 'a lop" where
  "do_op records m = (\<lambda>(log, st). Some (recorded records (m st) log))"

abbreviation look :: "'a ddop \<Rightarrow> 'a lop" where
  "look \<equiv> do_op (\<lambda>_. [])"

abbreviation record_of :: "durable_undo option \<Rightarrow> durable_undo list" where
  "record_of u \<equiv> case u of None \<Rightarrow> [] | Some u \<Rightarrow> [u]"

section \<open>Requests\<close>

datatype durable_request =
    RqAcknowledgeAgentAttention string u64
  | RqCreateWorkspace string "path option" "shell_spec list"
  | RqCreateWorkspaceShell string string "path option" string shell_spec
  | RqCreateWorkspaceLauncher string string "path option" string workspace_launcher_spec
  | RqCreateShell "string option" shell_spec
  | RqCreateLauncher string workspace_launcher_spec
  | RqRegisterAgent string string agent_registration_spec
  | RqEnsureAgent string string agent_registration_spec
  | RqReportAgent string string agent_report
  | RqObserveAgentWorkingContext string string string path
  | RqRenameWorkspace string string
  | RqGuardedRenameWorkspace string string u64
  | RqGuardedSetWorkspaceDefaultCwd string u64 path
  | RqRenameShell string string
  | RqGuardedRenameShell string string u64
  | RqRenameLauncher string string
  | RqGuardedRenameLauncher string string u64
  | RqRemoveLauncher string
  | RqGuardedRemoveLauncher string u64

datatype durable_response =
    RespOk
  | RespWorkspace workspace_snapshot
  | RespShell shell_snapshot
  | RespLauncher workspace_launcher_snapshot
  | RespAgent agent_instance_snapshot
  | RespAgentAttentionAcknowledged agent_instance_snapshot bool
  | RespAgentWorkingContext agent_instance_snapshot bool

datatype 'a durable_mutation = Changed 'a "daemon_event_kind list" | Unchanged 'a

record request_inputs =
  rq_new_id :: string
  rq_shell_ids :: "nat \<Rightarrow> string"
  rq_uuids :: "nat \<Rightarrow> nat \<Rightarrow> string"
  rq_now :: u64
  rq_inspect :: "path \<Rightarrow> agent_working_context_snapshot option res"
  rq_resolve :: "path \<Rightarrow> path res"

definition require_guard :: "u64 \<Rightarrow> u64 \<Rightarrow> string \<Rightarrow> unit daemon_result" where
  "require_guard actual expected resource =
     (if actual = expected then Inr ()
      else Inl (de_lifecycle EcRevisionAhead
             (resource @ '' revision is '' @ show_u64 actual @ ''; guarded operation supplied ''
              @ show_u64 expected)))"

definition workspace_created_events :: "workspace_snapshot \<Rightarrow> daemon_event_kind list" where
  "workspace_created_events workspace =
     EvWorkspaceCreated (ws_id workspace) (ws_name workspace)
     # map (\<lambda>s. EvShellCreated (ws_id workspace) (sh_id s) (sh_name s)) (ws_shells workspace)"

text \<open>The snapshots that a handler takes of an object it has found.\<close>

definition snapshot_workspace :: "registry_env \<Rightarrow> string \<Rightarrow> workspace_snapshot ddop" where
  "snapshot_workspace env i =
     io_op (bind_op (find_workspace i) (\<lambda>w. read_op (\<lambda>st. workspace_to_snapshot env st w)))"

definition snapshot_shell :: "registry_env \<Rightarrow> string \<Rightarrow> shell_snapshot ddop" where
  "snapshot_shell env i = io_op (bind_op (find_shell i) (\<lambda>s. check_op (shell_to_snapshot env s)))"

definition snapshot_launcher :: "string \<Rightarrow> workspace_launcher_snapshot ddop" where
  "snapshot_launcher i = io_op (bind_op (find_launcher i) (\<lambda>l. return_op (launcher_to_snapshot l)))"

section \<open>Handlers\<close>

definition acknowledge_handler :: "string \<Rightarrow> u64 \<Rightarrow> durable_response durable_mutation lop" where
  "acknowledge_handler agent_id observation_revision =
     bind_log (do_op (\<lambda>(_, _, u). record_of u) (acknowledge_agent_attention agent_id observation_revision))
       (\<lambda>(agent, changed, _).
       return_log
         (if \<not> changed then Unchanged (RespAgentAttentionAcknowledged agent changed)
          else Changed (RespAgentAttentionAcknowledged agent changed)
                 [EvAgentAttentionAcknowledged (ag_workspace_id agent) (ag_shell_id agent) agent]))"

definition create_workspace_handler ::
    "registry_env \<Rightarrow> request_inputs \<Rightarrow> string \<Rightarrow> path option \<Rightarrow> shell_spec list
     \<Rightarrow> durable_response durable_mutation lop" where
  "create_workspace_handler env rq name default_cwd shells =
     bind_log (do_op (\<lambda>(_, u). [u])
                 (io_op (create_workspace env (rq_new_id rq) (rq_shell_ids rq) name default_cwd shells)))
       (\<lambda>(workspace, _). return_log (Changed (RespWorkspace workspace) (workspace_created_events workspace)))"

definition create_workspace_shell_handler ::
    "registry_env \<Rightarrow> string \<Rightarrow> string \<Rightarrow> path option \<Rightarrow> string \<Rightarrow> shell_spec
     \<Rightarrow> durable_response durable_mutation lop" where
  "create_workspace_shell_handler env workspace_id workspace_name default_cwd shell_id spec =
     bind_log (do_op (\<lambda>(_, u). record_of u)
                 (io_op (create_workspace_exact env workspace_id workspace_name default_cwd)))
       (\<lambda>(workspace, workspace_undo).
     bind_log (do_op (\<lambda>(_, u). record_of u) (io_op (create_shell_exact env workspace_id shell_id spec)))
       (\<lambda>(s, shell_undo).
       return_log
         (if workspace_undo = None \<and> shell_undo = None then Unchanged (RespShell s)
          else Changed (RespShell s)
            ((if workspace_undo \<noteq> None then [EvWorkspaceCreated (ws_id workspace) (ws_name workspace)] else [])
             @ (if shell_undo \<noteq> None then [EvShellCreated workspace_id (sh_id s) (sh_name s)] else [])))))"

definition create_workspace_launcher_handler ::
    "registry_env \<Rightarrow> string \<Rightarrow> string \<Rightarrow> path option \<Rightarrow> string \<Rightarrow> workspace_launcher_spec
     \<Rightarrow> durable_response durable_mutation lop" where
  "create_workspace_launcher_handler env workspace_id workspace_name default_cwd launcher_id spec =
     bind_log (do_op (\<lambda>(_, u). record_of u)
                 (io_op (create_workspace_exact env workspace_id workspace_name default_cwd)))
       (\<lambda>(workspace, workspace_undo).
     bind_log (do_op (\<lambda>(_, u). record_of u) (io_op (create_launcher_exact env workspace_id launcher_id spec)))
       (\<lambda>(l, launcher_undo).
       return_log
         (if workspace_undo = None \<and> launcher_undo = None then Unchanged (RespLauncher l)
          else Changed (RespLauncher l)
            ((if workspace_undo \<noteq> None then [EvWorkspaceCreated (ws_id workspace) (ws_name workspace)] else [])
             @ (if launcher_undo \<noteq> None then [EvLauncherCreated workspace_id (la_id l) (la_name l)] else [])))))"

text \<open>\<open>create_shell_mutation\<close> without a Workspace makes one, and may try more than once.\<close>

definition create_implicit_shell :: "registry_env \<Rightarrow> request_inputs \<Rightarrow> shell_spec \<Rightarrow> shell_snapshot lop" where
  "create_implicit_shell env rq spec =
     (\<lambda>(log, st).
        case create_shell_with_workspace env (rq_uuids rq) spec st of
          None \<Rightarrow> None
        | Some (Inl e, st') \<Rightarrow> Some (Inl (daemon_error_of e), log, st')
        | Some (Inr (s, u), st') \<Rightarrow> Some (Inr s, log @ [u], st'))"

definition create_shell_handler ::
    "registry_env \<Rightarrow> request_inputs \<Rightarrow> string option \<Rightarrow> shell_spec
     \<Rightarrow> durable_response durable_mutation lop" where
  "create_shell_handler env rq workspace_id spec =
     (case workspace_id of
        Some workspace_id \<Rightarrow>
          bind_log (do_op (\<lambda>(_, u). [u]) (io_op (create_shell env (rq_new_id rq) workspace_id spec)))
            (\<lambda>(s, _). return_log
               (Changed (RespShell s) [EvShellCreated (sh_workspace_id s) (sh_id s) (sh_name s)]))
      | None \<Rightarrow>
          bind_log (create_implicit_shell env rq spec) (\<lambda>s.
          bind_log (look (io_op (find_workspace (sh_workspace_id s)))) (\<lambda>workspace.
            return_log (Changed (RespShell s)
              [EvWorkspaceCreated (dw_id workspace) (dw_name workspace),
               EvShellCreated (sh_workspace_id s) (sh_id s) (sh_name s)]))))"

definition create_launcher_handler ::
    "registry_env \<Rightarrow> request_inputs \<Rightarrow> string \<Rightarrow> workspace_launcher_spec
     \<Rightarrow> durable_response durable_mutation lop" where
  "create_launcher_handler env rq workspace_id spec =
     bind_log (do_op (\<lambda>(_, u). [u]) (io_op (create_launcher env (rq_new_id rq) workspace_id spec)))
       (\<lambda>(l, _). return_log
          (Changed (RespLauncher l) [EvLauncherCreated workspace_id (la_id l) (la_name l)]))"

definition agent_registered_events :: "agent_instance_snapshot \<Rightarrow> daemon_event_kind list" where
  "agent_registered_events agent =
     EvAgentRegistered (ag_workspace_id agent) (ag_shell_id agent) agent
     # (if ag_ended_at_ms agent \<noteq> None
        then [EvAgentCompleted (ag_workspace_id agent) (ag_shell_id agent) agent] else [])"

definition register_agent_handler ::
    "request_inputs \<Rightarrow> string \<Rightarrow> string \<Rightarrow> agent_registration_spec \<Rightarrow> durable_response durable_mutation lop" where
  "register_agent_handler rq shell_id rid spec =
     bind_log (do_op (\<lambda>(_, u). [u]) (register_agent (rq_now rq) (rq_new_id rq) shell_id rid spec))
       (\<lambda>(agent, _). return_log (Changed (RespAgent agent) (agent_registered_events agent)))"

definition ensure_agent_handler ::
    "request_inputs \<Rightarrow> string \<Rightarrow> string \<Rightarrow> agent_registration_spec \<Rightarrow> durable_response durable_mutation lop" where
  "ensure_agent_handler rq shell_id rid spec =
     bind_log (do_op (\<lambda>(_, _, u). record_of u) (ensure_agent (rq_now rq) (rq_new_id rq) shell_id rid spec))
       (\<lambda>(agent, created, _).
       (let events = (if created then agent_registered_events agent else []) in
        return_log (if events = [] then Unchanged (RespAgent agent) else Changed (RespAgent agent) events)))"

definition report_agent_handler ::
    "request_inputs \<Rightarrow> string \<Rightarrow> string \<Rightarrow> agent_report \<Rightarrow> durable_response durable_mutation lop" where
  "report_agent_handler rq agent_id rid report =
     bind_log (do_op (\<lambda>(_, _, _, u). record_of u) (report_agent (rq_now rq) agent_id rid report))
       (\<lambda>(agent, changed, completed, _).
       return_log
         (if \<not> changed then Unchanged (RespAgent agent)
          else Changed (RespAgent agent)
            [if completed then EvAgentCompleted (ag_workspace_id agent) (ag_shell_id agent) agent
             else EvAgentStateChanged (ag_workspace_id agent) (ag_shell_id agent) agent]))"

definition observe_context_handler ::
    "registry_env \<Rightarrow> request_inputs \<Rightarrow> string \<Rightarrow> string \<Rightarrow> string \<Rightarrow> agent_working_context_snapshot
     \<Rightarrow> durable_response durable_mutation lop" where
  "observe_context_handler env rq agent_id shell_id rid c =
     bind_log (do_op (\<lambda>(_, _, u). record_of u)
                 (observe_agent_working_context env (rq_now rq) agent_id shell_id rid c))
       (\<lambda>(agent, changed, _).
       return_log
         (if \<not> changed then Unchanged (RespAgentWorkingContext agent changed)
          else Changed (RespAgentWorkingContext agent changed)
                 [EvAgentWorkingContextObserved (ag_workspace_id agent) (ag_shell_id agent) agent]))"

text \<open>\<open>DurableMutation::map\<close>, and the three renames.\<close>

fun map_mutation :: "('a \<Rightarrow> 'b) \<Rightarrow> 'a durable_mutation \<Rightarrow> 'b durable_mutation" where
  "map_mutation f (Changed x events) = Changed (f x) events"
| "map_mutation f (Unchanged x) = Unchanged (f x)"

definition rename_workspace_mutation :: "string \<Rightarrow> string \<Rightarrow> unit durable_mutation lop" where
  "rename_workspace_mutation workspace_id name =
     bind_log (do_op record_of (io_op (rename_workspace workspace_id name))) (\<lambda>u.
       return_log (case u of None \<Rightarrow> Unchanged ()
                           | Some _ \<Rightarrow> Changed () [EvWorkspaceRenamed workspace_id name]))"

text \<open>The undo record shares the Shell, so it can name its Workspace.\<close>

definition rename_shell_mutation :: "string \<Rightarrow> string \<Rightarrow> unit durable_mutation lop" where
  "rename_shell_mutation shell_id name =
     bind_log (do_op record_of (io_op (rename_shell shell_id name))) (\<lambda>u.
       case u of
         None \<Rightarrow> return_log (Unchanged ())
       | Some _ \<Rightarrow>
           bind_log (look (io_op (find_shell shell_id))) (\<lambda>s.
             return_log (Changed () [EvShellRenamed (ds_workspace_id s) shell_id name])))"

definition rename_launcher_mutation :: "string \<Rightarrow> string \<Rightarrow> unit durable_mutation lop" where
  "rename_launcher_mutation launcher_id name =
     bind_log (do_op record_of (io_op (rename_launcher launcher_id name))) (\<lambda>u.
       case u of
         None \<Rightarrow> return_log (Unchanged ())
       | Some _ \<Rightarrow>
           bind_log (look (io_op (find_launcher launcher_id))) (\<lambda>l.
             return_log (Changed () [EvLauncherRenamed (wl_workspace_id l) launcher_id name])))"

definition rename_workspace_handler :: "string \<Rightarrow> string \<Rightarrow> durable_response durable_mutation lop" where
  "rename_workspace_handler workspace_id name =
     bind_log (rename_workspace_mutation workspace_id name) (\<lambda>m. return_log (map_mutation (\<lambda>_. RespOk) m))"

definition guarded_rename_workspace_handler ::
    "registry_env \<Rightarrow> string \<Rightarrow> string \<Rightarrow> u64 \<Rightarrow> durable_response durable_mutation lop" where
  "guarded_rename_workspace_handler env workspace_id name expected =
     bind_log (look (io_op (find_workspace workspace_id))) (\<lambda>w.
     bind_log (look (check_op (require_guard (dw_revision w) expected ''workspace''))) (\<lambda>_.
     bind_log (rename_workspace_mutation workspace_id name) (\<lambda>m.
     bind_log (look (snapshot_workspace env workspace_id)) (\<lambda>workspace.
       return_log (map_mutation (\<lambda>_. RespWorkspace workspace) m)))))"

definition guarded_set_default_cwd_handler ::
    "registry_env \<Rightarrow> string \<Rightarrow> u64 \<Rightarrow> path \<Rightarrow> durable_response durable_mutation lop" where
  "guarded_set_default_cwd_handler env workspace_id expected default_cwd =
     bind_log (look (io_op (find_workspace workspace_id))) (\<lambda>w.
     bind_log (look (check_op (require_guard (dw_revision w) expected ''workspace''))) (\<lambda>_.
     bind_log (do_op record_of (io_op (set_workspace_default_cwd env workspace_id default_cwd))) (\<lambda>u.
     bind_log (look (snapshot_workspace env workspace_id)) (\<lambda>workspace.
       return_log
         (case u of
            None \<Rightarrow> Unchanged (RespWorkspace workspace)
          | Some _ \<Rightarrow> Changed (RespWorkspace workspace)
              [EvWorkspaceDefaultCwdChanged workspace_id (the (ws_default_cwd workspace))])))))"

definition rename_shell_handler :: "string \<Rightarrow> string \<Rightarrow> durable_response durable_mutation lop" where
  "rename_shell_handler shell_id name =
     bind_log (rename_shell_mutation shell_id name) (\<lambda>m. return_log (map_mutation (\<lambda>_. RespOk) m))"

definition guarded_rename_shell_handler ::
    "registry_env \<Rightarrow> string \<Rightarrow> string \<Rightarrow> u64 \<Rightarrow> durable_response durable_mutation lop" where
  "guarded_rename_shell_handler env shell_id name expected =
     bind_log (look (io_op (find_shell shell_id))) (\<lambda>s.
     bind_log (look (check_op (require_guard (ds_revision s) expected ''shell''))) (\<lambda>_.
     bind_log (rename_shell_mutation shell_id name) (\<lambda>m.
     bind_log (look (snapshot_shell env shell_id)) (\<lambda>s.
       return_log (map_mutation (\<lambda>_. RespShell s) m)))))"

definition rename_launcher_handler :: "string \<Rightarrow> string \<Rightarrow> durable_response durable_mutation lop" where
  "rename_launcher_handler launcher_id name =
     bind_log (rename_launcher_mutation launcher_id name) (\<lambda>m. return_log (map_mutation (\<lambda>_. RespOk) m))"

definition guarded_rename_launcher_handler ::
    "string \<Rightarrow> string \<Rightarrow> u64 \<Rightarrow> durable_response durable_mutation lop" where
  "guarded_rename_launcher_handler launcher_id name expected =
     bind_log (look (io_op (find_launcher launcher_id))) (\<lambda>l.
     bind_log (look (check_op (require_guard (wl_revision l) expected ''workspace launcher''))) (\<lambda>_.
     bind_log (rename_launcher_mutation launcher_id name) (\<lambda>m.
     bind_log (look (snapshot_launcher launcher_id)) (\<lambda>l.
       return_log (map_mutation (\<lambda>_. RespLauncher l) m)))))"

definition remove_launcher_handler :: "string \<Rightarrow> durable_response durable_mutation lop" where
  "remove_launcher_handler launcher_id =
     bind_log (do_op (\<lambda>(_, u). [u]) (io_op (remove_launcher launcher_id))) (\<lambda>(l, _).
       return_log (Changed RespOk [EvLauncherRemoved (wl_workspace_id l) launcher_id]))"

definition guarded_remove_launcher_handler :: "string \<Rightarrow> u64 \<Rightarrow> durable_response durable_mutation lop" where
  "guarded_remove_launcher_handler launcher_id expected =
     bind_log (look (io_op (find_launcher launcher_id))) (\<lambda>l.
     bind_log (look (check_op (require_guard (wl_revision l) expected ''workspace launcher''))) (\<lambda>_.
       remove_launcher_handler launcher_id))"

section \<open>Dispatch\<close>

text \<open>
  The operation that a request runs as a transaction, or its error where the request is refused
  before the transaction starts.
\<close>

definition request_operation ::
    "registry_env \<Rightarrow> request_inputs \<Rightarrow> durable_request \<Rightarrow> durable_response durable_mutation lop daemon_result" where
  "request_operation env rq request =
     (case request of
        RqAcknowledgeAgentAttention agent_id revision \<Rightarrow> Inr (acknowledge_handler agent_id revision)
      | RqCreateWorkspace name default_cwd shells \<Rightarrow>
          Inr (create_workspace_handler env rq name default_cwd shells)
      | RqCreateWorkspaceShell workspace_id name default_cwd shell_id spec \<Rightarrow>
          Inr (create_workspace_shell_handler env workspace_id name default_cwd shell_id spec)
      | RqCreateWorkspaceLauncher workspace_id name default_cwd launcher_id spec \<Rightarrow>
          Inr (create_workspace_launcher_handler env workspace_id name default_cwd launcher_id spec)
      | RqCreateShell workspace_id spec \<Rightarrow> Inr (create_shell_handler env rq workspace_id spec)
      | RqCreateLauncher workspace_id spec \<Rightarrow> Inr (create_launcher_handler env rq workspace_id spec)
      | RqRegisterAgent shell_id rid spec \<Rightarrow> Inr (register_agent_handler rq shell_id rid spec)
      | RqEnsureAgent shell_id rid spec \<Rightarrow> Inr (ensure_agent_handler rq shell_id rid spec)
      | RqReportAgent agent_id rid report \<Rightarrow> Inr (report_agent_handler rq agent_id rid report)
      | RqObserveAgentWorkingContext agent_id shell_id rid path \<Rightarrow>
          (case rq_inspect rq path of
             Inl e \<Rightarrow> Inl (daemon_error_of e)
           | Inr None \<Rightarrow> Inl (daemon_error_of
               (IoError NotFound ''Agent working-context path is not inside a Git worktree''))
           | Inr (Some c) \<Rightarrow> Inr (observe_context_handler env rq agent_id shell_id rid c))
      | RqRenameWorkspace workspace_id name \<Rightarrow> Inr (rename_workspace_handler workspace_id name)
      | RqGuardedRenameWorkspace workspace_id name expected \<Rightarrow>
          Inr (guarded_rename_workspace_handler env workspace_id name expected)
      | RqGuardedSetWorkspaceDefaultCwd workspace_id expected path \<Rightarrow>
          (case rq_resolve rq path of
             Inl e \<Rightarrow> Inl (daemon_error_of e)
           | Inr cwd \<Rightarrow> Inr (guarded_set_default_cwd_handler env workspace_id expected cwd))
      | RqRenameShell shell_id name \<Rightarrow> Inr (rename_shell_handler shell_id name)
      | RqGuardedRenameShell shell_id name expected \<Rightarrow>
          Inr (guarded_rename_shell_handler env shell_id name expected)
      | RqRenameLauncher launcher_id name \<Rightarrow> Inr (rename_launcher_handler launcher_id name)
      | RqGuardedRenameLauncher launcher_id name expected \<Rightarrow>
          Inr (guarded_rename_launcher_handler launcher_id name expected)
      | RqRemoveLauncher launcher_id \<Rightarrow> Inr (remove_launcher_handler launcher_id)
      | RqGuardedRemoveLauncher launcher_id expected \<Rightarrow>
          Inr (guarded_remove_launcher_handler launcher_id expected))"

end
