(* ===== verification/Durable_Persisted.thy ===== *)
theory Durable_Persisted
  imports Durable_Agents
begin

text \<open>
  What the state file holds (\<open>PersistedState\<close> of \<open>src/src/state_store.rs\<close>), what the daemon saves
  (\<open>capture_persisted_state\<close>) and what a restart takes back (\<open>DaemonService::restore\<close>), with the
  checks it makes, in \<open>src/src/daemon.rs\<close>.
\<close>

record persisted_shell =
  fsh_id :: string
  fsh_revision :: u64
  fsh_name :: string
  fsh_cwd :: path
  fsh_command :: "string list"
  fsh_last_run :: "persisted_shell_run option"

record persisted_workspace_launcher =
  fla_id :: string
  fla_revision :: u64
  fla_name :: string
  fla_cwd :: path
  fla_command :: "string list"

record persisted_agent_instance =
  fag_id :: string
  fag_shell_id :: string
  fag_run_id :: string
  fag_name :: string
  fag_integration :: string
  fag_external_session_id :: "string option"
  fag_cwd :: "path option"
  fag_started_at_ms :: u64
  fag_ended_at_ms :: "u64 option"
  fag_observation :: agent_observation_snapshot
  fag_attention :: "agent_attention_snapshot option"
  fag_working_contexts :: "agent_working_context_snapshot list"

record persisted_workspace =
  fws_id :: string
  fws_revision :: u64
  fws_name :: string
  fws_default_cwd :: "path option"
  fws_shells :: "persisted_shell list"
  fws_launchers :: "persisted_workspace_launcher list"
  fws_agents :: "persisted_agent_instance list"
  fws_session_display_names :: "persisted_session_display_name list"
  fws_session_display_name_operations :: "persisted_session_display_name_operation list"
  fws_hidden_sessions :: "persisted_hidden_session list"
  fws_session_hide_operations :: "persisted_session_hide_operation list"

type_synonym persisted_state = "persisted_workspace list"

section \<open>Saving\<close>

definition shell_persisted :: "shell \<Rightarrow> persisted_shell" where
  "shell_persisted s =
     \<lparr>fsh_id = ds_id s, fsh_revision = ds_revision s, fsh_name = ds_name s, fsh_cwd = ds_cwd s,
      fsh_command = ds_command s, fsh_last_run = ds_last_run s\<rparr>"

definition launcher_persisted :: "workspace_launcher \<Rightarrow> persisted_workspace_launcher" where
  "launcher_persisted l =
     \<lparr>fla_id = wl_id l, fla_revision = wl_revision l, fla_name = wl_name l, fla_cwd = wl_cwd l,
      fla_command = wl_command l\<rparr>"

definition agent_persisted :: "agent_instance \<Rightarrow> persisted_agent_instance" where
  "agent_persisted a =
     \<lparr>fag_id = ai_id a, fag_shell_id = ai_shell_id a, fag_run_id = ai_run_id a, fag_name = ai_name a,
      fag_integration = ai_integration a, fag_external_session_id = ai_external_session_id a,
      fag_cwd = ai_cwd a, fag_started_at_ms = ai_started_at_ms a,
      fag_ended_at_ms = as_ended_at_ms (ai_state a), fag_observation = as_observation (ai_state a),
      fag_attention = as_attention (ai_state a), fag_working_contexts = as_working_contexts (ai_state a)\<rparr>"

definition workspace_persisted :: "durable_state \<Rightarrow> durable_workspace \<Rightarrow> persisted_workspace" where
  "workspace_persisted st w =
     \<lparr>fws_id = dw_id w, fws_revision = dw_revision w, fws_name = dw_name w,
      fws_default_cwd = dw_default_cwd w,
      fws_shells = map shell_persisted (List.map_filter (get (dst_shells st)) (dw_shell_ids w)),
      fws_launchers = map launcher_persisted (List.map_filter (get (dst_launchers st)) (dw_launcher_ids w)),
      fws_agents = map agent_persisted (List.map_filter (get (dst_agents st)) (dw_agent_ids w)),
      fws_session_display_names = dw_session_display_names w,
      fws_session_display_name_operations = dw_session_display_name_operations w,
      fws_hidden_sessions = dw_hidden_sessions w,
      fws_session_hide_operations = dw_session_hide_operations w\<rparr>"

text \<open>The Workspaces sorted by their ids, which here are the keys they are stored under.\<close>

definition capture_persisted_state :: "durable_state \<Rightarrow> persisted_state" where
  "capture_persisted_state st = map (workspace_persisted st) (sort_key dw_id (objects (dst_workspaces st)))"

section \<open>Checks of a restart\<close>

definition max_session_display_name_chars :: nat where
  "max_session_display_name_chars = 160"

definition max_session_display_names_per_workspace :: nat where
  "max_session_display_names_per_workspace = 1024"

definition max_session_display_name_operations_per_workspace :: nat where
  "max_session_display_name_operations_per_workspace = 256"

definition max_hidden_sessions_per_workspace :: nat where
  "max_hidden_sessions_per_workspace = 1024"

definition max_session_hide_operations_per_workspace :: nat where
  "max_session_hide_operations_per_workspace = 256"

definition validate_id :: "registry_env \<Rightarrow> string \<Rightarrow> string \<Rightarrow> unit res" where
  "validate_id env kind i =
     (case re_uuid_parse env i of
        Some _ \<Rightarrow> Inr ()
      | None \<Rightarrow> Inl (invalid (''persisted '' @ kind @ '' ID is invalid: '' @ i)))"

definition validate_persisted_name :: "string \<Rightarrow> unit res" where
  "validate_persisted_name name =
     (if is_blank name then Inl (invalid ''persisted name cannot be empty'') else Inr ())"

definition validate_persisted_cwd :: "registry_env \<Rightarrow> path \<Rightarrow> unit res" where
  "validate_persisted_cwd env cwd =
     (if is_absolute cwd then Inr ()
      else Inl (invalid (''persisted working directory must be absolute: '' @ re_display env cwd)))"

text \<open>
  \<open>split_whitespace\<close> over UTF-8 bytes: \<open>space_width\<close> is the number of bytes of the white space the
  bytes start with. Its first byte is never one that continues a character, so no position inside a
  character is taken for white space.
\<close>

fun space_width :: "nat list \<Rightarrow> nat" where
  "space_width (a # s) =
     (if (9 \<le> a \<and> a \<le> 13) \<or> a = 32 then 1
      else (case s of
              [] \<Rightarrow> 0
            | b # s \<Rightarrow>
                if a = 194 \<and> (b = 133 \<or> b = 160) then 2
                else (case s of
                        [] \<Rightarrow> 0
                      | c # _ \<Rightarrow>
                          if a = 225 \<and> b = 154 \<and> c = 128
                             \<or> a = 226 \<and> b = 128 \<and> (128 \<le> c \<and> c \<le> 138 \<or> c = 168 \<or> c = 169 \<or> c = 175)
                             \<or> a = 226 \<and> b = 129 \<and> c = 159
                             \<or> a = 227 \<and> b = 128 \<and> c = 128
                          then 3 else 0)))"
| "space_width [] = 0"

fun split_whitespace :: "string \<Rightarrow> string \<Rightarrow> string list" where
  "split_whitespace word [] = (if word = [] then [] else [word])"
| "split_whitespace word (c # s) =
     (let n = space_width (map of_char (c # s)) in
      if n = 0 then split_whitespace (word @ [c]) s
      else if word = [] then split_whitespace [] (drop (n - 1) s)
      else word # split_whitespace [] (drop (n - 1) s))"

fun join_words :: "string list \<Rightarrow> string" where
  "join_words [] = []"
| "join_words [w] = w"
| "join_words (w # ws) = w @ '' '' @ join_words ws"

definition chars_count :: "string \<Rightarrow> nat" where
  "chars_count s = length (filter (\<lambda>c. \<not> (128 \<le> (of_char c :: nat) \<and> (of_char c :: nat) \<le> 191)) s)"

definition normalize_session_display_name :: "string \<Rightarrow> string res" where
  "normalize_session_display_name name =
     (if has_control name
      then Inl (invalid_input ''Session display name cannot contain control characters'')
      else let normalized = join_words (split_whitespace [] name) in
           if normalized = [] \<or> max_session_display_name_chars < chars_count normalized
           then Inl (invalid_input
             ''Session display name must contain 1 through 160 normalized characters'')
           else Inr normalized)"

definition is_normalized :: "string \<Rightarrow> bool" where
  "is_normalized name \<longleftrightarrow> normalize_session_display_name name = Inr name"

definition persisted_session_identity_key :: "registry_env \<Rightarrow> persisted_session_identity \<Rightarrow> string res" where
  "persisted_session_identity_key env identity =
     (case identity of
        SessionExternal i \<Rightarrow>
          bind_res (validate_required_agent_string ''external Session ID'' i daemon_max_name_bytes)
            (\<lambda>_. Inr (''external:'' @ i))
      | SessionInstance i \<Rightarrow>
          bind_res (validate_uuid env i ''Agent ID'') (\<lambda>_. Inr (''instance:'' @ i)))"

definition integration_ok :: "string \<Rightarrow> bool" where
  "integration_ok integration \<longleftrightarrow>
     isl (validate_required_agent_string ''integration'' integration daemon_max_name_bytes) = False"

definition uuid_ok :: "registry_env \<Rightarrow> string \<Rightarrow> bool" where
  "uuid_ok env i \<longleftrightarrow> isl (validate_uuid env i []) = False"

fun check_display_names ::
    "registry_env \<Rightarrow> (string \<times> string) set \<Rightarrow> persisted_session_display_name list \<Rightarrow> unit res" where
  "check_display_names env seen [] = Inr ()"
| "check_display_names env seen (r # rs) =
     (if \<not> integration_ok (sdn_integration r) \<or> \<not> is_normalized (sdn_display_name r)
      then Inl (invalid ''Boomux state contains invalid Session display-name metadata'')
      else case persisted_session_identity_key env (sdn_session r) of
             Inl _ \<Rightarrow>
               Inl (case sdn_session r of
                      SessionExternal _ \<Rightarrow> invalid ''Boomux state contains an invalid Session external identity''
                    | SessionInstance _ \<Rightarrow> invalid ''Boomux state contains an invalid Session Agent identity'')
           | Inr identity \<Rightarrow>
               if (sdn_integration r, identity) \<in> seen
               then Inl (invalid ''Boomux state contains duplicate Session display-name metadata'')
               else check_display_names env (insert (sdn_integration r, identity) seen) rs)"

fun check_display_name_operations ::
    "registry_env \<Rightarrow> persisted_workspace \<Rightarrow> string set \<Rightarrow> u64
     \<Rightarrow> persisted_session_display_name_operation list \<Rightarrow> unit res" where
  "check_display_name_operations env w seen previous [] = Inr ()"
| "check_display_name_operations env w seen previous (r # rs) =
     (if \<not> uuid_ok env (sdo_operation_id r) \<or> \<not> uuid_ok env (sdo_session_id r)
         \<or> sdo_expected_revision r = 0
         \<or> dn_workspace_revision (sdo_result r) \<le> sdo_expected_revision r
         \<or> dn_workspace_revision (sdo_result r) \<le> previous
         \<or> fws_revision w < dn_workspace_revision (sdo_result r)
         \<or> dn_session_id (sdo_result r) \<noteq> sdo_session_id r
         \<or> dn_workspace_id (sdo_result r) \<noteq> fws_id w
         \<or> dn_user_display_name (sdo_result r) \<noteq> sdo_display_name r
         \<or> \<not> dn_changed (sdo_result r)
         \<or> \<not> integration_ok (sdo_integration r)
         \<or> isl (persisted_session_identity_key env (sdo_session r))
         \<or> (case sdo_display_name r of Some name \<Rightarrow> \<not> is_normalized name | None \<Rightarrow> False)
         \<or> sdo_operation_id r \<in> seen
      then Inl (invalid ''Boomux state contains an invalid Session display-name operation'')
      else check_display_name_operations env w (insert (sdo_operation_id r) seen)
             (dn_workspace_revision (sdo_result r)) rs)"

fun check_hidden_sessions ::
    "registry_env \<Rightarrow> (string \<times> string) set \<Rightarrow> string set \<Rightarrow> persisted_hidden_session list \<Rightarrow> unit res" where
  "check_hidden_sessions env identities ids [] = Inr ()"
| "check_hidden_sessions env identities ids (h # hs) =
     (case persisted_session_identity_key env (phs_session h) of
        Inl _ \<Rightarrow> Inl (invalid ''Boomux state contains invalid hidden Session metadata'')
      | Inr identity \<Rightarrow>
          if \<not> uuid_ok env (phs_session_id h) \<or> \<not> integration_ok (phs_integration h)
             \<or> (phs_integration h, identity) \<in> identities \<or> phs_session_id h \<in> ids
          then Inl (invalid ''Boomux state contains invalid hidden Session metadata'')
          else check_hidden_sessions env (insert (phs_integration h, identity) identities)
                 (insert (phs_session_id h) ids) hs)"

fun check_hide_operations ::
    "registry_env \<Rightarrow> persisted_workspace \<Rightarrow> string set \<Rightarrow> u64
     \<Rightarrow> persisted_session_hide_operation list \<Rightarrow> unit res" where
  "check_hide_operations env w seen previous [] = Inr ()"
| "check_hide_operations env w seen previous (r # rs) =
     (if \<not> uuid_ok env (sho_operation_id r) \<or> \<not> uuid_ok env (sho_session_id r)
         \<or> \<not> uuid_ok env (sho_workspace_id r)
         \<or> sho_workspace_id r \<noteq> fws_id w
         \<or> sho_expected_revision r = 0
         \<or> u64_checked_add (sho_expected_revision r) (of_bool (hd_changed (sho_result r)))
             \<noteq> Some (hd_workspace_revision (sho_result r))
         \<or> hd_workspace_revision (sho_result r) < previous
         \<or> fws_revision w < hd_workspace_revision (sho_result r)
         \<or> hd_session_id (sho_result r) \<noteq> sho_session_id r
         \<or> hd_workspace_id (sho_result r) \<noteq> fws_id w
         \<or> \<not> integration_ok (sho_integration r)
         \<or> isl (persisted_session_identity_key env (sho_session r))
         \<or> sho_operation_id r \<in> seen
      then Inl (invalid ''Boomux state contains an invalid Session hide operation'')
      else check_hide_operations env w (insert (sho_operation_id r) seen)
             (hd_workspace_revision (sho_result r)) rs)"

definition validate_persisted_session_display_names :: "registry_env \<Rightarrow> persisted_workspace \<Rightarrow> unit res" where
  "validate_persisted_session_display_names env w =
     (if max_session_display_names_per_workspace < length (fws_session_display_names w)
         \<or> max_session_display_name_operations_per_workspace < length (fws_session_display_name_operations w)
         \<or> max_hidden_sessions_per_workspace < length (fws_hidden_sessions w)
         \<or> max_session_hide_operations_per_workspace < length (fws_session_hide_operations w)
      then Inl (invalid ''Boomux state exceeds a Workspace Session display-name bound'')
      else bind_res (check_display_names env {} (fws_session_display_names w)) (\<lambda>_.
           bind_res (check_display_name_operations env w {} 0 (fws_session_display_name_operations w)) (\<lambda>_.
           bind_res (check_hidden_sessions env {} {} (fws_hidden_sessions w)) (\<lambda>_.
             check_hide_operations env w {} 0 (fws_session_hide_operations w)))))"

text \<open>\<open>validate_persisted_agent\<close>: an error of a check on a report is passed on as invalid data.\<close>

definition as_invalid_data :: "unit res \<Rightarrow> unit res" where
  "as_invalid_data r = (case r of Inl e \<Rightarrow> Inl (invalid (err_message e)) | Inr _ \<Rightarrow> Inr ())"

fun check_contexts ::
    "registry_env \<Rightarrow> u64 \<Rightarrow> path set \<Rightarrow> u64 \<Rightarrow> agent_working_context_snapshot list \<Rightarrow> unit res" where
  "check_contexts env started roots previous [] = Inr ()"
| "check_contexts env started roots previous (c # cs) =
     bind_res (as_invalid_data (validate_working_context env c)) (\<lambda>_.
       if wc_observed_at_ms c < started \<or> previous < wc_observed_at_ms c \<or> wc_worktree_root c \<in> roots
       then Inl (invalid ''Boomux state contains invalid Agent working contexts'')
       else check_contexts env started (insert (wc_worktree_root c) roots) (wc_observed_at_ms c) cs)"

definition observation_report :: "agent_observation_snapshot \<Rightarrow> agent_report" where
  "observation_report obs =
     \<lparr>rep_state = obs_state obs, rep_authority = obs_authority obs, rep_evidence = obs_evidence obs,
      rep_confidence = obs_confidence obs\<rparr>"

definition check_attention :: "persisted_agent_instance \<Rightarrow> agent_attention_snapshot \<Rightarrow> unit res" where
  "check_attention a t =
     (let seen = att_observation t; obs = fag_observation a in
      bind_res (as_invalid_data (validate_agent_report (observation_report seen))) (\<lambda>_.
      bind_res (case obs_state seen of
                  AgBlocked \<Rightarrow> Inr AttentionBlocked
                | AgDone \<Rightarrow> Inr AttentionCompleted
                | _ \<Rightarrow> Inl (invalid ''Boomux state contains attention for a non-attention agent state'')) (\<lambda>expected.
        if att_reason t \<noteq> expected
           \<or> obs_revision seen = 0
           \<or> obs_revision obs < obs_revision seen
           \<or> obs_observed_at_ms seen < fag_started_at_ms a
           \<or> obs_observed_at_ms obs < obs_observed_at_ms seen
           \<or> (obs_revision seen = obs_revision obs \<and> seen \<noteq> obs)
           \<or> (att_reason t = AttentionCompleted \<and> seen \<noteq> obs)
        then Inl (invalid ''Boomux state contains invalid agent attention'') else Inr ())))"

definition validate_persisted_agent :: "registry_env \<Rightarrow> persisted_agent_instance \<Rightarrow> unit res" where
  "validate_persisted_agent env a =
     (let obs = fag_observation a in
      bind_res (validate_persisted_name (fag_name a)) (\<lambda>_.
      bind_res (as_invalid_data (validate_agent_registration
        \<lparr>reg_name = fag_name a, reg_integration = fag_integration a,
         reg_external_session_id = fag_external_session_id a, reg_report = observation_report obs\<rparr>)) (\<lambda>_.
      bind_res (case fag_cwd a of None \<Rightarrow> Inr () | Some cwd \<Rightarrow> validate_persisted_cwd env cwd) (\<lambda>_.
      if max_agent_working_contexts < length (fag_working_contexts a)
      then Inl (invalid ''Boomux state contains too many Agent working contexts'')
      else
      bind_res (check_contexts env (fag_started_at_ms a) {} (- 1) (fag_working_contexts a)) (\<lambda>_.
      if obs_revision obs = 0
         \<or> obs_observed_at_ms obs < fag_started_at_ms a
         \<or> (case fag_ended_at_ms a of Some ended \<Rightarrow> ended < fag_started_at_ms a | None \<Rightarrow> False)
         \<or> (obs_state obs = AgDone) \<noteq> (fag_ended_at_ms a \<noteq> None)
      then Inl (invalid ''Boomux state contains an invalid agent observation'')
      else case fag_attention a of None \<Rightarrow> Inr () | Some t \<Rightarrow> check_attention a t)))))"

section \<open>Restoring\<close>

text \<open>
  What \<open>restore\<close> has built so far: the state, the sets of what must be unique, and whether a run
  was found that had not ended (\<open>recovered_interrupted_run\<close>). \<open>clock\<close> is the time at which the run
  of an id is looked at, \<open>live_handoff\<close> says that a running daemon hands its runs over.
\<close>

record restoring =
  rst_state :: durable_state
  rst_workspace_names :: "string set"
  rst_run_ids :: "string set"
  rst_agent_ids :: "string set"
  rst_recovered :: bool

definition start_restoring :: restoring where
  "start_restoring =
     \<lparr>rst_state = empty_durable_state, rst_workspace_names = {}, rst_run_ids = {}, rst_agent_ids = {},
      rst_recovered = False\<rparr>"

definition restored_run :: "bool \<Rightarrow> u64 \<Rightarrow> persisted_shell_run \<Rightarrow> persisted_shell_run" where
  "restored_run live_handoff now run =
     (if \<not> live_handoff \<and> psr_ended_at_ms run = None
      then run\<lparr>psr_ended_at_ms := Some (max now (psr_started_at_ms run)),
               psr_exit_reason := Some ReasonInterrupted\<rparr>
      else run)"

definition check_run :: "registry_env \<Rightarrow> string set \<Rightarrow> persisted_shell_run \<Rightarrow> unit res" where
  "check_run env run_ids run =
     bind_res (validate_id env ''run'' (psr_id run)) (\<lambda>_.
     bind_res (validate_terminal_profile (psr_profile run)) (\<lambda>_.
     if psr_generation run = 0
        \<or> (psr_ended_at_ms run \<noteq> None) \<noteq> (psr_exit_reason run \<noteq> None)
        \<or> (case psr_ended_at_ms run of Some ended \<Rightarrow> ended < psr_started_at_ms run | None \<Rightarrow> False)
        \<or> psr_id run \<in> run_ids
     then Inl (invalid ''Boomux state contains an invalid shell run'') else Inr ()))"

definition shell_restored ::
    "bool \<Rightarrow> (string \<Rightarrow> u64) \<Rightarrow> string \<Rightarrow> persisted_shell \<Rightarrow> shell" where
  "shell_restored live_handoff clock workspace_id f =
     \<lparr>ds_id = fsh_id f, ds_revision = fsh_revision f, ds_workspace_id = workspace_id,
      ds_name = fsh_name f, ds_cwd = fsh_cwd f, ds_command = fsh_command f,
      ds_last_run = map_option (\<lambda>run. restored_run live_handoff (clock (psr_id run)) run) (fsh_last_run f),
      ds_lifecycle = LcPending\<rparr>"

fun restore_shells ::
    "registry_env \<Rightarrow> bool \<Rightarrow> (string \<Rightarrow> u64) \<Rightarrow> string \<Rightarrow> string set \<Rightarrow> persisted_shell list
     \<Rightarrow> restoring \<Rightarrow> restoring res" where
  "restore_shells env live clock workspace_id names [] r = Inr r"
| "restore_shells env live clock workspace_id names (f # fs) r =
     bind_res (validate_id env ''shell'' (fsh_id f)) (\<lambda>_.
     bind_res (validate_persisted_name (fsh_name f)) (\<lambda>_.
     bind_res (validate_persisted_cwd env (fsh_cwd f)) (\<lambda>_.
     bind_res (case fsh_last_run f of None \<Rightarrow> Inr () | Some run \<Rightarrow> check_run env (rst_run_ids r) run) (\<lambda>_.
     if fsh_name f \<in> names \<or> get (dst_shells (rst_state r)) (fsh_id f) \<noteq> None
     then Inl (invalid ''Boomux state contains a duplicate shell'')
     else
       restore_shells env live clock workspace_id (insert (fsh_name f) names) fs
         (r\<lparr>rst_state := (rst_state r)\<lparr>dst_shells :=
               put (fsh_id f) (shell_restored live clock workspace_id f) (dst_shells (rst_state r))\<rparr>,
            rst_run_ids := (case fsh_last_run f of None \<Rightarrow> rst_run_ids r
                                                | Some run \<Rightarrow> insert (psr_id run) (rst_run_ids r)),
            rst_recovered := (rst_recovered r
               \<or> \<not> live \<and> (case fsh_last_run f of None \<Rightarrow> False
                                                | Some run \<Rightarrow> psr_ended_at_ms run = None))\<rparr>)))))"

definition launcher_restored :: "string \<Rightarrow> persisted_workspace_launcher \<Rightarrow> workspace_launcher" where
  "launcher_restored workspace_id f =
     \<lparr>wl_id = fla_id f, wl_revision = fla_revision f, wl_workspace_id = workspace_id,
      wl_name = fla_name f, wl_cwd = fla_cwd f, wl_command = fla_command f\<rparr>"

fun restore_launchers ::
    "registry_env \<Rightarrow> string \<Rightarrow> string set \<Rightarrow> persisted_workspace_launcher list \<Rightarrow> restoring \<Rightarrow> restoring res" where
  "restore_launchers env workspace_id names [] r = Inr r"
| "restore_launchers env workspace_id names (f # fs) r =
     bind_res (validate_id env ''workspace launcher'' (fla_id f)) (\<lambda>_.
     bind_res (validate_persisted_name (fla_name f)) (\<lambda>_.
     bind_res (validate_persisted_cwd env (fla_cwd f)) (\<lambda>_.
     if isl (validate_launcher_command (fla_command f))
     then Inl (invalid ''persisted workspace launcher command requires a non-empty executable'')
     else if fla_name f \<in> names \<or> get (dst_launchers (rst_state r)) (fla_id f) \<noteq> None
     then Inl (invalid ''Boomux state contains a duplicate workspace launcher'')
     else
       restore_launchers env workspace_id (insert (fla_name f) names) fs
         (r\<lparr>rst_state := (rst_state r)\<lparr>dst_launchers :=
               put (fla_id f) (launcher_restored workspace_id f) (dst_launchers (rst_state r))\<rparr>\<rparr>))))"

definition agent_restored :: "string \<Rightarrow> persisted_agent_instance \<Rightarrow> agent_instance" where
  "agent_restored workspace_id f =
     \<lparr>ai_id = fag_id f, ai_workspace_id = workspace_id, ai_shell_id = fag_shell_id f,
      ai_run_id = fag_run_id f, ai_name = fag_name f, ai_integration = fag_integration f,
      ai_external_session_id = fag_external_session_id f, ai_cwd = fag_cwd f,
      ai_started_at_ms = fag_started_at_ms f,
      ai_state = \<lparr>as_ended_at_ms = fag_ended_at_ms f, as_observation = fag_observation f,
                  as_attention = fag_attention f, as_working_contexts = fag_working_contexts f\<rparr>\<rparr>"

fun restore_agents ::
    "registry_env \<Rightarrow> string \<Rightarrow> persisted_agent_instance list \<Rightarrow> restoring \<Rightarrow> restoring res" where
  "restore_agents env workspace_id [] r = Inr r"
| "restore_agents env workspace_id (f # fs) r =
     bind_res (validate_id env ''agent'' (fag_id f)) (\<lambda>_.
     bind_res (validate_id env ''agent shell'' (fag_shell_id f)) (\<lambda>_.
     bind_res (validate_id env ''agent run'' (fag_run_id f)) (\<lambda>_.
     bind_res (validate_persisted_agent env f) (\<lambda>_.
     if fag_id f \<in> rst_agent_ids r
     then Inl (invalid ''Boomux state contains a duplicate agent instance'')
     else
       restore_agents env workspace_id fs
         (r\<lparr>rst_state := (rst_state r)\<lparr>dst_agents :=
               put (fag_id f) (agent_restored workspace_id f) (dst_agents (rst_state r))\<rparr>,
            rst_agent_ids := insert (fag_id f) (rst_agent_ids r)\<rparr>)))))"

definition workspace_restored :: "persisted_workspace \<Rightarrow> durable_workspace" where
  "workspace_restored f =
     \<lparr>dw_id = fws_id f, dw_revision = fws_revision f, dw_name = fws_name f,
      dw_default_cwd = fws_default_cwd f, dw_shell_ids = map fsh_id (fws_shells f),
      dw_launcher_ids = map fla_id (fws_launchers f), dw_agent_ids = map fag_id (fws_agents f),
      dw_session_display_names = fws_session_display_names f,
      dw_session_display_name_operations = fws_session_display_name_operations f,
      dw_hidden_sessions = fws_hidden_sessions f,
      dw_session_hide_operations = fws_session_hide_operations f\<rparr>"

definition restore_workspace ::
    "registry_env \<Rightarrow> bool \<Rightarrow> (string \<Rightarrow> u64) \<Rightarrow> persisted_workspace \<Rightarrow> restoring \<Rightarrow> restoring res" where
  "restore_workspace env live clock f r =
     bind_res (validate_id env ''workspace'' (fws_id f)) (\<lambda>_.
     bind_res (validate_persisted_name (fws_name f)) (\<lambda>_.
     bind_res (case fws_default_cwd f of None \<Rightarrow> Inr () | Some cwd \<Rightarrow> validate_persisted_cwd env cwd) (\<lambda>_.
     bind_res (validate_persisted_session_display_names env f) (\<lambda>_.
     if fws_name f \<in> rst_workspace_names r \<or> get (dst_workspaces (rst_state r)) (fws_id f) \<noteq> None
     then Inl (invalid ''Boomux state contains a duplicate workspace'')
     else
     bind_res (restore_shells env live clock (fws_id f) {} (fws_shells f)
                 (r\<lparr>rst_workspace_names := insert (fws_name f) (rst_workspace_names r)\<rparr>)) (\<lambda>r.
     bind_res (restore_launchers env (fws_id f) {} (fws_launchers f) r) (\<lambda>r.
     bind_res (restore_agents env (fws_id f) (fws_agents f) r) (\<lambda>r.
       Inr (r\<lparr>rst_state := (rst_state r)\<lparr>dst_workspaces :=
              put (fws_id f) (workspace_restored f) (dst_workspaces (rst_state r))\<rparr>\<rparr>))))))))"

fun restore_workspaces ::
    "registry_env \<Rightarrow> bool \<Rightarrow> (string \<Rightarrow> u64) \<Rightarrow> persisted_state \<Rightarrow> restoring \<Rightarrow> restoring res" where
  "restore_workspaces env live clock [] r = Inr r"
| "restore_workspaces env live clock (f # fs) r =
     bind_res (restore_workspace env live clock f r) (restore_workspaces env live clock fs)"

text \<open>The state a restart has in memory, and whether it saves it at once.\<close>

definition restore_state ::
    "registry_env \<Rightarrow> bool \<Rightarrow> (string \<Rightarrow> u64) \<Rightarrow> persisted_state \<Rightarrow> (durable_state \<times> bool) res" where
  "restore_state env live clock persisted =
     bind_res (restore_workspaces env live clock persisted start_restoring)
       (\<lambda>r. Inr (rst_state r, rst_recovered r))"

end
