(* ===== verification/Workspace_Children.thy ===== *)
theory Workspace_Children
  imports Durable_Persisted
begin

text \<open>
  A Workspace lists the ids of its Shells, of its launchers and of its Agents, and each of them
  names its Workspace. \<open>children_ok\<close> says that both directions agree and that a name is used once
  within a Workspace. The locale \<open>workspace_children\<close> is what the three kinds share: its lemmas say
  how creating, removing, renaming and undoing keep that.
\<close>

section \<open>More on maps\<close>

lemma alter_none: "get m k = None \<Longrightarrow> alter k f m = m"
  by (simp add: alter_def)

lemma alter_some: "get m k = Some v \<Longrightarrow> alter k f m = put k (f v) m"
  by (simp add: alter_def)

lemma alter_alter: "smap_ok m \<Longrightarrow> alter k f (alter k g m) = alter k (\<lambda>v. f (g v)) m"
  by (intro smap_ext) (auto simp: get_alter option.map_comp comp_def)

lemma alter_same: "smap_ok m \<Longrightarrow> (\<And>v. get m k = Some v \<Longrightarrow> f v = v) \<Longrightarrow> alter k f m = m"
  by (cases "get m k") (simp_all add: alter_def sm.insert_same)

lemma alter_cong: "(\<And>v. get m k = Some v \<Longrightarrow> f v = g v) \<Longrightarrow> alter k f m = alter k g m"
  by (simp add: alter_def split: option.split)

lemma smap_ok_fold_put: "smap_ok m \<Longrightarrow> smap_ok (fold (\<lambda>x. put (key x) x) xs m)"
  by (induction xs arbitrary: m) auto

lemma smap_ok_fold_del: "smap_ok m \<Longrightarrow> smap_ok (fold del ks m)"
  by (induction ks arbitrary: m) auto

lemma get_fold_del:
  "smap_ok m \<Longrightarrow> get (fold del ks m) = (\<lambda>k. if k \<in> set ks then None else get m k)"
  by (induction ks arbitrary: m) (auto simp: get_del fun_eq_iff)

lemma get_fold_put_other:
  "smap_ok m \<Longrightarrow> k \<notin> key ` set xs \<Longrightarrow> get (fold (\<lambda>x. put (key x) x) xs m) k = get m k"
  by (induction xs arbitrary: m) (auto simp: get_put)

lemma get_fold_put_same:
  "smap_ok m \<Longrightarrow> distinct (map key xs) \<Longrightarrow> x \<in> set xs \<Longrightarrow> get (fold (\<lambda>x. put (key x) x) xs m) (key x) = Some x"
proof (induction xs arbitrary: m)
  case Nil
  then show ?case by simp
next
  case (Cons y ys)
  show ?case
  proof (cases "x = y")
    case True
    then have "key x \<notin> key ` set ys" using Cons.prems(2) by simp
    then show ?thesis using Cons.prems(1) True by (simp add: get_fold_put_other get_put)
  next
    case False
    then show ?thesis using Cons by simp
  qed
qed

lemma get_fold_put:
  "smap_ok m \<Longrightarrow> distinct (map key xs) \<Longrightarrow> get (fold (\<lambda>x. put (key x) x) xs m) k = Some v \<longleftrightarrow>
    (v \<in> set xs \<and> k = key v) \<or> (k \<notin> key ` set xs \<and> get m k = Some v)"
proof (cases "k \<in> key ` set xs")
  case True
  assume ok: "smap_ok m" and dist: "distinct (map key xs)"
  from True obtain x where x: "x \<in> set xs" and k: "k = key x" by blast
  have "v = x" if "v \<in> set xs" "key v = key x" for v
    using inj_onD [of key "set xs" v x] that x dist by (simp add: distinct_map)
  moreover have "get (fold (\<lambda>x. put (key x) x) xs m) k = Some x"
    unfolding k by (rule get_fold_put_same [OF ok dist x])
  ultimately show ?thesis using x unfolding k by (metis imageI option.inject)
next
  case False
  assume "smap_ok m"
  then show ?thesis using False by (auto simp: get_fold_put_other)
qed

lemma fold_del_fold_put:
  assumes "smap_ok m" and "distinct (map key xs)" and "\<forall>x \<in> set xs. get m (key x) = None"
  shows "fold del (map key xs) (fold (\<lambda>x. put (key x) x) xs m) = m"
proof (rule smap_ext)
  show "smap_ok (fold del (map key xs) (fold (\<lambda>x. put (key x) x) xs m))"
    using assms(1) by (intro smap_ok_fold_del smap_ok_fold_put)
  show "smap_ok m" by (rule assms(1))
  show "get (fold del (map key xs) (fold (\<lambda>x. put (key x) x) xs m)) = get m"
    using assms by (auto simp: get_fold_del smap_ok_fold_put get_fold_put_other fun_eq_iff)
qed

text \<open>Removing listed objects and putting those that were there back.\<close>

lemma fold_put_fold_del:
  assumes ok: "smap_ok m" and "distinct ks" and keys: "\<And>k x. get m k = Some x \<Longrightarrow> key x = k"
    and there: "\<forall>k \<in> set ks. get m k \<noteq> None"
  shows "fold (\<lambda>x. put (key x) x) (List.map_filter (get m) ks) (fold del ks m) = m"
proof -
  let ?xs = "List.map_filter (get m) ks"
  have map_xs: "map key ?xs = ks"
    using there keys by (induction ks) (auto simp: List.map_filter_def)
  have xs: "set ?xs = {x. \<exists>k \<in> set ks. get m k = Some x}"
    by (force simp: List.map_filter_def)
  have in_ks: "key ` set ?xs = set ks"
    using map_xs by (metis set_map)
  have ok': "smap_ok (fold del ks m)" by (rule smap_ok_fold_del [OF ok])
  show ?thesis
  proof (rule smap_ext)
    show "smap_ok (fold (\<lambda>x. put (key x) x) ?xs (fold del ks m))"
      by (rule smap_ok_fold_put [OF ok'])
    show "smap_ok m" by (rule ok)
    show "get (fold (\<lambda>x. put (key x) x) ?xs (fold del ks m)) = get m"
    proof
      fix k
      have "distinct (map key ?xs)" using assms(2) map_xs by simp
      note got = get_fold_put [OF ok' this, of k]
      show "get (fold (\<lambda>x. put (key x) x) ?xs (fold del ks m)) k = get m k"
      proof (cases "k \<in> set ks")
        case True
        then obtain x where "get m k = Some x" using there by blast
        then show ?thesis using got [of x] True xs keys by auto
      next
        case False
        then show ?thesis
          using ok' in_ks by (simp add: get_fold_put_other get_fold_del [OF ok])
      qed
    qed
  qed
qed

section \<open>Revisions that go up and back\<close>

lemma rollback_bumped:
  assumes "1 \<le> revision" and "u64_checked_add revision 1 = Some r"
  shows "rollback_bump r = revision"
proof -
  have "r = revision + 1" and "unat r = unat revision + 1"
    using assms(2) unat_u64_checked_add [OF assms(2)] by (simp_all add: u64_checked_add_Some)
  moreover have "1 \<le> r" using calculation(2) by (simp add: word_le_nat_alt)
  ultimately show ?thesis
    using assms(1) by (simp add: rollback_bump_def u64_saturating_sub_def max_absorb1)
qed

lemma bumped_positive: "u64_checked_add (revision :: u64) 1 = Some r \<Longrightarrow> 1 \<le> r"
  using unat_u64_checked_add [of revision 1 r] by (simp add: word_le_nat_alt)

section \<open>The lists of a Workspace\<close>

definition lists_children ::
    "('o \<Rightarrow> string) \<Rightarrow> (durable_workspace \<Rightarrow> string list)
     \<Rightarrow> (string, durable_workspace) smap \<Rightarrow> (string, 'o) smap \<Rightarrow> bool" where
  "lists_children owner ids ws m \<longleftrightarrow>
     (\<forall>i w. get ws i = Some w \<longrightarrow>
        distinct (ids w) \<and> (\<forall>k \<in> set (ids w). \<exists>x. get m k = Some x \<and> owner x = i))"

definition has_owners ::
    "('o \<Rightarrow> string) \<Rightarrow> (durable_workspace \<Rightarrow> string list)
     \<Rightarrow> (string, durable_workspace) smap \<Rightarrow> (string, 'o) smap \<Rightarrow> bool" where
  "has_owners owner ids ws m \<longleftrightarrow>
     (\<forall>k x. get m k = Some x \<longrightarrow> (\<exists>w. get ws (owner x) = Some w \<and> k \<in> set (ids w)))"

definition names_once :: "('o \<Rightarrow> string) \<Rightarrow> ('o \<Rightarrow> string) \<Rightarrow> (string, 'o) smap \<Rightarrow> bool" where
  "names_once owner nm m \<longleftrightarrow>
     (\<forall>j k x y. get m j = Some x \<and> get m k = Some y \<and> owner x = owner y \<and> nm x = nm y \<longrightarrow> j = k)"

definition children_ok ::
    "('o \<Rightarrow> string) \<Rightarrow> ('o \<Rightarrow> string) \<Rightarrow> (durable_workspace \<Rightarrow> string list)
     \<Rightarrow> (string, durable_workspace) smap \<Rightarrow> (string, 'o) smap \<Rightarrow> bool" where
  "children_ok owner nm ids ws m \<longleftrightarrow>
     lists_children owner ids ws m \<and> has_owners owner ids ws m \<and> names_once owner nm m"

lemma children_okI [intro?]:
  assumes "\<And>i w. get ws i = Some w \<Longrightarrow> distinct (ids w)"
    and "\<And>i w k. get ws i = Some w \<Longrightarrow> k \<in> set (ids w) \<Longrightarrow> \<exists>x. get m k = Some x \<and> owner x = i"
    and "\<And>k x. get m k = Some x \<Longrightarrow> \<exists>w. get ws (owner x) = Some w \<and> k \<in> set (ids w)"
    and "\<And>j k x y. get m j = Some x \<Longrightarrow> get m k = Some y \<Longrightarrow> owner x = owner y \<Longrightarrow> nm x = nm y \<Longrightarrow> j = k"
  shows "children_ok owner nm ids ws m"
  unfolding children_ok_def lists_children_def has_owners_def names_once_def
  using assms by blast

lemma children_listed:
  "children_ok owner nm ids ws m \<Longrightarrow> get ws i = Some w \<Longrightarrow> k \<in> set (ids w)
    \<Longrightarrow> \<exists>x. get m k = Some x \<and> owner x = i"
  unfolding children_ok_def lists_children_def by blast

lemma children_distinct: "children_ok owner nm ids ws m \<Longrightarrow> get ws i = Some w \<Longrightarrow> distinct (ids w)"
  unfolding children_ok_def lists_children_def by blast

lemma children_owned:
  "children_ok owner nm ids ws m \<Longrightarrow> get m k = Some x \<Longrightarrow> \<exists>w. get ws (owner x) = Some w \<and> k \<in> set (ids w)"
  unfolding children_ok_def has_owners_def by blast

lemma children_unlisted:
  "children_ok owner nm ids ws m \<Longrightarrow> get ws i = Some w \<Longrightarrow> get m k = None \<Longrightarrow> k \<notin> set (ids w)"
  using children_listed by fastforce

lemma children_named:
  "children_ok owner nm ids ws m \<Longrightarrow> get m j = Some x \<Longrightarrow> get m k = Some y \<Longrightarrow> owner x = owner y
    \<Longrightarrow> nm x = nm y \<Longrightarrow> j = k"
  unfolding children_ok_def names_once_def by blast

section \<open>How the operations keep it\<close>

lemma children_insert:
  assumes ok: "children_ok owner nm ids ws m" and "smap_ok ws" "smap_ok m"
    and new: "get m k = None" and owner: "owner x = i" and w: "get ws i = Some w"
    and ids: "ids (g w) = ids w @ [k]"
    and name: "\<And>j y. j \<in> set (ids w) \<Longrightarrow> get m j = Some y \<Longrightarrow> nm y \<noteq> nm x"
  shows "children_ok owner nm ids (alter i g ws) (put k x m)"
proof
  have ws: "get (alter i g ws) j = (if j = i then Some (g w) else get ws j)" for j
    using w by (simp add: get_alter [OF assms(2)])
  have m: "get (put k x m) j = (if j = k then Some x else get m j)" for j
    by (simp add: get_put [OF assms(3)])
  have unlisted: "k \<notin> set (ids v)" if "get ws j = Some v" for j v
    by (rule children_unlisted [OF ok that new])
  show "distinct (ids v)" if "get (alter i g ws) j = Some v" for j v
    using that ids unlisted [OF w] children_distinct [OF ok] w by (auto simp: ws split: if_splits)
  show "\<exists>y. get (put k x m) l = Some y \<and> owner y = j"
    if "get (alter i g ws) j = Some v" and "l \<in> set (ids v)" for j v l
  proof (cases "l = k")
    case True
    then have "j = i" using that unlisted by (auto simp: ws split: if_splits)
    then show ?thesis using True owner by (simp add: m)
  next
    case False
    then have "\<exists>u. get ws j = Some u \<and> l \<in> set (ids u)"
      using that ids w by (auto simp: ws split: if_splits)
    then show ?thesis using False children_listed [OF ok] by (fastforce simp: m)
  qed
  show "\<exists>v. get (alter i g ws) (owner y) = Some v \<and> j \<in> set (ids v)"
    if "get (put k x m) j = Some y" for j y
  proof (cases "j = k")
    case True
    then show ?thesis using that owner ids by (simp add: m ws)
  next
    case False
    then have "get m j = Some y" using that by (simp add: m)
    from children_owned [OF ok this] show ?thesis using ids w by (auto simp: ws)
  qed
  show "j = l"
    if "get (put k x m) j = Some y" "get (put k x m) l = Some z" "owner y = owner z" "nm y = nm z"
    for j l y z
  proof -
    have other: "j' \<in> set (ids w) \<and> get m j' = Some y'"
      if "get (put k x m) j' = Some y'" "owner y' = i" "j' \<noteq> k" for j' y'
      using that children_owned [OF ok, of j' y'] w by (simp add: m)
    show ?thesis
    proof (cases "j = k")
      case True
      then have "y = x" using that(1) by (simp add: m)
      then show ?thesis using True other [of l z] name that owner by (metis)
    next
      case False
      show ?thesis
      proof (cases "l = k")
        case True
        then have "z = x" using that(2) by (simp add: m)
        then show ?thesis using True other [of j y] name that owner by (metis)
      next
        case l: False
        then show ?thesis using False that children_named [OF ok, of j y l z] by (simp add: m)
      qed
    qed
  qed
qed

lemma children_delete:
  assumes ok: "children_ok owner nm ids ws m" and "smap_ok ws" "smap_ok m"
    and x: "get m k = Some x" and w: "get ws (owner x) = Some w"
    and ids: "distinct (ids (g w))" "set (ids (g w)) = set (ids w) - {k}"
  shows "children_ok owner nm ids (alter (owner x) g ws) (del k m)"
proof
  have ws: "get (alter (owner x) g ws) j = (if j = owner x then Some (g w) else get ws j)" for j
    using w by (simp add: get_alter [OF assms(2)])
  have m: "get (del k m) j = (if j = k then None else get m j)" for j
    by (simp add: get_del [OF assms(3)])
  show "distinct (ids v)" if "get (alter (owner x) g ws) j = Some v" for j v
    using that ids children_distinct [OF ok] by (auto simp: ws split: if_splits)
  show "\<exists>y. get (del k m) l = Some y \<and> owner y = j"
    if "get (alter (owner x) g ws) j = Some v" and "l \<in> set (ids v)" for j v l
  proof -
    have "\<exists>u. get ws j = Some u \<and> l \<in> set (ids u)"
      using that ids w by (auto simp: ws split: if_splits)
    then obtain y where y: "get m l = Some y" "owner y = j" using children_listed [OF ok] by blast
    have "l \<noteq> k"
    proof
      assume "l = k"
      then have "j = owner x" using x y by simp
      then have "v = g w" using that(1) by (simp add: ws)
      then show False using that(2) ids(2) \<open>l = k\<close> by simp
    qed
    then show ?thesis using y by (simp add: m)
  qed
  show "\<exists>v. get (alter (owner x) g ws) (owner y) = Some v \<and> j \<in> set (ids v)"
    if "get (del k m) j = Some y" for j y
  proof -
    have "j \<noteq> k" and y: "get m j = Some y" using that by (simp_all add: m split: if_splits)
    from children_owned [OF ok y] obtain v where v: "get ws (owner y) = Some v" "j \<in> set (ids v)"
      by blast
    show ?thesis
    proof (cases "owner y = owner x")
      case True
      then have "v = w" using v(1) w by simp
      then show ?thesis using True v(2) \<open>j \<noteq> k\<close> ids(2) by (simp add: ws)
    next
      case False
      then show ?thesis using v by (simp add: ws)
    qed
  qed
  show "j = l"
    if "get (del k m) j = Some y" "get (del k m) l = Some z" "owner y = owner z" "nm y = nm z"
    for j l y z
    using that children_named [OF ok, of j y l z] by (simp add: m split: if_splits)
qed

lemma children_alter_workspace:
  assumes ok: "children_ok owner nm ids ws m" and "smap_ok ws"
    and ids: "\<And>w. get ws i = Some w \<Longrightarrow> ids (g w) = ids w"
  shows "children_ok owner nm ids (alter i g ws) m"
proof
  have ws: "\<exists>u. get ws j = Some u \<and> ids u = ids v" if "get (alter i g ws) j = Some v" for j v
    using that ids by (auto simp: get_alter [OF assms(2)] split: if_splits)
  show "distinct (ids v)" if "get (alter i g ws) j = Some v" for j v
    using ws [OF that] children_distinct [OF ok] by metis
  show "\<exists>y. get m l = Some y \<and> owner y = j"
    if "get (alter i g ws) j = Some v" and "l \<in> set (ids v)" for j v l
    using ws [OF that(1)] that(2) children_listed [OF ok] by metis
  show "\<exists>v. get (alter i g ws) (owner y) = Some v \<and> j \<in> set (ids v)" if "get m j = Some y" for j y
    using children_owned [OF ok that] ids by (auto simp: get_alter [OF assms(2)])
  show "j = l" if "get m j = Some y" "get m l = Some z" "owner y = owner z" "nm y = nm z" for j l y z
    by (rule children_named [OF ok that])
qed

lemma children_alter:
  assumes ok: "children_ok owner nm ids ws m" and "smap_ok m"
    and x: "get m k = Some x" and owner: "owner (f x) = owner x"
    and name: "\<And>j y. j \<noteq> k \<Longrightarrow> get m j = Some y \<Longrightarrow> owner y = owner x \<Longrightarrow> nm y \<noteq> nm (f x)"
  shows "children_ok owner nm ids ws (alter k f m)"
proof
  have m: "get (alter k f m) j = (if j = k then Some (f x) else get m j)" for j
    using x by (simp add: get_alter [OF assms(2)])
  show "distinct (ids v)" if "get ws j = Some v" for j v
    by (rule children_distinct [OF ok that])
  show "\<exists>y. get (alter k f m) l = Some y \<and> owner y = j"
    if "get ws j = Some v" and "l \<in> set (ids v)" for j v l
    using children_listed [OF ok that] x owner by (auto simp: m)
  show "\<exists>v. get ws (owner y) = Some v \<and> j \<in> set (ids v)" if "get (alter k f m) j = Some y" for j y
    using that children_owned [OF ok] x owner by (auto simp: m split: if_splits)
  show "j = l"
    if "get (alter k f m) j = Some y" "get (alter k f m) l = Some z" "owner y = owner z" "nm y = nm z"
    for j l y z
    using that name children_named [OF ok, of j y l z] owner by (auto simp: m split: if_splits)
qed

lemma children_new_workspace:
  assumes ok: "children_ok owner nm ids ws m" and "smap_ok ws" "smap_ok m"
    and new: "get ws i = None" and keys: "distinct (map key xs)" and names: "distinct (map nm xs)"
    and fresh: "\<And>x. x \<in> set xs \<Longrightarrow> get m (key x) = None \<and> owner x = i"
    and ids: "ids w = map key xs"
  shows "children_ok owner nm ids (put i w ws) (fold (\<lambda>x. put (key x) x) xs m)"
proof
  have ws: "get (put i w ws) j = (if j = i then Some w else get ws j)" for j
    by (simp add: get_put [OF assms(2)])
  note m = get_fold_put [OF assms(3) keys]
  have old: "owner x \<noteq> i" if "get m k = Some x" for k x
    using children_owned [OF ok that] new by auto
  show "distinct (ids v)" if "get (put i w ws) j = Some v" for j v
    using that ids keys children_distinct [OF ok] by (auto simp: ws split: if_splits)
  show "\<exists>y. get (fold (\<lambda>x. put (key x) x) xs m) l = Some y \<and> owner y = j"
    if v: "get (put i w ws) j = Some v" and l: "l \<in> set (ids v)" for j v l
  proof (cases "j = i")
    case True
    then have "l \<in> key ` set xs" using v l ids by (simp add: ws)
    then obtain x where "x \<in> set xs" "l = key x" by blast
    then show ?thesis using True fresh m [of l x] by auto
  next
    case False
    then have "get ws j = Some v" using v by (simp add: ws)
    then obtain x where "get m l = Some x" "owner x = j"
      using l children_listed [OF ok] by blast
    then show ?thesis using fresh m [of l x] by fastforce
  qed
  show "\<exists>v. get (put i w ws) (owner y) = Some v \<and> j \<in> set (ids v)"
    if "get (fold (\<lambda>x. put (key x) x) xs m) j = Some y" for j y
    using that fresh ids old children_owned [OF ok, of j y] by (auto simp: m ws)
  show "j = l"
    if "get (fold (\<lambda>x. put (key x) x) xs m) j = Some y" "get (fold (\<lambda>x. put (key x) x) xs m) l = Some z"
      "owner y = owner z" "nm y = nm z" for j l y z
  proof (cases "y \<in> set xs \<and> z \<in> set xs")
    case True
    then have "y = z" using names that(4) inj_onD [of nm "set xs" y z] by (simp add: distinct_map)
    have "j' = key y'"
      if "get (fold (\<lambda>x. put (key x) x) xs m) j' = Some y'" "y' \<in> set xs" for j' y'
      using that fresh [OF that(2)] old [of j' y'] m [of j' y'] by blast
    then show ?thesis using that(1,2) True \<open>y = z\<close> by blast
  next
    case False
    have new_owner: "owner y' = i \<longleftrightarrow> y' \<in> set xs"
      if "get (fold (\<lambda>x. put (key x) x) xs m) j' = Some y'" for j' y'
      using that fresh [of y'] old [of j' y'] m [of j' y'] by blast
    have "y \<notin> set xs \<and> z \<notin> set xs"
      using False new_owner [OF that(1)] new_owner [OF that(2)] that(3) by simp
    then have "get m j = Some y \<and> get m l = Some z" using that m by blast
    then show ?thesis using that children_named [OF ok, of j y l z] by simp
  qed
qed

lemma children_delete_workspace:
  assumes ok: "children_ok owner nm ids ws m" and "smap_ok ws" "smap_ok m" and w: "get ws i = Some w"
  shows "children_ok owner nm ids (del i ws) (fold del (ids w) m)"
proof
  have ws: "get (del i ws) j = (if j = i then None else get ws j)" for j
    by (simp add: get_del [OF assms(2)])
  have m: "get (fold del (ids w) m) k = (if k \<in> set (ids w) then None else get m k)" for k
    by (simp add: get_fold_del [OF assms(3)])
  show "distinct (ids v)" if "get (del i ws) j = Some v" for j v
    using that children_distinct [OF ok] by (simp add: ws split: if_splits)
  show "\<exists>y. get (fold del (ids w) m) l = Some y \<and> owner y = j"
    if v: "get (del i ws) j = Some v" and l: "l \<in> set (ids v)" for j v l
  proof -
    have "j \<noteq> i" and "get ws j = Some v" using v by (simp_all add: ws split: if_splits)
    moreover obtain y where y: "get m l = Some y" "owner y = j"
      using children_listed [OF ok calculation(2) l] by blast
    moreover have "l \<notin> set (ids w)"
      using children_listed [OF ok w, of l] calculation(1) y by auto
    ultimately show ?thesis by (simp add: m)
  qed
  show "\<exists>v. get (del i ws) (owner y) = Some v \<and> j \<in> set (ids v)"
    if "get (fold del (ids w) m) j = Some y" for j y
    using that children_owned [OF ok, of j y] w by (auto simp: ws m split: if_splits)
  show "j = l"
    if "get (fold del (ids w) m) j = Some y" "get (fold del (ids w) m) l = Some z"
      "owner y = owner z" "nm y = nm z" for j l y z
    using that children_named [OF ok, of j y l z] by (simp add: m split: if_splits)
qed

section \<open>Undoing\<close>

lemma take_insert_drop:
  assumes "position (\<lambda>j. j = k) xs = Some n"
  shows "insert_at n k (remove_at n xs) = xs"
proof -
  have "n < length xs" and "xs ! n = k" using position_SomeD [OF assms] by simp_all
  then show ?thesis
    using id_take_nth_drop [of n xs] by (simp add: insert_at_def remove_at_def min_def)
qed

lemma remove_position:
  assumes "position (\<lambda>j. j = k) xs = Some n" and "distinct xs"
  shows "distinct (remove_at n xs)" and "set (remove_at n xs) = set xs - {k}"
proof -
  have n: "n < length xs" "xs ! n = k" using position_SomeD [OF assms(1)] by simp_all
  show "distinct (remove_at n xs)" by (rule distinct_remove_at [OF assms(2)])
  have xs: "xs = take n xs @ k # drop (Suc n) xs" using id_take_nth_drop [OF n(1)] n(2) by simp
  then have "distinct (take n xs @ k # drop (Suc n) xs)" using assms(2) by simp
  then have "set (remove_at n xs) = set (take n xs @ k # drop (Suc n) xs) - {k}"
    by (auto simp: remove_at_def)
  then show "set (remove_at n xs) = set xs - {k}" using xs by simp
qed

lemma revision_update_same: "f (dw_revision w) = dw_revision w \<Longrightarrow> dw_revision_update f w = w"
  by (cases w) simp

locale workspace_children =
  fixes ids :: "durable_workspace \<Rightarrow> string list"
    and set_ids :: "(string list \<Rightarrow> string list) \<Rightarrow> durable_workspace \<Rightarrow> durable_workspace"
  assumes ids_set: "ids (set_ids f w) = f (ids w)"
    and set_set: "set_ids f (set_ids g w) = set_ids (\<lambda>l. f (g l)) w"
    and set_same: "f (ids w) = ids w \<Longrightarrow> set_ids f w = w"
    and set_revision: "set_ids f (dw_revision_update h w) = dw_revision_update h (set_ids f w)"
    and revision_set: "dw_revision (set_ids f w) = dw_revision w"
begin

lemma undo_in_workspace:
  assumes "1 \<le> dw_revision w" and "u64_checked_add (dw_revision w) 1 = Some r"
    and "restore (change (ids w)) = ids w"
  shows "dw_revision_update rollback_bump (set_ids restore (dw_revision_update (\<lambda>_. r) (set_ids change w))) = w"
proof -
  have "dw_revision_update rollback_bump (set_ids restore (dw_revision_update (\<lambda>_. r) (set_ids change w)))
      = dw_revision_update (\<lambda>_. rollback_bump r) w"
    using set_same [of "\<lambda>l. restore (change l)" w] assms(3)
    by (simp add: set_revision set_set comp_def)
  also have "\<dots> = w" by (rule revision_update_same) (simp add: rollback_bumped [OF assms(1, 2)])
  finally show ?thesis .
qed

lemma undo_append:
  assumes "1 \<le> dw_revision w" and "u64_checked_add (dw_revision w) 1 = Some r" and "k \<notin> set (ids w)"
  shows "dw_revision_update rollback_bump (set_ids (filter (\<lambda>j. j \<noteq> k))
           (dw_revision_update (\<lambda>_. r) (set_ids (\<lambda>ks. ks @ [k]) w))) = w"
proof (rule undo_in_workspace [OF assms(1, 2)])
  show "filter (\<lambda>j. j \<noteq> k) (ids w @ [k]) = ids w"
    using assms(3) by (simp add: filter_id_conv) blast
qed

lemma undo_remove:
  assumes "1 \<le> dw_revision w" and "u64_checked_add (dw_revision w) 1 = Some r"
    and "position (\<lambda>j. j = k) (ids w) = Some n"
  shows "dw_revision_update rollback_bump (set_ids (insert_at n k)
           (dw_revision_update (\<lambda>_. r) (set_ids (remove_at n) w))) = w"
  by (rule undo_in_workspace [where restore = "insert_at n k" and change = "remove_at n",
        OF assms(1, 2) take_insert_drop [OF assms(3)]])

text \<open>The same within the map of the Workspaces.\<close>

lemma undo_append_map:
  assumes ok: "smap_ok ws" and w: "get ws i = Some w" and "1 \<le> dw_revision w"
    and "u64_checked_add (dw_revision w) 1 = Some r" and "k \<notin> set (ids w)"
  shows "alter i (dw_revision_update rollback_bump) (alter i (set_ids (filter (\<lambda>j. j \<noteq> k)))
           (alter i (\<lambda>w. dw_revision_update (\<lambda>_. r) (set_ids (\<lambda>ks. ks @ [k]) w)) ws)) = ws"
  by (subst alter_alter, intro smap_ok_alter ok, subst alter_alter [OF ok], rule alter_same [OF ok])
    (use w undo_append [OF assms(3-5)] in \<open>simp only: option.inject\<close>)

lemma undo_remove_map:
  assumes ok: "smap_ok ws" and w: "get ws i = Some w" and "1 \<le> dw_revision w"
    and "u64_checked_add (dw_revision w) 1 = Some r" and "position (\<lambda>j. j = k) (ids w) = Some n"
  shows "alter i (dw_revision_update rollback_bump) (alter i (set_ids (insert_at n k))
           (alter i (\<lambda>w. dw_revision_update (\<lambda>_. r) (set_ids (remove_at n) w)) ws)) = ws"
  by (subst alter_alter, intro smap_ok_alter ok, subst alter_alter [OF ok], rule alter_same [OF ok])
    (use w undo_remove [OF assms(3-5)] in \<open>simp only: option.inject\<close>)

end

interpretation shells_of: workspace_children dw_shell_ids dw_shell_ids_update
  by unfold_locales (auto simp: comp_def)

interpretation launchers_of: workspace_children dw_launcher_ids dw_launcher_ids_update
  by unfold_locales (auto simp: comp_def)

interpretation agents_of: workspace_children dw_agent_ids dw_agent_ids_update
  by unfold_locales (auto simp: comp_def)

end
