(* ===== verification/Durable_Wellformed.thy ===== *)
theory Durable_Wellformed
  imports Workspace_Children
begin

text \<open>
  What each object of the durable state satisfies (\<open>shell_ok\<close>, \<open>launcher_ok\<close>, \<open>agent_ok\<close>,
  \<open>workspace_ok\<close>), and that this is enough for the checks that a restart makes on it.
\<close>

definition uuid_parses :: "registry_env \<Rightarrow> string \<Rightarrow> bool" where
  "uuid_parses env i \<longleftrightarrow> re_uuid_parse env i \<noteq> None"

definition shell_ok :: "registry_env \<Rightarrow> shell \<Rightarrow> bool" where
  "shell_ok env s \<longleftrightarrow>
     1 \<le> ds_revision s \<and> uuid_parses env (ds_id s) \<and> \<not> is_blank (ds_name s) \<and> is_absolute (ds_cwd s)
     \<and> (case ds_last_run s of None \<Rightarrow> True | Some run \<Rightarrow> check_run env {} run = Inr ())
     \<and> (case running_run s of None \<Rightarrow> True | Some run \<Rightarrow> uuid_parses env (run_id run))"

definition launcher_ok :: "registry_env \<Rightarrow> workspace_launcher \<Rightarrow> bool" where
  "launcher_ok env l \<longleftrightarrow>
     1 \<le> wl_revision l \<and> uuid_parses env (wl_id l) \<and> \<not> is_blank (wl_name l) \<and> is_absolute (wl_cwd l)
     \<and> validate_launcher_command (wl_command l) = Inr ()"

definition attention_ok :: "agent_instance \<Rightarrow> agent_attention_snapshot \<Rightarrow> bool" where
  "attention_ok a t \<longleftrightarrow>
     (let seen = att_observation t; obs = as_observation (ai_state a) in
      attention_for_observation seen = Some t
      \<and> validate_agent_report (observation_report seen) = Inr ()
      \<and> 1 \<le> obs_revision seen \<and> obs_revision seen \<le> obs_revision obs
      \<and> ai_started_at_ms a \<le> obs_observed_at_ms seen \<and> obs_observed_at_ms seen \<le> obs_observed_at_ms obs
      \<and> (obs_revision seen = obs_revision obs \<or> att_reason t = AttentionCompleted \<longrightarrow> seen = obs))"

definition contexts_ok :: "registry_env \<Rightarrow> u64 \<Rightarrow> agent_working_context_snapshot list \<Rightarrow> bool" where
  "contexts_ok env started cs \<longleftrightarrow>
     length cs \<le> max_agent_working_contexts
     \<and> distinct (map wc_worktree_root cs)
     \<and> sorted_wrt (\<lambda>c d. wc_observed_at_ms d \<le> wc_observed_at_ms c) cs
     \<and> (\<forall>c \<in> set cs. validate_working_context env c = Inr () \<and> started \<le> wc_observed_at_ms c)"

definition agent_fixed_ok :: "registry_env \<Rightarrow> agent_instance \<Rightarrow> bool" where
  "agent_fixed_ok env a \<longleftrightarrow>
     uuid_parses env (ai_id a) \<and> uuid_parses env (ai_shell_id a) \<and> uuid_parses env (ai_run_id a)
     \<and> daemon_validate_name (ai_name a) = Inr ()
     \<and> validate_required_agent_string ''integration'' (ai_integration a) daemon_max_name_bytes = Inr ()
     \<and> (case ai_external_session_id a of
          None \<Rightarrow> True
        | Some i \<Rightarrow> validate_required_agent_string ''external_session_id'' i daemon_max_name_bytes = Inr ())
     \<and> (case ai_cwd a of None \<Rightarrow> True | Some cwd \<Rightarrow> is_absolute cwd)"

definition agent_state_ok :: "registry_env \<Rightarrow> agent_instance \<Rightarrow> bool" where
  "agent_state_ok env a \<longleftrightarrow>
     (let st = ai_state a; obs = as_observation st in
      1 \<le> obs_revision obs
      \<and> validate_agent_report (observation_report obs) = Inr ()
      \<and> ai_started_at_ms a \<le> obs_observed_at_ms obs
      \<and> (as_ended_at_ms st \<noteq> None \<longleftrightarrow> obs_state obs = AgDone)
      \<and> (\<forall>ended. as_ended_at_ms st = Some ended \<longrightarrow> ai_started_at_ms a \<le> ended)
      \<and> (\<forall>t. as_attention st = Some t \<longrightarrow> attention_ok a t)
      \<and> contexts_ok env (ai_started_at_ms a) (as_working_contexts st))"

definition agent_ok :: "registry_env \<Rightarrow> agent_instance \<Rightarrow> bool" where
  "agent_ok env a \<longleftrightarrow> agent_fixed_ok env a \<and> agent_state_ok env a"

text \<open>The lists and names that only the removed requests on Agent sessions changed.\<close>

definition sessions_ok :: "registry_env \<Rightarrow> durable_workspace \<Rightarrow> bool" where
  "sessions_ok env w \<longleftrightarrow>
     validate_persisted_session_display_names env (workspace_persisted empty_durable_state w) = Inr ()"

definition workspace_ok :: "registry_env \<Rightarrow> durable_workspace \<Rightarrow> bool" where
  "workspace_ok env w \<longleftrightarrow>
     1 \<le> dw_revision w \<and> uuid_parses env (dw_id w) \<and> \<not> is_blank (dw_name w)
     \<and> (case dw_default_cwd w of None \<Rightarrow> True | Some cwd \<Rightarrow> is_absolute cwd)
     \<and> sessions_ok env w"

section \<open>What the checks on requests give\<close>

lemma validated_name: "daemon_validate_name name = Inr () \<Longrightarrow> \<not> is_blank name"
  by (simp add: daemon_validate_name_def split: if_splits)

lemma validated_cwd: "validate_cwd env cwd = Inr () \<Longrightarrow> is_absolute cwd"
  by (simp add: validate_cwd_def split: if_splits)

lemma validated_default_cwd:
  "validate_default_cwd env cwd = Inr () \<Longrightarrow> cwd = Some p \<Longrightarrow> is_absolute p"
  by (simp add: validate_default_cwd_def validated_cwd)

lemma validated_uuid: "validate_uuid env i label = Inr () \<Longrightarrow> uuid_parses env i"
  by (auto simp: validate_uuid_def uuid_parses_def bind_res_Inr ok_or_Inr)

section \<open>What the checks of a restart accept\<close>

lemma validate_id_ok: "uuid_parses env i \<Longrightarrow> validate_id env kind i = Inr ()"
  by (auto simp: validate_id_def uuid_parses_def)

lemma display_name_operations_mono:
  "check_display_name_operations env v seen previous rs = Inr () \<Longrightarrow> fws_id w = fws_id v
    \<Longrightarrow> fws_revision v \<le> fws_revision w \<Longrightarrow> check_display_name_operations env w seen previous rs = Inr ()"
proof (induction rs arbitrary: seen previous)
  case Nil
  then show ?case by simp
next
  case (Cons r rs)
  from Cons.prems(1) have ok: "check_display_name_operations env v (insert (sdo_operation_id r) seen)
      (dn_workspace_revision (sdo_result r)) rs = Inr ()"
    and r: "dn_workspace_revision (sdo_result r) \<le> fws_revision v"
    by (simp_all add: not_less split: if_splits)
  have "\<not> fws_revision w < dn_workspace_revision (sdo_result r)"
    using order_trans [OF r Cons.prems(3)] by simp
  then show ?case
    using Cons.prems(1) Cons.IH [OF ok Cons.prems(2,3)] Cons.prems(2) by (simp split: if_splits)
qed

lemma hide_operations_mono:
  "check_hide_operations env v seen previous rs = Inr () \<Longrightarrow> fws_id w = fws_id v
    \<Longrightarrow> fws_revision v \<le> fws_revision w \<Longrightarrow> check_hide_operations env w seen previous rs = Inr ()"
proof (induction rs arbitrary: seen previous)
  case Nil
  then show ?case by simp
next
  case (Cons r rs)
  from Cons.prems(1) have ok: "check_hide_operations env v (insert (sho_operation_id r) seen)
      (hd_workspace_revision (sho_result r)) rs = Inr ()"
    and r: "hd_workspace_revision (sho_result r) \<le> fws_revision v"
    by (simp_all add: not_less split: if_splits)
  have "\<not> fws_revision w < hd_workspace_revision (sho_result r)"
    using order_trans [OF r Cons.prems(3)] by simp
  then show ?case
    using Cons.prems(1) Cons.IH [OF ok Cons.prems(2,3)] Cons.prems(2)
    by (cases "hd_changed (sho_result r)") (simp_all split: if_splits)
qed

lemma session_names_mono:
  assumes "validate_persisted_session_display_names env v = Inr ()"
    and "fws_id w = fws_id v" and "fws_revision v \<le> fws_revision w"
    and "fws_session_display_names w = fws_session_display_names v"
    and "fws_session_display_name_operations w = fws_session_display_name_operations v"
    and "fws_hidden_sessions w = fws_hidden_sessions v"
    and "fws_session_hide_operations w = fws_session_hide_operations v"
  shows "validate_persisted_session_display_names env w = Inr ()"
  using assms(1) display_name_operations_mono [OF _ assms(2,3)] hide_operations_mono [OF _ assms(2,3)]
  by (simp add: validate_persisted_session_display_names_def assms(4-7) bind_res_Inr split: if_splits)

lemma workspace_ok_update:
  assumes "workspace_ok env w" and "dw_id v = dw_id w" and "dw_revision w \<le> dw_revision v"
    and "\<not> is_blank (dw_name v)"
    and "\<And>cwd. dw_default_cwd v = Some cwd \<Longrightarrow> is_absolute cwd"
    and "dw_session_display_names v = dw_session_display_names w"
    and "dw_session_display_name_operations v = dw_session_display_name_operations w"
    and "dw_hidden_sessions v = dw_hidden_sessions w"
    and "dw_session_hide_operations v = dw_session_hide_operations w"
  shows "workspace_ok env v"
proof -
  have "sessions_ok env v"
    unfolding sessions_ok_def
    by (rule session_names_mono [of env "workspace_persisted empty_durable_state w"])
      (use assms in \<open>simp_all add: workspace_ok_def sessions_ok_def workspace_persisted_def\<close>)
  then show ?thesis
    using assms order_trans [of 1 "dw_revision w" "dw_revision v"]
    by (simp add: workspace_ok_def split: option.split)
qed

lemma workspace_ok_same:
  assumes "workspace_ok env w" and "dw_id v = dw_id w" and "dw_revision w \<le> dw_revision v"
    and "dw_name v = dw_name w" and "dw_default_cwd v = dw_default_cwd w"
    and "dw_session_display_names v = dw_session_display_names w"
    and "dw_session_display_name_operations v = dw_session_display_name_operations w"
    and "dw_hidden_sessions v = dw_hidden_sessions w"
    and "dw_session_hide_operations v = dw_session_hide_operations w"
  shows "workspace_ok env v"
  by (rule workspace_ok_update [OF assms(1)])
    (use assms in \<open>simp_all add: workspace_ok_def split: option.splits\<close>)

lemma workspace_ok_lists [simp]:
  "workspace_ok env (dw_shell_ids_update f w) \<longleftrightarrow> workspace_ok env w"
  "workspace_ok env (dw_launcher_ids_update f w) \<longleftrightarrow> workspace_ok env w"
  "workspace_ok env (dw_agent_ids_update f w) \<longleftrightarrow> workspace_ok env w"
  by (rule iffI; rule workspace_ok_same, assumption; simp)+

lemma workspace_ok_bumped [simp]:
  "workspace_ok env w \<Longrightarrow> dw_revision w \<le> h (dw_revision w) \<Longrightarrow> workspace_ok env (dw_revision_update h w)"
  by (rule workspace_ok_same, assumption) simp_all

lemma workspace_ok_checks:
  assumes "workspace_ok env w"
  shows "validate_persisted_session_display_names env (workspace_persisted st w) = Inr ()"
  by (rule session_names_mono [of env "workspace_persisted empty_durable_state w"])
    (use assms in \<open>simp_all add: workspace_ok_def sessions_ok_def workspace_persisted_def\<close>)

lemma check_contexts_ok:
  assumes "distinct (map wc_worktree_root cs)" and "wc_worktree_root ` set cs \<inter> roots = {}"
    and "sorted_wrt (\<lambda>c d. wc_observed_at_ms d \<le> wc_observed_at_ms c) cs"
    and "\<forall>c \<in> set cs. validate_working_context env c = Inr () \<and> started \<le> wc_observed_at_ms c
          \<and> wc_observed_at_ms c \<le> previous"
  shows "check_contexts env started roots previous cs = Inr ()"
  using assms
  by (induction cs arbitrary: roots previous) (auto simp: as_invalid_data_def not_less)

lemma attention_for_observation_Some:
  "attention_for_observation obs = Some t \<longleftrightarrow>
    att_observation t = obs
    \<and> (obs_state obs = AgBlocked \<and> att_reason t = AttentionBlocked
       \<or> obs_state obs = AgDone \<and> att_reason t = AttentionCompleted)"
  by (cases t) (auto simp: attention_for_observation_def split: agent_state.split)

lemma check_attention_ok:
  assumes "attention_ok a t"
  shows "check_attention (agent_persisted a) t = Inr ()"
proof -
  have "obs_state (att_observation t) = AgBlocked \<and> att_reason t = AttentionBlocked
      \<or> obs_state (att_observation t) = AgDone \<and> att_reason t = AttentionCompleted"
    using assms by (simp add: attention_ok_def Let_def attention_for_observation_Some)
  moreover have "obs_revision (att_observation t) \<noteq> 0"
    using assms by (auto simp: attention_ok_def Let_def)
  ultimately show ?thesis
    using assms
    by (auto simp: attention_ok_def check_attention_def agent_persisted_def as_invalid_data_def Let_def
        not_less)
qed

lemma agent_ok_checks:
  assumes "agent_ok env a"
  shows "validate_persisted_agent env (agent_persisted a) = Inr ()"
proof -
  let ?st = "ai_state a"
  note fixed = assms [unfolded agent_ok_def agent_fixed_ok_def]
  note state = assms [unfolded agent_ok_def agent_state_ok_def Let_def]
  have registration: "validate_agent_registration
      \<lparr>reg_name = ai_name a, reg_integration = ai_integration a,
       reg_external_session_id = ai_external_session_id a,
       reg_report = observation_report (as_observation ?st)\<rparr> = Inr ()"
    using fixed state by (simp add: validate_agent_registration_def split: option.splits)
  have contexts: "check_contexts env (ai_started_at_ms a) {} (- 1) (as_working_contexts ?st) = Inr ()"
    using state by (intro check_contexts_ok) (simp_all add: contexts_ok_def)
  have "obs_revision (as_observation ?st) \<noteq> 0" using state by auto
  moreover have "case as_attention ?st of None \<Rightarrow> Inr () = (Inr () :: unit res)
      | Some t \<Rightarrow> check_attention (agent_persisted a) t = Inr ()"
    using state check_attention_ok by (auto split: option.split)
  ultimately show ?thesis
    using fixed state registration contexts
    by (auto simp: validate_persisted_agent_def validate_persisted_name_def validated_name
        as_invalid_data_def validate_persisted_cwd_def contexts_ok_def Let_def agent_persisted_def
        not_less split: option.splits)
qed

end
