(* ===== verification/Durable_Invariant.thy ===== *)
theory Durable_Invariant
  imports Durable_Wellformed
begin

text \<open>
  The invariant of the durable state (\<open>durable_ok\<close>) and that every operation keeps it, whether it
  succeeds or fails: the maps are keyed by the ids of their objects, each object is well formed, a
  Workspace and its Shells, launchers and Agents refer to each other, names are used once, and no
  two Shells have the same last run.
\<close>

definition workspaces_ok :: "registry_env \<Rightarrow> (string, durable_workspace) smap \<Rightarrow> bool" where
  "workspaces_ok env ws \<longleftrightarrow>
     smap_ok ws
     \<and> (\<forall>i w. get ws i = Some w \<longrightarrow> dw_id w = i \<and> workspace_ok env w)
     \<and> (\<forall>i j v w. get ws i = Some v \<and> get ws j = Some w \<and> dw_name v = dw_name w \<longrightarrow> i = j)"

definition objects_ok :: "('o \<Rightarrow> string) \<Rightarrow> ('o \<Rightarrow> bool) \<Rightarrow> (string, 'o) smap \<Rightarrow> bool" where
  "objects_ok key P m \<longleftrightarrow> smap_ok m \<and> (\<forall>i x. get m i = Some x \<longrightarrow> key x = i \<and> P x)"

definition runs_once :: "(string, shell) smap \<Rightarrow> bool" where
  "runs_once m \<longleftrightarrow>
     (\<forall>i j s t r q. get m i = Some s \<and> get m j = Some t \<and> ds_last_run s = Some r \<and> ds_last_run t = Some q
        \<and> psr_id r = psr_id q \<longrightarrow> i = j)"

definition durable_ok :: "registry_env \<Rightarrow> durable_state \<Rightarrow> bool" where
  "durable_ok env st \<longleftrightarrow>
     workspaces_ok env (dst_workspaces st)
     \<and> objects_ok ds_id (shell_ok env) (dst_shells st)
     \<and> objects_ok wl_id (launcher_ok env) (dst_launchers st)
     \<and> objects_ok ai_id (agent_ok env) (dst_agents st)
     \<and> children_ok ds_workspace_id ds_name dw_shell_ids (dst_workspaces st) (dst_shells st)
     \<and> children_ok wl_workspace_id wl_name dw_launcher_ids (dst_workspaces st) (dst_launchers st)
     \<and> children_ok ai_workspace_id ai_id dw_agent_ids (dst_workspaces st) (dst_agents st)
     \<and> runs_once (dst_shells st)"

lemma durable_okD:
  assumes "durable_ok env st"
  shows "workspaces_ok env (dst_workspaces st)" "smap_ok (dst_workspaces st)" "smap_ok (dst_shells st)"
    "smap_ok (dst_launchers st)" "smap_ok (dst_agents st)"
    "objects_ok ds_id (shell_ok env) (dst_shells st)"
    "objects_ok wl_id (launcher_ok env) (dst_launchers st)"
    "objects_ok ai_id (agent_ok env) (dst_agents st)"
    "children_ok ds_workspace_id ds_name dw_shell_ids (dst_workspaces st) (dst_shells st)"
    "children_ok wl_workspace_id wl_name dw_launcher_ids (dst_workspaces st) (dst_launchers st)"
    "children_ok ai_workspace_id ai_id dw_agent_ids (dst_workspaces st) (dst_agents st)"
    "runs_once (dst_shells st)"
  using assms unfolding durable_ok_def workspaces_ok_def objects_ok_def by simp_all

lemma workspace_okD:
  "durable_ok env st \<Longrightarrow> get (dst_workspaces st) i = Some w \<Longrightarrow> dw_id w = i \<and> 1 \<le> dw_revision w"
  unfolding durable_ok_def workspaces_ok_def workspace_ok_def by blast

lemma workspace_wfD:
  "durable_ok env st \<Longrightarrow> get (dst_workspaces st) i = Some w \<Longrightarrow> workspace_ok env w"
  unfolding durable_ok_def workspaces_ok_def by blast

lemma workspace_names:
  "durable_ok env st \<Longrightarrow> get (dst_workspaces st) i = Some v \<Longrightarrow> get (dst_workspaces st) j = Some w
    \<Longrightarrow> dw_name v = dw_name w \<Longrightarrow> i = j"
  unfolding durable_ok_def workspaces_ok_def by blast

lemma objects_okD: "objects_ok key P m \<Longrightarrow> get m i = Some x \<Longrightarrow> key x = i \<and> P x"
  unfolding objects_ok_def by blast

lemma empty_durable_ok: "durable_ok env empty_durable_state"
  by (auto simp: durable_ok_def empty_durable_state_def workspaces_ok_def objects_ok_def
      children_ok_def lists_children_def has_owners_def names_once_def runs_once_def)

section \<open>The maps\<close>

lemma bumped_le: "u64_checked_add (revision :: u64) 1 = Some r \<Longrightarrow> revision \<le> r"
  using u64_checked_add_one_less(1) [of revision r] by simp

lemma objects_ok_put: "objects_ok key P m \<Longrightarrow> key x = k \<Longrightarrow> P x \<Longrightarrow> objects_ok key P (put k x m)"
  by (auto simp: objects_ok_def get_put)

lemma objects_ok_del: "objects_ok key P m \<Longrightarrow> objects_ok key P (del k m)"
  by (auto simp: objects_ok_def get_del)

lemma objects_ok_alter:
  "objects_ok key P m \<Longrightarrow> (\<And>x. get m k = Some x \<Longrightarrow> key (f x) = key x \<and> P (f x))
    \<Longrightarrow> objects_ok key P (alter k f m)"
  by (auto simp: objects_ok_def get_alter)

lemma objects_ok_fold_put:
  "objects_ok key P m \<Longrightarrow> (\<And>x. x \<in> set xs \<Longrightarrow> P x) \<Longrightarrow> objects_ok key P (fold (\<lambda>x. put (key x) x) xs m)"
  by (induction xs arbitrary: m) (auto intro: objects_ok_put)

lemma objects_ok_fold_del: "objects_ok key P m \<Longrightarrow> objects_ok key P (fold del ks m)"
  by (induction ks arbitrary: m) (auto intro: objects_ok_del)

lemma runs_once_mono:
  assumes "runs_once m"
    and "\<And>i s r. get m' i = Some s \<Longrightarrow> ds_last_run s = Some r \<Longrightarrow> \<exists>t. get m i = Some t \<and> ds_last_run t = Some r"
  shows "runs_once m'"
  unfolding runs_once_def
proof (intro allI impI, elim conjE)
  fix i j s t r q
  assume "get m' i = Some s" "get m' j = Some t" "ds_last_run s = Some r" "ds_last_run t = Some q"
    and same: "psr_id r = psr_id q"
  then obtain s' t' where "get m i = Some s'" "get m j = Some t'"
      "ds_last_run s' = Some r" "ds_last_run t' = Some q"
    using assms(2) by blast
  then show "i = j" using assms(1) same unfolding runs_once_def by blast
qed

lemma runs_once_put:
  assumes "runs_once m" and "smap_ok m" and "ds_last_run s = None"
  shows "runs_once (put k s m)"
  by (rule runs_once_mono [OF assms(1)]) (use assms(3) in \<open>auto simp: get_put [OF assms(2)] split: if_splits\<close>)

lemma runs_once_del: "runs_once m \<Longrightarrow> smap_ok m \<Longrightarrow> runs_once (del k m)"
  by (rule runs_once_mono) (auto simp: get_del split: if_splits)

lemma runs_once_fold_del: "runs_once m \<Longrightarrow> smap_ok m \<Longrightarrow> runs_once (fold del ks m)"
  by (induction ks arbitrary: m) (auto simp: runs_once_del)

lemma runs_once_fold_put:
  "runs_once m \<Longrightarrow> smap_ok m \<Longrightarrow> (\<And>s. s \<in> set shells \<Longrightarrow> ds_last_run s = None)
    \<Longrightarrow> runs_once (fold (\<lambda>s. put (ds_id s) s) shells m)"
  by (induction shells arbitrary: m) (auto simp: runs_once_put)

lemma runs_once_alter:
  assumes "runs_once m" and "smap_ok m" and "\<And>s. get m k = Some s \<Longrightarrow> ds_last_run (f s) = ds_last_run s"
  shows "runs_once (alter k f m)"
  by (rule runs_once_mono [OF assms(1)])
    (use assms(3) in \<open>auto simp: get_alter [OF assms(2)] split: if_splits\<close>)

lemma workspaces_ok_put:
  assumes "workspaces_ok env ws" and "dw_id w = k" and "workspace_ok env w"
    and "\<And>j v. get ws j = Some v \<Longrightarrow> dw_name v \<noteq> dw_name w"
  shows "workspaces_ok env (put k w ws)"
proof -
  have sm: "smap_ok ws" using assms(1) by (simp add: workspaces_ok_def)
  have got: "get (put k w ws) j = (if j = k then Some w else get ws j)" for j
    by (simp add: get_put [OF sm])
  show ?thesis
    unfolding workspaces_ok_def
  proof (intro conjI allI impI)
    show "smap_ok (put k w ws)" using sm by simp
    show "dw_id v = j" "workspace_ok env v" if "get (put k w ws) j = Some v" for j v
      using that assms(1-3) by (auto simp: got workspaces_ok_def split: if_splits)
    show "i = j"
      if "get (put k w ws) i = Some v \<and> get (put k w ws) j = Some u \<and> dw_name v = dw_name u" for i j v u
    proof (cases "i = k \<or> j = k")
      case True
      then show ?thesis using that assms(4) by (metis got option.inject)
    next
      case False
      then have "get ws i = Some v" "get ws j = Some u" "dw_name v = dw_name u"
        using that by (simp_all add: got)
      then show ?thesis using assms(1) unfolding workspaces_ok_def by blast
    qed
  qed
qed

lemma workspaces_ok_del: "workspaces_ok env ws \<Longrightarrow> workspaces_ok env (del k ws)"
  by (auto simp: workspaces_ok_def get_del)

lemma workspaces_ok_alter:
  assumes ok: "workspaces_ok env ws"
    and "\<And>w. get ws k = Some w \<Longrightarrow> dw_id (f w) = dw_id w \<and> workspace_ok env (f w)"
    and name: "\<And>w j v. get ws k = Some w \<Longrightarrow> j \<noteq> k \<Longrightarrow> get ws j = Some v \<Longrightarrow> dw_name v \<noteq> dw_name (f w)"
  shows "workspaces_ok env (alter k f ws)"
proof (cases "get ws k")
  case None
  then show ?thesis using ok by (simp add: alter_none)
next
  case (Some w)
  have sm: "smap_ok ws" using ok by (simp add: workspaces_ok_def)
  have got: "get (alter k f ws) j = (if j = k then Some (f w) else get ws j)" for j
    using Some by (simp add: get_alter [OF sm])
  have old: "dw_id v = j \<and> workspace_ok env v" if "get ws j = Some v" for j v
    using that ok unfolding workspaces_ok_def by blast
  have new: "dw_id v = j \<and> workspace_ok env v" if "get (alter k f ws) j = Some v" for j v
  proof (cases "j = k")
    case True
    then have "v = f w" using that by (simp add: got)
    then show ?thesis using True assms(2) [OF Some] old [OF Some] by simp
  next
    case False
    then show ?thesis using that old by (simp add: got)
  qed
  show ?thesis
    unfolding workspaces_ok_def
  proof (intro conjI allI impI)
    show "smap_ok (alter k f ws)" using sm by simp
    show "dw_id v = j" "workspace_ok env v" if "get (alter k f ws) j = Some v" for j v
      using new [OF that] by simp_all
    show "i = j"
      if "get (alter k f ws) i = Some v \<and> get (alter k f ws) j = Some u \<and> dw_name v = dw_name u" for i j v u
    proof (cases "i = k \<or> j = k")
      case True
      then show ?thesis using that name [OF Some] by (metis got option.inject)
    next
      case False
      then have "get ws i = Some v" "get ws j = Some u" "dw_name v = dw_name u"
        using that by (simp_all add: got)
      then show ?thesis using ok unfolding workspaces_ok_def by blast
    qed
  qed
qed

text \<open>A Workspace of which only the revision, the default directory or one of its lists changes.\<close>

lemma workspaces_ok_keep:
  assumes "workspaces_ok env ws"
    and "\<And>w. get ws k = Some w \<Longrightarrow> dw_id (f w) = dw_id w \<and> dw_name (f w) = dw_name w \<and> workspace_ok env (f w)"
  shows "workspaces_ok env (alter k f ws)"
proof (rule workspaces_ok_alter [OF assms(1)])
  show "dw_id (f w) = dw_id w \<and> workspace_ok env (f w)" if "get ws k = Some w" for w
    using assms(2) [OF that] by simp
  show "dw_name v \<noteq> dw_name (f w)" if "get ws k = Some w" "j \<noteq> k" "get ws j = Some v" for w j v
    using assms(2) [OF that(1)] that assms(1) unfolding workspaces_ok_def by metis
qed

section \<open>States that differ in one Workspace\<close>

lemma durable_ok_upd_workspace:
  assumes ok: "durable_ok env st"
    and "workspaces_ok env (alter i f (dst_workspaces st))"
    and "\<And>w. get (dst_workspaces st) i = Some w \<Longrightarrow> dw_shell_ids (f w) = dw_shell_ids w
           \<and> dw_launcher_ids (f w) = dw_launcher_ids w \<and> dw_agent_ids (f w) = dw_agent_ids w"
  shows "durable_ok env (upd_workspace i f st)"
  unfolding durable_ok_def upd_workspace_def
  using durable_okD [OF ok] assms(2,3) by (simp add: children_alter_workspace)

lemma workspace_name_taken_iff:
  "smap_ok (dst_workspaces st) \<Longrightarrow>
    workspace_name_taken name st \<longleftrightarrow> (\<exists>i w. get (dst_workspaces st) i = Some w \<and> dw_name w = name)"
  using in_objects [of "dst_workspaces st"] unfolding workspace_name_taken_def by blast

lemma bump_workspace_eq:
  "get (dst_workspaces st) i = Some w \<Longrightarrow> bump_workspace i st =
    (case u64_checked_add (dw_revision w) 1 of
       None \<Rightarrow> (Inl (other_error ''workspace revision exhausted''), st)
     | Some r \<Rightarrow> (Inr (), upd_workspace i (dw_revision_update (\<lambda>_. r)) st))"
  by (simp add: bump_workspace_def find_defs op_defs bump_revision_def split: option.split)


section \<open>A Shell added\<close>

definition add_shell :: "(u64 \<Rightarrow> u64) \<Rightarrow> shell \<Rightarrow> durable_state \<Rightarrow> durable_state" where
  "add_shell h s st = st\<lparr>
     dst_shells := put (ds_id s) s (dst_shells st),
     dst_workspaces := alter (ds_workspace_id s)
       (\<lambda>w. dw_revision_update h (dw_shell_ids_update (\<lambda>ks. ks @ [ds_id s]) w)) (dst_workspaces st)\<rparr>"

lemma add_shell_ok:
  assumes ok: "durable_ok env st" and new: "get (dst_shells st) (ds_id s) = None"
    and w: "get (dst_workspaces st) (ds_workspace_id s) = Some w" and key: "shell_ok env s" and h: "dw_revision w \<le> h (dw_revision w)"
    and name: "\<not> shell_name_taken (dw_shell_ids w) (ds_name s) st" and fresh_run: "ds_last_run s = None"
  shows "durable_ok env (add_shell h s st)"
proof -
  note ws = durable_okD(2) [OF ok]
  show ?thesis
    unfolding durable_ok_def
  proof (intro conjI)
    show "workspaces_ok env (dst_workspaces (add_shell h s st))"
      using w h workspace_wfD [OF ok w]
      by (simp add: add_shell_def)
        (rule workspaces_ok_keep [OF durable_okD(1) [OF ok]]; simp)
    show "objects_ok ds_id (shell_ok env) (dst_shells (add_shell h s st))"
      using durable_okD(6) [OF ok] key by (simp add: add_shell_def objects_ok_put)
    show "objects_ok wl_id (launcher_ok env) (dst_launchers (add_shell h s st))"
      using durable_okD(7) [OF ok] by (simp add: add_shell_def)
    show "objects_ok ai_id (agent_ok env) (dst_agents (add_shell h s st))"
      using durable_okD(8) [OF ok] by (simp add: add_shell_def)
    have "children_ok ds_workspace_id ds_name dw_shell_ids
        (alter (ds_workspace_id s) (\<lambda>w. dw_revision_update h (dw_shell_ids_update (\<lambda>ks. ks @ [ds_id s]) w)) (dst_workspaces st))
        (put (ds_id s) s (dst_shells st))"
    proof (rule children_insert [OF durable_okD(9) [OF ok] ws durable_okD(3) [OF ok] new refl w])
      show "dw_shell_ids (dw_revision_update h (dw_shell_ids_update (\<lambda>ks. ks @ [ds_id s]) w)) = dw_shell_ids w @ [ds_id s]"
        by simp
      show "ds_name y \<noteq> ds_name s" if "j \<in> set (dw_shell_ids w)" "get (dst_shells st) j = Some y" for j y
      using that name by (auto simp: shell_name_taken_def)
    qed
    then show "children_ok ds_workspace_id ds_name dw_shell_ids (dst_workspaces (add_shell h s st)) (dst_shells (add_shell h s st))"
      by (simp add: add_shell_def)
    show "children_ok wl_workspace_id wl_name dw_launcher_ids (dst_workspaces (add_shell h s st)) (dst_launchers (add_shell h s st))"
      by (simp add: add_shell_def) (rule children_alter_workspace [OF durable_okD(10) [OF ok] ws]; simp)
    show "children_ok ai_workspace_id ai_id dw_agent_ids (dst_workspaces (add_shell h s st)) (dst_agents (add_shell h s st))"
      by (simp add: add_shell_def) (rule children_alter_workspace [OF durable_okD(11) [OF ok] ws]; simp)
    show "runs_once (dst_shells (add_shell h s st))"
      using durable_okD(12) [OF ok] fresh_run by (simp add: add_shell_def runs_once_put durable_okD(3) [OF ok])
  qed
qed

lemma add_shell_undo:
  assumes ok: "durable_ok env st" and new: "get (dst_shells st) (ds_id s) = None"
    and w: "get (dst_workspaces st) (ds_workspace_id s) = Some w"
    and r: "u64_checked_add (dw_revision w) 1 = Some r"
  shows "rollback_undo (UndoCreatedShell (ds_workspace_id s) (ds_id s)) (add_shell (\<lambda>_. r) s st) = st"
proof -
  note sm = durable_okD(2) [OF ok] durable_okD(3) [OF ok]
  have unlisted: "ds_id s \<notin> set (dw_shell_ids w)" by (rule children_unlisted [OF durable_okD(9) [OF ok] w new])
  note undone = shells_of.undo_append_map [OF sm(1) w conjunct2 [OF workspace_okD [OF ok w]] r unlisted]
  show ?thesis
    by (simp add: add_shell_def upd_workspace_def undone sm.remove_insert_fresh [OF sm(2) new])
qed


section \<open>A launcher added\<close>

definition add_launcher :: "(u64 \<Rightarrow> u64) \<Rightarrow> workspace_launcher \<Rightarrow> durable_state \<Rightarrow> durable_state" where
  "add_launcher h l st = st\<lparr>
     dst_launchers := put (wl_id l) l (dst_launchers st),
     dst_workspaces := alter (wl_workspace_id l)
       (\<lambda>w. dw_revision_update h (dw_launcher_ids_update (\<lambda>ks. ks @ [wl_id l]) w)) (dst_workspaces st)\<rparr>"

lemma add_launcher_ok:
  assumes ok: "durable_ok env st" and new: "get (dst_launchers st) (wl_id l) = None"
    and w: "get (dst_workspaces st) (wl_workspace_id l) = Some w" and key: "launcher_ok env l" and h: "dw_revision w \<le> h (dw_revision w)"
    and name: "\<not> launcher_name_taken (dw_launcher_ids w) (wl_name l) st"
  shows "durable_ok env (add_launcher h l st)"
proof -
  note ws = durable_okD(2) [OF ok]
  show ?thesis
    unfolding durable_ok_def
  proof (intro conjI)
    show "workspaces_ok env (dst_workspaces (add_launcher h l st))"
      using w h workspace_wfD [OF ok w]
      by (simp add: add_launcher_def)
        (rule workspaces_ok_keep [OF durable_okD(1) [OF ok]]; simp)
    show "objects_ok ds_id (shell_ok env) (dst_shells (add_launcher h l st))"
      using durable_okD(6) [OF ok] by (simp add: add_launcher_def)
    show "objects_ok wl_id (launcher_ok env) (dst_launchers (add_launcher h l st))"
      using durable_okD(7) [OF ok] key by (simp add: add_launcher_def objects_ok_put)
    show "objects_ok ai_id (agent_ok env) (dst_agents (add_launcher h l st))"
      using durable_okD(8) [OF ok] by (simp add: add_launcher_def)
    have "children_ok wl_workspace_id wl_name dw_launcher_ids
        (alter (wl_workspace_id l) (\<lambda>w. dw_revision_update h (dw_launcher_ids_update (\<lambda>ks. ks @ [wl_id l]) w)) (dst_workspaces st))
        (put (wl_id l) l (dst_launchers st))"
    proof (rule children_insert [OF durable_okD(10) [OF ok] ws durable_okD(4) [OF ok] new refl w])
      show "dw_launcher_ids (dw_revision_update h (dw_launcher_ids_update (\<lambda>ks. ks @ [wl_id l]) w)) = dw_launcher_ids w @ [wl_id l]"
        by simp
      show "wl_name y \<noteq> wl_name l" if "j \<in> set (dw_launcher_ids w)" "get (dst_launchers st) j = Some y" for j y
      using that name by (auto simp: launcher_name_taken_def)
    qed
    then show "children_ok wl_workspace_id wl_name dw_launcher_ids (dst_workspaces (add_launcher h l st)) (dst_launchers (add_launcher h l st))"
      by (simp add: add_launcher_def)
    show "children_ok ds_workspace_id ds_name dw_shell_ids (dst_workspaces (add_launcher h l st)) (dst_shells (add_launcher h l st))"
      by (simp add: add_launcher_def) (rule children_alter_workspace [OF durable_okD(9) [OF ok] ws]; simp)
    show "children_ok ai_workspace_id ai_id dw_agent_ids (dst_workspaces (add_launcher h l st)) (dst_agents (add_launcher h l st))"
      by (simp add: add_launcher_def) (rule children_alter_workspace [OF durable_okD(11) [OF ok] ws]; simp)
    show "runs_once (dst_shells (add_launcher h l st))"
      using durable_okD(12) [OF ok] by (simp add: add_launcher_def)
  qed
qed

lemma add_launcher_undo:
  assumes ok: "durable_ok env st" and new: "get (dst_launchers st) (wl_id l) = None"
    and w: "get (dst_workspaces st) (wl_workspace_id l) = Some w"
    and r: "u64_checked_add (dw_revision w) 1 = Some r"
  shows "rollback_undo (UndoCreatedLauncher (wl_workspace_id l) (wl_id l)) (add_launcher (\<lambda>_. r) l st) = st"
proof -
  note sm = durable_okD(2) [OF ok] durable_okD(4) [OF ok]
  have unlisted: "wl_id l \<notin> set (dw_launcher_ids w)" by (rule children_unlisted [OF durable_okD(10) [OF ok] w new])
  note undone = launchers_of.undo_append_map [OF sm(1) w conjunct2 [OF workspace_okD [OF ok w]] r unlisted]
  show ?thesis
    by (simp add: add_launcher_def upd_workspace_def undone sm.remove_insert_fresh [OF sm(2) new])
qed

section \<open>An Agent added\<close>

definition add_agent :: "(u64 \<Rightarrow> u64) \<Rightarrow> agent_instance \<Rightarrow> durable_state \<Rightarrow> durable_state" where
  "add_agent h a st = st\<lparr>
     dst_agents := put (ai_id a) a (dst_agents st),
     dst_workspaces := alter (ai_workspace_id a)
       (\<lambda>w. dw_revision_update h (dw_agent_ids_update (\<lambda>ks. ks @ [ai_id a]) w)) (dst_workspaces st)\<rparr>"

lemma add_agent_ok:
  assumes ok: "durable_ok env st" and new: "get (dst_agents st) (ai_id a) = None"
    and w: "get (dst_workspaces st) (ai_workspace_id a) = Some w" and key: "agent_ok env a" and h: "dw_revision w \<le> h (dw_revision w)"
  shows "durable_ok env (add_agent h a st)"
proof -
  note ws = durable_okD(2) [OF ok]
  show ?thesis
    unfolding durable_ok_def
  proof (intro conjI)
    show "workspaces_ok env (dst_workspaces (add_agent h a st))"
      using w h workspace_wfD [OF ok w]
      by (simp add: add_agent_def)
        (rule workspaces_ok_keep [OF durable_okD(1) [OF ok]]; simp)
    show "objects_ok ds_id (shell_ok env) (dst_shells (add_agent h a st))"
      using durable_okD(6) [OF ok] by (simp add: add_agent_def)
    show "objects_ok wl_id (launcher_ok env) (dst_launchers (add_agent h a st))"
      using durable_okD(7) [OF ok] by (simp add: add_agent_def)
    show "objects_ok ai_id (agent_ok env) (dst_agents (add_agent h a st))"
      using durable_okD(8) [OF ok] key by (simp add: add_agent_def objects_ok_put)
    have "children_ok ai_workspace_id ai_id dw_agent_ids
        (alter (ai_workspace_id a) (\<lambda>w. dw_revision_update h (dw_agent_ids_update (\<lambda>ks. ks @ [ai_id a]) w)) (dst_workspaces st))
        (put (ai_id a) a (dst_agents st))"
    proof (rule children_insert [OF durable_okD(11) [OF ok] ws durable_okD(5) [OF ok] new refl w])
      show "dw_agent_ids (dw_revision_update h (dw_agent_ids_update (\<lambda>ks. ks @ [ai_id a]) w)) = dw_agent_ids w @ [ai_id a]"
        by simp
      show "ai_id y \<noteq> ai_id a" if "j \<in> set (dw_agent_ids w)" "get (dst_agents st) j = Some y" for j y
      using that new objects_okD [OF durable_okD(8) [OF ok], of j y] by auto
    qed
    then show "children_ok ai_workspace_id ai_id dw_agent_ids (dst_workspaces (add_agent h a st)) (dst_agents (add_agent h a st))"
      by (simp add: add_agent_def)
    show "children_ok ds_workspace_id ds_name dw_shell_ids (dst_workspaces (add_agent h a st)) (dst_shells (add_agent h a st))"
      by (simp add: add_agent_def) (rule children_alter_workspace [OF durable_okD(9) [OF ok] ws]; simp)
    show "children_ok wl_workspace_id wl_name dw_launcher_ids (dst_workspaces (add_agent h a st)) (dst_launchers (add_agent h a st))"
      by (simp add: add_agent_def) (rule children_alter_workspace [OF durable_okD(10) [OF ok] ws]; simp)
    show "runs_once (dst_shells (add_agent h a st))"
      using durable_okD(12) [OF ok] by (simp add: add_agent_def)
  qed
qed

lemma add_agent_undo:
  assumes ok: "durable_ok env st" and new: "get (dst_agents st) (ai_id a) = None"
    and w: "get (dst_workspaces st) (ai_workspace_id a) = Some w"
    and r: "u64_checked_add (dw_revision w) 1 = Some r"
  shows "rollback_undo (UndoRegisteredAgent (ai_workspace_id a) (ai_id a)) (add_agent (\<lambda>_. r) a st) = st"
proof -
  note sm = durable_okD(2) [OF ok] durable_okD(5) [OF ok]
  have unlisted: "ai_id a \<notin> set (dw_agent_ids w)" by (rule children_unlisted [OF durable_okD(11) [OF ok] w new])
  note undone = agents_of.undo_append_map [OF sm(1) w conjunct2 [OF workspace_okD [OF ok w]] r unlisted]
  show ?thesis
    by (simp add: add_agent_def upd_workspace_def undone sm.remove_insert_fresh [OF sm(2) new])
qed

section \<open>A Shell dropped\<close>

definition drop_shell :: "(u64 \<Rightarrow> u64) \<Rightarrow> nat \<Rightarrow> shell \<Rightarrow> durable_state \<Rightarrow> durable_state" where
  "drop_shell h n s st = st\<lparr>
     dst_shells := del (ds_id s) (dst_shells st),
     dst_workspaces := alter (ds_workspace_id s)
       (\<lambda>w. dw_revision_update h (dw_shell_ids_update (remove_at n) w)) (dst_workspaces st)\<rparr>"

lemma drop_shell_ok:
  assumes ok: "durable_ok env st" and s: "get (dst_shells st) (ds_id s) = Some s"
    and w: "get (dst_workspaces st) (ds_workspace_id s) = Some w" and h: "dw_revision w \<le> h (dw_revision w)"
    and n: "position (\<lambda>j. j = ds_id s) (dw_shell_ids w) = Some n"
  shows "durable_ok env (drop_shell h n s st)"
proof -
  note ws = durable_okD(2) [OF ok]
  show ?thesis
    unfolding durable_ok_def
  proof (intro conjI)
    show "workspaces_ok env (dst_workspaces (drop_shell h n s st))"
      using w h workspace_wfD [OF ok w]
      by (simp add: drop_shell_def)
        (rule workspaces_ok_keep [OF durable_okD(1) [OF ok]]; simp)
    show "objects_ok ds_id (shell_ok env) (dst_shells (drop_shell h n s st))"
      using durable_okD(6) [OF ok] by (simp add: drop_shell_def objects_ok_del)
    show "objects_ok wl_id (launcher_ok env) (dst_launchers (drop_shell h n s st))"
      using durable_okD(7) [OF ok] by (simp add: drop_shell_def objects_ok_del)
    show "objects_ok ai_id (agent_ok env) (dst_agents (drop_shell h n s st))"
      using durable_okD(8) [OF ok] by (simp add: drop_shell_def objects_ok_del)
    note listed = remove_position [OF n children_distinct [OF durable_okD(9) [OF ok] w]]
    have "children_ok ds_workspace_id ds_name dw_shell_ids
        (alter (ds_workspace_id s) (\<lambda>w. dw_revision_update h (dw_shell_ids_update (remove_at n) w)) (dst_workspaces st))
        (del (ds_id s) (dst_shells st))"
      by (rule children_delete [OF durable_okD(9) [OF ok] ws durable_okD(3) [OF ok] s w])
        (simp_all add: listed)
    then show "children_ok ds_workspace_id ds_name dw_shell_ids (dst_workspaces (drop_shell h n s st)) (dst_shells (drop_shell h n s st))"
      by (simp add: drop_shell_def)
    show "children_ok wl_workspace_id wl_name dw_launcher_ids (dst_workspaces (drop_shell h n s st)) (dst_launchers (drop_shell h n s st))"
      by (simp add: drop_shell_def) (rule children_alter_workspace [OF durable_okD(10) [OF ok] ws]; simp)
    show "children_ok ai_workspace_id ai_id dw_agent_ids (dst_workspaces (drop_shell h n s st)) (dst_agents (drop_shell h n s st))"
      by (simp add: drop_shell_def) (rule children_alter_workspace [OF durable_okD(11) [OF ok] ws]; simp)
    show "runs_once (dst_shells (drop_shell h n s st))"
      using durable_okD(12) [OF ok] by (simp add: drop_shell_def runs_once_del durable_okD(3) [OF ok])
  qed
qed

lemma drop_shell_undo:
  assumes ok: "durable_ok env st" and s: "get (dst_shells st) (ds_id s) = Some s"
    and w: "get (dst_workspaces st) (ds_workspace_id s) = Some w"
    and r: "u64_checked_add (dw_revision w) 1 = Some r"
    and n: "position (\<lambda>j. j = ds_id s) (dw_shell_ids w) = Some n"
  shows "rollback_undo (UndoRemovedShell (ds_workspace_id s) s n) (drop_shell (\<lambda>_. r) n s st) = st"
proof -
  note sm = durable_okD(2) [OF ok] durable_okD(3) [OF ok]
  note undone = shells_of.undo_remove_map [OF sm(1) w conjunct2 [OF workspace_okD [OF ok w]] r n]
  show ?thesis
    by (simp add: drop_shell_def upd_workspace_def undone sm.insert_remove [OF sm(2) s])
qed

section \<open>A launcher dropped\<close>

definition drop_launcher :: "(u64 \<Rightarrow> u64) \<Rightarrow> nat \<Rightarrow> workspace_launcher \<Rightarrow> durable_state \<Rightarrow> durable_state" where
  "drop_launcher h n l st = st\<lparr>
     dst_launchers := del (wl_id l) (dst_launchers st),
     dst_workspaces := alter (wl_workspace_id l)
       (\<lambda>w. dw_revision_update h (dw_launcher_ids_update (remove_at n) w)) (dst_workspaces st)\<rparr>"

lemma drop_launcher_ok:
  assumes ok: "durable_ok env st" and l: "get (dst_launchers st) (wl_id l) = Some l"
    and w: "get (dst_workspaces st) (wl_workspace_id l) = Some w" and h: "dw_revision w \<le> h (dw_revision w)"
    and n: "position (\<lambda>j. j = wl_id l) (dw_launcher_ids w) = Some n"
  shows "durable_ok env (drop_launcher h n l st)"
proof -
  note ws = durable_okD(2) [OF ok]
  show ?thesis
    unfolding durable_ok_def
  proof (intro conjI)
    show "workspaces_ok env (dst_workspaces (drop_launcher h n l st))"
      using w h workspace_wfD [OF ok w]
      by (simp add: drop_launcher_def)
        (rule workspaces_ok_keep [OF durable_okD(1) [OF ok]]; simp)
    show "objects_ok ds_id (shell_ok env) (dst_shells (drop_launcher h n l st))"
      using durable_okD(6) [OF ok] by (simp add: drop_launcher_def objects_ok_del)
    show "objects_ok wl_id (launcher_ok env) (dst_launchers (drop_launcher h n l st))"
      using durable_okD(7) [OF ok] by (simp add: drop_launcher_def objects_ok_del)
    show "objects_ok ai_id (agent_ok env) (dst_agents (drop_launcher h n l st))"
      using durable_okD(8) [OF ok] by (simp add: drop_launcher_def objects_ok_del)
    note listed = remove_position [OF n children_distinct [OF durable_okD(10) [OF ok] w]]
    have "children_ok wl_workspace_id wl_name dw_launcher_ids
        (alter (wl_workspace_id l) (\<lambda>w. dw_revision_update h (dw_launcher_ids_update (remove_at n) w)) (dst_workspaces st))
        (del (wl_id l) (dst_launchers st))"
      by (rule children_delete [OF durable_okD(10) [OF ok] ws durable_okD(4) [OF ok] l w])
        (simp_all add: listed)
    then show "children_ok wl_workspace_id wl_name dw_launcher_ids (dst_workspaces (drop_launcher h n l st)) (dst_launchers (drop_launcher h n l st))"
      by (simp add: drop_launcher_def)
    show "children_ok ds_workspace_id ds_name dw_shell_ids (dst_workspaces (drop_launcher h n l st)) (dst_shells (drop_launcher h n l st))"
      by (simp add: drop_launcher_def) (rule children_alter_workspace [OF durable_okD(9) [OF ok] ws]; simp)
    show "children_ok ai_workspace_id ai_id dw_agent_ids (dst_workspaces (drop_launcher h n l st)) (dst_agents (drop_launcher h n l st))"
      by (simp add: drop_launcher_def) (rule children_alter_workspace [OF durable_okD(11) [OF ok] ws]; simp)
    show "runs_once (dst_shells (drop_launcher h n l st))"
      using durable_okD(12) [OF ok] by (simp add: drop_launcher_def)
  qed
qed

lemma drop_launcher_undo:
  assumes ok: "durable_ok env st" and l: "get (dst_launchers st) (wl_id l) = Some l"
    and w: "get (dst_workspaces st) (wl_workspace_id l) = Some w"
    and r: "u64_checked_add (dw_revision w) 1 = Some r"
    and n: "position (\<lambda>j. j = wl_id l) (dw_launcher_ids w) = Some n"
  shows "rollback_undo (UndoRemovedLauncher (wl_workspace_id l) l n) (drop_launcher (\<lambda>_. r) n l st) = st"
proof -
  note sm = durable_okD(2) [OF ok] durable_okD(4) [OF ok]
  note undone = launchers_of.undo_remove_map [OF sm(1) w conjunct2 [OF workspace_okD [OF ok w]] r n]
  show ?thesis
    by (simp add: drop_launcher_def upd_workspace_def undone sm.insert_remove [OF sm(2) l])
qed

end
