(* ===== verification/Durable_Changes.thy ===== *)
theory Durable_Changes
  imports Durable_Invariant
begin

text \<open>
  The abstract specification of the durable state: the changes that can be made to it, each with
  the record that undoes it (\<open>durable_change\<close>). Each change keeps the invariant and its record leads
  back to exactly the state before, so a log of records in reverse does too (\<open>changes_undone\<close>).
\<close>

inductive durable_change :: "registry_env \<Rightarrow> durable_state \<Rightarrow> durable_undo \<Rightarrow> durable_state \<Rightarrow> bool" for env where
  workspace_created:
    "get (dst_workspaces st) i = None \<Longrightarrow> \<not> workspace_name_taken name st
     \<Longrightarrow> distinct (map ds_id shells) \<Longrightarrow> distinct (map ds_name shells)
     \<Longrightarrow> \<forall>s \<in> set shells. get (dst_shells st) (ds_id s) = None \<and> ds_workspace_id s = i \<and> shell_ok env s
          \<and> ds_last_run s = None
     \<Longrightarrow> workspace_ok env (new_workspace i name cwd [])
     \<Longrightarrow> durable_change env st (UndoCreatedWorkspace i (map ds_id shells))
          (st\<lparr>dst_shells := fold (\<lambda>s. put (ds_id s) s) shells (dst_shells st),
              dst_workspaces := put i (new_workspace i name cwd (map ds_id shells)) (dst_workspaces st)\<rparr>)"
| shell_created:
    "get (dst_shells st) (ds_id s) = None \<Longrightarrow> get (dst_workspaces st) (ds_workspace_id s) = Some w
     \<Longrightarrow> shell_ok env s \<Longrightarrow> \<not> shell_name_taken (dw_shell_ids w) (ds_name s) st
     \<Longrightarrow> u64_checked_add (dw_revision w) 1 = Some r
     \<Longrightarrow> ds_last_run s = None
     \<Longrightarrow> durable_change env st (UndoCreatedShell (ds_workspace_id s) (ds_id s)) (add_shell (\<lambda>_. r) s st)"
| launcher_created:
    "get (dst_launchers st) (wl_id l) = None \<Longrightarrow> get (dst_workspaces st) (wl_workspace_id l) = Some w
     \<Longrightarrow> launcher_ok env l \<Longrightarrow> \<not> launcher_name_taken (dw_launcher_ids w) (wl_name l) st
     \<Longrightarrow> u64_checked_add (dw_revision w) 1 = Some r
     \<Longrightarrow> durable_change env st (UndoCreatedLauncher (wl_workspace_id l) (wl_id l)) (add_launcher (\<lambda>_. r) l st)"
| agent_registered:
    "get (dst_agents st) (ai_id a) = None \<Longrightarrow> get (dst_workspaces st) (ai_workspace_id a) = Some w
     \<Longrightarrow> agent_ok env a \<Longrightarrow> u64_checked_add (dw_revision w) 1 = Some r
     \<Longrightarrow> durable_change env st (UndoRegisteredAgent (ai_workspace_id a) (ai_id a)) (add_agent (\<lambda>_. r) a st)"
| shell_removed:
    "get (dst_shells st) (ds_id s) = Some s \<Longrightarrow> get (dst_workspaces st) (ds_workspace_id s) = Some w
     \<Longrightarrow> position (\<lambda>j. j = ds_id s) (dw_shell_ids w) = Some n
     \<Longrightarrow> u64_checked_add (dw_revision w) 1 = Some r
     \<Longrightarrow> durable_change env st (UndoRemovedShell (ds_workspace_id s) s n) (drop_shell (\<lambda>_. r) n s st)"
| launcher_removed:
    "get (dst_launchers st) (wl_id l) = Some l \<Longrightarrow> get (dst_workspaces st) (wl_workspace_id l) = Some w
     \<Longrightarrow> position (\<lambda>j. j = wl_id l) (dw_launcher_ids w) = Some n
     \<Longrightarrow> u64_checked_add (dw_revision w) 1 = Some r
     \<Longrightarrow> durable_change env st (UndoRemovedLauncher (wl_workspace_id l) l n) (drop_launcher (\<lambda>_. r) n l st)"
| workspace_removed:
    "get (dst_workspaces st) i = Some w
     \<Longrightarrow> durable_change env st
          (UndoRemovedWorkspace w (List.map_filter (get (dst_shells st)) (dw_shell_ids w))
            (List.map_filter (get (dst_launchers st)) (dw_launcher_ids w))
            (List.map_filter (get (dst_agents st)) (dw_agent_ids w)))
          (st\<lparr>dst_workspaces := del i (dst_workspaces st),
              dst_shells := fold del (dw_shell_ids w) (dst_shells st),
              dst_launchers := fold del (dw_launcher_ids w) (dst_launchers st),
              dst_agents := fold del (dw_agent_ids w) (dst_agents st)\<rparr>)"
| workspace_renamed:
    "get (dst_workspaces st) i = Some w
     \<Longrightarrow> \<forall>j v. j \<noteq> i \<longrightarrow> get (dst_workspaces st) j = Some v \<longrightarrow> dw_name v \<noteq> name
     \<Longrightarrow> u64_checked_add (dw_revision w) 1 = Some r
     \<Longrightarrow> \<not> is_blank name
     \<Longrightarrow> durable_change env st (UndoRenamedWorkspace i (dw_name w) (dw_revision w))
          (upd_workspace i (\<lambda>w. w\<lparr>dw_name := name, dw_revision := r\<rparr>) st)"
| workspace_cwd_set:
    "get (dst_workspaces st) i = Some w \<Longrightarrow> u64_checked_add (dw_revision w) 1 = Some r
     \<Longrightarrow> (\<And>p. cwd = Some p \<Longrightarrow> is_absolute p)
     \<Longrightarrow> durable_change env st (UndoSetWorkspaceDefaultCwd i (dw_default_cwd w) (dw_revision w))
          (upd_workspace i (\<lambda>w. w\<lparr>dw_default_cwd := cwd, dw_revision := r\<rparr>) st)"
| shell_renamed:
    "get (dst_shells st) i = Some s \<Longrightarrow> get (dst_workspaces st) (ds_workspace_id s) = Some w
     \<Longrightarrow> \<not> shell_name_taken (filter (\<lambda>j. j \<noteq> i) (dw_shell_ids w)) name st
     \<Longrightarrow> u64_checked_add (ds_revision s) 1 = Some r
     \<Longrightarrow> \<not> is_blank name
     \<Longrightarrow> durable_change env st (UndoRenamedShell i (ds_name s) (ds_revision s))
          (upd_shell i (\<lambda>s. s\<lparr>ds_name := name, ds_revision := r\<rparr>) st)"
| launcher_renamed:
    "get (dst_launchers st) i = Some l \<Longrightarrow> get (dst_workspaces st) (wl_workspace_id l) = Some w
     \<Longrightarrow> \<not> launcher_name_taken (filter (\<lambda>j. j \<noteq> i) (dw_launcher_ids w)) name st
     \<Longrightarrow> u64_checked_add (wl_revision l) 1 = Some r
     \<Longrightarrow> \<not> is_blank name
     \<Longrightarrow> durable_change env st (UndoRenamedLauncher i (wl_name l) (wl_revision l))
          (upd_launcher i (\<lambda>l. l\<lparr>wl_name := name, wl_revision := r\<rparr>) st)"
| agent_updated:
    "get (dst_agents st) i = Some a \<Longrightarrow> agent_ok env (a\<lparr>ai_state := state\<rparr>)
     \<Longrightarrow> durable_change env st (UndoAgentState i (ai_state a)) (upd_agent i (\<lambda>a. a\<lparr>ai_state := state\<rparr>) st)"

section \<open>Changes keep the invariant\<close>

lemma workspace_created_ok:
  assumes ok: "durable_ok env st" and new: "get (dst_workspaces st) i = None"
    and name: "\<not> workspace_name_taken name st"
    and ids: "distinct (map ds_id shells)" and names: "distinct (map ds_name shells)"
    and fresh: "\<forall>s \<in> set shells. get (dst_shells st) (ds_id s) = None \<and> ds_workspace_id s = i \<and> shell_ok env s
      \<and> ds_last_run s = None"
    and wf: "workspace_ok env (new_workspace i name cwd [])"
  shows "durable_ok env (st\<lparr>dst_shells := fold (\<lambda>s. put (ds_id s) s) shells (dst_shells st),
            dst_workspaces := put i (new_workspace i name cwd (map ds_id shells)) (dst_workspaces st)\<rparr>)"
proof -
  note sm = durable_okD(2-5) [OF ok]
  note no = children_new_workspace [where xs = "[]", simplified]
  have "workspaces_ok env (put i (new_workspace i name cwd (map ds_id shells)) (dst_workspaces st))"
  proof (rule workspaces_ok_put [OF durable_okD(1) [OF ok]])
    show "workspace_ok env (new_workspace i name cwd (map ds_id shells))"
      by (rule workspace_ok_same [OF wf]) (simp_all add: new_workspace_def)
  qed (use name in \<open>auto simp: new_workspace_def workspace_name_taken_iff [OF sm(1)]\<close>)
  moreover have "objects_ok ds_id (shell_ok env) (fold (\<lambda>s. put (ds_id s) s) shells (dst_shells st))"
    using fresh by (intro objects_ok_fold_put durable_okD(6) [OF ok]) simp
  moreover have "children_ok ds_workspace_id ds_name dw_shell_ids
      (put i (new_workspace i name cwd (map ds_id shells)) (dst_workspaces st))
      (fold (\<lambda>s. put (ds_id s) s) shells (dst_shells st))"
    using fresh by (intro children_new_workspace durable_okD(9) [OF ok] sm new ids names)
      (simp_all add: new_workspace_def)
  moreover have "children_ok wl_workspace_id wl_name dw_launcher_ids
      (put i (new_workspace i name cwd (map ds_id shells)) (dst_workspaces st)) (dst_launchers st)"
    by (rule no [OF durable_okD(10) [OF ok] sm(1,3) new]) (simp add: new_workspace_def)
  moreover have "children_ok ai_workspace_id ai_id dw_agent_ids
      (put i (new_workspace i name cwd (map ds_id shells)) (dst_workspaces st)) (dst_agents st)"
    by (rule no [OF durable_okD(11) [OF ok] sm(1,4) new]) (simp add: new_workspace_def)
  moreover have "runs_once (fold (\<lambda>s. put (ds_id s) s) shells (dst_shells st))"
    using fresh by (intro runs_once_fold_put durable_okD(12) [OF ok] sm) simp
  ultimately show ?thesis
    using durable_okD(7,8) [OF ok] by (simp add: durable_ok_def)
qed

lemma workspace_removed_ok:
  assumes ok: "durable_ok env st" and w: "get (dst_workspaces st) i = Some w"
  shows "durable_ok env (st\<lparr>dst_workspaces := del i (dst_workspaces st),
              dst_shells := fold del (dw_shell_ids w) (dst_shells st),
              dst_launchers := fold del (dw_launcher_ids w) (dst_launchers st),
              dst_agents := fold del (dw_agent_ids w) (dst_agents st)\<rparr>)"
  using durable_okD [OF ok] w
  by (simp add: durable_ok_def workspaces_ok_del objects_ok_fold_del children_delete_workspace runs_once_fold_del)

lemma agent_updated_ok:
  assumes ok: "durable_ok env st" and a: "get (dst_agents st) i = Some a" and "agent_ok env (a\<lparr>ai_state := s\<rparr>)"
  shows "durable_ok env (upd_agent i (\<lambda>a. a\<lparr>ai_state := s\<rparr>) st)"
proof -
  have key: "ai_id y = j" if "get (dst_agents st) j = Some y" for j y
    using objects_okD [OF durable_okD(8) [OF ok] that] by simp
  have "objects_ok ai_id (agent_ok env) (alter i (\<lambda>a. a\<lparr>ai_state := s\<rparr>) (dst_agents st))"
    using a assms(3) by (intro objects_ok_alter durable_okD(8) [OF ok]) simp
  moreover have "children_ok ai_workspace_id ai_id dw_agent_ids (dst_workspaces st)
      (alter i (\<lambda>a. a\<lparr>ai_state := s\<rparr>) (dst_agents st))"
    using a key by (intro children_alter [where k = i] durable_okD(11,5) [OF ok] a) auto
  ultimately show ?thesis
    using durable_okD [OF ok] by (simp add: durable_ok_def upd_agent_def)
qed

lemma shell_updated_ok:
  assumes ok: "durable_ok env st" and s: "get (dst_shells st) i = Some s"
    and keep: "ds_id (f s) = ds_id s \<and> ds_workspace_id (f s) = ds_workspace_id s \<and> shell_ok env (f s)
      \<and> ds_last_run (f s) = ds_last_run s"
    and w: "get (dst_workspaces st) (ds_workspace_id s) = Some w"
    and name: "\<not> shell_name_taken (filter (\<lambda>j. j \<noteq> i) (dw_shell_ids w)) (ds_name (f s)) st"
  shows "durable_ok env (upd_shell i f st)"
proof -
  have "objects_ok ds_id (shell_ok env) (alter i f (dst_shells st))"
    using s keep by (intro objects_ok_alter durable_okD(6) [OF ok]) simp
  moreover have "children_ok ds_workspace_id ds_name dw_shell_ids (dst_workspaces st) (alter i f (dst_shells st))"
  proof (rule children_alter [OF durable_okD(9) [OF ok] durable_okD(3) [OF ok] s])
    show "ds_workspace_id (f s) = ds_workspace_id s" using keep by simp
    show "ds_name y \<noteq> ds_name (f s)"
      if "j \<noteq> i" "get (dst_shells st) j = Some y" "ds_workspace_id y = ds_workspace_id s" for j y
      using name that children_owned [OF durable_okD(9) [OF ok] that(2)] w
      by (auto simp: shell_name_taken_def split: option.splits)
  qed
  moreover have "runs_once (alter i f (dst_shells st))"
    using s keep by (intro runs_once_alter durable_okD(12,3) [OF ok]) simp
  ultimately show ?thesis
    using durable_okD [OF ok] by (simp add: durable_ok_def upd_shell_def)
qed

lemma launcher_updated_ok:
  assumes ok: "durable_ok env st" and l: "get (dst_launchers st) i = Some l"
    and keep: "wl_id (f l) = wl_id l \<and> wl_workspace_id (f l) = wl_workspace_id l \<and> launcher_ok env (f l)"
    and w: "get (dst_workspaces st) (wl_workspace_id l) = Some w"
    and name: "\<not> launcher_name_taken (filter (\<lambda>j. j \<noteq> i) (dw_launcher_ids w)) (wl_name (f l)) st"
  shows "durable_ok env (upd_launcher i f st)"
proof -
  have "objects_ok wl_id (launcher_ok env) (alter i f (dst_launchers st))"
    using l keep by (intro objects_ok_alter durable_okD(7) [OF ok]) simp
  moreover have "children_ok wl_workspace_id wl_name dw_launcher_ids (dst_workspaces st) (alter i f (dst_launchers st))"
  proof (rule children_alter [OF durable_okD(10) [OF ok] durable_okD(4) [OF ok] l])
    show "wl_workspace_id (f l) = wl_workspace_id l" using keep by simp
    show "wl_name y \<noteq> wl_name (f l)"
      if "j \<noteq> i" "get (dst_launchers st) j = Some y" "wl_workspace_id y = wl_workspace_id l" for j y
      using name that children_owned [OF durable_okD(10) [OF ok] that(2)] w
      by (auto simp: launcher_name_taken_def split: option.splits)
  qed
  ultimately show ?thesis
    using durable_okD [OF ok] by (simp add: durable_ok_def upd_launcher_def)
qed

lemma workspace_updated_ok:
  assumes ok: "durable_ok env st" and w: "get (dst_workspaces st) i = Some w"
    and keep: "dw_id (f w) = dw_id w \<and> workspace_ok env (f w) \<and> dw_shell_ids (f w) = dw_shell_ids w
      \<and> dw_launcher_ids (f w) = dw_launcher_ids w \<and> dw_agent_ids (f w) = dw_agent_ids w"
    and name: "\<forall>j v. j \<noteq> i \<longrightarrow> get (dst_workspaces st) j = Some v \<longrightarrow> dw_name v \<noteq> dw_name (f w)"
  shows "durable_ok env (upd_workspace i f st)"
proof (rule durable_ok_upd_workspace [OF ok workspaces_ok_alter [OF durable_okD(1) [OF ok]]])
  show "dw_id (f v) = dw_id v \<and> workspace_ok env (f v)" if "get (dst_workspaces st) i = Some v" for v
    using that w keep by simp
  show "dw_name u \<noteq> dw_name (f v)"
    if "get (dst_workspaces st) i = Some v" "j \<noteq> i" "get (dst_workspaces st) j = Some u" for v j u
    using that w name by simp
  show "dw_shell_ids (f v) = dw_shell_ids v \<and> dw_launcher_ids (f v) = dw_launcher_ids v
      \<and> dw_agent_ids (f v) = dw_agent_ids v" if "get (dst_workspaces st) i = Some v" for v
    using that w keep by simp
qed

lemma shell_ok_renamed:
  "shell_ok env s \<Longrightarrow> ds_revision s \<le> r \<Longrightarrow> \<not> is_blank name
    \<Longrightarrow> shell_ok env (s\<lparr>ds_name := name, ds_revision := r\<rparr>)"
  using order_trans [of 1 "ds_revision s" r] by (simp add: shell_ok_def running_run_def)

lemma launcher_ok_renamed:
  "launcher_ok env l \<Longrightarrow> wl_revision l \<le> r \<Longrightarrow> \<not> is_blank name
    \<Longrightarrow> launcher_ok env (l\<lparr>wl_name := name, wl_revision := r\<rparr>)"
  using order_trans [of 1 "wl_revision l" r] by (simp add: launcher_ok_def)

lemma change_ok:
  assumes "durable_change env st u st'" and "durable_ok env st"
  shows "durable_ok env st'"
  using assms
proof cases
  case workspace_created
  then show ?thesis using workspace_created_ok assms(2) by simp
next
  case (shell_created s w r)
  show ?thesis
    unfolding shell_created(2)
    by (rule add_shell_ok [where h = "\<lambda>_. r", OF assms(2) shell_created(3,4,5)
          bumped_le [OF shell_created(7)] shell_created(6,8)])
next
  case (launcher_created l w r)
  show ?thesis
    unfolding launcher_created(2)
    by (rule add_launcher_ok [where h = "\<lambda>_. r", OF assms(2) launcher_created(3,4,5) bumped_le [OF launcher_created(7)] launcher_created(6)])
next
  case (agent_registered a w r)
  show ?thesis
    unfolding agent_registered(2)
    by (rule add_agent_ok [where h = "\<lambda>_. r", OF assms(2) agent_registered(3,4,5) bumped_le [OF agent_registered(6)]])
next
  case (shell_removed s w n r)
  show ?thesis
    unfolding shell_removed(2)
    by (rule drop_shell_ok [where h = "\<lambda>_. r", OF assms(2) shell_removed(3,4) bumped_le [OF shell_removed(6)] shell_removed(5)])
next
  case (launcher_removed l w n r)
  show ?thesis
    unfolding launcher_removed(2)
    by (rule drop_launcher_ok [where h = "\<lambda>_. r", OF assms(2) launcher_removed(3,4) bumped_le [OF launcher_removed(6)] launcher_removed(5)])
next
  case workspace_removed
  then show ?thesis using assms(2) workspace_removed_ok by simp
next
  case (workspace_renamed i w name r)
  have "workspace_ok env (w\<lparr>dw_name := name, dw_revision := r\<rparr>)"
    by (rule workspace_ok_update [OF workspace_wfD [OF assms(2) workspace_renamed(3)]])
      (use bumped_le [OF workspace_renamed(5)] workspace_renamed(6) workspace_wfD [OF assms(2) workspace_renamed(3)]
        in \<open>simp_all add: workspace_ok_def\<close>)
  then show ?thesis
    using workspace_renamed by (simp add: workspace_updated_ok [OF assms(2) workspace_renamed(3)])
next
  case (workspace_cwd_set i w r cwd)
  have "dw_name v \<noteq> dw_name w" if "j \<noteq> i" "get (dst_workspaces st) j = Some v" for j v
    using workspace_names [OF assms(2) that(2) workspace_cwd_set(3)] that(1) by blast
  moreover have "workspace_ok env (w\<lparr>dw_default_cwd := cwd, dw_revision := r\<rparr>)"
    by (rule workspace_ok_update [OF workspace_wfD [OF assms(2) workspace_cwd_set(3)]])
      (use bumped_le [OF workspace_cwd_set(4)] workspace_cwd_set(5) workspace_wfD [OF assms(2) workspace_cwd_set(3)]
        in \<open>simp_all add: workspace_ok_def\<close>)
  ultimately show ?thesis
    using workspace_cwd_set by (simp add: workspace_updated_ok [OF assms(2) workspace_cwd_set(3)])
next
  case (shell_renamed i s w name r)
  have "shell_ok env (s\<lparr>ds_name := name, ds_revision := r\<rparr>)"
    using objects_okD [OF durable_okD(6) [OF assms(2)] shell_renamed(3)] bumped_le [OF shell_renamed(6)]
      shell_renamed(7) by (simp add: shell_ok_renamed)
  then show ?thesis
    using shell_renamed by (simp add: shell_updated_ok [OF assms(2) shell_renamed(3) _ shell_renamed(4)])
next
  case (launcher_renamed i l w name r)
  have "launcher_ok env (l\<lparr>wl_name := name, wl_revision := r\<rparr>)"
    using objects_okD [OF durable_okD(7) [OF assms(2)] launcher_renamed(3)] bumped_le [OF launcher_renamed(6)]
      launcher_renamed(7) by (simp add: launcher_ok_renamed)
  then show ?thesis
    using launcher_renamed by (simp add: launcher_updated_ok [OF assms(2) launcher_renamed(3) _ launcher_renamed(4)])
next
  case (agent_updated i a state)
  then show ?thesis using agent_updated_ok [OF assms(2)] by simp
qed

section \<open>Changes are undone\<close>

lemma alter_restored:
  assumes "smap_ok m" and "get m k = Some x" and "f (g x) = x"
  shows "alter k f (alter k g m) = m"
  unfolding alter_alter [OF assms(1)]
  by (rule alter_same [OF assms(1)]) (use assms(2,3) in simp)

lemma workspace_removed_undo:
  assumes ok: "durable_ok env st" and w: "get (dst_workspaces st) i = Some w"
  shows "rollback_undo
      (UndoRemovedWorkspace w (List.map_filter (get (dst_shells st)) (dw_shell_ids w))
        (List.map_filter (get (dst_launchers st)) (dw_launcher_ids w))
        (List.map_filter (get (dst_agents st)) (dw_agent_ids w)))
      (st\<lparr>dst_workspaces := del i (dst_workspaces st),
          dst_shells := fold del (dw_shell_ids w) (dst_shells st),
          dst_launchers := fold del (dw_launcher_ids w) (dst_launchers st),
          dst_agents := fold del (dw_agent_ids w) (dst_agents st)\<rparr>) = st"
proof -
  note sm = durable_okD(2-5) [OF ok]
  have shells: "fold (\<lambda>s. put (ds_id s) s) (List.map_filter (get (dst_shells st)) (dw_shell_ids w))
      (fold del (dw_shell_ids w) (dst_shells st)) = dst_shells st"
    using objects_okD [OF durable_okD(6) [OF ok]] children_listed [OF durable_okD(9) [OF ok] w]
    by (intro fold_put_fold_del sm children_distinct [OF durable_okD(9) [OF ok] w]) (blast, force)
  have launchers: "fold (\<lambda>l. put (wl_id l) l) (List.map_filter (get (dst_launchers st)) (dw_launcher_ids w))
      (fold del (dw_launcher_ids w) (dst_launchers st)) = dst_launchers st"
    using objects_okD [OF durable_okD(7) [OF ok]] children_listed [OF durable_okD(10) [OF ok] w]
    by (intro fold_put_fold_del sm children_distinct [OF durable_okD(10) [OF ok] w]) (blast, force)
  have agents: "fold (\<lambda>a. put (ai_id a) a) (List.map_filter (get (dst_agents st)) (dw_agent_ids w))
      (fold del (dw_agent_ids w) (dst_agents st)) = dst_agents st"
    using objects_okD [OF durable_okD(8) [OF ok]] children_listed [OF durable_okD(11) [OF ok] w]
    by (intro fold_put_fold_del sm children_distinct [OF durable_okD(11) [OF ok] w]) (blast, force)
  show ?thesis
    using workspace_okD [OF ok w] by (simp add: shells launchers agents sm.insert_remove [OF sm(1) w])
qed

lemma change_undo:
  assumes "durable_change env st u st'" and ok: "durable_ok env st"
  shows "rollback_undo u st' = st"
  using assms(1)
proof cases
  case (workspace_created i name shells cwd)
  have "fold del (map ds_id shells) (fold (\<lambda>s. put (ds_id s) s) shells (dst_shells st)) = dst_shells st"
    using workspace_created(7) by (intro fold_del_fold_put durable_okD(3) [OF ok] workspace_created(5)) simp
  then show ?thesis
    unfolding workspace_created(1,2)
    by (simp add: sm.remove_insert_fresh [OF durable_okD(2) [OF ok] workspace_created(3)])
next
  case (shell_created s w r)
  show ?thesis
    unfolding shell_created(1,2) by (rule add_shell_undo [OF ok shell_created(3,4,7)])
next
  case (launcher_created l w r)
  show ?thesis
    unfolding launcher_created(1,2) by (rule add_launcher_undo [OF ok launcher_created(3,4,7)])
next
  case (agent_registered a w r)
  show ?thesis
    unfolding agent_registered(1,2) by (rule add_agent_undo [OF ok agent_registered(3,4,6)])
next
  case (shell_removed s w n r)
  show ?thesis
    unfolding shell_removed(1,2) by (rule drop_shell_undo [OF ok shell_removed(3,4,6,5)])
next
  case (launcher_removed l w n r)
  show ?thesis
    unfolding launcher_removed(1,2) by (rule drop_launcher_undo [OF ok launcher_removed(3,4,6,5)])
next
  case (workspace_removed i w)
  show ?thesis
    unfolding workspace_removed(1,2) by (rule workspace_removed_undo [OF ok workspace_removed(3)])
next
  case (workspace_renamed i w name r)
  then show ?thesis
    by (simp add: upd_workspace_def alter_restored [OF durable_okD(2) [OF ok] workspace_renamed(3)])
next
  case (workspace_cwd_set i w r cwd)
  then show ?thesis
    by (simp add: upd_workspace_def alter_restored [OF durable_okD(2) [OF ok] workspace_cwd_set(3)])
next
  case (shell_renamed i s w name r)
  then show ?thesis
    by (simp add: upd_shell_def alter_restored [OF durable_okD(3) [OF ok] shell_renamed(3)])
next
  case (launcher_renamed i l w name r)
  then show ?thesis
    by (simp add: upd_launcher_def alter_restored [OF durable_okD(4) [OF ok] launcher_renamed(3)])
next
  case (agent_updated i a state)
  then show ?thesis
    by (simp add: upd_agent_def alter_restored [OF durable_okD(5) [OF ok] agent_updated(3)])
qed

text \<open>A log: the records of a transaction's changes, in their order.\<close>

inductive durable_changes :: "registry_env \<Rightarrow> durable_state \<Rightarrow> durable_undo list \<Rightarrow> durable_state \<Rightarrow> bool" for env where
  no_change: "durable_changes env st [] st"
| one_more: "durable_changes env st log st1 \<Longrightarrow> durable_change env st1 u st2 \<Longrightarrow> durable_changes env st (log @ [u]) st2"

lemma changes_ok: "durable_changes env st log st' \<Longrightarrow> durable_ok env st \<Longrightarrow> durable_ok env st'"
  by (induction rule: durable_changes.induct) (auto intro: change_ok)

lemma changes_undone: "durable_changes env st log st' \<Longrightarrow> durable_ok env st \<Longrightarrow> rollback_log log st' = st"
proof (induction rule: durable_changes.induct)
  case (no_change st)
  then show ?case by (simp add: rollback_log_def)
next
  case (one_more st log st1 u st2)
  have "rollback_undo u st2 = st1"
    by (rule change_undo [OF one_more.hyps(2) changes_ok [OF one_more.hyps(1) one_more.prems]])
  then show ?case using one_more.IH [OF one_more.prems] by (simp add: rollback_log_def)
qed

end
