(* ===== verification/Durable_Refinement.thy ===== *)
theory Durable_Refinement
  imports Durable_Changes
begin

text \<open>
  Each operation of \<open>DurableRegistry\<close> implements the abstract changes: when it succeeds, the state
  has made the changes that its undo records undo; when it fails, the state is as before, or a
  change has been made halfway (\<open>half_done\<close>): the revision of the Workspace could not be counted
  up any more, after the maps and the list had been changed.
\<close>

inductive half_done :: "registry_env \<Rightarrow> durable_state \<Rightarrow> durable_state \<Rightarrow> bool" for env where
  half_shell_created:
    "get (dst_shells st) (ds_id s) = None \<Longrightarrow> get (dst_workspaces st) (ds_workspace_id s) = Some w
     \<Longrightarrow> shell_ok env s \<Longrightarrow> \<not> shell_name_taken (dw_shell_ids w) (ds_name s) st
     \<Longrightarrow> u64_checked_add (dw_revision w) 1 = None \<Longrightarrow> ds_last_run s = None
     \<Longrightarrow> half_done env st (add_shell (\<lambda>r. r) s st)"
| half_launcher_created:
    "get (dst_launchers st) (wl_id l) = None \<Longrightarrow> get (dst_workspaces st) (wl_workspace_id l) = Some w
     \<Longrightarrow> launcher_ok env l \<Longrightarrow> \<not> launcher_name_taken (dw_launcher_ids w) (wl_name l) st
     \<Longrightarrow> u64_checked_add (dw_revision w) 1 = None \<Longrightarrow> half_done env st (add_launcher (\<lambda>r. r) l st)"
| half_agent_registered:
    "get (dst_agents st) (ai_id a) = None \<Longrightarrow> get (dst_workspaces st) (ai_workspace_id a) = Some w
     \<Longrightarrow> agent_ok env a \<Longrightarrow> u64_checked_add (dw_revision w) 1 = None
     \<Longrightarrow> half_done env st (add_agent (\<lambda>r. r) a st)"
| half_shell_removed:
    "get (dst_shells st) (ds_id s) = Some s \<Longrightarrow> get (dst_workspaces st) (ds_workspace_id s) = Some w
     \<Longrightarrow> position (\<lambda>j. j = ds_id s) (dw_shell_ids w) = Some n
     \<Longrightarrow> u64_checked_add (dw_revision w) 1 = None \<Longrightarrow> half_done env st (drop_shell (\<lambda>r. r) n s st)"
| half_launcher_removed:
    "get (dst_launchers st) (wl_id l) = Some l \<Longrightarrow> get (dst_workspaces st) (wl_workspace_id l) = Some w
     \<Longrightarrow> position (\<lambda>j. j = wl_id l) (dw_launcher_ids w) = Some n
     \<Longrightarrow> u64_checked_add (dw_revision w) 1 = None \<Longrightarrow> half_done env st (drop_launcher (\<lambda>r. r) n l st)"

lemma half_done_ok:
  assumes "half_done env st st'" and ok: "durable_ok env st"
  shows "durable_ok env st'"
  using assms(1)
proof cases
  case (half_shell_created s w)
  show ?thesis
    unfolding half_shell_created(1)
    by (intro add_shell_ok [OF ok half_shell_created(2,3,4) _ half_shell_created(5,7)]) simp
next
  case (half_launcher_created l w)
  show ?thesis
    unfolding half_launcher_created(1)
    by (intro add_launcher_ok [OF ok half_launcher_created(2,3,4) _ half_launcher_created(5)]) simp
next
  case (half_agent_registered a w)
  show ?thesis
    unfolding half_agent_registered(1)
    by (intro add_agent_ok [OF ok half_agent_registered(2,3,4)]) simp
next
  case (half_shell_removed s w n)
  show ?thesis
    unfolding half_shell_removed(1)
    by (intro drop_shell_ok [OF ok half_shell_removed(2,3) _ half_shell_removed(4)]) simp
next
  case (half_launcher_removed l w n)
  show ?thesis
    unfolding half_launcher_removed(1)
    by (intro drop_launcher_ok [OF ok half_launcher_removed(2,3) _ half_launcher_removed(4)]) simp
qed

lemma u64_checked_add_one_None: "u64_checked_add (a :: u64) 1 = None \<longleftrightarrow> a = - 1"
proof -
  have "unat (- 1 :: u64) = 2 ^ 64 - 1" by (simp add: unsigned_minus_1_eq_mask mask_eq_exp_minus_1)
  then have "a = - 1 \<longleftrightarrow> unat a = 2 ^ 64 - 1" by (metis word_unat_eq_iff)
  then show ?thesis using unat_u64_bound [of a] by (auto simp: u64_checked_add_def)
qed

lemma half_done_exhausted:
  "half_done env st st' \<Longrightarrow> \<exists>i w. get (dst_workspaces st) i = Some w \<and> dw_revision w = - 1"
  by (induction rule: half_done.induct) (auto simp: u64_checked_add_one_None)

section \<open>Refinement, one statement at a time\<close>

definition refined :: "registry_env \<Rightarrow> durable_state \<Rightarrow> ('a \<Rightarrow> durable_undo list) \<Rightarrow> ('e + 'a) \<times> durable_state \<Rightarrow> bool" where
  "refined env st log outcome =
     (case outcome of
        (Inr x, st') \<Rightarrow> durable_changes env st (log x) st'
      | (Inl _, st') \<Rightarrow> st' = st \<or> half_done env st st')"

named_theorems refined_intros \<open>statements of an operation\<close>

lemma refined_pure:
  assumes "snd (m st) = st" and "\<And>x. fst (m st) = Inr x \<Longrightarrow> refined env st log (g x st)"
  shows "refined env st log (bind_op m g st)"
proof -
  obtain r where "m st = (r, st)" using assms(1) by (cases "m st") simp
  then show ?thesis using assms(2) by (cases r) (simp_all add: bind_op_def refined_def)
qed

lemma refined_check [refined_intros]:
  "(\<And>x. r = Inr x \<Longrightarrow> refined env st log (g x st)) \<Longrightarrow> refined env st log (bind_op (check_op r) g st)"
  by (rule refined_pure) (simp_all add: check_op_def)

lemma refined_read [refined_intros]:
  "(\<And>x. f st = Inr x \<Longrightarrow> refined env st log (g x st)) \<Longrightarrow> refined env st log (bind_op (read_op f) g st)"
  by (rule refined_pure) (simp_all add: read_op_def)

lemma refined_io_check [refined_intros]:
  "(\<And>x. r = Inr x \<Longrightarrow> refined env st log (g x st)) \<Longrightarrow> refined env st log (bind_op (io_op (check_op r)) g st)"
  by (rule refined_pure) (auto simp: io_op_def check_op_def split: sum.splits)

lemma refined_find_workspace [refined_intros]:
  "(\<And>w. get (dst_workspaces st) i = Some w \<Longrightarrow> refined env st log (g w st))
    \<Longrightarrow> refined env st log (bind_op (find_workspace i) g st)"
  by (rule refined_pure) (simp_all add: find_defs read_op_def ok_or_Inr)

lemma refined_find_shell [refined_intros]:
  "(\<And>s. get (dst_shells st) i = Some s \<Longrightarrow> refined env st log (g s st))
    \<Longrightarrow> refined env st log (bind_op (find_shell i) g st)"
  by (rule refined_pure) (simp_all add: find_defs read_op_def ok_or_Inr)

lemma refined_find_launcher [refined_intros]:
  "(\<And>l. get (dst_launchers st) i = Some l \<Longrightarrow> refined env st log (g l st))
    \<Longrightarrow> refined env st log (bind_op (find_launcher i) g st)"
  by (rule refined_pure) (simp_all add: find_defs read_op_def ok_or_Inr)

lemma io_find_fst:
  "fst (io_op (read_op f) st) = Inr x \<longleftrightarrow> f st = Inr x"
  "snd (io_op (read_op f) st) = st"
  by (auto simp: io_op_def read_op_def split: sum.splits)

lemma refined_io_find_workspace [refined_intros]:
  "(\<And>w. get (dst_workspaces st) i = Some w \<Longrightarrow> refined env st log (g w st))
    \<Longrightarrow> refined env st log (bind_op (io_op (find_workspace i)) g st)"
  by (rule refined_pure) (simp_all add: find_defs io_find_fst ok_or_Inr)

lemma refined_io_find_shell [refined_intros]:
  "(\<And>s. get (dst_shells st) i = Some s \<Longrightarrow> refined env st log (g s st))
    \<Longrightarrow> refined env st log (bind_op (io_op (find_shell i)) g st)"
  by (rule refined_pure) (simp_all add: find_defs io_find_fst ok_or_Inr)

lemma refined_io_find_agent [refined_intros]:
  "(\<And>a. get (dst_agents st) i = Some a \<Longrightarrow> refined env st log (g a st))
    \<Longrightarrow> refined env st log (bind_op (io_op (find_agent i)) g st)"
  by (rule refined_pure) (simp_all add: find_defs io_find_fst ok_or_Inr)

lemma refined_return [refined_intros]: "log x = [] \<Longrightarrow> refined env st log (return_op x st)"
  by (simp add: refined_def return_op_def no_change)

lemma refined_fail [refined_intros]: "refined env st log (fail_op e st)"
  by (simp add: refined_def fail_op_def)

lemma refined_if [refined_intros]:
  "(P \<Longrightarrow> refined env st log (f st)) \<Longrightarrow> (\<not> P \<Longrightarrow> refined env st log (g st))
    \<Longrightarrow> refined env st log ((if P then f else g) st)"
  by simp

lemma refined_case_option [refined_intros]:
  "(x = None \<Longrightarrow> refined env st log (f st)) \<Longrightarrow> (\<And>y. x = Some y \<Longrightarrow> refined env st log (g y st))
    \<Longrightarrow> refined env st log ((case x of None \<Rightarrow> f | Some y \<Rightarrow> g y) st)"
  by (simp split: option.split)

lemma change_logged: "durable_change env st u st' \<Longrightarrow> durable_changes env st [u] st'"
  using one_more [OF no_change] by fastforce

lemma refined_modify:
  "durable_change env st u (f st) \<Longrightarrow> log x = [u]
    \<Longrightarrow> refined env st log (bind_op (modify_op f) (\<lambda>_. return_op x) st)"
  by (simp add: refined_def op_defs change_logged)

section \<open>Creating and removing\<close>

lemma revision_same: "dw_revision_update (\<lambda>r. r) w = w"
  by (simp add: revision_update_same)

lemma insert_shell_eq:
  assumes "smap_ok (dst_workspaces st)" and "get (dst_workspaces st) (ds_workspace_id s) = Some w"
  shows "insert_shell w s st =
    (if shell_name_taken (dw_shell_ids w) (ds_name s) st
     then (Inl (already_exists (''shell name already exists: '' @ ds_name s)), st)
     else case u64_checked_add (dw_revision w) 1 of
            None \<Rightarrow> (Inl (other_error ''workspace revision exhausted''), add_shell (\<lambda>r. r) s st)
          | Some r \<Rightarrow> (Inr (), add_shell (\<lambda>_. r) s st))"
  using assms
  by (simp add: insert_shell_def op_defs bump_workspace_eq upd_workspace_def get_alter alter_alter
      add_shell_def revision_same split: option.split)

lemma insert_launcher_eq:
  assumes "smap_ok (dst_workspaces st)" and "get (dst_workspaces st) (wl_workspace_id l) = Some w"
  shows "insert_launcher w l st =
    (if launcher_name_taken (dw_launcher_ids w) (wl_name l) st
     then (Inl (already_exists (''workspace launcher name already exists: '' @ wl_name l)), st)
     else case u64_checked_add (dw_revision w) 1 of
            None \<Rightarrow> (Inl (other_error ''workspace revision exhausted''), add_launcher (\<lambda>r. r) l st)
          | Some r \<Rightarrow> (Inr (), add_launcher (\<lambda>_. r) l st))"
  using assms
  by (simp add: insert_launcher_def op_defs bump_workspace_eq upd_workspace_def get_alter alter_alter
      add_launcher_def revision_same split: option.split)

lemma refined_insert_shell:
  assumes ok: "durable_ok env st" and "get (dst_shells st) (ds_id s) = None"
    and w: "get (dst_workspaces st) (ds_workspace_id s) = Some w" and "shell_ok env s" and "ds_last_run s = None"
    and "log x = [UndoCreatedShell (ds_workspace_id s) (ds_id s)]"
  shows "refined env st log (bind_op (insert_shell w s) (\<lambda>_. return_op x) st)"
  using assms half_shell_created [OF assms(2-4)] change_logged [OF shell_created [OF assms(2-4)]]
  by (simp add: refined_def bind_op_def return_op_def insert_shell_eq [OF durable_okD(2) [OF ok] w]
      split: option.split)

lemma refined_insert_launcher:
  assumes ok: "durable_ok env st" and "get (dst_launchers st) (wl_id l) = None"
    and w: "get (dst_workspaces st) (wl_workspace_id l) = Some w" and "launcher_ok env l"
    and "log x = [UndoCreatedLauncher (wl_workspace_id l) (wl_id l)]"
  shows "refined env st log (bind_op (insert_launcher w l) (\<lambda>_. return_op x) st)"
  using assms half_launcher_created [OF assms(2-4)] change_logged [OF launcher_created [OF assms(2-4)]]
  by (simp add: refined_def bind_op_def return_op_def insert_launcher_eq [OF durable_okD(2) [OF ok] w]
      split: option.split)

lemma create_pending_shell_fields:
  "create_pending_shell env workspace_id i spec = Inr s \<Longrightarrow> uuid_parses env i \<Longrightarrow>
    ds_id s = i \<and> ds_workspace_id s = workspace_id \<and> ds_name s = spec_name spec
    \<and> ds_last_run s = None \<and> shell_ok env s"
  by (auto simp: create_pending_shell_def bind_res_Inr shell_ok_def running_run_def validated_name
      validated_cwd)

theorem create_shell_refines:
  assumes ok: "durable_ok env st" and new: "get (dst_shells st) new_id = None" "uuid_parses env new_id"
  shows "refined env st (\<lambda>(_, u). [u]) (create_shell env new_id workspace_id spec st)"
  unfolding create_shell_def
  using new
  by (intro refined_intros refined_insert_shell ok)
    (simp_all add: create_pending_shell_fields)

theorem create_shell_exact_refines:
  assumes ok: "durable_ok env st"
  shows "refined env st (\<lambda>(_, u). case u of None \<Rightarrow> [] | Some u \<Rightarrow> [u])
           (create_shell_exact env workspace_id shell_id spec st)"
  unfolding create_shell_exact_def
  by (intro refined_intros refined_insert_shell ok) (simp_all add: create_pending_shell_fields validated_uuid)

lemma new_launcher_fields:
  "wl_id (new_launcher workspace_id i spec) = i"
  "wl_workspace_id (new_launcher workspace_id i spec) = workspace_id"
  by (simp_all add: new_launcher_def)

lemma new_launcher_ok:
  "validate_launcher_spec env spec = Inr () \<Longrightarrow> uuid_parses env i
    \<Longrightarrow> launcher_ok env (new_launcher workspace_id i spec)"
  using validated_cwd [of env "lspec_cwd spec"]
  by (simp add: validate_launcher_spec_def bind_res_Inr launcher_ok_def new_launcher_def validated_name)

theorem create_launcher_refines:
  assumes ok: "durable_ok env st" and new: "get (dst_launchers st) new_id = None" "uuid_parses env new_id"
  shows "refined env st (\<lambda>(_, u). [u]) (create_launcher env new_id workspace_id spec st)"
  unfolding create_launcher_def Let_def
  using new
  by (intro refined_intros refined_insert_launcher ok) (simp_all add: new_launcher_ok new_launcher_fields validated_uuid)

theorem create_launcher_exact_refines:
  assumes ok: "durable_ok env st"
  shows "refined env st (\<lambda>(_, u). case u of None \<Rightarrow> [] | Some u \<Rightarrow> [u])
           (create_launcher_exact env workspace_id launcher_id spec st)"
  unfolding create_launcher_exact_def Let_def
  by (intro refined_intros refined_insert_launcher ok) (simp_all add: new_launcher_ok new_launcher_fields validated_uuid)

lemma new_workspace_ok:
  assumes "daemon_validate_name name = Inr ()" and "validate_default_cwd env cwd = Inr ()"
    and "uuid_parses env i"
  shows "workspace_ok env (new_workspace i name cwd [])"
  using assms(1,3) validated_name [OF assms(1)] validated_default_cwd [OF assms(2)]
  by (auto simp: workspace_ok_def new_workspace_def sessions_ok_def workspace_persisted_def
      validate_persisted_session_display_names_def split: option.split)

theorem create_workspace_exact_refines:
  assumes ok: "durable_ok env st"
  shows "refined env st (\<lambda>(_, u). case u of None \<Rightarrow> [] | Some u \<Rightarrow> [u])
           (create_workspace_exact env workspace_id name default_cwd st)"
  unfolding create_workspace_exact_def
  using workspace_created [of st workspace_id name "[]" env default_cwd]
  by (intro refined_intros refined_modify [where u = "UndoCreatedWorkspace workspace_id []"])
    (simp_all add: new_workspace_ok validated_uuid split: if_splits)

lemma validate_shell_names_distinct:
  "validate_shell_names names specs = Inr () \<Longrightarrow>
    distinct (map spec_name specs) \<and> names \<inter> set (map spec_name specs) = {}"
  by (induction specs arbitrary: names) (auto simp: bind_res_Inr split: if_splits)

lemma pending_shells:
  "collect_res (\<lambda>(n, spec). create_pending_shell env i (shell_id n) spec) (List.enumerate k specs) = Inr shells
    \<Longrightarrow> (\<And>n. uuid_parses env (shell_id n)) \<Longrightarrow> map ds_id shells = map shell_id [k..<k + length specs] \<and> map ds_name shells = map spec_name specs
      \<and> (\<forall>s \<in> set shells. ds_workspace_id s = i \<and> ds_last_run s = None \<and> shell_ok env s)"
proof (induction specs arbitrary: k shells)
  case Nil
  then show ?case by simp
next
  case (Cons spec specs)
  then obtain s rest where s: "create_pending_shell env i (shell_id k) spec = Inr s"
    and rest: "collect_res (\<lambda>(n, spec). create_pending_shell env i (shell_id n) spec)
      (List.enumerate (Suc k) specs) = Inr rest" and "shells = s # rest"
    by (auto simp: bind_res_Inr)
  then show ?case
    using create_pending_shell_fields [OF s Cons.prems(2)] Cons.IH [OF rest Cons.prems(2)]
    by (simp add: upt_conv_Cons del: upt_Suc)
qed

theorem create_workspace_refines:
  assumes ok: "durable_ok env st" and new: "get (dst_workspaces st) workspace_id = None"
    and inj: "inj shell_id" and fresh: "\<And>n. get (dst_shells st) (shell_id n) = None"
    and parses: "uuid_parses env workspace_id" "\<And>n. uuid_parses env (shell_id n)"
  shows "refined env st (\<lambda>(_, u). [u]) (create_workspace env workspace_id shell_id name default_cwd specs st)"
  unfolding create_workspace_def
proof (intro refined_intros, goal_cases)
  case (1 u1 u2 u3 shells snapshots u4)
  note shells = pending_shells [OF 1(4) parses(2)]
  have "distinct (map ds_id shells)"
    using shells inj_on_subset [OF inj] by (simp add: distinct_map)
  moreover have "distinct (map ds_name shells)"
    using shells validate_shell_names_distinct [of "{}" specs] 1(3)
    by (simp add: validate_shell_specs_def)
  moreover have "get (dst_shells st) (ds_id s) = None \<and> ds_workspace_id s = workspace_id \<and> shell_ok env s
      \<and> ds_last_run s = None"
    if "s \<in> set shells" for s
  proof -
    have "ds_id s \<in> set (map ds_id shells)" using that by simp
    then show ?thesis using shells fresh that by auto
  qed
  moreover have "\<not> workspace_name_taken name st" using 1(6) by (simp split: if_splits)
  moreover have "workspace_ok env (new_workspace workspace_id name default_cwd [])"
    using 1(1,2) parses(1) by (intro new_workspace_ok) simp_all
  ultimately show ?case
    by (intro refined_modify [where u = "UndoCreatedWorkspace workspace_id (map ds_id shells)"]
          workspace_created [OF new]) simp_all
qed

section \<open>Removing\<close>

lemma refined_tail:
  assumes "smap_ok (dst_workspaces st)" and w: "get (dst_workspaces st) i = Some w"
    and revision: "dw_revision (f w) = dw_revision w"
    and change: "\<And>r. u64_checked_add (dw_revision w) 1 = Some r \<Longrightarrow> durable_change env st u
        (g st\<lparr>dst_workspaces := alter i (\<lambda>w. dw_revision_update (\<lambda>_. r) (f w)) (dst_workspaces st)\<rparr>)"
    and half: "u64_checked_add (dw_revision w) 1 = None \<Longrightarrow>
        half_done env st (g st\<lparr>dst_workspaces := alter i f (dst_workspaces st)\<rparr>)"
    and same: "dst_workspaces (g st) = dst_workspaces st" and "log x = [u]"
  shows "refined env st log (bind_op (modify_op g)
      (\<lambda>_. bind_op (modify_op (upd_workspace i f))
      (\<lambda>_. bind_op (bump_workspace i) (\<lambda>_. return_op x))) st)"
proof -
  let ?st = "g st\<lparr>dst_workspaces := alter i f (dst_workspaces st)\<rparr>"
  have upd: "upd_workspace i f (g st) = ?st" by (simp add: upd_workspace_def same)
  have got: "get (dst_workspaces ?st) i = Some (f w)"
    using w by (simp add: get_alter [OF assms(1)])
  show ?thesis
  proof (cases "u64_checked_add (dw_revision w) 1")
    case None
    then show ?thesis
      using half bump_workspace_eq [OF got] revision by (simp add: refined_def op_defs upd)
  next
    case (Some r)
    then show ?thesis
      using change_logged [OF change [OF Some]] bump_workspace_eq [OF got] revision assms(7)
      by (simp add: refined_def op_defs upd) (simp add: upd_workspace_def alter_alter [OF assms(1)])
  qed
qed

lemma refined_io_tail:
  assumes "smap_ok (dst_workspaces st)" and w: "get (dst_workspaces st) i = Some w"
    and revision: "dw_revision (f w) = dw_revision w"
    and change: "\<And>r. u64_checked_add (dw_revision w) 1 = Some r \<Longrightarrow> durable_change env st u
        (g st\<lparr>dst_workspaces := alter i (\<lambda>w. dw_revision_update (\<lambda>_. r) (f w)) (dst_workspaces st)\<rparr>)"
    and half: "u64_checked_add (dw_revision w) 1 = None \<Longrightarrow>
        half_done env st (g st\<lparr>dst_workspaces := alter i f (dst_workspaces st)\<rparr>)"
    and same: "dst_workspaces (g st) = dst_workspaces st" and "log x = [u]"
  shows "refined env st log (bind_op (modify_op g)
      (\<lambda>_. bind_op (modify_op (upd_workspace i f))
      (\<lambda>_. bind_op (io_op (bump_workspace i)) (\<lambda>_. return_op x))) st)"
  using refined_tail [where log = log and x = x and f = f and g = g and st = st and i = i and u = u, OF assms]
  by (auto simp: refined_def io_op_def op_defs split: prod.splits sum.splits)

theorem remove_shell_refines:
  assumes ok: "durable_ok env st"
  shows "refined env st (\<lambda>u. [u]) (remove_shell shell_id st)"
  unfolding remove_shell_def
proof (intro refined_intros, goal_cases)
  case (1 s w n)
  note s = objects_okD [OF durable_okD(6) [OF ok] 1(1)]
  have got: "get (dst_shells st) (ds_id s) = Some s" using s 1(1) by simp
  have n: "position (\<lambda>j. j = ds_id s) (dw_shell_ids w) = Some n" using 1(3) s by (simp add: ok_or_Inr)
  show ?case
    using s shell_removed [OF got 1(2) n] half_shell_removed [OF got 1(2) n]
    by (intro refined_tail [OF durable_okD(2) [OF ok] 1(2)]) (simp_all add: drop_shell_def revision_same)
qed

theorem remove_launcher_refines:
  assumes ok: "durable_ok env st"
  shows "refined env st (\<lambda>(_, u). [u]) (remove_launcher launcher_id st)"
  unfolding remove_launcher_def
proof (intro refined_intros, goal_cases)
  case (1 l w n)
  note l = objects_okD [OF durable_okD(7) [OF ok] 1(1)]
  have got: "get (dst_launchers st) (wl_id l) = Some l" using l 1(1) by simp
  have n: "position (\<lambda>j. j = wl_id l) (dw_launcher_ids w) = Some n" using 1(3) l by (simp add: ok_or_Inr)
  show ?case
    using l launcher_removed [OF got 1(2) n] half_launcher_removed [OF got 1(2) n]
    by (intro refined_tail [OF durable_okD(2) [OF ok] 1(2)]) (simp_all add: drop_launcher_def revision_same)
qed

theorem remove_workspace_refines:
  assumes ok: "durable_ok env st"
  shows "refined env st (\<lambda>u. [u]) (remove_workspace workspace_id st)"
  unfolding remove_workspace_def
proof (intro refined_intros, goal_cases)
  case (1 w found)
  show ?case
    using workspace_removed [OF 1(1)] 1(2) by (auto intro!: refined_modify)
qed

section \<open>Renaming\<close>

theorem rename_workspace_refines:
  "refined env st (\<lambda>u. case u of None \<Rightarrow> [] | Some u \<Rightarrow> [u]) (rename_workspace workspace_id name st)"
  unfolding rename_workspace_def
proof (intro refined_intros, goal_cases)
  case (2 u w u' revision)
  have "\<forall>j v. j \<noteq> workspace_id \<longrightarrow> get (dst_workspaces st) j = Some v \<longrightarrow> dw_name v \<noteq> name"
    using 2(3) by (auto dest!: map_of_SomeD split: if_splits)
  then have "durable_change env st (UndoRenamedWorkspace workspace_id (dw_name w) (dw_revision w))
      (upd_workspace workspace_id (\<lambda>w. w\<lparr>dw_name := name, dw_revision := revision\<rparr>) st)"
    using 2(5) validated_name [of name] 2(1)
    by (intro workspace_renamed 2(2)) (simp_all add: bump_revision_def ok_or_Inr)
  then show ?case by (rule refined_modify) simp
qed simp

theorem set_workspace_default_cwd_refines:
  "refined env st (\<lambda>u. case u of None \<Rightarrow> [] | Some u \<Rightarrow> [u])
           (set_workspace_default_cwd env workspace_id default_cwd st)"
  unfolding set_workspace_default_cwd_def
proof (intro refined_intros, goal_cases)
  case (2 u w revision)
  have "durable_change env st (UndoSetWorkspaceDefaultCwd workspace_id (dw_default_cwd w) (dw_revision w))
      (upd_workspace workspace_id (\<lambda>w. w\<lparr>dw_default_cwd := Some default_cwd, dw_revision := revision\<rparr>) st)"
    using 2(4) validated_cwd [of env default_cwd] 2(1)
    by (intro workspace_cwd_set 2(2)) (simp_all add: bump_revision_def ok_or_Inr)
  then show ?case by (rule refined_modify) simp
qed simp

theorem rename_shell_refines:
  "refined env st (\<lambda>u. case u of None \<Rightarrow> [] | Some u \<Rightarrow> [u]) (rename_shell shell_id name st)"
  unfolding rename_shell_def
proof (intro refined_intros, goal_cases)
  case (2 u s w u' revision)
  have "durable_change env st (UndoRenamedShell shell_id (ds_name s) (ds_revision s))
      (upd_shell shell_id (\<lambda>s. s\<lparr>ds_name := name, ds_revision := revision\<rparr>) st)"
    using 2(4,6) validated_name [of name] 2(1)
    by (intro shell_renamed [OF 2(2,3)]) (simp_all add: bump_revision_def ok_or_Inr split: if_splits)
  then show ?case by (rule refined_modify) simp
qed simp

theorem rename_launcher_refines:
  "refined env st (\<lambda>u. case u of None \<Rightarrow> [] | Some u \<Rightarrow> [u]) (rename_launcher launcher_id name st)"
  unfolding rename_launcher_def
proof (intro refined_intros, goal_cases)
  case (2 u l w u' revision)
  have "durable_change env st (UndoRenamedLauncher launcher_id (wl_name l) (wl_revision l))
      (upd_launcher launcher_id (\<lambda>l. l\<lparr>wl_name := name, wl_revision := revision\<rparr>) st)"
    using 2(4,6) validated_name [of name] 2(1)
    by (intro launcher_renamed [OF 2(2,3)]) (simp_all add: bump_revision_def ok_or_Inr split: if_splits)
  then show ?case by (rule refined_modify) simp
qed simp

end
