(* ===== verification/Durable_Agent_Refinement.thy ===== *)
theory Durable_Agent_Refinement
  imports Durable_Refinement
begin

text \<open>
  The operations on Agents implement the abstract changes: an accepted report, a working context
  and an acknowledged attention keep an Agent well formed (\<open>agent_ok\<close>), so each of them is a change
  of that Agent's state that the previous state undoes.
\<close>

section \<open>Well-formed states\<close>

lemma attention_ok_current:
  assumes "attention_for_observation (as_observation (ai_state a)) = Some t"
    and "validate_agent_report (observation_report (as_observation (ai_state a))) = Inr ()"
    and "1 \<le> obs_revision (as_observation (ai_state a))"
    and "ai_started_at_ms a \<le> obs_observed_at_ms (as_observation (ai_state a))"
  shows "attention_ok a t"
proof -
  have "att_observation t = as_observation (ai_state a)"
    using assms(1) by (simp add: attention_for_observation_Some)
  then show ?thesis using assms by (simp add: attention_ok_def Let_def)
qed

lemma validated_registration:
  assumes "validate_agent_registration spec = Inr ()"
  shows "daemon_validate_name (reg_name spec) = Inr ()"
    "validate_required_agent_string ''integration'' (reg_integration spec) daemon_max_name_bytes = Inr ()"
    "reg_external_session_id spec = Some i
      \<Longrightarrow> validate_required_agent_string ''external_session_id'' i daemon_max_name_bytes = Inr ()"
    "validate_agent_report (reg_report spec) = Inr ()"
  using assms by (simp_all add: validate_agent_registration_def bind_res_Inr)

lemma new_agent_ok:
  assumes spec: "validate_agent_registration spec = Inr ()" and s: "shell_ok env s"
    and "uuid_parses env new_id" and "uuid_parses env rid"
  shows "agent_ok env (new_agent now new_id s rid spec)"
proof -
  let ?a = "new_agent now new_id s rid spec"
  let ?obs = "as_observation (ai_state ?a)"
  have obs: "obs_revision ?obs = 1" "obs_observed_at_ms ?obs = now" "ai_started_at_ms ?a = now"
    "obs_state ?obs = rep_state (reg_report spec)"
    by (simp_all add: new_agent_def Let_def)
  have "observation_report ?obs = reg_report spec"
    by (simp add: new_agent_def Let_def observation_report_def)
  then have report: "validate_agent_report (observation_report ?obs) = Inr ()"
    using validated_registration(4) [OF spec] by simp
  have attention: "as_attention (ai_state ?a) = attention_for_observation ?obs"
    "as_ended_at_ms (ai_state ?a) = (if rep_state (reg_report spec) = AgDone then Some now else None)"
    "as_working_contexts (ai_state ?a) = []"
    by (simp_all add: new_agent_def Let_def)
  have "attention_ok ?a t" if "as_attention (ai_state ?a) = Some t" for t
    using that report obs by (intro attention_ok_current) (simp_all add: attention)
  then have "agent_state_ok env ?a"
    unfolding agent_state_ok_def Let_def
    using report by (simp add: obs attention contexts_ok_def)
  moreover have "agent_fixed_ok env ?a"
    using assms(3,4) s validated_registration [OF spec]
    by (simp add: agent_fixed_ok_def new_agent_def Let_def shell_ok_def split: option.split)
  ultimately show ?thesis by (simp add: agent_ok_def)
qed

lemma agent_fixed_ok_state [simp]: "agent_fixed_ok env (a\<lparr>ai_state := st\<rparr>) = agent_fixed_ok env a"
  by (simp add: agent_fixed_ok_def)

lemma attention_kept:
  assumes t: "attention_ok a t" and up: "obs_revision (as_observation (ai_state a)) < obs_revision (as_observation st)"
    and later: "obs_observed_at_ms (as_observation (ai_state a)) \<le> obs_observed_at_ms (as_observation st)"
    and "att_reason t \<noteq> AttentionCompleted"
  shows "attention_ok (a\<lparr>ai_state := st\<rparr>) t"
proof -
  have "obs_revision (att_observation t) < obs_revision (as_observation st)"
    using t up by (auto simp: attention_ok_def Let_def)
  moreover have "obs_observed_at_ms (att_observation t) \<le> obs_observed_at_ms (as_observation st)"
    using t later by (auto simp: attention_ok_def Let_def)
  ultimately show ?thesis using t assms(4) by (auto simp: attention_ok_def Let_def)
qed

lemma reported_state_ok:
  assumes a: "agent_ok env a" and r: "u64_checked_add (obs_revision (as_observation (ai_state a))) 1 = Some revision"
    and report: "validate_agent_report report = Inr ()" and open_agent: "as_ended_at_ms (ai_state a) = None"
  shows "agent_ok env (a\<lparr>ai_state := reported_state now revision report a\<rparr>)"
proof -
  let ?st = "reported_state now revision report a"
  let ?obs = "as_observation ?st"
  note ok = a [unfolded agent_ok_def agent_state_ok_def Let_def]
  have up: "obs_revision (as_observation (ai_state a)) < revision"
    by (rule u64_checked_add_one_less(1) [OF r])
  have obs: "obs_revision ?obs = revision" "obs_state ?obs = rep_state report"
    and "observation_report ?obs = report"
    by (simp_all add: reported_state_def Let_def observation_report_def)
  have times: "ai_started_at_ms a \<le> obs_observed_at_ms ?obs"
    "obs_observed_at_ms (as_observation (ai_state a)) \<le> obs_observed_at_ms ?obs"
    by (simp_all add: reported_state_def Let_def max.coboundedI1)
  have ended: "as_ended_at_ms ?st = (if rep_state report = AgDone then Some (obs_observed_at_ms ?obs) else None)"
    using open_agent by (simp add: reported_state_def Let_def)
  have contexts: "as_working_contexts ?st = as_working_contexts (ai_state a)"
    by (simp add: reported_state_def Let_def)
  have "attention_ok (a\<lparr>ai_state := ?st\<rparr>) t" if "as_attention ?st = Some t" for t
  proof (cases "attention_for_observation ?obs = Some t")
    case True
    then show ?thesis
      using bumped_positive [OF r] obs(1) \<open>observation_report ?obs = report\<close> report times(1)
      by (intro attention_ok_current) simp_all
  next
    case False
    then have t: "as_attention (ai_state a) = Some t"
      using that by (simp add: reported_state_def Let_def split: option.splits if_splits)
    then have old: "attention_ok a t" using ok by blast
    have "att_reason t \<noteq> AttentionCompleted"
    proof
      assume "att_reason t = AttentionCompleted"
      then have "obs_state (as_observation (ai_state a)) = AgDone"
        using old by (auto simp: attention_ok_def Let_def attention_for_observation_Some)
      then show False using ok open_agent by simp
    qed
    then show ?thesis using old up times(2) obs(1) by (intro attention_kept) simp_all
  qed
  then have "agent_state_ok env (a\<lparr>ai_state := ?st\<rparr>)"
    unfolding agent_state_ok_def Let_def
    using ok bumped_positive [OF r] report \<open>observation_report ?obs = report\<close> times(1)
    by (simp add: obs ended contexts)
  then show ?thesis using ok by (simp add: agent_ok_def)
qed

lemma push_context_ok:
  assumes ok: "contexts_ok env started cs" and "validate_working_context env c = Inr ()"
    and "started \<le> wc_observed_at_ms c"
    and newest: "case cs of [] \<Rightarrow> True | d # _ \<Rightarrow> wc_observed_at_ms d \<le> wc_observed_at_ms c"
  shows "contexts_ok env started (push_context c cs)"
proof -
  let ?all = "c # filter (\<lambda>d. wc_worktree_root d \<noteq> wc_worktree_root c) cs"
  have older: "wc_observed_at_ms d \<le> wc_observed_at_ms c" if "d \<in> set cs" for d
    using that newest ok by (cases cs) (auto simp: contexts_ok_def)
  have "distinct (map wc_worktree_root ?all)"
    using ok by (auto simp: contexts_ok_def distinct_map_filter)
  then have "distinct (map wc_worktree_root (push_context c cs))"
    unfolding push_context_def take_map [symmetric] by (rule distinct_take)
  moreover have "sorted_wrt (\<lambda>c d. wc_observed_at_ms d \<le> wc_observed_at_ms c) (push_context c cs)"
    unfolding push_context_def
    using ok older by (intro sorted_wrt_take) (auto simp: contexts_ok_def sorted_wrt_filter)
  moreover have "\<forall>d \<in> set (push_context c cs). validate_working_context env d = Inr ()
      \<and> started \<le> wc_observed_at_ms d"
  proof
    fix d
    assume "d \<in> set (push_context c cs)"
    then have "d \<in> set ?all" unfolding push_context_def by (rule in_set_takeD)
    then show "validate_working_context env d = Inr () \<and> started \<le> wc_observed_at_ms d"
      using ok assms(2,3) by (auto simp: contexts_ok_def)
  qed
  ultimately show ?thesis by (simp add: contexts_ok_def push_context_def)
qed

lemma validate_working_context_time [simp]:
  "validate_working_context env (c\<lparr>wc_observed_at_ms := t\<rparr>) = validate_working_context env c"
  by (simp add: validate_working_context_def)

lemma observed_state_ok:
  assumes a: "agent_ok env a" and "validate_working_context env c = Inr ()"
  shows "agent_ok env (a\<lparr>ai_state := (ai_state a)\<lparr>as_working_contexts :=
      push_context (c\<lparr>wc_observed_at_ms := context_time now a\<rparr>) (as_working_contexts (ai_state a))\<rparr>\<rparr>)"
proof -
  let ?c = "c\<lparr>wc_observed_at_ms := context_time now a\<rparr>"
  note ok = a [unfolded agent_ok_def agent_state_ok_def Let_def]
  have "contexts_ok env (ai_started_at_ms a) (push_context ?c (as_working_contexts (ai_state a)))"
    using ok assms(2)
    by (intro push_context_ok)
      (auto simp: context_time_def first_context_def max.coboundedI1 split: list.split)
  then show ?thesis
    using ok by (simp add: agent_ok_def agent_state_ok_def Let_def attention_ok_def)
qed

lemma acknowledged_state_ok:
  "agent_ok env a \<Longrightarrow> agent_ok env (a\<lparr>ai_state := (ai_state a)\<lparr>as_attention := None\<rparr>\<rparr>)"
  by (simp add: agent_ok_def agent_state_ok_def Let_def)

section \<open>The operations\<close>

lemma active_run_parses:
  "shell_ok env s \<Longrightarrow> require_active_run shell_id rid s = Inr () \<Longrightarrow> uuid_parses env rid"
  by (auto simp: shell_ok_def running_run_def require_active_run_def split: shell_lifecycle.splits if_splits)

theorem register_agent_refines:
  assumes ok: "durable_ok env st" and new: "get (dst_agents st) new_id = None" "uuid_parses env new_id"
  shows "refined env st (\<lambda>(_, u). [u]) (register_agent now new_id shell_id rid spec st)"
  unfolding register_agent_def Let_def
proof (intro refined_intros, goal_cases)
  case (1 u1 u2 s w u3)
  let ?a = "new_agent now new_id s rid spec"
  have s: "shell_ok env s" using objects_okD [OF durable_okD(6) [OF ok] 1(3)] by simp
  have a: "ai_id ?a = new_id" "ai_workspace_id ?a = ds_workspace_id s"
    by (simp_all add: new_agent_def Let_def)
  have wf: "agent_ok env ?a"
    using 1(1,5) by (intro new_agent_ok s new(2) active_run_parses [OF s, of shell_id]) simp_all
  have fresh: "get (dst_agents st) (ai_id ?a) = None" using new a by simp
  have w: "get (dst_workspaces st) (ai_workspace_id ?a) = Some w" using 1(4) a by simp
  show ?case
    using agent_registered [OF fresh w wf] half_agent_registered [OF fresh w wf]
    by (intro refined_io_tail [OF durable_okD(2) [OF ok] 1(4)])
      (simp_all add: a add_agent_def revision_same)
qed

theorem ensure_agent_refines:
  assumes ok: "durable_ok env st" and new: "get (dst_agents st) new_id = None" "uuid_parses env new_id"
  shows "refined env st (\<lambda>(_, _, u). case u of None \<Rightarrow> [] | Some u \<Rightarrow> [u])
           (ensure_agent now new_id shell_id rid spec st)"
  unfolding ensure_agent_def
proof (intro refined_intros, goal_cases)
  case (1 u1 u2 session existing)
  show ?case
    using register_agent_refines [OF assms, of now shell_id rid spec]
    by (cases "register_agent now new_id shell_id rid spec st")
      (auto simp: refined_def bind_op_def return_op_def split: prod.splits sum.splits)
qed simp

theorem report_agent_refines:
  assumes ok: "durable_ok env st"
  shows "refined env st (\<lambda>(_, _, _, u). case u of None \<Rightarrow> [] | Some u \<Rightarrow> [u])
           (report_agent now agent_id rid report st)"
  unfolding report_agent_def Let_def
proof (intro refined_intros, goal_cases)
  case (3 u1 u2 a u3 revision)
  have "agent_ok env a" using objects_okD [OF durable_okD(8) [OF ok] 3(3)] by simp
  then have "agent_ok env (a\<lparr>ai_state := reported_state now revision report a\<rparr>)"
    using 3 by (intro reported_state_ok) (simp_all add: ok_or_Inr)
  from agent_updated [OF 3(3) this] show ?case by (rule refined_modify) simp
qed simp_all

theorem observe_agent_working_context_refines:
  assumes ok: "durable_ok env st"
  shows "refined env st (\<lambda>(_, _, u). case u of None \<Rightarrow> [] | Some u \<Rightarrow> [u])
           (observe_agent_working_context env now agent_id shell_id rid c st)"
  unfolding observe_agent_working_context_def Let_def
proof (intro refined_intros, goal_cases)
  case (2 u1 a u2 u3 s u4)
  have "agent_ok env a" using objects_okD [OF durable_okD(8) [OF ok] 2(2)] by simp
  then have "agent_ok env (a\<lparr>ai_state := (ai_state a)\<lparr>as_working_contexts :=
      push_context (c\<lparr>wc_observed_at_ms := context_time now a\<rparr>) (as_working_contexts (ai_state a))\<rparr>\<rparr>)"
    by (rule observed_state_ok) (use 2(1) in simp)
  from agent_updated [OF 2(2) this] show ?case by (rule refined_modify) simp
qed simp

theorem acknowledge_agent_attention_refines:
  assumes ok: "durable_ok env st"
  shows "refined env st (\<lambda>(_, _, u). case u of None \<Rightarrow> [] | Some u \<Rightarrow> [u])
           (acknowledge_agent_attention agent_id revision st)"
  unfolding acknowledge_agent_attention_def Let_def
proof (intro refined_intros, goal_cases)
  case (2 a t)
  have "agent_ok env a" using objects_okD [OF durable_okD(8) [OF ok] 2(1)] by simp
  then have "agent_ok env (a\<lparr>ai_state := (ai_state a)\<lparr>as_attention := None\<rparr>\<rparr>)"
    by (rule acknowledged_state_ok)
  from agent_updated [OF 2(1) this] show ?case by (rule refined_modify) simp
qed simp

end
