(* ===== verification/Durable_Request_Refinement.thy ===== *)
theory Durable_Request_Refinement
  imports Durable_Requests Durable_Agent_Refinement
begin

text \<open>
  Every request that changes the durable state returns; the log it leaves says exactly which
  changes it made (\<open>logged\<close>), also when it fails after some of them, so that undoing the log leads
  back to the state before. The one exception is a Workspace whose revision is exhausted.
\<close>

definition logged :: "registry_env \<Rightarrow> durable_state
    \<Rightarrow> ((daemon_error + 'a) \<times> durable_undo list \<times> durable_state) option \<Rightarrow> bool" where
  "logged env st0 outcome \<longleftrightarrow>
     (case outcome of
        None \<Rightarrow> False
      | Some (Inr _, log, st) \<Rightarrow> durable_changes env st0 log st
      | Some (Inl _, log, st) \<Rightarrow> durable_changes env st0 log st \<or> (log = [] \<and> half_done env st0 st))"

text \<open>An operation that leaves the state alone when it fails.\<close>

definition harmless :: "('e + 'a) \<times> durable_state \<Rightarrow> durable_state \<Rightarrow> bool" where
  "harmless outcome st \<longleftrightarrow> (\<forall>e st'. outcome = (Inl e, st') \<longrightarrow> st' = st)"

lemma changes_append:
  "durable_changes env st1 log' st2 \<Longrightarrow> durable_changes env st0 log st1 \<Longrightarrow> durable_changes env st0 (log @ log') st2"
proof (induction rule: durable_changes.induct)
  case (no_change st)
  then show ?case by simp
next
  case (one_more st log' st1 u st2)
  then show ?case using durable_changes.one_more [of env st0 "log @ log'" st1 u st2] by simp
qed

lemma logged_return: "durable_changes env st0 log st \<Longrightarrow> logged env st0 (return_log x (log, st))"
  by (simp add: logged_def return_log_def)

lemma logged_do:
  assumes "durable_changes env st0 log st" and "refined env st records (m st)"
    and "log = [] \<or> harmless (m st) st"
    and "\<And>x st'. m st = (Inr x, st') \<Longrightarrow> durable_changes env st (records x) st'
           \<Longrightarrow> durable_changes env st0 (log @ records x) st'
           \<Longrightarrow> logged env st0 (g x (log @ records x, st'))"
  shows "logged env st0 (bind_log (do_op records m) g (log, st))"
proof (cases "m st")
  case (Pair r st')
  show ?thesis
  proof (cases r)
    case (Inl e)
    then have "durable_changes env st0 log st' \<or> (log = [] \<and> half_done env st0 st')"
      using assms(1-3) Pair by (auto simp: refined_def harmless_def no_change elim: durable_changes.cases)
    then show ?thesis using Pair Inl by (simp add: bind_log_def do_op_def recorded_def logged_def)
  next
    case (Inr x)
    then have "durable_changes env st (records x) st'" using assms(2) Pair by (simp add: refined_def)
    then show ?thesis
      using assms(1,4) Pair Inr changes_append by (simp add: bind_log_def do_op_def recorded_def)
  qed
qed

lemma logged_look:
  assumes "durable_changes env st0 log st" and "snd (m st) = st"
    and "\<And>x. m st = (Inr x, st) \<Longrightarrow> logged env st0 (g x (log, st))"
  shows "logged env st0 (bind_log (look m) g (log, st))"
proof -
  obtain r where m: "m st = (r, st)" using assms(2) by (metis prod.collapse)
  have "logged env st0 (bind_log (look m) g (log, st))"
  proof (rule logged_do [OF assms(1)])
    show "refined env st (\<lambda>_. []) (m st)" by (cases r) (simp_all add: m refined_def no_change)
    show "log = [] \<or> harmless (m st) st" by (simp add: m harmless_def)
  qed (use m assms(3) in auto)
  then show ?thesis .
qed

lemma refined_io:
  "refined env st records (m st) \<Longrightarrow> refined env st records (io_op m st)"
  by (auto simp: refined_def io_op_def split: prod.splits sum.splits)

lemma harmless_io: "harmless (m st) st \<Longrightarrow> harmless (io_op m st) st"
  by (auto simp: harmless_def io_op_def split: prod.splits sum.splits)

lemma look_unchanged [simp]:
  "snd (find_workspace i st) = st" "snd (find_shell i st) = st" "snd (find_launcher i st) = st"
  "snd (find_agent i st) = st" "snd (check_op r st) = st" "snd (read_op f st) = st"
  by (simp_all add: find_defs read_op_def check_op_def)

lemma io_unchanged: "snd (m st) = st \<Longrightarrow> snd (io_op m st) = st"
  by (auto simp: io_op_def split: prod.splits sum.splits)

lemma bind_unchanged: "snd (m st) = st \<Longrightarrow> (\<And>x. snd (f x st) = st) \<Longrightarrow> snd (bind_op m f st) = st"
  by (auto simp: bind_op_def split: prod.splits sum.splits)

lemma snapshot_unchanged [simp]:
  "snd (snapshot_workspace env i st) = st" "snd (snapshot_shell env i st) = st"
  "snd (snapshot_launcher i st) = st"
  unfolding snapshot_workspace_def snapshot_shell_def snapshot_launcher_def
  by (intro io_unchanged bind_unchanged; simp add: return_op_def)+

section \<open>The second of two operations\<close>

named_theorems harmless_intros \<open>statements that leave the state alone when they fail\<close>

lemma harmless_bind:
  "snd (m st) = st \<Longrightarrow> (\<And>x. fst (m st) = Inr x \<Longrightarrow> harmless (g x st) st) \<Longrightarrow> harmless (bind_op m g st) st"
  by (auto simp: harmless_def bind_op_def split: prod.splits sum.splits)

lemma harmless_check [harmless_intros]:
  "(\<And>x. r = Inr x \<Longrightarrow> harmless (g x st) st) \<Longrightarrow> harmless (bind_op (check_op r) g st) st"
  by (rule harmless_bind) (simp_all add: check_op_def)

lemma harmless_read [harmless_intros]:
  "(\<And>x. f st = Inr x \<Longrightarrow> harmless (g x st) st) \<Longrightarrow> harmless (bind_op (read_op f) g st) st"
  by (rule harmless_bind) (simp_all add: read_op_def)

lemma harmless_find [harmless_intros]:
  "(\<And>w. get (dst_workspaces st) i = Some w \<Longrightarrow> harmless (g w st) st)
    \<Longrightarrow> harmless (bind_op (find_workspace i) g st) st"
  by (rule harmless_bind) (simp_all add: find_defs read_op_def ok_or_Inr)

lemma harmless_return [harmless_intros]: "harmless (return_op x st) st"
  by (simp add: harmless_def return_op_def)

lemma harmless_fail [harmless_intros]: "harmless (fail_op e st) st"
  by (simp add: harmless_def fail_op_def)

lemma harmless_if [harmless_intros]:
  "(P \<Longrightarrow> harmless (f st) st) \<Longrightarrow> (\<not> P \<Longrightarrow> harmless (g st) st) \<Longrightarrow> harmless ((if P then f else g) st) st"
  by simp

lemma harmless_case_option [harmless_intros]:
  "(x = None \<Longrightarrow> harmless (f st) st) \<Longrightarrow> (\<And>y. x = Some y \<Longrightarrow> harmless (g y st) st)
    \<Longrightarrow> harmless ((case x of None \<Rightarrow> f | Some y \<Rightarrow> g y) st) st"
  by (simp split: option.split)

lemma harmless_insert_shell:
  assumes "smap_ok (dst_workspaces st)" and "get (dst_workspaces st) (ds_workspace_id s) = Some w"
    and "u64_checked_add (dw_revision w) 1 \<noteq> None"
  shows "harmless (bind_op (insert_shell w s) (\<lambda>_. return_op x) st) st"
  using assms(3)
  by (auto simp: harmless_def bind_op_def return_op_def insert_shell_eq [OF assms(1,2)]
      split: option.splits if_splits)

lemma harmless_insert_launcher:
  assumes "smap_ok (dst_workspaces st)" and "get (dst_workspaces st) (wl_workspace_id l) = Some w"
    and "u64_checked_add (dw_revision w) 1 \<noteq> None"
  shows "harmless (bind_op (insert_launcher w l) (\<lambda>_. return_op x) st) st"
  using assms(3)
  by (auto simp: harmless_def bind_op_def return_op_def insert_launcher_eq [OF assms(1,2)]
      split: option.splits if_splits)

lemma pending_shell_workspace: "create_pending_shell env i j spec = Inr s \<Longrightarrow> ds_workspace_id s = i"
  by (auto simp: create_pending_shell_def bind_res_Inr)

lemma create_shell_exact_harmless:
  assumes "smap_ok (dst_workspaces st)"
    and "\<And>w. get (dst_workspaces st) workspace_id = Some w \<Longrightarrow> u64_checked_add (dw_revision w) 1 \<noteq> None"
  shows "harmless (create_shell_exact env workspace_id shell_id spec st) st"
  unfolding create_shell_exact_def
  by (intro harmless_intros harmless_insert_shell assms(1)) (use assms(2) pending_shell_workspace in force)+

lemma create_launcher_exact_harmless:
  assumes "smap_ok (dst_workspaces st)"
    and "\<And>w. get (dst_workspaces st) workspace_id = Some w \<Longrightarrow> u64_checked_add (dw_revision w) 1 \<noteq> None"
  shows "harmless (create_launcher_exact env workspace_id launcher_id spec st) st"
  unfolding create_launcher_exact_def Let_def
  by (intro harmless_intros harmless_insert_launcher assms(1)) (use assms(2) in \<open>simp_all add: new_launcher_fields\<close>)

section \<open>The Workspace that a Shell without one gets\<close>

lemma next_name_free: "next_name_from st suffix = Inr name \<Longrightarrow> \<not> workspace_name_taken name st"
proof (induction st suffix rule: next_name_from.induct)
  case (1 st suffix)
  show ?case
  proof (cases "workspace_name_taken (workspace_candidate suffix) st")
    case True
    then obtain suffix' where "u64_checked_add suffix 1 = Some suffix'" "next_name_from st suffix' = Inr name"
      using "1.prems" by (subst (asm) next_name_from.simps) (auto split: option.splits)
    then show ?thesis using "1.IH" True by blast
  next
    case False
    then show ?thesis using "1.prems" by (subst (asm) next_name_from.simps) auto
  qed
qed

lemma not_already [simp]:
  "daemon_validate_name name = Inl e \<Longrightarrow> err_kind e \<noteq> AlreadyExists"
  "validate_cwd env cwd = Inl e \<Longrightarrow> err_kind e \<noteq> AlreadyExists"
  by (auto simp: daemon_validate_name_def validate_cwd_def invalid_input_def split: if_splits)

text \<open>The first attempt decides: with a free name, creating cannot fail with \<open>AlreadyExists\<close>.\<close>

lemma create_free_workspace:
  assumes "\<not> workspace_name_taken name st"
    and "create_workspace env i ids name (Some (spec_cwd spec)) [spec] st = (Inl e, st')"
  shows "err_kind e \<noteq> AlreadyExists"
  using assms
  by (auto simp: create_workspace_def op_simps op_defs validate_default_cwd_def validate_shell_specs_def
      bind_res_Inl bind_res_Inr create_pending_shell_def shell_to_snapshot_def split: if_splits sum.splits)

lemma create_shell_with_workspace_first:
  "create_shell_with_workspace env uuids spec st =
     (case next_workspace_name st of
        Inl e \<Rightarrow> Some (Inl e, st)
      | Inr name \<Rightarrow>
          (case create_workspace env (uuids 0 0) (\<lambda>n. uuids 0 (Suc n)) name (Some (spec_cwd spec)) [spec] st of
             (Inr (workspace, undo), st') \<Rightarrow> Some (Inr (hd (ws_shells workspace), undo), st')
           | (Inl e, st') \<Rightarrow> Some (Inl e, st')))"
  unfolding create_shell_with_workspace_def
  by (subst create_shell_in_new_workspace.simps)
    (auto simp: next_workspace_name_def dest!: next_name_free dest: create_free_workspace
      split: sum.split prod.split)

section \<open>The requests\<close>

text \<open>New UUIDs are new and parse as UUIDs.\<close>

definition fresh_id :: "registry_env \<Rightarrow> durable_state \<Rightarrow> string \<Rightarrow> bool" where
  "fresh_id env st i \<longleftrightarrow>
     uuid_parses env i \<and> get (dst_workspaces st) i = None \<and> get (dst_shells st) i = None
     \<and> get (dst_launchers st) i = None \<and> get (dst_agents st) i = None"

definition fresh_inputs :: "registry_env \<Rightarrow> request_inputs \<Rightarrow> durable_state \<Rightarrow> bool" where
  "fresh_inputs env rq st \<longleftrightarrow>
     fresh_id env st (rq_new_id rq)
     \<and> inj (rq_shell_ids rq) \<and> (\<forall>n. fresh_id env st (rq_shell_ids rq n))
     \<and> (\<forall>k. inj (rq_uuids rq k) \<and> (\<forall>n. fresh_id env st (rq_uuids rq k n)))"

lemma create_shell_with_workspace_refines:
  assumes ok: "durable_ok env st" and fresh: "fresh_inputs env rq st"
  shows "\<exists>r. create_shell_with_workspace env (rq_uuids rq) spec st = Some r \<and> refined env st (\<lambda>(_, u). [u]) r"
proof (cases "next_workspace_name st")
  case (Inl e)
  then show ?thesis
    by (simp add: create_shell_with_workspace_first refined_def)
next
  case (Inr name)
  let ?create = "create_workspace env (rq_uuids rq 0 0) (\<lambda>n. rq_uuids rq 0 (Suc n)) name
                   (Some (spec_cwd spec)) [spec] st"
  have inj: "inj (rq_uuids rq 0)" and ids: "fresh_id env st (rq_uuids rq 0 n)" for n
    using fresh by (simp_all add: fresh_inputs_def)
  have "refined env st (\<lambda>(_, u). [u]) ?create"
  proof (rule create_workspace_refines [OF ok])
    show "inj (\<lambda>n. rq_uuids rq 0 (Suc n))" using inj by (auto simp: inj_def)
  qed (use ids in \<open>simp_all add: fresh_id_def\<close>)
  then show ?thesis
    using Inr by (auto simp: create_shell_with_workspace_first refined_def split: prod.splits sum.splits)
qed

lemma implicit_shell_logged:
  assumes ok: "durable_ok env st" and fresh: "fresh_inputs env rq st"
    and "\<And>s log st'. durable_changes env st log st' \<Longrightarrow> logged env st (g s (log, st'))"
  shows "logged env st (bind_log (create_implicit_shell env rq spec) g ([], st))"
proof -
  obtain r where r: "create_shell_with_workspace env (rq_uuids rq) spec st = Some r"
    and refined: "refined env st (\<lambda>(_, u). [u]) r"
    using create_shell_with_workspace_refines [OF ok fresh] by blast
  show ?thesis
  proof (cases "fst r")
    case (Inl e)
    then have "r = (Inl e, snd r)" by (metis prod.collapse)
    then show ?thesis
      using refined r no_change
      by (auto simp: bind_log_def create_implicit_shell_def refined_def logged_def split: prod.splits)
  next
    case (Inr x)
    then obtain s u st' where x: "r = (Inr (s, u), st')" by (metis prod.collapse)
    then have "durable_changes env st [u] st'" using refined by (simp add: refined_def)
    then show ?thesis using assms(3) by (simp add: bind_log_def create_implicit_shell_def r x)
  qed
qed

lemmas handler_defs = acknowledge_handler_def create_workspace_handler_def create_workspace_shell_handler_def
  create_workspace_launcher_handler_def create_launcher_handler_def register_agent_handler_def
  ensure_agent_handler_def report_agent_handler_def observe_context_handler_def rename_workspace_mutation_def
  rename_shell_mutation_def rename_launcher_mutation_def rename_workspace_handler_def
  guarded_rename_workspace_handler_def guarded_set_default_cwd_handler_def rename_shell_handler_def
  guarded_rename_shell_handler_def rename_launcher_handler_def guarded_rename_launcher_handler_def
  remove_launcher_handler_def guarded_remove_launcher_handler_def

lemma bind_log_assoc: "bind_log (bind_log m f) g = bind_log m (\<lambda>x. bind_log (f x) g)"
  by (auto simp: bind_log_def fun_eq_iff split: option.splits sum.splits)

lemma bind_log_return: "bind_log (return_log x) g = g x"
  by (simp add: bind_log_def return_log_def fun_eq_iff)

text \<open>One operation whose result is only answered.\<close>

lemma logged_once:
  assumes "refined env st records (m st)"
    and "\<And>x log st'. durable_changes env st log st' \<Longrightarrow> logged env st (g x (log, st'))"
  shows "logged env st (bind_log (do_op records m) g ([], st))"
  by (rule logged_do [of env st "[]" st records m]) (use assms in \<open>auto simp: no_change\<close>)

lemma acknowledge_logged: "durable_ok env st \<Longrightarrow> logged env st (acknowledge_handler i r ([], st))"
  unfolding acknowledge_handler_def
  by (rule logged_once, erule acknowledge_agent_attention_refines) (auto intro: logged_return)

lemma create_workspace_logged:
  assumes "durable_ok env st" and "fresh_inputs env rq st"
  shows "logged env st (create_workspace_handler env rq name cwd specs ([], st))"
  unfolding create_workspace_handler_def
proof (rule logged_once, rule refined_io, rule create_workspace_refines [OF assms(1)])
  show "logged env st ((case x of (workspace, _) \<Rightarrow>
      return_log (Changed (RespWorkspace workspace) (workspace_created_events workspace))) (log, st'))"
    if "durable_changes env st log st'" for x log st'
    using that by (cases x) (simp add: logged_return)
qed (use assms(2) in \<open>auto simp: fresh_inputs_def fresh_id_def\<close>)

lemma new_workspace_revision:
  assumes "create_workspace_exact env i name cwd st = (Inr (snapshot, Some u), st1)" and "smap_ok (dst_workspaces st)"
  shows "\<exists>w. get (dst_workspaces st1) i = Some w \<and> dw_revision w = 1"
proof (cases "get (dst_workspaces st) i")
  case None
  then show ?thesis
    using assms
    by (auto simp: create_workspace_exact_def op_simps get_put new_workspace_def split: if_splits)
next
  case (Some w)
  then show ?thesis
    using assms(1) by (auto simp: create_workspace_exact_def op_simps split: if_splits)
qed

text \<open>The second half of \<open>CreateWorkspaceShell\<close> and \<open>CreateWorkspaceLauncher\<close>.\<close>

lemma after_workspace_exact:
  assumes ok: "durable_ok env st"
    and step: "io_op (create_workspace_exact env i name cwd) st = (Inr (snapshot, u), st1)"
    and log: "durable_changes env st (record_of u) st1"
    and refines: "\<And>st. durable_ok env st \<Longrightarrow> refined env st (\<lambda>(_, u). record_of u) (m st)"
    and harmless: "\<And>st. smap_ok (dst_workspaces st) \<Longrightarrow>
      (\<And>w. get (dst_workspaces st) i = Some w \<Longrightarrow> u64_checked_add (dw_revision w) 1 \<noteq> None)
      \<Longrightarrow> harmless (m st) st"
  shows "logged env st (bind_log (do_op (\<lambda>(_, u). record_of u) (io_op m))
           (\<lambda>(x, v). return_log (answer x v)) (record_of u, st1))"
proof (rule logged_do)
  have ok1: "durable_ok env st1" by (rule changes_ok [OF log ok])
  show "durable_changes env st (record_of u) st1" by (rule log)
  show "refined env st1 (\<lambda>(_, u). record_of u) (io_op m st1)" by (rule refined_io, rule refines [OF ok1])
  show "record_of u = [] \<or> harmless (io_op m st1) st1"
  proof (cases u)
    case (Some v)
    with step have "create_workspace_exact env i name cwd st = (Inr (snapshot, Some v), st1)"
      by (simp add: io_op_Inr)
    from new_workspace_revision [OF this durable_okD(2) [OF ok]]
    obtain w where w: "get (dst_workspaces st1) i = Some w" "dw_revision w = 1" by blast
    have "harmless (m st1) st1"
      by (rule harmless [OF durable_okD(2) [OF ok1]]) (use w in \<open>simp add: u64_checked_add_one_None\<close>)
    then show ?thesis by (simp add: harmless_io)
  qed simp
  show "logged env st ((case x of (x, v) \<Rightarrow> return_log (answer x v))
      (record_of u @ (case x of (_, u) \<Rightarrow> record_of u), st'))"
    if "durable_changes env st (record_of u @ (case x of (_, u) \<Rightarrow> record_of u)) st'" for x st'
    using that by (cases x) (simp add: logged_return)
qed

lemma create_workspace_shell_logged:
  assumes ok: "durable_ok env st"
  shows "logged env st (create_workspace_shell_handler env i name cwd j spec ([], st))"
  unfolding create_workspace_shell_handler_def
proof (rule logged_do, rule no_change, rule refined_io, rule create_workspace_exact_refines [OF ok])
  fix x st1
  assume step: "io_op (create_workspace_exact env i name cwd) st = (Inr x, st1)"
    and log: "durable_changes env st (case x of (_, u) \<Rightarrow> record_of u) st1"
  obtain snapshot u where x: "x = (snapshot, u)" by fastforce
  show "logged env st ((case x of (workspace, workspace_undo) \<Rightarrow>
      bind_log (do_op (\<lambda>(_, u). record_of u) (io_op (create_shell_exact env i j spec)))
       (\<lambda>(s, shell_undo). return_log
         (if workspace_undo = None \<and> shell_undo = None then Unchanged (RespShell s)
          else Changed (RespShell s)
            ((if workspace_undo \<noteq> None then [EvWorkspaceCreated (ws_id workspace) (ws_name workspace)] else [])
             @ (if shell_undo \<noteq> None then [EvShellCreated i (sh_id s) (sh_name s)] else [])))))
      ([] @ (case x of (_, u) \<Rightarrow> record_of u), st1))"
    unfolding x prod.case append_Nil
    by (rule after_workspace_exact [OF ok step [unfolded x] log [unfolded x prod.case]
          create_shell_exact_refines create_shell_exact_harmless])
qed simp

lemma create_workspace_launcher_logged:
  assumes ok: "durable_ok env st"
  shows "logged env st (create_workspace_launcher_handler env i name cwd j spec ([], st))"
  unfolding create_workspace_launcher_handler_def
proof (rule logged_do, rule no_change, rule refined_io, rule create_workspace_exact_refines [OF ok])
  fix x st1
  assume step: "io_op (create_workspace_exact env i name cwd) st = (Inr x, st1)"
    and log: "durable_changes env st (case x of (_, u) \<Rightarrow> record_of u) st1"
  obtain snapshot u where x: "x = (snapshot, u)" by fastforce
  show "logged env st ((case x of (workspace, workspace_undo) \<Rightarrow>
      bind_log (do_op (\<lambda>(_, u). record_of u) (io_op (create_launcher_exact env i j spec)))
       (\<lambda>(l, launcher_undo). return_log
         (if workspace_undo = None \<and> launcher_undo = None then Unchanged (RespLauncher l)
          else Changed (RespLauncher l)
            ((if workspace_undo \<noteq> None then [EvWorkspaceCreated (ws_id workspace) (ws_name workspace)] else [])
             @ (if launcher_undo \<noteq> None then [EvLauncherCreated i (la_id l) (la_name l)] else [])))))
      ([] @ (case x of (_, u) \<Rightarrow> record_of u), st1))"
    unfolding x prod.case append_Nil
    by (rule after_workspace_exact [OF ok step [unfolded x] log [unfolded x prod.case]
          create_launcher_exact_refines create_launcher_exact_harmless])
qed simp

lemma find_in_changed:
  "fst (find_workspace i st) = Inr w \<longleftrightarrow> get (dst_workspaces st) i = Some w"
  by (simp add: find_defs read_op_def ok_or_Inr)

lemma create_shell_logged:
  assumes ok: "durable_ok env st" and fresh: "fresh_inputs env rq st"
  shows "logged env st (create_shell_handler env rq i spec ([], st))"
proof (cases i)
  case None
  show ?thesis
    unfolding create_shell_handler_def None option.case
    by (rule implicit_shell_logged [OF ok fresh], rule logged_look) (auto simp: io_unchanged intro: logged_return)
next
  case (Some j)
  have "refined env st (\<lambda>(_, u). [u]) (create_shell env (rq_new_id rq) j spec st)"
    by (rule create_shell_refines [OF ok]) (use fresh in \<open>simp_all add: fresh_inputs_def fresh_id_def\<close>)
  then show ?thesis
    unfolding create_shell_handler_def Some option.case
    by (intro logged_once refined_io) (auto intro: logged_return)
qed

lemma create_launcher_logged:
  assumes ok: "durable_ok env st" and fresh: "fresh_inputs env rq st"
  shows "logged env st (create_launcher_handler env rq i spec ([], st))"
proof -
  have "refined env st (\<lambda>(_, u). [u]) (create_launcher env (rq_new_id rq) i spec st)"
    by (rule create_launcher_refines [OF ok]) (use fresh in \<open>simp_all add: fresh_inputs_def fresh_id_def\<close>)
  then show ?thesis
    unfolding create_launcher_handler_def by (intro logged_once refined_io) (auto intro: logged_return)
qed

lemma register_agent_logged:
  assumes ok: "durable_ok env st" and fresh: "fresh_inputs env rq st"
  shows "logged env st (register_agent_handler rq i rid spec ([], st))"
proof -
  have "refined env st (\<lambda>(_, u). [u]) (register_agent (rq_now rq) (rq_new_id rq) i rid spec st)"
    by (rule register_agent_refines [OF ok]) (use fresh in \<open>simp_all add: fresh_inputs_def fresh_id_def\<close>)
  then show ?thesis
    unfolding register_agent_handler_def by (intro logged_once) (auto intro: logged_return)
qed

lemma ensure_agent_logged:
  assumes ok: "durable_ok env st" and fresh: "fresh_inputs env rq st"
  shows "logged env st (ensure_agent_handler rq i rid spec ([], st))"
proof -
  have "refined env st (\<lambda>(_, _, u). record_of u) (ensure_agent (rq_now rq) (rq_new_id rq) i rid spec st)"
    by (rule ensure_agent_refines [OF ok]) (use fresh in \<open>simp_all add: fresh_inputs_def fresh_id_def\<close>)
  then show ?thesis
    unfolding ensure_agent_handler_def Let_def
    by (intro logged_once) (auto intro: logged_return)
qed

lemma report_agent_logged: "durable_ok env st \<Longrightarrow> logged env st (report_agent_handler rq i rid report ([], st))"
  unfolding report_agent_handler_def
  by (rule logged_once, erule report_agent_refines) (auto intro: logged_return)

lemma observe_context_logged:
  "durable_ok env st \<Longrightarrow> logged env st (observe_context_handler env rq i j rid c ([], st))"
  unfolding observe_context_handler_def
  by (rule logged_once, erule observe_agent_working_context_refines) (auto intro: logged_return)

section \<open>Renames, guards and removal\<close>

lemma rename_workspace_step:
  assumes "durable_changes env st [] st"
    and "\<And>m log st'. durable_changes env st log st' \<Longrightarrow> logged env st (g m (log, st'))"
  shows "logged env st (bind_log (rename_workspace_mutation i name) g ([], st))"
  unfolding rename_workspace_mutation_def bind_log_assoc bind_log_return
  by (rule logged_once, rule refined_io, rule rename_workspace_refines) (rule assms(2))

lemma rename_shell_step:
  assumes "\<And>m log st'. durable_changes env st log st' \<Longrightarrow> logged env st (g m (log, st'))"
  shows "logged env st (bind_log (rename_shell_mutation i name) g ([], st))"
  unfolding rename_shell_mutation_def bind_log_assoc
proof (rule logged_once, rule refined_io, rule rename_shell_refines)
  fix u log st'
  assume "durable_changes env st log st'"
  then show "logged env st (bind_log
      (case u of None \<Rightarrow> return_log (Unchanged ())
       | Some x \<Rightarrow> bind_log (look (io_op (find_shell i))) (\<lambda>s.
             return_log (Changed () [EvShellRenamed (ds_workspace_id s) i name]))) g (log, st'))"
    by (cases u) (auto simp: bind_log_return bind_log_assoc io_unchanged intro: assms logged_look)
qed

lemma rename_launcher_step:
  assumes "\<And>m log st'. durable_changes env st log st' \<Longrightarrow> logged env st (g m (log, st'))"
  shows "logged env st (bind_log (rename_launcher_mutation i name) g ([], st))"
  unfolding rename_launcher_mutation_def bind_log_assoc
proof (rule logged_once, rule refined_io, rule rename_launcher_refines)
  fix u log st'
  assume "durable_changes env st log st'"
  then show "logged env st (bind_log
      (case u of None \<Rightarrow> return_log (Unchanged ())
       | Some x \<Rightarrow> bind_log (look (io_op (find_launcher i))) (\<lambda>l.
             return_log (Changed () [EvLauncherRenamed (wl_workspace_id l) i name]))) g (log, st'))"
    by (cases u) (auto simp: bind_log_return bind_log_assoc io_unchanged intro: assms logged_look)
qed

lemma renames_logged:
  "logged env st (rename_workspace_handler i name ([], st))"
  "logged env st (rename_shell_handler i name ([], st))"
  "logged env st (rename_launcher_handler i name ([], st))"
  unfolding rename_workspace_handler_def rename_shell_handler_def rename_launcher_handler_def
  by (rule rename_workspace_step rename_shell_step rename_launcher_step; auto intro: logged_return no_change)+

lemma guarded_logged:
  "logged env st (guarded_rename_workspace_handler env i name r ([], st))"
  "logged env st (guarded_rename_shell_handler env i name r ([], st))"
  "logged env st (guarded_rename_launcher_handler i name r ([], st))"
  unfolding guarded_rename_workspace_handler_def guarded_rename_shell_handler_def
    guarded_rename_launcher_handler_def
  by (intro logged_look rename_workspace_step rename_shell_step rename_launcher_step no_change logged_return;
      simp add: io_unchanged)+

lemma guarded_cwd_logged: "logged env st (guarded_set_default_cwd_handler env i r cwd ([], st))"
  unfolding guarded_set_default_cwd_handler_def
  by (intro logged_look no_change logged_once refined_io set_workspace_default_cwd_refines logged_return;
      simp add: io_unchanged)

lemma remove_launcher_logged:
  assumes "durable_ok env st"
  shows "logged env st (remove_launcher_handler i ([], st))"
    "logged env st (guarded_remove_launcher_handler i r ([], st))"
proof -
  show once: "logged env st (remove_launcher_handler i ([], st))"
    unfolding remove_launcher_handler_def
    by (rule logged_once, rule refined_io, rule remove_launcher_refines [OF assms]) (auto intro: logged_return)
  show "logged env st (guarded_remove_launcher_handler i r ([], st))"
    unfolding guarded_remove_launcher_handler_def
    by (intro logged_look no_change once; simp add: io_unchanged)
qed

text \<open>Every request.\<close>

theorem request_logged:
  assumes "durable_ok env st" and "fresh_inputs env rq st" and "request_operation env rq request = Inr op"
  shows "logged env st (op ([], st))"
  using assms(3) acknowledge_logged create_workspace_logged create_workspace_shell_logged
    create_workspace_launcher_logged create_shell_logged create_launcher_logged register_agent_logged
    ensure_agent_logged report_agent_logged observe_context_logged renames_logged guarded_logged
    guarded_cwd_logged remove_launcher_logged assms(1,2)
  by (cases request) (auto simp: request_operation_def split: sum.splits option.splits)

section \<open>What is answered and what is recorded\<close>

text \<open>
  A change is answered with events and leaves records; an answer of no change leaves none. So the
  two errors with which \<open>durable_mutation_outcome\<close> guards against the opposite never occur.
\<close>

definition consistent :: "('e + 'a durable_mutation) \<Rightarrow> durable_undo list \<Rightarrow> bool" where
  "consistent outcome log \<longleftrightarrow>
     (case outcome of
        Inl _ \<Rightarrow> True
      | Inr (Changed _ events) \<Rightarrow> log \<noteq> [] \<and> events \<noteq> []
      | Inr (Unchanged _) \<Rightarrow> log = [])"

definition answers :: "((daemon_error + 'a durable_mutation) \<times> durable_undo list \<times> durable_state) option \<Rightarrow> bool" where
  "answers outcome \<longleftrightarrow> (\<forall>r log st. outcome = Some (r, log, st) \<longrightarrow> consistent r log)"

lemma answers_return: "consistent (Inr x :: daemon_error + _) log \<Longrightarrow> answers (return_log x (log, st))"
  by (simp add: answers_def return_log_def consistent_def)

lemma answers_do:
  assumes "\<And>x st'. m st = (Inr x, st') \<Longrightarrow> answers (g x (log @ records x, st'))"
  shows "answers (bind_log (do_op records m) g (log, st))"
  using assms
  by (auto simp: bind_log_def do_op_def recorded_def answers_def consistent_def split: prod.splits sum.splits)

text \<open>What every successful result of an operation satisfies.\<close>

definition gives :: "('a \<Rightarrow> bool) \<Rightarrow> ('e + 'a) \<times> durable_state \<Rightarrow> bool" where
  "gives P outcome \<longleftrightarrow> (\<forall>x st'. outcome = (Inr x, st') \<longrightarrow> P x)"

lemma gives_bind: "(\<And>x st1. gives P (g x st1)) \<Longrightarrow> gives P (bind_op m g st)"
  by (auto simp: gives_def bind_op_def split: prod.splits sum.splits)

lemma gives_return: "P x \<Longrightarrow> gives P (return_op x st)"
  by (simp add: gives_def return_op_def)

lemma gives_fail: "gives P (fail_op e st)"
  by (simp add: gives_def fail_op_def)

lemma gives_if: "gives P (f st) \<Longrightarrow> gives P (g st) \<Longrightarrow> gives P ((if b then f else g) st)"
  by simp

lemma gives_case_option:
  "gives P (f st) \<Longrightarrow> (\<And>y. gives P (g y st)) \<Longrightarrow> gives P ((case x of None \<Rightarrow> f | Some y \<Rightarrow> g y) st)"
  by (simp split: option.split)

lemma gives_case_prod: "(\<And>x y. gives P (g x y st)) \<Longrightarrow> gives P ((case p of (x, y) \<Rightarrow> g x y) st)"
  by (simp split: prod.split)

lemmas gives_intros = gives_bind gives_return gives_fail gives_if gives_case_option gives_case_prod

lemma changed_recorded:
  "gives (\<lambda>(_, c, u). c \<longleftrightarrow> u \<noteq> None) (acknowledge_agent_attention i r st)"
  "gives (\<lambda>(_, c, _, u). c \<longleftrightarrow> u \<noteq> None) (report_agent now i rid report st)"
  "gives (\<lambda>(_, c, u). c \<longleftrightarrow> u \<noteq> None) (observe_agent_working_context env now i j rid ctx st)"
  "gives (\<lambda>(_, c, u). c \<longleftrightarrow> u \<noteq> None) (ensure_agent now k i rid spec st)"
  unfolding acknowledge_agent_attention_def report_agent_def observe_agent_working_context_def
    ensure_agent_def Let_def
  by (intro gives_intros; simp)+

lemma answers_gives:
  assumes "gives P (m st)" and "\<And>x st'. P x \<Longrightarrow> answers (g x (log @ records x, st'))"
  shows "answers (bind_log (do_op records m) g (log, st))"
  by (rule answers_do) (use assms in \<open>auto simp: gives_def\<close>)

lemma answers_look:
  "(\<And>x st'. answers (g x (log, st'))) \<Longrightarrow> answers (bind_log (look m) g (log, st))"
  by (rule answers_do) simp

lemma agent_registered_events_some: "agent_registered_events a \<noteq> []"
  by (simp add: agent_registered_events_def)

lemma creations_answer:
  "answers (create_workspace_handler env rq name cwd specs ([], st))"
  "answers (create_workspace_shell_handler env i name cwd j spec ([], st))"
  "answers (create_workspace_launcher_handler env i name cwd j lspec ([], st))"
  "answers (create_launcher_handler env rq i lspec ([], st))"
  "answers (register_agent_handler rq i rid rspec ([], st))"
  unfolding create_workspace_handler_def create_workspace_shell_handler_def
    create_workspace_launcher_handler_def create_launcher_handler_def register_agent_handler_def
  by (intro answers_do; auto simp: consistent_def workspace_created_events_def agent_registered_events_some
      intro!: answers_return answers_do split: option.split)+

lemma answers_implicit:
  assumes "\<And>s u st'. answers (g s ([u], st'))"
  shows "answers (bind_log (create_implicit_shell env rq spec) g ([], st))"
proof (cases "create_shell_with_workspace env (rq_uuids rq) spec st")
  case None
  then show ?thesis by (simp add: bind_log_def create_implicit_shell_def answers_def)
next
  case (Some r)
  obtain o' st' where r: "r = (o', st')" by fastforce
  show ?thesis
  proof (cases o')
    case (Inl e)
    then show ?thesis by (simp add: Some r bind_log_def create_implicit_shell_def answers_def consistent_def)
  next
    case (Inr x)
    then show ?thesis
      using assms by (cases x) (simp add: Some r bind_log_def create_implicit_shell_def)
  qed
qed

lemma create_shell_answers: "answers (create_shell_handler env rq i spec ([], st))"
proof (cases i)
  case None
  show ?thesis
    unfolding create_shell_handler_def None option.case
    by (rule answers_implicit, rule answers_look, rule answers_return) (simp add: consistent_def)
next
  case (Some j)
  show ?thesis
    unfolding create_shell_handler_def Some option.case
    by (rule answers_do) (auto simp: consistent_def intro!: answers_return)
qed

lemma agents_answer:
  "answers (acknowledge_handler i r ([], st))"
  "answers (ensure_agent_handler rq i rid rspec ([], st))"
  "answers (report_agent_handler rq i rid report ([], st))"
  "answers (observe_context_handler env rq i j rid c ([], st))"
  unfolding acknowledge_handler_def ensure_agent_handler_def report_agent_handler_def
    observe_context_handler_def Let_def
  by (rule answers_gives, rule changed_recorded,
      auto simp: consistent_def agent_registered_events_some intro!: answers_return split: option.splits)+

lemma rename_workspace_answers:
  assumes "\<And>m log st'. consistent (Inr m :: daemon_error + unit durable_mutation) log \<Longrightarrow> answers (g m (log, st'))"
  shows "answers (bind_log (rename_workspace_mutation i name) g ([], st))"
  unfolding rename_workspace_mutation_def bind_log_assoc bind_log_return
  by (rule answers_do, rule assms) (auto simp: consistent_def split: option.split)

lemma rename_shell_answers:
  assumes "\<And>m log st'. consistent (Inr m :: daemon_error + unit durable_mutation) log \<Longrightarrow> answers (g m (log, st'))"
  shows "answers (bind_log (rename_shell_mutation i name) g ([], st))"
  unfolding rename_shell_mutation_def bind_log_assoc
proof (rule answers_do)
  fix u st'
  show "answers (bind_log
      (case u of None \<Rightarrow> return_log (Unchanged ())
       | Some x \<Rightarrow> bind_log (look (io_op (find_shell i))) (\<lambda>s.
             return_log (Changed () [EvShellRenamed (ds_workspace_id s) i name]))) g ([] @ record_of u, st'))"
    by (cases u) (auto simp: bind_log_return bind_log_assoc consistent_def intro!: assms answers_look)
qed

lemma rename_launcher_answers:
  assumes "\<And>m log st'. consistent (Inr m :: daemon_error + unit durable_mutation) log \<Longrightarrow> answers (g m (log, st'))"
  shows "answers (bind_log (rename_launcher_mutation i name) g ([], st))"
  unfolding rename_launcher_mutation_def bind_log_assoc
proof (rule answers_do)
  fix u st'
  show "answers (bind_log
      (case u of None \<Rightarrow> return_log (Unchanged ())
       | Some x \<Rightarrow> bind_log (look (io_op (find_launcher i))) (\<lambda>l.
             return_log (Changed () [EvLauncherRenamed (wl_workspace_id l) i name]))) g ([] @ record_of u, st'))"
    by (cases u) (auto simp: bind_log_return bind_log_assoc consistent_def intro!: assms answers_look)
qed

lemma consistent_map:
  "consistent (Inr m :: daemon_error + _) log \<Longrightarrow> consistent (Inr (map_mutation f m) :: daemon_error + _) log"
  by (cases m) (simp_all add: consistent_def)

lemma renames_answer:
  "answers (rename_workspace_handler i name ([], st))"
  "answers (rename_shell_handler i name ([], st))"
  "answers (rename_launcher_handler i name ([], st))"
  unfolding rename_workspace_handler_def rename_shell_handler_def rename_launcher_handler_def
  by (rule rename_workspace_answers rename_shell_answers rename_launcher_answers,
      rule answers_return, erule consistent_map)+

lemma guarded_answer:
  "answers (guarded_rename_workspace_handler env i name r ([], st))"
  "answers (guarded_rename_shell_handler env i name r ([], st))"
  "answers (guarded_rename_launcher_handler i name r ([], st))"
  unfolding guarded_rename_workspace_handler_def guarded_rename_shell_handler_def
    guarded_rename_launcher_handler_def
  by (rule answers_look, rule answers_look,
      rule rename_workspace_answers rename_shell_answers rename_launcher_answers,
      rule answers_look, rule answers_return, erule consistent_map)+

lemma guarded_cwd_answers: "answers (guarded_set_default_cwd_handler env i r cwd ([], st))"
  unfolding guarded_set_default_cwd_handler_def
  by (rule answers_look, rule answers_look, rule answers_do, rule answers_look, rule answers_return)
    (simp add: consistent_def split: option.split)

lemma removal_answers:
  "answers (remove_launcher_handler i ([], st))"
  "answers (guarded_remove_launcher_handler i r ([], st))"
proof -
  show once: "answers (remove_launcher_handler i ([], st))" for st
    unfolding remove_launcher_handler_def
    by (rule answers_do) (auto simp: consistent_def intro!: answers_return)
  show "answers (guarded_remove_launcher_handler i r ([], st))"
    unfolding guarded_remove_launcher_handler_def by (rule answers_look, rule answers_look, rule once)
qed

theorem request_answers:
  assumes "request_operation env rq request = Inr op"
  shows "answers (op ([], st))"
  using assms creations_answer create_shell_answers agents_answer renames_answer guarded_answer
    guarded_cwd_answers removal_answers
  by (cases request) (auto simp: request_operation_def split: sum.splits option.splits)

end
