(* ===== verification/Durable_Revisions.thy ===== *)
theory Durable_Revisions
  imports Durable_Request_Refinement
begin

text \<open>
  How fast the revisions of the Workspaces rise: a request makes at most two changes, each of which
  raises the revision of a Workspace by at most one. So after \<open>n\<close> requests no revision is exhausted
  that was below \<open>u64::MAX - 2 n\<close> before.
\<close>

section \<open>The records of a request\<close>

definition brief :: "nat \<Rightarrow> 'a lop \<Rightarrow> bool" where
  "brief n op \<longleftrightarrow> (\<forall>log st r log' st'. op (log, st) = Some (r, log', st') \<longrightarrow> length log' \<le> length log + n)"

lemma brief_return: "brief n (return_log x)"
  by (simp add: brief_def return_log_def)

lemma brief_bind:
  assumes "brief a m" and "\<And>x. brief b (f x)" and "a + b \<le> n"
  shows "brief n (bind_log m f)"
  unfolding brief_def
proof (intro allI impI)
  fix log st r log2 st2
  assume "bind_log m f (log, st) = Some (r, log2, st2)"
  then obtain r1 log1 st1 where m: "m (log, st) = Some (r1, log1, st1)"
    and f: "log2 = log1 \<or> (\<exists>x. f x (log1, st1) = Some (r, log2, st2))"
    by (auto simp: bind_log_def split: option.splits prod.splits sum.splits)
  have "length log1 \<le> length log + a" using assms(1) m unfolding brief_def by blast
  moreover have "length log2 \<le> length log1 + b" using assms(2) f unfolding brief_def by force
  ultimately show "length log2 \<le> length log + n" using assms(3) by simp
qed

lemma brief_do: "(\<And>x. length (records x) \<le> n) \<Longrightarrow> brief n (do_op records m)"
  by (auto simp: brief_def do_op_def recorded_def split: prod.splits sum.splits)

lemma brief_look: "(\<And>x. brief n (f x)) \<Longrightarrow> brief n (bind_log (look m) f)"
  by (rule brief_bind [of 0 _ n]) (simp_all add: brief_do)

lemma brief_record:
  assumes "\<And>x. length (records x) \<le> 1" and "\<And>x. brief n (f x)"
  shows "brief (Suc n) (bind_log (do_op records m) f)"
  by (rule brief_bind [OF brief_do [of records, OF assms(1)] assms(2)]) simp

lemma brief_implicit: "brief 1 (create_implicit_shell env rq spec)"
  by (auto simp: brief_def create_implicit_shell_def split: option.splits prod.splits sum.splits)

lemma brief_renames:
  "brief 1 (rename_workspace_mutation i name)" "brief 1 (rename_shell_mutation i name)"
  "brief 1 (rename_launcher_mutation i name)"
  unfolding rename_workspace_mutation_def rename_shell_mutation_def rename_launcher_mutation_def One_nat_def
  by (rule brief_record; auto intro!: brief_return brief_look split: option.split)+

lemmas handler_defs = acknowledge_handler_def create_workspace_handler_def create_workspace_shell_handler_def
  create_workspace_launcher_handler_def create_shell_handler_def create_launcher_handler_def
  register_agent_handler_def ensure_agent_handler_def report_agent_handler_def observe_context_handler_def
  guarded_set_default_cwd_handler_def remove_launcher_handler_def guarded_remove_launcher_handler_def

lemmas rename_handler_defs = rename_workspace_handler_def guarded_rename_workspace_handler_def
  rename_shell_handler_def guarded_rename_shell_handler_def rename_launcher_handler_def
  guarded_rename_launcher_handler_def

lemma brief_mono: "brief m op \<Longrightarrow> m \<le> n \<Longrightarrow> brief n op"
  unfolding brief_def by (meson add_le_mono1 dual_order.trans nat_add_left_cancel_le)

lemma request_brief:
  assumes "request_operation env rq request = Inr op"
  shows "brief 2 op"
proof -
  have renames: "brief (Suc (Suc 0)) (bind_log m f)" if "brief 1 m" "\<And>x. brief (Suc 0) (f x)" for m f
    by (rule brief_bind [OF that]) simp
  show ?thesis
    using assms
    by (cases request)
      (auto simp: request_operation_def handler_defs rename_handler_defs numeral_2_eq_2 Let_def
        intro!: brief_record brief_look brief_return renames [OF brief_implicit] renames [OF brief_renames(1)]
          renames [OF brief_renames(2)] renames [OF brief_renames(3)]
        split: sum.splits option.splits prod.splits)
qed

section \<open>The revisions of the Workspaces\<close>

definition revision_room :: "nat \<Rightarrow> durable_state \<Rightarrow> bool" where
  "revision_room n st \<longleftrightarrow> n + 1 < 2 ^ 64 - 1
     \<and> (\<forall>i w. get (dst_workspaces st) i = Some w \<longrightarrow> unat (dw_revision w) + n < 2 ^ 64 - 1)"

lemma revision_room_mono: "revision_room m st \<Longrightarrow> n \<le> m \<Longrightarrow> revision_room n st"
  by (fastforce simp: revision_room_def)

lemma room_altered:
  assumes "revision_room (Suc n) st" and "smap_ok (dst_workspaces st)"
    and "get (dst_workspaces st) i = Some w" and "unat (dw_revision (f w)) \<le> unat (dw_revision w) + 1"
    and "dst_workspaces st' = alter i f (dst_workspaces st)"
  shows "revision_room n st'"
  using assms by (fastforce simp: revision_room_def get_alter)

lemma counted_up: "u64_checked_add r 1 = Some r' \<Longrightarrow> unat r' \<le> unat r + 1"
  by (auto simp: u64_checked_add_def unat_word_ariths split: if_splits)

lemma change_room:
  assumes "durable_change env st u st'" and ok: "durable_ok env st" and room: "revision_room (Suc n) st"
  shows "revision_room n st'"
  using assms(1)
proof cases
  case (workspace_created i name shells cwd)
  then show ?thesis
    using room by (fastforce simp: revision_room_def get_put [OF durable_okD(2) [OF ok]] new_workspace_def split: if_splits)
next
  case (shell_created s w r)
  then show ?thesis
    using counted_up by (intro room_altered [OF room durable_okD(2) [OF ok] shell_created(4)]) (simp_all add: add_shell_def)
next
  case (launcher_created l w r)
  then show ?thesis
    using counted_up by (intro room_altered [OF room durable_okD(2) [OF ok] launcher_created(4)]) (simp_all add: add_launcher_def)
next
  case (agent_registered a w r)
  then show ?thesis
    using counted_up by (intro room_altered [OF room durable_okD(2) [OF ok] agent_registered(4)]) (simp_all add: add_agent_def)
next
  case (shell_removed s w k r)
  then show ?thesis
    using counted_up by (intro room_altered [OF room durable_okD(2) [OF ok] shell_removed(4)]) (simp_all add: drop_shell_def)
next
  case (launcher_removed l w k r)
  then show ?thesis
    using counted_up by (intro room_altered [OF room durable_okD(2) [OF ok] launcher_removed(4)]) (simp_all add: drop_launcher_def)
next
  case (workspace_removed i w)
  then show ?thesis
    using room by (fastforce simp: revision_room_def get_del [OF durable_okD(2) [OF ok]] split: if_splits)
next
  case (workspace_renamed i w name r)
  then show ?thesis
    using counted_up by (intro room_altered [OF room durable_okD(2) [OF ok] workspace_renamed(3)]) (simp_all add: upd_workspace_def)
next
  case (workspace_cwd_set i w r cwd)
  then show ?thesis
    using counted_up by (intro room_altered [OF room durable_okD(2) [OF ok] workspace_cwd_set(3)]) (simp_all add: upd_workspace_def)
next
  case shell_renamed
  then show ?thesis using revision_room_mono [OF room] by (simp add: upd_shell_def revision_room_def)
next
  case launcher_renamed
  then show ?thesis using revision_room_mono [OF room] by (simp add: upd_launcher_def revision_room_def)
next
  case agent_updated
  then show ?thesis using revision_room_mono [OF room] by (simp add: upd_agent_def revision_room_def)
qed

lemma changes_room:
  "durable_changes env st log st' \<Longrightarrow> durable_ok env st \<Longrightarrow> revision_room (length log + n) st \<Longrightarrow> revision_room n st'"
proof (induction arbitrary: n rule: durable_changes.induct)
  case (one_more st log st1 u st2)
  then show ?case using change_room [OF one_more.hyps(2) changes_ok [OF one_more.hyps(1)]] by simp
qed simp

end
