(* ===== verification/Durable_Restart.thy ===== *)
theory Durable_Restart
  imports Durable_Agent_Refinement
begin

text \<open>
  A restart from the saved state: \<open>restore\<close> accepts what \<open>capture_persisted_state\<close> saved of a
  well-formed state and builds that state again, at rest: no Shell runs, and a run that had not
  ended has been interrupted (\<open>rested\<close>).
\<close>

definition rested_shell :: "bool \<Rightarrow> (string \<Rightarrow> u64) \<Rightarrow> shell \<Rightarrow> shell" where
  "rested_shell live clock s =
     s\<lparr>ds_last_run := map_option (\<lambda>run. restored_run live (clock (psr_id run)) run) (ds_last_run s),
       ds_lifecycle := LcPending\<rparr>"

definition rested :: "bool \<Rightarrow> (string \<Rightarrow> u64) \<Rightarrow> durable_state \<Rightarrow> durable_state" where
  "rested live clock st = st\<lparr>dst_shells := map (\<lambda>(i, s). (i, rested_shell live clock s)) (dst_shells st)\<rparr>"

definition has_open_run :: "durable_state \<Rightarrow> bool" where
  "has_open_run st \<longleftrightarrow>
     (\<exists>s \<in> set (objects (dst_shells st)). \<exists>run. ds_last_run s = Some run \<and> psr_ended_at_ms run = None)"

section \<open>The loops of \<open>restore\<close> on lists that pass the checks\<close>

definition run_ids_of :: "persisted_shell list \<Rightarrow> string list" where
  "run_ids_of fs = map psr_id (List.map_filter fsh_last_run fs)"

definition open_run_in :: "persisted_shell list \<Rightarrow> bool" where
  "open_run_in fs \<longleftrightarrow> (\<exists>f \<in> set fs. \<exists>run. fsh_last_run f = Some run \<and> psr_ended_at_ms run = None)"

lemma run_ids_of_simps [simp]:
  "run_ids_of [] = []"
  "run_ids_of (f # fs) = (case fsh_last_run f of None \<Rightarrow> [] | Some run \<Rightarrow> [psr_id run]) @ run_ids_of fs"
  "run_ids_of (fs @ gs) = run_ids_of fs @ run_ids_of gs"
  by (auto simp: run_ids_of_def List.map_filter_def split: option.split)

lemma open_run_in_simps [simp]:
  "open_run_in [] = False"
  "open_run_in (f # fs) \<longleftrightarrow>
     (case fsh_last_run f of None \<Rightarrow> False | Some run \<Rightarrow> psr_ended_at_ms run = None) \<or> open_run_in fs"
  "open_run_in (fs @ gs) \<longleftrightarrow> open_run_in fs \<or> open_run_in gs"
  by (auto simp: open_run_in_def split: option.split)

definition persisted_shell_ok :: "registry_env \<Rightarrow> persisted_shell \<Rightarrow> bool" where
  "persisted_shell_ok env f \<longleftrightarrow>
     uuid_parses env (fsh_id f) \<and> \<not> is_blank (fsh_name f) \<and> is_absolute (fsh_cwd f)
     \<and> (\<forall>run. fsh_last_run f = Some run \<longrightarrow> check_run env {} run = Inr ())"

lemma check_run_fresh:
  "check_run env {} run = Inr () \<Longrightarrow> psr_id run \<notin> run_ids \<Longrightarrow> check_run env run_ids run = Inr ()"
  by (auto simp: check_run_def bind_res_Inr split: if_splits)

lemma checked_name: "\<not> is_blank name \<Longrightarrow> validate_persisted_name name = Inr ()"
  by (simp add: validate_persisted_name_def)

lemma checked_cwd: "is_absolute cwd \<Longrightarrow> validate_persisted_cwd env cwd = Inr ()"
  by (simp add: validate_persisted_cwd_def)

lemma other_than_head: "distinct (map key (x # xs)) \<Longrightarrow> y \<in> set xs \<Longrightarrow> key y \<noteq> key x"
  by (metis distinct.simps(2) image_eqI list.set_map list.simps(9))

lemma restore_shells_ok:
  assumes "\<forall>f \<in> set fs. persisted_shell_ok env f" and "smap_ok (dst_shells (rst_state r))"
    and "distinct (map fsh_name fs)" and "set (map fsh_name fs) \<inter> names = {}"
    and "distinct (map fsh_id fs)" and "\<forall>f \<in> set fs. get (dst_shells (rst_state r)) (fsh_id f) = None"
    and "distinct (run_ids_of fs)" and "set (run_ids_of fs) \<inter> rst_run_ids r = {}"
  shows "restore_shells env live clock i names fs r =
    Inr (r\<lparr>rst_state := (rst_state r)\<lparr>dst_shells :=
             fold (\<lambda>s. put (ds_id s) s) (map (shell_restored live clock i) fs) (dst_shells (rst_state r))\<rparr>,
           rst_run_ids := rst_run_ids r \<union> set (run_ids_of fs),
           rst_recovered := (rst_recovered r \<or> \<not> live \<and> open_run_in fs)\<rparr>)"
  using assms
proof (induction fs arbitrary: names r)
  case Nil
  then show ?case by simp
next
  case (Cons f fs)
  let ?r = "r\<lparr>rst_state := (rst_state r)\<lparr>dst_shells :=
               put (fsh_id f) (shell_restored live clock i f) (dst_shells (rst_state r))\<rparr>,
            rst_run_ids := (case fsh_last_run f of None \<Rightarrow> rst_run_ids r
                                                | Some run \<Rightarrow> insert (psr_id run) (rst_run_ids r)),
            rst_recovered := (rst_recovered r
               \<or> \<not> live \<and> (case fsh_last_run f of None \<Rightarrow> False
                                                | Some run \<Rightarrow> psr_ended_at_ms run = None))\<rparr>"
  have id: "ds_id (shell_restored live clock i f) = fsh_id f" by (simp add: shell_restored_def)
  have other: "fsh_id g \<noteq> fsh_id f" if "g \<in> set fs" for g
    by (rule other_than_head [OF Cons.prems(5) that])
  have fresh: "\<forall>g \<in> set fs. get (dst_shells (rst_state ?r)) (fsh_id g) = None"
    using Cons.prems(2,6) other by (simp add: get_put)
  have runs: "set (run_ids_of fs) \<inter> rst_run_ids ?r = {}"
    using Cons.prems(7,8) by (auto split: option.splits)
  have "restore_shells env live clock i (insert (fsh_name f) names) fs ?r = Inr (?r\<lparr>rst_state := (rst_state ?r)\<lparr>dst_shells :=
             fold (\<lambda>s. put (ds_id s) s) (map (shell_restored live clock i) fs) (dst_shells (rst_state ?r))\<rparr>,
           rst_run_ids := rst_run_ids ?r \<union> set (run_ids_of fs),
           rst_recovered := (rst_recovered ?r \<or> \<not> live \<and> open_run_in fs)\<rparr>)"
    using Cons.prems fresh runs by (intro Cons.IH) simp_all
  moreover have "restore_shells env live clock i names (f # fs) r
      = restore_shells env live clock i (insert (fsh_name f) names) fs ?r"
    using Cons.prems
    by (auto simp: persisted_shell_ok_def validate_id_ok checked_name checked_cwd check_run_fresh
        split: option.split)
  ultimately show ?case using id
    by (cases "fsh_last_run f") (simp_all add: conj_disj_distribL disj_assoc)
qed

definition persisted_launcher_ok :: "registry_env \<Rightarrow> persisted_workspace_launcher \<Rightarrow> bool" where
  "persisted_launcher_ok env f \<longleftrightarrow>
     uuid_parses env (fla_id f) \<and> \<not> is_blank (fla_name f) \<and> is_absolute (fla_cwd f)
     \<and> validate_launcher_command (fla_command f) = Inr ()"

lemma restore_launchers_ok:
  assumes "\<forall>f \<in> set fs. persisted_launcher_ok env f" and "smap_ok (dst_launchers (rst_state r))"
    and "distinct (map fla_name fs)" and "set (map fla_name fs) \<inter> names = {}"
    and "distinct (map fla_id fs)" and "\<forall>f \<in> set fs. get (dst_launchers (rst_state r)) (fla_id f) = None"
  shows "restore_launchers env i names fs r =
    Inr (r\<lparr>rst_state := (rst_state r)\<lparr>dst_launchers :=
             fold (\<lambda>l. put (wl_id l) l) (map (launcher_restored i) fs) (dst_launchers (rst_state r))\<rparr>\<rparr>)"
  using assms
proof (induction fs arbitrary: names r)
  case Nil
  then show ?case by simp
next
  case (Cons f fs)
  let ?r = "r\<lparr>rst_state := (rst_state r)\<lparr>dst_launchers :=
               put (fla_id f) (launcher_restored i f) (dst_launchers (rst_state r))\<rparr>\<rparr>"
  have id: "wl_id (launcher_restored i f) = fla_id f" by (simp add: launcher_restored_def)
  have other: "fla_id g \<noteq> fla_id f" if "g \<in> set fs" for g
    by (rule other_than_head [OF Cons.prems(5) that])
  have fresh: "\<forall>g \<in> set fs. get (dst_launchers (rst_state ?r)) (fla_id g) = None"
    using Cons.prems(2,6) other by (simp add: get_put)
  have "restore_launchers env i (insert (fla_name f) names) fs ?r =
    Inr (?r\<lparr>rst_state := (rst_state ?r)\<lparr>dst_launchers :=
             fold (\<lambda>l. put (wl_id l) l) (map (launcher_restored i) fs) (dst_launchers (rst_state ?r))\<rparr>\<rparr>)"
    using Cons.prems fresh by (intro Cons.IH) simp_all
  then show ?case
    using Cons.prems id by (auto simp: persisted_launcher_ok_def validate_id_ok checked_name checked_cwd)
qed

definition persisted_agent_ok :: "registry_env \<Rightarrow> persisted_agent_instance \<Rightarrow> bool" where
  "persisted_agent_ok env f \<longleftrightarrow>
     uuid_parses env (fag_id f) \<and> uuid_parses env (fag_shell_id f) \<and> uuid_parses env (fag_run_id f)
     \<and> validate_persisted_agent env f = Inr ()"

lemma restore_agents_ok:
  assumes "\<forall>f \<in> set fs. persisted_agent_ok env f"
    and "distinct (map fag_id fs)" and "set (map fag_id fs) \<inter> rst_agent_ids r = {}"
  shows "restore_agents env i fs r =
    Inr (r\<lparr>rst_state := (rst_state r)\<lparr>dst_agents :=
             fold (\<lambda>a. put (ai_id a) a) (map (agent_restored i) fs) (dst_agents (rst_state r))\<rparr>,
           rst_agent_ids := rst_agent_ids r \<union> set (map fag_id fs)\<rparr>)"
  using assms
proof (induction fs arbitrary: r)
  case Nil
  then show ?case by simp
next
  case (Cons f fs)
  let ?r = "r\<lparr>rst_state := (rst_state r)\<lparr>dst_agents :=
               put (fag_id f) (agent_restored i f) (dst_agents (rst_state r))\<rparr>,
            rst_agent_ids := insert (fag_id f) (rst_agent_ids r)\<rparr>"
  have id: "ai_id (agent_restored i f) = fag_id f" by (simp add: agent_restored_def)
  have "restore_agents env i fs ?r =
    Inr (?r\<lparr>rst_state := (rst_state ?r)\<lparr>dst_agents :=
             fold (\<lambda>a. put (ai_id a) a) (map (agent_restored i) fs) (dst_agents (rst_state ?r))\<rparr>,
           rst_agent_ids := rst_agent_ids ?r \<union> set (map fag_id fs)\<rparr>)"
    using Cons.prems by (intro Cons.IH) auto
  then show ?case
    using Cons.prems id by (auto simp: persisted_agent_ok_def validate_id_ok)
qed

section \<open>A Workspace, and the file\<close>

definition persisted_workspace_ok :: "registry_env \<Rightarrow> persisted_workspace \<Rightarrow> bool" where
  "persisted_workspace_ok env f \<longleftrightarrow>
     uuid_parses env (fws_id f) \<and> \<not> is_blank (fws_name f)
     \<and> (case fws_default_cwd f of None \<Rightarrow> True | Some cwd \<Rightarrow> is_absolute cwd)
     \<and> validate_persisted_session_display_names env f = Inr ()
     \<and> (\<forall>s \<in> set (fws_shells f). persisted_shell_ok env s) \<and> distinct (map fsh_name (fws_shells f))
     \<and> (\<forall>l \<in> set (fws_launchers f). persisted_launcher_ok env l) \<and> distinct (map fla_name (fws_launchers f))
     \<and> (\<forall>a \<in> set (fws_agents f). persisted_agent_ok env a)"

text \<open>What one turn of the loop over the Workspaces adds, and when there is room for it.\<close>

definition restored_with :: "bool \<Rightarrow> (string \<Rightarrow> u64) \<Rightarrow> persisted_workspace \<Rightarrow> restoring \<Rightarrow> restoring" where
  "restored_with live clock f r =
     (let st = rst_state r in
      \<lparr>rst_state =
         \<lparr>dst_workspaces = put (fws_id f) (workspace_restored f) (dst_workspaces st),
          dst_shells = fold (\<lambda>s. put (ds_id s) s)
            (map (shell_restored live clock (fws_id f)) (fws_shells f)) (dst_shells st),
          dst_launchers = fold (\<lambda>l. put (wl_id l) l)
            (map (launcher_restored (fws_id f)) (fws_launchers f)) (dst_launchers st),
          dst_agents = fold (\<lambda>a. put (ai_id a) a)
            (map (agent_restored (fws_id f)) (fws_agents f)) (dst_agents st)\<rparr>,
       rst_workspace_names = insert (fws_name f) (rst_workspace_names r),
       rst_run_ids = rst_run_ids r \<union> set (run_ids_of (fws_shells f)),
       rst_agent_ids = rst_agent_ids r \<union> set (map fag_id (fws_agents f)),
       rst_recovered = (rst_recovered r \<or> \<not> live \<and> open_run_in (fws_shells f))\<rparr>)"

definition room_for :: "persisted_workspace \<Rightarrow> restoring \<Rightarrow> bool" where
  "room_for f r \<longleftrightarrow>
     smap_ok (dst_workspaces (rst_state r)) \<and> smap_ok (dst_shells (rst_state r))
     \<and> smap_ok (dst_launchers (rst_state r))
     \<and> fws_name f \<notin> rst_workspace_names r \<and> get (dst_workspaces (rst_state r)) (fws_id f) = None
     \<and> (\<forall>s \<in> set (fws_shells f). get (dst_shells (rst_state r)) (fsh_id s) = None)
     \<and> (\<forall>l \<in> set (fws_launchers f). get (dst_launchers (rst_state r)) (fla_id l) = None)
     \<and> set (run_ids_of (fws_shells f)) \<inter> rst_run_ids r = {}
     \<and> set (map fag_id (fws_agents f)) \<inter> rst_agent_ids r = {}"

definition ids_once :: "persisted_state \<Rightarrow> bool" where
  "ids_once fs \<longleftrightarrow>
     distinct (map fws_id fs) \<and> distinct (map fws_name fs)
     \<and> distinct (concat (map (\<lambda>f. map fsh_id (fws_shells f)) fs))
     \<and> distinct (concat (map (\<lambda>f. map fla_id (fws_launchers f)) fs))
     \<and> distinct (concat (map (\<lambda>f. map fag_id (fws_agents f)) fs))
     \<and> distinct (concat (map (\<lambda>f. run_ids_of (fws_shells f)) fs))"

lemma restored_ids [simp]:
  "ds_id (shell_restored live clock i f) = fsh_id f"
  "wl_id (launcher_restored i g) = fla_id g"
  "ai_id (agent_restored i h) = fag_id h"
  "dw_id (workspace_restored w) = fws_id w"
  by (simp_all add: shell_restored_def launcher_restored_def agent_restored_def workspace_restored_def)

lemma workspace_checks_ok:
  assumes "persisted_workspace_ok env f" and "room_for f r"
  shows "restore_workspace env live clock f r =
     bind_res (restore_shells env live clock (fws_id f) {} (fws_shells f)
                 (r\<lparr>rst_workspace_names := insert (fws_name f) (rst_workspace_names r)\<rparr>)) (\<lambda>r.
     bind_res (restore_launchers env (fws_id f) {} (fws_launchers f) r) (\<lambda>r.
     bind_res (restore_agents env (fws_id f) (fws_agents f) r) (\<lambda>r.
       Inr (r\<lparr>rst_state := (rst_state r)\<lparr>dst_workspaces :=
              put (fws_id f) (workspace_restored f) (dst_workspaces (rst_state r))\<rparr>\<rparr>))))"
proof -
  have "(case fws_default_cwd f of None \<Rightarrow> Inr () | Some cwd \<Rightarrow> validate_persisted_cwd env cwd)
      = (Inr () :: unit res)"
    using assms(1) by (simp add: persisted_workspace_ok_def checked_cwd split: option.splits)
  then show ?thesis
    using assms
    by (simp add: restore_workspace_def persisted_workspace_ok_def room_for_def validate_id_ok checked_name)
qed

lemma restore_workspace_ok:
  assumes ok: "persisted_workspace_ok env f" and room: "room_for f r"
    and once: "distinct (map fsh_id (fws_shells f))" "distinct (map fla_id (fws_launchers f))"
      "distinct (map fag_id (fws_agents f))" "distinct (run_ids_of (fws_shells f))"
  shows "restore_workspace env live clock f r = Inr (restored_with live clock f r)"
proof -
  note f = ok [unfolded persisted_workspace_ok_def]
  note r = room [unfolded room_for_def]
  let ?r0 = "r\<lparr>rst_workspace_names := insert (fws_name f) (rst_workspace_names r)\<rparr>"
  have shells: "restore_shells env live clock (fws_id f) {} (fws_shells f) ?r0 =
    Inr (?r0\<lparr>rst_state := (rst_state ?r0)\<lparr>dst_shells := fold (\<lambda>s. put (ds_id s) s)
             (map (shell_restored live clock (fws_id f)) (fws_shells f)) (dst_shells (rst_state ?r0))\<rparr>,
           rst_run_ids := rst_run_ids ?r0 \<union> set (run_ids_of (fws_shells f)),
           rst_recovered := (rst_recovered ?r0 \<or> \<not> live \<and> open_run_in (fws_shells f))\<rparr>)"
    (is "_ = Inr ?r1")
    by (rule restore_shells_ok) (use f r once in simp_all)
  have launchers: "restore_launchers env (fws_id f) {} (fws_launchers f) ?r1 =
    Inr (?r1\<lparr>rst_state := (rst_state ?r1)\<lparr>dst_launchers := fold (\<lambda>l. put (wl_id l) l)
             (map (launcher_restored (fws_id f)) (fws_launchers f)) (dst_launchers (rst_state ?r1))\<rparr>\<rparr>)"
    (is "_ = Inr ?r2")
    by (rule restore_launchers_ok) (use f r once in simp_all)
  have agents: "restore_agents env (fws_id f) (fws_agents f) ?r2 =
    Inr (?r2\<lparr>rst_state := (rst_state ?r2)\<lparr>dst_agents := fold (\<lambda>a. put (ai_id a) a)
             (map (agent_restored (fws_id f)) (fws_agents f)) (dst_agents (rst_state ?r2))\<rparr>,
           rst_agent_ids := rst_agent_ids ?r2 \<union> set (map fag_id (fws_agents f))\<rparr>)"
    by (rule restore_agents_ok) (use f r once in simp_all)
  show ?thesis
    unfolding workspace_checks_ok [OF ok room] shells launchers agents bind_res.simps
    by (simp add: restored_with_def Let_def)
qed

lemma apart_in_concat:
  "distinct (concat (map h (f # fs))) \<Longrightarrow> g \<in> set fs \<Longrightarrow> set (h g) \<inter> set (h f) = {}"
  by auto

lemma room_for_next:
  assumes "room_for f r" and "room_for g r" and "ids_once (f # fs)" and "g \<in> set fs"
  shows "room_for g (restored_with live clock f r)"
proof -
  have apart: "fws_id g \<noteq> fws_id f \<and> fws_name g \<noteq> fws_name f"
    using other_than_head [of fws_id f fs g] other_than_head [of fws_name f fs g] assms(3,4)
    unfolding ids_once_def by blast
  note concats = assms(3) [unfolded ids_once_def, THEN conjunct2, THEN conjunct2]
  have shells: "set (map fsh_id (fws_shells g)) \<inter> set (map fsh_id (fws_shells f)) = {}"
    by (rule apart_in_concat [OF _ assms(4)]) (use concats in blast)
  have launchers: "set (map fla_id (fws_launchers g)) \<inter> set (map fla_id (fws_launchers f)) = {}"
    by (rule apart_in_concat [OF _ assms(4)]) (use concats in blast)
  have agents: "set (map fag_id (fws_agents g)) \<inter> set (map fag_id (fws_agents f)) = {}"
    by (rule apart_in_concat [OF _ assms(4)]) (use concats in blast)
  have runs: "set (run_ids_of (fws_shells g)) \<inter> set (run_ids_of (fws_shells f)) = {}"
    by (rule apart_in_concat [OF _ assms(4)]) (use concats in blast)
  note room = assms(2) [unfolded room_for_def]
  have "get (fold (\<lambda>s. put (ds_id s) s) (map (shell_restored live clock (fws_id f)) (fws_shells f))
          (dst_shells (rst_state r))) (fsh_id s) = None" if "s \<in> set (fws_shells g)" for s
    using that room shells by (subst get_fold_put_other) auto
  moreover have "get (fold (\<lambda>l. put (wl_id l) l) (map (launcher_restored (fws_id f)) (fws_launchers f))
          (dst_launchers (rst_state r))) (fla_id l) = None" if "l \<in> set (fws_launchers g)" for l
    using that room launchers by (subst get_fold_put_other) auto
  ultimately show ?thesis
    using room apart agents runs
    by (auto simp: room_for_def restored_with_def Let_def get_put intro!: smap_ok_fold_put)
qed

lemma ids_once_Cons:
  assumes "ids_once (f # fs)"
  shows "ids_once fs" "distinct (map fsh_id (fws_shells f))" "distinct (map fla_id (fws_launchers f))"
    "distinct (map fag_id (fws_agents f))" "distinct (run_ids_of (fws_shells f))"
  using assms by (simp_all add: ids_once_def)

lemma restore_workspaces_ok:
  "\<forall>f \<in> set fs. persisted_workspace_ok env f \<and> room_for f r \<Longrightarrow> ids_once fs
    \<Longrightarrow> restore_workspaces env live clock fs r = Inr (fold (restored_with live clock) fs r)"
proof (induction fs arbitrary: r)
  case Nil
  then show ?case by simp
next
  case (Cons f fs)
  have "restore_workspace env live clock f r = Inr (restored_with live clock f r)"
    by (rule restore_workspace_ok) (use Cons.prems ids_once_Cons [OF Cons.prems(2)] in simp_all)
  moreover have "restore_workspaces env live clock fs (restored_with live clock f r)
      = Inr (fold (restored_with live clock) fs (restored_with live clock f r))"
    using Cons.prems room_for_next [OF _ _ Cons.prems(2)] ids_once_Cons(1) [OF Cons.prems(2)]
    by (intro Cons.IH) simp_all
  ultimately show ?case by simp
qed

lemma fold_restored_with:
  "fold (restored_with live clock) fs r =
    \<lparr>rst_state =
       \<lparr>dst_workspaces = fold (\<lambda>w. put (dw_id w) w) (map workspace_restored fs) (dst_workspaces (rst_state r)),
        dst_shells = fold (\<lambda>s. put (ds_id s) s)
          (concat (map (\<lambda>f. map (shell_restored live clock (fws_id f)) (fws_shells f)) fs))
          (dst_shells (rst_state r)),
        dst_launchers = fold (\<lambda>l. put (wl_id l) l)
          (concat (map (\<lambda>f. map (launcher_restored (fws_id f)) (fws_launchers f)) fs))
          (dst_launchers (rst_state r)),
        dst_agents = fold (\<lambda>a. put (ai_id a) a)
          (concat (map (\<lambda>f. map (agent_restored (fws_id f)) (fws_agents f)) fs))
          (dst_agents (rst_state r))\<rparr>,
     rst_workspace_names = rst_workspace_names r \<union> set (map fws_name fs),
     rst_run_ids = rst_run_ids r \<union> set (concat (map (\<lambda>f. run_ids_of (fws_shells f)) fs)),
     rst_agent_ids = rst_agent_ids r \<union> set (concat (map (\<lambda>f. map fag_id (fws_agents f)) fs)),
     rst_recovered = (rst_recovered r \<or> \<not> live \<and> (\<exists>f \<in> set fs. open_run_in (fws_shells f)))\<rparr>"
proof (induction fs arbitrary: r)
  case Nil
  then show ?case by simp
next
  case (Cons f fs)
  let ?r = "restored_with live clock f r"
  have "rst_workspace_names ?r = insert (fws_name f) (rst_workspace_names r)"
    "rst_run_ids ?r = rst_run_ids r \<union> set (run_ids_of (fws_shells f))"
    "rst_agent_ids ?r = rst_agent_ids r \<union> set (map fag_id (fws_agents f))"
    "rst_recovered ?r = (rst_recovered r \<or> \<not> live \<and> open_run_in (fws_shells f))"
    "dst_workspaces (rst_state ?r) = put (fws_id f) (workspace_restored f) (dst_workspaces (rst_state r))"
    "dst_shells (rst_state ?r) = fold (\<lambda>s. put (ds_id s) s)
        (map (shell_restored live clock (fws_id f)) (fws_shells f)) (dst_shells (rst_state r))"
    "dst_launchers (rst_state ?r) = fold (\<lambda>l. put (wl_id l) l)
        (map (launcher_restored (fws_id f)) (fws_launchers f)) (dst_launchers (rst_state r))"
    "dst_agents (rst_state ?r) = fold (\<lambda>a. put (ai_id a) a)
        (map (agent_restored (fws_id f)) (fws_agents f)) (dst_agents (rst_state r))"
    by (simp_all add: restored_with_def Let_def)
  then show ?case by (simp add: Cons.IH Un_assoc conj_disj_distribL disj_assoc)
qed

section \<open>What is saved of a well-formed state\<close>

lemma distinct_concat_owned:
  "distinct (map key xs) \<Longrightarrow> (\<And>x. x \<in> set xs \<Longrightarrow> distinct (f x) \<and> (\<forall>i \<in> set (f x). owner i = key x))
    \<Longrightarrow> distinct (concat (map f xs))"
proof (induction xs)
  case Nil
  then show ?case by simp
next
  case (Cons x xs)
  have "owner i \<noteq> key x" if "y \<in> set xs" "i \<in> set (f y)" for y i
    using Cons.prems(2) [of y] other_than_head [OF Cons.prems(1) that(1)] that by auto
  then have "set (f x) \<inter> set (concat (map f xs)) = {}"
    using Cons.prems(2) [of x] by fastforce
  then show ?case using Cons by simp
qed

lemma keys_of_listed:
  "\<forall>k \<in> set ks. \<exists>x. get m k = Some x \<and> key x = k \<Longrightarrow> map key (List.map_filter (get m) ks) = ks"
  by (induction ks) (auto simp: List.map_filter_def)

lemma keyed_object:
  assumes "smap_ok m" and "\<And>k x. get m k = Some x \<Longrightarrow> key x = k"
  shows "x \<in> set (objects m) \<longleftrightarrow> get m (key x) = Some x"
  unfolding in_objects [OF assms(1)] using assms(2) by blast

lemma smap_rebuilt:
  assumes "smap_ok m" and "\<And>k x. get m k = Some x \<Longrightarrow> key x = k"
    and "distinct (map key xs)" and "set xs = set (objects m)"
  shows "fold (\<lambda>x. put (key x) x) xs [] = m"
proof (rule smap_ext)
  have in_m: "x \<in> set (objects m) \<longleftrightarrow> get m (key x) = Some x" for x
    by (rule keyed_object) (use assms in blast)+
  show "get (fold (\<lambda>x. put (key x) x) xs []) = get m"
  proof
    fix k
    have "get (fold (\<lambda>x. put (key x) x) xs []) k = Some x \<longleftrightarrow> get m k = Some x" for x
      unfolding get_fold_put [OF smap_ok_Nil assms(3)] assms(4) in_m
      using assms(2) by auto
    then show "get (fold (\<lambda>x. put (key x) x) xs []) k = get m k"
      by (metis option.exhaust)
  qed
qed (use assms(1) in \<open>auto intro: smap_ok_fold_put\<close>)

lemma objects_keys:
  assumes "smap_ok m" and "\<And>k x. get m k = Some x \<Longrightarrow> key x = k"
  shows "map key (objects m) = map fst m"
  using assms smap_sorted [OF assms(1)] by (auto simp: map_of_eq_Some_iff)

text \<open>The objects that the Workspaces list, in the order of the lists.\<close>

definition listed :: "(durable_workspace \<Rightarrow> string list) \<Rightarrow> (string, durable_workspace) smap
    \<Rightarrow> (string, 'o) smap \<Rightarrow> 'o list" where
  "listed ids ws m = concat (map (\<lambda>w. List.map_filter (get m) (ids w)) (objects ws))"

lemma listed_children:
  assumes ok: "children_ok owner nm ids ws m" and ws: "smap_ok ws" and m: "smap_ok m"
    and wid: "\<And>i w. get ws i = Some w \<Longrightarrow> dw_id w = i" and key: "\<And>k x. get m k = Some x \<Longrightarrow> key x = k"
  shows "map key (listed ids ws m) = concat (map ids (objects ws))"
    "distinct (map key (listed ids ws m))"
    "set (listed ids ws m) = set (objects m)"
proof -
  have in_ws: "w \<in> set (objects ws) \<longleftrightarrow> get ws (dw_id w) = Some w" for w
    by (rule keyed_object) (use ws wid in blast)+
  have there: "\<exists>x. get m k = Some x \<and> owner x = dw_id w" if "w \<in> set (objects ws)" "k \<in> set (ids w)" for w k
    using that children_listed [OF ok] unfolding in_ws by blast
  have keys: "map key (List.map_filter (get m) (ids w)) = ids w" if "w \<in> set (objects ws)" for w
    by (rule keys_of_listed) (use there [OF that] key in blast)
  show all: "map key (listed ids ws m) = concat (map ids (objects ws))"
    unfolding listed_def map_concat map_map comp_def using keys by (simp cong: map_cong)
  have "distinct (concat (map ids (objects ws)))"
  proof (rule distinct_concat_owned [where key = dw_id and owner = "\<lambda>k. owner (the (get m k))"])
    show "distinct (map dw_id (objects ws))"
    proof -
      have "map dw_id (objects ws) = map fst ws" by (rule objects_keys) (use ws wid in blast)+
      then show ?thesis using smap_sorted [OF ws] by metis
    qed
    show "distinct (ids w) \<and> (\<forall>k \<in> set (ids w). owner (the (get m k)) = dw_id w)"
      if "w \<in> set (objects ws)" for w
    proof
      show "distinct (ids w)"
        using that children_distinct [OF ok] unfolding in_ws by blast
      show "\<forall>k \<in> set (ids w). owner (the (get m k)) = dw_id w"
        using there [OF that] by fastforce
    qed
  qed
  then show "distinct (map key (listed ids ws m))" by (simp add: all)
  have "x \<in> set (listed ids ws m) \<longleftrightarrow> x \<in> set (objects m)" for x
  proof
    assume "x \<in> set (listed ids ws m)"
    then have "\<exists>k. get m k = Some x" by (auto simp: listed_def List.map_filter_def)
    then show "x \<in> set (objects m)" unfolding in_objects [OF m] .
  next
    assume "x \<in> set (objects m)"
    then obtain k where x: "get m k = Some x" unfolding in_objects [OF m] by blast
    from children_owned [OF ok x] obtain w where w: "get ws (owner x) = Some w" "k \<in> set (ids w)"
      by blast
    have "x \<in> set (List.map_filter (get m) (ids w))"
      using x w(2) by (force simp: List.map_filter_def)
    moreover have "w \<in> set (objects ws)" using w(1) unfolding in_objects [OF ws] by blast
    ultimately show "x \<in> set (listed ids ws m)" by (auto simp: listed_def)
  qed
  then show "set (listed ids ws m) = set (objects m)" by blast
qed

lemma listed_names:
  assumes ok: "children_ok owner nm ids ws m" and w: "get ws i = Some w"
  shows "distinct (map nm (List.map_filter (get m) (ids w)))"
proof -
  have "distinct ks \<Longrightarrow> set ks \<subseteq> set (ids w) \<Longrightarrow> distinct (map nm (List.map_filter (get m) ks))" for ks
  proof (induction ks)
    case Nil
    then show ?case by (simp add: List.map_filter_def)
  next
    case (Cons k ks)
    obtain x where x: "get m k = Some x" "owner x = i"
      using Cons.prems(2) children_listed [OF ok w] by auto
    have "nm y \<noteq> nm x" if "j \<in> set ks" "get m j = Some y" for j y
      using that x Cons.prems children_named [OF ok, of j y k x] children_listed [OF ok w, of j] by auto
    then have "nm x \<notin> nm ` set (List.map_filter (get m) ks)" by (force simp: List.map_filter_def)
    then show ?case using Cons x by (simp add: List.map_filter_simps)
  qed
  then show ?thesis using children_distinct [OF ok w] by blast
qed

lemma saved_fields [simp]:
  "fsh_id (shell_persisted s) = ds_id s" "fsh_name (shell_persisted s) = ds_name s"
  "fsh_last_run (shell_persisted s) = ds_last_run s"
  "fla_id (launcher_persisted l) = wl_id l" "fla_name (launcher_persisted l) = wl_name l"
  "fag_id (agent_persisted a) = ai_id a"
  "fws_id (workspace_persisted st w) = dw_id w" "fws_name (workspace_persisted st w) = dw_name w"
  "fws_default_cwd (workspace_persisted st w) = dw_default_cwd w"
  by (simp_all add: shell_persisted_def launcher_persisted_def agent_persisted_def workspace_persisted_def)

lemma run_ids_of_saved:
  "psr \<in> set (run_ids_of (map shell_persisted xs)) \<longleftrightarrow>
    (\<exists>t \<in> set xs. \<exists>r. ds_last_run t = Some r \<and> psr = psr_id r)"
proof (induction xs)
  case Nil
  then show ?case by simp
next
  case (Cons s xs)
  show ?case using Cons.IH by (cases "ds_last_run s") auto
qed

lemma listed_runs:
  assumes "runs_once m" and "distinct xs" and "\<forall>s \<in> set xs. get m (ds_id s) = Some s"
  shows "distinct (run_ids_of (map shell_persisted xs))"
  using assms(2,3)
proof (induction xs)
  case Nil
  then show ?case by simp
next
  case (Cons s xs)
  show ?case
  proof (cases "ds_last_run s")
    case None
    then show ?thesis using Cons by simp
  next
    case (Some run)
    have "psr_id run \<noteq> psr_id r" if t: "t \<in> set xs" and r: "ds_last_run t = Some r" for t r
    proof
      assume "psr_id run = psr_id r"
      moreover have "get m (ds_id t) = Some t" "get m (ds_id s) = Some s" using t Cons.prems(2) by auto
      ultimately have "ds_id s = ds_id t"
        using assms(1) r Some unfolding runs_once_def by blast
      then have "t = s" using \<open>get m (ds_id t) = Some t\<close> \<open>get m (ds_id s) = Some s\<close> by simp
      then show False using t Cons.prems(1) by simp
    qed
    then have "psr_id run \<notin> set (run_ids_of (map shell_persisted xs))"
      unfolding run_ids_of_saved by blast
    then show ?thesis using Cons Some by simp
  qed
qed

lemma shell_rested:
  "ds_workspace_id s = i \<Longrightarrow> shell_restored live clock i (shell_persisted s) = rested_shell live clock s"
  by (simp add: shell_restored_def shell_persisted_def rested_shell_def)

lemma launcher_rested: "wl_workspace_id l = i \<Longrightarrow> launcher_restored i (launcher_persisted l) = l"
  by (simp add: launcher_restored_def launcher_persisted_def)

lemma agent_rested: "ai_workspace_id a = i \<Longrightarrow> agent_restored i (agent_persisted a) = a"
  by (simp add: agent_restored_def agent_persisted_def)

lemma shell_saved_ok: "shell_ok env s \<Longrightarrow> persisted_shell_ok env (shell_persisted s)"
  by (auto simp: shell_ok_def persisted_shell_ok_def shell_persisted_def split: option.splits)

lemma launcher_saved_ok: "launcher_ok env l \<Longrightarrow> persisted_launcher_ok env (launcher_persisted l)"
  by (simp add: launcher_ok_def persisted_launcher_ok_def launcher_persisted_def)

lemma agent_saved_ok: "agent_ok env a \<Longrightarrow> persisted_agent_ok env (agent_persisted a)"
  using agent_ok_checks [of env a]
  by (simp add: persisted_agent_ok_def agent_ok_def agent_fixed_ok_def agent_persisted_def)

text \<open>The facts about one well-formed state, and what follows for its file.\<close>

lemma saved_workspaces:
  assumes "durable_ok env st"
  shows "capture_persisted_state st = map (workspace_persisted st) (objects (dst_workspaces st))"
proof -
  have "map dw_id (objects (dst_workspaces st)) = map fst (dst_workspaces st)"
    by (rule objects_keys) (use durable_okD(2) [OF assms] workspace_okD [OF assms] in blast)+
  then have "sorted (map dw_id (objects (dst_workspaces st)))"
    using smap_sorted [OF durable_okD(2) [OF assms]] by metis
  then show ?thesis by (simp add: capture_persisted_state_def sort_key_id_if_sorted)
qed

lemma saved_lists:
  fixes st
  defines "fs \<equiv> map (workspace_persisted st) (objects (dst_workspaces st))"
  shows "concat (map fws_shells fs) = map shell_persisted (listed dw_shell_ids (dst_workspaces st) (dst_shells st))"
    "concat (map fws_launchers fs)
      = map launcher_persisted (listed dw_launcher_ids (dst_workspaces st) (dst_launchers st))"
    "concat (map fws_agents fs)
      = map agent_persisted (listed dw_agent_ids (dst_workspaces st) (dst_agents st))"
  by (simp_all add: fs_def listed_def map_concat comp_def workspace_persisted_def)

lemma run_ids_of_concat: "concat (map (\<lambda>f. run_ids_of (h f)) fs) = run_ids_of (concat (map h fs))"
  by (induction fs) simp_all

lemma map_concat_map: "concat (map (\<lambda>f. map k (h f)) fs) = map k (concat (map h fs))"
  by (induction fs) simp_all

lemma open_run_in_concat: "(\<exists>f \<in> set fs. open_run_in (h f)) \<longleftrightarrow> open_run_in (concat (map h fs))"
  by (induction fs) simp_all

lemma durable_keys:
  assumes "durable_ok env st"
  shows "get (dst_workspaces st) i = Some w \<Longrightarrow> dw_id w = i"
    "get (dst_shells st) j = Some s \<Longrightarrow> ds_id s = j"
    "get (dst_launchers st) k = Some l \<Longrightarrow> wl_id l = k"
    "get (dst_agents st) m = Some a \<Longrightarrow> ai_id a = m"
proof -
  show "get (dst_workspaces st) i = Some w \<Longrightarrow> dw_id w = i"
    by (erule workspace_okD [OF assms, THEN conjunct1])
  show "get (dst_shells st) j = Some s \<Longrightarrow> ds_id s = j"
    by (erule objects_okD [OF durable_okD(6) [OF assms], THEN conjunct1])
  show "get (dst_launchers st) k = Some l \<Longrightarrow> wl_id l = k"
    by (erule objects_okD [OF durable_okD(7) [OF assms], THEN conjunct1])
  show "get (dst_agents st) m = Some a \<Longrightarrow> ai_id a = m"
    by (erule objects_okD [OF durable_okD(8) [OF assms], THEN conjunct1])
qed

lemma listed_in_state:
  assumes ok: "durable_ok env st"
  shows "distinct (map ds_id (listed dw_shell_ids (dst_workspaces st) (dst_shells st)))"
    "set (listed dw_shell_ids (dst_workspaces st) (dst_shells st)) = set (objects (dst_shells st))"
    "distinct (map wl_id (listed dw_launcher_ids (dst_workspaces st) (dst_launchers st)))"
    "set (listed dw_launcher_ids (dst_workspaces st) (dst_launchers st)) = set (objects (dst_launchers st))"
    "distinct (map ai_id (listed dw_agent_ids (dst_workspaces st) (dst_agents st)))"
    "set (listed dw_agent_ids (dst_workspaces st) (dst_agents st)) = set (objects (dst_agents st))"
proof -
  note d = durable_okD [OF ok] and k = durable_keys [OF ok]
  show "distinct (map ds_id (listed dw_shell_ids (dst_workspaces st) (dst_shells st)))"
    by (rule listed_children(2) [OF d(9) d(2) d(3)]) (erule k(1), erule k(2))
  show "set (listed dw_shell_ids (dst_workspaces st) (dst_shells st)) = set (objects (dst_shells st))"
    by (rule listed_children(3) [OF d(9) d(2) d(3)]) (erule k(1), erule k(2))
  show "distinct (map wl_id (listed dw_launcher_ids (dst_workspaces st) (dst_launchers st)))"
    by (rule listed_children(2) [OF d(10) d(2) d(4)]) (erule k(1), erule k(3))
  show "set (listed dw_launcher_ids (dst_workspaces st) (dst_launchers st)) = set (objects (dst_launchers st))"
    by (rule listed_children(3) [OF d(10) d(2) d(4)]) (erule k(1), erule k(3))
  show "distinct (map ai_id (listed dw_agent_ids (dst_workspaces st) (dst_agents st)))"
    by (rule listed_children(2) [OF d(11) d(2) d(5)]) (erule k(1), erule k(4))
  show "set (listed dw_agent_ids (dst_workspaces st) (dst_agents st)) = set (objects (dst_agents st))"
    by (rule listed_children(3) [OF d(11) d(2) d(5)]) (erule k(1), erule k(4))
qed

lemma saved_ids_once:
  assumes ok: "durable_ok env st"
  shows "ids_once (map (workspace_persisted st) (objects (dst_workspaces st)))"
    (is "ids_once ?fs")
proof -
  let ?ws = "objects (dst_workspaces st)"
  note lists = saved_lists [of st] and listed = listed_in_state [OF ok]
  have ids: "map dw_id ?ws = map fst (dst_workspaces st)"
    by (rule objects_keys) (use durable_okD(2) [OF ok] durable_keys(1) [OF ok] in blast)+
  then have distinct: "distinct (map dw_id ?ws)" using smap_sorted [OF durable_okD(2) [OF ok]] by metis
  have "inj_on dw_name (set ?ws)"
  proof (rule inj_onI)
    fix v w assume "v \<in> set ?ws" "w \<in> set ?ws" and same: "dw_name v = dw_name w"
    then obtain i j where "get (dst_workspaces st) i = Some v" "get (dst_workspaces st) j = Some w"
      unfolding in_objects [OF durable_okD(2) [OF ok]] by blast
    then show "v = w" using workspace_names [OF ok _ _ same] by (metis option.inject)
  qed
  moreover have "distinct ?ws" by (rule distinct_map [THEN iffD1, THEN conjunct1, OF distinct])
  ultimately have names: "distinct (map dw_name ?ws)" by (subst distinct_map) blast
  have "distinct (concat (map (\<lambda>f. run_ids_of (fws_shells f)) ?fs))"
    unfolding run_ids_of_concat lists(1)
  proof (rule listed_runs [OF durable_okD(12) [OF ok]])
    show "distinct (listed dw_shell_ids (dst_workspaces st) (dst_shells st))"
      by (rule distinct_map [THEN iffD1, THEN conjunct1, OF listed(1)])
    show "\<forall>s \<in> set (listed dw_shell_ids (dst_workspaces st) (dst_shells st)).
        get (dst_shells st) (ds_id s) = Some s"
    proof
      fix s assume "s \<in> set (listed dw_shell_ids (dst_workspaces st) (dst_shells st))"
      then obtain k where s: "get (dst_shells st) k = Some s"
        unfolding listed(2) in_objects [OF durable_okD(3) [OF ok]] by blast
      then show "get (dst_shells st) (ds_id s) = Some s"
        using durable_keys(2) [OF ok s] by simp
    qed
  qed
  moreover have "distinct (concat (map (\<lambda>f. map fsh_id (fws_shells f)) ?fs))"
    unfolding map_concat_map lists(1) using listed(1) by (simp add: comp_def)
  moreover have "distinct (concat (map (\<lambda>f. map fla_id (fws_launchers f)) ?fs))"
    unfolding map_concat_map lists(2) using listed(3) by (simp add: comp_def)
  moreover have "distinct (concat (map (\<lambda>f. map fag_id (fws_agents f)) ?fs))"
    unfolding map_concat_map lists(3) using listed(5) by (simp add: comp_def)
  moreover have "distinct (map fws_id ?fs)" "distinct (map fws_name ?fs)"
    using distinct names by (simp_all add: comp_def)
  ultimately show ?thesis unfolding ids_once_def by blast
qed

lemma saved_workspace_ok:
  assumes ok: "durable_ok env st" and w: "w \<in> set (objects (dst_workspaces st))"
  shows "persisted_workspace_ok env (workspace_persisted st w)"
proof -
  note d = durable_okD [OF ok]
  obtain i where i: "get (dst_workspaces st) i = Some w" using w unfolding in_objects [OF d(2)] by blast
  note wf = workspace_wfD [OF ok i]
  have shells: "shell_ok env s" if "s \<in> set (List.map_filter (get (dst_shells st)) (dw_shell_ids w))" for s
    using that objects_okD [OF d(6)] by (auto simp: List.map_filter_def)
  have launchers: "launcher_ok env l"
    if "l \<in> set (List.map_filter (get (dst_launchers st)) (dw_launcher_ids w))" for l
    using that objects_okD [OF d(7)] by (auto simp: List.map_filter_def)
  have agents: "agent_ok env a" if "a \<in> set (List.map_filter (get (dst_agents st)) (dw_agent_ids w))" for a
    using that objects_okD [OF d(8)] by (auto simp: List.map_filter_def)
  have lists: "fws_shells (workspace_persisted st w)
        = map shell_persisted (List.map_filter (get (dst_shells st)) (dw_shell_ids w))"
      "fws_launchers (workspace_persisted st w)
        = map launcher_persisted (List.map_filter (get (dst_launchers st)) (dw_launcher_ids w))"
      "fws_agents (workspace_persisted st w)
        = map agent_persisted (List.map_filter (get (dst_agents st)) (dw_agent_ids w))"
    by (simp_all add: workspace_persisted_def)
  have names: "distinct (map ds_name (List.map_filter (get (dst_shells st)) (dw_shell_ids w)))"
      "distinct (map wl_name (List.map_filter (get (dst_launchers st)) (dw_launcher_ids w)))"
    by (rule listed_names [OF d(9) i], rule listed_names [OF d(10) i])
  show ?thesis
    unfolding persisted_workspace_ok_def lists
    using wf workspace_ok_checks [OF wf, of st] names shells launchers agents
    by (auto simp: workspace_ok_def comp_def intro: shell_saved_ok launcher_saved_ok agent_saved_ok)
qed

section \<open>The round trip\<close>

lemma workspace_rested:
  assumes ok: "durable_ok env st" and w: "w \<in> set (objects (dst_workspaces st))"
  shows "workspace_restored (workspace_persisted st w) = w"
proof -
  note d = durable_okD [OF ok] and k = durable_keys [OF ok]
  obtain i where i: "get (dst_workspaces st) i = Some w" using w unfolding in_objects [OF d(2)] by blast
  have "map ds_id (List.map_filter (get (dst_shells st)) (dw_shell_ids w)) = dw_shell_ids w"
    by (rule keys_of_listed) (use children_listed [OF d(9) i] k(2) in blast)
  moreover have "map wl_id (List.map_filter (get (dst_launchers st)) (dw_launcher_ids w)) = dw_launcher_ids w"
    by (rule keys_of_listed) (use children_listed [OF d(10) i] k(3) in blast)
  moreover have "map ai_id (List.map_filter (get (dst_agents st)) (dw_agent_ids w)) = dw_agent_ids w"
    by (rule keys_of_listed) (use children_listed [OF d(11) i] k(4) in blast)
  ultimately show ?thesis
    by (simp add: workspace_restored_def workspace_persisted_def comp_def)
qed

lemma listed_owner:
  assumes ok: "durable_ok env st" and w: "w \<in> set (objects (dst_workspaces st))"
  shows "s \<in> set (List.map_filter (get (dst_shells st)) (dw_shell_ids w)) \<Longrightarrow> ds_workspace_id s = dw_id w"
    "l \<in> set (List.map_filter (get (dst_launchers st)) (dw_launcher_ids w)) \<Longrightarrow> wl_workspace_id l = dw_id w"
    "a \<in> set (List.map_filter (get (dst_agents st)) (dw_agent_ids w)) \<Longrightarrow> ai_workspace_id a = dw_id w"
proof -
  note d = durable_okD [OF ok]
  obtain i where i: "get (dst_workspaces st) i = Some w" using w unfolding in_objects [OF d(2)] by blast
  note wid = durable_keys(1) [OF ok i]
  show "ds_workspace_id s = dw_id w"
    if "s \<in> set (List.map_filter (get (dst_shells st)) (dw_shell_ids w))"
    using that children_listed [OF d(9) i] wid by (force simp: List.map_filter_def)
  show "wl_workspace_id l = dw_id w"
    if "l \<in> set (List.map_filter (get (dst_launchers st)) (dw_launcher_ids w))"
    using that children_listed [OF d(10) i] wid by (force simp: List.map_filter_def)
  show "ai_workspace_id a = dw_id w"
    if "a \<in> set (List.map_filter (get (dst_agents st)) (dw_agent_ids w))"
    using that children_listed [OF d(11) i] wid by (force simp: List.map_filter_def)
qed

lemma map_after: "(\<And>x. x \<in> set xs \<Longrightarrow> g (h x) = k x) \<Longrightarrow> map g (map h xs) = map k xs"
  by (induction xs) auto

lemma map_concat_after:
  "(\<And>x. x \<in> set xs \<Longrightarrow> g (h x) = map q (k x)) \<Longrightarrow> concat (map g (map h xs)) = map q (concat (map k xs))"
  by (induction xs) auto

lemma saved_rested:
  assumes ok: "durable_ok env st"
  shows "concat (map (\<lambda>f. map (shell_restored live clock (fws_id f)) (fws_shells f))
            (map (workspace_persisted st) (objects (dst_workspaces st))))
          = map (rested_shell live clock) (listed dw_shell_ids (dst_workspaces st) (dst_shells st))"
    "concat (map (\<lambda>f. map (launcher_restored (fws_id f)) (fws_launchers f))
            (map (workspace_persisted st) (objects (dst_workspaces st))))
          = listed dw_launcher_ids (dst_workspaces st) (dst_launchers st)"
    "concat (map (\<lambda>f. map (agent_restored (fws_id f)) (fws_agents f))
            (map (workspace_persisted st) (objects (dst_workspaces st))))
          = listed dw_agent_ids (dst_workspaces st) (dst_agents st)"
proof -
  let ?ws = "objects (dst_workspaces st)"
  have shells: "map (shell_restored live clock (dw_id w)) (fws_shells (workspace_persisted st w))
      = map (rested_shell live clock) (List.map_filter (get (dst_shells st)) (dw_shell_ids w))"
    and launchers: "map (launcher_restored (dw_id w)) (fws_launchers (workspace_persisted st w))
      = List.map_filter (get (dst_launchers st)) (dw_launcher_ids w)"
    and agents: "map (agent_restored (dw_id w)) (fws_agents (workspace_persisted st w))
      = List.map_filter (get (dst_agents st)) (dw_agent_ids w)"
    if "w \<in> set ?ws" for w
    using listed_owner [OF ok that]
    by (simp_all add: workspace_persisted_def shell_rested launcher_rested agent_rested map_idI)
  show "concat (map (\<lambda>f. map (shell_restored live clock (fws_id f)) (fws_shells f))
            (map (workspace_persisted st) ?ws))
          = map (rested_shell live clock) (listed dw_shell_ids (dst_workspaces st) (dst_shells st))"
    unfolding listed_def by (rule map_concat_after) (simp add: shells)
  show "concat (map (\<lambda>f. map (launcher_restored (fws_id f)) (fws_launchers f))
            (map (workspace_persisted st) ?ws))
          = listed dw_launcher_ids (dst_workspaces st) (dst_launchers st)"
    unfolding listed_def by (rule arg_cong [where f = concat]) (rule map_after, simp add: launchers)
  show "concat (map (\<lambda>f. map (agent_restored (fws_id f)) (fws_agents f))
            (map (workspace_persisted st) ?ws))
          = listed dw_agent_ids (dst_workspaces st) (dst_agents st)"
    unfolding listed_def by (rule arg_cong [where f = concat]) (rule map_after, simp add: agents)
qed

lemma rested_map:
  assumes "smap_ok (dst_shells st)"
  shows "smap_ok (dst_shells (rested live clock st))"
    "get (dst_shells (rested live clock st)) k = map_option (rested_shell live clock) (get (dst_shells st) k)"
    "objects (dst_shells (rested live clock st)) = map (rested_shell live clock) (objects (dst_shells st))"
    "ds_id (rested_shell live clock s) = ds_id s"
proof -
  show "smap_ok (dst_shells (rested live clock st))"
    using assms by (simp add: rested_def smap_ok_def case_prod_unfold comp_def)
  show "get (dst_shells (rested live clock st)) k = map_option (rested_shell live clock) (get (dst_shells st) k)"
    by (simp add: rested_def map_of_map)
  show "objects (dst_shells (rested live clock st)) = map (rested_shell live clock) (objects (dst_shells st))"
    by (simp add: rested_def case_prod_unfold comp_def)
  show "ds_id (rested_shell live clock s) = ds_id s" by (simp add: rested_shell_def)
qed

text \<open>Restoring what is saved of a well-formed state succeeds and gives that state at rest.\<close>

lemma restore_saved:
  assumes ok: "durable_ok env st"
  shows "restore_state env live clock (capture_persisted_state st)
           = Inr (rested live clock st, \<not> live \<and> has_open_run st)"
proof -
  let ?fs = "map (workspace_persisted st) (objects (dst_workspaces st))"
  let ?shells = "map (rested_shell live clock) (listed dw_shell_ids (dst_workspaces st) (dst_shells st))"
  note d = durable_okD [OF ok] and k = durable_keys [OF ok] and listed = listed_in_state [OF ok]
  have "\<forall>f \<in> set ?fs. persisted_workspace_ok env f \<and> room_for f start_restoring"
    using saved_workspace_ok [OF ok]
    by (auto simp: room_for_def start_restoring_def empty_durable_state_def)
  note checked = this
  have "map dw_id (objects (dst_workspaces st)) = map fst (dst_workspaces st)"
    by (rule objects_keys [OF d(2)]) (erule k(1))
  then have distinct_ids: "distinct (map dw_id (objects (dst_workspaces st)))"
    using smap_sorted [OF d(2)] by metis
  from restore_workspaces_ok [OF checked saved_ids_once [OF ok]]
  have "restore_workspaces env live clock ?fs start_restoring
      = Inr (fold (restored_with live clock) ?fs start_restoring)" .
  moreover have "map workspace_restored ?fs = objects (dst_workspaces st)"
    using map_after [of "objects (dst_workspaces st)" workspace_restored "workspace_persisted st" id]
      workspace_rested [OF ok] by simp
  moreover have "fold (\<lambda>w. put (dw_id w) w) (objects (dst_workspaces st)) [] = dst_workspaces st"
    by (rule smap_rebuilt [OF d(2)]) (erule k(1), rule distinct_ids, rule refl)
  moreover have "fold (\<lambda>s. put (ds_id s) s) ?shells [] = dst_shells (rested live clock st)"
    by (rule smap_rebuilt) (use rested_map [OF d(3)] k(2) listed(1,2) in \<open>auto simp: comp_def\<close>)
  moreover have "fold (\<lambda>l. put (wl_id l) l) (listed dw_launcher_ids (dst_workspaces st) (dst_launchers st)) []
      = dst_launchers st"
    by (rule smap_rebuilt [OF d(4)]) (erule k(3), rule listed, rule listed)
  moreover have "fold (\<lambda>a. put (ai_id a) a) (listed dw_agent_ids (dst_workspaces st) (dst_agents st)) []
      = dst_agents st"
    by (rule smap_rebuilt [OF d(5)]) (erule k(4), rule listed, rule listed)
  moreover have "(\<exists>f \<in> set ?fs. open_run_in (fws_shells f)) \<longleftrightarrow> has_open_run st"
  proof -
    have "(\<exists>f \<in> set ?fs. open_run_in (fws_shells f)) \<longleftrightarrow> open_run_in (concat (map fws_shells ?fs))"
      by (rule open_run_in_concat)
    also have "\<dots> \<longleftrightarrow> has_open_run st"
      unfolding saved_lists(1) has_open_run_def listed(2) [symmetric] open_run_in_def by simp
    finally show ?thesis .
  qed
  ultimately show ?thesis
    unfolding restore_state_def saved_workspaces [OF ok]
    by (simp add: fold_restored_with saved_rested [OF ok] start_restoring_def empty_durable_state_def
        rested_def del: map_map)
qed

lemma restored_run_ok: "check_run env {} run = Inr () \<Longrightarrow> check_run env {} (restored_run live now run) = Inr ()"
  by (auto simp: restored_run_def check_run_def bind_res_Inr not_less split: if_splits option.splits)

lemma rested_shell_ok: "shell_ok env s \<Longrightarrow> shell_ok env (rested_shell live clock s)"
  by (auto simp: shell_ok_def rested_shell_def restored_run_ok running_run_def split: option.splits)

lemma psr_id_restored [simp]: "psr_id (restored_run live now run) = psr_id run"
  by (simp add: restored_run_def)

lemma rested_ok:
  assumes ok: "durable_ok env st"
  shows "durable_ok env (rested live clock st)"
proof -
  note d = durable_okD [OF ok] and r = rested_map [OF durable_okD(3) [OF ok]]
  let ?m = "dst_shells (rested live clock st)"
  have old: "\<exists>s. get (dst_shells st) j = Some s \<and> x = rested_shell live clock s" if "get ?m j = Some x" for j x
    using that by (auto simp: r(2))
  have "objects_ok ds_id (shell_ok env) ?m"
    using r(1) objects_okD [OF d(6)] rested_shell_ok
    by (auto simp: objects_ok_def r(2,4))
  moreover have "children_ok ds_workspace_id ds_name dw_shell_ids (dst_workspaces st) ?m"
  proof
    have same: "ds_workspace_id (rested_shell live clock s) = ds_workspace_id s"
        "ds_name (rested_shell live clock s) = ds_name s" for s
      by (simp_all add: rested_shell_def)
    show "distinct (dw_shell_ids w)" if "get (dst_workspaces st) i = Some w" for i w
      by (rule children_distinct [OF d(9) that])
    show "\<exists>x. get ?m k = Some x \<and> ds_workspace_id x = i"
      if "get (dst_workspaces st) i = Some w" "k \<in> set (dw_shell_ids w)" for i w k
      using children_listed [OF d(9) that] same by (auto simp: r(2))
    show "\<exists>w. get (dst_workspaces st) (ds_workspace_id x) = Some w \<and> k \<in> set (dw_shell_ids w)"
      if "get ?m k = Some x" for k x
      using old [OF that] children_owned [OF d(9)] same by auto
    show "j = k" if "get ?m j = Some x" "get ?m k = Some y" "ds_workspace_id x = ds_workspace_id y"
        "ds_name x = ds_name y" for j k x y
      using old [OF that(1)] old [OF that(2)] that(3,4) same children_named [OF d(9)] by metis
  qed
  moreover have "runs_once ?m"
    unfolding runs_once_def
  proof (intro allI impI, elim conjE)
    fix i j s t p q
    assume "get ?m i = Some s" "get ?m j = Some t" "ds_last_run s = Some p" "ds_last_run t = Some q"
      and same: "psr_id p = psr_id q"
    then obtain s' t' p' q' where "get (dst_shells st) i = Some s'" "get (dst_shells st) j = Some t'"
        "ds_last_run s' = Some p'" "ds_last_run t' = Some q'" "psr_id p' = psr_id q'"
      using old [of i s] old [of j t] by (auto simp: rested_shell_def)
    then show "i = j" using d(12) unfolding runs_once_def by blast
  qed
  ultimately show ?thesis
    using d(1,7,8,10,11) by (simp add: durable_ok_def rested_def)
qed

end
