(* ===== verification/Durable_Transaction.thy ===== *)
theory Durable_Transaction
  imports Durable_Revisions Durable_Restart Event_Protocol
begin

text \<open>
  A transaction on the durable state, \<open>DaemonService::durable_mutation_outcome\<close> of
  \<open>src/src/daemon.rs\<close>: it flushes what waits, runs the operation of a request on the state in
  memory, reserves room for its events, writes the state file, and then either publishes the
  events or undoes what the operation did. While a file is written the locks of the event stream
  are free, and other threads act on it (\<open>win_meanwhile\<close>); the mutation lock is held throughout.
  A write either replaces the file and succeeds or leaves it and fails (\<open>StateStore::save\<close> renames
  a complete new file over the old one).
\<close>

section \<open>The daemon's state that a transaction works on\<close>

record transaction_world =
  tw_state :: durable_state
  tw_events :: event_system
  tw_file :: persisted_state
  tw_stopping :: bool

text \<open>What happens while the file is written: the other threads, and how the write ends.\<close>

record write_window =
  win_error :: "io_error option"
  win_meanwhile :: "event_system \<Rightarrow> event_system"

definition lock_mutation :: "transaction_world \<Rightarrow> transaction_world" where
  "lock_mutation w = w\<lparr>tw_events := (tw_events w)\<lparr>sys_mutation := Some (Mutating False)\<rparr>\<rparr>"

definition unlock_mutation :: "transaction_world \<Rightarrow> transaction_world" where
  "unlock_mutation w = w\<lparr>tw_events := (tw_events w)\<lparr>sys_mutation := None\<rparr>\<rparr>"

definition ensure_running :: "transaction_world \<Rightarrow> unit res" where
  "ensure_running w =
     (if tw_stopping w then Inl (IoError ConnectionAborted ''Boomux daemon is stopping'') else Inr ())"

text \<open>\<open>flush_pending\<close>, run by the transaction that holds the mutation lock.\<close>

definition flush_pending ::
    "(u64 \<Rightarrow> u64) \<Rightarrow> write_window \<Rightarrow> transaction_world \<Rightarrow> bool daemon_result \<times> transaction_world" where
  "flush_pending clock win w =
     (case flush_begin True (tw_events w) of
        Inl e \<Rightarrow> (Inl e, w)
      | Inr s \<Rightarrow>
          (case sys_writer s of
             Some (WriteFlush own pending) \<Rightarrow>
               (let saved = capture_persisted_state (tw_state w); s = win_meanwhile win s in
                case win_error win of
                  Some e \<Rightarrow> (Inl (de_persistence e), w\<lparr>tw_events := flush_fail clock pending s\<rparr>)
                | None \<Rightarrow>
                    (let (r, s) = flush_commit clock own pending s
                     in (r, w\<lparr>tw_file := saved, tw_events := s\<rparr>)))
           | _ \<Rightarrow> (Inr False, w\<lparr>tw_events := s\<rparr>)))"

section \<open>The transaction\<close>

text \<open>A transaction is over, or the state file is being written for it.\<close>

datatype 'a attempt =
    Answered "'a daemon_result"
  | Persisting 'a "daemon_event_kind list" "durable_undo list" persisted_state

definition undone :: "durable_undo list \<Rightarrow> durable_state \<Rightarrow> transaction_world \<Rightarrow> transaction_world" where
  "undone log st w = unlock_mutation (w\<lparr>tw_state := rollback_log log st\<rparr>)"

definition attempt_operation ::
    "'a durable_mutation lop \<Rightarrow> transaction_world \<Rightarrow> ('a attempt \<times> transaction_world) option" where
  "attempt_operation op w =
     (case op ([], tw_state w) of
        None \<Rightarrow> None
      | Some (outcome, log, st) \<Rightarrow> Some
          (case outcome of
             Inl e \<Rightarrow> (Answered (Inl (mutation_failure e (Inr ()))), undone log st w)
           | Inr (Unchanged v) \<Rightarrow>
               if log = [] then (Answered (Inr v), unlock_mutation (w\<lparr>tw_state := st\<rparr>))
               else (Answered (Inl (mutation_failure
                       (daemon_error_of (other_error ''unchanged durable mutation recorded undo'')) (Inr ()))),
                     undone log st w)
           | Inr (Changed v kinds) \<Rightarrow>
               if log = []
               then (Answered (Inl (daemon_error_of
                       (other_error ''changed durable mutation did not record undo''))),
                     unlock_mutation (w\<lparr>tw_state := st\<rparr>))
               else (case mutation_begin kinds (tw_events w) of
                       Inl e \<Rightarrow> (Answered (Inl (mutation_failure e (Inr ()))), undone log st w)
                     | Inr s \<Rightarrow> (Persisting v kinds log (capture_persisted_state st),
                                w\<lparr>tw_state := st, tw_events := s\<rparr>))))"

definition finish_write ::
    "(u64 \<Rightarrow> u64) \<Rightarrow> write_window \<Rightarrow> 'a \<Rightarrow> daemon_event_kind list \<Rightarrow> durable_undo list \<Rightarrow> persisted_state
     \<Rightarrow> transaction_world \<Rightarrow> 'a daemon_result \<times> transaction_world" where
  "finish_write clock win v kinds log saved w =
     (let s = win_meanwhile win (tw_events w) in
      case win_error win of
        None \<Rightarrow> (Inr v, w\<lparr>tw_file := saved, tw_events := mutation_commit clock kinds s\<rparr>)
      | Some e \<Rightarrow> (Inl (mutation_failure (de_persistence e) (Inr ())),
                   w\<lparr>tw_state := rollback_log log (tw_state w), tw_events := mutation_fail clock s\<rparr>))"

definition durable_mutation_outcome ::
    "(u64 \<Rightarrow> u64) \<Rightarrow> write_window \<Rightarrow> write_window \<Rightarrow> 'a durable_mutation lop \<Rightarrow> transaction_world
     \<Rightarrow> ('a daemon_result \<times> transaction_world) option" where
  "durable_mutation_outcome clock flush_window window op w0 =
     (let w = lock_mutation w0 in
      case ensure_running w of
        Inl e \<Rightarrow> Some (Inl (daemon_error_of e), unlock_mutation w)
      | Inr _ \<Rightarrow>
          (case flush_pending clock flush_window w of
             (Inl e, w) \<Rightarrow> Some (Inl e, unlock_mutation w)
           | (Inr _, w) \<Rightarrow>
               (case attempt_operation op w of
                  None \<Rightarrow> None
                | Some (Answered r, w) \<Rightarrow> Some (r, w)
                | Some (Persisting v kinds log saved, w) \<Rightarrow>
                    Some (finish_write clock window v kinds log saved w))))"

text \<open>A request as \<open>handle_request\<close> serves it.\<close>

definition serve_request ::
    "registry_env \<Rightarrow> (u64 \<Rightarrow> u64) \<Rightarrow> write_window \<Rightarrow> write_window \<Rightarrow> request_inputs \<Rightarrow> durable_request
     \<Rightarrow> transaction_world \<Rightarrow> (durable_response daemon_result \<times> transaction_world) option" where
  "serve_request env clock flush_window window rq request w =
     (case request_operation env rq request of
        Inl e \<Rightarrow> Some (Inl e, w)
      | Inr op \<Rightarrow> durable_mutation_outcome clock flush_window window op w)"

section \<open>What a transaction leaves\<close>

text \<open>No Workspace is at its last revision.\<close>

definition revisions_left :: "durable_state \<Rightarrow> bool" where
  "revisions_left st \<longleftrightarrow> (\<forall>i w. get (dst_workspaces st) i = Some w \<longrightarrow> dw_revision w \<noteq> - 1)"

lemma no_half_done: "revisions_left st \<Longrightarrow> \<not> half_done env st st'"
  using half_done_exhausted by (fastforce simp: revisions_left_def)

lemma lock_fields [simp]:
  "tw_state (lock_mutation w) = tw_state w" "tw_file (lock_mutation w) = tw_file w"
  "tw_state (unlock_mutation w) = tw_state w" "tw_file (unlock_mutation w) = tw_file w"
  "tw_stopping (lock_mutation w) = tw_stopping w" "tw_stopping (unlock_mutation w) = tw_stopping w"
  "tw_state (undone log st w) = rollback_log log st" "tw_file (undone log st w) = tw_file w"
  by (simp_all add: lock_mutation_def unlock_mutation_def undone_def)

lemma flush_fields:
  assumes "flush_pending clock win w = (r, w')"
  shows "tw_state w' = tw_state w" and "tw_stopping w' = tw_stopping w"
    and "tw_file w' = tw_file w \<or> tw_file w' = capture_persisted_state (tw_state w)"
  using assms
  by (auto simp: flush_pending_def Let_def split: sum.splits option.splits writer_job.splits prod.splits)

lemma no_changes: "durable_changes env st [] st' \<Longrightarrow> st' = st"
  by (auto elim: durable_changes.cases)

text \<open>
  How the operation of a request leaves the world: undone, with nothing changed, or waiting for the
  write with its changes in memory.
\<close>

lemma attempt_cases:
  assumes "durable_ok env (tw_state w)" and "revisions_left (tw_state w)"
    and "logged env (tw_state w) (op ([], tw_state w))" and "answers (op ([], tw_state w))"
  obtains (refused) e w' where "attempt_operation op w = Some (Answered (Inl e), w')"
      "tw_state w' = tw_state w" "tw_file w' = tw_file w"
    | (unchanged) v w' where "attempt_operation op w = Some (Answered (Inr v), w')"
      "tw_state w' = tw_state w" "tw_file w' = tw_file w"
    | (writing) v kinds log st s where "op ([], tw_state w) = Some (Inr (Changed v kinds), log, st)"
      "attempt_operation op w = Some (Persisting v kinds log (capture_persisted_state st),
         w\<lparr>tw_state := st, tw_events := s\<rparr>)"
      "mutation_begin kinds (tw_events w) = Inr s"
      "durable_changes env (tw_state w) log st" "log \<noteq> []" "kinds \<noteq> []"
proof -
  obtain r log st where op: "op ([], tw_state w) = Some (r, log, st)"
    using assms(3) by (auto simp: logged_def split: option.splits)
  have consistent: "consistent r log" using assms(4) op by (simp add: answers_def)
  have changes: "durable_changes env (tw_state w) log st"
    using assms(3) op no_half_done [OF assms(2)]
    by (auto simp: logged_def split: sum.splits)
  note undone = changes_undone [OF changes assms(1)]
  show thesis
  proof (cases r)
    case (Inl e)
    show ?thesis
      by (rule refused [of "mutation_failure e (Inr ())" "undone log st w"])
        (simp_all add: attempt_operation_def op undone Inl)
  next
    case (Inr m)
    show ?thesis
    proof (cases m)
      case (Unchanged v)
      then have "log = []" using consistent Inr by (simp add: consistent_def)
      moreover from this have "st = tw_state w" using changes no_changes by blast
      ultimately show ?thesis
        by (intro unchanged [of v "unlock_mutation (w\<lparr>tw_state := st\<rparr>)"])
          (simp_all add: attempt_operation_def op Inr Unchanged)
    next
      case (Changed v kinds)
      then have "log \<noteq> []" "kinds \<noteq> []" using consistent Inr by (simp_all add: consistent_def)
      show ?thesis
      proof (cases "mutation_begin kinds (tw_events w)")
        case (Inl e)
        show ?thesis
          by (rule refused [of "mutation_failure e (Inr ())" "undone log st w"])
            (simp_all add: attempt_operation_def op undone Inl Inr Changed \<open>log \<noteq> []\<close>)
      next
        case begun: (Inr s)
        show ?thesis
          by (rule writing [of v kinds log st s])
            (use changes in \<open>simp_all add: attempt_operation_def op begun Inr Changed \<open>log \<noteq> []\<close> \<open>kinds \<noteq> []\<close>\<close>)
      qed
    qed
  qed
qed

text \<open>What serving a request can come to.\<close>

lemma serve_cases:
  assumes ok: "durable_ok env (tw_state w)" and fresh: "fresh_inputs env rq (tw_state w)"
    and left: "revisions_left (tw_state w)"
  obtains (refused) e w' where "serve_request env clock fwin win rq request w = Some (Inl e, w')"
      "tw_state w' = tw_state w"
      "tw_file w' = tw_file w \<or> tw_file w' = capture_persisted_state (tw_state w)"
    | (unchanged) v w' where "serve_request env clock fwin win rq request w = Some (Inr v, w')"
      "tw_state w' = tw_state w"
      "tw_file w' = tw_file w \<or> tw_file w' = capture_persisted_state (tw_state w)"
    | (changed) v kinds log w' op s where "serve_request env clock fwin win rq request w = Some (Inr v, w')"
      "request_operation env rq request = Inr op"
      "op ([], tw_state w) = Some (Inr (Changed v kinds), log, tw_state w')"
      "durable_changes env (tw_state w) log (tw_state w')" "log \<noteq> []" "kinds \<noteq> []"
      "tw_file w' = capture_persisted_state (tw_state w')"
      "tw_events w' = mutation_commit clock kinds (win_meanwhile win s)"
proof (cases "request_operation env rq request")
  case (Inl e)
  then show ?thesis using refused [of e w] by (simp add: serve_request_def)
next
  case op: (Inr op)
  note serve = serve_request_def durable_mutation_outcome_def Let_def
  show ?thesis
  proof (cases "ensure_running (lock_mutation w)")
    case (Inl e)
    then show ?thesis
      using refused [of "daemon_error_of e" "unlock_mutation (lock_mutation w)"] op by (simp add: serve)
  next
    case running: (Inr u)
    obtain r w1 where flush: "flush_pending clock fwin (lock_mutation w) = (r, w1)" by fastforce
    note flushed = flush_fields [OF flush, unfolded lock_fields]
    show ?thesis
    proof (cases r)
      case (Inl e)
      then show ?thesis
        using refused [of e "unlock_mutation w1"] op running flush flushed by (simp add: serve)
    next
      case (Inr b)
      have logged: "logged env (tw_state w1) (op ([], tw_state w1))"
        unfolding flushed(1) by (rule request_logged [OF ok fresh op])
      have answers: "answers (op ([], tw_state w1))" by (rule request_answers [OF op])
      have ok1: "durable_ok env (tw_state w1)" and left1: "revisions_left (tw_state w1)"
        using ok left flushed(1) by simp_all
      show ?thesis
      proof (cases rule: attempt_cases [where env = env and w = w1 and op = op, OF ok1 left1 logged answers, case_names refused unchanged writing])
        case (refused e w')
        then show ?thesis
          using that(1) [of e w'] op running flush flushed Inr by (simp add: serve)
      next
        case (unchanged v w')
        then show ?thesis
          using that(2) [of v w'] op running flush flushed Inr by (simp add: serve)
      next
        case (writing v kinds log st s)
        let ?w = "w1\<lparr>tw_state := st, tw_events := s\<rparr>"
        have served: "serve_request env clock fwin win rq request w
            = Some (finish_write clock win v kinds log (capture_persisted_state st) ?w)"
          using op running flush Inr writing(2) by (simp add: serve)
        note changes = writing(4) [unfolded flushed(1)]
        show ?thesis
        proof (cases "win_error win")
          case None
          show ?thesis
            by (rule that(3) [of v "w1\<lparr>tw_state := st, tw_file := capture_persisted_state st,
                  tw_events := mutation_commit clock kinds (win_meanwhile win s)\<rparr>" op kinds log s])
              (use served None op writing changes flushed(1) in \<open>simp_all add: finish_write_def\<close>)
        next
          case (Some e)
          show ?thesis
            by (rule that(1) [of "mutation_failure (de_persistence e) (Inr ())"
                  "w1\<lparr>tw_state := rollback_log log st, tw_events := mutation_fail clock (win_meanwhile win s)\<rparr>"])
              (use served Some flushed changes_undone [OF changes ok] in \<open>simp_all add: finish_write_def Let_def\<close>)
        qed
      qed
    qed
  qed
qed

section \<open>Serving requests one after the other\<close>

inductive served :: "registry_env \<Rightarrow> transaction_world \<Rightarrow> (durable_request \<times> durable_response daemon_result) list
    \<Rightarrow> transaction_world \<Rightarrow> bool" for env where
  served_none: "served env w [] w"
| served_more: "served env w history w1 \<Longrightarrow> fresh_inputs env rq (tw_state w1)
    \<Longrightarrow> serve_request env clock fwin win rq request w1 = Some (answer, w2)
    \<Longrightarrow> served env w (history @ [(request, answer)]) w2"

definition synced :: "registry_env \<Rightarrow> transaction_world \<Rightarrow> bool" where
  "synced env w \<longleftrightarrow> durable_ok env (tw_state w) \<and> tw_file w = capture_persisted_state (tw_state w)"

lemma serve_synced:
  assumes "synced env w" and "revisions_left (tw_state w)" and "fresh_inputs env rq (tw_state w)"
    and "serve_request env clock fwin win rq request w = Some (answer, w')"
  shows "synced env w'"
  using assms(1) unfolding synced_def
  by (elim conjE, cases rule: serve_cases [OF _ assms(3,2), of clock fwin win request])
    (use assms(4) changes_ok in \<open>auto simp: synced_def\<close>)

text \<open>Revisions that are not exhausted stay so for as many requests as there is room for.\<close>

lemma room_left: "revision_room n st \<Longrightarrow> revisions_left st"
proof -
  have "unat (- 1 :: u64) = 2 ^ 64 - 1" by (simp add: unsigned_minus_1_eq_mask mask_eq_exp_minus_1)
  then show "revision_room n st \<Longrightarrow> revisions_left st" unfolding revision_room_def revisions_left_def by fastforce
qed

lemma serve_room:
  assumes "synced env w" and "revision_room (n + 2) (tw_state w)" and "fresh_inputs env rq (tw_state w)"
    and "serve_request env clock fwin win rq request w = Some (answer, w')"
  shows "revision_room n (tw_state w')"
proof -
  have ok: "durable_ok env (tw_state w)" using assms(1) by (simp add: synced_def)
  have same: "revision_room n (tw_state w)" by (rule revision_room_mono [OF assms(2)]) simp
  show ?thesis
  proof (cases rule: serve_cases [OF ok assms(3) room_left [OF assms(2)], of clock fwin win request,
        case_names refused unchanged changed])
    case (changed v kinds log w'' op s)
    have "length log \<le> length ([] :: durable_undo list) + 2"
      using request_brief [OF changed(2)] changed(3) unfolding brief_def by blast
    then have "revision_room (length log + n) (tw_state w)" by (intro revision_room_mono [OF assms(2)]) simp
    then show ?thesis using changes_room [OF changed(4) ok] changed(1) assms(4) by simp
  qed (use same assms(4) in auto)
qed

lemma served_synced:
  assumes "served env w history w'" and "synced env w" and "revision_room (2 * length history + n) (tw_state w)"
  shows "synced env w' \<and> revision_room n (tw_state w')"
  using assms
proof (induction arbitrary: n rule: served.induct)
  case (served_more w history w1 rq clock fwin win request answer w2)
  have "synced env w1 \<and> revision_room (n + 2) (tw_state w1)"
    using served_more.IH [of "n + 2"] served_more.prems by (simp add: add.commute add.left_commute)
  then show ?case
    using serve_synced [OF _ room_left served_more.hyps(2,3)] serve_room [OF _ _ served_more.hyps(2,3)] by blast
qed simp

end
