(* ===== verification/Durable_Props.thy ===== *)
theory Durable_Props
  imports Durable_Transaction
begin

text \<open>
  The properties of the durable state and of the requests that change it, with an example each.
\<close>

section \<open>An example\<close>

definition du_env :: registry_env where
  "du_env =
     \<lparr>re_uuid_parse = (\<lambda>i. if i = [] then None else Some i), re_is_dir = (\<lambda>_. True),
      re_display = (\<lambda>_. ''/''), re_path_bytes = length, re_foreground_process = (\<lambda>_. Inr None)\<rparr>"

definition du_rq :: request_inputs where
  "du_rq =
     \<lparr>rq_new_id = ''w'', rq_shell_ids = (\<lambda>n. CHR ''s'' # replicate n CHR ''0''),
      rq_uuids = (\<lambda>_ n. CHR ''u'' # replicate n CHR ''0''), rq_now = 5,
      rq_inspect = (\<lambda>_. Inr None), rq_resolve = Inr\<rparr>"

definition du_start :: transaction_world where
  "du_start =
     \<lparr>tw_state = empty_durable_state, tw_events = initial_system (new_stream ''e'') False, tw_file = [],
      tw_stopping = False\<rparr>"

definition du_quiet :: write_window where
  "du_quiet = \<lparr>win_error = None, win_meanwhile = (\<lambda>s. s)\<rparr>"

definition du_broken :: write_window where
  "du_broken = \<lparr>win_error = Some (other_error ''disk full''), win_meanwhile = (\<lambda>s. s)\<rparr>"

definition du_spec :: shell_spec where
  "du_spec = \<lparr>spec_name = ''a'', spec_command = [], spec_cwd = [RootDir]\<rparr>"

lemma du_fresh: "fresh_inputs du_env du_rq empty_durable_state"
  by (auto simp: fresh_inputs_def fresh_id_def du_env_def du_rq_def uuid_parses_def empty_durable_state_def
      inj_def dest: arg_cong [where f = length])

lemma du_left: "revisions_left empty_durable_state"
  by (simp add: revisions_left_def empty_durable_state_def)

definition du_created :: durable_state where
  "du_created =
     \<lparr>dst_workspaces = [(''w'', new_workspace ''w'' ''home'' None [''s''])],
      dst_shells = [(''s'', \<lparr>ds_id = ''s'', ds_revision = 1, ds_workspace_id = ''w'', ds_name = ''a'',
                             ds_cwd = [RootDir], ds_command = [], ds_last_run = None, ds_lifecycle = LcPending\<rparr>)],
      dst_launchers = [], dst_agents = []\<rparr>"

definition du_request :: durable_request where
  "du_request = RqCreateWorkspace ''home'' None [du_spec]"

lemmas du_defs = du_env_def du_rq_def du_spec_def du_created_def empty_durable_state_def

lemma du_operation:
  "create_workspace_handler du_env du_rq ''home'' None [du_spec] ([], empty_durable_state)
     = Some (Inr (Changed (RespWorkspace
           \<lparr>ws_id = ''w'', ws_revision = 1, ws_name = ''home'', ws_default_cwd = None,
            ws_shells = [\<lparr>sh_id = ''s'', sh_revision = 1, sh_workspace_id = ''w'', sh_name = ''a'',
              sh_cwd = [RootDir], sh_command = [], sh_status = StatusPending, sh_run = None,
              sh_recovered_agent_id = None, sh_foreground_process = None\<rparr>],
            ws_launchers = [], ws_agents = []\<rparr>)
         [EvWorkspaceCreated ''w'' ''home'', EvShellCreated ''w'' ''s'' ''a'']),
       [UndoCreatedWorkspace ''w'' [''s'']], du_created)"
  by (simp add: create_workspace_handler_def bind_log_def do_op_def recorded_def io_op_def create_workspace_def
      op_defs du_defs daemon_validate_name_def is_blank_def daemon_max_name_bytes_def
      validate_default_cwd_def validate_shell_specs_def create_pending_shell_def validate_cwd_def
      is_absolute_def shell_to_snapshot_def workspace_name_taken_def new_workspace_def
      workspace_created_events_def return_log_def)

lemma du_flush:
  "flush_pending (\<lambda>i. i) du_quiet (lock_mutation du_start)
     = (Inr False, du_start\<lparr>tw_events := (tw_events du_start)\<lparr>sys_mutation := Some (Mutating True)\<rparr>\<rparr>)"
  by (simp add: flush_pending_def flush_begin_def lock_mutation_def du_start_def initial_system_def
      pending_durable_batch_count_def new_stream_def empty_transition_state_def Let_def)

lemmas du_events_eval =
  mutation_begin_def reserve_with_pending_def ensure_capacity_def reserved_event_count_def
  usize_saturating_add_def usize_max_def u64_checked_add_def tx_reserve_def start_write_def
  begin_persistence_def on_transitions_def pending_durable_batch_count_def pending_durable_event_count_def
  initial_system_def new_stream_def empty_transition_state_def Let_def

definition du_waiting :: event_system where
  "du_waiting =
     or_else (tw_events du_start)
       (mutation_begin [EvWorkspaceCreated ''w'' ''home'', EvShellCreated ''w'' ''s'' ''a'']
         ((tw_events du_start)\<lparr>sys_mutation := Some (Mutating True)\<rparr>))"

lemma du_begin:
  "mutation_begin [EvWorkspaceCreated ''w'' ''home'', EvShellCreated ''w'' ''s'' ''a'']
     ((tw_events du_start)\<lparr>sys_mutation := Some (Mutating True)\<rparr>) = Inr du_waiting"
  by (simp add: du_waiting_def or_else_def du_start_def du_events_eval)

text \<open>A request to create a Workspace with a Shell, up to the write of the state file.\<close>

definition du_answer :: durable_response where
  "du_answer = RespWorkspace
     \<lparr>ws_id = ''w'', ws_revision = 1, ws_name = ''home'', ws_default_cwd = None,
      ws_shells = [\<lparr>sh_id = ''s'', sh_revision = 1, sh_workspace_id = ''w'', sh_name = ''a'',
        sh_cwd = [RootDir], sh_command = [], sh_status = StatusPending, sh_run = None,
        sh_recovered_agent_id = None, sh_foreground_process = None\<rparr>],
      ws_launchers = [], ws_agents = []\<rparr>"

lemma du_served:
  "serve_request du_env (\<lambda>i. i) du_quiet win du_rq du_request du_start =
     Some (finish_write (\<lambda>i. i) win du_answer
       [EvWorkspaceCreated ''w'' ''home'', EvShellCreated ''w'' ''s'' ''a''] [UndoCreatedWorkspace ''w'' [''s'']]
       (capture_persisted_state du_created) (du_start\<lparr>tw_state := du_created, tw_events := du_waiting\<rparr>))"
proof -
  have state: "tw_state du_start = empty_durable_state" "tw_stopping du_start = False"
    by (simp_all add: du_start_def)
  have op: "request_operation du_env du_rq du_request = Inr (create_workspace_handler du_env du_rq ''home'' None [du_spec])"
    by (simp add: du_request_def request_operation_def)
  show ?thesis
    by (simp add: serve_request_def op durable_mutation_outcome_def Let_def ensure_running_def state du_flush
        attempt_operation_def du_operation du_begin du_answer_def)
qed


text \<open>The transaction with a write that succeeds, and with one that fails.\<close>

definition du_done :: transaction_world where
  "du_done = du_start\<lparr>tw_state := du_created, tw_file := capture_persisted_state du_created,
     tw_events := mutation_commit (\<lambda>i. i)
       [EvWorkspaceCreated ''w'' ''home'', EvShellCreated ''w'' ''s'' ''a''] du_waiting\<rparr>"

lemma du_succeeds:
  "serve_request du_env (\<lambda>i. i) du_quiet du_quiet du_rq du_request du_start = Some (Inr du_answer, du_done)"
  by (simp only: du_served) (simp add: finish_write_def du_quiet_def du_done_def)

lemma du_fails:
  "\<exists>e w'. serve_request du_env (\<lambda>i. i) du_quiet du_broken du_rq du_request du_start = Some (Inl e, w')"
  by (simp only: du_served) (simp add: finish_write_def du_broken_def Let_def)

lemma du_start_state: "tw_state du_start = empty_durable_state" "tw_file du_start = []"
  by (simp_all add: du_start_def)

lemma du_synced: "synced du_env du_start"
  by (simp add: synced_def du_start_state empty_durable_ok capture_persisted_state_def)
    (simp add: empty_durable_state_def)

lemma du_room: "revision_room 2 (tw_state du_start)"
  by (simp add: revision_room_def du_start_state empty_durable_state_def)

lemma du_history: "served du_env du_start [(du_request, Inr du_answer)] du_done"
proof -
  have "served du_env du_start ([] @ [(du_request, Inr du_answer)]) du_done"
    by (rule served_more [OF served_none _ du_succeeds])
      (simp_all add: du_start_state du_fresh)
  then show ?thesis by simp
qed

section \<open>Restart\<close>

text \<open>
  C1. Whatever requests have been served one after the other, answered or refused, with state files
  written or not, with new UUIDs that are not in use, as long as they are so few that no Workspace revision can have reached \<open>u64::MAX\<close>
  (each raises a revision by at most two; C38 is what happens at \<open>u64::MAX\<close>): the state in memory is
  well formed, the state file holds it, and a daemon that starts from the file is in the same state
  with its open runs interrupted, or kept when it takes over the live processes.
\<close>

theorem served_restarts:
  assumes "served env w history w'" and "synced env w" and "2 * length history + 1 < 2 ^ 64 - 1"
    and "\<forall>i workspace. get (dst_workspaces (tw_state w)) i = Some workspace
      \<longrightarrow> unat (dw_revision workspace) + 2 * length history < 2 ^ 64 - 1"
  shows "durable_ok env (tw_state w') \<and> tw_file w' = capture_persisted_state (tw_state w')
    \<and> restore_state env live clock (tw_file w')
      = Inr (rested live clock (tw_state w'), \<not> live \<and> has_open_run (tw_state w'))"
proof -
  have "revision_room (2 * length history + 0) (tw_state w)" using assms(3,4) by (simp add: revision_room_def)
  from served_synced [OF assms(1,2) this] show ?thesis using restore_saved by (simp add: synced_def)
qed

lemma served_restarts_witness:
  "restore_state du_env False (\<lambda>_. 0) (tw_file du_done) = Inr (du_created, False)"
proof -
  have "rested False (\<lambda>_. 0) (tw_state du_done) = du_created" "\<not> has_open_run (tw_state du_done)"
    by (simp_all add: du_done_def du_created_def rested_def rested_shell_def has_open_run_def)
  moreover have "restore_state du_env False (\<lambda>_. 0) (tw_file du_done)
      = Inr (rested False (\<lambda>_. 0) (tw_state du_done), \<not> False \<and> has_open_run (tw_state du_done))"
    by (rule served_restarts [OF du_history du_synced, THEN conjunct2, THEN conjunct2])
      (simp_all add: du_start_state empty_durable_state_def)
  ultimately show ?thesis by simp
qed

section \<open>What a client is told\<close>

text \<open>
  C2. As long as no Workspace revision stands at \<open>u64::MAX\<close> (there C38 shows the opposite) and new
  UUIDs are not in use, a
  request that is refused has changed nothing: whatever went wrong, from a bad argument to a full
  disk, the state in memory is the one before the request, and the file is the one before it or
  holds exactly that state.
\<close>

theorem failed_request_atomic:
  assumes "durable_ok env (tw_state w)" and "fresh_inputs env rq (tw_state w)"
    and "revisions_left (tw_state w)"
    and "serve_request env clock flush_window window rq request w = Some (Inl e, w')"
  shows "tw_state w' = tw_state w
    \<and> (tw_file w' = tw_file w \<or> tw_file w' = capture_persisted_state (tw_state w))"
  using assms(4)
  by (cases rule: serve_cases [OF assms(1-3), of clock flush_window window request]) auto

lemma failed_request_atomic_witness:
  "\<exists>e w'. serve_request du_env (\<lambda>i. i) du_quiet du_broken du_rq du_request du_start = Some (Inl e, w')
     \<and> tw_state w' = empty_durable_state"
proof -
  obtain e w' where failed: "serve_request du_env (\<lambda>i. i) du_quiet du_broken du_rq du_request du_start = Some (Inl e, w')"
    using du_fails by blast
  have "tw_state w' = tw_state du_start"
    using failed_request_atomic [OF _ _ _ failed]
    by (simp add: du_start_state empty_durable_ok du_fresh du_left)
  then show ?thesis using failed by (simp add: du_start_state)
qed

text \<open>
  C3. A request that is accepted, while no Workspace revision stands at \<open>u64::MAX\<close> and with new
  UUIDs that are not in use, either changed nothing, or its operation's result is in memory and
  in the file, and the events it announces, at least one, have been published directly after the
  write: no client reads of a change that a crash could lose, and no change stays silent.
\<close>

theorem accepted_request_published:
  assumes "durable_ok env (tw_state w)" and "fresh_inputs env rq (tw_state w)"
    and "revisions_left (tw_state w)"
    and "serve_request env clock flush_window window rq request w = Some (Inr v, w')"
  shows "(tw_state w' = tw_state w
      \<and> (tw_file w' = tw_file w \<or> tw_file w' = capture_persisted_state (tw_state w)))
    \<or> (\<exists>op kinds log s. request_operation env rq request = Inr op
        \<and> op ([], tw_state w) = Some (Inr (Changed v kinds), log, tw_state w') \<and> kinds \<noteq> []
        \<and> durable_ok env (tw_state w') \<and> rollback_log log (tw_state w') = tw_state w
        \<and> tw_file w' = capture_persisted_state (tw_state w')
        \<and> tw_events w' = mutation_commit clock kinds (win_meanwhile window s))"
proof (cases rule: serve_cases [OF assms(1-3), of clock flush_window window request, case_names refused unchanged changed])
  case (changed v' kinds log w'' op s)
  then show ?thesis
    using assms(4) changes_ok [OF changed(4) assms(1)] changes_undone [OF changed(4) assms(1)] by auto
qed (use assms(4) in auto)

lemma accepted_request_published_witness:
  "tw_state du_done \<noteq> empty_durable_state
    \<and> (\<exists>kinds s. kinds \<noteq> [] \<and> tw_events du_done = mutation_commit (\<lambda>i. i) kinds s)"
proof -
  have "tw_state du_done \<noteq> empty_durable_state"
    by (simp add: du_done_def du_created_def empty_durable_state_def)
  moreover from this have "\<exists>kinds s. kinds \<noteq> [] \<and> tw_events du_done = mutation_commit (\<lambda>i. i) kinds s"
    using accepted_request_published [OF _ _ _ du_succeeds]
    by (auto simp: du_start_state empty_durable_ok du_fresh du_left)
  ultimately show ?thesis by simp
qed

section \<open>Termination\<close>

text \<open>
  C37. Every request is answered: on a well-formed state no request makes its operation run on for
  ever, not even the one that creates a Shell without a Workspace, which draws default names until
  one is accepted; for it the first free name decides.
\<close>

theorem request_returns:
  assumes "durable_ok env (tw_state w)" and "fresh_inputs env rq (tw_state w)"
  shows "(\<exists>r w'. serve_request env clock flush_window window rq request w = Some (r, w'))
    \<and> (\<exists>r st. create_shell_with_workspace env (rq_uuids rq) spec (tw_state w) = Some (r, st))"
proof
  show "\<exists>r w'. serve_request env clock flush_window window rq request w = Some (r, w')"
  proof (cases "request_operation env rq request")
    case (Inr op)
    obtain r w1 where flush: "flush_pending clock flush_window (lock_mutation w) = (r, w1)" by fastforce
    have "logged env (tw_state w) (op ([], tw_state w))" by (rule request_logged [OF assms Inr])
    then obtain x where "op ([], tw_state w1) = Some x"
      using flush_fields(1) [OF flush] by (cases "op ([], tw_state w)") (auto simp: logged_def)
    then show ?thesis
      using Inr flush
      by (auto simp: serve_request_def durable_mutation_outcome_def Let_def attempt_operation_def
          split: sum.split attempt.split prod.split)
  qed (simp add: serve_request_def)
  show "\<exists>r st. create_shell_with_workspace env (rq_uuids rq) spec (tw_state w) = Some (r, st)"
    using create_shell_with_workspace_refines [OF assms, of spec] by (auto simp: refined_def)
qed

lemma request_returns_witness:
  "\<exists>r w'. serve_request du_env (\<lambda>i. i) du_quiet du_quiet du_rq (RqCreateShell None du_spec) du_start = Some (r, w')"
  using request_returns [of du_env du_start du_rq] by (simp add: du_start_state empty_durable_ok du_fresh)


section \<open>Repeated requests\<close>

text \<open>What an exact creation leaves in the maps.\<close>

lemma snapshot_fields:
  "shell_to_snapshot env s = Inr snapshot \<Longrightarrow>
     sh_workspace_id snapshot = ds_workspace_id s \<and> sh_name snapshot = ds_name s
     \<and> sh_cwd snapshot = ds_cwd s \<and> sh_command snapshot = ds_command s"
  by (auto simp: shell_to_snapshot_def bind_res_Inr)

lemma pending_fields:
  "create_pending_shell env i k spec = Inr s \<Longrightarrow>
     ds_id s = k \<and> ds_workspace_id s = i \<and> ds_name s = spec_name spec
     \<and> ds_cwd s = spec_cwd spec \<and> ds_command s = spec_command spec"
  by (auto simp: create_pending_shell_def bind_res_Inr)

lemma shell_exact_stored:
  assumes "smap_ok (dst_shells st)" and "create_shell_exact env i k spec st = (Inr (snapshot, u), st')"
  shows "\<exists>s. get (dst_shells st') k = Some s \<and> shell_to_snapshot env s = Inr snapshot
    \<and> sh_workspace_id snapshot = i \<and> sh_name snapshot = spec_name spec
    \<and> sh_cwd snapshot = spec_cwd spec \<and> sh_command snapshot = spec_command spec"
proof (cases "get (dst_shells st) k")
  case None
  obtain s where pending: "Inr s = create_pending_shell env i k spec"
    and snapshot: "Inr snapshot = shell_to_snapshot env s" and stored: "get (dst_shells st') (ds_id s) = Some s"
    using assms None
    by (auto simp: create_shell_exact_def insert_shell_def bump_workspace_def find_workspace_def op_simps
        get_put upd_workspace_def modify_op_def split: if_splits)
  show ?thesis
    using pending_fields [OF pending [symmetric]] snapshot_fields [OF snapshot [symmetric]] snapshot stored by auto
next
  case (Some s)
  then have "Inr snapshot = shell_to_snapshot env s \<and> st' = st
      \<and> sh_workspace_id snapshot = i \<and> sh_name snapshot = spec_name spec
      \<and> sh_cwd snapshot = spec_cwd spec \<and> sh_command snapshot = spec_command spec"
    using assms by (auto simp: create_shell_exact_def op_simps split: if_splits)
  then show ?thesis using Some by auto
qed

lemma launcher_exact_stored:
  assumes "smap_ok (dst_launchers st)" and "create_launcher_exact env i k spec st = (Inr (snapshot, u), st')"
  shows "\<exists>l. get (dst_launchers st') k = Some l \<and> launcher_to_snapshot l = snapshot
    \<and> la_workspace_id snapshot = i \<and> la_name snapshot = lspec_name spec
    \<and> la_cwd snapshot = lspec_cwd spec \<and> la_command snapshot = lspec_command spec"
  using assms
  by (auto simp: create_launcher_exact_def new_launcher_def insert_launcher_def bump_workspace_def find_workspace_def
      launcher_to_snapshot_def Let_def op_simps get_put upd_workspace_def modify_op_def split: option.splits if_splits)

text \<open>What is created lies under its key, and its snapshot depends on the environment only by the
  foreground process.\<close>

lemma shell_exact_key:
  assumes "durable_ok env st" and "create_shell_exact env i k spec st = (Inr (snapshot, u), st')"
    and "get (dst_shells st') k = Some s"
  shows "ds_id s = k"
proof (cases "get (dst_shells st) k")
  case None
  then show ?thesis
    using assms pending_fields durable_okD(3) [OF assms(1)]
    by (fastforce simp: create_shell_exact_def insert_shell_def bump_workspace_def find_workspace_def op_simps
        get_put upd_workspace_def modify_op_def split: if_splits)
next
  case (Some x)
  then have "st' = st" using assms(2) by (auto simp: create_shell_exact_def op_simps split: if_splits)
  then show ?thesis using objects_okD [OF durable_okD(6) [OF assms(1)], of k s] assms(3) by simp
qed

lemma snapshot_foreground:
  assumes "shell_to_snapshot env s = Inr snapshot"
  shows "(case shell_to_snapshot (env\<lparr>re_foreground_process := f\<rparr>) s of
      Inl e \<Rightarrow> f (ds_id s) = Inl e
    | Inr now \<Rightarrow> now = snapshot\<lparr>sh_foreground_process := sh_foreground_process now\<rparr>)"
  using assms
  by (cases "ds_lifecycle s"; cases "f (ds_id s)") (auto simp: shell_to_snapshot_def bind_res_Inr)

text \<open>
  A creation under an idempotency key can be repeated: if the creation of a Shell, or that of a
  Launcher, was accepted, the same request, in every later state in which the object is as it was
  when it was created, records nothing to undo, changes nothing and answers the same snapshot; only
  the foreground process of a running Shell is the one of the moment, and when the operating system
  does not give it, its error is the answer.
\<close>

theorem exact_creation_repeats:
  assumes "durable_ok env st"
  shows "(create_shell_exact env i k spec st = (Inr (shell_snapshot, u), st1)
      \<longrightarrow> get (dst_shells later) k = get (dst_shells st1) k
      \<longrightarrow> (\<exists>answer. create_shell_exact (env\<lparr>re_foreground_process := f\<rparr>) i k spec later = (answer, later)
          \<and> (case answer of
               Inl e \<Rightarrow> f k = Inl e
             | Inr (now, undo) \<Rightarrow> undo = None
                 \<and> now = shell_snapshot\<lparr>sh_foreground_process := sh_foreground_process now\<rparr>)))
    \<and> (create_launcher_exact env i n lspec st = (Inr (launcher_snapshot, v), st2)
      \<longrightarrow> get (dst_launchers later) n = get (dst_launchers st2) n
      \<longrightarrow> create_launcher_exact env i n lspec later = (Inr (launcher_snapshot, None), later))"
proof (intro conjI impI)
  assume created: "create_shell_exact env i k spec st = (Inr (shell_snapshot, u), st1)"
    and same: "get (dst_shells later) k = get (dst_shells st1) k"
  let ?env = "env\<lparr>re_foreground_process := f\<rparr>"
  have valid: "validate_uuid ?env k ''Shell idempotency key'' = Inr ()"
    using created by (auto simp: create_shell_exact_def op_simps validate_uuid_def uuid_parses_def)
  obtain s where s: "get (dst_shells st1) k = Some s" "shell_to_snapshot env s = Inr shell_snapshot"
    and fields: "sh_workspace_id shell_snapshot = i" "sh_name shell_snapshot = spec_name spec"
      "sh_cwd shell_snapshot = spec_cwd spec" "sh_command shell_snapshot = spec_command spec"
    using shell_exact_stored [OF durable_okD(3) [OF assms] created] by blast
  have key: "ds_id s = k" by (rule shell_exact_key [OF assms created s(1)])
  note now = snapshot_foreground [OF s(2), of f]
  show "\<exists>answer. create_shell_exact ?env i k spec later = (answer, later)
      \<and> (case answer of Inl e \<Rightarrow> f k = Inl e
         | Inr (now, undo) \<Rightarrow> undo = None
             \<and> now = shell_snapshot\<lparr>sh_foreground_process := sh_foreground_process now\<rparr>)"
  proof (cases "shell_to_snapshot ?env s")
    case (Inl e)
    then show ?thesis using now valid s(1) same key by (simp add: create_shell_exact_def op_defs)
  next
    case (Inr x)
    then have x: "x = shell_snapshot\<lparr>sh_foreground_process := sh_foreground_process x\<rparr>" using now by simp
    have "sh_workspace_id x = i" "sh_name x = spec_name spec" "sh_cwd x = spec_cwd spec"
        "sh_command x = spec_command spec"
      by (subst x, simp add: fields)+
    then show ?thesis using Inr x valid s(1) same by (simp add: create_shell_exact_def op_defs)
  qed
next
  assume created: "create_launcher_exact env i n lspec st = (Inr (launcher_snapshot, v), st2)"
    and same: "get (dst_launchers later) n = get (dst_launchers st2) n"
  have "validate_uuid env n ''launcher idempotency key'' = Inr ()"
    using created by (auto simp: create_launcher_exact_def op_simps)
  then show "create_launcher_exact env i n lspec later = (Inr (launcher_snapshot, None), later)"
    using launcher_exact_stored [OF durable_okD(4) [OF assms] created] same
    by (auto simp: create_launcher_exact_def op_defs Let_def)
qed

definition du_named :: "string \<Rightarrow> shell_spec" where
  "du_named name = \<lparr>spec_name = name, spec_command = [], spec_cwd = [RootDir]\<rparr>"

definition du_launcher :: workspace_launcher_spec where
  "du_launcher = \<lparr>lspec_name = ''l'', lspec_command = [''ls''], lspec_cwd = [RootDir]\<rparr>"

lemma du_created_ok: "durable_ok du_env du_created"
  using served_synced [OF du_history du_synced, of 0] du_room by (simp add: synced_def du_done_def)

lemmas du_create_eval = op_defs du_defs du_named_def du_launcher_def
  validate_uuid_def daemon_validate_name_def is_blank_def daemon_max_name_bytes_def validate_cwd_def
  create_pending_shell_def shell_to_snapshot_def insert_shell_def insert_launcher_def bump_workspace_def
  find_workspace_def validate_launcher_spec_def validate_launcher_command_def new_launcher_def Let_def
  shell_name_taken_def launcher_name_taken_def bump_revision_def u64_checked_add_def new_workspace_def
  is_absolute_def upd_workspace_def ok_or_def alter_def

lemma du_shell_exact:
  "\<exists>s u st1. create_shell_exact du_env ''w'' ''t'' (du_named ''b'') du_created = (Inr (s, u), st1)"
  by (simp add: create_shell_exact_def du_create_eval)

lemma du_launcher_exact:
  "\<exists>l v st2. create_launcher_exact du_env ''w'' ''k'' du_launcher du_created = (Inr (l, v), st2)"
  by (simp add: create_launcher_exact_def du_create_eval)

lemma exact_creation_repeats_witness:
  "\<exists>s now l st. get (dst_shells st) ''t'' \<noteq> None
     \<and> create_shell_exact du_env ''w'' ''t'' (du_named ''b'') st = (Inr (now, None), st)
     \<and> now = s\<lparr>sh_foreground_process := sh_foreground_process now\<rparr>
     \<and> create_launcher_exact du_env ''w'' ''k'' du_launcher st = (Inr (l, None), st)"
proof -
  obtain s u st1 l v st2 where
    shell: "create_shell_exact du_env ''w'' ''t'' (du_named ''b'') du_created = (Inr (s, u), st1)"
    and launcher: "create_launcher_exact du_env ''w'' ''k'' du_launcher du_created = (Inr (l, v), st2)"
    using du_shell_exact du_launcher_exact by blast
  let ?later = "st1\<lparr>dst_launchers := dst_launchers st2\<rparr>"
  have env: "du_env\<lparr>re_foreground_process := \<lambda>_. Inr None\<rparr> = du_env" by (simp add: du_env_def)
  note again = exact_creation_repeats [OF du_created_ok, where f = "\<lambda>_. Inr None" and later = ?later]
  have launched: "create_launcher_exact du_env ''w'' ''k'' du_launcher ?later = (Inr (l, None), ?later)"
    by (rule again [THEN conjunct2, rule_format, OF launcher]) simp
  have repeated: "\<exists>answer. create_shell_exact du_env ''w'' ''t'' (du_named ''b'') ?later = (answer, ?later)
      \<and> (case answer of Inl e \<Rightarrow> Inr (None :: string option) = Inl e
         | Inr (now, undo) \<Rightarrow> undo = None \<and> now = s\<lparr>sh_foreground_process := sh_foreground_process now\<rparr>)"
    by (rule again [THEN conjunct1, unfolded env, rule_format, OF shell]) simp
  from repeated obtain answer where
    answer: "create_shell_exact du_env ''w'' ''t'' (du_named ''b'') ?later = (answer, ?later)"
    and same: "case answer of Inl e \<Rightarrow> Inr (None :: string option) = Inl e
      | Inr (now, undo) \<Rightarrow> undo = None \<and> now = s\<lparr>sh_foreground_process := sh_foreground_process now\<rparr>"
    by blast
  obtain now undo where now: "answer = Inr (now, undo)" using same by (cases answer) auto
  then have "undo = None" "now = s\<lparr>sh_foreground_process := sh_foreground_process now\<rparr>" using same by simp_all
  moreover have "get (dst_shells ?later) ''t'' \<noteq> None"
    using shell_exact_stored [OF durable_okD(3) [OF du_created_ok] shell] by auto
  ultimately show ?thesis using launched answer now by blast
qed

section \<open>Reports about an Agent\<close>

definition report_all :: "(u64 \<times> string \<times> string \<times> agent_report) list \<Rightarrow> durable_state \<Rightarrow> durable_state" where
  "report_all reports = fold (\<lambda>(now, agent_id, rid, report) st. snd (report_agent now agent_id rid report st)) reports"

definition agent_progress :: "agent_instance \<Rightarrow> agent_instance \<Rightarrow> bool" where
  "agent_progress a b \<longleftrightarrow>
     (let obs = as_observation (ai_state a); obs' = as_observation (ai_state b) in
      b = a
      \<or> (as_ended_at_ms (ai_state a) = None \<and> obs_revision obs < obs_revision obs'
         \<and> agent_authority_rank (obs_authority obs) \<le> agent_authority_rank (obs_authority obs')
         \<and> obs_observed_at_ms obs \<le> obs_observed_at_ms obs' \<and> b = a\<lparr>ai_state := ai_state b\<rparr>))"

lemma agent_progress_trans: "agent_progress a b \<Longrightarrow> agent_progress b c \<Longrightarrow> agent_progress a c"
  unfolding agent_progress_def Let_def
  by (cases a; cases b; cases c) (auto intro: less_trans le_trans)

lemma report_progress:
  assumes "smap_ok (dst_agents st)" and "get (dst_agents st) i = Some a"
  shows "\<exists>b. get (dst_agents (snd (report_agent now agent_id rid report st))) i = Some b \<and> agent_progress a b"
proof -
  obtain r st' where result: "report_agent now agent_id rid report st = (r, st')" by fastforce
  show ?thesis
  proof (cases "st' = st")
    case True
    then show ?thesis using assms result by (simp add: agent_progress_def)
  next
    case False
    then obtain c revision where c: "get (dst_agents st) agent_id = Some c"
      "as_ended_at_ms (ai_state c) = None" "\<not> report_is_stale (as_observation (ai_state c)) report"
      "u64_checked_add (obs_revision (as_observation (ai_state c))) 1 = Some revision"
      "st' = upd_agent agent_id (\<lambda>a. a\<lparr>ai_state := reported_state now revision report c\<rparr>) st"
      using result
      by (cases r) (auto simp: report_agent_def find_agent_def Let_def op_simps modify_op_def ok_or_def
          split: if_splits option.splits)
    have "agent_progress c (c\<lparr>ai_state := reported_state now revision report c\<rparr>)"
      using c(2,3) u64_checked_add_one_less(1) [OF c(4)]
      by (simp add: agent_progress_def reported_state_def report_is_stale_def Let_def)
    then show ?thesis
      using result c(1,5) assms
      by (cases "i = agent_id") (auto simp: upd_agent_def get_alter agent_progress_def)
  qed
qed

lemma report_keeps_order: "smap_ok (dst_agents st) \<Longrightarrow> smap_ok (dst_agents (snd (report_agent now i rid report st)))"
  by (cases "report_agent now i rid report st")
    (auto simp: report_agent_def find_agent_def upd_agent_def Let_def op_simps op_defs
      split: if_splits prod.splits sum.splits)

text \<open>
  C4. Whatever reports about Agents arrive, of whomever and in whatever order, an Agent only makes
  progress: the revision of its observation rises with every accepted report, its authority and
  time never fall, nothing but its state is touched, and once it is completed no report changes it.
\<close>

theorem reports_only_progress:
  assumes "durable_ok env st" and "get (dst_agents st) i = Some a"
  shows "\<exists>b. get (dst_agents (report_all reports st)) i = Some b \<and> agent_progress a b"
proof -
  have "smap_ok (dst_agents st) \<Longrightarrow> get (dst_agents st) i = Some a
      \<Longrightarrow> \<exists>b. get (dst_agents (report_all reports st)) i = Some b \<and> agent_progress a b" for st a
  proof (induction reports arbitrary: st a)
    case Nil
    then show ?case by (simp add: report_all_def agent_progress_def)
  next
    case (Cons x xs)
    obtain now agent_id rid report where x: "x = (now, agent_id, rid, report)" by (cases x)
    let ?st = "snd (report_agent now agent_id rid report st)"
    obtain b where b: "get (dst_agents ?st) i = Some b" "agent_progress a b"
      using report_progress [OF Cons.prems] by blast
    obtain c where "get (dst_agents (report_all xs ?st)) i = Some c" "agent_progress b c"
      using Cons.IH [OF report_keeps_order [OF Cons.prems(1)] b(1)] by blast
    then show ?case
      using agent_progress_trans [OF b(2)] x by (auto simp: report_all_def)
  qed
  then show ?thesis using assms durable_okD(5) by blast
qed

definition du_registration :: agent_registration_spec where
  "du_registration = \<lparr>reg_name = ''n'', reg_integration = ''p'', reg_external_session_id = None,
     reg_report = \<lparr>rep_state = AgWorking, rep_authority = ProcessAdapter, rep_evidence = ''e'', rep_confidence = 9\<rparr>\<rparr>"

definition du_finished :: agent_report where
  "du_finished = \<lparr>rep_state = AgDone, rep_authority = LifecycleIntegration, rep_evidence = ''e'', rep_confidence = 9\<rparr>"

definition du_agent :: agent_instance where
  "du_agent = new_agent 3 ''i''
     \<lparr>ds_id = ''s'', ds_revision = 1, ds_workspace_id = ''w'', ds_name = ''a'', ds_cwd = [RootDir],
      ds_command = [], ds_last_run = None, ds_lifecycle = LcPending\<rparr> ''r'' du_registration"

definition du_working :: durable_state where
  "du_working = add_agent (\<lambda>_. 2) du_agent du_created"

lemma du_agent_ids: "ai_id du_agent = ''i''" "ai_workspace_id du_agent = ''w''"
  by (simp_all add: du_agent_def new_agent_def Let_def)

lemma du_working_ok: "durable_ok du_env du_working"
proof -
  have "shell_ok du_env \<lparr>ds_id = ''s'', ds_revision = 1, ds_workspace_id = ''w'', ds_name = ''a'', ds_cwd = [RootDir],
      ds_command = [], ds_last_run = None, ds_lifecycle = LcPending\<rparr>"
    using objects_okD [OF durable_okD(6) [OF du_created_ok], of "''s''"] by (simp add: du_created_def)
  moreover have "validate_agent_registration du_registration = Inr ()"
    by (simp add: validate_agent_registration_def du_registration_def daemon_validate_name_def is_blank_def
        validate_required_agent_string_def validate_agent_report_def daemon_max_name_bytes_def
        max_agent_evidence_bytes_def)
  ultimately have "agent_ok du_env du_agent"
    unfolding du_agent_def by (intro new_agent_ok) (simp_all add: uuid_parses_def du_env_def)
  then have "durable_change du_env du_created (UndoRegisteredAgent ''w'' ''i'') du_working"
    unfolding du_working_def du_agent_ids [symmetric]
    by (intro agent_registered [of _ _ "new_workspace ''w'' ''home'' None [''s'']"])
      (simp_all add: du_agent_ids du_created_def new_workspace_def u64_checked_add_def)
  then show ?thesis using du_created_ok by (rule change_ok)
qed

lemma du_working_agent: "get (dst_agents du_working) ''i'' = Some du_agent"
  by (simp add: du_working_def add_agent_def du_agent_ids du_created_def)

lemma reports_only_progress_witness:
  "\<exists>b. get (dst_agents (report_all [(9, ''i'', ''r'', du_finished)] du_working)) ''i'' = Some b
     \<and> agent_progress du_agent b"
  by (rule reports_only_progress [OF du_working_ok du_working_agent])

section \<open>An exhausted revision\<close>

text \<open>
  C38. A change that fails halfway is not undone: when the revision of a Workspace cannot be counted
  up any more, creating a Shell in it is refused, but the Shell is in the Workspace's list and in
  the map of Shells nevertheless, no record to undo it was made, and neither the file nor a reader
  of events learns of it.
\<close>

theorem exhausted_revision_half_change:
  assumes "durable_ok env (tw_state w)" and "get (dst_workspaces (tw_state w)) i = Some workspace"
    and "dw_revision workspace = - 1" and "create_pending_shell env i (rq_new_id rq) spec = Inr s"
    and "\<not> shell_name_taken (dw_shell_ids workspace) (ds_name s) (tw_state w)"
    and "\<not> tw_stopping w" and "flush_pending clock flush_window (lock_mutation w) = (Inr b, w1)"
  shows "\<exists>e w'. serve_request env clock flush_window window rq (RqCreateShell (Some i) spec) w = Some (Inl e, w')
    \<and> tw_state w' = add_shell (\<lambda>r. r) s (tw_state w) \<and> get (dst_shells (tw_state w')) (ds_id s) = Some s
    \<and> (tw_file w' = tw_file w \<or> tw_file w' = capture_persisted_state (tw_state w))
    \<and> sys_stream (tw_events w') = sys_stream (tw_events w1)"
proof -
  note fields = pending_fields [OF assms(4)]
  note flushed = flush_fields [OF assms(7), unfolded lock_fields]
  have "ds_lifecycle s = LcPending" using assms(4) by (auto simp: create_pending_shell_def bind_res_Inr)
  then obtain snapshot where snapshot: "shell_to_snapshot env s = Inr snapshot"
    by (simp add: shell_to_snapshot_def)
  have half: "create_shell env (rq_new_id rq) i spec (tw_state w)
      = (Inl (other_error ''workspace revision exhausted''), add_shell (\<lambda>r. r) s (tw_state w))"
  proof -
    let ?st = "(tw_state w)\<lparr>dst_shells := put (ds_id s) s (dst_shells (tw_state w))\<rparr>"
    let ?left = "upd_workspace i (dw_shell_ids_update (\<lambda>ids. ids @ [ds_id s])) ?st"
    have "get (dst_workspaces ?left) i = Some (dw_shell_ids_update (\<lambda>ids. ids @ [ds_id s]) workspace)"
      using assms(2) durable_okD(2) [OF assms(1)] by (simp add: upd_workspace_def get_alter)
    then have "bump_workspace i ?left = (Inl (other_error ''workspace revision exhausted''), ?left)"
      using assms(3) u64_checked_add_one_None [of "- 1"] by (simp add: bump_workspace_eq)
    then show ?thesis
      using assms(2,4,5) fields snapshot
      by (simp add: create_shell_def find_workspace_def insert_shell_def op_defs add_shell_def upd_workspace_def
        revision_same)
  qed
  have stored: "get (dst_shells (add_shell (\<lambda>r. r) s (tw_state w))) (ds_id s) = Some s"
    using durable_okD(3) [OF assms(1)] by (simp add: add_shell_def get_put)
  have op: "create_shell_handler env rq (Some i) spec ([], tw_state w)
      = Some (Inl (daemon_error_of (other_error ''workspace revision exhausted'')), [],
              add_shell (\<lambda>r. r) s (tw_state w))"
    using half
    by (simp add: create_shell_handler_def bind_log_def do_op_def recorded_def io_op_def)
  show ?thesis
    using assms(6,7) flushed stored
    by (simp add: serve_request_def request_operation_def durable_mutation_outcome_def Let_def ensure_running_def
        attempt_operation_def op undone_def unlock_mutation_def rollback_log_def)
qed

definition du_exhausted :: durable_state where
  "du_exhausted = upd_workspace ''w'' (dw_revision_update (\<lambda>_. - 1)) du_created"

definition du_last :: transaction_world where
  "du_last = du_start\<lparr>tw_state := du_exhausted\<rparr>"

definition du_last_rq :: request_inputs where
  "du_last_rq = du_rq\<lparr>rq_new_id := ''t''\<rparr>"

lemma du_exhausted_ok: "durable_ok du_env du_exhausted"
  unfolding du_exhausted_def
  by (rule durable_ok_upd_workspace [OF du_created_ok workspaces_ok_keep])
    (use durable_okD(1) [OF du_created_ok] in \<open>auto simp: workspaces_ok_def word_order.extremum\<close>)

lemma exhausted_revision_half_change_witness:
  "\<exists>e w'. serve_request du_env (\<lambda>i. i) du_quiet du_quiet du_last_rq (RqCreateShell (Some ''w'') (du_named ''b'')) du_last
      = Some (Inl e, w') \<and> get (dst_shells (tw_state w')) ''t'' \<noteq> None"
proof -
  let ?w = "dw_revision_update (\<lambda>_. - 1) (new_workspace ''w'' ''home'' None [''s''])"
  let ?s = "\<lparr>ds_id = ''t'', ds_revision = 1, ds_workspace_id = ''w'', ds_name = ''b'', ds_cwd = [RootDir],
     ds_command = [], ds_last_run = None, ds_lifecycle = LcPending\<rparr>"
  have state: "tw_state du_last = du_exhausted" "\<not> tw_stopping du_last"
    by (simp_all add: du_last_def du_start_def)
  have w: "get (dst_workspaces (tw_state du_last)) ''w'' = Some ?w"
    by (simp add: state du_exhausted_def upd_workspace_def alter_def du_created_def)
  have s: "create_pending_shell du_env ''w'' (rq_new_id du_last_rq) (du_named ''b'') = Inr ?s"
    by (simp add: create_pending_shell_def du_last_rq_def du_rq_def du_named_def du_env_def
        daemon_validate_name_def is_blank_def daemon_max_name_bytes_def validate_cwd_def is_absolute_def)
  have name: "\<not> shell_name_taken (dw_shell_ids ?w) (ds_name ?s) (tw_state du_last)"
    by (simp add: state shell_name_taken_def new_workspace_def du_exhausted_def upd_workspace_def du_created_def)
  have flush: "flush_pending (\<lambda>i. i) du_quiet (lock_mutation du_last)
      = (Inr False, du_last\<lparr>tw_events := (tw_events du_start)\<lparr>sys_mutation := Some (Mutating True)\<rparr>\<rparr>)"
    using du_flush
    by (simp add: flush_pending_def flush_begin_def lock_mutation_def du_last_def du_start_def initial_system_def
        pending_durable_batch_count_def new_stream_def empty_transition_state_def Let_def)
  have start: "durable_ok du_env (tw_state du_last)" and revision: "dw_revision ?w = - 1"
    by (simp_all add: state du_exhausted_ok)
  obtain e w' where
    "serve_request du_env (\<lambda>i. i) du_quiet du_quiet du_last_rq (RqCreateShell (Some ''w'') (du_named ''b'')) du_last
      = Some (Inl e, w')" and stored: "get (dst_shells (tw_state w')) (ds_id ?s) = Some ?s"
    using exhausted_revision_half_change [OF start w revision s name state(2) flush, of du_quiet] by blast
  moreover have "get (dst_shells (tw_state w')) ''t'' \<noteq> None" using stored by simp
  ultimately show ?thesis by blast
qed

end
