(* ===== verification/Shell_Journal.thy ===== *)
theory Shell_Journal
  imports Durable_State
begin

text \<open>
  The journal of local Shells, \<open>src/src/local_shell_journal.rs\<close>: a file of one line for each
  record, appended and synchronised before a client is answered, replayed at the next start and
  emptied once the state files hold everything. A line is what \<open>serde_json\<close> makes of an entry with
  the SHA-256 digest of its record; the functions of these crates are the parameter \<open>journal_env\<close>.

  The file is its bytes. How a write ends is an argument: an append can fail after any number of
  bytes, and so can cutting the file back; a crash leaves whatever has been written.
\<close>

section \<open>Records\<close>

record local_shell_transaction =
  lst_operation_id :: string
  lst_request_fingerprint :: string
  lst_request_bytes :: nat
  lst_global_workspace_id :: string
  lst_expected_global_revision :: u64
  lst_node_id :: string
  lst_requested_owner_workspace_id :: string
  lst_owner_workspace_id :: string
  lst_owner_workspace_name :: string
  lst_owner_revision :: u64
  lst_default_cwd :: "path option"
  lst_shell_id :: string
  lst_shell :: shell_spec
  lst_result_shell :: shell_snapshot

record local_shell_start_transaction =
  lss_shell_id :: string
  lss_run :: persisted_shell_run

datatype local_shell_journal_record =
    JournalCreate local_shell_transaction
  | JournalStart local_shell_start_transaction

record journal_entry =
  je_version :: u32
  je_record :: local_shell_journal_record
  je_checksum :: string

record journal_env =
  jn_record_bytes :: "local_shell_journal_record \<Rightarrow> string res"
  jn_entry_bytes :: "journal_entry \<Rightarrow> string res"
  jn_parse :: "string \<Rightarrow> string + journal_entry"
  jn_digest :: "string \<Rightarrow> string"

text \<open>\<open>JournalState\<close>, with the bytes of the open file.\<close>

record shell_journal =
  jo_file :: string
  jo_records :: "local_shell_journal_record list"
  jo_failed :: bool

definition journal_version :: u32 where
  "journal_version = 1"

definition journal_max_bytes :: nat where
  "journal_max_bytes = 8 * 1024 * 1024"

section \<open>Checking and reading\<close>

text \<open>The loop of \<open>validate_sequence\<close>, with its map of generations and its set of run ids.\<close>

fun check_sequence ::
    "(string \<rightharpoonup> u64) \<Rightarrow> string set \<Rightarrow> local_shell_journal_record list \<Rightarrow> unit res" where
  "check_sequence generations run_ids [] = Inr ()"
| "check_sequence generations run_ids (JournalCreate t # records) =
     (if generations (lst_shell_id t) \<noteq> None
      then Inl (invalid ''local Shell journal contains a duplicate creation'')
      else check_sequence (generations(lst_shell_id t \<mapsto> 0)) run_ids records)"
| "check_sequence generations run_ids (JournalStart t # records) =
     (case generations (lss_shell_id t) of
        None \<Rightarrow> Inl (invalid ''local Shell journal start does not follow its creation'')
      | Some generation \<Rightarrow>
          bind_res (ok_or (u64_checked_add generation 1)
                      (invalid ''local Shell journal run generation exhausted'')) (\<lambda>expected.
          if psr_generation (lss_run t) \<noteq> expected \<or> psr_ended_at_ms (lss_run t) \<noteq> None
             \<or> psr_exit_reason (lss_run t) \<noteq> None \<or> psr_id (lss_run t) \<in> run_ids
          then Inl (invalid ''local Shell journal contains an invalid run sequence'')
          else check_sequence (generations(lss_shell_id t \<mapsto> expected))
                 (insert (psr_id (lss_run t)) run_ids) records))"

definition validate_sequence :: "local_shell_journal_record list \<Rightarrow> unit res" where
  "validate_sequence = check_sequence (\<lambda>_. None) {}"

definition newline :: char where
  "newline = CHR 0x0A"

text \<open>The next line of \<open>split_inclusive\<close> without its newline, and what follows; \<open>None\<close> when no
  newline is left.\<close>

fun split_line :: "string \<Rightarrow> (string \<times> string) option" where
  "split_line [] = None"
| "split_line (c # cs) =
     (if c = newline then Some ([], cs)
      else case split_line cs of None \<Rightarrow> None | Some (line, rest) \<Rightarrow> Some (c # line, rest))"

lemma split_line_length: "split_line cs = Some (line, rest) \<Longrightarrow> length cs = length line + Suc (length rest)"
  by (induction cs arbitrary: line) (auto split: if_splits option.splits)

definition check_entry :: "journal_env \<Rightarrow> string \<Rightarrow> local_shell_journal_record res" where
  "check_entry env line =
     (case jn_parse env line of
        Inl error \<Rightarrow> Inl (invalid (''could not parse local Shell transaction: '' @ error))
      | Inr entry \<Rightarrow>
          if je_version entry \<noteq> journal_version
          then Inl (invalid (''unsupported local Shell transaction version ''
                 @ show_nat (unat (je_version entry)) @ ''; expected 1''))
          else
            bind_res (jn_record_bytes env (je_record entry)) (\<lambda>payload.
            if je_checksum entry \<noteq> jn_digest env payload
            then Inl (invalid ''local Shell transaction checksum does not match'')
            else Inr (je_record entry)))"

function parse_lines ::
    "journal_env \<Rightarrow> local_shell_journal_record list \<Rightarrow> nat \<Rightarrow> string
     \<Rightarrow> (local_shell_journal_record list \<times> nat) res" where
  "parse_lines env records offset bytes =
     (case split_line bytes of
        None \<Rightarrow> Inr (records, offset)
      | Some (line, rest) \<Rightarrow>
          bind_res (check_entry env line) (\<lambda>record.
            parse_lines env (records @ [record]) (offset + Suc (length line)) rest))"
  by pat_completeness auto

termination
  by (relation "measure (\<lambda>(env, records, offset, bytes). length bytes)") (auto dest: split_line_length)

declare parse_lines.simps [simp del]

definition parse_records :: "journal_env \<Rightarrow> string \<Rightarrow> (local_shell_journal_record list \<times> nat) res" where
  "parse_records env bytes =
     bind_res (parse_lines env [] 0 bytes) (\<lambda>(records, offset).
     bind_res (validate_sequence records) (\<lambda>_. Inr (records, offset)))"

section \<open>The journal\<close>

text \<open>
  \<open>load_at\<close>: \<open>opened\<close> is the outcome of opening the file and of \<open>metadata\<close>, and \<open>truncated\<close> that of
  \<open>set_len\<close> and \<open>sync_data\<close> on an incomplete last line.
\<close>

record journal_metadata =
  jm_is_file :: bool
  jm_uid :: u32
  jm_mode :: u32
  jm_len :: nat

unbundle bit_operations_syntax

definition journal_load_at ::
    "journal_env \<Rightarrow> u32 \<Rightarrow> journal_metadata res \<Rightarrow> string \<Rightarrow> unit res \<Rightarrow> shell_journal res" where
  "journal_load_at env effective_uid opened bytes truncated =
     bind_res opened (\<lambda>m.
     if \<not> jm_is_file m \<or> jm_uid m \<noteq> effective_uid
     then Inl (IoError PermissionDenied ''local Shell transaction journal is not an owned regular file'')
     else if jm_mode m AND 63 \<noteq> 0
     then Inl (IoError PermissionDenied ''local Shell transaction journal is not owner-only'')
     else if journal_max_bytes < jm_len m \<or> journal_max_bytes < length bytes
     then Inl (invalid ''local Shell transaction journal exceeds the size limit'')
     else
       bind_res (parse_records env bytes) (\<lambda>(records, valid_bytes).
       if valid_bytes < length bytes
       then bind_res truncated (\<lambda>_.
              Inr \<lparr>jo_file = take valid_bytes bytes, jo_records = records, jo_failed = False\<rparr>)
       else Inr \<lparr>jo_file = bytes, jo_records = records, jo_failed = False\<rparr>))"

definition ensure_usable :: "shell_journal \<Rightarrow> unit res" where
  "ensure_usable j =
     (if jo_failed j
      then Inl (other_error ''local Shell transaction journal has an ambiguous failed append'') else Inr ())"

definition journal_records :: "shell_journal \<Rightarrow> local_shell_journal_record list res" where
  "journal_records j = bind_res (ensure_usable j) (\<lambda>_. Inr (jo_records j))"

text \<open>
  How the write of an append ends: it is done; \<open>metadata\<close> fails before it; or it fails when \<open>written\<close>
  bytes are in the file, which is then cut back, unless that fails too and leaves them.
\<close>

datatype append_io =
    AppendDone
  | AppendMetadataFails io_error
  | AppendFails io_error nat "io_error option"

definition journal_entry_of :: "journal_env \<Rightarrow> local_shell_journal_record \<Rightarrow> string \<Rightarrow> journal_entry" where
  "journal_entry_of env record payload =
     \<lparr>je_version = journal_version, je_record = record, je_checksum = jn_digest env payload\<rparr>"

definition journal_line :: "journal_env \<Rightarrow> local_shell_journal_record \<Rightarrow> string res" where
  "journal_line env record =
     bind_res (jn_record_bytes env record) (\<lambda>payload.
     bind_res (jn_entry_bytes env (journal_entry_of env record payload)) (\<lambda>bytes. Inr (bytes @ [newline])))"

definition append_rollback_error :: "io_error \<Rightarrow> io_error \<Rightarrow> io_error" where
  "append_rollback_error error rollback =
     IoError (err_kind error)
       (''local Shell journal append failed: '' @ err_message error @ ''; rollback also failed: ''
         @ err_message rollback)"

definition journal_append ::
    "journal_env \<Rightarrow> append_io \<Rightarrow> local_shell_journal_record \<Rightarrow> shell_journal \<Rightarrow> unit res \<times> shell_journal" where
  "journal_append env io record j =
     (case bind_res (journal_line env record) (\<lambda>line.
           bind_res (ensure_usable j) (\<lambda>_.
           bind_res (validate_sequence (jo_records j @ [record])) (\<lambda>_.
           bind_res (case io of AppendMetadataFails e \<Rightarrow> Inl e | _ \<Rightarrow> Inr (length (jo_file j))) (\<lambda>current.
           if journal_max_bytes < usize_saturating_add current (length line)
           then Inl (invalid ''local Shell transaction journal exceeds the size limit'')
           else Inr line)))) of
        Inl e \<Rightarrow> (Inl e, j)
      | Inr line \<Rightarrow>
          (case io of
             AppendFails error written (Some rollback) \<Rightarrow>
               (Inl (append_rollback_error error rollback),
                j\<lparr>jo_file := jo_file j @ take written line, jo_failed := True\<rparr>)
           | AppendFails error _ None \<Rightarrow> (Inl error, j)
           | _ \<Rightarrow> (Inr (), j\<lparr>jo_file := jo_file j @ line, jo_records := jo_records j @ [record]\<rparr>)))"

definition contains_create :: "string \<Rightarrow> shell_journal \<Rightarrow> bool res" where
  "contains_create shell_id j =
     bind_res (ensure_usable j) (\<lambda>_. Inr (list_ex (\<lambda>record. case record of
        JournalCreate t \<Rightarrow> lst_shell_id t = shell_id | JournalStart _ \<Rightarrow> False) (jo_records j)))"

text \<open>\<open>set_len(0)\<close> fails; what follows it fails; or all is done.\<close>

datatype clear_io = ClearDone | ClearFails io_error | ClearSyncFails io_error

definition clear_state :: "clear_io \<Rightarrow> shell_journal \<Rightarrow> unit res \<times> shell_journal" where
  "clear_state io j =
     (case io of
        ClearFails e \<Rightarrow> (Inl e, j)
      | ClearSyncFails e \<Rightarrow> (Inl e, j\<lparr>jo_file := []\<rparr>)
      | ClearDone \<Rightarrow> (Inr (), j\<lparr>jo_file := [], jo_records := []\<rparr>))"

definition journal_clear :: "clear_io \<Rightarrow> shell_journal \<Rightarrow> unit res \<times> shell_journal" where
  "journal_clear io j =
     (case ensure_usable j of Inl e \<Rightarrow> (Inl e, j) | Inr _ \<Rightarrow> clear_state io j)"

definition reset_after_full_checkpoint :: "clear_io \<Rightarrow> shell_journal \<Rightarrow> unit res \<times> shell_journal" where
  "reset_after_full_checkpoint io j =
     (case clear_state io j of
        (Inl e, j) \<Rightarrow> (Inl e, j)
      | (Inr _, j) \<Rightarrow> (Inr (), j\<lparr>jo_failed := False\<rparr>))"

definition journal_is_empty :: "shell_journal \<Rightarrow> bool res" where
  "journal_is_empty j = bind_res (ensure_usable j) (\<lambda>_. Inr (jo_records j = []))"

end
