(* ===== verification/Local_Shell.thy ===== *)
theory Local_Shell
  imports Durable_Transaction Gw_Resources Shell_Journal
begin

text \<open>
  Creating a Shell of a global Workspace on the coordinator's own Node,
  \<open>DaemonService::create_local_global_workspace_shell\<close> of \<open>src/src/daemon.rs\<close>, with the checkpoint
  of the journal it uses and the replay of the journal at the next start. The Shell is made in the
  durable state and completed in the coordinator's Workspace store in memory only; the one thing
  written before the client is answered is a record in the journal.
\<close>

section \<open>State and request\<close>

record local_world =
  lw_core :: transaction_world
  lw_store :: gw_store
  lw_journal :: shell_journal

record local_shell_request =
  cl_operation_id :: string
  cl_request_fingerprint :: string
  cl_request_bytes :: nat
  cl_global_workspace_id :: string
  cl_expected_global_revision :: u64
  cl_node_id :: string
  cl_requested_owner_workspace_id :: string
  cl_default_cwd :: "path option"
  cl_shell_id :: string
  cl_shell :: shell_spec

record local_env =
  le_registry :: registry_env
  le_store :: gw_env
  le_journal :: journal_env
  le_clock :: "u64 \<Rightarrow> u64"

text \<open>\<open>str::contains\<close>.\<close>

definition contains_text :: "string \<Rightarrow> string \<Rightarrow> bool" where
  "contains_text part s = list_ex (\<lambda>n. take (length part) (drop n s) = part) [0..<Suc (length s)]"

definition global_workspace_error :: "io_error \<Rightarrow> daemon_error" where
  "global_workspace_error error =
     (if err_kind error = InvalidInput \<and> contains_text ''revision changed'' (err_message error)
      then de_lifecycle EcRevisionChanged (err_message error)
      else daemon_error_of error)"

definition lift_global :: "'a res \<Rightarrow> 'a daemon_result" where
  "lift_global r = (case r of Inl e \<Rightarrow> Inl (global_workspace_error e) | Inr x \<Rightarrow> Inr x)"

section \<open>Before the locks are taken\<close>

text \<open>
  The answer of an operation that is already completed, or what the request was checked against:
  the global Workspace, and the name and directory of the Workspace on this Node.
  \<open>unavailable\<close> is why \<open>combined_node_snapshot\<close> does not show this Node as an eligible owner.
\<close>

datatype local_preflight =
    PreflightDone global_workspace_snapshot routed_operation_result
  | PreflightOk global_workspace_snapshot string "path option"

definition local_shell_preflight ::
    "local_env \<Rightarrow> daemon_error option \<Rightarrow> local_shell_request \<Rightarrow> local_world \<Rightarrow> local_preflight daemon_result" where
  "local_shell_preflight env unavailable rq w =
     (case lift_global (gws_completed_operation (lw_store w) (cl_operation_id rq) (cl_request_fingerprint rq)) of
        Inl e \<Rightarrow> Inl e
      | Inr (Some c) \<Rightarrow> Inr (PreflightDone (co_workspace c) (co_resource c))
      | Inr None \<Rightarrow>
          (case lift_global (gws_get (lw_store w) (cl_global_workspace_id rq)) of
             Inl e \<Rightarrow> Inl e
           | Inr g \<Rightarrow>
               (case require_guard (gw_revision g) (cl_expected_global_revision rq) ''global Workspace'' of
                  Inl e \<Rightarrow> Inl e
                | Inr _ \<Rightarrow>
                    if gw_closing g then Inl (de_lifecycle EcBusy ''global Workspace close is in progress'')
                    else
                      (case unavailable of
                         Some e \<Rightarrow> Inl e
                       | None \<Rightarrow>
                           (case find_placement g (cl_node_id rq) of
                              None \<Rightarrow> Inr (PreflightOk g (gw_name g) (cl_default_cwd rq))
                            | Some placement \<Rightarrow>
                                (case snapshot_workspace (le_registry env) (pl_workspace_id placement)
                                        (tw_state (lw_core w)) of
                                   (Inl e, _) \<Rightarrow> Inl e
                                 | (Inr owner, _) \<Rightarrow>
                                     Inr (PreflightOk g (ws_name owner) (ws_default_cwd owner))))))))"

section \<open>Under the locks\<close>

text \<open>
  What the global Workspace has become since: \<open>Some\<close> of the placement, when the only change is that
  another request has placed it on this Node.
\<close>

definition concurrent_owner ::
    "string \<Rightarrow> global_workspace_snapshot \<Rightarrow> global_workspace_snapshot \<Rightarrow> workspace_placement_snapshot option" where
  "concurrent_owner node_id g current =
     (let mine = (\<lambda>p. pl_node_id p = node_id \<and> p \<notin> set (gw_placements g)) in
      if gw_revision current = (if gw_revision g = - 1 then - 1 else gw_revision g + 1)
         \<and> gw_name current = gw_name g \<and> gw_closing current = gw_closing g
         \<and> length (gw_placements current) = length (gw_placements g) + 1
         \<and> list_all (\<lambda>p. p \<in> set (gw_placements current)) (gw_placements g)
         \<and> list_ex mine (gw_placements current)
      then List.find mine (gw_placements current) else None)"

text \<open>The preparation with what is admitted: the state the request was checked against, or the
  placement another request has made.\<close>

definition admitted_request ::
    "local_shell_request \<Rightarrow> global_workspace_snapshot \<Rightarrow> string \<Rightarrow> path option
     \<Rightarrow> global_workspace_snapshot \<Rightarrow> resource_request" where
  "admitted_request rq g owner_name owner_cwd current =
     (let owner = concurrent_owner (cl_node_id rq) g current in
      \<lparr>rq_global_id = cl_global_workspace_id rq, rq_operation_id = cl_operation_id rq,
       rq_request_fingerprint = cl_request_fingerprint rq, rq_request_bytes = cl_request_bytes rq,
       rq_expected_global_revision =
         (case owner of None \<Rightarrow> cl_expected_global_revision rq | Some _ \<Rightarrow> gw_revision current),
       rq_node_id = cl_node_id rq,
       rq_requested_owner_workspace_id = cl_requested_owner_workspace_id rq,
       rq_owner_workspace_name =
         (case owner of None \<Rightarrow> owner_name
          | Some p \<Rightarrow> (case pl_owner_workspace_name p of None \<Rightarrow> owner_name | Some name \<Rightarrow> name)),
       rq_default_cwd = (case owner of None \<Rightarrow> owner_cwd | Some p \<Rightarrow> pl_default_cwd p),
       rq_resource_id = cl_shell_id rq, rq_kind = KindShell, rq_owner_attempted = True\<rparr>)"

text \<open>The Workspace and the Shell, with their undo records and events.\<close>

definition local_shell_operation ::
    "registry_env \<Rightarrow> pending_workspace_resource \<Rightarrow> shell_spec
     \<Rightarrow> (shell_snapshot \<times> daemon_event_kind list) lop" where
  "local_shell_operation env p spec =
     bind_log (do_op (\<lambda>(_, u). record_of u)
                 (io_op (create_workspace_exact env (pr_owner_workspace_id p) (pr_owner_workspace_name p)
                           (pr_default_cwd p))))
       (\<lambda>(workspace, workspace_undo).
     bind_log (do_op (\<lambda>(_, u). record_of u)
                 (io_op (create_shell_exact env (pr_owner_workspace_id p) (pr_resource_id p) spec)))
       (\<lambda>(s, shell_undo).
       return_log (s,
         (if workspace_undo \<noteq> None then [EvWorkspaceCreated (ws_id workspace) (ws_name workspace)] else [])
         @ (if shell_undo \<noteq> None
            then [EvShellCreated (pr_owner_workspace_id p) (sh_id s) (sh_name s)] else []))))"

definition local_transaction_of ::
    "local_shell_request \<Rightarrow> resource_request \<Rightarrow> pending_workspace_resource \<Rightarrow> workspace_snapshot
     \<Rightarrow> shell_snapshot \<Rightarrow> local_shell_transaction" where
  "local_transaction_of rq admitted p owner s =
     \<lparr>lst_operation_id = cl_operation_id rq, lst_request_fingerprint = cl_request_fingerprint rq,
      lst_request_bytes = cl_request_bytes rq, lst_global_workspace_id = cl_global_workspace_id rq,
      lst_expected_global_revision = rq_expected_global_revision admitted, lst_node_id = cl_node_id rq,
      lst_requested_owner_workspace_id = cl_requested_owner_workspace_id rq,
      lst_owner_workspace_id = pr_owner_workspace_id p, lst_owner_workspace_name = pr_owner_workspace_name p,
      lst_owner_revision = ws_revision owner, lst_default_cwd = pr_default_cwd p,
      lst_shell_id = cl_shell_id rq, lst_shell = cl_shell rq, lst_result_shell = s\<rparr>"

text \<open>
  What \<open>create_local_global_workspace_shell\<close> does between taking the transaction on the store and
  writing the journal. The durable state is changed in place; the store's changes are staged.
\<close>

datatype local_attempt =
    LocalAnswered "(global_workspace_snapshot \<times> routed_operation_result) daemon_result"
  | LocalJournaling completed_workspace_operation "daemon_event_kind list" "durable_undo list"
      gw_transaction local_shell_transaction

definition local_undone :: "durable_undo list \<Rightarrow> durable_state \<Rightarrow> local_world \<Rightarrow> local_world" where
  "local_undone log st w = w\<lparr>lw_core := (lw_core w)\<lparr>tw_state := rollback_log log st\<rparr>\<rparr>"

definition local_attempt_creation ::
    "local_env \<Rightarrow> local_shell_request \<Rightarrow> global_workspace_snapshot \<Rightarrow> string \<Rightarrow> path option
     \<Rightarrow> local_world \<Rightarrow> (local_attempt \<times> local_world) option" where
  "local_attempt_creation env rq g owner_name owner_cwd w =
     (let core = lw_core w; t = gws_transaction (lw_store w) in
      case lift_global (tx_get t (cl_global_workspace_id rq)) of
        Inl e \<Rightarrow> Some (LocalAnswered (Inl e), w)
      | Inr current \<Rightarrow>
          (let admitted = admitted_request rq g owner_name owner_cwd current in
           case tx_prepare_resource_for_attempt (le_store env) admitted t of
             (Inl e, _) \<Rightarrow> Some (LocalAnswered (Inl (global_workspace_error e)), w)
           | (Inr (PreparedCompleted c), _) \<Rightarrow> Some (LocalAnswered (Inr (co_workspace c, co_resource c)), w)
           | (Inr (PreparedPending p _), t) \<Rightarrow>
               (case local_shell_operation (le_registry env) p (cl_shell rq) ([], tw_state core) of
                  None \<Rightarrow> None
                | Some (Inl e, log, st) \<Rightarrow>
                    Some (LocalAnswered (Inl (mutation_failure e (Inr ()))), local_undone log st w)
                | Some (Inr (s, kinds), log, st) \<Rightarrow> Some
                    (case reserve_with_pending (sys_stream (tw_events core)) (length kinds) of
                       Inl e \<Rightarrow> (LocalAnswered (Inl (mutation_failure (daemon_error_of e) (Inr ()))),
                                 local_undone log st w)
                     | Inr _ \<Rightarrow>
                         (case snapshot_workspace (le_registry env) (pr_owner_workspace_id p) st of
                            (Inl e, _) \<Rightarrow> (LocalAnswered (Inl (mutation_failure e (Inr ()))), local_undone log st w)
                          | (Inr owner, _) \<Rightarrow>
                              (case tx_complete_resource (le_store env) p owner (RoutedShell s) t of
                                 (Inl e, _) \<Rightarrow>
                                   (LocalAnswered (Inl (mutation_failure (global_workspace_error e) (Inr ()))),
                                    local_undone log st w)
                               | (Inr c, t) \<Rightarrow>
                                   (LocalJournaling c kinds log t (local_transaction_of rq admitted p owner s),
                                    w\<lparr>lw_core := core
                                       \<lparr>tw_state := st,
                                        tw_events := (tw_events core)
                                          \<lparr>sys_stream := begin_persistence (length kinds)
                                             (sys_stream (tw_events core))\<rparr>\<rparr>\<rparr>)))))))"

text \<open>The append to the journal, during which other threads publish events, and what follows it.\<close>

definition end_local_write :: "(u64 \<Rightarrow> u64) \<Rightarrow> daemon_event_kind list \<Rightarrow> event_system \<Rightarrow> event_system" where
  "end_local_write clock kinds s =
     s\<lparr>sys_stream := finish_persistence clock (tx_append_batch clock kinds (sys_stream s))\<rparr>"

definition abandon_local_write :: "(u64 \<Rightarrow> u64) \<Rightarrow> event_system \<Rightarrow> event_system" where
  "abandon_local_write clock s = s\<lparr>sys_stream := finish_persistence clock (sys_stream s)\<rparr>"

definition local_journal_creation ::
    "local_env \<Rightarrow> append_io \<Rightarrow> (event_system \<Rightarrow> event_system) \<Rightarrow> completed_workspace_operation
     \<Rightarrow> daemon_event_kind list \<Rightarrow> durable_undo list \<Rightarrow> gw_transaction \<Rightarrow> local_shell_transaction
     \<Rightarrow> local_world \<Rightarrow> (global_workspace_snapshot \<times> routed_operation_result) daemon_result \<times> local_world" where
  "local_journal_creation env io meanwhile c kinds log t transaction w =
     (let core = lw_core w; s = meanwhile (tw_events core) in
      case journal_append (le_journal env) io (JournalCreate transaction) (lw_journal w) of
        (Inl e, j) \<Rightarrow>
          (Inl (mutation_failure (de_persistence e) (Inr ())),
           w\<lparr>lw_core := core\<lparr>tw_state := rollback_log log (tw_state core),
                             tw_events := abandon_local_write (le_clock env) s\<rparr>,
             lw_journal := j\<rparr>)
      | (Inr _, j) \<Rightarrow>
          (case tx_commit (le_store env) t of
             (Inl e, _) \<Rightarrow> (Inl (de_persistence e), w\<lparr>lw_core := core\<lparr>tw_events := s\<rparr>, lw_journal := j\<rparr>)
           | (Inr _, store) \<Rightarrow>
               (Inr (co_workspace c, co_resource c),
                w\<lparr>lw_core := core\<lparr>tw_events := end_local_write (le_clock env) kinds s\<rparr>,
                  lw_store := store, lw_journal := j\<rparr>)))"

definition unlock_local :: "local_world \<Rightarrow> local_world" where
  "unlock_local w = w\<lparr>lw_core := unlock_mutation (lw_core w)\<rparr>"

definition create_local_shell_locked ::
    "local_env \<Rightarrow> write_window \<Rightarrow> append_io \<Rightarrow> (event_system \<Rightarrow> event_system) \<Rightarrow> local_shell_request
     \<Rightarrow> global_workspace_snapshot \<Rightarrow> string \<Rightarrow> path option \<Rightarrow> local_world
     \<Rightarrow> ((global_workspace_snapshot \<times> routed_operation_result) daemon_result \<times> local_world) option" where
  "create_local_shell_locked env flush_window io meanwhile rq g owner_name owner_cwd w =
     (let core = lock_mutation (lw_core w) in
      case ensure_running core of
        Inl e \<Rightarrow> Some (Inl (daemon_error_of e), w\<lparr>lw_core := unlock_mutation core\<rparr>)
      | Inr _ \<Rightarrow>
          (case flush_pending (le_clock env) flush_window core of
             (Inl e, core) \<Rightarrow> Some (Inl e, w\<lparr>lw_core := unlock_mutation core\<rparr>)
           | (Inr _, core) \<Rightarrow>
               (case local_attempt_creation env rq g owner_name owner_cwd (w\<lparr>lw_core := core\<rparr>) of
                  None \<Rightarrow> None
                | Some (LocalAnswered r, w) \<Rightarrow> Some (r, unlock_local w)
                | Some (LocalJournaling c kinds log t transaction, w) \<Rightarrow>
                    (case local_journal_creation env io meanwhile c kinds log t transaction w of
                       (r, w) \<Rightarrow> Some (r, unlock_local w)))))"

text \<open>
  The whole request: what other threads do between the checks and the locks is \<open>between\<close>.
\<close>

definition create_local_global_workspace_shell ::
    "local_env \<Rightarrow> daemon_error option \<Rightarrow> (local_world \<Rightarrow> local_world) \<Rightarrow> write_window \<Rightarrow> append_io
     \<Rightarrow> (event_system \<Rightarrow> event_system) \<Rightarrow> local_shell_request \<Rightarrow> local_world
     \<Rightarrow> ((global_workspace_snapshot \<times> routed_operation_result) daemon_result \<times> local_world) option" where
  "create_local_global_workspace_shell env unavailable between flush_window io meanwhile rq w =
     (case local_shell_preflight env unavailable rq w of
        Inl e \<Rightarrow> Some (Inl e, w)
      | Inr (PreflightDone g resource) \<Rightarrow> Some (Inr (g, resource), w)
      | Inr (PreflightOk g owner_name owner_cwd) \<Rightarrow>
          create_local_shell_locked env flush_window io meanwhile rq g owner_name owner_cwd (between w))"

section \<open>The checkpoint\<close>

text \<open>\<open>write_persisted_state\<close> of a state captured now, while other threads use the event stream.\<close>

definition write_captured :: "write_window \<Rightarrow> transaction_world \<Rightarrow> unit res \<times> transaction_world" where
  "write_captured window w =
     (let captured = sys_revision (tw_events w); saved = capture_persisted_state (tw_state w);
          s = win_meanwhile window (tw_events w) in
      case win_error window of
        Some e \<Rightarrow> (Inl e, w\<lparr>tw_events := s\<lparr>sys_dirty := True\<rparr>\<rparr>)
      | None \<Rightarrow>
          (Inr (), w\<lparr>tw_file := saved,
             tw_events := s\<lparr>sys_dirty := sys_dirty s \<and> sys_revision s \<noteq> captured\<rparr>\<rparr>))"

definition checkpoint_local_with_mutation ::
    "local_env \<Rightarrow> write_window \<Rightarrow> clear_io \<Rightarrow> local_world \<Rightarrow> unit res \<times> local_world" where
  "checkpoint_local_with_mutation env window io w =
     (case journal_is_empty (lw_journal w) of
        Inl e \<Rightarrow> (Inl e, w)
      | Inr True \<Rightarrow> (Inr (), w)
      | Inr False \<Rightarrow>
          (case write_captured window (lw_core w) of
             (Inl e, core) \<Rightarrow> (Inl e, w\<lparr>lw_core := core\<rparr>)
           | (Inr _, core) \<Rightarrow>
               (case gws_checkpoint (le_store env) (lw_store w) of
                  (Inl e, store) \<Rightarrow> (Inl e, w\<lparr>lw_core := core, lw_store := store\<rparr>)
                | (Inr _, store) \<Rightarrow>
                    (case journal_clear io (lw_journal w) of
                       (r, j) \<Rightarrow> (r, w\<lparr>lw_core := core, lw_store := store, lw_journal := j\<rparr>)))))"

definition checkpoint_local_shell_transactions ::
    "local_env \<Rightarrow> write_window \<Rightarrow> clear_io \<Rightarrow> local_world \<Rightarrow> unit res \<times> local_world" where
  "checkpoint_local_shell_transactions env window io w =
     (case journal_is_empty (lw_journal w) of
        Inl e \<Rightarrow> (Inl e, w)
      | Inr True \<Rightarrow> (Inr (), w)
      | Inr False \<Rightarrow>
          (case checkpoint_local_with_mutation env window io (w\<lparr>lw_core := lock_mutation (lw_core w)\<rparr>) of
             (r, w) \<Rightarrow> (r, unlock_local w)))"

text \<open>\<open>durable_mutation_outcome\<close> with the checkpoint that it begins with.\<close>

definition checkpointed_mutation ::
    "local_env \<Rightarrow> write_window \<Rightarrow> clear_io \<Rightarrow> write_window \<Rightarrow> write_window \<Rightarrow> 'a durable_mutation lop
     \<Rightarrow> local_world \<Rightarrow> ('a daemon_result \<times> local_world) option" where
  "checkpointed_mutation env checkpoint_window io flush_window window op w =
     (case checkpoint_local_with_mutation env checkpoint_window io (w\<lparr>lw_core := lock_mutation (lw_core w)\<rparr>) of
        (Inl e, w) \<Rightarrow> Some (Inl (de_persistence e), unlock_local w)
      | (Inr _, w) \<Rightarrow>
          map_option (\<lambda>(r, core). (r, w\<lparr>lw_core := core\<rparr>))
            (durable_mutation_outcome (le_clock env) flush_window window op (lw_core w)))"

text \<open>
  The record of a Shell that has been started, in \<open>handle_attach\<close>: in the journal when that still
  has the Shell's creation, else in the state file; an append that fails falls back to writing all
  that the journal holds to the files and starting the journal anew, even one that had failed.
\<close>

definition start_fallback_error :: "io_error \<Rightarrow> io_error \<Rightarrow> io_error" where
  "start_fallback_error journal_error state_error =
     IoError (err_kind state_error)
       (''local Shell start journal failed: '' @ err_message journal_error
         @ ''; state fallback also failed: '' @ err_message state_error)"

definition persist_started_run ::
    "local_env \<Rightarrow> write_window \<Rightarrow> append_io \<Rightarrow> clear_io \<Rightarrow> bool \<Rightarrow> local_shell_start_transaction
     \<Rightarrow> local_world \<Rightarrow> unit res \<times> local_world" where
  "persist_started_run env window io reset journaled start w =
     (if \<not> journaled then
        (case write_captured window (lw_core w) of (r, core) \<Rightarrow> (r, w\<lparr>lw_core := core\<rparr>))
      else
        (case journal_append (le_journal env) io (JournalStart start) (lw_journal w) of
           (Inr _, j) \<Rightarrow> (Inr (), w\<lparr>lw_journal := j\<rparr>)
         | (Inl journal_error, j) \<Rightarrow>
             (case write_captured window (lw_core w) of
                (Inl e, core) \<Rightarrow> (Inl (start_fallback_error journal_error e), w\<lparr>lw_core := core, lw_journal := j\<rparr>)
              | (Inr _, core) \<Rightarrow>
                  (case gws_checkpoint (le_store env) (lw_store w) of
                     (Inl e, store) \<Rightarrow>
                       (Inl (start_fallback_error journal_error e),
                        w\<lparr>lw_core := core, lw_store := store, lw_journal := j\<rparr>)
                   | (Inr _, store) \<Rightarrow>
                       (case reset_after_full_checkpoint reset j of
                          (Inl e, j) \<Rightarrow> (Inl (start_fallback_error journal_error e),
                                       w\<lparr>lw_core := core, lw_store := store, lw_journal := j\<rparr>)
                        | (Inr _, j) \<Rightarrow> (Inr (), w\<lparr>lw_core := core, lw_store := store, lw_journal := j\<rparr>))))))"

section \<open>The replay at the next start\<close>

definition journal_creates :: "local_shell_journal_record list \<Rightarrow> local_shell_transaction list" where
  "journal_creates = List.map_filter (\<lambda>r. case r of JournalCreate t \<Rightarrow> Some t | JournalStart _ \<Rightarrow> None)"

definition journal_starts :: "local_shell_journal_record list \<Rightarrow> local_shell_start_transaction list" where
  "journal_starts = List.map_filter (\<lambda>r. case r of JournalStart t \<Rightarrow> Some t | JournalCreate _ \<Rightarrow> None)"

text \<open>The last start of every Shell; the order of the \<open>HashMap\<close> is that of its keys here.\<close>

definition latest_starts :: "local_shell_start_transaction list \<Rightarrow> local_shell_start_transaction list" where
  "latest_starts starts = objects (fold (\<lambda>t. put (lss_shell_id t) t) starts [])"

fun replay_creates :: "registry_env \<Rightarrow> local_shell_transaction list \<Rightarrow> unit dop" where
  "replay_creates env [] = return_op ()"
| "replay_creates env (t # ts) =
     bind_op (create_workspace_exact env (lst_owner_workspace_id t) (lst_owner_workspace_name t)
                (lst_default_cwd t)) (\<lambda>_.
     bind_op (create_shell_exact env (lst_owner_workspace_id t) (lst_shell_id t) (lst_shell t)) (\<lambda>_.
       replay_creates env ts))"

fun replay_starts :: "registry_env \<Rightarrow> (string \<Rightarrow> u64) \<Rightarrow> local_shell_start_transaction list \<Rightarrow> unit dop" where
  "replay_starts env now [] = return_op ()"
| "replay_starts env now (t # ts) =
     bind_op (replay_interrupted_shell_start env (now (psr_id (lss_run t))) (lss_shell_id t) (lss_run t)) (\<lambda>_.
       replay_starts env now ts)"

definition recorded_request :: "local_shell_transaction \<Rightarrow> resource_request" where
  "recorded_request t =
     \<lparr>rq_global_id = lst_global_workspace_id t, rq_operation_id = lst_operation_id t,
      rq_request_fingerprint = lst_request_fingerprint t, rq_request_bytes = lst_request_bytes t,
      rq_expected_global_revision = lst_expected_global_revision t, rq_node_id = lst_node_id t,
      rq_requested_owner_workspace_id = lst_requested_owner_workspace_id t,
      rq_owner_workspace_name = lst_owner_workspace_name t, rq_default_cwd = lst_default_cwd t,
      rq_resource_id = lst_shell_id t, rq_kind = KindShell, rq_owner_attempted = True\<rparr>"

definition replay_completion ::
    "gw_env \<Rightarrow> workspace_snapshot \<Rightarrow> local_shell_transaction \<Rightarrow> gw_store \<Rightarrow> unit res \<times> gw_store" where
  "replay_completion env owner r store =
     (case tx_prepare_resource_for_attempt env (recorded_request r) (gws_transaction store) of
        (Inl e, _) \<Rightarrow> (Inl e, store)
      | (Inr (PreparedCompleted _), t) \<Rightarrow> tx_commit env t
      | (Inr (PreparedPending p _), t) \<Rightarrow>
          if pr_owner_workspace_id p \<noteq> lst_owner_workspace_id r
          then (Inl (already_exists ''journal owner Workspace conflicts with coordinator preparation''), store)
          else
            (case tx_complete_resource env p (owner\<lparr>ws_revision := lst_owner_revision r\<rparr>)
                    (RoutedShell (lst_result_shell r)) t of
               (Inl e, _) \<Rightarrow> (Inl e, store)
             | (Inr _, t) \<Rightarrow> tx_commit env t))"

fun replay_completions ::
    "local_env \<Rightarrow> durable_state \<Rightarrow> local_shell_transaction list \<Rightarrow> gw_store \<Rightarrow> unit res \<times> gw_store" where
  "replay_completions env st [] store = (Inr (), store)"
| "replay_completions env st (t # ts) store =
     (case bind_op (Durable_Ops.find_workspace (lst_owner_workspace_id t))
             (\<lambda>w. read_op (\<lambda>st. workspace_to_snapshot (le_registry env) st w)) st of
        (Inl e, _) \<Rightarrow> (Inl e, store)
      | (Inr owner, _) \<Rightarrow>
          (case replay_completion (le_store env) owner t store of
             (Inl e, store) \<Rightarrow> (Inl e, store)
           | (Inr _, store) \<Rightarrow> replay_completions env st ts store))"

definition replay_local_shell_transactions ::
    "local_env \<Rightarrow> (string \<Rightarrow> u64) \<Rightarrow> write_window \<Rightarrow> clear_io \<Rightarrow> local_world \<Rightarrow> unit res \<times> local_world" where
  "replay_local_shell_transactions env now window io w =
     (case journal_records (lw_journal w) of
        Inl e \<Rightarrow> (Inl e, w)
      | Inr records \<Rightarrow>
          if records = [] then (Inr (), w)
          else
            (case bind_op (replay_creates (le_registry env) (journal_creates records))
                    (\<lambda>_. replay_starts (le_registry env) now (latest_starts (journal_starts records)))
                    (tw_state (lw_core w)) of
               (Inl e, st) \<Rightarrow> (Inl e, w\<lparr>lw_core := (lw_core w)\<lparr>tw_state := st\<rparr>\<rparr>)
             | (Inr _, st) \<Rightarrow>
                 (case write_captured window ((lw_core w)\<lparr>tw_state := st\<rparr>) of
                    (Inl e, core) \<Rightarrow> (Inl e, w\<lparr>lw_core := core\<rparr>)
                  | (Inr _, core) \<Rightarrow>
                      (case replay_completions env st (journal_creates records) (lw_store w) of
                         (Inl e, store) \<Rightarrow> (Inl e, w\<lparr>lw_core := core, lw_store := store\<rparr>)
                       | (Inr _, store) \<Rightarrow>
                           (case gws_checkpoint (le_store env) store of
                              (Inl e, store) \<Rightarrow> (Inl e, w\<lparr>lw_core := core, lw_store := store\<rparr>)
                            | (Inr _, store) \<Rightarrow>
                                (case journal_clear io (lw_journal w) of
                                   (r, j) \<Rightarrow>
                                     (r, w\<lparr>lw_core := core, lw_store := store, lw_journal := j\<rparr>)))))))"

text \<open>
  A start from the files, up to the end of the replay, when the Workspace store has been loaded:
  \<open>restore\<close>, the load of the journal, and the replay. (A store that cannot be loaded disables the
  coordination; the daemon then starts without it, unless the journal holds records.)
\<close>

definition start_local ::
    "local_env \<Rightarrow> (string \<Rightarrow> u64) \<Rightarrow> (string \<Rightarrow> u64) \<Rightarrow> write_window \<Rightarrow> clear_io \<Rightarrow> event_stream
     \<Rightarrow> persisted_state \<Rightarrow> gw_store \<Rightarrow> shell_journal res \<Rightarrow> (unit res \<times> local_world) res" where
  "start_local env clock now window io stream persisted store journal =
     bind_res (restore_state (le_registry env) False clock persisted) (\<lambda>(st, dirty).
     bind_res journal (\<lambda>j.
       Inr (replay_local_shell_transactions env now window io
         \<lparr>lw_core = \<lparr>tw_state = st, tw_events = initial_system stream dirty, tw_file = persisted,
                    tw_stopping = False\<rparr>,
          lw_store = store, lw_journal = j\<rparr>)))"

end
