(* ===== verification/Local_Shell_Completion.thy ===== *)
theory Local_Shell_Completion
  imports Local_Shell Gw_Complete
begin

text \<open>
  The coordinator's Workspace store in a replay: the record in the journal is enough to prepare
  and complete the operation again as it was when the client was answered (\<open>completes\<close>), and an
  operation that the store already has is left as it is (\<open>completed_in\<close>).
\<close>

section \<open>Preparing again\<close>

definition with_owner :: "string \<Rightarrow> path option \<Rightarrow> resource_request \<Rightarrow> resource_request" where
  "with_owner name cwd rq = rq\<lparr>rq_owner_workspace_name := name, rq_default_cwd := cwd\<rparr>"

lemma set_pending_nth [simp]:
  "i < length (gs_pending_resources st) \<Longrightarrow> gs_pending_resources (set_pending i f st) ! i = f (gs_pending_resources st ! i)"
  "length (gs_pending_resources (set_pending i f st)) = length (gs_pending_resources st)"
  by (simp_all add: set_pending_def)

lemma reserve_legacy_names:
  assumes "reserve_legacy env m wid n i st = Inr st'" and "i < length (gs_pending_resources st)"
  shows "i < length (gs_pending_resources st')"
    "pr_owner_workspace_name (gs_pending_resources st' ! i) = pr_owner_workspace_name (gs_pending_resources st ! i)"
    "pr_default_cwd (gs_pending_resources st' ! i) = pr_default_cwd (gs_pending_resources st ! i)"
  using assms compact_prepared_state_frame(2)
  by (auto simp: reserve_legacy_def bind_res_Inr split: if_splits)

lemma replay_names:
  assumes "replay_pending_resource env rq i st = Inr (PreparedPending p b, st')"
    and "i < length (gs_pending_resources st)"
  shows "pr_owner_workspace_name p = rq_owner_workspace_name rq" "pr_default_cwd p = rq_default_cwd rq"
  using assms reserve_legacy_names
  by (auto simp: replay_pending_resource_def Let_def bind_res_Inr pending_matches_def split: if_splits)

lemma effective_again:
  "effective_pending (with_owner (pr_owner_workspace_name (effective_pending rq w st))
     (pr_default_cwd (effective_pending rq w st)) rq) w st = effective_pending rq w st"
  by (simp add: effective_pending_def with_owner_def Let_def split: option.split)

lemma reserved_names:
  "reserve_new_pending_completion env st w p n = Inr (st1, p') \<Longrightarrow>
     pr_owner_workspace_name p' = pr_owner_workspace_name p \<and> pr_default_cwd p' = pr_default_cwd p"
  by (auto simp: reserve_new_pending_completion_def bind_res_Inr Let_def)

lemma prepare_again:
  assumes "prepare_resource_op env rq st = Inr (PreparedPending p b, st')"
  shows "prepare_resource_op env (with_owner (pr_owner_workspace_name p) (pr_default_cwd p) rq) st
    = Inr (PreparedPending p b, st')"
proof (cases "position (\<lambda>p. pr_operation_id p = rq_operation_id rq) (gs_pending_resources st)")
  case (Some i)
  then have "i < length (gs_pending_resources st)" using position_SomeD by fastforce
  then have "with_owner (pr_owner_workspace_name p) (pr_default_cwd p) rq = rq"
    using assms Some replay_names
    by (auto simp: prepare_resource_op_def with_owner_def split: option.splits if_splits)
  then show ?thesis using assms by simp
next
  case None
  then have new: "prepare_new_resource env rq st = Inr (PreparedPending p b, st')"
    and fresh: "find_completed st (rq_operation_id rq) = None"
    using assms by (auto simp: prepare_resource_op_def split: option.splits if_splits)
  obtain w st1 where w: "Gw_State.find_workspace st (rq_global_id rq) = Some w"
    and reserve: "reserve_new_pending_completion env st w (effective_pending rq w st) (rq_request_bytes rq) = Inr (st1, p)"
    using new by (auto simp: prepare_new_resource_def Let_def bind_res_Inr ok_or_Inr split: if_splits)
  let ?rq = "with_owner (pr_owner_workspace_name p) (pr_default_cwd p) rq"
  have "effective_pending ?rq w st = effective_pending rq w st"
    using reserved_names [OF reserve] effective_again [of rq w st] by simp
  moreover have "rq_global_id ?rq = rq_global_id rq" "rq_node_id ?rq = rq_node_id rq"
    "rq_resource_id ?rq = rq_resource_id rq" "rq_request_bytes ?rq = rq_request_bytes rq"
    "rq_operation_id ?rq = rq_operation_id rq"
    "rq_expected_global_revision ?rq = rq_expected_global_revision rq"
    by (simp_all add: with_owner_def)
  ultimately have "prepare_new_resource env ?rq st = prepare_new_resource env rq st"
    using w by (simp add: prepare_new_resource_def Let_def split: option.split)
  then show ?thesis
    using new fresh None \<open>rq_operation_id ?rq = rq_operation_id rq\<close> by (simp add: prepare_resource_op_def)
qed

lemma complete_same_owner:
  assumes "ws_id a = ws_id b" "ws_revision a = ws_revision b" "ws_name a = ws_name b"
    "ws_default_cwd a = ws_default_cwd b"
  shows "complete_resource_op env p a r st = complete_resource_op env p b r st"
proof -
  have "gw_placement node a state = gw_placement node b state" for node state
    using assms by (simp add: gw_placement_def)
  then have "link_completed q a w = link_completed q b w" for q w
    unfolding link_completed_def using assms by (simp only:)
  then show ?thesis
    unfolding complete_resource_op_def complete_pending_def using assms by (simp only:)
qed

section \<open>What a prepared operation holds\<close>

lemma reserve_new_fields:
  "reserve_new_pending_completion env st w p n = Inr (st1, p') \<Longrightarrow>
     \<exists>m. p' = p\<lparr>pr_completion_reservation := spaces m\<rparr>"
  by (auto simp: reserve_new_pending_completion_def bind_res_Inr Let_def)

lemma reserve_legacy_reserved:
  assumes "reserve_legacy env m wid n i st = Inr st'" and "i < length (gs_pending_resources st)"
  shows "i < length (gs_pending_resources st') \<and> (\<exists>r. gs_pending_resources st' ! i
    = (gs_pending_resources st ! i)\<lparr>pr_completion_reservation := r\<rparr>)"
proof (cases "st' = st")
  case True
  then show ?thesis
    using assms(2) by (intro conjI exI [of _ "pr_completion_reservation (gs_pending_resources st ! i)"]) simp_all
next
  case False
  then show ?thesis
    using assms compact_prepared_state_frame(2)
    by (auto simp: reserve_legacy_def bind_res_Inr split: if_splits)
qed

lemma prepared_pending:
  assumes "prepare_resource_op env rq st = Inr (PreparedPending p b, st')"
  shows "p \<in> set (gs_pending_resources st')" and "pr_operation_id p = rq_operation_id rq"
    and "pr_request_fingerprint p = Some (rq_request_fingerprint rq)" and "pr_resource_id p = rq_resource_id rq"
proof -
  have "p \<in> set (gs_pending_resources st') \<and> pr_operation_id p = rq_operation_id rq
    \<and> pr_request_fingerprint p = Some (rq_request_fingerprint rq) \<and> pr_resource_id p = rq_resource_id rq"
  proof (cases "position (\<lambda>p. pr_operation_id p = rq_operation_id rq) (gs_pending_resources st)")
    case None
    then have "prepare_resource_op env rq st = Inr (PreparedPending p True, st')"
      using assms by (auto simp: prepare_resource_op_def prepare_new_resource_def Let_def bind_res_Inr
          split: option.splits if_splits)
    note new = this
    obtain w st1 where
      "reserve_new_pending_completion env st w (effective_pending rq w st) (rq_request_bytes rq) = Inr (st1, p)"
      using prepare_resource_new [OF new] .
    then show ?thesis
      using prepare_resource_retry(1-3) [OF new] reserve_new_fields
      by (fastforce simp: effective_pending_def Let_def)
  next
    case (Some i)
    define q where "q = gs_pending_resources st ! i"
    have i: "i < length (gs_pending_resources st)" and id: "pr_operation_id q = rq_operation_id rq"
      using position_SomeD [OF Some] by (simp_all add: q_def)
    let ?st1 = "if pr_request_fingerprint q = None
      then set_pending i (\<lambda>p. p\<lparr>pr_request_fingerprint := Some (rq_request_fingerprint rq)\<rparr>) st else st"
    have replay: "replay_pending_resource env rq i st = Inr (PreparedPending p b, st')"
      using assms Some by (auto simp: prepare_resource_op_def split: option.splits if_splits)
    then have matches: "pending_matches rq q" by (auto simp: replay_pending_resource_def q_def split: if_splits)
    have "bind_res (reserve_legacy env ''prepared Workspace is missing'' (rq_global_id rq) (rq_request_bytes rq) i ?st1)
        (\<lambda>st2. let st3 = (if rq_owner_attempted rq
                         then set_pending i (\<lambda>p. p\<lparr>pr_owner_attempted := True\<rparr>) st2 else st2)
          in Inr (PreparedPending (gs_pending_resources st3 ! i) False, st3)) = Inr (PreparedPending p b, st')"
      using replay matches by (simp add: replay_pending_resource_def q_def)
    then obtain st2 where
      reserve: "reserve_legacy env ''prepared Workspace is missing'' (rq_global_id rq) (rq_request_bytes rq) i ?st1 = Inr st2"
      and st': "st' = (if rq_owner_attempted rq then set_pending i (\<lambda>p. p\<lparr>pr_owner_attempted := True\<rparr>) st2 else st2)"
      and p: "p = gs_pending_resources st' ! i"
      unfolding bind_res_Inr Let_def by (elim exE conjE) (rule that, assumption, simp, force)
    have i1: "i < length (gs_pending_resources ?st1)" using i by simp
    have q1: "pr_operation_id (gs_pending_resources ?st1 ! i) = rq_operation_id rq"
      "pr_request_fingerprint (gs_pending_resources ?st1 ! i) = Some (rq_request_fingerprint rq)"
      "pr_resource_id (gs_pending_resources ?st1 ! i) = rq_resource_id rq"
      using id matches i by (auto simp: pending_matches_def q_def opt_all_def split: option.splits)
    obtain r where i2: "i < length (gs_pending_resources st2)"
      and q2: "gs_pending_resources st2 ! i = (gs_pending_resources ?st1 ! i)\<lparr>pr_completion_reservation := r\<rparr>"
      using reserve_legacy_reserved [OF reserve i1] by blast
    then have "i < length (gs_pending_resources st')" by (simp add: st')
    then show ?thesis
      using q1 i2 by (auto simp: p st' q2 intro: nth_mem)
  qed
  then show "p \<in> set (gs_pending_resources st')" "pr_operation_id p = rq_operation_id rq"
    "pr_request_fingerprint p = Some (rq_request_fingerprint rq)" "pr_resource_id p = rq_resource_id rq"
    by simp_all
qed

section \<open>A transaction on the store\<close>

lemma validated: "gw_valid env g \<Longrightarrow> gw_validate env g = Inr ()"
  by (simp add: gw_validate_valid)

lemma staged_mutate:
  "\<not> store_persist s \<Longrightarrow> gws_mutate env op s = (Inr r, s')
     \<longleftrightarrow> (\<exists>g. op (store_mem s) = Inr (r, g) \<and> gw_valid env g \<and> s' = s\<lparr>store_mem := g\<rparr>)"
  by (auto simp: gws_mutate_def gw_validate_valid validated split: sum.splits prod.splits)

lemma tx_run_Inr: "tx_run f t = (r, t') \<longleftrightarrow> (\<exists>s'. f (tx_staged t) = (r, s') \<and> t' = t\<lparr>tx_staged := s'\<rparr>)"
  by (auto simp: tx_run_def split: prod.splits)

lemma guarded_Inr: "guarded check run s = (Inr r, s') \<longleftrightarrow> check = Inr () \<and> run = (Inr r, s')"
  by (auto simp: guarded_def split: sum.splits)

lemma attempted_same: "rq_owner_attempted rq \<Longrightarrow> rq\<lparr>rq_owner_attempted := True\<rparr> = rq"
  by (cases rq) simp

lemma tx_prepare_Inr:
  assumes "rq_owner_attempted rq" and "\<not> store_persist (tx_staged t)"
  shows "tx_prepare_resource_for_attempt env rq t = (Inr r, t')
    \<longleftrightarrow> name_ok (rq_owner_workspace_name rq)
      \<and> (\<exists>g. prepare_resource_op env rq (store_mem (tx_staged t)) = Inr (r, g) \<and> gw_valid env g
           \<and> t' = t\<lparr>tx_staged := (tx_staged t)\<lparr>store_mem := g\<rparr>\<rparr>)"
  unfolding tx_prepare_resource_for_attempt_def gws_prepare_resource_for_attempt_def attempted_same [OF assms(1)]
    prepare_resource_inner_def tx_run_Inr guarded_Inr staged_mutate [OF assms(2)] gw_validate_name_iff
  by blast

lemma tx_complete_Inr:
  assumes "\<not> store_persist (tx_staged t)"
  shows "tx_complete_resource env p owner r t = (Inr c, t')
    \<longleftrightarrow> (\<exists>g. complete_resource_op env p owner r (store_mem (tx_staged t)) = Inr (c, g) \<and> gw_valid env g
           \<and> t' = t\<lparr>tx_staged := (tx_staged t)\<lparr>store_mem := g\<rparr>\<rparr>)"
  unfolding tx_complete_resource_def gws_complete_resource_def tx_run_Inr staged_mutate [OF assms] by blast

lemma transaction_fields [simp]:
  "store_mem (tx_staged (gws_transaction s)) = store_mem s"
  "store_persist (tx_staged (gws_transaction s)) = False" "tx_target (gws_transaction s) = s"
  by (simp_all add: gws_transaction_def)

lemma tx_commit_eq:
  "gw_valid env (store_mem (tx_staged t)) \<Longrightarrow>
     tx_commit env t = (Inr (), (tx_target t)\<lparr>store_mem := store_mem (tx_staged t)\<rparr>)"
  by (simp add: tx_commit_def validated)

section \<open>The effect of a record\<close>

definition recorded_owner :: "local_shell_transaction \<Rightarrow> workspace_snapshot" where
  "recorded_owner t =
     \<lparr>ws_id = lst_owner_workspace_id t, ws_revision = lst_owner_revision t,
      ws_name = lst_owner_workspace_name t, ws_default_cwd = lst_default_cwd t, ws_shells = [],
      ws_launchers = [], ws_agents = []\<rparr>"

definition completes :: "gw_env \<Rightarrow> local_shell_transaction \<Rightarrow> gw_state \<Rightarrow> gw_state \<Rightarrow> bool" where
  "completes env t g g' \<longleftrightarrow>
     name_ok (lst_owner_workspace_name t)
     \<and> (\<exists>p b g1 c. prepare_resource_op env (recorded_request t) g = Inr (PreparedPending p b, g1)
          \<and> gw_valid env g1 \<and> pr_owner_workspace_id p = lst_owner_workspace_id t
          \<and> complete_resource_op env p (recorded_owner t) (RoutedShell (lst_result_shell t)) g1 = Inr (c, g')
          \<and> gw_valid env g')"

definition completed_in :: "local_shell_transaction \<Rightarrow> gw_state \<Rightarrow> bool" where
  "completed_in t g \<longleftrightarrow>
     name_ok (lst_owner_workspace_name t)
     \<and> (\<exists>c. find_completed g (lst_operation_id t) = Some c
          \<and> co_request_fingerprint c = lst_request_fingerprint t)"

lemma completes_completed:
  assumes "completes env t g g'"
  shows "completed_in t g'" and "gw_valid env g'"
proof -
  obtain p b g1 c where name: "name_ok (lst_owner_workspace_name t)"
    and prepared: "prepare_resource_op env (recorded_request t) g = Inr (PreparedPending p b, g1)" "gw_valid env g1"
    and completed: "complete_resource_op env p (recorded_owner t) (RoutedShell (lst_result_shell t)) g1 = Inr (c, g')"
    and valid: "gw_valid env g'"
    using assms by (auto simp: completes_def)
  show "gw_valid env g'" by (rule valid)
  have "position (\<lambda>q. pr_operation_id q = pr_operation_id p) (gs_pending_resources g1) \<noteq> None"
    using prepared_pending(1) [OF prepared(1)] by (auto simp: position_None_iff)
  then obtain i where "position (\<lambda>q. pr_operation_id q = pr_operation_id p) (gs_pending_resources g1) = Some i"
    by blast
  note effect = complete_resource_effect [OF completed this prepared(2) valid]
  have "find_completed g' (lst_operation_id t) = Some c"
    using find_completed_unique [OF gw_valid_distinct_completed [OF valid] effect(6)] effect(1)
      prepared_pending(2) [OF prepared(1)] by (simp add: recorded_request_def)
  then show "completed_in t g'"
    using name effect(2) prepared_pending(3) [OF prepared(1)]
    by (simp add: completed_in_def recorded_request_def)
qed

text \<open>An owner Workspace as it was recorded, but for its revision and its children.\<close>

definition owner_recorded :: "local_shell_transaction \<Rightarrow> workspace_snapshot \<Rightarrow> bool" where
  "owner_recorded t owner \<longleftrightarrow>
     ws_id owner = lst_owner_workspace_id t \<and> ws_name owner = lst_owner_workspace_name t
     \<and> ws_default_cwd owner = lst_default_cwd t"

lemma recorded_request_fields [simp]:
  "rq_owner_attempted (recorded_request t)" "rq_owner_workspace_name (recorded_request t) = lst_owner_workspace_name t"
  "rq_operation_id (recorded_request t) = lst_operation_id t"
  "rq_request_fingerprint (recorded_request t) = lst_request_fingerprint t"
  by (simp_all add: recorded_request_def)

lemma replay_completes:
  assumes "completes env t (store_mem s) g'" and "owner_recorded t owner"
  shows "replay_completion env owner t s = (Inr (), s\<lparr>store_mem := g'\<rparr>)"
proof -
  obtain p b g1 c where name: "name_ok (lst_owner_workspace_name t)"
    and prepared: "prepare_resource_op env (recorded_request t) (store_mem s) = Inr (PreparedPending p b, g1)"
      "gw_valid env g1" and owner: "pr_owner_workspace_id p = lst_owner_workspace_id t"
    and completed: "complete_resource_op env p (recorded_owner t) (RoutedShell (lst_result_shell t)) g1 = Inr (c, g')"
    and valid: "gw_valid env g'"
    using assms(1) by (auto simp: completes_def)
  let ?t = "(gws_transaction s)\<lparr>tx_staged := (tx_staged (gws_transaction s))\<lparr>store_mem := g1\<rparr>\<rparr>"
  let ?u = "?t\<lparr>tx_staged := (tx_staged ?t)\<lparr>store_mem := g'\<rparr>\<rparr>"
  have "tx_prepare_resource_for_attempt env (recorded_request t) (gws_transaction s) = (Inr (PreparedPending p b), ?t)"
    using name prepared by (simp add: tx_prepare_Inr)
  moreover have "complete_resource_op env p (owner\<lparr>ws_revision := lst_owner_revision t\<rparr>)
      (RoutedShell (lst_result_shell t)) g1 = Inr (c, g')"
    using completed assms(2)
      complete_same_owner [of "owner\<lparr>ws_revision := lst_owner_revision t\<rparr>" "recorded_owner t" env p]
    by (simp add: owner_recorded_def recorded_owner_def)
  then have "tx_complete_resource env p (owner\<lparr>ws_revision := lst_owner_revision t\<rparr>)
      (RoutedShell (lst_result_shell t)) ?t = (Inr c, ?u)"
    using valid by (simp add: tx_complete_Inr)
  moreover have "tx_commit env ?u = (Inr (), s\<lparr>store_mem := g'\<rparr>)"
    using valid by (simp add: tx_commit_eq)
  ultimately show ?thesis using owner by (simp add: replay_completion_def)
qed

lemma replay_completed:
  assumes "completed_in t (store_mem s)" and "gw_valid env (store_mem s)"
  shows "replay_completion env owner t s = (Inr (), s)"
proof -
  obtain c where name: "name_ok (lst_owner_workspace_name t)"
    and "find_completed (store_mem s) (lst_operation_id t) = Some c" "co_request_fingerprint c = lst_request_fingerprint t"
    using assms(1) by (auto simp: completed_in_def)
  then have "prepare_resource_op env (recorded_request t) (store_mem s) = Inr (PreparedCompleted c, store_mem s)"
    by (simp add: prepare_resource_op_def)
  then have "tx_prepare_resource_for_attempt env (recorded_request t) (gws_transaction s)
      = (Inr (PreparedCompleted c), gws_transaction s)"
    using name assms(2) by (simp add: tx_prepare_Inr gws_transaction_def)
  then show ?thesis using assms(2) by (simp add: replay_completion_def tx_commit_eq)
qed

text \<open>The records of a journal, each completed in turn unless the store already has it.\<close>

fun completing :: "gw_env \<Rightarrow> local_shell_transaction list \<Rightarrow> gw_state \<Rightarrow> gw_state \<Rightarrow> bool" where
  "completing env [] g g' \<longleftrightarrow> g' = g"
| "completing env (t # ts) g g' \<longleftrightarrow>
     (\<exists>g1. (completes env t g g1 \<or> completed_in t g \<and> gw_valid env g \<and> g1 = g) \<and> completing env ts g1 g')"

lemma completing_append:
  "completing env (ts @ us) g g' \<longleftrightarrow> (\<exists>g1. completing env ts g g1 \<and> completing env us g1 g')"
  by (induction ts arbitrary: g) auto

lemma completing_done: "\<forall>t \<in> set ts. completed_in t g \<Longrightarrow> gw_valid env g \<Longrightarrow> completing env ts g g"
  by (induction ts) auto

end
