(* ===== verification/Local_Shell_Replay.thy ===== *)
theory Local_Shell_Replay
  imports Local_Shell_Completion
begin

text \<open>
  The durable state in a replay: a creation that was accepted is accepted again on the state that
  a restart makes of the saved one, with the same effect, as long as the directories it names are
  still there; and it is accepted without effect by a state that has the Shell already.
\<close>

section \<open>A later start\<close>

text \<open>The daemon's environment at a later start, when \<open>is_dir\<close> are the directories.\<close>

abbreviation at_start :: "(path \<Rightarrow> bool) \<Rightarrow> registry_env \<Rightarrow> registry_env" where
  "at_start is_dir env \<equiv> env\<lparr>re_is_dir := is_dir\<rparr>"

definition dirs_there :: "(path \<Rightarrow> bool) \<Rightarrow> local_shell_transaction \<Rightarrow> bool" where
  "dirs_there is_dir t \<longleftrightarrow>
     is_dir (spec_cwd (lst_shell t)) \<and> (case lst_default_cwd t of None \<Rightarrow> True | Some cwd \<Rightarrow> is_dir cwd)"

lemma at_start_uuid [simp]: "uuid_parses (at_start d env) = uuid_parses env"
  by (simp add: uuid_parses_def fun_eq_iff)

lemma at_start_validate_uuid [simp]: "validate_uuid (at_start d env) = validate_uuid env"
  by (simp add: validate_uuid_def fun_eq_iff)

lemma at_start_cwd: "validate_cwd env cwd = Inr () \<Longrightarrow> d cwd \<Longrightarrow> validate_cwd (at_start d env) cwd = Inr ()"
  by (simp add: validate_cwd_def split: if_splits)

lemma at_start_default_cwd:
  "validate_default_cwd env cwd = Inr () \<Longrightarrow> (\<forall>c. cwd = Some c \<longrightarrow> d c)
     \<Longrightarrow> validate_default_cwd (at_start d env) cwd = Inr ()"
  by (simp add: validate_default_cwd_def at_start_cwd split: option.splits)

lemma at_start_shell [simp]: "shell_to_snapshot (at_start d env) = shell_to_snapshot env"
proof
  show "shell_to_snapshot (at_start d env) s = shell_to_snapshot env s" for s
    by (cases "ds_lifecycle s") (simp_all add: shell_to_snapshot_def)
qed

text \<open>None of the checks of a restart looks at the directories.\<close>

lemma at_start_identity_key [simp]: "persisted_session_identity_key (at_start d env) = persisted_session_identity_key env"
  by (simp add: persisted_session_identity_key_def fun_eq_iff cong: persisted_session_identity.case_cong)

lemma at_start_uuid_ok [simp]: "uuid_ok (at_start d env) = uuid_ok env"
  by (simp add: uuid_ok_def fun_eq_iff)

lemma at_start_display_names [simp]: "check_display_names (at_start d env) seen rs = check_display_names env seen rs"
  by (induction rs arbitrary: seen) (simp_all split: sum.split)

lemma at_start_display_name_operations [simp]:
  "check_display_name_operations (at_start d env) w seen previous rs = check_display_name_operations env w seen previous rs"
  by (induction rs arbitrary: seen previous) simp_all

lemma at_start_hidden_sessions [simp]:
  "check_hidden_sessions (at_start d env) identities ids hs = check_hidden_sessions env identities ids hs"
  by (induction hs arbitrary: identities ids) (simp_all split: sum.split)

lemma at_start_hide_operations [simp]:
  "check_hide_operations (at_start d env) w seen previous rs = check_hide_operations env w seen previous rs"
  by (induction rs arbitrary: seen previous) simp_all

lemma at_start_objects [simp]:
  "Durable_Wellformed.workspace_ok (at_start d env) = Durable_Wellformed.workspace_ok env"
  "shell_ok (at_start d env) = shell_ok env"
  "launcher_ok (at_start d env) = launcher_ok env" "agent_ok (at_start d env) = agent_ok env"
proof -
  have id: "validate_id (at_start d env) kind i = validate_id env kind i" for kind i
    by (simp add: validate_id_def)
  have run: "check_run (at_start d env) ids run = check_run env ids run" for ids run
    by (simp add: check_run_def id)
  show "shell_ok (at_start d env) = shell_ok env" "launcher_ok (at_start d env) = launcher_ok env"
    by (simp_all add: shell_ok_def launcher_ok_def run fun_eq_iff cong: option.case_cong)
  show "Durable_Wellformed.workspace_ok (at_start d env) = Durable_Wellformed.workspace_ok env"
    by (simp add: Durable_Wellformed.workspace_ok_def sessions_ok_def
        validate_persisted_session_display_names_def fun_eq_iff)
  have "validate_working_context (at_start d env) c = validate_working_context env c" for c
    by (simp add: validate_working_context_def)
  then show "agent_ok (at_start d env) = agent_ok env"
    by (simp add: agent_ok_def agent_fixed_ok_def agent_state_ok_def contexts_ok_def fun_eq_iff)
qed

lemma at_start_ok [simp]: "durable_ok (at_start d env) = durable_ok env"
  by (simp add: durable_ok_def workspaces_ok_def objects_ok_def fun_eq_iff)

section \<open>The state at rest\<close>

lemma rested_fields [simp]:
  "dst_workspaces (rested live clock st) = dst_workspaces st"
  "get (dst_shells (rested live clock st)) i = map_option (rested_shell live clock) (get (dst_shells st) i)"
  by (simp_all add: rested_def map_of_map)

lemma rested_shell_fields [simp]:
  "ds_id (rested_shell live clock s) = ds_id s" "ds_workspace_id (rested_shell live clock s) = ds_workspace_id s"
  "ds_name (rested_shell live clock s) = ds_name s" "ds_cwd (rested_shell live clock s) = ds_cwd s"
  "ds_command (rested_shell live clock s) = ds_command s"
  "ds_lifecycle (rested_shell live clock s) = LcPending"
  by (simp_all add: rested_shell_def)

lemma put_mapped: "put k (f v) (map (\<lambda>(i, x). (i, f x)) m) = map (\<lambda>(i, x). (i, f x)) (put k v m)"
  by (induction m) (auto split: prod.splits)

lemma rested_put_shell:
  "rested_shell live clock s = s \<Longrightarrow>
     rested live clock (st\<lparr>dst_shells := put i s (dst_shells st)\<rparr>)
       = (rested live clock st)\<lparr>dst_shells := put i s (dst_shells (rested live clock st))\<rparr>"
  using put_mapped [of i "rested_shell live clock" s "dst_shells st"] by (simp add: rested_def)

lemma rested_workspaces [simp]:
  "rested live clock (st\<lparr>dst_workspaces := m\<rparr>) = (rested live clock st)\<lparr>dst_workspaces := m\<rparr>"
  by (simp add: rested_def)

lemma rested_upd_workspace [simp]:
  "rested live clock (upd_workspace i f st) = upd_workspace i f (rested live clock st)"
  by (simp add: upd_workspace_def)

lemma rested_snapshot:
  "\<exists>x. workspace_to_snapshot env (rested live clock st) w = Inr x \<and> ws_id x = dw_id w
     \<and> ws_name x = dw_name w \<and> ws_default_cwd x = dw_default_cwd w"
proof -
  have "\<exists>ys. collect_res (shell_to_snapshot env) ss = Inr ys"
    if "\<forall>s \<in> set ss. ds_lifecycle s = LcPending" for ss
    using that by (induction ss) (auto simp: shell_to_snapshot_def)
  moreover have "\<forall>s \<in> set (List.map_filter (get (dst_shells (rested live clock st))) (dw_shell_ids w)).
      ds_lifecycle s = LcPending"
    by (auto simp: List.map_filter_def)
  ultimately show ?thesis unfolding workspace_to_snapshot_def by (metis (no_types, lifting) bind_res.simps(2) workspace_snapshot.simps(1,2,3,4))
qed

lemma rested_name_taken [simp]:
  "workspace_name_taken name (rested live clock st) = workspace_name_taken name st"
  "shell_name_taken ids name (rested live clock st) = shell_name_taken ids name st"
  by (simp_all add: workspace_name_taken_def shell_name_taken_def split: option.split)

section \<open>A creation again\<close>

lemma workspace_exact_again:
  assumes "create_workspace_exact env i name cwd st = (Inr (x, u), st')" and "\<forall>c. cwd = Some c \<longrightarrow> d c"
  shows "\<exists>y. create_workspace_exact (at_start d env) i name cwd (rested live clock st)
    = (Inr y, rested live clock st')"
proof -
  have checks: "validate_uuid env i ''workspace ID'' = Inr ()" "daemon_validate_name name = Inr ()"
    "validate_default_cwd env cwd = Inr ()"
    using assms(1) by (auto simp: create_workspace_exact_def op_simps dest: sym)
  note cwd = at_start_default_cwd [OF checks(3) assms(2)]
  show ?thesis
  proof (cases "get (dst_workspaces st) i")
    case None
    then show ?thesis
      using assms(1) checks cwd
      by (auto simp: create_workspace_exact_def op_simps split: if_splits)
  next
    case (Some w)
    obtain y where y: "workspace_to_snapshot (at_start d env) (rested live clock st) w = Inr y"
      "ws_name y = dw_name w" "ws_default_cwd y = dw_default_cwd w"
      using rested_snapshot by blast
    have "st' = st \<and> dw_name w = name \<and> dw_default_cwd w = cwd"
      using assms(1) Some
      by (auto simp: create_workspace_exact_def op_simps workspace_to_snapshot_def bind_res_Inr split: if_splits dest!: sym [of "Inr _"])
    then show ?thesis
      using checks cwd Some y by (simp add: create_workspace_exact_def op_defs)
  qed
qed

text \<open>An operation that does the same at rest.\<close>

definition keeps_rest :: "(string \<Rightarrow> u64) \<Rightarrow> ('e, 'a) op \<Rightarrow> bool" where
  "keeps_rest clock m \<longleftrightarrow> (\<forall>st. m (rested False clock st) = apsnd (rested False clock) (m st))"

lemma keeps_rest_bind:
  "keeps_rest clock m \<Longrightarrow> (\<And>x. keeps_rest clock (f x)) \<Longrightarrow> keeps_rest clock (bind_op m f)"
  by (simp add: keeps_rest_def bind_op_def split: prod.splits sum.splits)

lemma keeps_rest_modify:
  "(\<And>st. f (rested False clock st) = rested False clock (f st)) \<Longrightarrow> keeps_rest clock (modify_op f)"
  by (simp add: keeps_rest_def modify_op_def)

lemma keeps_rest_read: "(\<And>st. f (rested False clock st) = f st) \<Longrightarrow> keeps_rest clock (read_op f)"
  by (simp add: keeps_rest_def read_op_def)

lemma keeps_rest_check: "keeps_rest clock (check_op r)"
  by (simp add: keeps_rest_def check_op_def)

lemmas keeps_rest_rules = keeps_rest_bind keeps_rest_modify keeps_rest_read keeps_rest_check

lemma find_keeps_rest: "keeps_rest clock (Durable_Ops.find_workspace i)"
  unfolding Durable_Ops.find_workspace_def by (intro keeps_rest_rules) simp

lemma bump_keeps_rest: "keeps_rest clock (bump_workspace i)"
  unfolding bump_workspace_def by (intro keeps_rest_rules find_keeps_rest) simp

lemma insert_keeps_rest: "rested_shell False clock s = s \<Longrightarrow> keeps_rest clock (insert_shell w s)"
  unfolding insert_shell_def
  by (intro keeps_rest_rules bump_keeps_rest) (simp_all add: rested_put_shell)

lemma pending_at_rest: "create_pending_shell env i k spec = Inr s \<Longrightarrow> rested_shell live clock s = s"
  by (auto simp: create_pending_shell_def bind_res_Inr rested_shell_def)

lemma shell_exact_again:
  assumes "create_shell_exact env i k spec st = (Inr (x, u), st')" and "d (spec_cwd spec)"
  shows "\<exists>y. create_shell_exact (at_start d env) i k spec (rested False clock st)
    = (Inr y, rested False clock st')"
proof (cases "get (dst_shells st) k")
  case (Some s)
  have "st' = st" "validate_uuid env k ''Shell idempotency key'' = Inr ()"
    "ds_workspace_id s = i \<and> ds_name s = spec_name spec \<and> ds_cwd s = spec_cwd spec \<and> ds_command s = spec_command spec"
    using assms(1) Some
    by (auto simp: create_shell_exact_def op_simps shell_to_snapshot_def bind_res_Inr split: if_splits dest!: sym [of "Inr _"])
  then show ?thesis
    using Some by (simp add: create_shell_exact_def op_defs shell_to_snapshot_def)
next
  case None
  obtain w s st1 where uuid: "Inr () = validate_uuid env k ''Shell idempotency key''"
    and w: "Durable_Ops.find_workspace i st = (Inr w, st)"
    and s: "Inr s = create_pending_shell env i k spec" and snapshot: "Inr x = shell_to_snapshot env s"
    and inserted: "insert_shell w s st = (Inr (), st')"
    using assms(1) None
    by (auto simp: create_shell_exact_def op_simps Durable_Ops.find_workspace_def)
  note rest = pending_at_rest [OF s [symmetric]]
  have "create_pending_shell (at_start d env) i k spec = Inr s"
    using s assms(2) at_start_cwd by (auto simp: create_pending_shell_def bind_res_Inr dest!: sym [of "Inr _"])
  moreover have "insert_shell w s (rested False clock st) = (Inr (), rested False clock st')"
    using insert_keeps_rest [OF rest] inserted by (simp add: keeps_rest_def)
  moreover have "Durable_Ops.find_workspace i (rested False clock st) = (Inr w, rested False clock st)"
    using find_keeps_rest w by (simp add: keeps_rest_def)
  ultimately show ?thesis
    using None uuid [symmetric] snapshot [symmetric]
    by (simp add: create_shell_exact_def bind_op_def check_op_def read_op_def return_op_def)
qed

section \<open>What the journal and the state file give back\<close>

definition creates :: "registry_env \<Rightarrow> local_shell_transaction \<Rightarrow> durable_state \<Rightarrow> durable_state \<Rightarrow> bool" where
  "creates env t st st' \<longleftrightarrow>
     (\<exists>x st1 y. create_workspace_exact env (lst_owner_workspace_id t) (lst_owner_workspace_name t)
          (lst_default_cwd t) st = (Inr x, st1)
        \<and> create_shell_exact env (lst_owner_workspace_id t) (lst_shell_id t) (lst_shell t) st1 = (Inr y, st'))"

definition created_in :: "registry_env \<Rightarrow> local_shell_transaction \<Rightarrow> durable_state \<Rightarrow> bool" where
  "created_in env t st \<longleftrightarrow>
     validate_uuid env (lst_owner_workspace_id t) ''workspace ID'' = Inr ()
     \<and> daemon_validate_name (lst_owner_workspace_name t) = Inr ()
     \<and> validate_default_cwd env (lst_default_cwd t) = Inr ()
     \<and> validate_uuid env (lst_shell_id t) ''Shell idempotency key'' = Inr ()
     \<and> (\<exists>w. get (dst_workspaces st) (lst_owner_workspace_id t) = Some w
          \<and> dw_id w = lst_owner_workspace_id t
          \<and> dw_name w = lst_owner_workspace_name t \<and> dw_default_cwd w = lst_default_cwd t)
     \<and> (\<exists>s. get (dst_shells st) (lst_shell_id t) = Some s
          \<and> ds_workspace_id s = lst_owner_workspace_id t \<and> ds_name s = spec_name (lst_shell t)
          \<and> ds_cwd s = spec_cwd (lst_shell t) \<and> ds_command s = spec_command (lst_shell t))"

lemma replay_creates_append:
  "replay_creates env (ts @ us) st =
     (case replay_creates env ts st of (Inl e, st') \<Rightarrow> (Inl e, st') | (Inr _, st') \<Rightarrow> replay_creates env us st')"
  by (induction ts arbitrary: st) (auto simp: bind_op_def return_op_def split: prod.split sum.split)

lemma creates_again:
  assumes "creates env t st st'" and "dirs_there d t"
  shows "replay_creates (at_start d env) [t] (rested False clock st) = (Inr (), rested False clock st')"
proof -
  obtain x u st1 y v where
    w: "create_workspace_exact env (lst_owner_workspace_id t) (lst_owner_workspace_name t)
          (lst_default_cwd t) st = (Inr (x, u), st1)"
    and s: "create_shell_exact env (lst_owner_workspace_id t) (lst_shell_id t) (lst_shell t) st1 = (Inr (y, v), st')"
    using assms(1) by (auto simp: creates_def)
  have d: "\<forall>c. lst_default_cwd t = Some c \<longrightarrow> d c" "d (spec_cwd (lst_shell t))"
    using assms(2) by (auto simp: dirs_there_def)
  show ?thesis
    using workspace_exact_again [where d = d, OF w d(1), of False clock]
      shell_exact_again [where d = d, OF s d(2), of clock]
    by (auto simp: bind_op_def return_op_def)
qed

lemma created_again:
  assumes "created_in env t st" and "dirs_there d t"
  shows "replay_creates (at_start d env) [t] (rested False clock st) = (Inr (), rested False clock st)"
proof -
  obtain w s where w: "get (dst_workspaces st) (lst_owner_workspace_id t) = Some w"
      "dw_name w = lst_owner_workspace_name t" "dw_default_cwd w = lst_default_cwd t"
    and s: "get (dst_shells st) (lst_shell_id t) = Some s" "ds_workspace_id s = lst_owner_workspace_id t"
      "ds_name s = spec_name (lst_shell t)" "ds_cwd s = spec_cwd (lst_shell t)"
      "ds_command s = spec_command (lst_shell t)"
    and checks: "validate_uuid env (lst_owner_workspace_id t) ''workspace ID'' = Inr ()"
      "daemon_validate_name (lst_owner_workspace_name t) = Inr ()"
      "validate_default_cwd env (lst_default_cwd t) = Inr ()"
      "validate_uuid env (lst_shell_id t) ''Shell idempotency key'' = Inr ()"
    using assms(1) by (auto simp: created_in_def)
  have cwd: "validate_default_cwd (at_start d env) (lst_default_cwd t) = Inr ()"
    by (rule at_start_default_cwd [OF checks(3)]) (use assms(2) in \<open>auto simp: dirs_there_def\<close>)
  obtain x where "workspace_to_snapshot (at_start d env) (rested False clock st) w = Inr x"
    "ws_name x = dw_name w" "ws_default_cwd x = dw_default_cwd w"
    using rested_snapshot by blast
  then show ?thesis
    using w s checks cwd
    by (simp add: create_workspace_exact_def create_shell_exact_def shell_to_snapshot_def op_defs)
qed

lemma workspace_exact_there:
  assumes "create_workspace_exact env i name cwd st = (Inr (x, u), st')" and "durable_ok env st"
  shows "validate_uuid env i ''workspace ID'' = Inr () \<and> daemon_validate_name name = Inr ()
     \<and> validate_default_cwd env cwd = Inr () \<and> dst_shells st' = dst_shells st
     \<and> (\<exists>w. get (dst_workspaces st') i = Some w \<and> dw_id w = i \<and> dw_name w = name \<and> dw_default_cwd w = cwd)
     \<and> (\<forall>j w. get (dst_workspaces st) j = Some w \<longrightarrow> get (dst_workspaces st') j = Some w)"
proof (cases "get (dst_workspaces st) i")
  case None
  then show ?thesis
    using assms(1) durable_okD(2) [OF assms(2)]
    by (auto simp: create_workspace_exact_def op_simps get_put new_workspace_def split: if_splits dest: sym [of "Inr _"])
next
  case (Some w)
  then show ?thesis
    using assms(1) workspace_okD [OF assms(2) Some]
    by (auto simp: create_workspace_exact_def op_simps workspace_to_snapshot_def bind_res_Inr
        split: if_splits dest!: sym [of "Inr _"])
qed

lemma shell_exact_there:
  assumes "create_shell_exact env i k spec st = (Inr (x, u), st')" and "durable_ok env st"
  shows "validate_uuid env k ''Shell idempotency key'' = Inr ()
     \<and> (\<exists>s. get (dst_shells st') k = Some s \<and> ds_workspace_id s = i \<and> ds_name s = spec_name spec
          \<and> ds_cwd s = spec_cwd spec \<and> ds_command s = spec_command spec)
     \<and> (\<forall>j s. get (dst_shells st) j = Some s \<longrightarrow> get (dst_shells st') j = Some s)
     \<and> (\<forall>j w. get (dst_workspaces st) j = Some w \<longrightarrow>
          (\<exists>w'. get (dst_workspaces st') j = Some w' \<and> dw_id w' = dw_id w \<and> dw_name w' = dw_name w
             \<and> dw_default_cwd w' = dw_default_cwd w))"
proof (cases "get (dst_shells st) k")
  case (Some s)
  then show ?thesis
    using assms(1)
    by (auto simp: create_shell_exact_def op_simps shell_to_snapshot_def bind_res_Inr split: if_splits dest!: sym [of "Inr _"])
next
  case None
  obtain w s where uuid: "Inr () = validate_uuid env k ''Shell idempotency key''"
    and w: "get (dst_workspaces st) i = Some w"
    and s: "Inr s = create_pending_shell env i k spec"
    and inserted: "insert_shell w s st = (Inr (), st')"
    using assms(1) None
    by (auto simp: create_shell_exact_def op_simps Durable_Ops.find_workspace_def ok_or_def split: option.splits)
  have fields: "ds_id s = k" "ds_workspace_id s = i" "ds_name s = spec_name spec" "ds_cwd s = spec_cwd spec"
    "ds_command s = spec_command spec"
    using s [symmetric] by (auto simp: create_pending_shell_def bind_res_Inr)
  obtain r where "st' = add_shell (\<lambda>_. r) s st"
    using inserted insert_shell_eq [OF durable_okD(2) [OF assms(2)], of s w] w fields(2)
    by (auto split: if_splits option.splits)
  then show ?thesis
    using uuid [symmetric] fields None durable_okD(2,3) [OF assms(2)]
    by (auto simp: add_shell_def get_put get_alter)
qed

lemma creates_result:
  assumes "creates env t st st'" and "durable_ok env st"
  shows "durable_ok env st'" and "created_in env t st'"
    and "created_in env t' st \<Longrightarrow> created_in env t' st'"
proof -
  obtain x u st1 y v where
    w: "create_workspace_exact env (lst_owner_workspace_id t) (lst_owner_workspace_name t)
          (lst_default_cwd t) st = (Inr (x, u), st1)"
    and s: "create_shell_exact env (lst_owner_workspace_id t) (lst_shell_id t) (lst_shell t) st1 = (Inr (y, v), st')"
    using assms(1) by (auto simp: creates_def)
  have ok1: "durable_ok env st1"
    using create_workspace_exact_refines [OF assms(2)] w changes_ok [OF _ assms(2)]
    by (fastforce simp: refined_def split: prod.splits)
  then show "durable_ok env st'"
    using create_shell_exact_refines [OF ok1] s changes_ok [OF _ ok1]
    by (fastforce simp: refined_def split: prod.splits)
  note w_there = workspace_exact_there [OF w assms(2)] and s_there = shell_exact_there [OF s ok1]
  have workspace: "\<exists>w'. get (dst_workspaces st') j = Some w' \<and> dw_id w' = dw_id w \<and> dw_name w' = dw_name w
      \<and> dw_default_cwd w' = dw_default_cwd w" if "get (dst_workspaces st1) j = Some w" for j w
    using that s_there by blast
  obtain w where "get (dst_workspaces st1) (lst_owner_workspace_id t) = Some w" "dw_id w = lst_owner_workspace_id t"
    "dw_name w = lst_owner_workspace_name t" "dw_default_cwd w = lst_default_cwd t"
    using w_there by blast
  then show "created_in env t st'"
    using workspace w_there s_there by (fastforce simp: created_in_def)
  show "created_in env t' st'" if created: "created_in env t' st"
  proof -
    obtain w where "get (dst_workspaces st) (lst_owner_workspace_id t') = Some w" "dw_id w = lst_owner_workspace_id t'"
      "dw_name w = lst_owner_workspace_name t'" "dw_default_cwd w = lst_default_cwd t'"
      using created by (auto simp: created_in_def)
    then have "\<exists>w'. get (dst_workspaces st') (lst_owner_workspace_id t') = Some w' \<and> dw_id w' = lst_owner_workspace_id t'
        \<and> dw_name w' = lst_owner_workspace_name t' \<and> dw_default_cwd w' = lst_default_cwd t'"
      using workspace w_there by metis
    moreover have "get (dst_shells st') (lst_shell_id t') = get (dst_shells st) (lst_shell_id t')"
      using created w_there s_there by (auto simp: created_in_def)
    ultimately show ?thesis using created by (simp add: created_in_def)
  qed
qed

text \<open>The state that a start makes of the state file and the creations in the journal.\<close>

definition gives_back :: "registry_env \<Rightarrow> persisted_state \<Rightarrow> local_shell_transaction list \<Rightarrow> durable_state \<Rightarrow> bool" where
  "gives_back env saved ts st \<longleftrightarrow>
     (\<forall>d clock. list_all (dirs_there d) ts \<longrightarrow>
        (\<exists>st0 dirty. restore_state (at_start d env) False clock saved = Inr (st0, dirty)
           \<and> replay_creates (at_start d env) ts st0 = (Inr (), rested False clock st)))"

lemma gives_back_saved:
  assumes "durable_ok env st" and "\<forall>t \<in> set ts. created_in env t st"
  shows "gives_back env (capture_persisted_state st) ts st"
proof -
  have "replay_creates (at_start d env) ts (rested False clock st) = (Inr (), rested False clock st)"
    if "list_all (dirs_there d) ts" for d clock
    using that assms(2)
  proof (induction ts)
    case (Cons t ts)
    then show ?case
      using created_again [of env t st d clock] replay_creates_append [of "at_start d env" "[t]" ts] by simp
  qed (simp add: return_op_def)
  then show ?thesis
    using restore_saved [of "at_start d env" st False clock for d clock] assms(1)
    by (auto simp: gives_back_def)
qed

lemma gives_back_more:
  assumes "gives_back env saved ts st" and "creates env t st st'"
  shows "gives_back env saved (ts @ [t]) st'"
  unfolding gives_back_def
proof (intro allI impI)
  fix d clock
  assume "list_all (dirs_there d) (ts @ [t])"
  then have dirs: "list_all (dirs_there d) ts" "dirs_there d t" by simp_all
  obtain st0 dirty where "restore_state (at_start d env) False clock saved = Inr (st0, dirty)"
    "replay_creates (at_start d env) ts st0 = (Inr (), rested False clock st)"
    using assms(1) dirs(1) unfolding gives_back_def by blast
  then show "\<exists>st0 dirty. restore_state (at_start d env) False clock saved = Inr (st0, dirty)
      \<and> replay_creates (at_start d env) (ts @ [t]) st0 = (Inr (), rested False clock st')"
    using creates_again [OF assms(2) dirs(2), of clock] by (simp add: replay_creates_append)
qed

end
