(* ===== verification/Shell_Journal_Recovery.thy ===== *)
theory Shell_Journal_Recovery
  imports Shell_Journal
begin

text \<open>
  What a journal of local Shells still holds after a crash: \<open>reads\<close> says that a file consists of
  whole lines that parse to a list of records, \<open>journal_state\<close> what every append and clear keeps
  of the file and the records in memory, and \<open>journal_loads\<close> what the next start reads.
\<close>

text \<open>What is relied on of \<open>serde_json\<close>: parsing inverts encoding, and an encoded entry is one line.\<close>

definition journal_codec :: "journal_env \<Rightarrow> bool" where
  "journal_codec env \<longleftrightarrow>
     (\<forall>entry bytes. jn_entry_bytes env entry = Inr bytes \<longrightarrow> jn_parse env bytes = Inr entry \<and> newline \<notin> set bytes)"

section \<open>Lines\<close>

lemma split_line_end: "newline \<notin> set line \<Longrightarrow> split_line (line @ newline # rest) = Some (line, rest)"
  by (induction line) auto

lemma split_line_None: "split_line cs = None \<longleftrightarrow> newline \<notin> set cs"
  by (induction cs) (auto split: option.splits)

lemma split_line_Some: "split_line cs = Some (line, rest) \<Longrightarrow> cs = line @ newline # rest \<and> newline \<notin> set line"
  by (induction cs arbitrary: line) (auto split: if_splits option.splits)

lemma split_line_append: "split_line cs = Some (line, rest) \<Longrightarrow> split_line (cs @ tail) = Some (line, rest @ tail)"
  by (induction cs arbitrary: line) (auto split: if_splits option.splits)

text \<open>A file that is read to its end, read on.\<close>

lemma parse_lines_bounds:
  "parse_lines env acc off bytes = Inr (records, n) \<Longrightarrow>
     off \<le> n \<and> n \<le> off + length bytes
     \<and> parse_lines env acc off (take (n - off) bytes) = Inr (records, n)"
proof (induction env acc off bytes rule: parse_lines.induct)
  case (1 env acc off bytes)
  show ?case
  proof (cases "split_line bytes")
    case None
    then have "records = acc" "n = off" using 1(2) by (simp_all add: parse_lines.simps [of env acc off bytes])
    then show ?thesis by (simp add: parse_lines.simps [of env acc off "[]"])
  next
    case (Some p)
    obtain line rest where split: "split_line bytes = Some (line, rest)" using Some by (cases p) simp
    then obtain r where entry: "check_entry env line = Inr r"
      and parsed: "parse_lines env (acc @ [r]) (off + Suc (length line)) rest = Inr (records, n)"
      using 1(2) by (auto simp: parse_lines.simps [of env acc off bytes] bind_res_Inr)
    note IH = 1(1) [OF split refl parsed]
    define m where "m = n - (off + Suc (length line))"
    have bytes: "bytes = line @ newline # rest" "newline \<notin> set line" using split_line_Some [OF split] by simp_all
    have n: "n - off = length line + Suc m" "m \<le> length rest" "n = off + Suc (length line) + m"
    proof -
      have "off + Suc (length line) \<le> n" "n \<le> off + Suc (length line) + length rest" using IH by simp_all
      then show "n - off = length line + Suc m" "m \<le> length rest" "n = off + Suc (length line) + m"
        unfolding m_def by arith+
    qed
    have "take (n - off) bytes = line @ newline # take m rest" by (simp add: n(1) bytes(1))
    then have "split_line (take (n - off) bytes) = Some (line, take m rest)"
      using split_line_end [OF bytes(2)] by simp
    then have "parse_lines env acc off (take (n - off) bytes) = Inr (records, n)"
      using IH entry by (subst parse_lines.simps) (simp add: m_def)
    then show ?thesis using n bytes(1) by simp
  qed
qed

lemma parse_lines_append:
  "parse_lines env acc off bytes = Inr (records, off + length bytes) \<Longrightarrow>
     parse_lines env acc off (bytes @ tail) = parse_lines env records (off + length bytes) tail"
proof (induction env acc off bytes rule: parse_lines.induct)
  case (1 env acc off bytes)
  show ?case
  proof (cases "split_line bytes")
    case None
    then show ?thesis using 1(2) by (simp add: parse_lines.simps [of env acc off bytes])
  next
    case (Some p)
    obtain line rest where split: "split_line bytes = Some (line, rest)" using Some by (cases p) simp
    have len: "length bytes = Suc (length line) + length rest" using split_line_length [OF split] by simp
    obtain r where entry: "check_entry env line = Inr r"
      and parsed: "parse_lines env (acc @ [r]) (off + Suc (length line)) rest = Inr (records, off + length bytes)"
      using 1(2) split by (auto simp: parse_lines.simps [of env acc off bytes] bind_res_Inr)
    have "parse_lines env (acc @ [r]) (off + Suc (length line)) (rest @ tail)
        = parse_lines env records (off + length bytes) tail"
      using 1(1) [OF split refl] parsed len by (simp add: algebra_simps)
    then show ?thesis
      using split_line_append [OF split, of tail] entry by (subst parse_lines.simps) simp
  qed
qed

definition reads :: "journal_env \<Rightarrow> string \<Rightarrow> local_shell_journal_record list \<Rightarrow> bool" where
  "reads env bytes records \<longleftrightarrow> parse_lines env [] 0 bytes = Inr (records, length bytes)"

lemma reads_Nil [simp]: "reads env [] records \<longleftrightarrow> records = []"
  by (auto simp: reads_def parse_lines.simps [of env "[]" 0 "[]"])

lemma line_entry:
  assumes "journal_codec env" and "journal_line env record = Inr line"
  obtains bytes where "line = bytes @ [newline]" "newline \<notin> set bytes" "check_entry env bytes = Inr record"
proof -
  obtain payload bytes where b: "jn_record_bytes env record = Inr payload"
    "jn_entry_bytes env (journal_entry_of env record payload) = Inr bytes" "line = bytes @ [newline]"
    using assms(2) by (auto simp: journal_line_def bind_res_Inr)
  then have "jn_parse env bytes = Inr (journal_entry_of env record payload)" "newline \<notin> set bytes"
    using assms(1) by (auto simp: journal_codec_def)
  moreover from this have "check_entry env bytes = Inr record"
    using b(1) by (simp add: check_entry_def journal_entry_of_def)
  ultimately show ?thesis using that b(3) by blast
qed

lemma reads_append:
  assumes "journal_codec env" and "reads env bytes records" and "journal_line env record = Inr line"
  shows "reads env (bytes @ line) (records @ [record])"
proof -
  obtain b where b: "line = b @ [newline]" "newline \<notin> set b" "check_entry env b = Inr record"
    by (rule line_entry [OF assms(1,3)])
  then have "parse_lines env records (length bytes) line = Inr (records @ [record], length bytes + length line)"
    using split_line_end [of b "[]"]
    by (subst parse_lines.simps) (simp add: parse_lines.simps [of env "records @ [record]" _ "[]"])
  then show ?thesis
    using parse_lines_append [of env "[]" 0 bytes records line] assms(2) by (simp add: reads_def)
qed

text \<open>An incomplete last line is not read.\<close>

lemma torn_line:
  assumes "journal_codec env" and "journal_line env record = Inr line" and "k < length line"
  shows "newline \<notin> set (take k line)"
proof -
  obtain b where "line = b @ [newline]" "newline \<notin> set b"
    using line_entry [OF assms(1,2)] by blast
  then show ?thesis using assms(3) by (auto dest: in_set_takeD)
qed

lemma reads_torn:
  assumes "reads env bytes records" and "newline \<notin> set torn"
  shows "parse_lines env [] 0 (bytes @ torn) = Inr (records, length bytes)"
  using parse_lines_append [of env "[]" 0 bytes records torn] assms split_line_None [of torn]
  by (simp add: reads_def parse_lines.simps [of env records _ torn])

section \<open>What the file holds\<close>

definition journal_state :: "journal_env \<Rightarrow> shell_journal \<Rightarrow> bool" where
  "journal_state env j \<longleftrightarrow>
     validate_sequence (jo_records j) = Inr () \<and> length (jo_file j) \<le> journal_max_bytes
     \<and> (if jo_failed j
        then \<exists>bytes record line k. reads env bytes (jo_records j) \<and> journal_line env record = Inr line
               \<and> validate_sequence (jo_records j @ [record]) = Inr () \<and> jo_file j = bytes @ take k line
        else reads env (jo_file j) (jo_records j))"

text \<open>The file of a daemon that dies, at rest or within an append.\<close>

definition journal_crash :: "journal_env \<Rightarrow> shell_journal \<Rightarrow> string \<Rightarrow> bool" where
  "journal_crash env j bytes \<longleftrightarrow>
     bytes = jo_file j
     \<or> (\<not> jo_failed j \<and> (\<exists>record line k. journal_line env record = Inr line
          \<and> validate_sequence (jo_records j @ [record]) = Inr ()
          \<and> length (jo_file j) + length line \<le> journal_max_bytes \<and> bytes = jo_file j @ take k line))"

definition journal_owned :: "u32 \<Rightarrow> string \<Rightarrow> journal_metadata \<Rightarrow> bool" where
  "journal_owned uid bytes m \<longleftrightarrow>
     jm_is_file m \<and> jm_uid m = uid \<and> jm_mode m AND 63 = 0 \<and> jm_len m = length bytes"

lemma load_result:
  assumes "journal_load_at env uid opened bytes truncated = Inr j"
  shows "journal_state env j \<and> \<not> jo_failed j"
proof -
  obtain records n where parsed: "parse_lines env [] 0 bytes = Inr (records, n)"
    and valid: "validate_sequence records = Inr ()" "length bytes \<le> journal_max_bytes"
    and j: "jo_records j = records" "jo_file j = take n bytes" "\<not> jo_failed j"
    using assms
    by (auto simp: journal_load_at_def parse_records_def bind_res_Inr split: if_splits prod.splits)
  note bounds = parse_lines_bounds [OF parsed]
  then have "reads env (take n bytes) records" by (simp add: reads_def min_absorb2)
  then show ?thesis using valid j by (simp add: journal_state_def)
qed

lemma load_torn:
  assumes codec: "journal_codec env" and "journal_owned uid bytes m" and "length bytes \<le> journal_max_bytes"
    and whole: "bytes = before @ take k line" "reads env before records" "journal_line env record = Inr line"
    and valid: "validate_sequence records = Inr ()" "validate_sequence (records @ [record]) = Inr ()"
  shows "\<exists>j. journal_load_at env uid (Inr m) bytes (Inr ()) = Inr j
    \<and> (jo_records j = records \<or> jo_records j = records @ [record])"
proof (cases "k < length line")
  case True
  have "parse_lines env [] 0 bytes = Inr (records, length before)"
    unfolding whole(1) by (rule reads_torn [OF whole(2) torn_line [OF codec whole(3) True]])
  then show ?thesis
    using assms(2,3) valid
    by (auto simp: journal_load_at_def journal_owned_def parse_records_def split: if_splits)
next
  case False
  then have "reads env bytes (records @ [record])"
    unfolding whole(1) using reads_append [OF codec whole(2,3)] by simp
  then show ?thesis
    using assms(2,3) valid
    by (auto simp: journal_load_at_def journal_owned_def parse_records_def reads_def split: if_splits)
qed

lemma journal_loads:
  assumes "journal_codec env" and state: "journal_state env j" and crash: "journal_crash env j bytes"
    and "journal_owned uid bytes m"
  shows "\<exists>j' unanswered. journal_load_at env uid (Inr m) bytes (Inr ()) = Inr j'
    \<and> jo_records j' = jo_records j @ unanswered \<and> length unanswered \<le> 1"
proof -
  have append: ?thesis
    if "length bytes \<le> journal_max_bytes" "bytes = before @ take k line" "reads env before (jo_records j)"
      "journal_line env record = Inr line" "validate_sequence (jo_records j @ [record]) = Inr ()"
    for before k line "record"
    using load_torn [OF assms(1,4) that(1-4) _ that(5)] state
    by (force simp: journal_state_def)
  show ?thesis
  proof (cases "jo_failed j")
    case True
    then show ?thesis
      using state crash append by (auto simp: journal_state_def journal_crash_def)
  next
    case False
    note reads = state [unfolded journal_state_def, THEN conjunct2, THEN conjunct2]
    show ?thesis
    proof (cases "bytes = jo_file j")
      case True
      then have "journal_load_at env uid (Inr m) bytes (Inr ())
          = Inr \<lparr>jo_file = bytes, jo_records = jo_records j, jo_failed = False\<rparr>"
        using state False assms(4)
        by (simp add: journal_load_at_def journal_owned_def parse_records_def journal_state_def reads_def)
      then show ?thesis by simp
    next
      case other: False
      then show ?thesis
        using crash False append state by (auto simp: journal_crash_def journal_state_def)
    qed
  qed
qed

section \<open>What appends and clears leave\<close>

datatype journal_command =
    JcAppend append_io local_shell_journal_record
  | JcClear clear_io
  | JcReset clear_io

fun journal_exec :: "journal_env \<Rightarrow> journal_command \<Rightarrow> shell_journal \<Rightarrow> unit res \<times> shell_journal" where
  "journal_exec env (JcAppend io record) j = journal_append env io record j"
| "journal_exec env (JcClear io) j = journal_clear io j"
| "journal_exec env (JcReset io) j = reset_after_full_checkpoint io j"

fun half_clear :: "journal_command \<Rightarrow> bool" where
  "half_clear (JcAppend _ _) = False"
| "half_clear (JcClear io) = (case io of ClearSyncFails _ \<Rightarrow> True | _ \<Rightarrow> False)"
| "half_clear (JcReset io) = (case io of ClearSyncFails _ \<Rightarrow> True | _ \<Rightarrow> False)"

text \<open>The records whose append was answered with success, since the journal was last cleared.\<close>

fun acknowledged :: "journal_command \<Rightarrow> unit res \<Rightarrow> local_shell_journal_record list
    \<Rightarrow> local_shell_journal_record list" where
  "acknowledged (JcAppend _ record) (Inr _) records = records @ [record]"
| "acknowledged (JcClear _) (Inr _) records = []"
| "acknowledged (JcReset _) (Inr _) records = []"
| "acknowledged _ (Inl _) records = records"

fun journal_run :: "journal_env \<Rightarrow> journal_command list \<Rightarrow> shell_journal \<Rightarrow> local_shell_journal_record list
    \<Rightarrow> shell_journal \<times> local_shell_journal_record list" where
  "journal_run env [] j records = (j, records)"
| "journal_run env (c # cs) j records =
     (case journal_exec env c j of (r, j') \<Rightarrow> journal_run env cs j' (acknowledged c r records))"

lemma validate_sequence_Nil [simp]: "validate_sequence [] = Inr ()"
  by (simp add: validate_sequence_def)

lemma append_cases:
  assumes "journal_append env io record j = (r, j')"
  obtains (refused) e where "r = Inl e" "j' = j"
    | (checked) line where "journal_line env record = Inr line" "\<not> jo_failed j"
      "validate_sequence (jo_records j @ [record]) = Inr ()"
      "length (jo_file j) + length line \<le> journal_max_bytes"
      "(r = Inr () \<and> j' = j\<lparr>jo_file := jo_file j @ line, jo_records := jo_records j @ [record]\<rparr>)
       \<or> (\<exists>e k. r = Inl e \<and> j' = j\<lparr>jo_file := jo_file j @ take k line, jo_failed := True\<rparr>)"
proof (cases "\<exists>e. r = Inl e \<and> j' = j")
  case False
  have small: "a + b \<le> journal_max_bytes" if "\<not> journal_max_bytes < usize_saturating_add a b" for a b
    using that by (auto simp: usize_saturating_add_def journal_max_bytes_def usize_max_def)
  show ?thesis
    using assms False checked small
    by (fastforce simp: journal_append_def ensure_usable_def bind_res_Inr
        split: sum.splits append_io.splits option.splits if_splits)
qed (use refused in blast)

lemma exec_state:
  assumes codec: "journal_codec env" and state: "journal_state env j" and whole: "\<not> half_clear c"
    and run: "journal_exec env c j = (r, j')"
  shows "journal_state env j' \<and> jo_records j' = acknowledged c r (jo_records j)"
proof (cases c)
  case (JcAppend io entry)
  then have "journal_append env io entry j = (r, j')" using run by simp
  then show ?thesis
  proof (cases rule: append_cases)
    case (checked line)
    have reads: "reads env (jo_file j) (jo_records j)" using state checked(2) by (simp add: journal_state_def)
    from checked(5) show ?thesis
    proof (elim disjE exE conjE)
      assume "r = Inr ()" and j': "j' = j\<lparr>jo_file := jo_file j @ line, jo_records := jo_records j @ [entry]\<rparr>"
      then show ?thesis
        using reads_append [OF codec reads checked(1)] checked JcAppend by (simp add: journal_state_def)
    next
      fix e k
      assume "r = Inl e" and j': "j' = j\<lparr>jo_file := jo_file j @ take k line, jo_failed := True\<rparr>"
      then show ?thesis
        using reads checked(1,3,4) state JcAppend by (auto simp: journal_state_def)
    qed
  qed (use state JcAppend in simp)
next
  case (JcClear io)
  then show ?thesis
    using run state whole
    by (cases io; cases "jo_failed j")
      (simp_all add: journal_clear_def clear_state_def ensure_usable_def, auto simp: journal_state_def)
next
  case (JcReset io)
  then show ?thesis
    using run state whole
    by (cases io) (simp_all add: reset_after_full_checkpoint_def clear_state_def, auto simp: journal_state_def)
qed

lemma run_state:
  assumes "journal_codec env" and "list_all (\<lambda>c. \<not> half_clear c) commands" and "journal_state env j"
    and "journal_run env commands j (jo_records j) = (j', records)"
  shows "journal_state env j' \<and> jo_records j' = records"
  using assms(2-)
proof (induction commands arbitrary: j)
  case (Cons c cs)
  obtain r j1 where run: "journal_exec env c j = (r, j1)" by fastforce
  have "journal_state env j1" "jo_records j1 = acknowledged c r (jo_records j)"
    using exec_state [OF assms(1) Cons.prems(2) _ run] Cons.prems(1) by simp_all
  then show ?case using Cons.IH [of j1] Cons.prems run by simp
qed simp

end
