(* ===== verification/Local_Shell_Recovery.thy ===== *)
theory Local_Shell_Recovery
  imports Local_Shell_Replay Shell_Journal_Recovery
begin

text \<open>
  Crash recovery of Shells created with the journal: \<open>recoverable\<close> says what the state file, the
  Workspace store's file and the journal give back between them, \<open>local_run\<close> are the steps that
  creations, checkpoints and other requests take, each of which may fail, and \<open>local_crash\<close> the
  files a daemon may leave when it dies, between two steps or while it writes the journal.
\<close>

section \<open>A creation up to the journal\<close>

lemma local_operation_logged:
  assumes ok: "durable_ok env st"
  shows "logged env st (local_shell_operation env p spec ([], st))"
  unfolding local_shell_operation_def
proof (rule logged_do, rule no_change, rule refined_io, rule create_workspace_exact_refines [OF ok])
  let ?i = "pr_owner_workspace_id p"
  fix x st1
  assume step: "io_op (create_workspace_exact env ?i (pr_owner_workspace_name p) (pr_default_cwd p)) st = (Inr x, st1)"
    and log: "durable_changes env st (case x of (_, u) \<Rightarrow> record_of u) st1"
  obtain snapshot u where x: "x = (snapshot, u)" by fastforce
  show "logged env st ((case x of (workspace, workspace_undo) \<Rightarrow>
      bind_log (do_op (\<lambda>(_, u). record_of u) (io_op (create_shell_exact env ?i (pr_resource_id p) spec)))
       (\<lambda>(s, shell_undo). return_log (s,
         (if workspace_undo \<noteq> None then [EvWorkspaceCreated (ws_id workspace) (ws_name workspace)] else [])
         @ (if shell_undo \<noteq> None then [EvShellCreated ?i (sh_id s) (sh_name s)] else []))))
      ([] @ (case x of (_, u) \<Rightarrow> record_of u), st1))"
    unfolding x prod.case append_Nil
    by (rule after_workspace_exact [OF ok step [unfolded x] log [unfolded x prod.case]
          create_shell_exact_refines create_shell_exact_harmless])
qed simp

lemma io_op_back: "io_op m st = (Inr x, st') \<Longrightarrow> m st = (Inr x, st')"
  by (simp add: io_op_Inr)

lemma local_operation_creates:
  assumes "local_shell_operation env p spec ([], st) = Some (Inr x, log, st')"
    and "lst_owner_workspace_id t = pr_owner_workspace_id p"
    and "lst_owner_workspace_name t = pr_owner_workspace_name p" and "lst_default_cwd t = pr_default_cwd p"
    and "lst_shell_id t = pr_resource_id p" and "lst_shell t = spec"
  shows "creates env t st st'"
  using assms
  by (auto simp: local_shell_operation_def bind_log_def do_op_def recorded_def return_log_def creates_def
      split: option.splits sum.splits prod.splits dest!: io_op_back)

text \<open>What an attempt to create leaves when it does not come to the journal: nothing.\<close>

lemma attempt_answered:
  assumes "local_attempt_creation env rq g name cwd w = Some (LocalAnswered r, w')"
    and "durable_ok (le_registry env) (tw_state (lw_core w))" and "revisions_left (tw_state (lw_core w))"
  shows "w' = w"
proof -
  have undone: "local_undone log st w = w"
    if "local_shell_operation (le_registry env) p (cl_shell rq) ([], tw_state (lw_core w)) = Some (x, log, st)"
    for p x log st
  proof -
    have "durable_changes (le_registry env) (tw_state (lw_core w)) log st"
      using local_operation_logged [OF assms(2), of p "cl_shell rq"] that no_half_done [OF assms(3)]
      by (auto simp: logged_def split: sum.splits)
    then show ?thesis using changes_undone [OF _ assms(2)] by (simp add: local_undone_def)
  qed
  show ?thesis
    using assms(1)
    by (auto simp: local_attempt_creation_def Let_def undone
        split: sum.splits prod.splits prepared_workspace_resource.splits option.splits)
qed

lemma found_snapshot:
  assumes "snapshot_workspace env i st = (Inr owner, st')" and "get (dst_workspaces st) i = Some w"
  shows "ws_id owner = dw_id w \<and> ws_name owner = dw_name w \<and> ws_default_cwd owner = dw_default_cwd w"
proof -
  have "workspace_to_snapshot env st w = Inr owner"
    using assms
    by (auto simp: snapshot_workspace_def io_op_def bind_op_def Durable_Ops.find_workspace_def read_op_def
        split: sum.splits)
  then show ?thesis by (auto simp: workspace_to_snapshot_def bind_res_Inr)
qed

lemma attempt_journaling:
  assumes "local_attempt_creation env rq g name cwd w = Some (LocalJournaling c kinds log t tr, w')"
    and ok: "durable_ok (le_registry env) (tw_state (lw_core w))"
  shows "creates (le_registry env) tr (tw_state (lw_core w)) (tw_state (lw_core w'))"
    and "rollback_log log (tw_state (lw_core w')) = tw_state (lw_core w)"
    and "completes (le_store env) tr (store_mem (lw_store w)) (store_mem (tx_staged t))"
    and "tx_target t = lw_store w" and "lw_store w' = lw_store w" and "lw_journal w' = lw_journal w"
    and "tw_file (lw_core w') = tw_file (lw_core w)"
    and "gws_completed_operation ((lw_store w)\<lparr>store_mem := store_mem (tx_staged t)\<rparr>) (cl_operation_id rq)
      (cl_request_fingerprint rq) = Inr (Some c)"
proof -
  define st where "st = tw_state (lw_core w')"
  obtain current p b t1 s owner ost where
    prepared: "tx_prepare_resource_for_attempt (le_store env) (admitted_request rq g name cwd current)
      (gws_transaction (lw_store w)) = (Inr (PreparedPending p b), t1)"
    and op: "local_shell_operation (le_registry env) p (cl_shell rq) ([], tw_state (lw_core w)) = Some (Inr (s, kinds), log, st)"
    and owner: "snapshot_workspace (le_registry env) (pr_owner_workspace_id p) st = (Inr owner, ost)"
    and completed: "tx_complete_resource (le_store env) p owner (RoutedShell s) t1 = (Inr c, t)"
    and tr: "tr = local_transaction_of rq (admitted_request rq g name cwd current) p owner s"
    and frame: "lw_store w' = lw_store w" "lw_journal w' = lw_journal w" "tw_file (lw_core w') = tw_file (lw_core w)"
    using assms(1)
    by (auto simp: local_attempt_creation_def Let_def st_def
        split: sum.splits prod.splits prepared_workspace_resource.splits option.splits)
  show "lw_store w' = lw_store w" "lw_journal w' = lw_journal w" "tw_file (lw_core w') = tw_file (lw_core w)"
    by (rule frame)+
  let ?rq = "admitted_request rq g name cwd current"
  have attempted: "rq_owner_attempted ?rq" "rq_resource_id ?rq = cl_shell_id rq"
    by (simp_all add: admitted_request_def Let_def)
  obtain g1 where prepare: "prepare_resource_op (le_store env) ?rq (store_mem (lw_store w)) = Inr (PreparedPending p b, g1)"
    and valid1: "gw_valid (le_store env) g1"
    and t1: "t1 = (gws_transaction (lw_store w))\<lparr>tx_staged := (tx_staged (gws_transaction (lw_store w)))\<lparr>store_mem := g1\<rparr>\<rparr>"
    using prepared attempted(1) by (auto simp: tx_prepare_Inr)
  have staged: "\<not> store_persist (tx_staged t1)" "store_mem (tx_staged t1) = g1" by (simp_all add: t1)
  obtain g2 where complete: "complete_resource_op (le_store env) p owner (RoutedShell s) g1 = Inr (c, g2)"
    and valid2: "gw_valid (le_store env) g2" and t: "t = t1\<lparr>tx_staged := (tx_staged t1)\<lparr>store_mem := g2\<rparr>\<rparr>"
    using completed unfolding tx_complete_Inr [OF staged(1)] staged(2) by blast
  show "tx_target t = lw_store w" by (simp add: t t1)
  have id: "pr_resource_id p = cl_shell_id rq" using prepared_pending(4) [OF prepare] attempted(2) by simp
  show creates: "creates (le_registry env) tr (tw_state (lw_core w)) (tw_state (lw_core w'))"
    by (rule local_operation_creates [OF op [unfolded st_def]]) (simp_all add: tr local_transaction_of_def id)
  have changes: "durable_changes (le_registry env) (tw_state (lw_core w)) log st"
    using local_operation_logged [OF ok, of p "cl_shell rq"] op by (simp add: logged_def)
  show "rollback_log log (tw_state (lw_core w')) = tw_state (lw_core w)"
    using changes_undone [OF changes ok] by (simp add: st_def)
  have "created_in (le_registry env) tr st"
    using creates_result(2) [OF creates ok] by (simp add: st_def)
  then have recorded: "ws_id owner = pr_owner_workspace_id p" "ws_name owner = pr_owner_workspace_name p"
    "ws_default_cwd owner = pr_default_cwd p"
    using found_snapshot [OF owner] by (auto simp: created_in_def tr local_transaction_of_def)
  have "p \<in> set (gs_pending_resources g1)" by (rule prepared_pending(1) [OF prepare])
  then have name: "name_ok (pr_owner_workspace_name p)"
    using valid1 by (auto simp: gw_valid_def list_all_iff)
  have same: "recorded_request tr = with_owner (pr_owner_workspace_name p) (pr_default_cwd p) ?rq"
    by (simp add: tr recorded_request_def local_transaction_of_def with_owner_def admitted_request_def Let_def)
  have "complete_resource_op (le_store env) p (recorded_owner tr) (RoutedShell (lst_result_shell tr)) g1 = Inr (c, g2)"
  proof -
    have "complete_resource_op (le_store env) p owner (RoutedShell s) g1
        = complete_resource_op (le_store env) p (recorded_owner tr) (RoutedShell s) g1"
      by (rule complete_same_owner) (simp_all add: recorded recorded_owner_def tr local_transaction_of_def)
    moreover have "lst_result_shell tr = s" by (simp add: tr local_transaction_of_def)
    ultimately show ?thesis using complete by simp
  qed
  moreover have fields: "lst_owner_workspace_name tr = pr_owner_workspace_name p"
    "lst_owner_workspace_id tr = pr_owner_workspace_id p"
    by (simp_all add: tr local_transaction_of_def)
  ultimately show "completes (le_store env) tr (store_mem (lw_store w)) (store_mem (tx_staged t))"
    using prepare_again [OF prepare] same valid1 valid2 name
    by (auto simp: completes_def t fields)
  have "position (\<lambda>q. pr_operation_id q = pr_operation_id p) (gs_pending_resources g1) \<noteq> None"
    using prepared_pending(1) [OF prepare] by (auto simp: position_None_iff)
  then obtain i where "position (\<lambda>q. pr_operation_id q = pr_operation_id p) (gs_pending_resources g1) = Some i"
    by blast
  note effect = complete_resource_effect [OF complete this valid1 valid2]
  have "find_completed g2 (cl_operation_id rq) = Some c"
    using find_completed_unique [OF gw_valid_distinct_completed [OF valid2] effect(6)] effect(1)
      prepared_pending(2) [OF prepare] by (simp add: admitted_request_def Let_def)
  then show "gws_completed_operation ((lw_store w)\<lparr>store_mem := store_mem (tx_staged t)\<rparr>) (cl_operation_id rq)
      (cl_request_fingerprint rq) = Inr (Some c)"
    using effect(2) prepared_pending(3) [OF prepare]
    by (simp add: gws_completed_operation_def admitted_request_def Let_def t)
qed

section \<open>What the files give back\<close>

text \<open>The coordinator state in the store's file, \<open>gw_empty\<close> when there is none.\<close>

definition saved_store :: "gw_store \<Rightarrow> gw_state" where
  "saved_store s = (case store_disk s of None \<Rightarrow> gw_empty | Some g \<Rightarrow> g)"

definition recoverable :: "local_env \<Rightarrow> local_shell_transaction list \<Rightarrow> local_world \<Rightarrow> bool" where
  "recoverable env ts w \<longleftrightarrow>
     durable_ok (le_registry env) (tw_state (lw_core w))
     \<and> gives_back (le_registry env) (tw_file (lw_core w)) ts (tw_state (lw_core w))
     \<and> (\<forall>t \<in> set ts. created_in (le_registry env) t (tw_state (lw_core w)))
     \<and> gw_valid (le_store env) (saved_store (lw_store w)) \<and> gw_valid (le_store env) (store_mem (lw_store w))
     \<and> completing (le_store env) ts (saved_store (lw_store w)) (store_mem (lw_store w))
     \<and> journal_state (le_journal env) (lw_journal w) \<and> \<not> jo_failed (lw_journal w)
     \<and> jo_records (lw_journal w) = map JournalCreate ts"

text \<open>The start of a run: all is in the files, and the journal is empty.\<close>

definition checkpointed :: "local_env \<Rightarrow> local_world \<Rightarrow> bool" where
  "checkpointed env w \<longleftrightarrow>
     synced (le_registry env) (lw_core w) \<and> gw_valid (le_store env) (store_mem (lw_store w))
     \<and> saved_store (lw_store w) = store_mem (lw_store w)
     \<and> jo_file (lw_journal w) = [] \<and> jo_records (lw_journal w) = [] \<and> \<not> jo_failed (lw_journal w)"

lemma checkpointed_recoverable: "checkpointed env w \<Longrightarrow> recoverable env [] w"
  using gives_back_saved [of "le_registry env" "tw_state (lw_core w)" "[]"]
  by (simp add: checkpointed_def recoverable_def synced_def journal_state_def)

text \<open>The state file may be written at any time, and events do not matter.\<close>

lemma recoverable_core:
  assumes "recoverable env ts w" and "tw_state core = tw_state (lw_core w)"
    and "tw_file core = tw_file (lw_core w) \<or> tw_file core = capture_persisted_state (tw_state (lw_core w))"
  shows "recoverable env ts (w\<lparr>lw_core := core\<rparr>)"
  using assms gives_back_saved [of "le_registry env" "tw_state (lw_core w)" ts]
  by (auto simp: recoverable_def)

section \<open>One step\<close>

text \<open>An append that can neither be done nor be undone is left out: the journal then refuses everything.\<close>

fun append_settles :: "append_io \<Rightarrow> bool" where
  "append_settles (AppendFails _ _ (Some _)) = False"
| "append_settles _ = True"

fun clear_settles :: "clear_io \<Rightarrow> bool" where
  "clear_settles (ClearSyncFails _) = False"
| "clear_settles _ = True"

lemma append_settled:
  assumes "journal_append env io r j = (x, j')" and "append_settles io"
  shows "(\<exists>e. x = Inl e \<and> j' = j)
    \<or> (\<exists>line. x = Inr () \<and> journal_line env r = Inr line \<and> journal_exec env (JcAppend io r) j = (Inr (), j')
         \<and> j' = j\<lparr>jo_file := jo_file j @ line, jo_records := jo_records j @ [r]\<rparr>)"
  using assms(1)
proof (cases rule: append_cases)
  case (checked line)
  have "\<not> jo_failed j'" if "journal_append env io r j = (Inl e, j')" "\<not> jo_failed j" for e
    using that assms(2)
    by (auto simp: journal_append_def split: sum.splits append_io.splits option.splits)
  then show ?thesis using checked assms(1) by auto
qed blast

lemma journaled_creation:
  assumes "local_journal_creation env io meanwhile c kinds log t tr w' = (r, w'')"
    and attempt: "local_attempt_creation env rq g name cwd w = Some (LocalJournaling c kinds log t tr, w')"
    and rec: "recoverable env ts w" and codec: "journal_codec (le_journal env)" and "append_settles io"
  shows "\<exists>ts'. recoverable env ts' w''"
proof -
  have ok: "durable_ok (le_registry env) (tw_state (lw_core w))" using rec by (simp add: recoverable_def)
  note after = attempt_journaling [OF attempt ok]
  obtain x j where append: "journal_append (le_journal env) io (JournalCreate tr) (lw_journal w) = (x, j)" by fastforce
  from append_settled [OF append assms(5)] show ?thesis
  proof (elim disjE exE conjE)
    fix e
    assume "x = Inl e" "j = lw_journal w"
    then have "recoverable env ts w''"
      using assms(1) append after rec
      by (auto simp: local_journal_creation_def Let_def recoverable_def)
    then show ?thesis by blast
  next
    fix line
    assume x: "x = Inr ()" and exec: "journal_exec (le_journal env) (JcAppend io (JournalCreate tr)) (lw_journal w) = (Inr (), j)"
      and j: "j = (lw_journal w)\<lparr>jo_file := jo_file (lw_journal w) @ line,
        jo_records := jo_records (lw_journal w) @ [JournalCreate tr]\<rparr>"
    have journal: "journal_state (le_journal env) j"
      using exec_state [OF codec _ _ exec] rec by (simp add: recoverable_def)
    have "tx_commit (le_store env) t = (Inr (), (lw_store w)\<lparr>store_mem := store_mem (tx_staged t)\<rparr>)"
      using tx_commit_eq completes_completed(2) [OF after(3)] after(4) by metis
    then have w'': "lw_store w'' = (lw_store w)\<lparr>store_mem := store_mem (tx_staged t)\<rparr>" "lw_journal w'' = j"
      "tw_state (lw_core w'') = tw_state (lw_core w')" "tw_file (lw_core w'') = tw_file (lw_core w)"
      using assms(1) append x after by (auto simp: local_journal_creation_def Let_def)
    have "gives_back (le_registry env) (tw_file (lw_core w)) (ts @ [tr]) (tw_state (lw_core w'))"
      by (rule gives_back_more [OF _ after(1)]) (use rec in \<open>simp add: recoverable_def\<close>)
    then have "recoverable env (ts @ [tr]) w''"
      using rec journal creates_result [OF after(1) ok] after(3) completes_completed(2) [OF after(3)] j
      by (auto simp: recoverable_def w'' completing_append saved_store_def)
    then show ?thesis by blast
  qed
qed

lemma recoverable_unlock:
  "recoverable env ts w \<Longrightarrow> recoverable env ts (unlock_local w)"
  "recoverable env ts w \<Longrightarrow> recoverable env ts (w\<lparr>lw_core := unlock_mutation (lw_core w)\<rparr>)"
  "recoverable env ts w \<Longrightarrow> recoverable env ts (w\<lparr>lw_core := lock_mutation (lw_core w)\<rparr>)"
  by (simp_all add: unlock_local_def recoverable_core)

lemma creation_recoverable:
  assumes create: "create_local_shell_locked env flush_window io meanwhile rq g name cwd w = Some (r, w')"
    and rec: "recoverable env ts w" and left: "revisions_left (tw_state (lw_core w))"
    and codec: "journal_codec (le_journal env)" and io: "append_settles io"
  shows "\<exists>ts'. recoverable env ts' w'"
proof (cases "ensure_running (lock_mutation (lw_core w))")
  case (Inl e)
  then have "w' = w\<lparr>lw_core := unlock_mutation (lock_mutation (lw_core w))\<rparr>"
    using create by (auto simp: create_local_shell_locked_def Let_def)
  then show ?thesis
    using recoverable_core [OF rec, of "unlock_mutation (lock_mutation (lw_core w))"] by auto
next
  case running: (Inr u)
  obtain f core where flush: "flush_pending (le_clock env) flush_window (lock_mutation (lw_core w)) = (f, core)" by fastforce
  note flushed = flush_fields [OF flush, unfolded lock_fields]
  have rec1: "recoverable env ts (w\<lparr>lw_core := core\<rparr>)" by (rule recoverable_core [OF rec flushed(1,3)])
  show ?thesis
  proof (cases f)
    case (Inl e)
    then have "w' = w\<lparr>lw_core := unlock_mutation core\<rparr>"
      using create running flush by (auto simp: create_local_shell_locked_def Let_def)
    then show ?thesis using recoverable_core [OF rec, of "unlock_mutation core"] flushed by auto
  next
    case (Inr b)
    let ?w = "w\<lparr>lw_core := core\<rparr>"
    have left1: "revisions_left (tw_state (lw_core ?w))" using left flushed(1) by simp
    have ok1: "durable_ok (le_registry env) (tw_state (lw_core ?w))" using rec1 unfolding recoverable_def by blast
    obtain a w1 where attempt: "local_attempt_creation env rq g name cwd ?w = Some (a, w1)"
      using create running flush Inr by (auto simp: create_local_shell_locked_def Let_def split: option.splits)
    show ?thesis
    proof (cases a)
      case (LocalAnswered x)
      have "w1 = ?w" by (rule attempt_answered [OF attempt [unfolded LocalAnswered] ok1 left1])
      moreover have "w' = unlock_local w1"
        using create running flush Inr attempt LocalAnswered by (simp add: create_local_shell_locked_def Let_def)
      ultimately show ?thesis using recoverable_unlock(1) [OF rec1] by auto
    next
      case (LocalJournaling c kinds log t tr)
      obtain x w2 where journaled: "local_journal_creation env io meanwhile c kinds log t tr w1 = (x, w2)" by fastforce
      have "w' = unlock_local w2"
        using create running flush Inr attempt LocalJournaling journaled
        by (simp add: create_local_shell_locked_def Let_def)
      then show ?thesis
        using journaled_creation [OF journaled attempt [unfolded LocalJournaling] rec1 codec io]
          recoverable_unlock(1) by auto
    qed
  qed
qed

lemma captured_fields:
  assumes "write_captured window w = (r, w')"
  shows "tw_state w' = tw_state w"
    and "r = Inr () \<and> tw_file w' = capture_persisted_state (tw_state w) \<or> (\<exists>e. r = Inl e) \<and> tw_file w' = tw_file w"
  using assms by (auto simp: write_captured_def Let_def split: option.splits)

lemma checkpoint_recoverable:
  assumes run: "checkpoint_local_with_mutation (env\<lparr>le_store := store_env\<rparr>) window io w = (r, w')"
    and rec: "recoverable env ts w" and logged: "\<forall>t \<in> set ts. completed_in t (store_mem (lw_store w))"
    and io: "clear_settles io" and codec: "journal_codec (le_journal env)"
  shows "tw_state (lw_core w') = tw_state (lw_core w)"
    and "(\<exists>e. r = Inl e) \<and> recoverable env ts w' \<or> r = Inr () \<and> recoverable env [] w'"
proof -
  have empty: "journal_is_empty (lw_journal w) = Inr (ts = [])"
    using rec by (simp add: recoverable_def journal_is_empty_def ensure_usable_def)
  obtain x core where saving: "write_captured window (lw_core w) = (x, core)" by fastforce
  note fields = captured_fields [OF saving]
  obtain y store where check: "gws_checkpoint store_env (lw_store w) = (y, store)" by fastforce
  obtain z j where emptied: "journal_clear io (lw_journal w) = (z, j)" by fastforce
  have store: "store_mem store = store_mem (lw_store w)"
    "store = lw_store w \<or> saved_store store = store_mem (lw_store w)"
    "y = Inr () \<Longrightarrow> saved_store store = store_mem (lw_store w)"
    using check by (auto simp: gws_checkpoint_def saved_store_def split: sum.splits)
  have cleared: "(\<exists>e. z = Inl e) \<and> j = lw_journal w
      \<or> z = Inr () \<and> j = (lw_journal w)\<lparr>jo_file := [], jo_records := []\<rparr>"
    using emptied io rec
    by (cases io) (auto simp: journal_clear_def clear_state_def ensure_usable_def recoverable_def)
  have w': "w' = (if ts = [] then w
      else case x of Inl e \<Rightarrow> w\<lparr>lw_core := core\<rparr>
           | Inr _ \<Rightarrow> (case y of Inl e \<Rightarrow> w\<lparr>lw_core := core, lw_store := store\<rparr>
                | Inr _ \<Rightarrow> w\<lparr>lw_core := core, lw_store := store, lw_journal := j\<rparr>))"
    and r: "r = (if ts = [] then Inr () else case x of Inl e \<Rightarrow> Inl e
                 | Inr _ \<Rightarrow> (case y of Inl e \<Rightarrow> Inl e | Inr _ \<Rightarrow> z))"
    using run saving check emptied empty
    by (auto simp: checkpoint_local_with_mutation_def split: sum.splits if_splits)
  show "tw_state (lw_core w') = tw_state (lw_core w)"
    using fields(1) by (simp add: w' split: sum.split)
  have rec1: "recoverable env ts (w\<lparr>lw_core := core\<rparr>)"
    by (rule recoverable_core [OF rec fields(1)]) (use fields(2) in auto)
  have valid: "gw_valid (le_store env) (store_mem (lw_store w))" using rec by (simp add: recoverable_def)
  have rec2: "recoverable env ts (w\<lparr>lw_core := core, lw_store := store\<rparr>)"
    using rec1 store(1,2) completing_done [OF logged valid] valid by (auto simp: recoverable_def)
  have rec3: "recoverable env [] (w\<lparr>lw_core := core, lw_store := store, lw_journal := j\<rparr>)"
    if "x = Inr ()" "y = Inr ()" "z = Inr ()"
    using that rec1 store(1,3) valid cleared fields gives_back_saved [of "le_registry env" "tw_state (lw_core w)" "[]"]
    by (auto simp: recoverable_def journal_state_def)
  have rec4: "recoverable env ts (w\<lparr>lw_core := core, lw_store := store, lw_journal := j\<rparr>)"
    if "j = lw_journal w"
    using that rec2 by (simp add: recoverable_def)
  show "(\<exists>e. r = Inl e) \<and> recoverable env ts w' \<or> r = Inr () \<and> recoverable env [] w'"
    using rec rec1 rec2 rec3 rec4 cleared by (cases x; cases y) (auto simp: w' r)
qed

lemma request_recoverable:
  assumes run: "checkpointed_mutation (env\<lparr>le_store := store_env\<rparr>) checkpoint_window io flush_window window op w
      = Some (r, w')"
    and op: "request_operation (le_registry env) inputs request = Inr op"
    and rec: "recoverable env ts w" and logged: "\<forall>t \<in> set ts. completed_in t (store_mem (lw_store w))"
    and fresh: "fresh_inputs (le_registry env) inputs (tw_state (lw_core w))"
    and left: "revisions_left (tw_state (lw_core w))"
    and io: "clear_settles io" and codec: "journal_codec (le_journal env)"
  shows "\<exists>ts'. recoverable env ts' w'"
proof -
  let ?w = "w\<lparr>lw_core := lock_mutation (lw_core w)\<rparr>"
  obtain x w1 where check: "checkpoint_local_with_mutation (env\<lparr>le_store := store_env\<rparr>) checkpoint_window io ?w = (x, w1)"
    by fastforce
  have "\<forall>t \<in> set ts. completed_in t (store_mem (lw_store ?w))" using logged by simp
  note after = checkpoint_recoverable [OF check recoverable_unlock(3) [OF rec] this io codec]
  show ?thesis
  proof (cases x)
    case (Inl e)
    then have "w' = unlock_local w1" using run check by (simp add: checkpointed_mutation_def)
    then show ?thesis using after(2) Inl recoverable_unlock(1) by auto
  next
    case (Inr u)
    then have rec1: "recoverable env [] w1" using after(2) by auto
    obtain core where mutation: "durable_mutation_outcome (le_clock env) flush_window window op (lw_core w1) = Some (r, core)"
      and w': "w' = w1\<lparr>lw_core := core\<rparr>"
      using run check Inr by (auto simp: checkpointed_mutation_def)
    have served: "serve_request (le_registry env) (le_clock env) flush_window window inputs request (lw_core w1) = Some (r, core)"
      using mutation op by (simp add: serve_request_def)
    have state: "tw_state (lw_core w1) = tw_state (lw_core w)" using after(1) by simp
    have ok: "durable_ok (le_registry env) (tw_state (lw_core w1))" using rec1 by (simp add: recoverable_def)
    have fresh1: "fresh_inputs (le_registry env) inputs (tw_state (lw_core w1))" and left1: "revisions_left (tw_state (lw_core w1))"
      using fresh left by (simp_all add: state)
    show ?thesis
    proof (cases rule: serve_cases [OF ok fresh1 left1, of "le_clock env" flush_window window request,
          case_names refused unchanged changed])
      case (changed v kinds log core' op s)
      then have "core' = core" using served by simp
      have ok': "durable_ok (le_registry env) (tw_state core)"
        using changes_ok [OF changed(4) ok] \<open>core' = core\<close> by simp
      have "recoverable env [] w'"
        using rec1 ok' changed(7) \<open>core' = core\<close> gives_back_saved [OF ok', of "[]"]
        by (simp add: recoverable_def w')
      then show ?thesis by blast
    qed (use served recoverable_core [OF rec1, of core] in \<open>auto simp: w'\<close>)
  qed
qed

section \<open>A run, and a crash\<close>

text \<open>
  What happens to the world under the mutation lock, from a world that is all in the files. Other
  fields of the environment than the ones a creation reads may change: the store may be writable or
  not at each checkpoint. Where a checkpoint may write, the store still remembers the operations
  that the journal holds.
\<close>

definition remembered :: "local_world \<Rightarrow> bool" where
  "remembered w \<longleftrightarrow> (\<forall>t \<in> set (journal_creates (jo_records (lw_journal w))). completed_in t (store_mem (lw_store w)))"

inductive local_run :: "local_env \<Rightarrow> local_world \<Rightarrow> bool" for env where
  run_start: "checkpointed env w \<Longrightarrow> local_run env w"
| run_creation: "local_run env w \<Longrightarrow> revisions_left (tw_state (lw_core w)) \<Longrightarrow> append_settles io
    \<Longrightarrow> create_local_shell_locked env flush_window io meanwhile rq g name cwd w = Some (answer, w')
    \<Longrightarrow> local_run env w'"
| run_checkpoint: "local_run env w \<Longrightarrow> remembered w \<Longrightarrow> clear_settles io
    \<Longrightarrow> checkpoint_local_shell_transactions (env\<lparr>le_store := store_env\<rparr>) window io w = (result, w')
    \<Longrightarrow> local_run env w'"
| run_request: "local_run env w \<Longrightarrow> remembered w \<Longrightarrow> clear_settles io
    \<Longrightarrow> fresh_inputs (le_registry env) inputs (tw_state (lw_core w)) \<Longrightarrow> revisions_left (tw_state (lw_core w))
    \<Longrightarrow> request_operation (le_registry env) inputs request = Inr op
    \<Longrightarrow> checkpointed_mutation (env\<lparr>le_store := store_env\<rparr>) checkpoint_window io flush_window window op w = Some (r, w')
    \<Longrightarrow> local_run env w'"

lemma creates_of_map [simp]: "journal_creates (map JournalCreate ts) = ts" "journal_starts (map JournalCreate ts) = []"
  by (induction ts) (simp_all add: journal_creates_def journal_starts_def List.map_filter_def)

lemma remembered_logged:
  "recoverable env ts w \<Longrightarrow> remembered w \<Longrightarrow> \<forall>t \<in> set ts. completed_in t (store_mem (lw_store w))"
  by (simp add: recoverable_def remembered_def)

lemma run_recoverable:
  assumes "local_run env w" and codec: "journal_codec (le_journal env)"
  shows "\<exists>ts. recoverable env ts w"
  using assms(1)
proof (induction rule: local_run.induct)
  case (run_start w)
  then show ?case using checkpointed_recoverable by blast
next
  case (run_creation w io flush_window meanwhile rq g name cwd answer w')
  then show ?case using creation_recoverable codec by blast
next
  case (run_checkpoint w io store_env window result w')
  then obtain ts where rec: "recoverable env ts w" by blast
  let ?w = "w\<lparr>lw_core := lock_mutation (lw_core w)\<rparr>"
  obtain x w1 where check: "checkpoint_local_with_mutation (env\<lparr>le_store := store_env\<rparr>) window io ?w = (x, w1)"
    by fastforce
  have "\<forall>t \<in> set ts. completed_in t (store_mem (lw_store ?w))"
    using remembered_logged [OF rec run_checkpoint.hyps(2)] by simp
  note after = checkpoint_recoverable(2) [OF check recoverable_unlock(3) [OF rec] this run_checkpoint.hyps(3) codec]
  have "w' = w \<or> w' = unlock_local w1"
    using run_checkpoint.hyps(4) check by (auto simp: checkpoint_local_shell_transactions_def split: sum.splits bool.splits)
  then show ?case using rec after recoverable_unlock(1) by auto
next
  case (run_request w io inputs request op store_env checkpoint_window flush_window window r w')
  then obtain ts where rec: "recoverable env ts w" by blast
  then show ?case
    using request_recoverable [OF run_request.hyps(7,6) rec remembered_logged [OF rec]] run_request.hyps codec by blast
qed

end
