(* ===== verification/Local_Shell_Crash.thy ===== *)
theory Local_Shell_Crash
  imports Local_Shell_Recovery
begin

text \<open>
  The start after a crash: what a daemon that dies leaves in its three files (\<open>local_crash\<close>), and
  what the next one makes of them.
\<close>

section \<open>The files of a daemon that dies\<close>

text \<open>
  \<open>local_crash env w saved bytes st g\<close>: the daemon in world \<open>w\<close> dies and leaves \<open>saved\<close> in the
  state file and \<open>bytes\<close> in the journal; \<open>st\<close> and \<open>g\<close> are the states the next start is to restore.
  A daemon that dies in the append of a record has not answered that request yet: if the line is
  torn it has not been made, and if the line is whole it has.
\<close>

inductive local_crash :: "local_env \<Rightarrow> local_world \<Rightarrow> persisted_state \<Rightarrow> string \<Rightarrow> durable_state \<Rightarrow> gw_state \<Rightarrow> bool"
  for env w where
  crash_between: "local_crash env w (tw_file (lw_core w)) (jo_file (lw_journal w)) (tw_state (lw_core w))
    (store_mem (lw_store w))"
| crash_appending: "flush_pending (le_clock env) flush_window (lock_mutation (lw_core w)) = (Inr b, core)
    \<Longrightarrow> local_attempt_creation env rq g name cwd (w\<lparr>lw_core := core\<rparr>) = Some (LocalJournaling c kinds log t tr, w')
    \<Longrightarrow> journal_append (le_journal env) AppendDone (JournalCreate tr) (lw_journal w) = (Inr (), j)
    \<Longrightarrow> length (jo_file (lw_journal w)) \<le> k \<Longrightarrow> k < length (jo_file j)
    \<Longrightarrow> local_crash env w (tw_file core) (take k (jo_file j)) (tw_state (lw_core w)) (store_mem (lw_store w))"
| crash_appended: "flush_pending (le_clock env) flush_window (lock_mutation (lw_core w)) = (Inr b, core)
    \<Longrightarrow> local_attempt_creation env rq g name cwd (w\<lparr>lw_core := core\<rparr>) = Some (LocalJournaling c kinds log t tr, w')
    \<Longrightarrow> journal_append (le_journal env) AppendDone (JournalCreate tr) (lw_journal w) = (Inr (), j)
    \<Longrightarrow> local_crash env w (tw_file core) (jo_file j) (tw_state (lw_core w')) (store_mem (tx_staged t))"

section \<open>Reading the journal\<close>

lemma load_reads:
  assumes "reads env bytes records" and "newline \<notin> set torn" and "validate_sequence records = Inr ()"
    and "length (bytes @ torn) \<le> journal_max_bytes" and "journal_owned uid (bytes @ torn) m"
  shows "journal_load_at env uid (Inr m) (bytes @ torn) (Inr ())
    = Inr \<lparr>jo_file = bytes, jo_records = records, jo_failed = False\<rparr>"
  using reads_torn [OF assms(1,2)] assms(3-5)
  by (auto simp: journal_load_at_def journal_owned_def parse_records_def)

lemma load_whole:
  assumes "journal_state env j" and "\<not> jo_failed j" and "journal_owned uid (jo_file j) m"
  shows "journal_load_at env uid (Inr m) (jo_file j) (Inr ()) = Inr j"
  using load_reads [of env "jo_file j" "jo_records j" "[]" uid m] assms
  by (cases j) (simp add: journal_state_def)

lemma load_torn_append:
  assumes codec: "journal_codec env" and state: "journal_state env j" "\<not> jo_failed j"
    and append: "journal_append env AppendDone r j = (Inr (), j')"
    and k: "length (jo_file j) \<le> k" "k < length (jo_file j')" and owned: "journal_owned uid (take k (jo_file j')) m"
  shows "journal_load_at env uid (Inr m) (take k (jo_file j')) (Inr ()) = Inr j"
proof -
  obtain line where line: "journal_line env r = Inr line" and j': "jo_file j' = jo_file j @ line"
    and valid: "length (jo_file j) + length line \<le> journal_max_bytes"
    using append by (cases rule: append_cases) auto
  have bytes: "take k (jo_file j') = jo_file j @ take (k - length (jo_file j)) line"
    using k(1) by (simp add: j')
  have "newline \<notin> set (take (k - length (jo_file j)) line)"
    by (rule torn_line [OF codec line]) (use k in \<open>simp add: j'\<close>)
  then have "journal_load_at env uid (Inr m) (jo_file j @ take (k - length (jo_file j)) line) (Inr ())
      = Inr \<lparr>jo_file = jo_file j, jo_records = jo_records j, jo_failed = False\<rparr>"
    by (rule load_reads [rotated]) (use state valid owned bytes in \<open>auto simp: journal_state_def\<close>)
  then show ?thesis using state(2) by (cases j) (simp add: bytes)
qed

section \<open>The next start\<close>

definition stored :: "string \<Rightarrow> gw_store \<Rightarrow> gw_state res" where
  "stored message s = (case store_disk s of None \<Rightarrow> Inl (IoError NotFound message) | Some g \<Rightarrow> Inr g)"

lemma load_stored:
  assumes "gw_valid env (saved_store s)"
  shows "load_at env (stored message s) = Inr (s\<lparr>store_mem := saved_store s, store_persist := True\<rparr>)"
proof -
  have "gs_version (saved_store s) = coordinator_workspace_version"
    using gw_valid_limits [OF assms] by (simp add: within_limits_def)
  then show ?thesis
    using assms validated [OF assms]
    by (cases "store_disk s"; cases s)
      (auto simp: load_at_def load_migrate_def stored_def saved_store_def coordinator_workspace_version_def Let_def)
qed

text \<open>The environment at the next start.\<close>

abbreviation next_env :: "(path \<Rightarrow> bool) \<Rightarrow> local_env \<Rightarrow> local_env" where
  "next_env is_dir env \<equiv> env\<lparr>le_registry := at_start is_dir (le_registry env)\<rparr>"

lemma completions_replayed:
  assumes "completing (le_store env) ts (store_mem s) g"
    and "\<forall>t \<in> set ts. created_in reg t st"
  shows "replay_completions env (rested False clock st) ts s = (Inr (), s\<lparr>store_mem := g\<rparr>)"
  using assms
proof (induction ts arbitrary: s)
  case Nil
  then show ?case by simp
next
  case (Cons t ts)
  obtain g1 where step: "completes (le_store env) t (store_mem s) g1
      \<or> completed_in t (store_mem s) \<and> gw_valid (le_store env) (store_mem s) \<and> g1 = store_mem s"
    and rest: "completing (le_store env) ts g1 g"
    using Cons.prems(1) by auto
  obtain w where w: "get (dst_workspaces st) (lst_owner_workspace_id t) = Some w" "dw_id w = lst_owner_workspace_id t"
    "dw_name w = lst_owner_workspace_name t" "dw_default_cwd w = lst_default_cwd t"
    using Cons.prems(2) by (auto simp: created_in_def)
  obtain owner where owner: "workspace_to_snapshot (le_registry env) (rested False clock st) w = Inr owner"
    and same: "owner_recorded t owner"
    using rested_snapshot [of "le_registry env" False clock st w] w(2-4) by (auto simp: owner_recorded_def)
  have "bind_op (Durable_Ops.find_workspace (lst_owner_workspace_id t))
      (\<lambda>w. read_op (\<lambda>st. workspace_to_snapshot (le_registry env) st w)) (rested False clock st)
    = (Inr owner, rested False clock st)"
    using w(1) owner by (simp add: bind_op_def Durable_Ops.find_workspace_def read_op_def)
  moreover have "replay_completion (le_store env) owner t s = (Inr (), s\<lparr>store_mem := g1\<rparr>)"
    using step replay_completes [OF _ same] replay_completed by auto
  moreover have "replay_completions env (rested False clock st) ts (s\<lparr>store_mem := g1\<rparr>) = (Inr (), s\<lparr>store_mem := g\<rparr>)"
    using Cons.IH [of "s\<lparr>store_mem := g1\<rparr>"] rest Cons.prems(2) by simp
  ultimately show ?case by simp
qed

lemma start_recovers:
  assumes rec: "recoverable env ts w" and dirs: "list_all (dirs_there d) ts"
    and window: "win_error window = None" and save: "gw_save (le_store env) (store_mem (lw_store w)) = Inr ()"
  shows "\<exists>store w'. load_at (le_store env) (stored message (lw_store w)) = Inr store
    \<and> start_local (next_env d env) clock now window ClearDone stream (tw_file (lw_core w)) store
        (Inr (lw_journal w)) = Inr (Inr (), w')
    \<and> tw_state (lw_core w') = rested False clock (tw_state (lw_core w))
    \<and> store_mem (lw_store w') = store_mem (lw_store w) \<and> jo_records (lw_journal w') = []"
proof -
  let ?st = "rested False clock (tw_state (lw_core w))"
  obtain st0 dirty where restored: "restore_state (at_start d (le_registry env)) False clock (tw_file (lw_core w)) = Inr (st0, dirty)"
    and creates: "replay_creates (at_start d (le_registry env)) ts st0 = (Inr (), ?st)"
    using rec dirs unfolding recoverable_def gives_back_def by blast
  have valid: "gw_valid (le_store env) (saved_store (lw_store w))" "gw_valid (le_store env) (store_mem (lw_store w))"
    and completing: "completing (le_store env) ts (saved_store (lw_store w)) (store_mem (lw_store w))"
    and created: "\<forall>t \<in> set ts. created_in (le_registry env) t (tw_state (lw_core w))"
    and journal: "jo_records (lw_journal w) = map JournalCreate ts" "\<not> jo_failed (lw_journal w)"
    using rec by (simp_all add: recoverable_def)
  let ?s = "(lw_store w)\<lparr>store_mem := saved_store (lw_store w), store_persist := True\<rparr>"
  have records: "journal_records (lw_journal w) = Inr (map JournalCreate ts)"
    using journal by (simp add: journal_records_def ensure_usable_def)
  show ?thesis
  proof (cases "ts = []")
    case True
    then show ?thesis
      using restored creates completing records journal(1) load_stored [OF valid(1), of message]
      by (simp add: start_local_def replay_local_shell_transactions_def return_op_def)
  next
    case False
    have both: "bind_op (replay_creates (at_start d (le_registry env)) ts)
        (\<lambda>_. replay_starts (at_start d (le_registry env)) now (latest_starts [])) st0 = (Inr (), ?st)"
      using creates by (simp add: bind_op_def latest_starts_def return_op_def)
    have completions: "replay_completions (next_env d env) ?st ts ?s = (Inr (), ?s\<lparr>store_mem := store_mem (lw_store w)\<rparr>)"
      using completions_replayed [of "next_env d env" ts ?s _ "le_registry env"] completing created by simp
    have check: "gws_checkpoint (le_store env) (?s\<lparr>store_mem := store_mem (lw_store w)\<rparr>)
        = (Inr (), ?s\<lparr>store_mem := store_mem (lw_store w), store_disk := Some (store_mem (lw_store w))\<rparr>)"
      using save validated [OF valid(2)] by (simp add: gws_checkpoint_def)
    have cleared: "journal_clear ClearDone (lw_journal w) = (Inr (), (lw_journal w)\<lparr>jo_file := [], jo_records := []\<rparr>)"
      using journal(2) by (simp add: journal_clear_def ensure_usable_def clear_state_def)
    show ?thesis
      using restored both completions check cleared window records False load_stored [OF valid(1), of message]
      by (simp add: start_local_def replay_local_shell_transactions_def write_captured_def Let_def)
  qed
qed

text \<open>The world that a crash is as good as.\<close>

lemma journaled_world:
  assumes attempt: "local_attempt_creation env rq g name cwd w = Some (LocalJournaling c kinds log t tr, w')"
    and append: "journal_append (le_journal env) AppendDone (JournalCreate tr) (lw_journal w) = (Inr (), j)"
    and rec: "recoverable env ts w" and codec: "journal_codec (le_journal env)"
  obtains ts' w'' where "recoverable env ts' w''" "tw_state (lw_core w'') = tw_state (lw_core w')"
    "tw_file (lw_core w'') = tw_file (lw_core w)" "store_mem (lw_store w'') = store_mem (tx_staged t)"
    "store_disk (lw_store w'') = store_disk (lw_store w)" "lw_journal w'' = j"
proof -
  have ok: "durable_ok (le_registry env) (tw_state (lw_core w))" using rec by (simp add: recoverable_def)
  note after = attempt_journaling [OF attempt ok]
  obtain r w'' where run: "local_journal_creation env AppendDone (\<lambda>s. s) c kinds log t tr w' = (r, w'')" by fastforce
  obtain ts' where "recoverable env ts' w''"
    using journaled_creation [OF run attempt rec codec] by auto
  moreover have "tx_commit (le_store env) t = (Inr (), (lw_store w)\<lparr>store_mem := store_mem (tx_staged t)\<rparr>)"
    using tx_commit_eq completes_completed(2) [OF after(3)] after(4) by metis
  then have "lw_store w'' = (lw_store w)\<lparr>store_mem := store_mem (tx_staged t)\<rparr>" "lw_journal w'' = j"
    "tw_state (lw_core w'') = tw_state (lw_core w')" "tw_file (lw_core w'') = tw_file (lw_core w)"
    using run append after by (auto simp: local_journal_creation_def Let_def)
  ultimately show ?thesis using that by simp
qed

lemma crash_world:
  assumes crash: "local_crash env w saved bytes st g" and rec: "recoverable env ts w"
    and codec: "journal_codec (le_journal env)" and owned: "journal_owned uid bytes m"
  shows "\<exists>ts' w'. recoverable env ts' w' \<and> tw_file (lw_core w') = saved \<and> tw_state (lw_core w') = st
    \<and> store_mem (lw_store w') = g \<and> store_disk (lw_store w') = store_disk (lw_store w)
    \<and> journal_load_at (le_journal env) uid (Inr m) bytes (Inr ()) = Inr (lw_journal w')"
  using crash
proof cases
  case crash_between
  have "journal_load_at (le_journal env) uid (Inr m) bytes (Inr ()) = Inr (lw_journal w)"
    unfolding crash_between by (rule load_whole) (use rec owned crash_between in \<open>auto simp: recoverable_def\<close>)
  then show ?thesis using rec crash_between by blast
next
  case (crash_appending flush_window b core rq gw name cwd c kinds log t tr w' j k)
  note flushed = flush_fields [OF crash_appending(5), unfolded lock_fields]
  have rec1: "recoverable env ts (w\<lparr>lw_core := core\<rparr>)" by (rule recoverable_core [OF rec flushed(1,3)])
  have "journal_load_at (le_journal env) uid (Inr m) bytes (Inr ()) = Inr (lw_journal w)"
    unfolding crash_appending(2)
    by (rule load_torn_append [OF codec _ _ crash_appending(7-9)])
      (use rec owned crash_appending(2) in \<open>auto simp: recoverable_def\<close>)
  then show ?thesis
    using rec1 crash_appending flushed(1) by (intro exI [of _ ts] exI [of _ "w\<lparr>lw_core := core\<rparr>"]) simp
next
  case (crash_appended flush_window b core rq gw name cwd c kinds log t tr w' j)
  note flushed = flush_fields [OF crash_appended(5), unfolded lock_fields]
  have rec1: "recoverable env ts (w\<lparr>lw_core := core\<rparr>)" by (rule recoverable_core [OF rec flushed(1,3)])
  have append: "journal_append (le_journal env) AppendDone (JournalCreate tr) (lw_journal (w\<lparr>lw_core := core\<rparr>)) = (Inr (), j)"
    using crash_appended(7) by simp
  obtain ts' w'' where w'': "recoverable env ts' w''" "tw_state (lw_core w'') = tw_state (lw_core w')"
    "tw_file (lw_core w'') = tw_file core" "store_mem (lw_store w'') = store_mem (tx_staged t)"
    "store_disk (lw_store w'') = store_disk (lw_store w)" "lw_journal w'' = j"
    by (rule journaled_world [OF crash_appended(6) append rec1 codec]) (rule that, simp_all)
  have "journal_load_at (le_journal env) uid (Inr m) bytes (Inr ()) = Inr (lw_journal w'')"
    unfolding crash_appended(2) w''(6) [symmetric]
    by (rule load_whole) (use w''(1,6) owned crash_appended(2) in \<open>auto simp: recoverable_def\<close>)
  then show ?thesis using w'' crash_appended by blast
qed

section \<open>What a client is told\<close>

lemma attempt_completed:
  assumes "local_attempt_creation env rq g name cwd w = Some (LocalAnswered (Inr answer), w')"
  shows "\<exists>c. gws_completed_operation (lw_store w) (cl_operation_id rq) (cl_request_fingerprint rq) = Inr (Some c)
    \<and> answer = (co_workspace c, co_resource c)"
proof -
  obtain current c t where prepared: "tx_prepare_resource_for_attempt (le_store env) (admitted_request rq g name cwd current)
      (gws_transaction (lw_store w)) = (Inr (PreparedCompleted c), t)"
    and answer: "answer = (co_workspace c, co_resource c)"
    using assms
    by (auto simp: local_attempt_creation_def Let_def
        split: sum.splits prod.splits prepared_workspace_resource.splits option.splits)
  let ?rq = "admitted_request rq g name cwd current"
  have rq: "rq_owner_attempted ?rq" "rq_operation_id ?rq = cl_operation_id rq"
    "rq_request_fingerprint ?rq = cl_request_fingerprint rq"
    by (simp_all add: admitted_request_def Let_def)
  obtain st where "prepare_resource_op (le_store env) ?rq (store_mem (lw_store w)) = Inr (PreparedCompleted c, st)"
    using prepared rq(1) by (auto simp: tx_prepare_Inr)
  then have "find_completed (store_mem (lw_store w)) (cl_operation_id rq) = Some c
      \<and> co_request_fingerprint c = cl_request_fingerprint rq"
    by (auto simp: prepare_resource_op_def prepare_new_resource_def replay_pending_resource_def rq Let_def
        bind_res_Inr split: option.splits if_splits)
  then show ?thesis using answer by (simp add: gws_completed_operation_def)
qed

text \<open>How a creation ends: refused and undone, or with the answer that its repetition gets.\<close>

lemma creation_answer:
  assumes create: "create_local_shell_locked env flush_window io meanwhile rq g name cwd w = Some (r, w')"
    and ok: "durable_ok (le_registry env) (tw_state (lw_core w))" and left: "revisions_left (tw_state (lw_core w))"
  shows "case r of
      Inl e \<Rightarrow> tw_state (lw_core w') = tw_state (lw_core w) \<and> lw_store w' = lw_store w
        \<and> jo_records (lw_journal w') = jo_records (lw_journal w)
        \<and> (tw_file (lw_core w') = tw_file (lw_core w)
            \<or> tw_file (lw_core w') = capture_persisted_state (tw_state (lw_core w)))
    | Inr answer \<Rightarrow> \<exists>c. gws_completed_operation (lw_store w') (cl_operation_id rq) (cl_request_fingerprint rq) = Inr (Some c)
        \<and> answer = (co_workspace c, co_resource c)"
proof (cases "ensure_running (lock_mutation (lw_core w))")
  case (Inl e)
  then show ?thesis using create by (auto simp: create_local_shell_locked_def Let_def)
next
  case running: (Inr u)
  obtain f core where flush: "flush_pending (le_clock env) flush_window (lock_mutation (lw_core w)) = (f, core)" by fastforce
  note flushed = flush_fields [OF flush, unfolded lock_fields]
  show ?thesis
  proof (cases f)
    case (Inl e)
    then show ?thesis using create running flush flushed by (auto simp: create_local_shell_locked_def Let_def)
  next
    case (Inr b)
    let ?w = "w\<lparr>lw_core := core\<rparr>"
    have at: "durable_ok (le_registry env) (tw_state (lw_core ?w))" "revisions_left (tw_state (lw_core ?w))"
      using ok left flushed(1) by simp_all
    obtain a w1 where attempt: "local_attempt_creation env rq g name cwd ?w = Some (a, w1)"
      using create running flush Inr by (auto simp: create_local_shell_locked_def Let_def split: option.splits)
    show ?thesis
    proof (cases a)
      case (LocalAnswered x)
      have w1: "w1 = ?w" by (rule attempt_answered [OF attempt [unfolded LocalAnswered] at])
      have w': "w' = unlock_local w1" "r = x"
        using create running flush Inr attempt LocalAnswered by (simp_all add: create_local_shell_locked_def Let_def)
      show ?thesis
      proof (cases x)
        case (Inl e)
        then show ?thesis using w1 w' flushed by (auto simp: unlock_local_def)
      next
        case (Inr answer)
        then show ?thesis
          using attempt_completed [OF attempt [unfolded LocalAnswered Inr]] w1 w' by (auto simp: unlock_local_def)
      qed
    next
      case (LocalJournaling c kinds log t tr)
      note after = attempt_journaling [OF attempt [unfolded LocalJournaling] at(1)]
      obtain x j where append: "journal_append (le_journal env) io (JournalCreate tr) (lw_journal w) = (x, j)" by fastforce
      have commit: "tx_commit (le_store env) t = (Inr (), (lw_store w)\<lparr>store_mem := store_mem (tx_staged t)\<rparr>)"
        using tx_commit_eq completes_completed(2) [OF after(3)] after(4) by simp
      have end_world: "(r, w') = map_prod id unlock_local (local_journal_creation env io meanwhile c kinds log t tr w1)"
        using create running flush Inr attempt LocalJournaling
        by (simp add: create_local_shell_locked_def Let_def split: prod.splits)
      show ?thesis
      proof (cases x)
        case (Inl e)
        have "jo_records j = jo_records (lw_journal w)"
          using append Inl by (auto elim: append_cases)
        then show ?thesis
          using end_world append Inl after flushed
          by (auto simp: local_journal_creation_def Let_def unlock_local_def)
      next
        case (Inr y)
        then show ?thesis
          using end_world append after commit
          by (auto simp: local_journal_creation_def Let_def unlock_local_def)
      qed
    qed
  qed
qed

end
