(* ===== verification/Local_Shell_Example.thy ===== *)
theory Local_Shell_Example
  imports Local_Shell_Crash
begin

text \<open>
  A Shell created with the journal, evaluated from the request to the answer: a concrete world for
  the properties. Every non-empty string is an identifier, the sizes that \<open>serde_json\<close> gives are
  constants, and the journal's encoding knows one record, the one that is written.
\<close>

section \<open>The world before\<close>

definition lx_registry :: registry_env where
  "lx_registry =
     \<lparr>re_uuid_parse = (\<lambda>i. if i = [] then None else Some i), re_is_dir = (\<lambda>_. True),
      re_display = (\<lambda>_. ''/''), re_path_bytes = length, re_foreground_process = (\<lambda>_. Inr None)\<rparr>"

definition lx_store :: gw_env where
  "lx_store =
     \<lparr>env_uuid_ok = (\<lambda>s. s \<noteq> []), env_workspace_len = (\<lambda>_. Inr 100), env_completed_len = (\<lambda>_. Inr 200),
      env_store_len = (\<lambda>_. Inr 1000), env_write = (\<lambda>_. None)\<rparr>"

definition lx_global :: global_workspace_snapshot where
  "lx_global = \<lparr>gw_id = ''g'', gw_revision = 1, gw_name = ''alpha'', gw_closing = False, gw_placements = []\<rparr>"

definition lx_stored :: gw_state where
  "lx_stored = gw_empty\<lparr>gs_workspaces := [lx_global]\<rparr>"

definition lx_fingerprint :: string where
  "lx_fingerprint = replicate 64 CHR ''a''"

definition lx_spec :: shell_spec where
  "lx_spec = \<lparr>spec_name = ''a'', spec_command = [], spec_cwd = [RootDir]\<rparr>"

definition lx_request :: local_shell_request where
  "lx_request =
     \<lparr>cl_operation_id = ''o'', cl_request_fingerprint = lx_fingerprint, cl_request_bytes = 10,
      cl_global_workspace_id = ''g'', cl_expected_global_revision = 1, cl_node_id = ''n'',
      cl_requested_owner_workspace_id = ''w'', cl_default_cwd = None, cl_shell_id = ''s'', cl_shell = lx_spec\<rparr>"

definition lx_shell :: shell_snapshot where
  "lx_shell =
     \<lparr>sh_id = ''s'', sh_revision = 1, sh_workspace_id = ''w'', sh_name = ''a'', sh_cwd = [RootDir],
      sh_command = [], sh_status = StatusPending, sh_run = None, sh_recovered_agent_id = None,
      sh_foreground_process = None\<rparr>"

definition lx_transaction :: local_shell_transaction where
  "lx_transaction =
     \<lparr>lst_operation_id = ''o'', lst_request_fingerprint = lx_fingerprint, lst_request_bytes = 10,
      lst_global_workspace_id = ''g'', lst_expected_global_revision = 1, lst_node_id = ''n'',
      lst_requested_owner_workspace_id = ''w'', lst_owner_workspace_id = ''w'',
      lst_owner_workspace_name = ''alpha'', lst_owner_revision = 2, lst_default_cwd = None,
      lst_shell_id = ''s'', lst_shell = lx_spec, lst_result_shell = lx_shell\<rparr>"

definition lx_entry :: journal_entry where
  "lx_entry = \<lparr>je_version = 1, je_record = JournalCreate lx_transaction, je_checksum = ''d''\<rparr>"

definition lx_journal :: journal_env where
  "lx_journal =
     \<lparr>jn_record_bytes = (\<lambda>_. Inr ''r''),
      jn_entry_bytes = (\<lambda>e. if e = lx_entry then Inr ''x'' else Inl (other_error ''unknown'')),
      jn_parse = (\<lambda>s. if s = ''x'' then Inr lx_entry else Inl ''unknown''), jn_digest = (\<lambda>_. ''d'')\<rparr>"

definition lx_env :: local_env where
  "lx_env = \<lparr>le_registry = lx_registry, le_store = lx_store, le_journal = lx_journal, le_clock = (\<lambda>i. i)\<rparr>"

definition lx_start :: local_world where
  "lx_start =
     \<lparr>lw_core = \<lparr>tw_state = empty_durable_state, tw_events = initial_system (new_stream ''e'') False,
                 tw_file = [], tw_stopping = False\<rparr>,
      lw_store = \<lparr>store_mem = lx_stored, store_disk = Some lx_stored, store_persist = True\<rparr>,
      lw_journal = \<lparr>jo_file = [], jo_records = [], jo_failed = False\<rparr>\<rparr>"

definition lx_quiet :: write_window where
  "lx_quiet = \<lparr>win_error = None, win_meanwhile = (\<lambda>s. s)\<rparr>"

lemmas lx_env_defs = lx_env_def lx_registry_def lx_store_def lx_journal_def

lemma lx_codec: "journal_codec (le_journal lx_env)"
  by (simp add: journal_codec_def lx_env_def lx_journal_def newline_def)

lemma lx_names: "\<not> has_control ''alpha''" "valid_fingerprint lx_fingerprint"
  by (simp_all add: lx_fingerprint_def) code_simp+

lemmas lx_validate = gw_validate_def gw_validate_name_def coordinator_workspace_version_def gw_limits Let_def

lemma lx_stored_valid: "gw_validate lx_store lx_stored = Inr ()"
  by (simp add: lx_validate lx_stored_def lx_store_def lx_global_def gw_empty_def lx_names)

lemma lx_checkpointed: "checkpointed lx_env lx_start"
  using lx_stored_valid
  by (simp add: checkpointed_def synced_def lx_start_def lx_env_def lx_registry_def empty_durable_ok
      saved_store_def gw_validate_valid [of _ _ "()"])
    (simp add: capture_persisted_state_def empty_durable_state_def)

section \<open>Preparing\<close>

definition lx_admitted :: resource_request where
  "lx_admitted = admitted_request lx_request lx_global ''alpha'' None lx_global"

definition lx_pending :: pending_workspace_resource where
  "lx_pending =
     \<lparr>pr_operation_id = ''o'', pr_creates_workspace = False, pr_request_fingerprint = Some lx_fingerprint,
      pr_semantic_fingerprint = None, pr_completion_reservation = spaces (10 * 2 + 100 * 2 + 64 * 1024),
      pr_owner_attempted = True, pr_global_workspace_id = ''g'', pr_expected_global_revision = 1,
      pr_node_id = ''n'', pr_requested_owner_workspace_id = ''w'', pr_owner_workspace_id = ''w'',
      pr_owner_workspace_name = ''alpha'', pr_default_cwd = None, pr_resource_id = ''s'', pr_kind = KindShell\<rparr>"

definition lx_prepared :: gw_state where
  "lx_prepared = lx_stored\<lparr>gs_pending_resources := [lx_pending]\<rparr>"

lemmas lx_prepare_eval =
  prepare_resource_op_def prepare_new_resource_def find_completed_def Gw_State.find_workspace_def require_revision_def
  find_placement_def ensure_owner_unlinked_except_def owner_linked_def reserve_new_pending_completion_def
  projected_workspace_with_pending_def projected_completed_workspace_def gw_next_def u64_checked_add_def
  completion_reservation_bytes_def usize_checked_mul_def usize_checked_add_def usize_saturating_mul_def
  usize_max_def compact_prepared_state.simps sort_placements_def Let_def gw_limits

lemma lx_prepare:
  "prepare_resource_op lx_store lx_admitted lx_stored = Inr (PreparedPending lx_pending True, lx_prepared)"
  by (simp add: lx_prepare_eval lx_store_def lx_admitted_def admitted_request_def concurrent_owner_def
      lx_request_def lx_global_def lx_stored_def lx_prepared_def gw_empty_def effective_pending_def lx_pending_def)

lemma lx_prepared_valid: "gw_validate lx_store lx_prepared = Inr ()"
  by (simp add: lx_validate lx_prepared_def lx_pending_def lx_stored_def lx_store_def lx_global_def gw_empty_def
      lx_names pending_resource_ok_def)

section \<open>The Workspace and the Shell\<close>

definition lx_created :: durable_state where
  "lx_created =
     \<lparr>dst_workspaces = [(''w'', (new_workspace ''w'' ''alpha'' None [''s''])\<lparr>dw_revision := 2\<rparr>)],
      dst_shells = [(''s'', \<lparr>ds_id = ''s'', ds_revision = 1, ds_workspace_id = ''w'', ds_name = ''a'',
                             ds_cwd = [RootDir], ds_command = [], ds_last_run = None, ds_lifecycle = LcPending\<rparr>)],
      dst_launchers = [], dst_agents = []\<rparr>"

definition lx_kinds :: "daemon_event_kind list" where
  "lx_kinds = [EvWorkspaceCreated ''w'' ''alpha'', EvShellCreated ''w'' ''s'' ''a'']"

definition lx_log :: "durable_undo list" where
  "lx_log = [UndoCreatedWorkspace ''w'' [], UndoCreatedShell ''w'' ''s'']"

lemmas lx_create_eval = op_defs empty_durable_state_def lx_registry_def lx_spec_def lx_shell_def
  validate_uuid_def daemon_validate_name_def is_blank_def daemon_max_name_bytes_def validate_cwd_def
  validate_default_cwd_def workspace_name_taken_def
  create_pending_shell_def shell_to_snapshot_def insert_shell_def bump_workspace_def
  Durable_Ops.find_workspace_def Let_def shell_name_taken_def bump_revision_def u64_checked_add_def
  new_workspace_def is_absolute_def upd_workspace_def ok_or_def alter_def

lemma lx_operation:
  "local_shell_operation lx_registry lx_pending lx_spec ([], empty_durable_state)
     = Some (Inr (lx_shell, lx_kinds), lx_log, lx_created)"
  by (simp add: local_shell_operation_def bind_log_def do_op_def recorded_def io_op_def return_log_def
      create_workspace_exact_def create_shell_exact_def lx_pending_def lx_create_eval lx_kinds_def lx_log_def
      lx_created_def)

definition lx_owner :: workspace_snapshot where
  "lx_owner =
     \<lparr>ws_id = ''w'', ws_revision = 2, ws_name = ''alpha'', ws_default_cwd = None, ws_shells = [lx_shell],
      ws_launchers = [], ws_agents = []\<rparr>"

lemma lx_owner_snapshot: "snapshot_workspace lx_registry ''w'' lx_created = (Inr lx_owner, lx_created)"
  by (simp add: snapshot_workspace_def io_op_def workspace_to_snapshot_def lx_created_def lx_owner_def
      lx_create_eval List.map_filter_def)

section \<open>Completing\<close>

definition lx_placed :: global_workspace_snapshot where
  "lx_placed = lx_global\<lparr>gw_revision := 2, gw_placements := [gw_placement ''n'' lx_owner PlActive]\<rparr>"

definition lx_completed :: completed_workspace_operation where
  "lx_completed =
     \<lparr>co_operation_id = ''o'', co_request_fingerprint = lx_fingerprint, co_semantic_fingerprint = None,
      co_creates_workspace = False, co_workspace = lx_placed, co_resource = RoutedShell lx_shell\<rparr>"

definition lx_done :: gw_state where
  "lx_done = lx_stored\<lparr>gs_workspaces := [lx_placed], gs_completed_operations := [lx_completed]\<rparr>"

lemma lx_complete:
  "complete_resource_op lx_store lx_pending lx_owner (RoutedShell lx_shell) lx_prepared = Inr (lx_completed, lx_done)"
  by (simp add: complete_resource_op_def complete_pending_def lx_prepared_def lx_pending_def lx_owner_def
      lx_stored_def lx_global_def lx_store_def gw_empty_def lx_done_def lx_completed_def lx_placed_def
      ensure_owner_unlinked_except_def owner_linked_def Gw_State.find_workspace_def link_completed_def
      find_placement_def gw_next_def u64_checked_add_def push_completed_def trim_completed.simps store_exceeds_def
      put_workspace_def remove_at_def sort_placements_def gw_limits Let_def)

lemma lx_done_valid: "gw_validate lx_store lx_done = Inr ()"
  by (simp add: lx_validate lx_done_def lx_completed_def lx_placed_def lx_stored_def lx_store_def lx_global_def
      gw_empty_def lx_names completed_operation_ok_def resource_workspace_id_def lx_shell_def gw_placement_def
      lx_owner_def)

section \<open>The request\<close>

definition lx_core :: transaction_world where
  "lx_core = (lw_core lx_start)\<lparr>tw_events := (tw_events (lw_core lx_start))\<lparr>sys_mutation := Some (Mutating True)\<rparr>\<rparr>"

lemma lx_flush: "flush_pending (\<lambda>i. i) lx_quiet (lock_mutation (lw_core lx_start)) = (Inr False, lx_core)"
  by (simp add: flush_pending_def flush_begin_def lock_mutation_def lx_core_def lx_start_def initial_system_def
      pending_durable_batch_count_def new_stream_def empty_transition_state_def Let_def)

definition lx_locked :: local_world where
  "lx_locked = lx_start\<lparr>lw_core := lx_core\<rparr>"

definition lx_staged :: gw_transaction where
  "lx_staged = (gws_transaction (lw_store lx_start))\<lparr>tx_staged := (tx_staged (gws_transaction (lw_store lx_start)))\<lparr>store_mem := lx_done\<rparr>\<rparr>"

definition lx_waiting :: local_world where
  "lx_waiting = lx_locked\<lparr>lw_core := lx_core\<lparr>tw_state := lx_created, tw_events := (tw_events lx_core)
     \<lparr>sys_stream := begin_persistence (length lx_kinds) (sys_stream (tw_events lx_core))\<rparr>\<rparr>\<rparr>"

lemma lx_fields:
  "store_mem (lw_store lx_start) = lx_stored" "lw_store lx_locked = lw_store lx_start"
  "lw_core lx_locked = lx_core" "tw_state lx_core = empty_durable_state"
  "le_store lx_env = lx_store" "le_registry lx_env = lx_registry" "le_clock lx_env = (\<lambda>i. i)"
  "cl_shell lx_request = lx_spec" "cl_global_workspace_id lx_request = ''g''"
  "pr_owner_workspace_id lx_pending = ''w''"
  by (simp_all add: lx_start_def lx_locked_def lx_core_def lx_env_def lx_request_def lx_pending_def)

lemma lx_get: "tx_get (gws_transaction (lw_store lx_start)) ''g'' = Inr lx_global"
  by (simp add: tx_get_def gws_get_def lx_start_def lx_stored_def gws_transaction_def Gw_State.find_workspace_def
      gw_empty_def lx_global_def)

lemma lx_room: "reserve_with_pending (sys_stream (tw_events lx_core)) (length lx_kinds) = Inr ()"
  by (simp add: lx_core_def lx_start_def lx_kinds_def reserve_with_pending_def ensure_capacity_def
      reserved_event_count_def usize_saturating_add_def usize_max_def u64_checked_add_def
      tx_reserve_def initial_system_def new_stream_def empty_transition_state_def pending_durable_event_count_def Let_def)

lemma lx_attempt:
  "local_attempt_creation lx_env lx_request lx_global ''alpha'' None lx_locked
     = Some (LocalJournaling lx_completed lx_kinds lx_log lx_staged lx_transaction, lx_waiting)"
proof -
  let ?tx = "gws_transaction (lw_store lx_start)"
  have prepare: "tx_prepare_resource_for_attempt lx_store lx_admitted ?tx
      = (Inr (PreparedPending lx_pending True), ?tx\<lparr>tx_staged := (tx_staged ?tx)\<lparr>store_mem := lx_prepared\<rparr>\<rparr>)"
  proof -
    have admitted: "rq_owner_attempted lx_admitted" "name_ok (rq_owner_workspace_name lx_admitted)"
      by (simp_all add: lx_admitted_def admitted_request_def concurrent_owner_def name_ok_def lx_names Let_def)
    have "gw_valid lx_store lx_prepared" using lx_prepared_valid by (simp only: gw_validate_valid)
    then show ?thesis using lx_prepare admitted by (simp add: tx_prepare_Inr lx_fields)
  qed
  have complete: "tx_complete_resource lx_store lx_pending lx_owner (RoutedShell lx_shell)
      (?tx\<lparr>tx_staged := (tx_staged ?tx)\<lparr>store_mem := lx_prepared\<rparr>\<rparr>) = (Inr lx_completed, lx_staged)"
    using lx_complete lx_done_valid by (simp add: tx_complete_Inr gw_validate_valid [of _ _ "()"] lx_staged_def)
  have "local_transaction_of lx_request lx_admitted lx_pending lx_owner lx_shell = lx_transaction"
    by (simp add: local_transaction_of_def lx_request_def lx_admitted_def admitted_request_def concurrent_owner_def
        lx_pending_def lx_owner_def lx_transaction_def lx_global_def Let_def)
  then show ?thesis
    using prepare complete lx_operation lx_owner_snapshot lx_room lx_get
    by (simp add: local_attempt_creation_def lx_fields lift_global_def Let_def lx_admitted_def [symmetric] lx_waiting_def)
qed

definition lx_appended :: shell_journal where
  "lx_appended = \<lparr>jo_file = ''x'' @ [newline], jo_records = [JournalCreate lx_transaction], jo_failed = False\<rparr>"

lemma lx_line: "journal_line lx_journal (JournalCreate lx_transaction) = Inr (''x'' @ [newline])"
  by (simp add: journal_line_def journal_entry_of_def lx_journal_def lx_entry_def journal_version_def)

lemma lx_append:
  "journal_append lx_journal AppendDone (JournalCreate lx_transaction) (lw_journal lx_start) = (Inr (), lx_appended)"
  by (simp add: journal_append_def lx_line lx_start_def ensure_usable_def validate_sequence_def journal_max_bytes_def
      usize_saturating_add_def usize_max_def lx_appended_def)

definition lx_answered :: local_world where
  "lx_answered = lx_waiting
     \<lparr>lw_core := (lw_core lx_waiting)\<lparr>tw_events := end_local_write (\<lambda>i. i) lx_kinds (tw_events (lw_core lx_waiting))\<rparr>,
      lw_store := (lw_store lx_start)\<lparr>store_mem := lx_done\<rparr>, lw_journal := lx_appended\<rparr>"

lemma lx_journaled:
  "local_journal_creation lx_env AppendDone (\<lambda>s. s) lx_completed lx_kinds lx_log lx_staged lx_transaction lx_waiting
     = (Inr (lx_placed, RoutedShell lx_shell), lx_answered)"
proof -
  have "tx_commit lx_store lx_staged = (Inr (), (lw_store lx_start)\<lparr>store_mem := lx_done\<rparr>)"
    using lx_done_valid by (simp add: tx_commit_def lx_staged_def)
  moreover have "le_journal lx_env = lx_journal" "lw_journal lx_waiting = lw_journal lx_start"
    by (simp_all add: lx_env_def lx_waiting_def lx_locked_def)
  ultimately show ?thesis
    using lx_append
    by (simp add: local_journal_creation_def lx_fields Let_def lx_answered_def lx_completed_def)
qed

lemma lx_create:
  "create_local_shell_locked lx_env lx_quiet AppendDone (\<lambda>s. s) lx_request lx_global ''alpha'' None lx_start
     = Some (Inr (lx_placed, RoutedShell lx_shell), unlock_local lx_answered)"
  using lx_attempt lx_journaled lx_flush
  by (simp add: create_local_shell_locked_def Let_def lx_fields ensure_running_def lx_locked_def lock_mutation_def
      lx_start_def)

end
