(* ===== verification/Local_Shell_Props.thy ===== *)
theory Local_Shell_Props
  imports Local_Shell_Example
begin

text \<open>
  The properties of the journal of local Shells and of the requests, checkpoints and restarts that
  use it, each with an instance.
\<close>

section \<open>The journal\<close>

text \<open>
  C8. Whatever is appended to a journal and however it is cleared, also when writes fail, except a
  clear that fails after it has cut the file: when the daemon dies, within an append or not, the next
  start reads the records whose append was answered since the last clear, in order and complete,
  with at most one more, whose append was not answered.
\<close>

theorem journal_recovers:
  assumes "journal_codec env" and "journal_load_at env uid opened loaded truncated = Inr j0"
    and "list_all (\<lambda>c. \<not> half_clear c) commands"
    and "journal_run env commands j0 (jo_records j0) = (j, records)"
    and "journal_crash env j bytes" and "journal_owned uid bytes m"
  shows "\<exists>j' unanswered. journal_load_at env uid (Inr m) bytes (Inr ()) = Inr j'
    \<and> jo_records j' = records @ unanswered \<and> length unanswered \<le> 1"
  using run_state [OF assms(1,3) _ assms(4)] load_result [OF assms(2)] journal_loads [OF assms(1) _ assms(5,6)]
  by blast

definition lx_metadata :: "string \<Rightarrow> journal_metadata" where
  "lx_metadata bytes = \<lparr>jm_is_file = True, jm_uid = 7, jm_mode = 384, jm_len = length bytes\<rparr>"

lemma lx_owned: "journal_owned 7 bytes (lx_metadata bytes)"
  by (simp add: journal_owned_def lx_metadata_def)

lemma lx_loaded: "journal_load_at lx_journal 7 (Inr (lx_metadata [])) [] (Inr ()) = Inr (lw_journal lx_start)"
  using lx_owned [of "[]"]
  by (simp add: journal_load_at_def journal_owned_def parse_records_def parse_lines.simps [of _ _ _ "[]"]
      lx_start_def journal_max_bytes_def)

lemma journal_recovers_witness:
  "\<exists>j' unanswered. journal_load_at lx_journal 7 (Inr (lx_metadata (''x'' @ [newline]))) (''x'' @ [newline]) (Inr ()) = Inr j'
     \<and> jo_records j' = [JournalCreate lx_transaction] @ unanswered \<and> length unanswered \<le> 1"
proof -
  have "journal_run lx_journal [JcAppend AppendDone (JournalCreate lx_transaction)] (lw_journal lx_start)
      (jo_records (lw_journal lx_start)) = (lx_appended, [JournalCreate lx_transaction])"
    using lx_append by (simp add: lx_start_def)
  moreover have "journal_crash lx_journal lx_appended (''x'' @ [newline])"
    by (simp add: journal_crash_def lx_appended_def)
  ultimately show ?thesis
    using journal_recovers [OF lx_codec [unfolded lx_env_def local_env.simps] lx_loaded, of
        "[JcAppend AppendDone (JournalCreate lx_transaction)]"] lx_owned
    by simp
qed

text \<open>
  C39. The exception is real: when a clear cuts the file but fails to synchronise it, the records
  stay in memory, and the next start of one of their Shells is appended to the empty file and
  answered; a daemon that starts from this file refuses it, because the start does not follow its
  creation.
\<close>

theorem failed_clear_strands_start:
  assumes "journal_codec env" and "\<not> jo_failed j"
    and "journal_clear (ClearSyncFails e) j = (Inl e, j1)"
    and "journal_append env AppendDone (JournalStart s) j1 = (Inr (), j2)"
    and "journal_owned uid (jo_file j2) m"
  shows "jo_records j1 = jo_records j
    \<and> journal_load_at env uid (Inr m) (jo_file j2) truncated
        = Inl (invalid ''local Shell journal start does not follow its creation'')"
proof -
  have j1: "j1 = j\<lparr>jo_file := []\<rparr>"
    using assms(2,3) by (simp add: journal_clear_def ensure_usable_def clear_state_def)
  obtain line where line: "journal_line env (JournalStart s) = Inr line" and bytes: "jo_file j2 = line"
    and size: "length line \<le> journal_max_bytes"
    using assms(4) j1 by (cases rule: append_cases) auto
  have "reads env (jo_file j2) [JournalStart s]"
    using reads_append [OF assms(1) _ line, of "[]" "[]"] bytes by simp
  then show ?thesis
    using assms(5) size bytes j1
    by (simp add: journal_load_at_def journal_owned_def parse_records_def reads_def validate_sequence_def)
qed

definition lx_run :: persisted_shell_run where
  "lx_run =
     \<lparr>psr_id = ''r'', psr_generation = 1, psr_started_at_ms = 1, psr_ended_at_ms = None, psr_exit_reason = None,
      psr_output_revision = 0, psr_environment_has_run_id = True,
      psr_profile = \<lparr>tp_term = None, tp_colorterm = None, tp_term_program = None, tp_term_program_version = None,
        tp_rows = 24, tp_cols = 80, tp_pixel_width = 0, tp_pixel_height = 0\<rparr>, psr_terminal_history = None\<rparr>"

definition lx_started :: local_shell_journal_record where
  "lx_started = JournalStart \<lparr>lss_shell_id = ''s'', lss_run = lx_run\<rparr>"

definition lx_journal2 :: journal_env where
  "lx_journal2 =
     \<lparr>jn_record_bytes = (\<lambda>_. Inr ''r''),
      jn_entry_bytes = (\<lambda>e. if e = lx_entry\<lparr>je_record := lx_started\<rparr> then Inr ''y'' else Inl (other_error ''unknown'')),
      jn_parse = (\<lambda>s. if s = ''y'' then Inr (lx_entry\<lparr>je_record := lx_started\<rparr>) else Inl ''unknown''),
      jn_digest = (\<lambda>_. ''d'')\<rparr>"

lemma failed_clear_strands_start_witness:
  "journal_load_at lx_journal2 7 (Inr (lx_metadata (''y'' @ [newline]))) (''y'' @ [newline]) (Inr ())
     = Inl (invalid ''local Shell journal start does not follow its creation'')"
proof -
  let ?j1 = "lx_appended\<lparr>jo_file := []\<rparr>"
  let ?j2 = "\<lparr>jo_file = ''y'' @ [newline], jo_records = [JournalCreate lx_transaction, lx_started], jo_failed = False\<rparr>"
  have codec: "journal_codec lx_journal2"
    by (simp add: journal_codec_def lx_journal2_def newline_def)
  have cleared: "journal_clear (ClearSyncFails (other_error ''io'')) lx_appended = (Inl (other_error ''io''), ?j1)"
    by (simp add: journal_clear_def ensure_usable_def clear_state_def lx_appended_def)
  have "journal_line lx_journal2 lx_started = Inr (''y'' @ [newline])"
    by (simp add: journal_line_def journal_entry_of_def lx_journal2_def lx_entry_def journal_version_def)
  moreover have "validate_sequence [JournalCreate lx_transaction, lx_started] = Inr ()"
    by (simp add: validate_sequence_def lx_started_def lx_run_def lx_transaction_def u64_checked_add_def)
  ultimately have appended: "journal_append lx_journal2 AppendDone lx_started ?j1 = (Inr (), ?j2)"
    by (simp add: journal_append_def lx_appended_def ensure_usable_def journal_max_bytes_def
        usize_saturating_add_def usize_max_def)
  have "\<not> jo_failed lx_appended" by (simp add: lx_appended_def)
  then show ?thesis
    using failed_clear_strands_start [OF codec _ cleared appended [unfolded lx_started_def], of 7 "lx_metadata (''y'' @ [newline])"]
      lx_owned [of "''y'' @ [newline]"]
    by simp
qed

section \<open>Creating a Shell, and the restart\<close>

text \<open>
  C5. A daemon starts with all in its files and an empty journal and runs creations, checkpoints and
  requests, each answered or refused (\<open>local_run\<close>), under these conditions: an append that fails is
  rolled back, and no clear fails after it has cut the file (C39 is what happens otherwise); no
  Workspace revision stands at \<open>u64::MAX\<close> when a creation or request begins (C38); and when a
  checkpoint or a request runs, the Workspace store still lists every journalled creation among its
  completed operations. Then, whether it dies between two of these or while it writes the record of a
  creation: the next start reads the journal and, if the directories of the recorded Shells and
  Workspaces still exist (C40) and the start can write the state file, the store and the journal, it
  restores exactly the durable state, at rest, and the Workspace store of the daemon that died; a
  creation whose record was being written is there as a whole, in both, if its line is whole, and not
  at all otherwise.
\<close>

theorem local_shells_survive_crash:
  assumes "local_run env w" and "journal_codec (le_journal env)" and "local_crash env w saved bytes st g"
    and "journal_owned uid bytes m"
  shows "\<exists>j. journal_load_at (le_journal env) uid (Inr m) bytes (Inr ()) = Inr j
    \<and> (list_all (dirs_there d) (journal_creates (jo_records j)) \<longrightarrow> win_error window = None
        \<longrightarrow> gw_save (le_store env) g = Inr ()
        \<longrightarrow> (\<exists>store w'. load_at (le_store env) (stored message (lw_store w)) = Inr store
            \<and> start_local (env\<lparr>le_registry := (le_registry env)\<lparr>re_is_dir := d\<rparr>\<rparr>) clock now window ClearDone
                stream saved store (Inr j) = Inr (Inr (), w')
            \<and> tw_state (lw_core w') = rested False clock st \<and> store_mem (lw_store w') = g
            \<and> jo_records (lw_journal w') = []))"
proof -
  obtain ts where "recoverable env ts w" using run_recoverable [OF assms(1,2)] by blast
  then obtain ts' w' where rec: "recoverable env ts' w'" "tw_file (lw_core w') = saved" "tw_state (lw_core w') = st"
    "store_mem (lw_store w') = g" "store_disk (lw_store w') = store_disk (lw_store w)"
    and loaded: "journal_load_at (le_journal env) uid (Inr m) bytes (Inr ()) = Inr (lw_journal w')"
    using crash_world [OF assms(3) _ assms(2,4)] by blast
  have "stored msg (lw_store w') = stored msg (lw_store w)" for msg by (simp add: stored_def rec(5))
  moreover have "journal_creates (jo_records (lw_journal w')) = ts'" using rec(1) by (simp add: recoverable_def)
  ultimately show ?thesis
    using start_recovers [OF rec(1)] loaded rec(2-4) by auto
qed

lemma local_shells_survive_crash_witness:
  "\<exists>j store w'. journal_load_at lx_journal 7 (Inr (lx_metadata (jo_file lx_appended))) (jo_file lx_appended) (Inr ()) = Inr j
     \<and> load_at lx_store (Inr lx_stored) = Inr store
     \<and> start_local lx_env (\<lambda>_. 0) (\<lambda>_. 0) lx_quiet ClearDone (new_stream ''f'') [] store (Inr j) = Inr (Inr (), w')
     \<and> tw_state (lw_core w') = lx_created \<and> store_mem (lw_store w') = lx_done"
proof -
  have crash: "local_crash lx_env lx_start [] (jo_file lx_appended) lx_created lx_done"
  proof -
    have "journal_append (le_journal lx_env) AppendDone (JournalCreate lx_transaction) (lw_journal lx_start) = (Inr (), lx_appended)"
      using lx_append by (simp add: lx_env_def)
    moreover have "flush_pending (le_clock lx_env) lx_quiet (lock_mutation (lw_core lx_start)) = (Inr False, lx_core)"
      using lx_flush by (simp add: lx_fields)
    ultimately have "local_crash lx_env lx_start (tw_file lx_core) (jo_file lx_appended) (tw_state (lw_core lx_waiting))
        (store_mem (tx_staged lx_staged))"
      using lx_attempt by (intro crash_appended) (simp_all add: lx_locked_def)
    then show ?thesis by (simp add: lx_core_def lx_start_def lx_waiting_def lx_staged_def)
  qed
  have later: "lx_env\<lparr>le_registry := (le_registry lx_env)\<lparr>re_is_dir := \<lambda>_. True\<rparr>\<rparr> = lx_env"
    by (simp add: lx_env_def lx_registry_def)
  have rest: "rested False (\<lambda>_. 0) lx_created = lx_created"
    by (simp add: rested_def rested_shell_def lx_created_def)
  have disk: "stored [] (lw_store lx_start) = Inr lx_stored" by (simp add: stored_def lx_start_def)
  have saves: "gw_save (le_store lx_env) lx_done = Inr ()" "win_error lx_quiet = None"
    by (simp_all add: gw_save_def lx_fields lx_store_def lx_quiet_def gw_limits)
  obtain j where j: "journal_load_at (le_journal lx_env) 7 (Inr (lx_metadata (jo_file lx_appended))) (jo_file lx_appended) (Inr ()) = Inr j"
    and start: "list_all (dirs_there (\<lambda>_. True)) (journal_creates (jo_records j)) \<Longrightarrow>
      \<exists>store w'. load_at (le_store lx_env) (Inr lx_stored) = Inr store
        \<and> start_local lx_env (\<lambda>_. 0) (\<lambda>_. 0) lx_quiet ClearDone (new_stream ''f'') [] store (Inr j) = Inr (Inr (), w')
        \<and> tw_state (lw_core w') = lx_created \<and> store_mem (lw_store w') = lx_done"
    using local_shells_survive_crash [where d = "\<lambda>_. True" and window = lx_quiet and clock = "\<lambda>_. 0"
        and now = "\<lambda>_. 0" and stream = "new_stream ''f''" and message = "[]",
        OF run_start [OF lx_checkpointed] lx_codec crash lx_owned] saves
    unfolding later rest disk by blast
  have "list_all (dirs_there (\<lambda>_. True)) ts" for ts
    by (induction ts) (simp_all add: dirs_there_def split: option.split)
  then show ?thesis using start j by (auto simp: lx_env_def lx_fields)
qed

text \<open>
  C6. In a run under the conditions of C5, a client whose creation was answered can repeat the
  request to the daemon right away and gets the same answer, with nothing done again. If the daemon
  dies directly after the answer, the next start reads the journal, and, if the directories of the
  recorded Shells and Workspaces still exist (C40) and the start can write its files, the new daemon
  is in the durable state in which the request was answered, at rest, and gives the repeated request
  the same answer.
\<close>

theorem answered_creation_survives:
  assumes "local_run env w" and "journal_codec (le_journal env)" and "revisions_left (tw_state (lw_core w))"
    and "append_settles io"
    and "create_local_shell_locked env flush_window io meanwhile rq g name cwd w = Some (Inr answer, w')"
    and "journal_owned uid (jo_file (lw_journal w')) m"
  shows "local_shell_preflight env unavailable rq w' = Inr (PreflightDone (fst answer) (snd answer))
    \<and> (\<exists>j. journal_load_at (le_journal env) uid (Inr m) (jo_file (lw_journal w')) (Inr ()) = Inr j
        \<and> (list_all (dirs_there d) (journal_creates (jo_records j)) \<longrightarrow> win_error window = None
            \<longrightarrow> gw_save (le_store env) (store_mem (lw_store w')) = Inr ()
            \<longrightarrow> (\<exists>store w2. load_at (le_store env) (stored message (lw_store w')) = Inr store
                \<and> start_local (env\<lparr>le_registry := (le_registry env)\<lparr>re_is_dir := d\<rparr>\<rparr>) clock now window ClearDone
                    stream (tw_file (lw_core w')) store (Inr j) = Inr (Inr (), w2)
                \<and> tw_state (lw_core w2) = rested False clock (tw_state (lw_core w'))
                \<and> local_shell_preflight (env\<lparr>le_registry := (le_registry env)\<lparr>re_is_dir := d\<rparr>\<rparr>) unavailable rq w2
                    = Inr (PreflightDone (fst answer) (snd answer)))))"
proof -
  obtain ts where "recoverable env ts w" using run_recoverable [OF assms(1,2)] by blast
  then have ok: "durable_ok (le_registry env) (tw_state (lw_core w))" by (simp add: recoverable_def)
  obtain c where "gws_completed_operation (lw_store w') (cl_operation_id rq) (cl_request_fingerprint rq) = Inr (Some c)"
    and answer: "answer = (co_workspace c, co_resource c)"
    using creation_answer [OF assms(5) ok assms(3)] by auto
  then have again: "local_shell_preflight env2 unavailable rq w2 = Inr (PreflightDone (fst answer) (snd answer))"
    if "store_mem (lw_store w2) = store_mem (lw_store w')" for env2 w2
    using that by (simp add: local_shell_preflight_def gws_completed_operation_def lift_global_def)
  obtain ts' where rec: "recoverable env ts' w'"
    using run_recoverable [OF run_creation [OF assms(1,3,4,5)] assms(2)] by blast
  have loaded: "journal_load_at (le_journal env) uid (Inr m) (jo_file (lw_journal w')) (Inr ()) = Inr (lw_journal w')"
    by (rule load_whole [OF _ _ assms(6)]) (use rec in \<open>simp_all add: recoverable_def\<close>)
  have "journal_creates (jo_records (lw_journal w')) = ts'" using rec by (simp add: recoverable_def)
  then show ?thesis
    using start_recovers [where d = d and window = window and clock = clock and now = now and stream = stream
          and message = message, OF rec] loaded again [of w'] again by metis
qed

lemma answered_creation_survives_witness:
  "local_shell_preflight lx_env None lx_request (unlock_local lx_answered)
     = Inr (PreflightDone lx_placed (RoutedShell lx_shell))"
proof -
  have left: "revisions_left (tw_state (lw_core lx_start))"
    by (simp add: revisions_left_def lx_start_def empty_durable_state_def)
  show ?thesis
    using answered_creation_survives [OF run_start [OF lx_checkpointed] lx_codec left _ lx_create lx_owned, of None] by simp
qed

text \<open>
  C7. As long as no Workspace revision stands at \<open>u64::MAX\<close> (C38 shows what a refused creation leaves
  there), a creation that is refused, by its checks, by a full event queue or by a write of the journal
  that fails in whatever way, has changed nothing: the durable state, the Workspace store and the
  journal's records are the ones before, and the state file is the one before or holds that state.
\<close>

theorem refused_creation_atomic:
  assumes "durable_ok (le_registry env) (tw_state (lw_core w))" and "revisions_left (tw_state (lw_core w))"
    and "create_local_shell_locked env flush_window io meanwhile rq g name cwd w = Some (Inl e, w')"
  shows "tw_state (lw_core w') = tw_state (lw_core w) \<and> lw_store w' = lw_store w
    \<and> jo_records (lw_journal w') = jo_records (lw_journal w)
    \<and> (tw_file (lw_core w') = tw_file (lw_core w)
        \<or> tw_file (lw_core w') = capture_persisted_state (tw_state (lw_core w)))"
  using creation_answer [OF assms(3,1,2)] by simp

definition lx_torn :: append_io where
  "lx_torn = AppendFails (other_error ''disk full'') 1 (Some (other_error ''io''))"

lemma lx_refused:
  "\<exists>e w'. create_local_shell_locked lx_env lx_quiet lx_torn (\<lambda>s. s) lx_request lx_global ''alpha'' None lx_start
     = Some (Inl e, w') \<and> jo_file (lw_journal w') = ''x''"
proof -
  have "journal_append lx_journal lx_torn (JournalCreate lx_transaction) (lw_journal lx_start)
      = (Inl (append_rollback_error (other_error ''disk full'') (other_error ''io'')),
         \<lparr>jo_file = ''x'', jo_records = [], jo_failed = True\<rparr>)"
    by (simp add: journal_append_def lx_line lx_start_def ensure_usable_def validate_sequence_def
        journal_max_bytes_def usize_saturating_add_def usize_max_def lx_torn_def)
  moreover have "le_journal lx_env = lx_journal" "lw_journal lx_waiting = lw_journal lx_start"
    by (simp_all add: lx_env_def lx_waiting_def lx_locked_def)
  ultimately show ?thesis
    using lx_attempt lx_flush
    by (simp add: create_local_shell_locked_def local_journal_creation_def Let_def lx_fields ensure_running_def
        lx_locked_def lock_mutation_def unlock_local_def) (simp add: lx_start_def)
qed

lemma refused_creation_atomic_witness:
  "\<exists>e w'. create_local_shell_locked lx_env lx_quiet lx_torn (\<lambda>s. s) lx_request lx_global ''alpha'' None lx_start
     = Some (Inl e, w') \<and> tw_state (lw_core w') = empty_durable_state \<and> jo_records (lw_journal w') = []"
proof -
  obtain e w' where refused: "create_local_shell_locked lx_env lx_quiet lx_torn (\<lambda>s. s) lx_request lx_global ''alpha'' None
      lx_start = Some (Inl e, w')"
    using lx_refused by blast
  have "tw_state (lw_core lx_start) = empty_durable_state" "jo_records (lw_journal lx_start) = []"
    by (simp_all add: lx_start_def)
  then show ?thesis
    using refused_creation_atomic [OF _ _ refused] refused
    by (auto simp: empty_durable_ok revisions_left_def) (simp_all add: empty_durable_state_def)
qed

text \<open>
  C40. A record is not enough to start when a directory has gone: if the default directory that the
  first journalled creation recorded for its Workspace no longer exists, the replay of that record
  fails, whatever the state file and the store hold, even the Workspace and the Shell themselves, and the journal stays as it is,
  so that every later start fails as well until the directory is made again.
\<close>

theorem removed_directory_strands_start:
  assumes "journal_records (lw_journal w) = Inr records" and "journal_creates records = t # ts"
    and "lst_default_cwd t = Some cwd" and "\<not> re_is_dir (le_registry env) cwd"
  shows "\<exists>e w'. replay_local_shell_transactions env now window io w = (Inl e, w')
    \<and> lw_journal w' = lw_journal w \<and> tw_file (lw_core w') = tw_file (lw_core w)"
proof -
  have "\<exists>e. create_workspace_exact (le_registry env) (lst_owner_workspace_id t) (lst_owner_workspace_name t)
      (lst_default_cwd t) st = (Inl e, st)" for st
  proof (cases "validate_uuid (le_registry env) (lst_owner_workspace_id t) ''workspace ID''")
    case (Inr u)
    then show ?thesis
      using assms(3,4)
      by (cases "daemon_validate_name (lst_owner_workspace_name t)")
        (simp_all add: create_workspace_exact_def bind_op_def check_op_def validate_default_cwd_def validate_cwd_def)
  qed (simp add: create_workspace_exact_def bind_op_def check_op_def)
  then obtain e where "create_workspace_exact (le_registry env) (lst_owner_workspace_id t) (lst_owner_workspace_name t)
      (lst_default_cwd t) (tw_state (lw_core w)) = (Inl e, tw_state (lw_core w))"
    by blast
  moreover have "records \<noteq> []" using assms(2) by (auto simp: journal_creates_def List.map_filter_def)
  ultimately show ?thesis
    using assms(1,2) by (simp add: replay_local_shell_transactions_def bind_op_def)
qed

definition lx_moved :: local_shell_transaction where
  "lx_moved = lx_transaction\<lparr>lst_default_cwd := Some [RootDir, Normal ''gone'']\<rparr>"

lemma removed_directory_strands_start_witness:
  "\<exists>e w'. replay_local_shell_transactions (lx_env\<lparr>le_registry := lx_registry\<lparr>re_is_dir := \<lambda>d. d = [RootDir]\<rparr>\<rparr>) (\<lambda>_. 0)
       lx_quiet ClearDone (lx_start\<lparr>lw_journal := lx_appended\<lparr>jo_records := [JournalCreate lx_moved]\<rparr>\<rparr>) = (Inl e, w')"
  using removed_directory_strands_start [where w = "lx_start\<lparr>lw_journal := lx_appended\<lparr>jo_records := [JournalCreate lx_moved]\<rparr>\<rparr>"
      and records = "[JournalCreate lx_moved]" and t = lx_moved and ts = "[]" and cwd = "[RootDir, Normal ''gone'']"
      and env = "lx_env\<lparr>le_registry := lx_registry\<lparr>re_is_dir := \<lambda>d. d = [RootDir]\<rparr>\<rparr>"]
    creates_of_map [of "[lx_moved]"]
  by (fastforce simp: journal_records_def ensure_usable_def lx_appended_def lx_moved_def)

end
