(* ===== verification/Float32.thy ===== *)
theory Float32
  imports Complex_Main Prelude
begin

text \<open>
  Rust's \<open>f32\<close>: the IEEE 754 binary32 numbers with the operations that the Desktop layout code
  uses, executable over the rationals.  A finite number is its sign and its magnitude, so that
  negative zero is a value of its own.  Every operation computes the exact rational result and
  rounds it once, to the nearest representable number with ties to even; subnormal numbers and
  overflow to infinity are included.  There is one NaN; the code never inspects its payload.

  What the layout proofs use of rounding is that it is monotone
  (\<open>round_magnitude_mono\<close>), hence that a result between two representable numbers stays between
  them (\<open>f32_round_between\<close>).
\<close>

datatype f32 = F32_nan | F32_inf bool | F32_neg_zero | F32_fin rat

fun f32_value :: "f32 \<Rightarrow> rat" where
  "f32_value (F32_fin q) = q"
| "f32_value _ = 0"

fun f32_sign :: "f32 \<Rightarrow> bool" where
  "f32_sign (F32_fin q) = (q < 0)"
| "f32_sign (F32_inf s) = s"
| "f32_sign F32_neg_zero = True"
| "f32_sign F32_nan = False"

fun f32_is_nan :: "f32 \<Rightarrow> bool" where
  "f32_is_nan F32_nan = True"
| "f32_is_nan _ = False"

fun f32_is_infinite :: "f32 \<Rightarrow> bool" where
  "f32_is_infinite (F32_inf _) = True"
| "f32_is_infinite _ = False"

definition f32_is_finite :: "f32 \<Rightarrow> bool" where
  "f32_is_finite a = (\<not> f32_is_nan a \<and> \<not> f32_is_infinite a)"

section \<open>Rounding\<close>

definition round_half_even :: "rat \<Rightarrow> int" where
  "round_half_even q =
     (let f = \<lfloor>q\<rfloor>; d = q - of_int f in
      if d < 1 / 2 then f else if 1 / 2 < d then f + 1 else if even f then f else f + 1)"

text \<open>The distance of neighbouring numbers at magnitude \<open>m\<close>: from \<open>2\<^sup>-\<^sup>1\<^sup>4\<^sup>9\<close>, that of the
  subnormal numbers, to \<open>2\<^sup>1\<^sup>0\<^sup>4\<close>.\<close>

fun ulp_up :: "nat \<Rightarrow> rat \<Rightarrow> rat \<Rightarrow> rat" where
  "ulp_up 0 m u = u"
| "ulp_up (Suc n) m u = (if m < 2 ^ 24 * u then u else ulp_up n m (2 * u))"

fun ulp_down :: "nat \<Rightarrow> rat \<Rightarrow> rat \<Rightarrow> rat" where
  "ulp_down 0 m u = u"
| "ulp_down (Suc n) m u = (if 2 ^ 23 * u \<le> m then u else ulp_down n m (u / 2))"

definition f32_ulp :: "rat \<Rightarrow> rat" where
  "f32_ulp m = (if m < 1 then ulp_down 126 m (1 / 2 ^ 23) else ulp_up 127 m (1 / 2 ^ 23))"

definition round_magnitude :: "rat \<Rightarrow> rat" where
  "round_magnitude m = f32_ulp m * of_int (round_half_even (m / f32_ulp m))"

definition f32_round :: "bool \<Rightarrow> rat \<Rightarrow> f32" where
  "f32_round zero_sign q =
     (let m = round_magnitude \<bar>q\<bar> in
      if 2 ^ 128 \<le> m then F32_inf (q < 0)
      else if m = 0
      then (if (if q = 0 then zero_sign else q < 0) then F32_neg_zero else F32_fin 0)
      else F32_fin (if q < 0 then - m else m))"

text \<open>A literal of the source.\<close>

definition f32_of :: "rat \<Rightarrow> f32" where
  "f32_of q = f32_round False q"

section \<open>Arithmetic and comparison\<close>

fun f32_neg :: "f32 \<Rightarrow> f32" where
  "f32_neg (F32_fin q) = (if q = 0 then F32_neg_zero else F32_fin (- q))"
| "f32_neg F32_neg_zero = F32_fin 0"
| "f32_neg (F32_inf s) = F32_inf (\<not> s)"
| "f32_neg F32_nan = F32_nan"

definition f32_abs :: "f32 \<Rightarrow> f32" where
  "f32_abs a = (if f32_sign a then f32_neg a else a)"

definition f32_add :: "f32 \<Rightarrow> f32 \<Rightarrow> f32" where
  "f32_add a b =
     (if f32_is_nan a \<or> f32_is_nan b then F32_nan
      else if f32_is_infinite a
      then (if f32_is_infinite b \<and> f32_sign a \<noteq> f32_sign b then F32_nan else a)
      else if f32_is_infinite b then b
      else f32_round (f32_sign a \<and> f32_sign b) (f32_value a + f32_value b))"

definition f32_sub :: "f32 \<Rightarrow> f32 \<Rightarrow> f32" where
  "f32_sub a b = f32_add a (f32_neg b)"

definition f32_is_zero :: "f32 \<Rightarrow> bool" where
  "f32_is_zero a = (f32_is_finite a \<and> f32_value a = 0)"

definition f32_mul :: "f32 \<Rightarrow> f32 \<Rightarrow> f32" where
  "f32_mul a b =
     (let negative = (f32_sign a \<noteq> f32_sign b) in
      if f32_is_nan a \<or> f32_is_nan b then F32_nan
      else if f32_is_infinite a \<or> f32_is_infinite b
      then (if f32_is_zero a \<or> f32_is_zero b then F32_nan else F32_inf negative)
      else f32_round negative (f32_value a * f32_value b))"

definition f32_div :: "f32 \<Rightarrow> f32 \<Rightarrow> f32" where
  "f32_div a b =
     (let negative = (f32_sign a \<noteq> f32_sign b) in
      if f32_is_nan a \<or> f32_is_nan b then F32_nan
      else if f32_is_infinite a
      then (if f32_is_infinite b then F32_nan else F32_inf negative)
      else if f32_is_infinite b then (if negative then F32_neg_zero else F32_fin 0)
      else if f32_is_zero b
      then (if f32_is_zero a then F32_nan else F32_inf negative)
      else f32_round negative (f32_value a / f32_value b))"

definition f32_less :: "f32 \<Rightarrow> f32 \<Rightarrow> bool" where
  "f32_less a b =
     (if f32_is_nan a \<or> f32_is_nan b then False
      else if f32_is_infinite a
      then f32_sign a \<and> \<not> (f32_is_infinite b \<and> f32_sign b)
      else if f32_is_infinite b then \<not> f32_sign b
      else f32_value a < f32_value b)"

definition f32_le :: "f32 \<Rightarrow> f32 \<Rightarrow> bool" where
  "f32_le a b = (\<not> f32_is_nan a \<and> \<not> f32_is_nan b \<and> \<not> f32_less b a)"

text \<open>\<open>f32::min\<close>, \<open>max\<close> and \<open>clamp\<close>: a NaN is ignored by the first two and kept by the third.\<close>

definition f32_min :: "f32 \<Rightarrow> f32 \<Rightarrow> f32" where
  "f32_min a b = (if f32_is_nan a then b else if f32_is_nan b then a else if f32_less b a then b else a)"

definition f32_max :: "f32 \<Rightarrow> f32 \<Rightarrow> f32" where
  "f32_max a b = (if f32_is_nan a then b else if f32_is_nan b then a else if f32_less a b then b else a)"

definition f32_clamp :: "f32 \<Rightarrow> f32 \<Rightarrow> f32 \<Rightarrow> f32" where
  "f32_clamp x lo hi =
     (let x = (if f32_less x lo then lo else x) in if f32_less hi x then hi else x)"

text \<open>\<open>f32::total_cmp\<close>, as the relation of being smaller: negative zero is below zero and the NaN
  is above every number.\<close>

definition f32_total_less :: "f32 \<Rightarrow> f32 \<Rightarrow> bool" where
  "f32_total_less a b =
     (if f32_is_nan a then False else if f32_is_nan b then True
      else f32_less a b \<or> (a = F32_neg_zero \<and> b = F32_fin 0))"

definition f32_epsilon :: f32 where
  "f32_epsilon = f32_of (1 / 2 ^ 23)"

section \<open>Rounding is monotone\<close>

lemma round_half_even_of_int [simp]: "round_half_even (of_int n) = n"
  by (simp add: round_half_even_def)

lemma round_half_even_numeral [simp]:
  "round_half_even 0 = 0" "round_half_even 1 = 1" "round_half_even (numeral k) = numeral k"
  using round_half_even_of_int [of 0] round_half_even_of_int [of 1]
    round_half_even_of_int [of "numeral k"] by simp_all

lemma round_half_even_mono:
  assumes "p \<le> q"
  shows "round_half_even p \<le> round_half_even q"
proof (cases "\<lfloor>p\<rfloor> = \<lfloor>q\<rfloor>")
  case True
  then show ?thesis
    using assms by (simp add: round_half_even_def Let_def)
next
  case False
  then have "\<lfloor>p\<rfloor> + 1 \<le> \<lfloor>q\<rfloor>"
    using floor_mono [OF assms] by linarith
  moreover have "round_half_even p \<le> \<lfloor>p\<rfloor> + 1" and "\<lfloor>q\<rfloor> \<le> round_half_even q"
    by (auto simp: round_half_even_def Let_def)
  ultimately show ?thesis by linarith
qed

definition ulp_at :: "nat \<Rightarrow> rat" where
  "ulp_at k = 2 ^ k / 2 ^ 149"

lemma ulp_at_pos [simp]: "0 < ulp_at k"
  by (simp add: ulp_at_def)

lemma ulp_at_mono: "j \<le> k \<Longrightarrow> ulp_at j \<le> ulp_at k"
  by (simp add: ulp_at_def divide_right_mono)

lemma ulp_at_Suc: "ulp_at (Suc k) = 2 * ulp_at k"
  by (simp add: ulp_at_def)

lemma ulp_up_at:
  "2 ^ 23 * ulp_at k \<le> m \<Longrightarrow>
     \<exists>j\<ge>k. j \<le> k + n \<and> ulp_up n m (ulp_at k) = ulp_at j \<and> 2 ^ 23 * ulp_at j \<le> m \<and>
           (j = k + n \<or> m < 2 ^ 24 * ulp_at j)"
proof (induction n arbitrary: k)
  case 0
  then show ?case by (auto intro!: exI [of _ k])
next
  case (Suc n)
  show ?case
  proof (cases "m < 2 ^ 24 * ulp_at k")
    case True
    then show ?thesis using Suc.prems by (auto intro!: exI [of _ k])
  next
    case False
    then have "2 ^ 23 * ulp_at (Suc k) \<le> m" by (simp add: ulp_at_Suc)
    then obtain j where "Suc k \<le> j" "j \<le> Suc k + n" "ulp_up n m (ulp_at (Suc k)) = ulp_at j"
      "2 ^ 23 * ulp_at j \<le> m" "j = Suc k + n \<or> m < 2 ^ 24 * ulp_at j"
      using Suc.IH by blast
    then show ?thesis
      using False by (auto intro!: exI [of _ j] simp: ulp_at_Suc)
  qed
qed

lemma ulp_down_at:
  "\<lbrakk> m < 2 ^ 24 * ulp_at k; n \<le> k \<rbrakk> \<Longrightarrow>
     \<exists>j\<le>k. k \<le> j + n \<and> ulp_down n m (ulp_at k) = ulp_at j \<and> m < 2 ^ 24 * ulp_at j \<and>
           (k = j + n \<or> 2 ^ 23 * ulp_at j \<le> m)"
proof (induction n arbitrary: k)
  case 0
  then show ?case by (auto intro!: exI [of _ k])
next
  case (Suc n)
  then obtain i where k: "k = Suc i" and n: "n \<le> i" by (cases k) auto
  show ?case
  proof (cases "2 ^ 23 * ulp_at k \<le> m")
    case True
    then show ?thesis using Suc.prems by (auto intro!: exI [of _ k])
  next
    case False
    then have "m < 2 ^ 24 * ulp_at i" by (simp add: k ulp_at_Suc)
    then obtain j where "j \<le> i" "i \<le> j + n" "ulp_down n m (ulp_at i) = ulp_at j"
      "m < 2 ^ 24 * ulp_at j" "i = j + n \<or> 2 ^ 23 * ulp_at j \<le> m"
      using Suc.IH n by blast
    then show ?thesis
      using False by (auto intro!: exI [of _ j] simp: k ulp_at_Suc)
  qed
qed

lemma ulp_at_126: "ulp_at 126 = 1 / 2 ^ 23"
  by (simp add: ulp_at_def)

lemma f32_ulp_at:
  obtains k where "f32_ulp m = ulp_at k" "k \<le> 253"
    "k = 0 \<or> 2 ^ 23 * ulp_at k \<le> m" "k = 253 \<or> m < 2 ^ 24 * ulp_at k"
proof (cases "m < 1")
  case True
  then have "m < 2 ^ 24 * ulp_at 126" by (simp add: ulp_at_126)
  from ulp_down_at [OF this, of 126] obtain j where "j \<le> 126"
    "ulp_down 126 m (ulp_at 126) = ulp_at j" "m < 2 ^ 24 * ulp_at j"
    "126 = j + 126 \<or> 2 ^ 23 * ulp_at j \<le> m" by auto
  then show thesis using True that [of j] by (simp add: f32_ulp_def ulp_at_126)
next
  case False
  then have "2 ^ 23 * ulp_at 126 \<le> m" by (simp add: ulp_at_126)
  from ulp_up_at [OF this, of 127] obtain j where "j \<le> 253"
    "ulp_up 127 m (ulp_at 126) = ulp_at j" "2 ^ 23 * ulp_at j \<le> m"
    "j = 253 \<or> m < 2 ^ 24 * ulp_at j" by auto
  then show thesis using False that [of j] by (simp add: f32_ulp_def ulp_at_126)
qed

lemma round_magnitude_mono:
  assumes "m \<le> n"
  shows "round_magnitude m \<le> round_magnitude n"
proof -
  obtain j where j: "f32_ulp m = ulp_at j" "j = 0 \<or> 2 ^ 23 * ulp_at j \<le> m"
    "j = 253 \<or> m < 2 ^ 24 * ulp_at j" "j \<le> 253" by (rule f32_ulp_at [of m])
  obtain k where k: "f32_ulp n = ulp_at k" "k = 0 \<or> 2 ^ 23 * ulp_at k \<le> n"
    "k = 253 \<or> n < 2 ^ 24 * ulp_at k" "k \<le> 253" by (rule f32_ulp_at [of n])
  have "j \<le> k"
  proof (rule ccontr)
    assume "\<not> j \<le> k"
    then have "Suc k \<le> j" by simp
    from ulp_at_mono [OF this] have "2 * ulp_at k \<le> ulp_at j" by (simp add: ulp_at_Suc)
    with \<open>Suc k \<le> j\<close> j k assms show False by auto
  qed
  show ?thesis
  proof (cases "j = k")
    case True
    have "m / ulp_at k \<le> n / ulp_at k" by (simp add: assms divide_right_mono less_imp_le)
    then show ?thesis
      by (simp add: round_magnitude_def j k True round_half_even_mono mult_left_mono less_imp_le)
  next
    case False
    then have lt: "Suc j \<le> k" using \<open>j \<le> k\<close> by simp
    then have m: "m < 2 ^ 24 * ulp_at j" using j k by auto
    have "m / ulp_at j \<le> of_int (2 ^ 24)" using m by (simp add: field_simps)
    from round_half_even_mono [OF this] have "round_half_even (m / ulp_at j) \<le> 2 ^ 24"
      unfolding round_half_even_of_int by simp
    then have "of_int (round_half_even (m / ulp_at j)) \<le> (of_int (2 ^ 24) :: rat)"
      by (simp only: of_int_le_iff)
    then have upper: "round_magnitude m \<le> 2 ^ 24 * ulp_at j"
      by (simp add: round_magnitude_def j)
    have "of_int (2 ^ 23) \<le> n / ulp_at k" using k lt by (simp add: field_simps)
    from round_half_even_mono [OF this] have "2 ^ 23 \<le> round_half_even (n / ulp_at k)"
      unfolding round_half_even_of_int by simp
    then have "(of_int (2 ^ 23) :: rat) \<le> of_int (round_half_even (n / ulp_at k))"
      by (simp only: of_int_le_iff)
    then have "2 ^ 23 * ulp_at k \<le> round_magnitude n"
      by (simp add: round_magnitude_def k)
    moreover have "2 ^ 24 * ulp_at j \<le> 2 ^ 23 * ulp_at k"
      using ulp_at_mono [OF lt] by (simp add: ulp_at_Suc)
    ultimately show ?thesis using upper by linarith
  qed
qed


text \<open>Representable numbers are those that rounding leaves alone; a rounded result stays between
  two of them when the exact one does.\<close>

definition representable :: "rat \<Rightarrow> bool" where
  "representable m = (0 \<le> m \<and> m < 2 ^ 128 \<and> round_magnitude m = m)"

lemma representable_values [simp]:
  "representable 0" "representable 1" "representable (3 / 16)" "representable (13 / 16)"
  "representable (1 / 2)" "representable (1 / 8388608)"
  by (simp_all add: representable_def round_magnitude_def f32_ulp_def numeral_eq_Suc)

lemma f32_round_between:
  assumes "representable lo" "representable hi" "lo \<le> q" "q \<le> hi"
  shows "f32_is_finite (f32_round z q)" "lo \<le> f32_value (f32_round z q)"
    "f32_value (f32_round z q) \<le> hi"
proof -
  have q: "0 \<le> q" using assms by (simp add: representable_def)
  have "lo \<le> round_magnitude q" "round_magnitude q \<le> hi"
    using round_magnitude_mono [OF assms(3)] round_magnitude_mono [OF assms(4)] assms(1,2)
    by (simp_all add: representable_def)
  then show "f32_is_finite (f32_round z q)" "lo \<le> f32_value (f32_round z q)"
    "f32_value (f32_round z q) \<le> hi"
    using q assms(1,2) by (auto simp: f32_round_def Let_def representable_def f32_is_finite_def)
qed

lemma f32_round_not_nan [simp]: "\<not> f32_is_nan (f32_round z q)"
  by (simp add: f32_round_def Let_def)

lemma f32_neg_simps [simp]:
  "f32_is_nan (f32_neg a) = f32_is_nan a" "f32_is_infinite (f32_neg a) = f32_is_infinite a"
  "f32_value (f32_neg a) = - f32_value a"
  by (cases a; simp)+

lemma f32_add_not_nan: "\<lbrakk> f32_is_finite a; \<not> f32_is_nan b \<rbrakk> \<Longrightarrow> \<not> f32_is_nan (f32_add a b)"
  by (simp add: f32_add_def f32_is_finite_def)

lemma f32_div_not_nan:
  "\<lbrakk> \<not> f32_is_nan a; f32_is_finite b; f32_value b \<noteq> 0 \<rbrakk> \<Longrightarrow> \<not> f32_is_nan (f32_div a b)"
  by (simp add: f32_div_def f32_is_finite_def f32_is_zero_def Let_def)

end
