(* ===== verification/Tiling_Layout.thy ===== *)
theory Tiling_Layout
  imports Float32 "HOL-Library.Multiset"
begin

text \<open>
  The tiled layout of the Desktop (\<open>src/desktop/src/layout.rs\<close>): a binary tree whose leaves are
  panes and whose inner nodes divide their rectangle at a ratio.  Operations that mutate the tree
  in place return it beside their Boolean result.  Pane ids are \<open>usize\<close>, here natural numbers;
  \<open>usize::MAX\<close> is the placeholder of \<open>swap_panes\<close>.

  The lemmas say what each operation does to the list of panes in the order of the tree
  (\<open>pane_ids\<close>) and to the ratios: no operation leaves the interval from 3/16 to 13/16 that the
  bounds 0.2 and 0.8 of a resize lie in.
\<close>

datatype axis = Horizontal | Vertical

datatype direction = DirLeft | DirRight | DirUp | DirDown

fun direction_axis :: "direction \<Rightarrow> axis" where
  "direction_axis DirLeft = Horizontal"
| "direction_axis DirRight = Horizontal"
| "direction_axis DirUp = Vertical"
| "direction_axis DirDown = Vertical"

record rect =
  rect_x :: f32
  rect_y :: f32
  rect_width :: f32
  rect_height :: f32

definition rect_center :: "rect \<Rightarrow> f32 \<times> f32" where
  "rect_center r =
     (f32_add (rect_x r) (f32_div (rect_width r) (f32_of 2)),
      f32_add (rect_y r) (f32_div (rect_height r) (f32_of 2)))"

definition rect_right :: "rect \<Rightarrow> f32" where
  "rect_right r = f32_add (rect_x r) (rect_width r)"

definition rect_bottom :: "rect \<Rightarrow> f32" where
  "rect_bottom r = f32_add (rect_y r) (rect_height r)"

definition interval_overlap :: "f32 \<Rightarrow> f32 \<Rightarrow> f32 \<Rightarrow> f32 \<Rightarrow> f32" where
  "interval_overlap a_start a_end b_start b_end =
     f32_sub (f32_min a_end b_end) (f32_max a_start b_start)"

datatype node = Pane nat | Split axis f32 node node

section \<open>Adding, finding and removing panes\<close>

fun layout_split_at :: "node \<Rightarrow> nat \<Rightarrow> nat \<Rightarrow> axis \<Rightarrow> bool \<Rightarrow> bool \<times> node" where
  "layout_split_at (Pane i) target new_id ax before =
     (if i = target
      then (True, Split ax (f32_of (1 / 2))
                    (if before then Pane new_id else Pane target)
                    (if before then Pane target else Pane new_id))
      else (False, Pane i))"
| "layout_split_at (Split a r first second) target new_id ax before =
     (case layout_split_at first target new_id ax before of
        (True, first') \<Rightarrow> (True, Split a r first' second)
      | (False, first') \<Rightarrow>
          (case layout_split_at second target new_id ax before of
             (hit, second') \<Rightarrow> (hit, Split a r first' second')))"

definition layout_split :: "node \<Rightarrow> nat \<Rightarrow> nat \<Rightarrow> axis \<Rightarrow> bool \<times> node" where
  "layout_split n target new_id ax = layout_split_at n target new_id ax False"

fun layout_contains :: "node \<Rightarrow> nat \<Rightarrow> bool" where
  "layout_contains (Pane i) target = (i = target)"
| "layout_contains (Split a r first second) target =
     (layout_contains first target \<or> layout_contains second target)"

fun layout_remove :: "node \<Rightarrow> nat \<Rightarrow> node option" where
  "layout_remove (Pane i) target = (if i \<noteq> target then Some (Pane i) else None)"
| "layout_remove (Split a r first second) target =
     (case (layout_remove first target, layout_remove second target) of
        (Some f, Some s) \<Rightarrow> Some (Split a r f s)
      | (Some n, None) \<Rightarrow> Some n
      | (None, Some n) \<Rightarrow> Some n
      | (None, None) \<Rightarrow> None)"

fun collect_ids :: "node \<Rightarrow> nat list \<Rightarrow> nat list" where
  "collect_ids (Pane i) ids = ids @ [i]"
| "collect_ids (Split a r first second) ids = collect_ids second (collect_ids first ids)"

definition pane_ids :: "node \<Rightarrow> nat list" where
  "pane_ids n = collect_ids n []"

section \<open>Geometry\<close>

definition split_rect :: "axis \<Rightarrow> f32 \<Rightarrow> rect \<Rightarrow> rect \<times> rect" where
  "split_rect ax ratio r = (case ax of
     Horizontal \<Rightarrow>
       (r\<lparr>rect_width := f32_mul (rect_width r) ratio\<rparr>,
        r\<lparr>rect_x := f32_add (rect_x r) (f32_mul (rect_width r) ratio),
          rect_width := f32_mul (rect_width r) (f32_sub (f32_of 1) ratio)\<rparr>)
   | Vertical \<Rightarrow>
       (r\<lparr>rect_height := f32_mul (rect_height r) ratio\<rparr>,
        r\<lparr>rect_y := f32_add (rect_y r) (f32_mul (rect_height r) ratio),
          rect_height := f32_mul (rect_height r) (f32_sub (f32_of 1) ratio)\<rparr>))"

fun collect_rects :: "node \<Rightarrow> rect \<Rightarrow> (nat \<times> rect) list \<Rightarrow> (nat \<times> rect) list" where
  "collect_rects (Pane i) r out = out @ [(i, r)]"
| "collect_rects (Split ax ratio first second) r out =
     (case split_rect ax ratio r of
        (a, b) \<Rightarrow> collect_rects second b (collect_rects first a out))"

definition layout_rects :: "node \<Rightarrow> (nat \<times> rect) list" where
  "layout_rects n =
     collect_rects n \<lparr>rect_x = f32_of 0, rect_y = f32_of 0,
                      rect_width = f32_of 1, rect_height = f32_of 1\<rparr> []"

text \<open>The first minimum of a list, as \<open>Iterator::min_by\<close> returns it.\<close>

fun min_by :: "('a \<Rightarrow> 'a \<Rightarrow> bool) \<Rightarrow> 'a list \<Rightarrow> 'a option" where
  "min_by lt [] = None"
| "min_by lt (x # xs) = Some (fold (\<lambda>y acc. if lt y acc then y else acc) xs x)"

text \<open>What \<open>neighbor\<close> sorts a candidate by: not overlapping, then the distance along the direction,
  then the distance across it.\<close>

type_synonym neighbor_rank = "nat \<times> bool \<times> f32 \<times> f32"

definition neighbor_less :: "neighbor_rank \<Rightarrow> neighbor_rank \<Rightarrow> bool" where
  "neighbor_less a b = (case (a, b) of
     ((_, o1, p1, s1), (_, o2, p2, s2)) \<Rightarrow>
       (\<not> o1 \<and> o2) \<or>
       (o1 = o2 \<and> (f32_total_less p1 p2 \<or>
                    (\<not> f32_total_less p2 p1 \<and> f32_total_less s1 s2))))"

definition neighbor_candidate :: "rect \<Rightarrow> direction \<Rightarrow> nat \<times> rect \<Rightarrow> neighbor_rank option" where
  "neighbor_candidate current direction entry =
     (let (i, r) = entry; (cx, cy) = rect_center current; (x, y) = rect_center r;
          vertical = interval_overlap (rect_y current) (rect_bottom current) (rect_y r) (rect_bottom r);
          horizontal = interval_overlap (rect_x current) (rect_right current) (rect_x r) (rect_right r)
      in case direction of
        DirLeft \<Rightarrow>
          if f32_le (rect_right r) (f32_add (rect_x current) f32_epsilon)
          then Some (i, f32_le vertical f32_epsilon, f32_sub (rect_x current) (rect_right r),
                     f32_abs (f32_sub cy y))
          else None
      | DirRight \<Rightarrow>
          if f32_le (rect_right current) (f32_add (rect_x r) f32_epsilon)
          then Some (i, f32_le vertical f32_epsilon, f32_sub (rect_x r) (rect_right current),
                     f32_abs (f32_sub cy y))
          else None
      | DirUp \<Rightarrow>
          if f32_le (rect_bottom r) (f32_add (rect_y current) f32_epsilon)
          then Some (i, f32_le horizontal f32_epsilon, f32_sub (rect_y current) (rect_bottom r),
                     f32_abs (f32_sub cx x))
          else None
      | DirDown \<Rightarrow>
          if f32_le (rect_bottom current) (f32_add (rect_y r) f32_epsilon)
          then Some (i, f32_le horizontal f32_epsilon, f32_sub (rect_y r) (rect_bottom current),
                     f32_abs (f32_sub cx x))
          else None)"

definition layout_neighbor :: "node \<Rightarrow> nat \<Rightarrow> direction \<Rightarrow> nat option" where
  "layout_neighbor n focused direction =
     (let rects = layout_rects n in
      case List.find (\<lambda>(i, _). i = focused) rects of
        None \<Rightarrow> None
      | Some (_, current) \<Rightarrow>
          map_option fst
            (min_by neighbor_less
               (List.map_filter (neighbor_candidate current direction)
                  (filter (\<lambda>(i, _). i \<noteq> focused) rects))))"

section \<open>Changing splits\<close>

text \<open>The nearest split above the focused pane, changed by \<open>update\<close>.\<close>

type_synonym split_update = "axis \<times> f32 \<times> node \<times> node \<Rightarrow> axis \<times> f32 \<times> node \<times> node"

fun update_nearest_split :: "node \<Rightarrow> nat \<Rightarrow> split_update \<Rightarrow> bool \<times> node" where
  "update_nearest_split (Pane i) focused update = (False, Pane i)"
| "update_nearest_split (Split a r first second) focused update =
     (let focused_first = layout_contains first focused;
          focused_second = layout_contains second focused in
      if \<not> focused_first \<and> \<not> focused_second then (False, Split a r first second)
      else
        (let (updated, first', second') =
           (if focused_first
            then (case update_nearest_split first focused update of (b, f) \<Rightarrow> (b, f, second))
            else (case update_nearest_split second focused update of (b, s) \<Rightarrow> (b, first, s)))
         in if updated then (True, Split a r first' second')
            else (case update (a, r, first', second') of
                    (a', r', f, s) \<Rightarrow> (True, Split a' r' f s))))"

definition toggle_update :: split_update where
  "toggle_update = (\<lambda>(a, r, f, s). (case a of Horizontal \<Rightarrow> Vertical | Vertical \<Rightarrow> Horizontal, r, f, s))"

definition equalize_update :: split_update where
  "equalize_update = (\<lambda>(a, r, f, s). (a, f32_of (1 / 2), f, s))"

definition swap_update :: split_update where
  "swap_update = (\<lambda>(a, r, f, s). (a, f32_sub (f32_of 1) r, s, f))"

definition layout_toggle_split :: "node \<Rightarrow> nat \<Rightarrow> bool \<times> node" where
  "layout_toggle_split n focused = update_nearest_split n focused toggle_update"

definition layout_equalize_split :: "node \<Rightarrow> nat \<Rightarrow> bool \<times> node" where
  "layout_equalize_split n focused = update_nearest_split n focused equalize_update"

definition layout_swap_split :: "node \<Rightarrow> nat \<Rightarrow> bool \<times> node" where
  "layout_swap_split n focused = update_nearest_split n focused swap_update"

fun replace_id :: "node \<Rightarrow> nat \<Rightarrow> nat \<Rightarrow> bool \<times> node" where
  "replace_id (Pane i) old new = (if i = old then (True, Pane new) else (False, Pane i))"
| "replace_id (Split a r first second) old new =
     (case replace_id first old new of
        (True, first') \<Rightarrow> (True, Split a r first' second)
      | (False, first') \<Rightarrow>
          (case replace_id second old new of (hit, second') \<Rightarrow> (hit, Split a r first' second')))"

definition swap_panes :: "node \<Rightarrow> nat \<Rightarrow> nat \<Rightarrow> node" where
  "swap_panes n a b =
     (let n1 = snd (replace_id n a usize_max);
          n2 = snd (replace_id n1 b a)
      in snd (replace_id n2 usize_max b))"

definition clamp_ratio :: "f32 \<Rightarrow> f32" where
  "clamp_ratio r = f32_clamp r (f32_of (1 / 5)) (f32_of (4 / 5))"

fun layout_resize :: "node \<Rightarrow> nat \<Rightarrow> direction \<Rightarrow> f32 \<Rightarrow> bool \<times> node" where
  "layout_resize (Pane i) focused direction amount = (False, Pane i)"
| "layout_resize (Split a r first second) focused direction amount =
     (let focused_first = layout_contains first focused;
          focused_second = layout_contains second focused in
      if \<not> focused_first \<and> \<not> focused_second then (False, Split a r first second)
      else
        (let (resized, first', second') =
           (if focused_first
            then (case layout_resize first focused direction amount of (b, f) \<Rightarrow> (b, f, second))
            else (case layout_resize second focused direction amount of (b, s) \<Rightarrow> (b, first, s)))
         in if resized then (True, Split a r first' second')
            else if a \<noteq> direction_axis direction then (False, Split a r first' second')
            else
              (let delta = (case direction of
                     DirLeft \<Rightarrow> f32_neg amount | DirUp \<Rightarrow> f32_neg amount
                   | DirRight \<Rightarrow> amount | DirDown \<Rightarrow> amount)
               in (True, Split a (clamp_ratio (f32_add r delta)) first' second'))))"

definition far_edge :: "direction \<Rightarrow> bool" where
  "far_edge edge = (case edge of DirRight \<Rightarrow> True | DirDown \<Rightarrow> True | _ \<Rightarrow> False)"

fun has_resize_edge :: "node \<Rightarrow> nat \<Rightarrow> direction \<Rightarrow> bool" where
  "has_resize_edge (Pane i) focused edge = False"
| "has_resize_edge (Split a r first second) focused edge =
     (let in_first = layout_contains first focused in
      if \<not> in_first \<and> \<not> layout_contains second focused then False
      else (if in_first then has_resize_edge first focused edge
            else has_resize_edge second focused edge)
           \<or> (a = direction_axis edge \<and> in_first = far_edge edge))"

text \<open>The part of the root that a child spans along an axis, and a divider moved by a fraction
  of the root.\<close>

definition child_span :: "bool \<Rightarrow> bool \<Rightarrow> f32 \<Rightarrow> f32 \<Rightarrow> f32" where
  "child_span same_axis in_first ratio extent =
     (if same_axis then f32_mul extent (if in_first then ratio else f32_sub (f32_of 1) ratio)
      else extent)"

definition dragged_ratio :: "f32 \<Rightarrow> f32 \<Rightarrow> f32 \<Rightarrow> f32" where
  "dragged_ratio ratio delta extent =
     clamp_ratio (f32_add ratio (f32_div delta (f32_max extent f32_epsilon)))"

fun resize_edge_in_span :: "node \<Rightarrow> nat \<Rightarrow> direction \<Rightarrow> f32 \<Rightarrow> f32 \<Rightarrow> bool \<times> node" where
  "resize_edge_in_span (Pane i) focused edge delta extent = (False, Pane i)"
| "resize_edge_in_span (Split a r first second) focused edge delta extent =
     (let in_first = layout_contains first focused in
      if \<not> in_first \<and> \<not> layout_contains second focused then (False, Split a r first second)
      else
        (let inner = child_span (a = direction_axis edge) in_first r extent;
             (resized, first', second') =
           (if in_first
            then (case resize_edge_in_span first focused edge delta inner of (b, f) \<Rightarrow> (b, f, second))
            else (case resize_edge_in_span second focused edge delta inner of (b, s) \<Rightarrow> (b, first, s)))
         in if resized then (True, Split a r first' second')
            else if a = direction_axis edge \<and> in_first = far_edge edge
            then (True, Split a (dragged_ratio r delta extent) first' second')
            else (False, Split a r first' second')))"

definition resize_edge_from_pointer :: "node \<Rightarrow> nat \<Rightarrow> direction \<Rightarrow> f32 \<Rightarrow> bool \<times> node" where
  "resize_edge_from_pointer n focused edge delta =
     resize_edge_in_span n focused edge delta (f32_of 1)"

fun resize_from_pointer_in_span :: "node \<Rightarrow> nat \<Rightarrow> axis \<Rightarrow> f32 \<Rightarrow> f32 \<Rightarrow> bool \<times> node" where
  "resize_from_pointer_in_span (Pane i) focused target_axis delta extent = (False, Pane i)"
| "resize_from_pointer_in_span (Split a r first second) focused target_axis delta extent =
     (let focused_first = layout_contains first focused;
          focused_second = layout_contains second focused in
      if \<not> focused_first \<and> \<not> focused_second then (False, Split a r first second)
      else
        (let inner = child_span (a = target_axis) focused_first r extent;
             (resized, first', second') =
           (if focused_first
            then (case resize_from_pointer_in_span first focused target_axis delta inner of
                    (b, f) \<Rightarrow> (b, f, second))
            else (case resize_from_pointer_in_span second focused target_axis delta inner of
                    (b, s) \<Rightarrow> (b, first, s)))
         in if resized then (True, Split a r first' second')
            else if a = target_axis
            then (True, Split a (dragged_ratio r delta extent) first' second')
            else (False, Split a r first' second')))"

definition resize_from_pointer :: "node \<Rightarrow> nat \<Rightarrow> axis \<Rightarrow> f32 \<Rightarrow> bool \<times> node" where
  "resize_from_pointer n focused ax delta = resize_from_pointer_in_span n focused ax delta (f32_of 1)"

section \<open>The panes of a layout\<close>

lemma collect_ids_append: "collect_ids n ids = ids @ pane_ids n"
  unfolding pane_ids_def
proof (induction n arbitrary: ids)
  case (Split a r f s)
  show ?case using Split.IH(1) [of ids] Split.IH(2) [of "ids @ collect_ids f []"] Split.IH(2) [of "collect_ids f []"]
    by simp
qed simp

lemma pane_ids_simps [simp]:
  "pane_ids (Pane i) = [i]"
  "pane_ids (Split a r f s) = pane_ids f @ pane_ids s"
  using collect_ids_append [of s "collect_ids f []"] by (simp_all add: pane_ids_def)

lemma pane_ids_nonempty [simp]: "pane_ids n \<noteq> []"
  by (induction n) auto

lemma layout_contains_iff: "layout_contains n i \<longleftrightarrow> i \<in> set (pane_ids n)"
  by (induction n) auto

text \<open>What adding a pane does to the order of the panes.\<close>

fun insert_beside :: "nat \<Rightarrow> nat \<Rightarrow> bool \<Rightarrow> nat list \<Rightarrow> nat list" where
  "insert_beside target new_id before [] = []"
| "insert_beside target new_id before (x # xs) =
     (if x = target then (if before then new_id # x # xs else x # new_id # xs)
      else x # insert_beside target new_id before xs)"

lemma insert_beside_append:
  "insert_beside t k b (xs @ ys) =
     (if t \<in> set xs then insert_beside t k b xs @ ys else xs @ insert_beside t k b ys)"
  by (induction xs) auto

lemma insert_beside_absent [simp]: "t \<notin> set xs \<Longrightarrow> insert_beside t k b xs = xs"
  by (induction xs) auto

lemma mset_insert_beside: "t \<in> set xs \<Longrightarrow> mset (insert_beside t k b xs) = add_mset k (mset xs)"
  by (induction xs) auto

lemma layout_split_at_Split:
  "layout_split_at (Split a r f s) t k ax b =
     (if fst (layout_split_at f t k ax b)
      then (True, Split a r (snd (layout_split_at f t k ax b)) s)
      else (fst (layout_split_at s t k ax b),
            Split a r (snd (layout_split_at f t k ax b)) (snd (layout_split_at s t k ax b))))"
  by (simp add: case_prod_unfold bool.case_eq_if)

lemma layout_split_at_hit: "fst (layout_split_at n t k ax b) = layout_contains n t"
  by (induction n) (simp_all add: layout_split_at_Split del: layout_split_at.simps(2))

lemma layout_split_at_ids:
  "pane_ids (snd (layout_split_at n t k ax b)) = insert_beside t k b (pane_ids n)"
proof (induction n)
  case (Split a r f s)
  then show ?case
    by (simp add: layout_split_at_Split layout_split_at_hit layout_contains_iff insert_beside_append
        del: layout_split_at.simps(2))
qed simp

lemma layout_remove_ids:
  "(case layout_remove n t of None \<Rightarrow> [] | Some n' \<Rightarrow> pane_ids n') = filter (\<lambda>i. i \<noteq> t) (pane_ids n)"
  by (induction n) (auto split: option.splits)

lemma layout_remove_Some:
  "layout_remove n t = Some n' \<Longrightarrow> pane_ids n' = filter (\<lambda>i. i \<noteq> t) (pane_ids n)"
  using layout_remove_ids [of n t] by simp

lemma layout_remove_None:
  "layout_remove n t = None \<longleftrightarrow> filter (\<lambda>i. i \<noteq> t) (pane_ids n) = []"
  using layout_remove_ids [of n t] pane_ids_nonempty
  by (auto split: option.splits)

lemma layout_remove_absent: "\<not> layout_contains n t \<Longrightarrow> layout_remove n t = Some n"
  by (induction n) auto

section \<open>Ratios\<close>

definition ratio_ok :: "f32 \<Rightarrow> bool" where
  "ratio_ok r = (f32_is_finite r \<and> 3 / 16 \<le> f32_value r \<and> f32_value r \<le> 13 / 16)"

fun ratios_ok :: "node \<Rightarrow> bool" where
  "ratios_ok (Pane i) = True"
| "ratios_ok (Split a r f s) = (ratio_ok r \<and> ratios_ok f \<and> ratios_ok s)"

lemma floor_rat_numeral [simp]:
  "\<lfloor>numeral a / numeral b :: rat\<rfloor> = numeral a div numeral b"
  using floor_divide_of_int_eq [of "numeral a" "numeral b", where 'a = rat] by simp

lemmas f32_compute =
  f32_of_def f32_round_def round_magnitude_def f32_ulp_def numeral_eq_Suc round_half_even_def Let_def

lemma f32_of_units [simp]:
  "f32_of 0 = F32_fin 0" "f32_of 1 = F32_fin 1" "f32_of (1 / 2) = F32_fin (1 / 2)"
  "f32_of (1 / 5) = F32_fin (13421773 / 67108864)" "f32_of (4 / 5) = F32_fin (13421773 / 16777216)"
  "f32_epsilon = F32_fin (1 / 8388608)"
  by (simp_all add: f32_compute f32_epsilon_def)

lemma f32_fin_finite [simp]: "f32_is_finite (F32_fin q)"
  by (simp add: f32_is_finite_def)

lemma clamp_ratio_ok: "\<not> f32_is_nan r \<Longrightarrow> ratio_ok (clamp_ratio r)"
  by (cases r)
     (auto simp: clamp_ratio_def f32_clamp_def ratio_ok_def Let_def f32_less_def f32_is_finite_def)

lemma clamp_add_ok: "\<lbrakk> ratio_ok r; \<not> f32_is_nan d \<rbrakk> \<Longrightarrow> ratio_ok (clamp_ratio (f32_add r d))"
  by (rule clamp_ratio_ok, rule f32_add_not_nan) (simp_all add: ratio_ok_def)

lemma complement_ratio_ok:
  assumes "ratio_ok r"
  shows "ratio_ok (f32_sub (F32_fin 1) r)"
proof -
  have "f32_sub (F32_fin 1) r = f32_round False (1 - f32_value r)"
    using assms by (simp add: f32_sub_def f32_add_def ratio_ok_def f32_is_finite_def)
  then show ?thesis
    using assms f32_round_between [of "3 / 16" "13 / 16" "1 - f32_value r" False]
    by (simp add: ratio_ok_def)
qed

text \<open>The span of a subtree stays between 0 and 1, so a pointer delta divided by it is a number.\<close>

definition unit_ok :: "f32 \<Rightarrow> bool" where
  "unit_ok r = (f32_is_finite r \<and> 0 \<le> f32_value r \<and> f32_value r \<le> 1)"

lemma ratio_unit: "ratio_ok r \<Longrightarrow> unit_ok r"
  by (auto simp: ratio_ok_def unit_ok_def)

lemma unit_mul:
  assumes "unit_ok a" "unit_ok b"
  shows "unit_ok (f32_mul a b)"
proof -
  have "f32_mul a b = f32_round (f32_sign a \<noteq> f32_sign b) (f32_value a * f32_value b)"
    using assms by (simp add: f32_mul_def unit_ok_def f32_is_finite_def Let_def)
  moreover have "f32_value a * f32_value b \<le> 1"
    using assms mult_mono [of "f32_value a" 1 "f32_value b" 1] by (simp add: unit_ok_def)
  ultimately show ?thesis
    using assms f32_round_between [of 0 1 "f32_value a * f32_value b" "f32_sign a \<noteq> f32_sign b"]
    by (simp add: unit_ok_def)
qed

lemma child_span_unit: "\<lbrakk> unit_ok e; ratio_ok r \<rbrakk> \<Longrightarrow> unit_ok (child_span same first r e)"
  by (simp add: child_span_def unit_mul ratio_unit complement_ratio_ok)

lemma dragged_ratio_ok:
  assumes "ratio_ok r" "\<not> f32_is_nan delta" "unit_ok e"
  shows "ratio_ok (dragged_ratio r delta e)"
proof -
  have "f32_is_finite (f32_max e f32_epsilon)" "0 < f32_value (f32_max e f32_epsilon)"
    using assms(3) by (auto simp: unit_ok_def f32_max_def f32_is_finite_def f32_less_def)
  then have "\<not> f32_is_nan (f32_div delta (f32_max e f32_epsilon))"
    using assms(2) by (simp add: f32_div_not_nan)
  then show ?thesis
    using assms(1) unfolding dragged_ratio_def
    by (intro clamp_ratio_ok f32_add_not_nan) (simp_all add: ratio_ok_def)
qed

lemma ratio_ok_half [simp]: "ratio_ok (F32_fin (1 / 2))"
  by (simp add: ratio_ok_def)

section \<open>What the operations keep\<close>

lemma layout_split_at_ratios: "ratios_ok n \<Longrightarrow> ratios_ok (snd (layout_split_at n t k ax b))"
  by (induction n) (simp_all add: layout_split_at_Split del: layout_split_at.simps(2))

lemma layout_remove_ratios:
  "ratios_ok n \<Longrightarrow> (case layout_remove n t of None \<Rightarrow> True | Some n' \<Rightarrow> ratios_ok n')"
  by (induction n) (auto split: option.split option.split_asm)

definition update_keeps :: "split_update \<Rightarrow> bool" where
  "update_keeps update = (\<forall>a r f s a' r' f' s'. update (a, r, f, s) = (a', r', f', s') \<longrightarrow>
     mset (pane_ids f') + mset (pane_ids s') = mset (pane_ids f) + mset (pane_ids s) \<and>
     (ratio_ok r \<longrightarrow> ratio_ok r') \<and>
     (ratios_ok f \<and> ratios_ok s \<longrightarrow> ratios_ok f' \<and> ratios_ok s'))"

lemma update_keeps_simps [simp]:
  "update_keeps toggle_update" "update_keeps equalize_update" "update_keeps swap_update"
  by (auto simp: update_keeps_def toggle_update_def equalize_update_def swap_update_def
      complement_ratio_ok)

lemma update_keepsD:
  assumes "update_keeps update" and "update (a, r, f, s) = (a', r', f', s')"
  shows "mset (pane_ids f') + mset (pane_ids s') = mset (pane_ids f) + mset (pane_ids s)"
    and "ratio_ok r \<Longrightarrow> ratio_ok r'"
    and "ratios_ok f \<Longrightarrow> ratios_ok s \<Longrightarrow> ratios_ok f'"
    and "ratios_ok f \<Longrightarrow> ratios_ok s \<Longrightarrow> ratios_ok s'"
  using assms unfolding update_keeps_def by metis+

text \<open>An operation that descends to the focused pane and rewrites one split, unfolded with
  projections.\<close>

lemma descend_Split:
  "update_nearest_split (Split a r f s) focused update =
     (if \<not> layout_contains f focused \<and> \<not> layout_contains s focused then (False, Split a r f s)
      else (let p = update_nearest_split (if layout_contains f focused then f else s) focused update;
                f' = (if layout_contains f focused then snd p else f);
                s' = (if layout_contains f focused then s else snd p) in
            if fst p then (True, Split a r f' s')
            else (True, (case update (a, r, f', s') of (a', r', f, s) \<Rightarrow> Split a' r' f s))))"
  by (simp add: Let_def case_prod_unfold)

lemma update_nearest_split_keeps:
  assumes "update_keeps update"
  shows "mset (pane_ids (snd (update_nearest_split n focused update))) = mset (pane_ids n)"
    and "ratios_ok n \<Longrightarrow> ratios_ok (snd (update_nearest_split n focused update))"
proof (induction n)
  case (Split a r f s)
  { case 1
    show ?case
      using Split.IH(1,3)
      by (auto simp: descend_Split Let_def dest!: update_keepsD(1) [OF assms] split: prod.split
          simp del: update_nearest_split.simps) }
  { case 2
    then show ?case
      using Split.IH(2,4)
      by (auto simp: descend_Split Let_def dest: update_keepsD(2-4) [OF assms] split: prod.split
          simp del: update_nearest_split.simps) }
qed simp_all

lemma layout_resize_Split:
  "layout_resize (Split a r f s) focused direction amount =
     (if \<not> layout_contains f focused \<and> \<not> layout_contains s focused then (False, Split a r f s)
      else (let p = layout_resize (if layout_contains f focused then f else s) focused direction amount;
                f' = (if layout_contains f focused then snd p else f);
                s' = (if layout_contains f focused then s else snd p) in
            if fst p then (True, Split a r f' s')
            else if a \<noteq> direction_axis direction then (False, Split a r f' s')
            else (True, Split a (clamp_ratio (f32_add r
                    (if direction \<in> {DirLeft, DirUp} then f32_neg amount else amount))) f' s')))"
  by (simp add: Let_def case_prod_unfold split: direction.split)

lemma layout_resize_keeps:
  shows "pane_ids (snd (layout_resize n focused direction amount)) = pane_ids n"
    and "\<lbrakk> \<not> f32_is_nan amount; ratios_ok n \<rbrakk>
         \<Longrightarrow> ratios_ok (snd (layout_resize n focused direction amount))"
proof (induction n)
  case (Split a r f s)
  { case 1
    show ?case using Split.IH(1,3)
      by (simp add: layout_resize_Split Let_def del: layout_resize.simps) }
  { case 2
    then have "ratio_ok (clamp_ratio (f32_add r amount))"
      "ratio_ok (clamp_ratio (f32_add r (f32_neg amount)))"
      by (simp_all add: clamp_add_ok)
    then show ?case using Split.IH(2,4) 2
      by (simp add: layout_resize_Split Let_def del: layout_resize.simps) }
qed simp_all

lemma resize_edge_Split:
  "resize_edge_in_span (Split a r f s) focused edge delta e =
     (if \<not> layout_contains f focused \<and> \<not> layout_contains s focused then (False, Split a r f s)
      else (let first = layout_contains f focused;
                p = resize_edge_in_span (if first then f else s) focused edge delta
                      (child_span (a = direction_axis edge) first r e);
                f' = (if first then snd p else f); s' = (if first then s else snd p) in
            if fst p then (True, Split a r f' s')
            else if a = direction_axis edge \<and> first = far_edge edge
            then (True, Split a (dragged_ratio r delta e) f' s')
            else (False, Split a r f' s')))"
  by (simp add: Let_def case_prod_unfold)

lemma resize_edge_in_span_keeps:
  shows "pane_ids (snd (resize_edge_in_span n focused edge delta e)) = pane_ids n"
    and "\<lbrakk> \<not> f32_is_nan delta; ratios_ok n; unit_ok e \<rbrakk>
         \<Longrightarrow> ratios_ok (snd (resize_edge_in_span n focused edge delta e))"
proof (induction n arbitrary: e)
  case (Split a r f s)
  { case 1
    show ?case using Split.IH(1,3)
      by (simp add: resize_edge_Split Let_def del: resize_edge_in_span.simps) }
  { case 2
    then have "ratio_ok (dragged_ratio r delta e)" "\<And>p q. unit_ok (child_span p q r e)"
      by (simp_all add: dragged_ratio_ok child_span_unit)
    then show ?case using Split.IH(2,4) 2
      by (simp add: resize_edge_Split Let_def del: resize_edge_in_span.simps) }
qed simp_all

lemma resize_pointer_Split:
  "resize_from_pointer_in_span (Split a r f s) focused ax delta e =
     (if \<not> layout_contains f focused \<and> \<not> layout_contains s focused then (False, Split a r f s)
      else (let first = layout_contains f focused;
                p = resize_from_pointer_in_span (if first then f else s) focused ax delta
                      (child_span (a = ax) first r e);
                f' = (if first then snd p else f); s' = (if first then s else snd p) in
            if fst p then (True, Split a r f' s')
            else if a = ax then (True, Split a (dragged_ratio r delta e) f' s')
            else (False, Split a r f' s')))"
  by (simp add: Let_def case_prod_unfold)

lemma resize_from_pointer_in_span_keeps:
  shows "pane_ids (snd (resize_from_pointer_in_span n focused ax delta e)) = pane_ids n"
    and "\<lbrakk> \<not> f32_is_nan delta; ratios_ok n; unit_ok e \<rbrakk>
         \<Longrightarrow> ratios_ok (snd (resize_from_pointer_in_span n focused ax delta e))"
proof (induction n arbitrary: e)
  case (Split a r f s)
  { case 1
    show ?case using Split.IH(1,3)
      by (simp add: resize_pointer_Split Let_def del: resize_from_pointer_in_span.simps) }
  { case 2
    then have "ratio_ok (dragged_ratio r delta e)" "\<And>p q. unit_ok (child_span p q r e)"
      by (simp_all add: dragged_ratio_ok child_span_unit)
    then show ?case using Split.IH(2,4) 2
      by (simp add: resize_pointer_Split Let_def del: resize_from_pointer_in_span.simps) }
qed simp_all

lemma unit_one [simp]: "unit_ok (F32_fin 1)"
  by (simp add: unit_ok_def)

lemma pointer_resizes_keep:
  "pane_ids (snd (resize_edge_from_pointer n focused edge delta)) = pane_ids n"
  "pane_ids (snd (resize_from_pointer n focused ax delta)) = pane_ids n"
  "\<lbrakk> \<not> f32_is_nan delta; ratios_ok n \<rbrakk>
     \<Longrightarrow> ratios_ok (snd (resize_edge_from_pointer n focused edge delta))"
  "\<lbrakk> \<not> f32_is_nan delta; ratios_ok n \<rbrakk>
     \<Longrightarrow> ratios_ok (snd (resize_from_pointer n focused ax delta))"
  by (simp_all add: resize_edge_from_pointer_def resize_from_pointer_def
      resize_edge_in_span_keeps resize_from_pointer_in_span_keeps)

section \<open>Swapping panes\<close>

fun replace_first :: "nat \<Rightarrow> nat \<Rightarrow> nat list \<Rightarrow> nat list" where
  "replace_first old new [] = []"
| "replace_first old new (x # xs) = (if x = old then new # xs else x # replace_first old new xs)"

lemma replace_first_append:
  "replace_first o' k (xs @ ys) =
     (if o' \<in> set xs then replace_first o' k xs @ ys else xs @ replace_first o' k ys)"
  by (induction xs) auto

lemma replace_id_Split:
  "replace_id (Split a r f s) old new =
     (if fst (replace_id f old new) then (True, Split a r (snd (replace_id f old new)) s)
      else (fst (replace_id s old new),
            Split a r (snd (replace_id f old new)) (snd (replace_id s old new))))"
  by (simp add: case_prod_unfold bool.case_eq_if)

lemma replace_first_absent: "o' \<notin> set xs \<Longrightarrow> replace_first o' k xs = xs"
  by (induction xs) auto

lemma replace_id_keeps:
  shows "fst (replace_id n old new) = layout_contains n old"
    and "pane_ids (snd (replace_id n old new)) = replace_first old new (pane_ids n)"
    and "ratios_ok n \<Longrightarrow> ratios_ok (snd (replace_id n old new))"
  by (induction n)
     (simp_all add: replace_id_Split replace_first_append layout_contains_iff replace_first_absent
      del: replace_id.simps(2))

lemma replace_first_distinct:
  "distinct xs \<Longrightarrow> replace_first o' k xs = map (\<lambda>x. if x = o' then k else x) xs"
  by (induction xs) (auto intro!: map_idI [symmetric])

text \<open>With distinct panes, none of which has the placeholder's id, \<open>swap_panes\<close> exchanges the two
  ids and changes nothing else.\<close>

lemma swap_panes_ids:
  assumes "distinct (pane_ids n)" "usize_max \<notin> set (pane_ids n)" "a \<noteq> b"
    "a \<in> set (pane_ids n)" "b \<in> set (pane_ids n)"
  shows "pane_ids (swap_panes n a b) =
     map (\<lambda>x. if x = a then b else if x = b then a else x) (pane_ids n)"
proof -
  let ?m = usize_max
  have ne: "a \<noteq> ?m" "b \<noteq> ?m" using assms by auto
  define f where "f = (\<lambda>x. if x = a then ?m else x)"
  define g where "g = (\<lambda>x. if x = b then a else x)"
  define h where "h = (\<lambda>x. if x = ?m then b else x)"
  have inj: "inj_on f (set (pane_ids n))" "inj_on g (f ` set (pane_ids n))"
    using assms ne by (auto simp: inj_on_def f_def g_def)
  have 1: "pane_ids (snd (replace_id n a ?m)) = map f (pane_ids n)"
    using assms by (simp add: replace_id_keeps replace_first_distinct f_def)
  have 2: "pane_ids (snd (replace_id (snd (replace_id n a ?m)) b a)) = map g (map f (pane_ids n))"
    using assms(1) inj 1
    by (simp add: replace_id_keeps(2) [of "snd (replace_id n a ?m)"] replace_first_distinct
        distinct_map g_def del: map_map)
  have "distinct (map g (map f (pane_ids n)))"
    using assms(1) inj by (simp add: distinct_map comp_inj_on del: map_map)
  then have "pane_ids (swap_panes n a b) = map h (map g (map f (pane_ids n)))"
    unfolding swap_panes_def Let_def replace_id_keeps(2) [of "snd (replace_id (snd (replace_id n a ?m)) b a)"] 2
    by (simp add: replace_first_distinct h_def)
  also have "\<dots> = map (\<lambda>x. if x = a then b else if x = b then a else x) (pane_ids n)"
    using assms ne by (auto simp: f_def g_def h_def)
  finally show ?thesis .
qed

lemma swap_panes_ratios: "ratios_ok n \<Longrightarrow> ratios_ok (swap_panes n a b)"
  by (simp add: swap_panes_def Let_def replace_id_keeps)

lemma swap_panes_mset:
  assumes "distinct (pane_ids n)" "usize_max \<notin> set (pane_ids n)" "a \<noteq> b"
    "a \<in> set (pane_ids n)" "b \<in> set (pane_ids n)"
  shows "mset (pane_ids (swap_panes n a b)) = mset (pane_ids n)"
proof -
  let ?t = "\<lambda>x. if x = a then b else if x = b then a else x"
  have "distinct (map ?t (pane_ids n))"
    using assms(1) by (auto simp: distinct_map inj_on_def)
  moreover have "set (map ?t (pane_ids n)) = set (pane_ids n)"
    using assms(3-5) by (auto simp: image_iff)
  ultimately show ?thesis
    unfolding swap_panes_ids [OF assms] using assms(1) set_eq_iff_mset_eq_distinct by blast
qed

section \<open>Neighbours\<close>

lemma collect_rects_ids: "map fst (collect_rects n r out) = map fst out @ pane_ids n"
  by (induction n arbitrary: r out) (auto split: prod.split)

lemma layout_rects_ids: "map fst (layout_rects n) = pane_ids n"
  by (simp add: layout_rects_def collect_rects_ids)

lemma fold_min_mem: "fold (\<lambda>y acc. if lt y acc then y else acc) xs x \<in> insert x (set xs)"
  by (induction xs arbitrary: x) auto

lemma min_by_mem: "min_by lt xs = Some x \<Longrightarrow> x \<in> set xs"
  using fold_min_mem [of lt "tl xs" "hd xs"] by (cases xs) auto

lemma neighbor_candidate_id: "neighbor_candidate current d e = Some c \<Longrightarrow> fst c = fst e"
  by (cases d) (auto simp: neighbor_candidate_def Let_def split: prod.splits if_splits)

lemma layout_neighbor_pane:
  assumes "layout_neighbor n focused d = Some i"
  shows "focused \<in> set (pane_ids n) \<and> i \<in> set (pane_ids n) \<and> i \<noteq> focused"
proof -
  obtain entry where find: "List.find (\<lambda>(i, _). i = focused) (layout_rects n) = Some entry"
    and least: "map_option fst (min_by neighbor_less
         (List.map_filter (neighbor_candidate (snd entry) d)
           (filter (\<lambda>(i, _). i \<noteq> focused) (layout_rects n)))) = Some i"
    using assms unfolding layout_neighbor_def Let_def case_prod_unfold
    by (cases "List.find (\<lambda>p. fst p = focused) (layout_rects n)") simp_all
  have "entry \<in> set (layout_rects n)" "fst entry = focused"
    using find_Some_mem [OF find] by auto
  then have "focused \<in> fst ` set (layout_rects n)" by force
  moreover obtain c where "min_by neighbor_less (List.map_filter (neighbor_candidate (snd entry) d)
           (filter (\<lambda>(i, _). i \<noteq> focused) (layout_rects n))) = Some c" "fst c = i"
    using least by auto
  then have "c \<in> set (List.map_filter (neighbor_candidate (snd entry) d)
           (filter (\<lambda>(i, _). i \<noteq> focused) (layout_rects n)))" by (simp add: min_by_mem)
  then obtain e where e: "e \<in> set (layout_rects n)" "fst e \<noteq> focused"
    "neighbor_candidate (snd entry) d e = Some c"
    by (auto simp: map_filter_def)
  moreover have "i = fst e"
    using neighbor_candidate_id [OF e(3)] \<open>fst c = i\<close> by (simp only:)
  ultimately have "focused \<in> fst ` set (layout_rects n)" "i \<in> fst ` set (layout_rects n)" "i \<noteq> focused"
    by simp_all
  then show ?thesis unfolding layout_rects_ids [symmetric] by simp
qed

end
