(* ===== verification/Layout_Document.thy ===== *)
theory Layout_Document
  imports Tiling_Layout Sorted_Map
begin

text \<open>
  The saved arrangements of the Desktop (\<open>src/desktop/src/layout_state.rs\<close>): the document, its
  validation and migration, the panes dropped before it is written, and the store that replaces
  the file.  A file system is what the store can see of it: the document's file, the temporary
  files beside it and whether another process holds the lock.  Writing is the list of file system
  states it goes through, so that a crash leaves one of them.

  Parameters: the JSON codec (\<open>layout_codec\<close>), the outcome of each system call (\<open>layout_io\<close>) and
  the UUID that names a revision.
\<close>

section \<open>The document\<close>

record saved_pane =
  sp_shell :: "string option"
  sp_workspace :: "string option"

datatype saved_tree = Saved_pane nat | Saved_split bool f32 saved_tree saved_tree

type_synonym saved_rect = "f32 \<times> f32 \<times> f32 \<times> f32"

record saved_floating =
  sf_pane :: nat
  sf_rect :: saved_rect

record arrangement =
  ar_tree :: "saved_tree option"
  ar_floating :: "saved_floating list"
  ar_panes :: "(nat, saved_pane) smap"
  ar_focused :: "nat option"
  ar_expanded :: "nat option"
  ar_canvas :: "f32 \<times> f32"

record conversation_preference =
  cp_workspace :: string
  cp_integration :: string
  cp_session :: string
  cp_pinned :: bool
  cp_archived :: bool

record mac_window =
  mw_display :: string
  mw_rect :: saved_rect

record layout_document =
  ld_version :: nat
  ld_revision :: string
  ld_owner :: string
  ld_active :: string
  ld_arrangements :: "(string, arrangement) smap"
  ld_minimized :: "string list"
  ld_workspace_order :: "string list"
  ld_hidden_remote_workspaces :: "(string, string) smap"
  ld_conversations :: "conversation_preference list"
  ld_mac_window :: "mac_window option"

definition default_document :: layout_document where
  "default_document =
     \<lparr>ld_version = 4, ld_revision = '''', ld_owner = '''', ld_active = '''', ld_arrangements = [],
      ld_minimized = [], ld_workspace_order = [], ld_hidden_remote_workspaces = [],
      ld_conversations = [], ld_mac_window = None\<rparr>"

definition layout_max_bytes :: nat where "layout_max_bytes = 2 * 1024 * 1024"
definition layout_max_panes :: nat where "layout_max_panes = 4096"

section \<open>Dropping placeholders\<close>

fun prune_tree :: "saved_tree \<Rightarrow> (nat, saved_pane) smap \<Rightarrow> saved_tree option" where
  "prune_tree (Saved_pane i) panes = (if get panes i \<noteq> None then Some (Saved_pane i) else None)"
| "prune_tree (Saved_split h r first second) panes =
     (case (prune_tree first panes, prune_tree second panes) of
        (Some f, Some s) \<Rightarrow> Some (Saved_split h r f s)
      | (Some f, None) \<Rightarrow> Some f
      | (None, s) \<Rightarrow> s)"

definition discard_unbound_panes :: "arrangement \<Rightarrow> arrangement" where
  "discard_unbound_panes a =
     (let panes = filter (\<lambda>(_, p). sp_shell p \<noteq> None) (ar_panes a) in
      a\<lparr>ar_panes := panes,
        ar_tree := Option.bind (ar_tree a) (\<lambda>t. prune_tree t panes),
        ar_floating := filter (\<lambda>p. get panes (sf_pane p) \<noteq> None) (ar_floating a),
        ar_focused :=
          (case opt_filter (\<lambda>i. get panes i \<noteq> None) (ar_focused a) of
             Some i \<Rightarrow> Some i
           | None \<Rightarrow> (case panes of [] \<Rightarrow> None | (i, _) # _ \<Rightarrow> Some i)),
        ar_expanded := opt_filter (\<lambda>i. get panes i \<noteq> None) (ar_expanded a)\<rparr>)"

section \<open>Validation\<close>

definition saved_ratio_valid :: "f32 \<Rightarrow> bool" where
  "saved_ratio_valid r =
     (f32_is_finite r \<and> f32_le (f32_of (1 / 100)) r \<and> f32_le r (f32_of (99 / 100)))"

fun validate_tree :: "saved_tree \<Rightarrow> nat \<Rightarrow> nat list \<Rightarrow> string + nat list" where
  "validate_tree (Saved_pane i) depth ids =
     (if 64 < depth \<or> layout_max_panes \<le> length ids then Inl ''layout tree exceeds bounds''
      else if i \<in> set ids then Inl ''duplicate pane'' else Inr (i # ids))"
| "validate_tree (Saved_split h r first second) depth ids =
     (if 64 < depth \<or> layout_max_panes \<le> length ids then Inl ''layout tree exceeds bounds''
      else if \<not> saved_ratio_valid r then Inl ''invalid split ratio''
      else (case validate_tree first (depth + 1) ids of
              Inl e \<Rightarrow> Inl e
            | Inr ids' \<Rightarrow> validate_tree second (depth + 1) ids'))"

definition rect_all :: "(f32 \<Rightarrow> bool) \<Rightarrow> saved_rect \<Rightarrow> bool" where
  "rect_all p r = (case r of (x, y, w, h) \<Rightarrow> p x \<and> p y \<and> p w \<and> p h)"

definition window_geometry_valid :: "saved_rect \<Rightarrow> bool" where
  "window_geometry_valid r =
     (rect_all (\<lambda>n. f32_is_finite n \<and> f32_le (f32_abs n) (f32_of 1000000)) r \<and>
      (case r of (_, _, w, h) \<Rightarrow> f32_less (f32_of 0) w \<and> f32_less (f32_of 0) h))"

definition floating_rect_valid :: "saved_rect \<Rightarrow> bool" where
  "floating_rect_valid r =
     (rect_all f32_is_finite r \<and>
      (case r of (_, _, w, h) \<Rightarrow> \<not> f32_le w (f32_of 0) \<and> \<not> f32_le h (f32_of 0)))"

fun validate_floating :: "saved_floating list \<Rightarrow> nat list \<Rightarrow> string + nat list" where
  "validate_floating [] ids = Inr ids"
| "validate_floating (f # fs) ids =
     (if sf_pane f \<in> set ids \<or> \<not> floating_rect_valid (sf_rect f) then Inl ''invalid floating pane''
      else validate_floating fs (sf_pane f # ids))"

fun validate_shells :: "saved_pane list \<Rightarrow> string list \<Rightarrow> string + unit" where
  "validate_shells [] shells = Inr ()"
| "validate_shells (p # ps) shells =
     (case sp_shell p of
        None \<Rightarrow> validate_shells ps shells
      | Some s \<Rightarrow>
          if 1024 < length s \<or> s \<in> set shells then Inl ''duplicate or oversized Shell identity''
          else validate_shells ps (s # shells))"

definition validate_references :: "arrangement \<Rightarrow> nat list \<Rightarrow> nat \<Rightarrow> string + unit" where
  "validate_references a ids panes_total =
     (if layout_max_panes < panes_total \<or> length ids \<noteq> length (ar_panes a)
         \<or> \<not> list_all (\<lambda>i. get (ar_panes a) i \<noteq> None) ids
      then Inl ''invalid pane references''
      else if \<not> list_all (\<lambda>i. i \<in> set ids)
                 (List.map_filter (\<lambda>x. x) [ar_focused a, ar_expanded a])
      then Inl ''invalid focused or expanded pane''
      else if \<not> (case ar_canvas a of (w, h) \<Rightarrow>
                   f32_is_finite w \<and> f32_less (f32_of 0) w \<and>
                   f32_is_finite h \<and> f32_less (f32_of 0) h)
      then Inl ''invalid canvas dimensions''
      else validate_shells (objects (ar_panes a)) [])"

definition arrangement_ids :: "arrangement \<Rightarrow> string + nat list" where
  "arrangement_ids a =
     (case (case ar_tree a of None \<Rightarrow> Inr [] | Some t \<Rightarrow> validate_tree t 0 []) of
        Inl e \<Rightarrow> Inl e
      | Inr ids \<Rightarrow> validate_floating (ar_floating a) ids)"

fun validate_arrangements :: "arrangement list \<Rightarrow> nat \<Rightarrow> string + unit" where
  "validate_arrangements [] panes_total = Inr ()"
| "validate_arrangements (a # as) panes_total =
     (case arrangement_ids a of
        Inl e \<Rightarrow> Inl e
      | Inr ids \<Rightarrow>
          (case validate_references a ids (panes_total + length ids) of
             Inl e \<Rightarrow> Inl e
           | Inr _ \<Rightarrow> validate_arrangements as (panes_total + length ids)))"

fun validate_conversations :: "conversation_preference list \<Rightarrow> (string \<times> string \<times> string) list \<Rightarrow> bool" where
  "validate_conversations [] seen = True"
| "validate_conversations (c # cs) seen =
     (let identity = (cp_workspace c, cp_integration c, cp_session c) in
      list_all (\<lambda>v. v \<noteq> [] \<and> length v \<le> 1024) [cp_workspace c, cp_integration c, cp_session c]
      \<and> identity \<notin> set seen \<and> validate_conversations cs (identity # seen))"

text \<open>\<open>remote::identity\<close>: the Node and the resource of a Desktop key.\<close>

definition remote_identity :: "string \<Rightarrow> (string \<times> string) option" where
  "remote_identity key =
     (if take 7 key = ''remote:''
      then (let rest = drop 7 key in
            map_option (\<lambda>i. (take i rest, drop (Suc i) rest)) (position (\<lambda>c. c = CHR '':'') rest))
      else None)"

definition hidden_workspace_valid :: "string \<times> string \<Rightarrow> bool" where
  "hidden_workspace_valid entry = (case entry of (key, name) \<Rightarrow>
     length key \<le> 1024 \<and> length name \<le> 1024 \<and>
     (case remote_identity key of None \<Rightarrow> False | Some (node, inner) \<Rightarrow> node \<noteq> [] \<and> inner \<noteq> []))"

definition validate_document :: "layout_document \<Rightarrow> string + unit" where
  "validate_document d =
     (if ld_version d \<noteq> 4 then Inl ''unsupported layout state version; saved file retained''
      else if (case ld_mac_window d of None \<Rightarrow> False | Some w \<Rightarrow>
                 128 < length (mw_display w) \<or> \<not> window_geometry_valid (mw_rect w))
      then Inl ''invalid saved window geometry''
      else if 256 < length (ld_arrangements d) \<or> layout_max_panes < length (ld_minimized d)
              \<or> 256 < length (ld_hidden_remote_workspaces d) \<or> 4096 < length (ld_workspace_order d)
      then Inl ''layout state exceeds bounds''
      else if \<not> list_all hidden_workspace_valid (ld_hidden_remote_workspaces d)
      then Inl ''invalid hidden remote Workspace''
      else if 4096 < length (ld_conversations d) then Inl ''too many conversation preferences''
      else if \<not> validate_conversations (ld_conversations d) []
      then Inl ''invalid conversation preference''
      else validate_arrangements (objects (ld_arrangements d)) 0)"

section \<open>Reading\<close>

record layout_codec =
  decode_document :: "string \<Rightarrow> string + layout_document"
  encode_document :: "layout_document \<Rightarrow> string + string"

definition migrate_document :: "layout_document \<Rightarrow> layout_document" where
  "migrate_document d0 =
     (let d1 = (if ld_version d0 = 1
                then d0\<lparr>ld_hidden_remote_workspaces := [], ld_version := 2\<rparr> else d0);
          d2 = (if ld_version d1 = 2 then d1\<lparr>ld_conversations := [], ld_version := 3\<rparr> else d1)
      in if ld_version d2 = 3 then d2\<lparr>ld_mac_window := None, ld_version := 4\<rparr> else d2)"

record layout_disk =
  lk_file :: "string option"
  lk_temporary :: "(string, string) smap"
  lk_locked :: bool

record layout_io =
  io_create_dir :: "string option"
  io_open_lock :: "string option"
  io_open :: "string option"
  io_read :: "string option"
  io_create :: "string option"
  io_write :: "(nat \<times> string) option"
  io_sync :: "string option"
  io_rename :: "string option"
  io_sync_dir :: "string option"
  io_remove_fails :: bool

definition read_document :: "layout_codec \<Rightarrow> layout_io \<Rightarrow> layout_disk \<Rightarrow> string + layout_document" where
  "read_document codec io disk =
     (case io_open io of
        Some e \<Rightarrow> Inl e
      | None \<Rightarrow>
     (case lk_file disk of
        None \<Rightarrow> Inr default_document
      | Some content \<Rightarrow>
     (case io_read io of
        Some e \<Rightarrow> Inl e
      | None \<Rightarrow>
          let bytes = take (layout_max_bytes + 1) content in
          if layout_max_bytes < length bytes then Inl ''layout state exceeds 2 MiB''
          else (case decode_document codec bytes of
                  Inl e \<Rightarrow> Inl e
                | Inr d \<Rightarrow>
                    let document = migrate_document d in
                    (case validate_document document of
                       Inl e \<Rightarrow> Inl e
                     | Inr _ \<Rightarrow> Inr document)))))"

section \<open>Saving\<close>

record layout_store =
  ls_revision :: string

text \<open>The temporary file is created, filled and synced, takes the place of the document, and the
  directory is synced; on an error it is removed, and that may fail too.  The list holds the file
  system after each step.\<close>

definition remove_temporary :: "layout_io \<Rightarrow> string \<Rightarrow> layout_disk \<Rightarrow> layout_disk" where
  "remove_temporary io revision disk =
     (if io_remove_fails io then disk else disk\<lparr>lk_temporary := del revision (lk_temporary disk)\<rparr>)"

definition replace_file ::
  "layout_io \<Rightarrow> string \<Rightarrow> string \<Rightarrow> layout_disk \<Rightarrow> (string + unit) \<times> layout_disk list" where
  "replace_file io revision bytes disk =
     (if io_create io \<noteq> None \<or> get (lk_temporary disk) revision \<noteq> None
      then (Inl (case io_create io of Some e \<Rightarrow> e | None \<Rightarrow> ''File exists''),
            [disk, remove_temporary io revision disk])
      else
        (let d1 = disk\<lparr>lk_temporary := put revision [] (lk_temporary disk)\<rparr> in
         case io_write io of
           Some (n, e) \<Rightarrow>
             (let d2 = disk\<lparr>lk_temporary := put revision (take n bytes) (lk_temporary disk)\<rparr>
              in (Inl e, [disk, d1, d2, remove_temporary io revision d2]))
         | None \<Rightarrow>
             (let d2 = disk\<lparr>lk_temporary := put revision bytes (lk_temporary disk)\<rparr> in
              case io_sync io of
                Some e \<Rightarrow> (Inl e, [disk, d1, d2, remove_temporary io revision d2])
              | None \<Rightarrow>
                  (case io_rename io of
                     Some e \<Rightarrow> (Inl e, [disk, d1, d2, remove_temporary io revision d2])
                   | None \<Rightarrow>
                       (let d3 = disk\<lparr>lk_file := Some bytes\<rparr> in
                        (case io_sync_dir io of Some e \<Rightarrow> Inl e | None \<Rightarrow> Inr (),
                         [disk, d1, d2, d3]))))))"

definition store_save ::
  "layout_codec \<Rightarrow> layout_io \<Rightarrow> string \<Rightarrow> layout_store \<Rightarrow> layout_document \<Rightarrow> layout_disk
     \<Rightarrow> (string + unit) \<times> layout_store \<times> layout_disk list" where
  "store_save codec io fresh store document disk =
     (case validate_document document of
        Inl e \<Rightarrow> (Inl e, store, [disk])
      | Inr _ \<Rightarrow>
     (case (io_create_dir io, io_open_lock io) of
        (Some e, _) \<Rightarrow> (Inl e, store, [disk])
      | (None, Some e) \<Rightarrow> (Inl e, store, [disk])
      | (None, None) \<Rightarrow>
          if lk_locked disk then (Inl ''another Desktop is saving this layout'', store, [disk])
          else
     (case read_document codec io disk of
        Inl e \<Rightarrow> (Inl e, store, [disk])
      | Inr saved \<Rightarrow>
          if ld_revision saved \<noteq> ls_revision store
          then (Inl ''another Desktop changed this layout; reopen Desktop before saving'', store, [disk])
          else
     (case encode_document codec (document\<lparr>ld_revision := fresh\<rparr>) of
        Inl e \<Rightarrow> (Inl e, store, [disk])
      | Inr bytes \<Rightarrow>
          if layout_max_bytes < length bytes then (Inl ''layout state exceeds 2 MiB'', store, [disk])
          else (case replace_file io fresh bytes disk of
                  (Inl e, disks) \<Rightarrow> (Inl e, store, disks)
                | (Inr _, disks) \<Rightarrow> (Inr (), \<lparr>ls_revision = fresh\<rparr>, disks))))))"

section \<open>The session and its writer\<close>

record layout_session =
  ss_document :: layout_document
  ss_writer :: "layout_store option"
  ss_error :: "string option"

definition session_at :: "layout_codec \<Rightarrow> layout_io \<Rightarrow> layout_disk option \<Rightarrow> layout_session" where
  "session_at codec io path =
     (case (case path of
              None \<Rightarrow> Inl ''cannot resolve Desktop state directory''
            | Some disk \<Rightarrow> read_document codec io disk) of
        Inl e \<Rightarrow> \<lparr>ss_document = default_document, ss_writer = None, ss_error = Some e\<rparr>
      | Inr d \<Rightarrow> \<lparr>ss_document = d, ss_writer = Some \<lparr>ls_revision = ld_revision d\<rparr>, ss_error = None\<rparr>)"

text \<open>The channel to the writer holds one request; a newer request replaces it, and the waiter of
  the replaced one sees its sender dropped.  A request is a document and the number of its waiter.\<close>

datatype save_outcome = Acknowledged "string + unit" | Cancelled

record save_queue =
  sq_store :: layout_store
  sq_pending :: "(layout_document \<times> nat) option"
  sq_outcomes :: "(nat, save_outcome) smap"

definition submit_save :: "layout_document \<Rightarrow> nat \<Rightarrow> save_queue \<Rightarrow> save_queue" where
  "submit_save document waiter q =
     q\<lparr>sq_pending := Some (document, waiter),
       sq_outcomes := (case sq_pending q of
          None \<Rightarrow> sq_outcomes q | Some (_, old) \<Rightarrow> put old Cancelled (sq_outcomes q))\<rparr>"

definition writer_step ::
  "layout_codec \<Rightarrow> layout_io \<Rightarrow> string \<Rightarrow> save_queue \<times> layout_disk \<Rightarrow> save_queue \<times> layout_disk" where
  "writer_step codec io fresh state = (case state of (q, disk) \<Rightarrow>
     (case sq_pending q of
        None \<Rightarrow> (q, disk)
      | Some (document, waiter) \<Rightarrow>
          (case store_save codec io fresh (sq_store q) document disk of
             (result, store, disks) \<Rightarrow>
               (q\<lparr>sq_store := store, sq_pending := None,
                  sq_outcomes := put waiter (Acknowledged result) (sq_outcomes q)\<rparr>,
                last disks))))"

end
