(* ===== verification/Desktop_State.thy ===== *)
theory Desktop_State
  imports Layout_Document Wire_Types
begin

text \<open>
  The state of a Desktop window that its layout depends on (\<open>Workspace\<close>, \<open>TerminalPane\<close> and
  \<open>FloatingPane\<close> of \<open>src/desktop/src/main.rs\<close>), the geometry of floating panes, and the conversion
  between live panes and the saved document (\<open>src/desktop/src/layout_persistence.rs\<close>).

  Left out of the state is what only painting reads: animations of rectangles, images, the sidebar
  beyond its width and the keyboard region.  The animation generation is kept, because the end of a
  minimize animation and of a Workspace transition compare it.
\<close>

section \<open>State\<close>

record shell_choice =
  sc_id :: string
  sc_name :: string
  sc_workspace_id :: string
  sc_cwd :: path
  sc_status :: shell_status
  sc_run_id :: "string option"
  sc_desktop_setup :: bool

record terminal_session =
  te_status :: string
  te_closed :: bool

record terminal_pane =
  tp_temporary_setup :: bool
  tp_shell :: "shell_choice option"
  tp_restored :: "saved_pane option"
  tp_session :: "terminal_session option"
  tp_attaching :: bool
  tp_attachment_generation :: u64
  tp_error :: "string option"

definition default_pane :: terminal_pane where
  "default_pane =
     \<lparr>tp_temporary_setup = False, tp_shell = None, tp_restored = None, tp_session = None,
      tp_attaching = False, tp_attachment_generation = 0, tp_error = None\<rparr>"

record floating_pane =
  fl_id :: nat
  fl_x :: f32
  fl_y :: f32
  fl_width :: f32
  fl_height :: f32

datatype pointer_operation =
  Op_move | Op_resize | Op_resize_edge direction | Op_resize_corner direction direction

datatype pointer_subject =
  Subject_floating floating_pane | Subject_lifted floating_pane | Subject_tiled node

datatype mouse_button = Button_left | Button_right | Button_other

record pointer_drag =
  pd_operation :: pointer_operation
  pd_button :: mouse_button
  pd_start :: "f32 \<times> f32"
  pd_pane :: nat
  pd_subject :: pointer_subject
  pd_activated :: bool

record minimize_animation =
  ma_pane :: nat
  ma_from :: floating_pane
  ma_generation :: u64

record workspace_transition =
  wt_outgoing :: "floating_pane list"
  wt_generation :: u64

record overview_workspace =
  ow_id :: string
  ow_shells :: "shell_choice list"

record desktop =
  dw_layout :: "node option"
  dw_floating :: "floating_pane list"
  dw_focused :: nat
  dw_fullscreen :: "nat option"
  dw_next_id :: nat
  dw_terminals :: "(nat, terminal_pane) smap"
  dw_minimized :: "string list"
  dw_drag :: "pointer_drag option"
  dw_minimizing :: "minimize_animation list"
  dw_transition :: "workspace_transition option"
  dw_animation_generation :: u64
  dw_motion :: bool
  dw_mixed :: bool
  dw_tabbed :: bool
  dw_pane_gap :: f32
  dw_sidebar_width :: f32
  dw_expanded :: "string list"
  dw_overview :: "overview_workspace list"
  dw_shells :: "shell_choice list"
  dw_order :: "string list"
  dw_canvas :: "f32 \<times> f32"
  dw_document :: layout_document
  dw_writer :: bool
  dw_frozen :: bool
  dw_restoring :: bool
  dw_closing :: bool
  dw_layout_error :: "string option"
  dw_layout_generation :: u64
  dw_save_task :: "u64 option"

section \<open>Floating geometry\<close>

abbreviation zero :: f32 where "zero \<equiv> f32_of 0"
abbreviation one :: f32 where "one \<equiv> f32_of 1"

definition min_float_width :: f32 where "min_float_width = f32_of 220"
definition min_float_height :: f32 where "min_float_height = f32_of 160"
definition tab_bar_height :: f32 where "tab_bar_height = f32_of 40"

text \<open>The room left of a size: \<open>(a - b).max(0.0)\<close>.\<close>

definition room :: "f32 \<Rightarrow> f32 \<Rightarrow> f32" where
  "room a b = f32_max (f32_sub a b) zero"

definition lifted_drag_bounds :: "floating_pane \<Rightarrow> f32 \<times> f32 \<Rightarrow> floating_pane" where
  "lifted_drag_bounds b delta =
     b\<lparr>fl_x := f32_add (fl_x b) (fst delta), fl_y := f32_add (fl_y b) (snd delta)\<rparr>"

definition drag_edge :: "floating_pane \<Rightarrow> direction \<Rightarrow> f32 \<times> f32 \<Rightarrow> f32 \<times> f32 \<Rightarrow> floating_pane" where
  "drag_edge b edge delta panel =
     (let right = f32_add (fl_x b) (fl_width b); bottom = f32_add (fl_y b) (fl_height b) in
      case edge of
        DirLeft \<Rightarrow>
          (let x = f32_clamp (f32_add (fl_x b) (fst delta)) zero (room right min_float_width)
           in b\<lparr>fl_x := x, fl_width := f32_sub right x\<rparr>)
      | DirUp \<Rightarrow>
          (let y = f32_clamp (f32_add (fl_y b) (snd delta)) zero (room bottom min_float_height)
           in b\<lparr>fl_y := y, fl_height := f32_sub bottom y\<rparr>)
      | DirRight \<Rightarrow>
          (let available = room (fst panel) (fl_x b)
           in b\<lparr>fl_width := f32_clamp (f32_add (fl_width b) (fst delta))
                               (f32_min min_float_width available) available\<rparr>)
      | DirDown \<Rightarrow>
          (let available = room (snd panel) (fl_y b)
           in b\<lparr>fl_height := f32_clamp (f32_add (fl_height b) (snd delta))
                               (f32_min min_float_height available) available\<rparr>))"

definition dragged_bounds ::
  "floating_pane \<Rightarrow> pointer_operation \<Rightarrow> f32 \<times> f32 \<Rightarrow> f32 \<times> f32 \<Rightarrow> floating_pane" where
  "dragged_bounds b operation delta panel = (case operation of
     Op_move \<Rightarrow>
       b\<lparr>fl_x := f32_clamp (f32_add (fl_x b) (fst delta)) zero (room (fst panel) (fl_width b)),
         fl_y := f32_clamp (f32_add (fl_y b) (snd delta)) zero (room (snd panel) (fl_height b))\<rparr>
   | Op_resize_corner horizontal vertical \<Rightarrow>
       drag_edge (drag_edge b horizontal delta panel) vertical delta panel
   | Op_resize_edge edge \<Rightarrow> drag_edge b edge delta panel
   | Op_resize \<Rightarrow>
       (let w = room (fst panel) (fl_x b); h = room (snd panel) (fl_y b)
        in b\<lparr>fl_width := f32_clamp (f32_add (fl_width b) (fst delta)) (f32_min min_float_width w) w,
             fl_height := f32_clamp (f32_add (fl_height b) (snd delta)) (f32_min min_float_height h) h\<rparr>))"

definition clamp_floating_to_panel :: "floating_pane \<Rightarrow> f32 \<times> f32 \<Rightarrow> floating_pane" where
  "clamp_floating_to_panel b panel =
     (let w = f32_min (fl_width b) (fst panel); h = f32_min (fl_height b) (snd panel)
      in b\<lparr>fl_width := w, fl_height := h,
           fl_x := f32_clamp (fl_x b) zero (room (fst panel) w),
           fl_y := f32_clamp (fl_y b) zero (room (snd panel) h)\<rparr>)"

datatype floating_alignment = Align_left | Align_right | Align_up | Align_down | Align_center

definition align_floating_to_panel ::
  "floating_pane \<Rightarrow> floating_alignment \<Rightarrow> f32 \<times> f32 \<Rightarrow> f32 \<Rightarrow> floating_pane" where
  "align_floating_to_panel b0 alignment panel pane_gap =
     (let b = clamp_floating_to_panel b0 panel;
          max_x = room (fst panel) (fl_width b); max_y = room (snd panel) (fl_height b)
      in case alignment of
        Align_left \<Rightarrow> b\<lparr>fl_x := f32_min pane_gap max_x\<rparr>
      | Align_right \<Rightarrow> b\<lparr>fl_x := room max_x pane_gap\<rparr>
      | Align_up \<Rightarrow> b\<lparr>fl_y := f32_min pane_gap max_y\<rparr>
      | Align_down \<Rightarrow> b\<lparr>fl_y := room max_y pane_gap\<rparr>
      | Align_center \<Rightarrow> b\<lparr>fl_x := f32_div max_x (f32_of 2), fl_y := f32_div max_y (f32_of 2)\<rparr>)"

definition resize_floating_in_direction ::
  "floating_pane \<Rightarrow> direction \<Rightarrow> f32 \<Rightarrow> f32 \<times> f32 \<Rightarrow> floating_pane" where
  "resize_floating_in_direction b0 direction amount panel =
     (let b = clamp_floating_to_panel b0 panel in
      case direction of
        DirLeft \<Rightarrow> b\<lparr>fl_width := f32_max (f32_sub (fl_width b) amount) min_float_width\<rparr>
      | DirRight \<Rightarrow>
          b\<lparr>fl_width := f32_add (fl_width b)
              (f32_min amount (room (f32_sub (fst panel) (fl_x b)) (fl_width b)))\<rparr>
      | DirUp \<Rightarrow> b\<lparr>fl_height := f32_max (f32_sub (fl_height b) amount) min_float_height\<rparr>
      | DirDown \<Rightarrow>
          b\<lparr>fl_height := f32_add (fl_height b)
              (f32_min amount (room (f32_sub (snd panel) (fl_y b)) (fl_height b)))\<rparr>)"

definition centered_floating_pane :: "nat \<Rightarrow> f32 \<times> f32 \<Rightarrow> f32 \<Rightarrow> floating_pane" where
  "centered_floating_pane i panel pane_gap =
     (let margin = f32_max pane_gap (f32_of 24);
          available_width = f32_max (f32_sub (fst panel) (f32_mul margin (f32_of 2))) one;
          available_height = f32_max (f32_sub (snd panel) (f32_mul margin (f32_of 2))) one;
          w = f32_min (f32_clamp (f32_mul (fst panel) (f32_of (7 / 10))) min_float_width (f32_of 1100))
                available_width;
          h = f32_min (f32_clamp (f32_mul (snd panel) (f32_of (72 / 100))) min_float_height (f32_of 760))
                available_height
      in \<lparr>fl_id = i, fl_x = f32_div (f32_sub (fst panel) w) (f32_of 2),
          fl_y = f32_div (f32_sub (snd panel) h) (f32_of 2), fl_width = w, fl_height = h\<rparr>)"

definition inset_panel_size :: "f32 \<times> f32 \<Rightarrow> f32 \<Rightarrow> f32 \<times> f32" where
  "inset_panel_size panel inset =
     (f32_max (f32_sub (fst panel) (f32_mul inset (f32_of 2))) one,
      f32_max (f32_sub (snd panel) (f32_mul inset (f32_of 2))) one)"

definition workspace_maximized_pane :: "nat \<Rightarrow> f32 \<times> f32 \<Rightarrow> f32 \<Rightarrow> floating_pane" where
  "workspace_maximized_pane i panel pane_gap =
     (let inner = inset_panel_size panel pane_gap
      in \<lparr>fl_id = i, fl_x = pane_gap, fl_y = pane_gap,
          fl_width = f32_max (f32_sub (fst inner) pane_gap) one,
          fl_height = f32_max (f32_sub (snd inner) pane_gap) one\<rparr>)"

definition ordered_pane_ids :: "node option \<Rightarrow> floating_pane list \<Rightarrow> nat list" where
  "ordered_pane_ids layout floating =
     (case layout of None \<Rightarrow> [] | Some n \<Rightarrow> pane_ids n) @ sort (map fl_id floating)"

definition cycled_pane_id :: "nat list \<Rightarrow> nat \<Rightarrow> bool \<Rightarrow> nat option" where
  "cycled_pane_id ids focused backwards =
     (if ids = [] then None
      else
        (let current = (case position (\<lambda>i. i = focused) ids of None \<Rightarrow> 0 | Some i \<Rightarrow> i) in
         Some (ids ! (if backwards
                      then (if current = 0 then length ids - 1 else current - 1)
                      else (current + 1) mod length ids))))"

text \<open>The pane under a point, and the side of it that a dropped pane takes.\<close>

definition drop_placement :: "node \<Rightarrow> f32 \<times> f32 \<Rightarrow> (nat \<times> axis \<times> bool) option" where
  "drop_placement n point =
     map_option
       (\<lambda>(i, r).
          let dx = f32_div (f32_sub (fst point) (f32_add (rect_x r) (f32_div (rect_width r) (f32_of 2))))
                     (f32_max (rect_width r) f32_epsilon);
              dy = f32_div (f32_sub (snd point) (f32_add (rect_y r) (f32_div (rect_height r) (f32_of 2))))
                     (f32_max (rect_height r) f32_epsilon)
          in if f32_le (f32_abs dy) (f32_abs dx) then (i, Horizontal, f32_less dx zero)
             else (i, Vertical, f32_less dy zero))
       (List.find
          (\<lambda>(_, r). f32_le (rect_x r) (fst point)
                  \<and> f32_le (fst point) (f32_add (rect_x r) (rect_width r))
                  \<and> f32_le (rect_y r) (snd point)
                  \<and> f32_le (snd point) (f32_add (rect_y r) (rect_height r)))
          (layout_rects n))"

definition resized_tiled_layout :: "node \<Rightarrow> nat \<Rightarrow> f32 \<times> f32 \<Rightarrow> f32 \<times> f32 \<Rightarrow> node" where
  "resized_tiled_layout n pane delta panel =
     (let n1 = snd (resize_from_pointer n pane Horizontal (f32_div (fst delta) (f32_max (fst panel) one)))
      in snd (resize_from_pointer n1 pane Vertical (f32_div (snd delta) (f32_max (snd panel) one))))"

definition swap_layout_direction :: "node \<Rightarrow> nat \<Rightarrow> direction \<Rightarrow> node option" where
  "swap_layout_direction n focused direction =
     map_option (\<lambda>neighbor. swap_panes n focused neighbor) (layout_neighbor n focused direction)"

section \<open>The window's panel\<close>

definition focused_workspace_id :: "desktop \<Rightarrow> string option" where
  "focused_workspace_id w =
     map_option sc_workspace_id (Option.bind (get (dw_terminals w) (dw_focused w)) tp_shell)"

definition has_minimized_tabs :: "desktop \<Rightarrow> bool" where
  "has_minimized_tabs w =
     (dw_tabbed w \<and>
      list_ex (\<lambda>ws. (focused_workspace_id w = Some (ow_id ws)
                    \<or> focused_workspace_id w = None \<and> ow_id ws \<in> set (dw_expanded w))
                   \<and> list_ex (\<lambda>s. sc_id s \<in> set (dw_minimized w)) (ow_shells ws))
        (dw_overview w))"

definition panel_size :: "desktop \<Rightarrow> f32 \<times> f32 \<Rightarrow> f32 \<times> f32" where
  "panel_size w viewport =
     (f32_max (f32_sub (fst viewport) (dw_sidebar_width w)) zero,
      f32_max (f32_sub (snd viewport) (if has_minimized_tabs w then tab_bar_height else zero)) zero)"

definition pane_bounds_in_panel :: "desktop \<Rightarrow> nat \<Rightarrow> f32 \<times> f32 \<Rightarrow> floating_pane option" where
  "pane_bounds_in_panel w pane viewport =
     (if dw_fullscreen w = Some pane
      then Some (workspace_maximized_pane pane (panel_size w viewport) (dw_pane_gap w))
      else case List.find (\<lambda>p. fl_id p = pane) (dw_floating w) of
        Some p \<Rightarrow> Some p
      | None \<Rightarrow>
          (case dw_layout w of
             None \<Rightarrow> None
           | Some n \<Rightarrow>
               map_option
                 (\<lambda>(_, r).
                    let inner = inset_panel_size (panel_size w viewport) (dw_pane_gap w)
                    in \<lparr>fl_id = pane,
                        fl_x = f32_add (dw_pane_gap w) (f32_mul (rect_x r) (fst inner)),
                        fl_y = f32_add (dw_pane_gap w) (f32_mul (rect_y r) (snd inner)),
                        fl_width = f32_max (f32_sub (f32_mul (rect_width r) (fst inner)) (dw_pane_gap w)) one,
                        fl_height = f32_max (f32_sub (f32_mul (rect_height r) (snd inner)) (dw_pane_gap w)) one\<rparr>)
                 (List.find (\<lambda>(i, _). i = pane) (layout_rects n))))"

section \<open>Live panes and the document\<close>

fun encode_tree :: "node \<Rightarrow> saved_tree" where
  "encode_tree (Pane i) = Saved_pane i"
| "encode_tree (Split a r first second) =
     Saved_split (a = Horizontal) r (encode_tree first) (encode_tree second)"

text \<open>A saved pane that the map does not hold would panic (\<open>ids[id]\<close>); that is \<open>None\<close>.\<close>

fun decode_tree :: "saved_tree \<Rightarrow> (nat, nat) smap \<Rightarrow> node option" where
  "decode_tree (Saved_pane i) ids = map_option Pane (get ids i)"
| "decode_tree (Saved_split h r first second) ids =
     (case (decode_tree first ids, decode_tree second ids) of
        (Some f, Some s) \<Rightarrow> Some (Split (if h then Horizontal else Vertical) r f s)
      | _ \<Rightarrow> None)"

definition is_setup_pane :: "terminal_pane \<Rightarrow> bool" where
  "is_setup_pane p =
     (tp_temporary_setup p \<or> (case tp_shell p of None \<Rightarrow> False | Some s \<Rightarrow> sc_desktop_setup s))"

definition saved_reference :: "terminal_pane \<Rightarrow> saved_pane option" where
  "saved_reference p =
     (if is_setup_pane p then None
      else case tp_shell p of
        Some s \<Rightarrow> Some \<lparr>sp_shell = Some (sc_id s), sp_workspace = Some (sc_workspace_id s)\<rparr>
      | None \<Rightarrow> tp_restored p)"

definition blocks_workspace_capture :: "terminal_pane \<Rightarrow> bool" where
  "blocks_workspace_capture p =
     (\<not> is_setup_pane p \<and> Option.bind (saved_reference p) sp_workspace = None)"

definition capture_key :: "desktop \<Rightarrow> string" where
  "capture_key w =
     (if dw_mixed w then ''mixed''
      else case Option.bind (Option.bind (get (dw_terminals w) (dw_focused w)) saved_reference) sp_workspace of
        Some ws \<Rightarrow> ''workspace:'' @ ws
      | None \<Rightarrow> ld_active (dw_document w))"

definition live_arrangement :: "desktop \<Rightarrow> arrangement" where
  "live_arrangement w =
     (let ids = ordered_pane_ids (dw_layout w) (dw_floating w) in
      \<lparr>ar_tree = map_option encode_tree (dw_layout w),
       ar_floating =
         map (\<lambda>p. \<lparr>sf_pane = fl_id p, sf_rect = (fl_x p, fl_y p, fl_width p, fl_height p)\<rparr>)
           (dw_floating w),
       ar_panes =
         fold (\<lambda>i m. case get (dw_terminals w) i of
                 None \<Rightarrow> m
               | Some p \<Rightarrow>
                   put i (case saved_reference p of
                            Some r \<Rightarrow> r | None \<Rightarrow> \<lparr>sp_shell = None, sp_workspace = None\<rparr>) m)
           ids [],
       ar_focused = (if dw_focused w \<in> set ids then Some (dw_focused w) else None),
       ar_expanded = opt_filter (\<lambda>i. i \<in> set ids) (dw_fullscreen w),
       ar_canvas = (f32_max (fst (dw_canvas w)) one, f32_max (snd (dw_canvas w)) one)\<rparr>)"

definition layout_limit_message :: string where
  "layout_limit_message = ''Saved layout limit reached''"

definition captured_minimized :: "desktop \<Rightarrow> string list" where
  "captured_minimized w =
     fold (\<lambda>s kept. if sc_id s \<in> set (dw_minimized w) \<and> sc_id s \<notin> set kept
                    then kept @ [sc_id s] else kept)
       (concat (map ow_shells (dw_overview w)))
       (filter (\<lambda>i. i \<in> set (dw_minimized w)) (ld_minimized (dw_document w)))"

definition captured_document :: "desktop \<Rightarrow> layout_document" where
  "captured_document w =
     (dw_document w)
       \<lparr>ld_active := capture_key w,
        ld_arrangements := put (capture_key w) (discard_unbound_panes (live_arrangement w))
          (ld_arrangements (dw_document w)),
        ld_workspace_order := dw_order w,
        ld_minimized := captured_minimized w\<rparr>"

definition retained_panes :: "desktop \<Rightarrow> nat" where
  "retained_panes w =
     sum_list (map (\<lambda>(_, a). length (ar_panes a))
       (filter (\<lambda>(k, _). k \<noteq> capture_key w) (ld_arrangements (dw_document w))))"

definition capture_blocked :: "desktop \<Rightarrow> bool" where
  "capture_blocked w =
     (dw_frozen w \<or> dw_restoring w \<or> dw_drag w \<noteq> None
      \<or> (\<not> dw_mixed w \<and> (case get (dw_terminals w) (dw_focused w) of
            None \<Rightarrow> False | Some p \<Rightarrow> blocks_workspace_capture p))
      \<or> capture_key w = [])"

definition capture_exceeds :: "desktop \<Rightarrow> bool" where
  "capture_exceeds w =
     ((256 \<le> length (ld_arrangements (dw_document w))
         \<and> get (ld_arrangements (dw_document w)) (capture_key w) = None)
      \<or> 4096 < retained_panes w + length (ar_panes (discard_unbound_panes (live_arrangement w))))"

definition capture_arrangement :: "desktop \<Rightarrow> bool \<times> desktop" where
  "capture_arrangement w =
     (if capture_blocked w then (False, w)
      else if capture_exceeds w then (False, w\<lparr>dw_layout_error := Some layout_limit_message\<rparr>)
      else (True,
            w\<lparr>dw_layout_error :=
                (if dw_layout_error w = Some layout_limit_message then None else dw_layout_error w),
              dw_document := captured_document w\<rparr>))"

text \<open>A change schedules a save; a later one replaces the task, so only the last generation is
  saved.\<close>

definition layout_changed :: "desktop \<Rightarrow> desktop" where
  "layout_changed w =
     (if dw_frozen w \<or> dw_restoring w \<or> \<not> dw_writer w then w
      else w\<lparr>dw_layout_generation := dw_layout_generation w + 1,
             dw_save_task := Some (dw_layout_generation w + 1)\<rparr>)"

text \<open>The task when its timer fires: what it submits to the writer.\<close>

definition save_timer :: "desktop \<Rightarrow> layout_document option \<times> desktop" where
  "save_timer w =
     (case dw_save_task w of
        None \<Rightarrow> (None, w)
      | Some generation \<Rightarrow>
          if dw_layout_generation w \<noteq> generation \<or> dw_drag w \<noteq> None then (None, w)
          else (case capture_arrangement w of
                  (False, w') \<Rightarrow> (None, w')
                | (True, w') \<Rightarrow> (if dw_writer w' then Some (dw_document w') else None, w')))"

text \<open>The animation generation of whatever starts an animation.\<close>

definition bump_animation :: "desktop \<Rightarrow> desktop" where
  "bump_animation w =
     (if dw_motion w then w\<lparr>dw_animation_generation := dw_animation_generation w + 1\<rparr> else w)"

end
