(* ===== verification/Desktop_Panes.thy ===== *)
theory Desktop_Panes
  imports Desktop_State
begin

text \<open>
  The operations of the Desktop window that change which panes it shows and where
  (\<open>src/desktop/src/main.rs\<close>): opening, minimizing and removing panes, moving them between the
  tiled tree and the floating list, resizing, maximizing, and the pointer drag from the button's
  press to its release.  \<open>viewport\<close> is the window's size; painting and keyboard focus are left out.
\<close>

section \<open>Adding and removing panes\<close>

definition insert_pane :: "desktop \<Rightarrow> nat \<times> desktop" where
  "insert_pane w =
     (let i = dw_next_id w;
          ax = (if even i then Horizontal else Vertical);
          layout = (case dw_layout w of
             Some n \<Rightarrow>
               (let target = (if layout_contains n (dw_focused w) then dw_focused w else hd (pane_ids n))
                in snd (layout_split n target i ax))
           | None \<Rightarrow> Pane i)
      in (i, w\<lparr>dw_next_id := i + 1, dw_layout := Some layout,
               dw_terminals := put i default_pane (dw_terminals w)\<rparr>))"

definition focus_after_removal :: "desktop \<Rightarrow> desktop" where
  "focus_after_removal w =
     (case opt_filter (\<lambda>i. get (dw_terminals w) i \<noteq> None) (dw_fullscreen w) of
        Some i \<Rightarrow> w\<lparr>dw_focused := i\<rparr>
      | None \<Rightarrow>
          if dw_floating w \<noteq> [] then w\<lparr>dw_focused := fl_id (last (dw_floating w))\<rparr>
          else (case dw_layout w of None \<Rightarrow> w | Some n \<Rightarrow> w\<lparr>dw_focused := hd (pane_ids n)\<rparr>))"

definition raise_floating_pane :: "nat \<Rightarrow> desktop \<Rightarrow> desktop" where
  "raise_floating_pane pane w =
     (case position (\<lambda>p. fl_id p = pane) (dw_floating w) of
        None \<Rightarrow> w
      | Some i \<Rightarrow>
          if i + 1 = length (dw_floating w) then w
          else w\<lparr>dw_floating := remove_at i (dw_floating w) @ [dw_floating w ! i]\<rparr>)"

definition pane_shell_id :: "terminal_pane \<Rightarrow> string option" where
  "pane_shell_id p =
     (case tp_shell p of Some s \<Rightarrow> Some (sc_id s) | None \<Rightarrow> Option.bind (tp_restored p) sp_shell)"

definition pane_workspace_id :: "terminal_pane \<Rightarrow> string option" where
  "pane_workspace_id p =
     (case tp_shell p of Some s \<Rightarrow> Some (sc_workspace_id s) | None \<Rightarrow> Option.bind (tp_restored p) sp_workspace)"

definition minimize_shell :: "string option \<Rightarrow> desktop \<Rightarrow> desktop" where
  "minimize_shell shell w =
     (case shell of None \<Rightarrow> w | Some s \<Rightarrow> w\<lparr>dw_minimized := List.insert s (dw_minimized w)\<rparr>)"

definition finish_minimize_pane :: "nat \<Rightarrow> desktop \<Rightarrow> desktop" where
  "finish_minimize_pane pane w =
     (case get (dw_terminals w) pane of
        None \<Rightarrow> w
      | Some p \<Rightarrow>
          minimize_shell (map_option sc_id (tp_shell p))
            (w\<lparr>dw_terminals := del pane (dw_terminals w)\<rparr>))"

definition clamp_all_floating :: "f32 \<times> f32 \<Rightarrow> desktop \<Rightarrow> desktop" where
  "clamp_all_floating panel w =
     w\<lparr>dw_floating := map (\<lambda>p. clamp_floating_to_panel p panel) (dw_floating w)\<rparr>"

definition clamp_for_tabs :: "f32 \<times> f32 \<Rightarrow> desktop \<Rightarrow> desktop" where
  "clamp_for_tabs viewport w =
     (if has_minimized_tabs w then clamp_all_floating (panel_size w viewport) w else w)"

text \<open>The pane leaves the layout: a floating pane first, otherwise a tiled one.\<close>

definition take_pane_out :: "nat \<Rightarrow> desktop \<Rightarrow> desktop" where
  "take_pane_out pane w =
     (case position (\<lambda>p. fl_id p = pane) (dw_floating w) of
        Some i \<Rightarrow> focus_after_removal (w\<lparr>dw_floating := remove_at i (dw_floating w)\<rparr>)
      | None \<Rightarrow>
          (case dw_layout w of
             None \<Rightarrow> w
           | Some n \<Rightarrow>
               if layout_contains n pane
               then focus_after_removal (w\<lparr>dw_layout := layout_remove n pane\<rparr>)
               else w))"

definition minimize_pane :: "nat \<Rightarrow> f32 \<times> f32 \<Rightarrow> desktop \<Rightarrow> desktop" where
  "minimize_pane pane viewport w0 =
     (if list_ex (\<lambda>a. ma_pane a = pane) (dw_minimizing w0) then w0
      else
        (let w1 = minimize_shell (Option.bind (get (dw_terminals w0) pane) pane_shell_id) w0;
             start = pane_bounds_in_panel w1 pane viewport;
             w2 = (if dw_fullscreen w1 = Some pane then w1\<lparr>dw_fullscreen := None\<rparr> else w1);
             w3 = take_pane_out pane w2;
             w4 = (if dw_layout w1 \<noteq> None then bump_animation w3 else w3);
             w5 = (case start of
                Some bounds \<Rightarrow>
                  if dw_motion w4 \<and> \<not> dw_tabbed w4
                  then (let generation = dw_animation_generation w4 + 1
                        in w4\<lparr>dw_animation_generation := generation,
                              dw_minimizing := dw_minimizing w4 @
                                [\<lparr>ma_pane = pane, ma_from = bounds, ma_generation = generation\<rparr>]\<rparr>)
                  else finish_minimize_pane pane w4
              | None \<Rightarrow> finish_minimize_pane pane w4)
         in layout_changed (clamp_for_tabs viewport w5)))"

definition finish_minimize_animation :: "nat \<Rightarrow> u64 \<Rightarrow> f32 \<times> f32 \<Rightarrow> desktop \<Rightarrow> desktop" where
  "finish_minimize_animation pane generation viewport w =
     (case position (\<lambda>a. ma_pane a = pane \<and> ma_generation a = generation) (dw_minimizing w) of
        None \<Rightarrow> w
      | Some i \<Rightarrow>
          layout_changed (clamp_for_tabs viewport
            (finish_minimize_pane pane (w\<lparr>dw_minimizing := remove_at i (dw_minimizing w)\<rparr>))))"

datatype sidebar_resource = Resource_workspace string | Resource_shell string | Resource_connection

definition resource_matches :: "sidebar_resource \<Rightarrow> terminal_pane \<Rightarrow> bool" where
  "resource_matches target p = (case target of
     Resource_workspace i \<Rightarrow> pane_workspace_id p = Some i
   | Resource_shell i \<Rightarrow> pane_shell_id p = Some i
   | Resource_connection \<Rightarrow> False)"

definition remove_one_pane :: "nat \<Rightarrow> desktop \<Rightarrow> desktop" where
  "remove_one_pane i w =
     w\<lparr>dw_terminals := del i (dw_terminals w),
       dw_floating := filter (\<lambda>p. fl_id p \<noteq> i) (dw_floating w),
       dw_layout := Option.bind (dw_layout w) (\<lambda>n. layout_remove n i),
       dw_fullscreen := (if dw_fullscreen w = Some i then None else dw_fullscreen w)\<rparr>"

definition remove_resource_panes :: "sidebar_resource \<Rightarrow> desktop \<Rightarrow> desktop" where
  "remove_resource_panes target w =
     (let ids = map fst (filter (\<lambda>(_, p). resource_matches target p) (dw_terminals w));
          w1 = fold remove_one_pane ids w;
          w2 = w1\<lparr>dw_minimizing := filter (\<lambda>a. ma_pane a \<notin> set ids) (dw_minimizing w1),
                  dw_drag := (case dw_drag w1 of
                     None \<Rightarrow> None
                   | Some d \<Rightarrow> if pd_pane d \<in> set ids then None else Some d)\<rparr>
      in focus_after_removal w2)"

definition detach_all_panes :: "desktop \<Rightarrow> desktop" where
  "detach_all_panes w =
     (snd (capture_arrangement w))
       \<lparr>dw_terminals := [], dw_layout := None, dw_floating := [], dw_drag := None,
        dw_minimizing := [], dw_transition := None, dw_fullscreen := None\<rparr>"

section \<open>Between tiled and floating\<close>

text \<open>A pane put into the tree as \<open>toggle_floating\<close> does it: beside the first pane.\<close>

definition tile_beside_first :: "nat \<Rightarrow> node option \<Rightarrow> node" where
  "tile_beside_first pane layout =
     (case layout of
        Some n \<Rightarrow> snd (layout_split n (hd (pane_ids n)) pane Horizontal)
      | None \<Rightarrow> Pane pane)"

definition lift_tiled_pane :: "nat \<Rightarrow> f32 \<times> f32 \<Rightarrow> desktop \<Rightarrow> floating_pane option \<times> desktop" where
  "lift_tiled_pane pane viewport w =
     (case dw_layout w of
        None \<Rightarrow> (None, w)
      | Some n \<Rightarrow>
          (case List.find (\<lambda>(i, _). i = pane) (layout_rects n) of
             None \<Rightarrow> (None, w)
           | Some (_, r) \<Rightarrow>
               (let inner = inset_panel_size (panel_size w viewport) (dw_pane_gap w);
                    p = \<lparr>fl_id = pane,
                         fl_x = f32_add (dw_pane_gap w) (f32_mul (rect_x r) (fst inner)),
                         fl_y = f32_add (dw_pane_gap w) (f32_mul (rect_y r) (snd inner)),
                         fl_width = f32_min (f32_max (f32_sub (f32_mul (rect_width r) (fst inner)) (dw_pane_gap w))
                                      min_float_width) (fst inner),
                         fl_height = f32_min (f32_max (f32_sub (f32_mul (rect_height r) (snd inner)) (dw_pane_gap w))
                                      min_float_height) (snd inner)\<rparr>
                in (Some p,
                    bump_animation (w\<lparr>dw_layout := layout_remove n pane,
                                      dw_floating := dw_floating w @ [p]\<rparr>)))))"

definition toggle_floating :: "f32 \<times> f32 \<Rightarrow> desktop \<Rightarrow> desktop" where
  "toggle_floating viewport w =
     layout_changed
       (case position (\<lambda>p. fl_id p = dw_focused w) (dw_floating w) of
          Some i \<Rightarrow>
            bump_animation
              (w\<lparr>dw_floating := remove_at i (dw_floating w),
                 dw_layout := Some (tile_beside_first (fl_id (dw_floating w ! i)) (dw_layout w))\<rparr>)
        | None \<Rightarrow>
            if (case dw_layout w of None \<Rightarrow> False | Some n \<Rightarrow> layout_contains n (dw_focused w))
            then (case lift_tiled_pane (dw_focused w) viewport w of
                    (None, w') \<Rightarrow> w'
                  | (Some _, w') \<Rightarrow>
                      (let target = centered_floating_pane (dw_focused w) (panel_size w' viewport) (dw_pane_gap w')
                       in bump_animation
                            (w'\<lparr>dw_floating :=
                                 update_first (\<lambda>p. fl_id p = dw_focused w) (\<lambda>_. target) (dw_floating w')\<rparr>)))
            else w)"

text \<open>\<open>sidebar_busy\<close>: the scrollbar, the sidebar or the Git panel is being dragged.\<close>

definition toggle_fullscreen :: "bool \<Rightarrow> desktop \<Rightarrow> desktop" where
  "toggle_fullscreen sidebar_busy w =
     (if dw_drag w \<noteq> None \<or> sidebar_busy then w
      else case dw_fullscreen w of
        Some i \<Rightarrow>
          (let w1 = w\<lparr>dw_fullscreen := None\<rparr> in
           layout_changed
             (if (case dw_layout w of None \<Rightarrow> False | Some n \<Rightarrow> layout_contains n i)
                 \<or> list_ex (\<lambda>p. fl_id p = i) (dw_floating w)
              then bump_animation w1 else w1))
      | None \<Rightarrow>
          layout_changed
            (if (case dw_layout w of None \<Rightarrow> False | Some n \<Rightarrow> layout_contains n (dw_focused w))
                \<or> list_ex (\<lambda>p. fl_id p = dw_focused w) (dw_floating w)
             then bump_animation (w\<lparr>dw_fullscreen := Some (dw_focused w)\<rparr>) else w))"

section \<open>Moving and resizing by key\<close>

definition nudge_floating :: "direction \<Rightarrow> floating_pane \<Rightarrow> floating_pane" where
  "nudge_floating direction p = (case direction of
     DirLeft \<Rightarrow> p\<lparr>fl_x := f32_sub (fl_x p) (f32_of 24)\<rparr>
   | DirRight \<Rightarrow> p\<lparr>fl_x := f32_add (fl_x p) (f32_of 24)\<rparr>
   | DirUp \<Rightarrow> p\<lparr>fl_y := f32_sub (fl_y p) (f32_of 24)\<rparr>
   | DirDown \<Rightarrow> p\<lparr>fl_y := f32_add (fl_y p) (f32_of 24)\<rparr>)"

definition focused_floats :: "desktop \<Rightarrow> bool" where
  "focused_floats w = list_ex (\<lambda>p. fl_id p = dw_focused w) (dw_floating w)"

definition move_direction :: "direction \<Rightarrow> f32 \<times> f32 \<Rightarrow> desktop \<Rightarrow> desktop" where
  "move_direction direction viewport w =
     (if dw_fullscreen w \<noteq> None then w
      else layout_changed
        (if focused_floats w
         then w\<lparr>dw_floating := update_first (\<lambda>p. fl_id p = dw_focused w)
                  (\<lambda>p. clamp_floating_to_panel (nudge_floating direction p) (panel_size w viewport))
                  (dw_floating w)\<rparr>
         else case Option.bind (dw_layout w) (\<lambda>n. swap_layout_direction n (dw_focused w) direction) of
           None \<Rightarrow> w
         | Some n \<Rightarrow> bump_animation (w\<lparr>dw_layout := Some n\<rparr>)))"

definition resize_direction :: "direction \<Rightarrow> f32 \<Rightarrow> f32 \<Rightarrow> f32 \<times> f32 \<Rightarrow> desktop \<Rightarrow> desktop" where
  "resize_direction direction tiled_amount floating_amount viewport w =
     (if dw_fullscreen w \<noteq> None then w
      else layout_changed
        (if focused_floats w
         then w\<lparr>dw_floating := update_first (\<lambda>p. fl_id p = dw_focused w)
                  (\<lambda>p. resize_floating_in_direction p direction floating_amount (panel_size w viewport))
                  (dw_floating w)\<rparr>
         else w\<lparr>dw_layout := map_option
                  (\<lambda>n. snd (layout_resize n (dw_focused w) direction tiled_amount)) (dw_layout w)\<rparr>))"

definition transform_nearest_split :: "(node \<Rightarrow> nat \<Rightarrow> bool \<times> node) \<Rightarrow> desktop \<Rightarrow> desktop" where
  "transform_nearest_split transform w =
     (if dw_fullscreen w \<noteq> None then w
      else case dw_layout w of
        None \<Rightarrow> w
      | Some n \<Rightarrow>
          (case transform n (dw_focused w) of
             (True, n') \<Rightarrow> layout_changed (bump_animation (w\<lparr>dw_layout := Some n'\<rparr>))
           | (False, n') \<Rightarrow> w\<lparr>dw_layout := Some n'\<rparr>))"

definition align_floating :: "floating_alignment \<Rightarrow> f32 \<times> f32 \<Rightarrow> desktop \<Rightarrow> desktop" where
  "align_floating alignment viewport w =
     (if focused_floats w
      then layout_changed (bump_animation (raise_floating_pane (dw_focused w)
        (w\<lparr>dw_floating := update_first (\<lambda>p. fl_id p = dw_focused w)
             (\<lambda>p. align_floating_to_panel p alignment (panel_size w viewport) (dw_pane_gap w))
             (dw_floating w)\<rparr>)))
      else w)"

definition focus_direction :: "direction \<Rightarrow> desktop \<Rightarrow> desktop" where
  "focus_direction direction w =
     (case Option.bind (dw_layout w) (\<lambda>n. layout_neighbor n (dw_focused w) direction) of
        None \<Rightarrow> w
      | Some i \<Rightarrow> layout_changed (w\<lparr>dw_focused := i\<rparr>))"

section \<open>The pointer drag\<close>

text \<open>What the press of a button on a pane does before a drag may start.\<close>

definition begin_pointer_interaction_focus :: "nat \<Rightarrow> desktop \<Rightarrow> desktop" where
  "begin_pointer_interaction_focus pane w =
     raise_floating_pane pane ((layout_changed (snd (capture_arrangement w)))\<lparr>dw_focused := pane\<rparr>)"

definition pointer_subject_of :: "nat \<Rightarrow> desktop \<Rightarrow> pointer_subject option \<times> desktop" where
  "pointer_subject_of pane w =
     (case position (\<lambda>p. fl_id p = pane) (dw_floating w) of
        Some i \<Rightarrow>
          (Some (Subject_floating (dw_floating w ! i)),
           w\<lparr>dw_floating := remove_at i (dw_floating w) @ [dw_floating w ! i]\<rparr>)
      | None \<Rightarrow>
          (map_option Subject_tiled (opt_filter (\<lambda>n. layout_contains n pane) (dw_layout w)), w))"

definition start_pointer_drag ::
  "nat \<Rightarrow> pointer_operation \<Rightarrow> mouse_button \<Rightarrow> f32 \<times> f32 \<Rightarrow> desktop \<Rightarrow> desktop" where
  "start_pointer_drag pane operation button pointer w =
     (case pointer_subject_of pane w of
        (None, w') \<Rightarrow> w'
      | (Some subject, w') \<Rightarrow>
          w'\<lparr>dw_drag := Some \<lparr>pd_operation = operation, pd_button = button, pd_start = pointer,
                              pd_pane = pane, pd_subject = subject, pd_activated = False\<rparr>\<rparr>)"

text \<open>\<open>begin_pointer_interaction\<close>, the press with or without the control key.\<close>

definition outgoing_pane :: "nat \<Rightarrow> desktop \<Rightarrow> bool" where
  "outgoing_pane pane w =
     (case dw_transition w of None \<Rightarrow> False
      | Some t \<Rightarrow> list_ex (\<lambda>p. fl_id p = pane) (wt_outgoing t))"

definition begin_pointer_interaction ::
  "nat \<Rightarrow> bool \<Rightarrow> mouse_button \<Rightarrow> f32 \<times> f32 \<Rightarrow> desktop \<Rightarrow> desktop" where
  "begin_pointer_interaction pane control button pointer w0 =
     (if outgoing_pane pane w0 then w0
      else
        (let w = begin_pointer_interaction_focus pane w0 in
         if \<not> control \<or> dw_fullscreen w = Some pane then w
         else case button of
           Button_left \<Rightarrow> start_pointer_drag pane Op_move button pointer w
         | Button_right \<Rightarrow> start_pointer_drag pane Op_resize button pointer w
         | Button_other \<Rightarrow> w))"

definition normalized_panel_point :: "f32 \<times> f32 \<Rightarrow> f32 \<times> f32 \<Rightarrow> desktop \<Rightarrow> f32 \<times> f32" where
  "normalized_panel_point pointer viewport w =
     (let inner = inset_panel_size (panel_size w viewport) (dw_pane_gap w)
      in (f32_clamp (f32_div (f32_sub (fst pointer) (dw_pane_gap w)) (fst inner)) zero one,
          f32_clamp (f32_div (f32_sub (snd pointer) (dw_pane_gap w)) (snd inner)) zero one))"

definition drop_pane :: "nat \<Rightarrow> f32 \<times> f32 \<Rightarrow> node option \<Rightarrow> node" where
  "drop_pane pane point layout =
     (case layout of
        None \<Rightarrow> Pane pane
      | Some n \<Rightarrow>
          (case drop_placement n point of
             Some (target, ax, before) \<Rightarrow> snd (layout_split_at n target pane ax before)
           | None \<Rightarrow> snd (layout_split n (hd (pane_ids n)) pane Horizontal)))"

definition finish_pointer_drag :: "f32 \<times> f32 \<Rightarrow> f32 \<times> f32 \<Rightarrow> desktop \<Rightarrow> desktop" where
  "finish_pointer_drag pointer viewport w0 =
     (case dw_drag w0 of
        None \<Rightarrow> w0
      | Some d \<Rightarrow>
          (let w = w0\<lparr>dw_drag := None\<rparr> in
           case pd_subject d of
             Subject_lifted _ \<Rightarrow>
               bump_animation
                 (w\<lparr>dw_floating := filter (\<lambda>p. fl_id p \<noteq> pd_pane d) (dw_floating w),
                    dw_layout := Some (drop_pane (pd_pane d)
                      (normalized_panel_point pointer viewport w) (dw_layout w))\<rparr>)
           | _ \<Rightarrow> w))"

text \<open>A tiled pane resized by the pointer: every update starts from the layout that the drag began
  with.\<close>

definition dragged_layout :: "pointer_drag \<Rightarrow> f32 \<times> f32 \<Rightarrow> f32 \<times> f32 \<Rightarrow> node \<Rightarrow> node" where
  "dragged_layout d delta panel n =
     (let dx = f32_div (fst delta) (f32_max (fst panel) one);
          dy = f32_div (snd delta) (f32_max (snd panel) one) in
      case pd_operation d of
        Op_move \<Rightarrow> n
      | Op_resize_corner horizontal vertical \<Rightarrow>
          snd (resize_edge_from_pointer (snd (resize_edge_from_pointer n (pd_pane d) horizontal dx))
                 (pd_pane d) vertical dy)
      | Op_resize_edge edge \<Rightarrow>
          snd (resize_edge_from_pointer n (pd_pane d) edge
                 (case edge of DirLeft \<Rightarrow> dx | DirRight \<Rightarrow> dx | DirUp \<Rightarrow> dy | DirDown \<Rightarrow> dy))
      | Op_resize \<Rightarrow> resized_tiled_layout n (pd_pane d) delta panel)"

definition update_drag :: "pointer_drag \<Rightarrow> f32 \<times> f32 \<Rightarrow> f32 \<times> f32 \<Rightarrow> desktop \<Rightarrow> desktop" where
  "update_drag d delta viewport w =
     (let panel = panel_size w viewport;
          float = (\<lambda>f. if list_ex (\<lambda>p. fl_id p = pd_pane d) (dw_floating w)
                       then w\<lparr>dw_floating := update_first (\<lambda>p. fl_id p = pd_pane d) (\<lambda>_. f) (dw_floating w)\<rparr>
                       else w\<lparr>dw_drag := None\<rparr>)
      in case pd_subject d of
        Subject_floating start \<Rightarrow> float (dragged_bounds start (pd_operation d) delta panel)
      | Subject_lifted start \<Rightarrow>
          float (if pd_operation d = Op_move then lifted_drag_bounds start delta
                 else dragged_bounds start (pd_operation d) delta panel)
      | Subject_tiled start \<Rightarrow> w\<lparr>dw_layout := Some (dragged_layout d delta panel start)\<rparr>)"

text \<open>\<open>on_pointer_move\<close> past the sidebar, the Git panel and the scrollbar.  \<open>far_enough\<close> is the
  comparison of \<open>f32::hypot\<close>, whose precision Rust leaves to the platform, with the activation
  distance.\<close>

definition pointer_move ::
  "(f32 \<times> f32 \<Rightarrow> bool) \<Rightarrow> mouse_button option \<Rightarrow> f32 \<times> f32 \<Rightarrow> f32 \<times> f32 \<Rightarrow> desktop \<Rightarrow> desktop" where
  "pointer_move far_enough pressed pointer viewport w =
     (case dw_drag w of
        None \<Rightarrow> w
      | Some d \<Rightarrow>
          if pressed \<noteq> Some (pd_button d) then finish_pointer_drag pointer viewport w
          else
            (let delta = (f32_sub (fst pointer) (fst (pd_start d)), f32_sub (snd pointer) (snd (pd_start d)))
             in if \<not> pd_activated d
                then
                  (if \<not> far_enough delta then w
                   else
                     (let d1 = d\<lparr>pd_activated := True\<rparr> in
                      case (pd_operation d, pd_subject d) of
                        (Op_move, Subject_tiled _) \<Rightarrow>
                          (case lift_tiled_pane (pd_pane d) viewport w of
                             (None, w') \<Rightarrow> w'\<lparr>dw_drag := None\<rparr>
                           | (Some bounds, w') \<Rightarrow>
                               (let d2 = d1\<lparr>pd_subject := Subject_lifted bounds\<rparr>
                                in update_drag d2 delta viewport (w'\<lparr>dw_drag := Some d2\<rparr>)))
                      | _ \<Rightarrow> update_drag d1 delta viewport (w\<lparr>dw_drag := Some d1\<rparr>)))
                else update_drag d delta viewport w))"

definition end_pointer_interaction :: "f32 \<times> f32 \<Rightarrow> f32 \<times> f32 \<Rightarrow> desktop \<Rightarrow> desktop" where
  "end_pointer_interaction pointer viewport w =
     layout_changed (finish_pointer_drag pointer viewport w)"

end
