(* ===== verification/Desktop_Restore.thy ===== *)
theory Desktop_Restore
  imports Desktop_Panes
begin

text \<open>
  Switching between Workspaces: the slide that keeps the outgoing terminals until it ends, the
  restoration of a saved arrangement with fresh pane ids, and opening a Workspace that has none
  (\<open>src/desktop/src/main.rs\<close> and \<open>src/desktop/src/layout_persistence.rs\<close>).

  Attaching the restored panes to their Shells (\<open>reconnect_saved_panes\<close>) is not part of these
  definitions: it changes the attachment state of terminals, not which panes there are.
\<close>

section \<open>The slide between Workspaces\<close>

definition detach_terminal_ids :: "nat list \<Rightarrow> desktop \<Rightarrow> desktop" where
  "detach_terminal_ids ids w = w\<lparr>dw_terminals := fold del ids (dw_terminals w)\<rparr>"

definition finish_current_workspace_transition :: "desktop \<Rightarrow> desktop" where
  "finish_current_workspace_transition w =
     (case dw_transition w of
        None \<Rightarrow> w
      | Some t \<Rightarrow> detach_terminal_ids (map fl_id (wt_outgoing t)) (w\<lparr>dw_transition := None\<rparr>))"

definition finish_workspace_transition :: "u64 \<Rightarrow> desktop \<Rightarrow> desktop" where
  "finish_workspace_transition generation w =
     (case dw_transition w of
        None \<Rightarrow> w
      | Some t \<Rightarrow>
          if wt_generation t \<noteq> generation then w else finish_current_workspace_transition w)"

definition outgoing_panes :: "f32 \<times> f32 \<Rightarrow> desktop \<Rightarrow> floating_pane list" where
  "outgoing_panes viewport w =
     (let shown = List.map_filter (\<lambda>i. pane_bounds_in_panel w i viewport)
                    ((case dw_layout w of None \<Rightarrow> [] | Some n \<Rightarrow> pane_ids n) @ map fl_id (dw_floating w))
      in fold (\<lambda>a out. if list_ex (\<lambda>p. fl_id p = ma_pane a) out then out else out @ [ma_from a])
           (dw_minimizing w) shown)"

definition begin_workspace_transition :: "f32 \<times> f32 \<Rightarrow> desktop \<Rightarrow> desktop" where
  "begin_workspace_transition viewport w0 =
     (let w1 = finish_current_workspace_transition w0;
          outgoing = outgoing_panes viewport w1;
          w2 = w1\<lparr>dw_layout := None, dw_floating := [], dw_drag := None, dw_minimizing := [],
                  dw_fullscreen := None\<rparr>
      in if dw_motion w2 \<and> outgoing \<noteq> []
         then (let generation = dw_animation_generation w2 + 1
               in w2\<lparr>dw_animation_generation := generation,
                     dw_transition := Some \<lparr>wt_outgoing = outgoing, wt_generation = generation\<rparr>\<rparr>)
         else detach_terminal_ids (map fl_id outgoing) w2)"

definition animate_workspace_arrival :: "desktop \<Rightarrow> desktop" where
  "animate_workspace_arrival w = (if dw_transition w = None then w else bump_animation w)"

section \<open>Restoring an arrangement\<close>

definition same_running_shell :: "shell_choice option \<Rightarrow> shell_choice option \<Rightarrow> bool" where
  "same_running_shell current target =
     (case (current, target) of
        (Some c, Some t) \<Rightarrow>
          sc_status c = StatusRunning \<and> sc_status t = StatusRunning \<and> sc_id c = sc_id t
          \<and> sc_run_id c \<noteq> None \<and> sc_run_id c = sc_run_id t
      | _ \<Rightarrow> False)"

definition session_quiet :: "terminal_session \<Rightarrow> bool" where
  "session_quiet s = (te_status s = ''attached'' \<or> te_status s = ''connecting'')"

definition find_shell_choice :: "desktop \<Rightarrow> string option \<Rightarrow> shell_choice option" where
  "find_shell_choice w key = Option.bind key (\<lambda>k. List.find (\<lambda>s. sc_id s = k) (dw_shells w))"

text \<open>The panes of the slide that is still running, by the Shell they show; a later pane of the
  same Shell wins.\<close>

definition outgoing_by_shell :: "desktop \<Rightarrow> (string, nat) smap" where
  "outgoing_by_shell w =
     (case dw_transition w of
        None \<Rightarrow> []
      | Some t \<Rightarrow>
          fold (\<lambda>p m. case Option.bind (get (dw_terminals w) (fl_id p)) tp_shell of
                  None \<Rightarrow> m | Some s \<Rightarrow> put (sc_id s) (fl_id p) m)
            (wt_outgoing t) [])"

definition reuse_candidate :: "desktop \<Rightarrow> (string, nat) smap \<Rightarrow> saved_pane \<Rightarrow> nat option" where
  "reuse_candidate w outgoing reference =
     opt_filter
       (\<lambda>i. case get (dw_terminals w) i of
              None \<Rightarrow> False
            | Some p \<Rightarrow>
                (tp_attaching p \<or> (case tp_session p of None \<Rightarrow> False | Some s \<Rightarrow> session_quiet s))
                \<and> same_running_shell (tp_shell p) (find_shell_choice w (sp_shell reference)))
       (Option.bind (sp_shell reference) (get outgoing))"

text \<open>The terminals taken out for reuse, by saved pane.\<close>

type_synonym reusable = "(nat, nat \<times> terminal_pane) smap"

definition take_reusable :: "(nat, saved_pane) smap \<Rightarrow> desktop \<Rightarrow> reusable \<times> desktop" where
  "take_reusable panes w =
     (let outgoing = outgoing_by_shell w in
      fold (\<lambda>(saved, reference) (reusable, w').
              case reuse_candidate w' outgoing reference of
                None \<Rightarrow> (reusable, w')
              | Some i \<Rightarrow>
                  (put saved (i, the (get (dw_terminals w') i)) reusable,
                   w'\<lparr>dw_terminals := del i (dw_terminals w')\<rparr>))
        panes ([], w))"

definition restored_pane :: "desktop \<Rightarrow> saved_pane \<Rightarrow> terminal_pane" where
  "restored_pane w reference =
     default_pane
       \<lparr>tp_shell := find_shell_choice w (sp_shell reference), tp_restored := Some reference,
        tp_error := map_option (\<lambda>_. ''Saved Shell is unavailable or stopped. Select it in the sidebar to reconnect or start it.'')
                      (sp_shell reference)\<rparr>"

definition restore_pane :: "reusable \<Rightarrow> nat \<times> saved_pane \<Rightarrow> (nat, nat) smap \<times> desktop \<Rightarrow> (nat, nat) smap \<times> desktop" where
  "restore_pane reusable entry state =
     (case (entry, state) of ((saved, reference), (ids, w)) \<Rightarrow>
        (case get reusable saved of
           Some (i, p) \<Rightarrow>
             (put saved i ids,
              w\<lparr>dw_terminals := put i (p\<lparr>tp_restored := Some reference\<rparr>) (dw_terminals w)\<rparr>)
         | None \<Rightarrow>
             (let i = dw_next_id w in
              (put saved i ids,
               w\<lparr>dw_next_id := i + 1,
                 dw_terminals := put i (restored_pane w reference) (dw_terminals w)\<rparr>))))"

definition scale_floating :: "arrangement \<Rightarrow> f32 \<times> f32 \<Rightarrow> (nat, nat) smap \<Rightarrow> saved_floating \<Rightarrow> floating_pane" where
  "scale_floating saved canvas ids p =
     (case sf_rect p of (x, y, wd, h) \<Rightarrow>
        clamp_floating_to_panel
          \<lparr>fl_id = the (get ids (sf_pane p)),
           fl_x = f32_div (f32_mul x (fst canvas)) (fst (ar_canvas saved)),
           fl_y = f32_div (f32_mul y (snd canvas)) (snd (ar_canvas saved)),
           fl_width = wd, fl_height = h\<rparr> canvas)"

definition least_id :: "(nat, nat) smap \<Rightarrow> nat option" where
  "least_id ids = (case map snd ids of [] \<Rightarrow> None | i # is \<Rightarrow> Some (fold min is i))"

text \<open>The panes placed as the arrangement says; \<open>None\<close> where a saved pane without an entry would
  panic.\<close>

definition place_restored :: "arrangement \<Rightarrow> (nat, nat) smap \<Rightarrow> f32 \<times> f32 \<Rightarrow> desktop \<Rightarrow> desktop option" where
  "place_restored saved ids viewport w =
     (let actual = panel_size w viewport;
          canvas = (if f32_less zero (fst actual) \<and> f32_less zero (snd actual) then actual
                    else ar_canvas saved);
          layout = (case ar_tree saved of
             None \<Rightarrow> Some None | Some t \<Rightarrow> map_option Some (decode_tree t ids))
      in case layout of
           None \<Rightarrow> None
         | Some l \<Rightarrow>
             if list_all (\<lambda>p. get ids (sf_pane p) \<noteq> None) (ar_floating saved)
             then Some (w\<lparr>dw_layout := l,
                     dw_floating := map (scale_floating saved canvas ids) (ar_floating saved),
                     dw_focused :=
                       (case Option.bind (ar_focused saved) (get ids) of
                          Some i \<Rightarrow> i
                        | None \<Rightarrow> (case least_id ids of Some i \<Rightarrow> i | None \<Rightarrow> 0)),
                     dw_fullscreen := Option.bind (ar_expanded saved) (get ids)\<rparr>)
             else None)"

definition restore_arrangement_with_transition ::
  "arrangement \<Rightarrow> bool \<Rightarrow> f32 \<times> f32 \<Rightarrow> desktop \<Rightarrow> desktop option" where
  "restore_arrangement_with_transition saved0 slide viewport w0 =
     (let saved = discard_unbound_panes saved0;
          w1 = w0\<lparr>dw_restoring := True\<rparr>;
          (reusable, w2) = (if slide then take_reusable (ar_panes saved) w1 else ([], w1));
          w3 = (if slide then begin_workspace_transition viewport w2
                else detach_all_panes (finish_current_workspace_transition w2));
          (ids, w4) = fold (restore_pane reusable) (ar_panes saved) ([], w3)
      in map_option (\<lambda>w5. (animate_workspace_arrival w5)\<lparr>dw_restoring := False\<rparr>)
           (place_restored saved ids viewport w4))"

definition restore_arrangement :: "arrangement \<Rightarrow> f32 \<times> f32 \<Rightarrow> desktop \<Rightarrow> desktop option" where
  "restore_arrangement saved viewport w = restore_arrangement_with_transition saved False viewport w"

text \<open>Selecting a Workspace without naming a Shell: \<open>Some (True, w)\<close> when its arrangement was
  restored.\<close>

definition restore_workspace_layout :: "string \<Rightarrow> f32 \<times> f32 \<Rightarrow> desktop \<Rightarrow> (bool \<times> desktop) option" where
  "restore_workspace_layout workspace viewport w0 =
     (let w = (if (ld_active (dw_document w0) = ''mixed'') = dw_mixed w0
               then snd (capture_arrangement w0) else w0);
          key = ''workspace:'' @ workspace
      in if dw_mixed w \<or> key = ld_active (dw_document w) then Some (False, w)
         else case get (ld_arrangements (dw_document w)) key of
           None \<Rightarrow> Some (False, w)
         | Some saved \<Rightarrow>
             map_option (\<lambda>w'. (True, layout_changed w'))
               (restore_arrangement_with_transition saved True viewport
                  (w\<lparr>dw_document := (dw_document w)\<lparr>ld_active := key\<rparr>,
                     dw_expanded := [workspace]\<rparr>)))"

section \<open>Opening a Workspace\<close>

definition begin_attachment :: "shell_choice \<Rightarrow> terminal_pane \<Rightarrow> terminal_pane" where
  "begin_attachment shell p =
     p\<lparr>tp_shell := Some shell, tp_attachment_generation := tp_attachment_generation p + 1,
       tp_attaching := True, tp_error := None\<rparr>"

definition start_terminal_attachment :: "nat \<Rightarrow> shell_choice \<Rightarrow> desktop \<Rightarrow> desktop" where
  "start_terminal_attachment pane shell w =
     (case get (dw_terminals w) pane of
        None \<Rightarrow> w
      | Some p \<Rightarrow> layout_changed (w\<lparr>dw_terminals := put pane (begin_attachment shell p) (dw_terminals w)\<rparr>))"

definition pane_of_shell :: "desktop \<Rightarrow> (string, nat) smap" where
  "pane_of_shell w =
     fold (\<lambda>(i, p) m. case tp_shell p of
             None \<Rightarrow> m | Some s \<Rightarrow> if outgoing_pane i w then m else put (sc_id s) i m)
       (dw_terminals w) []"

definition open_shell_pane ::
  "shell_choice \<Rightarrow> (string, nat) smap \<times> (nat \<times> shell_choice) list \<times> desktop
     \<Rightarrow> (string, nat) smap \<times> (nat \<times> shell_choice) list \<times> desktop" where
  "open_shell_pane shell state =
     (case state of (panes, pending, w) \<Rightarrow>
        if get panes (sc_id shell) \<noteq> None then (panes, pending, w)
        else
          (case insert_pane w of (i, w') \<Rightarrow>
             (put (sc_id shell) i panes, pending @ [(i, shell)],
              w'\<lparr>dw_terminals := alter i (\<lambda>p. p\<lparr>tp_shell := Some shell\<rparr>) (dw_terminals w')\<rparr>)))"

definition open_workspace :: "string \<Rightarrow> f32 \<times> f32 \<Rightarrow> desktop \<Rightarrow> desktop option" where
  "open_workspace workspace viewport w0 =
     (case restore_workspace_layout workspace viewport w0 of
        None \<Rightarrow> None
      | Some (True, w) \<Rightarrow> Some w
      | Some (False, w) \<Rightarrow>
          (case List.find (\<lambda>ws. ow_id ws = workspace) (dw_overview w) of
             None \<Rightarrow> Some w
           | Some ws \<Rightarrow>
               (let shells = filter (\<lambda>s. sc_id s \<notin> set (dw_minimized w)) (ow_shells ws);
                    w1 = w\<lparr>dw_expanded :=
                            List.insert workspace (if dw_mixed w then dw_expanded w else [])\<rparr>;
                    current = List.map_filter (\<lambda>p. map_option sc_id (tp_shell p)) (objects (dw_terminals w1));
                    w2 = (if \<not> dw_mixed w1 \<and> set current \<noteq> set (map sc_id shells)
                          then begin_workspace_transition viewport w1 else w1);
                    (panes, pending, w3) = fold open_shell_pane shells (pane_of_shell w2, [], w2);
                    w4 = animate_workspace_arrival w3;
                    w5 = (case least_id (map (\<lambda>(_, i). (0, i)) panes) of
                            None \<Rightarrow> w4 | Some i \<Rightarrow> w4\<lparr>dw_focused := i\<rparr>)
                in Some (layout_changed
                     (fold (\<lambda>(i, s). start_terminal_attachment i s) pending w5)))))"

end
