(* ===== verification/Layout_Validation.thy ===== *)
theory Layout_Validation
  imports Layout_Document
begin

text \<open>
  What the validation of a saved document accepts, stated without its traversal: a tree at most 64
  deep with ratios in range, every pane once, exactly the panes that the map describes, Shells
  named once, sizes within bounds (\<open>arrangement_valid\<close>, \<open>document_valid\<close>).  \<open>validate_document\<close>
  accepts exactly these (\<open>validate_document_exact\<close>).  The second part is about saving: which file
  contents a save goes through.
\<close>

section \<open>Trees\<close>

fun saved_ids :: "saved_tree \<Rightarrow> nat list" where
  "saved_ids (Saved_pane i) = [i]"
| "saved_ids (Saved_split h r f s) = saved_ids f @ saved_ids s"

fun saved_height :: "saved_tree \<Rightarrow> nat" where
  "saved_height (Saved_pane i) = 0"
| "saved_height (Saved_split h r f s) = Suc (max (saved_height f) (saved_height s))"

fun saved_ratios :: "saved_tree \<Rightarrow> bool" where
  "saved_ratios (Saved_pane i) = True"
| "saved_ratios (Saved_split h r f s) = (saved_ratio_valid r \<and> saved_ratios f \<and> saved_ratios s)"

lemma saved_ids_nonempty: "0 < length (saved_ids t)"
  by (induction t) auto

lemma validate_tree_exact:
  "validate_tree t depth ids = Inr ids' \<longleftrightarrow>
     depth + saved_height t \<le> 64 \<and> saved_ratios t \<and> distinct (saved_ids t)
     \<and> set (saved_ids t) \<inter> set ids = {} \<and> length ids + length (saved_ids t) \<le> layout_max_panes
     \<and> ids' = rev (saved_ids t) @ ids"
proof (induction t arbitrary: depth ids ids')
  case (Saved_pane i)
  show ?case by auto
next
  case (Saved_split h r f s)
  have "length ids + (length (saved_ids f) + length (saved_ids s)) \<le> layout_max_panes
      \<longrightarrow> length ids < layout_max_panes"
    using saved_ids_nonempty [of f] by linarith
  moreover have "validate_tree (Saved_split h r f s) depth ids = Inr ids' \<longleftrightarrow>
      depth \<le> 64 \<and> length ids < layout_max_panes \<and> saved_ratio_valid r
      \<and> (\<exists>ids1. validate_tree f (Suc depth) ids = Inr ids1 \<and> validate_tree s (Suc depth) ids1 = Inr ids')"
    by (auto split: sum.split)
  ultimately show ?case
    unfolding Saved_split.IH by auto
qed

section \<open>Arrangements\<close>

definition arrangement_panes :: "arrangement \<Rightarrow> nat list" where
  "arrangement_panes a =
     (case ar_tree a of None \<Rightarrow> [] | Some t \<Rightarrow> saved_ids t) @ map sf_pane (ar_floating a)"

definition bound_shells :: "arrangement \<Rightarrow> string list" where
  "bound_shells a = List.map_filter sp_shell (objects (ar_panes a))"

definition canvas_valid :: "f32 \<times> f32 \<Rightarrow> bool" where
  "canvas_valid c =
     (f32_is_finite (fst c) \<and> f32_less (f32_of 0) (fst c) \<and> f32_is_finite (snd c) \<and> f32_less (f32_of 0) (snd c))"

definition arrangement_valid :: "arrangement \<Rightarrow> bool" where
  "arrangement_valid a =
     ((case ar_tree a of None \<Rightarrow> True | Some t \<Rightarrow>
         saved_height t \<le> 64 \<and> saved_ratios t \<and> length (saved_ids t) \<le> layout_max_panes)
      \<and> distinct (arrangement_panes a)
      \<and> list_all (\<lambda>f. floating_rect_valid (sf_rect f)) (ar_floating a)
      \<and> set (arrangement_panes a) = fst ` set (ar_panes a)
      \<and> (\<forall>i. ar_focused a = Some i \<or> ar_expanded a = Some i \<longrightarrow> i \<in> set (arrangement_panes a))
      \<and> canvas_valid (ar_canvas a)
      \<and> distinct (bound_shells a) \<and> list_all (\<lambda>s. length s \<le> 1024) (bound_shells a))"

lemma validate_floating_exact:
  "validate_floating fs ids = Inr ids' \<longleftrightarrow>
     distinct (map sf_pane fs) \<and> set (map sf_pane fs) \<inter> set ids = {}
     \<and> list_all (\<lambda>f. floating_rect_valid (sf_rect f)) fs \<and> ids' = rev (map sf_pane fs) @ ids"
  by (induction fs arbitrary: ids) auto

lemma validate_shells_exact:
  "validate_shells ps seen = Inr () \<longleftrightarrow>
     (let s = List.map_filter sp_shell ps in
      distinct s \<and> set s \<inter> set seen = {} \<and> list_all (\<lambda>x. length x \<le> 1024) s)"
  by (induction ps arbitrary: seen) (auto simp: map_filter_simps Let_def split: option.split)

lemma arrangement_ids_exact:
  "arrangement_ids a = Inr ids \<longleftrightarrow>
     (case ar_tree a of None \<Rightarrow> True | Some t \<Rightarrow>
         saved_height t \<le> 64 \<and> saved_ratios t \<and> length (saved_ids t) \<le> layout_max_panes)
     \<and> distinct (arrangement_panes a)
     \<and> list_all (\<lambda>f. floating_rect_valid (sf_rect f)) (ar_floating a)
     \<and> ids = rev (map sf_pane (ar_floating a))
             @ (case ar_tree a of None \<Rightarrow> [] | Some t \<Rightarrow> rev (saved_ids t))"
proof (cases "ar_tree a")
  case None
  then show ?thesis
    by (auto simp: arrangement_ids_def arrangement_panes_def validate_floating_exact)
next
  case (Some t)
  show ?thesis
  proof (cases "validate_tree t 0 []")
    case (Inl e)
    then have "\<not> (saved_height t \<le> 64 \<and> saved_ratios t \<and> distinct (saved_ids t)
        \<and> length (saved_ids t) \<le> layout_max_panes)"
      using validate_tree_exact [of t 0 "[]" "rev (saved_ids t)"] by auto
    then show ?thesis
      using Some Inl by (auto simp: arrangement_ids_def arrangement_panes_def validate_tree_exact)
  next
    case (Inr ids1)
    then show ?thesis
      using Some validate_tree_exact [of t 0 "[]" ids1]
      by (auto simp: arrangement_ids_def arrangement_panes_def validate_floating_exact)
  qed
qed

lemma focus_references:
  "list_all P (List.map_filter (\<lambda>x. x) [a, b]) \<longleftrightarrow> (\<forall>i. a = Some i \<or> b = Some i \<longrightarrow> P i)"
  by (cases a; cases b) (auto simp: map_filter_simps)

lemma same_panes:
  assumes "smap_ok m" and "distinct ids"
  shows "length ids = length m \<and> list_all (\<lambda>i. get m i \<noteq> None) ids \<longleftrightarrow> set ids = fst ` set m"
proof
  have dm: "distinct (map fst m)" using assms(1) by (simp add: smap_sorted)
  have card: "card (set ids) = length ids" "card (fst ` set m) = length m"
    using distinct_card [OF assms(2)] distinct_card [OF dm] by simp_all
  { assume l: "length ids = length m \<and> list_all (\<lambda>i. get m i \<noteq> None) ids"
    then have "set ids \<subseteq> fst ` set m"
      by (auto simp: list_all_iff map_of_eq_None_iff)
    then show "set ids = fst ` set m"
      using card_subset_eq [of "fst ` set m" "set ids"] card l by simp }
  { assume s: "set ids = fst ` set m"
    then show "length ids = length m \<and> list_all (\<lambda>i. get m i \<noteq> None) ids"
      using card by (auto simp: list_all_iff map_of_eq_None_iff) }
qed

lemma validate_references_exact:
  assumes "smap_ok (ar_panes a)" "distinct ids"
  shows "validate_references a ids n = Inr () \<longleftrightarrow>
     n \<le> layout_max_panes \<and> set ids = fst ` set (ar_panes a)
     \<and> (\<forall>i. ar_focused a = Some i \<or> ar_expanded a = Some i \<longrightarrow> i \<in> set ids)
     \<and> canvas_valid (ar_canvas a)
     \<and> distinct (bound_shells a) \<and> list_all (\<lambda>s. length s \<le> 1024) (bound_shells a)"
  unfolding validate_references_def focus_references same_panes [OF assms, symmetric]
  by (auto simp: validate_shells_exact Let_def bound_shells_def canvas_valid_def split: prod.split)

lemma validate_arrangements_exact:
  assumes "\<forall>a \<in> set as. smap_ok (ar_panes a)" "n \<le> layout_max_panes"
  shows "validate_arrangements as n = Inr () \<longleftrightarrow>
     list_all arrangement_valid as \<and> n + sum_list (map (\<lambda>a. length (ar_panes a)) as) \<le> layout_max_panes"
  using assms
proof (induction as arbitrary: n)
  case (Cons a as)
  show ?case
  proof (cases "arrangement_ids a")
    case (Inl e)
    then have "\<not> arrangement_valid a"
      using arrangement_ids_exact [of a] unfolding arrangement_valid_def by (metis Inl_Inr_False)
    then show ?thesis using Inl by simp
  next
    case (Inr ids)
    note ids = Inr [unfolded arrangement_ids_exact]
    then have dist: "distinct ids" and set: "set ids = set (arrangement_panes a)"
      by (auto simp: arrangement_panes_def split: option.splits)
    note refs = validate_references_exact [OF _ dist, of a]
    show ?thesis
    proof (cases "validate_references a ids (n + length ids)")
      case (Inl e)
      then have "\<not> (n + length ids \<le> layout_max_panes \<and> arrangement_valid a)"
        using refs [of "n + length ids"] ids set Cons.prems unfolding arrangement_valid_def by auto
      moreover have "arrangement_valid a \<Longrightarrow> length ids = length (ar_panes a)"
        using same_panes [OF _ dist, of "ar_panes a"] set Cons.prems unfolding arrangement_valid_def by auto
      ultimately show ?thesis using Inl \<open>arrangement_ids a = Inr ids\<close> by auto
    next
      case (Inr u)
      then have ok: "n + length ids \<le> layout_max_panes" "arrangement_valid a"
        using refs [of "n + length ids"] ids set Cons.prems unfolding arrangement_valid_def by auto
      then have "length ids = length (ar_panes a)"
        using same_panes [OF _ dist, of "ar_panes a"] set Cons.prems unfolding arrangement_valid_def by auto
      moreover have "validate_references a ids (n + length ids) = Inr ()"
        using Inr by simp
      ultimately show ?thesis
        using ok Cons.IH [of "n + length ids"] Cons.prems \<open>arrangement_ids a = Inr ids\<close>
        by (simp add: add.assoc)
    qed
  qed
qed simp

section \<open>Documents\<close>

definition document_keys_ok :: "layout_document \<Rightarrow> bool" where
  "document_keys_ok d =
     (smap_ok (ld_arrangements d) \<and> (\<forall>a \<in> set (objects (ld_arrangements d)). smap_ok (ar_panes a)))"

definition conversation_identity :: "conversation_preference \<Rightarrow> string \<times> string \<times> string" where
  "conversation_identity c = (cp_workspace c, cp_integration c, cp_session c)"

definition document_valid :: "layout_document \<Rightarrow> bool" where
  "document_valid d =
     (ld_version d = 4
      \<and> (\<forall>w. ld_mac_window d = Some w \<longrightarrow> length (mw_display w) \<le> 128 \<and> window_geometry_valid (mw_rect w))
      \<and> length (ld_arrangements d) \<le> 256 \<and> length (ld_minimized d) \<le> layout_max_panes
      \<and> length (ld_hidden_remote_workspaces d) \<le> 256 \<and> length (ld_workspace_order d) \<le> 4096
      \<and> list_all hidden_workspace_valid (ld_hidden_remote_workspaces d)
      \<and> length (ld_conversations d) \<le> 4096
      \<and> distinct (map conversation_identity (ld_conversations d))
      \<and> list_all (\<lambda>c. \<forall>v \<in> {cp_workspace c, cp_integration c, cp_session c}. v \<noteq> [] \<and> length v \<le> 1024)
           (ld_conversations d)
      \<and> list_all arrangement_valid (objects (ld_arrangements d))
      \<and> sum_list (map (\<lambda>a. length (ar_panes a)) (objects (ld_arrangements d))) \<le> layout_max_panes)"

lemma validate_conversations_exact:
  "validate_conversations cs seen \<longleftrightarrow>
     distinct (map conversation_identity cs) \<and> set (map conversation_identity cs) \<inter> set seen = {}
     \<and> list_all (\<lambda>c. \<forall>v \<in> {cp_workspace c, cp_integration c, cp_session c}. v \<noteq> [] \<and> length v \<le> 1024) cs"
  by (induction cs arbitrary: seen) (auto simp: conversation_identity_def Let_def)

lemma validate_document_exact:
  assumes "document_keys_ok d"
  shows "validate_document d = Inr () \<longleftrightarrow> document_valid d"
proof -
  have arr: "validate_arrangements (objects (ld_arrangements d)) 0 = Inr () \<longleftrightarrow>
      list_all arrangement_valid (objects (ld_arrangements d))
      \<and> sum_list (map (\<lambda>a. length (ar_panes a)) (objects (ld_arrangements d))) \<le> layout_max_panes"
    using validate_arrangements_exact [of "objects (ld_arrangements d)" 0] assms
    by (simp add: document_keys_ok_def)
  show ?thesis
    unfolding validate_document_def document_valid_def arr [symmetric]
    by (auto simp: validate_conversations_exact not_less split: option.split)
qed

section \<open>The states of a save\<close>

lemma replace_file_states:
  assumes "replace_file io revision bytes disk = (result, disks)"
  shows "\<forall>d \<in> set disks. lk_file d = lk_file disk \<or> lk_file d = Some bytes"
    and "disks \<noteq> []"
    and "result = Inr () \<Longrightarrow> lk_file (last disks) = Some bytes
           \<and> lk_temporary (last disks) = lk_temporary disk \<and> lk_locked (last disks) = lk_locked disk"
    and "result = Inl e \<Longrightarrow> io_sync_dir io = None \<Longrightarrow> lk_file (last disks) = lk_file disk"
  using assms
  by (auto simp: replace_file_def remove_temporary_def Let_def split: option.splits if_splits)

lemma store_save_states:
  assumes "store_save codec io fresh store document disk = (result, store', disks)"
  shows "\<forall>d \<in> set disks. lk_file d = lk_file disk \<or>
           (\<exists>bytes. lk_file d = Some bytes
              \<and> encode_document codec (document\<lparr>ld_revision := fresh\<rparr>) = Inr bytes
              \<and> length bytes \<le> layout_max_bytes
              \<and> validate_document document = Inr () \<and> \<not> lk_locked disk
              \<and> (\<exists>saved. read_document codec io disk = Inr saved \<and> ld_revision saved = ls_revision store))"
    and "disks \<noteq> []"
    and "result = Inr () \<Longrightarrow> ls_revision store' = fresh \<and>
           encode_document codec (document\<lparr>ld_revision := fresh\<rparr>) = Inr (the (lk_file (last disks)))
           \<and> lk_file (last disks) \<noteq> None \<and> length (the (lk_file (last disks))) \<le> layout_max_bytes
           \<and> validate_document document = Inr ()"
    and "result = Inl e \<Longrightarrow> store' = store"
    and "result = Inl e \<Longrightarrow> io_sync_dir io = None \<Longrightarrow> lk_file (last disks) = lk_file disk"
proof -
  consider (rejected) "\<exists>e. result = Inl e" "store' = store" "disks = [disk]"
    | (written) saved bytes r where "validate_document document = Inr ()" "\<not> lk_locked disk"
        "read_document codec io disk = Inr saved" "ld_revision saved = ls_revision store"
        "encode_document codec (document\<lparr>ld_revision := fresh\<rparr>) = Inr bytes"
        "length bytes \<le> layout_max_bytes" "replace_file io fresh bytes disk = (r, disks)"
        "result = r" "store' = (case r of Inl e \<Rightarrow> store | Inr _ \<Rightarrow> \<lparr>ls_revision = fresh\<rparr>)"
  proof (cases "validate_document document")
    case (Inl e)
    then have "(Inl e, store, [disk]) = (result, store', disks)"
      using assms by (simp add: store_save_def)
    then show thesis by (intro rejected) auto
  next
    case (Inr u)
    then have v: "validate_document document = Inr ()" by simp
    show thesis using assms rejected written
      by (auto simp: store_save_def v not_less split: sum.splits option.splits if_splits prod.splits)
  qed
  note cases = this
  show "\<forall>d \<in> set disks. lk_file d = lk_file disk \<or>
           (\<exists>bytes. lk_file d = Some bytes
              \<and> encode_document codec (document\<lparr>ld_revision := fresh\<rparr>) = Inr bytes
              \<and> length bytes \<le> layout_max_bytes
              \<and> validate_document document = Inr () \<and> \<not> lk_locked disk
              \<and> (\<exists>saved. read_document codec io disk = Inr saved \<and> ld_revision saved = ls_revision store))"
    by (rule cases) (use replace_file_states(1) in fastforce)+
  show "disks \<noteq> []"
    by (rule cases) (use replace_file_states(2) in auto)
  show "result = Inr () \<Longrightarrow> ls_revision store' = fresh \<and>
           encode_document codec (document\<lparr>ld_revision := fresh\<rparr>) = Inr (the (lk_file (last disks)))
           \<and> lk_file (last disks) \<noteq> None \<and> length (the (lk_file (last disks))) \<le> layout_max_bytes
           \<and> validate_document document = Inr ()"
    by (rule cases) (use replace_file_states(3) in fastforce)+
  show "result = Inl e \<Longrightarrow> store' = store"
    by (rule cases) auto
  show "result = Inl e \<Longrightarrow> io_sync_dir io = None \<Longrightarrow> lk_file (last disks) = lk_file disk"
    by (rule cases) (use replace_file_states(4) in fastforce)+
qed

section \<open>The session after a save\<close>

lemma validate_revision: "validate_document (d\<lparr>ld_revision := r\<rparr>) = validate_document d"
  by (simp add: validate_document_def)

lemma validated_version: "validate_document d = Inr () \<Longrightarrow> ld_version d = 4"
  by (auto simp: validate_document_def split: if_splits)

lemma session_of_file: "lk_file d = lk_file d' \<Longrightarrow> session_at codec io (Some d) = session_at codec io (Some d')"
  by (simp only: session_at_def read_document_def option.case)

lemma session_of_saved:
  assumes "lk_file d = Some bytes" and "decode_document codec bytes = Inr document"
    and "validate_document document = Inr ()" and "length bytes \<le> layout_max_bytes"
    and "io_open io = None" and "io_read io = None"
  shows "session_at codec io (Some d)
    = \<lparr>ss_document = document, ss_writer = Some \<lparr>ls_revision = ld_revision document\<rparr>, ss_error = None\<rparr>"
proof -
  have "take (layout_max_bytes + 1) bytes = bytes" using assms(4) by simp
  moreover have "migrate_document document = document"
    using validated_version [OF assms(3)] by (simp add: migrate_document_def)
  ultimately show ?thesis using assms by (simp add: session_at_def read_document_def)
qed

text \<open>
  Wherever a save stops, also by a crash between two of its steps, the next session has the document
  of before or the one that was saved, whole; when the save was acknowledged, the latter.  JSON gives
  back the documents that the validation accepts, which hold no number that is not finite.
\<close>

theorem save_keeps_a_document:
  assumes codec: "\<And>d bytes. validate_document d = Inr () \<Longrightarrow> encode_document codec d = Inr bytes
      \<Longrightarrow> decode_document codec bytes = Inr d"
    and saved: "store_save codec io fresh store document disk = (result, store', disks)"
    and "io_open io' = None" and "io_read io' = None"
  defines "new \<equiv> \<lparr>ss_document = document\<lparr>ld_revision := fresh\<rparr>, ss_writer = Some \<lparr>ls_revision = fresh\<rparr>, ss_error = None\<rparr>"
  shows "x \<in> set disks \<Longrightarrow> session_at codec io' (Some x) \<in> {session_at codec io' (Some disk), new}"
    and "result = Inr () \<Longrightarrow> session_at codec io' (Some (last disks)) = new"
proof -
  have written: "session_at codec io' (Some x) = new"
    if "lk_file x = Some bytes" "encode_document codec (document\<lparr>ld_revision := fresh\<rparr>) = Inr bytes"
      "length bytes \<le> layout_max_bytes" "validate_document document = Inr ()" for x bytes
    using that session_of_saved [of x bytes codec "document\<lparr>ld_revision := fresh\<rparr>" io'] assms(3,4)
      codec [of "document\<lparr>ld_revision := fresh\<rparr>" bytes]
    by (simp add: new_def validate_revision)
  show "session_at codec io' (Some x) \<in> {session_at codec io' (Some disk), new}" if "x \<in> set disks"
    using store_save_states(1) [OF saved] that written session_of_file [of x disk codec io'] by blast
  show "session_at codec io' (Some (last disks)) = new" if "result = Inr ()"
    using store_save_states(3) [OF saved that] written [of "last disks" "the (lk_file (last disks))"] by auto
qed

end
