(* ===== verification/Desktop_Invariant.thy ===== *)
theory Desktop_Invariant
  imports Desktop_Restore Layout_Validation
begin

text \<open>
  What the operations of the Desktop window keep (\<open>desk_ok\<close>): every pane is shown once, in the tree
  or in the floating list; every shown pane has a terminal; ids are below the next one; panes that
  are being minimized or slid out are not shown; ratios stay in range; and the saved arrangements
  are well formed.  While a pointer drag lasts, its subject agrees with what is shown (\<open>drag_ok\<close>).
\<close>

section \<open>The invariant\<close>

definition tiled_ids :: "node option \<Rightarrow> nat list" where
  "tiled_ids layout = (case layout of None \<Rightarrow> [] | Some n \<Rightarrow> pane_ids n)"

lemma tiled_ids_simps [simp]: "tiled_ids None = []" "tiled_ids (Some n) = pane_ids n"
  by (simp_all add: tiled_ids_def)

definition visible :: "desktop \<Rightarrow> nat list" where
  "visible w = tiled_ids (dw_layout w) @ map fl_id (dw_floating w)"

definition minimizing_ids :: "desktop \<Rightarrow> nat set" where
  "minimizing_ids w =
     ma_pane ` set (dw_minimizing w) \<union> (\<lambda>a. fl_id (ma_from a)) ` set (dw_minimizing w)"

definition outgoing_ids :: "desktop \<Rightarrow> nat set" where
  "outgoing_ids w = (case dw_transition w of None \<Rightarrow> {} | Some t \<Rightarrow> fl_id ` set (wt_outgoing t))"

abbreviation terminal_ids :: "desktop \<Rightarrow> nat set" where
  "terminal_ids w \<equiv> fst ` set (dw_terminals w)"

definition layout_ratios :: "node option \<Rightarrow> bool" where
  "layout_ratios layout = (case layout of None \<Rightarrow> True | Some n \<Rightarrow> ratios_ok n)"

lemma layout_ratios_simps [simp]: "layout_ratios None" "layout_ratios (Some n) = ratios_ok n"
  by (simp_all add: layout_ratios_def)

fun saved_tree_ok :: "saved_tree \<Rightarrow> bool" where
  "saved_tree_ok (Saved_pane i) = True"
| "saved_tree_ok (Saved_split h r f s) = (ratio_ok r \<and> saved_tree_ok f \<and> saved_tree_ok s)"

definition arrangement_ok :: "arrangement \<Rightarrow> bool" where
  "arrangement_ok a =
     (smap_ok (ar_panes a) \<and> distinct (arrangement_panes a)
      \<and> (case ar_tree a of None \<Rightarrow> True | Some t \<Rightarrow> saved_tree_ok t))"

definition saved_ok :: "layout_document \<Rightarrow> bool" where
  "saved_ok d = (smap_ok (ld_arrangements d) \<and> (\<forall>a \<in> set (objects (ld_arrangements d)). arrangement_ok a))"

text \<open>Coordinates of a screen: finite and not astronomically large, so that differences are finite.\<close>

definition small :: "f32 \<Rightarrow> bool" where
  "small r = (f32_is_finite r \<and> \<bar>f32_value r\<bar> \<le> 1048576)"

definition desk_ok :: "desktop \<Rightarrow> bool" where
  "desk_ok w =
     (smap_ok (dw_terminals w) \<and> distinct (visible w) \<and> set (visible w) \<subseteq> terminal_ids w
      \<and> (\<forall>i \<in> terminal_ids w \<union> minimizing_ids w \<union> outgoing_ids w. i < dw_next_id w)
      \<and> dw_next_id w \<le> usize_max
      \<and> set (visible w) \<inter> (minimizing_ids w \<union> outgoing_ids w) = {}
      \<and> minimizing_ids w \<inter> outgoing_ids w = {}
      \<and> layout_ratios (dw_layout w) \<and> small (dw_sidebar_width w) \<and> saved_ok (dw_document w))"

definition drag_fits :: "pointer_drag option \<Rightarrow> node option \<Rightarrow> floating_pane list \<Rightarrow> bool" where
  "drag_fits drag layout floating =
     (case drag of
        None \<Rightarrow> True
      | Some d \<Rightarrow>
          small (fst (pd_start d)) \<and> small (snd (pd_start d)) \<and>
          (case pd_subject d of
             Subject_floating f \<Rightarrow> fl_id f = pd_pane d
           | Subject_lifted f \<Rightarrow> fl_id f = pd_pane d \<and> pd_pane d \<in> fl_id ` set floating
           | Subject_tiled n \<Rightarrow> mset (pane_ids n) = mset (tiled_ids layout) \<and> ratios_ok n))"

definition drag_ok :: "desktop \<Rightarrow> bool" where
  "drag_ok w = drag_fits (dw_drag w) (dw_layout w) (dw_floating w)"

lemma drag_fits_none [simp]: "drag_fits None layout floating"
  by (simp add: drag_fits_def)

lemmas view_defs = visible_def minimizing_ids_def outgoing_ids_def

lemma desk_ok_frames [simp]:
  "desk_ok (layout_changed w) = desk_ok w"
  "desk_ok (bump_animation w) = desk_ok w"
  "desk_ok (w\<lparr>dw_focused := i\<rparr>) = desk_ok w"
  "desk_ok (w\<lparr>dw_fullscreen := f\<rparr>) = desk_ok w"
  "desk_ok (w\<lparr>dw_minimized := m\<rparr>) = desk_ok w"
  "desk_ok (w\<lparr>dw_expanded := e\<rparr>) = desk_ok w"
  "desk_ok (w\<lparr>dw_restoring := b\<rparr>) = desk_ok w"
  "desk_ok (w\<lparr>dw_drag := d\<rparr>) = desk_ok w"
  "desk_ok (w\<lparr>dw_layout_error := l\<rparr>) = desk_ok w"
  by (simp_all add: desk_ok_def view_defs layout_changed_def bump_animation_def)

lemma drag_ok_frames [simp]:
  "drag_ok (layout_changed w) = drag_ok w"
  "drag_ok (bump_animation w) = drag_ok w"
  "drag_ok (w\<lparr>dw_focused := i\<rparr>) = drag_ok w"
  "drag_ok (w\<lparr>dw_fullscreen := f\<rparr>) = drag_ok w"
  "drag_ok (w\<lparr>dw_minimized := m\<rparr>) = drag_ok w"
  "drag_ok (w\<lparr>dw_layout_error := l\<rparr>) = drag_ok w"
  "drag_ok (w\<lparr>dw_drag := None\<rparr>)"
  by (simp_all add: drag_ok_def layout_changed_def bump_animation_def)

lemma drag_selectors [simp]:
  "dw_drag (layout_changed w) = dw_drag w" "dw_drag (bump_animation w) = dw_drag w"
  "dw_floating (layout_changed w) = dw_floating w" "dw_floating (bump_animation w) = dw_floating w"
  "dw_layout (layout_changed w) = dw_layout w" "dw_layout (bump_animation w) = dw_layout w"
  "dw_terminals (layout_changed w) = dw_terminals w" "dw_terminals (bump_animation w) = dw_terminals w"
  "dw_next_id (layout_changed w) = dw_next_id w" "dw_next_id (bump_animation w) = dw_next_id w"
  "dw_focused (layout_changed w) = dw_focused w" "dw_focused (bump_animation w) = dw_focused w"
  "dw_document (layout_changed w) = dw_document w" "dw_document (bump_animation w) = dw_document w"
  "dw_transition (layout_changed w) = dw_transition w" "dw_transition (bump_animation w) = dw_transition w"
  "dw_minimizing (layout_changed w) = dw_minimizing w" "dw_minimizing (bump_animation w) = dw_minimizing w"
  "dw_fullscreen (layout_changed w) = dw_fullscreen w" "dw_fullscreen (bump_animation w) = dw_fullscreen w"
  "dw_sidebar_width (layout_changed w) = dw_sidebar_width w"
  "dw_sidebar_width (bump_animation w) = dw_sidebar_width w"
  by (simp_all add: layout_changed_def bump_animation_def)

lemma drag_none: "dw_drag w = None \<Longrightarrow> drag_ok w"
  by (simp add: drag_ok_def)

section \<open>Rearranging what is shown\<close>

text \<open>The same panes at other places.\<close>

definition same_rest :: "desktop \<Rightarrow> desktop \<Rightarrow> bool" where
  "same_rest w w' =
     (dw_terminals w' = dw_terminals w \<and> dw_minimizing w' = dw_minimizing w
      \<and> dw_transition w' = dw_transition w \<and> dw_next_id w' = dw_next_id w
      \<and> dw_sidebar_width w' = dw_sidebar_width w \<and> dw_document w' = dw_document w)"

lemma desk_ok_rearranged:
  assumes "desk_ok w" "same_rest w w'" "mset (visible w') = mset (visible w)"
    "layout_ratios (dw_layout w')"
  shows "desk_ok w'"
  using assms mset_eq_imp_distinct_iff [OF assms(3)] mset_eq_setD [OF assms(3)]
  by (simp add: desk_ok_def same_rest_def minimizing_ids_def outgoing_ids_def)

text \<open>Panes leave: what is shown is a part of what was.\<close>

lemma desk_ok_fewer:
  assumes "desk_ok w" "same_rest w w'" "distinct (visible w')" "set (visible w') \<subseteq> set (visible w)"
    "layout_ratios (dw_layout w')"
  shows "desk_ok w'"
proof -
  have "set (visible w') \<subseteq> terminal_ids w"
    "set (visible w') \<inter> (minimizing_ids w \<union> outgoing_ids w) = {}"
    using assms(1,4) unfolding desk_ok_def by blast+
  then show ?thesis
    using assms(1,2,3,5) by (simp add: desk_ok_def same_rest_def minimizing_ids_def outgoing_ids_def)
qed

lemma update_first_ids:
  "(\<And>p. fl_id (f p) = fl_id p) \<Longrightarrow> map fl_id (update_first P f ps) = map fl_id ps"
  by (rule map_update_first_id) auto

lemma fl_id_geometry [simp]:
  "fl_id (clamp_floating_to_panel p panel) = fl_id p"
  "fl_id (lifted_drag_bounds p delta) = fl_id p"
  by (cases p; simp add: clamp_floating_to_panel_def lifted_drag_bounds_def Let_def)+

lemma fl_id_centered [simp]: "fl_id (centered_floating_pane i panel g) = i"
  unfolding centered_floating_pane_def Let_def by (rule floating_pane.select_convs)

lemma fl_id_nudge [simp]: "fl_id (nudge_floating d p) = fl_id p"
  by (cases d) (simp_all add: nudge_floating_def)

lemma fl_id_resize [simp]: "fl_id (resize_floating_in_direction p d a panel) = fl_id p"
  by (cases d) (simp_all add: resize_floating_in_direction_def Let_def)

lemma fl_id_align [simp]: "fl_id (align_floating_to_panel p al panel g) = fl_id p"
  by (cases al) (simp_all add: align_floating_to_panel_def Let_def)

lemma fl_id_drag_edge [simp]: "fl_id (drag_edge p e delta panel) = fl_id p"
  by (cases e) (simp_all add: drag_edge_def Let_def)

lemma fl_id_dragged [simp]: "fl_id (dragged_bounds p oper delta panel) = fl_id p"
  by (cases oper) (simp_all add: dragged_bounds_def Let_def)

lemma pane_bounds_id: "pane_bounds_in_panel w i viewport = Some p \<Longrightarrow> fl_id p = i"
  by (auto simp: pane_bounds_in_panel_def workspace_maximized_pane_def Let_def find_Some_iff
      split: if_splits option.splits)

lemma tiled_remove: "tiled_ids (layout_remove n i) = filter (\<lambda>j. j \<noteq> i) (pane_ids n)"
  using layout_remove_ids [of n i] by (simp add: tiled_ids_def)

lemma layout_remove_layout_ratios: "ratios_ok n \<Longrightarrow> layout_ratios (layout_remove n i)"
  using layout_remove_ratios [of n i] by (simp add: layout_ratios_def)

lemma hd_pane_ids: "hd (pane_ids n) \<in> set (pane_ids n)"
  by simp

lemma mset_split_at:
  "t \<in> set (pane_ids n) \<Longrightarrow>
     mset (pane_ids (snd (layout_split_at n t k ax b))) = add_mset k (mset (pane_ids n))"
  by (simp add: layout_split_at_ids mset_insert_beside)

lemma mset_tile_beside_first:
  "mset (pane_ids (tile_beside_first i l)) = add_mset i (mset (tiled_ids l))"
  by (simp add: tile_beside_first_def layout_split_def mset_split_at split: option.split)

lemma tile_beside_first_ratios: "layout_ratios l \<Longrightarrow> ratios_ok (tile_beside_first i l)"
  by (cases l) (simp_all add: tile_beside_first_def layout_split_def layout_split_at_ratios)

lemma drop_placement_pane:
  assumes "drop_placement n point = Some (t, ax, b)"
  shows "t \<in> set (pane_ids n)"
proof -
  obtain e where "List.find (\<lambda>(_, r). f32_le (rect_x r) (fst point)
                  \<and> f32_le (fst point) (f32_add (rect_x r) (rect_width r))
                  \<and> f32_le (rect_y r) (snd point)
                  \<and> f32_le (snd point) (f32_add (rect_y r) (rect_height r)))
          (layout_rects n) = Some e" and "t = fst e"
    using assms unfolding drop_placement_def by (auto simp: Let_def split: if_splits prod.splits)
  then have "t \<in> fst ` set (layout_rects n)" using find_Some_mem by fastforce
  then show ?thesis unfolding layout_rects_ids [symmetric] by simp
qed

lemma mset_drop_pane: "mset (pane_ids (drop_pane i point l)) = add_mset i (mset (tiled_ids l))"
proof (cases l)
  case (Some n)
  then show ?thesis
  proof (cases "drop_placement n point")
    case None
    then show ?thesis using Some by (simp add: drop_pane_def layout_split_def mset_split_at)
  next
    case (Some p)
    obtain t ax b where "p = (t, ax, b)" by (cases p)
    then show ?thesis
      using Some \<open>l = Some n\<close> drop_placement_pane [of n point t ax b]
      by (simp add: drop_pane_def mset_split_at)
  qed
qed (simp add: drop_pane_def)

lemma drop_pane_ratios: "layout_ratios l \<Longrightarrow> ratios_ok (drop_pane i point l)"
  by (cases l) (simp_all add: drop_pane_def layout_split_def layout_split_at_ratios split: option.split)

section \<open>Capturing\<close>

lemma saved_ids_encode [simp]: "saved_ids (encode_tree n) = pane_ids n"
  by (induction n) auto

lemma saved_tree_ok_encode [simp]: "saved_tree_ok (encode_tree n) = ratios_ok n"
  by (induction n) auto

definition kept_ids :: "(nat, saved_pane) smap \<Rightarrow> nat list \<Rightarrow> nat list" where
  "kept_ids panes ids = filter (\<lambda>i. get panes i \<noteq> None) ids"

lemma prune_tree_ids:
  "(case prune_tree t panes of None \<Rightarrow> [] | Some t' \<Rightarrow> saved_ids t') = kept_ids panes (saved_ids t)"
  unfolding kept_ids_def
proof (induction t)
  case (Saved_split h r f s)
  then show ?case
    by (cases "prune_tree f panes"; cases "prune_tree s panes") simp_all
qed simp

lemma prune_tree_ok:
  "saved_tree_ok t \<Longrightarrow> (case prune_tree t panes of None \<Rightarrow> True | Some t' \<Rightarrow> saved_tree_ok t')"
proof (induction t)
  case (Saved_split h r f s)
  then show ?case
    by (cases "prune_tree f panes"; cases "prune_tree s panes") simp_all
qed simp

definition bound_panes :: "arrangement \<Rightarrow> (nat, saved_pane) smap" where
  "bound_panes a = filter (\<lambda>(_, p). sp_shell p \<noteq> None) (ar_panes a)"

lemma smap_ok_filter: "smap_ok m \<Longrightarrow> smap_ok (filter P m)"
  by (simp add: smap_ok_def) (metis sorted_wrt_filter sorted_wrt_map)

lemma discard_fields:
  "ar_panes (discard_unbound_panes a) = bound_panes a"
  "arrangement_panes (discard_unbound_panes a) = kept_ids (bound_panes a) (arrangement_panes a)"
  "ar_canvas (discard_unbound_panes a) = ar_canvas a"
proof -
  have "(case Option.bind (ar_tree a) (\<lambda>t. prune_tree t (bound_panes a)) of
           None \<Rightarrow> [] | Some t \<Rightarrow> saved_ids t) =
        kept_ids (bound_panes a) (case ar_tree a of None \<Rightarrow> [] | Some t \<Rightarrow> saved_ids t)"
    using prune_tree_ids by (cases "ar_tree a") (auto simp: kept_ids_def)
  then show "arrangement_panes (discard_unbound_panes a) = kept_ids (bound_panes a) (arrangement_panes a)"
    by (simp add: discard_unbound_panes_def Let_def arrangement_panes_def kept_ids_def filter_map
        bound_panes_def comp_def)
qed (simp_all add: discard_unbound_panes_def Let_def bound_panes_def)

lemma discard_ok: "arrangement_ok a \<Longrightarrow> arrangement_ok (discard_unbound_panes a)"
  unfolding arrangement_ok_def discard_fields
proof (intro conjI)
  assume a: "smap_ok (ar_panes a) \<and> distinct (arrangement_panes a)
      \<and> (case ar_tree a of None \<Rightarrow> True | Some t \<Rightarrow> saved_tree_ok t)"
  then show "smap_ok (bound_panes a)" "distinct (kept_ids (bound_panes a) (arrangement_panes a))"
    by (simp_all add: bound_panes_def smap_ok_filter kept_ids_def)
  show "case ar_tree (discard_unbound_panes a) of None \<Rightarrow> True | Some t \<Rightarrow> saved_tree_ok t"
    using a prune_tree_ok
    by (cases "ar_tree a") (simp_all add: discard_unbound_panes_def Let_def)
qed

lemma fold_put_ok:
  "smap_ok m \<Longrightarrow> smap_ok (fold (\<lambda>i m. case f i of None \<Rightarrow> m | Some p \<Rightarrow> put i (g p) m) ids m)"
  by (induction ids arbitrary: m) (auto split: option.split)

lemma live_arrangement_ok: "desk_ok w \<Longrightarrow> arrangement_ok (live_arrangement w)"
proof -
  assume w: "desk_ok w"
  have "arrangement_panes (live_arrangement w) = visible w"
    by (cases "dw_layout w")
       (simp_all add: live_arrangement_def Let_def arrangement_panes_def visible_def comp_def)
  then show ?thesis
    using w unfolding arrangement_ok_def live_arrangement_def Let_def desk_ok_def
    by (cases "dw_layout w") (simp_all add: fold_put_ok)
qed

lemma objects_put: "set (objects (put k v m)) \<subseteq> insert v (set (objects m))"
  by (induction k v m rule: put.induct) auto

lemma saved_ok_put:
  "\<lbrakk> saved_ok d; arrangement_ok a; ld_arrangements d' = put k a (ld_arrangements d) \<rbrakk> \<Longrightarrow> saved_ok d'"
  unfolding saved_ok_def by (metis insertE objects_put smap_ok_put subsetD)

lemma captured_document_ok: "desk_ok w \<Longrightarrow> saved_ok (captured_document w)"
  by (rule saved_ok_put [of "dw_document w" "discard_unbound_panes (live_arrangement w)" _ "capture_key w"])
     (auto simp: captured_document_def desk_ok_def intro!: discard_ok live_arrangement_ok)

lemma desk_ok_document: "\<lbrakk> desk_ok w; saved_ok d \<rbrakk> \<Longrightarrow> desk_ok (w\<lparr>dw_document := d\<rparr>)"
  by (simp add: desk_ok_def view_defs)

lemma capture_frames:
  shows "desk_ok w \<Longrightarrow> desk_ok (snd (capture_arrangement w))"
    and "drag_ok (snd (capture_arrangement w)) = drag_ok w"
    and "visible (snd (capture_arrangement w)) = visible w"
    and "dw_terminals (snd (capture_arrangement w)) = dw_terminals w"
    and "dw_next_id (snd (capture_arrangement w)) = dw_next_id w"
    and "dw_drag (snd (capture_arrangement w)) = dw_drag w"
    and "dw_layout (snd (capture_arrangement w)) = dw_layout w"
    and "dw_floating (snd (capture_arrangement w)) = dw_floating w"
  by (auto simp: capture_arrangement_def drag_ok_def visible_def
      intro!: desk_ok_document captured_document_ok)

section \<open>Cycling\<close>

text \<open>Cycling one way and then the other comes back to the same pane.\<close>

lemma cycled_pane_returns:
  assumes "distinct ids" and "i \<in> set ids"
  obtains j where "cycled_pane_id ids i backwards = Some j" "cycled_pane_id ids j (\<not> backwards) = Some i"
proof -
  obtain k where k: "k < length ids" "i = ids ! k" using assms(2) by (auto simp: in_set_conv_nth)
  have at: "position (\<lambda>j. j = ids ! n) ids = Some n" if "n < length ids" for n
  proof (cases "position (\<lambda>j. j = ids ! n) ids")
    case None
    then show ?thesis using that by (auto simp: position_None_iff)
  next
    case (Some m)
    then show ?thesis using position_SomeD [OF Some] that nth_eq_iff_index_eq [OF assms(1)] by auto
  qed
  define turn where "turn b n = (if b then if n = 0 then length ids - 1 else n - 1 else (n + 1) mod length ids)" for b n
  have eval: "cycled_pane_id ids (ids ! n) b = Some (ids ! turn b n)" if "n < length ids" for b n
    using at [OF that] that by (auto simp: cycled_pane_id_def turn_def)
  have "ids \<noteq> []" using k(1) by auto
  then have "turn backwards k < length ids" using k(1) by (auto simp: turn_def)
  moreover have "turn (\<not> backwards) (turn backwards k) = k"
    using k(1) by (cases "k + 1 = length ids") (auto simp: turn_def)
  ultimately show thesis
    using that [of "ids ! turn backwards k"] eval [OF k(1), of backwards] eval [of _ "\<not> backwards"] k(2) by metis
qed

end
