(* ===== verification/Desktop_Steps.thy ===== *)
theory Desktop_Steps
  imports Desktop_Invariant
begin

text \<open>
  Every operation on the panes of the Desktop window keeps the invariant.  Operations that change
  which panes there are do so only while no pointer drag is in progress; what happens otherwise is
  the subject of \<open>Desktop_Props\<close>.
\<close>

definition desk_inv :: "desktop \<Rightarrow> bool" where
  "desk_inv w = (desk_ok w \<and> drag_ok w)"

section \<open>Adding panes\<close>

definition add_pane :: "desktop \<Rightarrow> desktop" where
  "add_pane w = (case insert_pane (w\<lparr>dw_fullscreen := None\<rparr>) of (i, w') \<Rightarrow> w'\<lparr>dw_focused := i\<rparr>)"

text \<open>A setup terminal opens as an overlay: the arrangement is captured first, and the pane floats.\<close>

definition add_setup_pane :: "f32 \<times> f32 \<Rightarrow> desktop \<Rightarrow> desktop" where
  "add_setup_pane viewport w0 =
     (let w = snd (capture_arrangement w0); i = dw_next_id w;
          w1 = w\<lparr>dw_next_id := i + 1,
                 dw_terminals := put i (default_pane\<lparr>tp_temporary_setup := True\<rparr>) (dw_terminals w)\<rparr>
      in w1\<lparr>dw_floating := dw_floating w1 @ [centered_floating_pane i (panel_size w1 viewport) (dw_pane_gap w1)],
            dw_focused := i\<rparr>)"

lemma desk_ok_fresh:
  assumes w: "desk_ok w" "dw_next_id w < usize_max"
    and new: "dw_next_id w' = dw_next_id w + 1"
      "dw_terminals w' = put (dw_next_id w) p (dw_terminals w)"
      "mset (visible w') = add_mset (dw_next_id w) (mset (visible w))" "layout_ratios (dw_layout w')"
    and same: "dw_minimizing w' = dw_minimizing w" "dw_transition w' = dw_transition w"
      "dw_sidebar_width w' = dw_sidebar_width w" "dw_document w' = dw_document w"
  shows "desk_ok w'"
proof -
  let ?i = "dw_next_id w"
  have fresh: "?i \<notin> set (visible w)" "?i \<notin> terminal_ids w" "?i \<notin> minimizing_ids w" "?i \<notin> outgoing_ids w"
    using w unfolding desk_ok_def by auto
  note m = new(3) [unfolded mset.simps(2) [symmetric]]
  have "set (visible w') = insert ?i (set (visible w))" using mset_eq_setD [OF m] by simp
  moreover have "distinct (visible w')"
    using mset_eq_imp_distinct_iff [OF m] fresh w(1) by (simp add: desk_ok_def)
  moreover have "minimizing_ids w' = minimizing_ids w" "outgoing_ids w' = outgoing_ids w"
    by (simp_all add: minimizing_ids_def outgoing_ids_def same)
  moreover have "terminal_ids w' = insert ?i (terminal_ids w)"
    by (simp add: new fst_put)
  ultimately show ?thesis
    using w fresh new(1,4) same unfolding desk_ok_def by (auto simp: new(2) less_Suc_eq)
qed

lemma insert_pane_tree:
  "mset (tiled_ids (dw_layout (snd (insert_pane w)))) =
     add_mset (dw_next_id w) (mset (tiled_ids (dw_layout w)))"
  "layout_ratios (dw_layout w) \<Longrightarrow> layout_ratios (dw_layout (snd (insert_pane w)))"
  by (cases "dw_layout w";
      simp add: insert_pane_def Let_def layout_split_def mset_split_at layout_contains_iff
        layout_split_at_ratios)+

lemma insert_pane_fields [simp]:
  "fst (insert_pane w) = dw_next_id w"
  "dw_next_id (snd (insert_pane w)) = dw_next_id w + 1"
  "dw_terminals (snd (insert_pane w)) = put (dw_next_id w) default_pane (dw_terminals w)"
  "dw_floating (snd (insert_pane w)) = dw_floating w"
  "dw_drag (snd (insert_pane w)) = dw_drag w"
  "dw_minimizing (snd (insert_pane w)) = dw_minimizing w"
  "dw_transition (snd (insert_pane w)) = dw_transition w"
  "dw_sidebar_width (snd (insert_pane w)) = dw_sidebar_width w"
  "dw_document (snd (insert_pane w)) = dw_document w"
  by (simp_all add: insert_pane_def Let_def)

lemma insert_pane_ok:
  assumes "desk_ok w" "dw_next_id w < usize_max"
  shows "desk_ok (snd (insert_pane w))"
  using assms insert_pane_tree [of w]
  by (intro desk_ok_fresh [OF assms]) (simp_all add: visible_def desk_ok_def)

lemma add_pane_inv:
  assumes "desk_inv w" "dw_drag w = None" "dw_next_id w < usize_max"
  shows "desk_inv (add_pane w)"
proof -
  have "desk_ok (snd (insert_pane (w\<lparr>dw_fullscreen := None\<rparr>)))"
    using assms by (intro insert_pane_ok) (simp_all add: desk_inv_def)
  then show ?thesis
    using assms(2) by (simp add: desk_inv_def add_pane_def case_prod_unfold drag_none)
qed

lemma add_setup_pane_inv:
  assumes "desk_inv w" "dw_drag w = None" "dw_next_id w < usize_max"
  shows "desk_inv (add_setup_pane viewport w)"
proof -
  let ?w = "snd (capture_arrangement w)"
  have ok: "desk_ok ?w" "dw_next_id ?w < usize_max" and "dw_drag ?w = None"
    using assms by (simp_all add: desk_inv_def capture_frames)
  then have "desk_ok (add_setup_pane viewport w)"
    by (intro desk_ok_fresh [OF ok]) (simp_all add: add_setup_pane_def Let_def visible_def desk_ok_def)
  then show ?thesis
    using \<open>dw_drag ?w = None\<close> by (simp add: desk_inv_def add_setup_pane_def Let_def drag_none)
qed

section \<open>Removing panes\<close>

lemma focus_after_removal_ok [simp]: "desk_ok (focus_after_removal w) = desk_ok w"
  by (simp add: focus_after_removal_def split: option.split)

lemma focus_after_removal_drag [simp]:
  "dw_drag (focus_after_removal w) = dw_drag w" "visible (focus_after_removal w) = visible w"
  "dw_minimizing (focus_after_removal w) = dw_minimizing w"
  "dw_terminals (focus_after_removal w) = dw_terminals w"
  by (simp_all add: focus_after_removal_def visible_def split: option.split)

lemma distinct_map_remove_at: "distinct (map f xs) \<Longrightarrow> distinct (map f (remove_at i xs))"
  by (simp add: map_remove_at distinct_remove_at)

lemma set_map_remove_at: "set (map f (remove_at i xs)) \<subseteq> set (map f xs)"
  using set_remove_at by fastforce

lemma set_remove_at_distinct:
  assumes "distinct xs" "i < length xs"
  shows "set (remove_at i xs) = set xs - {xs ! i}"
  using assms split_at [OF assms(2)] unfolding remove_at_def
  by (metis Diff_insert_absorb Un_insert_right distinct.simps(2) distinct_append disjoint_insert(1)
      insert_Diff_single list.simps(15) set_append Un_iff not_distinct_conv_prefix)

lemma take_pane_out_ok:
  assumes "desk_ok w"
  shows "desk_ok (take_pane_out i w)" and "set (visible (take_pane_out i w)) = set (visible w) - {i}"
proof -
  have dist: "distinct (visible w)" and ratios: "layout_ratios (dw_layout w)"
    using assms by (simp_all add: desk_ok_def)
  have "desk_ok (take_pane_out i w) \<and> set (visible (take_pane_out i w)) = set (visible w) - {i}"
  proof (cases "position (\<lambda>p. fl_id p = i) (dw_floating w)")
    case (Some k)
    let ?w = "w\<lparr>dw_floating := remove_at k (dw_floating w)\<rparr>"
    have k: "k < length (dw_floating w)" "fl_id (dw_floating w ! k) = i"
      using position_SomeD [OF Some] by blast+
    have "set (map fl_id (remove_at k (dw_floating w))) = set (map fl_id (dw_floating w)) - {i}"
      using set_remove_at_distinct [of "map fl_id (dw_floating w)" k] dist k
      by (simp add: map_remove_at [symmetric] visible_def)
    moreover have "i \<notin> set (tiled_ids (dw_layout w))"
      using dist k nth_mem [OF k(1)] by (auto simp: visible_def)
    ultimately have v: "set (visible ?w) = set (visible w) - {i}"
      by (auto simp: visible_def)
    have "distinct (visible ?w)"
      using dist set_map_remove_at [of fl_id k "dw_floating w"]
      by (auto simp: visible_def distinct_map_remove_at)
    then have "desk_ok ?w"
      using v ratios by (intro desk_ok_fewer [OF assms]) (auto simp: same_rest_def)
    then show ?thesis using v Some by (simp add: take_pane_out_def)
  next
    case None
    then have absent: "i \<notin> fl_id ` set (dw_floating w)" by (auto simp: position_None_iff)
    show ?thesis
    proof (cases "i \<in> set (tiled_ids (dw_layout w))")
      case True
      then obtain n where n: "dw_layout w = Some n" "i \<in> set (pane_ids n)"
        by (cases "dw_layout w") auto
      let ?w = "w\<lparr>dw_layout := layout_remove n i\<rparr>"
      have v: "set (visible ?w) = set (visible w) - {i}"
        using absent n by (auto simp: visible_def tiled_remove)
      moreover have "distinct (visible ?w)"
        using dist n by (auto simp: visible_def tiled_remove)
      ultimately have "desk_ok ?w"
        using ratios n layout_remove_layout_ratios [of n i]
        by (intro desk_ok_fewer [OF assms]) (auto simp: same_rest_def)
      then show ?thesis using v None n by (simp add: take_pane_out_def layout_contains_iff)
    next
      case False
      then show ?thesis
        using assms absent None
        by (auto simp: take_pane_out_def layout_contains_iff visible_def split: option.split)
    qed
  qed
  then show "desk_ok (take_pane_out i w)" "set (visible (take_pane_out i w)) = set (visible w) - {i}"
    by blast+
qed

lemma take_pane_out_fields [simp]:
  "dw_drag (take_pane_out i w) = dw_drag w" "dw_minimizing (take_pane_out i w) = dw_minimizing w"
  "dw_terminals (take_pane_out i w) = dw_terminals w" "dw_transition (take_pane_out i w) = dw_transition w"
  "dw_next_id (take_pane_out i w) = dw_next_id w"
  by (simp_all add: take_pane_out_def focus_after_removal_def split: option.split)

text \<open>A terminal that is not shown goes away.\<close>

lemma desk_ok_del_terminal:
  assumes "desk_ok w" "i \<notin> set (visible w)"
  shows "desk_ok (w\<lparr>dw_terminals := del i (dw_terminals w)\<rparr>)"
proof -
  have smap: "smap_ok (dw_terminals w)" using assms(1) by (simp add: desk_ok_def)
  have "fst ` set (del i (dw_terminals w)) = terminal_ids w - {i}"
    using get_del [OF smap, of i] dom_map_of_conv_image_fst [of "del i (dw_terminals w)"]
      dom_map_of_conv_image_fst [of "dw_terminals w"] by auto
  then show ?thesis
    using assms smap by (auto simp: desk_ok_def view_defs)
qed

lemma finish_minimize_pane_ok:
  "\<lbrakk> desk_ok w; i \<notin> set (visible w) \<rbrakk> \<Longrightarrow> desk_ok (finish_minimize_pane i w)"
  by (auto simp: finish_minimize_pane_def minimize_shell_def intro: desk_ok_del_terminal split: option.split)

lemma finish_minimize_pane_drag [simp]: "drag_ok (finish_minimize_pane i w) = drag_ok w"
  by (simp add: finish_minimize_pane_def minimize_shell_def drag_ok_def split: option.split)

lemma clamp_for_tabs_ok [simp]: "desk_ok (clamp_for_tabs viewport w) = desk_ok w"
  by (simp add: clamp_for_tabs_def clamp_all_floating_def desk_ok_def view_defs comp_def image_image)

lemma clamp_for_tabs_drag [simp]: "drag_ok (clamp_for_tabs viewport w) = drag_ok w"
  by (simp add: clamp_for_tabs_def clamp_all_floating_def drag_ok_def drag_fits_def image_image
      split: option.split pointer_subject.split)

lemma desk_ok_minimizing:
  assumes "desk_ok w" "ma_pane a \<notin> set (visible w)" "ma_pane a \<notin> outgoing_ids w" "ma_pane a < dw_next_id w"
    "fl_id (ma_from a) = ma_pane a"
  shows "desk_ok (w\<lparr>dw_animation_generation := g, dw_minimizing := dw_minimizing w @ [a]\<rparr>)"
proof -
  let ?w = "w\<lparr>dw_animation_generation := g, dw_minimizing := dw_minimizing w @ [a]\<rparr>"
  have "visible ?w = visible w" "minimizing_ids ?w = insert (ma_pane a) (minimizing_ids w)"
    "outgoing_ids ?w = outgoing_ids w"
    using assms(5) by (simp_all add: view_defs)
  then show ?thesis using assms unfolding desk_ok_def by auto
qed

lemma minimize_pane_inv:
  assumes "desk_inv w" "dw_drag w = None" "i \<in> set (visible w)"
  shows "desk_inv (minimize_pane i viewport w)"
proof (cases "list_ex (\<lambda>a. ma_pane a = i) (dw_minimizing w)")
  case True
  then show ?thesis using assms by (simp add: minimize_pane_def)
next
  case False
  define w1 where "w1 = minimize_shell (Option.bind (get (dw_terminals w) i) pane_shell_id) w"
  define w2 where "w2 = (if dw_fullscreen w1 = Some i then w1\<lparr>dw_fullscreen := None\<rparr> else w1)"
  define w4 where "w4 = (if dw_layout w1 \<noteq> None then bump_animation (take_pane_out i w2) else take_pane_out i w2)"
  have "desk_ok w1" "visible w1 = visible w" "dw_drag w1 = None"
    using assms by (simp_all add: w1_def minimize_shell_def desk_inv_def visible_def split: option.split)
  then have w2: "desk_ok w2" "visible w2 = visible w" "dw_drag w2 = None"
    by (simp_all add: w2_def visible_def)
  have w4: "desk_ok w4" "set (visible w4) = set (visible w) - {i}" "dw_drag w4 = None"
    "dw_terminals w4 = dw_terminals w" "dw_next_id w4 = dw_next_id w" "dw_transition w4 = dw_transition w"
    using take_pane_out_ok [OF w2(1), of i] w2
    by (simp_all add: w4_def w2_def w1_def minimize_shell_def visible_def split: option.split)
  have finish: "desk_ok (finish_minimize_pane i w4)"
    using w4 by (intro finish_minimize_pane_ok) auto
  have "i < dw_next_id w4" "i \<notin> outgoing_ids w4" "i \<notin> set (visible w4)"
    using assms w4 by (auto simp: desk_inv_def desk_ok_def outgoing_ids_def)
  then have queued: "desk_ok (w4\<lparr>dw_animation_generation := g, dw_minimizing := dw_minimizing w4 @ [a]\<rparr>)"
    if "ma_pane a = i" "fl_id (ma_from a) = i" for g a
    using w4(1) that by (intro desk_ok_minimizing) auto
  show ?thesis
    using False finish queued w4(3) pane_bounds_id [of w1 i viewport]
    unfolding minimize_pane_def Let_def w1_def [symmetric] w2_def [symmetric] w4_def [symmetric]
    by (auto simp: desk_inv_def drag_none split: option.split)
qed

lemma finish_minimize_animation_inv:
  assumes "desk_inv w"
  shows "desk_inv (finish_minimize_animation i g viewport w)"
proof (cases "position (\<lambda>a. ma_pane a = i \<and> ma_generation a = g) (dw_minimizing w)")
  case (Some k)
  let ?w = "w\<lparr>dw_minimizing := remove_at k (dw_minimizing w)\<rparr>"
  have "i \<in> minimizing_ids w"
    using position_Some_mem [OF Some] by (auto simp: minimizing_ids_def)
  then have i: "i \<notin> set (visible ?w)"
    using assms by (auto simp: desk_inv_def desk_ok_def visible_def)
  have "minimizing_ids ?w \<subseteq> minimizing_ids w"
    using set_remove_at [of k "dw_minimizing w"] by (auto simp: minimizing_ids_def)
  then have "desk_ok ?w"
    using assms unfolding desk_inv_def desk_ok_def visible_def outgoing_ids_def by auto
  then have "desk_ok (finish_minimize_pane i ?w)" using i by (rule finish_minimize_pane_ok)
  moreover have "drag_ok ?w" using assms by (simp add: desk_inv_def drag_ok_def)
  ultimately show ?thesis using Some by (simp add: finish_minimize_animation_def desk_inv_def)
next
  case None
  then show ?thesis using assms by (simp add: finish_minimize_animation_def)
qed

lemma remove_one_pane_ok:
  assumes "desk_ok w"
  shows "desk_ok (remove_one_pane i w)"
proof -
  let ?w = "w\<lparr>dw_floating := filter (\<lambda>p. fl_id p \<noteq> i) (dw_floating w),
              dw_layout := Option.bind (dw_layout w) (\<lambda>n. layout_remove n i)\<rparr>"
  have tiled: "tiled_ids (dw_layout ?w) = filter (\<lambda>j. j \<noteq> i) (tiled_ids (dw_layout w))"
    by (cases "dw_layout w") (simp_all add: tiled_remove)
  then have v: "visible ?w = filter (\<lambda>j. j \<noteq> i) (visible w)"
    by (simp add: visible_def filter_map comp_def)
  have "layout_ratios (dw_layout ?w)"
    using assms layout_remove_layout_ratios by (cases "dw_layout w") (auto simp: desk_ok_def)
  then have "desk_ok ?w"
    using assms v by (intro desk_ok_fewer [OF assms]) (auto simp: same_rest_def desk_ok_def)
  then have "desk_ok (?w\<lparr>dw_terminals := del i (dw_terminals ?w)\<rparr>)"
    using v by (intro desk_ok_del_terminal) auto
  then show ?thesis
    by (simp add: remove_one_pane_def desk_ok_def view_defs)
qed

lemma remove_panes_ok: "desk_ok w \<Longrightarrow> desk_ok (fold remove_one_pane ids w)"
  by (induction ids arbitrary: w) (auto intro: remove_one_pane_ok)

lemma remove_panes_drag [simp]: "dw_drag (fold remove_one_pane ids w) = dw_drag w"
  by (induction ids arbitrary: w) (auto simp: remove_one_pane_def)

lemma desk_ok_fewer_minimizing:
  assumes "desk_ok w"
  shows "desk_ok (w\<lparr>dw_minimizing := filter P (dw_minimizing w)\<rparr>)"
proof -
  let ?w = "w\<lparr>dw_minimizing := filter P (dw_minimizing w)\<rparr>"
  have "visible ?w = visible w" "minimizing_ids ?w \<subseteq> minimizing_ids w" "outgoing_ids ?w = outgoing_ids w"
    by (auto simp: view_defs)
  then show ?thesis using assms unfolding desk_ok_def by auto
qed

lemma remove_resource_panes_inv:
  assumes "desk_inv w" "dw_drag w = None"
  shows "desk_inv (remove_resource_panes target w)"
proof -
  define ids where "ids = map fst (filter (\<lambda>(_, p). resource_matches target p) (dw_terminals w))"
  have "desk_ok (fold remove_one_pane ids w)"
    using assms by (simp add: desk_inv_def remove_panes_ok)
  then have "desk_ok (fold remove_one_pane ids w\<lparr>dw_minimizing :=
      filter (\<lambda>a. ma_pane a \<notin> set ids) (dw_minimizing (fold remove_one_pane ids w))\<rparr>)"
    by (rule desk_ok_fewer_minimizing)
  then show ?thesis
    using assms(2) unfolding remove_resource_panes_def Let_def ids_def [symmetric]
    by (simp add: desk_inv_def drag_none)
qed

lemma detach_all_panes_ok: "desk_ok w \<Longrightarrow> desk_ok (detach_all_panes w)"
  using capture_frames(1) [of w]
  by (simp add: detach_all_panes_def desk_ok_def view_defs capture_frames(5))

lemma detach_all_panes_inv: "desk_inv w \<Longrightarrow> desk_inv (detach_all_panes w)"
  by (simp add: desk_inv_def detach_all_panes_ok drag_none) (simp add: detach_all_panes_def drag_ok_def)

section \<open>Rearranging\<close>

lemma rearranged_inv:
  assumes "desk_inv w" "dw_drag w' = None" "same_rest w w'" "mset (visible w') = mset (visible w)"
    "layout_ratios (dw_layout w')"
  shows "desk_inv w'"
  using assms desk_ok_rearranged [of w w'] by (simp add: desk_inv_def drag_none)

lemma mset_remove_at:
  "i < length xs \<Longrightarrow> mset xs = add_mset (xs ! i) (mset (remove_at i xs))"
  using split_at [of i xs] by (simp add: remove_at_def) (metis mset.simps(2) mset_append union_mset_add_mset_right)

lemma lift_tiled_pane_Some:
  assumes "lift_tiled_pane i viewport w = (Some p, w')"
  obtains n where "dw_layout w = Some n" "i \<in> set (pane_ids n)" "fl_id p = i"
    "w' = bump_animation (w\<lparr>dw_layout := layout_remove n i, dw_floating := dw_floating w @ [p]\<rparr>)"
proof -
  obtain n where n: "dw_layout w = Some n"
    using assms by (cases "dw_layout w") (auto simp: lift_tiled_pane_def)
  obtain e where e: "List.find (\<lambda>(i', _). i' = i) (layout_rects n) = Some e"
    using assms n by (cases "List.find (\<lambda>(i', _). i' = i) (layout_rects n)") (auto simp: lift_tiled_pane_def)
  have "i \<in> fst ` set (layout_rects n)"
    using find_Some_mem [OF e] by force
  then have "i \<in> set (pane_ids n)" unfolding layout_rects_ids [symmetric] by simp
  moreover have "fl_id p = i"
    "w' = bump_animation (w\<lparr>dw_layout := layout_remove n i, dw_floating := dw_floating w @ [p]\<rparr>)"
    using assms n e by (auto simp: lift_tiled_pane_def Let_def split: prod.splits)
  ultimately show thesis using that n by blast
qed

lemma mset_filter_single:
  "\<lbrakk> distinct xs; x \<in> set xs \<rbrakk> \<Longrightarrow> mset xs = add_mset x (mset (filter (\<lambda>y. y \<noteq> x) xs))"
proof -
  assume xs: "distinct xs" "x \<in> set xs"
  have "filter (\<lambda>y. y \<noteq> x) xs = remove1 x xs"
    using xs(1) by (simp add: distinct_remove1_removeAll removeAll_filter_not_eq eq_commute)
  then show ?thesis using xs(2) by (simp del: mset_filter)
qed

lemma lift_tiled_pane_view:
  assumes "desk_ok w" "lift_tiled_pane i viewport w = (Some p, w')"
  shows "mset (visible w') = mset (visible w)" "layout_ratios (dw_layout w')" "same_rest w w'"
    "dw_drag w' = dw_drag w" "fl_id p = i" "i \<in> fl_id ` set (dw_floating w')"
proof -
  from lift_tiled_pane_Some [OF assms(2)]
  obtain n where n: "dw_layout w = Some n" "i \<in> set (pane_ids n)" "fl_id p = i"
    "w' = bump_animation (w\<lparr>dw_layout := layout_remove n i, dw_floating := dw_floating w @ [p]\<rparr>)" .
  then show "layout_ratios (dw_layout w')" "dw_drag w' = dw_drag w" "fl_id p = i"
    "i \<in> fl_id ` set (dw_floating w')"
    using assms(1) layout_remove_layout_ratios [of n i] by (auto simp: desk_ok_def)
  show "same_rest w w'" using n by (simp add: same_rest_def)
  have "distinct (pane_ids n)" using assms(1) n by (simp add: desk_ok_def visible_def)
  from mset_filter_single [OF this n(2)] show "mset (visible w') = mset (visible w)"
    using n by (simp add: visible_def tiled_remove)
qed

lemma lift_tiled_pane_None: "lift_tiled_pane i viewport w = (None, w') \<Longrightarrow> w' = w"
  by (auto simp: lift_tiled_pane_def Let_def split: option.splits)

lemma toggle_floating_inv:
  assumes "desk_inv w" "dw_drag w = None"
  shows "desk_inv (toggle_floating viewport w)"
proof (cases "position (\<lambda>p. fl_id p = dw_focused w) (dw_floating w)")
  case (Some k)
  let ?w = "w\<lparr>dw_floating := remove_at k (dw_floating w),
              dw_layout := Some (tile_beside_first (fl_id (dw_floating w ! k)) (dw_layout w))\<rparr>"
  have "k < length (dw_floating w)" using position_SomeD [OF Some] by blast
  then have "mset (map fl_id (dw_floating w)) =
      add_mset (fl_id (dw_floating w ! k)) (mset (map fl_id (remove_at k (dw_floating w))))"
    using mset_remove_at [of k "map fl_id (dw_floating w)"] by (simp add: map_remove_at)
  then have "desk_inv ?w"
    using assms by (intro rearranged_inv [OF assms(1)])
      (auto simp: visible_def mset_tile_beside_first same_rest_def desk_inv_def desk_ok_def tile_beside_first_ratios)
  then show ?thesis
    using Some by (simp add: toggle_floating_def desk_inv_def)
next
  case None
  show ?thesis
  proof (cases "case dw_layout w of None \<Rightarrow> False | Some n \<Rightarrow> layout_contains n (dw_focused w)")
    case True
    show ?thesis
    proof (cases "lift_tiled_pane (dw_focused w) viewport w")
      case (Pair r w')
      show ?thesis
      proof (cases r)
        case None
        then have "lift_tiled_pane (dw_focused w) viewport w = (None, w)"
          using Pair lift_tiled_pane_None by simp
        then show ?thesis
          using True \<open>position _ _ = None\<close> assms by (simp add: toggle_floating_def desk_inv_def)
      next
        case (Some p)
        note v = lift_tiled_pane_view [of w "dw_focused w" viewport p w']
        let ?w = "w'\<lparr>dw_floating := update_first (\<lambda>p. fl_id p = dw_focused w)
            (\<lambda>_. centered_floating_pane (dw_focused w) (panel_size w' viewport) (dw_pane_gap w'))
            (dw_floating w')\<rparr>"
        have ids: "map fl_id (dw_floating ?w) = map fl_id (dw_floating w')"
          by (simp, rule map_update_first_id) simp
        have "desk_inv ?w"
          using v Pair Some assms ids
          by (intro rearranged_inv [OF assms(1)]) (auto simp: desk_inv_def same_rest_def visible_def)
        then show ?thesis
          using Pair Some True None by (simp add: toggle_floating_def Let_def desk_inv_def)
      qed
    qed
  next
    case False
    then show ?thesis using None assms by (simp add: toggle_floating_def desk_inv_def)
  qed
qed

lemma toggle_fullscreen_inv: "desk_inv w \<Longrightarrow> desk_inv (toggle_fullscreen busy w)"
  by (simp add: toggle_fullscreen_def desk_inv_def Let_def split: option.split)

lemma desk_below: "\<lbrakk> desk_ok w; i \<in> set (visible w) \<rbrakk> \<Longrightarrow> i < dw_next_id w"
  unfolding desk_ok_def by auto

lemma swap_layout_direction_ok:
  assumes "desk_ok w" "dw_layout w = Some n" "swap_layout_direction n i d = Some n'"
  shows "mset (pane_ids n') = mset (pane_ids n)" "ratios_ok n'"
proof -
  obtain j where j: "layout_neighbor n i d = Some j" "n' = swap_panes n i j"
    using assms(3) by (auto simp: swap_layout_direction_def)
  have "distinct (pane_ids n)" "ratios_ok n" "\<forall>k \<in> set (pane_ids n). k < usize_max"
    using assms(1,2) desk_below [OF assms(1)] by (fastforce simp: desk_ok_def visible_def)+
  then show "mset (pane_ids n') = mset (pane_ids n)" "ratios_ok n'"
    using layout_neighbor_pane [OF j(1)] unfolding j(2)
    by (auto intro!: swap_panes_mset swap_panes_ratios)
qed

lemma floating_updated_inv:
  assumes "desk_inv w" "dw_drag w = None" "\<And>p. fl_id (f p) = fl_id p"
  shows "desk_inv (w\<lparr>dw_floating := update_first P f (dw_floating w)\<rparr>)"
  using assms by (intro rearranged_inv [OF assms(1)])
    (simp_all add: same_rest_def visible_def update_first_ids desk_inv_def desk_ok_def)

lemma layout_replaced_inv:
  assumes "desk_inv w" "dw_drag w = None" "mset (tiled_ids l) = mset (tiled_ids (dw_layout w))" "layout_ratios l"
  shows "desk_inv (w\<lparr>dw_layout := l\<rparr>)"
  using assms by (intro rearranged_inv [OF assms(1)]) (simp_all add: same_rest_def visible_def)

lemma inv_frames [simp]:
  "desk_inv (layout_changed w) = desk_inv w" "desk_inv (bump_animation w) = desk_inv w"
  "desk_inv (w\<lparr>dw_focused := i\<rparr>) = desk_inv w"
  by (simp_all add: desk_inv_def)

lemma move_direction_inv:
  assumes "desk_inv w" "dw_drag w = None"
  shows "desk_inv (move_direction d viewport w)"
proof (cases "focused_floats w")
  case True
  then show ?thesis
    using assms by (simp add: move_direction_def floating_updated_inv)
next
  case False
  have "desk_inv (w\<lparr>dw_layout := Some n'\<rparr>)"
    if "dw_layout w = Some n" "swap_layout_direction n (dw_focused w) d = Some n'" for n n'
    using that assms swap_layout_direction_ok [of w n _ d n']
    by (intro layout_replaced_inv) (auto simp: desk_inv_def)
  then show ?thesis
    using False assms by (cases "dw_layout w") (auto simp: move_direction_def split: option.split)
qed

lemma resize_direction_inv:
  assumes "desk_inv w" "dw_drag w = None" "\<not> f32_is_nan tiled_amount"
  shows "desk_inv (resize_direction d tiled_amount floating_amount viewport w)"
proof (cases "focused_floats w")
  case True
  then show ?thesis
    using assms by (simp add: resize_direction_def floating_updated_inv)
next
  case False
  have "desk_inv (w\<lparr>dw_layout := map_option (\<lambda>n. snd (layout_resize n (dw_focused w) d tiled_amount)) (dw_layout w)\<rparr>)"
    using assms by (intro layout_replaced_inv; cases "dw_layout w")
      (simp_all add: layout_resize_keeps desk_inv_def desk_ok_def)
  then show ?thesis
    using False assms by (simp add: resize_direction_def)
qed

definition split_transform :: "(node \<Rightarrow> nat \<Rightarrow> bool \<times> node) \<Rightarrow> bool" where
  "split_transform transform =
     (transform = layout_toggle_split \<or> transform = layout_equalize_split \<or> transform = layout_swap_split)"

lemma split_transform_keeps:
  assumes "split_transform transform"
  shows "mset (pane_ids (snd (transform n i))) = mset (pane_ids n)"
    and "ratios_ok n \<Longrightarrow> ratios_ok (snd (transform n i))"
  using assms
  by (auto simp: split_transform_def layout_toggle_split_def layout_equalize_split_def
      layout_swap_split_def update_nearest_split_keeps)

lemma transform_nearest_split_inv:
  assumes "desk_inv w" "dw_drag w = None" "split_transform transform"
  shows "desk_inv (transform_nearest_split transform w)"
proof (cases "dw_layout w")
  case (Some n)
  obtain b n' where t: "transform n (dw_focused w) = (b, n')" by (cases "transform n (dw_focused w)")
  then have "desk_inv (w\<lparr>dw_layout := Some n'\<rparr>)"
    using assms Some split_transform_keeps [OF assms(3), of n "dw_focused w"]
    by (intro layout_replaced_inv) (auto simp: desk_inv_def desk_ok_def)
  then show ?thesis
    using assms Some t by (simp add: transform_nearest_split_def split: bool.split)
qed (use assms in \<open>simp add: transform_nearest_split_def\<close>)

lemma raise_floating_pane_view:
  "mset (map fl_id (dw_floating (raise_floating_pane i w))) = mset (map fl_id (dw_floating w))"
  "same_rest w (raise_floating_pane i w)" "dw_layout (raise_floating_pane i w) = dw_layout w"
  "dw_drag (raise_floating_pane i w) = dw_drag w"
proof -
  show "mset (map fl_id (dw_floating (raise_floating_pane i w))) = mset (map fl_id (dw_floating w))"
  proof (cases "position (\<lambda>p. fl_id p = i) (dw_floating w)")
    case (Some k)
    then have "k < length (dw_floating w)" using position_SomeD by blast
    from mset_remove_at [OF this] show ?thesis
      using Some by (simp add: raise_floating_pane_def)
  qed (simp add: raise_floating_pane_def)
qed (simp_all add: raise_floating_pane_def same_rest_def split: option.split)

lemma raise_floating_pane_desk:
  assumes "desk_ok w"
  shows "desk_ok (raise_floating_pane i w)"
proof (rule desk_ok_rearranged [OF assms raise_floating_pane_view(2)])
  show "mset (visible (raise_floating_pane i w)) = mset (visible w)"
    unfolding visible_def mset_append raise_floating_pane_view(1,3) by (rule refl)
  show "layout_ratios (dw_layout (raise_floating_pane i w))"
    using assms unfolding raise_floating_pane_view(3) desk_ok_def by blast
qed

lemma align_floating_inv:
  assumes "desk_inv w" "dw_drag w = None"
  shows "desk_inv (align_floating alignment viewport w)"
proof -
  have "desk_inv (w\<lparr>dw_floating := update_first (\<lambda>p. fl_id p = dw_focused w)
             (\<lambda>p. align_floating_to_panel p alignment (panel_size w viewport) (dw_pane_gap w))
             (dw_floating w)\<rparr>)"
    using assms by (simp add: floating_updated_inv)
  then show ?thesis
    using assms raise_floating_pane_desk raise_floating_pane_view(4)
    by (simp add: align_floating_def desk_inv_def drag_none)
qed

lemma focus_direction_inv: "desk_inv w \<Longrightarrow> desk_inv (focus_direction d w)"
  by (simp add: focus_direction_def split: option.split)

section \<open>The pointer\<close>

lemma representable_screen [simp]: "representable 1048576" "representable 2097152"
  by (simp_all add: representable_def round_magnitude_def f32_ulp_def numeral_eq_Suc)

lemma f32_round_abs:
  assumes "representable hi" "\<bar>q\<bar> \<le> hi"
  shows "f32_is_finite (f32_round z q)"
proof -
  have "round_magnitude \<bar>q\<bar> < 2 ^ 128"
    using round_magnitude_mono [OF assms(2)] assms(1) by (simp add: representable_def)
  then show ?thesis by (simp add: f32_round_def Let_def f32_is_finite_def)
qed

lemma small_sub_finite: "\<lbrakk> small a; small b \<rbrakk> \<Longrightarrow> f32_is_finite (f32_sub a b)"
proof -
  assume a: "small a" "small b"
  then have "\<bar>f32_value a - f32_value b\<bar> \<le> 2097152"
    unfolding small_def by linarith
  then show ?thesis
    using a f32_round_abs [of 2097152 "f32_value a - f32_value b"]
    by (simp add: small_def f32_sub_def f32_add_def f32_is_finite_def)
qed

lemma max_one_divisor:
  assumes "f32_is_finite a"
  shows "f32_is_finite (f32_max a one)" "f32_value (f32_max a one) \<noteq> 0"
  using assms by (auto simp: f32_max_def f32_is_finite_def f32_less_def)

definition small_point :: "f32 \<times> f32 \<Rightarrow> bool" where
  "small_point p = (small (fst p) \<and> small (snd p))"

lemma small_zero: "small (F32_fin 0)" "small tab_bar_height"
  by (simp_all add: small_def tab_bar_height_def f32_compute f32_is_finite_def)

lemma finite_max_zero: "f32_is_finite a \<Longrightarrow> f32_is_finite (f32_max a (F32_fin 0))"
  by (auto simp: f32_max_def f32_is_finite_def)

lemma panel_size_finite:
  assumes "small_point viewport" "small (dw_sidebar_width w)"
  shows "f32_is_finite (fst (panel_size w viewport))" "f32_is_finite (snd (panel_size w viewport))"
  unfolding panel_size_def fst_conv snd_conv
  using assms small_zero
  by (auto intro!: finite_max_zero small_sub_finite simp: small_point_def)

lemma drag_fraction:
  assumes "f32_is_finite delta" "f32_is_finite extent"
  shows "\<not> f32_is_nan (f32_div delta (f32_max extent one))"
  using assms max_one_divisor [OF assms(2)]
  by (intro f32_div_not_nan) (simp_all add: f32_is_finite_def)

lemma dragged_layout_keeps:
  assumes "f32_is_finite (fst delta)" "f32_is_finite (snd delta)"
    "f32_is_finite (fst panel)" "f32_is_finite (snd panel)"
  shows "pane_ids (dragged_layout d delta panel n) = pane_ids n"
    and "ratios_ok n \<Longrightarrow> ratios_ok (dragged_layout d delta panel n)"
  using drag_fraction [OF assms(1,3)] drag_fraction [OF assms(2,4)]
  by (auto simp: dragged_layout_def Let_def resized_tiled_layout_def pointer_resizes_keep
      split: pointer_operation.split direction.split)

end
