(* ===== verification/Desktop_Drag.thy ===== *)
theory Desktop_Drag
  imports Desktop_Steps
begin

text \<open>
  The pointer drag keeps the invariant from the press of the button to its release, for drags of
  floating panes, of tiled panes lifted out of the tree, and of dividers.
\<close>

lemma same_rest_refl [simp]: "same_rest w w"
  by (simp add: same_rest_def)

lemma begin_focus_inv:
  assumes "desk_inv w" "dw_drag w = None"
  shows "desk_inv (begin_pointer_interaction_focus i w)" "dw_drag (begin_pointer_interaction_focus i w) = None"
proof -
  let ?w = "(layout_changed (snd (capture_arrangement w)))\<lparr>dw_focused := i\<rparr>"
  have "desk_ok ?w" "dw_drag ?w = None"
    using assms by (simp_all add: desk_inv_def capture_frames)
  then show "dw_drag (begin_pointer_interaction_focus i w) = None"
    "desk_inv (begin_pointer_interaction_focus i w)"
    unfolding begin_pointer_interaction_focus_def desk_inv_def
    using raise_floating_pane_desk [of ?w i] raise_floating_pane_view(4) [of i ?w]
    by (simp_all add: drag_none)
qed

lemma start_pointer_drag_inv:
  assumes "desk_inv w" "dw_drag w = None" "small_point pointer"
  shows "desk_inv (start_pointer_drag i operation button pointer w)"
proof (cases "position (\<lambda>p. fl_id p = i) (dw_floating w)")
  case (Some k)
  let ?w = "w\<lparr>dw_floating := remove_at k (dw_floating w) @ [dw_floating w ! k]\<rparr>"
  have k: "k < length (dw_floating w)" "fl_id (dw_floating w ! k) = i"
    using position_SomeD [OF Some] by blast+
  have "mset (map fl_id (dw_floating ?w)) = mset (map fl_id (dw_floating w))"
    using mset_remove_at [OF k(1)] by simp
  then have "desk_inv ?w"
    using assms by (intro rearranged_inv [OF assms(1)])
      (simp_all add: same_rest_def visible_def desk_inv_def desk_ok_def)
  then show ?thesis
    using Some k assms(3)
    by (simp add: start_pointer_drag_def pointer_subject_of_def desk_inv_def drag_ok_def drag_fits_def small_point_def)
next
  case None
  show ?thesis
  proof (cases "opt_filter (\<lambda>n. layout_contains n i) (dw_layout w)")
    case None
    then show ?thesis
      using \<open>position _ _ = None\<close> assms(1) by (simp add: start_pointer_drag_def pointer_subject_of_def)
  next
    case (Some n)
    then have "dw_layout w = Some n" by simp
    then have "ratios_ok n" using assms(1) by (simp add: desk_inv_def desk_ok_def)
    then show ?thesis
      using \<open>position _ _ = None\<close> assms Some \<open>dw_layout w = Some n\<close>
      by (simp add: start_pointer_drag_def pointer_subject_of_def desk_inv_def drag_ok_def drag_fits_def
          small_point_def opt_filter_def split: if_splits)
  qed
qed

lemma begin_pointer_interaction_inv:
  assumes "desk_inv w" "dw_drag w = None" "small_point pointer"
  shows "desk_inv (begin_pointer_interaction i control button pointer w)"
  using begin_focus_inv [OF assms(1,2)] start_pointer_drag_inv assms
  by (simp add: begin_pointer_interaction_def Let_def split: mouse_button.split)

section \<open>Releasing\<close>

lemma finish_pointer_drag_drag: "dw_drag (finish_pointer_drag pointer viewport w) = None"
  by (simp add: finish_pointer_drag_def Let_def split: option.split pointer_subject.split)

lemma finish_pointer_drag_inv:
  assumes "desk_inv w"
  shows "desk_inv (finish_pointer_drag pointer viewport w)"
proof (cases "dw_drag w")
  case None
  then show ?thesis using assms by (simp add: finish_pointer_drag_def)
next
  case (Some d)
  have idle: "desk_inv (w\<lparr>dw_drag := None\<rparr>)" using assms by (simp add: desk_inv_def)
  show ?thesis
  proof (cases "pd_subject d")
    case (Subject_lifted f)
    let ?i = "pd_pane d"
    let ?w = "w\<lparr>dw_drag := None, dw_floating := filter (\<lambda>p. fl_id p \<noteq> ?i) (dw_floating w),
                dw_layout := Some (drop_pane ?i
                  (normalized_panel_point pointer viewport (w\<lparr>dw_drag := None\<rparr>)) (dw_layout w))\<rparr>"
    have i: "?i \<in> set (map fl_id (dw_floating w))"
      using assms Some Subject_lifted by (simp add: desk_inv_def drag_ok_def drag_fits_def)
    have "distinct (map fl_id (dw_floating w))"
      using assms by (simp add: desk_inv_def desk_ok_def visible_def)
    from mset_filter_single [OF this i]
    have "mset (map fl_id (dw_floating w)) =
        add_mset ?i (mset (map fl_id (filter (\<lambda>p. fl_id p \<noteq> ?i) (dw_floating w))))"
      by (simp add: filter_map comp_def del: mset_map mset_filter)
    then have "mset (visible ?w) = mset (visible w)"
      by (simp add: visible_def mset_drop_pane del: mset_map mset_filter)
    moreover have "layout_ratios (dw_layout ?w)"
      using assms by (simp add: desk_inv_def desk_ok_def drop_pane_ratios)
    ultimately have "desk_inv ?w"
      by (intro rearranged_inv [OF assms]) (simp_all add: same_rest_def)
    then show ?thesis using Some Subject_lifted by (simp add: finish_pointer_drag_def Let_def)
  qed (use Some idle in \<open>simp_all add: finish_pointer_drag_def\<close>)
qed

section \<open>Moving\<close>

lemma update_drag_floating:
  assumes "desk_inv w" "dw_drag w = Some d" "fl_id f = pd_pane d" "\<And>n. pd_subject d \<noteq> Subject_tiled n"
  shows "desk_inv (if list_ex (\<lambda>p. fl_id p = pd_pane d) (dw_floating w)
              then w\<lparr>dw_floating := update_first (\<lambda>p. fl_id p = pd_pane d) (\<lambda>_. f) (dw_floating w)\<rparr>
              else w\<lparr>dw_drag := None\<rparr>)"
proof (cases "list_ex (\<lambda>p. fl_id p = pd_pane d) (dw_floating w)")
  case True
  let ?w = "w\<lparr>dw_floating := update_first (\<lambda>p. fl_id p = pd_pane d) (\<lambda>_. f) (dw_floating w)\<rparr>"
  have ids: "map fl_id (dw_floating ?w) = map fl_id (dw_floating w)"
    using assms(3) by (simp, intro map_update_first_id) simp
  then have set: "fl_id ` set (dw_floating ?w) = fl_id ` set (dw_floating w)"
    by (metis set_map)
  have "desk_ok ?w"
  proof (rule desk_ok_rearranged)
    show "desk_ok w" using assms(1) by (simp add: desk_inv_def)
    then show "layout_ratios (dw_layout ?w)" by (simp add: desk_ok_def)
    show "mset (visible ?w) = mset (visible w)" unfolding visible_def ids by simp
  qed (simp add: same_rest_def)
  moreover have "drag_ok ?w"
    using assms(1,2,4) set
    by (auto simp: desk_inv_def drag_ok_def drag_fits_def split: pointer_subject.splits)
  ultimately show ?thesis using True by (simp add: desk_inv_def)
next
  case False
  then show ?thesis using assms(1) by (simp add: desk_inv_def)
qed

lemma update_drag_inv:
  assumes "desk_inv w" "dw_drag w = Some d" "f32_is_finite (fst delta)" "f32_is_finite (snd delta)"
    "small_point viewport"
  shows "desk_inv (update_drag d delta viewport w)"
proof (cases "pd_subject d")
  case (Subject_floating f)
  then have "fl_id f = pd_pane d"
    using assms(1,2) by (simp add: desk_inv_def drag_ok_def drag_fits_def)
  then show ?thesis
    using Subject_floating update_drag_floating [OF assms(1,2)] by (simp add: update_drag_def Let_def)
next
  case (Subject_lifted f)
  then have "fl_id f = pd_pane d"
    using assms(1,2) by (simp add: desk_inv_def drag_ok_def drag_fits_def)
  then show ?thesis
    using Subject_lifted update_drag_floating [OF assms(1,2)] by (simp add: update_drag_def Let_def)
next
  case (Subject_tiled n)
  have n: "mset (pane_ids n) = mset (tiled_ids (dw_layout w))" "ratios_ok n"
    using assms(1,2) Subject_tiled by (simp_all add: desk_inv_def drag_ok_def drag_fits_def)
  have "small (dw_sidebar_width w)" using assms(1) by (simp add: desk_inv_def desk_ok_def)
  note keeps = dragged_layout_keeps [OF assms(3,4) panel_size_finite [OF assms(5) this], where d = d and n = n]
  let ?w = "w\<lparr>dw_layout := Some (dragged_layout d delta (panel_size w viewport) n)\<rparr>"
  have "desk_ok ?w"
  proof (rule desk_ok_rearranged)
    show "desk_ok w" using assms(1) by (simp add: desk_inv_def)
    show "layout_ratios (dw_layout ?w)" using n keeps by simp
    show "mset (visible ?w) = mset (visible w)" using n keeps by (simp add: visible_def)
  qed (simp add: same_rest_def)
  moreover have "drag_ok ?w"
    using assms(1,2) n keeps Subject_tiled by (simp add: desk_inv_def drag_ok_def drag_fits_def)
  ultimately show ?thesis
    using Subject_tiled by (simp add: update_drag_def Let_def desk_inv_def)
qed

lemma drag_activated_inv:
  assumes "desk_inv w" "dw_drag w = Some d"
  shows "desk_inv (w\<lparr>dw_drag := Some (d\<lparr>pd_activated := True\<rparr>)\<rparr>)"
  using assms by (auto simp: desk_inv_def drag_ok_def drag_fits_def split: pointer_subject.splits)

lemma drag_lifted_inv:
  assumes "desk_inv w" "dw_drag w = Some d" "lift_tiled_pane (pd_pane d) viewport w = (Some bounds, w')"
  shows "desk_inv (w'\<lparr>dw_drag := Some (d\<lparr>pd_activated := True, pd_subject := Subject_lifted bounds\<rparr>)\<rparr>)"
proof -
  have "desk_ok w" using assms(1) by (simp add: desk_inv_def)
  note v = lift_tiled_pane_view [OF this assms(3)]
  have "desk_ok w'" by (rule desk_ok_rearranged [OF \<open>desk_ok w\<close> v(3,1,2)])
  then show ?thesis
    using assms(1,2) v by (simp add: desk_inv_def drag_ok_def drag_fits_def)
qed

lemma pointer_move_inv:
  assumes "desk_inv w" "small_point pointer" "small_point viewport"
  shows "desk_inv (pointer_move far_enough pressed pointer viewport w)"
proof (cases "dw_drag w")
  case None
  then show ?thesis using assms by (simp add: pointer_move_def)
next
  case (Some d)
  define delta where "delta = (f32_sub (fst pointer) (fst (pd_start d)), f32_sub (snd pointer) (snd (pd_start d)))"
  have "small (fst (pd_start d))" "small (snd (pd_start d))"
    using assms(1) Some by (auto simp: desk_inv_def drag_ok_def drag_fits_def)
  then have finite: "f32_is_finite (fst delta)" "f32_is_finite (snd delta)"
    using assms(2) by (simp_all add: delta_def small_point_def small_sub_finite)
  let ?d = "d\<lparr>pd_activated := True\<rparr>"
  have plain: "desk_inv (update_drag ?d delta viewport (w\<lparr>dw_drag := Some ?d\<rparr>))"
    using drag_activated_inv [OF assms(1) Some] finite assms(3) by (intro update_drag_inv) simp_all
  have lifted: "desk_inv (case lift_tiled_pane (pd_pane d) viewport w of
        (None, w') \<Rightarrow> w'\<lparr>dw_drag := None\<rparr>
      | (Some bounds, w') \<Rightarrow>
          update_drag (?d\<lparr>pd_subject := Subject_lifted bounds\<rparr>) delta viewport
            (w'\<lparr>dw_drag := Some (?d\<lparr>pd_subject := Subject_lifted bounds\<rparr>)\<rparr>))"
  proof (cases "lift_tiled_pane (pd_pane d) viewport w")
    case (Pair r w')
    show ?thesis
    proof (cases r)
      case None
      then show ?thesis
        using Pair lift_tiled_pane_None [of "pd_pane d" viewport w w'] assms(1) by (simp add: desk_inv_def)
    next
      case (Some bounds)
      then show ?thesis
        using Pair drag_lifted_inv [OF assms(1) \<open>dw_drag w = Some d\<close>, of viewport bounds w'] finite assms(3)
        by (simp, intro update_drag_inv) simp_all
    qed
  qed
  show ?thesis
    unfolding pointer_move_def Some option.case Let_def delta_def [symmetric]
    using plain lifted finish_pointer_drag_inv [OF assms(1)] assms(1)
      update_drag_inv [OF assms(1) Some finite assms(3)]
    by (auto split: pointer_operation.split pointer_subject.split)
qed

lemma end_pointer_interaction_inv: "desk_inv w \<Longrightarrow> desk_inv (end_pointer_interaction pointer viewport w)"
  by (simp add: end_pointer_interaction_def finish_pointer_drag_inv)

section \<open>Timers\<close>

lemma capture_inv: "desk_inv w \<Longrightarrow> desk_inv (snd (capture_arrangement w))"
  by (simp add: desk_inv_def capture_frames)

lemma save_timer_inv: "desk_inv w \<Longrightarrow> desk_inv (snd (save_timer w))"
  using capture_inv [of w]
  by (auto simp: save_timer_def case_prod_unfold split: option.split bool.split)

end
