(* ===== verification/Desktop_Switch.thy ===== *)
theory Desktop_Switch
  imports Desktop_Drag
begin

text \<open>
  Switching Workspaces keeps the invariant, and restoring an arrangement never meets a saved pane
  without a live one: every saved pane gets an id of its own, that of a terminal taken over from
  the slide that is still running or a fresh one.
\<close>

section \<open>The slide\<close>

lemma detach_terminal_ids_ok:
  "\<lbrakk> desk_ok w; set ids \<inter> set (visible w) = {} \<rbrakk> \<Longrightarrow> desk_ok (detach_terminal_ids ids w)"
proof (induction ids arbitrary: w)
  case (Cons i ids)
  let ?w = "w\<lparr>dw_terminals := del i (dw_terminals w)\<rparr>"
  have "desk_ok ?w" using Cons.prems by (intro desk_ok_del_terminal) auto
  then have "desk_ok (detach_terminal_ids ids ?w)"
    using Cons.prems by (intro Cons.IH) (auto simp: visible_def)
  then show ?case by (simp add: detach_terminal_ids_def)
qed (simp add: detach_terminal_ids_def)

lemma detach_fields [simp]:
  "dw_layout (detach_terminal_ids ids w) = dw_layout w"
  "dw_floating (detach_terminal_ids ids w) = dw_floating w"
  "dw_drag (detach_terminal_ids ids w) = dw_drag w"
  "dw_next_id (detach_terminal_ids ids w) = dw_next_id w"
  "dw_minimizing (detach_terminal_ids ids w) = dw_minimizing w"
  "dw_transition (detach_terminal_ids ids w) = dw_transition w"
  "dw_document (detach_terminal_ids ids w) = dw_document w"
  "dw_restoring (detach_terminal_ids ids w) = dw_restoring w"
  by (simp_all add: detach_terminal_ids_def)

lemma finish_current_ok:
  assumes "desk_ok w"
  shows "desk_ok (finish_current_workspace_transition w)"
proof (cases "dw_transition w")
  case (Some t)
  let ?w = "w\<lparr>dw_transition := None\<rparr>"
  have "visible ?w = visible w" "minimizing_ids ?w = minimizing_ids w" "outgoing_ids ?w = {}"
    by (simp_all add: view_defs)
  then have "desk_ok ?w"
    using assms unfolding desk_ok_def by auto
  moreover have "fl_id ` set (wt_outgoing t) \<inter> set (visible w) = {}"
    using assms Some unfolding desk_ok_def outgoing_ids_def by auto
  ultimately show ?thesis
    using Some by (auto simp: finish_current_workspace_transition_def visible_def
        intro!: detach_terminal_ids_ok)
qed (use assms in \<open>simp add: finish_current_workspace_transition_def\<close>)

lemma finish_current_fields [simp]:
  "dw_layout (finish_current_workspace_transition w) = dw_layout w"
  "dw_floating (finish_current_workspace_transition w) = dw_floating w"
  "dw_drag (finish_current_workspace_transition w) = dw_drag w"
  "dw_next_id (finish_current_workspace_transition w) = dw_next_id w"
  "dw_minimizing (finish_current_workspace_transition w) = dw_minimizing w"
  "dw_document (finish_current_workspace_transition w) = dw_document w"
  by (simp_all add: finish_current_workspace_transition_def split: option.split)

lemma finish_workspace_transition_inv: "desk_inv w \<Longrightarrow> desk_inv (finish_workspace_transition g w)"
  by (auto simp: finish_workspace_transition_def desk_inv_def drag_ok_def finish_current_ok split: option.split)

lemma map_filter_ids:
  "(\<And>i p. f i = Some p \<Longrightarrow> k p = i) \<Longrightarrow> k ` set (List.map_filter f ids) \<subseteq> set ids"
  by (induction ids) (auto simp: map_filter_simps split: option.splits)

lemma outgoing_panes_ids:
  "fl_id ` set (outgoing_panes viewport w) \<subseteq> set (visible w) \<union> minimizing_ids w"
proof -
  have "fl_id ` set (fold (\<lambda>a out. if list_ex (\<lambda>p. fl_id p = ma_pane a) out then out else out @ [ma_from a]) as out)
      \<subseteq> fl_id ` set out \<union> (\<lambda>a. fl_id (ma_from a)) ` set as" for as out
  proof (induction as arbitrary: out)
    case (Cons a as)
    show ?case
      using Cons.IH [of out] Cons.IH [of "out @ [ma_from a]"]
      by (cases "list_ex (\<lambda>p. fl_id p = ma_pane a) out") auto
  qed simp
  moreover have "fl_id ` set (List.map_filter (\<lambda>i. pane_bounds_in_panel w i viewport)
      (tiled_ids (dw_layout w) @ map fl_id (dw_floating w))) \<subseteq> set (visible w)"
    using map_filter_ids [of "\<lambda>i. pane_bounds_in_panel w i viewport" fl_id] pane_bounds_id
    unfolding visible_def by blast
  ultimately show ?thesis
    unfolding outgoing_panes_def Let_def tiled_ids_def [symmetric] minimizing_ids_def by blast
qed

lemma begin_transition_view:
  assumes w: "desk_ok w"
  shows "desk_ok (begin_workspace_transition viewport w)"
    "visible (begin_workspace_transition viewport w) = []"
    "dw_layout (begin_workspace_transition viewport w) = None"
    "dw_floating (begin_workspace_transition viewport w) = []"
    "dw_drag (begin_workspace_transition viewport w) = None"
    "dw_next_id (begin_workspace_transition viewport w) = dw_next_id w"
    "minimizing_ids (begin_workspace_transition viewport w) = {}"
    "outgoing_ids (begin_workspace_transition viewport w) \<subseteq> set (visible w) \<union> minimizing_ids w"
    "dw_document (begin_workspace_transition viewport w) = dw_document w"
proof -
  define w1 where "w1 = finish_current_workspace_transition w"
  define out where "out = outgoing_panes viewport w1"
  define w2 where "w2 = w1\<lparr>dw_layout := None, dw_floating := [], dw_drag := None, dw_minimizing := [],
                           dw_fullscreen := None\<rparr>"
  have w1: "desk_ok w1" "visible w1 = visible w" "minimizing_ids w1 = minimizing_ids w"
    using w by (simp_all add: w1_def finish_current_ok visible_def minimizing_ids_def)
  have out: "fl_id ` set out \<subseteq> set (visible w) \<union> minimizing_ids w"
    unfolding out_def w1(2,3) [symmetric] by (rule outgoing_panes_ids)
  have w2: "desk_ok w2" "visible w2 = []" "minimizing_ids w2 = {}" "dw_next_id w2 = dw_next_id w"
    "dw_drag w2 = None" "dw_layout w2 = None" "dw_floating w2 = []" "dw_document w2 = dw_document w"
    using w1(1) by (auto simp: w2_def desk_ok_def view_defs w1_def)
  have notransition: "dw_transition w2 = None"
    by (simp add: w2_def w1_def finish_current_workspace_transition_def split: option.split)
  have below: "\<forall>i \<in> fl_id ` set out. i < dw_next_id w2"
    using out w w2(4) unfolding desk_ok_def by auto
  have slide: "desk_ok (w2\<lparr>dw_animation_generation := g,
       dw_transition := Some \<lparr>wt_outgoing = out, wt_generation = g\<rparr>\<rparr>)" (is "desk_ok ?w") for g
  proof -
    have "visible ?w = []" "minimizing_ids ?w = {}" "outgoing_ids ?w = fl_id ` set out"
      using w2 by (simp_all add: view_defs)
    then show ?thesis using w2(1,2,3) below unfolding desk_ok_def by auto
  qed
  have detach: "desk_ok (detach_terminal_ids (map fl_id out) w2)"
    using w2 by (intro detach_terminal_ids_ok) simp_all
  have eq: "begin_workspace_transition viewport w =
      (if dw_motion w2 \<and> out \<noteq> []
       then w2\<lparr>dw_animation_generation := dw_animation_generation w2 + 1,
               dw_transition := Some \<lparr>wt_outgoing = out, wt_generation = dw_animation_generation w2 + 1\<rparr>\<rparr>
       else detach_terminal_ids (map fl_id out) w2)"
    by (simp add: begin_workspace_transition_def Let_def w1_def out_def w2_def)
  show "desk_ok (begin_workspace_transition viewport w)"
    unfolding eq using slide detach by simp
  show "visible (begin_workspace_transition viewport w) = []"
    "dw_layout (begin_workspace_transition viewport w) = None"
    "dw_floating (begin_workspace_transition viewport w) = []"
    "dw_drag (begin_workspace_transition viewport w) = None"
    "dw_next_id (begin_workspace_transition viewport w) = dw_next_id w"
    "minimizing_ids (begin_workspace_transition viewport w) = {}"
    "dw_document (begin_workspace_transition viewport w) = dw_document w"
    unfolding eq using w2 by (simp_all add: view_defs)
  show "outgoing_ids (begin_workspace_transition viewport w) \<subseteq> set (visible w) \<union> minimizing_ids w"
    unfolding eq using out notransition by (simp add: outgoing_ids_def)
qed

lemma begin_transition_terminals:
  "terminal_ids (begin_workspace_transition viewport w) \<subseteq> terminal_ids w"
proof -
  have "fst ` set (fold del ids m) \<subseteq> fst ` set m" for ids and m :: "(nat, terminal_pane) smap"
  proof (induction ids arbitrary: m)
    case (Cons i ids)
    show ?case using Cons.IH [of "del i m"] fst_del [of i m] by simp
  qed simp
  then have detach: "terminal_ids (detach_terminal_ids ids w) \<subseteq> terminal_ids w" for ids w
    by (simp add: detach_terminal_ids_def)
  have finish: "terminal_ids (finish_current_workspace_transition w) \<subseteq> terminal_ids w"
    using detach by (cases "dw_transition w")
      (simp_all add: finish_current_workspace_transition_def detach_terminal_ids_def)
  define w2 where "w2 = finish_current_workspace_transition w\<lparr>dw_layout := None, dw_floating := [],
    dw_drag := None, dw_minimizing := [], dw_fullscreen := None\<rparr>"
  have "terminal_ids (begin_workspace_transition viewport w) \<subseteq> terminal_ids w2"
    using detach [of _ w2] by (simp add: begin_workspace_transition_def Let_def w2_def [symmetric])
  then show ?thesis using finish by (simp add: w2_def)
qed

section \<open>Terminals taken over\<close>

lemma mset_put_fresh:
  "k \<notin> fst ` set m \<Longrightarrow> mset (map snd (put k v m)) = add_mset v (mset (map snd m))"
  by (induction k v m rule: put.induct) auto

lemma outgoing_by_shell_ids:
  "get (outgoing_by_shell w) k = Some i \<Longrightarrow> i \<in> outgoing_ids w"
proof -
  have "set (objects (fold (\<lambda>p m. case Option.bind (get (dw_terminals w) (fl_id p)) tp_shell of
            None \<Rightarrow> m | Some s \<Rightarrow> put (sc_id s) (fl_id p) m) ps m))
      \<subseteq> set (objects m) \<union> fl_id ` set ps" for ps and m :: "(string, nat) smap"
  proof (induction ps arbitrary: m)
    case (Cons p ps)
    show ?case
    proof (cases "Option.bind (get (dw_terminals w) (fl_id p)) tp_shell")
      case None
      then show ?thesis using Cons.IH [of m] by auto
    next
      case (Some s)
      then show ?thesis
        using Cons.IH [of "put (sc_id s) (fl_id p) m"] objects_put [of "sc_id s" "fl_id p" m]
        by (simp del: set_map) blast
    qed
  qed simp
  note sub = this [of _ "[]"]
  assume get: "get (outgoing_by_shell w) k = Some i"
  then have i: "i \<in> set (objects (outgoing_by_shell w))"
    using map_of_SomeD by force
  show ?thesis
  proof (cases "dw_transition w")
    case None
    then show ?thesis using get by (simp add: outgoing_by_shell_def)
  next
    case (Some t)
    then show ?thesis
      using i subsetD [OF sub, of i "wt_outgoing t"] by (simp add: outgoing_by_shell_def outgoing_ids_def)
  qed
qed

definition reusable_ids :: "reusable \<Rightarrow> nat list" where
  "reusable_ids r = map (fst \<circ> snd) r"

definition reusable_ok :: "nat set \<Rightarrow> nat set \<Rightarrow> reusable \<Rightarrow> desktop \<Rightarrow> bool" where
  "reusable_ok out saved r w =
     (smap_ok r \<and> distinct (reusable_ids r) \<and> set (reusable_ids r) \<subseteq> out
      \<and> set (reusable_ids r) \<inter> terminal_ids w = {} \<and> fst ` set r \<subseteq> saved)"

lemma terminal_ids_del:
  "smap_ok (dw_terminals w) \<Longrightarrow> fst ` set (del i (dw_terminals w)) = terminal_ids w - {i}"
  using get_del [of "dw_terminals w" i] dom_map_of_conv_image_fst [of "del i (dw_terminals w)"]
    dom_map_of_conv_image_fst [of "dw_terminals w"] by auto

lemma mset_reusable_put:
  "k \<notin> fst ` set r \<Longrightarrow> mset (reusable_ids (put k (i, p) r)) = add_mset i (mset (reusable_ids r))"
proof -
  assume "k \<notin> fst ` set r"
  then have "mset (map fst (map snd (put k (i, p) r))) = add_mset i (mset (map fst (map snd r)))"
    unfolding mset_map [of fst] by (subst mset_put_fresh) simp_all
  then show ?thesis by (simp only: reusable_ids_def map_map)
qed

text \<open>The whole fold: only terminals of outgoing panes are taken out.\<close>

lemma take_reusable_fold:
  fixes panes :: "(nat, saved_pane) smap"
  assumes "desk_ok w" "reusable_ok (outgoing_ids w) saved r w"
    "distinct (map fst panes)" "fst ` set panes \<inter> saved = {}"
    "\<And>k i. get out k = Some i \<Longrightarrow> i \<in> outgoing_ids w"
    "fold (\<lambda>(saved, reference) (reusable, w').
              case reuse_candidate w' out reference of
                None \<Rightarrow> (reusable, w')
              | Some i \<Rightarrow>
                  (put saved (i, the (get (dw_terminals w') i)) reusable,
                   w'\<lparr>dw_terminals := del i (dw_terminals w')\<rparr>))
        panes (r, w) = (r', w')"
  shows "desk_ok w' \<and> reusable_ok (outgoing_ids w) (saved \<union> fst ` set panes) r' w'
         \<and> (\<exists>t. w' = w\<lparr>dw_terminals := t\<rparr>)"
  using assms
proof (induction panes arbitrary: w r saved)
  case Nil
  then show ?case by (auto intro!: exI [of _ "dw_terminals w"])
next
  case (Cons entry panes)
  obtain k reference where entry: "entry = (k, reference)" by (cases entry)
  show ?case
  proof (cases "reuse_candidate w out reference")
    case None
    have "reusable_ok (outgoing_ids w) (insert k saved) r w"
      using Cons.prems(2) by (auto simp: reusable_ok_def)
    then show ?thesis
      using Cons.IH [of w "insert k saved" r] Cons.prems None by (auto simp: entry)
  next
    case (Some i)
    let ?w = "w\<lparr>dw_terminals := del i (dw_terminals w)\<rparr>"
    have i: "i \<in> outgoing_ids w" "i \<in> terminal_ids w"
      using Some Cons.prems(5)
      by (auto simp: reuse_candidate_def opt_filter_def split: if_splits option.splits bind_splits
          dest: get_Some_fst)
    have smap: "smap_ok (dw_terminals w)" using Cons.prems(1) by (simp add: desk_ok_def)
    have "i \<notin> set (visible w)" using i Cons.prems(1) unfolding desk_ok_def by auto
    then have ok: "desk_ok ?w" using Cons.prems(1) by (rule desk_ok_del_terminal [rotated])
    have same: "outgoing_ids ?w = outgoing_ids w" by (simp add: outgoing_ids_def)
    have k: "k \<notin> fst ` set r" using Cons.prems(2,4) by (auto simp: reusable_ok_def entry)
    let ?r = "put k (i, the (get (dw_terminals w) i)) r"
    note m = mset_reusable_put [OF k, of i "the (get (dw_terminals w) i)"]
    have "set (reusable_ids ?r) = insert i (set (reusable_ids r))"
      using m mset_eq_setD [of "reusable_ids ?r" "i # reusable_ids r"] by simp
    moreover have "i \<notin> set (reusable_ids r)" using i Cons.prems(2) by (auto simp: reusable_ok_def)
    moreover have "distinct (reusable_ids ?r) = distinct (i # reusable_ids r)"
      using m by (intro mset_eq_imp_distinct_iff) simp
    ultimately have "reusable_ok (outgoing_ids ?w) (insert k saved) ?r ?w"
      using Cons.prems(2) i terminal_ids_del [OF smap] unfolding reusable_ok_def same
      by (auto simp: fst_put)
    moreover have "fold (\<lambda>(saved, reference) (reusable, w').
              case reuse_candidate w' out reference of
                None \<Rightarrow> (reusable, w')
              | Some i \<Rightarrow>
                  (put saved (i, the (get (dw_terminals w') i)) reusable,
                   w'\<lparr>dw_terminals := del i (dw_terminals w')\<rparr>)) panes (?r, ?w) = (r', w')"
      using Cons.prems(6) Some by (simp add: entry)
    ultimately have "desk_ok w' \<and> reusable_ok (outgoing_ids ?w) (insert k saved \<union> fst ` set panes) r' w'
         \<and> (\<exists>t. w' = ?w\<lparr>dw_terminals := t\<rparr>)"
      using Cons.prems ok by (intro Cons.IH) (auto simp: entry same)
    then show ?thesis unfolding same by (auto simp: entry)
  qed
qed

lemma take_reusable_ok:
  assumes "desk_ok w" "smap_ok panes" "take_reusable panes w = (r, w')"
  shows "desk_ok w'" "reusable_ok (outgoing_ids w) (fst ` set panes) r w'"
    "\<exists>t. w' = w\<lparr>dw_terminals := t\<rparr>"
proof -
  have "reusable_ok (outgoing_ids w) {} [] w" by (simp add: reusable_ok_def reusable_ids_def)
  moreover have "distinct (map fst panes)" using assms(2) by (simp add: smap_sorted)
  ultimately have "desk_ok w' \<and> reusable_ok (outgoing_ids w) ({} \<union> fst ` set panes) r w'
         \<and> (\<exists>t. w' = w\<lparr>dw_terminals := t\<rparr>)"
    using assms(1,3) outgoing_by_shell_ids [of w]
    by (intro take_reusable_fold [where out = "outgoing_by_shell w"])
       (auto simp: take_reusable_def Let_def)
  then show "desk_ok w'" "reusable_ok (outgoing_ids w) (fst ` set panes) r w'"
    "\<exists>t. w' = w\<lparr>dw_terminals := t\<rparr>" by auto
qed

section \<open>Fresh panes\<close>

lemma desk_ok_put_terminal:
  assumes "desk_ok w" "i < n" "dw_next_id w \<le> n" "n \<le> usize_max"
  shows "desk_ok (w\<lparr>dw_next_id := n, dw_terminals := put i p (dw_terminals w)\<rparr>)"
proof -
  let ?w = "w\<lparr>dw_next_id := n, dw_terminals := put i p (dw_terminals w)\<rparr>"
  have "visible ?w = visible w" "minimizing_ids ?w = minimizing_ids w" "outgoing_ids ?w = outgoing_ids w"
    "terminal_ids ?w = insert i (terminal_ids w)"
    by (simp_all add: view_defs fst_put)
  moreover have "\<forall>j \<in> terminal_ids w \<union> minimizing_ids w \<union> outgoing_ids w. j < n"
    using assms(1,3) unfolding desk_ok_def by (meson less_le_trans)
  ultimately show ?thesis using assms unfolding desk_ok_def by auto
qed

lemma desk_ok_put_existing:
  assumes "desk_ok w" "i < dw_next_id w"
  shows "desk_ok (w\<lparr>dw_terminals := put i p (dw_terminals w)\<rparr>)"
  using desk_ok_put_terminal [OF assms(1,2), of p] assms(1) by (simp add: desk_ok_def)

text \<open>What holds of the ids after some of the saved panes: each has its own, of a terminal that is
  neither minimized nor sliding out, and none is still waiting to be taken over.\<close>

definition restored_ok :: "reusable \<Rightarrow> nat set \<Rightarrow> (nat, nat) smap \<Rightarrow> desktop \<Rightarrow> bool" where
  "restored_ok r rest ids w =
     (desk_ok w \<and> visible w = [] \<and> smap_ok ids \<and> distinct (map snd ids)
      \<and> set (map snd ids) \<subseteq> terminal_ids w
      \<and> set (map snd ids) \<inter> (minimizing_ids w \<union> outgoing_ids w) = {}
      \<and> (\<forall>k \<in> rest. \<forall>i p. get r k = Some (i, p) \<longrightarrow>
           i < dw_next_id w \<and> i \<notin> set (map snd ids) \<and> i \<notin> minimizing_ids w \<union> outgoing_ids w))"

definition reusable_inj :: "reusable \<Rightarrow> bool" where
  "reusable_inj r = (\<forall>k k' i p p'. get r k = Some (i, p) \<and> get r k' = Some (i, p') \<longrightarrow> k = k')"

lemma put_id_view:
  assumes "k \<notin> fst ` set ids" "i \<notin> set (map snd ids)" "distinct (map snd ids)"
  shows "distinct (map snd (put k i ids))" "set (map snd (put k i ids)) = insert i (set (map snd ids))"
proof -
  have m: "mset (map snd (put k i ids)) = mset (i # map snd ids)"
    using mset_put_fresh [OF assms(1)] by simp
  show "distinct (map snd (put k i ids))"
    using mset_eq_imp_distinct_iff [OF m] assms(2,3) by simp
  show "set (map snd (put k i ids)) = insert i (set (map snd ids))"
    using mset_eq_setD [OF m] by simp
qed

lemma restore_pane_step:
  assumes ok: "restored_ok r (insert k rest) ids w" and k: "k \<notin> fst ` set ids" "k \<notin> rest"
    and inj: "reusable_inj r"
    and bound: "dw_next_id w < usize_max"
    and step: "restore_pane r (k, reference) (ids, w) = (ids', w')"
  shows "restored_ok r rest ids' w'" "fst ` set ids' = insert k (fst ` set ids)"
    "dw_next_id w' \<le> dw_next_id w + 1"
proof -
  have w: "desk_ok w" "visible w = []" using ok by (simp_all add: restored_ok_def)
  have ids: "smap_ok ids" "distinct (map snd ids)" "set (map snd ids) \<subseteq> terminal_ids w"
    "set (map snd ids) \<inter> (minimizing_ids w \<union> outgoing_ids w) = {}"
    using ok by (simp_all add: restored_ok_def)
  have waiting: "i < dw_next_id w \<and> i \<notin> set (map snd ids) \<and> i \<notin> minimizing_ids w \<union> outgoing_ids w"
    if "k' \<in> insert k rest" "get r k' = Some (i, p)" for k' i p
    using ok that unfolding restored_ok_def by blast
  have "restored_ok r rest ids' w' \<and> fst ` set ids' = insert k (fst ` set ids)
      \<and> dw_next_id w' \<le> dw_next_id w + 1"
  proof (cases "get r k")
    case None
    let ?i = "dw_next_id w" and ?p = "restored_pane w reference"
    let ?w = "w\<lparr>dw_next_id := ?i + 1, dw_terminals := put ?i ?p (dw_terminals w)\<rparr>"
    have eq: "ids' = put k ?i ids" "w' = ?w"
      using step None by (simp_all add: restore_pane_def Let_def)
    have fresh: "?i \<notin> set (map snd ids)" "?i \<notin> minimizing_ids w \<union> outgoing_ids w"
      using ids(3) w(1) unfolding desk_ok_def by auto
    have "desk_ok ?w" using w(1) bound by (intro desk_ok_put_terminal) simp_all
    moreover have "visible ?w = []" "minimizing_ids ?w = minimizing_ids w" "outgoing_ids ?w = outgoing_ids w"
      "terminal_ids ?w = insert ?i (terminal_ids w)"
      using w(2) by (simp_all add: view_defs fst_put)
    moreover have "i' < ?i + 1 \<and> i' \<notin> insert ?i (set (map snd ids)) \<and> i' \<notin> minimizing_ids w \<union> outgoing_ids w"
      if "k' \<in> rest" "get r k' = Some (i', p')" for k' i' p'
      using waiting [OF insertI2 [OF that(1)] that(2)] by auto
    ultimately have "restored_ok r rest ids' w'"
      unfolding eq restored_ok_def put_id_view [OF k(1) fresh(1) ids(2)]
      using put_id_view(1) [OF k(1) fresh(1) ids(2)] ids fresh by auto
    then show ?thesis unfolding eq by (simp add: fst_put)
  next
    case (Some v)
    then obtain i p where v: "get r k = Some (i, p)" by (cases v) auto
    let ?w = "w\<lparr>dw_terminals := put i (p\<lparr>tp_restored := Some reference\<rparr>) (dw_terminals w)\<rparr>"
    have eq: "ids' = put k i ids" "w' = ?w"
      using step v by (simp_all add: restore_pane_def)
    have i: "i < dw_next_id w" "i \<notin> set (map snd ids)" "i \<notin> minimizing_ids w \<union> outgoing_ids w"
      using waiting [OF insertI1 v] by auto
    have "desk_ok ?w" using w(1) i(1) by (rule desk_ok_put_existing)
    moreover have "visible ?w = []" "minimizing_ids ?w = minimizing_ids w" "outgoing_ids ?w = outgoing_ids w"
      "terminal_ids ?w = insert i (terminal_ids w)"
      using w(2) by (simp_all add: view_defs fst_put)
    moreover have "i' < dw_next_id w \<and> i' \<notin> insert i (set (map snd ids)) \<and> i' \<notin> minimizing_ids w \<union> outgoing_ids w"
      if "k' \<in> rest" "get r k' = Some (i', p')" for k' i' p'
    proof -
      have "k' \<noteq> k" using that(1) k(2) by blast
      then have "i' \<noteq> i" using inj v that(2) unfolding reusable_inj_def by blast
      then show ?thesis using waiting [OF insertI2 [OF that(1)] that(2)] by auto
    qed
    ultimately have "restored_ok r rest ids' w'"
      unfolding eq restored_ok_def put_id_view [OF k(1) i(2) ids(2)]
      using put_id_view(1) [OF k(1) i(2) ids(2)] ids i by auto
    then show ?thesis unfolding eq by (simp add: fst_put)
  qed
  then show "restored_ok r rest ids' w'" "fst ` set ids' = insert k (fst ` set ids)"
    "dw_next_id w' \<le> dw_next_id w + 1" by blast+
qed

lemma restore_panes_fold:
  fixes panes :: "(nat, saved_pane) smap"
  assumes "restored_ok r (fst ` set panes) ids w" "distinct (map fst panes)"
    "fst ` set panes \<inter> fst ` set ids = {}"
    "reusable_inj r"
    "dw_next_id w + length panes \<le> usize_max"
    "fold (restore_pane r) panes (ids, w) = (ids', w')"
  shows "restored_ok r {} ids' w' \<and> fst ` set ids' = fst ` set ids \<union> fst ` set panes"
  using assms
proof (induction panes arbitrary: ids w)
  case (Cons entry panes)
  obtain k reference where entry: "entry = (k, reference)" by (cases entry)
  obtain ids1 w1 where one: "restore_pane r (k, reference) (ids, w) = (ids1, w1)" by fastforce
  have "restored_ok r (insert k (fst ` set panes)) ids w" "k \<notin> fst ` set ids" "k \<notin> fst ` set panes"
    "dw_next_id w < usize_max"
    using Cons.prems by (auto simp: entry)
  note step = restore_pane_step [OF this(1-3) Cons.prems(4) this(4) one]
  have "restored_ok r {} ids' w' \<and> fst ` set ids' = fst ` set ids1 \<union> fst ` set panes"
    using Cons.prems step one by (intro Cons.IH) (auto simp: entry)
  then show ?case using step(2) by (auto simp: entry)
qed simp

section \<open>Placing them\<close>

lemma decode_tree_total:
  assumes "set (saved_ids t) \<subseteq> fst ` set ids"
  shows "\<exists>n. decode_tree t ids = Some n \<and> pane_ids n = map (\<lambda>i. the (get ids i)) (saved_ids t)
             \<and> ratios_ok n = saved_tree_ok t"
  using assms
proof (induction t)
  case (Saved_pane i)
  then show ?case by (cases "get ids i") (auto simp: map_of_eq_None_iff)
next
  case (Saved_split h r f s)
  then show ?case by fastforce
qed

lemma scale_floating_id: "fl_id (scale_floating saved canvas ids p) = the (get ids (sf_pane p))"
  by (simp add: scale_floating_def split: prod.split)

lemma place_restored_ok:
  assumes ok: "restored_ok r {} ids w" and keys: "set (arrangement_panes saved) \<subseteq> fst ` set ids"
    and saved: "arrangement_ok saved"
  shows "\<exists>w'. place_restored saved ids viewport w = Some w' \<and> desk_ok w' \<and> dw_drag w' = dw_drag w"
proof -
  define f where "f i = the (get ids i)" for i
  have get: "get ids i = Some (f i)" if "i \<in> fst ` set ids" for i
    using that by (cases "get ids i") (auto simp: f_def map_of_eq_None_iff)
  have smap: "smap_ok ids" and dist: "distinct (map snd ids)" using ok by (simp_all add: restored_ok_def)
  have inj: "inj_on f (fst ` set ids)"
  proof (rule inj_onI)
    fix i j assume ij: "i \<in> fst ` set ids" "j \<in> fst ` set ids" "f i = f j"
    then have "(i, f i) \<in> set ids" "(j, f i) \<in> set ids"
      using get by (metis map_of_SomeD)+
    then show "i = j"
      using dist by (metis distinct_map inj_on_eq_iff fst_conv snd_conv)
  qed
  have value_mem: "f i \<in> snd ` set ids" if "i \<in> fst ` set ids" for i
    using get [OF that] map_of_SomeD by force
  have floats: "set (map sf_pane (ar_floating saved)) \<subseteq> fst ` set ids"
    using keys by (auto simp: arrangement_panes_def)
  obtain l where l: "(case ar_tree saved of None \<Rightarrow> Some None | Some t \<Rightarrow> map_option Some (decode_tree t ids)) = Some l"
    "tiled_ids l = map f (case ar_tree saved of None \<Rightarrow> [] | Some t \<Rightarrow> saved_ids t)" "layout_ratios l"
  proof (cases "ar_tree saved")
    case None
    then show thesis using that [of None] by simp
  next
    case (Some t)
    then have "set (saved_ids t) \<subseteq> fst ` set ids" using keys by (auto simp: arrangement_panes_def)
    from decode_tree_total [OF this] show thesis
      using that Some saved by (auto simp: f_def arrangement_ok_def)
  qed
  define w' where "w' = the (place_restored saved ids viewport w)"
  have place: "place_restored saved ids viewport w = Some w'"
    and layout: "dw_layout w' = l" and floating: "map fl_id (dw_floating w') = map f (map sf_pane (ar_floating saved))"
    and rest: "same_rest w w'" "dw_drag w' = dw_drag w"
    using l(1) floats
    by (auto simp: w'_def place_restored_def Let_def list_all_iff f_def scale_floating_id same_rest_def
        map_of_eq_None_iff)
  have vis: "visible w' = map f (arrangement_panes saved)"
    using layout floating l(2) by (simp add: visible_def arrangement_panes_def)
  have "distinct (visible w')"
    using saved keys inj unfolding vis by (auto simp: distinct_map arrangement_ok_def intro: inj_on_subset)
  moreover have "set (visible w') \<subseteq> set (map snd ids)"
    using keys value_mem unfolding vis set_map by blast
  ultimately have "desk_ok w'"
    using ok rest(1) l(3) layout unfolding restored_ok_def desk_ok_def
    by (auto simp: same_rest_def minimizing_ids_def outgoing_ids_def)
  then show ?thesis using place rest(2) by blast
qed

section \<open>Restoring\<close>

lemma restore_panes_drag:
  "fold (restore_pane r) panes (ids, w) = (ids', w') \<Longrightarrow> dw_drag w' = dw_drag w"
proof (induction panes arbitrary: ids w)
  case (Cons entry panes)
  obtain ids1 w1 where one: "restore_pane r entry (ids, w) = (ids1, w1)" by fastforce
  then have "dw_drag w1 = dw_drag w"
    by (auto simp: restore_pane_def Let_def split: prod.splits option.splits)
  then show ?case using Cons.IH [of ids1 w1] Cons.prems one by simp
qed simp

lemma arrival_frames [simp]:
  "desk_ok (animate_workspace_arrival w) = desk_ok w"
  "dw_drag (animate_workspace_arrival w) = dw_drag w"
  "dw_terminals (animate_workspace_arrival w) = dw_terminals w"
  "dw_next_id (animate_workspace_arrival w) = dw_next_id w"
  by (simp_all add: animate_workspace_arrival_def)

lemma reusable_inj_distinct: "\<lbrakk> smap_ok r; distinct (reusable_ids r) \<rbrakk> \<Longrightarrow> reusable_inj r"
proof -
  assume "smap_ok r" "distinct (reusable_ids r)"
  then have inj: "inj_on (fst \<circ> snd) (set r)" by (simp add: reusable_ids_def distinct_map)
  have "k = k'" if get: "get r k = Some (i, p)" "get r k' = Some (i, p')" for k k' i p p'
  proof -
    have "(k, i, p) \<in> set r" "(k', i, p') \<in> set r" using get by (simp_all add: map_of_SomeD)
    from inj_onD [OF inj _ this] show ?thesis by simp
  qed
  then show ?thesis unfolding reusable_inj_def by blast
qed

lemma detach_all_view:
  assumes "desk_ok w" "outgoing_ids w = {}"
  shows "desk_ok (detach_all_panes w)" "visible (detach_all_panes w) = []"
    "minimizing_ids (detach_all_panes w) = {}" "outgoing_ids (detach_all_panes w) = {}"
    "dw_next_id (detach_all_panes w) = dw_next_id w" "dw_drag (detach_all_panes w) = None"
  using detach_all_panes_ok [OF assms(1)]
  by (simp_all add: detach_all_panes_def view_defs capture_frames(5))

lemma restore_start:
  assumes w: "desk_ok w" and panes: "smap_ok panes"
    and start: "(r, w2) = (if slide then take_reusable panes w else ([], w))"
      "w3 = (if slide then begin_workspace_transition viewport w2
             else detach_all_panes (finish_current_workspace_transition w2))"
  shows "restored_ok r (fst ` set panes) [] w3" "reusable_inj r" "dw_next_id w3 = dw_next_id w"
    "dw_drag w3 = None"
proof -
  have "restored_ok r (fst ` set panes) [] w3 \<and> reusable_inj r \<and> dw_next_id w3 = dw_next_id w
      \<and> dw_drag w3 = None"
  proof (cases slide)
    case False
    have "outgoing_ids (finish_current_workspace_transition w) = {}"
      by (simp add: finish_current_workspace_transition_def detach_terminal_ids_def outgoing_ids_def
          split: option.split)
    then show ?thesis
      using start False detach_all_view [OF finish_current_ok [OF w]]
      by (simp add: restored_ok_def reusable_inj_def)
  next
    case True
    then have take: "take_reusable panes w = (r, w2)" using start(1) by simp
    note t = take_reusable_ok [OF w panes take]
    obtain m where "w2 = w\<lparr>dw_terminals := m\<rparr>" using t(3) by blast
    then have same: "visible w2 = visible w" "minimizing_ids w2 = minimizing_ids w"
      "dw_next_id w2 = dw_next_id w"
      by (simp_all add: view_defs)
    note b = begin_transition_view [OF t(1), of viewport]
    have waiting: "i < dw_next_id w \<and> i \<notin> set (visible w) \<union> minimizing_ids w" if "get r k = Some (i, p)" for k i p
    proof -
      have "(k, i, p) \<in> set r" using that by (simp add: map_of_SomeD)
      then have "i \<in> set (reusable_ids r)" by (force simp: reusable_ids_def)
      then have "i \<in> outgoing_ids w" using t(2) by (auto simp: reusable_ok_def)
      then show ?thesis using w unfolding desk_ok_def by auto
    qed
    have "restored_ok r (fst ` set panes) [] w3"
      using b start(2) True waiting same unfolding restored_ok_def by (auto dest!: waiting)
    moreover have "reusable_inj r"
      using t(2) by (intro reusable_inj_distinct) (simp_all add: reusable_ok_def)
    ultimately show ?thesis using b start(2) True same by simp
  qed
  then show "restored_ok r (fst ` set panes) [] w3" "reusable_inj r" "dw_next_id w3 = dw_next_id w"
    "dw_drag w3 = None" by blast+
qed

lemma kept_ids_keys: "set (kept_ids panes ids) \<subseteq> fst ` set panes"
  by (auto simp: kept_ids_def dest: get_Some_fst)

lemma restore_with_transition_ok:
  assumes w: "desk_ok w" and saved: "arrangement_ok saved"
    and bound: "dw_next_id w + length (ar_panes saved) \<le> usize_max"
  shows "\<exists>w'. restore_arrangement_with_transition saved slide viewport w = Some w'
             \<and> desk_ok w' \<and> dw_drag w' = None"
proof -
  define a where "a = discard_unbound_panes saved"
  have a: "arrangement_ok a" using saved by (simp add: a_def discard_ok)
  then have smap: "smap_ok (ar_panes a)" by (simp add: arrangement_ok_def)
  obtain r w2 where take: "(r, w2) = (if slide then take_reusable (ar_panes a) (w\<lparr>dw_restoring := True\<rparr>)
      else ([], w\<lparr>dw_restoring := True\<rparr>))"
    by (metis surj_pair)
  define w3 where "w3 = (if slide then begin_workspace_transition viewport w2
      else detach_all_panes (finish_current_workspace_transition w2))"
  have w1: "desk_ok (w\<lparr>dw_restoring := True\<rparr>)" using w by simp
  note s = restore_start [OF w1 smap take w3_def]
  obtain ids w4 where fold: "fold (restore_pane r) (ar_panes a) ([], w3) = (ids, w4)" by fastforce
  have "length (ar_panes a) \<le> length (ar_panes saved)"
    unfolding a_def discard_fields bound_panes_def by (rule length_filter_le)
  then have "dw_next_id w3 + length (ar_panes a) \<le> usize_max"
    using s(3) bound by simp
  then have r4: "restored_ok r {} ids w4" "fst ` set ids = fst ` set (ar_panes a)"
    using restore_panes_fold [OF s(1) _ _ s(2) _ fold] smap_sorted [OF smap] by simp_all
  have "set (arrangement_panes a) \<subseteq> fst ` set ids"
    using kept_ids_keys unfolding r4(2) by (simp add: a_def discard_fields)
  from place_restored_ok [OF r4(1) this a, of viewport]
  obtain w5 where w5: "place_restored a ids viewport w4 = Some w5" "desk_ok w5" "dw_drag w5 = dw_drag w4"
    by blast
  have "dw_drag w4 = None" using restore_panes_drag [OF fold] s(4) by simp
  then show ?thesis
    using w5 fold unfolding restore_arrangement_with_transition_def Let_def a_def [symmetric]
    by (simp add: take [symmetric] w3_def [symmetric])
qed

lemma restore_arrangement_inv:
  assumes "desk_inv w" "arrangement_ok saved" "dw_next_id w + length (ar_panes saved) \<le> usize_max"
  shows "\<exists>w'. restore_arrangement_with_transition saved slide viewport w = Some w' \<and> desk_inv w'"
  using restore_with_transition_ok [of w saved slide viewport] assms by (auto simp: desk_inv_def drag_none)

text \<open>The largest saved arrangement bounds the ids that a switch takes.\<close>

definition saved_bound :: "desktop \<Rightarrow> nat \<Rightarrow> bool" where
  "saved_bound w n =
     (\<forall>a \<in> set (objects (ld_arrangements (dw_document w))). dw_next_id w + length (ar_panes a) \<le> n)"

definition settled :: "desktop \<Rightarrow> desktop" where
  "settled w = (if (ld_active (dw_document w) = ''mixed'') = dw_mixed w
                then snd (capture_arrangement w) else w)"

lemma restore_workspace_layout_inv:
  assumes "desk_inv w" "saved_bound (settled w) usize_max"
  shows "\<exists>b w'. restore_workspace_layout workspace viewport w = Some (b, w') \<and> desk_inv w'
               \<and> (\<not> b \<longrightarrow> w' = settled w)"
proof -
  have s: "desk_inv (settled w)" using assms(1) by (simp add: settled_def capture_inv)
  define key where "key = ''workspace:'' @ workspace"
  show ?thesis
  proof (cases "dw_mixed (settled w) \<or> key = ld_active (dw_document (settled w))
      \<or> get (ld_arrangements (dw_document (settled w))) key = None")
    case True
    then show ?thesis
      using s unfolding restore_workspace_layout_def Let_def settled_def [symmetric] key_def [symmetric]
      by (auto split: option.split)
  next
    case False
    then obtain a where a: "get (ld_arrangements (dw_document (settled w))) key = Some a" by blast
    then have mem: "a \<in> set (objects (ld_arrangements (dw_document (settled w))))"
      by (force dest: map_of_SomeD)
    let ?w = "settled w\<lparr>dw_document := (dw_document (settled w))\<lparr>ld_active := key\<rparr>, dw_expanded := [workspace]\<rparr>"
    have "arrangement_ok a" using s mem unfolding desk_inv_def desk_ok_def saved_ok_def by blast
    moreover have "desk_ok ?w"
      using s by (simp add: desk_inv_def desk_ok_document desk_ok_def saved_ok_def view_defs)
    moreover have "dw_next_id ?w + length (ar_panes a) \<le> usize_max"
      using assms(2) mem by (fastforce simp: saved_bound_def)
    ultimately obtain w' where "restore_arrangement_with_transition a True viewport ?w = Some w'"
      "desk_ok w'" "dw_drag w' = None"
      using restore_with_transition_ok by blast
    then show ?thesis
      using False a unfolding restore_workspace_layout_def Let_def settled_def [symmetric] key_def [symmetric]
      by (intro exI [of _ True] exI [of _ "layout_changed w'"]) (simp add: desk_inv_def drag_none)
  qed
qed

section \<open>Opening a Workspace\<close>

lemma keys_alter: "fst ` set (alter k f m) = fst ` set m"
  by (auto simp: alter_def fst_put split: option.split dest: get_Some_fst)

lemma desk_ok_terminals:
  assumes "desk_ok w" "smap_ok t" "fst ` set t = terminal_ids w"
  shows "desk_ok (w\<lparr>dw_terminals := t\<rparr>)"
  using assms unfolding desk_ok_def view_defs by simp

lemma open_shell_pane_ok:
  assumes "desk_ok w" "dw_drag w = None" "dw_next_id w < usize_max"
    "open_shell_pane shell (panes, pending, w) = (panes', pending', w')"
  shows "desk_ok w'" "dw_drag w' = None" "dw_next_id w' \<le> dw_next_id w + 1"
proof -
  have "desk_ok (snd (insert_pane w)\<lparr>dw_terminals := alter i f (dw_terminals (snd (insert_pane w)))\<rparr>)" for i f
    using insert_pane_ok [OF assms(1,3)]
    by (intro desk_ok_terminals) (simp_all add: keys_alter desk_ok_def del: insert_pane_fields)
  then show "desk_ok w'" "dw_drag w' = None" "dw_next_id w' \<le> dw_next_id w + 1"
    using assms by (auto simp: open_shell_pane_def case_prod_unfold split: if_splits)
qed

lemma open_shell_panes_ok:
  assumes "desk_ok w" "dw_drag w = None" "dw_next_id w + length shells \<le> usize_max"
    "fold open_shell_pane shells (panes, pending, w) = (panes', pending', w')"
  shows "desk_ok w' \<and> dw_drag w' = None"
  using assms
proof (induction shells arbitrary: panes pending w)
  case (Cons s shells)
  obtain panes1 pending1 w1 where one: "open_shell_pane s (panes, pending, w) = (panes1, pending1, w1)"
    by (metis prod_cases3)
  have "dw_next_id w < usize_max" using Cons.prems by simp
  note step = open_shell_pane_ok [OF Cons.prems(1,2) this one]
  show ?case
    using Cons.prems(3,4) step one by (intro Cons.IH [of w1 panes1 pending1]) auto
qed simp

lemma start_terminal_attachment_ok:
  "desk_ok w \<Longrightarrow> desk_ok (start_terminal_attachment i s w)"
  "dw_drag (start_terminal_attachment i s w) = dw_drag w"
proof -
  assume w: "desk_ok w"
  have "i < dw_next_id w" if "get (dw_terminals w) i = Some p" for p
    using w get_Some_fst [OF that] unfolding desk_ok_def by blast
  then show "desk_ok (start_terminal_attachment i s w)"
    using w by (auto simp: start_terminal_attachment_def desk_ok_put_existing split: option.split)
qed (simp add: start_terminal_attachment_def split: option.split)

lemma start_attachments_ok:
  "desk_ok w \<Longrightarrow> desk_ok (fold (\<lambda>(i, s). start_terminal_attachment i s) pending w)"
  "dw_drag (fold (\<lambda>(i, s). start_terminal_attachment i s) pending w) = dw_drag w"
  by (induction pending arbitrary: w) (auto simp: start_terminal_attachment_ok split: prod.split)

lemma open_workspace_inv:
  assumes "desk_inv w" "dw_drag w = None" "saved_bound (settled w) usize_max"
    "\<forall>ws \<in> set (dw_overview w). dw_next_id w + length (ow_shells ws) \<le> usize_max"
  shows "\<exists>w'. open_workspace workspace viewport w = Some w' \<and> desk_inv w'"
proof -
  have "dw_overview (snd (capture_arrangement w)) = dw_overview w"
    by (simp add: capture_arrangement_def)
  then have s: "desk_inv (settled w)" "dw_drag (settled w) = None" "dw_next_id (settled w) = dw_next_id w"
    "dw_overview (settled w) = dw_overview w"
    using assms(1,2) by (simp_all add: settled_def capture_inv capture_frames)
  from restore_workspace_layout_inv [OF assms(1,3), of workspace viewport]
  obtain b w1 where r: "restore_workspace_layout workspace viewport w = Some (b, w1)" "desk_inv w1"
    "\<not> b \<longrightarrow> w1 = settled w" by blast
  show ?thesis
  proof (cases "b \<or> List.find (\<lambda>ws. ow_id ws = workspace) (dw_overview w1) = None")
    case True
    then show ?thesis using r by (auto simp: open_workspace_def split: bool.split)
  next
    case False
    then have w1: "w1 = settled w" using r by blast
    obtain ws where ws: "List.find (\<lambda>ws. ow_id ws = workspace) (dw_overview w1) = Some ws"
      using False by blast
    define shells where "shells = filter (\<lambda>s. sc_id s \<notin> set (dw_minimized w1)) (ow_shells ws)"
    define w2 where "w2 = w1\<lparr>dw_expanded := List.insert workspace (if dw_mixed w1 then dw_expanded w1 else [])\<rparr>"
    define w3 where "w3 = (if \<not> dw_mixed w2 \<and> set (List.map_filter (\<lambda>p. map_option sc_id (tp_shell p))
        (objects (dw_terminals w2))) \<noteq> set (map sc_id shells)
      then begin_workspace_transition viewport w2 else w2)"
    obtain panes pending w4 where fold:
      "fold open_shell_pane shells (pane_of_shell w3, [], w3) = (panes, pending, w4)"
      by (metis prod_cases3)
    have w2: "desk_ok w2" "dw_drag w2 = None" "dw_next_id w2 = dw_next_id w"
      using s unfolding w2_def w1 by (simp_all add: desk_inv_def)
    have w3: "desk_ok w3" "dw_drag w3 = None" "dw_next_id w3 = dw_next_id w"
      using w2 begin_transition_view [OF w2(1), of viewport] by (simp_all add: w3_def)
    have "ws \<in> set (dw_overview w)" using find_Some_mem [OF ws] s(4) w1 by simp
    then have "dw_next_id w + length (ow_shells ws) \<le> usize_max" using assms(4) by blast
    moreover have "length shells \<le> length (ow_shells ws)" unfolding shells_def by (rule length_filter_le)
    ultimately have "dw_next_id w3 + length shells \<le> usize_max" using w3(3) by linarith
    from open_shell_panes_ok [OF w3(1,2) this fold] have w4: "desk_ok w4" "dw_drag w4 = None" by auto
    define w5 where "w5 = (case least_id (map (\<lambda>(_, i). (0, i)) panes) of
        None \<Rightarrow> animate_workspace_arrival w4 | Some i \<Rightarrow> animate_workspace_arrival w4\<lparr>dw_focused := i\<rparr>)"
    have "b = False" using False by blast
    then have "open_workspace workspace viewport w
        = Some (layout_changed (fold (\<lambda>(i, s). start_terminal_attachment i s) pending w5))"
      unfolding open_workspace_def r(1) Let_def
      using ws fold [unfolded w3_def w2_def shells_def]
      by (simp add: w5_def split del: if_split)
    moreover have "desk_ok w5" "dw_drag w5 = None"
      using w4 by (simp_all add: w5_def split: option.split)
    ultimately show ?thesis by (simp add: desk_inv_def drag_none start_attachments_ok)
  qed
qed

end
