(* ===== verification/Desktop_Props.thy ===== *)
theory Desktop_Props
  imports Desktop_Switch
begin

text \<open>
  The properties of the Desktop's layout: what every sequence of its operations keeps, when the
  document that it submits is accepted by the store, and the exception, an operation that no drag
  in progress holds off.
\<close>

section \<open>Runs of the window\<close>










definition dk_window :: desktop where
  "dk_window =
     \<lparr>dw_layout = Some (Pane 1), dw_floating = [], dw_focused = 1, dw_fullscreen = None, dw_next_id = 2,
      dw_terminals = [(1, default_pane)], dw_minimized = [], dw_drag = None, dw_minimizing = [],
      dw_transition = None, dw_animation_generation = 0, dw_motion = False, dw_mixed = True, dw_tabbed = False,
      dw_pane_gap = F32_fin 0, dw_sidebar_width = F32_fin 0, dw_expanded = [], dw_overview = [], dw_shells = [],
      dw_order = [], dw_canvas = (one, one), dw_document = default_document, dw_writer = True,
      dw_frozen = False, dw_restoring = False, dw_closing = False, dw_layout_error = None,
      dw_layout_generation = 0, dw_save_task = Some 0\<rparr>"



section \<open>The document that is submitted\<close>

lemma ratio_saved:
  assumes "ratio_ok r"
  shows "saved_ratio_valid r"
proof -
  have "f32_is_finite (f32_of (1 / 100))" "f32_value (f32_of (1 / 100)) \<le> 3 / 16"
    "f32_is_finite (f32_of (99 / 100))" "13 / 16 \<le> f32_value (f32_of (99 / 100))"
    unfolding f32_of_def
    using f32_round_between [of 0 "3 / 16" "1 / 100"] f32_round_between [of "13 / 16" 1 "99 / 100"] by simp_all
  then show ?thesis
    using assms by (auto simp: ratio_ok_def saved_ratio_valid_def f32_le_def f32_less_def f32_is_finite_def)
qed

lemma saved_tree_ratios: "saved_tree_ok t \<Longrightarrow> saved_ratios t"
  by (induction t) (simp_all add: ratio_saved)

lemma put_other_objects:
  assumes "smap_ok m"
  shows "mset (objects (put k v m)) = add_mset v (mset (objects (filter (\<lambda>(k', _). k' \<noteq> k) m)))"
  using assms
proof (induction k v m rule: put.induct)
  case (2 k v k' v' m)
  have "filter (\<lambda>(j, _). j \<noteq> k) m = m" if "k \<le> k'"
    using that 2 by (intro filter_True) force
  then show ?case using 2 by (auto simp del: mset_filter mset_map)
qed simp

lemma length_put: "smap_ok m \<Longrightarrow> length (put k v m) = length m + (if get m k = None then 1 else 0)"
proof (induction k v m rule: put.induct)
  case (2 k v k' v' m)
  have "get m k = None" if "k < k'"
    using that 2(2) by (intro get_above) auto
  then show ?case using 2 by auto
qed simp

lemma objects_sum: "sum_list (map f xs) = (\<Sum>x\<in>#mset xs. f x)"
  by (induction xs) simp_all

lemma kept_keys: "set (kept_ids panes ids) = set ids \<inter> fst ` set panes"
  by (auto simp: kept_ids_def map_of_eq_None_iff)

text \<open>The live panes are the keys of the arrangement.\<close>

lemma fold_put_keys:
  "fst ` set (fold (\<lambda>i m. case f i of None \<Rightarrow> m | Some p \<Rightarrow> put i (g p) m) ids m)
     = {i \<in> set ids. f i \<noteq> None} \<union> fst ` set m"
  by (induction ids arbitrary: m) (auto simp: fst_put split: option.split)

lemma live_keys:
  assumes "desk_ok w"
  shows "fst ` set (ar_panes (live_arrangement w)) = set (visible w)"
    and "set (arrangement_panes (live_arrangement w)) = set (visible w)"
proof -
  let ?ids = "ordered_pane_ids (dw_layout w) (dw_floating w)"
  have ids: "set ?ids = set (visible w)"
    by (cases "dw_layout w") (simp_all add: ordered_pane_ids_def visible_def)
  have "{i \<in> set ?ids. get (dw_terminals w) i \<noteq> None} = set (visible w)"
    using assms ids by (auto simp: desk_ok_def map_of_eq_None_iff)
  then show "fst ` set (ar_panes (live_arrangement w)) = set (visible w)"
    by (simp add: live_arrangement_def Let_def fold_put_keys)
  show "set (arrangement_panes (live_arrangement w)) = set (visible w)"
    by (cases "dw_layout w") (simp_all add: live_arrangement_def Let_def arrangement_panes_def visible_def comp_def)
qed

text \<open>What the capture leaves to be checked of the arrangement of the window.\<close>

definition capture_storable :: "arrangement \<Rightarrow> bool" where
  "capture_storable a \<longleftrightarrow>
     (case ar_tree a of None \<Rightarrow> True | Some t \<Rightarrow> saved_height t \<le> 64)
     \<and> list_all (\<lambda>f. floating_rect_valid (sf_rect f)) (ar_floating a)
     \<and> canvas_valid (ar_canvas a)
     \<and> distinct (bound_shells a) \<and> list_all (\<lambda>s. length s \<le> 1024) (bound_shells a)"

lemma captured_arrangement_valid:
  assumes "desk_ok w" and "length (ar_panes (discard_unbound_panes (live_arrangement w))) \<le> layout_max_panes"
  shows "arrangement_valid (discard_unbound_panes (live_arrangement w))
    = capture_storable (discard_unbound_panes (live_arrangement w))"
proof -
  let ?l = "live_arrangement w"
  let ?a = "discard_unbound_panes ?l"
  have ok: "arrangement_ok ?a" by (rule discard_ok [OF live_arrangement_ok [OF assms(1)]])
  have keys: "fst ` set (bound_panes ?l) \<subseteq> fst ` set (ar_panes ?l)" by (auto simp: bound_panes_def)
  have panes: "set (arrangement_panes ?a) = fst ` set (ar_panes ?a)"
    using keys live_keys [OF assms(1)] by (auto simp: discard_fields kept_keys)
  have "length (arrangement_panes ?a) = length (ar_panes ?a)"
    using same_panes [of "ar_panes ?a" "arrangement_panes ?a"] ok panes by (simp add: arrangement_ok_def)
  then have size: "length (saved_ids t) \<le> layout_max_panes" if "ar_tree ?a = Some t" for t
    using assms(2) that by (simp add: arrangement_panes_def)
  have focus: "i \<in> set (arrangement_panes ?a)" if "ar_focused ?a = Some i \<or> ar_expanded ?a = Some i" for i
  proof -
    have "get (ar_panes ?a) i \<noteq> None"
      using that
      by (auto simp: discard_unbound_panes_def Let_def split: option.splits list.splits)
    then show ?thesis unfolding panes by (auto simp: map_of_eq_None_iff)
  qed
  have ratios: "saved_ratios t" if "ar_tree ?a = Some t" for t
    using ok that by (simp add: arrangement_ok_def saved_tree_ratios)
  show ?thesis
    using ok panes size focus ratios
    by (auto simp: arrangement_valid_def capture_storable_def arrangement_ok_def split: option.splits)
qed

text \<open>
  C36. The window's own limits and the store's checks agree up to what the window does not check.  A
  document that the save timer submits, in a window as its steps leave it and when the document before
  it was a valid one, is accepted by the store if and only if, of the panes that show a Shell, the tree
  is at most 64 splits deep, the floating rectangles are finite and not empty, no Shell is shown twice
  and none has an id longer than 1024 bytes, the canvas is finite and not empty, and at most 4096
  Shells are minimized and 4096 Workspaces ordered.
\<close>

theorem submitted_document_accepted:
  assumes "desk_inv w" and "document_valid (dw_document w)" and "save_timer w = (Some d, w')"
  shows "validate_document d = Inr () \<longleftrightarrow>
    capture_storable (discard_unbound_panes (live_arrangement w))
    \<and> length (captured_minimized w) \<le> 4096 \<and> length (dw_order w) \<le> 4096"
proof -
  let ?a = "discard_unbound_panes (live_arrangement w)" and ?m = "ld_arrangements (dw_document w)"
  have ok: "desk_ok w" using assms(1) by (simp add: desk_inv_def)
  have m: "smap_ok ?m" using ok by (simp add: desk_ok_def saved_ok_def)
  have captured: "\<not> capture_exceeds w" "d = captured_document w"
    using assms(3)
    by (auto simp: save_timer_def capture_arrangement_def split: option.splits if_splits)
  have "saved_ok d" using captured_document_ok [OF ok] captured(2) by simp
  then have "document_keys_ok d" by (auto simp: saved_ok_def document_keys_ok_def arrangement_ok_def)
  note exact = validate_document_exact [OF this]
  have size: "length (ar_panes ?a) \<le> layout_max_panes"
    using captured(1) by (simp add: capture_exceeds_def layout_max_panes_def)
  note valid = captured_arrangement_valid [OF ok size]
  have others: "mset (objects (ld_arrangements d))
      = add_mset ?a (mset (objects (filter (\<lambda>(k, _). k \<noteq> capture_key w) ?m)))"
    using put_other_objects [OF m] by (simp add: captured(2) captured_document_def)
  have kept: "list_all arrangement_valid (objects (filter (\<lambda>(k, _). k \<noteq> capture_key w) ?m))"
    using assms(2) by (auto simp: document_valid_def list_all_iff)
  have "set (objects (ld_arrangements d))
      = insert ?a (set (objects (filter (\<lambda>(k, _). k \<noteq> capture_key w) ?m)))"
    using others by (metis set_mset_mset set_mset_add_mset_insert)
  then have "list_all arrangement_valid (objects (ld_arrangements d)) \<longleftrightarrow> arrangement_valid ?a"
    using kept by (simp only: list_all_iff ball_simps) blast
  moreover have "sum_list (map (\<lambda>a. length (ar_panes a)) (objects (ld_arrangements d)))
      = length (ar_panes ?a) + retained_panes w"
  proof -
    have "sum_list (map (\<lambda>a. length (ar_panes a)) (objects (ld_arrangements d)))
        = length (ar_panes ?a)
          + sum_list (map (\<lambda>a. length (ar_panes a)) (objects (filter (\<lambda>(k, _). k \<noteq> capture_key w) ?m)))"
      unfolding objects_sum others by simp
    then show ?thesis by (simp add: retained_panes_def case_prod_unfold comp_def)
  qed
  moreover have "length (ld_arrangements d) \<le> 256"
    using captured assms(2) length_put [OF m, of "capture_key w" ?a]
    by (auto simp: captured_document_def capture_exceeds_def document_valid_def)
  ultimately have "document_valid d \<longleftrightarrow>
      arrangement_valid ?a \<and> length (captured_minimized w) \<le> 4096 \<and> length (dw_order w) \<le> 4096"
    using assms(2) captured
    by (auto simp: document_valid_def captured_document_def capture_exceeds_def layout_max_panes_def)
  then show ?thesis using exact valid by simp
qed

definition dk_shell :: shell_choice where
  "dk_shell = \<lparr>sc_id = ''s'', sc_name = ''sh'', sc_workspace_id = ''w'', sc_cwd = [RootDir],
     sc_status = StatusRunning, sc_run_id = None, sc_desktop_setup = False\<rparr>"

definition dk_attached :: desktop where
  "dk_attached = dk_window\<lparr>dw_terminals := [(1, default_pane\<lparr>tp_shell := Some dk_shell\<rparr>)]\<rparr>"

lemma dk_fields:
  "dw_layout dk_attached = Some (Pane 1)" "dw_floating dk_attached = []" "dw_mixed dk_attached = True"
  "dw_terminals dk_attached = [(1, default_pane\<lparr>tp_shell := Some dk_shell\<rparr>)]" "dw_overview dk_attached = []"
  "dw_minimized dk_attached = []" "dw_order dk_attached = []" "dw_canvas dk_attached = (one, one)"
  "dw_document dk_attached = default_document" "dw_drag dk_attached = None" "dw_next_id dk_attached = 2"
  "dw_frozen dk_attached = False" "dw_restoring dk_attached = False" "dw_writer dk_attached = True"
  "dw_save_task dk_attached = Some 0" "dw_layout_generation dk_attached = 0" "dw_focused dk_attached = 1"
  "dw_fullscreen dk_attached = None" "dw_minimizing dk_attached = []" "dw_transition dk_attached = None"
  "dw_sidebar_width dk_attached = F32_fin 0" "dw_layout_error dk_attached = None"
  by (simp_all add: dk_attached_def dk_window_def)

lemma submitted_document_accepted_witness:
  "validate_document (captured_document dk_attached) = Inr ()"
proof -
  have inv: "desk_inv dk_attached"
    by (simp add: desk_inv_def desk_ok_def drag_none view_defs dk_fields usize_max_def small_zero saved_ok_def
        default_document_def)
  have valid: "document_valid (dw_document dk_attached)"
    by (simp add: dk_fields document_valid_def default_document_def layout_max_panes_def)
  have live: "discard_unbound_panes (live_arrangement dk_attached)
      = \<lparr>ar_tree = Some (Saved_pane 1), ar_floating = [],
         ar_panes = [(1, \<lparr>sp_shell = Some ''s'', sp_workspace = Some ''w''\<rparr>)], ar_focused = Some 1,
         ar_expanded = None, ar_canvas = (one, one)\<rparr>"
    by (simp add: live_arrangement_def discard_unbound_panes_def dk_fields Let_def ordered_pane_ids_def pane_ids_def
        saved_reference_def is_setup_pane_def default_pane_def dk_shell_def opt_filter_def f32_max_def f32_less_def)
  have "save_timer dk_attached = (Some (captured_document dk_attached),
      dk_attached\<lparr>dw_layout_error := None, dw_document := captured_document dk_attached\<rparr>)"
    by (simp add: save_timer_def capture_arrangement_def capture_blocked_def capture_exceeds_def live dk_fields
        capture_key_def retained_panes_def default_document_def)
  note exact = submitted_document_accepted [OF inv valid this]
  have "capture_storable (discard_unbound_panes (live_arrangement dk_attached))"
    by (simp add: live capture_storable_def canvas_valid_def bound_shells_def List.map_filter_def f32_less_def
        f32_is_finite_def)
  then show ?thesis
    using exact by (simp add: captured_minimized_def dk_fields default_document_def)
qed

section \<open>A drag that is not held off\<close>

lemma lift_tiled_pane_found:
  assumes "dw_layout w = Some n" and "i \<in> set (pane_ids n)"
  shows "\<exists>p w'. lift_tiled_pane i viewport w = (Some p, w')"
proof -
  have "i \<in> fst ` set (layout_rects n)" using assms(2) by (metis layout_rects_ids list.set_map)
  then have "List.find (\<lambda>(j, _). j = i) (layout_rects n) \<noteq> None" by (auto simp: find_None_iff)
  then show ?thesis using assms(1) by (auto simp: lift_tiled_pane_def Let_def split: option.split)
qed

text \<open>\<open>toggle_floating\<close> of a tiled pane, whatever drag lasts.\<close>

lemma toggle_tiled:
  assumes "desk_ok w" and "dw_layout w = Some n" and "dw_focused w \<in> set (pane_ids n)"
  shows "map fl_id (dw_floating (toggle_floating viewport w)) = map fl_id (dw_floating w) @ [dw_focused w]"
    and "dw_drag (toggle_floating viewport w) = dw_drag w"
    and "dw_terminals (toggle_floating viewport w) = dw_terminals w"
    and "dw_document (toggle_floating viewport w) = dw_document w"
    and "dw_sidebar_width (toggle_floating viewport w) = dw_sidebar_width w"
proof -
  have "dw_focused w \<notin> fl_id ` set (dw_floating w)"
    using assms by (auto simp: desk_ok_def visible_def)
  then have none: "position (\<lambda>p. fl_id p = dw_focused w) (dw_floating w) = None"
    by (force simp: position_None_iff)
  obtain p w' where lift: "lift_tiled_pane (dw_focused w) viewport w = (Some p, w')"
    using lift_tiled_pane_found [OF assms(2,3)] by blast
  from lift obtain n' where w': "fl_id p = dw_focused w"
    "w' = bump_animation (w\<lparr>dw_layout := layout_remove n' (dw_focused w), dw_floating := dw_floating w @ [p]\<rparr>)"
    by (rule lift_tiled_pane_Some)
  have "layout_contains n (dw_focused w)" using assms(3) by (simp add: layout_contains_iff)
  then have toggled: "toggle_floating viewport w = layout_changed (bump_animation
      (w'\<lparr>dw_floating := update_first (\<lambda>q. fl_id q = dw_focused w)
         (\<lambda>_. centered_floating_pane (dw_focused w) (panel_size w' viewport) (dw_pane_gap w')) (dw_floating w')\<rparr>))"
    using none lift assms(2) by (simp add: toggle_floating_def Let_def)
  have "map fl_id (update_first (\<lambda>q. fl_id q = i) (\<lambda>_. centered_floating_pane i z g) ps) = map fl_id ps" for i z g ps
    by (induction ps) auto
  then show "map fl_id (dw_floating (toggle_floating viewport w)) = map fl_id (dw_floating w) @ [dw_focused w]"
    by (simp add: toggled w')
  show "dw_drag (toggle_floating viewport w) = dw_drag w"
    "dw_terminals (toggle_floating viewport w) = dw_terminals w"
    "dw_document (toggle_floating viewport w) = dw_document w"
    "dw_sidebar_width (toggle_floating viewport w) = dw_sidebar_width w"
    by (simp_all add: toggled w')
qed

lemma fold_put_get:
  "smap_ok m \<Longrightarrow> get (fold (\<lambda>i m. case f i of None \<Rightarrow> m | Some p \<Rightarrow> put i (g p) m) ids m) k
     = (if k \<in> set ids \<and> f k \<noteq> None then map_option g (f k) else get m k)"
  by (induction ids arbitrary: m) (auto simp: get_put split: option.split)

text \<open>A pane that is shown twice and has a Shell makes the captured document invalid.\<close>

lemma shown_twice_refused:
  assumes "saved_ok (dw_document w)" and "count (mset (visible w)) i = 2"
    and "get (dw_terminals w) i = Some p" and "Option.bind (saved_reference p) sp_shell \<noteq> None"
  shows "validate_document (captured_document w) \<noteq> Inr ()"
proof
  let ?l = "live_arrangement w" and ?m = "ld_arrangements (dw_document w)"
  obtain r where r: "saved_reference p = Some r" "sp_shell r \<noteq> None"
    using assms(4) by (cases "saved_reference p") auto
  have live: "smap_ok (ar_panes ?l)"
    unfolding live_arrangement_def Let_def by (simp add: fold_put_ok)
  have m: "smap_ok ?m" using assms(1) by (simp add: saved_ok_def)
  have "smap_ok (ar_panes b)" if "b \<in> set (objects (ld_arrangements (captured_document w)))" for b
  proof -
    have "b = discard_unbound_panes ?l \<or> b \<in> set (objects ?m)"
      using that objects_put [of "capture_key w" "discard_unbound_panes ?l" ?m]
      unfolding captured_document_def by fastforce
    then show ?thesis
      using assms(1) live by (auto simp: saved_ok_def arrangement_ok_def discard_fields bound_panes_def smap_ok_filter)
  qed
  then have keys: "document_keys_ok (captured_document w)"
    using m by (auto simp: document_keys_ok_def captured_document_def)
  assume "validate_document (captured_document w) = Inr ()"
  then have "list_all arrangement_valid (objects (ld_arrangements (captured_document w)))"
    using validate_document_exact [OF keys] by (simp add: document_valid_def)
  moreover have "discard_unbound_panes ?l \<in> set (objects (ld_arrangements (captured_document w)))"
    using arg_cong [OF put_other_objects [OF m, of "capture_key w" "discard_unbound_panes ?l"], of set_mset]
    by (simp add: captured_document_def)
  ultimately have valid: "arrangement_valid (discard_unbound_panes ?l)" by (simp only: list_all_iff)
  have panes: "arrangement_panes ?l = visible w"
    by (cases "dw_layout w")
       (simp_all add: live_arrangement_def Let_def arrangement_panes_def visible_def comp_def)
  then have twice: "count (mset (arrangement_panes ?l)) i = 2" using assms(2) by simp
  have "i \<in> set (ordered_pane_ids (dw_layout w) (dw_floating w))"
    using assms(2) count_eq_zero_iff [of "mset (visible w)" i]
    by (cases "dw_layout w") (auto simp: ordered_pane_ids_def visible_def)
  then have "get (ar_panes ?l) i = Some r"
    using assms(3) r by (simp add: live_arrangement_def Let_def fold_put_get)
  then have "(i, r) \<in> set (bound_panes ?l)"
    using r(2) by (auto simp: bound_panes_def dest: map_of_SomeD)
  then have bound: "get (bound_panes ?l) i \<noteq> None" by (auto dest: weak_map_of_SomeI)
  have "count (mset (kept_ids (bound_panes ?l) (arrangement_panes ?l))) i = 2"
    using twice bound by (simp add: kept_ids_def)
  moreover have "distinct (kept_ids (bound_panes ?l) (arrangement_panes ?l))"
    using valid by (simp add: arrangement_valid_def discard_fields)
  ultimately show False by (simp add: distinct_count_atmost_1 split: if_splits)
qed

text \<open>
  \<open>toggle_floating\<close> asks for no drag to be over (\<open>toggle_fullscreen\<close> does): a tiled pane that is
  being resized is taken out of the tree, and the next move of the pointer puts back the tree that
  the drag began with, which has it still.  The pane is shown twice from there on, and no document
  that is captured then is accepted.
\<close>

theorem float_during_resize_repeats_pane:
  assumes "desk_inv w" and "dw_drag w = Some d" and "pd_subject d = Subject_tiled n"
    and "pd_operation d \<noteq> Op_move" and "pd_pane d = dw_focused w" and "dw_focused w \<in> set (pane_ids n)"
    and "pd_activated d \<or> (\<forall>delta. far_enough delta)"
    and "small_point pointer" and "small_point viewport"
    and "get (dw_terminals w) (dw_focused w) = Some p"
    and "Option.bind (saved_reference p) sp_shell \<noteq> None"
  defines "w' \<equiv> end_pointer_interaction pointer viewport
    (pointer_move far_enough (Some (pd_button d)) pointer viewport (toggle_floating viewport w))"
  shows "count (mset (visible w')) (dw_focused w) = 2"
    and "validate_document (captured_document w') \<noteq> Inr ()"
proof -
  let ?i = "dw_focused w" and ?t = "toggle_floating viewport w"
  have ok: "desk_ok w" and fits: "mset (pane_ids n) = mset (tiled_ids (dw_layout w))"
    "small (fst (pd_start d))" "small (snd (pd_start d))"
    using assms(1-3) by (auto simp: desk_inv_def drag_ok_def drag_fits_def)
  have tiled: "?i \<in> set (tiled_ids (dw_layout w))"
    using assms(6) fits(1) by (metis set_mset_mset)
  then obtain m where m: "dw_layout w = Some m" "?i \<in> set (pane_ids m)" by (cases "dw_layout w") auto
  note toggled = toggle_tiled [OF ok m, of viewport]
  define delta where "delta = (f32_sub (fst pointer) (fst (pd_start d)), f32_sub (snd pointer) (snd (pd_start d)))"
  let ?e = "d\<lparr>pd_activated := True\<rparr>"
  have panel: "panel_size (u\<lparr>dw_drag := e\<rparr>) viewport = panel_size u viewport" for u e
    by (simp add: panel_size_def has_minimized_tabs_def focused_workspace_id_def)
  have idle: "u\<lparr>dw_drag := dw_drag u, dw_layout := l\<rparr> = u\<lparr>dw_layout := l\<rparr>" for u :: desktop and l
    by (cases u) simp
  have moved: "pointer_move far_enough (Some (pd_button d)) pointer viewport ?t
      = ?t\<lparr>dw_drag := Some ?e, dw_layout := Some (dragged_layout ?e delta (panel_size ?t viewport) n)\<rparr>"
  proof (cases "pd_activated d")
    case True
    then have same: "?e = d" by (cases d) simp
    have "?t\<lparr>dw_drag := Some d, dw_layout := l\<rparr> = ?t\<lparr>dw_layout := l\<rparr>" for l
      using idle [where u = ?t and l = l] toggled(2) assms(2) by simp
    then show ?thesis
      unfolding same using True assms(2,3) toggled(2)
      by (simp add: pointer_move_def update_drag_def delta_def Let_def)
  next
    case False
    then show ?thesis
      using assms(2-4,7) toggled(2)
      by (auto simp: pointer_move_def update_drag_def delta_def Let_def panel split: pointer_operation.split)
  qed
  have finite: "f32_is_finite (fst delta)" "f32_is_finite (snd delta)"
    using fits assms(8) by (simp_all add: delta_def small_point_def small_sub_finite)
  have "small (dw_sidebar_width ?t)" using ok toggled(5) by (simp add: desk_ok_def)
  note keeps = dragged_layout_keeps(1) [OF finite panel_size_finite [OF assms(9) this], of ?e n]
  have w': "w' = layout_changed (?t\<lparr>
      dw_layout := Some (dragged_layout ?e delta (panel_size ?t viewport) n), dw_drag := None\<rparr>)"
    unfolding w'_def moved
    by (simp add: end_pointer_interaction_def finish_pointer_drag_def assms(3) Let_def)
  have shown: "visible w' = pane_ids n @ map fl_id (dw_floating w) @ [?i]"
    by (simp add: w' visible_def keeps toggled(1))
  have "mset (pane_ids n @ map fl_id (dw_floating w)) = mset (visible w)"
    using fits(1) by (simp add: visible_def)
  moreover have "count (mset (visible w)) ?i = 1"
    using ok tiled by (simp add: desk_ok_def visible_def distinct_count_atmost_1)
  ultimately show twice: "count (mset (visible w')) ?i = 2"
    unfolding shown by (metis (no_types) append_assoc count_add_mset mset_append mset.simps one_add_one
        union_mset_add_mset_right add.right_neutral plus_1_eq_Suc)
  show "validate_document (captured_document w') \<noteq> Inr ()"
  proof (rule shown_twice_refused [OF _ twice])
    show "saved_ok (dw_document w')" using ok toggled(4) by (simp add: w' desk_ok_def)
    show "get (dw_terminals w') ?i = Some p" using assms(10) toggled(3) by (simp add: w')
  qed (rule assms(11))
qed

end
