(* ===== verification/Spec2Isabelle.thy ===== *)
theory Spec2Isabelle
  imports Gw_Props Registration_Props Projection_Props Worker_Props Event_Props Persistence_Generation Durable_Props
    Local_Shell_Props Desktop_Props
begin

text \<open>
  A model of the core state of Boomux: a terminal multiplexer whose daemon keeps Workspaces of
  Shells on one Node, coordinates global Workspaces that are placed on several Nodes, and routes
  operations to remote Nodes that are registered with it.

  \<^bold>\<open>Parts of the program and their theories.\<close>

  \<^item> \<open>Prelude\<close>: Rust's checked and saturating integer operations on \<open>u64\<close> (64-bit words) and
    \<open>usize\<close> (naturals below \<open>2 ^ 64\<close>), \<open>io::Error\<close> with its kind and message, results as
    \<open>io_error + 'a\<close>, paths as component lists, character classes on UTF-8 bytes, list helpers.
  \<^item> \<open>Wire_Types\<close>: the snapshot, placement, registration, projection and event types of
    \<open>src/src/protocol.rs\<close>.
  \<^item> \<open>Store_Contracts\<close>: the locales. \<open>durable_store\<close> is a store that replaces its state in memory
    only after it was written; \<open>revision_guarded\<close> is an operation that takes the revision the
    caller saw. Both are interpreted on the model (\<open>gw_durable\<close>, \<open>reg_durable\<close>, \<open>gw_edit\<close>).
  \<^item> The coordinator's Workspace store, \<open>src/src/global_workspace_store.rs\<close>.
    \<open>Gw_State\<close> has its types, limits and \<open>validate\<close>; \<open>Gw_Valid\<close> the declarative invariant;
    \<open>Gw_Capacity\<close> the completion log, the byte reservations and compaction; \<open>Gw_Ops\<close> loading,
    migration, \<open>mutate\<close>, creating, adopting, linking, renaming, closing, default directories and
    transactions; \<open>Gw_Resources\<close> preparing, completing, cancelling and reconciling resources;
    \<open>Gw_Commands\<close> the methods as commands, reachability and the interpretation; \<open>Gw_Quiet\<close>,
    \<open>Gw_Journal\<close>, \<open>Gw_Complete\<close> the invariants of closing, of the journal of prepared operations
    and of completion; \<open>Gw_Props\<close> the properties.
    A method that changes the store is \<open>gws_mutate env op\<close> where \<open>op\<close> is the closure that the
    method passes to \<open>mutate\<close>; read methods are functions of the store.
  \<^item> Node registrations, \<open>src/src/node_registration.rs\<close>. \<open>Node_Registration\<close> has the data and every
    method of \<open>NodeRegistrationManager\<close>; \<open>Registration_Table\<close> the abstract table and its steps;
    \<open>Registration_Commands\<close> the methods as commands and their refinement; \<open>Registration_Admission\<close>
    the invariant of leases and admissions; \<open>Registration_Props\<close> the properties.
  \<^item> The cached projections of remote Nodes, \<open>src/src/node_projection.rs\<close>, and the worker that
    keeps them, in \<open>src/src/daemon.rs\<close>. \<open>Node_Projection\<close> has the cache, its validation, loading and
    migration and every method; \<open>Projection_Valid\<close> the declarative invariant; \<open>Projection_Lookup\<close>,
    \<open>Projection_Commands\<close>, \<open>Projection_Claims\<close> and \<open>Projection_Dismissals\<close> the effect of the methods on
    what is seen of a Node, on the log of notifications and on dismissed Shells, with the interpretations; \<open>Projection_Props\<close> the properties.
    \<open>Projection_Worker\<close> has a round of the worker as steps that run under the registration's
    generation, the notifications a synchronisation calls for and the retry delay; \<open>Worker_Props\<close>
    composes it with the registrations.
  \<^item> The events of the daemon, \<open>src/src/daemon.rs\<close>. \<open>Daemon_Error\<close> has its errors. \<open>Event_Stream\<close> has
    the log of published events, the queues before it and the transactions on both; \<open>Event_Log\<close> the
    log as a window on everything published; \<open>Event_Protocol\<close> the operations that publish durable
    events (\<open>durable_mutation_outcome\<close>, \<open>flush_pending\<close>, \<open>try_record_run_exit\<close>,
    \<open>lifecycle_transaction\<close>) as a step relation in which other threads run while the state file is
    written; \<open>Event_Invariant\<close> its invariant and \<open>Event_Conservation\<close> what becomes of an event;
    \<open>Event_Props\<close> the properties. \<open>Persistence_Generation\<close> is the dirty flag of the durable state,
    one atomic access at a time.

  \<^item> The durable state of the daemon, \<open>src/src/daemon.rs\<close>: Workspaces, Shells, launchers and Agents,
    the requests that change them and the state file. \<open>Sorted_Map\<close> has \<open>BTreeMap\<close> as a list sorted
    by key, with a locale for the lookup laws; \<open>Durable_State\<close> the objects and their checks and
    snapshots, an object shared by \<open>Arc\<close> being the entry of its id; \<open>Durable_Ops\<close> and
    \<open>Durable_Agents\<close> every method of \<open>DurableRegistry\<close> that changes the state, with the undo record
    it leaves and \<open>rollback\<close>; \<open>Durable_Persisted\<close> the records of the state file,
    \<open>capture_persisted_state\<close> and \<open>restore\<close>; \<open>Durable_Requests\<close> the handlers of \<open>handle_request\<close>;
    \<open>Durable_Transaction\<close> \<open>durable_mutation_outcome\<close>, which runs a handler, writes the file and
    publishes or undoes. Of the proofs, \<open>Durable_Wellformed\<close>, \<open>Workspace_Children\<close> and
    \<open>Durable_Invariant\<close> define the invariant \<open>durable_ok\<close>; \<open>Durable_Changes\<close> has the abstract changes,
    each with the record that undoes it; \<open>Durable_Refinement\<close>, \<open>Durable_Agent_Refinement\<close> and
    \<open>Durable_Request_Refinement\<close> show that operations and handlers are such changes;
    \<open>Durable_Revisions\<close> how far a request can raise the revision of a Workspace; \<open>Durable_Restart\<close> that \<open>restore\<close> recovers what was captured; \<open>Durable_Props\<close> has the properties.
  \<^item> Shells of global Workspaces on the own Node, \<open>src/src/local_shell_journal.rs\<close> and
    \<open>create_local_global_workspace_shell\<close> of \<open>src/src/daemon.rs\<close>: the creation changes the durable
    state and the Workspace store in memory and writes one record to a journal. \<open>Shell_Journal\<close> has
    the journal, its file as bytes; \<open>Shell_Journal_Recovery\<close> what its file holds after appends,
    clears and a crash. \<open>Local_Shell\<close> has the request, the checkpoints and the replay at the next
    start, on top of the durable state and the Workspace store. \<open>Local_Shell_Completion\<close> shows that a
    record is enough to prepare and complete the operation again, \<open>Local_Shell_Replay\<close> that it is enough
    to create the Workspace and the Shell again; \<open>Local_Shell_Recovery\<close> has the invariant that ties
    the three files to the states in memory over a run, \<open>Local_Shell_Crash\<close> the files of a daemon that
    dies and the start from them, \<open>Local_Shell_Example\<close> an instance and \<open>Local_Shell_Props\<close> the
    properties.
  \<^item> The layout of the Desktop, \<open>src/desktop/src/layout.rs\<close>, \<open>layout_state.rs\<close>,
    \<open>layout_persistence.rs\<close> and the pane operations of \<open>src/desktop/src/main.rs\<close>. \<open>Float32\<close> is Rust's
    \<open>f32\<close> with its rounding, executable; \<open>Tiling_Layout\<close> the tree of tiled panes with every operation of
    \<open>Node\<close>; \<open>Layout_Document\<close> the saved document, its validation and its store, \<open>Layout_Validation\<close> the
    declarative form of the validation. \<open>Desktop_State\<close> is the window (the record \<open>desktop\<close>), its
    floating geometry, \<open>capture_arrangement\<close> and the save timer; \<open>Desktop_Panes\<close> its operations on panes
    and the pointer drag; \<open>Desktop_Restore\<close> the switch to another Workspace. \<open>Desktop_Invariant\<close> has the
    invariant, \<open>Desktop_Steps\<close>, \<open>Desktop_Drag\<close> and \<open>Desktop_Switch\<close> show that the operations keep it, and
    \<open>Desktop_Props\<close> has the steps of the window and the properties.

  \<^bold>\<open>Outside the repository, and so parameters.\<close> \<open>gw_env\<close>, \<open>registration_env\<close> and
  \<open>cache_env\<close> hold the encoded sizes (\<open>serde_json\<close>), the syntax of UUIDs (\<open>uuid\<close>) and the outcome of
  writing a file, \<open>cache_document\<close> is what \<open>serde_json\<close> makes of a file's bytes; \<open>registry_env\<close> has the
  syntax of UUIDs, the file system's answers on a directory and the foreground process of a Shell,
  \<open>resume_support\<close> which agents can be resumed, \<open>request_inputs\<close> new UUIDs, the time and what Git
  says of a path, \<open>journal_env\<close> what \<open>serde_json\<close> and SHA-256 make of a record; \<open>layout_codec\<close> is the JSON of the layout
  document and \<open>layout_io\<close> the outcome of each system call of its store, and the size of the window, the
  pointer and \<open>f32::hypot\<close>, whose precision Rust leaves open, are arguments; a fresh UUID, the clock and what is fetched from a remote Node are arguments. Nothing is assumed of them except where a lemma says so.

  \<^bold>\<open>State.\<close> A store is a record of the state in memory and the state in the file, so that a failed
  write, a restart and a migration are visible. The mutex of a manager makes each method one
  transition; a method that waits on a condition variable gives the lock up, so it is a \<open>_begin\<close>
  function up to the first wait and a \<open>_resume\<close> function for every wake-up, and the theorems on
  sequences of commands cover every interleaving of them.

  \<^bold>\<open>Loops and bounds.\<close> Every loop of these files runs over a list or a tree and is structural recursion or a
  fold, except \<open>compact_prepared_state\<close> and \<open>trim_completed\<close>, which remove a record in every turn
  and terminate by the length of the log; no fuel is used. A loop that waits on a condition
  variable is one turn of it. Numbers keep their width: revisions, epochs and event ids are 64-bit
  words and \<open>checked_add\<close> is an option; a \<open>usize\<close> is a natural number with its saturating and
  checked operations written out. A run of the event protocol goes through states that hold fewer
  than \<open>2 ^ 62\<close> events in memory, which is where the saturating sums are exact.
  The loop of \<open>create_shell_with_workspace\<close> has no bound in the code: it is a
  \<open>partial_function (option)\<close>, and C37 shows that it returns.

  \<^bold>\<open>What the properties show.\<close> C1-C4, C37 and C38: the durable state keeps its invariant and is
  recovered by a restart after any requests; a refused request changes nothing, an accepted one is
  in the file before its events are published; reports only let an Agent progress; every
  request is answered; \<open>exact_creation_repeats\<close> shows that idempotent creations repeat. The first three hold while no revision of
  a Workspace stands at \<open>u64::MAX\<close>, where a refused request leaves half a change (C38); C1 counts the
  requests, so that the bound on them and on the revisions at the start excludes it, and C2, C3 and
  C7 name it as \<open>revisions_left\<close>.
  C5-C8, C39 and C40: a daemon that dies between two of a run of journalled creations, checkpoints
  and requests, or within the write of a record, is followed by one in the same durable state and
  with the same Workspace store, if the recorded directories are still there and the start can write
  its files; the run (\<open>local_run\<close>) leaves out an append that can neither be done nor be rolled back,
  a clear that cuts the file and then fails, exhausted revisions, and checkpoints after the store has
  dropped the completed operation of a journalled creation. A client that was answered gets the same
  answer again; a refused creation changes nothing; the journal gives back what was acknowledged,
  with two exceptions that keep the daemon from starting.
  C9-C15 and C17: the coordinator store's \<open>validate\<close> is its invariant; commands are atomic and
  recoverable; a prepared operation is never lost; revisions see every change; a close never races
  with a creation and can always be brought to its end; completion and retry behave as specified.
  C18-C24: the registration manager refines an abstract table, survives a restart, drains admitted
  operations before it commits, never admits under a forgotten epoch or a lease.
  C25-C29: the projection cache survives a restart, lets one of several racing observations win,
  hides what was dismissed, and claims each notification once. C30: a forgotten Node's worker
  cannot write.
  C31-C34: event ids are consecutive and never run out unnoticed, no lasting event is lost or
  published twice, readers and coordinators see no gap.
  C16: every shown pane of a Desktop window is shown once and has a terminal, in every run of its
  steps, which keep the pane operations apart from a pointer drag in progress. C36: what the window
  saves is what the store accepts, up to the depth of the tree, finite rectangles, distinct Shells and
  two lengths, which the window does not check.
  C24, C27, C35 and C38-C40, with \<open>gw_prepare_retry_refused\<close> (an identical retry that is refused) and
  \<open>float_during_resize_repeats_pane\<close> (a pane shown twice), are behaviours that look unintended; the
  manifest lists them as findings.

  \<^bold>\<open>Not modelled.\<close> Terminal emulation, rendering and the desktop and terminal user interfaces beyond the layout of panes, SSH
  transport and bootstrap, process and pty handling, the coding agents' integrations, the mobile web
  server, updates, and the vendored toolkits. Of \<open>src/src/daemon.rs\<close>, the requests that start, stop,
  resume or attach to a process, and the requests that are routed to another Node; of the life of a Shell only its status and its last run are kept. The JSON of the
  state files and their atomic replacement are the outcome of a write. The run in the crash theorems
  has no start of a Shell: the records of starts and their replay are modelled, but what a start does
  to the process table is not.
  Of the Desktop window, attaching terminals and reconnecting them, hover, keyboard focus, and animations
  beyond their generation.
\<close>

end
